(* ===== verification/Prelude.thy ===== *)
theory Prelude
  imports Main "HOL-Library.Char_ord" "HOL-Library.List_Lexorder" "HOL-Library.Multiset"
begin

text \<open>
  The vocabulary shared by every component of the development.

  A Go string is a list of bytes, so it is modelled by the list of 8-bit characters
  \<^typ>\<open>string\<close>; \<^verbatim>\<open>len(s)\<close> is \<^term>\<open>length s\<close> and the bytewise order of Go strings is the
  lexicographic order of \<^verbatim>\<open>List_Lexorder\<close> over \<^verbatim>\<open>Char_ord\<close>.  The string functions of the Go
  standard library the sources call (\<^verbatim>\<open>TrimSpace\<close>, \<^verbatim>\<open>Cut\<close>, \<^verbatim>\<open>HasPrefix\<close>, \<^verbatim>\<open>Contains\<close>,
  \<^verbatim>\<open>Fields\<close>, the rune count, \<^verbatim>\<open>FormatInt\<close>) are written out on bytes, UTF-8 included.

  A Go \<^verbatim>\<open>error\<close> is a value of \<^verbatim>\<open>goerr\<close>: the sentinels of the workspace, errors of other layers,
  and the wrappers with their \<^verbatim>\<open>Unwrap\<close> chain.  A fallible call returns \<^verbatim>\<open>goerr + 'a\<close>.
\<close>

named_theorems result_simps \<open>unfolding rules for the result type\<close>
named_theorems step_intros \<open>introduction rules for step relations\<close>
named_theorems store_simps \<open>read-after-write rules of the relational store\<close>

section \<open>Results\<close>

type_synonym ('e, 'a) result = "'e + 'a"

definition bindR :: "'e + 'a \<Rightarrow> ('a \<Rightarrow> 'e + 'b) \<Rightarrow> 'e + 'b" where
  "bindR m f = (case m of Inl e \<Rightarrow> Inl e | Inr x \<Rightarrow> f x)"

definition guardR :: "bool \<Rightarrow> 'e \<Rightarrow> 'e + unit" where
  "guardR b e = (if b then Inr () else Inl e)"

fun okR :: "'e + 'a \<Rightarrow> bool" where
  "okR (Inl _) = False"
| "okR (Inr _) = True"

fun errR :: "'e + 'a \<Rightarrow> 'e option" where
  "errR (Inl e) = Some e"
| "errR (Inr _) = None"

lemma bindR_simps [simp, result_simps]:
  "bindR (Inl e) f = Inl e"
  "bindR (Inr x) f = f x"
  by (simp_all add: bindR_def)

lemma bindR_eq_Inr [simp]: "bindR m f = Inr y \<longleftrightarrow> (\<exists>x. m = Inr x \<and> f x = Inr y)"
  by (cases m) simp_all

lemma bindR_eq_Inl: "bindR m f = Inl e \<longleftrightarrow> m = Inl e \<or> (\<exists>x. m = Inr x \<and> f x = Inl e)"
  by (cases m) simp_all

lemma guardR_eq [simp, result_simps]:
  "guardR b e = Inr u \<longleftrightarrow> b"
  "guardR b e = Inl e' \<longleftrightarrow> \<not> b \<and> e' = e"
  by (auto simp: guardR_def)

lemma bindR_guardR [result_simps]: "bindR (guardR b e) f = (if b then f () else Inl e)"
  by (simp add: guardR_def)

lemma okR_iff: "okR m \<longleftrightarrow> (\<exists>x. m = Inr x)"
  by (cases m) simp_all

text \<open>A loop that visits a list and stops at the first error.\<close>

fun each :: "('a \<Rightarrow> 's \<Rightarrow> 'e + 's) \<Rightarrow> 'a list \<Rightarrow> 's \<Rightarrow> 'e + 's" where
  "each f [] s = Inr s"
| "each f (x # xs) s = bindR (f x s) (each f xs)"

fun mapR :: "('a \<Rightarrow> 'e + 'b) \<Rightarrow> 'a list \<Rightarrow> 'e + 'b list" where
  "mapR f [] = Inr []"
| "mapR f (x # xs) = bindR (f x) (\<lambda>y. bindR (mapR f xs) (\<lambda>ys. Inr (y # ys)))"

lemma each_append: "each f (xs @ ys) s = bindR (each f xs s) (each f ys)"
  by (induction xs arbitrary: s) (auto simp: bindR_def split: sum.splits)

lemma each_invariant:
  assumes "each f xs s = Inr s'" "P s"
    and "\<And>x a b. x \<in> set xs \<Longrightarrow> P a \<Longrightarrow> f x a = Inr b \<Longrightarrow> P b"
  shows "P s'"
  using assms
proof (induction xs arbitrary: s)
  case (Cons x xs)
  from Cons.prems(1) obtain t where "f x s = Inr t" "each f xs t = Inr s'" by auto
  then show ?case using Cons.IH [of t] Cons.prems(2,3) by auto
qed simp

lemma each_okD:
  assumes "each f xs s = Inr s'" and "x \<in> set xs"
  shows "\<exists>a b. f x a = Inr b"
  using assms
proof (induction xs arbitrary: s)
  case (Cons y ys)
  from Cons.prems(1) obtain t where "f y s = Inr t" "each f ys t = Inr s'" by auto
  then show ?case using Cons.IH [of t] Cons.prems(2) by auto
qed simp

lemma mapR_Inr_iff: "mapR f xs = Inr ys \<longleftrightarrow> list_all2 (\<lambda>x y. f x = Inr y) xs ys"
  by (induction xs arbitrary: ys) (auto simp: list_all2_Cons1)

section \<open>Go errors\<close>

text \<open>The sentinels of \<^verbatim>\<open>workspacecore/model.go\<close> and its neighbours that the modelled code raises.\<close>

datatype sentinel =
    ErrNotFound
  | ErrInvalidRequest
  | ErrInvalidState
  | ErrVersionConflict
  | ErrIdempotencyConflict
  | ErrRequestInProgress
  | ErrSourceUnavailable
  | ErrPermissionSchemaUnavailable
  | ErrChangeSetNotAssessed
  | ErrHumanDecisionRequired
  | ErrProjectInvitationRequired
  | ErrOwnerUnavailable
  | ErrRuntimePaused
  | ErrInvalidDefinition
  | ErrInvalidRuleSet
  | ErrRuleSetNotDraft
  | ErrRuleSetNotPublished
  | ErrVersionNotFound
  | ErrUnverifiedRuleSetBinding
  | ErrConsentRequired
  | ErrRuntimeRecoveryRequired
  | ContextCanceled
  | ContextDeadlineExceeded
  | GovErrUnverifiedActor
  | GovErrPermissionDenied
  | GovErrUnavailable
  | GovErrUnauthorized
  | GovErrNotFound
  | GovErrCatalogVersionAbsent
  | GovErrInvalidRequest
  | GovErrVersionConflict
  | GovErrIdempotencyConflict
  | GovErrInvalidState
  | GovErrReplayRequired
  | GovErrSourceUnavailable
  | GovErrModelUnavailable
  | GovErrStale
  | GovErrInvalidOutput
  | GovErrFixtureNotStored
  | GovErrAuditHistoryForbidden
  | ErrActorRequired
  | ErrActorRoleInvalid
  | ErrRuleSetTenantRequired
  | ErrAuthorizerUnavailable
  | ErrRuleSetVersionExists
  | ErrRuleSetStateConflict
  | ErrRuleSetNotFound
  | ErrDraftHashMustBeEmpty
  | ErrRuleSetAccessDenied

text \<open>
  \<^verbatim>\<open>Wrapped m e\<close> is an error with its own message whose \<^verbatim>\<open>Unwrap\<close> is \<^verbatim>\<open>e\<close> (\<^verbatim>\<open>fmt.Errorf\<close> with
  \<^verbatim>\<open>%w\<close>, or a wrapper type); \<^verbatim>\<open>Raw m\<close> is an error of another layer (storage, codec);
  \<^verbatim>\<open>Coded c m\<close> is a driver error that also answers \<^verbatim>\<open>Code() int\<close>; \<^verbatim>\<open>Joined m e f\<close> wraps two errors
  (\<^verbatim>\<open>fmt.Errorf\<close> with two \<^verbatim>\<open>%w\<close>).
\<close>

datatype goerr =
    Sentinel sentinel
  | Raw string
  | Coded int string
  | Wrapped string goerr
  | ReplayPayloadDecodeError goerr
  | AuthorizationDecisionError string goerr
  | Joined string goerr goerr

text \<open>The sentinels built with \<^verbatim>\<open>clienterror.Wrap\<close> unwrap to a second sentinel.\<close>

fun sentinel_cause :: "sentinel \<Rightarrow> sentinel option" where
  "sentinel_cause ErrOwnerUnavailable = Some ErrNotFound"
| "sentinel_cause ErrChangeSetNotAssessed = Some ErrInvalidState"
| "sentinel_cause _ = None"

text \<open>\<^verbatim>\<open>errors.Is\<close> against a sentinel: some error of the unwrap chain is it.\<close>

fun err_is :: "goerr \<Rightarrow> sentinel \<Rightarrow> bool" where
  "err_is (Sentinel s) t = (s = t \<or> sentinel_cause s = Some t)"
| "err_is (Raw _) t = False"
| "err_is (Coded _ _) t = False"
| "err_is (Wrapped _ e) t = err_is e t"
| "err_is (ReplayPayloadDecodeError e) t = err_is e t"
| "err_is (AuthorizationDecisionError _ e) t = err_is e t"
| "err_is (Joined _ e f) t = (err_is e t \<or> err_is f t)"

section \<open>Bytes and strings\<close>

definition byte :: "nat \<Rightarrow> char" where
  "byte n = char_of n"

definition bytes :: "nat list \<Rightarrow> string" where
  "bytes ns = map byte ns"

definition ncode :: "char \<Rightarrow> nat" where
  "ncode c = of_char c"

text \<open>
  The UTF-8 encodings of the code points for which \<^verbatim>\<open>unicode.IsSpace\<close> holds: tab, newline, vertical
  tab, form feed, carriage return, space, U+0085, U+00A0, U+1680, U+2000 to U+200A, U+2028, U+2029,
  U+202F, U+205F and U+3000.
\<close>

definition space_seqs :: "string list" where
  "space_seqs = map bytes
     ([[9], [10], [11], [12], [13], [32], [194,133], [194,160], [225,154,128]]
      @ map (\<lambda>k. [226,128,k]) [128,129,130,131,132,133,134,135,136,137,138,168,169,175]
      @ [[226,129,159], [227,128,128]])"

fun has_prefix :: "string \<Rightarrow> string \<Rightarrow> bool" where
  "has_prefix s [] = True"
| "has_prefix [] (p # ps) = False"
| "has_prefix (c # s) (p # ps) = (c = p \<and> has_prefix s ps)"

text \<open>The number of bytes of the white space code point a string starts with, 0 when there is none.\<close>

definition space_len :: "string list \<Rightarrow> string \<Rightarrow> nat" where
  "space_len seqs s = (case find (\<lambda>p. has_prefix s p) seqs of None \<Rightarrow> 0 | Some p \<Rightarrow> length p)"

function trim_front :: "string list \<Rightarrow> string \<Rightarrow> string" where
  "trim_front seqs s =
     (let n = space_len seqs s in if n = 0 \<or> s = [] then s else trim_front seqs (drop n s))"
  by pat_completeness auto
termination by (relation "measure (\<lambda>(seqs, s). length s)") auto

declare trim_front.simps [simp del]

text \<open>\<^verbatim>\<open>strings.TrimSpace\<close>: cut white space off the front, then off the back.\<close>

definition trim_space :: "string \<Rightarrow> string" where
  "trim_space s = rev (trim_front (map rev space_seqs) (rev (trim_front space_seqs s)))"

definition blank :: "string \<Rightarrow> bool" where
  "blank s \<longleftrightarrow> trim_space s = []"

text \<open>\<^verbatim>\<open>strings.Fields\<close>, of which the sources only use the number of fields.\<close>

function count_fields :: "bool \<Rightarrow> string \<Rightarrow> nat" where
  "count_fields inside [] = 0"
| "count_fields inside (c # s) =
     (let n = space_len space_seqs (c # s) in
      if n = 0 then (if inside then 0 else 1) + count_fields True s
      else count_fields False (drop n (c # s)))"
  by pat_completeness auto
termination by (relation "measure (\<lambda>(b, s). length s)") auto

text \<open>\<^verbatim>\<open>len([]rune(s))\<close>: the width of the first code point as \<^verbatim>\<open>utf8.DecodeRune\<close> reports it.\<close>

definition cont :: "nat \<Rightarrow> nat \<Rightarrow> char \<Rightarrow> bool" where
  "cont lo hi c \<longleftrightarrow> lo \<le> ncode c \<and> ncode c \<le> hi"

fun rune_width :: "string \<Rightarrow> nat" where
  "rune_width (a # b # c # d # s) =
     (let x = ncode a in
      if 194 \<le> x \<and> x \<le> 223 \<and> cont 128 191 b then 2
      else if (x = 224 \<and> cont 160 191 b \<or> x = 237 \<and> cont 128 159 b \<or>
               225 \<le> x \<and> x \<le> 239 \<and> x \<noteq> 237 \<and> cont 128 191 b) \<and> cont 128 191 c then 3
      else if (x = 240 \<and> cont 144 191 b \<or> x = 244 \<and> cont 128 143 b \<or>
               241 \<le> x \<and> x \<le> 243 \<and> cont 128 191 b) \<and> cont 128 191 c \<and> cont 128 191 d then 4
      else 1)"
| "rune_width [a, b, c] =
     (let x = ncode a in
      if 194 \<le> x \<and> x \<le> 223 \<and> cont 128 191 b then 2
      else if (x = 224 \<and> cont 160 191 b \<or> x = 237 \<and> cont 128 159 b \<or>
               225 \<le> x \<and> x \<le> 239 \<and> x \<noteq> 237 \<and> cont 128 191 b) \<and> cont 128 191 c then 3
      else 1)"
| "rune_width [a, b] = (if 194 \<le> ncode a \<and> ncode a \<le> 223 \<and> cont 128 191 b then 2 else 1)"
| "rune_width [a] = 1"
| "rune_width [] = 1"

function rune_count :: "string \<Rightarrow> nat" where
  "rune_count [] = 0"
| "rune_count (c # s) = 1 + rune_count (drop (rune_width (c # s) - 1) s)"
  by pat_completeness auto
termination by (relation "measure length") auto

text \<open>\<^verbatim>\<open>strings.Cut\<close> at one byte, and \<^verbatim>\<open>strings.Contains\<close>.\<close>

fun cut :: "char \<Rightarrow> string \<Rightarrow> (string \<times> string) option" where
  "cut c [] = None"
| "cut c (x # s) = (if x = c then Some ([], s)
     else (case cut c s of None \<Rightarrow> None | Some (a, b) \<Rightarrow> Some (x # a, b)))"

fun contains :: "string \<Rightarrow> string \<Rightarrow> bool" where
  "contains [] p = (p = [])"
| "contains (c # s) p = (has_prefix (c # s) p \<or> contains s p)"

fun join :: "string \<Rightarrow> string list \<Rightarrow> string" where
  "join sep [] = []"
| "join sep [s] = s"
| "join sep (s # t # r) = s @ sep @ join sep (t # r)"

text \<open>\<^verbatim>\<open>strconv.FormatInt(n, 10)\<close>.\<close>

definition digit :: "nat \<Rightarrow> char" where
  "digit d = char_of (48 + d)"

fun show_nat :: "nat \<Rightarrow> string" where
  "show_nat n = (if n < 10 then [digit n] else show_nat (n div 10) @ [digit (n mod 10)])"

declare show_nat.simps [simp del]

definition show_int :: "int \<Rightarrow> string" where
  "show_int i = (if i < 0 then CHR ''-'' # show_nat (nat (- i)) else show_nat (nat i))"

subsection \<open>Facts on strings\<close>

lemma has_prefix_append [simp]: "has_prefix (p @ s) p"
  by (induction p) simp_all

lemma has_prefix_iff: "has_prefix s p \<longleftrightarrow> (\<exists>t. s = p @ t)"
  by (induction s p rule: has_prefix.induct) auto

text \<open>A string that starts and ends with a visible_ascii ASCII character is its own trimming.\<close>

definition visible_ascii :: "char \<Rightarrow> bool" where
  "visible_ascii c \<longleftrightarrow> 33 \<le> ncode c \<and> ncode c \<le> 126"

lemma ncode_byte: "n < 256 \<Longrightarrow> ncode (byte n) = n"
  by (simp add: ncode_def byte_def)

lemma space_seqs_invisible:
  "p \<in> set space_seqs \<Longrightarrow> p \<noteq> [] \<and> \<not> visible_ascii (hd p) \<and> \<not> visible_ascii (last p)"
  by (auto simp: space_seqs_def bytes_def visible_ascii_def ncode_byte)

lemma trim_front_visible:
  assumes "\<And>p. p \<in> set seqs \<Longrightarrow> p \<noteq> [] \<and> \<not> visible_ascii (hd p)" "s = [] \<or> visible_ascii (hd s)"
  shows "trim_front seqs s = s"
proof -
  have "space_len seqs s = 0" if "s \<noteq> []"
  proof -
    have "find (\<lambda>p. has_prefix s p) seqs = None"
    proof (rule ccontr)
      assume "find (\<lambda>p. has_prefix s p) seqs \<noteq> None"
      then obtain p where "p \<in> set seqs" "has_prefix s p"
        by (metis (lifting) find_Some_iff nth_mem option.exhaust)
      then show False using assms that by (cases p) (auto simp: has_prefix_iff)
    qed
    then show ?thesis by (simp add: space_len_def)
  qed
  then show ?thesis by (subst trim_front.simps) (auto simp: Let_def)
qed

lemma trim_space_visible:
  assumes "s = [] \<or> visible_ascii (hd s) \<and> visible_ascii (last s)"
  shows "trim_space s = s"
proof -
  have "trim_front space_seqs s = s"
    using assms space_seqs_invisible by (intro trim_front_visible) auto
  moreover have "trim_front (map rev space_seqs) (rev s) = rev s"
    using assms space_seqs_invisible by (intro trim_front_visible) (auto simp: hd_rev)
  ultimately show ?thesis by (simp add: trim_space_def)
qed

lemma cut_SomeD: "cut c s = Some (a, b) \<Longrightarrow> s = a @ c # b \<and> c \<notin> set a"
  by (induction s arbitrary: a b) (auto split: option.splits if_splits)

lemma cut_append: "c \<notin> set a \<Longrightarrow> cut c (a @ c # b) = Some (a, b)"
  by (induction a) auto

lemma cut_Some_iff: "cut c s = Some (a, b) \<longleftrightarrow> s = a @ c # b \<and> c \<notin> set a"
  using cut_SomeD cut_append by blast

lemma cut_None_iff: "cut c s = None \<longleftrightarrow> c \<notin> set s"
  by (induction s) (auto split: option.splits)

lemma contains_iff: "contains s p \<longleftrightarrow> (\<exists>a b. s = a @ p @ b)"
proof (induction s)
  case (Cons c s)
  show ?case
    unfolding contains.simps Cons.IH has_prefix_iff by (auto simp: Cons_eq_append_conv)
qed simp

lemma digit_inj: "a < 10 \<Longrightarrow> b < 10 \<Longrightarrow> digit a = digit b \<Longrightarrow> a = b"
  unfolding digit_def
proof -
  assume a: "a < 10" and b: "b < 10" and eq: "(char_of (48 + a) :: char) = char_of (48 + b)"
  from eq have "of_char (char_of (48 + a)) = (of_char (char_of (48 + b)) :: nat)" by simp
  with a b show "a = b" by simp
qed

lemma show_nat_nonempty [simp]: "show_nat n \<noteq> []"
  by (subst show_nat.simps) simp

lemma show_nat_inj: "show_nat m = show_nat n \<Longrightarrow> m = n"
proof (induction m arbitrary: n rule: less_induct)
  case (less m)
  show ?case
  proof (cases "m < 10")
    case True
    then have "show_nat n = [digit m]" using less.prems by (simp add: show_nat.simps [of m])
    then have "n < 10 \<and> digit n = digit m"
      by (subst (asm) show_nat.simps) (auto split: if_splits)
    then show ?thesis using True digit_inj by blast
  next
    case False
    then have eq: "show_nat n = show_nat (m div 10) @ [digit (m mod 10)]"
      using less.prems by (simp add: show_nat.simps [of m])
    have n: "\<not> n < 10"
    proof
      assume "n < 10"
      then have "length (show_nat n) = 1" by (simp add: show_nat.simps)
      moreover have "length (show_nat (m div 10)) > 0" by simp
      ultimately show False using eq by simp
    qed
    with eq have "show_nat (n div 10) = show_nat (m div 10)" "digit (n mod 10) = digit (m mod 10)"
      by (simp_all add: show_nat.simps [of n])
    then have "m div 10 = n div 10" "m mod 10 = n mod 10"
      using less.IH [of "m div 10" "n div 10"] False
        digit_inj [of "n mod 10" "m mod 10"] by simp_all
    then show ?thesis by (metis div_mult_mod_eq)
  qed
qed

lemma show_nat_digits: "c \<in> set (show_nat n) \<Longrightarrow> 48 \<le> ncode c \<and> ncode c \<le> 57"
proof (induction n rule: less_induct)
  case (less n)
  have d: "48 \<le> ncode (digit k) \<and> ncode (digit k) \<le> 57" if "k < 10" for k
    using that by (simp add: digit_def ncode_def)
  from less.prems have "c = digit (n mod 10) \<or> \<not> n < 10 \<and> c \<in> set (show_nat (n div 10))"
    by (subst (asm) show_nat.simps) (auto split: if_splits)
  then show ?case using d [of "n mod 10"] less.IH [of "n div 10"] by auto
qed

lemma show_int_chars: "c \<in> set (show_int i) \<Longrightarrow> c = CHR ''-'' \<or> 48 \<le> ncode c \<and> ncode c \<le> 57"
  using show_nat_digits by (auto simp: show_int_def split: if_splits)

lemma show_int_no_colon: "CHR '':'' \<notin> set (show_int i)"
  using show_int_chars [of "CHR '':''" i] by (auto simp: ncode_def)

lemma show_nat_no_minus: "CHR ''-'' \<notin> set (show_nat n)"
  using show_nat_digits [of "CHR ''-''" n] by (auto simp: ncode_def)

lemma show_int_inj: "show_int i = show_int j \<Longrightarrow> i = j"
proof -
  have no: "show_nat n \<noteq> CHR ''-'' # s" for n s
    using show_nat_no_minus [of n] by auto
  assume "show_int i = show_int j"
  then show "i = j"
    by (auto simp: show_int_def no no [symmetric] split: if_splits dest!: show_nat_inj)
qed

section \<open>Sorting and maps with a Go flavour\<close>

text \<open>
  \<^verbatim>\<open>sort.Slice\<close> by a string key.  Go's sort is not stable; wherever a component sorts, its model
  uses \<^const>\<open>sort_key\<close>, and the lemma below shows that with distinct keys every sorted permutation
  is that list, so the choice of the algorithm cannot be observed.
\<close>

lemma sort_key_unique:
  fixes f :: "'a \<Rightarrow> 'k::linorder"
  assumes "mset xs = mset ys" and "sorted (map f ys)" and "distinct (map f xs)"
  shows "sort_key f xs = ys"
proof -
  have inj: "inj_on f (set xs)" using assms(3) by (simp add: distinct_map)
  have "filter (\<lambda>y. k = f y) ys = filter (\<lambda>x. k = f x) xs" for k
  proof -
    have m: "mset (filter (\<lambda>y. k = f y) ys) = mset (filter (\<lambda>x. k = f x) xs)"
      using assms(1) by (simp add: mset_filter)
    have "length (filter (\<lambda>x. k = f x) xs) \<le> 1"
    proof -
      have "distinct (map f (filter (\<lambda>x. k = f x) xs))"
        using assms(3) distinct_map_filter by blast
      then have "length (filter (\<lambda>x. k = f x) xs) = card (f ` set (filter (\<lambda>x. k = f x) xs))"
        by (metis distinct_card length_map set_map)
      also have "\<dots> \<le> card {k}" by (rule card_mono) auto
      finally show ?thesis by simp
    qed
    then obtain z where "filter (\<lambda>x. k = f x) xs = [] \<or> filter (\<lambda>x. k = f x) xs = [z]"
      by (cases "filter (\<lambda>x. k = f x) xs") auto
    then show ?thesis
    proof
      assume "filter (\<lambda>x. k = f x) xs = []"
      with m show ?thesis by (simp del: mset_filter)
    next
      assume "filter (\<lambda>x. k = f x) xs = [z]"
      with m show ?thesis by (simp del: mset_filter)
    qed
  qed
  then show ?thesis
    using assms properties_for_sort_key [of ys xs f] by auto
qed

lemma sort_key_mset_cong:
  fixes f :: "'a \<Rightarrow> 'k::linorder"
  assumes "mset xs = mset ys" and "distinct (map f xs)"
  shows "sort_key f xs = sort_key f ys"
  by (rule sort_key_unique) (use assms in auto)

lemma distinct_map_perm: "mset xs = mset ys \<Longrightarrow> distinct (map f xs) = distinct (map f ys)"
  by (metis mset_eq_imp_distinct_iff mset_map)

text \<open>A list without repetitions, checked with a set of the values seen, as the sources do.\<close>

fun no_repeat :: "('a \<Rightarrow> 'k) \<Rightarrow> 'k list \<Rightarrow> 'a list \<Rightarrow> bool" where
  "no_repeat f seen [] = True"
| "no_repeat f seen (x # xs) = (f x \<notin> set seen \<and> no_repeat f (f x # seen) xs)"

lemma no_repeat_iff: "no_repeat f seen xs \<longleftrightarrow> distinct (map f xs) \<and> set seen \<inter> f ` set xs = {}"
  by (induction xs arbitrary: seen) auto

lemma find_Some_in: "find P xs = Some x \<Longrightarrow> x \<in> set xs \<and> P x"
  by (induction xs) (auto split: if_splits)

lemma find_None_iff': "find P xs = None \<longleftrightarrow> (\<forall>x\<in>set xs. \<not> P x)"
  by (induction xs) auto

lemma find_key_unique:
  assumes "distinct (map f xs)" "x \<in> set xs"
  shows "find (\<lambda>y. f y = f x) xs = Some x"
  using assms by (induction xs) auto

end
