(* ===== verification/Tx_Retry.thy ===== *)
theory Tx_Retry
  imports Prelude
begin

text \<open>
  The transaction port of the repository: \<^verbatim>\<open>GORMRepository.Transaction\<close>
  (\<^verbatim>\<open>workspacecore/service.go\<close>) and the bounded retry on SQLite lock errors
  (\<^verbatim>\<open>workspacecore/spec_retry.go\<close>).

  A transaction runs a closure on a snapshot of the store; it commits when the closure returns no
  error and rolls back otherwise.  What the program does not control comes from a schedule, one
  \<^verbatim>\<open>attempt\<close> per execution: the writes other transactions committed before it, whether the driver
  could begin and commit, and how the two deadlines stood.  A Go closure also assigns variables of
  the enclosing function, and those assignments survive a rollback: they are the captured value
  \<^verbatim>\<open>'k\<close> that a closure returns next to its error.

  The locale at the end is the contract the operation pipeline relies on.
\<close>

record tx_options =
  ReadOnly :: bool
  RetryLocks :: bool
  RepeatableRead :: bool

record 's attempt =
  at_before :: "'s \<Rightarrow> 's"
  at_begin :: "goerr option"
  at_commit :: "goerr option"
  at_expired :: bool
  at_ctx :: "goerr option"
  at_deadline :: bool

type_synonym ('k, 's) tx_fun = "'k \<Rightarrow> 's \<Rightarrow> 'k \<times> (goerr + 's)"

type_synonym ('k, 's) tx_run = "tx_options \<Rightarrow> ('k, 's) tx_fun \<Rightarrow> 'k \<Rightarrow> 's \<Rightarrow> 'k \<times> 's \<times> goerr option"

section \<open>Lock errors\<close>

definition lower_byte :: "char \<Rightarrow> char" where
  "lower_byte c = (if 65 \<le> ncode c \<and> ncode c \<le> 90 then byte (ncode c + 32) else c)"

fun sentinel_msg :: "sentinel \<Rightarrow> string" where
  "sentinel_msg ErrNotFound = ''not_found''"
| "sentinel_msg ErrInvalidRequest = ''invalid_request''"
| "sentinel_msg ErrInvalidState = ''invalid_state''"
| "sentinel_msg ErrVersionConflict = ''version_conflict''"
| "sentinel_msg ErrIdempotencyConflict = ''idempotency_conflict''"
| "sentinel_msg ErrRequestInProgress = ''request_in_progress''"
| "sentinel_msg ErrSourceUnavailable = ''source_access_denied''"
| "sentinel_msg ErrPermissionSchemaUnavailable = ''permission_schema_unavailable''"
| "sentinel_msg ErrChangeSetNotAssessed = ''change_set_not_assessed''"
| "sentinel_msg ErrHumanDecisionRequired = ''human_decision_required''"
| "sentinel_msg ErrProjectInvitationRequired = ''project_invitation_required''"
| "sentinel_msg ErrOwnerUnavailable = ''owner_unavailable''"
| "sentinel_msg ErrRuntimePaused = ''runtime scope is paused''"
| "sentinel_msg ErrInvalidDefinition = ''invalid template or rule definition''"
| "sentinel_msg ErrInvalidRuleSet = ''invalid rule set''"
| "sentinel_msg ErrRuleSetNotDraft = ''rule set is not a draft''"
| "sentinel_msg ErrRuleSetNotPublished = ''rule set is not published''"
| "sentinel_msg ErrVersionNotFound = ''published template version not found''"
| "sentinel_msg ErrUnverifiedRuleSetBinding = ''unverified RuleSet binding''"
| "sentinel_msg ErrConsentRequired = ''lingdoc: explicit action confirmation required''"
| "sentinel_msg ErrRuntimeRecoveryRequired = ''runtime recovery rechecks are required''"
| "sentinel_msg ContextCanceled = ''context canceled''"
| "sentinel_msg ContextDeadlineExceeded = ''context deadline exceeded''"
| "sentinel_msg GovErrUnverifiedActor = ''template_governance_actor_unverified''"
| "sentinel_msg GovErrPermissionDenied = ''template_governance_permission_denied''"
| "sentinel_msg GovErrUnavailable = ''template_governance_unavailable''"
| "sentinel_msg GovErrUnauthorized = ''template_governance_authorization_unavailable''"
| "sentinel_msg GovErrNotFound = ''template_governance_not_found''"
| "sentinel_msg GovErrCatalogVersionAbsent = ''template_catalog_version_absent''"
| "sentinel_msg GovErrInvalidRequest = ''template_governance_invalid_request''"
| "sentinel_msg GovErrVersionConflict = ''template_governance_version_conflict''"
| "sentinel_msg GovErrIdempotencyConflict = ''template_governance_idempotency_conflict''"
| "sentinel_msg GovErrInvalidState = ''template_governance_invalid_state''"
| "sentinel_msg GovErrReplayRequired = ''template_replay_required''"
| "sentinel_msg GovErrSourceUnavailable = ''template_source_unavailable''"
| "sentinel_msg GovErrModelUnavailable = ''rule_suggestion_model_unavailable''"
| "sentinel_msg GovErrStale = ''rule_suggestion_stale''"
| "sentinel_msg GovErrInvalidOutput = ''rule_suggestion_invalid_output''"
| "sentinel_msg GovErrFixtureNotStored = ''replay fixture not registered for this tenant''"
| "sentinel_msg GovErrAuditHistoryForbidden = ''template_governance_audit_history_forbidden''"
| "sentinel_msg ErrActorRequired = ''ruleset actor is required''"
| "sentinel_msg ErrActorRoleInvalid = ''ruleset actor role is not a tenant role''"
| "sentinel_msg ErrRuleSetTenantRequired = ''ruleset tenant is required''"
| "sentinel_msg ErrAuthorizerUnavailable = ''ruleset authorizer is unavailable''"
| "sentinel_msg ErrRuleSetVersionExists = ''ruleset version already exists''"
| "sentinel_msg ErrRuleSetStateConflict = ''ruleset state changed concurrently''"
| "sentinel_msg ErrRuleSetNotFound = ''ruleset version not found''"
| "sentinel_msg ErrDraftHashMustBeEmpty = ''draft ruleset hash is server managed''"
| "sentinel_msg ErrRuleSetAccessDenied = ''ruleset access denied''"

fun err_msg :: "goerr \<Rightarrow> string" where
  "err_msg (Sentinel s) = sentinel_msg s"
| "err_msg (Raw m) = m"
| "err_msg (Coded c m) = m"
| "err_msg (Wrapped m e) = m"
| "err_msg (ReplayPayloadDecodeError e) = err_msg e"
| "err_msg (AuthorizationDecisionError c e) = err_msg e"
| "err_msg (Joined m e f) = m"

text \<open>\<^verbatim>\<open>errors.As\<close> for the \<^verbatim>\<open>Code() int\<close> interface: the first coded error of the chain.\<close>

fun err_code :: "goerr \<Rightarrow> int option" where
  "err_code (Coded c m) = Some c"
| "err_code (Wrapped m e) = err_code e"
| "err_code (ReplayPayloadDecodeError e) = err_code e"
| "err_code (AuthorizationDecisionError c e) = err_code e"
| "err_code (Joined m e f) = (case err_code e of Some c \<Rightarrow> Some c | None \<Rightarrow> err_code f)"
| "err_code (Sentinel s) = None"
| "err_code (Raw m) = None"

definition isSQLiteLockError :: "goerr \<Rightarrow> bool" where
  "isSQLiteLockError err =
     (case err_code err of
        Some c \<Rightarrow> c mod 256 = 5 \<or> c mod 256 = 6
      | None \<Rightarrow> (let m = map lower_byte (err_msg err) in
          contains m ''database is locked'' \<or> contains m ''database table is locked''))"

section \<open>One transaction, and the retry loop\<close>

definition tx_once :: "'s attempt \<Rightarrow> ('k, 's) tx_fun \<Rightarrow> 'k \<Rightarrow> 's \<Rightarrow> 'k \<times> 's \<times> goerr option" where
  "tx_once a fn k s =
     (let s0 = at_before a s in
      case at_begin a of
        Some e \<Rightarrow> (k, s0, Some e)
      | None \<Rightarrow> (case fn k s0 of
            (k', Inl e) \<Rightarrow> (k', s0, Some e)
          | (k', Inr s') \<Rightarrow> (case at_commit a of
                Some e \<Rightarrow> (k', s0, Some e)
              | None \<Rightarrow> (k', s', None))))"

definition specLockMaxAttempts :: nat where
  "specLockMaxAttempts = 64"

text \<open>The closure \<^verbatim>\<open>stopped\<close>: the caller's own deadline is reported before the retry budget.\<close>

definition stopped :: "'s attempt \<Rightarrow> goerr" where
  "stopped a = (case at_ctx a of Some e \<Rightarrow> e | None \<Rightarrow> Sentinel ErrRequestInProgress)"

fun retry_loop :: "(nat \<Rightarrow> 's attempt) \<Rightarrow> ('k, 's) tx_fun \<Rightarrow> nat \<Rightarrow> nat \<Rightarrow> 'k \<Rightarrow> 's \<Rightarrow> 'k \<times> 's \<times> goerr option" where
  "retry_loop sched fn 0 i k s = (k, s, Some (stopped (sched i)))"
| "retry_loop sched fn (Suc n) i k s =
     (let a = sched i in
      if at_expired a then (k, s, Some (stopped a))
      else case tx_once a fn k s of
          (k', s', None) \<Rightarrow> (k', s', None)
        | (k', s', Some e) \<Rightarrow>
            if at_ctx a \<noteq> None then (k', s', Some (stopped a))
            else if at_deadline a \<and> (isSQLiteLockError e \<or> err_is e ContextDeadlineExceeded \<or> err_is e ContextCanceled)
              then (k', s', Some (stopped a))
            else if \<not> isSQLiteLockError e then (k', s', Some e)
            else retry_loop sched fn n (Suc i) k' s')"

definition retrySQLiteSpecOperation :: "goerr option \<Rightarrow> (nat \<Rightarrow> 's attempt) \<Rightarrow> ('k, 's) tx_fun \<Rightarrow> 'k \<Rightarrow> 's \<Rightarrow> 'k \<times> 's \<times> goerr option" where
  "retrySQLiteSpecOperation ctxErr sched fn k s =
     (case ctxErr of
        Some e \<Rightarrow> (k, s, Some e)
      | None \<Rightarrow> (case tx_once (sched 0) fn k s of
            (k', s', None) \<Rightarrow> (k', s', None)
          | (k', s', Some e) \<Rightarrow>
              if \<not> isSQLiteLockError e then (k', s', Some e)
              else retry_loop sched fn (specLockMaxAttempts - 1) 1 k' s'))"

definition gorm_Transaction :: "goerr option \<Rightarrow> (tx_options \<Rightarrow> nat \<Rightarrow> 's attempt) \<Rightarrow> ('k, 's) tx_run" where
  "gorm_Transaction ctxErr sched options fn k s =
     (if \<not> RetryLocks options then tx_once (sched options 0) fn k s
      else retrySQLiteSpecOperation ctxErr (sched options) fn k s)"

section \<open>The contract of a transaction port\<close>

text \<open>
  \<^verbatim>\<open>others s s'\<close> says that the store moved from \<^verbatim>\<open>s\<close> to \<^verbatim>\<open>s'\<close> by commits of other transactions
  only.  A failed transaction leaves nothing of its own behind; a successful one is the effect of
  exactly one complete execution of the closure, on a store only others have touched.  \<^verbatim>\<open>I\<close> is any
  property of the captured variables the closure keeps, also over executions that rolled back.
\<close>

locale tx_port =
  fixes tx :: "('k, 's) tx_run"
    and others :: "'s \<Rightarrow> 's \<Rightarrow> bool"
  assumes others_refl: "others s s"
    and others_trans: "others s t \<Longrightarrow> others t u \<Longrightarrow> others s u"
    and tx_rollback: "tx opts fn k s = (k', s', Some e) \<Longrightarrow> others s s'"
    and tx_commit: "tx opts fn k s = (k', s', None) \<Longrightarrow> I k \<Longrightarrow>
          (\<And>a t. I a \<Longrightarrow> I (fst (fn a t))) \<Longrightarrow>
          \<exists>k0 s0. I k0 \<and> others s s0 \<and> fn k0 s0 = (k', Inr s')"
    and tx_captured: "I k \<Longrightarrow> (\<And>a t. I a \<Longrightarrow> I (fst (fn a t))) \<Longrightarrow> I (fst (tx opts fn k s))"
begin

lemma commit_once:
  assumes "tx opts fn k s = (k', s', None)"
  obtains k0 s0 where "others s s0" "fn k0 s0 = (k', Inr s')"
  using tx_commit [OF assms, of "\<lambda>_. True"] by auto

lemma never_commits_on_error:
  assumes fail: "\<And>k s. \<exists>k' e. fn k s = (k', Inl e)"
  shows "\<exists>k' s' e. tx opts fn k s = (k', s', Some e) \<and> others s s'"
proof -
  obtain k' s' r where tx: "tx opts fn k s = (k', s', r)" by (metis prod_cases3)
  show ?thesis
  proof (cases r)
    case None
    then obtain k0 s0 where "fn k0 s0 = (k', Inr s')" using commit_once tx by metis
    then show ?thesis using fail [of k0 s0] by auto
  next
    case (Some e)
    then show ?thesis using tx tx_rollback by metis
  qed
qed

end

subsection \<open>The GORM repository keeps it\<close>

definition env_step :: "(tx_options \<Rightarrow> nat \<Rightarrow> 's attempt) \<Rightarrow> ('s \<times> 's) set" where
  "env_step sched = {(s, at_before (sched options i) s) | s options i. True}"

definition env_moves :: "(tx_options \<Rightarrow> nat \<Rightarrow> 's attempt) \<Rightarrow> 's \<Rightarrow> 's \<Rightarrow> bool" where
  "env_moves sched s s' \<longleftrightarrow> (s, s') \<in> (env_step sched)\<^sup>*"

lemma env_moves_before [simp]: "env_moves sched s (at_before (sched options i) s)"
  by (auto simp: env_moves_def env_step_def)

lemma env_moves_refl [simp]: "env_moves sched s s"
  by (simp add: env_moves_def)

lemma env_moves_trans: "env_moves sched s t \<Longrightarrow> env_moves sched t u \<Longrightarrow> env_moves sched s u"
  by (simp add: env_moves_def)

lemma tx_once_cases:
  obtains (begin_fails) e where "tx_once a fn k s = (k, at_before a s, Some e)"
    | (body_fails) k' e e' where "fn k (at_before a s) = (k', e)" "tx_once a fn k s = (k', at_before a s, Some e')"
    | (commits) k' s' where "fn k (at_before a s) = (k', Inr s')" "tx_once a fn k s = (k', s', None)"
  by (cases "at_begin a"; cases "fn k (at_before a s)"; cases "snd (fn k (at_before a s))"; cases "at_commit a")
     (fastforce simp: tx_once_def Let_def)+

lemma tx_once_rollback:
  "tx_once (sched options i) fn k s = (k', s', Some e) \<Longrightarrow> env_moves sched s s'"
  by (cases rule: tx_once_cases [of "sched options i" fn k s]) auto

lemma tx_once_commit:
  "tx_once (sched options i) fn k s = (k', s', None) \<Longrightarrow>
     \<exists>s0. env_moves sched s s0 \<and> fn k s0 = (k', Inr s')"
  by (cases rule: tx_once_cases [of "sched options i" fn k s]) (auto intro: env_moves_before)

lemma tx_once_captured:
  "I k \<Longrightarrow> (\<And>a t. I a \<Longrightarrow> I (fst (fn a t))) \<Longrightarrow> I (fst (tx_once a fn k s))"
  by (cases rule: tx_once_cases [of a fn k s]) (metis fst_conv)+

lemma retry_loop_rollback:
  "retry_loop (sched options) fn n i k s = (k', s', Some e) \<Longrightarrow> env_moves sched s s'"
proof (induction n arbitrary: i k s)
  case (Suc n)
  obtain k1 s1 r where one: "tx_once (sched options i) fn k s = (k1, s1, r)" by (metis prod_cases3)
  show ?case
  proof (cases r)
    case None
    then show ?thesis using Suc.prems one by (auto simp: Let_def split: if_splits)
  next
    case (Some e1)
    then have "env_moves sched s s1" using one tx_once_rollback by metis
    then show ?thesis
      using Suc.prems one Some Suc.IH [of "Suc i" k1 s1]
      by (auto simp: Let_def split: if_splits intro: env_moves_trans)
  qed
qed simp

lemma retry_loop_commit:
  assumes "retry_loop (sched options) fn n i k s = (k', s', None)" "I k"
    and "\<And>a t. I a \<Longrightarrow> I (fst (fn a t))"
  shows "\<exists>k0 s0. I k0 \<and> env_moves sched s s0 \<and> fn k0 s0 = (k', Inr s')"
  using assms(1,2)
proof (induction n arbitrary: i k s)
  case (Suc n)
  obtain k1 s1 r where one: "tx_once (sched options i) fn k s = (k1, s1, r)" by (metis prod_cases3)
  have k1: "I k1" using tx_once_captured [of I k fn "sched options i" s] Suc.prems(2) assms(3) one by simp
  show ?case
  proof (cases r)
    case None
    then have "k1 = k'" "s1 = s'" using Suc.prems one by (auto simp: Let_def split: if_splits)
    then show ?thesis using tx_once_commit [of sched options i fn k s k1 s1] one None Suc.prems(2) by blast
  next
    case (Some e1)
    then have "env_moves sched s s1" using one tx_once_rollback by metis
    moreover have "retry_loop (sched options) fn n (Suc i) k1 s1 = (k', s', None)"
      using Suc.prems one Some by (auto simp: Let_def split: if_splits)
    ultimately show ?thesis using Suc.IH k1 env_moves_trans by metis
  qed
qed simp

lemma retry_loop_captured:
  assumes "I k" "\<And>a t. I a \<Longrightarrow> I (fst (fn a t))"
  shows "I (fst (retry_loop sched fn n i k s))"
  using assms(1)
proof (induction n arbitrary: i k s)
  case (Suc n)
  obtain k1 s1 r where one: "tx_once (sched i) fn k s = (k1, s1, r)" by (metis prod_cases3)
  then have "I k1" using tx_once_captured [of I k fn "sched i" s] Suc.prems assms(2) by simp
  then show ?case
    using Suc.IH one Suc.prems by (cases r) (auto simp: Let_def)
qed simp

lemma gorm_Transaction_captured:
  assumes "I k" "\<And>a t. I a \<Longrightarrow> I (fst (fn a t))"
  shows "I (fst (gorm_Transaction ctxErr sched options fn k s))"
proof -
  obtain k1 s1 r where one: "tx_once (sched options 0) fn k s = (k1, s1, r)" by (metis prod_cases3)
  then have "I k1" using tx_once_captured [of I k fn "sched options 0" s] assms by simp
  then show ?thesis
    using one assms retry_loop_captured [of I k1 fn "sched options" _ 1 s1]
    by (cases r) (auto simp: gorm_Transaction_def retrySQLiteSpecOperation_def split: option.splits)
qed

lemma gorm_Transaction_rollback:
  assumes "gorm_Transaction ctxErr sched options fn k s = (k', s', Some e)"
  shows "env_moves sched s s'"
proof -
  obtain k1 s1 r where one: "tx_once (sched options 0) fn k s = (k1, s1, r)" by (metis prod_cases3)
  show ?thesis
  proof (cases r)
    case None
    then show ?thesis
      using assms one
      by (auto simp: gorm_Transaction_def retrySQLiteSpecOperation_def split: option.splits if_splits)
  next
    case (Some e1)
    then have m: "env_moves sched s s1" using one tx_once_rollback by metis
    show ?thesis
      using assms one Some m retry_loop_rollback [of sched options fn "specLockMaxAttempts - 1" 1 k1 s1 k' s' e]
      by (auto simp: gorm_Transaction_def retrySQLiteSpecOperation_def
            split: option.splits if_splits intro: env_moves_trans)
  qed
qed

lemma gorm_Transaction_commit:
  assumes "gorm_Transaction ctxErr sched options fn k s = (k', s', None)" "I k"
    and inv: "\<And>a t. I a \<Longrightarrow> I (fst (fn a t))"
  shows "\<exists>k0 s0. I k0 \<and> env_moves sched s s0 \<and> fn k0 s0 = (k', Inr s')"
proof -
  obtain k1 s1 r where one: "tx_once (sched options 0) fn k s = (k1, s1, r)" by (metis prod_cases3)
  have k1: "I k1" using tx_once_captured [of I k fn "sched options 0" s] assms one by simp
  show ?thesis
  proof (cases r)
    case None
    then have "k1 = k'" "s1 = s'"
      using assms(1) one
      by (auto simp: gorm_Transaction_def retrySQLiteSpecOperation_def split: option.splits if_splits)
    then show ?thesis using tx_once_commit [of sched options 0 fn k s k1 s1] one None assms(2) by blast
  next
    case (Some e1)
    then have m: "env_moves sched s s1" using one tx_once_rollback by metis
    have "retry_loop (sched options) fn (specLockMaxAttempts - 1) 1 k1 s1 = (k', s', None)"
      using assms(1) one Some
      by (auto simp: gorm_Transaction_def retrySQLiteSpecOperation_def split: option.splits if_splits)
    then show ?thesis using retry_loop_commit [of sched options fn _ 1 k1 s1 k' s' I] k1 inv m env_moves_trans by metis
  qed
qed

interpretation gorm: tx_port "gorm_Transaction ctxErr sched" "env_moves sched" for ctxErr sched
proof (unfold_locales, goal_cases)
  case 1 show ?case by simp
next
  case 2 then show ?case by (rule env_moves_trans)
next
  case 3 then show ?case by (rule gorm_Transaction_rollback)
next
  case 4 then show ?case by (rule gorm_Transaction_commit)
next
  case 5 then show ?case by (rule gorm_Transaction_captured)
qed

end
