(* ===== verification/Template_Model.thy ===== *)
theory Template_Model
  imports Go_Digest Tx_Retry "HOL-Library.AList" Complex_Main
begin

text \<open>
  Templates and rules: the data of \<^verbatim>\<open>template/contract.go\<close> and \<^verbatim>\<open>template/ruleset.go\<close>, the demo
  catalogue, the defensive copies, and the validation of a single rule from
  \<^verbatim>\<open>template/governance.go\<close>.

  A Go value of type \<^verbatim>\<open>any\<close> inside \<^verbatim>\<open>Parameters\<close> is \<^verbatim>\<open>jany\<close>; floats are rationals, which is exact
  for finite values.  A Go map is an association list, \<^verbatim>\<open>None\<close> being the nil map, read with
  \<^const>\<open>map_of\<close>.  Of the standard library, \<^verbatim>\<open>regexp.Compile\<close> for author supplied patterns and
  \<^verbatim>\<open>json.Marshal\<close> of the canonical structures are the fields of the environment \<^verbatim>\<open>tpl_env\<close>, so the
  theorems hold for every encoder and every pattern language; SHA-256 is the modelled one.  The text of
  an error keeps its constant part, not the interpolated identifiers.
\<close>

section \<open>Values and maps\<close>

datatype jany =
    JNull
  | JBool bool
  | JStr string
  | JInt int
  | JFloat rat
  | JNumber string "rat option"
  | JStrs "string list"
  | JArr "jany list"
  | JObj "(string \<times> jany) list"

type_synonym params = "(string \<times> jany) list option"

definition plookup :: "params \<Rightarrow> string \<Rightarrow> jany option" where
  "plookup p k = (case p of None \<Rightarrow> None | Some xs \<Rightarrow> map_of xs k)"

definition pkeys :: "params \<Rightarrow> string list" where
  "pkeys p = (case p of None \<Rightarrow> [] | Some xs \<Rightarrow> map fst xs)"

definition pset :: "string \<Rightarrow> jany \<Rightarrow> params \<Rightarrow> params" where
  "pset k v p = Some (AList.update k v (case p of None \<Rightarrow> [] | Some xs \<Rightarrow> xs))"

text \<open>The type assertion \<^verbatim>\<open>v.(string)\<close> on a map read, with its ok flag.\<close>

definition pstring :: "params \<Rightarrow> string \<Rightarrow> string option" where
  "pstring p k = (case plookup p k of Some (JStr s) \<Rightarrow> Some s | _ \<Rightarrow> None)"

fun cloneParameterValue :: "jany \<Rightarrow> jany" where
  "cloneParameterValue (JObj xs) = JObj (map (\<lambda>(k, v). (k, cloneParameterValue v)) xs)"
| "cloneParameterValue (JArr xs) = JArr (map cloneParameterValue xs)"
| "cloneParameterValue (JStrs xs) = JStrs xs"
| "cloneParameterValue v = v"

definition cloneParameters :: "params \<Rightarrow> params" where
  "cloneParameters p = map_option (map (\<lambda>(k, v). (k, cloneParameterValue v))) p"

section \<open>Rules, rule sets and templates\<close>

record rule =
  r_ID :: string
  r_Kind :: string
  r_Severity :: string
  r_Evaluator :: string
  r_Message :: string
  r_Parameters :: params

record rule_definition =
  d_ID :: string
  d_Version :: string
  d_Kind :: string
  d_Evaluator :: string
  d_AllowedTargetKinds :: "string list"

record rule_binding =
  b_RuleID :: string
  b_DefinitionID :: string
  b_DefinitionVersion :: string
  b_Origin :: string
  b_TargetKind :: string
  b_TargetID :: string
  b_Parameters :: params
  b_Severity :: string
  b_Message :: string
  b_TriggerScenes :: "string list"
  b_PositiveExampleRefs :: "string list"
  b_NegativeExampleRefs :: "string list"
  b_Enabled :: bool
  b_Owner :: string

record rule_set =
  s_ID :: string
  s_Version :: string
  s_State :: string
  s_Bindings :: "rule_binding list"
  s_RulesetHash :: string

record rule_set_ref =
  ref_ID :: string
  ref_Version :: string
  ref_Hash :: string

record rule_override =
  o_RuleID :: string
  o_Enabled :: "bool option"
  o_Parameters :: params

record section_def =
  sec_ID :: string
  sec_Title :: string
  sec_Description :: string
  sec_Order :: int
  sec_Required :: bool

record field_def =
  f_ID :: string
  f_Label :: string
  f_Description :: string
  f_Type :: string
  f_Order :: int
  f_Required :: bool
  f_Options :: "string list"

record term_def =
  tm_ID :: string
  tm_Preferred :: string
  tm_Variants :: "string list"

record template =
  t_ID :: string
  t_Name :: string
  t_Version :: string
  t_IsDemo :: bool
  t_Source :: string
  t_Scope :: string
  t_Sections :: "section_def list"
  t_Fields :: "field_def list"
  t_Terms :: "term_def list"
  t_RequiredFields :: "string list"
  t_RulesetHash :: string
  t_ContentHash :: string
  t_Rules :: "rule list"
  t_RuleSetSnapshot :: "rule_set option"
  t_RuleSetRef :: "rule_set_ref option"
  t_RuleBindingOverrides :: "rule_override list"

text \<open>What an issue identity is computed from, and the hash of a bound rule set.\<close>

record issue_identity =
  ii_RuleID :: string
  ii_TargetRef :: string
  ii_TargetVersion :: string
  ii_RulesetHash :: string
  ii_EvaluatorVersion :: string
  ii_Evidence :: "string list"

record bound_canonical =
  bc_TemplateRuleHash :: string
  bc_RuleSetID :: string
  bc_RuleSetVersion :: string
  bc_RuleSetHash :: string
  bc_Overrides :: "rule_override list"

record tpl_env =
  te_compile :: "string \<Rightarrow> (string \<Rightarrow> bool) option"
  te_marshalRules :: "rule list \<Rightarrow> goerr + string"
  te_marshalTemplate :: "template \<Rightarrow> goerr + string"
  te_marshalRuleSet :: "string \<Rightarrow> string \<Rightarrow> rule_binding list \<Rightarrow> goerr + string"
  te_marshalBound :: "bound_canonical \<Rightarrow> goerr + string"
  te_marshalIssue :: "issue_identity \<Rightarrow> goerr + string"

section \<open>Defensive copies\<close>

definition cloneRuleBindings :: "rule_binding list \<Rightarrow> rule_binding list" where
  "cloneRuleBindings bs = map (\<lambda>b. b\<lparr>b_Parameters := cloneParameters (b_Parameters b)\<rparr>) bs"

definition cloneRuleSet :: "rule_set \<Rightarrow> rule_set" where
  "cloneRuleSet rs = rs\<lparr>s_Bindings := cloneRuleBindings (s_Bindings rs)\<rparr>"

definition CloneRuleBindingOverrides :: "rule_override list \<Rightarrow> rule_override list" where
  "CloneRuleBindingOverrides os = map (\<lambda>ov. ov\<lparr>o_Parameters := cloneParameters (o_Parameters ov)\<rparr>) os"

definition cloneTemplate :: "template \<Rightarrow> template" where
  "cloneTemplate t = t\<lparr>
     t_Rules := map (\<lambda>r. r\<lparr>r_Parameters := cloneParameters (r_Parameters r)\<rparr>) (t_Rules t),
     t_RuleSetSnapshot := map_option cloneRuleSet (t_RuleSetSnapshot t),
     t_RuleBindingOverrides := CloneRuleBindingOverrides (t_RuleBindingOverrides t)\<rparr>"

lemma cloneParameterValue_id [simp]: "cloneParameterValue v = v"
proof (induction v rule: cloneParameterValue.induct)
  case (1 xs)
  then have "map (\<lambda>(k, v). (k, cloneParameterValue v)) xs = map id xs"
    by (intro map_cong) auto
  then show ?case by simp
next
  case (2 xs)
  then show ?case by (simp add: map_idI)
qed simp_all

lemma cloneParameters_id [simp]: "cloneParameters p = p"
proof -
  have "(\<lambda>(k, v). (k, cloneParameterValue v)) = (id :: string \<times> jany \<Rightarrow> string \<times> jany)" by auto
  then show ?thesis by (cases p) (simp_all add: cloneParameters_def)
qed

lemma cloneRuleBindings_id [simp]: "cloneRuleBindings bs = bs"
  by (simp add: cloneRuleBindings_def)

lemma cloneRuleSet_id [simp]: "cloneRuleSet rs = rs"
  by (simp add: cloneRuleSet_def)

lemma CloneRuleBindingOverrides_id [simp]: "CloneRuleBindingOverrides os = os"
  by (simp add: CloneRuleBindingOverrides_def)

lemma map_option_cloneRuleSet [simp]: "map_option cloneRuleSet x = x"
  by (cases x) simp_all

lemma cloneTemplate_id [simp]: "cloneTemplate t = t"
  by (simp add: cloneTemplate_def)

section \<open>Stable identifiers and validation of one rule\<close>

text \<open>The regular expression of \<^verbatim>\<open>stableID\<close>: a lower-case letter or digit, then at most 79 of those, dot, underscore or hyphen.\<close>

definition id_head :: "char \<Rightarrow> bool" where
  "id_head c \<longleftrightarrow> (97 \<le> ncode c \<and> ncode c \<le> 122) \<or> (48 \<le> ncode c \<and> ncode c \<le> 57)"

definition id_tail :: "char \<Rightarrow> bool" where
  "id_tail c \<longleftrightarrow> id_head c \<or> c = CHR ''.'' \<or> c = CHR ''_'' \<or> c = CHR ''-''"

definition stableID :: "string \<Rightarrow> bool" where
  "stableID s = (case s of [] \<Rightarrow> False | c # r \<Rightarrow> id_head c \<and> list_all id_tail r \<and> length r \<le> 79)"

definition validFieldType :: "string \<Rightarrow> bool" where
  "validFieldType t \<longleftrightarrow> t \<in> {''string'', ''text'', ''number'', ''integer'', ''boolean'', ''enum''}"

definition validSeverity :: "string \<Rightarrow> bool" where
  "validSeverity s \<longleftrightarrow> s = ''blocking'' \<or> s = ''warning'' \<or> s = ''info''"

definition validTarget :: "params \<Rightarrow> bool" where
  "validTarget p =
     (case (pstring p ''target_kind'', pstring p ''target_id'') of
        (Some kind, Some i) \<Rightarrow> stableID i \<and> kind \<in> {''field'', ''chapter'', ''source'', ''review_item''}
      | _ \<Rightarrow> False)"

definition validTextTarget :: "params \<Rightarrow> bool" where
  "validTextTarget p \<longleftrightarrow> validTarget p \<and>
     (pstring p ''target_kind'' = Some ''field'' \<or> pstring p ''target_kind'' = Some ''chapter'')"

definition numeric :: "jany option \<Rightarrow> rat option" where
  "numeric v = (case v of
       Some (JInt n) \<Rightarrow> Some (rat_of_int n)
     | Some (JFloat x) \<Rightarrow> Some x
     | Some (JNumber lit x) \<Rightarrow> x
     | _ \<Rightarrow> None)"

definition validCountBounds :: "params \<Rightarrow> bool" where
  "validCountBounds p =
     (let mn = numeric (plookup p ''minimum''); mx = numeric (plookup p ''maximum'');
          ok = (\<lambda>x :: rat. 0 \<le> x \<and> x \<le> 1000000 \<and> rat_of_int \<lfloor>x\<rfloor> = x)
      in (mn \<noteq> None \<or> mx \<noteq> None) \<and>
         (case mn of None \<Rightarrow> True | Some a \<Rightarrow> ok a) \<and> (case mx of None \<Rightarrow> True | Some b \<Rightarrow> ok b) \<and>
         (case (mn, mx) of (Some a, Some b) \<Rightarrow> a \<le> b | _ \<Rightarrow> True))"

definition stringSlice :: "jany option \<Rightarrow> string list option" where
  "stringSlice v = (case v of
       Some (JStrs l) \<Rightarrow> Some l
     | Some (JArr l) \<Rightarrow>
         if list_all (\<lambda>x. case x of JStr _ \<Rightarrow> True | _ \<Rightarrow> False) l
         then Some (map (\<lambda>x. case x of JStr s \<Rightarrow> s | _ \<Rightarrow> []) l) else None
     | _ \<Rightarrow> None)"

definition invalidDef :: "string \<Rightarrow> goerr" where
  "invalidDef msg = Wrapped (''invalid template or rule definition: '' @ msg) (Sentinel ErrInvalidDefinition)"

definition plainEvaluators :: "string list" where
  "plainEvaluators = [''required_fields'', ''nonempty_chapter'', ''confirmed_chapter'', ''review_items_decided'', ''source_available'']"

text \<open>The \<^verbatim>\<open>switch rule.Kind\<close> of \<^verbatim>\<open>validateRule\<close>: the parameter names the kind allows, or the refusal.\<close>

definition rule_kind_check :: "tpl_env \<Rightarrow> rule \<Rightarrow> goerr + string list" where
  "rule_kind_check env r =
     (let p = r_Parameters r in
      if r_Kind r = ''model_assisted'' then
        (if \<not> validTextTarget p \<or> (r_Severity r \<noteq> ''warning'' \<and> r_Severity r \<noteq> ''info'')
         then Inl (invalidDef ''model-assisted rule must be a non-blocking text suggestion'')
         else Inr [''target_kind'', ''target_id''])
      else if r_Kind r = ''presence'' then
        (if \<not> validTarget p then Inl (invalidDef ''presence rule needs a supported target'')
         else Inr [''target_kind'', ''target_id''])
      else if r_Kind r = ''pattern'' then
        (case pstring p ''pattern'' of
           None \<Rightarrow> Inl (invalidDef ''pattern rule has invalid parameters'')
         | Some pattern \<Rightarrow>
             if \<not> validTarget p \<or> length pattern > 512 then Inl (invalidDef ''pattern rule has invalid parameters'')
             else if te_compile env pattern = None then Inl (invalidDef ''pattern rule has invalid regexp'')
             else Inr [''target_kind'', ''target_id'', ''pattern''])
      else if r_Kind r = ''consistency'' then
        (case (pstring p ''preferred'', stringSlice (plookup p ''variants'')) of
           (Some preferred, Some variants) \<Rightarrow>
             if \<not> validTextTarget p \<or> blank preferred \<or> variants = []
               then Inl (invalidDef ''consistency rule has invalid parameters'')
             else if list_ex (\<lambda>v. blank v \<or> v = preferred) variants
               then Inl (invalidDef ''consistency rule has invalid variants'')
             else Inr [''target_kind'', ''target_id'', ''preferred'', ''variants'']
         | _ \<Rightarrow> Inl (invalidDef ''consistency rule has invalid parameters''))
      else if r_Kind r = ''computed'' then
        (if r_Evaluator r \<in> set plainEvaluators then
           (if pkeys p \<noteq> [] then Inl (invalidDef ''computed rule does not accept parameters'')
            else Inr [''target_kind'', ''target_id'', ''minimum'', ''maximum''])
         else if r_Evaluator r = ''word_count'' \<or> r_Evaluator r = ''character_count'' then
           (if \<not> validTextTarget p \<or> \<not> validCountBounds p then Inl (invalidDef ''computed rule has invalid parameters'')
            else Inr [''target_kind'', ''target_id'', ''minimum'', ''maximum''])
         else Inl (invalidDef ''unsupported computed evaluator''))
      else Inl (invalidDef ''unsupported rule kind''))"

definition validateRule :: "tpl_env \<Rightarrow> rule \<Rightarrow> goerr + unit" where
  "validateRule env r =
     (if \<not> validSeverity (r_Severity r) then Inl (invalidDef ''unsupported severity'')
      else bindR (rule_kind_check env r) (\<lambda>allowed.
        if \<not> list_all (\<lambda>k. k \<in> set allowed) (pkeys (r_Parameters r)) then Inl (invalidDef ''unsupported parameter'')
        else if r_Kind r \<noteq> ''computed'' \<and> r_Evaluator r \<noteq> [] then Inl (invalidDef ''evaluator is server-selected'')
        else Inr ()))"

section \<open>What a valid rule is\<close>

lemma plookup_pset: "plookup (pset k v p) k' = (if k' = k then Some v else plookup p k')"
  by (cases p) (simp_all add: plookup_def pset_def update_conv')

lemma pstring_pset: "pstring (pset k (JStr v) p) k' = (if k' = k then Some v else pstring p k')"
  by (simp add: pstring_def plookup_pset)

lemma pset_pset_same_key [simp]: "k' \<noteq> k \<Longrightarrow> plookup (pset k v p) k' = plookup p k'"
  by (simp add: plookup_pset)

lemma stableID_nonempty: "stableID s \<Longrightarrow> s \<noteq> [] \<and> length s \<le> 80"
  by (cases s) (auto simp: stableID_def)

lemma validTarget_strings:
  "validTarget p \<Longrightarrow> \<exists>kind i. pstring p ''target_kind'' = Some kind \<and> pstring p ''target_id'' = Some i \<and> stableID i
     \<and> kind \<in> {''field'', ''chapter'', ''source'', ''review_item''}"
  by (auto simp: validTarget_def split: option.splits)

lemma validateRule_ok:
  "validateRule env r = Inr u \<longleftrightarrow> validSeverity (r_Severity r) \<and>
     (\<exists>allowed. rule_kind_check env r = Inr allowed \<and> set (pkeys (r_Parameters r)) \<subseteq> set allowed) \<and>
     (r_Kind r = ''computed'' \<or> r_Evaluator r = [])"
  by (auto simp: validateRule_def list_all_iff split: if_splits)

lemma rule_kinds:
  "rule_kind_check env r = Inr allowed \<Longrightarrow>
     r_Kind r \<in> {''model_assisted'', ''presence'', ''pattern'', ''consistency'', ''computed''}"
  by (rule ccontr) (simp add: rule_kind_check_def Let_def)

lemma model_assisted_not_blocking:
  "validateRule env r = Inr u \<Longrightarrow> r_Kind r = ''model_assisted'' \<Longrightarrow> r_Severity r \<noteq> ''blocking'' \<and> validTextTarget (r_Parameters r)"
  by (auto simp: validateRule_ok rule_kind_check_def Let_def split: if_splits)

end
