(* ===== verification/Rule_Set.thy ===== *)
theory Rule_Set
  imports Template_Model
begin

text \<open>
  Rule sets: \<^verbatim>\<open>template/ruleset.go\<close> without the evaluation.  The server-owned catalogue of rule
  definitions, the validation and hashing of a rule set, its life cycle (draft, published, withdrawn,
  recalled), the project overrides, and the compilation into plain rules.

  \<^verbatim>\<open>sort.Slice\<close> by rule identifier is \<^const>\<open>sort_key\<close>; identifiers are distinct in a validated set, so
  every correct sort gives the same list (\<^verbatim>\<open>Prelude.sort_key_unique\<close>).
\<close>

section \<open>Definitions owned by the server\<close>

definition mk_def :: "string \<Rightarrow> string \<Rightarrow> string \<Rightarrow> string list \<Rightarrow> rule_definition" where
  "mk_def i kind evaluator targets =
     \<lparr>d_ID = i, d_Version = ''1'', d_Kind = kind, d_Evaluator = evaluator, d_AllowedTargetKinds = targets\<rparr>"

definition builtInRuleDefinitions :: "rule_definition list" where
  "builtInRuleDefinitions =
     [mk_def ''presence'' ''presence'' [] [''field'', ''chapter'', ''source'', ''review_item''],
      mk_def ''pattern'' ''pattern'' [] [''field'', ''chapter''],
      mk_def ''consistency'' ''consistency'' [] [''field'', ''chapter''],
      mk_def ''model_assisted'' ''model_assisted'' [] [''field'', ''chapter''],
      mk_def ''computed/required_fields'' ''computed'' ''required_fields'' [],
      mk_def ''computed/nonempty_chapter'' ''computed'' ''nonempty_chapter'' [],
      mk_def ''computed/confirmed_chapter'' ''computed'' ''confirmed_chapter'' [],
      mk_def ''computed/review_items_decided'' ''computed'' ''review_items_decided'' [],
      mk_def ''computed/source_available'' ''computed'' ''source_available'' [],
      mk_def ''computed/word_count'' ''computed'' ''word_count'' [''field'', ''chapter''],
      mk_def ''computed/character_count'' ''computed'' ''character_count'' [''field'', ''chapter'']]"

definition allowedRuleScenes :: "string list" where
  "allowedRuleScenes = [''write_check'', ''preflight'']"

definition ruleDefinition :: "string \<Rightarrow> rule_definition option" where
  "ruleDefinition i = find (\<lambda>d. d_ID d = i) builtInRuleDefinitions"

section \<open>Validation\<close>

definition invalidSet :: "string \<Rightarrow> goerr" where
  "invalidSet msg = Wrapped (''invalid rule set: '' @ msg) (Sentinel ErrInvalidRuleSet)"

fun validUniqueFrom :: "('a \<Rightarrow> bool) \<Rightarrow> 'a list \<Rightarrow> 'a list \<Rightarrow> bool" where
  "validUniqueFrom ok seen [] = True"
| "validUniqueFrom ok seen (v # vs) = (if \<not> ok v \<or> v \<in> set seen then False else validUniqueFrom ok (v # seen) vs)"

definition validUniqueValues :: "string list \<Rightarrow> string list \<Rightarrow> bool" where
  "validUniqueValues values allowed = validUniqueFrom (\<lambda>v. v \<in> set allowed) [] values"

definition validStableRefs :: "string list \<Rightarrow> bool" where
  "validStableRefs values = validUniqueFrom stableID [] values"

definition serverOwnedParameters :: "string list" where
  "serverOwnedParameters = [''target_kind'', ''target_id'', ''evaluator'', ''script'', ''expression'', ''code'']"

text \<open>The parameters of the rule a binding stands for, and that rule; the sources build it three times.\<close>

definition binding_params :: "rule_definition \<Rightarrow> rule_binding \<Rightarrow> params \<Rightarrow> params" where
  "binding_params d b p =
     (let q = (case p of None \<Rightarrow> Some [] | Some xs \<Rightarrow> Some xs) in
      if d_AllowedTargetKinds d \<noteq> []
      then pset ''target_id'' (JStr (b_TargetID b)) (pset ''target_kind'' (JStr (b_TargetKind b)) q)
      else q)"

definition binding_rule :: "rule_definition \<Rightarrow> rule_binding \<Rightarrow> params \<Rightarrow> rule" where
  "binding_rule d b p = \<lparr>r_ID = b_RuleID b, r_Kind = d_Kind d, r_Severity = b_Severity b, r_Evaluator = d_Evaluator d,
     r_Message = b_Message b, r_Parameters = binding_params d b p\<rparr>"

definition validateRuleBinding :: "tpl_env \<Rightarrow> rule_binding \<Rightarrow> goerr + unit" where
  "validateRuleBinding env b =
     (if \<not> stableID (b_RuleID b) \<or> blank (b_Owner b) then Inl (invalidSet ''rule id and owner are required'')
      else if b_Origin b \<notin> {''builtin'', ''organization'', ''project''} then Inl (invalidSet ''unsupported rule origin'')
      else case ruleDefinition (b_DefinitionID b) of
        None \<Rightarrow> Inl (invalidSet ''unknown rule definition or version'')
      | Some d \<Rightarrow>
          if d_Version d \<noteq> b_DefinitionVersion b then Inl (invalidSet ''unknown rule definition or version'')
          else if b_TriggerScenes b = [] \<or> \<not> validUniqueValues (b_TriggerScenes b) allowedRuleScenes
            then Inl (invalidSet ''rule needs supported trigger scenes'')
          else if \<not> validStableRefs (b_PositiveExampleRefs b) \<or> \<not> validStableRefs (b_NegativeExampleRefs b)
            then Inl (invalidSet ''rule has invalid example references'')
          else if d_AllowedTargetKinds d \<noteq> [] \<and>
                  (b_TargetKind b \<notin> set (d_AllowedTargetKinds d) \<or> \<not> stableID (b_TargetID b))
            then Inl (invalidSet ''rule has an unsupported target'')
          else if d_AllowedTargetKinds d = [] \<and> (b_TargetKind b \<noteq> [] \<or> b_TargetID b \<noteq> [])
            then Inl (invalidSet ''global rule cannot declare a target'')
          else if list_ex (\<lambda>k. plookup (b_Parameters b) k \<noteq> None) serverOwnedParameters
            then Inl (invalidSet ''rule cannot set server-owned parameter'')
          else (case validateRule env (binding_rule d b (cloneParameters (b_Parameters b))) of
                  Inl e \<Rightarrow> Inl (invalidSet (err_msg e))
                | Inr _ \<Rightarrow> Inr ()))"

fun validateBindings :: "tpl_env \<Rightarrow> string list \<Rightarrow> rule_binding list \<Rightarrow> goerr + unit" where
  "validateBindings env seen [] = Inr ()"
| "validateBindings env seen (b # bs) =
     bindR (validateRuleBinding env b) (\<lambda>_.
       if b_RuleID b \<in> set seen then Inl (invalidSet ''duplicate rule id'')
       else validateBindings env (b_RuleID b # seen) bs)"

definition validateRuleSetContent :: "tpl_env \<Rightarrow> rule_set \<Rightarrow> goerr + unit" where
  "validateRuleSetContent env rs =
     (if \<not> stableID (s_ID rs) \<or> \<not> stableID (s_Version rs) \<or> length (s_ID rs) > 64 \<or> length (s_Version rs) > 64
        then Inl (invalidSet ''ruleset id and version must be stable identifiers of at most 64 characters'')
      else if s_State rs \<notin> {''draft'', ''published'', ''withdrawn'', ''recalled''} then Inl (invalidSet ''unsupported state'')
      else validateBindings env [] (s_Bindings rs))"

section \<open>Hashing and the life cycle\<close>

definition canonicalBindings :: "rule_binding list \<Rightarrow> rule_binding list" where
  "canonicalBindings bs =
     map (\<lambda>b. b\<lparr>b_TriggerScenes := sort (b_TriggerScenes b), b_PositiveExampleRefs := sort (b_PositiveExampleRefs b),
                b_NegativeExampleRefs := sort (b_NegativeExampleRefs b)\<rparr>)
       (sort_key b_RuleID (cloneRuleBindings bs))"

definition HashRuleSet :: "tpl_env \<Rightarrow> rule_set \<Rightarrow> goerr + string" where
  "HashRuleSet env rs =
     bindR (validateRuleSetContent env rs) (\<lambda>_.
       case te_marshalRuleSet env (s_ID rs) (s_Version rs) (canonicalBindings (s_Bindings rs)) of
         Inl e \<Rightarrow> Inl (Wrapped (''marshal ruleset: '' @ err_msg e) e)
       | Inr raw \<Rightarrow> Inr (sha256_hex raw))"

definition ValidateRuleSet :: "tpl_env \<Rightarrow> rule_set \<Rightarrow> goerr + unit" where
  "ValidateRuleSet env rs =
     bindR (validateRuleSetContent env rs) (\<lambda>_.
       if s_RulesetHash rs = [] then
         (if s_State rs = ''draft'' then Inr () else Inl (invalidSet ''non-draft ruleset has no server hash''))
       else bindR (HashRuleSet env rs) (\<lambda>hash.
         if s_RulesetHash rs \<noteq> hash then Inl (invalidSet ''ruleset hash does not match its bindings'') else Inr ()))"

definition PublishRuleSet :: "tpl_env \<Rightarrow> rule_set \<Rightarrow> goerr + rule_set" where
  "PublishRuleSet env rs =
     (if s_State rs \<noteq> ''draft'' then Inl (Sentinel ErrRuleSetNotDraft)
      else bindR (validateRuleSetContent env rs) (\<lambda>_.
        if \<not> list_ex b_Enabled (s_Bindings rs) then Inl (invalidSet ''cannot publish a ruleset without an enabled binding'')
        else bindR (HashRuleSet env rs) (\<lambda>hash.
          Inr ((cloneRuleSet rs)\<lparr>s_State := ''published'', s_RulesetHash := hash\<rparr>))))"

definition transitionRuleSet :: "tpl_env \<Rightarrow> rule_set \<Rightarrow> string \<Rightarrow> goerr + rule_set" where
  "transitionRuleSet env rs state =
     bindR (ValidateRuleSet env rs) (\<lambda>_.
       if s_State rs \<noteq> ''published'' then Inl (Sentinel ErrRuleSetNotPublished)
       else Inr ((cloneRuleSet rs)\<lparr>s_State := state\<rparr>))"

definition WithdrawRuleSet :: "tpl_env \<Rightarrow> rule_set \<Rightarrow> goerr + rule_set" where
  "WithdrawRuleSet env rs = transitionRuleSet env rs ''withdrawn''"

definition RecallRuleSet :: "tpl_env \<Rightarrow> rule_set \<Rightarrow> goerr + rule_set" where
  "RecallRuleSet env rs = transitionRuleSet env rs ''recalled''"

definition CanBindRuleSet :: "tpl_env \<Rightarrow> rule_set \<Rightarrow> goerr + unit" where
  "CanBindRuleSet env rs =
     bindR (ValidateRuleSet env rs) (\<lambda>_.
       if s_State rs \<noteq> ''published'' then Inl (Sentinel ErrRuleSetNotPublished) else Inr ())"

fun compileBindings :: "tpl_env \<Rightarrow> rule_binding list \<Rightarrow> goerr + rule list" where
  "compileBindings env [] = Inr []"
| "compileBindings env (b # bs) =
     (if \<not> b_Enabled b then compileBindings env bs
      else case ruleDefinition (b_DefinitionID b) of
        None \<Rightarrow> Inl (invalidSet ''unknown rule definition'')
      | Some d \<Rightarrow>
          (let r = binding_rule d b (cloneParameters (b_Parameters b)) in
           bindR (validateRule env r) (\<lambda>_. bindR (compileBindings env bs) (\<lambda>rs. Inr (r # rs)))))"

definition CompileRuleSet :: "tpl_env \<Rightarrow> rule_set \<Rightarrow> goerr + rule list" where
  "CompileRuleSet env rs =
     bindR (ValidateRuleSet env rs) (\<lambda>_.
       compileBindings env (sort_key b_RuleID (cloneRuleBindings (s_Bindings rs))))"

section \<open>Project overrides\<close>

definition allowedOverrideParameters :: "string \<Rightarrow> string list" where
  "allowedOverrideParameters d =
     (if d = ''pattern'' then [''pattern'']
      else if d = ''consistency'' then [''preferred'', ''variants'']
      else if d = ''computed/word_count'' \<or> d = ''computed/character_count'' then [''minimum'', ''maximum'']
      else [])"

definition validateOverrideParameters :: "tpl_env \<Rightarrow> rule_binding \<Rightarrow> params \<Rightarrow> goerr + unit" where
  "validateOverrideParameters env b p =
     (case ruleDefinition (b_DefinitionID b) of
        None \<Rightarrow> Inl (Sentinel ErrInvalidRuleSet)
      | Some d \<Rightarrow> validateRule env (binding_rule d b p))"

definition pentries :: "params \<Rightarrow> (string \<times> jany) list" where
  "pentries p = (case p of None \<Rightarrow> [] | Some xs \<Rightarrow> xs)"

definition merge_params :: "params \<Rightarrow> params \<Rightarrow> params" where
  "merge_params base ov = foldl (\<lambda>p (k, v). pset k (cloneParameterValue v) p) base (pentries ov)"

text \<open>The Go map from rule identifiers to bindings keeps the last binding of an identifier.\<close>

definition bindingOf :: "rule_set \<Rightarrow> string \<Rightarrow> rule_binding option" where
  "bindingOf rs i = find (\<lambda>b. b_RuleID b = i) (rev (s_Bindings rs))"

fun validateOverridesFrom :: "tpl_env \<Rightarrow> rule_set \<Rightarrow> string list \<Rightarrow> rule_override list \<Rightarrow> goerr + unit" where
  "validateOverridesFrom env rs seen [] = Inr ()"
| "validateOverridesFrom env rs seen (ov # ovs) =
     (if \<not> stableID (o_RuleID ov) \<or> o_RuleID ov \<in> set seen then Inl (invalidSet ''invalid or duplicate RuleSet override'')
      else case bindingOf rs (o_RuleID ov) of
        None \<Rightarrow> Inl (invalidSet ''override names unknown rule'')
      | Some b \<Rightarrow>
          if o_Enabled ov = None \<and> pentries (o_Parameters ov) = [] then Inl (invalidSet ''empty override'')
          else if \<not> list_all (\<lambda>(k, v). k \<in> set (allowedOverrideParameters (b_DefinitionID b))) (pentries (o_Parameters ov))
            then Inl (invalidSet ''parameter cannot be overridden'')
          else if pentries (o_Parameters ov) \<noteq> [] \<and>
                  \<not> okR (validateOverrideParameters env b (merge_params (cloneParameters (b_Parameters b)) (o_Parameters ov)))
            then Inl (invalidSet ''invalid override for rule'')
          else validateOverridesFrom env rs (o_RuleID ov # seen) ovs)"

definition ValidateRuleBindingOverrides :: "tpl_env \<Rightarrow> rule_set \<Rightarrow> rule_override list \<Rightarrow> goerr + unit" where
  "ValidateRuleBindingOverrides env rs ovs = validateOverridesFrom env rs [] ovs"

definition apply_override :: "rule_override list \<Rightarrow> rule_binding \<Rightarrow> rule_binding" where
  "apply_override ovs b =
     (case find (\<lambda>ov. o_RuleID ov = b_RuleID b) (rev ovs) of
        None \<Rightarrow> b
      | Some ov \<Rightarrow>
          (let b1 = (case o_Enabled ov of None \<Rightarrow> b | Some e \<Rightarrow> b\<lparr>b_Enabled := e\<rparr>)
           in if pentries (o_Parameters ov) \<noteq> []
              then b1\<lparr>b_Parameters := merge_params (b_Parameters b) (o_Parameters ov)\<rparr> else b1))"

definition effectiveRuleSetWithOverrides :: "tpl_env \<Rightarrow> rule_set \<Rightarrow> rule_override list \<Rightarrow> goerr + rule_set" where
  "effectiveRuleSetWithOverrides env rs ovs =
     bindR (ValidateRuleBindingOverrides env rs ovs) (\<lambda>_.
       Inr ((cloneRuleSet rs)\<lparr>s_Bindings := map (apply_override ovs) (s_Bindings rs), s_State := ''draft'', s_RulesetHash := []\<rparr>))"

definition RuleSetReferenceFor :: "template \<Rightarrow> rule_set_ref option" where
  "RuleSetReferenceFor t =
     (case t_RuleSetRef t of
        Some ref \<Rightarrow> Some ref
      | None \<Rightarrow> map_option (\<lambda>s. \<lparr>ref_ID = s_ID s, ref_Version = s_Version s, ref_Hash = s_RulesetHash s\<rparr>) (t_RuleSetSnapshot t))"

section \<open>Lemmas on validation\<close>

lemma validUniqueFrom_iff: "validUniqueFrom ok seen vs \<longleftrightarrow> list_all ok vs \<and> distinct vs \<and> set seen \<inter> set vs = {}"
  by (induction vs arbitrary: seen) auto

lemma validateBindings_ok:
  "validateBindings env seen bs = Inr () \<longleftrightarrow>
     (\<forall>b\<in>set bs. okR (validateRuleBinding env b)) \<and> distinct (map b_RuleID bs) \<and> set seen \<inter> b_RuleID ` set bs = {}"
proof (induction bs arbitrary: seen)
  case (Cons b bs)
  show ?case
    by (cases "validateRuleBinding env b") (auto simp: Cons.IH)
qed simp

lemma validateRuleSetContent_ok:
  "validateRuleSetContent env rs = Inr () \<longleftrightarrow>
     stableID (s_ID rs) \<and> stableID (s_Version rs) \<and> length (s_ID rs) \<le> 64 \<and> length (s_Version rs) \<le> 64 \<and>
     s_State rs \<in> {''draft'', ''published'', ''withdrawn'', ''recalled''} \<and>
     (\<forall>b\<in>set (s_Bindings rs). okR (validateRuleBinding env b)) \<and> distinct (map b_RuleID (s_Bindings rs))"
proof -
  have "s_State rs \<in> {''draft'', ''published'', ''withdrawn'', ''recalled''} \<longleftrightarrow> \<not> s_State rs \<notin> {''draft'', ''published'', ''withdrawn'', ''recalled''}"
    by blast
  then show ?thesis
    unfolding validateRuleSetContent_def by (simp only: validateBindings_ok split: if_split) auto
qed

lemma validateRuleSetContent_state:
  assumes "validateRuleSetContent env rs = Inr ()" "st \<in> {''draft'', ''published'', ''withdrawn'', ''recalled''}"
  shows "validateRuleSetContent env (rs\<lparr>s_State := st, s_RulesetHash := h\<rparr>) = Inr ()"
    and "validateRuleSetContent env (rs\<lparr>s_State := st\<rparr>) = Inr ()"
  using assms by (simp_all only: validateRuleSetContent_ok) simp_all

lemma HashRuleSet_state:
  assumes "HashRuleSet env rs = Inr h" "st \<in> {''draft'', ''published'', ''withdrawn'', ''recalled''}"
  shows "HashRuleSet env (rs\<lparr>s_State := st, s_RulesetHash := g\<rparr>) = Inr h"
    and "HashRuleSet env (rs\<lparr>s_State := st\<rparr>) = Inr h"
proof -
  from assms(1) have v: "validateRuleSetContent env rs = Inr ()" by (auto simp: HashRuleSet_def)
  show "HashRuleSet env (rs\<lparr>s_State := st, s_RulesetHash := g\<rparr>) = Inr h" "HashRuleSet env (rs\<lparr>s_State := st\<rparr>) = Inr h"
    using assms(1) v validateRuleSetContent_state [OF v assms(2)] by (simp_all add: HashRuleSet_def)
qed

lemma HashRuleSet_length: "HashRuleSet env rs = Inr h \<Longrightarrow> length h = 64 \<and> h \<noteq> []"
  by (auto simp: HashRuleSet_def split: sum.splits)

lemma ValidateRuleSet_content: "ValidateRuleSet env rs = Inr u \<Longrightarrow> validateRuleSetContent env rs = Inr ()"
  by (auto simp: ValidateRuleSet_def)

lemma ValidateRuleSet_hash:
  "ValidateRuleSet env rs = Inr u \<Longrightarrow> s_State rs \<noteq> ''draft'' \<Longrightarrow> HashRuleSet env rs = Inr (s_RulesetHash rs)"
  by (auto simp: ValidateRuleSet_def split: if_splits)

lemma ValidateRuleSet_draft:
  "s_State rs = ''draft'' \<Longrightarrow> s_RulesetHash rs = [] \<Longrightarrow> ValidateRuleSet env rs = validateRuleSetContent env rs"
  by (cases "validateRuleSetContent env rs") (auto simp: ValidateRuleSet_def)

lemma PublishRuleSet_ok:
  assumes "PublishRuleSet env rs = Inr p"
  obtains h where "s_State rs = ''draft''" "validateRuleSetContent env rs = Inr ()" "HashRuleSet env rs = Inr h"
    "list_ex b_Enabled (s_Bindings rs)" "p = rs\<lparr>s_State := ''published'', s_RulesetHash := h\<rparr>"
  using assms by (auto simp: PublishRuleSet_def split: if_splits)

lemma published_validates:
  assumes "HashRuleSet env rs = Inr h" "st \<in> {''draft'', ''published'', ''withdrawn'', ''recalled''}"
  shows "ValidateRuleSet env (rs\<lparr>s_State := st, s_RulesetHash := h\<rparr>) = Inr ()"
proof -
  have v: "validateRuleSetContent env rs = Inr ()" using assms(1) by (auto simp: HashRuleSet_def)
  then show ?thesis
    using validateRuleSetContent_state(1) [OF v assms(2), of h] HashRuleSet_state(1) [OF assms, of h] HashRuleSet_length [OF assms(1)]
    by (simp add: ValidateRuleSet_def)
qed

lemma validateRuleBinding_ok:
  "okR (validateRuleBinding env b) \<longleftrightarrow>
     stableID (b_RuleID b) \<and> \<not> blank (b_Owner b) \<and> b_Origin b \<in> {''builtin'', ''organization'', ''project''} \<and>
     (\<exists>d. ruleDefinition (b_DefinitionID b) = Some d \<and> d_Version d = b_DefinitionVersion b \<and>
        b_TriggerScenes b \<noteq> [] \<and> validUniqueValues (b_TriggerScenes b) allowedRuleScenes \<and>
        validStableRefs (b_PositiveExampleRefs b) \<and> validStableRefs (b_NegativeExampleRefs b) \<and>
        (d_AllowedTargetKinds d \<noteq> [] \<longrightarrow> b_TargetKind b \<in> set (d_AllowedTargetKinds d) \<and> stableID (b_TargetID b)) \<and>
        (d_AllowedTargetKinds d = [] \<longrightarrow> b_TargetKind b = [] \<and> b_TargetID b = []) \<and>
        list_all (\<lambda>k. plookup (b_Parameters b) k = None) serverOwnedParameters \<and>
        okR (validateRule env (binding_rule d b (b_Parameters b))))"
proof (cases "ruleDefinition (b_DefinitionID b)")
  case None
  then show ?thesis by (simp add: validateRuleBinding_def)
next
  case (Some d)
  have ex: "list_ex (\<lambda>k. plookup (b_Parameters b) k \<noteq> None) serverOwnedParameters \<longleftrightarrow>
            \<not> list_all (\<lambda>k. plookup (b_Parameters b) k = None) serverOwnedParameters"
    by (auto simp: list_ex_iff list_all_iff)
  show ?thesis
    unfolding validateRuleBinding_def cloneParameters_id Some option.case ex
    by (cases "validateRule env (binding_rule d b (b_Parameters b))"; cases "d_AllowedTargetKinds d = []";
        cases "b_Origin b \<in> {''builtin'', ''organization'', ''project''}") (simp_all del: insert_iff, blast+)
qed

lemma validBinding_definition:
  assumes "okR (validateRuleBinding env b)"
  obtains d where "ruleDefinition (b_DefinitionID b) = Some d" "validateRule env (binding_rule d b (b_Parameters b)) = Inr ()"
proof -
  from assms obtain d where "ruleDefinition (b_DefinitionID b) = Some d" "okR (validateRule env (binding_rule d b (b_Parameters b)))"
    unfolding validateRuleBinding_ok by blast
  then show ?thesis using that [of d] by (cases "validateRule env (binding_rule d b (b_Parameters b))") auto
qed

lemma compileBindings_ids:
  "compileBindings env bs = Inr rules \<Longrightarrow> map r_ID rules = map b_RuleID (filter b_Enabled bs)"
  by (induction bs arbitrary: rules) (auto simp: Let_def binding_rule_def split: if_splits option.splits)

lemma compileBindings_rules:
  "compileBindings env bs = Inr rules \<Longrightarrow> r \<in> set rules \<Longrightarrow>
     validateRule env r = Inr () \<and>
     (\<exists>b d. b \<in> set bs \<and> b_Enabled b \<and> ruleDefinition (b_DefinitionID b) = Some d \<and> r = binding_rule d b (b_Parameters b))"
proof (induction bs arbitrary: rules)
  case (Cons b bs)
  show ?case
  proof (cases "b_Enabled b")
    case True
    with Cons.prems obtain d rest where d: "ruleDefinition (b_DefinitionID b) = Some d"
      "validateRule env (binding_rule d b (b_Parameters b)) = Inr ()" "compileBindings env bs = Inr rest"
      "rules = binding_rule d b (b_Parameters b) # rest"
      by (auto simp: Let_def split: option.splits)
    show ?thesis
    proof (cases "r \<in> set rest")
      case True
      then show ?thesis using Cons.IH [OF d(3)] by auto
    next
      case False
      then have "r = binding_rule d b (b_Parameters b)" using Cons.prems(2) d(4) by simp
      then show ?thesis using d True by (metis list.set_intros(1))
    qed
  next
    case False
    then show ?thesis using Cons.prems Cons.IH [of rules] by auto
  qed
qed simp

lemma compileBindings_total:
  "(\<And>b. b \<in> set bs \<Longrightarrow> okR (validateRuleBinding env b)) \<Longrightarrow> \<exists>rules. compileBindings env bs = Inr rules"
proof (induction bs)
  case (Cons b bs)
  then obtain rules where "compileBindings env bs = Inr rules" by auto
  moreover from Cons.prems [of b] obtain d where "ruleDefinition (b_DefinitionID b) = Some d"
    "validateRule env (binding_rule d b (b_Parameters b)) = Inr ()"
    by (auto elim: validBinding_definition)
  ultimately show ?case by (auto simp: Let_def)
qed simp

lemma CompileRuleSet_ok:
  assumes "CompileRuleSet env rs = Inr rules"
  shows "ValidateRuleSet env rs = Inr ()"
    and "compileBindings env (sort_key b_RuleID (s_Bindings rs)) = Inr rules"
  using assms by (auto simp: CompileRuleSet_def)

lemma CompileRuleSet_total:
  assumes "ValidateRuleSet env rs = Inr ()"
  shows "\<exists>rules. CompileRuleSet env rs = Inr rules"
proof -
  have "\<And>b. b \<in> set (s_Bindings rs) \<Longrightarrow> okR (validateRuleBinding env b)"
    using ValidateRuleSet_content [OF assms] by (simp add: validateRuleSetContent_ok)
  then have "\<exists>rules. compileBindings env (sort_key b_RuleID (s_Bindings rs)) = Inr rules"
    by (intro compileBindings_total) simp
  then show ?thesis using assms by (simp add: CompileRuleSet_def)
qed

lemma sorted_map_filter_key: "sorted (map f xs) \<Longrightarrow> sorted (map f (filter P xs))"
  by (induction xs) auto

section \<open>Lemmas on overrides\<close>

lemma plookup_merge:
  "k \<notin> fst ` set (pentries ov) \<Longrightarrow> plookup (merge_params base ov) k = plookup base k"
proof -
  have "k \<notin> fst ` set es \<Longrightarrow> plookup (foldl (\<lambda>p (k, v). pset k v p) b es) k = plookup b k" for es b
    by (induction es arbitrary: b) (auto simp: plookup_pset)
  then show "k \<notin> fst ` set (pentries ov) \<Longrightarrow> ?thesis" by (simp add: merge_params_def)
qed

lemma bindingOf_member:
  assumes "distinct (map b_RuleID (s_Bindings rs))" "b \<in> set (s_Bindings rs)"
  shows "bindingOf rs (b_RuleID b) = Some b"
  using assms find_key_unique [of b_RuleID "rev (s_Bindings rs)" b] by (simp add: bindingOf_def rev_map [symmetric])

lemma validateOverridesFrom_ok:
  "validateOverridesFrom env rs seen ovs = Inr () \<Longrightarrow> ov \<in> set ovs \<Longrightarrow>
     \<exists>b. bindingOf rs (o_RuleID ov) = Some b \<and>
       (\<forall>k\<in>fst ` set (pentries (o_Parameters ov)). k \<in> set (allowedOverrideParameters (b_DefinitionID b))) \<and>
       (pentries (o_Parameters ov) \<noteq> [] \<longrightarrow>
          okR (validateOverrideParameters env b (merge_params (b_Parameters b) (o_Parameters ov))))"
proof (induction ovs arbitrary: seen)
  case (Cons o' os)
  from Cons.prems(1) obtain b where b: "bindingOf rs (o_RuleID o') = Some b"
    by (auto split: if_splits option.splits)
  show ?case
  proof (cases "ov = o'")
    case True
    then show ?thesis using Cons.prems(1) b by (fastforce simp: list_all_iff split: if_splits)
  next
    case False
    then show ?thesis using Cons b by (auto split: if_splits)
  qed
qed simp

text \<open>An override changes the enabled flag and parameters, nothing else.\<close>

lemma apply_override_frame:
  "b_RuleID (apply_override ovs b) = b_RuleID b" "b_DefinitionID (apply_override ovs b) = b_DefinitionID b"
  "b_DefinitionVersion (apply_override ovs b) = b_DefinitionVersion b" "b_Origin (apply_override ovs b) = b_Origin b"
  "b_TargetKind (apply_override ovs b) = b_TargetKind b" "b_TargetID (apply_override ovs b) = b_TargetID b"
  "b_Severity (apply_override ovs b) = b_Severity b" "b_Message (apply_override ovs b) = b_Message b"
  "b_TriggerScenes (apply_override ovs b) = b_TriggerScenes b"
  "b_PositiveExampleRefs (apply_override ovs b) = b_PositiveExampleRefs b"
  "b_NegativeExampleRefs (apply_override ovs b) = b_NegativeExampleRefs b" "b_Owner (apply_override ovs b) = b_Owner b"
  by (simp_all add: apply_override_def Let_def split: option.split)

lemma apply_override_rule: "binding_rule d (apply_override ovs b) p = binding_rule d b p"
  unfolding binding_rule_def binding_params_def apply_override_frame by (rule refl)

lemma apply_override_params:
  assumes "validateOverridesFrom env rs [] ovs = Inr ()" "distinct (map b_RuleID (s_Bindings rs))" "b \<in> set (s_Bindings rs)"
  shows "b_Parameters (apply_override ovs b) = b_Parameters b \<or>
     (\<exists>ov :: rule_override. b_Parameters (apply_override ovs b) = merge_params (b_Parameters b) (o_Parameters ov) \<and>
        (\<forall>k\<in>fst ` set (pentries (o_Parameters ov)). k \<in> set (allowedOverrideParameters (b_DefinitionID b))) \<and>
        okR (validateOverrideParameters env b (merge_params (b_Parameters b) (o_Parameters ov))))"
proof (cases "find (\<lambda>ov. o_RuleID ov = b_RuleID b) (rev ovs)")
  case None
  then show ?thesis by (simp add: apply_override_def)
next
  case (Some ov)
  then have ov: "ov \<in> set ovs" "o_RuleID ov = b_RuleID b" using find_Some_in [OF Some] by auto
  have p: "b_Parameters (apply_override ovs b) =
      (if pentries (o_Parameters ov) \<noteq> [] then merge_params (b_Parameters b) (o_Parameters ov) else b_Parameters b)"
    by (simp add: apply_override_def Some Let_def split: option.split)
  from validateOverridesFrom_ok [OF assms(1) ov(1)] bindingOf_member [OF assms(2,3)] ov(2)
  have "\<forall>k\<in>fst ` set (pentries (o_Parameters ov)). k \<in> set (allowedOverrideParameters (b_DefinitionID b))"
    "pentries (o_Parameters ov) \<noteq> [] \<longrightarrow> okR (validateOverrideParameters env b (merge_params (b_Parameters b) (o_Parameters ov)))"
    by simp_all
  then show ?thesis using p by (cases "pentries (o_Parameters ov) = []") auto
qed

lemma allowedOverride_not_server_owned:
  "k \<in> set (allowedOverrideParameters d) \<Longrightarrow> k \<notin> set serverOwnedParameters"
  by (auto simp: allowedOverrideParameters_def serverOwnedParameters_def split: if_splits)

lemma apply_override_valid:
  assumes "validateOverridesFrom env rs [] ovs = Inr ()" "distinct (map b_RuleID (s_Bindings rs))" "b \<in> set (s_Bindings rs)"
    and "okR (validateRuleBinding env b)"
  shows "okR (validateRuleBinding env (apply_override ovs b))"
proof -
  from assms(4) obtain d where d: "ruleDefinition (b_DefinitionID b) = Some d"
    and own: "list_all (\<lambda>k. plookup (b_Parameters b) k = None) serverOwnedParameters"
    and v: "okR (validateRule env (binding_rule d b (b_Parameters b)))"
    by (auto simp: validateRuleBinding_ok)
  have "list_all (\<lambda>k. plookup (b_Parameters (apply_override ovs b)) k = None) serverOwnedParameters \<and>
        okR (validateRule env (binding_rule d b (b_Parameters (apply_override ovs b))))"
    using apply_override_params [OF assms(1-3)]
  proof (elim disjE exE conjE)
    fix ov :: rule_override
    assume p: "b_Parameters (apply_override ovs b) = merge_params (b_Parameters b) (o_Parameters ov)"
      and a: "\<forall>k\<in>fst ` set (pentries (o_Parameters ov)). k \<in> set (allowedOverrideParameters (b_DefinitionID b))"
      and o: "okR (validateOverrideParameters env b (merge_params (b_Parameters b) (o_Parameters ov)))"
    have "plookup (b_Parameters (apply_override ovs b)) k = None" if "k \<in> set serverOwnedParameters" for k
    proof -
      have "k \<notin> fst ` set (pentries (o_Parameters ov))" using that a allowedOverride_not_server_owned by blast
      then show ?thesis using own that p by (simp add: plookup_merge list_all_iff)
    qed
    then show ?thesis using o p d by (simp add: validateOverrideParameters_def list_all_iff)
  qed (use own v in simp)
  then show ?thesis using assms(4) d by (auto simp: validateRuleBinding_ok apply_override_frame apply_override_rule)
qed

lemma effective_content:
  assumes "validateRuleSetContent env rs = Inr ()" "effectiveRuleSetWithOverrides env rs ovs = Inr eff"
  shows "eff = rs\<lparr>s_Bindings := map (apply_override ovs) (s_Bindings rs), s_State := ''draft'', s_RulesetHash := []\<rparr>"
    and "ValidateRuleSet env eff = Inr ()"
proof -
  show eff: "eff = rs\<lparr>s_Bindings := map (apply_override ovs) (s_Bindings rs), s_State := ''draft'', s_RulesetHash := []\<rparr>"
    using assms(2) by (auto simp: effectiveRuleSetWithOverrides_def)
  have v: "validateOverridesFrom env rs [] ovs = Inr ()"
    using assms(2) by (auto simp: effectiveRuleSetWithOverrides_def ValidateRuleBindingOverrides_def)
  have c: "stableID (s_ID rs) \<and> stableID (s_Version rs) \<and> length (s_ID rs) \<le> 64 \<and> length (s_Version rs) \<le> 64"
    "\<forall>b\<in>set (s_Bindings rs). okR (validateRuleBinding env b)" "distinct (map b_RuleID (s_Bindings rs))"
    using assms(1) by (simp_all add: validateRuleSetContent_ok)
  have ids: "map (b_RuleID \<circ> apply_override ovs) (s_Bindings rs) = map b_RuleID (s_Bindings rs)"
    by (simp add: apply_override_frame)
  then have "validateRuleSetContent env eff = Inr ()"
    using c apply_override_valid [OF v c(3)] by (simp add: validateRuleSetContent_ok eff ids)
  then show "ValidateRuleSet env eff = Inr ()"
    using ValidateRuleSet_draft [of eff env] by (simp add: eff)
qed

section \<open>A concrete rule set\<close>

definition demo_tenv :: tpl_env where
  "demo_tenv = \<lparr>te_compile = (\<lambda>_. Some (\<lambda>_. True)), te_marshalRules = (\<lambda>_. Inr ''rules''), te_marshalTemplate = (\<lambda>_. Inr ''template''),
     te_marshalRuleSet = (\<lambda>i v bs. Inr (i @ v)), te_marshalBound = (\<lambda>_. Inr ''bound''), te_marshalIssue = (\<lambda>_. Inr ''issue'')\<rparr>"

definition demo_binding :: "string \<Rightarrow> rule_binding" where
  "demo_binding i = \<lparr>b_RuleID = i, b_DefinitionID = ''computed/word_count'', b_DefinitionVersion = ''1'', b_Origin = ''project'',
     b_TargetKind = ''field'', b_TargetID = ''goal'', b_Parameters = Some [(''minimum'', JInt 3)], b_Severity = ''blocking'', b_Message = [],
     b_TriggerScenes = [''write_check''], b_PositiveExampleRefs = [], b_NegativeExampleRefs = [], b_Enabled = True, b_Owner = ''team''\<rparr>"

definition demo_set :: rule_set where
  "demo_set = \<lparr>s_ID = ''rs1'', s_Version = ''1'', s_State = ''draft'', s_Bindings = [demo_binding ''r2'', demo_binding ''r1''], s_RulesetHash = []\<rparr>"

lemma demo_definition: "ruleDefinition ''computed/word_count'' = Some (mk_def ''computed/word_count'' ''computed'' ''word_count'' [''field'', ''chapter''])"
  by (simp add: ruleDefinition_def builtInRuleDefinitions_def mk_def_def)

lemma demo_not_blank: "\<not> blank ''team''"
  by (simp add: blank_def trim_space_visible visible_ascii_def ncode_def)

lemma demo_binding_valid:
  assumes "i \<in> {''r1'', ''r2''}" "mn \<in> {3, 5}"
  shows "okR (validateRuleBinding demo_tenv ((demo_binding i)\<lparr>b_Parameters := Some [(''minimum'', JInt mn)]\<rparr>))"
  unfolding validateRuleBinding_ok
  using assms demo_not_blank
  by (auto simp: demo_binding_def demo_definition mk_def_def stableID_def id_head_def ncode_def validUniqueValues_def allowedRuleScenes_def
      validStableRefs_def serverOwnedParameters_def plookup_def binding_rule_def binding_params_def pset_def validateRule_def
      rule_kind_check_def validSeverity_def plainEvaluators_def validTextTarget_def validTarget_def pstring_def validCountBounds_def
      numeric_def pkeys_def id_tail_def)

lemma demo_bindings_valid: "okR (validateRuleBinding demo_tenv (demo_binding ''r1''))" "okR (validateRuleBinding demo_tenv (demo_binding ''r2''))"
  using demo_binding_valid [of "''r1''" 3] demo_binding_valid [of "''r2''" 3] by (simp_all add: demo_binding_def)

lemma demo_set_content: "validateRuleSetContent demo_tenv demo_set = Inr ()"
  using demo_bindings_valid
  by (simp add: validateRuleSetContent_ok demo_set_def stableID_def id_head_def id_tail_def ncode_def demo_binding_def)

lemma demo_set_hash: "HashRuleSet demo_tenv demo_set = Inr (sha256_hex ''rs11'')"
  using demo_set_content by (simp add: HashRuleSet_def demo_tenv_def demo_set_def)

lemma demo_publish:
  "PublishRuleSet demo_tenv demo_set = Inr (demo_set\<lparr>s_State := ''published'', s_RulesetHash := sha256_hex ''rs11''\<rparr>)"
  using demo_set_content demo_set_hash by (simp add: PublishRuleSet_def demo_set_def demo_binding_def)

definition demo_published :: rule_set where
  "demo_published = demo_set\<lparr>s_State := ''published'', s_RulesetHash := sha256_hex ''rs11''\<rparr>"

lemma demo_published_valid: "ValidateRuleSet demo_tenv demo_published = Inr ()"
  unfolding demo_published_def by (rule published_validates [OF demo_set_hash]) simp

definition demo_override :: rule_override where
  "demo_override = \<lparr>o_RuleID = ''r1'', o_Enabled = Some False, o_Parameters = Some [(''minimum'', JInt 5)]\<rparr>"

lemma demo_effective:
  "effectiveRuleSetWithOverrides demo_tenv demo_published [demo_override] =
     Inr (demo_published\<lparr>s_Bindings := [demo_binding ''r2'', (demo_binding ''r1'')\<lparr>b_Enabled := False, b_Parameters := Some [(''minimum'', JInt 5)]\<rparr>],
       s_State := ''draft'', s_RulesetHash := []\<rparr>)"
proof -
  have b: "okR (validateOverrideParameters demo_tenv (demo_binding ''r1'') (Some [(''minimum'', JInt 5)]))"
    using demo_binding_valid [of "''r1''" 5]
    by (auto simp: validateOverrideParameters_def validateRuleBinding_ok demo_binding_def demo_definition binding_rule_def binding_params_def)
  have st: "stableID ''r1''" by (simp add: stableID_def id_head_def ncode_def id_tail_def)
  have bo: "bindingOf demo_published ''r1'' = Some (demo_binding ''r1'')"
    by (simp add: bindingOf_def demo_published_def demo_set_def demo_binding_def)
  have mg: "merge_params (b_Parameters (demo_binding ''r1'')) (Some [(''minimum'', JInt 5)]) = Some [(''minimum'', JInt 5)]"
    by (simp add: merge_params_def pentries_def demo_binding_def pset_def)
  have "ValidateRuleBindingOverrides demo_tenv demo_published [demo_override] = Inr ()"
    using b st bo mg
    by (simp add: ValidateRuleBindingOverrides_def demo_override_def pentries_def allowedOverrideParameters_def demo_binding_def)
  then show ?thesis
    using mg by (simp add: effectiveRuleSetWithOverrides_def apply_override_def demo_published_def demo_set_def demo_override_def pentries_def demo_binding_def Let_def)
qed

section \<open>Properties\<close>

text \<open>
  Publishing yields a bindable, sealed version: the published rule set passes the binding gate, keeps
  identity and bindings of the draft, carries the server-computed hash of its content, and has an enabled
  binding; a hash supplied with the draft makes no difference.
\<close>

theorem publish_seals:
  assumes "PublishRuleSet env rs = Inr p"
  shows "CanBindRuleSet env p = Inr () \<and> s_ID p = s_ID rs \<and> s_Version p = s_Version rs \<and> s_Bindings p = s_Bindings rs \<and>
         HashRuleSet env p = Inr (s_RulesetHash p) \<and> length (s_RulesetHash p) = 64 \<and> list_ex b_Enabled (s_Bindings p) \<and>
         PublishRuleSet env (rs\<lparr>s_RulesetHash := forged\<rparr>) = Inr p"
proof -
  from assms obtain h where d: "s_State rs = ''draft''" and c: "validateRuleSetContent env rs = Inr ()"
    and h: "HashRuleSet env rs = Inr h" and e: "list_ex b_Enabled (s_Bindings rs)"
    and p: "p = rs\<lparr>s_State := ''published'', s_RulesetHash := h\<rparr>"
    by (rule PublishRuleSet_ok)
  have "CanBindRuleSet env p = Inr ()"
    using published_validates [OF h, of "''published''"] by (simp add: CanBindRuleSet_def p)
  moreover have "HashRuleSet env p = Inr (s_RulesetHash p)"
    using HashRuleSet_state(1) [OF h, of "''published''" h] by (simp add: p)
  moreover have eq: "rs\<lparr>s_RulesetHash := forged\<rparr> = rs\<lparr>s_State := ''draft'', s_RulesetHash := forged\<rparr>" using d by simp
  have "validateRuleSetContent env (rs\<lparr>s_RulesetHash := forged\<rparr>) = Inr ()" "HashRuleSet env (rs\<lparr>s_RulesetHash := forged\<rparr>) = Inr h"
    unfolding eq by (rule validateRuleSetContent_state(1) [OF c], simp) (rule HashRuleSet_state(1) [OF h], simp)
  then have "PublishRuleSet env (rs\<lparr>s_RulesetHash := forged\<rparr>) = Inr p"
    using d e by (simp add: PublishRuleSet_def p)
  ultimately show ?thesis using e p HashRuleSet_length [OF h] by simp
qed

theorem publish_seals_witness:
  "CanBindRuleSet demo_tenv demo_published = Inr () \<and> s_ID demo_published = s_ID demo_set \<and> s_Version demo_published = s_Version demo_set \<and>
   s_Bindings demo_published = s_Bindings demo_set \<and> HashRuleSet demo_tenv demo_published = Inr (s_RulesetHash demo_published) \<and>
   length (s_RulesetHash demo_published) = 64 \<and> list_ex b_Enabled (s_Bindings demo_published) \<and>
   PublishRuleSet demo_tenv (demo_set\<lparr>s_RulesetHash := ''forged''\<rparr>) = Inr demo_published"
  by (rule publish_seals) (use demo_publish in \<open>simp add: demo_published_def\<close>)

text \<open>
  Withdrawing and recalling stop new use and keep history: the result has the same identity, bindings
  and hash, still validates (so it can be replayed), is refused by the binding gate, and neither operation
  applies a second time.
\<close>

theorem withdrawn_is_history:
  assumes "WithdrawRuleSet env rs = Inr w \<or> RecallRuleSet env rs = Inr w"
  shows "s_ID w = s_ID rs \<and> s_Version w = s_Version rs \<and> s_Bindings w = s_Bindings rs \<and> s_RulesetHash w = s_RulesetHash rs \<and>
         ValidateRuleSet env w = Inr () \<and> CanBindRuleSet env w = Inl (Sentinel ErrRuleSetNotPublished) \<and>
         WithdrawRuleSet env w = Inl (Sentinel ErrRuleSetNotPublished) \<and> RecallRuleSet env w = Inl (Sentinel ErrRuleSetNotPublished)"
proof -
  from assms obtain st where st: "st \<in> {''withdrawn'', ''recalled''}" and t: "transitionRuleSet env rs st = Inr w"
    by (auto simp: WithdrawRuleSet_def RecallRuleSet_def)
  then have v: "ValidateRuleSet env rs = Inr ()" "s_State rs = ''published''" "w = rs\<lparr>s_State := st\<rparr>"
    by (auto simp: transitionRuleSet_def split: if_splits)
  then have h: "HashRuleSet env rs = Inr (s_RulesetHash rs)" using ValidateRuleSet_hash [OF v(1)] by simp
  have "w = rs\<lparr>s_State := st, s_RulesetHash := s_RulesetHash rs\<rparr>" using v by simp
  then have "ValidateRuleSet env w = Inr ()" using published_validates [OF h, of st] st by auto
  then show ?thesis
    using st v by (auto simp: CanBindRuleSet_def WithdrawRuleSet_def RecallRuleSet_def transitionRuleSet_def)
qed

theorem withdrawn_is_history_witness:
  "s_ID (demo_published\<lparr>s_State := ''recalled''\<rparr>) = s_ID demo_published \<and> s_Version (demo_published\<lparr>s_State := ''recalled''\<rparr>) = s_Version demo_published \<and>
   s_Bindings (demo_published\<lparr>s_State := ''recalled''\<rparr>) = s_Bindings demo_published \<and>
   s_RulesetHash (demo_published\<lparr>s_State := ''recalled''\<rparr>) = s_RulesetHash demo_published \<and>
   ValidateRuleSet demo_tenv (demo_published\<lparr>s_State := ''recalled''\<rparr>) = Inr () \<and>
   CanBindRuleSet demo_tenv (demo_published\<lparr>s_State := ''recalled''\<rparr>) = Inl (Sentinel ErrRuleSetNotPublished) \<and>
   WithdrawRuleSet demo_tenv (demo_published\<lparr>s_State := ''recalled''\<rparr>) = Inl (Sentinel ErrRuleSetNotPublished) \<and>
   RecallRuleSet demo_tenv (demo_published\<lparr>s_State := ''recalled''\<rparr>) = Inl (Sentinel ErrRuleSetNotPublished)"
  by (rule withdrawn_is_history) (simp add: RecallRuleSet_def transitionRuleSet_def demo_published_valid, simp add: demo_published_def)

text \<open>
  The rule set hash does not depend on the order of the bindings: a rule set with the same bindings in
  another order has the same hash.
\<close>

theorem hash_ignores_binding_order:
  assumes "HashRuleSet env rs = Inr h" "mset bs = mset (s_Bindings rs)"
  shows "HashRuleSet env (rs\<lparr>s_Bindings := bs\<rparr>) = Inr h"
proof -
  have v: "validateRuleSetContent env rs = Inr ()" using assms(1) by (auto simp: HashRuleSet_def)
  then have d: "distinct (map b_RuleID (s_Bindings rs))" by (simp add: validateRuleSetContent_ok)
  have "sort_key b_RuleID bs = sort_key b_RuleID (s_Bindings rs)"
    using sort_key_mset_cong [of "s_Bindings rs" bs b_RuleID] assms(2) d by simp
  then have "canonicalBindings bs = canonicalBindings (s_Bindings rs)" by (simp add: canonicalBindings_def)
  moreover have "validateRuleSetContent env (rs\<lparr>s_Bindings := bs\<rparr>) = Inr ()"
    using v assms(2) mset_eq_setD [OF assms(2)] distinct_map_perm [OF assms(2), of b_RuleID]
    by (simp add: validateRuleSetContent_ok)
  ultimately show ?thesis using assms(1) v by (simp add: HashRuleSet_def)
qed

theorem hash_ignores_binding_order_witness:
  "HashRuleSet demo_tenv (demo_set\<lparr>s_Bindings := [demo_binding ''r1'', demo_binding ''r2'']\<rparr>) = Inr (sha256_hex ''rs11'')"
  by (rule hash_ignores_binding_order [OF demo_set_hash]) (simp add: demo_set_def)

text \<open>
  Compilation is exactly the enabled bindings: the compiled rules are in the order of their
  identifiers, without repetition, one for each enabled binding; each passes rule validation, and its kind
  and evaluator come from the server's catalogue, its severity from the binding.
\<close>

theorem compile_is_enabled_bindings:
  assumes "CompileRuleSet env rs = Inr rules"
  shows "sorted (map r_ID rules) \<and> distinct (map r_ID rules) \<and>
         set (map r_ID rules) = b_RuleID ` {b \<in> set (s_Bindings rs). b_Enabled b} \<and>
         (\<forall>r\<in>set rules. validateRule env r = Inr () \<and>
            (\<exists>b d. b \<in> set (s_Bindings rs) \<and> b_Enabled b \<and> ruleDefinition (b_DefinitionID b) = Some d \<and>
               r_Kind r = d_Kind d \<and> r_Evaluator r = d_Evaluator d \<and> r_Severity r = b_Severity b))"
proof -
  have v: "ValidateRuleSet env rs = Inr ()" and c: "compileBindings env (sort_key b_RuleID (s_Bindings rs)) = Inr rules"
    using assms by (rule CompileRuleSet_ok)+
  have d: "distinct (map b_RuleID (s_Bindings rs))"
    using ValidateRuleSet_content [OF v] by (simp add: validateRuleSetContent_ok)
  have ids: "map r_ID rules = map b_RuleID (filter b_Enabled (sort_key b_RuleID (s_Bindings rs)))"
    using c by (rule compileBindings_ids)
  have "sorted (map r_ID rules)" unfolding ids by (rule sorted_map_filter_key) simp
  moreover have "distinct (map b_RuleID (sort_key b_RuleID (s_Bindings rs)))"
    using d distinct_map_perm [of "sort_key b_RuleID (s_Bindings rs)" "s_Bindings rs" b_RuleID] by simp
  then have "distinct (map r_ID rules)" unfolding ids by (rule distinct_map_filter)
  moreover have "set (map r_ID rules) = b_RuleID ` {b \<in> set (s_Bindings rs). b_Enabled b}" unfolding ids by auto
  moreover have "validateRule env r = Inr () \<and>
      (\<exists>b d. b \<in> set (s_Bindings rs) \<and> b_Enabled b \<and> ruleDefinition (b_DefinitionID b) = Some d \<and>
         r_Kind r = d_Kind d \<and> r_Evaluator r = d_Evaluator d \<and> r_Severity r = b_Severity b)" if "r \<in> set rules" for r
    using compileBindings_rules [OF c that] by (auto simp: binding_rule_def)
  ultimately show ?thesis by blast
qed

theorem compile_is_enabled_bindings_witness:
  "\<exists>rules. CompileRuleSet demo_tenv demo_published = Inr rules \<and> set (map r_ID rules) = {''r1'', ''r2''} \<and> sorted (map r_ID rules)"
proof -
  obtain rules where r: "CompileRuleSet demo_tenv demo_published = Inr rules"
    using CompileRuleSet_total [OF demo_published_valid] by blast
  have f: "b_RuleID (demo_binding i) = i" "b_Enabled (demo_binding i)" for i by (simp_all add: demo_binding_def)
  have "set (s_Bindings demo_published) = {demo_binding ''r1'', demo_binding ''r2''}"
    unfolding demo_published_def demo_set_def by auto
  then have "{b \<in> set (s_Bindings demo_published). b_Enabled b} = {demo_binding ''r1'', demo_binding ''r2''}"
    using f(2) by blast
  then have "b_RuleID ` {b \<in> set (s_Bindings demo_published). b_Enabled b} = {''r1'', ''r2''}"
    by (simp only: image_insert image_empty f(1))
  with compile_is_enabled_bindings [OF r] r show ?thesis by (intro exI [of _ rules]) (simp only: simp_thms)
qed

text \<open>
  Overrides stay inside their fence: the effective rule set of a project has the same bindings in the
  same order with the same definition, severity, target and trigger scenes; a parameter differs only when
  the binding's definition allows that parameter to be overridden; and the effective set always compiles.
\<close>

theorem overrides_stay_in_fence:
  assumes "ValidateRuleSet env rs = Inr ()" "effectiveRuleSetWithOverrides env rs ovs = Inr eff"
  shows "(\<exists>rules. CompileRuleSet env eff = Inr rules) \<and>
    list_all2 (\<lambda>b e. b_RuleID e = b_RuleID b \<and> b_DefinitionID e = b_DefinitionID b \<and> b_Severity e = b_Severity b \<and>
        b_TargetKind e = b_TargetKind b \<and> b_TargetID e = b_TargetID b \<and> b_TriggerScenes e = b_TriggerScenes b \<and>
        (\<forall>k. k \<notin> set (allowedOverrideParameters (b_DefinitionID b)) \<longrightarrow>
            plookup (b_Parameters e) k = plookup (b_Parameters b) k))
      (s_Bindings rs) (s_Bindings eff)"
proof -
  note c = ValidateRuleSet_content [OF assms(1)]
  have eff: "s_Bindings eff = map (apply_override ovs) (s_Bindings rs)" using effective_content(1) [OF c assms(2)] by simp
  have v: "validateOverridesFrom env rs [] ovs = Inr ()"
    using assms(2) by (auto simp: effectiveRuleSetWithOverrides_def ValidateRuleBindingOverrides_def)
  have d: "distinct (map b_RuleID (s_Bindings rs))" using c by (simp add: validateRuleSetContent_ok)
  have "plookup (b_Parameters (apply_override ovs b)) k = plookup (b_Parameters b) k"
    if "b \<in> set (s_Bindings rs)" "k \<notin> set (allowedOverrideParameters (b_DefinitionID b))" for b k
    using apply_override_params [OF v d that(1)] that(2) plookup_merge by metis
  then have "list_all2 (\<lambda>b e. b_RuleID e = b_RuleID b \<and> b_DefinitionID e = b_DefinitionID b \<and> b_Severity e = b_Severity b \<and>
        b_TargetKind e = b_TargetKind b \<and> b_TargetID e = b_TargetID b \<and> b_TriggerScenes e = b_TriggerScenes b \<and>
        (\<forall>k. k \<notin> set (allowedOverrideParameters (b_DefinitionID b)) \<longrightarrow>
            plookup (b_Parameters e) k = plookup (b_Parameters b) k))
      (s_Bindings rs) (s_Bindings eff)"
    unfolding eff by (simp add: list_all2_map2 list_all2_same apply_override_frame)
  moreover have "\<exists>rules. CompileRuleSet env eff = Inr rules"
    using effective_content(2) [OF c assms(2)] by (rule CompileRuleSet_total)
  ultimately show ?thesis by blast
qed

theorem overrides_stay_in_fence_witness:
  "\<exists>eff rules. effectiveRuleSetWithOverrides demo_tenv demo_published [demo_override] = Inr eff \<and> CompileRuleSet demo_tenv eff = Inr rules"
  using overrides_stay_in_fence [OF demo_published_valid demo_effective] demo_effective by blast

end
