(* ===== verification/Template_Check.thy ===== *)
theory Template_Check
  imports Rule_Set
begin

text \<open>
  Templates as a whole: validation, the server-computed hashes, the verified binding of a rule set, and
  the deterministic evaluator of \<^verbatim>\<open>template/governance.go\<close>, \<^verbatim>\<open>template/binding.go\<close>, the second half of
  \<^verbatim>\<open>template/ruleset.go\<close>, and the demo catalogue of \<^verbatim>\<open>template/contract.go\<close>.

  A type assertion without its ok flag and \<^verbatim>\<open>regexp.MustCompile\<close> panic in Go; here they give the error
  \<^verbatim>\<open>panic\<close>, and the theorems show that no evaluation of a validated template reaches one.
  \<^verbatim>\<open>sort.Slice\<close> is \<^const>\<open>sort_key\<close>: where two entries have the same key (two chapters with one
  identifier in the input) Go's sort may order them either way, the model keeps their input order.
  \<^verbatim>\<open>reflect.DeepEqual\<close> of two override lists is equality; a nil and an empty list are one value here.
\<close>

section \<open>Inputs and results\<close>

text \<open>\<^verbatim>\<open>EvaluationZero\<close> is the zero value of the Go string type, which no constant names.\<close>

datatype eval_status = EvaluationPass | EvaluationIssue | EvaluationUnknown | EvaluationNotApplicable | EvaluationZero

record chapter_input =
  ci_ID :: string
  ci_Version :: string
  ci_Body :: string
  ci_Confirmed :: bool

record source_input =
  si_ID :: string
  si_Version :: string
  si_Available :: bool

record review_input =
  ri_ID :: string
  ri_Version :: string
  ri_Decided :: bool

record eval_input =
  in_ProjectID :: string
  in_TargetVersion :: string
  in_Fields :: "string \<rightharpoonup> string"
  in_Chapters :: "chapter_input list"
  in_Sources :: "source_input list"
  in_ReviewItems :: "review_input list"

record evaluation =
  e_ID :: string
  e_RuleID :: string
  e_RuleSetID :: string
  e_RuleSetVersion :: string
  e_TargetRef :: string
  e_TargetVersion :: string
  e_RulesetHash :: string
  e_Status :: eval_status
  e_Severity :: string
  e_Message :: string
  e_Evidence :: "string list"
  e_EvaluatorVersion :: string

record verified_binding =
  vb_Snapshot :: rule_set
  vb_Reference :: rule_set_ref
  vb_Overrides :: "rule_override list"
  vb_EffectiveHash :: string
  vb_ContentHash :: string

definition EvaluatorVersion :: string where
  "EvaluatorVersion = ''lingdoc-rules/1''"

section \<open>The demo catalogue\<close>

definition DemoTemplateID :: string where "DemoTemplateID = ''template-demo''"

definition DemoTemplateVersion :: string where "DemoTemplateVersion = ''1''"

definition DemoRulesetHash :: string where
  "DemoRulesetHash = ''ad814c1ffba1956c0654abd1fc7fc48fad526109f43406633f05861116ec15a1''"

definition DemoRouteTemplateVersion :: string where "DemoRouteTemplateVersion = ''2''"

definition DemoRequiredRouteNodeID :: string where "DemoRequiredRouteNodeID = ''route-r7''"

definition DemoRouteTemplateRulesetHash :: string where
  "DemoRouteTemplateRulesetHash = ''eb4106f0dfebcb5fc56a837e01e931e4d4f482dc99ffe8e4d6770272c4924139''"

text \<open>The five demo rules differ in identifier and evaluator only.\<close>

definition demo_rule :: "string \<Rightarrow> string \<Rightarrow> rule" where
  "demo_rule i evaluator = \<lparr>r_ID = i, r_Kind = ''computed'', r_Severity = ''blocking'', r_Evaluator = evaluator,
     r_Message = [], r_Parameters = Some []\<rparr>"

definition DemoTemplate :: template where
  "DemoTemplate = \<lparr>t_ID = DemoTemplateID,
     t_Name = bytes [230,188,148,231,164,186,230,168,161,230,157,191,239,188,154,231,160,148,231,169,182,233,151,174,233,162,152,228,184,142,231,160,148,231,169,182,230,150,185,230,161,136],
     t_Version = DemoTemplateVersion, t_IsDemo = True, t_Source = ''lingdoc_builtin'', t_Scope = ''internal-demo'',
     t_Sections =
       [\<lparr>sec_ID = ''question'', sec_Title = bytes [231,160,148,231,169,182,233,151,174,233,162,152], sec_Description = [], sec_Order = 1, sec_Required = True\<rparr>,
        \<lparr>sec_ID = ''method'', sec_Title = bytes [231,160,148,231,169,182,230,150,185,230,161,136], sec_Description = [], sec_Order = 2, sec_Required = True\<rparr>],
     t_Fields =
       [\<lparr>f_ID = ''research_subject'', f_Label = bytes [231,160,148,231,169,182,229,175,185,232,177,161], f_Description = [],
          f_Type = ''string'', f_Order = 1, f_Required = True, f_Options = []\<rparr>,
        \<lparr>f_ID = ''research_goal'', f_Label = bytes [231,160,148,231,169,182,231,155,174,230,160,135], f_Description = [],
          f_Type = ''string'', f_Order = 2, f_Required = True, f_Options = []\<rparr>],
     t_Terms = [], t_RequiredFields = [''research_subject'', ''research_goal''],
     t_RulesetHash = DemoRulesetHash, t_ContentHash = [],
     t_Rules =
       [demo_rule ''required-fields'' ''required_fields'', demo_rule ''chapter-nonempty'' ''nonempty_chapter'',
        demo_rule ''chapter-confirmed'' ''confirmed_chapter'', demo_rule ''review-items-decided'' ''review_items_decided'',
        demo_rule ''source-available'' ''source_available''],
     t_RuleSetSnapshot = None, t_RuleSetRef = None, t_RuleBindingOverrides = []\<rparr>"

definition DemoRouteTemplate :: template where
  "DemoRouteTemplate = DemoTemplate\<lparr>t_Version := DemoRouteTemplateVersion,
     t_Fields := t_Fields DemoTemplate @
       [\<lparr>f_ID = DemoRequiredRouteNodeID,
          f_Label = bytes [230,138,128,230,156,175,232,183,175,231,186,191,32,82,55,239,188,136,230,188,148,231,164,186,229,191,133,233,156,128,232,138,130,231,130,185,239,188,137],
          f_Description = [], f_Type = ''text'', f_Order = 3, f_Required = True, f_Options = []\<rparr>],
     t_RequiredFields := t_RequiredFields DemoTemplate @ [DemoRequiredRouteNodeID],
     t_Rules := t_Rules DemoTemplate @
       [\<lparr>r_ID = ''route-node-required'', r_Kind = ''presence'', r_Severity = ''blocking'', r_Evaluator = [], r_Message = [],
          r_Parameters = Some [(''target_kind'', JStr ''field''), (''target_id'', JStr DemoRequiredRouteNodeID)]\<rparr>],
     t_RulesetHash := DemoRouteTemplateRulesetHash\<rparr>"

definition FixedDemoReader_Get :: "string \<Rightarrow> string \<Rightarrow> goerr + template" where
  "FixedDemoReader_Get i version =
     (if i \<noteq> DemoTemplateID then Inl (Wrapped (''published template version not found: '' @ i) (Sentinel ErrVersionNotFound))
      else if version = DemoTemplateVersion then Inr DemoTemplate
      else if version = DemoRouteTemplateVersion then Inr DemoRouteTemplate
      else Inl (Wrapped (''published template version not found: '' @ i) (Sentinel ErrVersionNotFound)))"

section \<open>Validation of a template\<close>

fun validateSections :: "string list \<Rightarrow> section_def list \<Rightarrow> goerr + unit" where
  "validateSections seen [] = Inr ()"
| "validateSections seen (x # xs) =
     (if \<not> stableID (sec_ID x) \<or> blank (sec_Title x) \<or> sec_ID x \<in> set seen then Inl (invalidDef ''invalid or duplicate section'')
      else validateSections (sec_ID x # seen) xs)"

fun validateFields :: "string list \<Rightarrow> field_def list \<Rightarrow> goerr + unit" where
  "validateFields seen [] = Inr ()"
| "validateFields seen (x # xs) =
     (if \<not> stableID (f_ID x) \<or> blank (f_Label x) \<or> f_ID x \<in> set seen \<or> \<not> validFieldType (f_Type x)
        then Inl (invalidDef ''invalid or duplicate field'')
      else if f_Type x = ''enum'' \<and> f_Options x = [] then Inl (invalidDef ''enum field has no options'')
      else validateFields (f_ID x # seen) xs)"

fun validateRequired :: "string list \<Rightarrow> string list \<Rightarrow> goerr + unit" where
  "validateRequired fieldIDs [] = Inr ()"
| "validateRequired fieldIDs (i # is) =
     (if \<not> stableID i then Inl (invalidDef ''invalid required field'')
      else if fieldIDs \<noteq> [] \<and> i \<notin> set fieldIDs then Inl (invalidDef ''required field is not defined'')
      else validateRequired fieldIDs is)"

fun validateTerms :: "string list \<Rightarrow> term_def list \<Rightarrow> goerr + unit" where
  "validateTerms seen [] = Inr ()"
| "validateTerms seen (x # xs) =
     (if \<not> stableID (tm_ID x) \<or> blank (tm_Preferred x) \<or> tm_ID x \<in> set seen then Inl (invalidDef ''invalid or duplicate term'')
      else if list_ex (\<lambda>v. blank v \<or> v = tm_Preferred x) (tm_Variants x) then Inl (invalidDef ''invalid variant for term'')
      else validateTerms (tm_ID x # seen) xs)"

fun validateRules :: "tpl_env \<Rightarrow> string list \<Rightarrow> rule list \<Rightarrow> goerr + unit" where
  "validateRules env seen [] = Inr ()"
| "validateRules env seen (r # rs) =
     (if \<not> stableID (r_ID r) \<or> r_ID r \<in> set seen \<or> \<not> validSeverity (r_Severity r)
        then Inl (invalidDef ''invalid or duplicate rule'')
      else bindR (validateRule env r) (\<lambda>_. validateRules env (r_ID r # seen) rs))"

definition validateSnapshot :: "tpl_env \<Rightarrow> template \<Rightarrow> rule_set \<Rightarrow> goerr + unit" where
  "validateSnapshot env t snap =
     (if (case t_RuleSetRef t of None \<Rightarrow> False
          | Some ref \<Rightarrow> ref_ID ref \<noteq> s_ID snap \<or> ref_Version ref \<noteq> s_Version snap \<or> ref_Hash ref \<noteq> s_RulesetHash snap)
        then Inl (invalidDef ''RuleSet reference does not match its immutable snapshot'')
      else case CanBindRuleSet env snap of
        Inl e \<Rightarrow> Inl (invalidDef (''template rule set snapshot is not bindable: '' @ err_msg e))
      | Inr _ \<Rightarrow> (case effectiveRuleSetWithOverrides env snap (t_RuleBindingOverrides t) of
            Inl e \<Rightarrow> Inl (invalidDef (''invalid project RuleSet override: '' @ err_msg e))
          | Inr eff \<Rightarrow> (case CompileRuleSet env eff of
                Inl e \<Rightarrow> Inl (invalidDef (''effective project RuleSet cannot be compiled: '' @ err_msg e))
              | Inr compiled \<Rightarrow>
                  if list_ex (\<lambda>r. r_ID r \<in> r_ID ` set (t_Rules t)) compiled
                  then Inl (invalidDef ''rule set binding duplicates template rule'') else Inr ())))"

definition ref_incomplete :: "rule_set_ref \<Rightarrow> bool" where
  "ref_incomplete ref \<longleftrightarrow> \<not> stableID (ref_ID ref) \<or> blank (ref_Version ref) \<or> length (ref_Version ref) > 64 \<or> length (ref_Hash ref) \<noteq> 64"

definition Validate :: "tpl_env \<Rightarrow> template \<Rightarrow> goerr + unit" where
  "Validate env t =
     (if \<not> stableID (t_ID t) \<or> blank (t_Name t) \<or> blank (t_Version t) then Inl (invalidDef ''template identity is incomplete'')
      else bindR (validateSections [] (t_Sections t)) (\<lambda>_.
           bindR (validateFields [] (t_Fields t)) (\<lambda>_.
           bindR (validateRequired (map f_ID (t_Fields t)) (t_RequiredFields t)) (\<lambda>_.
           bindR (validateTerms [] (t_Terms t)) (\<lambda>_.
           bindR (validateRules env [] (t_Rules t)) (\<lambda>_.
           bindR (case t_RuleSetSnapshot t of
                    Some snap \<Rightarrow> validateSnapshot env t snap
                  | None \<Rightarrow> if t_RuleBindingOverrides t \<noteq> []
                            then Inl (invalidDef ''RuleSet overrides require an immutable snapshot'') else Inr ()) (\<lambda>_.
             if (case t_RuleSetRef t of None \<Rightarrow> False | Some ref \<Rightarrow> ref_incomplete ref)
             then Inl (invalidDef ''incomplete RuleSet reference'') else Inr ())))))))"

section \<open>Hashes\<close>

definition boundRuleReferenceHash :: "tpl_env \<Rightarrow> string \<Rightarrow> rule_set_ref \<Rightarrow> rule_override list \<Rightarrow> string" where
  "boundRuleReferenceHash env templateRuleHash ref overrides =
     (case te_marshalBound env \<lparr>bc_TemplateRuleHash = templateRuleHash, bc_RuleSetID = ref_ID ref,
             bc_RuleSetVersion = ref_Version ref, bc_RuleSetHash = ref_Hash ref,
             bc_Overrides = sort_key o_RuleID (CloneRuleBindingOverrides overrides)\<rparr> of
        Inl _ \<Rightarrow> sha256_hex []
      | Inr raw \<Rightarrow> sha256_hex raw)"

definition boundRuleSetHash :: "tpl_env \<Rightarrow> string \<Rightarrow> rule_set \<Rightarrow> rule_override list \<Rightarrow> string" where
  "boundRuleSetHash env templateRuleHash rs overrides =
     boundRuleReferenceHash env templateRuleHash \<lparr>ref_ID = s_ID rs, ref_Version = s_Version rs, ref_Hash = s_RulesetHash rs\<rparr> overrides"

definition Hashes :: "tpl_env \<Rightarrow> template \<Rightarrow> goerr + string \<times> string" where
  "Hashes env t =
     bindR (Validate env t) (\<lambda>_.
       let rules = sort_key r_ID (t_Rules t) in
       case te_marshalRules env rules of
         Inl e \<Rightarrow> Inl (Wrapped (''marshal rules: '' @ err_msg e) e)
       | Inr ruleBytes \<Rightarrow>
           (let h = sha256_hex ruleBytes;
                rulesetHash = (case t_RuleSetSnapshot t of
                    Some snap \<Rightarrow> boundRuleSetHash env h snap (t_RuleBindingOverrides t)
                  | None \<Rightarrow> (case t_RuleSetRef t of
                        Some ref \<Rightarrow> boundRuleReferenceHash env h ref (t_RuleBindingOverrides t)
                      | None \<Rightarrow> h))
            in case te_marshalTemplate env (t\<lparr>t_Rules := rules, t_RequiredFields := sort (t_RequiredFields t),
                                              t_RulesetHash := [], t_ContentHash := []\<rparr>) of
                 Inl e \<Rightarrow> Inl (Wrapped (''marshal template: '' @ err_msg e) e)
               | Inr contentBytes \<Rightarrow> Inr (sha256_hex contentBytes, rulesetHash)))"

definition WithHashes :: "tpl_env \<Rightarrow> template \<Rightarrow> goerr + template" where
  "WithHashes env t = bindR (Hashes env t) (\<lambda>(c, r). Inr (t\<lparr>t_ContentHash := c, t_RulesetHash := r\<rparr>))"

section \<open>The verified binding\<close>

definition unverified :: "string \<Rightarrow> goerr" where
  "unverified msg = Wrapped (''unverified RuleSet binding: '' @ msg) (Sentinel ErrUnverifiedRuleSetBinding)"

definition unverifiedBecause :: "goerr \<Rightarrow> goerr" where
  "unverifiedBecause e = Joined (''unverified RuleSet binding: '' @ err_msg e) (Sentinel ErrUnverifiedRuleSetBinding) e"

definition binding_Clone :: "verified_binding \<Rightarrow> verified_binding" where
  "binding_Clone b = b\<lparr>vb_Snapshot := cloneRuleSet (vb_Snapshot b), vb_Overrides := CloneRuleBindingOverrides (vb_Overrides b)\<rparr>"

definition wantRef :: "template \<Rightarrow> rule_set \<Rightarrow> rule_set_ref" where
  "wantRef t snap = (case t_RuleSetRef t of Some ref \<Rightarrow> ref
     | None \<Rightarrow> \<lparr>ref_ID = s_ID snap, ref_Version = s_Version snap, ref_Hash = s_RulesetHash snap\<rparr>)"

definition ValidateVerifiedRuleSetBinding :: "tpl_env \<Rightarrow> template \<Rightarrow> verified_binding \<Rightarrow> goerr + unit" where
  "ValidateVerifiedRuleSetBinding env t b =
     (case t_RuleSetSnapshot t of
        None \<Rightarrow> Inl (unverified ''template has no immutable snapshot'')
      | Some snap \<Rightarrow> bindR (Validate env t) (\<lambda>_.
          let ref = wantRef t snap in
          if vb_Reference b \<noteq> ref \<or> s_ID (vb_Snapshot b) \<noteq> ref_ID ref \<or> s_Version (vb_Snapshot b) \<noteq> ref_Version ref \<or>
             s_RulesetHash (vb_Snapshot b) \<noteq> ref_Hash ref
            then Inl (unverified ''binding evidence does not match template identity'')
          else if HashRuleSet env (vb_Snapshot b) \<noteq> Inr (ref_Hash ref)
            then Inl (unverified ''binding snapshot hash is not canonical'')
          else case Hashes env t of
            Inl e \<Rightarrow> Inl (unverified (''recompute template hashes: '' @ err_msg e))
          | Inr (contentHash, effectiveHash) \<Rightarrow>
              if vb_ContentHash b = [] \<or> vb_EffectiveHash b = [] \<or> t_ContentHash t \<noteq> contentHash \<or> t_RulesetHash t \<noteq> effectiveHash \<or>
                 vb_ContentHash b \<noteq> contentHash \<or> vb_EffectiveHash b \<noteq> effectiveHash
                then Inl (unverified ''binding evidence hash does not match template'')
              else if vb_Overrides b \<noteq> t_RuleBindingOverrides t
                then Inl (unverified ''binding evidence overrides do not match template'')
              else case CanBindRuleSet env (vb_Snapshot b) of
                Inl e \<Rightarrow> Inl (unverifiedBecause e)
              | Inr _ \<Rightarrow> (case ValidateRuleBindingOverrides env (vb_Snapshot b) (vb_Overrides b) of
                    Inl e \<Rightarrow> Inl (unverifiedBecause e)
                  | Inr _ \<Rightarrow> Inr ())))"

definition VerifyRuleSetBinding :: "tpl_env \<Rightarrow> template \<Rightarrow> goerr + verified_binding" where
  "VerifyRuleSetBinding env t =
     (case t_RuleSetSnapshot t of
        None \<Rightarrow> (if t_RuleSetRef t \<noteq> None then Inl (unverified ''RuleSetRef has no immutable snapshot'')
                 else Inl (unverified ''template has no RuleSet snapshot''))
      | Some snap \<Rightarrow> bindR (Validate env t) (\<lambda>_.
          case CanBindRuleSet env snap of
            Inl e \<Rightarrow> Inl (unverifiedBecause e)
          | Inr _ \<Rightarrow> bindR (Hashes env t) (\<lambda>(contentHash, effectiveHash).
              Inr \<lparr>vb_Snapshot = cloneRuleSet snap, vb_Reference = wantRef t snap,
                   vb_Overrides = CloneRuleBindingOverrides (t_RuleBindingOverrides t),
                   vb_EffectiveHash = effectiveHash, vb_ContentHash = contentHash\<rparr>)))"

section \<open>Evaluation\<close>

definition panic :: goerr where
  "panic = Raw ''panic''"

definition assertString :: "params \<Rightarrow> string \<Rightarrow> goerr + string" where
  "assertString p k = (case pstring p k of Some s \<Rightarrow> Inr s | None \<Rightarrow> Inl panic)"

definition result :: "tpl_env \<Rightarrow> rule \<Rightarrow> string \<Rightarrow> string \<Rightarrow> string \<Rightarrow> eval_status \<Rightarrow> string \<Rightarrow> string list \<Rightarrow> evaluation" where
  "result env r target version ruleset status message evidence =
     \<lparr>e_ID = (if status = EvaluationIssue
              then ''vi-'' @ take 24 (case te_marshalIssue env \<lparr>ii_RuleID = r_ID r, ii_TargetRef = target, ii_TargetVersion = version,
                     ii_RulesetHash = ruleset, ii_EvaluatorVersion = EvaluatorVersion, ii_Evidence = sort evidence\<rparr> of
                       Inl _ \<Rightarrow> sha256_hex [] | Inr raw \<Rightarrow> sha256_hex raw)
              else []),
      e_RuleID = r_ID r, e_RuleSetID = [], e_RuleSetVersion = [], e_TargetRef = target, e_TargetVersion = version,
      e_RulesetHash = ruleset, e_Status = status, e_Severity = r_Severity r,
      e_Message = (if r_Message r \<noteq> [] then r_Message r else message), e_Evidence = evidence,
      e_EvaluatorVersion = EvaluatorVersion\<rparr>"

definition findChapter :: "chapter_input list \<Rightarrow> string \<Rightarrow> chapter_input option" where
  "findChapter chapters i = find (\<lambda>c. ci_ID c = i) chapters"

definition firstVersion :: "string \<Rightarrow> string \<Rightarrow> string" where
  "firstVersion primary fallback = (if primary \<noteq> [] then primary else fallback)"

text \<open>The text, the version and the found flag; a missing chapter is Go's zero value.\<close>

definition targetText :: "eval_input \<Rightarrow> string \<Rightarrow> string \<Rightarrow> string \<times> string \<times> bool" where
  "targetText inp kind i =
     (if kind = ''field'' then
        (case in_Fields inp i of Some v \<Rightarrow> (v, in_TargetVersion inp, True) | None \<Rightarrow> ([], in_TargetVersion inp, False))
      else if kind = ''chapter'' then
        (case findChapter (in_Chapters inp) i of
           Some c \<Rightarrow> (ci_Body c, firstVersion (ci_Version c) (in_TargetVersion inp), True)
         | None \<Rightarrow> ([], firstVersion [] (in_TargetVersion inp), False))
      else ([], in_TargetVersion inp, False))"

definition targetPresent :: "eval_input \<Rightarrow> string \<Rightarrow> string \<Rightarrow> bool \<times> string \<times> bool" where
  "targetPresent inp kind i =
     (if kind = ''field'' then
        ((case in_Fields inp i of Some v \<Rightarrow> \<not> blank v | None \<Rightarrow> False), in_TargetVersion inp, True)
      else if kind = ''chapter'' then
        (case findChapter (in_Chapters inp) i of
           Some c \<Rightarrow> (True, firstVersion (ci_Version c) (in_TargetVersion inp), True)
         | None \<Rightarrow> (False, firstVersion [] (in_TargetVersion inp), True))
      else if kind = ''source'' then
        (case find (\<lambda>x. si_ID x = i) (in_Sources inp) of
           Some x \<Rightarrow> (si_Available x, firstVersion (si_Version x) (in_TargetVersion inp), True)
         | None \<Rightarrow> (False, in_TargetVersion inp, True))
      else if kind = ''review_item'' then
        (case find (\<lambda>x. ri_ID x = i) (in_ReviewItems inp) of
           Some x \<Rightarrow> (ri_Decided x, firstVersion (ri_Version x) (in_TargetVersion inp), True)
         | None \<Rightarrow> (False, in_TargetVersion inp, True))
      else (False, in_TargetVersion inp, False))"

definition countStatus :: "rat \<Rightarrow> params \<Rightarrow> eval_status \<times> string" where
  "countStatus cnt p =
     (if (case numeric (plookup p ''minimum'') of Some m \<Rightarrow> cnt < m | None \<Rightarrow> False)
        then (EvaluationIssue, ''target is below the minimum count'')
      else if (case numeric (plookup p ''maximum'') of Some m \<Rightarrow> cnt > m | None \<Rightarrow> False)
        then (EvaluationIssue, ''target exceeds the maximum count'')
      else (EvaluationPass, ''target count is within the declared range''))"

definition termConsistency :: "string \<Rightarrow> params \<Rightarrow> string \<Rightarrow> goerr + eval_status \<times> string \<times> string list" where
  "termConsistency v p target =
     bindR (assertString p ''preferred'') (\<lambda>preferred.
       let variants = (case stringSlice (plookup p ''variants'') of Some vs \<Rightarrow> vs | None \<Rightarrow> []);
           used = sort (filter (\<lambda>w. contains v w) variants)
       in if used \<noteq> []
          then Inr (EvaluationIssue, ''non-preferred controlled term is present'',
                    [''target='' @ target, ''preferred='' @ preferred, ''variants='' @ join '','' used])
          else Inr (EvaluationPass, ''controlled term usage is consistent'', [''target='' @ target, ''preferred='' @ preferred]))"

text \<open>The computed evaluators, one definition for each \<^verbatim>\<open>case\<close> of the switch.\<close>

definition field_value :: "eval_input \<Rightarrow> string \<Rightarrow> string" where
  "field_value inp i = (case in_Fields inp i of Some v \<Rightarrow> v | None \<Rightarrow> [])"

definition required_ids :: "template \<Rightarrow> string list" where
  "required_ids t = sort (foldl (\<lambda>ids f. if f_Required f \<and> f_ID f \<notin> set ids then ids @ [f_ID f] else ids) (t_RequiredFields t) (t_Fields t))"

definition eval_required_fields :: "tpl_env \<Rightarrow> template \<Rightarrow> rule \<Rightarrow> eval_input \<Rightarrow> string \<Rightarrow> evaluation list" where
  "eval_required_fields env t r inp h =
     (let ids = required_ids t;
          items = map (\<lambda>i. result env r (''field/'' @ i) (in_TargetVersion inp) h EvaluationIssue ''required field is missing'' [''field_id='' @ i])
                    (filter (\<lambda>i. blank (field_value inp i)) ids)
      in if items = []
         then [result env r (''project/'' @ in_ProjectID inp) (in_TargetVersion inp) h EvaluationPass ''required fields are present''
                 [''required_count='' @ show_int (int (length ids))]]
         else items)"

definition eval_section :: "tpl_env \<Rightarrow> rule \<Rightarrow> eval_input \<Rightarrow> string \<Rightarrow> chapter_input list \<Rightarrow> section_def \<Rightarrow> evaluation" where
  "eval_section env r inp h chapters sec =
     (let ch = findChapter chapters (sec_ID sec);
          version = (case ch of Some c \<Rightarrow> firstVersion (ci_Version c) (in_TargetVersion inp) | None \<Rightarrow> in_TargetVersion inp);
          incomplete = (case ch of None \<Rightarrow> True
            | Some c \<Rightarrow> r_Evaluator r = ''nonempty_chapter'' \<and> blank (ci_Body c) \<or> r_Evaluator r = ''confirmed_chapter'' \<and> \<not> ci_Confirmed c)
      in result env r (''chapter/'' @ sec_ID sec) version h
           (if incomplete then EvaluationIssue else EvaluationPass)
           (if incomplete then (if r_Evaluator r = ''confirmed_chapter'' then ''required chapter is not confirmed'' else ''required chapter is incomplete'')
            else ''required chapter is ready'')
           [''section_id='' @ sec_ID sec])"

definition eval_chapters :: "tpl_env \<Rightarrow> template \<Rightarrow> rule \<Rightarrow> eval_input \<Rightarrow> string \<Rightarrow> evaluation list" where
  "eval_chapters env t r inp h =
     (let items = map (eval_section env r inp h (sort_key ci_ID (in_Chapters inp))) (filter sec_Required (t_Sections t))
      in if items = []
         then [result env r (''project/'' @ in_ProjectID inp) (in_TargetVersion inp) h EvaluationNotApplicable ''no required chapters'' []]
         else items)"

definition eval_reviews :: "tpl_env \<Rightarrow> rule \<Rightarrow> eval_input \<Rightarrow> string \<Rightarrow> evaluation list" where
  "eval_reviews env r inp h =
     (let items = map (\<lambda>x. result env r (''review_item/'' @ ri_ID x) (firstVersion (ri_Version x) (in_TargetVersion inp)) h
                         (if ri_Decided x then EvaluationPass else EvaluationIssue)
                         (if ri_Decided x then ''review item has a decision'' else ''review item is undecided'')
                         [''review_item_id='' @ ri_ID x]) (in_ReviewItems inp)
      in if items = []
         then [result env r (''project/'' @ in_ProjectID inp) (in_TargetVersion inp) h EvaluationPass ''no undecided review items'' []]
         else items)"

definition eval_sources :: "tpl_env \<Rightarrow> rule \<Rightarrow> eval_input \<Rightarrow> string \<Rightarrow> evaluation list" where
  "eval_sources env r inp h =
     (let items = map (\<lambda>x. result env r (''source/'' @ si_ID x) (firstVersion (si_Version x) (in_TargetVersion inp)) h
                         (if si_Available x then EvaluationPass else EvaluationIssue)
                         (if si_Available x then ''source is available'' else ''source is unavailable or unauthorized'')
                         [''source_id='' @ si_ID x]) (in_Sources inp)
      in if items = []
         then [result env r (''project/'' @ in_ProjectID inp) (in_TargetVersion inp) h EvaluationNotApplicable ''no cited sources'' []]
         else items)"

definition eval_count :: "tpl_env \<Rightarrow> rule \<Rightarrow> eval_input \<Rightarrow> string \<Rightarrow> goerr + evaluation list" where
  "eval_count env r inp h =
     bindR (assertString (r_Parameters r) ''target_kind'') (\<lambda>kind.
     bindR (assertString (r_Parameters r) ''target_id'') (\<lambda>i.
       case targetText inp kind i of (v, version, found) \<Rightarrow>
         if \<not> found
         then Inr [result env r (kind @ ''/'' @ i) (in_TargetVersion inp) h EvaluationUnknown ''target is unavailable'' []]
         else (let cnt = (if r_Evaluator r = ''word_count'' then count_fields False v else rune_count v);
                   st = countStatus (rat_of_nat cnt) (r_Parameters r)
               in Inr [result env r (kind @ ''/'' @ i) version h (fst st) (snd st) [''count='' @ show_int (int cnt)]])))"

definition eval_model_assisted :: "tpl_env \<Rightarrow> rule \<Rightarrow> eval_input \<Rightarrow> string \<Rightarrow> goerr + evaluation list" where
  "eval_model_assisted env r inp h =
     bindR (assertString (r_Parameters r) ''target_kind'') (\<lambda>kind.
     bindR (assertString (r_Parameters r) ''target_id'') (\<lambda>i.
       let version = (if kind = ''chapter'' then (case findChapter (in_Chapters inp) i of
                          Some c \<Rightarrow> firstVersion (ci_Version c) (in_TargetVersion inp) | None \<Rightarrow> in_TargetVersion inp)
                      else in_TargetVersion inp);
           message = (if r_Message r = []
             then bytes [230,173,164,233,161,185,228,187,133,228,190,155,228,186,186,229,183,165,230,160,184,230,159,165,239,188,140,
                         228,184,141,228,187,163,232,161,168,233,128,154,232,191,135,230,136,150,233,152,187,230,150,173]
             else r_Message r)
       in Inr [result env r (kind @ ''/'' @ i) version h EvaluationUnknown message []]))"

text \<open>The last switch of \<^verbatim>\<open>evaluateRule\<close>; an unknown kind falls through with zero values.\<close>

definition eval_target :: "tpl_env \<Rightarrow> rule \<Rightarrow> eval_input \<Rightarrow> string \<Rightarrow> goerr + evaluation list" where
  "eval_target env r inp h =
     bindR (assertString (r_Parameters r) ''target_kind'') (\<lambda>kind.
     bindR (assertString (r_Parameters r) ''target_id'') (\<lambda>i.
       let targetRef = kind @ ''/'' @ i; base = in_TargetVersion inp in
       if r_Kind r = ''presence'' then
         (case targetPresent inp kind i of (present, tv, found) \<Rightarrow>
            Inr [result env r targetRef (firstVersion tv base) h
                   (if \<not> found \<or> \<not> present then EvaluationIssue else EvaluationPass)
                   (if \<not> found \<or> \<not> present then ''required target is absent'' else ''target is present'') [''target='' @ targetRef]])
       else if r_Kind r = ''pattern'' then
         (case targetText inp kind i of (v, tv, found) \<Rightarrow>
            bindR (assertString (r_Parameters r) ''pattern'') (\<lambda>pattern.
              let out = (\<lambda>st msg. Inr [result env r targetRef (firstVersion tv base) h st msg [''target='' @ targetRef, ''pattern='' @ pattern]])
              in if \<not> found then out EvaluationUnknown ''target is unavailable''
                 else case te_compile env pattern of
                   None \<Rightarrow> Inl panic
                 | Some matches \<Rightarrow> if matches v then out EvaluationPass ''target matches the declared pattern''
                                  else out EvaluationIssue ''target does not match the declared pattern''))
       else if r_Kind r = ''consistency'' then
         (case targetText inp kind i of (v, tv, found) \<Rightarrow>
            if \<not> found
            then Inr [result env r targetRef (firstVersion tv base) h EvaluationUnknown ''target is unavailable'' [''target='' @ targetRef]]
            else bindR (termConsistency v (r_Parameters r) targetRef) (\<lambda>(st, msg, ev).
                   Inr [result env r targetRef (firstVersion tv base) h st msg ev]))
       else Inr [result env r targetRef base h EvaluationZero [] []]))"

definition evaluateRule :: "tpl_env \<Rightarrow> template \<Rightarrow> rule \<Rightarrow> eval_input \<Rightarrow> string \<Rightarrow> goerr + evaluation list" where
  "evaluateRule env t r inp h =
     (if r_Kind r = ''model_assisted'' then eval_model_assisted env r inp h
      else if r_Kind r = ''computed'' \<and> r_Evaluator r = ''required_fields'' then Inr (eval_required_fields env t r inp h)
      else if r_Kind r = ''computed'' \<and> (r_Evaluator r = ''nonempty_chapter'' \<or> r_Evaluator r = ''confirmed_chapter'')
        then Inr (eval_chapters env t r inp h)
      else if r_Kind r = ''computed'' \<and> r_Evaluator r = ''review_items_decided'' then Inr (eval_reviews env r inp h)
      else if r_Kind r = ''computed'' \<and> r_Evaluator r = ''source_available'' then Inr (eval_sources env r inp h)
      else if r_Kind r = ''computed'' \<and> (r_Evaluator r = ''word_count'' \<or> r_Evaluator r = ''character_count'')
        then eval_count env r inp h
      else eval_target env r inp h)"

definition eval_key :: "evaluation \<Rightarrow> string list" where
  "eval_key e = [e_RuleID e, e_TargetRef e, e_TargetVersion e]"

text \<open>
  The hash stamped on the results: the pinned one when given, else the template's own, which for an
  unchanged published demo template is the hash of the published wire contract.
\<close>

definition evaluation_hash :: "tpl_env \<Rightarrow> template \<Rightarrow> string \<Rightarrow> goerr + string" where
  "evaluation_hash env t rulesetHash =
     (if rulesetHash \<noteq> [] then Inr rulesetHash
      else bindR (Hashes env t) (\<lambda>(_, own).
        if t_ID t = DemoTemplateID \<and> t_Version t = DemoTemplateVersion \<and> t_RulesetHash t = DemoRulesetHash
        then bindR (Hashes env DemoTemplate) (\<lambda>(_, fixed). Inr (if own = fixed then DemoRulesetHash else own))
        else Inr own))"

definition evaluateTemplate :: "tpl_env \<Rightarrow> template \<Rightarrow> eval_input \<Rightarrow> string \<Rightarrow> goerr + evaluation list" where
  "evaluateTemplate env t inp rulesetHash =
     bindR (Validate env t) (\<lambda>_.
       if in_ProjectID inp = [] \<or> in_TargetVersion inp = [] then Inl (invalidDef ''project and target version are required'')
       else bindR (evaluation_hash env t rulesetHash) (\<lambda>h.
         bindR (mapR (\<lambda>r. evaluateRule env t r inp h) (t_Rules t)) (\<lambda>items.
           Inr (sort_key eval_key (concat items)))))"

definition active_rules :: "rule_set \<Rightarrow> string \<Rightarrow> rule list \<Rightarrow> rule list" where
  "active_rules rs scene rules =
     filter (\<lambda>r. r_ID r \<in> set (map b_RuleID (filter (\<lambda>b. b_Enabled b \<and> scene \<in> set (b_TriggerScenes b)) (s_Bindings rs)))) rules"

definition EvaluateRuleSet :: "tpl_env \<Rightarrow> template \<Rightarrow> rule_set \<Rightarrow> string \<Rightarrow> eval_input \<Rightarrow> goerr + evaluation list" where
  "EvaluateRuleSet env t rs scene inp =
     bindR (ValidateRuleSet env rs) (\<lambda>_.
       if scene \<notin> set allowedRuleScenes then Inl (invalidSet ''unsupported rule scene'')
       else bindR (CompileRuleSet env rs) (\<lambda>rules.
         bindR (if s_RulesetHash rs = [] then HashRuleSet env rs else Inr (s_RulesetHash rs)) (\<lambda>h.
           evaluateTemplate env ((cloneTemplate t)\<lparr>t_Rules := active_rules rs scene rules\<rparr>) inp h)))"

definition evaluateVerifiedRuleSet :: "tpl_env \<Rightarrow> template \<Rightarrow> verified_binding \<Rightarrow> string \<Rightarrow> eval_input \<Rightarrow> goerr + evaluation list" where
  "evaluateVerifiedRuleSet env t b scene inp =
     (if scene \<notin> set allowedRuleScenes then Inl (invalidSet ''unsupported rule scene'')
      else bindR (effectiveRuleSetWithOverrides env (vb_Snapshot b) (vb_Overrides b)) (\<lambda>eff.
        bindR (CompileRuleSet env eff) (\<lambda>rules.
          bindR (evaluateTemplate env ((cloneTemplate t)\<lparr>t_RuleSetSnapshot := None, t_RuleBindingOverrides := [],
                   t_Rules := t_Rules (cloneTemplate t) @ active_rules eff scene rules\<rparr>) inp (vb_EffectiveHash b)) (\<lambda>evs.
            Inr (map (\<lambda>e. e\<lparr>e_RuleSetID := s_ID (vb_Snapshot b), e_RuleSetVersion := s_Version (vb_Snapshot b)\<rparr>) evs)))))"

definition EvaluateBoundRuleSet :: "tpl_env \<Rightarrow> template \<Rightarrow> rule_set \<Rightarrow> string \<Rightarrow> eval_input \<Rightarrow> goerr + evaluation list" where
  "EvaluateBoundRuleSet env t rs scene inp =
     bindR (VerifyRuleSetBinding env t) (\<lambda>b.
       if s_ID (vb_Snapshot b) \<noteq> s_ID rs \<or> s_Version (vb_Snapshot b) \<noteq> s_Version rs \<or> s_RulesetHash (vb_Snapshot b) \<noteq> s_RulesetHash rs
       then Inl (invalidSet ''evaluation RuleSet does not match the template snapshot'')
       else evaluateVerifiedRuleSet env t b scene inp)"

definition EvaluateScene :: "tpl_env \<Rightarrow> template \<Rightarrow> string \<Rightarrow> eval_input \<Rightarrow> goerr + evaluation list" where
  "EvaluateScene env t scene inp =
     (if t_RuleSetSnapshot t \<noteq> None \<or> t_RuleSetRef t \<noteq> None
      then bindR (VerifyRuleSetBinding env t) (\<lambda>b. EvaluateBoundRuleSet env t (vb_Snapshot b) scene inp)
      else evaluateTemplate env t inp [])"

definition Evaluate :: "tpl_env \<Rightarrow> template \<Rightarrow> eval_input \<Rightarrow> goerr + evaluation list" where
  "Evaluate env t inp = EvaluateScene env t ''write_check'' inp"

definition EvaluateSceneWithBinding :: "tpl_env \<Rightarrow> template \<Rightarrow> verified_binding \<Rightarrow> string \<Rightarrow> eval_input \<Rightarrow> goerr + evaluation list" where
  "EvaluateSceneWithBinding env t b scene inp =
     bindR (ValidateVerifiedRuleSetBinding env t b) (\<lambda>_. evaluateVerifiedRuleSet env t b scene inp)"

section \<open>Lemmas on validation and hashing\<close>

lemma validateRules_ok:
  "validateRules env seen rs = Inr () \<longleftrightarrow>
     (\<forall>r\<in>set rs. stableID (r_ID r) \<and> validateRule env r = Inr ()) \<and> distinct (map r_ID rs) \<and> set seen \<inter> r_ID ` set rs = {}"
proof (induction rs arbitrary: seen)
  case (Cons r rs)
  show ?case
  proof (cases "validateRule env r")
    case (Inr u)
    then have "validSeverity (r_Severity r)" by (simp add: validateRule_ok)
    then show ?thesis using Inr by (auto simp: Cons.IH)
  qed simp
qed simp

lemma validateRequired_ok:
  "validateRequired fs is = Inr () \<longleftrightarrow> (\<forall>i\<in>set is. stableID i \<and> (fs = [] \<or> i \<in> set fs))"
  by (induction "is") auto

lemma Validate_rules:
  assumes "Validate env t = Inr u"
  shows "distinct (map r_ID (t_Rules t))" and "r \<in> set (t_Rules t) \<Longrightarrow> validateRule env r = Inr ()"
  using assms by (auto simp: Validate_def validateRules_ok split: if_splits)

lemma validateSnapshot_cong:
  "r_ID ` set (t_Rules t') = r_ID ` set (t_Rules t) \<Longrightarrow> t_RuleSetRef t' = t_RuleSetRef t \<Longrightarrow>
   t_RuleBindingOverrides t' = t_RuleBindingOverrides t \<Longrightarrow> validateSnapshot env t' snap = validateSnapshot env t snap"
  by (simp add: validateSnapshot_def cong: sum.case_cong)

lemma validateSnapshot_ok:
  assumes "validateSnapshot env t snap = Inr u"
  obtains eff compiled where "CanBindRuleSet env snap = Inr ()"
    "effectiveRuleSetWithOverrides env snap (t_RuleBindingOverrides t) = Inr eff" "CompileRuleSet env eff = Inr compiled"
    "r_ID ` set compiled \<inter> r_ID ` set (t_Rules t) = {}" "wantRef t snap = \<lparr>ref_ID = s_ID snap, ref_Version = s_Version snap, ref_Hash = s_RulesetHash snap\<rparr>"
proof -
  have ref: "wantRef t snap = \<lparr>ref_ID = s_ID snap, ref_Version = s_Version snap, ref_Hash = s_RulesetHash snap\<rparr>"
    using assms by (auto simp: validateSnapshot_def wantRef_def split: option.splits if_splits)
  from assms that [OF _ _ _ _ ref] show ?thesis
    by (auto simp: validateSnapshot_def list_ex_iff split: sum.splits if_splits)
qed

lemma Validate_permuted:
  assumes "Validate env t = Inr ()" "mset rules = mset (t_Rules t)" "mset req = mset (t_RequiredFields t)"
  shows "Validate env (t\<lparr>t_Rules := rules, t_RequiredFields := req, t_RulesetHash := a, t_ContentHash := b\<rparr>) = Inr ()"
proof -
  let ?t = "t\<lparr>t_Rules := rules, t_RequiredFields := req, t_RulesetHash := a, t_ContentHash := b\<rparr>"
  have "validateRules env [] rules = Inr ()" if "validateRules env [] (t_Rules t) = Inr ()"
    using that mset_eq_setD [OF assms(2)] distinct_map_perm [OF assms(2), of r_ID] by (simp add: validateRules_ok)
  moreover have "validateRequired fs req = Inr ()" if "validateRequired fs (t_RequiredFields t) = Inr ()" for fs
    using that mset_eq_setD [OF assms(3)] by (simp add: validateRequired_ok)
  moreover have "validateSnapshot env ?t snap = validateSnapshot env t snap" for snap
    by (rule validateSnapshot_cong) (simp_all add: mset_eq_setD [OF assms(2)])
  ultimately show ?thesis using assms(1) by (auto simp: Validate_def split: if_splits option.splits)
qed

lemma Hashes_Validate: "Hashes env t = Inr ch \<Longrightarrow> Validate env t = Inr ()"
  by (auto simp: Hashes_def)

lemma Hashes_length: "Hashes env t = Inr (c, h) \<Longrightarrow> length c = 64 \<and> length h = 64"
  by (auto simp: Hashes_def Let_def boundRuleSetHash_def boundRuleReferenceHash_def split: sum.splits option.splits)

lemma Hashes_permuted:
  assumes "Hashes env t = Inr ch" "mset rules = mset (t_Rules t)" "mset req = mset (t_RequiredFields t)"
  shows "Hashes env (t\<lparr>t_Rules := rules, t_RequiredFields := req, t_RulesetHash := a, t_ContentHash := b\<rparr>) = Inr ch"
proof -
  have v: "Validate env t = Inr ()" using assms(1) by (rule Hashes_Validate)
  have "sort_key r_ID rules = sort_key r_ID (t_Rules t)"
    using sort_key_mset_cong [of "t_Rules t" rules r_ID] assms(2) Validate_rules(1) [OF v] by simp
  moreover have "sort req = sort (t_RequiredFields t)"
    using assms(3) by (metis properties_for_sort mset_sort sorted_sort)
  ultimately show ?thesis
    using assms(1) v Validate_permuted [OF v assms(2,3)] by (simp add: Hashes_def Let_def cong: sum.case_cong option.case_cong)
qed

lemma Hashes_stamped: "Hashes env t = Inr ch \<Longrightarrow> Hashes env (t\<lparr>t_RulesetHash := a, t_ContentHash := b\<rparr>) = Inr ch"
  using Hashes_permuted [where t = t and rules = "t_Rules t" and req = "t_RequiredFields t" and a = a and b = b] by simp

lemma VerifyRuleSetBinding_ok:
  assumes "VerifyRuleSetBinding env t = Inr b"
  obtains snap c h where "t_RuleSetSnapshot t = Some snap" "Validate env t = Inr ()" "validateSnapshot env t snap = Inr ()"
    "Hashes env t = Inr (c, h)"
    "b = \<lparr>vb_Snapshot = snap, vb_Reference = \<lparr>ref_ID = s_ID snap, ref_Version = s_Version snap, ref_Hash = s_RulesetHash snap\<rparr>,
          vb_Overrides = t_RuleBindingOverrides t, vb_EffectiveHash = h, vb_ContentHash = c\<rparr>"
proof -
  from assms obtain snap where s: "t_RuleSetSnapshot t = Some snap"
    by (auto simp: VerifyRuleSetBinding_def split: option.splits if_splits)
  with assms have v: "Validate env t = Inr ()" by (auto simp: VerifyRuleSetBinding_def)
  then have vs: "validateSnapshot env t snap = Inr ()" using s by (auto simp: Validate_def split: if_splits)
  obtain c h where h: "Hashes env t = Inr (c, h)" "b = \<lparr>vb_Snapshot = snap, vb_Reference = wantRef t snap,
      vb_Overrides = t_RuleBindingOverrides t, vb_EffectiveHash = h, vb_ContentHash = c\<rparr>"
    using assms s by (auto simp: VerifyRuleSetBinding_def split: sum.splits)
  show ?thesis by (rule validateSnapshot_ok [OF vs]) (use that s v vs h in auto)
qed

section \<open>Lemmas on evaluation\<close>

text \<open>What every result of a rule carries.\<close>

definition stamped :: "rule \<Rightarrow> string \<Rightarrow> evaluation \<Rightarrow> bool" where
  "stamped r h e \<longleftrightarrow> e_RuleID e = r_ID r \<and> e_Severity e = r_Severity r \<and> e_RulesetHash e = h \<and> e_Status e \<noteq> EvaluationZero"

lemma stamped_result [simp]: "stamped r h (result env r target version h status msg ev) \<longleftrightarrow> status \<noteq> EvaluationZero"
  by (simp add: stamped_def result_def)

lemma result_sel [simp]:
  "e_RuleID (result env r target version h status msg ev) = r_ID r" "e_TargetRef (result env r target version h status msg ev) = target"
  "e_Status (result env r target version h status msg ev) = status" "e_Severity (result env r target version h status msg ev) = r_Severity r"
  by (simp_all add: result_def)

lemma countStatus_not_zero: "fst (countStatus c p) \<noteq> EvaluationZero"
  by (simp add: countStatus_def split: option.split)

lemma assertString_ok: "pstring p k = Some v \<Longrightarrow> assertString p k = Inr v"
  by (simp add: assertString_def)

lemma valid_rule_target:
  assumes "validTarget (r_Parameters r)"
  obtains kind i where "assertString (r_Parameters r) ''target_kind'' = Inr kind" "assertString (r_Parameters r) ''target_id'' = Inr i"
  using validTarget_strings [OF assms] assertString_ok by blast

lemma valid_rule_cases:
  assumes "validateRule env r = Inr ()"
  obtains (plain) "r_Kind r = ''computed''" "r_Evaluator r \<in> set plainEvaluators"
  | (count) "r_Kind r = ''computed''" "r_Evaluator r = ''word_count'' \<or> r_Evaluator r = ''character_count''" "validTarget (r_Parameters r)"
  | (assisted) "r_Kind r = ''model_assisted''" "validTarget (r_Parameters r)" "r_Severity r \<noteq> ''blocking''"
  | (presence) "r_Kind r = ''presence''" "validTarget (r_Parameters r)"
  | (pattern) pat rx where "r_Kind r = ''pattern''" "validTarget (r_Parameters r)" "pstring (r_Parameters r) ''pattern'' = Some pat" "te_compile env pat = Some rx"
  | (consistency) pref where "r_Kind r = ''consistency''" "validTarget (r_Parameters r)" "pstring (r_Parameters r) ''preferred'' = Some pref"
  using assms unfolding validateRule_ok rule_kind_check_def Let_def validTextTarget_def
  by (auto split: if_splits option.splits)

lemma evaluateRule_total:
  assumes "validateRule env r = Inr ()"
  shows "\<exists>items. evaluateRule env t r inp h = Inr items \<and> items \<noteq> [] \<and> list_all (stamped r h) items"
  using assms
proof (cases rule: valid_rule_cases)
  case plain
  then show ?thesis
    by (auto simp: evaluateRule_def plainEvaluators_def eval_required_fields_def eval_chapters_def eval_reviews_def eval_sources_def
        Let_def list_all_iff eval_section_def)
next
  case count
  obtain kind i where "assertString (r_Parameters r) ''target_kind'' = Inr kind" "assertString (r_Parameters r) ''target_id'' = Inr i"
    using valid_rule_target [OF count(3)] .
  then show ?thesis
    using count by (auto simp: evaluateRule_def eval_count_def Let_def countStatus_not_zero split: prod.split)
next
  case assisted
  obtain kind i where "assertString (r_Parameters r) ''target_kind'' = Inr kind" "assertString (r_Parameters r) ''target_id'' = Inr i"
    using valid_rule_target [OF assisted(2)] .
  then show ?thesis using assisted by (simp add: evaluateRule_def eval_model_assisted_def Let_def)
next
  case presence
  obtain kind i where "assertString (r_Parameters r) ''target_kind'' = Inr kind" "assertString (r_Parameters r) ''target_id'' = Inr i"
    using valid_rule_target [OF presence(2)] .
  then show ?thesis using presence by (simp add: evaluateRule_def eval_target_def Let_def split: prod.split)
next
  case (pattern pat rx)
  obtain kind i where "assertString (r_Parameters r) ''target_kind'' = Inr kind" "assertString (r_Parameters r) ''target_id'' = Inr i"
    using valid_rule_target [OF pattern(2)] .
  then show ?thesis using pattern by (simp add: evaluateRule_def eval_target_def Let_def assertString_ok split: prod.split)
next
  case (consistency pref)
  obtain kind i where "assertString (r_Parameters r) ''target_kind'' = Inr kind" "assertString (r_Parameters r) ''target_id'' = Inr i"
    using valid_rule_target [OF consistency(2)] .
  then show ?thesis
    using consistency by (simp add: evaluateRule_def eval_target_def termConsistency_def Let_def assertString_ok split: prod.split)
qed

lemma evaluateRules_total:
  assumes "Validate env t = Inr ()"
  shows "\<exists>items. mapR (\<lambda>r. evaluateRule env t r inp h) (t_Rules t) = Inr items"
proof -
  have "\<exists>items. mapR (\<lambda>r. evaluateRule env t r inp h) rs = Inr items" if "set rs \<subseteq> set (t_Rules t)" for rs
    using that
  proof (induction rs)
    case (Cons r rs)
    then obtain items where "mapR (\<lambda>r. evaluateRule env t r inp h) rs = Inr items" by auto
    moreover obtain x where "evaluateRule env t r inp h = Inr x"
      using evaluateRule_total [OF Validate_rules(2) [OF assms]] Cons.prems by fastforce
    ultimately show ?case by simp
  qed simp
  then show ?thesis by simp
qed

lemma evaluateTemplate_total:
  assumes "Validate env t = Inr ()" "in_ProjectID inp \<noteq> []" "in_TargetVersion inp \<noteq> []"
    and "h \<noteq> [] \<or> okR (Hashes env t) \<and> okR (Hashes env DemoTemplate)"
  shows "\<exists>evs. evaluateTemplate env t inp h = Inr evs"
proof -
  have "okR (evaluation_hash env t h)"
    using assms(4) by (cases "Hashes env t"; cases "Hashes env DemoTemplate") (auto simp: evaluation_hash_def split: prod.split)
  then obtain h' where "evaluation_hash env t h = Inr h'" by (auto simp: okR_iff)
  moreover obtain items where "mapR (\<lambda>r. evaluateRule env t r inp h') (t_Rules t) = Inr items"
    using evaluateRules_total [OF assms(1)] by blast
  ultimately show ?thesis using assms(1-3) by (simp add: evaluateTemplate_def)
qed

lemma mapR_concat:
  "mapR f xs = Inr ys \<Longrightarrow> y \<in> set (concat ys) \<longleftrightarrow> (\<exists>x\<in>set xs. \<exists>zs. f x = Inr zs \<and> y \<in> set zs)"
  by (induction xs arbitrary: ys) auto

text \<open>A result of an evaluation is a result of one of the rules, and each rule's results are there.\<close>

lemma evaluateTemplate_ok:
  assumes "evaluateTemplate env t inp h0 = Inr evs"
  obtains h where "Validate env t = Inr ()" "h0 \<noteq> [] \<Longrightarrow> h = h0" "sorted (map eval_key evs)"
    "\<And>e. e \<in> set evs \<longleftrightarrow> (\<exists>r\<in>set (t_Rules t). \<exists>items. evaluateRule env t r inp h = Inr items \<and> e \<in> set items)"
proof -
  from assms obtain h items where v: "Validate env t = Inr ()" and h: "h0 \<noteq> [] \<Longrightarrow> h = h0"
    and i: "mapR (\<lambda>r. evaluateRule env t r inp h) (t_Rules t) = Inr items" and e: "evs = sort_key eval_key (concat items)"
    by (auto simp: evaluateTemplate_def evaluation_hash_def split: if_splits)
  have "e \<in> set evs \<longleftrightarrow> (\<exists>r\<in>set (t_Rules t). \<exists>items. evaluateRule env t r inp h = Inr items \<and> e \<in> set items)" for e
    using mapR_concat [OF i, of e] by (simp add: e)
  note m = this
  have s: "sorted (map eval_key evs)" by (simp add: e)
  show ?thesis by (rule that) (fact v, erule h, fact s, fact m)
qed

text \<open>The template a bound evaluation runs on: the legacy rules and the rules active in the scene.\<close>

definition scene_template :: "template \<Rightarrow> rule list \<Rightarrow> template" where
  "scene_template t rules = t\<lparr>t_RuleSetSnapshot := None, t_RuleBindingOverrides := [], t_Rules := t_Rules t @ rules\<rparr>"

lemma Validate_scene_template:
  assumes "Validate env t = Inr ()" "CompileRuleSet env eff = Inr compiled"
    and "set rules \<subseteq> set compiled" "distinct (map r_ID rules)" "r_ID ` set compiled \<inter> r_ID ` set (t_Rules t) = {}"
    and "\<And>r. r \<in> set compiled \<Longrightarrow> stableID (r_ID r)"
  shows "Validate env (scene_template t rules) = Inr ()"
proof -
  have "validateRules env [] (t_Rules t @ rules) = Inr ()" if "validateRules env [] (t_Rules t) = Inr ()"
    using that assms(3-6) compileBindings_rules [OF CompileRuleSet_ok(2) [OF assms(2)]]
    by (auto simp: validateRules_ok)
  then show ?thesis using assms(1) by (auto simp: Validate_def scene_template_def split: if_splits option.splits)
qed

lemma compiled_stable:
  assumes "CompileRuleSet env rs = Inr rules" "r \<in> set rules"
  shows "stableID (r_ID r)"
proof -
  have "r_ID r \<in> b_RuleID ` set (s_Bindings rs)"
    using arg_cong [OF compileBindings_ids [OF CompileRuleSet_ok(2) [OF assms(1)]], of set] assms(2) by auto
  then show ?thesis
    using ValidateRuleSet_content [OF CompileRuleSet_ok(1) [OF assms(1)]] by (auto simp: validateRuleSetContent_ok validateRuleBinding_ok)
qed

lemma compiled_distinct:
  assumes "CompileRuleSet env rs = Inr rules"
  shows "distinct (map r_ID rules)"
proof -
  have "distinct (map b_RuleID (s_Bindings rs))"
    using ValidateRuleSet_content [OF CompileRuleSet_ok(1) [OF assms]] by (simp add: validateRuleSetContent_ok)
  then have "distinct (map b_RuleID (sort_key b_RuleID (s_Bindings rs)))"
    using distinct_map_perm [of "sort_key b_RuleID (s_Bindings rs)" "s_Bindings rs" b_RuleID] by simp
  then show ?thesis using compileBindings_ids [OF CompileRuleSet_ok(2) [OF assms]] by (simp add: distinct_map_filter)
qed

lemma active_ids:
  assumes "CompileRuleSet env rs = Inr rules"
  shows "r_ID ` set (active_rules rs scene rules) = b_RuleID ` {b \<in> set (s_Bindings rs). b_Enabled b \<and> scene \<in> set (b_TriggerScenes b)}"
proof -
  have "r_ID ` set rules = b_RuleID ` {b \<in> set (s_Bindings rs). b_Enabled b}"
    using arg_cong [OF compileBindings_ids [OF CompileRuleSet_ok(2) [OF assms]], of set] by (simp add: set_filter)
  moreover have "r_ID ` set (active_rules rs scene rules) =
      r_ID ` set rules \<inter> b_RuleID ` {b \<in> set (s_Bindings rs). b_Enabled b \<and> scene \<in> set (b_TriggerScenes b)}"
    unfolding active_rules_def set_filter set_map by blast
  ultimately show ?thesis by blast
qed

lemma bound_evaluation_runs:
  assumes b: "VerifyRuleSetBinding env t = Inr b" and sc: "scene \<in> set allowedRuleScenes"
    and inp: "in_ProjectID inp \<noteq> []" "in_TargetVersion inp \<noteq> []"
  obtains eff compiled evs where "effectiveRuleSetWithOverrides env (vb_Snapshot b) (vb_Overrides b) = Inr eff"
    "CompileRuleSet env eff = Inr compiled"
    "evaluateTemplate env (scene_template t (active_rules eff scene compiled)) inp (vb_EffectiveHash b) = Inr evs"
    "EvaluateScene env t scene inp = Inr (map (\<lambda>e. e\<lparr>e_RuleSetID := s_ID (vb_Snapshot b), e_RuleSetVersion := s_Version (vb_Snapshot b)\<rparr>) evs)"
    "vb_EffectiveHash b \<noteq> []"
proof -
  from b obtain snap c h where snap: "t_RuleSetSnapshot t = Some snap" and v: "Validate env t = Inr ()"
    and vs: "validateSnapshot env t snap = Inr ()" and h: "Hashes env t = Inr (c, h)"
    and bb: "vb_Snapshot b = snap" "vb_Overrides b = t_RuleBindingOverrides t" "vb_EffectiveHash b = h"
    by (rule VerifyRuleSetBinding_ok) simp
  from vs obtain eff compiled where eff: "effectiveRuleSetWithOverrides env snap (t_RuleBindingOverrides t) = Inr eff"
    and cmp: "CompileRuleSet env eff = Inr compiled" and dj: "r_ID ` set compiled \<inter> r_ID ` set (t_Rules t) = {}"
    by (rule validateSnapshot_ok) simp
  have "h \<noteq> []" using Hashes_length [OF h] by auto
  moreover have "Validate env (scene_template t (active_rules eff scene compiled)) = Inr ()"
    by (rule Validate_scene_template [OF v cmp _ _ dj])
      (use compiled_stable [OF cmp] compiled_distinct [OF cmp] in \<open>auto simp: active_rules_def distinct_map_filter\<close>)
  ultimately obtain evs where "evaluateTemplate env (scene_template t (active_rules eff scene compiled)) inp h = Inr evs"
    using evaluateTemplate_total inp by blast
  then show ?thesis
    using that [of eff compiled evs] eff cmp b snap sc bb \<open>h \<noteq> []\<close>
    by (simp add: EvaluateScene_def EvaluateBoundRuleSet_def evaluateVerifiedRuleSet_def scene_template_def)
qed

text \<open>Every evaluation of a scene is an evaluation of a validated template that has the template's own rules.\<close>

lemma EvaluateScene_ok:
  assumes "EvaluateScene env t scene inp = Inr evs"
  obtains t' h evs' i v where "evaluateTemplate env t' inp h = Inr evs'"
    "evs = evs' \<or> evs = map (\<lambda>e. e\<lparr>e_RuleSetID := i, e_RuleSetVersion := v\<rparr>) evs'"
    "t_Fields t' = t_Fields t" "t_RequiredFields t' = t_RequiredFields t" "t_Sections t' = t_Sections t" "set (t_Rules t) \<subseteq> set (t_Rules t')"
    "\<And>r. r \<in> set (t_Rules t') \<Longrightarrow> r \<in> set (t_Rules t) \<or>
       (\<exists>snap b d. t_RuleSetSnapshot t = Some snap \<and> b \<in> set (s_Bindings snap) \<and> ruleDefinition (b_DefinitionID b) = Some d \<and>
          r_ID r = b_RuleID b \<and> r_Kind r = d_Kind d \<and> r_Severity r = b_Severity b)"
proof (cases "t_RuleSetSnapshot t = None \<and> t_RuleSetRef t = None")
  case True
  then have "evaluateTemplate env t inp [] = Inr evs" using assms by (simp add: EvaluateScene_def)
  then show ?thesis by (rule that [of t "[]" evs]) simp_all
next
  case False
  then obtain b where b: "VerifyRuleSetBinding env t = Inr b" and e: "EvaluateBoundRuleSet env t (vb_Snapshot b) scene inp = Inr evs"
    using assms by (auto simp: EvaluateScene_def split: if_splits)
  from b obtain snap where snap: "t_RuleSetSnapshot t = Some snap" "vb_Snapshot b = snap" by (rule VerifyRuleSetBinding_ok) simp
  from e b obtain eff compiled evs' where eff: "effectiveRuleSetWithOverrides env snap (vb_Overrides b) = Inr eff"
    and cmp: "CompileRuleSet env eff = Inr compiled"
    and ev: "evaluateTemplate env (scene_template t (active_rules eff scene compiled)) inp (vb_EffectiveHash b) = Inr evs'"
    and evs: "evs = map (\<lambda>e. e\<lparr>e_RuleSetID := s_ID snap, e_RuleSetVersion := s_Version snap\<rparr>) evs'"
    by (auto simp: EvaluateBoundRuleSet_def evaluateVerifiedRuleSet_def scene_template_def snap split: if_splits)
  have bs: "s_Bindings eff = map (apply_override (vb_Overrides b)) (s_Bindings snap)"
    using eff by (auto simp: effectiveRuleSetWithOverrides_def)
  have "\<exists>x d. x \<in> set (s_Bindings snap) \<and> ruleDefinition (b_DefinitionID x) = Some d \<and> r_ID r = b_RuleID x \<and> r_Kind r = d_Kind d \<and>
      r_Severity r = b_Severity x" if "r \<in> set compiled" for r
    using compileBindings_rules [OF CompileRuleSet_ok(2) [OF cmp] that] bs by (auto simp: binding_rule_def apply_override_frame)
  then have own: "r \<in> set (t_Rules t) \<or> (\<exists>snap b d. t_RuleSetSnapshot t = Some snap \<and> b \<in> set (s_Bindings snap) \<and>
      ruleDefinition (b_DefinitionID b) = Some d \<and> r_ID r = b_RuleID b \<and> r_Kind r = d_Kind d \<and> r_Severity r = b_Severity b)"
    if "r \<in> set (t_Rules (scene_template t (active_rules eff scene compiled)))" for r
    using that snap by (auto simp: scene_template_def active_rules_def)
  show ?thesis
    by (rule that [OF ev, where i = "s_ID snap" and v = "s_Version snap"]) (use evs own in \<open>auto simp: scene_template_def\<close>)
qed

section \<open>What the completeness rules report\<close>

lemma required_ids_set: "set (required_ids t) = set (t_RequiredFields t) \<union> f_ID ` {f \<in> set (t_Fields t). f_Required f}"
proof -
  have "set (foldl (\<lambda>ids f. if f_Required f \<and> f_ID f \<notin> set ids then ids @ [f_ID f] else ids) ids fs) =
      set ids \<union> f_ID ` {f \<in> set fs. f_Required f}" for ids and fs :: "field_def list"
    by (induction fs arbitrary: ids) auto
  then show ?thesis by (simp add: required_ids_def)
qed

lemma eval_required_issue:
  assumes "i \<in> set (required_ids t)"
  shows "(\<exists>e\<in>set (eval_required_fields env t r inp h). e_TargetRef e = ''field/'' @ i \<and> e_Status e = EvaluationIssue) \<longleftrightarrow> blank (field_value inp i)"
  using assms by (auto simp: eval_required_fields_def Let_def filter_empty_conv)

lemma find_sort_key:
  "distinct (map f xs) \<Longrightarrow> find (\<lambda>x. f x = k) (sort_key f xs) = find (\<lambda>x. f x = k) xs"
proof (cases "find (\<lambda>x. f x = k) xs")
  case None
  then have "find (\<lambda>x. f x = k) (sort_key f xs) = None" unfolding find_None_iff' by simp
  then show "?thesis" using None by simp
next
  case (Some x)
  assume d: "distinct (map f xs)"
  then have "distinct (map f (sort_key f xs))" using distinct_map_perm [of "sort_key f xs" xs f] by simp
  then show ?thesis using Some find_Some_in [OF Some] find_key_unique [of f "sort_key f xs" x] by simp
qed

lemma eval_chapter_issue:
  assumes "sec \<in> set (t_Sections t)" "sec_Required sec" "r_Evaluator r = ''confirmed_chapter''"
    "distinct (map sec_ID (t_Sections t))" "distinct (map ci_ID (in_Chapters inp))"
  shows "(\<exists>e\<in>set (eval_chapters env t r inp h). e_TargetRef e = ''chapter/'' @ sec_ID sec \<and> e_Status e = EvaluationIssue) \<longleftrightarrow>
         \<not> (\<exists>c\<in>set (in_Chapters inp). ci_ID c = sec_ID sec \<and> ci_Confirmed c)"
proof -
  let ?ev = "eval_section env r inp h (sort_key ci_ID (in_Chapters inp))"
  have ne: "filter sec_Required (t_Sections t) \<noteq> []" using assms(1,2) by (auto simp: filter_empty_conv)
  have tr: "e_TargetRef (?ev x) = ''chapter/'' @ sec_ID x" for x by (simp add: eval_section_def Let_def)
  have st: "e_Status (?ev x) = EvaluationIssue \<longleftrightarrow> \<not> (\<exists>c\<in>set (in_Chapters inp). ci_ID c = sec_ID x \<and> ci_Confirmed c)" for x
  proof (cases "find (\<lambda>c. ci_ID c = sec_ID x) (in_Chapters inp)")
    case None
    then have "\<forall>c\<in>set (in_Chapters inp). ci_ID c \<noteq> sec_ID x" by (simp add: find_None_iff')
    then show ?thesis
      using None find_sort_key [OF assms(5), of "sec_ID x"] by (auto simp: eval_section_def Let_def findChapter_def)
  next
    case (Some c)
    moreover have "c' = c" if "c' \<in> set (in_Chapters inp)" "ci_ID c' = sec_ID x" for c'
      using that find_Some_in [OF Some] assms(5) by (auto simp: distinct_map inj_on_def)
    ultimately show ?thesis
      using find_Some_in [OF Some] find_sort_key [OF assms(5), of "sec_ID x"]
      by (auto simp: eval_section_def Let_def findChapter_def assms(3))
  qed
  have "(\<exists>e\<in>set (eval_chapters env t r inp h). e_TargetRef e = ''chapter/'' @ sec_ID sec \<and> e_Status e = EvaluationIssue) \<longleftrightarrow>
      (\<exists>x\<in>set (t_Sections t). sec_Required x \<and> sec_ID x = sec_ID sec \<and> e_Status (?ev x) = EvaluationIssue)"
    using ne by (auto simp: eval_chapters_def Let_def tr)
  also have "\<dots> \<longleftrightarrow> e_Status (?ev sec) = EvaluationIssue"
    using assms(1,2,4) by (auto simp: distinct_map inj_on_def)
  finally show ?thesis by (simp add: st)
qed

text \<open>The results under one rule identifier are those of the one rule that has it.\<close>

lemma rule_results:
  assumes "evaluateTemplate env t inp h0 = Inr evs" "r \<in> set (t_Rules t)"
  obtains h items where "evaluateRule env t r inp h = Inr items" "\<And>e. e \<in> set evs \<and> e_RuleID e = r_ID r \<longleftrightarrow> e \<in> set items"
proof -
  from assms(1) obtain h where v: "Validate env t = Inr ()"
    and m: "\<And>e. e \<in> set evs \<longleftrightarrow> (\<exists>r\<in>set (t_Rules t). \<exists>items. evaluateRule env t r inp h = Inr items \<and> e \<in> set items)"
    by (rule evaluateTemplate_ok) blast
  obtain items where i: "evaluateRule env t r inp h = Inr items" "list_all (stamped r h) items"
    using evaluateRule_total [OF Validate_rules(2) [OF v assms(2)]] by blast
  have "e \<in> set items" if "e \<in> set evs" "e_RuleID e = r_ID r" for e
  proof -
    from that(1) m obtain r' items' where r': "r' \<in> set (t_Rules t)" "evaluateRule env t r' inp h = Inr items'" "e \<in> set items'" by blast
    then have "e_RuleID e = r_ID r'"
      using evaluateRule_total [OF Validate_rules(2) [OF v r'(1)], of t inp h] by (auto simp: list_all_iff stamped_def)
    then have "r' = r" using that(2) r'(1) assms(2) Validate_rules(1) [OF v] by (auto simp: distinct_map inj_on_def)
    then show ?thesis using r' i by simp
  qed
  moreover have "e \<in> set evs \<and> e_RuleID e = r_ID r" if "e \<in> set items" for e
    using that i m assms(2) by (auto simp: list_all_iff stamped_def)
  ultimately show ?thesis using that i(1) by blast
qed

lemma validateSections_distinct: "validateSections seen xs = Inr () \<Longrightarrow> distinct (map sec_ID xs)"
proof -
  have "validateSections seen xs = Inr () \<Longrightarrow> distinct (map sec_ID xs) \<and> set seen \<inter> sec_ID ` set xs = {}"
    by (induction xs arbitrary: seen) (fastforce split: if_splits)+
  then show "validateSections seen xs = Inr () \<Longrightarrow> distinct (map sec_ID xs)" by blast
qed

lemma scene_results:
  assumes "EvaluateScene env t scene inp = Inr evs" "r \<in> set (t_Rules t)"
  obtains t' h items where "evaluateRule env t' r inp h = Inr items" "validateRule env r = Inr ()" "distinct (map sec_ID (t_Sections t'))"
    "t_Fields t' = t_Fields t" "t_RequiredFields t' = t_RequiredFields t" "t_Sections t' = t_Sections t"
    "\<And>ref st. (\<exists>e\<in>set evs. e_RuleID e = r_ID r \<and> e_TargetRef e = ref \<and> e_Status e = st) \<longleftrightarrow>
        (\<exists>e\<in>set items. e_TargetRef e = ref \<and> e_Status e = st)"
proof -
  from assms(1) obtain t' h evs' i v where ev: "evaluateTemplate env t' inp h = Inr evs'"
    and e: "evs = evs' \<or> evs = map (\<lambda>e. e\<lparr>e_RuleSetID := i, e_RuleSetVersion := v\<rparr>) evs'"
    and f: "t_Fields t' = t_Fields t" "t_RequiredFields t' = t_RequiredFields t" "t_Sections t' = t_Sections t" and sub: "set (t_Rules t) \<subseteq> set (t_Rules t')"
    by (rule EvaluateScene_ok) blast
  have r: "r \<in> set (t_Rules t')" using sub assms(2) by blast
  from ev r obtain h' items where items: "evaluateRule env t' r inp h' = Inr items"
    and m: "\<And>e. e \<in> set evs' \<and> e_RuleID e = r_ID r \<longleftrightarrow> e \<in> set items" by (rule rule_results) blast
  from ev have val: "Validate env t' = Inr ()" by (rule evaluateTemplate_ok)
  have dt: "distinct (map sec_ID (t_Sections t'))" using val by (intro validateSections_distinct) (auto simp: Validate_def split: if_splits)
  have "(\<exists>e\<in>set evs. e_RuleID e = r_ID r \<and> e_TargetRef e = ref \<and> e_Status e = st) \<longleftrightarrow>
        (\<exists>e\<in>set items. e_TargetRef e = ref \<and> e_Status e = st)" for ref st
  proof -
    have "(\<exists>e\<in>set evs. e_RuleID e = r_ID r \<and> e_TargetRef e = ref \<and> e_Status e = st) \<longleftrightarrow>
        (\<exists>e\<in>set evs'. e_RuleID e = r_ID r \<and> e_TargetRef e = ref \<and> e_Status e = st)"
      using e by (elim disjE; simp)
    then show ?thesis using m by blast
  qed
  then show ?thesis using that items Validate_rules(2) [OF val r] dt f by blast
qed

section \<open>Concrete templates\<close>

lemma trim_back_keeps:
  assumes "\<forall>q\<in>set space_seqs. hd q \<noteq> c"
  shows "trim_front (map rev space_seqs) (y @ [c]) \<noteq> []"
proof (induction "length y" arbitrary: y rule: less_induct)
  case less
  let ?n = "space_len (map rev space_seqs) (y @ [c])"
  have "trim_front (map rev space_seqs) (drop ?n (y @ [c])) \<noteq> []" if n: "?n \<noteq> 0"
  proof -
    from n obtain p where p: "find (\<lambda>p. has_prefix (y @ [c]) p) (map rev space_seqs) = Some p"
      by (auto simp: space_len_def split: option.splits)
    obtain q where q: "q \<in> set space_seqs" "has_prefix (y @ [c]) (rev q)" "?n = length q"
      using find_Some_in [OF p] p by (auto simp: space_len_def)
    then obtain z where z: "y @ [c] = rev q @ z" by (auto simp: has_prefix_iff)
    have "z \<noteq> []" using z assms q(1) n q(3) by (metis append.right_neutral hd_rev last_snoc rev_rev_ident)
    then have "drop ?n (y @ [c]) = drop ?n y @ [c]" using z q(3) by (cases z rule: rev_cases) auto
    moreover have "y \<noteq> []" using z n q(3) \<open>z \<noteq> []\<close> by (cases q; cases z) auto
    then have "length (drop ?n y) < length y" using n by simp
    ultimately show ?thesis using less [of "drop ?n y"] by metis
  qed
  then show ?case by (subst trim_front.simps) (simp add: Let_def)
qed

lemma not_blank_head:
  assumes "n < 256" "n \<notin> {9, 10, 11, 12, 13, 32, 194, 225, 226, 227}"
  shows "\<not> blank (bytes (n # ns))"
proof -
  have inj: "byte m = byte n \<longleftrightarrow> m = n" if "m < 256" for m
    using that assms(1) ncode_byte by metis
  have hd: "\<forall>q\<in>set space_seqs. q \<noteq> [] \<and> hd q \<noteq> byte n"
    using assms(2) by (auto simp: space_seqs_def bytes_def inj)
  then have "space_len space_seqs (bytes (n # ns)) = 0"
    by (auto simp: space_len_def bytes_def neq_Nil_conv split: option.split dest!: find_Some_in)
  then have "trim_front space_seqs (bytes (n # ns)) = bytes (n # ns)"
    by (subst trim_front.simps) simp
  then show ?thesis
    using trim_back_keeps [of "byte n" "rev (bytes ns)"] hd by (simp add: blank_def trim_space_def bytes_def)
qed

lemma demo_version_text: "\<not> blank ''1''" "\<not> blank ''2''"
  by (simp_all add: blank_def trim_space_visible visible_ascii_def ncode_def)

lemma demo_rules: "validateRules env [] (t_Rules DemoRouteTemplate) = Inr ()"
  by (simp add: validateRules_ok DemoRouteTemplate_def DemoTemplate_def demo_rule_def stableID_def id_head_def id_tail_def ncode_def
      validateRule_ok rule_kind_check_def validSeverity_def plainEvaluators_def pkeys_def validTarget_def pstring_def plookup_def
      DemoRequiredRouteNodeID_def)

lemma demo_valid: "Validate env DemoRouteTemplate = Inr ()" "Validate env DemoTemplate = Inr ()"
proof -
  have "validateRules env [] (t_Rules DemoTemplate) = Inr ()"
    using demo_rules [of env] by (simp add: validateRules_ok DemoRouteTemplate_def)
  then show "Validate env DemoRouteTemplate = Inr ()" "Validate env DemoTemplate = Inr ()"
    using demo_rules [of env]
    by (simp_all add: Validate_def DemoRouteTemplate_def DemoTemplate_def DemoTemplateID_def DemoTemplateVersion_def DemoRouteTemplateVersion_def
        DemoRequiredRouteNodeID_def not_blank_head demo_version_text stableID_def id_head_def id_tail_def ncode_def validFieldType_def)
qed

definition demo_input :: eval_input where
  "demo_input = \<lparr>in_ProjectID = ''p1'', in_TargetVersion = ''7'', in_Fields = map_of [(''research_goal'', ''measure'')],
     in_Chapters = [\<lparr>ci_ID = ''question'', ci_Version = ''3'', ci_Body = ''text'', ci_Confirmed = True\<rparr>,
                    \<lparr>ci_ID = ''method'', ci_Version = ''4'', ci_Body = ''text'', ci_Confirmed = False\<rparr>],
     in_Sources = [], in_ReviewItems = []\<rparr>"

definition demo_bound :: template where
  "demo_bound = DemoTemplate\<lparr>t_RuleSetSnapshot := Some demo_published, t_RuleBindingOverrides := [demo_override]\<rparr>"

lemma demo_bound_snapshot: "validateSnapshot demo_tenv demo_bound demo_published = Inr ()"
proof -
  obtain eff where eff: "effectiveRuleSetWithOverrides demo_tenv demo_published [demo_override] = Inr eff"
    and bs: "map b_RuleID (s_Bindings eff) = [''r2'', ''r1'']"
    using demo_effective by (simp add: demo_binding_def)
  have v: "ValidateRuleSet demo_tenv eff = Inr ()"
    by (rule effective_content(2) [OF ValidateRuleSet_content [OF demo_published_valid] eff])
  obtain rules where rules: "CompileRuleSet demo_tenv eff = Inr rules" using CompileRuleSet_total [OF v] by blast
  have "set (map r_ID rules) \<subseteq> b_RuleID ` set (s_Bindings eff)"
    using arg_cong [OF compileBindings_ids [OF CompileRuleSet_ok(2) [OF rules]], of set] by auto
  also have "\<dots> = {''r1'', ''r2''}" using arg_cong [OF bs, of set] by auto
  finally have ids: "set (map r_ID rules) \<subseteq> {''r1'', ''r2''}" .
  have own: "r_ID ` set (t_Rules demo_bound) = {''required-fields'', ''chapter-nonempty'', ''chapter-confirmed'', ''review-items-decided'', ''source-available''}"
    by (simp add: demo_bound_def DemoTemplate_def demo_rule_def)
  have "r_ID r \<notin> r_ID ` set (t_Rules demo_bound)" if "r \<in> set rules" for r
  proof -
    have "r_ID r \<in> set (map r_ID rules)" using that by simp
    then have "r_ID r \<in> {''r1'', ''r2''}" by (rule subsetD [OF ids])
    then show ?thesis unfolding own by (elim insertE emptyE; simp)
  qed
  then have "\<not> list_ex (\<lambda>r. r_ID r \<in> r_ID ` set (t_Rules demo_bound)) rules" unfolding list_ex_iff by blast
  moreover have "CanBindRuleSet demo_tenv demo_published = Inr ()"
    using demo_published_valid by (simp add: CanBindRuleSet_def demo_published_def)
  ultimately show ?thesis using eff rules by (simp add: validateSnapshot_def demo_bound_def DemoTemplate_def)
qed

lemma demo_bound_valid: "Validate demo_tenv demo_bound = Inr ()"
proof -
  have "t_RuleSetSnapshot demo_bound = Some demo_published" "t_RuleSetRef demo_bound = None" "t_ID demo_bound = t_ID DemoTemplate"
    "t_Name demo_bound = t_Name DemoTemplate" "t_Version demo_bound = t_Version DemoTemplate" "t_Sections demo_bound = t_Sections DemoTemplate"
    "t_Fields demo_bound = t_Fields DemoTemplate" "t_RequiredFields demo_bound = t_RequiredFields DemoTemplate"
    "t_Terms demo_bound = t_Terms DemoTemplate" "t_Rules demo_bound = t_Rules DemoTemplate"
    by (simp_all add: demo_bound_def DemoTemplate_def)
  then show ?thesis
    using demo_valid(2) [of demo_tenv] demo_bound_snapshot unfolding Validate_def by (auto split: if_splits)
qed

lemma demo_bound_hashes: "\<exists>c h. Hashes demo_tenv demo_bound = Inr (c, h)"
  using demo_bound_valid by (simp add: Hashes_def demo_tenv_def Let_def)

lemma demo_bound_verified: "\<exists>b. VerifyRuleSetBinding demo_tenv demo_bound = Inr b \<and> vb_Snapshot b = demo_published \<and> vb_Overrides b = [demo_override]"
proof -
  have "CanBindRuleSet demo_tenv demo_published = Inr ()"
    using demo_published_valid by (simp add: CanBindRuleSet_def demo_published_def)
  moreover have "t_RuleSetSnapshot demo_bound = Some demo_published" "t_RuleBindingOverrides demo_bound = [demo_override]"
    by (simp_all add: demo_bound_def)
  ultimately show ?thesis using demo_bound_valid demo_bound_hashes by (auto simp: VerifyRuleSetBinding_def)
qed

lemma blank_nil: "blank []"
  by (simp add: blank_def trim_space_def trim_front.simps)

lemma demo_hashes: "\<exists>c h. Hashes demo_tenv DemoTemplate = Inr (c, h)"
  using demo_valid(2) [of demo_tenv] by (simp add: Hashes_def demo_tenv_def Let_def)

lemma demo_evaluates: "\<exists>evs. EvaluateScene demo_tenv DemoTemplate ''write_check'' demo_input = Inr evs"
proof -
  have "t_RuleSetSnapshot DemoTemplate = None" "t_RuleSetRef DemoTemplate = None" by (simp_all add: DemoTemplate_def)
  moreover have "okR (Hashes demo_tenv DemoTemplate)" using demo_hashes by auto
  ultimately show ?thesis
    using evaluateTemplate_total [OF demo_valid(2), where inp = demo_input and h = "[]"] by (simp add: EvaluateScene_def demo_input_def)
qed

lemma result_rule:
  assumes "evaluateTemplate env t inp h0 = Inr evs" "e \<in> set evs"
  obtains r where "r \<in> set (t_Rules t)" "validateRule env r = Inr ()" "r_ID r = e_RuleID e" "r_Severity r = e_Severity e"
proof -
  from assms(1) obtain h where v: "Validate env t = Inr ()"
    and m: "\<And>e. e \<in> set evs \<longleftrightarrow> (\<exists>r\<in>set (t_Rules t). \<exists>items. evaluateRule env t r inp h = Inr items \<and> e \<in> set items)"
    by (rule evaluateTemplate_ok) blast
  from m assms(2) obtain r items where r: "r \<in> set (t_Rules t)" "evaluateRule env t r inp h = Inr items" "e \<in> set items" by blast
  have "stamped r h e" using evaluateRule_total [OF Validate_rules(2) [OF v r(1)], of t inp h] r by (auto simp: list_all_iff)
  then show ?thesis using that [OF r(1) Validate_rules(2) [OF v r(1)]] by (simp add: stamped_def)
qed

section \<open>Properties\<close>

text \<open>
  A verified template evaluates in every scene, without a panic: there is a result for exactly the
  template's own rules and the enabled bindings of its effective rule set that trigger in the scene; every
  result carries the effective hash and the identity of the pinned rule set, has one of the four statuses,
  and the results are in the canonical order.
\<close>

theorem bound_evaluation:
  assumes "VerifyRuleSetBinding env t = Inr b" "scene \<in> set allowedRuleScenes" "in_ProjectID inp \<noteq> []" "in_TargetVersion inp \<noteq> []"
  shows "\<exists>eff evs. effectiveRuleSetWithOverrides env (vb_Snapshot b) (vb_Overrides b) = Inr eff \<and> EvaluateScene env t scene inp = Inr evs \<and>
      sorted (map eval_key evs) \<and>
      e_RuleID ` set evs = r_ID ` set (t_Rules t) \<union> b_RuleID ` {x \<in> set (s_Bindings eff). b_Enabled x \<and> scene \<in> set (b_TriggerScenes x)} \<and>
      (\<forall>e\<in>set evs. e_RulesetHash e = vb_EffectiveHash b \<and> e_RuleSetID e = s_ID (vb_Snapshot b) \<and>
         e_RuleSetVersion e = s_Version (vb_Snapshot b) \<and> e_Status e \<noteq> EvaluationZero)"
proof -
  from assms obtain eff compiled evs where eff: "effectiveRuleSetWithOverrides env (vb_Snapshot b) (vb_Overrides b) = Inr eff"
    and cmp: "CompileRuleSet env eff = Inr compiled"
    and ev: "evaluateTemplate env (scene_template t (active_rules eff scene compiled)) inp (vb_EffectiveHash b) = Inr evs"
    and scn: "EvaluateScene env t scene inp = Inr (map (\<lambda>e. e\<lparr>e_RuleSetID := s_ID (vb_Snapshot b), e_RuleSetVersion := s_Version (vb_Snapshot b)\<rparr>) evs)"
    and ne: "vb_EffectiveHash b \<noteq> []"
    by (rule bound_evaluation_runs)
  let ?t = "scene_template t (active_rules eff scene compiled)" and ?h = "vb_EffectiveHash b"
  from ev obtain h' where v: "Validate env ?t = Inr ()" and h': "?h \<noteq> [] \<Longrightarrow> h' = ?h" and s: "sorted (map eval_key evs)"
    and m': "\<And>e. e \<in> set evs \<longleftrightarrow> (\<exists>r\<in>set (t_Rules ?t). \<exists>items. evaluateRule env ?t r inp h' = Inr items \<and> e \<in> set items)"
    by (rule evaluateTemplate_ok) blast
  note m = m' [unfolded h' [OF ne]]
  have tot: "\<exists>items. evaluateRule env ?t r inp ?h = Inr items \<and> items \<noteq> [] \<and> list_all (stamped r ?h) items" if "r \<in> set (t_Rules ?t)" for r
    using evaluateRule_total [OF Validate_rules(2) [OF v that]] .
  have "stamped r ?h e" if "r \<in> set (t_Rules ?t)" "evaluateRule env ?t r inp ?h = Inr items" "e \<in> set items" for r items e
    using tot [OF that(1)] that by (auto simp: list_all_iff)
  then have st: "\<exists>r\<in>set (t_Rules ?t). stamped r ?h e" if "e \<in> set evs" for e using that m by blast
  have "r_ID r \<in> e_RuleID ` set evs" if rin: "r \<in> set (t_Rules ?t)" for r
  proof -
    obtain items where it: "evaluateRule env ?t r inp ?h = Inr items" "items \<noteq> []" "list_all (stamped r ?h) items" using tot [OF rin] by blast
    then have "stamped r ?h (hd items)" by (simp add: list_all_iff)
    moreover have "hd items \<in> set evs" unfolding m by (rule bexI [OF _ rin], rule exI [of _ items]) (use it in simp)
    ultimately show ?thesis unfolding stamped_def by (metis image_eqI)
  qed
  then have "e_RuleID ` set evs = r_ID ` set (t_Rules ?t)" using st by (auto simp: stamped_def)
  also have "\<dots> = r_ID ` set (t_Rules t) \<union> b_RuleID ` {x \<in> set (s_Bindings eff). b_Enabled x \<and> scene \<in> set (b_TriggerScenes x)}"
    using active_ids [OF cmp, of scene] by (simp add: scene_template_def image_Un)
  finally have ids: "e_RuleID ` set evs =
      r_ID ` set (t_Rules t) \<union> b_RuleID ` {x \<in> set (s_Bindings eff). b_Enabled x \<and> scene \<in> set (b_TriggerScenes x)}" .
  define evs' where "evs' = map (\<lambda>e. e\<lparr>e_RuleSetID := s_ID (vb_Snapshot b), e_RuleSetVersion := s_Version (vb_Snapshot b)\<rparr>) evs"
  have "map eval_key evs' = map eval_key evs" by (simp add: evs'_def eval_key_def)
  moreover have "e_RuleID ` set evs' = e_RuleID ` set evs" by (simp add: evs'_def image_image)
  moreover have "\<forall>e\<in>set evs'. e_RulesetHash e = ?h \<and> e_RuleSetID e = s_ID (vb_Snapshot b) \<and>
      e_RuleSetVersion e = s_Version (vb_Snapshot b) \<and> e_Status e \<noteq> EvaluationZero"
    using st by (simp add: evs'_def stamped_def) blast
  moreover have "EvaluateScene env t scene inp = Inr evs'" using scn by (simp add: evs'_def)
  ultimately show ?thesis
    using eff s ids by (intro exI [of _ eff] exI [of _ evs'] conjI) simp_all
qed

theorem bound_evaluation_witness:
  "\<exists>b eff evs. VerifyRuleSetBinding demo_tenv demo_bound = Inr b \<and> effectiveRuleSetWithOverrides demo_tenv demo_published [demo_override] = Inr eff \<and>
      EvaluateScene demo_tenv demo_bound ''write_check'' demo_input = Inr evs \<and> (\<forall>e\<in>set evs. e_RuleSetID e = ''rs1'')"
proof -
  obtain b where b: "VerifyRuleSetBinding demo_tenv demo_bound = Inr b" "vb_Snapshot b = demo_published" "vb_Overrides b = [demo_override]"
    using demo_bound_verified by blast
  show ?thesis
    using bound_evaluation [OF b(1), of "''write_check''" demo_input] b
    by (auto simp: allowedRuleScenes_def demo_input_def demo_published_def demo_set_def)
qed

text \<open>
  A required field is reported exactly when it is missing: under a \<^verbatim>\<open>required_fields\<close> rule the evaluation
  has an issue for the field if and only if its value is absent or white space.
\<close>

theorem required_fields_reported:
  assumes "EvaluateScene env t scene inp = Inr evs" "r \<in> set (t_Rules t)" "r_Kind r = ''computed''" "r_Evaluator r = ''required_fields''"
    and "i \<in> set (t_RequiredFields t) \<union> f_ID ` {f \<in> set (t_Fields t). f_Required f}"
  shows "(\<exists>e\<in>set evs. e_RuleID e = r_ID r \<and> e_TargetRef e = ''field/'' @ i \<and> e_Status e = EvaluationIssue) \<longleftrightarrow> blank (field_value inp i)"
proof -
  from assms(1,2) obtain t' h items where items: "evaluateRule env t' r inp h = Inr items"
    and f: "t_Fields t' = t_Fields t" "t_RequiredFields t' = t_RequiredFields t"
    and m: "\<And>ref st. (\<exists>e\<in>set evs. e_RuleID e = r_ID r \<and> e_TargetRef e = ref \<and> e_Status e = st) \<longleftrightarrow>
        (\<exists>e\<in>set items. e_TargetRef e = ref \<and> e_Status e = st)"
    by (rule scene_results) blast
  have it: "items = eval_required_fields env t' r inp h" using items assms(3,4) by (simp add: evaluateRule_def)
  have "i \<in> set (required_ids t')" using assms(5) f by (simp add: required_ids_set)
  from eval_required_issue [OF this, of env r inp h] show ?thesis unfolding m it .
qed

theorem required_fields_reported_witness:
  "\<exists>evs. EvaluateScene demo_tenv DemoTemplate ''write_check'' demo_input = Inr evs \<and>
     (\<exists>e\<in>set evs. e_RuleID e = ''required-fields'' \<and> e_TargetRef e = ''field/research_subject'' \<and> e_Status e = EvaluationIssue)"
proof -
  obtain evs where e: "EvaluateScene demo_tenv DemoTemplate ''write_check'' demo_input = Inr evs" using demo_evaluates by blast
  have "demo_rule ''required-fields'' ''required_fields'' \<in> set (t_Rules DemoTemplate)" "''research_subject'' \<in> set (t_RequiredFields DemoTemplate)"
    by (simp_all add: DemoTemplate_def)
  moreover have "blank (field_value demo_input ''research_subject'')" by (simp add: field_value_def demo_input_def blank_nil)
  ultimately show ?thesis using required_fields_reported [OF e, of "demo_rule ''required-fields'' ''required_fields''" "''research_subject''"] e
    by (simp add: demo_rule_def)
qed

text \<open>
  A required chapter is reported exactly when it is not confirmed: under a \<^verbatim>\<open>confirmed_chapter\<close> rule the
  evaluation has an issue for the section if and only if no confirmed chapter with its identifier is in the
  input (whose chapters have distinct identifiers).
\<close>

theorem unconfirmed_chapters_reported:
  assumes "EvaluateScene env t scene inp = Inr evs" "r \<in> set (t_Rules t)" "r_Kind r = ''computed''" "r_Evaluator r = ''confirmed_chapter''"
    and "sec \<in> set (t_Sections t)" "sec_Required sec" "distinct (map ci_ID (in_Chapters inp))"
  shows "(\<exists>e\<in>set evs. e_RuleID e = r_ID r \<and> e_TargetRef e = ''chapter/'' @ sec_ID sec \<and> e_Status e = EvaluationIssue) \<longleftrightarrow>
         \<not> (\<exists>c\<in>set (in_Chapters inp). ci_ID c = sec_ID sec \<and> ci_Confirmed c)"
proof -
  from assms(1,2) obtain t' h items where items: "evaluateRule env t' r inp h = Inr items"
    and f: "t_Sections t' = t_Sections t" and d: "distinct (map sec_ID (t_Sections t'))"
    and m: "\<And>ref st. (\<exists>e\<in>set evs. e_RuleID e = r_ID r \<and> e_TargetRef e = ref \<and> e_Status e = st) \<longleftrightarrow>
        (\<exists>e\<in>set items. e_TargetRef e = ref \<and> e_Status e = st)"
    by (rule scene_results) blast
  have i: "items = eval_chapters env t' r inp h" using items assms(3,4) by (simp add: evaluateRule_def)
  have "sec \<in> set (t_Sections t')" using assms(5) f by simp
  from eval_chapter_issue [OF this assms(6,4) d assms(7), of env h] show ?thesis unfolding m i .
qed

theorem unconfirmed_chapters_reported_witness:
  "\<exists>evs. EvaluateScene demo_tenv DemoTemplate ''write_check'' demo_input = Inr evs \<and>
     (\<exists>e\<in>set evs. e_RuleID e = ''chapter-confirmed'' \<and> e_TargetRef e = ''chapter/method'' \<and> e_Status e = EvaluationIssue)"
proof -
  obtain evs where e: "EvaluateScene demo_tenv DemoTemplate ''write_check'' demo_input = Inr evs" using demo_evaluates by blast
  have "demo_rule ''chapter-confirmed'' ''confirmed_chapter'' \<in> set (t_Rules DemoTemplate)" by (simp add: DemoTemplate_def)
  moreover define sec where "sec = t_Sections DemoTemplate ! 1"
  have "sec \<in> set (t_Sections DemoTemplate)" "sec_Required sec" "sec_ID sec = ''method''" by (simp_all add: sec_def DemoTemplate_def)
  moreover have "distinct (map ci_ID (in_Chapters demo_input))" "\<not> (\<exists>c\<in>set (in_Chapters demo_input). ci_ID c = ''method'' \<and> ci_Confirmed c)"
    by (simp_all add: demo_input_def)
  ultimately show ?thesis
    using unconfirmed_chapters_reported [OF e, of "demo_rule ''chapter-confirmed'' ''confirmed_chapter''" sec] e by (simp add: demo_rule_def)
qed

text \<open>
  Only deterministic rules block: a result of severity \<^verbatim>\<open>blocking\<close> comes from a blocking rule of the
  template or a blocking binding of its snapshot whose kind is not \<^verbatim>\<open>model_assisted\<close>, and a model-assisted
  rule of the template only ever answers UNKNOWN.
\<close>

theorem blocking_is_deterministic:
  assumes "EvaluateScene env t scene inp = Inr evs" "e \<in> set evs"
  shows "(e_Severity e = ''blocking'' \<longrightarrow>
            (\<exists>r\<in>set (t_Rules t). r_ID r = e_RuleID e \<and> r_Severity r = ''blocking'' \<and> r_Kind r \<noteq> ''model_assisted'') \<or>
            (\<exists>snap b d. t_RuleSetSnapshot t = Some snap \<and> b \<in> set (s_Bindings snap) \<and> b_RuleID b = e_RuleID e \<and>
               b_Severity b = ''blocking'' \<and> ruleDefinition (b_DefinitionID b) = Some d \<and> d_Kind d \<noteq> ''model_assisted'')) \<and>
         (\<forall>r\<in>set (t_Rules t). r_Kind r = ''model_assisted'' \<and> r_ID r = e_RuleID e \<longrightarrow> e_Status e = EvaluationUnknown)"
proof (intro conjI impI ballI)
  from assms(1) obtain t' h evs' i v where ev: "evaluateTemplate env t' inp h = Inr evs'"
    and evs: "evs = evs' \<or> evs = map (\<lambda>e. e\<lparr>e_RuleSetID := i, e_RuleSetVersion := v\<rparr>) evs'"
    and own: "\<And>r. r \<in> set (t_Rules t') \<Longrightarrow> r \<in> set (t_Rules t) \<or>
       (\<exists>snap b d. t_RuleSetSnapshot t = Some snap \<and> b \<in> set (s_Bindings snap) \<and> ruleDefinition (b_DefinitionID b) = Some d \<and>
          r_ID r = b_RuleID b \<and> r_Kind r = d_Kind d \<and> r_Severity r = b_Severity b)"
    by (rule EvaluateScene_ok) blast
  from evs assms(2) obtain e' where e': "e' \<in> set evs'" "e_RuleID e' = e_RuleID e" "e_Severity e' = e_Severity e" by auto
  from ev e'(1) obtain r where r: "r \<in> set (t_Rules t')" "validateRule env r = Inr ()" "r_ID r = e_RuleID e" "r_Severity r = e_Severity e"
    by (rule result_rule) (use e'(2,3) in auto)
  assume "e_Severity e = ''blocking''"
  then have "r_Kind r \<noteq> ''model_assisted''" using model_assisted_not_blocking [OF r(2)] r(4) by auto
  then show "(\<exists>r\<in>set (t_Rules t). r_ID r = e_RuleID e \<and> r_Severity r = ''blocking'' \<and> r_Kind r \<noteq> ''model_assisted'') \<or>
      (\<exists>snap b d. t_RuleSetSnapshot t = Some snap \<and> b \<in> set (s_Bindings snap) \<and> b_RuleID b = e_RuleID e \<and>
         b_Severity b = ''blocking'' \<and> ruleDefinition (b_DefinitionID b) = Some d \<and> d_Kind d \<noteq> ''model_assisted'')"
    using own [OF r(1)] r \<open>e_Severity e = ''blocking''\<close> by metis
next
  fix r
  assume rt: "r \<in> set (t_Rules t)" and r: "r_Kind r = ''model_assisted'' \<and> r_ID r = e_RuleID e"
  from assms(1) rt obtain t' h items where items: "evaluateRule env t' r inp h = Inr items"
    and m: "\<And>ref st. (\<exists>e\<in>set evs. e_RuleID e = r_ID r \<and> e_TargetRef e = ref \<and> e_Status e = st) \<longleftrightarrow>
        (\<exists>e\<in>set items. e_TargetRef e = ref \<and> e_Status e = st)"
    by (rule scene_results) blast
  obtain e' where "e' \<in> set items" "e_Status e' = e_Status e" using m [of "e_TargetRef e" "e_Status e"] assms(2) r by metis
  then show "e_Status e = EvaluationUnknown" using items r by (auto simp: evaluateRule_def eval_model_assisted_def Let_def)
qed

theorem blocking_is_deterministic_witness:
  "\<exists>evs. EvaluateScene demo_tenv DemoTemplate ''write_check'' demo_input = Inr evs \<and>
     (\<forall>e\<in>set evs. e_Severity e = ''blocking'' \<longrightarrow> (\<exists>r\<in>set (t_Rules DemoTemplate). r_ID r = e_RuleID e \<and> r_Kind r \<noteq> ''model_assisted''))"
proof -
  obtain evs where e: "EvaluateScene demo_tenv DemoTemplate ''write_check'' demo_input = Inr evs" using demo_evaluates by blast
  have "t_RuleSetSnapshot DemoTemplate = None" by (simp add: DemoTemplate_def)
  then show ?thesis using blocking_is_deterministic [OF e] e by (metis option.distinct(1))
qed

text \<open>
  Hashes are the server's: stamping a template, reordering its rules or its required fields, or sending
  other hash values with it changes neither the content hash nor the rule set hash, and the stamped
  template verifies against itself.
\<close>

theorem hashes_are_server_owned:
  assumes "Hashes env t = Inr (c, h)" "mset rules = mset (t_Rules t)" "mset req = mset (t_RequiredFields t)"
  shows "Hashes env (t\<lparr>t_Rules := rules, t_RequiredFields := req, t_RulesetHash := x, t_ContentHash := y\<rparr>) = Inr (c, h) \<and>
         WithHashes env t = Inr (t\<lparr>t_ContentHash := c, t_RulesetHash := h\<rparr>) \<and>
         WithHashes env (t\<lparr>t_ContentHash := c, t_RulesetHash := h\<rparr>) = Inr (t\<lparr>t_ContentHash := c, t_RulesetHash := h\<rparr>) \<and>
         length c = 64 \<and> length h = 64"
proof -
  have "Hashes env (t\<lparr>t_RulesetHash := h, t_ContentHash := c\<rparr>) = Inr (c, h)" using assms(1) by (rule Hashes_stamped)
  moreover have "t\<lparr>t_ContentHash := c, t_RulesetHash := h\<rparr> = t\<lparr>t_RulesetHash := h, t_ContentHash := c\<rparr>" by simp
  ultimately have "Hashes env (t\<lparr>t_ContentHash := c, t_RulesetHash := h\<rparr>) = Inr (c, h)" by metis
  then show ?thesis using Hashes_permuted [OF assms] assms(1) Hashes_length [OF assms(1)] by (simp add: WithHashes_def)
qed

theorem hashes_are_server_owned_witness:
  "\<exists>c h. Hashes demo_tenv DemoTemplate = Inr (c, h) \<and>
     Hashes demo_tenv (DemoTemplate\<lparr>t_Rules := rev (t_Rules DemoTemplate), t_RequiredFields := rev (t_RequiredFields DemoTemplate),
       t_RulesetHash := ''forged'', t_ContentHash := ''forged''\<rparr>) = Inr (c, h)"
proof -
  obtain c h where ch: "Hashes demo_tenv DemoTemplate = Inr (c, h)" using demo_hashes by blast
  show ?thesis using hashes_are_server_owned [OF ch, of "rev (t_Rules DemoTemplate)" "rev (t_RequiredFields DemoTemplate)" "''forged''" "''forged''"] ch by simp
qed

text \<open>
  C10. Binding evidence is exact: evidence that passes the check names the reference, overrides and hashes
  that verification of the template itself gives, over a snapshot with the same rule set hash; and the
  evidence of a stamped template always passes, with the same evaluation as the template.
\<close>

theorem binding_evidence_exact:
  assumes "VerifyRuleSetBinding env t = Inr b" "t_ContentHash t = vb_ContentHash b" "t_RulesetHash t = vb_EffectiveHash b"
  shows "ValidateVerifiedRuleSetBinding env t b = Inr () \<and>
         EvaluateSceneWithBinding env t b scene inp = EvaluateScene env t scene inp \<and>
         (ValidateVerifiedRuleSetBinding env t b' = Inr () \<longrightarrow>
            vb_Reference b' = vb_Reference b \<and> vb_Overrides b' = vb_Overrides b \<and> vb_EffectiveHash b' = vb_EffectiveHash b \<and>
            vb_ContentHash b' = vb_ContentHash b \<and> HashRuleSet env (vb_Snapshot b') = HashRuleSet env (vb_Snapshot b))"
proof -
  from assms(1) obtain snap c h where snap: "t_RuleSetSnapshot t = Some snap" and v: "Validate env t = Inr ()"
    and vs: "validateSnapshot env t snap = Inr ()" and ch: "Hashes env t = Inr (c, h)"
    and b: "b = \<lparr>vb_Snapshot = snap, vb_Reference = \<lparr>ref_ID = s_ID snap, ref_Version = s_Version snap, ref_Hash = s_RulesetHash snap\<rparr>,
          vb_Overrides = t_RuleBindingOverrides t, vb_EffectiveHash = h, vb_ContentHash = c\<rparr>"
    by (rule VerifyRuleSetBinding_ok)
  from vs obtain eff where can: "CanBindRuleSet env snap = Inr ()"
    and eff: "effectiveRuleSetWithOverrides env snap (t_RuleBindingOverrides t) = Inr eff"
    and ref: "wantRef t snap = \<lparr>ref_ID = s_ID snap, ref_Version = s_Version snap, ref_Hash = s_RulesetHash snap\<rparr>"
    by (rule validateSnapshot_ok) simp
  have hs: "HashRuleSet env snap = Inr (s_RulesetHash snap)"
    using can ValidateRuleSet_hash by (auto simp: CanBindRuleSet_def split: if_splits)
  have ne: "c \<noteq> []" "h \<noteq> []" using Hashes_length [OF ch] by auto
  have ov: "ValidateRuleBindingOverrides env snap (t_RuleBindingOverrides t) = Inr ()"
    using eff by (auto simp: effectiveRuleSetWithOverrides_def)
  have ok: "ValidateVerifiedRuleSetBinding env t b = Inr ()"
    using snap v ref hs ch ne can ov assms(2,3) by (simp add: ValidateVerifiedRuleSetBinding_def b Let_def)
  have "EvaluateSceneWithBinding env t b scene inp = EvaluateScene env t scene inp"
    using ok assms(1) snap by (simp add: EvaluateSceneWithBinding_def EvaluateScene_def EvaluateBoundRuleSet_def)
  moreover have "vb_Reference b' = vb_Reference b \<and> vb_Overrides b' = vb_Overrides b \<and> vb_EffectiveHash b' = vb_EffectiveHash b \<and>
      vb_ContentHash b' = vb_ContentHash b \<and> HashRuleSet env (vb_Snapshot b') = HashRuleSet env (vb_Snapshot b)"
    if "ValidateVerifiedRuleSetBinding env t b' = Inr ()"
    using that snap v ref hs ch by (auto simp: ValidateVerifiedRuleSetBinding_def b Let_def split: if_splits)
  ultimately show ?thesis using ok by blast
qed

theorem binding_evidence_exact_witness:
  "\<exists>t b. VerifyRuleSetBinding demo_tenv t = Inr b \<and> ValidateVerifiedRuleSetBinding demo_tenv t b = Inr () \<and>
     EvaluateSceneWithBinding demo_tenv t b ''preflight'' demo_input = EvaluateScene demo_tenv t ''preflight'' demo_input"
proof -
  obtain c h where ch: "Hashes demo_tenv demo_bound = Inr (c, h)" using demo_bound_hashes by blast
  define t where "t = demo_bound\<lparr>t_RulesetHash := h, t_ContentHash := c\<rparr>"
  have "Hashes demo_tenv t = Inr (c, h)" unfolding t_def using ch by (rule Hashes_stamped)
  note hs = this
  have sn: "t_RuleSetSnapshot t = Some demo_published" by (simp add: t_def demo_bound_def)
  have "CanBindRuleSet demo_tenv demo_published = Inr ()"
    using demo_published_valid by (simp add: CanBindRuleSet_def demo_published_def)
  then obtain b where b: "VerifyRuleSetBinding demo_tenv t = Inr b" "vb_ContentHash b = c" "vb_EffectiveHash b = h"
    using hs sn Hashes_Validate [OF hs] by (simp add: VerifyRuleSetBinding_def)
  have "t_ContentHash t = vb_ContentHash b" "t_RulesetHash t = vb_EffectiveHash b" using b by (simp_all add: t_def)
  with binding_evidence_exact [OF b(1)] b(1) show ?thesis by blast
qed

end
