(* ===== verification/Caller.thy ===== *)
theory Caller
  imports Prelude
begin

text \<open>
  Who is calling: the facts of \<^verbatim>\<open>internal/types\<close> that travel in a Go context (\<^verbatim>\<open>principal.go\<close>,
  \<^verbatim>\<open>tenant_api_key.go\<close>, \<^verbatim>\<open>context_helpers.go\<close>) and the tenant role vocabulary
  (\<^verbatim>\<open>tenant_member.go\<close>).  The context is a record with the three values these functions read; the
  remaining values a component stores in it are its type parameter.
\<close>

record principal =
  pr_Type :: string
  pr_ID :: string

record api_key_scope =
  ks_KeyID :: nat
  ks_ScopeType :: string
  ks_FullAccess :: bool
  ks_KnowledgeBaseIDs :: "string list"
  ks_Capabilities :: "string list"

record 'x gocontext =
  ctx_Principal :: "principal option"
  ctx_APIKeyScope :: "api_key_scope option"
  ctx_UserID :: "string option"
  ctx_Values :: 'x

definition principal_Normalize :: "principal \<Rightarrow> principal" where
  "principal_Normalize p = \<lparr>pr_Type = trim_space (pr_Type p), pr_ID = trim_space (pr_ID p)\<rparr>"

definition principal_Valid :: "principal \<Rightarrow> bool" where
  "principal_Valid p \<longleftrightarrow>
     pr_Type (principal_Normalize p) \<noteq> [] \<and> pr_ID (principal_Normalize p) \<noteq> []"

definition UserIDFromContext :: "'x gocontext \<Rightarrow> string option" where
  "UserIDFromContext ctx =
     (case ctx_UserID ctx of Some v \<Rightarrow> if v \<noteq> [] then Some v else None | None \<Rightarrow> None)"

definition PrincipalFromContext :: "'x gocontext \<Rightarrow> principal option" where
  "PrincipalFromContext ctx =
     (case ctx_Principal ctx of
        Some p \<Rightarrow> if principal_Valid p then Some (principal_Normalize p)
                  else (case UserIDFromContext ctx of
                          Some uid \<Rightarrow> if blank uid then None else Some \<lparr>pr_Type = ''web_user'', pr_ID = uid\<rparr>
                        | None \<Rightarrow> None)
      | None \<Rightarrow> (case UserIDFromContext ctx of
                   Some uid \<Rightarrow> if blank uid then None else Some \<lparr>pr_Type = ''web_user'', pr_ID = uid\<rparr>
                 | None \<Rightarrow> None))"

text \<open>Of the scope only its presence matters to the modelled code, so it is not normalised.\<close>

definition TenantAPIKeyScopeFromContext :: "'x gocontext \<Rightarrow> api_key_scope option" where
  "TenantAPIKeyScopeFromContext ctx = ctx_APIKeyScope ctx"

section \<open>Tenant roles\<close>

definition role_Level :: "string \<Rightarrow> int" where
  "role_Level r =
     (if r = ''owner'' then 40 else if r = ''admin'' then 30
      else if r = ''contributor'' then 20 else if r = ''viewer'' then 10 else 0)"

definition role_IsValid :: "string \<Rightarrow> bool" where
  "role_IsValid r \<longleftrightarrow> r \<in> {''owner'', ''admin'', ''contributor'', ''viewer''}"

definition role_HasPermission :: "string \<Rightarrow> string \<Rightarrow> bool" where
  "role_HasPermission r required \<longleftrightarrow> role_Level required \<le> role_Level r"

lemma role_IsValid_Level: "role_IsValid r \<longleftrightarrow> 0 < role_Level r"
  by (auto simp: role_IsValid_def role_Level_def)

lemma role_Level_inj: "role_IsValid r \<Longrightarrow> role_Level r = role_Level r' \<Longrightarrow> r = r'"
  by (auto simp: role_IsValid_def role_Level_def split: if_splits)

lemma role_HasPermission_valid: "role_IsValid q \<Longrightarrow> role_HasPermission r q \<Longrightarrow> role_IsValid r"
  by (simp add: role_HasPermission_def role_IsValid_Level)

lemma role_HasPermission_trans:
  "role_HasPermission a b \<Longrightarrow> role_HasPermission b c \<Longrightarrow> role_HasPermission a c"
  by (simp add: role_HasPermission_def)

end
