(* ===== verification/Operation_Core.thy ===== *)
theory Operation_Core
  imports Caller Go_Digest Tx_Retry
begin

text \<open>
  The shared operation pipeline: \<^verbatim>\<open>operationcore/operationcore.go\<close> and \<^verbatim>\<open>operationcore/decision.go\<close>.

  A \<^verbatim>\<open>request\<close> is the Go struct of the same name: the declaration of an operation and the seams the
  aggregate fills in, a nil seam being \<^term>\<open>None\<close>.  A seam that reads is a function of the store, a
  seam that writes returns the changed store, and both may fail.  \<^verbatim>\<open>Run\<close> threads the store through
  the two transactions and returns it with the outcome and the error, so that what an operation
  leaves behind can be stated.
\<close>

section \<open>Keys and digests\<close>

definition MinKeyLength :: nat where "MinKeyLength = 8"

definition MaxKeyLength :: nat where "MaxKeyLength = 128"

definition ValidKey :: "string \<Rightarrow> bool" where
  "ValidKey key \<longleftrightarrow> length key \<ge> MinKeyLength \<and> length key \<le> MaxKeyLength"

text \<open>\<^verbatim>\<open>json.Marshal\<close> of the value's dynamic type is the argument \<^verbatim>\<open>marshal\<close>.\<close>

definition digestJSON :: "('b \<Rightarrow> goerr + string) \<Rightarrow> 'b \<Rightarrow> string \<times> goerr option" where
  "digestJSON marshal value =
     (case marshal value of
        Inl err \<Rightarrow> (sha256_hex [], Some err)
      | Inr encoded \<Rightarrow> (sha256_hex encoded, None))"

definition ValueHash :: "('b \<Rightarrow> goerr + string) \<Rightarrow> 'b \<Rightarrow> string" where
  "ValueHash marshal value = fst (digestJSON marshal value)"

definition RequestHash :: "('b \<Rightarrow> goerr + string) \<Rightarrow> 'b \<Rightarrow> string \<times> goerr option" where
  "RequestHash marshal body = digestJSON marshal body"

section \<open>Data\<close>

record 'a identity =
  id_Actor :: 'a
  id_Operation :: string
  id_Target :: string
  id_Key :: string

record 'a authorization =
  au_Actor :: 'a
  au_ProjectID :: string
  au_Action :: string
  au_Resource :: string

definition authorization_Capability :: "'a authorization \<Rightarrow> string" where
  "authorization_Capability a =
     (if au_Resource a = [] then au_Action a else au_Action a @ '':'' @ au_Resource a)"

record op_result =
  BodyHash :: string
  ResBody :: string
  ResStatus :: int
  ResOutput :: string

record op_errors =
  e_InvalidRequest :: goerr
  e_IdempotencyConflict :: goerr
  e_VersionConflict :: goerr
  e_InvalidState :: goerr
  e_HumanDecisionRequired :: goerr

record ('a, 's) ledger =
  Lookup :: "'a identity \<Rightarrow> 's \<Rightarrow> goerr + (op_result \<times> bool)"
  Save :: "'a identity \<Rightarrow> op_result \<Rightarrow> 's \<Rightarrow> goerr + 's"

datatype human_gate = HumanGateUndeclared | HumanGateRequired | HumanGateNotRequired

record outcome =
  OutBody :: string
  OutStatus :: int
  Replayed :: bool

text \<open>The variables of \<^verbatim>\<open>Run\<close> its transaction closures assign.\<close>

record 'p captured =
  c_result :: op_result
  c_replayed :: bool
  c_project :: 'p
  c_sources :: "string list"
  c_found :: bool

record ('a, 's, 'p, 'b, 'v, 'x) request =
  rq_Identity :: "'a identity"
  rq_Authorization :: "'a authorization"
  rq_Body :: 'b
  rq_Output :: string
  rq_SourceSensitive :: bool
  rq_HumanGate :: human_gate
  rq_Errors :: op_errors
  rq_marshalBody :: "'b \<Rightarrow> goerr + string"
  rq_marshalValue :: "'v \<Rightarrow> goerr + string"
  rq_zeroProject :: 'p
  rq_Transaction :: "('p captured, 's) tx_run"
  rq_ValidActor :: "('a \<Rightarrow> bool) option"
  rq_AuditWriteFailed :: "goerr \<Rightarrow> goerr"
  rq_Ledger :: "'s \<Rightarrow> goerr + ('a, 's) ledger"
  rq_AuthorizeTenant :: "'x gocontext \<Rightarrow> 's \<Rightarrow> 'a authorization \<Rightarrow> goerr option"
  rq_AuthorizeProject :: "'x gocontext \<Rightarrow> 's \<Rightarrow> 'a authorization \<Rightarrow> goerr + 'p"
  rq_RecordAudit :: "'x gocontext \<Rightarrow> string \<Rightarrow> string \<Rightarrow> goerr option \<Rightarrow> 's \<Rightarrow> goerr + 's"
  rq_CheckSources :: "('x gocontext \<Rightarrow> string \<Rightarrow> string list \<Rightarrow> 's \<Rightarrow> goerr option) option"
  rq_SourceIDs :: "('s \<Rightarrow> op_result \<Rightarrow> bool \<Rightarrow> goerr + string list) option"
  rq_PrepareCached :: "('x gocontext \<Rightarrow> 'a identity \<Rightarrow> 'b \<Rightarrow> 's \<Rightarrow> goerr + ('x gocontext \<times> bool)) option"
  rq_Prepare :: "('x gocontext \<Rightarrow> 'a identity \<Rightarrow> 'b \<Rightarrow> 's \<Rightarrow> goerr + 'x gocontext) option"
  rq_RequireInverseCaller :: "('x gocontext \<Rightarrow> 'b \<Rightarrow> goerr option) option"
  rq_Validate :: "('x gocontext \<Rightarrow> 's \<Rightarrow> 'p \<Rightarrow> goerr option) option"
  rq_CheckProject :: "('p \<Rightarrow> goerr option) option"
  rq_StorePins :: "('x gocontext \<Rightarrow> string \<Rightarrow> 's \<Rightarrow> goerr + 's) option"
  rq_Write :: "'x gocontext \<Rightarrow> 'p \<Rightarrow> 's \<Rightarrow> goerr + ('v \<times> string \<times> int \<times> 's)"
  rq_StoreReverseSources :: "('x gocontext \<Rightarrow> 'v \<Rightarrow> 's \<Rightarrow> goerr + 's) option"
  rq_StoreProvenance :: "('x gocontext \<Rightarrow> 'a identity \<Rightarrow> op_result \<Rightarrow> 'v \<Rightarrow> 's \<Rightarrow> goerr + 's) option"
  rq_Project :: "'x gocontext \<Rightarrow> string \<Rightarrow> string \<Rightarrow> string \<Rightarrow> 's \<Rightarrow> goerr + string"
  rq_RuntimeGate :: "('x gocontext \<Rightarrow> 's \<Rightarrow> 'p \<Rightarrow> string \<Rightarrow> goerr option) option"
  rq_AfterWrite :: "('x gocontext \<Rightarrow> 'p \<Rightarrow> string \<Rightarrow> string \<Rightarrow> string \<Rightarrow> int \<Rightarrow> 'v \<Rightarrow> int \<Rightarrow> 's \<Rightarrow> goerr + 's) option"
  rq_ObserveFailure :: "('x gocontext \<Rightarrow> string \<Rightarrow> string \<Rightarrow> goerr \<Rightarrow> int \<Rightarrow> 's \<Rightarrow> 's) option"
  rq_Basis :: "'p \<Rightarrow> string"

section \<open>The human decision gate and replay decode errors\<close>

definition RequireHumanDecision :: "'x gocontext \<Rightarrow> goerr \<Rightarrow> goerr option" where
  "RequireHumanDecision ctx required =
     (if TenantAPIKeyScopeFromContext ctx \<noteq> None then Some required
      else case PrincipalFromContext ctx of
          Some p \<Rightarrow>
            if pr_Type p \<in> {''api_tenant'', ''api_platform'', ''api_external_user'',
                            ''embed_channel'', ''embed_session'', ''embed_visitor''}
            then Some required else None
        | None \<Rightarrow> None)"

definition MarkReplayPayloadDecodeError :: "goerr option \<Rightarrow> goerr option" where
  "MarkReplayPayloadDecodeError err = map_option ReplayPayloadDecodeError err"

fun IsReplayPayloadDecodeError :: "goerr \<Rightarrow> bool" where
  "IsReplayPayloadDecodeError (ReplayPayloadDecodeError e) = True"
| "IsReplayPayloadDecodeError (Wrapped m e) = IsReplayPayloadDecodeError e"
| "IsReplayPayloadDecodeError (AuthorizationDecisionError c e) = IsReplayPayloadDecodeError e"
| "IsReplayPayloadDecodeError (Joined m e f) = (IsReplayPayloadDecodeError e \<or> IsReplayPayloadDecodeError f)"
| "IsReplayPayloadDecodeError (Sentinel s) = False"
| "IsReplayPayloadDecodeError (Raw m) = False"
| "IsReplayPayloadDecodeError (Coded c m) = False"

definition retryLockedOperations :: "string list" where
  "retryLockedOperations =
     [''saveSpec'', ''createProject'', ''changeTemplate'', ''saveTemplateCopy'',
      ''bindTemplateCopyRuleSet'', ''applyLegacyRuleOverrides'', ''createTemplateFieldArchive'',
      ''removeArchivedTemplateField'', ''reverseChangeSet'']"

definition op_RetryLocks :: "string \<Rightarrow> bool" where
  "op_RetryLocks operation \<longleftrightarrow> operation \<in> set retryLockedOperations"

section \<open>The steps of Run\<close>

text \<open>An optional seam: a missing check passes, a missing write leaves the store.\<close>

definition seam_check :: "'f option \<Rightarrow> ('f \<Rightarrow> goerr option) \<Rightarrow> goerr + unit" where
  "seam_check seam call =
     (case seam of None \<Rightarrow> Inr ()
      | Some f \<Rightarrow> (case call f of Some e \<Rightarrow> Inl e | None \<Rightarrow> Inr ()))"

definition seam_write :: "'f option \<Rightarrow> ('f \<Rightarrow> 's \<Rightarrow> goerr + 's) \<Rightarrow> 's \<Rightarrow> goerr + 's" where
  "seam_write seam call s = (case seam of None \<Rightarrow> Inr s | Some f \<Rightarrow> call f s)"

text \<open>Lines 331 to 358: everything that is decided before the store is read.\<close>

definition gate_caller :: "'x gocontext \<Rightarrow> ('a, 's, 'p, 'b, 'v, 'x) request \<Rightarrow> goerr + string" where
  "gate_caller ctx rq =
     (if (case rq_ValidActor rq of None \<Rightarrow> False | Some ok \<Rightarrow> \<not> ok (id_Actor (rq_Identity rq)))
        then Inl (e_InvalidRequest (rq_Errors rq))
      else if \<not> ValidKey (id_Key (rq_Identity rq)) then Inl (e_InvalidRequest (rq_Errors rq))
      else bindR (seam_check (rq_RequireInverseCaller rq) (\<lambda>f. f ctx (rq_Body rq))) (\<lambda>_.
        bindR (case rq_HumanGate rq of
                 HumanGateRequired \<Rightarrow>
                   (case RequireHumanDecision ctx (e_HumanDecisionRequired (rq_Errors rq)) of
                      Some e \<Rightarrow> Inl e | None \<Rightarrow> Inr ())
               | HumanGateNotRequired \<Rightarrow> Inr ()
               | HumanGateUndeclared \<Rightarrow> Inl (e_InvalidRequest (rq_Errors rq)))
        (\<lambda>_. case RequestHash (rq_marshalBody rq) (rq_Body rq) of
               (h, None) \<Rightarrow> Inr h
             | (h, Some e) \<Rightarrow> Inl (e_InvalidRequest (rq_Errors rq)))))"

text \<open>Lines 361 to 378: the preparation step, with the replay mark a failure carries.\<close>

definition prepare_step :: "'x gocontext \<Rightarrow> ('a, 's, 'p, 'b, 'v, 'x) request \<Rightarrow> 's \<Rightarrow> (bool \<times> goerr) + 'x gocontext" where
  "prepare_step ctx rq s =
     (let prepare = (\<lambda>c. case rq_Prepare rq of
            None \<Rightarrow> Inr c
          | Some f \<Rightarrow> (case f c (rq_Identity rq) (rq_Body rq) s of
                Inl e \<Rightarrow> Inl (False, e) | Inr c' \<Rightarrow> Inr c'))
      in case rq_PrepareCached rq of
           Some f \<Rightarrow> (case f ctx (rq_Identity rq) (rq_Body rq) s of
               Inl e \<Rightarrow> Inl (IsReplayPayloadDecodeError e, e)
             | Inr (prepared, cached) \<Rightarrow> if cached then Inr prepared else prepare prepared)
         | None \<Rightarrow> prepare ctx)"

text \<open>The source list of an operation; its error may mark the attempt as a replay.\<close>

definition source_ids :: "('a, 's, 'p, 'b, 'v, 'x) request \<Rightarrow> 's \<Rightarrow> op_result \<Rightarrow> bool \<Rightarrow> goerr + string list" where
  "source_ids rq s previous found =
     (case rq_SourceIDs rq of None \<Rightarrow> Inr [] | Some f \<Rightarrow> f s previous found)"

definition mark_replay :: "goerr + 'z \<Rightarrow> 'p captured \<Rightarrow> 'p captured" where
  "mark_replay r k =
     (case r of Inl e \<Rightarrow> if IsReplayPayloadDecodeError e then k\<lparr>c_replayed := True\<rparr> else k | Inr _ \<Rightarrow> k)"

definition check_project :: "('a, 's, 'p, 'b, 'v, 'x) request \<Rightarrow> 'p \<Rightarrow> goerr + unit" where
  "check_project rq p = seam_check (rq_CheckProject rq) (\<lambda>f. f p)"

text \<open>The stored record of the same attempt, refused when it belongs to another body.\<close>

definition replay_lookup :: "('a, 's, 'p, 'b, 'v, 'x) request \<Rightarrow> ('a, 's) ledger \<Rightarrow> string \<Rightarrow> 's \<Rightarrow> goerr + (op_result \<times> bool)" where
  "replay_lookup rq led hash s =
     bindR (Lookup led (rq_Identity rq) s) (\<lambda>(previous, found).
       if found \<and> BodyHash previous \<noteq> hash then Inl (e_IdempotencyConflict (rq_Errors rq))
       else Inr (previous, found))"

text \<open>Lines 390 to 419: the closure of the read-only transaction.\<close>

definition source_recheck :: "'x gocontext \<Rightarrow> ('a, 's, 'p, 'b, 'v, 'x) request \<Rightarrow> string \<Rightarrow> ('p captured, 's) tx_fun" where
  "source_recheck ctx rq hash k s =
     (case rq_Ledger rq s of Inl e \<Rightarrow> (k, Inl e) | Inr led \<Rightarrow>
      case rq_AuthorizeProject rq ctx s (rq_Authorization rq) of Inl e \<Rightarrow> (k, Inl e) | Inr p \<Rightarrow>
      let k1 = k\<lparr>c_project := p\<rparr> in
      case check_project rq p of Inl e \<Rightarrow> (k1, Inl e) | Inr _ \<Rightarrow>
      case replay_lookup rq led hash s of Inl e \<Rightarrow> (k1, Inl e) | Inr (previous, found) \<Rightarrow>
      let k2 = k1\<lparr>c_found := found\<rparr>;
          ids = source_ids rq s previous found
      in case ids of Inl e \<Rightarrow> (mark_replay ids k2, Inl e) | Inr l \<Rightarrow> (k2\<lparr>c_sources := l\<rparr>, Inr s))"

text \<open>
  Lines 440 to 469: authorization, the project precondition, the audit row and the runtime gate.
  A refusal writes its audit row on the transaction and ignores the result, then returns the
  refusal, so the store of that branch is the one the transaction rolls back.
\<close>

definition authorize_write :: "'x gocontext \<Rightarrow> ('a, 's, 'p, 'b, 'v, 'x) request \<Rightarrow> 's \<Rightarrow> goerr + 'p" where
  "authorize_write ctx rq s =
     (let pid = au_ProjectID (rq_Authorization rq);
          refuse = (\<lambda>authErr. case rq_RecordAudit rq ctx pid (authorization_Capability (rq_Authorization rq)) (Some authErr) s of
                      Inl _ \<Rightarrow> Inl authErr | Inr _ \<Rightarrow> Inl authErr)
      in if pid = [] then
        (case rq_AuthorizeTenant rq ctx s (rq_Authorization rq) of
           Some authErr \<Rightarrow> refuse authErr
         | None \<Rightarrow> Inr (rq_zeroProject rq))
      else (case rq_AuthorizeProject rq ctx s (rq_Authorization rq) of
           Inl authErr \<Rightarrow> refuse authErr
         | Inr project \<Rightarrow> Inr project))"

definition admit :: "'x gocontext \<Rightarrow> ('a, 's, 'p, 'b, 'v, 'x) request \<Rightarrow> 's \<Rightarrow> goerr + ('p \<times> 's)" where
  "admit ctx rq s =
     bindR (authorize_write ctx rq s) (\<lambda>p.
     bindR (check_project rq p) (\<lambda>_.
     case rq_RecordAudit rq ctx (au_ProjectID (rq_Authorization rq))
            (authorization_Capability (rq_Authorization rq)) None s of
       Inl e \<Rightarrow> Inl (rq_AuditWriteFailed rq e)
     | Inr s1 \<Rightarrow>
         bindR (seam_check (rq_RuntimeGate rq) (\<lambda>f. f ctx s1 p (id_Operation (rq_Identity rq))))
           (\<lambda>_. Inr (p, s1))))"

text \<open>Lines 482 to 496: the sources are resolved again and compared with the ones rechecked.\<close>

definition source_compare :: "('a, 's, 'p, 'b, 'v, 'x) request \<Rightarrow> 'p \<Rightarrow> op_result \<Rightarrow> bool \<Rightarrow> 'p captured \<Rightarrow> 's \<Rightarrow> 'p captured \<times> (goerr + unit)" where
  "source_compare rq p previous found k s =
     (if \<not> rq_SourceSensitive rq then (k, Inr ())
      else let ids = source_ids rq s previous found in
        (mark_replay ids k,
         case ids of Inl e \<Rightarrow> Inl e
         | Inr l \<Rightarrow>
             if rq_Basis rq p \<noteq> rq_Basis rq (c_project k) \<or> found \<noteq> c_found k \<or> l \<noteq> c_sources k
             then Inl (e_VersionConflict (rq_Errors rq)) else Inr ()))"

text \<open>Lines 501 to 536: the write itself and the records that go with it.\<close>

definition perform :: "'x gocontext \<Rightarrow> ('a, 's, 'p, 'b, 'v, 'x) request \<Rightarrow> ('a, 's) ledger \<Rightarrow> string \<Rightarrow> int \<Rightarrow> 'p \<Rightarrow> 's \<Rightarrow> goerr + (op_result \<times> 's)" where
  "perform ctx rq led hash elapsed p s =
     bindR (seam_write (rq_StorePins rq) (\<lambda>f. f ctx (au_ProjectID (rq_Authorization rq))) s) (\<lambda>s1.
     bindR (rq_Write rq ctx p s1) (\<lambda>(value, out, status, s2).
     let output = (if out = [] then rq_Output rq else out) in
     if output \<noteq> rq_Output rq then Inl (e_InvalidState (rq_Errors rq)) else
     bindR (seam_write (rq_StoreReverseSources rq) (\<lambda>f. f ctx value) s2) (\<lambda>s3.
     bindR (rq_marshalValue rq value) (\<lambda>raw.
     let result = \<lparr>BodyHash = hash, ResBody = raw, ResStatus = status, ResOutput = output\<rparr> in
     bindR (seam_write (rq_StoreProvenance rq) (\<lambda>f. f ctx (rq_Identity rq) result value) s3) (\<lambda>s4.
     bindR (seam_write (rq_AfterWrite rq)
              (\<lambda>f. f ctx p (au_ProjectID (rq_Authorization rq)) (id_Operation (rq_Identity rq))
                     (id_Target (rq_Identity rq)) status value elapsed) s4) (\<lambda>s5.
     bindR (Save led (rq_Identity rq) result s5) (\<lambda>s6. Inr (result, s6))))))))"

text \<open>Lines 434 to 537: the closure of the write transaction.\<close>

definition write_body :: "'x gocontext \<Rightarrow> ('a, 's, 'p, 'b, 'v, 'x) request \<Rightarrow> string \<Rightarrow> int \<Rightarrow> ('p captured, 's) tx_fun" where
  "write_body ctx rq hash elapsed k s =
     (case rq_Ledger rq s of Inl e \<Rightarrow> (k, Inl e) | Inr led \<Rightarrow>
      case admit ctx rq s of Inl e \<Rightarrow> (k, Inl e) | Inr (p, s1) \<Rightarrow>
      case replay_lookup rq led hash s1 of Inl e \<Rightarrow> (k, Inl e) | Inr (previous, found) \<Rightarrow>
      case seam_check (rq_Validate rq) (\<lambda>f. f ctx s1 p) of Inl e \<Rightarrow> (k, Inl e) | Inr _ \<Rightarrow>
      case source_compare rq p previous found k s1 of
        (k1, Inl e) \<Rightarrow> (k1, Inl e)
      | (k1, Inr _) \<Rightarrow>
          if found then (k1\<lparr>c_result := previous, c_replayed := True\<rparr>, Inr s1)
          else (case perform ctx rq led hash elapsed p s1 of
                  Inl e \<Rightarrow> (k1, Inl e)
                | Inr (result, s2) \<Rightarrow> (k1\<lparr>c_result := result\<rparr>, Inr s2)))"

definition zero_result :: op_result where
  "zero_result = \<lparr>BodyHash = [], ResBody = [], ResStatus = 0, ResOutput = []\<rparr>"

definition zero_outcome :: "bool \<Rightarrow> outcome" where
  "zero_outcome replayed = \<lparr>OutBody = [], OutStatus = 0, Replayed = replayed\<rparr>"

text \<open>Lines 380 to 432: the source recheck of a source-sensitive operation.\<close>

definition source_phase :: "'x gocontext \<Rightarrow> ('a, 's, 'p, 'b, 'v, 'x) request \<Rightarrow> string \<Rightarrow> 's \<Rightarrow> 's \<times> ((bool \<times> goerr) + 'p captured)" where
  "source_phase ctx rq hash s =
     (let k = \<lparr>c_result = zero_result, c_replayed = False, c_project = rq_zeroProject rq,
               c_sources = [], c_found = False\<rparr>
      in if \<not> rq_SourceSensitive rq then (s, Inr k)
         else case rq_Transaction rq \<lparr>ReadOnly = True, RetryLocks = False, RepeatableRead = False\<rparr>
                     (source_recheck ctx rq hash) k s of
             (k1, s1, Some e) \<Rightarrow> (s1, Inl (c_replayed k1, e))
           | (k1, s1, None) \<Rightarrow>
               (case seam_check (rq_CheckSources rq)
                       (\<lambda>f. f ctx (au_ProjectID (rq_Authorization rq)) (c_sources k1) s1) of
                  Inl e \<Rightarrow> (s1, Inl (False, e))
                | Inr _ \<Rightarrow> (s1, Inr k1)))"

text \<open>
  \<^verbatim>\<open>elapsed\<close> and \<^verbatim>\<open>elapsed'\<close> are the two readings of \<^verbatim>\<open>time.Since(started)\<close>.
\<close>

definition Run :: "'x gocontext \<Rightarrow> ('a, 's, 'p, 'b, 'v, 'x) request \<Rightarrow> int \<Rightarrow> int \<Rightarrow> 's \<Rightarrow> 's \<times> outcome \<times> goerr option" where
  "Run ctx0 rq elapsed elapsed' s0 =
     (case gate_caller ctx0 rq of Inl e \<Rightarrow> (s0, zero_outcome False, Some e) | Inr hash \<Rightarrow>
      case prepare_step ctx0 rq s0 of Inl (rep, e) \<Rightarrow> (s0, zero_outcome rep, Some e) | Inr ctx \<Rightarrow>
      case source_phase ctx rq hash s0 of
        (s1, Inl (rep, e)) \<Rightarrow> (s1, zero_outcome rep, Some e)
      | (s1, Inr k) \<Rightarrow>
          (let pid = au_ProjectID (rq_Authorization rq); op = id_Operation (rq_Identity rq) in
           case rq_Transaction rq \<lparr>ReadOnly = False, RetryLocks = op_RetryLocks op, RepeatableRead = False\<rparr>
                  (write_body ctx rq hash elapsed) k s1 of
             (k2, s2, Some e) \<Rightarrow>
               ((case rq_ObserveFailure rq of None \<Rightarrow> s2 | Some f \<Rightarrow> f ctx pid op e elapsed' s2),
                zero_outcome (c_replayed k2), Some e)
           | (k2, s2, None) \<Rightarrow>
               (case rq_Project rq ctx op pid (ResBody (c_result k2)) s2 of
                  Inl e \<Rightarrow> (s2, zero_outcome False, Some e)
                | Inr visible \<Rightarrow>
                    (s2, \<lparr>OutBody = visible, OutStatus = ResStatus (c_result k2), Replayed = c_replayed k2\<rparr>, None))))"

section \<open>What the steps guarantee\<close>

lemma seam_check_ok [simp]: "seam_check None call = Inr ()"
  by (simp add: seam_check_def)

lemma seam_write_none [simp]: "seam_write None call s = Inr s"
  by (simp add: seam_write_def)

lemma authorize_write_refusal:
  "authorize_write ctx rq s = Inl e \<longleftrightarrow>
     (if au_ProjectID (rq_Authorization rq) = []
      then rq_AuthorizeTenant rq ctx s (rq_Authorization rq) = Some e
      else rq_AuthorizeProject rq ctx s (rq_Authorization rq) = Inl e)"
  by (auto simp: authorize_write_def Let_def split: sum.splits option.splits)

lemma authorize_write_grant:
  "authorize_write ctx rq s = Inr p \<longleftrightarrow>
     (if au_ProjectID (rq_Authorization rq) = []
      then rq_AuthorizeTenant rq ctx s (rq_Authorization rq) = None \<and> p = rq_zeroProject rq
      else rq_AuthorizeProject rq ctx s (rq_Authorization rq) = Inr p)"
  by (auto simp: authorize_write_def Let_def split: sum.splits option.splits)

lemma admit_ok:
  assumes "admit ctx rq s = Inr (p, s1)"
  shows "authorize_write ctx rq s = Inr p" "check_project rq p = Inr ()"
    "rq_RecordAudit rq ctx (au_ProjectID (rq_Authorization rq)) (authorization_Capability (rq_Authorization rq)) None s = Inr s1"
    "seam_check (rq_RuntimeGate rq) (\<lambda>f. f ctx s1 p (id_Operation (rq_Identity rq))) = Inr ()"
  using assms
  by (cases "rq_RecordAudit rq ctx (au_ProjectID (rq_Authorization rq)) (authorization_Capability (rq_Authorization rq)) None s";
      auto simp: admit_def)+

lemma replay_lookup_found:
  "replay_lookup rq led hash s = Inr (previous, True) \<Longrightarrow>
     Lookup led (rq_Identity rq) s = Inr (previous, True) \<and> BodyHash previous = hash"
  by (auto simp: replay_lookup_def split: if_splits)

lemma replay_lookup_absent:
  "replay_lookup rq led hash s = Inr (previous, False) \<Longrightarrow>
     Lookup led (rq_Identity rq) s = Inr (previous, False)"
  by (auto simp: replay_lookup_def split: if_splits)

lemma source_compare_frame:
  "source_compare rq p previous found k s = (k1, r) \<Longrightarrow>
     c_project k1 = c_project k \<and> c_sources k1 = c_sources k \<and> c_found k1 = c_found k
     \<and> c_result k1 = c_result k"
  by (auto simp: source_compare_def mark_replay_def Let_def split: if_splits sum.splits)

lemma source_compare_ok:
  assumes "source_compare rq p previous found k s = (k1, Inr u)"
  shows "k1 = k"
    and "rq_SourceSensitive rq \<Longrightarrow>
           source_ids rq s previous found = Inr (c_sources k) \<and> found = c_found k
           \<and> rq_Basis rq p = rq_Basis rq (c_project k)"
  using assms by (auto simp: source_compare_def mark_replay_def Let_def split: if_splits sum.splits)

lemma write_body_frame:
  "c_project (fst (write_body ctx rq hash el k s)) = c_project k \<and>
   c_sources (fst (write_body ctx rq hash el k s)) = c_sources k \<and>
   c_found (fst (write_body ctx rq hash el k s)) = c_found k"
  by (auto simp: write_body_def dest!: source_compare_frame split: sum.split prod.split)

lemma write_body_commits:
  assumes "write_body ctx rq hash el k s = (k', Inr s')"
  obtains led p s1 previous found where
    "rq_Ledger rq s = Inr led" "admit ctx rq s = Inr (p, s1)"
    "replay_lookup rq led hash s1 = Inr (previous, found)"
    "source_compare rq p previous found k s1 = (k, Inr ())"
    "found \<Longrightarrow> s' = s1 \<and> c_result k' = previous \<and> c_replayed k'"
    "\<not> found \<Longrightarrow> perform ctx rq led hash el p s1 = Inr (c_result k', s') \<and> c_replayed k' = c_replayed k"
proof -
  from assms obtain led where l: "rq_Ledger rq s = Inr led"
    by (auto simp: write_body_def split: sum.splits)
  from assms l obtain p s1 where a: "admit ctx rq s = Inr (p, s1)"
    by (auto simp: write_body_def split: sum.splits)
  from assms l a obtain previous found where r: "replay_lookup rq led hash s1 = Inr (previous, found)"
    by (auto simp: write_body_def split: sum.splits)
  from assms l a r obtain k1 where c: "source_compare rq p previous found k s1 = (k1, Inr ())"
    by (cases "source_compare rq p previous found k s1"; cases "snd (source_compare rq p previous found k s1)")
       (auto simp: write_body_def split: sum.splits)
  then have k1: "k1 = k" by (rule source_compare_ok(1))
  show ?thesis
  proof (rule that [OF l a r])
    show "source_compare rq p previous found k s1 = (k, Inr ())" using c k1 by simp
    show "s' = s1 \<and> c_result k' = previous \<and> c_replayed k'" if found
      using assms l a r c that by (auto simp: write_body_def split: sum.splits)
    show "perform ctx rq led hash el p s1 = Inr (c_result k', s') \<and> c_replayed k' = c_replayed k" if "\<not> found"
      using assms l a r c k1 that by (auto simp: write_body_def split: sum.splits)
  qed
qed

lemma perform_result:
  assumes "perform ctx rq led hash el p s = Inr (result, s')"
  obtains s1 val out status s2 s5 where
    "seam_write (rq_StorePins rq) (\<lambda>f. f ctx (au_ProjectID (rq_Authorization rq))) s = Inr s1"
    "rq_Write rq ctx p s1 = Inr (val, out, status, s2)"
    "out = [] \<or> out = rq_Output rq"
    "rq_marshalValue rq val = Inr (ResBody result)"
    "BodyHash result = hash" "ResStatus result = status" "ResOutput result = rq_Output rq"
    "Save led (rq_Identity rq) result s5 = Inr s'"
  using assms by (auto simp: perform_def Let_def split: if_splits prod.splits)

lemma source_recheck_commits:
  assumes "source_recheck ctx rq hash k s = (k', Inr s')"
  obtains led p previous where
    "s' = s" "rq_Ledger rq s = Inr led"
    "rq_AuthorizeProject rq ctx s (rq_Authorization rq) = Inr p" "c_project k' = p"
    "replay_lookup rq led hash s = Inr (previous, c_found k')"
    "source_ids rq s previous (c_found k') = Inr (c_sources k')"
    "c_replayed k' = c_replayed k"
  using assms
  by (auto simp: source_recheck_def Let_def split: sum.splits prod.splits)

lemma gate_caller_key: "gate_caller ctx rq = Inr hash \<Longrightarrow> ValidKey (id_Key (rq_Identity rq))"
  by (auto simp: gate_caller_def split: if_splits option.splits)

lemma gate_caller_hash:
  "gate_caller ctx rq = Inr hash \<Longrightarrow>
     \<exists>encoded. rq_marshalBody rq (rq_Body rq) = Inr encoded \<and> hash = sha256_hex encoded"
  by (auto simp: gate_caller_def RequestHash_def digestJSON_def
        split: if_splits option.splits sum.splits prod.splits)

lemma gate_caller_human:
  assumes "gate_caller ctx rq = Inr hash"
  shows "rq_HumanGate rq = HumanGateNotRequired \<or>
         rq_HumanGate rq = HumanGateRequired \<and> ctx_APIKeyScope ctx = None \<and>
         (\<forall>p. PrincipalFromContext ctx = Some p \<longrightarrow>
            pr_Type p \<notin> {''api_tenant'', ''api_platform'', ''api_external_user'',
                          ''embed_channel'', ''embed_session'', ''embed_visitor''})"
  using assms
  by (cases "rq_HumanGate rq")
     (auto simp: gate_caller_def RequireHumanDecision_def TenantAPIKeyScopeFromContext_def
        split: if_splits option.splits)

section \<open>The pipeline on a transaction port\<close>

locale pipeline = tx_port "rq_Transaction rq" others
  for rq :: "('a, 's, 'p, 'b, 'v, 'x) request" and others :: "'s \<Rightarrow> 's \<Rightarrow> bool"
begin

lemma source_phase_others:
  "source_phase ctx rq hash s = (s1, r) \<Longrightarrow> others s s1"
proof -
  assume a: "source_phase ctx rq hash s = (s1, r)"
  define k :: "'p captured" where
    "k = \<lparr>c_result = zero_result, c_replayed = False, c_project = rq_zeroProject rq, c_sources = [], c_found = False\<rparr>"
  define opts where "opts = \<lparr>ReadOnly = True, RetryLocks = False, RepeatableRead = False\<rparr>"
  show ?thesis
  proof (cases "rq_SourceSensitive rq")
    case True
    obtain k1 t q where tx: "rq_Transaction rq opts (source_recheck ctx rq hash) k s = (k1, t, q)"
      by (metis prod_cases3)
    then have t: "t = s1"
      using a True by (auto simp: source_phase_def k_def opts_def Let_def split: option.splits sum.splits)
    show ?thesis
    proof (cases q)
      case None
      then obtain k0 s0 where "others s s0" "source_recheck ctx rq hash k0 s0 = (k1, Inr t)"
        using commit_once tx by metis
      then show ?thesis using t by (auto elim: source_recheck_commits)
    next
      case (Some e)
      then show ?thesis using tx tx_rollback t by metis
    qed
  next
    case False
    then show ?thesis using a others_refl by (simp add: source_phase_def Let_def)
  qed
qed

lemma source_phase_checked:
  assumes "source_phase ctx rq hash s = (s1, Inr k)" "rq_SourceSensitive rq"
  obtains led previous where
    "others s s1" "rq_Ledger rq s1 = Inr led"
    "rq_AuthorizeProject rq ctx s1 (rq_Authorization rq) = Inr (c_project k)"
    "replay_lookup rq led hash s1 = Inr (previous, c_found k)"
    "source_ids rq s1 previous (c_found k) = Inr (c_sources k)"
    "seam_check (rq_CheckSources rq) (\<lambda>f. f ctx (au_ProjectID (rq_Authorization rq)) (c_sources k) s1) = Inr ()"
proof -
  define k0 :: "'p captured" where
    "k0 = \<lparr>c_result = zero_result, c_replayed = False, c_project = rq_zeroProject rq, c_sources = [], c_found = False\<rparr>"
  define opts where "opts = \<lparr>ReadOnly = True, RetryLocks = False, RepeatableRead = False\<rparr>"
  have tx: "rq_Transaction rq opts (source_recheck ctx rq hash) k0 s = (k, s1, None)"
    and chk: "seam_check (rq_CheckSources rq) (\<lambda>f. f ctx (au_ProjectID (rq_Authorization rq)) (c_sources k) s1) = Inr ()"
    using assms by (auto simp: source_phase_def Let_def k0_def opts_def split: prod.splits option.splits sum.splits)
  from commit_once [OF tx] obtain ka sa where sa: "others s sa" "source_recheck ctx rq hash ka sa = (k, Inr s1)"
    by blast
  from sa(2) obtain led p previous where "s1 = sa" "rq_Ledger rq sa = Inr led"
    "rq_AuthorizeProject rq ctx sa (rq_Authorization rq) = Inr p" "c_project k = p"
    "replay_lookup rq led hash sa = Inr (previous, c_found k)"
    "source_ids rq sa previous (c_found k) = Inr (c_sources k)"
    by (rule source_recheck_commits)
  then show ?thesis using that [of led previous] sa(1) chk by simp
qed

lemma source_phase_unmarked:
  assumes "source_phase ctx rq hash s = (s1, Inr k)" "\<not> rq_SourceSensitive rq"
  shows "\<not> c_replayed k"
  using assms by (auto simp: source_phase_def Let_def)

lemma write_phase_committed:
  assumes "rq_Transaction rq opts (write_body ctx rq hash el) k s = (k2, s2, None)"
  obtains k0 sw where
    "others s sw" "write_body ctx rq hash el k0 sw = (k2, Inr s2)"
    "c_project k0 = c_project k" "c_sources k0 = c_sources k" "c_found k0 = c_found k"
proof -
  have "\<exists>k0 s0. (c_project k0 = c_project k \<and> c_sources k0 = c_sources k \<and> c_found k0 = c_found k)
       \<and> others s s0 \<and> write_body ctx rq hash el k0 s0 = (k2, Inr s2)"
    using assms by (rule tx_commit) (simp_all add: write_body_frame)
  then show ?thesis using that by blast
qed

text \<open>A successful run, taken apart.\<close>

lemma run_success:
  assumes "Run ctx rq el el' s = (s', out, None)"
  obtains hash ctx' s1 k k0 sw k2 where
    "gate_caller ctx rq = Inr hash" "prepare_step ctx rq s = Inr ctx'"
    "source_phase ctx' rq hash s = (s1, Inr k)" "others s s1" "others s1 sw"
    "write_body ctx' rq hash el k0 sw = (k2, Inr s')"
    "c_project k0 = c_project k" "c_sources k0 = c_sources k" "c_found k0 = c_found k"
    "rq_Project rq ctx' (id_Operation (rq_Identity rq)) (au_ProjectID (rq_Authorization rq)) (ResBody (c_result k2)) s' = Inr (OutBody out)"
    "OutStatus out = ResStatus (c_result k2)" "Replayed out = c_replayed k2"
proof -
  from assms obtain hash where g: "gate_caller ctx rq = Inr hash"
    by (auto simp: Run_def split: sum.splits)
  from assms g obtain ctx' where p: "prepare_step ctx rq s = Inr ctx'"
    by (auto simp: Run_def split: sum.splits)
  from assms g p obtain s1 k where sp: "source_phase ctx' rq hash s = (s1, Inr k)"
    by (auto simp: Run_def split: sum.splits prod.splits)
  define opts where "opts = \<lparr>ReadOnly = False, RetryLocks = op_RetryLocks (id_Operation (rq_Identity rq)), RepeatableRead = False\<rparr>"
  obtain k2 s2 q where tx: "rq_Transaction rq opts (write_body ctx' rq hash el) k s1 = (k2, s2, q)"
    by (metis prod_cases3)
  have q: "q = None" "s2 = s'"
    and pr: "rq_Project rq ctx' (id_Operation (rq_Identity rq)) (au_ProjectID (rq_Authorization rq)) (ResBody (c_result k2)) s' = Inr (OutBody out)"
    and o: "OutStatus out = ResStatus (c_result k2)" "Replayed out = c_replayed k2"
    using assms g p sp tx by (auto simp: Run_def Let_def opts_def split: option.splits sum.splits)
  from tx q have "rq_Transaction rq opts (write_body ctx' rq hash el) k s1 = (k2, s', None)" by simp
  then obtain k0 sw where "others s1 sw" "write_body ctx' rq hash el k0 sw = (k2, Inr s')"
    "c_project k0 = c_project k" "c_sources k0 = c_sources k" "c_found k0 = c_found k"
    by (rule write_phase_committed)
  then show ?thesis using that g p sp source_phase_others [OF sp] pr o by blast
qed

text \<open>A failed run: what it may leave in the store.\<close>

lemma run_failure:
  assumes "Run ctx rq el el' s = (s', out, Some e)"
  shows "others s s' \<or>
    (\<exists>observe ctx' s2. rq_ObserveFailure rq = Some observe \<and> others s s2 \<and>
       s' = observe ctx' (au_ProjectID (rq_Authorization rq)) (id_Operation (rq_Identity rq)) e el' s2) \<or>
    (\<exists>ctx' body. rq_Project rq ctx' (id_Operation (rq_Identity rq)) (au_ProjectID (rq_Authorization rq)) body s' = Inl e)"
proof (cases "gate_caller ctx rq")
  case (Inl a)
  then show ?thesis using assms others_refl by (simp add: Run_def)
next
  case g: (Inr hash)
  show ?thesis
  proof (cases "prepare_step ctx rq s")
    case (Inl a)
    then show ?thesis using assms g others_refl by (auto simp: Run_def split: prod.splits)
  next
    case p: (Inr ctx')
    obtain s1 r where sp: "source_phase ctx' rq hash s = (s1, r)" by (metis surj_pair)
    have o1: "others s s1" using sp by (rule source_phase_others)
    show ?thesis
    proof (cases r)
      case (Inl a)
      then show ?thesis using assms g p sp o1 by (auto simp: Run_def split: prod.splits)
    next
      case k: (Inr k)
      define opts where "opts = \<lparr>ReadOnly = False, RetryLocks = op_RetryLocks (id_Operation (rq_Identity rq)), RepeatableRead = False\<rparr>"
      obtain k2 s2 q where tx: "rq_Transaction rq opts (write_body ctx' rq hash el) k s1 = (k2, s2, q)"
        by (metis prod_cases3)
      show ?thesis
      proof (cases q)
        case None
        then have "s' = s2 \<and> rq_Project rq ctx' (id_Operation (rq_Identity rq)) (au_ProjectID (rq_Authorization rq)) (ResBody (c_result k2)) s2 = Inl e"
          using assms g p sp k tx by (auto simp: Run_def Let_def opts_def split: sum.splits)
        then show ?thesis by blast
      next
        case (Some e')
        then have o2: "others s s2" using tx tx_rollback o1 others_trans by metis
        have "e' = e" "s' = (case rq_ObserveFailure rq of None \<Rightarrow> s2
            | Some f \<Rightarrow> f ctx' (au_ProjectID (rq_Authorization rq)) (id_Operation (rq_Identity rq)) e el' s2)"
          using assms g p sp k tx Some by (auto simp: Run_def Let_def opts_def)
        then show ?thesis using o2 by (cases "rq_ObserveFailure rq") auto
      qed
    qed
  qed
qed

text \<open>Whatever a run answers, replay included, it was authorized and audited on the store it answers from.\<close>

lemma run_authorized:
  assumes "Run ctx rq el el' s = (s', out, None)"
  obtains ctx' sw p sa where
    "others s sw" "authorize_write ctx' rq sw = Inr p"
    "rq_RecordAudit rq ctx' (au_ProjectID (rq_Authorization rq)) (authorization_Capability (rq_Authorization rq)) None sw = Inr sa"
proof -
  from assms obtain hash ctx' s1 k k0 sw k2 where o: "others s s1" "others s1 sw"
    and w: "write_body ctx' rq hash el k0 sw = (k2, Inr s')"
    by (rule run_success)
  from w obtain led p sa where "admit ctx' rq sw = Inr (p, sa)" by (rule write_body_commits)
  then show ?thesis using that [OF others_trans [OF o]] admit_ok by metis
qed

text \<open>A response that is not marked as a replay comes from a write of this very run.\<close>

lemma run_fresh:
  assumes "Run ctx rq el el' s = (s', out, None)" "\<not> Replayed out"
  obtains hash ctx' sw p sa sb led val o' status sc result sd previous where
    "gate_caller ctx rq = Inr hash" "others s sw"
    "rq_Ledger rq sw = Inr led" "admit ctx' rq sw = Inr (p, sa)"
    "Lookup led (rq_Identity rq) sa = Inr (previous, False)"
    "rq_Write rq ctx' p sb = Inr (val, o', status, sc)"
    "rq_marshalValue rq val = Inr (ResBody result)"
    "BodyHash result = hash" "ResStatus result = status" "ResOutput result = rq_Output rq" "OutStatus out = status"
    "Save led (rq_Identity rq) result sd = Inr s'"
proof -
  from assms(1) obtain hash ctx' s1 k k0 sw k2 where g: "gate_caller ctx rq = Inr hash"
    and o: "others s s1" "others s1 sw"
    and w: "write_body ctx' rq hash el k0 sw = (k2, Inr s')"
    and r: "OutStatus out = ResStatus (c_result k2)" "Replayed out = c_replayed k2"
    by (rule run_success)
  from w obtain led p sa previous found where a: "rq_Ledger rq sw = Inr led" "admit ctx' rq sw = Inr (p, sa)"
    and l: "replay_lookup rq led hash sa = Inr (previous, found)"
    and f: "found \<Longrightarrow> c_replayed k2"
    and n: "\<not> found \<Longrightarrow> perform ctx' rq led hash el p sa = Inr (c_result k2, s')"
    by (rule write_body_commits) blast
  from f r assms(2) have nf: "\<not> found" by blast
  with l have "Lookup led (rq_Identity rq) sa = Inr (previous, False)"
    by (simp add: replay_lookup_absent)
  moreover from n [OF nf] obtain s1' val o' status s2' s5' where
    "rq_Write rq ctx' p s1' = Inr (val, o', status, s2')"
    "rq_marshalValue rq val = Inr (ResBody (c_result k2))"
    "BodyHash (c_result k2) = hash" "ResStatus (c_result k2) = status" "ResOutput (c_result k2) = rq_Output rq"
    "Save led (rq_Identity rq) (c_result k2) s5' = Inr s'"
    by (rule perform_result)
  ultimately show ?thesis
    using that g a r others_trans [OF o] by metis
qed

text \<open>An attempt whose record is already there answers with that record and does not write.\<close>

lemma run_replays:
  assumes "Run ctx rq el el' s = (s', out, None)"
    and saved: "\<And>t c p ta led. others s t \<Longrightarrow> rq_Ledger rq t = Inr led \<Longrightarrow> admit c rq t = Inr (p, ta) \<Longrightarrow>
       Lookup led (rq_Identity rq) ta = Inr (previous, True)"
  obtains ctx' sw p where
    "Replayed out" "OutStatus out = ResStatus previous" "others s sw" "admit ctx' rq sw = Inr (p, s')"
    "rq_Project rq ctx' (id_Operation (rq_Identity rq)) (au_ProjectID (rq_Authorization rq)) (ResBody previous) s' = Inr (OutBody out)"
    "gate_caller ctx rq = Inr (BodyHash previous)"
proof -
  from assms(1) obtain hash ctx' s1 k k0 sw k2 where g: "gate_caller ctx rq = Inr hash"
    and o: "others s s1" "others s1 sw"
    and w: "write_body ctx' rq hash el k0 sw = (k2, Inr s')"
    and pr: "rq_Project rq ctx' (id_Operation (rq_Identity rq)) (au_ProjectID (rq_Authorization rq)) (ResBody (c_result k2)) s' = Inr (OutBody out)"
    and r: "OutStatus out = ResStatus (c_result k2)" "Replayed out = c_replayed k2"
    by (rule run_success)
  have sw: "others s sw" using o others_trans by blast
  from w obtain led p sa prev found where a: "rq_Ledger rq sw = Inr led" "admit ctx' rq sw = Inr (p, sa)"
    and l: "replay_lookup rq led hash sa = Inr (prev, found)"
    and f: "found \<Longrightarrow> s' = sa \<and> c_result k2 = prev \<and> c_replayed k2"
    by (rule write_body_commits) blast
  from l saved [OF sw a] have "found" "prev = previous" "hash = BodyHash previous"
    by (auto simp: replay_lookup_def split: if_splits)
  then show ?thesis using that f sw a g pr r by auto
qed

text \<open>The sources that were rechecked are the sources the write saw, on the same basis.\<close>

lemma run_sources:
  assumes "Run ctx rq el el' s = (s', out, None)" "rq_SourceSensitive rq"
  obtains ctx' s1 sw pc p sa led prev prev' found ids where
    "others s s1" "others s1 sw"
    "rq_AuthorizeProject rq ctx' s1 (rq_Authorization rq) = Inr pc"
    "source_ids rq s1 prev found = Inr ids"
    "seam_check (rq_CheckSources rq) (\<lambda>f. f ctx' (au_ProjectID (rq_Authorization rq)) ids s1) = Inr ()"
    "admit ctx' rq sw = Inr (p, sa)" "source_ids rq sa prev' found = Inr ids"
    "rq_Ledger rq sw = Inr led" "Lookup led (rq_Identity rq) sa = Inr (prev', found)"
    "rq_Basis rq p = rq_Basis rq pc"
proof -
  from assms(1) obtain hash ctx' s1 k k0 sw k2 where sp: "source_phase ctx' rq hash s = (s1, Inr k)"
    and o: "others s s1" "others s1 sw"
    and w: "write_body ctx' rq hash el k0 sw = (k2, Inr s')"
    and k: "c_project k0 = c_project k" "c_sources k0 = c_sources k" "c_found k0 = c_found k"
    by (rule run_success)
  from sp assms(2) obtain led0 prev where c: "rq_AuthorizeProject rq ctx' s1 (rq_Authorization rq) = Inr (c_project k)"
    "source_ids rq s1 prev (c_found k) = Inr (c_sources k)"
    "seam_check (rq_CheckSources rq) (\<lambda>f. f ctx' (au_ProjectID (rq_Authorization rq)) (c_sources k) s1) = Inr ()"
    by (rule source_phase_checked)
  from w obtain led p sa prev' found where a: "rq_Ledger rq sw = Inr led" "admit ctx' rq sw = Inr (p, sa)"
    and l: "replay_lookup rq led hash sa = Inr (prev', found)"
    and cmp: "source_compare rq p prev' found k0 sa = (k0, Inr ())"
    by (rule write_body_commits)
  note s2 = source_compare_ok(2) [OF cmp assms(2)]
  have "Lookup led (rq_Identity rq) sa = Inr (prev', found)"
    using l by (auto simp: replay_lookup_def split: if_splits)
  then show ?thesis
    using that [of s1 sw ctx' "c_project k" prev "c_found k" "c_sources k" p sa prev' led] o c a s2 k by auto
qed

text \<open>A caller the authorization refuses is refused, whatever record there is to replay.\<close>

lemma run_unauthorized:
  assumes "\<And>c t. others s t \<Longrightarrow> \<exists>e. authorize_write c rq t = Inl e"
  shows "\<exists>s' out e. Run ctx rq el el' s = (s', out, Some e)"
proof -
  obtain s' out q where r: "Run ctx rq el el' s = (s', out, q)" by (metis prod_cases3)
  show ?thesis
  proof (cases q)
    case None
    then obtain ctx' sw p where "others s sw" "authorize_write ctx' rq sw = Inr p"
      using run_authorized r by metis
    then show ?thesis using assms [of sw ctx'] by auto
  qed (use r in blast)
qed

end

end
