(* ===== verification/Workspace_Model.thy ===== *)
theory Workspace_Model
  imports Operation_Core
begin

text \<open>
  The data of the workspace aggregate (\<^verbatim>\<open>workspacecore/model.go\<close>): the actor, members, projects and
  their template copies, and the typed authorization vocabulary of \<^verbatim>\<open>typed_contracts.go\<close>.  A time is
  a number of nanoseconds; \<^verbatim>\<open>'d\<close> is the type of a template definition.
\<close>

record actor =
  TenantID :: nat
  UserID :: string
  TenantRole :: string
  SystemAdmin :: bool
  Role :: string

definition plain_actor :: "nat \<Rightarrow> string \<Rightarrow> actor" where
  "plain_actor tenant user = \<lparr>TenantID = tenant, UserID = user, TenantRole = [], SystemAdmin = False, Role = []\<rparr>"

text \<open>\<^verbatim>\<open>FunctionScopes\<close> is a Go map; it is kept as an association list whose first entry for a key counts.\<close>

record member =
  m_UserID :: string
  m_Role :: string
  m_GovernanceRole :: string
  m_FunctionRoles :: "string list"
  m_FunctionScopes :: "(string \<times> string list) list"
  m_Status :: string

definition scopes_of :: "member \<Rightarrow> string \<Rightarrow> string list" where
  "scopes_of m role = (case map_of (m_FunctionScopes m) role of None \<Rightarrow> [] | Some l \<Rightarrow> l)"

record spec_field =
  sf_Value :: string
  sf_Origin :: string
  sf_Status :: string
  sf_ModifiedBy :: string
  sf_ModifiedAt :: int
  sf_ModifiedProjectVersion :: int

record 'd template_copy =
  tc_ID :: string
  tc_ProjectID :: string
  tc_SourceTemplateID :: string
  tc_SourceTemplateVersion :: string
  tc_Version :: int
  tc_Status :: string
  tc_ContentHash :: string
  tc_RulesetHash :: string
  tc_Definition :: 'd
  tc_CreatedBy :: string
  tc_CreatedAt :: int

record 'd project =
  p_ID :: string
  p_Name :: string
  p_Status :: string
  p_ProjectVersion :: int
  p_SpecRevision :: int
  p_CurrentContextRevision :: int
  p_DeliveryStatus :: string
  p_BaselineConfirmationID :: string
  p_Spec :: "(string \<times> string) list"
  p_SpecFields :: "(string \<times> spec_field) list"
  p_TemplateID :: string
  p_TemplateVersion :: string
  p_TemplateCopyVersion :: int
  p_TemplateCopy :: "'d template_copy option"
  p_DiscardedAt :: "int option"
  p_Members :: "member list"

definition validActor :: "actor \<Rightarrow> bool" where
  "validActor a \<longleftrightarrow> TenantID a \<noteq> 0 \<and> UserID a \<noteq> []"

section \<open>Members of a project\<close>

definition projectMember :: "'d project \<Rightarrow> string \<Rightarrow> member option" where
  "projectMember p user = find (\<lambda>m. m_UserID m = user) (p_Members p)"

definition projectOwner :: "'d project \<Rightarrow> string \<Rightarrow> bool" where
  "projectOwner p user \<longleftrightarrow> (\<exists>m\<in>set (p_Members p). m_UserID m = user \<and> m_Role m = ''owner'')"

definition projectOwnerUser :: "'d project \<Rightarrow> string option" where
  "projectOwnerUser p = map_option m_UserID (find (\<lambda>m. m_Role m = ''owner'') (p_Members p))"

definition governanceRole :: "member \<Rightarrow> string" where
  "governanceRole m =
     (if m_Role m = ''owner'' then ''owner''
      else if m_GovernanceRole m = [] then ''member'' else m_GovernanceRole m)"

definition memberHasScope :: "member \<Rightarrow> string \<Rightarrow> string \<Rightarrow> bool" where
  "memberHasScope m role target \<longleftrightarrow>
     role \<in> set (m_FunctionRoles m) \<and> target \<noteq> [] \<and> target \<in> set (scopes_of m role)"

lemma projectMember_Some:
  "projectMember p user = Some m \<Longrightarrow> m \<in> set (p_Members p) \<and> m_UserID m = user"
  by (auto simp: projectMember_def dest: find_Some_in)

lemma projectOwnerUser_owner: "projectOwnerUser p = Some u \<Longrightarrow> projectOwner p u"
  by (auto simp: projectOwnerUser_def projectOwner_def dest!: find_Some_in)

lemma projectOwnerUser_None: "projectOwnerUser p = None \<Longrightarrow> \<not> projectOwner p u"
  by (auto simp: projectOwnerUser_def projectOwner_def find_None_iff')

text \<open>The well-formedness of a member list: one row per user, one owner.\<close>

definition members_wf :: "member list \<Rightarrow> bool" where
  "members_wf ms \<longleftrightarrow> distinct (map m_UserID ms) \<and> length (filter (\<lambda>m. m_Role m = ''owner'') ms) = 1"

lemma members_wf_owner_unique:
  assumes "members_wf ms" "m \<in> set ms" "m_Role m = ''owner''" "n \<in> set ms" "m_Role n = ''owner''"
  shows "m = n"
proof -
  from assms(1) obtain w where "filter (\<lambda>m. m_Role m = ''owner'') ms = [w]"
    by (auto simp: members_wf_def length_Suc_conv)
  then have "{m \<in> set ms. m_Role m = ''owner''} = {w}" by (metis empty_set list.simps(15) set_filter)
  moreover have "m \<in> {m \<in> set ms. m_Role m = ''owner''}" "n \<in> {m \<in> set ms. m_Role m = ''owner''}"
    using assms by simp_all
  ultimately show ?thesis by (metis singletonD)
qed

lemma members_wf_projectOwnerUser:
  assumes "members_wf (p_Members p)"
  shows "projectOwner p u \<longleftrightarrow> projectOwnerUser p = Some u"
proof
  assume "projectOwner p u"
  then obtain m where m: "m \<in> set (p_Members p)" "m_UserID m = u" "m_Role m = ''owner''"
    by (auto simp: projectOwner_def)
  then have "find (\<lambda>m. m_Role m = ''owner'') (p_Members p) \<noteq> None"
    by (auto simp only: find_None_iff')
  then obtain n where n: "find (\<lambda>m. m_Role m = ''owner'') (p_Members p) = Some n" by blast
  from find_Some_in [OF n] have "n = m"
    using members_wf_owner_unique [OF assms _ _ m(1) m(3), of n] by blast
  then show "projectOwnerUser p = Some u" using n m by (simp add: projectOwnerUser_def)
qed (rule projectOwnerUser_owner)

section \<open>The typed authorization vocabulary\<close>

type_synonym auth_request = "actor authorization"

definition authorizationRequest :: "actor \<Rightarrow> string \<Rightarrow> string \<Rightarrow> string \<Rightarrow> auth_request" where
  "authorizationRequest a projectID action resource =
     \<lparr>au_Actor = a, au_ProjectID = projectID, au_Action = action, au_Resource = resource\<rparr>"

text \<open>\<^verbatim>\<open>AuthorizationRequest.capability\<close> of the workspace; the pipeline has its own copy of the rule.\<close>

definition request_capability :: "auth_request \<Rightarrow> string" where
  "request_capability r =
     (if au_Resource r = [] then au_Action r else au_Action r @ '':'' @ au_Resource r)"

definition authorizationActions :: "string list" where
  "authorizationActions =
     [''delivery-read'', ''tenant-manage'', ''research'', ''agent'', ''evidence-write'',
      ''evidence-confirm'', ''confirm'', ''review'', ''change-assess'', ''impact-resolve'',
      ''ops-control'', ''read'', ''write'', ''create'', ''manage'', ''issue-resolve'',
      ''issue-dismiss'', ''issue-waive'', ''issue-dismiss-blocking'']"

definition validAuthorizationAction :: "string \<Rightarrow> bool" where
  "validAuthorizationAction action \<longleftrightarrow> action \<in> set authorizationActions"

definition authorizationRequestFromCapability :: "actor \<Rightarrow> string \<Rightarrow> string \<Rightarrow> goerr + auth_request" where
  "authorizationRequestFromCapability a projectID capability =
     (let (action, resource) =
            (case cut (CHR '':'') capability of Some (x, y) \<Rightarrow> (x, y) | None \<Rightarrow> (capability, []))
      in if \<not> validAuthorizationAction action \<or> contains resource '':''
         then Inl (Sentinel ErrInvalidRequest)
         else Inr (authorizationRequest a projectID action resource))"

datatype resource_kind = ResourceChapter | ResourceAsset | ResourceOther string

record resource_ref =
  rr_Kind :: resource_kind
  rr_ID :: string
  rr_ChapterID :: string

definition validResourceID :: "string \<Rightarrow> bool" where
  "validResourceID v \<longleftrightarrow> v \<noteq> [] \<and> trim_space v = v \<and> \<not> contains v '':''"

definition resource_valid :: "resource_ref \<Rightarrow> bool" where
  "resource_valid r =
     (case rr_Kind r of
        ResourceChapter \<Rightarrow> validResourceID (rr_ID r) \<and> rr_ChapterID r = []
      | ResourceAsset \<Rightarrow> validResourceID (rr_ID r) \<and> (rr_ChapterID r = [] \<or> validResourceID (rr_ChapterID r))
      | ResourceOther _ \<Rightarrow> False)"

definition NewChapterResourceRef :: "string \<Rightarrow> goerr + resource_ref" where
  "NewChapterResourceRef i =
     (let ref = \<lparr>rr_Kind = ResourceChapter, rr_ID = i, rr_ChapterID = []\<rparr>
      in if resource_valid ref then Inr ref else Inl (Sentinel ErrInvalidRequest))"

definition NewAssetResourceRef :: "string \<Rightarrow> goerr + resource_ref" where
  "NewAssetResourceRef i =
     (let ref = \<lparr>rr_Kind = ResourceAsset, rr_ID = i, rr_ChapterID = []\<rparr>
      in if resource_valid ref then Inr ref else Inl (Sentinel ErrInvalidRequest))"

definition NewAssetResourceRefForChapter :: "string \<Rightarrow> string \<Rightarrow> goerr + resource_ref" where
  "NewAssetResourceRefForChapter i chapterID =
     (let ref = \<lparr>rr_Kind = ResourceAsset, rr_ID = i, rr_ChapterID = chapterID\<rparr>
      in if resource_valid ref then Inr ref else Inl (Sentinel ErrInvalidRequest))"

definition AuthorizationResource :: "resource_ref \<Rightarrow> string" where
  "AuthorizationResource r =
     (if \<not> resource_valid r then []
      else if rr_Kind r = ResourceAsset then ''asset:'' @ rr_ID r else rr_ID r)"

lemma contains_char: "contains s [c] \<longleftrightarrow> c \<in> set s"
  by (auto simp: contains_iff in_set_conv_decomp)

lemma actions_no_colon: "validAuthorizationAction a \<Longrightarrow> CHR '':'' \<notin> set a"
  by (auto simp: validAuthorizationAction_def authorizationActions_def)

lemma capability_agrees: "request_capability r = authorization_Capability r"
  by (simp add: request_capability_def authorization_Capability_def)

lemma AuthorizationResource_inj:
  assumes "resource_valid r" "resource_valid r'" "AuthorizationResource r = AuthorizationResource r'"
  shows "rr_Kind r = rr_Kind r' \<and> rr_ID r = rr_ID r'"
proof -
  have no: "''asset:'' @ x \<noteq> y" if "validResourceID y" for x y
  proof
    assume "''asset:'' @ x = y"
    then have "CHR '':'' \<in> set y" by auto
    then show False using that by (simp add: validResourceID_def contains_char)
  qed
  have v: "validResourceID (rr_ID r)" "validResourceID (rr_ID r')"
    using assms(1,2) by (auto simp: resource_valid_def split: resource_kind.splits)
  note no' = no [OF v(1), of "rr_ID r'"] no [OF v(2), of "rr_ID r"]
  have k: "rr_Kind r = ResourceChapter \<or> rr_Kind r = ResourceAsset"
       "rr_Kind r' = ResourceChapter \<or> rr_Kind r' = ResourceAsset"
    using assms(1,2) by (auto simp: resource_valid_def split: resource_kind.splits)
  show ?thesis
    using assms k no' by (auto simp: AuthorizationResource_def)
qed

end
