(* ===== verification/Authorization.thy ===== *)
theory Authorization
  imports Workspace_Model
begin

text \<open>
  Who may do what: \<^verbatim>\<open>workspacecore/permission_policy.go\<close>, the authorization doors of
  \<^verbatim>\<open>service_facade.go\<close>, the API key check of \<^verbatim>\<open>membership_grants.go\<close>, the owner judgement of
  \<^verbatim>\<open>owner_unavailable.go\<close> with its registry \<^verbatim>\<open>owner_capability_registry.go\<close>, and the list of human
  decisions of \<^verbatim>\<open>human_decision.go\<close>.

  The Go interface \<^verbatim>\<open>Transaction\<close> is a record of the read functions these rules call; every one of
  them may fail.  \<^verbatim>\<open>v_CurrentTenantRole\<close> is optional because the code asks whether the transaction
  implements it.
\<close>

record api_grant =
  ag_KeyID :: nat
  ag_Capabilities :: "string list"
  ag_Active :: bool

record api_key_row =
  kr_TenantID :: "nat option"
  kr_ExpiresAt :: "int option"
  kr_RevokedAt :: "int option"

record 'd tx_view =
  v_ActiveMember :: "actor \<Rightarrow> goerr + bool"
  v_CurrentTenantRole :: "(actor \<Rightarrow> goerr + string) option"
  v_Project :: "nat \<Rightarrow> string \<Rightarrow> goerr + 'd project"
  v_Chapter :: "string \<Rightarrow> string \<Rightarrow> goerr + unit"
  v_Grant :: "(string \<Rightarrow> nat \<Rightarrow> goerr + api_grant) option"
  v_KeyRow :: "nat \<Rightarrow> goerr + api_key_row"
  v_ProjectTenant :: "string \<Rightarrow> goerr + nat"
  v_Now :: int

section \<open>Tenant level\<close>

definition currentTenantRole :: "'d tx_view \<Rightarrow> actor \<Rightarrow> goerr + string" where
  "currentTenantRole tx a =
     (let claim = (if Role a = [] then TenantRole a else Role a) in
      case v_CurrentTenantRole tx of
        Some port \<Rightarrow>
          bindR (port a) (\<lambda>role.
            if claim \<noteq> [] \<and> (\<not> role_IsValid claim \<or> role_Level claim < role_Level role)
            then Inr claim else Inr role)
      | None \<Rightarrow> Inr claim)"

definition permissionRoles :: "(string \<times> string) list" where
  "permissionRoles =
     [(''read'', ''viewer''), (''delivery-read'', ''contributor''), (''create'', ''contributor''),
      (''write'', ''contributor''), (''manage'', ''contributor''), (''tenant-manage'', ''admin''),
      (''research'', ''contributor''), (''agent'', ''contributor''),
      (''evidence-write'', ''contributor''), (''evidence-confirm'', ''contributor''),
      (''confirm'', ''contributor''), (''review'', ''contributor''),
      (''change-assess'', ''contributor''), (''impact-resolve'', ''contributor''),
      (''ops-control'', ''contributor''), (''issue-resolve'', ''contributor''),
      (''issue-dismiss'', ''contributor''), (''issue-waive'', ''contributor''),
      (''issue-dismiss-blocking'', ''contributor'')]"

definition legacyAuthorizeTenant :: "'d tx_view \<Rightarrow> actor \<Rightarrow> goerr + unit" where
  "legacyAuthorizeTenant tx a =
     (if \<not> validActor a then Inl (Sentinel ErrNotFound)
      else bindR (v_ActiveMember tx a) (\<lambda>active.
        if \<not> active then Inl (Sentinel ErrNotFound) else Inr ()))"

definition denied :: "auth_request \<Rightarrow> goerr" where
  "denied r = AuthorizationDecisionError (request_capability r) (Sentinel ErrNotFound)"

definition authorizeCurrentTenant :: "'d tx_view \<Rightarrow> auth_request \<Rightarrow> goerr + unit" where
  "authorizeCurrentTenant tx r =
     bindR (legacyAuthorizeTenant tx (au_Actor r)) (\<lambda>_.
     case map_of permissionRoles (au_Action r) of
       None \<Rightarrow> Inl (Sentinel ErrInvalidRequest)
     | Some required \<Rightarrow>
         bindR (currentTenantRole tx (au_Actor r)) (\<lambda>role.
           if role \<noteq> [] \<and> (\<not> role_IsValid role \<or> \<not> role_HasPermission role required)
           then Inl (denied r) else Inr ()))"

section \<open>Project level\<close>

text \<open>The \<^verbatim>\<open>switch base\<close> of \<^verbatim>\<open>authorizeCurrentProject\<close>: what a member who is not the owner may do.\<close>

definition capability_granted :: "member \<Rightarrow> string \<Rightarrow> string \<Rightarrow> string \<Rightarrow> bool" where
  "capability_granted m governance base target =
     (if base = ''manage'' then governance = ''admin''
      else if base = ''ops-control'' then False
      else if base = ''write'' then memberHasScope m ''author'' target
      else if base = ''confirm'' \<or> base = ''review'' then memberHasScope m ''reviewer'' target
      else if base = ''research'' \<or> base = ''evidence-write'' then
        target \<noteq> [] \<and> memberHasScope m ''author'' target \<or>
        ''researcher'' \<in> set (m_FunctionRoles m) \<and>
          (target \<noteq> [] \<and> memberHasScope m ''researcher'' target \<or> target = [] \<and> scopes_of m ''researcher'' \<noteq> [])
      else if base = ''evidence-confirm'' then memberHasScope m ''reviewer'' target
      else if base = ''agent'' then
        ''author'' \<in> set (m_FunctionRoles m) \<or> ''researcher'' \<in> set (m_FunctionRoles m) \<or> ''reviewer'' \<in> set (m_FunctionRoles m)
      else if base = ''change-assess'' \<or> base = ''impact-resolve'' then
        governance = ''admin'' \<or> ''author'' \<in> set (m_FunctionRoles m) \<or> ''researcher'' \<in> set (m_FunctionRoles m)
        \<or> memberHasScope m ''reviewer'' target
      else if base = ''issue-dismiss-blocking'' then
        (let assetScope = (case NewAssetResourceRef target of Inr ref \<Rightarrow> AuthorizationResource ref | Inl _ \<Rightarrow> [])
         in memberHasScope m ''reviewer'' target \<or> memberHasScope m ''reviewer'' assetScope
            \<or> memberHasScope m ''reviewer'' (''delivery:'' @ target))
      else if base = ''issue-resolve'' \<or> base = ''issue-dismiss'' \<or> base = ''issue-waive'' then governance = ''admin''
      else False)"

definition authorizeCurrentProject :: "'d tx_view \<Rightarrow> auth_request \<Rightarrow> goerr + 'd project" where
  "authorizeCurrentProject tx r =
     bindR (authorizeCurrentTenant tx r) (\<lambda>_.
     let base = au_Action r; target = au_Resource r in
     bindR (v_Project tx (TenantID (au_Actor r)) (au_ProjectID r)) (\<lambda>p.
     case projectMember p (UserID (au_Actor r)) of
       None \<Rightarrow> Inl (denied r)
     | Some m \<Rightarrow>
         if m_Status m \<noteq> [] \<and> m_Status m \<noteq> ''active'' then Inl (denied r)
         else let governance = governanceRole m in
         if p_DiscardedAt p \<noteq> None \<and> (base \<noteq> ''read'' \<or> governance \<noteq> ''owner'') then Inl (Sentinel ErrInvalidState)
         else if target \<noteq> [] \<and> (base = ''write'' \<or> base = ''confirm'' \<or> base = ''review'')
                 \<and> \<not> okR (v_Chapter tx (au_ProjectID r) target) then Inl (denied r)
         else if base = ''read'' \<or> base = ''delivery-read'' then Inr p
         else if governance = ''owner'' then Inr p
         else if capability_granted m governance base target then Inr p
         else Inl (denied r)))"

definition legacyAuthorizeProject :: "'d tx_view \<Rightarrow> actor \<Rightarrow> string \<Rightarrow> string \<Rightarrow> goerr + 'd project" where
  "legacyAuthorizeProject tx a projectID capability =
     (if capability \<noteq> ''read'' \<and> capability \<noteq> ''write'' \<and> capability \<noteq> ''manage''
        then Inl (Sentinel ErrInvalidRequest)
      else bindR (legacyAuthorizeTenant tx a) (\<lambda>_.
        bindR (v_Project tx (TenantID a) projectID) (\<lambda>p.
          if p_DiscardedAt p \<noteq> None \<and> capability \<noteq> ''read'' then Inl (Sentinel ErrInvalidState)
          else if p_DiscardedAt p \<noteq> None \<and> \<not> projectOwner p (UserID a) then Inl (Sentinel ErrNotFound)
          else if \<exists>m\<in>set (p_Members p). m_UserID m = UserID a \<and> (capability \<noteq> ''manage'' \<or> m_Role m = ''owner'')
            then Inr p
          else Inl (Sentinel ErrNotFound))))"

section \<open>Machine callers\<close>

text \<open>
  \<^verbatim>\<open>IsPlatform\<close> normalises the scope type; the context holds it normalised already.  Every path
  through a present API key scope ends in a refusal.
\<close>

definition authorizeAPIKeyProject :: "'x gocontext \<Rightarrow> 'd tx_view \<Rightarrow> string \<Rightarrow> string \<Rightarrow> goerr + unit" where
  "authorizeAPIKeyProject ctx tx pid capability =
     (let refuse = Inl (Sentinel ErrNotFound);
          base = (case cut (CHR '':'') capability of Some (x, _) \<Rightarrow> x | None \<Rightarrow> capability)
      in case TenantAPIKeyScopeFromContext ctx of
        None \<Rightarrow> (case RequireHumanDecision ctx (Sentinel ErrHumanDecisionRequired) of
                   Some _ \<Rightarrow> refuse | None \<Rightarrow> Inr ())
      | Some scope \<Rightarrow>
          if ks_KeyID scope = 0 then refuse
          else if pid = [] then refuse
          else if base \<notin> {''read'', ''write'', ''research'', ''agent'', ''evidence-write''} then refuse
          else (case v_Grant tx of None \<Rightarrow> refuse | Some get \<Rightarrow>
            (case get pid (ks_KeyID scope) of Inl _ \<Rightarrow> refuse | Inr grant \<Rightarrow>
              if \<not> ag_Active grant \<or> ag_KeyID grant \<noteq> ks_KeyID scope \<or> base \<notin> set (ag_Capabilities grant) then refuse
              else (case v_KeyRow tx (ks_KeyID scope) of Inl _ \<Rightarrow> refuse | Inr row \<Rightarrow>
                if kr_RevokedAt row \<noteq> None \<or> (case kr_ExpiresAt row of Some t \<Rightarrow> t \<le> v_Now tx | None \<Rightarrow> False) then refuse
                else if ks_ScopeType scope \<noteq> ''platform'' then
                  (case v_ProjectTenant tx pid of Inl _ \<Rightarrow> refuse
                   | Inr tenant \<Rightarrow> if kr_TenantID row \<noteq> Some tenant then refuse else refuse)
                else refuse))))"

text \<open>The three authorization modes choose the policy; the audit of the log mode writes no table.\<close>

datatype policy = CurrentPolicy | LegacyPolicy

definition authorizeTenant :: "policy \<Rightarrow> 'x gocontext \<Rightarrow> 'd tx_view \<Rightarrow> auth_request \<Rightarrow> goerr + unit" where
  "authorizeTenant pol ctx tx r =
     (if \<not> validAuthorizationAction (au_Action r) then Inl (Sentinel ErrInvalidRequest)
      else bindR (authorizeAPIKeyProject ctx tx (au_ProjectID r) (request_capability r)) (\<lambda>_.
        case pol of CurrentPolicy \<Rightarrow> authorizeCurrentTenant tx r
                  | LegacyPolicy \<Rightarrow> legacyAuthorizeTenant tx (au_Actor r)))"

definition authorizeProject :: "policy \<Rightarrow> 'x gocontext \<Rightarrow> 'd tx_view \<Rightarrow> auth_request \<Rightarrow> goerr + 'd project" where
  "authorizeProject pol ctx tx r =
     (if \<not> validAuthorizationAction (au_Action r) then Inl (Sentinel ErrInvalidRequest)
      else bindR (authorizeAPIKeyProject ctx tx (au_ProjectID r) (request_capability r)) (\<lambda>_.
        case pol of CurrentPolicy \<Rightarrow> authorizeCurrentProject tx r
                  | LegacyPolicy \<Rightarrow> legacyAuthorizeProject tx (au_Actor r) (au_ProjectID r) (request_capability r)))"

definition workspaceHumanDecisionOperations :: "string list" where
  "workspaceHumanDecisionOperations =
     [''discardProject'', ''restoreProject'', ''archiveProject'', ''removeArchivedTemplateField'',
      ''activateProject'', ''applyChangeSet'', ''reverseChangeSet'', ''stabilizeRevision'',
      ''transferOwner'', ''requestOwnerTransfer'', ''acceptOwnerTransfer'', ''rejectOwnerTransfer'',
      ''inviteMember'', ''acceptMemberInvitation'', ''memberAssignment'', ''memberLifecycle'',
      ''apiKeyProjectGrant'', ''chapterReview'', ''chapterComment'']"

definition workspaceHumanGate :: "string \<Rightarrow> human_gate" where
  "workspaceHumanGate operation =
     (if operation \<in> set workspaceHumanDecisionOperations then HumanGateRequired else HumanGateNotRequired)"

section \<open>The owner\<close>

record owner_authority =
  oa_OwnerUserID :: string
  oa_Available :: bool

record owner_judgement =
  oj_Allowed :: bool
  oj_ReasonCode :: string
  oj_OwnerUserID :: string

record owner_availability =
  ov_OwnerUserID :: string
  ov_Available :: bool
  ov_ReasonCode :: string
  ov_RecoveryPaths :: "string list"

definition ownerCurrentlyAvailable :: "'d tx_view \<Rightarrow> 'd project \<Rightarrow> nat \<Rightarrow> string \<Rightarrow> bool" where
  "ownerCurrentlyAvailable tx p tenant user =
     (if \<not> projectOwner p user then False
      else case v_ActiveMember tx (plain_actor tenant user) of
        Inl _ \<Rightarrow> False
      | Inr active \<Rightarrow>
          if \<not> active then False
          else case currentTenantRole tx (plain_actor tenant user) of
            Inl _ \<Rightarrow> False
          | Inr role \<Rightarrow>
              if role \<noteq> [] \<and> \<not> role_HasPermission role ''contributor'' then False
              else case projectMember p user of
                None \<Rightarrow> False
              | Some m \<Rightarrow> m_Status m = [] \<or> m_Status m = ''active'')"

definition OwnerAuthorityOf :: "'d tx_view \<Rightarrow> 'd project \<Rightarrow> nat \<Rightarrow> owner_authority" where
  "OwnerAuthorityOf tx p tenant =
     (case projectOwnerUser p of
        None \<Rightarrow> \<lparr>oa_OwnerUserID = [], oa_Available = False\<rparr>
      | Some u \<Rightarrow> \<lparr>oa_OwnerUserID = u, oa_Available = ownerCurrentlyAvailable tx p tenant u\<rparr>)"

definition OwnerAvailabilityOf :: "'d tx_view \<Rightarrow> 'd project \<Rightarrow> nat \<Rightarrow> owner_availability" where
  "OwnerAvailabilityOf tx p tenant =
     (let a = OwnerAuthorityOf tx p tenant in
      if oa_OwnerUserID a = [] \<or> oa_Available a
      then \<lparr>ov_OwnerUserID = oa_OwnerUserID a, ov_Available = True, ov_ReasonCode = ''allowed'', ov_RecoveryPaths = []\<rparr>
      else \<lparr>ov_OwnerUserID = oa_OwnerUserID a, ov_Available = False, ov_ReasonCode = ''owner_unavailable'',
            ov_RecoveryPaths = [''restore_tenant_identity'', ''tenant_owner_nomination'']\<rparr>)"

definition JudgeOwnerAction :: "'d tx_view \<Rightarrow> 'd project \<Rightarrow> actor \<Rightarrow> owner_judgement" where
  "JudgeOwnerAction tx p a =
     (let au = OwnerAuthorityOf tx p (TenantID a) in
      if oa_OwnerUserID au = [] \<or> UserID a \<noteq> oa_OwnerUserID au
        then \<lparr>oj_Allowed = False, oj_ReasonCode = ''not_owner'', oj_OwnerUserID = oa_OwnerUserID au\<rparr>
      else if \<not> oa_Available au
        then \<lparr>oj_Allowed = False, oj_ReasonCode = ''owner_unavailable'', oj_OwnerUserID = oa_OwnerUserID au\<rparr>
      else \<lparr>oj_Allowed = True, oj_ReasonCode = ''allowed'', oj_OwnerUserID = oa_OwnerUserID au\<rparr>)"

definition ownerFreezeRefusal :: "'d tx_view \<Rightarrow> actor \<Rightarrow> string \<Rightarrow> goerr option" where
  "ownerFreezeRefusal tx a projectID =
     (case v_Project tx (TenantID a) projectID of
        Inl _ \<Rightarrow> None
      | Inr p \<Rightarrow>
          if oj_ReasonCode (JudgeOwnerAction tx p a) \<noteq> ''owner_unavailable'' then None
          else Some (Sentinel ErrOwnerUnavailable))"

definition ownerDecisionInTransaction :: "'d tx_view \<Rightarrow> 'd project \<Rightarrow> actor \<Rightarrow> goerr option" where
  "ownerDecisionInTransaction tx p a =
     (let j = JudgeOwnerAction tx p a in
      if oj_ReasonCode j = ''owner_unavailable'' then Some (Sentinel ErrOwnerUnavailable)
      else if \<not> oj_Allowed j then Some (Sentinel ErrNotFound) else None)"

definition OwnerMayAct :: "'d project \<Rightarrow> actor \<Rightarrow> bool" where
  "OwnerMayAct p a = projectOwner p (UserID a)"

record owner_entry =
  oe_Name :: string
  oe_AuthorizationCapability :: string
  oe_ReadCapabilities :: "string list"

definition owner_entry_of :: "string \<Rightarrow> string \<Rightarrow> string list \<Rightarrow> owner_entry" where
  "owner_entry_of n c r = \<lparr>oe_Name = n, oe_AuthorizationCapability = c, oe_ReadCapabilities = r\<rparr>"

definition ownerOnlyEntries :: "owner_entry list" where
  "ownerOnlyEntries =
     [owner_entry_of ''ActivateProject'' ''write'' [''manage''],
      owner_entry_of ''ApplyChangeSet'' ''manage'' [''manage''],
      owner_entry_of ''RejectChangeSet'' ''manage'' [''manage''],
      owner_entry_of ''AuthorizeDeliveryExportInTransaction'' ''ops-control'' [''manage'', ''ops-control''],
      owner_entry_of ''ArchiveProject'' ''manage'' [''manage''],
      owner_entry_of ''TransferOwner'' ''manage'' [''manage''],
      owner_entry_of ''RequestOwnerTransfer'' ''manage'' [''manage'']]"

definition deriveOwnerOnlyEntryCapabilities :: "string list" where
  "deriveOwnerOnlyEntryCapabilities =
     foldl (\<lambda>capabilities entry.
        foldl (\<lambda>cs c. if c \<in> set cs then cs else cs @ [c]) capabilities (oe_ReadCapabilities entry))
       [] ownerOnlyEntries"

definition OwnerOnlyCapability :: "string \<Rightarrow> bool" where
  "OwnerOnlyCapability capability \<longleftrightarrow> capability \<in> set deriveOwnerOnlyEntryCapabilities"

section \<open>Lemmas\<close>

lemma legacyAuthorizeTenant_ok:
  "legacyAuthorizeTenant tx a = Inr u \<longleftrightarrow> validActor a \<and> v_ActiveMember tx a = Inr True"
  by (auto simp: legacyAuthorizeTenant_def split: if_splits)

lemma permissionRoles_valid: "map_of permissionRoles act = Some q \<Longrightarrow> role_IsValid q"
  by (auto simp: permissionRoles_def role_IsValid_def split: if_splits)

lemma permissionRoles_known: "validAuthorizationAction act \<longleftrightarrow> map_of permissionRoles act \<noteq> None"
  by (auto simp: validAuthorizationAction_def authorizationActions_def permissionRoles_def split: if_splits)

lemma permissionRoles_write: "map_of permissionRoles ''manage'' = Some ''contributor''"
  by (simp add: permissionRoles_def)

lemma authorizeCurrentTenant_ok:
  "authorizeCurrentTenant tx r = Inr u \<longleftrightarrow>
     validActor (au_Actor r) \<and> v_ActiveMember tx (au_Actor r) = Inr True \<and>
     (\<exists>required role. map_of permissionRoles (au_Action r) = Some required \<and>
        currentTenantRole tx (au_Actor r) = Inr role \<and> (role = [] \<or> role_HasPermission role required))"
proof (cases "map_of permissionRoles (au_Action r)")
  case None
  then show ?thesis by (auto simp: authorizeCurrentTenant_def)
next
  case (Some required)
  then have v: "role_HasPermission role required \<Longrightarrow> role_IsValid role" for role
    using permissionRoles_valid role_HasPermission_valid by blast
  show ?thesis
    using v by (auto simp: authorizeCurrentTenant_def legacyAuthorizeTenant_ok Some split: if_splits)
qed

lemma currentTenantRole_le:
  assumes "v_CurrentTenantRole tx = Some port" "port a = Inr role" "currentTenantRole tx a = Inr r"
  shows "role_Level r \<le> role_Level role"
proof -
  have "role_Level c \<le> role_Level role" if "\<not> role_IsValid c" for c
    using that by (auto simp: role_IsValid_def role_Level_def)
  then show ?thesis using assms by (auto simp: currentTenantRole_def Let_def split: if_splits)
qed

text \<open>A granted project request, taken apart.\<close>

lemma authorizeCurrentProject_ok:
  assumes "authorizeCurrentProject tx r = Inr p"
  obtains m where
    "authorizeCurrentTenant tx r = Inr ()"
    "v_Project tx (TenantID (au_Actor r)) (au_ProjectID r) = Inr p"
    "projectMember p (UserID (au_Actor r)) = Some m" "m_Status m = [] \<or> m_Status m = ''active''"
    "p_DiscardedAt p = None \<or> au_Action r = ''read'' \<and> governanceRole m = ''owner''"
    "au_Resource r \<noteq> [] \<Longrightarrow> au_Action r \<in> {''write'', ''confirm'', ''review''} \<Longrightarrow> okR (v_Chapter tx (au_ProjectID r) (au_Resource r))"
    "au_Action r \<in> {''read'', ''delivery-read''} \<or> governanceRole m = ''owner'' \<or>
     capability_granted m (governanceRole m) (au_Action r) (au_Resource r)"
proof -
  from assms obtain u q where t: "authorizeCurrentTenant tx r = Inr u"
    and q: "v_Project tx (TenantID (au_Actor r)) (au_ProjectID r) = Inr q"
    by (auto simp: authorizeCurrentProject_def Let_def)
  with assms obtain m where m: "projectMember q (UserID (au_Actor r)) = Some m"
    by (cases "projectMember q (UserID (au_Actor r))") (auto simp: authorizeCurrentProject_def Let_def)
  have qp: "q = p" using assms t q m by (auto simp: authorizeCurrentProject_def Let_def split: if_splits)
  show ?thesis
  proof (rule that)
    show "authorizeCurrentTenant tx r = Inr ()" using t by simp
    show "v_Project tx (TenantID (au_Actor r)) (au_ProjectID r) = Inr p" using q qp by simp
    show "projectMember p (UserID (au_Actor r)) = Some m" using m qp by simp
  qed (use assms t q m qp in \<open>auto simp: authorizeCurrentProject_def Let_def split: if_splits\<close>)
qed

lemma authorizeCurrentProject_owner:
  assumes "authorizeCurrentTenant tx r = Inr ()"
    and "v_Project tx (TenantID (au_Actor r)) (au_ProjectID r) = Inr p"
    and "projectMember p (UserID (au_Actor r)) = Some m" "m_Status m = [] \<or> m_Status m = ''active''"
    and "governanceRole m = ''owner''" "p_DiscardedAt p = None" "au_Resource r = []"
  shows "authorizeCurrentProject tx r = Inr p"
  using assms by (auto simp: authorizeCurrentProject_def Let_def)

lemma authorizeAPIKeyProject_machine:
  assumes "TenantAPIKeyScopeFromContext ctx \<noteq> None \<or> RequireHumanDecision ctx (Sentinel ErrHumanDecisionRequired) \<noteq> None"
  shows "authorizeAPIKeyProject ctx tx pid cap = Inl (Sentinel ErrNotFound)"
proof (cases "TenantAPIKeyScopeFromContext ctx")
  case None
  then show ?thesis using assms by (auto simp: authorizeAPIKeyProject_def)
next
  case (Some scope)
  show ?thesis
    unfolding authorizeAPIKeyProject_def Let_def Some option.case(2) option.case_eq_if sum.case_eq_if
    by (simp only: if_cancel option.distinct(2) if_False cong: if_cong)
qed

lemma denied_not_found [simp]: "err_is (denied r) ErrNotFound"
  by (simp add: denied_def)

lemma JudgeOwnerAction_frozen:
  "oj_ReasonCode (JudgeOwnerAction tx p a) = ''owner_unavailable'' \<longleftrightarrow>
     projectOwnerUser p = Some (UserID a) \<and> UserID a \<noteq> [] \<and> \<not> ownerCurrentlyAvailable tx p (TenantID a) (UserID a)"
  by (auto simp: JudgeOwnerAction_def OwnerAuthorityOf_def Let_def split: option.splits)

lemma JudgeOwnerAction_allowed:
  "oj_Allowed (JudgeOwnerAction tx p a) \<longleftrightarrow>
     projectOwnerUser p = Some (UserID a) \<and> UserID a \<noteq> [] \<and> ownerCurrentlyAvailable tx p (TenantID a) (UserID a)"
  by (auto simp: JudgeOwnerAction_def OwnerAuthorityOf_def Let_def split: option.splits)

lemma OwnerAvailabilityOf_frozen:
  "\<not> ov_Available (OwnerAvailabilityOf tx p tenant) \<longleftrightarrow>
     (\<exists>u. projectOwnerUser p = Some u \<and> u \<noteq> [] \<and> \<not> ownerCurrentlyAvailable tx p tenant u)"
  by (auto simp: OwnerAvailabilityOf_def OwnerAuthorityOf_def Let_def split: option.splits)

lemma ownerCurrentlyAvailable_ok:
  assumes "ownerCurrentlyAvailable tx p tenant u"
  shows "projectOwner p u" "v_ActiveMember tx (plain_actor tenant u) = Inr True"
    "\<exists>role. currentTenantRole tx (plain_actor tenant u) = Inr role \<and> (role = [] \<or> role_HasPermission role ''contributor'')"
    "\<exists>m. projectMember p u = Some m \<and> (m_Status m = [] \<or> m_Status m = ''active'')"
  using assms by (auto simp: ownerCurrentlyAvailable_def split: if_splits sum.splits option.splits)

lemma projectMember_owner:
  assumes "members_wf (p_Members p)" "projectOwner p u" "projectMember p u = Some m"
  shows "m_Role m = ''owner''"
proof -
  from assms(2) obtain o' where o: "o' \<in> set (p_Members p)" "m_UserID o' = u" "m_Role o' = ''owner''"
    by (auto simp: projectOwner_def)
  have "projectMember p u = Some o'"
    using find_key_unique [of m_UserID "p_Members p" o'] assms(1) o
    by (simp add: projectMember_def members_wf_def)
  then show ?thesis using assms(3) o by simp
qed

lemma deriveOwnerOnly_eval: "deriveOwnerOnlyEntryCapabilities = [''manage'', ''ops-control'']"
  by (simp add: deriveOwnerOnlyEntryCapabilities_def ownerOnlyEntries_def owner_entry_of_def)

section \<open>A concrete view\<close>

definition demo_member :: "string \<Rightarrow> string \<Rightarrow> string list \<Rightarrow> (string \<times> string list) list \<Rightarrow> member" where
  "demo_member u r fr fs = \<lparr>m_UserID = u, m_Role = r, m_GovernanceRole = (if r = ''owner'' then ''owner'' else ''member''),
     m_FunctionRoles = fr, m_FunctionScopes = fs, m_Status = ''active''\<rparr>"

definition demo_project :: "member list \<Rightarrow> unit project" where
  "demo_project ms = \<lparr>p_ID = ''p1'', p_Name = ''P'', p_Status = ''active'', p_ProjectVersion = 4, p_SpecRevision = 2,
     p_CurrentContextRevision = 1, p_DeliveryStatus = ''NOT_READY'', p_BaselineConfirmationID = [],
     p_Spec = [], p_SpecFields = [], p_TemplateID = ''t'', p_TemplateVersion = ''1'', p_TemplateCopyVersion = 0,
     p_TemplateCopy = None, p_DiscardedAt = None, p_Members = ms\<rparr>"

definition demo_members :: "member list" where
  "demo_members = [demo_member ''ann'' ''owner'' [] [],
                   demo_member ''bob'' ''collaborator'' [''author''] [(''author'', [''c1''])]]"

text \<open>Tenant 7, where the tenant role of the owner is the argument.\<close>

definition demo_view :: "string \<Rightarrow> unit tx_view" where
  "demo_view ownerRole = \<lparr>
     v_ActiveMember = (\<lambda>a. Inr (TenantID a = 7 \<and> UserID a \<in> {''ann'', ''bob'', ''eve''})),
     v_CurrentTenantRole = Some (\<lambda>a. Inr (if UserID a = ''ann'' then ownerRole else ''contributor'')),
     v_Project = (\<lambda>t i. if t = 7 \<and> i = ''p1'' then Inr (demo_project demo_members) else Inl (Sentinel ErrNotFound)),
     v_Chapter = (\<lambda>p c. if c = ''c1'' then Inr () else Inl (Sentinel ErrNotFound)),
     v_Grant = None, v_KeyRow = (\<lambda>_. Inl (Sentinel ErrNotFound)), v_ProjectTenant = (\<lambda>_. Inr 7), v_Now = 0\<rparr>"

lemmas demo_defs = demo_view_def demo_project_def demo_members_def demo_member_def

section \<open>Properties\<close>



text \<open>
  C9. A token claim never raises a role: when the transaction can read the authoritative membership,
  the role used for the tenant floor is at most the role stored there.
\<close>

theorem token_claim_never_raises:
  assumes "v_CurrentTenantRole tx = Some port" "port (au_Actor r) = Inr role"
    and "role_IsValid role" "authorizeCurrentTenant tx r = Inr ()"
  shows "\<exists>required. map_of permissionRoles (au_Action r) = Some required \<and>
           (role_HasPermission role required \<or> currentTenantRole tx (au_Actor r) = Inr [])"
proof -
  from assms(4) obtain required r' where q: "map_of permissionRoles (au_Action r) = Some required"
    "currentTenantRole tx (au_Actor r) = Inr r'" "r' = [] \<or> role_HasPermission r' required"
    by (auto simp: authorizeCurrentTenant_ok)
  moreover have "role_Level r' \<le> role_Level role" using currentTenantRole_le assms(1,2) q(2) by metis
  ultimately show ?thesis by (auto simp: role_HasPermission_def)
qed

theorem token_claim_never_raises_witness:
  "\<exists>required. map_of permissionRoles ''write'' = Some required \<and>
     (role_HasPermission ''contributor'' required \<or> currentTenantRole (demo_view ''owner'') (plain_actor 7 ''bob'') = Inr [])"
  using token_claim_never_raises [of "demo_view ''owner''"
      "\<lambda>a. Inr (if UserID a = ''ann'' then ''owner'' else ''contributor'')"
      "authorizationRequest (plain_actor 7 ''bob'') ''p1'' ''write'' ''c1''" "''contributor''"]
  by (simp add: authorizeCurrentTenant_def legacyAuthorizeTenant_def
      currentTenantRole_def authorizationRequest_def plain_actor_def validActor_def permissionRoles_def
      role_IsValid_def role_HasPermission_def role_Level_def demo_defs)

text \<open>
  A machine never passes the project door: with an API key scope in the context, or a principal of
  an API or embed kind, both authorization doors of the service refuse every valid action under either
  policy, and the refusal reads as "not found".
\<close>

theorem machine_never_authorized:
  assumes "TenantAPIKeyScopeFromContext ctx \<noteq> None \<or>
           RequireHumanDecision ctx (Sentinel ErrHumanDecisionRequired) \<noteq> None"
    and "validAuthorizationAction (au_Action r)"
  shows "authorizeProject pol ctx tx r = Inl (Sentinel ErrNotFound) \<and>
         authorizeTenant pol ctx tx r = Inl (Sentinel ErrNotFound)"
  using assms by (simp add: authorizeProject_def authorizeTenant_def authorizeAPIKeyProject_machine)

theorem machine_never_authorized_witness:
  "authorizeProject CurrentPolicy
     \<lparr>ctx_Principal = Some \<lparr>pr_Type = ''embed_visitor'', pr_ID = ''v''\<rparr>, ctx_APIKeyScope = None, ctx_UserID = Some ''ann'', ctx_Values = ()\<rparr>
     (demo_view ''owner'') (authorizationRequest (plain_actor 7 ''ann'') ''p1'' ''read'' []) = Inl (Sentinel ErrNotFound)"
proof -
  let ?ctx = "\<lparr>ctx_Principal = Some \<lparr>pr_Type = ''embed_visitor'', pr_ID = ''v''\<rparr>, ctx_APIKeyScope = None, ctx_UserID = Some ''ann'', ctx_Values = ()\<rparr>"
  have "trim_space ''embed_visitor'' = ''embed_visitor''" "trim_space ''v'' = ''v''"
    by (simp_all add: trim_space_visible visible_ascii_def ncode_def)
  then have "RequireHumanDecision ?ctx (Sentinel ErrHumanDecisionRequired) \<noteq> None"
    by (simp add: RequireHumanDecision_def TenantAPIKeyScopeFromContext_def PrincipalFromContext_def
        principal_Valid_def principal_Normalize_def)
  then show ?thesis
    using machine_never_authorized [of ?ctx "authorizationRequest (plain_actor 7 ''ann'') ''p1'' ''read'' []" CurrentPolicy "demo_view ''owner''"]
    by (simp add: authorizationRequest_def validAuthorizationAction_def authorizationActions_def)
qed



text \<open>
  A caller who is not a member cannot tell a project from one that does not exist: with the tenant
  membership in order and a known action, the answer reads as "not found" whether the project is
  missing from the store or merely not theirs.
\<close>

theorem refusal_hides_project:
  assumes "v_Project tx (TenantID (au_Actor r)) (au_ProjectID r) = Inl (Sentinel ErrNotFound) \<or>
           (\<exists>p. v_Project tx (TenantID (au_Actor r)) (au_ProjectID r) = Inr p \<and> projectMember p (UserID (au_Actor r)) = None)"
    and "authorizeCurrentTenant tx r = Inr ()"
  shows "\<exists>e. authorizeCurrentProject tx r = Inl e \<and> err_is e ErrNotFound"
  using assms by (auto simp: authorizeCurrentProject_def Let_def)

theorem refusal_hides_project_witness:
  "\<exists>e. authorizeCurrentProject (demo_view ''owner'') (authorizationRequest (plain_actor 7 ''eve'') ''p1'' ''read'' []) = Inl e
     \<and> err_is e ErrNotFound"
  using refusal_hides_project [of "demo_view ''owner''" "authorizationRequest (plain_actor 7 ''eve'') ''p1'' ''read'' []"]
  by (simp add: authorizeCurrentTenant_def legacyAuthorizeTenant_def
      currentTenantRole_def authorizationRequest_def plain_actor_def validActor_def permissionRoles_def
      role_IsValid_def role_HasPermission_def role_Level_def projectMember_def demo_defs)

text \<open>
  The owner freeze has one answer: the decision taken in the write transaction names the freeze
  exactly when the project page reports the owner as unavailable and the actor is that owner, the early
  gate agrees with it, and its refusal still reads as "not found".
\<close>

theorem owner_freeze_agrees:
  assumes "v_Project tx (TenantID a) pid = Inr p"
  shows "(ownerDecisionInTransaction tx p a = Some (Sentinel ErrOwnerUnavailable) \<longleftrightarrow>
            \<not> ov_Available (OwnerAvailabilityOf tx p (TenantID a)) \<and> projectOwnerUser p = Some (UserID a)) \<and>
         (ownerFreezeRefusal tx a pid = Some e \<longleftrightarrow>
            e = Sentinel ErrOwnerUnavailable \<and> ownerDecisionInTransaction tx p a = Some e) \<and>
         (ownerDecisionInTransaction tx p a = Some e \<longrightarrow> err_is e ErrNotFound)"
proof (intro conjI impI)
  show "ownerDecisionInTransaction tx p a = Some (Sentinel ErrOwnerUnavailable) \<longleftrightarrow>
           \<not> ov_Available (OwnerAvailabilityOf tx p (TenantID a)) \<and> projectOwnerUser p = Some (UserID a)"
    by (auto simp: ownerDecisionInTransaction_def Let_def JudgeOwnerAction_frozen OwnerAvailabilityOf_frozen)
  show "ownerFreezeRefusal tx a pid = Some e \<longleftrightarrow>
           e = Sentinel ErrOwnerUnavailable \<and> ownerDecisionInTransaction tx p a = Some e"
    using assms by (auto simp: ownerFreezeRefusal_def ownerDecisionInTransaction_def Let_def)
  show "err_is e ErrNotFound" if "ownerDecisionInTransaction tx p a = Some e"
    using that by (auto simp: ownerDecisionInTransaction_def Let_def split: if_splits)
qed

theorem owner_freeze_agrees_witness:
  "ownerFreezeRefusal (demo_view ''viewer'') (plain_actor 7 ''ann'') ''p1'' = Some (Sentinel ErrOwnerUnavailable)"
  using owner_freeze_agrees [of "demo_view ''viewer''" "plain_actor 7 ''ann''" "''p1''" "demo_project demo_members" "Sentinel ErrOwnerUnavailable"]
  by (simp add: OwnerAvailabilityOf_frozen projectOwnerUser_def ownerCurrentlyAvailable_def projectOwner_def
      currentTenantRole_def plain_actor_def role_HasPermission_def role_Level_def demo_defs)

text \<open>
  The freeze gate and the ordinary authorization do not contradict each other: an owner the gate
  lets act, on a project that is not discarded, is also granted \<^verbatim>\<open>manage\<close> and \<^verbatim>\<open>ops-control\<close> by the
  permission policy.
\<close>

theorem owner_decision_is_authorized:
  assumes "v_Project tx tenant pid = Inr p" "members_wf (p_Members p)" "p_DiscardedAt p = None"
    and "tenant \<noteq> 0" "ownerDecisionInTransaction tx p (plain_actor tenant u) = None"
    and "act \<in> {''manage'', ''ops-control''}"
  shows "authorizeCurrentProject tx (authorizationRequest (plain_actor tenant u) pid act []) = Inr p"
proof -
  have au: "TenantID (plain_actor tenant u) = tenant" "UserID (plain_actor tenant u) = u"
    by (simp_all add: plain_actor_def)
  have "oj_Allowed (JudgeOwnerAction tx p (plain_actor tenant u))"
    using assms(5) by (auto simp: ownerDecisionInTransaction_def Let_def split: if_splits)
  then have o: "projectOwnerUser p = Some u" "u \<noteq> []" and av: "ownerCurrentlyAvailable tx p tenant u"
    by (auto simp: JudgeOwnerAction_allowed au)
  note ok = ownerCurrentlyAvailable_ok [OF av]
  then obtain m where m: "projectMember p u = Some m" "m_Status m = [] \<or> m_Status m = ''active''" by blast
  then have "governanceRole m = ''owner''"
    using projectMember_owner assms(2) ok(1) by (auto simp: governanceRole_def)
  moreover have "map_of permissionRoles act = Some ''contributor''"
    using assms(6) by (auto simp: permissionRoles_def)
  then have "authorizeCurrentTenant tx (authorizationRequest (plain_actor tenant u) pid act []) = Inr ()"
    using ok o assms(4) by (auto simp: authorizeCurrentTenant_ok authorizationRequest_def validActor_def au)
  ultimately show ?thesis
    using authorizeCurrentProject_owner [of tx "authorizationRequest (plain_actor tenant u) pid act []" p m] assms(1,3) m
    by (simp add: authorizationRequest_def au)
qed

theorem owner_decision_is_authorized_witness:
  "authorizeCurrentProject (demo_view ''owner'') (authorizationRequest (plain_actor 7 ''ann'') ''p1'' ''manage'' [])
     = Inr (demo_project demo_members)"
  by (rule owner_decision_is_authorized)
     (simp_all add: members_wf_def ownerDecisionInTransaction_def JudgeOwnerAction_def OwnerAuthorityOf_def
       projectOwnerUser_def ownerCurrentlyAvailable_def projectOwner_def projectMember_def
       currentTenantRole_def plain_actor_def role_HasPermission_def role_Level_def demo_defs)

text \<open>
  The capability string is a faithful encoding: reading back the capability of a request with a
  known action and a resource without a colon gives the request.
\<close>

theorem capability_roundtrip:
  assumes "validAuthorizationAction action" "CHR '':'' \<notin> set resource"
  shows "authorizationRequestFromCapability a pid (request_capability (authorizationRequest a pid action resource))
           = Inr (authorizationRequest a pid action resource)"
proof -
  note n = actions_no_colon [OF assms(1)]
  have "cut (CHR '':'') (action @ CHR '':'' # resource) = Some (action, resource)" using n by (rule cut_append)
  moreover have "cut (CHR '':'') action = None" using n by (simp add: cut_None_iff)
  ultimately show ?thesis
    using assms by (auto simp: authorizationRequestFromCapability_def request_capability_def authorizationRequest_def contains_char)
qed

theorem capability_roundtrip_witness:
  "authorizationRequestFromCapability (plain_actor 7 ''bob'') ''p1''
     (request_capability (authorizationRequest (plain_actor 7 ''bob'') ''p1'' ''write'' ''c1''))
   = Inr (authorizationRequest (plain_actor 7 ''bob'') ''p1'' ''write'' ''c1'')"
  by (rule capability_roundtrip) (simp_all add: validAuthorizationAction_def authorizationActions_def)

text \<open>
  The freeze is reported for \<^verbatim>\<open>manage\<close> and \<^verbatim>\<open>ops-control\<close> and for nothing else, and every entry of
  the registry is covered by a capability the interface reads; in particular \<^verbatim>\<open>write\<close>, which ordinary
  members hold, is never reported as frozen.
\<close>

theorem owner_only_registry:
  "(OwnerOnlyCapability c \<longleftrightarrow> c = ''manage'' \<or> c = ''ops-control'') \<and>
   list_all (\<lambda>entry. ''manage'' \<in> set (oe_ReadCapabilities entry)) ownerOnlyEntries"
  by (auto simp: OwnerOnlyCapability_def deriveOwnerOnly_eval ownerOnlyEntries_def owner_entry_of_def)

end
