(* ===== verification/Pipeline.thy ===== *)
theory Pipeline
  imports Authorization
begin

text \<open>
  The workspace side of the pipeline: the operation table behind the ledger
  (\<^verbatim>\<open>gormTransaction.Operation\<close> and \<^verbatim>\<open>SaveOperation\<close> in \<^verbatim>\<open>workspacecore/service.go\<close>) and the wiring
  \<^verbatim>\<open>runOperationCore\<close> of \<^verbatim>\<open>workspacecore/operation_pipeline.go\<close> that fills the seams of
  \<^verbatim>\<open>operationcore.Run\<close>.

  The seams whose code is outside the model (provenance, pins, projection, tracing) are the fields of
  \<^verbatim>\<open>ws_env\<close>: every theorem holds for whatever functions stand there.  The authorization seam, the human
  gate, the ledger, the basis and the transaction port are the modelled ones.
\<close>

section \<open>The operation table\<close>

record op_row =
  or_TenantID :: nat
  or_UserID :: string
  or_Operation :: string
  or_Target :: string
  or_Key :: string
  or_BodyHash :: string
  or_ResponseJSON :: string
  or_ResponseCode :: int

type_synonym op_identity = "actor identity"

definition row_key :: "op_row \<Rightarrow> nat \<times> string \<times> string \<times> string \<times> string" where
  "row_key r = (or_TenantID r, or_UserID r, or_Operation r, or_Target r, or_Key r)"

definition identity_key :: "op_identity \<Rightarrow> nat \<times> string \<times> string \<times> string \<times> string" where
  "identity_key i = (TenantID (id_Actor i), UserID (id_Actor i), id_Operation i, id_Target i, id_Key i)"

text \<open>The output kind is not a column, so a stored result is read back without it.\<close>

definition Operation :: "op_identity \<Rightarrow> op_row list \<Rightarrow> op_result \<times> bool" where
  "Operation i tab =
     (case find (\<lambda>r. row_key r = identity_key i) tab of
        None \<Rightarrow> (zero_result, False)
      | Some r \<Rightarrow> (\<lparr>BodyHash = or_BodyHash r, ResBody = or_ResponseJSON r, ResStatus = or_ResponseCode r, ResOutput = []\<rparr>, True))"

definition SaveOperation :: "op_identity \<Rightarrow> op_result \<Rightarrow> op_row list \<Rightarrow> goerr + op_row list" where
  "SaveOperation i result tab =
     (if \<exists>r\<in>set tab. row_key r = identity_key i
      then Inl (Wrapped ''request_in_progress: UNIQUE constraint failed'' (Sentinel ErrRequestInProgress))
      else Inr (tab @ [\<lparr>or_TenantID = TenantID (id_Actor i), or_UserID = UserID (id_Actor i),
                        or_Operation = id_Operation i, or_Target = id_Target i, or_Key = id_Key i,
                        or_BodyHash = BodyHash result, or_ResponseJSON = ResBody result,
                        or_ResponseCode = ResStatus result\<rparr>]))"

section \<open>What a ledger promises\<close>

locale op_ledger =
  fixes lookup :: "'i \<Rightarrow> 't \<Rightarrow> op_result \<times> bool"
    and save :: "'i \<Rightarrow> op_result \<Rightarrow> 't \<Rightarrow> goerr + 't"
    and key :: "'i \<Rightarrow> 'k"
  assumes lookup_key: "key i = key j \<Longrightarrow> lookup i t = lookup j t"
    and save_lookup: "save i r t = Inr t' \<Longrightarrow> lookup i t' = (r\<lparr>ResOutput := []\<rparr>, True)"
    and save_other: "save i r t = Inr t' \<Longrightarrow> key j \<noteq> key i \<Longrightarrow> lookup j t' = lookup j t"
    and save_taken: "snd (lookup i t) \<Longrightarrow> \<exists>e. save i r t = Inl e \<and> err_is e ErrRequestInProgress"
begin

lemma save_keeps:
  assumes "save j q t = Inr t'" "lookup i t = (r, True)"
  shows "lookup i t' = (r, True)"
proof -
  have "key i \<noteq> key j"
  proof
    assume "key i = key j"
    then have "snd (lookup j t)" using assms(2) lookup_key by (metis snd_conv)
    then show False using save_taken assms(1) by (metis Inl_Inr_False)
  qed
  then show ?thesis using save_other assms by simp
qed

text \<open>A record, once saved, is what every later table answers.\<close>

lemma record_is_permanent:
  assumes "save i r t = Inr t'" "each (\<lambda>(j, q). save j q) later t' = Inr t''"
  shows "lookup i t'' = (r\<lparr>ResOutput := []\<rparr>, True)"
  using assms(2)
  by (rule each_invariant) (auto intro: save_keeps save_lookup [OF assms(1)])

end

lemma find_snoc: "find P (xs @ [x]) = (case find P xs of Some y \<Rightarrow> Some y | None \<Rightarrow> if P x then Some x else None)"
  by (induction xs) auto

interpretation gorm_ops: op_ledger Operation SaveOperation identity_key
proof (unfold_locales, goal_cases)
  case 1 then show ?case by (simp add: Operation_def)
next
  case (2 i r t t')
  then have "find (\<lambda>r. row_key r = identity_key i) t = None"
    by (auto simp: SaveOperation_def find_None_iff' split: if_splits)
  with 2 show ?case
    by (auto simp: SaveOperation_def Operation_def find_snoc row_key_def identity_key_def split: if_splits)
next
  case 3 then show ?case
    by (auto simp: SaveOperation_def Operation_def find_snoc row_key_def identity_key_def split: if_splits option.splits)
next
  case 4 then show ?case
    by (auto simp: SaveOperation_def Operation_def split: option.splits dest: find_Some_in)
qed

section \<open>The wiring\<close>

datatype operation_status = OperationStatusOK | OperationStatusCreated | OperationStatusConflict

fun HTTPStatus :: "operation_status \<Rightarrow> int" where
  "HTTPStatus OperationStatusCreated = 201"
| "HTTPStatus OperationStatusConflict = 409"
| "HTTPStatus OperationStatusOK = 200"

record ('v) operation_outcome =
  oo_Value :: 'v
  oo_Status :: operation_status
  oo_Output :: string

record ('s, 'd, 'b) operation_spec =
  sp_Name :: string
  sp_Target :: string
  sp_Key :: string
  sp_Body :: 'b
  sp_Request :: auth_request
  sp_Output :: string
  sp_CheckProject :: "('d project \<Rightarrow> goerr option) option"
  sp_SourceIDs :: "('s \<Rightarrow> op_result \<Rightarrow> bool \<Rightarrow> goerr + string list) option"

type_synonym ('s, 'd, 'v) operation_write = "'d project \<Rightarrow> 's \<Rightarrow> goerr + ('v operation_outcome \<times> 's)"

record ('s, 'd, 'b, 'v, 'x) ws_env =
  we_view :: "'s \<Rightarrow> 'd tx_view"
  we_policy :: policy
  we_ops :: "'s \<Rightarrow> op_row list"
  we_set_ops :: "op_row list \<Rightarrow> 's \<Rightarrow> 's"
  we_zero :: "'d project"
  we_ctxErr :: "goerr option"
  we_sched :: "tx_options \<Rightarrow> nat \<Rightarrow> 's attempt"
  we_marshalBody :: "'b \<Rightarrow> goerr + string"
  we_marshalValue :: "'v \<Rightarrow> goerr + string"
  we_audit :: "'x gocontext \<Rightarrow> actor \<Rightarrow> string \<Rightarrow> string \<Rightarrow> goerr option \<Rightarrow> 's \<Rightarrow> goerr + 's"
  we_checkSources :: "'x gocontext \<Rightarrow> actor \<Rightarrow> string \<Rightarrow> string list \<Rightarrow> 's \<Rightarrow> goerr option"
  we_prepareCached :: "'x gocontext \<Rightarrow> auth_request \<Rightarrow> op_identity \<Rightarrow> 'b \<Rightarrow> 's \<Rightarrow> goerr + ('x gocontext \<times> bool)"
  we_prepare :: "'x gocontext \<Rightarrow> op_identity \<Rightarrow> string \<Rightarrow> 'b \<Rightarrow> 's \<Rightarrow> goerr + 'x gocontext"
  we_inverse :: "'b \<Rightarrow> bool"
  we_validate :: "'x gocontext \<Rightarrow> 's \<Rightarrow> actor \<Rightarrow> 'd project \<Rightarrow> string \<Rightarrow> goerr option"
  we_storePins :: "'x gocontext \<Rightarrow> string \<Rightarrow> 's \<Rightarrow> goerr + 's"
  we_reverseSources :: "'x gocontext \<Rightarrow> 'v \<Rightarrow> 's \<Rightarrow> goerr + 's"
  we_provenance :: "op_identity \<Rightarrow> op_result \<Rightarrow> 'v \<Rightarrow> 's \<Rightarrow> goerr + 's"
  we_project :: "'x gocontext \<Rightarrow> actor \<Rightarrow> string \<Rightarrow> string \<Rightarrow> string \<Rightarrow> 's \<Rightarrow> goerr + string"
  we_runtimeGate :: "'x gocontext \<Rightarrow> 's \<Rightarrow> actor \<Rightarrow> 'd project \<Rightarrow> string \<Rightarrow> goerr option"
  we_afterWrite :: "'x gocontext \<Rightarrow> actor \<Rightarrow> 'd project \<Rightarrow> string \<Rightarrow> string \<Rightarrow> string \<Rightarrow> int \<Rightarrow> int \<Rightarrow> 's \<Rightarrow> goerr + 's"
  we_observe :: "'x gocontext \<Rightarrow> actor \<Rightarrow> string \<Rightarrow> string \<Rightarrow> goerr \<Rightarrow> int \<Rightarrow> 's \<Rightarrow> 's"

text \<open>\<^verbatim>\<open>operationLedger\<close>: the adapter between the table and the pipeline's ledger.\<close>

definition operationLedger :: "('s, 'd, 'b, 'v, 'x) ws_env \<Rightarrow> (actor, 's) ledger" where
  "operationLedger env = \<lparr>
     Lookup = (\<lambda>i s. Inr (Operation i (we_ops env s))),
     Save = (\<lambda>i r s. bindR (SaveOperation i r (we_ops env s)) (\<lambda>tab. Inr (we_set_ops env tab s)))\<rparr>"

definition projectBasis :: "'d project \<Rightarrow> string" where
  "projectBasis p = show_int (p_ProjectVersion p) @ '':'' @ show_int (p_SpecRevision p)"

text \<open>\<^verbatim>\<open>requireInverseCaller\<close>: a change set that reverses another needs a person.\<close>

definition requireInverseCaller :: "('s, 'd, 'b, 'v, 'x) ws_env \<Rightarrow> 'x gocontext \<Rightarrow> 'b \<Rightarrow> goerr option" where
  "requireInverseCaller env ctx body =
     (if we_inverse env body then RequireHumanDecision ctx (Sentinel ErrHumanDecisionRequired) else None)"

definition auditWriteFailed :: "goerr \<Rightarrow> goerr" where
  "auditWriteFailed cause = Wrapped (''audit_write_failed: '' @ err_msg cause) cause"

definition workspaceErrors :: op_errors where
  "workspaceErrors = \<lparr>e_InvalidRequest = Sentinel ErrInvalidRequest,
     e_IdempotencyConflict = Sentinel ErrIdempotencyConflict, e_VersionConflict = Sentinel ErrVersionConflict,
     e_InvalidState = Sentinel ErrInvalidState, e_HumanDecisionRequired = Sentinel ErrHumanDecisionRequired\<rparr>"

definition spec_identity :: "actor \<Rightarrow> ('s, 'd, 'b) operation_spec \<Rightarrow> op_identity" where
  "spec_identity a spec = \<lparr>id_Actor = a, id_Operation = sp_Name spec, id_Target = sp_Target spec, id_Key = sp_Key spec\<rparr>"

text \<open>The request literal of \<^verbatim>\<open>runOperationCore\<close>, seam by seam.\<close>

definition workspace_request :: "('s, 'd, 'b, 'v, 'x) ws_env \<Rightarrow> actor \<Rightarrow> ('s, 'd, 'b) operation_spec \<Rightarrow> ('s, 'd, 'v) operation_write \<Rightarrow> (actor, 's, 'd project, 'b, 'v, 'x) request" where
  "workspace_request env a spec write = \<lparr>
     rq_Identity = spec_identity a spec,
     rq_Authorization = (sp_Request spec)\<lparr>au_Actor := a\<rparr>,
     rq_Body = sp_Body spec,
     rq_Output = sp_Output spec,
     rq_SourceSensitive = (sp_SourceIDs spec \<noteq> None),
     rq_HumanGate = workspaceHumanGate (sp_Name spec),
     rq_Errors = workspaceErrors,
     rq_marshalBody = we_marshalBody env,
     rq_marshalValue = we_marshalValue env,
     rq_zeroProject = we_zero env,
     rq_Transaction = gorm_Transaction (we_ctxErr env) (we_sched env),
     rq_ValidActor = Some validActor,
     rq_AuditWriteFailed = auditWriteFailed,
     rq_Ledger = (\<lambda>s. Inr (operationLedger env)),
     rq_AuthorizeTenant = (\<lambda>ctx s r. errR (authorizeTenant (we_policy env) ctx (we_view env s) r)),
     rq_AuthorizeProject = (\<lambda>ctx s r. authorizeProject (we_policy env) ctx (we_view env s) r),
     rq_RecordAudit = (\<lambda>ctx pid cap err s. we_audit env ctx a pid cap err s),
     rq_CheckSources = Some (\<lambda>ctx pid ids s. we_checkSources env ctx a pid ids s),
     rq_SourceIDs = Some (\<lambda>s previous found.
        case sp_SourceIDs spec of None \<Rightarrow> Inr [] | Some f \<Rightarrow> f s previous found),
     rq_PrepareCached = Some (\<lambda>ctx i body s. we_prepareCached env ctx (sp_Request spec) i body s),
     rq_Prepare = Some (\<lambda>ctx i body s. we_prepare env ctx i (au_ProjectID (sp_Request spec)) body s),
     rq_RequireInverseCaller = Some (requireInverseCaller env),
     rq_Validate = Some (\<lambda>ctx s p. we_validate env ctx s a p (sp_Name spec)),
     rq_CheckProject = sp_CheckProject spec,
     rq_StorePins = Some (we_storePins env),
     rq_Write = (\<lambda>ctx p s. bindR (write p s) (\<lambda>(w, s'). Inr (oo_Value w, oo_Output w, HTTPStatus (oo_Status w), s'))),
     rq_StoreReverseSources = Some (we_reverseSources env),
     rq_StoreProvenance = Some (\<lambda>ctx i result val s. we_provenance env i result val s),
     rq_Project = (\<lambda>ctx op pid body s. we_project env ctx a op pid body s),
     rq_RuntimeGate = Some (\<lambda>ctx s p op. we_runtimeGate env ctx s a p op),
     rq_AfterWrite = Some (\<lambda>ctx p pid op target status val elapsed s. we_afterWrite env ctx a p pid op target status elapsed s),
     rq_ObserveFailure = Some (\<lambda>ctx pid op cause elapsed s. we_observe env ctx a pid op cause elapsed s),
     rq_Basis = projectBasis\<rparr>"

definition runOperationCore :: "('s, 'd, 'b, 'v, 'x) ws_env \<Rightarrow> 'x gocontext \<Rightarrow> actor \<Rightarrow> ('s, 'd, 'b) operation_spec \<Rightarrow> ('s, 'd, 'v) operation_write \<Rightarrow> int \<Rightarrow> int \<Rightarrow> 's \<Rightarrow> 's \<times> (goerr + string \<times> int) \<times> bool" where
  "runOperationCore env ctx a spec write el el' s =
     (case Run ctx (workspace_request env a spec write) el el' s of
        (s', out, Some e) \<Rightarrow> (s', Inl e, Replayed out)
      | (s', out, None) \<Rightarrow> (s', Inr (OutBody out, OutStatus out), Replayed out))"

section \<open>Lemmas\<close>

lemma projectBasis_inj:
  assumes "projectBasis p = projectBasis q"
  shows "p_ProjectVersion p = p_ProjectVersion q \<and> p_SpecRevision p = p_SpecRevision q"
proof -
  have c: "cut (CHR '':'') (projectBasis x) = Some (show_int (p_ProjectVersion x), show_int (p_SpecRevision x))"
    for x :: "'z project"
    using cut_append [OF show_int_no_colon] by (simp add: projectBasis_def)
  have "show_int (p_ProjectVersion p) = show_int (p_ProjectVersion q) \<and> show_int (p_SpecRevision p) = show_int (p_SpecRevision q)"
    using c [of p] c [of q] assms by simp
  then show ?thesis using show_int_inj by blast
qed

lemmas workspace_request_simps = workspace_request_def spec_identity_def

interpretation ws: pipeline "workspace_request env a spec wr" "env_moves (we_sched env)" for env a spec wr
proof -
  have "rq_Transaction (workspace_request env a spec wr) = gorm_Transaction (we_ctxErr env) (we_sched env)"
    by (simp add: workspace_request_def)
  then show "pipeline (workspace_request env a spec wr) (env_moves (we_sched env))"
    unfolding pipeline_def using gorm.tx_port_axioms by metis
qed

lemma runOperationCore_ok:
  "runOperationCore env ctx a spec write el el' s = (s', Inr (body, status), rep) \<longleftrightarrow>
     (\<exists>out. Run ctx (workspace_request env a spec write) el el' s = (s', out, None) \<and>
        OutBody out = body \<and> OutStatus out = status \<and> Replayed out = rep)"
  by (auto simp: runOperationCore_def split: prod.splits option.splits)

lemma runOperationCore_err:
  "runOperationCore env ctx a spec write el el' s = (s', Inl e, rep) \<longleftrightarrow>
     (\<exists>out. Run ctx (workspace_request env a spec write) el el' s = (s', out, Some e) \<and> Replayed out = rep)"
  by (auto simp: runOperationCore_def split: prod.splits option.splits)

lemma runOperationCore_gate:
  assumes "gate_caller ctx (workspace_request env a spec write) = Inl e"
  shows "runOperationCore env ctx a spec write el el' s = (s, Inl e, False)"
  using assms by (simp add: runOperationCore_def Run_def zero_outcome_def)

lemma ws_authorize_write:
  assumes "au_ProjectID (sp_Request spec) \<noteq> []"
  shows "authorize_write ctx (workspace_request env a spec write) s = Inr p \<longleftrightarrow>
     authorizeProject (we_policy env) ctx (we_view env s) ((sp_Request spec)\<lparr>au_Actor := a\<rparr>) = Inr p"
  using assms by (simp add: authorize_write_grant workspace_request_def)

lemma ws_lookup:
  "Lookup (operationLedger env) (rq_Identity (workspace_request env a spec write)) s
     = Inr (Operation (spec_identity a spec) (we_ops env s))"
  by (simp add: operationLedger_def workspace_request_def)

lemma capability_of_actor: "authorization_Capability (r\<lparr>au_Actor := a\<rparr>) = request_capability r"
  by (cases r) (simp add: authorization_Capability_def request_capability_def)

lemma ws_audited:
  assumes "admit c (workspace_request env a spec write) t = Inr (p, ta)"
  shows "we_audit env c a (au_ProjectID (sp_Request spec)) (request_capability (sp_Request spec)) None t = Inr ta"
  using admit_ok(3) [OF assms] by (simp add: workspace_request_def capability_of_actor)

lemma ws_ledger: "rq_Ledger (workspace_request env a spec write) t = Inr led \<longleftrightarrow> led = operationLedger env"
  by (auto simp: workspace_request_def)

section \<open>A concrete workspace\<close>

text \<open>A store that is just the operation table, with the members of the demo project.\<close>

definition demo_attempt :: "'s attempt" where
  "demo_attempt = \<lparr>at_before = (\<lambda>s. s), at_begin = None, at_commit = None, at_expired = False, at_ctx = None, at_deadline = False\<rparr>"

definition demo_env :: "(op_row list, unit, string, string, unit) ws_env" where
  "demo_env = \<lparr>
     we_view = (\<lambda>s. demo_view ''owner''), we_policy = CurrentPolicy, we_ops = (\<lambda>s. s), we_set_ops = (\<lambda>t s. t),
     we_zero = demo_project [], we_ctxErr = None, we_sched = (\<lambda>o' i. demo_attempt),
     we_marshalBody = Inr, we_marshalValue = Inr, we_audit = (\<lambda>ctx a pid cap err s. Inr s),
     we_checkSources = (\<lambda>ctx a pid ids s. None), we_prepareCached = (\<lambda>ctx r i b s. Inr (ctx, False)),
     we_prepare = (\<lambda>ctx i pid b s. Inr ctx), we_inverse = (\<lambda>b. False), we_validate = (\<lambda>ctx s a p op. None),
     we_storePins = (\<lambda>ctx pid s. Inr s), we_reverseSources = (\<lambda>ctx v s. Inr s), we_provenance = (\<lambda>i r v s. Inr s),
     we_project = (\<lambda>ctx a op pid body s. Inr body), we_runtimeGate = (\<lambda>ctx s a p op. None),
     we_afterWrite = (\<lambda>ctx a p pid op tgt st el s. Inr s), we_observe = (\<lambda>ctx a pid op e el s. s)\<rparr>"

definition demo_ctx :: "unit gocontext" where
  "demo_ctx = \<lparr>ctx_Principal = None, ctx_APIKeyScope = None, ctx_UserID = None, ctx_Values = ()\<rparr>"

definition demo_spec :: "(op_row list, unit, string) operation_spec" where
  "demo_spec = \<lparr>sp_Name = ''saveChapter'', sp_Target = ''c1'', sp_Key = ''key-0001'', sp_Body = ''body'',
     sp_Request = authorizationRequest (plain_actor 7 ''bob'') ''p1'' ''write'' ''c1'', sp_Output = ''chapter'',
     sp_CheckProject = None, sp_SourceIDs = Some (\<lambda>s previous found. Inr [''s1''])\<rparr>"

definition demo_write :: "(op_row list, unit, string) operation_write" where
  "demo_write p s = Inr (\<lparr>oo_Value = ''saved'', oo_Status = OperationStatusCreated, oo_Output = []\<rparr>, s)"

definition demo_row :: op_row where
  "demo_row = \<lparr>or_TenantID = 7, or_UserID = ''bob'', or_Operation = ''saveChapter'', or_Target = ''c1'', or_Key = ''key-0001'',
     or_BodyHash = sha256_hex ''body'', or_ResponseJSON = ''saved'', or_ResponseCode = 201\<rparr>"

lemma demo_authorized:
  "authorizeProject CurrentPolicy demo_ctx (demo_view ''owner'') (authorizationRequest (plain_actor 7 ''bob'') ''p1'' ''write'' ''c1'')
     = Inr (demo_project demo_members)"
  by (simp add: authorizeProject_def authorizeAPIKeyProject_def RequireHumanDecision_def TenantAPIKeyScopeFromContext_def
      PrincipalFromContext_def UserIDFromContext_def demo_ctx_def validAuthorizationAction_def authorizationActions_def
      authorizeCurrentProject_def authorizeCurrentTenant_def legacyAuthorizeTenant_def
      currentTenantRole_def authorizationRequest_def plain_actor_def validActor_def permissionRoles_def
      role_IsValid_def role_HasPermission_def role_Level_def projectMember_def governanceRole_def
      capability_granted_def memberHasScope_def scopes_of_def demo_defs)

lemma demo_gate:
  "gate_caller demo_ctx (workspace_request demo_env (plain_actor 7 ''bob'') demo_spec demo_write) = Inr (sha256_hex ''body'')"
  by (simp add: gate_caller_def workspace_request_def spec_identity_def demo_spec_def demo_env_def plain_actor_def
      validActor_def ValidKey_def MinKeyLength_def MaxKeyLength_def seam_check_def requireInverseCaller_def
      workspaceHumanGate_def workspaceHumanDecisionOperations_def RequestHash_def digestJSON_def)

lemma demo_request_actor:
  "(sp_Request demo_spec)\<lparr>au_Actor := plain_actor 7 ''bob''\<rparr> = authorizationRequest (plain_actor 7 ''bob'') ''p1'' ''write'' ''c1''"
  by (simp add: demo_spec_def authorizationRequest_def)

lemma demo_admit:
  "admit demo_ctx (workspace_request demo_env (plain_actor 7 ''bob'') demo_spec demo_write) s = Inr (demo_project demo_members, s)"
  using demo_authorized demo_request_actor
  by (simp add: admit_def authorize_write_def workspace_request_def demo_env_def check_project_def seam_check_def
      demo_spec_def authorizationRequest_def)

lemma demo_recheck:
  "source_phase demo_ctx (workspace_request demo_env (plain_actor 7 ''bob'') demo_spec demo_write) (sha256_hex ''body'') s =
     (s, Inr \<lparr>c_result = zero_result, c_replayed = False, c_project = demo_project demo_members, c_sources = [''s1''],
              c_found = snd (Operation (spec_identity (plain_actor 7 ''bob'') demo_spec) s)\<rparr>)"
  if "snd (Operation (spec_identity (plain_actor 7 ''bob'') demo_spec) s) \<Longrightarrow>
        BodyHash (fst (Operation (spec_identity (plain_actor 7 ''bob'') demo_spec) s)) = sha256_hex ''body''"
  using that demo_authorized demo_request_actor
  by (auto simp: source_phase_def source_recheck_def workspace_request_def demo_env_def gorm_Transaction_def tx_once_def
      demo_attempt_def check_project_def seam_check_def replay_lookup_def operationLedger_def source_ids_def
      demo_spec_def authorizationRequest_def Let_def split: prod.splits)

lemma demo_lookup_empty: "Operation (spec_identity (plain_actor 7 ''bob'') demo_spec) [] = (zero_result, False)"
  by (simp add: Operation_def)

lemma demo_lookup_row:
  "Operation (spec_identity (plain_actor 7 ''bob'') demo_spec) [demo_row]
     = (\<lparr>BodyHash = sha256_hex ''body'', ResBody = ''saved'', ResStatus = 201, ResOutput = []\<rparr>, True)"
  by (simp add: Operation_def spec_identity_def demo_spec_def demo_row_def row_key_def identity_key_def plain_actor_def)

lemma demo_run_fresh:
  "runOperationCore demo_env demo_ctx (plain_actor 7 ''bob'') demo_spec demo_write 0 0 [] = ([demo_row], Inr (''saved'', 201), False)"
  using demo_gate demo_recheck [of "[]"] demo_admit [of "[]"] demo_lookup_empty
  by (simp add: runOperationCore_def Run_def prepare_step_def write_body_def replay_lookup_def source_compare_def source_ids_def
      mark_replay_def perform_def seam_check_def seam_write_def gorm_Transaction_def tx_once_def demo_attempt_def
      workspace_request_def demo_env_def operationLedger_def demo_spec_def demo_write_def SaveOperation_def spec_identity_def
      op_RetryLocks_def retryLockedOperations_def demo_row_def plain_actor_def zero_outcome_def)

lemma demo_run_replay:
  "runOperationCore demo_env demo_ctx (plain_actor 7 ''bob'') demo_spec demo_write 0 0 [demo_row]
     = ([demo_row], Inr (''saved'', 201), True)"
  using demo_gate demo_recheck [of "[demo_row]"] demo_admit [of "[demo_row]"] demo_lookup_row
  by (simp add: runOperationCore_def Run_def prepare_step_def write_body_def replay_lookup_def source_compare_def source_ids_def
      mark_replay_def seam_check_def gorm_Transaction_def tx_once_def demo_attempt_def
      workspace_request_def demo_env_def operationLedger_def demo_spec_def spec_identity_def
      op_RetryLocks_def retryLockedOperations_def plain_actor_def zero_outcome_def)

section \<open>Properties\<close>



text \<open>
  A revoked permission is not replayed: when the policy refuses the request on every store the other
  transactions can reach, the operation answers with an error, whatever record of an earlier success the
  ledger holds.
\<close>

theorem revoked_caller_gets_no_replay:
  fixes env :: "('s, 'd, 'b, 'v, 'x) ws_env"
  assumes "au_ProjectID (sp_Request spec) \<noteq> []"
    and "\<And>(c :: 'x gocontext) t. env_moves (we_sched env) s t \<Longrightarrow>
           \<exists>e. authorizeProject (we_policy env) c (we_view env t) ((sp_Request spec)\<lparr>au_Actor := a\<rparr>) = Inl e"
  shows "\<exists>s' e rep. runOperationCore env ctx a spec write el el' s = (s', Inl e, rep)"
proof -
  have "\<exists>e. authorize_write c (workspace_request env a spec write) t = Inl e" if "env_moves (we_sched env) s t" for c t
    using assms(2) [OF that, of c] ws_authorize_write [OF assms(1), of c env a "write" t]
    by (cases "authorize_write c (workspace_request env a spec write) t") (auto, force)
  then obtain s' out e where "Run ctx (workspace_request env a spec write) el el' s = (s', out, Some e)"
    using ws.run_unauthorized by metis
  then show ?thesis using runOperationCore_err by metis
qed

theorem revoked_caller_gets_no_replay_witness:
  "\<exists>s' e rep. runOperationCore (demo_env\<lparr>we_view := \<lambda>s. (demo_view ''owner'')\<lparr>v_ActiveMember := \<lambda>a. Inr False\<rparr>\<rparr>) demo_ctx (plain_actor 7 ''bob'')
     demo_spec demo_write 0 0 [demo_row] = (s', Inl e, rep)"
  by (rule revoked_caller_gets_no_replay)
     (auto simp: demo_spec_def authorizationRequest_def demo_env_def authorizeProject_def validAuthorizationAction_def
       authorizationActions_def authorizeCurrentProject_def authorizeCurrentTenant_def legacyAuthorizeTenant_def bindR_def split: sum.split)

text \<open>
  C6. A human decision needs a human: an operation on the workspace's human-decision list is refused for
  a caller with an API key scope or with an API or embed principal before anything is read or written.
\<close>

theorem human_decision_needs_a_human:
  assumes "sp_Name spec \<in> set workspaceHumanDecisionOperations"
    and "RequireHumanDecision ctx (Sentinel ErrHumanDecisionRequired) \<noteq> None"
    and "validActor a" "ValidKey (sp_Key spec)"
  shows "runOperationCore env ctx a spec write el el' s = (s, Inl (Sentinel ErrHumanDecisionRequired), False)"
proof -
  have "RequireHumanDecision ctx (Sentinel ErrHumanDecisionRequired) = Some (Sentinel ErrHumanDecisionRequired)"
    using assms(2) by (auto simp: RequireHumanDecision_def split: if_splits option.splits)
  then have "gate_caller ctx (workspace_request env a spec write) = Inl (Sentinel ErrHumanDecisionRequired)"
    using assms
    by (simp add: gate_caller_def workspace_request_def spec_identity_def workspaceHumanGate_def workspaceErrors_def
        seam_check_def requireInverseCaller_def)
  then show ?thesis by (rule runOperationCore_gate)
qed

theorem human_decision_needs_a_human_witness:
  "runOperationCore demo_env
     (demo_ctx\<lparr>ctx_APIKeyScope := Some \<lparr>ks_KeyID = 3, ks_ScopeType = ''tenant'', ks_FullAccess = True, ks_KnowledgeBaseIDs = [], ks_Capabilities = []\<rparr>\<rparr>)
     (plain_actor 7 ''bob'') (demo_spec\<lparr>sp_Name := ''transferOwner''\<rparr>) demo_write 0 0 []
   = ([], Inl (Sentinel ErrHumanDecisionRequired), False)"
  by (rule human_decision_needs_a_human)
     (simp_all add: demo_spec_def workspaceHumanDecisionOperations_def RequireHumanDecision_def TenantAPIKeyScopeFromContext_def
       validActor_def plain_actor_def ValidKey_def MinKeyLength_def MaxKeyLength_def)





text \<open>
  C5. A key belongs to one body: while the ledger holds a record of this attempt under another request
  digest, the operation never answers with a result.
\<close>

theorem key_reuse_is_refused:
  assumes "\<And>t. env_moves (we_sched env) s t \<Longrightarrow>
       snd (Operation (spec_identity a spec) (we_ops env t)) \<and>
       we_marshalBody env (sp_Body spec) = Inr encoded \<and>
       BodyHash (fst (Operation (spec_identity a spec) (we_ops env t))) \<noteq> sha256_hex encoded"
    and "\<And>c pid cap t ta. we_audit env c a pid cap None t = Inr ta \<Longrightarrow> we_ops env ta = we_ops env t"
  shows "\<exists>s' e rep. runOperationCore env ctx a spec write el el' s = (s', Inl e, rep)"
proof (rule ccontr)
  assume no: "\<nexists>s' e rep. runOperationCore env ctx a spec write el el' s = (s', Inl e, rep)"
  let ?rq = "workspace_request env a spec write"
  obtain s' r rep where "runOperationCore env ctx a spec write el el' s = (s', r, rep)" by (metis prod_cases3)
  with no obtain b st where "runOperationCore env ctx a spec write el el' s = (s', Inr (b, st), rep)" by (cases r) auto
  then obtain out where "Run ctx ?rq el el' s = (s', out, None)" by (auto simp: runOperationCore_ok)
  then obtain hash c s1 k k0 sw k2 where g: "gate_caller ctx ?rq = Inr hash"
    and m: "env_moves (we_sched env) s s1" "env_moves (we_sched env) s1 sw"
    and w: "write_body c ?rq hash el k0 sw = (k2, Inr s')"
    by (rule ws.run_success)
  from w obtain led p sa prev found where led: "rq_Ledger ?rq sw = Inr led" and ad: "admit c ?rq sw = Inr (p, sa)"
    and l: "replay_lookup ?rq led hash sa = Inr (prev, found)"
    by (rule write_body_commits)
  have "we_ops env sa = we_ops env sw"
    using ws_audited [OF ad] assms(2) by blast
  then have "Lookup led (rq_Identity ?rq) sa = Inr (Operation (spec_identity a spec) (we_ops env sw))"
    using led by (simp add: ws_ledger ws_lookup)
  moreover have "hash = sha256_hex encoded"
    using gate_caller_hash [OF g] assms(1) [OF env_moves_refl] by (simp add: workspace_request_def)
  ultimately show False
    using l assms(1) [OF env_moves_trans [OF m]] by (auto simp: replay_lookup_def split: if_splits prod.splits)
qed

theorem key_reuse_is_refused_witness:
  "\<exists>s' e rep. runOperationCore demo_env demo_ctx (plain_actor 7 ''bob'') demo_spec demo_write 0 0 [demo_row\<lparr>or_BodyHash := ''x''\<rparr>] = (s', Inl e, rep)"
proof (rule key_reuse_is_refused)
  fix t assume "env_moves (we_sched demo_env) [demo_row\<lparr>or_BodyHash := ''x''\<rparr>] t"
  moreover have "(x, y) \<in> (env_step (we_sched demo_env))\<^sup>* \<Longrightarrow> y = x" for x y
    by (induction rule: rtrancl_induct) (auto simp: env_step_def demo_env_def demo_attempt_def)
  ultimately have t: "t = [demo_row\<lparr>or_BodyHash := ''x''\<rparr>]" by (auto simp: env_moves_def)
  have "''x'' \<noteq> sha256_hex ''body''"
  proof
    assume "''x'' = sha256_hex ''body''"
    then have "length ''x'' = length (sha256_hex ''body'')" by (rule arg_cong)
    then show False unfolding length_sha256_hex by simp
  qed
  then show "snd (Operation (spec_identity (plain_actor 7 ''bob'') demo_spec) (we_ops demo_env t)) \<and>
       we_marshalBody demo_env (sp_Body demo_spec) = Inr ''body'' \<and>
       BodyHash (fst (Operation (spec_identity (plain_actor 7 ''bob'') demo_spec) (we_ops demo_env t))) \<noteq> sha256_hex ''body''"
    by (simp add: t demo_env_def Operation_def spec_identity_def demo_spec_def demo_row_def row_key_def identity_key_def plain_actor_def)
qed (simp add: demo_env_def)

text \<open>
  C3. No source slips in between check and use.  A source-sensitive operation that answers had its
  sources checked by the policy on one store and performed its work on a later one, and between the two
  neither the list of sources nor the project version nor the revision of the research conditions changed.
\<close>

theorem checked_sources_are_used_sources:
  assumes "runOperationCore env ctx a spec write el el' s = (s', Inr (body, status), rep)"
    and "sp_SourceIDs spec = Some resolve" "au_ProjectID (sp_Request spec) \<noteq> []"
  shows "\<exists>c t u checked p ids prev ua.
    env_moves (we_sched env) s t \<and> env_moves (we_sched env) t u \<and>
    authorizeProject (we_policy env) c (we_view env t) ((sp_Request spec)\<lparr>au_Actor := a\<rparr>) = Inr checked \<and>
    we_checkSources env c a (au_ProjectID (sp_Request spec)) ids t = None \<and>
    authorizeProject (we_policy env) c (we_view env u) ((sp_Request spec)\<lparr>au_Actor := a\<rparr>) = Inr p \<and>
    we_audit env c a (au_ProjectID (sp_Request spec)) (request_capability (sp_Request spec)) None u = Inr ua \<and>
    resolve ua (fst prev) (snd prev) = Inr ids \<and> prev = Operation (spec_identity a spec) (we_ops env ua) \<and>
    p_ProjectVersion p = p_ProjectVersion checked \<and> p_SpecRevision p = p_SpecRevision checked"
proof -
  let ?rq = "workspace_request env a spec write"
  from assms(1) obtain out where run: "Run ctx ?rq el el' s = (s', out, None)" by (auto simp: runOperationCore_ok)
  have ss: "rq_SourceSensitive ?rq" using assms(2) by (simp add: workspace_request_def)
  from run ss obtain c t u pc p ua led prev prev' found ids where
    m: "env_moves (we_sched env) s t" "env_moves (we_sched env) t u"
    and a1: "rq_AuthorizeProject ?rq c t (rq_Authorization ?rq) = Inr pc"
    and chk: "seam_check (rq_CheckSources ?rq) (\<lambda>f. f c (au_ProjectID (rq_Authorization ?rq)) ids t) = Inr ()"
    and ad: "admit c ?rq u = Inr (p, ua)" and ids: "source_ids ?rq ua prev' found = Inr ids"
    and led: "rq_Ledger ?rq u = Inr led" and l: "Lookup led (rq_Identity ?rq) ua = Inr (prev', found)"
    and b: "rq_Basis ?rq p = rq_Basis ?rq pc"
    by (rule ws.run_sources)
  have "projectBasis p = projectBasis pc" using b by (simp add: workspace_request_def)
  then have v: "p_ProjectVersion p = p_ProjectVersion pc \<and> p_SpecRevision p = p_SpecRevision pc" by (rule projectBasis_inj)
  have op: "(prev', found) = Operation (spec_identity a spec) (we_ops env ua)"
    using l led by (simp add: ws_ledger ws_lookup)
  have "authorizeProject (we_policy env) c (we_view env t) ((sp_Request spec)\<lparr>au_Actor := a\<rparr>) = Inr pc"
    using a1 by (simp add: workspace_request_def)
  moreover have "we_checkSources env c a (au_ProjectID (sp_Request spec)) ids t = None"
    using chk by (simp add: workspace_request_def seam_check_def split: option.splits)
  moreover have "authorizeProject (we_policy env) c (we_view env u) ((sp_Request spec)\<lparr>au_Actor := a\<rparr>) = Inr p"
    using admit_ok(1) [OF ad] ws_authorize_write [OF assms(3)] by metis
  moreover have "we_audit env c a (au_ProjectID (sp_Request spec)) (request_capability (sp_Request spec)) None u = Inr ua"
    using ad by (rule ws_audited)
  moreover have "resolve ua (fst (prev', found)) (snd (prev', found)) = Inr ids"
    using ids assms(2) by (simp add: workspace_request_def source_ids_def)
  ultimately show ?thesis using m v op by metis
qed

theorem checked_sources_are_used_sources_witness:
  "\<exists>c t u checked p ids prev ua.
    env_moves (we_sched demo_env) [] t \<and> env_moves (we_sched demo_env) t u \<and>
    authorizeProject (we_policy demo_env) c (we_view demo_env t) ((sp_Request demo_spec)\<lparr>au_Actor := plain_actor 7 ''bob''\<rparr>) = Inr checked \<and>
    we_checkSources demo_env c (plain_actor 7 ''bob'') (au_ProjectID (sp_Request demo_spec)) ids t = None \<and>
    authorizeProject (we_policy demo_env) c (we_view demo_env u) ((sp_Request demo_spec)\<lparr>au_Actor := plain_actor 7 ''bob''\<rparr>) = Inr p \<and>
    we_audit demo_env c (plain_actor 7 ''bob'') (au_ProjectID (sp_Request demo_spec)) (request_capability (sp_Request demo_spec)) None u = Inr ua \<and>
    (\<lambda>s previous found. Inr [''s1'']) ua (fst prev) (snd prev) = (Inr ids :: goerr + string list) \<and>
    prev = Operation (spec_identity (plain_actor 7 ''bob'') demo_spec) (we_ops demo_env ua) \<and>
    p_ProjectVersion p = p_ProjectVersion checked \<and> p_SpecRevision p = p_SpecRevision checked"
  by (rule checked_sources_are_used_sources [OF demo_run_fresh]) (simp_all add: demo_spec_def authorizationRequest_def)

end
