(* ===== verification/Store.thy ===== *)
theory Store
  imports Pipeline "HOL-Library.Product_Lexorder"
begin

text \<open>
  The relational store behind the member and owner context: the tables and statements of
  \<^verbatim>\<open>gormTransaction\<close> in \<^verbatim>\<open>workspacecore/service.go\<close> that projects, members, owner transfers, general
  records and audit rows live in, with \<^verbatim>\<open>membership_lifecycle.go\<close> and the owner transfer storage of
  \<^verbatim>\<open>member_records.go\<close>.

  A table is the list of its rows.  A statement that would break a primary key or the unique index on
  pending transfers fails with the driver's error; an update reports the rows it touched, and \<^verbatim>\<open>affected\<close>
  turns any number but one into a version conflict.  A column that holds JSON holds the decoded value: these
  columns are only written by \<^verbatim>\<open>json.Marshal\<close>.  Clock readings and fresh identifiers are arguments.  Failures of
  the connection itself are in the schedule of \<^verbatim>\<open>Tx_Retry\<close>, not in the statements.

  Chapters, provenance, template bindings, API keys and stored resources are the component \<^verbatim>\<open>st_rest\<close>,
  of an arbitrary type, reached through the functions of \<^verbatim>\<open>store_env\<close>.
\<close>

section \<open>Rows and tables\<close>

record tenant_member_row =
  tr_TenantID :: nat
  tr_UserID :: string
  tr_Role :: string
  tr_Status :: string
  tr_Deleted :: bool

record project_row =
  pr_ID :: string
  pr_TenantID :: nat
  pr_Name :: string
  pr_Status :: string
  pr_ProjectVersion :: int
  pr_SpecRevision :: int
  pr_CurrentContextRevision :: int
  pr_DeliveryStatus :: string
  pr_BaselineConfirmationID :: string
  pr_Spec :: "(string \<times> string) list"
  pr_SpecFields :: "(string \<times> spec_field) list"
  pr_TemplateID :: string
  pr_TemplateVersion :: string
  pr_TemplateCopyVersion :: int
  pr_DiscardedAt :: "int option"
  pr_CreatedAt :: int

record member_row =
  mr_ProjectID :: string
  mr_UserID :: string
  mr_Role :: string

record permission_row =
  pe_ProjectID :: string
  pe_UserID :: string
  pe_GovernanceRole :: string
  pe_FunctionRoles :: "string list"
  pe_FunctionScopes :: "(string \<times> string list) list"
  pe_Status :: string

record owner_transfer =
  ot_ID :: string
  ot_ProjectID :: string
  ot_FromUserID :: string
  ot_ToUserID :: string
  ot_Status :: string
  ot_ExpectedProjectVersion :: int
  ot_CreatedAt :: int
  ot_AcceptedAt :: "int option"

record invitation =
  iv_ID :: string
  iv_ProjectID :: string
  iv_UserID :: string
  iv_Version :: int
  iv_Assignment :: member
  iv_Status :: string
  iv_Inviter :: string
  iv_Reason :: string
  iv_ExpiresAt :: int
  iv_CreatedAt :: int
  iv_AcceptedAt :: "int option"

record transfer_origin =
  to_RequesterID :: string
  to_Recovery :: bool

record key_grant =
  kg_KeyID :: nat
  kg_Capabilities :: "string list"
  kg_ExpectedProjectVersion :: int
  kg_Reason :: string
  kg_Active :: bool
  kg_CreatedBy :: string
  kg_UpdatedAt :: int

record read_receipt =
  rc_ID :: string
  rc_ActorID :: string
  rc_ProjectID :: string
  rc_ProjectVersion :: int
  rc_SpecRevision :: int
  rc_ReadAt :: int

record baseline_record =
  bl_ID :: string
  bl_ProjectID :: string
  bl_ActorID :: string
  bl_ProjectVersion :: int
  bl_SpecRevision :: int
  bl_TemplateCopyVersion :: int
  bl_SpecFields :: "(string \<times> spec_field) list"
  bl_Spec :: "(string \<times> string) list"
  bl_ConfirmedAt :: int

datatype payload = RInvitation invitation | ROrigin transfer_origin | RGrant key_grant | RReceipt read_receipt | RBaseline baseline_record

record record_row =
  rr_ProjectID :: string
  rr_Kind :: string
  rr_ID :: string
  rr_Version :: int
  rr_Payload :: payload

record audit_row =
  ar_ID :: string
  ar_ProjectID :: string
  ar_ActorID :: string
  ar_Action :: string
  ar_Target :: string
  ar_TenantID :: nat
  ar_UserID :: string
  ar_Reason :: string
  ar_Decision :: string
  ar_CreatedAt :: int

record ('d, 'q) store =
  st_tenants :: "tenant_member_row list"
  st_projects :: "project_row list"
  st_copies :: "'d template_copy list"
  st_members :: "member_row list"
  st_perms :: "permission_row list"
  st_transfers :: "owner_transfer list"
  st_records :: "record_row list"
  st_audits :: "audit_row list"
  st_ops :: "op_row list"
  st_rest :: 'q

record ('d, 'q) store_env =
  se_validCopy :: "'d template_copy \<Rightarrow> bool"
  se_saveBinding :: "'d template_copy \<Rightarrow> 'q \<Rightarrow> goerr + 'q"
  se_provenance :: "'d project \<Rightarrow> 'q \<Rightarrow> goerr + 'q"
  se_chapter :: "'q \<Rightarrow> string \<Rightarrow> string \<Rightarrow> goerr + unit"
  se_chapterIDs :: "'q \<Rightarrow> string \<Rightarrow> goerr + string list"
  se_resourceExists :: "'q \<Rightarrow> string \<Rightarrow> string \<Rightarrow> string \<Rightarrow> goerr + bool"
  se_hasKey :: "'q \<Rightarrow> nat \<Rightarrow> nat \<Rightarrow> goerr + bool"
  se_machineKey :: "'q \<Rightarrow> nat \<Rightarrow> nat \<Rightarrow> goerr + unit"
  se_keyRow :: "'q \<Rightarrow> nat \<Rightarrow> goerr + api_key_row"

section \<open>Statements\<close>

text \<open>\<^verbatim>\<open>Create\<close> on a table with a key, \<^verbatim>\<open>Update ... Where\<close> with its row count, and the reading of that count.\<close>

definition insert_row :: "('r \<Rightarrow> 'k) \<Rightarrow> string \<Rightarrow> 'r \<Rightarrow> 'r list \<Rightarrow> goerr + 'r list" where
  "insert_row key name r tab =
     (if key r \<in> key ` set tab then Inl (Raw (''UNIQUE constraint failed: '' @ name)) else Inr (tab @ [r]))"

definition update_rows :: "('r \<Rightarrow> bool) \<Rightarrow> ('r \<Rightarrow> 'r) \<Rightarrow> 'r list \<Rightarrow> nat \<times> 'r list" where
  "update_rows sel upd tab = (length (filter sel tab), map (\<lambda>r. if sel r then upd r else r) tab)"

definition affected :: "nat \<times> 'r list \<Rightarrow> goerr + 'r list" where
  "affected result = (if fst result \<noteq> 1 then Inl (Sentinel ErrVersionConflict) else Inr (snd result))"

definition storageError :: "'r option \<Rightarrow> goerr + 'r" where
  "storageError r = (case r of None \<Rightarrow> Inl (Sentinel ErrNotFound) | Some x \<Rightarrow> Inr x)"

definition permissionSchemaError :: "goerr + 'a \<Rightarrow> goerr + 'a" where
  "permissionSchemaError r = (case r of Inr x \<Rightarrow> Inr x
     | Inl e \<Rightarrow> (let m = map lower_byte (err_msg e) in
         if contains m ''lingdoc_member_permissions'' \<and>
            (contains m ''no such table'' \<or> contains m ''does not exist'' \<or> contains m ''undefined table'')
         then Inl (Wrapped (''permission_schema_unavailable: '' @ err_msg e) (Sentinel ErrPermissionSchemaUnavailable)) else Inl e))"

section \<open>Reading projects\<close>

definition ActiveMember :: "('d, 'q) store \<Rightarrow> actor \<Rightarrow> bool" where
  "ActiveMember st a = list_ex (\<lambda>r. tr_TenantID r = TenantID a \<and> tr_UserID r = UserID a \<and> tr_Status r = ''active'' \<and> \<not> tr_Deleted r) (st_tenants st)"

definition CurrentTenantRole :: "('d, 'q) store \<Rightarrow> actor \<Rightarrow> goerr + string" where
  "CurrentTenantRole st a =
     bindR (storageError (find (\<lambda>r. tr_TenantID r = TenantID a \<and> tr_UserID r = UserID a \<and> tr_Status r = ''active'' \<and> \<not> tr_Deleted r) (st_tenants st)))
       (\<lambda>r. if \<not> role_IsValid (tr_Role r) then Inl (Sentinel ErrNotFound) else Inr (tr_Role r))"

text \<open>The member a row and its permission sidecar stand for.\<close>

definition member_view :: "permission_row option \<Rightarrow> member_row \<Rightarrow> member" where
  "member_view perm r =
     (let base = \<lparr>m_UserID = mr_UserID r, m_Role = mr_Role r,
                  m_GovernanceRole = (if mr_Role r = ''owner'' then ''owner'' else if mr_Role r = ''collaborator'' then ''member'' else []),
                  m_FunctionRoles = (if mr_Role r \<noteq> ''owner'' \<and> mr_Role r = ''collaborator'' then [''author''] else []),
                  m_FunctionScopes = [], m_Status = []\<rparr>;
          m = (case perm of None \<Rightarrow> base
               | Some p \<Rightarrow> base\<lparr>m_GovernanceRole := pe_GovernanceRole p, m_Status := pe_Status p,
                                m_FunctionRoles := pe_FunctionRoles p, m_FunctionScopes := pe_FunctionScopes p\<rparr>)
      in if m_Role m = ''owner'' then m\<lparr>m_GovernanceRole := ''owner''\<rparr> else m)"

definition project_members :: "('d, 'q) store \<Rightarrow> string \<Rightarrow> member list" where
  "project_members st pid =
     map (\<lambda>r. member_view (find (\<lambda>p. pe_ProjectID p = pid \<and> pe_UserID p = mr_UserID r) (st_perms st)) r)
       (sort_key mr_UserID (filter (\<lambda>r. mr_ProjectID r = pid) (st_members st)))"

definition projectView :: "('d, 'q) store_env \<Rightarrow> ('d, 'q) store \<Rightarrow> project_row \<Rightarrow> goerr + 'd project" where
  "projectView se st row =
     bindR (if pr_TemplateCopyVersion row > 0
            then bindR (storageError (find (\<lambda>c. tc_ProjectID c = pr_ID row \<and> tc_Version c = pr_TemplateCopyVersion row) (st_copies st)))
                   (\<lambda>c. if \<not> se_validCopy se c then Inl (Sentinel ErrInvalidState) else Inr (Some c))
            else Inr None) (\<lambda>copy.
       Inr \<lparr>p_ID = pr_ID row, p_Name = pr_Name row, p_Status = pr_Status row, p_ProjectVersion = pr_ProjectVersion row,
            p_SpecRevision = pr_SpecRevision row, p_CurrentContextRevision = pr_CurrentContextRevision row,
            p_DeliveryStatus = (if pr_DeliveryStatus row = [] then ''NOT_READY'' else pr_DeliveryStatus row),
            p_BaselineConfirmationID = pr_BaselineConfirmationID row, p_Spec = pr_Spec row, p_SpecFields = pr_SpecFields row,
            p_TemplateID = pr_TemplateID row, p_TemplateVersion = pr_TemplateVersion row,
            p_TemplateCopyVersion = pr_TemplateCopyVersion row, p_TemplateCopy = copy, p_DiscardedAt = pr_DiscardedAt row,
            p_Members = project_members st (pr_ID row)\<rparr>)"

definition Project :: "('d, 'q) store_env \<Rightarrow> ('d, 'q) store \<Rightarrow> nat \<Rightarrow> string \<Rightarrow> goerr + 'd project" where
  "Project se st tenant pid =
     bindR (storageError (find (\<lambda>r. pr_ID r = pid \<and> pr_TenantID r = tenant) (st_projects st))) (projectView se st)"

definition Projects :: "('d, 'q) store_env \<Rightarrow> ('d, 'q) store \<Rightarrow> actor \<Rightarrow> nat \<Rightarrow> goerr + 'd project list" where
  "Projects se st a limit =
     mapR (projectView se st) (take limit (rev (sort_key (\<lambda>r. (pr_CreatedAt r, pr_ID r))
       (filter (\<lambda>r. pr_TenantID r = TenantID a \<and> pr_DiscardedAt r = None \<and>
                    list_ex (\<lambda>m. mr_ProjectID m = pr_ID r \<and> mr_UserID m = UserID a) (st_members st)) (st_projects st)))))"

definition Archived :: "'d project \<Rightarrow> bool" where
  "Archived p \<longleftrightarrow> p_DiscardedAt p \<noteq> None \<or> p_Status p = ''archived''"

section \<open>Writing projects\<close>

definition insertProjectTemplateCopy :: "('d, 'q) store_env \<Rightarrow> 'd template_copy \<Rightarrow> ('d, 'q) store \<Rightarrow> goerr + ('d, 'q) store" where
  "insertProjectTemplateCopy se c st =
     bindR (se_saveBinding se c (st_rest st)) (\<lambda>q.
       if tc_ID c \<in> tc_ID ` set (st_copies st) then Inl (Raw ''UNIQUE constraint failed: lingdoc_project_template_copies.id'')
       else bindR (insert_row (\<lambda>c. (tc_ProjectID c, tc_Version c)) ''idx_lingdoc_template_copy_version'' c (st_copies st)) (\<lambda>tab.
         Inr (st\<lparr>st_copies := tab, st_rest := q\<rparr>)))"

definition setCopyStatus :: "'d template_copy \<Rightarrow> string \<Rightarrow> int \<Rightarrow> string \<Rightarrow> ('d, 'q) store \<Rightarrow> goerr + ('d, 'q) store" where
  "setCopyStatus c pid version status st =
     bindR (affected (update_rows (\<lambda>r. tc_ID r = tc_ID c \<and> tc_ProjectID r = pid \<and> tc_Version r = version \<and> tc_Status r = tc_Status c)
                        (\<lambda>r. r\<lparr>tc_Status := status\<rparr>) (st_copies st))) (\<lambda>tab. Inr (st\<lparr>st_copies := tab\<rparr>))"

text \<open>
  Every field the code compares is compared; the template's definition, its rule set reference and its binding
  policies are the one value of type \<^verbatim>\<open>'d\<close>.
\<close>

definition copyUnchanged :: "'d template_copy \<Rightarrow> 'd template_copy \<Rightarrow> bool" where
  "copyUnchanged c n \<longleftrightarrow> tc_ID c = tc_ID n \<and> tc_ContentHash c = tc_ContentHash n \<and> tc_RulesetHash c = tc_RulesetHash n \<and>
     tc_SourceTemplateID c = tc_SourceTemplateID n \<and> tc_SourceTemplateVersion c = tc_SourceTemplateVersion n \<and>
     tc_Version c = tc_Version n \<and> tc_CreatedBy c = tc_CreatedBy n \<and> tc_CreatedAt c = tc_CreatedAt n \<and> tc_Definition c = tc_Definition n"

definition persistTemplateCopyTransition :: "('d, 'q) store_env \<Rightarrow> 'd project \<Rightarrow> 'd project \<Rightarrow> ('d, 'q) store \<Rightarrow> goerr + ('d, 'q) store" where
  "persistTemplateCopyTransition se prev nxt st =
     (if p_TemplateCopyVersion nxt = p_TemplateCopyVersion prev then
        (case (p_TemplateCopy prev, p_TemplateCopy nxt) of
           (None, None) \<Rightarrow> Inr st
         | (Some c, Some n) \<Rightarrow>
             if \<not> copyUnchanged c n then Inl (Sentinel ErrInvalidState)
             else if tc_Status c = tc_Status n then Inr st
             else if (tc_Status c = ''draft'' \<and> tc_Status n \<in> {''bound'', ''superseded'', ''discarded''}) \<or>
                     (tc_Status c = ''bound'' \<and> tc_Status n = ''superseded'')
               then setCopyStatus c (p_ID prev) (p_TemplateCopyVersion prev) (tc_Status n) st
             else Inl (Sentinel ErrInvalidState)
         | _ \<Rightarrow> Inl (Sentinel ErrInvalidState))
      else case p_TemplateCopy nxt of
        None \<Rightarrow> Inl (Sentinel ErrInvalidState)
      | Some n \<Rightarrow>
          if tc_ProjectID n \<noteq> p_ID nxt \<or> tc_Version n \<noteq> p_TemplateCopyVersion nxt \<or> p_TemplateCopyVersion nxt \<noteq> p_TemplateCopyVersion prev + 1
            then Inl (Sentinel ErrInvalidState)
          else bindR (case p_TemplateCopy prev of
                 Some c \<Rightarrow> if tc_Status c \<noteq> ''superseded'' \<and> tc_Status c \<noteq> ''discarded''
                           then setCopyStatus c (p_ID prev) (p_TemplateCopyVersion prev) ''superseded'' st else Inr st
               | None \<Rightarrow> Inr st) (insertProjectTemplateCopy se n))"

text \<open>The columns \<^verbatim>\<open>UpdateProject\<close> writes; identity, tenant, name and creation time stay.\<close>

definition project_columns :: "'d project \<Rightarrow> project_row \<Rightarrow> project_row" where
  "project_columns n r = r\<lparr>pr_Spec := p_Spec n, pr_SpecFields := p_SpecFields n, pr_SpecRevision := p_SpecRevision n,
     pr_CurrentContextRevision := p_CurrentContextRevision n, pr_ProjectVersion := p_ProjectVersion n, pr_Status := p_Status n,
     pr_TemplateID := p_TemplateID n, pr_TemplateVersion := p_TemplateVersion n, pr_TemplateCopyVersion := p_TemplateCopyVersion n,
     pr_DiscardedAt := p_DiscardedAt n, pr_DeliveryStatus := p_DeliveryStatus n, pr_BaselineConfirmationID := p_BaselineConfirmationID n\<rparr>"

definition UpdateProject :: "('d, 'q) store_env \<Rightarrow> nat \<Rightarrow> 'd project \<Rightarrow> 'd project \<Rightarrow> ('d, 'q) store \<Rightarrow> goerr + ('d, 'q) store" where
  "UpdateProject se tenant prev nxt st =
     bindR (affected (update_rows (\<lambda>r. pr_ID r = p_ID prev \<and> pr_TenantID r = tenant \<and> pr_ProjectVersion r = p_ProjectVersion prev \<and>
                                      pr_SpecRevision r = p_SpecRevision prev \<and> pr_Status r = p_Status prev)
                        (project_columns nxt) (st_projects st))) (\<lambda>tab.
     bindR (persistTemplateCopyTransition se prev nxt (st\<lparr>st_projects := tab\<rparr>)) (\<lambda>st1.
     bindR (se_provenance se nxt (st_rest st1)) (\<lambda>q. Inr (st1\<lparr>st_rest := q\<rparr>))))"

section \<open>Writing members\<close>

definition member_key :: "member_row \<Rightarrow> string \<times> string" where
  "member_key r = (mr_ProjectID r, mr_UserID r)"

definition perm_key :: "permission_row \<Rightarrow> string \<times> string" where
  "perm_key r = (pe_ProjectID r, pe_UserID r)"

definition default_governance :: "member \<Rightarrow> string" where
  "default_governance m = (if m_GovernanceRole m = [] then (if m_Role m = ''owner'' then ''owner'' else ''member'') else m_GovernanceRole m)"

definition insertMember :: "string \<Rightarrow> member \<Rightarrow> ('d, 'q) store \<Rightarrow> goerr + ('d, 'q) store" where
  "insertMember pid m st =
     bindR (insert_row member_key ''lingdoc_members.project_id, lingdoc_members.user_id''
              \<lparr>mr_ProjectID = pid, mr_UserID = m_UserID m, mr_Role = m_Role m\<rparr> (st_members st)) (\<lambda>ms.
     bindR (permissionSchemaError (insert_row perm_key ''lingdoc_member_permissions.project_id, lingdoc_member_permissions.user_id''
              \<lparr>pe_ProjectID = pid, pe_UserID = m_UserID m, pe_GovernanceRole = default_governance m, pe_FunctionRoles = m_FunctionRoles m,
               pe_FunctionScopes = m_FunctionScopes m, pe_Status = (if m_Status m = [] then ''active'' else m_Status m)\<rparr> (st_perms st))) (\<lambda>ps.
       Inr (st\<lparr>st_members := ms, st_perms := ps\<rparr>)))"

definition InsertProject :: "('d, 'q) store_env \<Rightarrow> nat \<Rightarrow> int \<Rightarrow> 'd project \<Rightarrow> ('d, 'q) store \<Rightarrow> goerr + ('d, 'q) store" where
  "InsertProject se tenant now p st =
     bindR (insert_row pr_ID ''lingdoc_projects.id''
              \<lparr>pr_ID = p_ID p, pr_TenantID = tenant, pr_Name = p_Name p, pr_Status = p_Status p, pr_ProjectVersion = p_ProjectVersion p,
               pr_SpecRevision = p_SpecRevision p, pr_CurrentContextRevision = p_CurrentContextRevision p,
               pr_DeliveryStatus = p_DeliveryStatus p, pr_BaselineConfirmationID = p_BaselineConfirmationID p,
               pr_Spec = p_Spec p, pr_SpecFields = p_SpecFields p, pr_TemplateID = p_TemplateID p, pr_TemplateVersion = p_TemplateVersion p,
               pr_TemplateCopyVersion = p_TemplateCopyVersion p, pr_DiscardedAt = p_DiscardedAt p, pr_CreatedAt = now\<rparr> (st_projects st)) (\<lambda>tab.
     bindR (case p_TemplateCopy p of None \<Rightarrow> Inr (st\<lparr>st_projects := tab\<rparr>)
            | Some c \<Rightarrow> if tc_ProjectID c \<noteq> p_ID p \<or> tc_Version c \<noteq> p_TemplateCopyVersion p \<or> tc_Status c \<noteq> ''draft'' \<or> \<not> se_validCopy se c
                        then Inl (Sentinel ErrInvalidState)
                        else insertProjectTemplateCopy se c (st\<lparr>st_projects := tab\<rparr>)) (\<lambda>st1.
       each (insertMember (p_ID p)) (p_Members p) st1))"

definition insertCollaborator :: "string \<Rightarrow> string \<Rightarrow> ('d, 'q) store \<Rightarrow> goerr + ('d, 'q) store" where
  "insertCollaborator pid i = insertMember pid \<lparr>m_UserID = i, m_Role = ''collaborator'', m_GovernanceRole = ''member'',
     m_FunctionRoles = [''author''], m_FunctionScopes = [], m_Status = ''active''\<rparr>"

definition ReplaceCollaborators :: "string \<Rightarrow> string list \<Rightarrow> ('d, 'q) store \<Rightarrow> goerr + ('d, 'q) store" where
  "ReplaceCollaborators pid ids st =
     each (insertCollaborator pid) ids
       (st\<lparr>st_members := filter (\<lambda>r. \<not> (mr_ProjectID r = pid \<and> mr_Role r = ''collaborator'')) (st_members st)\<rparr>)"

definition ReplaceMembers :: "string \<Rightarrow> member list \<Rightarrow> ('d, 'q) store \<Rightarrow> goerr + ('d, 'q) store" where
  "ReplaceMembers pid ms st =
     each (insertMember pid) ms
       (st\<lparr>st_members := filter (\<lambda>r. mr_ProjectID r \<noteq> pid) (st_members st), st_perms := filter (\<lambda>r. pe_ProjectID r \<noteq> pid) (st_perms st)\<rparr>)"

definition SetMemberRole :: "string \<Rightarrow> string \<Rightarrow> string \<Rightarrow> ('d, 'q) store \<Rightarrow> goerr + ('d, 'q) store" where
  "SetMemberRole pid user role st =
     bindR (affected (update_rows (\<lambda>r. mr_ProjectID r = pid \<and> mr_UserID r = user) (\<lambda>r. r\<lparr>mr_Role := role\<rparr>) (st_members st))) (\<lambda>ms.
       let governance = (if role = ''owner'' then ''owner'' else ''member'');
           ps = snd (update_rows (\<lambda>r. pe_ProjectID r = pid \<and> pe_UserID r = user)
                  (\<lambda>r. r\<lparr>pe_GovernanceRole := governance, pe_FunctionRoles := [], pe_FunctionScopes := []\<rparr>) (st_perms st))
       in Inr (st\<lparr>st_members := ms, st_perms := ps\<rparr>))"

definition EnsureMember :: "string \<Rightarrow> string \<Rightarrow> string \<Rightarrow> ('d, 'q) store \<Rightarrow> goerr + ('d, 'q) store" where
  "EnsureMember pid user role st =
     (case find (\<lambda>r. mr_ProjectID r = pid \<and> mr_UserID r = user) (st_members st) of
        Some _ \<Rightarrow> Inr st
      | None \<Rightarrow> bindR (insert_row member_key ''lingdoc_members.project_id, lingdoc_members.user_id''
                  \<lparr>mr_ProjectID = pid, mr_UserID = user, mr_Role = role\<rparr> (st_members st)) (\<lambda>ms. Inr (st\<lparr>st_members := ms\<rparr>)))"

section \<open>Owner transfers, records and audit\<close>

definition transfer_window :: int where
  "transfer_window = 72 * 3600 * 1000000000"

text \<open>The insert also respects the unique index on the pending transfer of a project.\<close>

definition InsertOwnerTransfer :: "int \<Rightarrow> owner_transfer \<Rightarrow> ('d, 'q) store \<Rightarrow> goerr + ('d, 'q) store" where
  "InsertOwnerTransfer now t st =
     (let tab = snd (update_rows (\<lambda>r. ot_ProjectID r = ot_ProjectID t \<and> ot_Status r = ''pending'' \<and> ot_CreatedAt r < now - transfer_window)
                       (\<lambda>r. r\<lparr>ot_Status := ''cancelled''\<rparr>) (st_transfers st))
      in if ot_Status t = ''pending'' \<and> list_ex (\<lambda>r. ot_ProjectID r = ot_ProjectID t \<and> ot_Status r = ''pending'') tab
         then Inl (Raw ''UNIQUE constraint failed: lingdoc_owner_transfers.project_id'')
         else bindR (insert_row ot_ID ''lingdoc_owner_transfers.id'' (t\<lparr>ot_AcceptedAt := None\<rparr>) tab) (\<lambda>tab'. Inr (st\<lparr>st_transfers := tab'\<rparr>)))"

definition OwnerTransfer :: "('d, 'q) store \<Rightarrow> string \<Rightarrow> string \<Rightarrow> goerr + owner_transfer" where
  "OwnerTransfer st pid i = storageError (find (\<lambda>r. ot_ProjectID r = pid \<and> ot_ID r = i) (st_transfers st))"

definition store_AcceptOwnerTransfer :: "string \<Rightarrow> string \<Rightarrow> int \<Rightarrow> int \<Rightarrow> ('d, 'q) store \<Rightarrow> goerr + ('d, 'q) store" where
  "store_AcceptOwnerTransfer pid i version acceptedAt st =
     bindR (affected (update_rows (\<lambda>r. ot_ProjectID r = pid \<and> ot_ID r = i \<and> ot_Status r = ''pending'' \<and> ot_ExpectedProjectVersion r = version)
              (\<lambda>r. r\<lparr>ot_Status := ''accepted'', ot_AcceptedAt := Some acceptedAt\<rparr>) (st_transfers st))) (\<lambda>tab. Inr (st\<lparr>st_transfers := tab\<rparr>))"

definition cancelOwnerTransfer :: "string \<Rightarrow> string \<Rightarrow> ('d, 'q) store \<Rightarrow> goerr + ('d, 'q) store" where
  "cancelOwnerTransfer pid i st =
     bindR (affected (update_rows (\<lambda>r. ot_ID r = i \<and> ot_ProjectID r = pid \<and> ot_Status r = ''pending'') (\<lambda>r. r\<lparr>ot_Status := ''cancelled''\<rparr>)
              (st_transfers st))) (\<lambda>tab. Inr (st\<lparr>st_transfers := tab\<rparr>))"

definition GetProjectRecord :: "('d, 'q) store \<Rightarrow> string \<Rightarrow> string \<Rightarrow> string \<Rightarrow> goerr + int \<times> payload" where
  "GetProjectRecord st pid kind i =
     bindR (storageError (find (\<lambda>r. rr_ProjectID r = pid \<and> rr_Kind r = kind \<and> rr_ID r = i) (st_records st)))
       (\<lambda>r. Inr (rr_Version r, rr_Payload r))"

definition record_key :: "record_row \<Rightarrow> string \<times> string \<times> string" where
  "record_key r = (rr_ProjectID r, rr_Kind r, rr_ID r)"

definition PutProjectRecord :: "string \<Rightarrow> string \<Rightarrow> string \<Rightarrow> int \<Rightarrow> payload \<Rightarrow> ('d, 'q) store \<Rightarrow> goerr + ('d, 'q) store" where
  "PutProjectRecord pid kind i expected v st =
     (if expected = 0
      then bindR (insert_row record_key ''lingdoc_g5_records.project_id, lingdoc_g5_records.kind, lingdoc_g5_records.id''
                    \<lparr>rr_ProjectID = pid, rr_Kind = kind, rr_ID = i, rr_Version = 1, rr_Payload = v\<rparr> (st_records st)) (\<lambda>tab. Inr (st\<lparr>st_records := tab\<rparr>))
      else bindR (affected (update_rows (\<lambda>r. rr_ProjectID r = pid \<and> rr_Kind r = kind \<and> rr_ID r = i \<and> rr_Version r = expected)
                    (\<lambda>r. r\<lparr>rr_Version := expected + 1, rr_Payload := v\<rparr>) (st_records st))) (\<lambda>tab. Inr (st\<lparr>st_records := tab\<rparr>)))"

definition ListProjectRecords :: "('d, 'q) store \<Rightarrow> string \<Rightarrow> string \<Rightarrow> record_row list" where
  "ListProjectRecords st pid kind = sort_key rr_ID (filter (\<lambda>r. rr_ProjectID r = pid \<and> rr_Kind r = kind) (st_records st))"

definition RecordAudit :: "audit_row \<Rightarrow> ('d, 'q) store \<Rightarrow> goerr + ('d, 'q) store" where
  "RecordAudit e st = bindR (insert_row ar_ID ''lingdoc_audit_events.id'' e (st_audits st)) (\<lambda>tab. Inr (st\<lparr>st_audits := tab\<rparr>))"

definition recordProjectAuditEvent :: "string \<Rightarrow> int \<Rightarrow> actor \<Rightarrow> string \<Rightarrow> string \<Rightarrow> string \<Rightarrow> string \<Rightarrow> ('d, 'q) store \<Rightarrow> goerr + ('d, 'q) store" where
  "recordProjectAuditEvent newID now a pid action target reason =
     RecordAudit \<lparr>ar_ID = newID, ar_ProjectID = pid, ar_ActorID = UserID a, ar_Action = action, ar_Target = target,
       ar_TenantID = TenantID a, ar_UserID = UserID a, ar_Reason = reason, ar_Decision = ''allow'', ar_CreatedAt = now\<rparr>"

text \<open>The read side of the transaction, as the permission policy sees it.\<close>

definition store_view :: "('d, 'q) store_env \<Rightarrow> int \<Rightarrow> ('d, 'q) store \<Rightarrow> 'd tx_view" where
  "store_view se now st = \<lparr>
     v_ActiveMember = (\<lambda>a. Inr (ActiveMember st a)),
     v_CurrentTenantRole = Some (CurrentTenantRole st),
     v_Project = Project se st,
     v_Chapter = se_chapter se (st_rest st),
     v_Grant = Some (\<lambda>pid key. bindR (GetProjectRecord st pid ''api_key_grant'' (sha256_hex (show_int (int key)))) (\<lambda>(v, p). case p of
        RGrant g \<Rightarrow> Inr \<lparr>ag_KeyID = kg_KeyID g, ag_Capabilities = kg_Capabilities g, ag_Active = kg_Active g\<rparr>
      | _ \<Rightarrow> Inl (Raw ''json: cannot unmarshal''))),
     v_KeyRow = se_keyRow se (st_rest st),
     v_ProjectTenant = (\<lambda>pid. bindR (storageError (find (\<lambda>r. pr_ID r = pid) (st_projects st))) (\<lambda>r. Inr (pr_TenantID r))),
     v_Now = now\<rparr>"

section \<open>Lemmas on statements\<close>

lemma insert_row_ok [store_simps]: "insert_row key n r tab = Inr tab' \<longleftrightarrow> key r \<notin> key ` set tab \<and> tab' = tab @ [r]"
  by (auto simp: insert_row_def)

lemma affected_ok [store_simps]: "affected (update_rows sel upd tab) = Inr tab' \<longleftrightarrow>
    length (filter sel tab) = 1 \<and> tab' = map (\<lambda>r. if sel r then upd r else r) tab"
  by (auto simp: affected_def update_rows_def)

lemma storageError_ok [store_simps]: "storageError r = Inr x \<longleftrightarrow> r = Some x"
  by (auto simp: storageError_def split: option.splits)

lemma permissionSchemaError_ok [store_simps]: "permissionSchemaError r = Inr x \<longleftrightarrow> r = Inr x"
  by (auto simp: permissionSchemaError_def Let_def split: sum.splits)

definition member_row_of :: "string \<Rightarrow> member \<Rightarrow> member_row" where
  "member_row_of pid m = \<lparr>mr_ProjectID = pid, mr_UserID = m_UserID m, mr_Role = m_Role m\<rparr>"

definition perm_row_of :: "string \<Rightarrow> member \<Rightarrow> permission_row" where
  "perm_row_of pid m = \<lparr>pe_ProjectID = pid, pe_UserID = m_UserID m, pe_GovernanceRole = default_governance m, pe_FunctionRoles = m_FunctionRoles m,
     pe_FunctionScopes = m_FunctionScopes m, pe_Status = (if m_Status m = [] then ''active'' else m_Status m)\<rparr>"

lemma row_of_sel [simp]:
  "member_key (member_row_of pid m) = (pid, m_UserID m)" "perm_key (perm_row_of pid m) = (pid, m_UserID m)"
  "mr_ProjectID (member_row_of pid m) = pid" "mr_UserID (member_row_of pid m) = m_UserID m" "mr_Role (member_row_of pid m) = m_Role m"
  "pe_ProjectID (perm_row_of pid m) = pid" "pe_UserID (perm_row_of pid m) = m_UserID m"
  "pe_Status (perm_row_of pid m) = (if m_Status m = [] then ''active'' else m_Status m)"
  by (simp_all add: member_row_of_def perm_row_of_def member_key_def perm_key_def)

lemma insertMember_ok:
  "insertMember pid m st = Inr st' \<longleftrightarrow> (pid, m_UserID m) \<notin> member_key ` set (st_members st) \<and> (pid, m_UserID m) \<notin> perm_key ` set (st_perms st) \<and>
     st' = st\<lparr>st_members := st_members st @ [member_row_of pid m], st_perms := st_perms st @ [perm_row_of pid m]\<rparr>"
proof -
  have "insertMember pid m st =
     bindR (insert_row member_key ''lingdoc_members.project_id, lingdoc_members.user_id'' (member_row_of pid m) (st_members st)) (\<lambda>ms.
     bindR (permissionSchemaError (insert_row perm_key ''lingdoc_member_permissions.project_id, lingdoc_member_permissions.user_id''
              (perm_row_of pid m) (st_perms st))) (\<lambda>ps. Inr (st\<lparr>st_members := ms, st_perms := ps\<rparr>)))"
    by (simp add: insertMember_def member_row_of_def perm_row_of_def)
  then show ?thesis by (auto simp: store_simps)
qed

lemma each_insertMember_ok:
  "each (insertMember pid) ms st = Inr st' \<longleftrightarrow> distinct (map m_UserID ms) \<and>
     (\<forall>m\<in>set ms. (pid, m_UserID m) \<notin> member_key ` set (st_members st) \<and> (pid, m_UserID m) \<notin> perm_key ` set (st_perms st)) \<and>
     st' = st\<lparr>st_members := st_members st @ map (member_row_of pid) ms, st_perms := st_perms st @ map (perm_row_of pid) ms\<rparr>"
proof (induction ms arbitrary: st)
  case (Cons m ms)
  show ?case by (auto simp: Cons.IH insertMember_ok) (metis image_eqI)+
qed auto

lemma ReplaceMembers_ok:
  "ReplaceMembers pid ms st = Inr st' \<longleftrightarrow> distinct (map m_UserID ms) \<and>
     st' = st\<lparr>st_members := filter (\<lambda>r. mr_ProjectID r \<noteq> pid) (st_members st) @ map (member_row_of pid) ms,
              st_perms := filter (\<lambda>r. pe_ProjectID r \<noteq> pid) (st_perms st) @ map (perm_row_of pid) ms\<rparr>"
  unfolding ReplaceMembers_def each_insertMember_ok by (auto simp: member_key_def perm_key_def)

lemma RecordAudit_ok [store_simps]:
  "RecordAudit e st = Inr st' \<longleftrightarrow> ar_ID e \<notin> ar_ID ` set (st_audits st) \<and> st' = st\<lparr>st_audits := st_audits st @ [e]\<rparr>"
  by (auto simp: RecordAudit_def store_simps)

text \<open>What an update of a project leaves alone.\<close>

definition same_members :: "('d, 'q) store \<Rightarrow> ('d, 'q) store \<Rightarrow> bool" where
  "same_members st st' \<longleftrightarrow> st_members st' = st_members st \<and> st_perms st' = st_perms st \<and> st_transfers st' = st_transfers st \<and>
     st_records st' = st_records st \<and> st_audits st' = st_audits st \<and> st_ops st' = st_ops st \<and> st_tenants st' = st_tenants st"

lemma same_members_refl [simp]: "same_members st st"
  by (simp add: same_members_def)

lemma persistTemplateCopyTransition_frame:
  assumes "persistTemplateCopyTransition se prev nxt st = Inr st'"
  shows "same_members st st' \<and> st_projects st' = st_projects st"
proof -
  have upd: "same_members s s' \<and> st_projects s' = st_projects s" if "setCopyStatus c pid v x s = Inr s'" for c pid v x s s'
    using that by (auto simp: setCopyStatus_def same_members_def)
  have ins: "same_members s s' \<and> st_projects s' = st_projects s" if "insertProjectTemplateCopy se c s = Inr s'" for c s s'
    using that by (auto simp: insertProjectTemplateCopy_def same_members_def split: if_splits)
  show ?thesis
  proof (cases "p_TemplateCopyVersion nxt = p_TemplateCopyVersion prev")
    case True
    then show ?thesis using assms by (auto simp: persistTemplateCopyTransition_def split: option.splits if_splits dest: upd)
  next
    case False
    then obtain n s where n: "insertProjectTemplateCopy se n s = Inr st'"
      and s: "(case p_TemplateCopy prev of
                 Some c \<Rightarrow> if tc_Status c \<noteq> ''superseded'' \<and> tc_Status c \<noteq> ''discarded''
                           then setCopyStatus c (p_ID prev) (p_TemplateCopyVersion prev) ''superseded'' st else Inr st
               | None \<Rightarrow> Inr st) = Inr s"
      using assms by (auto simp: persistTemplateCopyTransition_def split: option.splits if_splits)
    have "same_members st s \<and> st_projects s = st_projects st" using s by (auto split: option.splits if_splits dest: upd)
    then show ?thesis using ins [OF n] by (simp add: same_members_def)
  qed
qed

lemma UpdateProject_ok:
  assumes "UpdateProject se tenant prev nxt st = Inr st'"
  obtains row where "row \<in> set (st_projects st)" "pr_ID row = p_ID prev" "pr_TenantID row = tenant" "pr_ProjectVersion row = p_ProjectVersion prev"
    "pr_SpecRevision row = p_SpecRevision prev" "pr_Status row = p_Status prev" "same_members st st'"
    "st_projects st' = map (\<lambda>r. if pr_ID r = p_ID prev \<and> pr_TenantID r = tenant \<and> pr_ProjectVersion r = p_ProjectVersion prev \<and>
                                 pr_SpecRevision r = p_SpecRevision prev \<and> pr_Status r = p_Status prev then project_columns nxt r else r) (st_projects st)"
proof -
  let ?sel = "\<lambda>r. pr_ID r = p_ID prev \<and> pr_TenantID r = tenant \<and> pr_ProjectVersion r = p_ProjectVersion prev \<and>
                  pr_SpecRevision r = p_SpecRevision prev \<and> pr_Status r = p_Status prev"
  from assms obtain st1 q where one: "length (filter ?sel (st_projects st)) = 1"
    and p: "persistTemplateCopyTransition se prev nxt (st\<lparr>st_projects := map (\<lambda>r. if ?sel r then project_columns nxt r else r) (st_projects st)\<rparr>) = Inr st1"
    and st': "st' = st1\<lparr>st_rest := q\<rparr>"
    by (auto simp: UpdateProject_def store_simps)
  from one obtain row where "filter ?sel (st_projects st) = [row]" by (cases "filter ?sel (st_projects st)") auto
  then have row: "row \<in> set (filter ?sel (st_projects st))" by simp
  have "same_members st st'" "st_projects st' = map (\<lambda>r. if ?sel r then project_columns nxt r else r) (st_projects st)"
    using persistTemplateCopyTransition_frame [OF p] by (simp_all add: st' same_members_def)
  then show ?thesis using that [of row] row by simp
qed

lemma project_columns_sel [simp]:
  "pr_ID (project_columns n r) = pr_ID r" "pr_TenantID (project_columns n r) = pr_TenantID r" "pr_ProjectVersion (project_columns n r) = p_ProjectVersion n"
  by (simp_all add: project_columns_def)

lemma Project_ok:
  assumes "Project se st tenant pid = Inr p"
  obtains row where "row \<in> set (st_projects st)" "pr_ID row = pid" "pr_TenantID row = tenant" "p_ID p = pid"
    "p_ProjectVersion p = pr_ProjectVersion row" "p_Status p = pr_Status row" "p_Members p = project_members st pid"
proof -
  from assms obtain row where f: "find (\<lambda>r. pr_ID r = pid \<and> pr_TenantID r = tenant) (st_projects st) = Some row"
    and v: "projectView se st row = Inr p" by (auto simp: Project_def store_simps)
  then show ?thesis using that [of row] find_Some_in [OF f] by (auto simp: projectView_def)
qed

section \<open>Owners\<close>

definition owner_set :: "('d, 'q) store \<Rightarrow> string \<Rightarrow> string set" where
  "owner_set st pid = mr_UserID ` {r \<in> set (st_members st). mr_ProjectID r = pid \<and> mr_Role r = ''owner''}"

definition owners_in :: "member list \<Rightarrow> string set" where
  "owners_in ms = m_UserID ` {m \<in> set ms. m_Role m = ''owner''}"

definition usable_status :: "string \<Rightarrow> bool" where
  "usable_status s \<longleftrightarrow> s = [] \<or> s = ''active''"

definition status_of :: "('d, 'q) store \<Rightarrow> string \<Rightarrow> string \<Rightarrow> string" where
  "status_of st pid user = (case find (\<lambda>p. pe_ProjectID p = pid \<and> pe_UserID p = user) (st_perms st) of None \<Rightarrow> [] | Some p \<Rightarrow> pe_Status p)"

lemma member_view_sel [simp]:
  "m_UserID (member_view perm r) = mr_UserID r" "m_Role (member_view perm r) = mr_Role r"
  "m_Status (member_view perm r) = (case perm of None \<Rightarrow> [] | Some p \<Rightarrow> pe_Status p)"
  by (auto simp: member_view_def Let_def split: option.split)

lemma view_member:
  "m \<in> set (project_members st pid) \<longleftrightarrow>
     (\<exists>r\<in>set (st_members st). mr_ProjectID r = pid \<and> m = member_view (find (\<lambda>p. pe_ProjectID p = pid \<and> pe_UserID p = mr_UserID r) (st_perms st)) r)"
  by (auto simp: project_members_def)

lemma view_owners: "owners_in (project_members st pid) = owner_set st pid"
  unfolding owners_in_def owner_set_def by (force simp: view_member)

lemma view_status: "m \<in> set (project_members st pid) \<Longrightarrow> m_Status m = status_of st pid (m_UserID m)"
  by (auto simp: view_member status_of_def)

lemma view_distinct:
  assumes "distinct (map member_key (st_members st))"
  shows "distinct (map m_UserID (project_members st pid))"
proof -
  have "distinct (map member_key (filter (\<lambda>r. mr_ProjectID r = pid) (st_members st)))" using assms by (rule distinct_map_filter)
  then have "distinct (map mr_UserID (filter (\<lambda>r. mr_ProjectID r = pid) (st_members st)))"
    by (auto simp: distinct_map inj_on_def member_key_def)
  then have "distinct (map mr_UserID (sort_key mr_UserID (filter (\<lambda>r. mr_ProjectID r = pid) (st_members st))))"
    using distinct_map_perm [of "sort_key mr_UserID (filter (\<lambda>r. mr_ProjectID r = pid) (st_members st))" "filter (\<lambda>r. mr_ProjectID r = pid) (st_members st)" mr_UserID]
    by simp
  then show ?thesis by (simp add: project_members_def comp_def)
qed

text \<open>What a client of the member tables relies on.\<close>

locale member_table =
  fixes owners :: "'s \<Rightarrow> string \<Rightarrow> string set"
    and status :: "'s \<Rightarrow> string \<Rightarrow> string \<Rightarrow> string"
    and replace :: "string \<Rightarrow> member list \<Rightarrow> 's \<Rightarrow> goerr + 's"
  assumes replace_owners: "replace pid ms s = Inr s' \<Longrightarrow> owners s' pid = owners_in ms"
    and replace_status: "replace pid ms s = Inr s' \<Longrightarrow> m \<in> set ms \<Longrightarrow> usable_status (status s' pid (m_UserID m)) = usable_status (m_Status m)"
    and replace_others: "replace pid ms s = Inr s' \<Longrightarrow> pid' \<noteq> pid \<Longrightarrow> owners s' pid' = owners s pid' \<and> status s' pid' = status s pid'"
begin

text \<open>A replacement that keeps the owner's entry keeps a usable owner.\<close>

lemma replace_keeps_owner:
  assumes "replace pid ms s = Inr s'" "owners_in ms = {u}" "\<And>m. m \<in> set ms \<Longrightarrow> m_UserID m = u \<Longrightarrow> usable_status (m_Status m)"
  shows "owners s' pid = {u} \<and> usable_status (status s' pid u)"
proof -
  from assms(2) obtain m where m: "m \<in> set ms" "m_UserID m = u" unfolding owners_in_def by blast
  then show ?thesis using assms replace_owners [OF assms(1)] replace_status [OF assms(1) m(1)] by auto
qed

end

lemma find_append: "find P (xs @ ys) = (case find P xs of Some x \<Rightarrow> Some x | None \<Rightarrow> find P ys)"
  by (induction xs) auto

lemma status_of_replaced:
  assumes "distinct (map m_UserID ms)" "m \<in> set ms"
  shows "find (\<lambda>p. pe_ProjectID p = pid \<and> pe_UserID p = m_UserID m) (filter (\<lambda>r. pe_ProjectID r \<noteq> pid) ps @ map (perm_row_of pid) ms) = Some (perm_row_of pid m)"
proof -
  have "find (\<lambda>p. pe_ProjectID p = pid \<and> pe_UserID p = m_UserID m) (filter (\<lambda>r. pe_ProjectID r \<noteq> pid) ps) = None"
    by (auto simp: find_None_iff')
  moreover have "find (\<lambda>p. pe_ProjectID p = pid \<and> pe_UserID p = m_UserID m) (map (perm_row_of pid) ms) = Some (perm_row_of pid m)"
    using assms by (induction ms) auto
  ultimately show ?thesis by (simp add: find_append)
qed

lemma find_filter_same: "(\<And>x. P x \<Longrightarrow> Q x) \<Longrightarrow> find P (filter Q xs) = find P xs"
  by (induction xs) auto

interpretation gorm_members: member_table owner_set status_of ReplaceMembers
proof (unfold_locales, goal_cases)
  case (1 pid ms s s')
  have "filter (\<lambda>r. mr_ProjectID r = pid \<and> mr_Role r = ''owner'') (filter (\<lambda>r. mr_ProjectID r \<noteq> pid) l @ map (member_row_of pid) ms) =
      map (member_row_of pid) (filter (\<lambda>m. m_Role m = ''owner'') ms)" for l
    by (simp add: filter_map comp_def)
  then have "set (filter (\<lambda>r. mr_ProjectID r = pid \<and> mr_Role r = ''owner'') (st_members s')) = member_row_of pid ` {m \<in> set ms. m_Role m = ''owner''}"
    using 1 by (simp only: ReplaceMembers_ok) simp
  then show ?case by (simp add: owner_set_def owners_in_def image_image)
next
  case (2 pid ms s s' m)
  then show ?case by (auto simp: ReplaceMembers_ok status_of_def status_of_replaced usable_status_def)
next
  case (3 pid ms s s' pid')
  have "find (\<lambda>p. pe_ProjectID p = pid' \<and> pe_UserID p = u) (filter (\<lambda>r. pe_ProjectID r \<noteq> pid) ps @ map (perm_row_of pid) ms) =
        find (\<lambda>p. pe_ProjectID p = pid' \<and> pe_UserID p = u) ps" for u ps
  proof -
    have "find (\<lambda>p. pe_ProjectID p = pid' \<and> pe_UserID p = u) (map (perm_row_of pid) ms) = None" using 3 by (auto simp: find_None_iff')
    moreover have "find (\<lambda>p. pe_ProjectID p = pid' \<and> pe_UserID p = u) (filter (\<lambda>r. pe_ProjectID r \<noteq> pid) ps) = find (\<lambda>p. pe_ProjectID p = pid' \<and> pe_UserID p = u) ps"
      by (rule find_filter_same) (use 3 in auto)
    ultimately show ?thesis by (simp add: find_append split: option.split)
  qed
  then have "status_of s' pid' = status_of s pid'" using 3 by (auto simp: ReplaceMembers_ok status_of_def)
  moreover have "owner_set s' pid' = owner_set s pid'" using 3 by (force simp: ReplaceMembers_ok owner_set_def)
  ultimately show ?case by simp
qed

end
