(* ===== verification/Membership.thy ===== *)
theory Membership
  imports Store
begin

text \<open>
  The member and owner context, \<^verbatim>\<open>internal/lingdoc/membership\<close>: invitations and their acceptance, the
  member life cycle, the replacement of members and assignments, and the two ways ownership moves, with
  \<^verbatim>\<open>CaptureTenantSuspension\<close> of \<^verbatim>\<open>workspacecore/membership_lifecycle.go\<close>.

  Each operation is the function the sources hand to the pipeline as its write (the part that runs inside
  the transaction, after authorization); the handlers that check the request and run it under
  \<^const>\<open>runOperationCore\<close> are in \<^verbatim>\<open>Membership_Service\<close>.  One clock reading stands for the readings of \<^verbatim>\<open>time.Now\<close> in one write; the fresh
  identifiers of one write are numbered.  A Go map is read in the order of its association list.
\<close>

section \<open>Inputs, values and environment\<close>

record invite_input =
  ii_Expected :: int
  ii_Assignment :: member
  ii_InviteReason :: string
  ii_InvitationID :: string
  ii_ExpectedInvitation :: int

record lifecycle_input =
  li_Expected :: int
  li_Action :: string
  li_Reason :: string

record assignment_input =
  as_Expected :: int
  as_Assignment :: member
  as_Reason :: string

record save_members_input =
  sm_Expected :: int
  sm_Collaborators :: "string list option"
  sm_Members :: "member list option"

record transfer_input =
  ti_Expected :: int
  ti_User :: string

record decision_input =
  di_Expected :: int
  di_Reason :: string

datatype 'd mvalue = VProject "'d project" | VInvitation invitation | VTransfer owner_transfer | VGrant key_grant

record ('d, 'q) mem_env =
  me_store :: "('d, 'q) store_env"
  me_now :: int
  me_newID :: "nat \<Rightarrow> string"
  me_activation :: bool
  me_rollback :: bool

type_synonym ('d, 'q) mem_write = "'d project \<Rightarrow> ('d, 'q) store \<Rightarrow> goerr + ('d mvalue operation_outcome \<times> ('d, 'q) store)"

definition finished :: "'d mvalue \<Rightarrow> operation_status \<Rightarrow> ('d, 'q) store \<Rightarrow> goerr + ('d mvalue operation_outcome \<times> ('d, 'q) store)" where
  "finished v status st = Inr (\<lparr>oo_Value = v, oo_Status = status, oo_Output = []\<rparr>, st)"

definition memberFunctions :: "string list" where
  "memberFunctions = [''author'', ''researcher'', ''reviewer'', ''observer'']"

definition validFunctionRoles :: "string list \<Rightarrow> bool" where
  "validFunctionRoles roles \<longleftrightarrow> distinct roles \<and> list_all (\<lambda>r. r \<in> set memberFunctions) roles"

definition validMemberID :: "string \<Rightarrow> bool" where
  "validMemberID i \<longleftrightarrow> i \<noteq> [] \<and> length i \<le> 64 \<and> trim_space i = i"

section \<open>Checking an assignment\<close>

definition verifyMemberResourceScope :: "('d, 'q) mem_env \<Rightarrow> ('d, 'q) store \<Rightarrow> 'd project \<Rightarrow> string \<Rightarrow> goerr + unit" where
  "verifyMemberResourceScope me st p scope =
     (case cut (CHR '':'') scope of
        None \<Rightarrow> Inl (Sentinel ErrInvalidRequest)
      | Some (kind, i) \<Rightarrow>
          if i = [] then Inl (Sentinel ErrInvalidRequest)
          else if kind = ''template'' then
            (case p_TemplateCopy p of
               Some c \<Rightarrow> if i = tc_ID c \<or> i = p_TemplateID p then Inr () else Inl (Sentinel ErrNotFound)
             | None \<Rightarrow> Inl (Sentinel ErrNotFound))
          else bindR (se_resourceExists (me_store me) (st_rest st) (p_ID p) kind i) (\<lambda>exists.
            if \<not> exists then Inl (Sentinel ErrNotFound) else Inr ()))"

fun check_scopes :: "('d, 'q) mem_env \<Rightarrow> ('d, 'q) store \<Rightarrow> 'd project \<Rightarrow> string list \<Rightarrow> string list \<Rightarrow> goerr + unit" where
  "check_scopes me st p seen [] = Inr ()"
| "check_scopes me st p seen (x # xs) =
     (if x = [] \<or> x \<in> set seen then Inl (Sentinel ErrInvalidRequest)
      else if has_prefix x ''asset:'' \<or> has_prefix x ''knowledge:'' \<or> has_prefix x ''template:'' \<or> has_prefix x ''delivery:''
        then bindR (verifyMemberResourceScope me st p x) (\<lambda>_. check_scopes me st p (x # seen) xs)
      else if p_Status p = ''draft'' then Inl (Sentinel ErrInvalidRequest)
      else (case se_chapter (me_store me) (st_rest st) (p_ID p) x of
              Inl _ \<Rightarrow> Inl (Sentinel ErrNotFound)
            | Inr _ \<Rightarrow> check_scopes me st p (x # seen) xs))"

fun check_functions :: "('d, 'q) mem_env \<Rightarrow> ('d, 'q) store \<Rightarrow> 'd project \<Rightarrow> string list \<Rightarrow> (string \<times> string list) list \<Rightarrow> goerr + unit" where
  "check_functions me st p functions [] = Inr ()"
| "check_functions me st p functions ((role, scopes) # rest) =
     (if role \<notin> set functions then Inl (Sentinel ErrInvalidRequest)
      else bindR (check_scopes me st p [] scopes) (\<lambda>_. check_functions me st p functions rest))"

definition validateInvitation :: "('d, 'q) mem_env \<Rightarrow> ('d, 'q) store \<Rightarrow> 'd project \<Rightarrow> member \<Rightarrow> goerr + unit" where
  "validateInvitation me st p m =
     (if \<not> validMemberID (m_UserID m) \<or> m_Role m = ''owner'' \<or> (m_GovernanceRole m \<noteq> ''member'' \<and> m_GovernanceRole m \<noteq> ''admin'')
        then Inl (Sentinel ErrInvalidRequest)
      else if \<not> validFunctionRoles (m_FunctionRoles m) then Inl (Sentinel ErrInvalidRequest)
      else check_functions me st p (m_FunctionRoles m) (m_FunctionScopes m))"

text \<open>The tail of every member write: the project row with the next version, the member rows, the audit row.\<close>

definition commitMembers :: "('d, 'q) mem_env \<Rightarrow> actor \<Rightarrow> string \<Rightarrow> 'd project \<Rightarrow> member list \<Rightarrow> string \<Rightarrow> string \<Rightarrow> string \<Rightarrow> ('d, 'q) store \<Rightarrow> goerr + ('d project \<times> ('d, 'q) store)" where
  "commitMembers me a pid p ms action target reason st =
     (let nxt = p\<lparr>p_ProjectVersion := p_ProjectVersion p + 1, p_Members := ms\<rparr> in
      bindR (UpdateProject (me_store me) (TenantID a) p nxt st) (\<lambda>st1.
      bindR (ReplaceMembers pid ms st1) (\<lambda>st2.
      bindR (recordProjectAuditEvent (me_newID me 0) (me_now me) a pid action target reason st2) (\<lambda>st3. Inr (nxt, st3)))))"

definition putMember :: "member \<Rightarrow> member list \<Rightarrow> member list" where
  "putMember m ms = map (\<lambda>x. if m_UserID x = m_UserID m then m else x) ms"

section \<open>Invitations\<close>

definition invitation_version :: "('d, 'q) store \<Rightarrow> string \<Rightarrow> invite_input \<Rightarrow> goerr + int" where
  "invitation_version st pid inp =
     (if ii_InvitationID inp = [] then Inr 0
      else bindR (GetProjectRecord st pid ''invitation'' (ii_InvitationID inp)) (\<lambda>(version, payload).
        case payload of
          RInvitation old \<Rightarrow>
            if version \<noteq> ii_ExpectedInvitation inp \<or> iv_UserID old \<noteq> m_UserID (ii_Assignment inp) \<or> iv_Status old \<noteq> ''invited''
            then Inl (Sentinel ErrVersionConflict) else Inr version
        | _ \<Rightarrow> Inl (Raw ''json: cannot unmarshal'')))"

definition invite_write :: "('d, 'q) mem_env \<Rightarrow> actor \<Rightarrow> string \<Rightarrow> invite_input \<Rightarrow> ('d, 'q) mem_write" where
  "invite_write me a pid inp p st =
     (if p_ProjectVersion p \<noteq> ii_Expected inp then Inl (Sentinel ErrVersionConflict)
      else if Archived p then Inl (Sentinel ErrInvalidState)
      else let m0 = ii_Assignment inp in
        bindR (validateInvitation me st p m0) (\<lambda>_.
          if \<not> ActiveMember st (plain_actor (TenantID a) (m_UserID m0)) then Inl (Sentinel ErrNotFound)
          else bindR (invitation_version st pid inp) (\<lambda>version.
            if (case projectMember p (m_UserID m0) of Some old \<Rightarrow> m_Status old \<noteq> ''invited'' \<and> m_Status old \<noteq> ''removed'' | None \<Rightarrow> False)
              then Inl (Sentinel ErrInvalidState)
            else let i = (if ii_InvitationID inp = [] then me_newID me 1 else ii_InvitationID inp);
                     m = m0\<lparr>m_Role := ''collaborator'', m_Status := ''invited''\<rparr>;
                     ivn = \<lparr>iv_ID = i, iv_ProjectID = pid, iv_UserID = m_UserID m, iv_Version = version + 1, iv_Assignment = m,
                            iv_Status = ''invited'', iv_Inviter = UserID a, iv_Reason = ii_InviteReason inp,
                            iv_ExpiresAt = me_now me + transfer_window, iv_CreatedAt = me_now me, iv_AcceptedAt = None\<rparr>;
                     ms = (if m_UserID m \<in> m_UserID ` set (p_Members p) then putMember m (p_Members p) else p_Members p @ [m])
                 in bindR (PutProjectRecord pid ''invitation'' i version (RInvitation ivn) st) (\<lambda>st1.
                    bindR (commitMembers me a pid p ms ''member.invite'' (m_UserID m) (ii_InviteReason inp) st1) (\<lambda>(nxt, st2).
                      finished (VInvitation ivn) OperationStatusCreated st2)))))"

definition getInvitation :: "('d, 'q) store \<Rightarrow> string \<Rightarrow> string \<Rightarrow> goerr + int \<times> invitation" where
  "getInvitation st pid i = bindR (GetProjectRecord st pid ''invitation'' i) (\<lambda>(version, payload).
     case payload of RInvitation ivn \<Rightarrow> Inr (version, ivn) | _ \<Rightarrow> Inl (Raw ''json: cannot unmarshal''))"

text \<open>The read that \<^verbatim>\<open>AcceptProjectInvitation\<close> makes before it runs the operation.\<close>

definition accept_precheck :: "('d, 'q) mem_env \<Rightarrow> actor \<Rightarrow> string \<Rightarrow> string \<Rightarrow> int \<Rightarrow> ('d, 'q) store \<Rightarrow> goerr + unit" where
  "accept_precheck me a pid i expected st =
     bindR (Project (me_store me) st (TenantID a) pid) (\<lambda>p.
       if Archived p then Inl (Sentinel ErrInvalidState)
       else bindR (getInvitation st pid i) (\<lambda>(v, ivn).
         if iv_UserID ivn \<noteq> UserID a then Inl (Sentinel ErrNotFound)
         else if iv_Status ivn = ''accepted'' then
           (case projectMember p (UserID a) of
              Some m \<Rightarrow> if m_Status m \<noteq> ''active'' \<or> iv_Version ivn \<noteq> expected \<or> v \<noteq> expected + 1 then Inl (Sentinel ErrNotFound) else Inr ()
            | None \<Rightarrow> Inl (Sentinel ErrNotFound))
         else if v \<noteq> expected then Inl (Sentinel ErrVersionConflict)
         else if iv_Status ivn \<noteq> ''invited'' \<or> \<not> me_now me < iv_ExpiresAt ivn then Inl (Sentinel ErrInvalidState)
         else Inr ()))"

definition accept_write :: "('d, 'q) mem_env \<Rightarrow> actor \<Rightarrow> string \<Rightarrow> string \<Rightarrow> int \<Rightarrow> ('d, 'q) mem_write" where
  "accept_write me a pid i expected _ st =
     bindR (Project (me_store me) st (TenantID a) pid) (\<lambda>p.
       if Archived p then Inl (Sentinel ErrInvalidState)
       else bindR (getInvitation st pid i) (\<lambda>(version, ivn).
         if version \<noteq> expected \<or> iv_Status ivn \<noteq> ''invited'' \<or> \<not> me_now me < iv_ExpiresAt ivn then Inl (Sentinel ErrVersionConflict)
         else bindR (validateInvitation me st p (iv_Assignment ivn)) (\<lambda>_.
           if list_ex (\<lambda>x. m_UserID x = UserID a \<and> m_Status x \<noteq> ''invited'') (p_Members p) then Inl (Sentinel ErrInvalidState)
           else if UserID a \<notin> m_UserID ` set (p_Members p) then Inl (Sentinel ErrNotFound)
           else let ms = map (\<lambda>x. if m_UserID x = UserID a then (iv_Assignment ivn)\<lparr>m_Status := ''active''\<rparr> else x) (p_Members p);
                    ivn' = ivn\<lparr>iv_Status := ''accepted'', iv_AcceptedAt := Some (me_now me)\<rparr>
                in bindR (PutProjectRecord pid ''invitation'' i version (RInvitation ivn') st) (\<lambda>st1.
                   bindR (commitMembers me a pid p ms ''member.accept'' (UserID a) [] st1) (\<lambda>(nxt, st2).
                     finished (VInvitation ivn') OperationStatusOK st2)))))"

section \<open>Member states and assignments\<close>

definition next_state :: "('d, 'q) store \<Rightarrow> actor \<Rightarrow> string \<Rightarrow> string \<Rightarrow> member \<Rightarrow> goerr + member" where
  "next_state st a user action m =
     (if action = ''suspend'' then
        (if m_Status m \<noteq> ''active'' \<and> m_Status m \<noteq> [] then Inl (Sentinel ErrInvalidState) else Inr (m\<lparr>m_Status := ''suspended''\<rparr>))
      else if action = ''remove'' then
        (if m_Status m = ''removed'' then Inl (Sentinel ErrInvalidState) else Inr (m\<lparr>m_Status := ''removed'', m_FunctionScopes := []\<rparr>))
      else if action = ''restore'' \<and> m_Status m \<noteq> ''suspended'' \<or> action = ''restore_tenant'' \<and> m_Status m \<noteq> ''suspended_by_tenant''
        then Inl (Sentinel ErrInvalidState)
      else if \<not> ActiveMember st (plain_actor (TenantID a) user) then Inl (Sentinel ErrNotFound)
      else Inr (m\<lparr>m_Status := ''active''\<rparr>))"

definition state_write :: "('d, 'q) mem_env \<Rightarrow> actor \<Rightarrow> string \<Rightarrow> string \<Rightarrow> lifecycle_input \<Rightarrow> ('d, 'q) mem_write" where
  "state_write me a pid user inp p st =
     (if p_ProjectVersion p \<noteq> li_Expected inp then Inl (Sentinel ErrVersionConflict)
      else case projectMember p user of
        None \<Rightarrow> Inl (Sentinel ErrInvalidState)
      | Some m \<Rightarrow>
          if governanceRole m = ''owner'' then Inl (Sentinel ErrInvalidState)
          else bindR (next_state st a user (li_Action inp) m) (\<lambda>m'.
            bindR (commitMembers me a pid p (map (\<lambda>x. if m_UserID x = user then m' else x) (p_Members p)) (''member.'' @ li_Action inp) user (li_Reason inp) st)
              (\<lambda>(nxt, st2). finished (VProject nxt) OperationStatusOK st2)))"

definition assignment_write :: "('d, 'q) mem_env \<Rightarrow> actor \<Rightarrow> string \<Rightarrow> string \<Rightarrow> assignment_input \<Rightarrow> ('d, 'q) mem_write" where
  "assignment_write me a pid user inp p st =
     (if p_ProjectVersion p \<noteq> as_Expected inp then Inl (Sentinel ErrVersionConflict)
      else case projectMember p user of
        None \<Rightarrow> Inl (Sentinel ErrInvalidState)
      | Some old \<Rightarrow>
          if governanceRole old = ''owner'' \<or> (m_Status old \<noteq> [] \<and> m_Status old \<noteq> ''active'') then Inl (Sentinel ErrInvalidState)
          else bindR (validateInvitation me st p (as_Assignment inp)) (\<lambda>_.
            if \<not> ActiveMember st (plain_actor (TenantID a) user) then Inl (Sentinel ErrNotFound)
            else let m = (as_Assignment inp)\<lparr>m_Role := ''collaborator'', m_Status := ''active''\<rparr> in
              bindR (commitMembers me a pid p (map (\<lambda>x. if m_UserID x = user then m else x) (p_Members p)) ''member.assignment'' user (as_Reason inp) st)
                (\<lambda>(nxt, st2). finished (VProject nxt) OperationStatusOK st2)))"

section \<open>Replacing the members\<close>

definition replaceAudit :: "('d, 'q) mem_env \<Rightarrow> actor \<Rightarrow> string \<Rightarrow> string \<Rightarrow> ('d, 'q) store \<Rightarrow> goerr + ('d, 'q) store" where
  "replaceAudit me a pid action =
     RecordAudit \<lparr>ar_ID = me_newID me 0, ar_ProjectID = pid, ar_ActorID = UserID a, ar_Action = action, ar_Target = pid,
       ar_TenantID = 0, ar_UserID = [], ar_Reason = [], ar_Decision = [], ar_CreatedAt = me_now me\<rparr>"

definition collaborators_write :: "('d, 'q) mem_env \<Rightarrow> actor \<Rightarrow> string \<Rightarrow> int \<Rightarrow> string list \<Rightarrow> ('d, 'q) mem_write" where
  "collaborators_write me a pid expected ids p st =
     (if p_ProjectVersion p \<noteq> expected then Inl (Sentinel ErrVersionConflict)
      else if \<not> list_all (\<lambda>i. ActiveMember st (plain_actor (TenantID a) i)) ids then Inl (Sentinel ErrInvalidState)
      else let existing = sort (map m_UserID (filter (\<lambda>m. m_Role m = ''collaborator'') (p_Members p)));
               others = filter (\<lambda>m. m_Role m \<noteq> ''collaborator'') (p_Members p)
           in if existing = ids then finished (VProject p) OperationStatusOK st
              else let nxt = p\<lparr>p_ProjectVersion := p_ProjectVersion p + 1\<rparr> in
                bindR (UpdateProject (me_store me) (TenantID a) p nxt st) (\<lambda>st1.
                bindR (ReplaceCollaborators pid ids st1) (\<lambda>st2.
                bindR (replaceAudit me a pid ''project.member_permissions.replace'' st2) (\<lambda>st3.
                  finished (VProject (nxt\<lparr>p_Members := sort_key m_UserID (others @
                    map (\<lambda>i. \<lparr>m_UserID = i, m_Role = ''collaborator'', m_GovernanceRole = [], m_FunctionRoles = [], m_FunctionScopes = [], m_Status = []\<rparr>) ids)\<rparr>))
                    OperationStatusOK st3))))"

fun scopes_known :: "string list \<Rightarrow> string list \<Rightarrow> string list \<Rightarrow> bool" where
  "scopes_known chapters seen [] = True"
| "scopes_known chapters seen (x # xs) =
     (if x = [] \<or> x \<in> set seen then False
      else if x \<notin> set chapters \<and> \<not> has_prefix x ''asset:'' \<and> \<not> has_prefix x ''delivery:'' then False
      else scopes_known chapters (x # seen) xs)"

text \<open>The loop over the given members: the checked members in input order, or the refusal.\<close>

fun check_members :: "('d, 'q) store \<Rightarrow> nat \<Rightarrow> string list \<Rightarrow> string list \<Rightarrow> member list \<Rightarrow> goerr + member list" where
  "check_members st tenant chapters seen [] = Inr []"
| "check_members st tenant chapters seen (m # ms) =
     (if \<not> validMemberID (m_UserID m) \<or> m_UserID m \<in> set seen \<or> (m_GovernanceRole m \<noteq> ''admin'' \<and> m_GovernanceRole m \<noteq> ''member'')
        then Inl (Sentinel ErrInvalidRequest)
      else if m_Role m \<noteq> [] \<and> m_Role m \<noteq> ''collaborator'' then Inl (Sentinel ErrInvalidRequest)
      else if m_Status m \<noteq> [] \<and> m_Status m \<noteq> ''active'' \<and> m_Status m \<noteq> ''suspended'' then Inl (Sentinel ErrInvalidRequest)
      else if \<not> ActiveMember st (plain_actor tenant (m_UserID m)) then Inl (Sentinel ErrInvalidState)
      else if \<not> validFunctionRoles (m_FunctionRoles m) then Inl (Sentinel ErrInvalidRequest)
      else if \<not> list_all (\<lambda>(role, scopes). role \<in> set (m_FunctionRoles m) \<and> scopes_known chapters [] scopes) (m_FunctionScopes m)
        then Inl (Sentinel ErrInvalidRequest)
      else bindR (check_members st tenant chapters (m_UserID m # seen) ms) (\<lambda>rest.
        Inr (m\<lparr>m_Role := ''collaborator'', m_Status := (if m_Status m = [] then ''active'' else m_Status m)\<rparr> # rest)))"

definition owner_assignment :: "string \<Rightarrow> member" where
  "owner_assignment u = \<lparr>m_UserID = u, m_Role = ''owner'', m_GovernanceRole = ''owner'', m_FunctionRoles = [], m_FunctionScopes = [], m_Status = ''active''\<rparr>"

definition permissions_write :: "('d, 'q) mem_env \<Rightarrow> actor \<Rightarrow> string \<Rightarrow> int \<Rightarrow> member list \<Rightarrow> ('d, 'q) mem_write" where
  "permissions_write me a pid expected given p st =
     (if p_ProjectVersion p \<noteq> expected then Inl (Sentinel ErrVersionConflict)
      else case filter (\<lambda>m. m_Role m = ''owner'') (p_Members p) of
        [w] \<Rightarrow>
          if m_UserID w = [] then Inl (Sentinel ErrInvalidState)
          else bindR (se_chapterIDs (me_store me) (st_rest st) pid) (\<lambda>chapters.
            bindR (check_members st (TenantID a) chapters [m_UserID w] given) (\<lambda>checked.
              let ms = sort_key m_UserID (owner_assignment (m_UserID w) # checked);
                  nxt = p\<lparr>p_ProjectVersion := p_ProjectVersion p + 1, p_Members := ms\<rparr>
              in bindR (UpdateProject (me_store me) (TenantID a) p nxt st) (\<lambda>st1.
                 bindR (ReplaceMembers pid ms st1) (\<lambda>st2.
                 bindR (replaceAudit me a pid ''project.member_permissions.replace'' st2) (\<lambda>st3. finished (VProject nxt) OperationStatusOK st3)))))
      | _ \<Rightarrow> Inl (Sentinel ErrInvalidState))"

section \<open>Ownership\<close>

definition lastOwner :: "member list \<Rightarrow> member option" where
  "lastOwner ms = find (\<lambda>m. m_Role m = ''owner'') (rev ms)"

definition lastMember :: "string \<Rightarrow> member list \<Rightarrow> member option" where
  "lastMember u ms = find (\<lambda>m. m_UserID m = u) (rev ms)"

definition demote :: "member \<Rightarrow> member" where
  "demote m = m\<lparr>m_Role := ''collaborator'', m_GovernanceRole := ''member'', m_FunctionRoles := [], m_FunctionScopes := []\<rparr>"

definition promote :: "member \<Rightarrow> member" where
  "promote m = m\<lparr>m_Role := ''owner'', m_GovernanceRole := ''owner'', m_FunctionRoles := [], m_FunctionScopes := []\<rparr>"

definition transfer_write :: "('d, 'q) mem_env \<Rightarrow> actor \<Rightarrow> string \<Rightarrow> transfer_input \<Rightarrow> ('d, 'q) mem_write" where
  "transfer_write me a pid inp p st =
     (if p_ProjectVersion p \<noteq> ti_Expected inp then Inl (Sentinel ErrVersionConflict)
      else case (lastOwner (p_Members p), lastMember (ti_User inp) (p_Members p)) of
        (Some current, Some recipient) \<Rightarrow>
          if m_UserID current \<noteq> UserID a \<or> m_Role recipient = ''owner'' then Inl (Sentinel ErrNotFound)
          else if \<not> ActiveMember st (plain_actor (TenantID a) (m_UserID recipient)) then Inl (Sentinel ErrInvalidState)
          else let ms = map (\<lambda>x. if m_UserID x = UserID a then demote x else if m_UserID x = m_UserID recipient then promote x else x) (p_Members p);
                   nxt = p\<lparr>p_ProjectVersion := p_ProjectVersion p + 1, p_Members := ms\<rparr>
               in bindR (UpdateProject (me_store me) (TenantID a) p nxt st) (\<lambda>st1.
                  bindR (ReplaceMembers pid ms st1) (\<lambda>st2.
                  bindR (replaceAudit me a pid ''project.owner_transfer'' st2) (\<lambda>st3. finished (VProject nxt) OperationStatusOK st3)))
      | _ \<Rightarrow> Inl (Sentinel ErrNotFound))"

definition usable_member :: "'d project \<Rightarrow> string \<Rightarrow> bool" where
  "usable_member p user = (case projectMember p user of Some m \<Rightarrow> m_Status m = [] \<or> m_Status m = ''active'' | None \<Rightarrow> False)"

definition recordOwnerTransferOrigin :: "('d, 'q) mem_env \<Rightarrow> actor \<Rightarrow> 'd project \<Rightarrow> owner_transfer \<Rightarrow> ('d, 'q) store \<Rightarrow> goerr + ('d, 'q) store" where
  "recordOwnerTransferOrigin me a p t st =
     bindR (PutProjectRecord (p_ID p) ''owner_transfer_origin'' (ot_ID t) 0
              (ROrigin \<lparr>to_RequesterID = UserID a, to_Recovery = (UserID a \<noteq> ot_FromUserID t)\<rparr>) st)
       (recordProjectAuditEvent (me_newID me 0) (me_now me) a (p_ID p) ''owner.transfer.request'' (ot_ID t) [])"

definition request_write :: "('d, 'q) mem_env \<Rightarrow> actor \<Rightarrow> string \<Rightarrow> transfer_input \<Rightarrow> ('d, 'q) mem_write" where
  "request_write me a pid inp _ st =
     bindR (Project (me_store me) st (TenantID a) pid) (\<lambda>p.
       case projectOwnerUser p of
         None \<Rightarrow> Inl (Sentinel ErrInvalidState)
       | Some current \<Rightarrow>
           if current = [] then Inl (Sentinel ErrInvalidState)
           else let view = store_view (me_store me) (me_now me) st in
             bindR (currentTenantRole view a) (\<lambda>role.
               if UserID a \<noteq> current \<and> (role \<noteq> ''owner'' \<or> oa_Available (OwnerAuthorityOf view p (TenantID a))) then Inl (Sentinel ErrNotFound)
               else if p_ProjectVersion p \<noteq> ti_Expected inp \<or> p_Status p = ''archived'' then Inl (Sentinel ErrVersionConflict)
               else if p_DiscardedAt p \<noteq> None then Inl (Sentinel ErrInvalidState)
               else if \<not> ActiveMember st (plain_actor (TenantID a) (ti_User inp)) then Inl (Sentinel ErrInvalidState)
               else if me_activation me \<and> \<not> usable_member p (ti_User inp) then Inl (Sentinel ErrNotFound)
               else let t = \<lparr>ot_ID = me_newID me 1, ot_ProjectID = pid, ot_FromUserID = current, ot_ToUserID = ti_User inp, ot_Status = ''pending'',
                             ot_ExpectedProjectVersion = p_ProjectVersion p, ot_CreatedAt = me_now me, ot_AcceptedAt = None\<rparr>
                    in bindR (InsertOwnerTransfer (me_now me) t st) (\<lambda>st1.
                       bindR (if me_activation me then recordOwnerTransferOrigin me a p t st1 else Inr st1) (\<lambda>st2.
                         finished (VTransfer t) OperationStatusCreated st2))))"

definition verifyOwnerTransferOrigin :: "('d, 'q) mem_env \<Rightarrow> 'x gocontext \<Rightarrow> actor \<Rightarrow> 'd project \<Rightarrow> owner_transfer \<Rightarrow> ('d, 'q) store \<Rightarrow> goerr + unit" where
  "verifyOwnerTransferOrigin me ctx a p t st =
     (case RequireHumanDecision ctx (Sentinel ErrHumanDecisionRequired) of
        Some e \<Rightarrow> Inl e
      | None \<Rightarrow> (case GetProjectRecord st (p_ID p) ''owner_transfer_origin'' (ot_ID t) of
            Inr (_, ROrigin origin) \<Rightarrow>
              (let view = store_view (me_store me) (me_now me) st;
                   available = ownerCurrentlyAvailable view p (TenantID a) (ot_FromUserID t)
               in bindR (if to_Recovery origin then
                           (if available then Inl (Sentinel ErrInvalidState)
                            else case currentTenantRole view (plain_actor (TenantID a) (to_RequesterID origin)) of
                                   Inr role \<Rightarrow> if role \<noteq> ''owner'' then Inl (Sentinel ErrNotFound) else Inr ()
                                 | Inl _ \<Rightarrow> Inl (Sentinel ErrNotFound))
                         else if to_RequesterID origin \<noteq> ot_FromUserID t \<or> \<not> available then Inl (Sentinel ErrInvalidState)
                         else Inr ()) (\<lambda>_.
                    case currentTenantRole view a of
                      Inl _ \<Rightarrow> Inl (Sentinel ErrNotFound)
                    | Inr role \<Rightarrow> if role \<noteq> [] \<and> \<not> role_HasPermission role ''contributor'' then Inl (Sentinel ErrNotFound) else Inr ()))
          | _ \<Rightarrow> Inl (Sentinel ErrInvalidState)))"

definition accept_transfer_write :: "('d, 'q) mem_env \<Rightarrow> 'x gocontext \<Rightarrow> actor \<Rightarrow> string \<Rightarrow> string \<Rightarrow> ('d, 'q) mem_write" where
  "accept_transfer_write me ctx a pid i _ st =
     (if \<not> validActor a then Inl (Sentinel ErrNotFound)
      else bindR (Project (me_store me) st (TenantID a) pid) (\<lambda>p.
        if p_DiscardedAt p \<noteq> None then Inl (Sentinel ErrInvalidState)
        else case OwnerTransfer st pid i of
          Inl _ \<Rightarrow> Inl (Sentinel ErrInvalidState)
        | Inr t \<Rightarrow>
            if ot_Status t \<noteq> ''pending'' \<or> ot_ToUserID t \<noteq> UserID a then Inl (Sentinel ErrInvalidState)
            else if me_now me - ot_CreatedAt t > transfer_window then Inl (Sentinel ErrInvalidState)
            else if me_activation me \<and> \<not> usable_member p (UserID a) then Inl (Sentinel ErrNotFound)
            else if ot_ExpectedProjectVersion t \<noteq> p_ProjectVersion p then Inl (Sentinel ErrVersionConflict)
            else bindR (if me_activation me then verifyOwnerTransferOrigin me ctx a p t st else Inr ()) (\<lambda>_.
              if \<not> ActiveMember st a then Inl (Sentinel ErrNotFound)
              else bindR (EnsureMember pid (UserID a) ''collaborator'' st) (\<lambda>st1.
                   bindR (UpdateProject (me_store me) (TenantID a) p (p\<lparr>p_ProjectVersion := p_ProjectVersion p + 1\<rparr>) st1) (\<lambda>st2.
                   bindR (SetMemberRole pid (ot_FromUserID t) ''collaborator'' st2) (\<lambda>st3.
                   bindR (SetMemberRole pid (UserID a) ''owner'' st3) (\<lambda>st4.
                   bindR (store_AcceptOwnerTransfer pid i (ot_ExpectedProjectVersion t) (me_now me) st4) (\<lambda>st5.
                   bindR (if me_activation me then recordProjectAuditEvent (me_newID me 0) (me_now me) a (p_ID p) ''owner.transfer.accept'' (ot_ID t) [] st5
                          else Inr st5) (\<lambda>st6.
                     finished (VTransfer (t\<lparr>ot_Status := ''accepted'', ot_AcceptedAt := Some (me_now me)\<rparr>)) OperationStatusOK st6)))))))))"

definition reject_transfer_write :: "('d, 'q) mem_env \<Rightarrow> actor \<Rightarrow> string \<Rightarrow> string \<Rightarrow> decision_input \<Rightarrow> ('d, 'q) mem_write" where
  "reject_transfer_write me a pid i inp p st =
     (if p_ProjectVersion p \<noteq> di_Expected inp then Inl (Sentinel ErrVersionConflict)
      else bindR (OwnerTransfer st pid i) (\<lambda>t.
        if ot_Status t \<noteq> ''pending'' \<or> (ot_ToUserID t \<noteq> UserID a \<and> \<not> projectOwner p (UserID a)) then Inl (Sentinel ErrNotFound)
        else if me_now me - ot_CreatedAt t > transfer_window then Inl (Sentinel ErrInvalidState)
        else bindR (cancelOwnerTransfer pid i st) (\<lambda>st1.
             bindR (recordProjectAuditEvent (me_newID me 0) (me_now me) a pid ''owner.transfer.reject'' i (di_Reason inp) st1) (\<lambda>st2.
               finished (VTransfer (t\<lparr>ot_Status := ''cancelled''\<rparr>)) OperationStatusOK st2))))"

section \<open>API key grants\<close>

definition grant_write :: "('d, 'q) mem_env \<Rightarrow> actor \<Rightarrow> string \<Rightarrow> key_grant \<Rightarrow> ('d, 'q) mem_write" where
  "grant_write me a pid inp p st =
     (if p_ProjectVersion p \<noteq> kg_ExpectedProjectVersion inp then Inl (Sentinel ErrVersionConflict)
      else bindR (se_hasKey (me_store me) (st_rest st) (TenantID a) (kg_KeyID inp)) (\<lambda>has.
        if \<not> has then Inl (Sentinel ErrNotFound)
        else bindR (if kg_Active inp then se_machineKey (me_store me) (st_rest st) (TenantID a) (kg_KeyID inp) else Inr ()) (\<lambda>_.
          let i = sha256_hex (show_int (int (kg_KeyID inp)));
              g = inp\<lparr>kg_CreatedBy := UserID a, kg_UpdatedAt := me_now me\<rparr>
          in bindR (case GetProjectRecord st pid ''api_key_grant'' i of
                      Inr (v, _) \<Rightarrow> Inr v
                    | Inl e \<Rightarrow> if e = Sentinel ErrNotFound then Inr 0 else Inl e) (\<lambda>version.
             bindR (PutProjectRecord pid ''api_key_grant'' i version (RGrant g) st) (\<lambda>st1.
             bindR (recordProjectAuditEvent (me_newID me 0) (me_now me) a pid ''api_key.scope'' i (kg_Reason inp) st1) (\<lambda>st2.
               finished (VGrant g) OperationStatusOK st2))))))"

section \<open>Suspension by the tenant\<close>

text \<open>A lookup that finds nobody leaves the zero value of a member in \<^verbatim>\<open>m\<close>, and the loop goes on with it.\<close>

definition zero_member :: member where
  "zero_member = \<lparr>m_UserID = [], m_Role = [], m_GovernanceRole = [], m_FunctionRoles = [], m_FunctionScopes = [], m_Status = []\<rparr>"

definition suspend_in :: "('d, 'q) mem_env \<Rightarrow> nat \<Rightarrow> string \<Rightarrow> 'd project \<Rightarrow> ('d, 'q) store \<Rightarrow> goerr + ('d, 'q) store" where
  "suspend_in me tenant user p st =
     (let m = (case projectMember p user of Some m \<Rightarrow> m | None \<Rightarrow> zero_member) in
      if governanceRole m = ''owner'' \<or> (m_Status m \<noteq> [] \<and> m_Status m \<noteq> ''active'') then Inr st
      else bindR (commitMembers me (plain_actor tenant user) (p_ID p) p
                    (map (\<lambda>x. if m_UserID x = user then x\<lparr>m_Status := ''suspended_by_tenant''\<rparr> else x) (p_Members p))
                    ''member.tenant_suspended'' user ''tenant_membership_changed'' st) (\<lambda>(_, st'). Inr st'))"

definition CaptureTenantSuspension :: "('d, 'q) mem_env \<Rightarrow> (nat \<Rightarrow> string) \<Rightarrow> nat \<Rightarrow> string \<Rightarrow> ('d, 'q) store \<Rightarrow> goerr + ('d, 'q) store" where
  "CaptureTenantSuspension me ids tenant user st =
     bindR (Projects (me_store me) st (plain_actor tenant user) 10000) (\<lambda>ps.
       each (\<lambda>(n, p). suspend_in (me\<lparr>me_newID := (\<lambda>_. ids n)\<rparr>) tenant user p) (enumerate 0 ps) st)"

end
