(* ===== verification/Ownership.thy ===== *)
theory Ownership
  imports Membership
begin

text \<open>
  The member and owner operations as a state machine: one step is one committed write of the member
  context, the creation of a project, or a write of another part of the workspace that leaves members and
  transfers alone.  The invariant is the one the code means to keep: a project has one owner, and a pending
  owner transfer that is still current names that owner.

  The flag of the step relation says whether the two transfers of ownership are given a recipient whose own
  membership is usable.  The sources do not check it in \<^verbatim>\<open>TransferOwner\<close>; the last theorem shows what
  that costs.  The context of a call is one without the values no member write reads.
\<close>

section \<open>Steps\<close>

text \<open>What other writes of the workspace may do: they never touch members or transfers, and never lower a version.\<close>

definition outside_members :: "('d, 'q) store \<Rightarrow> ('d, 'q) store \<Rightarrow> bool" where
  "outside_members st st' \<longleftrightarrow> st_members st' = st_members st \<and> st_perms st' = st_perms st \<and> st_transfers st' = st_transfers st \<and>
     list_all2 (\<lambda>r r'. pr_ID r' = pr_ID r \<and> pr_TenantID r' = pr_TenantID r \<and> pr_ProjectVersion r \<le> pr_ProjectVersion r') (st_projects st) (st_projects st')"

inductive mem_step :: "bool \<Rightarrow> ('d, 'q) store_env \<Rightarrow> ('d, 'q) store \<Rightarrow> ('d, 'q) store \<Rightarrow> bool" for g :: bool and se :: "('d, 'q) store_env" where
  create: "InsertProject se tenant now p st = Inr st' \<Longrightarrow> members_wf (p_Members p) \<Longrightarrow>
     (\<And>m. m \<in> set (p_Members p) \<Longrightarrow> m_Role m = ''owner'' \<Longrightarrow> usable_status (m_Status m)) \<Longrightarrow> mem_step g se st st'"
| other: "outside_members st st' \<Longrightarrow> mem_step g se st st'"
| invite: "me_store me = se \<Longrightarrow> Project se st (TenantID a) pid = Inr p \<Longrightarrow> invite_write me a pid inp p st = Inr (w, st') \<Longrightarrow> mem_step g se st st'"
| accept: "me_store me = se \<Longrightarrow> accept_write me a pid i expected p st = Inr (w, st') \<Longrightarrow> mem_step g se st st'"
| state: "me_store me = se \<Longrightarrow> Project se st (TenantID a) pid = Inr p \<Longrightarrow> state_write me a pid user linp p st = Inr (w, st') \<Longrightarrow> mem_step g se st st'"
| assign: "me_store me = se \<Longrightarrow> Project se st (TenantID a) pid = Inr p \<Longrightarrow> assignment_write me a pid user ainp p st = Inr (w, st') \<Longrightarrow> mem_step g se st st'"
| collaborators: "me_store me = se \<Longrightarrow> Project se st (TenantID a) pid = Inr p \<Longrightarrow> collaborators_write me a pid expected ids p st = Inr (w, st') \<Longrightarrow> mem_step g se st st'"
| permissions: "me_store me = se \<Longrightarrow> Project se st (TenantID a) pid = Inr p \<Longrightarrow> permissions_write me a pid expected given p st = Inr (w, st') \<Longrightarrow> mem_step g se st st'"
| transfer: "me_store me = se \<Longrightarrow> Project se st (TenantID a) pid = Inr p \<Longrightarrow> (g \<Longrightarrow> usable_status (status_of st pid (ti_User tinp))) \<Longrightarrow>
     transfer_write me a pid tinp p st = Inr (w, st') \<Longrightarrow> mem_step g se st st'"
| request: "me_store me = se \<Longrightarrow> request_write me a pid tinp p st = Inr (w, st') \<Longrightarrow> mem_step g se st st'"
| accept_transfer: "me_store me = se \<Longrightarrow> (g \<Longrightarrow> usable_status (status_of st pid (UserID a))) \<Longrightarrow>
     accept_transfer_write me (ctx :: unit gocontext) a pid i p st = Inr (w, st') \<Longrightarrow> mem_step g se st st'"
| reject: "me_store me = se \<Longrightarrow> Project se st (TenantID a) pid = Inr p \<Longrightarrow> reject_transfer_write me a pid i dinp p st = Inr (w, st') \<Longrightarrow> mem_step g se st st'"
| grant: "me_store me = se \<Longrightarrow> Project se st (TenantID a) pid = Inr p \<Longrightarrow> grant_write me a pid kg p st = Inr (w, st') \<Longrightarrow> mem_step g se st st'"
| suspend: "me_store me = se \<Longrightarrow> Project se st tenant pid = Inr p \<Longrightarrow> suspend_in me tenant user p st = Inr st' \<Longrightarrow> mem_step g se st st'"

section \<open>The invariant\<close>

definition project_ids :: "('d, 'q) store \<Rightarrow> string set" where
  "project_ids st = pr_ID ` set (st_projects st)"

definition version_of :: "('d, 'q) store \<Rightarrow> string \<Rightarrow> int option" where
  "version_of st pid = map_option pr_ProjectVersion (find (\<lambda>r. pr_ID r = pid) (st_projects st))"

definition tables_ok :: "('d, 'q) store \<Rightarrow> bool" where
  "tables_ok st \<longleftrightarrow> distinct (map pr_ID (st_projects st)) \<and> distinct (map member_key (st_members st)) \<and>
     mr_ProjectID ` set (st_members st) \<subseteq> project_ids st \<and> ot_ProjectID ` set (st_transfers st) \<subseteq> project_ids st"

definition owner_ok :: "bool \<Rightarrow> ('d, 'q) store \<Rightarrow> string \<Rightarrow> bool" where
  "owner_ok g st pid \<longleftrightarrow> (\<forall>u\<in>owner_set st pid. \<forall>v\<in>owner_set st pid. u = v) \<and>
     (g \<longrightarrow> (\<exists>u. owner_set st pid = {u} \<and> usable_status (status_of st pid u)))"

definition transfer_ok :: "('d, 'q) store \<Rightarrow> owner_transfer \<Rightarrow> bool" where
  "transfer_ok st t \<longleftrightarrow> ot_Status t = ''pending'' \<longrightarrow> (\<exists>v. version_of st (ot_ProjectID t) = Some v \<and> ot_ExpectedProjectVersion t \<le> v \<and>
     (ot_ExpectedProjectVersion t = v \<longrightarrow> owner_set st (ot_ProjectID t) = {ot_FromUserID t}))"

definition mem_inv :: "bool \<Rightarrow> ('d, 'q) store \<Rightarrow> bool" where
  "mem_inv g st \<longleftrightarrow> tables_ok st \<and> (\<forall>pid\<in>project_ids st. owner_ok g st pid) \<and> (\<forall>t\<in>set (st_transfers st). transfer_ok st t)"

section \<open>Framing lemmas\<close>

definition bump :: "('d, 'q) store \<Rightarrow> ('d, 'q) store \<Rightarrow> string \<Rightarrow> int \<Rightarrow> bool" where
  "bump st st' pid v \<longleftrightarrow> map pr_ID (st_projects st') = map pr_ID (st_projects st) \<and> version_of st pid = Some v \<and> version_of st' pid = Some (v + 1) \<and>
     (\<forall>q. q \<noteq> pid \<longrightarrow> version_of st' q = version_of st q)"

lemma bump_ids: "bump st st' pid v \<Longrightarrow> project_ids st' = project_ids st \<and> pid \<in> project_ids st"
proof -
  assume b: "bump st st' pid v"
  then have "set (map pr_ID (st_projects st')) = set (map pr_ID (st_projects st))" by (simp add: bump_def)
  moreover obtain r where "find (\<lambda>r. pr_ID r = pid) (st_projects st) = Some r" using b by (auto simp: bump_def version_of_def)
  then have "pid \<in> project_ids st" using find_Some_in by (fastforce simp: project_ids_def)
  ultimately show ?thesis by (simp add: project_ids_def)
qed

lemma find_map_key: "(\<And>r. key (f r) = key r) \<Longrightarrow> find (\<lambda>r. key r = k) (map f xs) = map_option f (find (\<lambda>r. key r = k) xs)"
  by (induction xs) auto

lemma find_unique_key: "distinct (map key xs) \<Longrightarrow> x \<in> set xs \<Longrightarrow> find (\<lambda>r. key r = key x) xs = Some x"
  by (rule find_key_unique)

lemma update_bump:
  assumes "UpdateProject se tenant p nxt st = Inr st'" "distinct (map pr_ID (st_projects st))" "p_ProjectVersion nxt = p_ProjectVersion p + 1"
  shows "bump st st' (p_ID p) (p_ProjectVersion p) \<and> same_members st st'"
proof -
  let ?sel = "\<lambda>r. pr_ID r = p_ID p \<and> pr_TenantID r = tenant \<and> pr_ProjectVersion r = p_ProjectVersion p \<and>
                  pr_SpecRevision r = p_SpecRevision p \<and> pr_Status r = p_Status p"
  let ?f = "\<lambda>r. if ?sel r then project_columns nxt r else r"
  from assms(1) obtain row where row: "row \<in> set (st_projects st)" "?sel row" and s: "same_members st st'"
    and ps: "st_projects st' = map ?f (st_projects st)"
    by (rule UpdateProject_ok) blast
  have key: "pr_ID (?f r) = pr_ID r" for r by simp
  have f: "find (\<lambda>r. pr_ID r = q) (st_projects st') = map_option ?f (find (\<lambda>r. pr_ID r = q) (st_projects st))" for q
    unfolding ps by (rule find_map_key) (rule key)
  have "find (\<lambda>r. pr_ID r = p_ID p) (st_projects st) = Some row"
    using find_unique_key [OF assms(2) row(1)] row(2) by simp
  then have "version_of st (p_ID p) = Some (p_ProjectVersion p)" "version_of st' (p_ID p) = Some (p_ProjectVersion p + 1)"
    using row(2) assms(3) by (simp_all add: version_of_def f)
  moreover have "version_of st' q = version_of st q" if "q \<noteq> p_ID p" for q
  proof (cases "find (\<lambda>r. pr_ID r = q) (st_projects st)")
    case None
    then show ?thesis by (simp add: version_of_def f)
  next
    case (Some r)
    then show ?thesis using find_Some_in [OF Some] that by (simp add: version_of_def f)
  qed
  moreover have "map pr_ID (st_projects st') = map pr_ID (st_projects st)" unfolding ps by simp
  ultimately show ?thesis using s by (simp add: bump_def)
qed

lemma mem_inv_change:
  assumes inv: "mem_inv g st" and b: "bump st st' pid v"
    and t: "\<And>t. t \<in> set (st_transfers st') \<Longrightarrow> t \<in> set (st_transfers st) \<or> ot_Status t \<noteq> ''pending'' \<and> ot_ProjectID t \<in> project_ids st"
    and d: "distinct (map member_key (st_members st'))" "mr_ProjectID ` set (st_members st') \<subseteq> project_ids st"
    and oth: "\<And>q. q \<noteq> pid \<Longrightarrow> owner_set st' q = owner_set st q \<and> status_of st' q = status_of st q" and ok: "owner_ok g st' pid"
  shows "mem_inv g st'"
proof -
  have ids: "project_ids st' = project_ids st" using bump_ids [OF b] by simp
  have own: "owner_ok g st' q" if "q \<in> project_ids st" for q
    using inv ok oth [of q] that by (cases "q = pid") (auto simp: mem_inv_def owner_ok_def)
  have "transfer_ok st' t" if t': "t \<in> set (st_transfers st')" for t
  proof (cases "ot_Status t = ''pending''")
    case True
    then have "transfer_ok st t" using t [OF t'] inv unfolding mem_inv_def by blast
    then show ?thesis using True b oth [of "ot_ProjectID t"]
      by (cases "ot_ProjectID t = pid") (auto simp: transfer_ok_def bump_def)
  qed (simp add: transfer_ok_def)
  moreover have "ot_ProjectID ` set (st_transfers st') \<subseteq> project_ids st"
  proof (rule image_subsetI)
    fix x assume "x \<in> set (st_transfers st')"
    then show "ot_ProjectID x \<in> project_ids st" using t [of x] inv unfolding mem_inv_def tables_ok_def by blast
  qed
  moreover have "distinct (map pr_ID (st_projects st'))" using b inv by (simp add: bump_def mem_inv_def tables_ok_def)
  ultimately show ?thesis using own d ids by (simp add: mem_inv_def tables_ok_def)
qed

text \<open>Writes that touch transfers, records and audit rows only.\<close>

lemma mem_inv_quiet:
  assumes inv: "mem_inv g st" and same: "st_members st' = st_members st" "st_perms st' = st_perms st" "st_projects st' = st_projects st"
    and t: "\<And>t. t \<in> set (st_transfers st') \<Longrightarrow> ot_ProjectID t \<in> project_ids st \<and> (ot_Status t = ''pending'' \<longrightarrow>
       t \<in> set (st_transfers st) \<or> version_of st (ot_ProjectID t) = Some (ot_ExpectedProjectVersion t) \<and> owner_set st (ot_ProjectID t) = {ot_FromUserID t})"
  shows "mem_inv g st'"
proof -
  have e: "owner_set st' = owner_set st" "status_of st' = status_of st" "version_of st' = version_of st" "project_ids st' = project_ids st"
    by (rule ext, simp add: owner_set_def same) (intro ext, simp add: status_of_def same, rule ext, simp add: version_of_def same, simp add: project_ids_def same)
  have "transfer_ok st' t" if "t \<in> set (st_transfers st')" for t
    using t [OF that] inv by (auto simp: transfer_ok_def e mem_inv_def)
  moreover have "ot_ProjectID ` set (st_transfers st') \<subseteq> project_ids st" using t by blast
  ultimately show ?thesis using inv by (simp add: mem_inv_def tables_ok_def owner_ok_def e same)
qed

section \<open>Member lists\<close>

definition ms_ok :: "bool \<Rightarrow> member list \<Rightarrow> bool" where
  "ms_ok g ms \<longleftrightarrow> (\<forall>u\<in>owners_in ms. \<forall>v\<in>owners_in ms. u = v) \<and>
     (g \<longrightarrow> (\<exists>u. owners_in ms = {u} \<and> (\<forall>m\<in>set ms. m_UserID m = u \<longrightarrow> usable_status (m_Status m))))"

lemma view_ok:
  assumes "mem_inv g st" "Project se st tenant pid = Inr p"
  shows "ms_ok g (p_Members p)" "distinct (map m_UserID (p_Members p))" "p_ID p = pid" "owners_in (p_Members p) = owner_set st pid"
    "version_of st pid = Some (p_ProjectVersion p)" "pid \<in> project_ids st"
proof -
  from assms(2) obtain row where row: "row \<in> set (st_projects st)" "pr_ID row = pid" "p_ProjectVersion p = pr_ProjectVersion row"
    and id: "p_ID p = pid" and ms: "p_Members p = project_members st pid" by (rule Project_ok)
  show "p_ID p = pid" by (rule id)
  show in': "pid \<in> project_ids st" using row by (auto simp: project_ids_def)
  show o: "owners_in (p_Members p) = owner_set st pid" by (simp add: ms view_owners)
  show "distinct (map m_UserID (p_Members p))" using assms(1) by (simp add: ms view_distinct mem_inv_def tables_ok_def)
  have "owner_ok g st pid" using assms(1) in' by (simp add: mem_inv_def)
  then show "ms_ok g (p_Members p)" using o view_status [of _ st pid] by (auto simp: ms_ok_def owner_ok_def ms)
  have "find (\<lambda>r. pr_ID r = pid) (st_projects st) = Some row"
    using find_unique_key [of pr_ID "st_projects st" row] assms(1) row by (simp add: mem_inv_def tables_ok_def)
  then show "version_of st pid = Some (p_ProjectVersion p)" by (simp add: version_of_def row)
qed

text \<open>The owners stay, no version falls: what every step but a transfer does.\<close>

definition keeps_owner :: "bool \<Rightarrow> ('d, 'q) store \<Rightarrow> ('d, 'q) store \<Rightarrow> bool" where
  "keeps_owner g st st' \<longleftrightarrow> mem_inv g st' \<and> project_ids st \<subseteq> project_ids st' \<and>
     (\<forall>q\<in>project_ids st. (g \<longrightarrow> owner_set st' q = owner_set st q) \<and>
        (\<exists>v v'. version_of st q = Some v \<and> version_of st' q = Some v' \<and> v \<le> v'))"

lemma known_version: "pid \<in> project_ids st \<Longrightarrow> \<exists>v. version_of st pid = Some v"
proof -
  assume "pid \<in> project_ids st"
  then have "find (\<lambda>r. pr_ID r = pid) (st_projects st) \<noteq> None" by (auto simp: project_ids_def find_None_iff')
  then show ?thesis by (auto simp: version_of_def)
qed

lemma keeps_ownerI:
  assumes "mem_inv g st'" "bump st st' pid v" "\<And>q. q \<noteq> pid \<Longrightarrow> owner_set st' q = owner_set st q" "g \<Longrightarrow> owner_set st' pid = owner_set st pid"
  shows "keeps_owner g st st'"
proof -
  have "\<exists>v v'. version_of st q = Some v \<and> version_of st' q = Some v' \<and> v \<le> v'" if "q \<in> project_ids st" for q
    using known_version [OF that] assms(2) by (cases "q = pid") (auto simp: bump_def)
  then show ?thesis using assms bump_ids [OF assms(2)] unfolding keeps_owner_def by (metis order_refl)
qed

lemma keeps_owner_refl: "mem_inv g st \<Longrightarrow> keeps_owner g st st"
  unfolding keeps_owner_def using known_version [of _ st] by fastforce

lemma keeps_owner_quiet:
  assumes "mem_inv g st'" "st_members st' = st_members st" "st_projects st' = st_projects st"
  shows "keeps_owner g st st'"
proof -
  have "owner_set st' = owner_set st" "version_of st' = version_of st" "project_ids st' = project_ids st"
    by (simp_all add: fun_eq_iff owner_set_def version_of_def project_ids_def assms(2,3))
  then show ?thesis using assms(1) known_version [of _ st] unfolding keeps_owner_def by fastforce
qed

lemma replace_effect:
  fixes st st' :: "('d, 'q) store"
  assumes inv: "mem_inv g st" and p: "p_ID p = pid"
    and up: "UpdateProject se tenant p nxt st = Inr st1" and v: "p_ProjectVersion nxt = p_ProjectVersion p + 1"
    and re: "ReplaceMembers pid ms st1 = Inr st2"
    and st': "st_projects st' = st_projects st2" "st_members st' = st_members st2"
  shows "bump st st' pid (p_ProjectVersion p)" "owner_set st' q = (if q = pid then owners_in ms else owner_set st q)"
proof -
  have b: "bump st st1 pid (p_ProjectVersion p)" and sm: "same_members st st1" using update_bump [OF up _ v] inv p by (auto simp: mem_inv_def tables_ok_def)
  have s2: "st_projects st2 = st_projects st1" using re by (auto simp: ReplaceMembers_ok)
  show "bump st st' pid (p_ProjectVersion p)" using b by (simp add: bump_def version_of_def st' s2)
  have eq: "owner_set st' q = owner_set st2 q" "owner_set st1 q = owner_set st q" using sm by (simp_all add: owner_set_def st' same_members_def)
  show "owner_set st' q = (if q = pid then owners_in ms else owner_set st q)"
    using gorm_members.replace_owners [OF re] gorm_members.replace_others [OF re, of q] by (auto simp: eq)
qed

lemma replace_step:
  fixes st st' :: "('d, 'q) store"
  assumes inv: "mem_inv g st" and p: "p_ID p = pid"
    and up: "UpdateProject se tenant p nxt st = Inr st1" and v: "p_ProjectVersion nxt = p_ProjectVersion p + 1"
    and re: "ReplaceMembers pid ms st1 = Inr st2" and ok: "ms_ok g ms"
    and st': "st_projects st' = st_projects st2" "st_members st' = st_members st2" "st_perms st' = st_perms st2" "st_transfers st' = st_transfers st2"
  shows "mem_inv g st'"
proof (rule mem_inv_change [where st = st and pid = pid and v = "p_ProjectVersion p", OF inv])
  note ub = update_bump [OF up _ v] and d = inv [unfolded mem_inv_def tables_ok_def]
  have b: "bump st st1 pid (p_ProjectVersion p)" and sm: "same_members st st1" using ub d p by auto
  have s2: "distinct (map m_UserID ms)" "st2 = st1\<lparr>st_members := filter (\<lambda>r. mr_ProjectID r \<noteq> pid) (st_members st1) @ map (member_row_of pid) ms,
      st_perms := filter (\<lambda>r. pe_ProjectID r \<noteq> pid) (st_perms st1) @ map (perm_row_of pid) ms\<rparr>" using re by (auto simp: ReplaceMembers_ok)
  show "bump st st' pid (p_ProjectVersion p)" using b by (simp add: bump_def version_of_def st' s2)
  show "t \<in> set (st_transfers st) \<or> ot_Status t \<noteq> ''pending'' \<and> ot_ProjectID t \<in> project_ids st" if "t \<in> set (st_transfers st')" for t
    using that sm by (simp add: st' s2 same_members_def)
  have "distinct (map member_key (filter (\<lambda>r. mr_ProjectID r \<noteq> pid) (st_members st)))" using d by (intro distinct_map_filter) simp
  moreover have "map (member_key \<circ> member_row_of pid) ms = map (Pair pid) (map m_UserID ms)" by simp
  then have "distinct (map (member_key \<circ> member_row_of pid) ms)" using s2(1) by (simp add: distinct_map inj_on_def)
  ultimately show "distinct (map member_key (st_members st'))"
    using sm by (auto simp: st' s2 same_members_def member_key_def)
  show "mr_ProjectID ` set (st_members st') \<subseteq> project_ids st"
    using d sm bump_ids [OF b] by (auto simp: st' s2 same_members_def)
  have eq: "owner_set st' = owner_set st2" "status_of st' = status_of st2" "owner_set st1 = owner_set st" "status_of st1 = status_of st"
    using sm by (simp_all add: fun_eq_iff owner_set_def status_of_def st' same_members_def)
  show "owner_set st' q = owner_set st q \<and> status_of st' q = status_of st q" if "q \<noteq> pid" for q
    using gorm_members.replace_others [OF re that] by (simp add: eq)
  show "owner_ok g st' pid"
    using ok gorm_members.replace_owners [OF re] gorm_members.replace_keeps_owner [OF re] unfolding owner_ok_def ms_ok_def eq by metis
qed

lemma commit_step:
  assumes "mem_inv g st" "p_ID p = pid" "commitMembers me a pid p ms act tgt rsn st0 = Inr (nxt, st')" "ms_ok g ms"
    and "st_projects st0 = st_projects st" "st_members st0 = st_members st" "st_perms st0 = st_perms st" "st_transfers st0 = st_transfers st"
  shows "mem_inv g st'"
proof -
  have inv0: "mem_inv g st0" by (rule mem_inv_quiet [OF assms(1)]) (use assms in \<open>auto simp: mem_inv_def tables_ok_def\<close>)
  from assms(3) obtain st1 st2 where "UpdateProject (me_store me) (TenantID a) p (p\<lparr>p_ProjectVersion := p_ProjectVersion p + 1, p_Members := ms\<rparr>) st0 = Inr st1"
    "ReplaceMembers pid ms st1 = Inr st2" "recordProjectAuditEvent (me_newID me 0) (me_now me) a pid act tgt rsn st2 = Inr st'"
    by (auto simp: commitMembers_def Let_def)
  then show ?thesis
    by (intro replace_step [OF inv0 assms(2) _ _ _ assms(4)]) (auto simp: recordProjectAuditEvent_def store_simps)
qed

lemma commit_effect:
  assumes "mem_inv g st" "p_ID p = pid" "commitMembers me a pid p ms act tgt rsn st0 = Inr (nxt, st')"
    and "st_projects st0 = st_projects st" "st_members st0 = st_members st" "st_perms st0 = st_perms st" "st_transfers st0 = st_transfers st"
  shows "bump st st' pid (p_ProjectVersion p)" "owner_set st' q = (if q = pid then owners_in ms else owner_set st q)"
proof -
  have inv0: "mem_inv g st0" by (rule mem_inv_quiet [OF assms(1)]) (use assms in \<open>auto simp: mem_inv_def tables_ok_def\<close>)
  from assms(3) obtain st1 st2 where c: "UpdateProject (me_store me) (TenantID a) p (p\<lparr>p_ProjectVersion := p_ProjectVersion p + 1, p_Members := ms\<rparr>) st0 = Inr st1"
    "ReplaceMembers pid ms st1 = Inr st2" "recordProjectAuditEvent (me_newID me 0) (me_now me) a pid act tgt rsn st2 = Inr st'"
    by (auto simp: commitMembers_def Let_def)
  have f: "st_projects st' = st_projects st2" "st_members st' = st_members st2" using c(3) by (auto simp: recordProjectAuditEvent_def store_simps)
  note e = replace_effect [OF inv0 assms(2) c(1) _ c(2) f]
  show "bump st st' pid (p_ProjectVersion p)" using e(1) by (simp add: bump_def version_of_def assms(4))
  show "owner_set st' q = (if q = pid then owners_in ms else owner_set st q)" using e(2) [of q] by (simp add: owner_set_def assms(5))
qed

lemma owners_in_map:
  assumes "\<And>x. x \<in> set ms \<Longrightarrow> m_Role x = ''owner'' \<Longrightarrow> f x = x" "\<And>x. x \<in> set ms \<Longrightarrow> m_Role x \<noteq> ''owner'' \<Longrightarrow> m_Role (f x) \<noteq> ''owner''"
  shows "owners_in (map f ms) = owners_in ms"
proof -
  have "{m \<in> set (map f ms). m_Role m = ''owner''} = {m \<in> set ms. m_Role m = ''owner''}"
    using assms by (auto simp: image_iff) metis+
  then show ?thesis by (simp add: owners_in_def)
qed

lemma ms_ok_map:
  assumes "ms_ok g ms" "distinct (map m_UserID ms)"
    and keep: "\<And>x. x \<in> set ms \<Longrightarrow> m_Role x = ''owner'' \<Longrightarrow> f x = x"
    and role: "\<And>x. x \<in> set ms \<Longrightarrow> m_Role x \<noteq> ''owner'' \<Longrightarrow> m_Role (f x) \<noteq> ''owner''"
    and d: "distinct (map m_UserID (map f ms))"
  shows "ms_ok g (map f ms)"
proof -
  have o: "owners_in (map f ms) = owners_in ms" by (rule owners_in_map [OF keep role])
  have "usable_status (m_Status m)" if g: "g" "owners_in ms = {u}" "\<forall>m\<in>set ms. m_UserID m = u \<longrightarrow> usable_status (m_Status m)"
    and m: "m \<in> set (map f ms)" "m_UserID m = u" for u m
  proof -
    from g(2) have "u \<in> owners_in ms" by simp
    then obtain w where w: "w \<in> set ms" "m_UserID w = u" "m_Role w = ''owner''" unfolding owners_in_def by blast
    then have "w \<in> set (map f ms)" using keep [OF w(1,3)] imageI [OF w(1), of f] by simp
    moreover have "inj_on m_UserID (set (map f ms))" using d by (simp only: distinct_map)
    ultimately have "m = w" using m w(2) by (auto elim!: inj_onD)
    then show ?thesis using g(3) w by simp
  qed
  note status = this
  show ?thesis unfolding ms_ok_def o
  proof (intro conjI impI)
    show "\<forall>u\<in>owners_in ms. \<forall>v\<in>owners_in ms. u = v" using assms(1) unfolding ms_ok_def by (rule conjunct1)
    assume g: g
    then obtain u where "owners_in ms = {u}" "\<forall>m\<in>set ms. m_UserID m = u \<longrightarrow> usable_status (m_Status m)"
      using assms(1) unfolding ms_ok_def by blast
    then show "\<exists>u. owners_in ms = {u} \<and> (\<forall>m\<in>set (map f ms). m_UserID m = u \<longrightarrow> usable_status (m_Status m))"
      using status [OF g] by blast
  qed
qed

lemma ms_ok_unguarded: "ms_ok False ms \<longleftrightarrow> (\<forall>u\<in>owners_in ms. \<forall>v\<in>owners_in ms. u = v)"
  by (simp add: ms_ok_def)

lemma owners_shrink:
  assumes "\<And>x. x \<in> set ms \<Longrightarrow> m_Role (f x) = ''owner'' \<Longrightarrow> f x = x"
  shows "owners_in (map f ms) \<subseteq> owners_in ms"
proof
  fix u assume "u \<in> owners_in (map f ms)"
  then obtain x where "x \<in> set ms" "m_Role (f x) = ''owner''" "u = m_UserID (f x)" unfolding owners_in_def by auto
  then show "u \<in> owners_in ms" using assms [of x] unfolding owners_in_def by auto
qed

text \<open>An entry changed for a non-owner keeps the owner; without the guard an owner may at most be lost.\<close>

lemma ms_ok_edit:
  assumes "ms_ok g ms" "distinct (map m_UserID ms)" "distinct (map m_UserID (map f ms))"
    and keep: "\<And>x. x \<in> set ms \<Longrightarrow> m_Role x = ''owner'' \<Longrightarrow> f x = x \<or> \<not> g \<and> m_Role (f x) \<noteq> ''owner''"
    and role: "\<And>x. x \<in> set ms \<Longrightarrow> m_Role x \<noteq> ''owner'' \<Longrightarrow> m_Role (f x) \<noteq> ''owner''"
  shows "ms_ok g (map f ms)"
proof (cases g)
  case True
  show ?thesis by (rule ms_ok_map [OF assms(1,2) _ role assms(3)]) (use keep True in blast)
next
  case False
  have "owners_in (map f ms) \<subseteq> owners_in ms" by (rule owners_shrink) (use keep role in blast)
  then show ?thesis using assms(1) False by (auto simp: ms_ok_unguarded)
qed

lemma ms_ok_append:
  assumes "ms_ok g ms" "m_Role m \<noteq> ''owner''" "m_UserID m \<notin> m_UserID ` set ms"
  shows "ms_ok g (ms @ [m])"
proof -
  have o: "owners_in (ms @ [m]) = owners_in ms" using assms(2) by (auto simp: owners_in_def)
  have "m_UserID m \<noteq> u" if "owners_in ms = {u}" for u
  proof -
    have "u \<in> owners_in ms" using that by simp
    then show ?thesis using assms(3) unfolding owners_in_def by auto
  qed
  then show ?thesis using assms(1) unfolding ms_ok_def o by auto
qed

text \<open>The owner's own status, seen through the member list.\<close>

lemma ms_ok_owner_usable:
  assumes "ms_ok True ms" "x \<in> set ms" "m_Role x = ''owner''"
  shows "usable_status (m_Status x)"
proof -
  from assms(1) obtain u where u: "owners_in ms = {u}" "\<forall>m\<in>set ms. m_UserID m = u \<longrightarrow> usable_status (m_Status m)" by (auto simp: ms_ok_def)
  have "m_UserID x \<in> owners_in ms" using assms(2,3) by (simp add: owners_in_def)
  then show ?thesis using u assms(2) by simp
qed

lemma commit_distinct: "commitMembers me a pid p ms act tgt rsn st = Inr r \<Longrightarrow> distinct (map m_UserID ms)"
  by (auto simp: commitMembers_def Let_def ReplaceMembers_ok)

lemma commit_edit:
  assumes inv: "mem_inv g st" and p: "Project se st tenant pid = Inr p"
    and c: "commitMembers me a pid p (map f (p_Members p)) act tgt rsn st0 = Inr (nxt, st')"
    and same: "st_projects st0 = st_projects st" "st_members st0 = st_members st" "st_perms st0 = st_perms st" "st_transfers st0 = st_transfers st"
    and keep: "\<And>x. x \<in> set (p_Members p) \<Longrightarrow> m_Role x = ''owner'' \<Longrightarrow> f x = x \<or> \<not> g \<and> m_Role (f x) \<noteq> ''owner''"
    and role: "\<And>x. x \<in> set (p_Members p) \<Longrightarrow> m_Role x \<noteq> ''owner'' \<Longrightarrow> m_Role (f x) \<noteq> ''owner''"
  shows "keeps_owner g st st'"
proof -
  note v = view_ok [OF inv p]
  have ok: "ms_ok g (map f (p_Members p))"
    by (rule ms_ok_edit) (use v commit_distinct [OF c] keep role in blast)+
  have "owners_in (map f (p_Members p)) = owners_in (p_Members p)" if g
    by (rule owners_in_map) (use keep role that in blast)+
  then show ?thesis
    using commit_effect [OF inv v(3) c same] v(4) by (intro keeps_ownerI [OF commit_step [OF inv v(3) c ok same]]) auto
qed

lemma commit_append:
  assumes inv: "mem_inv g st" and p: "Project se st tenant pid = Inr p"
    and c: "commitMembers me a pid p (p_Members p @ [m]) act tgt rsn st0 = Inr (nxt, st')"
    and same: "st_projects st0 = st_projects st" "st_members st0 = st_members st" "st_perms st0 = st_perms st" "st_transfers st0 = st_transfers st"
    and m: "m_Role m \<noteq> ''owner''" "m_UserID m \<notin> m_UserID ` set (p_Members p)"
  shows "keeps_owner g st st'"
proof -
  note v = view_ok [OF inv p]
  have "owners_in (p_Members p @ [m]) = owner_set st pid" using m(1) v(4) by (auto simp: owners_in_def)
  then show ?thesis
    using commit_effect [OF inv v(3) c same] by (intro keeps_ownerI [OF commit_step [OF inv v(3) c ms_ok_append [OF v(1) m] same]]) auto
qed

section \<open>Each write keeps the invariant\<close>

lemma put_record_frame [store_simps]:
  assumes "PutProjectRecord pid k i e v st = Inr st'"
  shows "st_projects st' = st_projects st" "st_members st' = st_members st" "st_perms st' = st_perms st" "st_transfers st' = st_transfers st"
    "st_tenants st' = st_tenants st"
  using assms by (auto simp: PutProjectRecord_def split: if_splits)

lemma same_user:
  assumes "distinct (map m_UserID ms)" "x \<in> set ms" "y \<in> set ms" "m_UserID x = m_UserID y"
  shows "x = y"
  using assms by (auto simp: distinct_map dest: inj_onD)

lemma invite_keeps:
  assumes inv: "mem_inv g st" and p: "Project se st (TenantID a) pid = Inr p" and wr: "invite_write me a pid inp p st = Inr (w, st')"
  shows "keeps_owner g st st'"
proof -
  let ?m = "(ii_Assignment inp)\<lparr>m_Role := ''collaborator'', m_Status := ''invited''\<rparr>"
  note v = view_ok [OF inv p]
  from wr obtain st1 nxt i e x where put: "PutProjectRecord pid ''invitation'' i e x st = Inr st1"
    and old: "\<And>old. projectMember p (m_UserID ?m) = Some old \<Longrightarrow> m_Status old = ''invited'' \<or> m_Status old = ''removed''"
    and c: "commitMembers me a pid p (if m_UserID ?m \<in> m_UserID ` set (p_Members p) then putMember ?m (p_Members p) else p_Members p @ [?m])
              ''member.invite'' (m_UserID ?m) (ii_InviteReason inp) st1 = Inr (nxt, st')"
    by (auto simp: invite_write_def Let_def finished_def split: if_splits option.splits)
  note same = put_record_frame [OF put]
  show ?thesis
  proof (cases "m_UserID ?m \<in> m_UserID ` set (p_Members p)")
    case True
    show ?thesis
    proof (rule commit_edit [OF inv p _ same(1-4)])
      show "commitMembers me a pid p (map (\<lambda>x. if m_UserID x = m_UserID ?m then ?m else x) (p_Members p)) ''member.invite'' (m_UserID ?m) (ii_InviteReason inp) st1 = Inr (nxt, st')"
        using c True by (simp add: putMember_def)
      fix x assume x: "x \<in> set (p_Members p)" "m_Role x = ''owner''"
      have "\<not> g" if u: "m_UserID x = m_UserID ?m"
      proof
        assume g
        then have "usable_status (m_Status x)" using ms_ok_owner_usable [OF _ x] v(1) by simp
        moreover have "projectMember p (m_UserID ?m) = Some x"
          unfolding projectMember_def using find_unique_key [OF v(2) x(1)] u by simp
        ultimately show False using old by (auto simp: usable_status_def)
      qed
      then show "(if m_UserID x = m_UserID ?m then ?m else x) = x \<or> \<not> g \<and> m_Role (if m_UserID x = m_UserID ?m then ?m else x) \<noteq> ''owner''" by simp
    qed simp
  next
    case False
    show ?thesis by (rule commit_append [OF inv p _ same(1-4), where m = ?m]) (use c False in simp_all)
  qed
qed

lemma validateInvitation_role: "validateInvitation me st p m = Inr u \<Longrightarrow> m_Role m \<noteq> ''owner''"
  by (auto simp: validateInvitation_def split: if_splits)

lemma accept_ok:
  assumes "accept_write me a pid i expected q st = Inr (w, st')"
  obtains p ivn st1 nxt where "Project (me_store me) st (TenantID a) pid = Inr p" "\<not> Archived p" "getInvitation st pid i = Inr (expected, ivn)"
    "iv_Status ivn = ''invited''" "me_now me < iv_ExpiresAt ivn" "validateInvitation me st p (iv_Assignment ivn) = Inr ()"
    "list_all (\<lambda>x. m_UserID x = UserID a \<longrightarrow> m_Status x = ''invited'') (p_Members p)" "UserID a \<in> m_UserID ` set (p_Members p)"
    "PutProjectRecord pid ''invitation'' i expected (RInvitation (ivn\<lparr>iv_Status := ''accepted'', iv_AcceptedAt := Some (me_now me)\<rparr>)) st = Inr st1"
    "commitMembers me a pid p (map (\<lambda>x. if m_UserID x = UserID a then (iv_Assignment ivn)\<lparr>m_Status := ''active''\<rparr> else x) (p_Members p))
       ''member.accept'' (UserID a) [] st1 = Inr (nxt, st')"
    "oo_Value w = VInvitation (ivn\<lparr>iv_Status := ''accepted'', iv_AcceptedAt := Some (me_now me)\<rparr>)"
  using assms by (auto simp: accept_write_def Let_def finished_def list_all_iff list_ex_iff split: if_splits del: imageE)

lemma accept_keeps:
  assumes inv: "mem_inv g st" and wr: "accept_write me a pid i expected q st = Inr (w, st')"
  shows "keeps_owner g st st'"
proof -
  from wr obtain p ivn st1 nxt where p: "Project (me_store me) st (TenantID a) pid = Inr p"
    and val: "validateInvitation me st p (iv_Assignment ivn) = Inr ()"
    and only: "list_all (\<lambda>x. m_UserID x = UserID a \<longrightarrow> m_Status x = ''invited'') (p_Members p)"
    and put: "PutProjectRecord pid ''invitation'' i expected (RInvitation (ivn\<lparr>iv_Status := ''accepted'', iv_AcceptedAt := Some (me_now me)\<rparr>)) st = Inr st1"
    and c: "commitMembers me a pid p (map (\<lambda>x. if m_UserID x = UserID a then (iv_Assignment ivn)\<lparr>m_Status := ''active''\<rparr> else x) (p_Members p))
              ''member.accept'' (UserID a) [] st1 = Inr (nxt, st')"
    by (rule accept_ok)
  note v = view_ok [OF inv p] and r = validateInvitation_role [OF val]
  show ?thesis
  proof (rule commit_edit [OF inv p c])
    fix x assume x: "x \<in> set (p_Members p)" "m_Role x = ''owner''"
    have "\<not> g" if "m_UserID x = UserID a"
      using ms_ok_owner_usable [OF _ x] v(1) only x(1) that by (auto simp: list_all_iff usable_status_def)
    then show "(if m_UserID x = UserID a then (iv_Assignment ivn)\<lparr>m_Status := ''active''\<rparr> else x) = x \<or>
        \<not> g \<and> m_Role (if m_UserID x = UserID a then (iv_Assignment ivn)\<lparr>m_Status := ''active''\<rparr> else x) \<noteq> ''owner''" using r by simp
  qed (use r put_record_frame [OF put] in simp_all)
qed

text \<open>An entry of a member who is not the owner is edited.\<close>

lemma edit_other_keeps:
  assumes inv: "mem_inv g st" and p: "Project se st tenant pid = Inr p"
    and m: "projectMember p user = Some m" "governanceRole m \<noteq> ''owner''" and f: "\<And>x. m_Role x \<noteq> ''owner'' \<Longrightarrow> m_Role (f x) \<noteq> ''owner''"
    and c: "commitMembers me a pid p (map (\<lambda>x. if m_UserID x = user then f x else x) (p_Members p)) act tgt rsn st = Inr (nxt, st')"
  shows "keeps_owner g st st'"
proof (rule commit_edit [OF inv p c])
  fix x assume x: "x \<in> set (p_Members p)" "m_Role x = ''owner''"
  have "m_UserID x \<noteq> user"
  proof
    assume "m_UserID x = user"
    then have "x = m" using same_user [OF view_ok(2) [OF inv p] x(1)] projectMember_Some [OF m(1)] by auto
    then show False using x(2) m(2) by (simp add: governanceRole_def)
  qed
  then show "(if m_UserID x = user then f x else x) = x \<or> \<not> g \<and> m_Role (if m_UserID x = user then f x else x) \<noteq> ''owner''" by simp
qed (use f in simp_all)

lemma next_state_role: "next_state st a user act m = Inr m' \<Longrightarrow> m_Role m' = m_Role m \<and> m_UserID m' = m_UserID m"
  by (auto simp: next_state_def split: if_splits)

lemma state_keeps:
  assumes inv: "mem_inv g st" and p: "Project se st (TenantID a) pid = Inr p" and wr: "state_write me a pid user linp p st = Inr (w, st')"
  shows "keeps_owner g st st'"
proof -
  from wr obtain m m' nxt where m: "projectMember p user = Some m" "governanceRole m \<noteq> ''owner''" and n: "next_state st a user (li_Action linp) m = Inr m'"
    and c: "commitMembers me a pid p (map (\<lambda>x. if m_UserID x = user then m' else x) (p_Members p)) (''member.'' @ li_Action linp) user (li_Reason linp) st = Inr (nxt, st')"
    by (auto simp: state_write_def finished_def split: if_splits option.splits)
  have "m_Role m' \<noteq> ''owner''" using next_state_role [OF n] m(2) by (auto simp: governanceRole_def)
  then show ?thesis by (intro edit_other_keeps [OF inv p m _ c]) simp
qed

lemma assign_keeps:
  assumes inv: "mem_inv g st" and p: "Project se st (TenantID a) pid = Inr p" and wr: "assignment_write me a pid user ainp p st = Inr (w, st')"
  shows "keeps_owner g st st'"
proof -
  from wr obtain m nxt where m: "projectMember p user = Some m" "governanceRole m \<noteq> ''owner''"
    and c: "commitMembers me a pid p (map (\<lambda>x. if m_UserID x = user then (as_Assignment ainp)\<lparr>m_Role := ''collaborator'', m_Status := ''active''\<rparr> else x) (p_Members p))
      ''member.assignment'' user (as_Reason ainp) st = Inr (nxt, st')"
    by (auto simp: assignment_write_def Let_def finished_def split: if_splits option.splits)
  show ?thesis by (rule edit_other_keeps [OF inv p m _ c]) simp
qed

lemma suspend_keeps:
  assumes inv: "mem_inv g st" and p: "Project se st tenant pid = Inr p" and wr: "suspend_in me tenant user p st = Inr st'"
  shows "keeps_owner g st st'"
proof (cases "st' = st")
  case False
  with wr obtain nxt where m: "projectMember p user = Some m \<Longrightarrow> governanceRole m \<noteq> ''owner''" 
    and c: "commitMembers me (plain_actor tenant user) pid p (map (\<lambda>x. if m_UserID x = user then x\<lparr>m_Status := ''suspended_by_tenant''\<rparr> else x) (p_Members p))
      ''member.tenant_suspended'' user ''tenant_membership_changed'' st = Inr (nxt, st')" for m
    using view_ok(3) [OF inv p] by (fastforce simp: suspend_in_def Let_def split: if_splits option.splits)
  show ?thesis
  proof (cases "projectMember p user")
    case None
    then have "m_UserID x \<noteq> user" if "x \<in> set (p_Members p)" for x using that by (auto simp: projectMember_def find_None_iff)
    then show ?thesis by (intro commit_edit [OF inv p c]) simp_all
  next
    case (Some m)
    show ?thesis by (rule edit_other_keeps [OF inv p Some m [OF Some] _ c]) simp
  qed
qed (use inv in \<open>simp add: keeps_owner_refl\<close>)

lemma check_members_ok:
  assumes "check_members st tenant chapters seen ms = Inr checked"
  shows "list_all (\<lambda>m. m_Role m = ''collaborator'' \<and> m_UserID m \<notin> set seen \<and> m_UserID m \<noteq> [] \<and> ActiveMember st (plain_actor tenant (m_UserID m))) checked"
  using assms
proof (induction ms arbitrary: seen checked)
  case (Cons m ms)
  from Cons.prems obtain rest where r: "check_members st tenant chapters (m_UserID m # seen) ms = Inr rest"
    and c: "checked = m\<lparr>m_Role := ''collaborator'', m_Status := (if m_Status m = [] then ''active'' else m_Status m)\<rparr> # rest"
    and m: "m_UserID m \<notin> set seen" "validMemberID (m_UserID m)" "ActiveMember st (plain_actor tenant (m_UserID m))"
    by (auto split: if_splits)
  have "list_all (\<lambda>m. m_Role m = ''collaborator'' \<and> m_UserID m \<notin> set seen \<and> m_UserID m \<noteq> [] \<and> ActiveMember st (plain_actor tenant (m_UserID m))) rest"
    using Cons.IH [OF r] by (auto elim: list.pred_mono_strong)
  then show ?case using c m by (simp add: validMemberID_def)
qed simp

lemma owners_in_sort: "owners_in (sort_key m_UserID ms) = owners_in ms"
  by (simp add: owners_in_def)

lemma owners_in_Cons: "owners_in (m # ms) = (if m_Role m = ''owner'' then insert (m_UserID m) (owners_in ms) else owners_in ms)"
  by (auto simp: owners_in_def)

lemma owner_assignment_sel [simp]:
  "m_UserID (owner_assignment u) = u" "m_Role (owner_assignment u) = ''owner''" "m_Status (owner_assignment u) = ''active''"
  by (simp_all add: owner_assignment_def)

lemma permissions_owners:
  assumes "check_members st tenant chapters [u] given = Inr checked"
  shows "owners_in (sort_key m_UserID (owner_assignment u # checked)) = {u}"
proof -
  have "owners_in checked = {}" using check_members_ok [OF assms, unfolded list_all_iff] by (auto simp: owners_in_def)
  then show ?thesis by (simp only: owners_in_sort owners_in_Cons) simp
qed

lemma ms_ok_permissions:
  assumes "check_members st tenant chapters [u] given = Inr checked"
  shows "ms_ok g (sort_key m_UserID (owner_assignment u # checked))"
proof -
  note c = check_members_ok [OF assms, unfolded list_all_iff]
  have "usable_status (m_Status m)" if "m \<in> set (owner_assignment u # checked)" "m_UserID m = u" for m
  proof -
    have "m = owner_assignment u" using that c by auto
    then show ?thesis by (simp add: usable_status_def)
  qed
  then show ?thesis unfolding ms_ok_def permissions_owners [OF assms] by (auto simp: usable_status_def simp del: sort_key_simps)
qed

lemma audit_frame:
  assumes "RecordAudit e st = Inr st'"
  shows "st_projects st' = st_projects st" "st_members st' = st_members st" "st_perms st' = st_perms st" "st_transfers st' = st_transfers st"
    "st_records st' = st_records st" "st_tenants st' = st_tenants st"
  using assms by (auto simp: store_simps)

lemma audit_frames:
  assumes "recordProjectAuditEvent i now a pid act tgt rsn st = Inr st'"
  shows "st_projects st' = st_projects st" "st_members st' = st_members st" "st_perms st' = st_perms st" "st_transfers st' = st_transfers st"
    "st_records st' = st_records st" "st_tenants st' = st_tenants st"
  using audit_frame [OF assms [unfolded recordProjectAuditEvent_def]] by blast+

lemma permissions_keeps:
  assumes inv: "mem_inv g st" and p: "Project se st (TenantID a) pid = Inr p" and wr: "permissions_write me a pid expected given p st = Inr (w, st')"
  shows "keeps_owner g st st'"
proof -
  from wr obtain x where x: "filter (\<lambda>m. m_Role m = ''owner'') (p_Members p) = [x]"
    by (auto simp: permissions_write_def split: if_splits list.splits)
  define u where "u = m_UserID x"
  from wr x obtain chapters checked st1 st2 where ck: "check_members st (TenantID a) chapters [u] given = Inr checked"
    and up: "UpdateProject (me_store me) (TenantID a) p (p\<lparr>p_ProjectVersion := p_ProjectVersion p + 1, p_Members := sort_key m_UserID (owner_assignment u # checked)\<rparr>) st = Inr st1"
    and re: "ReplaceMembers pid (sort_key m_UserID (owner_assignment u # checked)) st1 = Inr st2"
    and au: "replaceAudit me a pid ''project.member_permissions.replace'' st2 = Inr st'"
    by (auto simp: permissions_write_def Let_def finished_def u_def simp del: sort_key_simps split: if_splits)
  note v = view_ok [OF inv p] and f = audit_frame [OF au [unfolded replaceAudit_def]]
  have "owners_in (p_Members p) = m_UserID ` set (filter (\<lambda>m. m_Role m = ''owner'') (p_Members p))" by (simp add: owners_in_def)
  then have "owners_in (sort_key m_UserID (owner_assignment u # checked)) = owner_set st pid"
    using permissions_owners [OF ck] v(4) by (simp add: x u_def)
  then show ?thesis
    using replace_effect [OF inv v(3) up _ re f(1,2)]
    by (intro keeps_ownerI [OF replace_step [OF inv v(3) up _ re ms_ok_permissions [OF ck]]]) (auto simp: f)
qed

text \<open>A transfer: the caller is the last owner of the list, the recipient is another member.\<close>

lemma lastOwner_Some: "lastOwner ms = Some m \<Longrightarrow> m \<in> set ms \<and> m_Role m = ''owner''"
  unfolding lastOwner_def using find_Some_in by fastforce

lemma lastMember_Some: "lastMember u ms = Some m \<Longrightarrow> m \<in> set ms \<and> m_UserID m = u"
  unfolding lastMember_def using find_Some_in by fastforce

definition transferred :: "string \<Rightarrow> string \<Rightarrow> member \<Rightarrow> member" where
  "transferred from to x = (if m_UserID x = from then demote x else if m_UserID x = to then promote x else x)"

lemma transferred_sel [simp]:
  "m_UserID (transferred from to x) = m_UserID x" "m_Status (transferred from to x) = m_Status x"
  "m_Role (transferred from to x) = (if m_UserID x = from then ''collaborator'' else if m_UserID x = to then ''owner'' else m_Role x)"
  by (simp_all add: transferred_def demote_def promote_def)

lemma transferred_owners:
  assumes "ms_ok g ms" "c \<in> set ms" "m_Role c = ''owner''" "m_UserID c = from" "r \<in> set ms" "m_UserID r = to" "from \<noteq> to"
  shows "owners_in (map (transferred from to) ms) = {to}"
proof -
  have one: "m_UserID x = from" if "x \<in> set ms" "m_Role x = ''owner''" for x
  proof -
    have "m_UserID x \<in> owners_in ms" "from \<in> owners_in ms" using that assms(2-4) unfolding owners_in_def by auto
    then show ?thesis using assms(1) unfolding ms_ok_def by blast
  qed
  have "owners_in (map (transferred from to) ms) = m_UserID ` {x \<in> set ms. m_Role (transferred from to x) = ''owner''}"
  proof -
    have "{m \<in> set (map (transferred from to) ms). m_Role m = ''owner''} = transferred from to ` {x \<in> set ms. m_Role (transferred from to x) = ''owner''}"
      by (auto simp del: transferred_sel)
    then show ?thesis unfolding owners_in_def by (simp add: image_image)
  qed
  also have "{x \<in> set ms. m_Role (transferred from to x) = ''owner''} = {x \<in> set ms. m_UserID x = to}"
    using one assms(7) by auto
  also have "m_UserID ` {x \<in> set ms. m_UserID x = to} = {to}" using assms(5,6) by auto
  finally show ?thesis .
qed

lemma transfer_ok_write:
  assumes "transfer_write me a pid tinp p st = Inr (w, st')"
  obtains c r st1 st2 where "p_ProjectVersion p = ti_Expected tinp"
    "c \<in> set (p_Members p)" "m_Role c = ''owner''" "m_UserID c = UserID a" "r \<in> set (p_Members p)" "m_UserID r = ti_User tinp" "m_Role r \<noteq> ''owner''"
    "ActiveMember st (plain_actor (TenantID a) (ti_User tinp))"
    "UpdateProject (me_store me) (TenantID a) p (p\<lparr>p_ProjectVersion := p_ProjectVersion p + 1, p_Members := map (transferred (UserID a) (ti_User tinp)) (p_Members p)\<rparr>) st = Inr st1"
    "ReplaceMembers pid (map (transferred (UserID a) (ti_User tinp)) (p_Members p)) st1 = Inr st2"
    "replaceAudit me a pid ''project.owner_transfer'' st2 = Inr st'"
proof -
  have eq: "(\<lambda>x. if m_UserID x = UserID a then demote x else if m_UserID x = t then promote x else x) = transferred (UserID a) t" for t
    by (simp add: fun_eq_iff transferred_def)
  from assms obtain c r where c: "lastOwner (p_Members p) = Some c" and r: "lastMember (ti_User tinp) (p_Members p) = Some r"
    by (auto simp: transfer_write_def split: if_splits option.splits)
  from assms show ?thesis
    using lastOwner_Some [OF c] lastMember_Some [OF r] that [of c r]
    by (auto simp: transfer_write_def Let_def finished_def c r eq simp del: split_paired_Ex split: if_splits)
qed

definition moves_owner :: "('d, 'q) store \<Rightarrow> ('d, 'q) store \<Rightarrow> string \<Rightarrow> string \<Rightarrow> bool" where
  "moves_owner st st' pid u \<longleftrightarrow> (\<exists>v. bump st st' pid v) \<and> owner_set st' pid = {u} \<and> (\<forall>q. q \<noteq> pid \<longrightarrow> owner_set st' q = owner_set st q)"

lemma transfer_keeps:
  assumes inv: "mem_inv g st" and p: "Project se st (TenantID a) pid = Inr p" and usable: "g \<Longrightarrow> usable_status (status_of st pid (ti_User tinp))"
    and wr: "transfer_write me a pid tinp p st = Inr (w, st')"
  shows "mem_inv g st' \<and> moves_owner st st' pid (ti_User tinp)"
proof -
  let ?ms = "map (transferred (UserID a) (ti_User tinp)) (p_Members p)"
  from wr obtain c r st1 st2 where c: "c \<in> set (p_Members p)" "m_Role c = ''owner''" "m_UserID c = UserID a"
    and r: "r \<in> set (p_Members p)" "m_UserID r = ti_User tinp" "m_Role r \<noteq> ''owner''"
    and up: "UpdateProject (me_store me) (TenantID a) p (p\<lparr>p_ProjectVersion := p_ProjectVersion p + 1, p_Members := ?ms\<rparr>) st = Inr st1"
    and re: "ReplaceMembers pid ?ms st1 = Inr st2" and au: "replaceAudit me a pid ''project.owner_transfer'' st2 = Inr st'"
    by (rule transfer_ok_write)
  note v = view_ok [OF inv p]
  have ne: "UserID a \<noteq> ti_User tinp" using same_user [OF v(2) c(1) r(1)] c r by auto
  have o: "owners_in ?ms = {ti_User tinp}" by (rule transferred_owners [OF v(1) c r(1,2) ne])
  have "m_Status x = status_of st pid (m_UserID x)" if "x \<in> set (p_Members p)" for x
    using p that by (auto elim!: Project_ok simp: view_status)
  then have ok: "ms_ok g ?ms" unfolding ms_ok_def o using usable by auto
  note f = audit_frame [OF au [unfolded replaceAudit_def]]
  have "mem_inv g st'" by (rule replace_step [OF inv v(3) up _ re ok]) (use f in simp_all)
  moreover have "moves_owner st st' pid (ti_User tinp)"
    unfolding moves_owner_def using replace_effect [OF inv v(3) up _ re f(1,2)] o by auto
  ultimately show ?thesis by simp
qed

text \<open>Requests, rejections and grants touch no member.\<close>

lemma projectOwnerUser_owners:
  assumes "ms_ok g (p_Members p)" "projectOwnerUser p = Some u"
  shows "owners_in (p_Members p) = {u}"
proof -
  have "u \<in> owners_in (p_Members p)" using projectOwnerUser_owner [OF assms(2)] unfolding projectOwner_def owners_in_def by (auto simp: list_ex_iff)
  then show ?thesis using assms(1) unfolding ms_ok_def by blast
qed

lemma transfer_project: "mem_inv g st \<Longrightarrow> t \<in> set (st_transfers st) \<Longrightarrow> ot_ProjectID t \<in> project_ids st"
  unfolding mem_inv_def tables_ok_def by blast

lemma origin_frames:
  assumes "recordOwnerTransferOrigin me a p t st = Inr st'"
  shows "st_members st' = st_members st" "st_perms st' = st_perms st" "st_projects st' = st_projects st" "st_transfers st' = st_transfers st"
proof -
  from assms obtain k e i v st1 where "PutProjectRecord (p_ID p) k i e v st = Inr st1"
    "recordProjectAuditEvent (me_newID me 0) (me_now me) a (p_ID p) ''owner.transfer.request'' (ot_ID t) [] st1 = Inr st'"
    by (auto simp: recordOwnerTransferOrigin_def)
  then show "st_members st' = st_members st" "st_perms st' = st_perms st" "st_projects st' = st_projects st" "st_transfers st' = st_transfers st"
    by (simp_all add: put_record_frame audit_frames)
qed

lemma request_keeps:
  assumes inv: "mem_inv g st" and wr: "request_write me a pid tinp q st = Inr (w, st')"
  shows "keeps_owner g st st'"
proof -
  from wr obtain p where p: "Project (me_store me) st (TenantID a) pid = Inr p"
    by (auto simp: request_write_def)
  with wr obtain cur where cur: "projectOwnerUser p = Some cur"
    by (cases "projectOwnerUser p") (auto simp: request_write_def)
  from wr obtain st1 where
    ins: "InsertOwnerTransfer (me_now me) \<lparr>ot_ID = me_newID me 1, ot_ProjectID = pid, ot_FromUserID = cur, ot_ToUserID = ti_User tinp, ot_Status = ''pending'',
                             ot_ExpectedProjectVersion = p_ProjectVersion p, ot_CreatedAt = me_now me, ot_AcceptedAt = None\<rparr> st = Inr st1"
    and rest: "st' = st1 \<or> (\<exists>t. recordOwnerTransferOrigin me a p t st1 = Inr st')"
    by (auto simp: request_write_def p cur Let_def finished_def split: if_splits)
  have same: "st_members st' = st_members st1" "st_perms st' = st_perms st1" "st_projects st' = st_projects st1" "st_transfers st' = st_transfers st1"
    using rest by (auto simp: origin_frames)
  note v = view_ok [OF inv p]
  have cur': "owner_set st pid = {cur}" using projectOwnerUser_owners [OF v(1) cur] v(4) by simp
  show ?thesis
  proof (rule keeps_owner_quiet, rule mem_inv_quiet [OF inv])
    fix t assume "t \<in> set (st_transfers st')"
    then show "ot_ProjectID t \<in> project_ids st \<and> (ot_Status t = ''pending'' \<longrightarrow>
       t \<in> set (st_transfers st) \<or> version_of st (ot_ProjectID t) = Some (ot_ExpectedProjectVersion t) \<and> owner_set st (ot_ProjectID t) = {ot_FromUserID t})"
      using ins v(5,6) cur'
      by (auto simp: same InsertOwnerTransfer_def Let_def update_rows_def store_simps transfer_project [OF inv] split: if_splits)
  qed (use ins in \<open>auto simp: same InsertOwnerTransfer_def Let_def store_simps split: if_splits\<close>)
qed

lemma reject_keeps:
  assumes inv: "mem_inv g st" and wr: "reject_transfer_write me a pid i dinp p st = Inr (w, st')"
  shows "keeps_owner g st st'"
proof -
  from wr obtain st1 where can: "cancelOwnerTransfer pid i st = Inr st1" and au: "recordProjectAuditEvent (me_newID me 0) (me_now me) a pid ''owner.transfer.reject'' i (di_Reason dinp) st1 = Inr st'"
    by (auto simp: reject_transfer_write_def finished_def split: if_splits)
  show ?thesis
  proof (rule keeps_owner_quiet, rule mem_inv_quiet [OF inv])
    fix t assume "t \<in> set (st_transfers st')"
    then show "ot_ProjectID t \<in> project_ids st \<and> (ot_Status t = ''pending'' \<longrightarrow>
       t \<in> set (st_transfers st) \<or> version_of st (ot_ProjectID t) = Some (ot_ExpectedProjectVersion t) \<and> owner_set st (ot_ProjectID t) = {ot_FromUserID t})"
      using can audit_frames [OF au] by (auto simp: cancelOwnerTransfer_def store_simps transfer_project [OF inv] split: if_splits)
  qed (use can audit_frames [OF au] in \<open>auto simp: cancelOwnerTransfer_def store_simps\<close>)
qed

lemma grant_keeps:
  assumes inv: "mem_inv g st" and wr: "grant_write me a pid kg p st = Inr (w, st')"
  shows "keeps_owner g st st'"
proof -
  from wr obtain e i k v st1 where put: "PutProjectRecord pid e i k v st = Inr st1" and au: "recordProjectAuditEvent (me_newID me 0) (me_now me) a pid ''api_key.scope'' i (kg_Reason kg) st1 = Inr st'"
    by (auto simp: grant_write_def Let_def finished_def split: if_splits)
  show ?thesis
    by (rule keeps_owner_quiet, rule mem_inv_quiet [OF inv]) (use put_record_frame [OF put] audit_frames [OF au] transfer_project [OF inv] in auto)
qed

text \<open>The two statements that change a role in place.\<close>

lemma find_map_pred: "(\<And>r. P (f r) = P r) \<Longrightarrow> find P (map f xs) = map_option f (find P xs)"
  by (induction xs) auto

lemma status_of_map:
  assumes "\<And>r. pe_ProjectID (f r) = pe_ProjectID r \<and> pe_UserID (f r) = pe_UserID r \<and> pe_Status (f r) = pe_Status r" "st_perms st' = map f (st_perms st)"
  shows "status_of st' = status_of st"
proof (intro ext)
  fix q u
  have "find (\<lambda>p. pe_ProjectID p = q \<and> pe_UserID p = u) (st_perms st') = map_option f (find (\<lambda>p. pe_ProjectID p = q \<and> pe_UserID p = u) (st_perms st))"
    unfolding assms(2) by (rule find_map_pred) (simp add: assms(1))
  then show "status_of st' q u = status_of st q u" using assms(1) by (auto simp: status_of_def split: option.split)
qed

lemma snd_update_rows: "snd (update_rows sel upd tab) = map (\<lambda>r. if sel r then upd r else r) tab"
  by (simp add: update_rows_def)

lemma SetMemberRole_ok:
  assumes "SetMemberRole pid u role st = Inr st'"
  shows "owner_set st' q = (if q = pid then (if role = ''owner'' then insert u (owner_set st q) else owner_set st q - {u}) else owner_set st q)"
    "status_of st' = status_of st" "map member_key (st_members st') = map member_key (st_members st)"
    "st_projects st' = st_projects st" "st_transfers st' = st_transfers st"
proof -
  let ?sel = "\<lambda>r. mr_ProjectID r = pid \<and> mr_UserID r = u"
  from assms have one: "length (filter ?sel (st_members st)) = 1" and ms: "st_members st' = map (\<lambda>r. if ?sel r then r\<lparr>mr_Role := role\<rparr> else r) (st_members st)"
    and rest: "st_projects st' = st_projects st" "st_transfers st' = st_transfers st"
    and ps: "st_perms st' = map (\<lambda>r. if pe_ProjectID r = pid \<and> pe_UserID r = u then r\<lparr>pe_GovernanceRole := (if role = ''owner'' then ''owner'' else ''member''),
        pe_FunctionRoles := [], pe_FunctionScopes := []\<rparr> else r) (st_perms st)"
    by (auto simp: SetMemberRole_def store_simps Let_def snd_update_rows)
  show "st_projects st' = st_projects st" "st_transfers st' = st_transfers st" by (rule rest)+
  show "map member_key (st_members st') = map member_key (st_members st)" by (simp add: ms member_key_def)
  show "status_of st' = status_of st" by (rule status_of_map [OF _ ps]) simp
  have "filter ?sel (st_members st) \<noteq> []" using one by auto
  then obtain r where r: "r \<in> set (st_members st)" "mr_ProjectID r = pid" "mr_UserID r = u" by (auto simp: filter_empty_conv)
  have mem: "w \<in> owner_set st' q \<longleftrightarrow> (\<exists>x\<in>set (st_members st). mr_ProjectID x = q \<and> mr_UserID x = w \<and> (if ?sel x then role else mr_Role x) = ''owner'')" for w
    unfolding owner_set_def ms by (auto simp: image_iff)
  show "owner_set st' q = (if q = pid then (if role = ''owner'' then insert u (owner_set st q) else owner_set st q - {u}) else owner_set st q)"
    using r by (intro set_eqI) (auto simp: mem, auto simp: owner_set_def, metis)
qed

lemma EnsureMember_ok:
  assumes "EnsureMember pid u role st = Inr st'" "role \<noteq> ''owner''"
  shows "owner_set st' = owner_set st" "st_perms st' = st_perms st" "st_projects st' = st_projects st" "st_transfers st' = st_transfers st"
    "distinct (map member_key (st_members st)) \<Longrightarrow> distinct (map member_key (st_members st'))"
    "mr_ProjectID ` set (st_members st') \<subseteq> insert pid (mr_ProjectID ` set (st_members st))"
  using assms by (auto simp: EnsureMember_def store_simps fun_eq_iff owner_set_def image_iff member_key_def split: option.splits)

lemma store_accept_ok:
  assumes "store_AcceptOwnerTransfer pid i v at st = Inr st'"
  shows "st_projects st' = st_projects st" "st_members st' = st_members st" "st_perms st' = st_perms st"
    "t \<in> set (st_transfers st') \<Longrightarrow> t \<in> set (st_transfers st) \<or> ot_Status t \<noteq> ''pending'' \<and> ot_ProjectID t \<in> ot_ProjectID ` set (st_transfers st)"
  using assms by (auto simp: store_AcceptOwnerTransfer_def store_simps split: if_splits)

lemma accept_transfer_ok:
  assumes "accept_transfer_write me ctx a pid i q st = Inr (w, st')"
  obtains p t st1 st2 st3 st4 st5 where "Project (me_store me) st (TenantID a) pid = Inr p" "p_DiscardedAt p = None"
    "OwnerTransfer st pid i = Inr t" "ot_Status t = ''pending''" "ot_ToUserID t = UserID a" "me_now me - ot_CreatedAt t \<le> transfer_window"
    "ot_ExpectedProjectVersion t = p_ProjectVersion p" "me_activation me \<Longrightarrow> usable_member p (UserID a)" "ActiveMember st a"
    "EnsureMember pid (UserID a) ''collaborator'' st = Inr st1"
    "UpdateProject (me_store me) (TenantID a) p (p\<lparr>p_ProjectVersion := p_ProjectVersion p + 1\<rparr>) st1 = Inr st2"
    "SetMemberRole pid (ot_FromUserID t) ''collaborator'' st2 = Inr st3" "SetMemberRole pid (UserID a) ''owner'' st3 = Inr st4"
    "store_AcceptOwnerTransfer pid i (ot_ExpectedProjectVersion t) (me_now me) st4 = Inr st5"
    "st' = st5 \<or> recordProjectAuditEvent (me_newID me 0) (me_now me) a (p_ID p) ''owner.transfer.accept'' (ot_ID t) [] st5 = Inr st'"
proof -
  from assms obtain p where p: "Project (me_store me) st (TenantID a) pid = Inr p" by (auto simp: accept_transfer_write_def split: if_splits)
  with assms obtain t where t: "OwnerTransfer st pid i = Inr t" by (cases "OwnerTransfer st pid i") (auto simp: accept_transfer_write_def split: if_splits)
  show ?thesis using assms
    by (cases "me_activation me") (auto simp: accept_transfer_write_def p t finished_def split: if_splits intro: that [OF p _ t])
qed

lemma accept_transfer_keeps:
  assumes inv: "mem_inv g st" and usable: "g \<Longrightarrow> usable_status (status_of st pid (UserID a))"
    and wr: "accept_transfer_write me ctx a pid i q st = Inr (w, st')"
  shows "mem_inv g st' \<and> moves_owner st st' pid (UserID a) \<and> owner_set st pid \<noteq> {}"
proof -
  from wr obtain p t st1 st2 st3 st4 st5 where p: "Project (me_store me) st (TenantID a) pid = Inr p"
    and t: "OwnerTransfer st pid i = Inr t" "ot_Status t = ''pending''" "ot_ExpectedProjectVersion t = p_ProjectVersion p"
    and e: "EnsureMember pid (UserID a) ''collaborator'' st = Inr st1"
    and up: "UpdateProject (me_store me) (TenantID a) p (p\<lparr>p_ProjectVersion := p_ProjectVersion p + 1\<rparr>) st1 = Inr st2"
    and r1: "SetMemberRole pid (ot_FromUserID t) ''collaborator'' st2 = Inr st3" and r2: "SetMemberRole pid (UserID a) ''owner'' st3 = Inr st4"
    and ac: "store_AcceptOwnerTransfer pid i (ot_ExpectedProjectVersion t) (me_now me) st4 = Inr st5"
    and au: "st' = st5 \<or> recordProjectAuditEvent (me_newID me 0) (me_now me) a (p_ID p) ''owner.transfer.accept'' (ot_ID t) [] st5 = Inr st'"
    by (rule accept_transfer_ok)
  note v = view_ok [OF inv p] and d = inv [unfolded mem_inv_def tables_ok_def]
    and e' = EnsureMember_ok [OF e] and f1 = SetMemberRole_ok [OF r1] and f2 = SetMemberRole_ok [OF r2] and ac' = store_accept_ok [OF ac]
  have st': "st_projects st' = st_projects st5" "st_members st' = st_members st5" "st_perms st' = st_perms st5" "st_transfers st' = st_transfers st5"
    using au by (auto simp: audit_frames)
  have "distinct (map pr_ID (st_projects st1))" using d e'(3) by simp
  then have b1: "bump st1 st2 pid (p_ProjectVersion p)" and sm: "same_members st1 st2" using update_bump [OF up] v(3) by auto
  have b: "bump st st' pid (p_ProjectVersion p)"
    using b1 unfolding bump_def version_of_def by (simp add: st' ac' f1(4) f2(4) e'(3))
  have t': "t \<in> set (st_transfers st)" "ot_ProjectID t = pid" using t(1) by (auto simp: OwnerTransfer_def store_simps dest: find_Some_in)
  have "transfer_ok st t" using t'(1) d by (simp add: mem_inv_def)
  then have frm: "owner_set st pid = {ot_FromUserID t}" using t(2,3) t'(2) v(5) by (simp add: transfer_ok_def)
  have o5: "owner_set st' q = owner_set st4 q" "status_of st' q = status_of st4 q" for q by (simp_all add: owner_set_def status_of_def fun_eq_iff st' ac')
  have o2: "owner_set st2 q = owner_set st q" "status_of st2 = status_of st" for q
    using sm e' by (simp_all add: owner_set_def status_of_def same_members_def fun_eq_iff)
  have own: "owner_set st' pid = {UserID a}" by (simp add: o5 f2(1) f1(1) o2(1) frm)
  have "mem_inv g st'"
  proof (rule mem_inv_change [OF inv b])
    show "owner_ok g st' pid" using usable unfolding owner_ok_def own by (simp add: o5(2) f2(2) f1(2) o2(2))
    show "owner_set st' q = owner_set st q \<and> status_of st' q = status_of st q" if "q \<noteq> pid" for q
      using that by (simp add: o5 f2 f1 o2)
    have m5: "st_members st' = st_members st4" by (simp add: st' ac')
    then have keys: "map member_key (st_members st') = map member_key (st_members st1)"
      using sm by (simp only: m5 f2(3) f1(3) same_members_def)
    then show "distinct (map member_key (st_members st'))" using e'(5) d by simp
    have "mr_ProjectID ` set ms = fst ` set (map member_key ms)" for ms by (simp add: image_image member_key_def)
    then have "mr_ProjectID ` set (st_members st') = mr_ProjectID ` set (st_members st1)" using keys by metis
    then show "mr_ProjectID ` set (st_members st') \<subseteq> project_ids st" using e'(6) d v(6) by auto
    have "st_transfers st4 = st_transfers st" using sm e'(4) f1(5) f2(5) by (simp add: same_members_def)
    then show "x \<in> set (st_transfers st) \<or> ot_Status x \<noteq> ''pending'' \<and> ot_ProjectID x \<in> project_ids st" if "x \<in> set (st_transfers st')" for x
      using that ac'(4) [of x] transfer_project [OF inv] by (auto simp: st')
  qed
  moreover have "owner_set st' q = owner_set st q" if "q \<noteq> pid" for q using that by (simp add: o5 f2 f1 o2)
  ultimately show ?thesis using own b frm unfolding moves_owner_def by blast
qed

text \<open>The replacement of the collaborators: every owner row survives, and no key is inserted twice.\<close>

definition collaborator :: "string \<Rightarrow> member" where
  "collaborator i = \<lparr>m_UserID = i, m_Role = ''collaborator'', m_GovernanceRole = ''member'', m_FunctionRoles = [''author''], m_FunctionScopes = [], m_Status = ''active''\<rparr>"

lemma collaborator_sel [simp]: "m_UserID (collaborator i) = i" "m_Role (collaborator i) = ''collaborator''" "m_Status (collaborator i) = ''active''"
  by (simp_all add: collaborator_def)

lemma each_map: "each (\<lambda>x. f (h x)) xs s = each f (map h xs) s"
  by (induction xs arbitrary: s) (auto intro!: arg_cong2 [where f = bindR])

lemma ReplaceCollaborators_ok:
  "ReplaceCollaborators pid ids st = Inr st' \<longleftrightarrow> distinct ids \<and>
     (\<forall>i\<in>set ids. (\<forall>r\<in>set (st_members st). member_key r = (pid, i) \<longrightarrow> mr_Role r = ''collaborator'') \<and> (pid, i) \<notin> perm_key ` set (st_perms st)) \<and>
     st' = st\<lparr>st_members := filter (\<lambda>r. \<not> (mr_ProjectID r = pid \<and> mr_Role r = ''collaborator'')) (st_members st) @ map (member_row_of pid \<circ> collaborator) ids,
              st_perms := st_perms st @ map (perm_row_of pid \<circ> collaborator) ids\<rparr>"
proof -
  have ic: "insertCollaborator pid = (\<lambda>i. insertMember pid (collaborator i))" by (simp add: fun_eq_iff insertCollaborator_def collaborator_def)
  have eq: "ReplaceCollaborators pid ids st = each (insertMember pid) (map collaborator ids)
      (st\<lparr>st_members := filter (\<lambda>r. \<not> (mr_ProjectID r = pid \<and> mr_Role r = ''collaborator'')) (st_members st)\<rparr>)"
    unfolding ReplaceCollaborators_def ic by (rule each_map)
  show ?thesis unfolding eq each_insertMember_ok by (auto simp: comp_def member_key_def image_iff)
qed

lemma collaborators_step:
  assumes d: "distinct (map member_key (st_members st))" and re: "ReplaceCollaborators pid ids st = Inr st'"
  shows "owner_set st' = owner_set st" "q \<noteq> pid \<Longrightarrow> status_of st' q = status_of st q" "u \<in> owner_set st pid \<Longrightarrow> status_of st' pid u = status_of st pid u"
    "distinct (map member_key (st_members st'))" "mr_ProjectID ` set (st_members st') \<subseteq> insert pid (mr_ProjectID ` set (st_members st))"
proof -
  note r = re [unfolded ReplaceCollaborators_ok]
  show "owner_set st' = owner_set st" using r by (auto simp: fun_eq_iff owner_set_def)
  have find: "find (\<lambda>p. pe_ProjectID p = q \<and> pe_UserID p = u) (map (perm_row_of pid \<circ> collaborator) ids) = None" if "q \<noteq> pid \<or> u \<notin> set ids" for q u
    using that by (auto simp: find_None_iff')
  have status: "status_of st' q u = status_of st q u" if "q \<noteq> pid \<or> u \<notin> set ids" for q u
    using r find [OF that] by (simp add: status_of_def find_append split: option.split)
  then show "q \<noteq> pid \<Longrightarrow> status_of st' q = status_of st q" by (simp add: fun_eq_iff)
  show "status_of st' pid u = status_of st pid u" if "u \<in> owner_set st pid"
  proof (rule status)
    from that obtain x where x: "x \<in> set (st_members st)" "mr_ProjectID x = pid" "mr_Role x = ''owner''" "mr_UserID x = u" unfolding owner_set_def by blast
    then show "pid \<noteq> pid \<or> u \<notin> set ids" using r by (auto simp: member_key_def)
  qed
  have "distinct (map member_key (filter (\<lambda>r. \<not> (mr_ProjectID r = pid \<and> mr_Role r = ''collaborator'')) (st_members st)))" using d by (rule distinct_map_filter)
  then show "distinct (map member_key (st_members st'))" using r by (auto simp: comp_def distinct_map inj_on_def) (simp add: member_key_def)
  show "mr_ProjectID ` set (st_members st') \<subseteq> insert pid (mr_ProjectID ` set (st_members st))" using r by auto
qed

lemma collaborators_keeps:
  assumes inv: "mem_inv g st" and p: "Project se st (TenantID a) pid = Inr p" and wr: "collaborators_write me a pid expected ids p st = Inr (w, st')"
  shows "keeps_owner g st st'"
proof (cases "st' = st")
  case False
  note v = view_ok [OF inv p] and d = inv [unfolded mem_inv_def tables_ok_def]
  from wr False obtain st1 st2 where up: "UpdateProject (me_store me) (TenantID a) p (p\<lparr>p_ProjectVersion := p_ProjectVersion p + 1\<rparr>) st = Inr st1"
    and re: "ReplaceCollaborators pid ids st1 = Inr st2" and au: "replaceAudit me a pid ''project.member_permissions.replace'' st2 = Inr st'"
    by (auto simp: collaborators_write_def Let_def finished_def split: if_splits)
  have b1: "bump st st1 pid (p_ProjectVersion p)" and sm: "same_members st st1" using update_bump [OF up] d v(3) by auto
  have d1: "distinct (map member_key (st_members st1))" using d sm by (simp add: same_members_def)
  note c = collaborators_step [OF d1 re] and f = audit_frame [OF au [unfolded replaceAudit_def]]
  have r: "st_projects st2 = st_projects st1" "st_transfers st2 = st_transfers st1" using re by (simp_all add: ReplaceCollaborators_ok)
  have o: "owner_set st' q = owner_set st2 q" "status_of st' q = status_of st2 q" "owner_set st1 q = owner_set st q" "status_of st1 q = status_of st q" for q
    using f sm by (simp_all add: fun_eq_iff owner_set_def status_of_def same_members_def)
  have b: "bump st st' pid (p_ProjectVersion p)" using b1 by (simp add: bump_def version_of_def f r)
  have "mem_inv g st'"
  proof (rule mem_inv_change [OF inv b])
    show "x \<in> set (st_transfers st) \<or> ot_Status x \<noteq> ''pending'' \<and> ot_ProjectID x \<in> project_ids st" if "x \<in> set (st_transfers st')" for x
      using that sm by (simp add: f r same_members_def)
    show "distinct (map member_key (st_members st'))" using c(4) by (simp add: f)
    show "mr_ProjectID ` set (st_members st') \<subseteq> project_ids st" using c(5) d v(6) sm by (auto simp: f same_members_def)
    show "owner_set st' q = owner_set st q \<and> status_of st' q = status_of st q" if "q \<noteq> pid" for q
      using c(2) [OF that] by (simp add: o c(1))
    have "owner_ok g st pid" using inv v(6) by (simp add: mem_inv_def)
    moreover have "owner_set st' pid = owner_set st pid" by (simp add: o c(1))
    moreover have "status_of st' pid u = status_of st pid u" if "u \<in> owner_set st pid" for u using c(3) [of u] that by (simp add: o)
    ultimately show "owner_ok g st' pid" unfolding owner_ok_def by auto
  qed
  then show ?thesis by (rule keeps_ownerI [OF _ b]) (simp_all add: o c(1))
qed (use inv in \<open>simp add: keeps_owner_refl\<close>)

text \<open>Creation of a project and the writes of the other contexts.\<close>

lemma insertProjectTemplateCopy_frame:
  "insertProjectTemplateCopy se c st = Inr st' \<Longrightarrow> same_members st st' \<and> st_projects st' = st_projects st"
  by (auto simp: insertProjectTemplateCopy_def same_members_def split: if_splits)

lemma InsertProject_ok:
  assumes "InsertProject se tenant now p st = Inr st'"
  obtains row where "pr_ID row = p_ID p" "pr_ProjectVersion row = p_ProjectVersion p" "p_ID p \<notin> project_ids st" "st_projects st' = st_projects st @ [row]"
    "distinct (map m_UserID (p_Members p))" "\<forall>m\<in>set (p_Members p). (p_ID p, m_UserID m) \<notin> perm_key ` set (st_perms st)"
    "st_members st' = st_members st @ map (member_row_of (p_ID p)) (p_Members p)" "st_perms st' = st_perms st @ map (perm_row_of (p_ID p)) (p_Members p)"
    "st_transfers st' = st_transfers st"
proof -
  define row where "row = \<lparr>pr_ID = p_ID p, pr_TenantID = tenant, pr_Name = p_Name p, pr_Status = p_Status p, pr_ProjectVersion = p_ProjectVersion p,
     pr_SpecRevision = p_SpecRevision p, pr_CurrentContextRevision = p_CurrentContextRevision p, pr_DeliveryStatus = p_DeliveryStatus p,
     pr_BaselineConfirmationID = p_BaselineConfirmationID p, pr_Spec = p_Spec p, pr_SpecFields = p_SpecFields p, pr_TemplateID = p_TemplateID p,
     pr_TemplateVersion = p_TemplateVersion p, pr_TemplateCopyVersion = p_TemplateCopyVersion p, pr_DiscardedAt = p_DiscardedAt p, pr_CreatedAt = now\<rparr>"
  have row: "pr_ID row = p_ID p" "pr_ProjectVersion row = p_ProjectVersion p" by (simp_all add: row_def)
  note body = assms [unfolded InsertProject_def, folded row_def]
  then have new: "p_ID p \<notin> pr_ID ` set (st_projects st)" by (auto simp: store_simps row)
  from body obtain st1 where s1: "st1 = st\<lparr>st_projects := st_projects st @ [row]\<rparr> \<or> (\<exists>c. insertProjectTemplateCopy se c (st\<lparr>st_projects := st_projects st @ [row]\<rparr>) = Inr st1)"
    and ea: "each (insertMember (p_ID p)) (p_Members p) st1 = Inr st'"
    by (auto simp: store_simps split: option.splits if_splits)
  have s1: "st_projects st1 = st_projects st @ [row] \<and> same_members st st1"
    using s1 insertProjectTemplateCopy_frame [of se _ "st\<lparr>st_projects := st_projects st @ [row]\<rparr>" st1] by (auto simp: same_members_def)
  show ?thesis
    by (rule that [of row]) (use row new s1 ea in \<open>simp_all add: project_ids_def each_insertMember_ok same_members_def\<close>)
qed

lemma member_project: "mem_inv g st \<Longrightarrow> r \<in> set (st_members st) \<Longrightarrow> mr_ProjectID r \<in> project_ids st"
  unfolding mem_inv_def tables_ok_def by blast

lemma create_keeps:
  assumes inv: "mem_inv g st" and cr: "InsertProject se tenant now p st = Inr st'" and wf: "members_wf (p_Members p)"
    and usable: "\<And>m. m \<in> set (p_Members p) \<Longrightarrow> m_Role m = ''owner'' \<Longrightarrow> usable_status (m_Status m)"
  shows "keeps_owner g st st'"
proof -
  from cr obtain row where row: "pr_ID row = p_ID p" "pr_ProjectVersion row = p_ProjectVersion p" and new: "p_ID p \<notin> project_ids st"
    and ps: "st_projects st' = st_projects st @ [row]" and dm: "distinct (map m_UserID (p_Members p))"
    and pk: "\<forall>m\<in>set (p_Members p). (p_ID p, m_UserID m) \<notin> perm_key ` set (st_perms st)"
    and ms: "st_members st' = st_members st @ map (member_row_of (p_ID p)) (p_Members p)"
    and pe: "st_perms st' = st_perms st @ map (perm_row_of (p_ID p)) (p_Members p)" and ts: "st_transfers st' = st_transfers st"
    by (rule InsertProject_ok)
  note d = inv [unfolded mem_inv_def tables_ok_def]
  have ids: "project_ids st' = insert (p_ID p) (project_ids st)" by (simp add: project_ids_def ps row)
  have fresh: "mr_ProjectID r \<noteq> p_ID p" if "r \<in> set (st_members st)" for r
    using member_project [OF inv that] new by auto
  have old: "owner_set st' q = owner_set st q" "status_of st' q = status_of st q" "version_of st' q = version_of st q" if "q \<noteq> p_ID p" for q
  proof -
    show "owner_set st' q = owner_set st q" using that by (auto simp: owner_set_def ms)
    have "find (\<lambda>p. pe_ProjectID p = q \<and> pe_UserID p = u) (map (perm_row_of (p_ID p)) (p_Members p)) = None" for u using that by (auto simp: find_None_iff')
    then show "status_of st' q = status_of st q" by (simp add: fun_eq_iff status_of_def pe find_append split: option.split)
    show "version_of st' q = version_of st q" using that row by (simp add: version_of_def ps find_append split: option.split)
  qed
  obtain w where w: "filter (\<lambda>m. m_Role m = ''owner'') (p_Members p) = [w]" using wf by (auto simp: members_wf_def length_Suc_conv)
  then have w': "w \<in> set (filter (\<lambda>m. m_Role m = ''owner'') (p_Members p))" by simp
  have "owner_set st' (p_ID p) = m_UserID ` set (filter (\<lambda>m. m_Role m = ''owner'') (p_Members p))"
  proof -
    have "{r \<in> set (st_members st'). mr_ProjectID r = p_ID p \<and> mr_Role r = ''owner''} = member_row_of (p_ID p) ` set (filter (\<lambda>m. m_Role m = ''owner'') (p_Members p))"
      using fresh by (auto simp: ms)
    then show ?thesis by (simp only: owner_set_def image_image row_of_sel)
  qed
  then have o: "owner_set st' (p_ID p) = {m_UserID w}" using w by simp
  have "find (\<lambda>q. pe_ProjectID q = p_ID p \<and> pe_UserID q = m_UserID w) (st_perms st) = None"
    using pk w' by (fastforce simp: find_None_iff' perm_key_def image_iff)
  moreover have "find (\<lambda>q. pe_ProjectID q = p_ID p \<and> pe_UserID q = m_UserID w) (map (perm_row_of (p_ID p)) (p_Members p)) = Some (perm_row_of (p_ID p) w)"
    using status_of_replaced [OF dm, of w "p_ID p" "[]"] w' by simp
  ultimately have "status_of st' (p_ID p) (m_UserID w) = (if m_Status w = [] then ''active'' else m_Status w)" by (simp add: status_of_def pe find_append)
  then have own: "owner_ok g st' (p_ID p)" using usable [of w] w' by (auto simp: owner_ok_def o usable_status_def)
  have "transfer_ok st' t" if "t \<in> set (st_transfers st)" for t
  proof -
    have "ot_ProjectID t \<noteq> p_ID p" using transfer_project [OF inv that] new by auto
    moreover have "transfer_ok st t" using d that by blast
    ultimately show ?thesis unfolding transfer_ok_def by (simp add: old)
  qed
  moreover have "owner_ok g st' q" if "q \<in> project_ids st'" for q
  proof (cases "q = p_ID p")
    case False
    then have "owner_ok g st q" using d that ids by auto
    then show ?thesis unfolding owner_ok_def by (simp add: old [OF False])
  qed (use own in simp)
  moreover have "tables_ok st'"
  proof -
    have "map (member_key \<circ> member_row_of (p_ID p)) (p_Members p) = map (Pair (p_ID p)) (map m_UserID (p_Members p))" by simp
    then have "distinct (map (member_key \<circ> member_row_of (p_ID p)) (p_Members p))" using dm by (simp add: distinct_map inj_on_def)
    moreover have "(p_ID p, u) \<noteq> member_key r" if "r \<in> set (st_members st)" for r u using fresh [OF that] by (simp add: member_key_def)
    ultimately have "distinct (map member_key (st_members st'))" using d by (auto simp: ms)
    moreover have "mr_ProjectID ` set (st_members st') \<subseteq> insert (p_ID p) (project_ids st)" using d by (auto simp: ms)
    ultimately show ?thesis using d new unfolding tables_ok_def ids by (auto simp: ps ts row project_ids_def)
  qed
  ultimately have "mem_inv g st'" by (simp add: mem_inv_def ts)
  moreover have "\<exists>v v'. version_of st q = Some v \<and> version_of st' q = Some v' \<and> v \<le> v'" "owner_set st' q = owner_set st q" if "q \<in> project_ids st" for q
  proof -
    have "q \<noteq> p_ID p" using that new by blast
    then show "\<exists>v v'. version_of st q = Some v \<and> version_of st' q = Some v' \<and> v \<le> v'" "owner_set st' q = owner_set st q"
      using known_version [OF that] by (auto simp: old)
  qed
  ultimately show ?thesis unfolding keeps_owner_def ids by blast
qed

lemma version_of_list_all2:
  assumes "list_all2 (\<lambda>r r'. pr_ID r' = pr_ID r \<and> pr_TenantID r' = pr_TenantID r \<and> pr_ProjectVersion r \<le> pr_ProjectVersion r') ps ps'"
    "map_option pr_ProjectVersion (find (\<lambda>r. pr_ID r = q) ps) = Some v"
  shows "\<exists>v'\<ge>v. map_option pr_ProjectVersion (find (\<lambda>r. pr_ID r = q) ps') = Some v'"
  using assms by (induction rule: list_all2_induct) (auto split: if_splits)

lemma other_keeps:
  assumes inv: "mem_inv g st" and out: "outside_members st st'"
  shows "keeps_owner g st st'"
proof -
  note d = inv [unfolded mem_inv_def tables_ok_def]
  have l: "list_all2 (\<lambda>r r'. pr_ID r' = pr_ID r \<and> pr_TenantID r' = pr_TenantID r \<and> pr_ProjectVersion r \<le> pr_ProjectVersion r') (st_projects st) (st_projects st')"
    and same: "st_members st' = st_members st" "st_perms st' = st_perms st" "st_transfers st' = st_transfers st"
    using out by (simp_all add: outside_members_def)
  have ids: "map pr_ID (st_projects st') = map pr_ID (st_projects st)" using l by (induction rule: list_all2_induct) auto
  then have pids: "project_ids st' = project_ids st" by (metis list.set_map project_ids_def)
  have e: "owner_set st' = owner_set st" "status_of st' = status_of st" by (simp_all add: fun_eq_iff owner_set_def status_of_def same)
  have "transfer_ok st' t" if "t \<in> set (st_transfers st)" for t
  proof -
    have "transfer_ok st t" using d that by blast
    moreover have "\<exists>v'\<ge>v. version_of st' (ot_ProjectID t) = Some v'" if "version_of st (ot_ProjectID t) = Some v" for v
      using version_of_list_all2 [OF l] that by (simp add: version_of_def)
    ultimately show ?thesis unfolding transfer_ok_def e by fastforce
  qed
  then have "mem_inv g st'" using d by (simp add: mem_inv_def tables_ok_def owner_ok_def ids pids e same)
  moreover have "\<exists>v v'. version_of st q = Some v \<and> version_of st' q = Some v' \<and> v \<le> v'" if "q \<in> project_ids st" for q
  proof -
    from that have "\<exists>v. version_of st q = Some v" by (rule known_version)
    then obtain v where "version_of st q = Some v" by blast
    then show ?thesis using version_of_list_all2 [OF l, of q v] by (auto simp: version_of_def)
  qed
  ultimately show ?thesis unfolding keeps_owner_def pids e by blast
qed

text \<open>Every step keeps the invariant, with and without the guard; only a transfer moves an owner.\<close>

lemma step_effect:
  assumes "mem_step g se st st'" "mem_inv g st"
  shows "keeps_owner g st st' \<or> mem_inv g st' \<and> (\<exists>pid u. moves_owner st st' pid u)"
  using assms
proof (cases rule: mem_step.cases)
  case create
  then show ?thesis using create_keeps [OF assms(2)] by blast
next
  case other
  then show ?thesis using other_keeps [OF assms(2)] by blast
next
  case invite
  then show ?thesis using invite_keeps [OF assms(2)] by blast
next
  case accept
  then show ?thesis using accept_keeps [OF assms(2)] by blast
next
  case state
  then show ?thesis using state_keeps [OF assms(2)] by blast
next
  case assign
  then show ?thesis using assign_keeps [OF assms(2)] by blast
next
  case collaborators
  then show ?thesis using collaborators_keeps [OF assms(2)] by blast
next
  case permissions
  then show ?thesis using permissions_keeps [OF assms(2)] by blast
next
  case transfer
  then show ?thesis using transfer_keeps [OF assms(2)] by blast
next
  case request
  then show ?thesis using request_keeps [OF assms(2)] by blast
next
  case accept_transfer
  then show ?thesis using accept_transfer_keeps [OF assms(2)] by blast
next
  case reject
  then show ?thesis using reject_keeps [OF assms(2)] by blast
next
  case grant
  then show ?thesis using grant_keeps [OF assms(2)] by blast
next
  case suspend
  then show ?thesis using suspend_keeps [OF assms(2)] by blast
qed

lemma step_keeps: "mem_step g se st st' \<Longrightarrow> mem_inv g st \<Longrightarrow> mem_inv g st'"
  using step_effect [of g se st st'] by (auto simp: keeps_owner_def)

inductive reachable :: "bool \<Rightarrow> ('d, 'q) store_env \<Rightarrow> ('d, 'q) store \<Rightarrow> bool" for g :: bool and se :: "('d, 'q) store_env" where
  empty: "st_projects st = [] \<Longrightarrow> st_members st = [] \<Longrightarrow> st_transfers st = [] \<Longrightarrow> reachable g se st"
| step: "reachable g se st \<Longrightarrow> mem_step g se st st' \<Longrightarrow> reachable g se st'"

lemma reachable_inv: "reachable g se st \<Longrightarrow> mem_inv g st"
proof (induction rule: reachable.induct)
  case (empty st)
  then show ?case by (simp add: mem_inv_def tables_ok_def project_ids_def)
qed (rule step_keeps)

end
