(* ===== verification/Run_Invariant.thy ===== *)
theory Run_Invariant
  imports Pipeline
begin

text \<open>
  Invariants of the store across the operation pipeline.  A property of the store that every step of
  other transactions keeps, that no recorded row of the pipeline disturbs and that the write of an
  operation keeps, holds after the whole run, whether it answers, replays or fails.
\<close>

section \<open>What one run may do to the store\<close>

text \<open>
  \<^verbatim>\<open>quiet t t'\<close> is what the audit row, the source pins, the provenance rows, the observation of a failure and
  the operation record do to the store.
\<close>

definition quiet_seams :: "('a, 's, 'p, 'b, 'v, 'x) request \<Rightarrow> ('s \<Rightarrow> 's \<Rightarrow> bool) \<Rightarrow> bool" where
  "quiet_seams rq quiet \<longleftrightarrow>
     reflp quiet \<and> transp quiet \<and>
     (\<forall>ctx pid cap err t t'. rq_RecordAudit rq ctx pid cap err t = Inr t' \<longrightarrow> quiet t t') \<and>
     (\<forall>f ctx pid t t'. rq_StorePins rq = Some f \<longrightarrow> f ctx pid t = Inr t' \<longrightarrow> quiet t t') \<and>
     (\<forall>f ctx v t t'. rq_StoreReverseSources rq = Some f \<longrightarrow> f ctx v t = Inr t' \<longrightarrow> quiet t t') \<and>
     (\<forall>f ctx i r v t t'. rq_StoreProvenance rq = Some f \<longrightarrow> f ctx i r v t = Inr t' \<longrightarrow> quiet t t') \<and>
     (\<forall>f ctx p pid op tgt status v el t t'. rq_AfterWrite rq = Some f \<longrightarrow> f ctx p pid op tgt status v el t = Inr t' \<longrightarrow> quiet t t') \<and>
     (\<forall>f ctx pid op e el t. rq_ObserveFailure rq = Some f \<longrightarrow> quiet t (f ctx pid op e el t)) \<and>
     (\<forall>led i r t. rq_Ledger rq t = Inr led \<longrightarrow> (\<forall>u u'. Save led i r u = Inr u' \<longrightarrow> quiet u u'))"

lemma seam_write_ok: "seam_write f call t = Inr t' \<Longrightarrow> (\<And>h. f = Some h \<Longrightarrow> call h t = Inr t' \<Longrightarrow> P t t') \<Longrightarrow> P t t \<Longrightarrow> P t t'"
  by (auto simp: seam_write_def split: option.splits)

lemma quiet_refl: "quiet_seams rq quiet \<Longrightarrow> quiet t t"
  unfolding quiet_seams_def by (elim conjE) (rule reflpD)

lemma quiet_trans: "quiet_seams rq quiet \<Longrightarrow> quiet t u \<Longrightarrow> quiet u v \<Longrightarrow> quiet t v"
  unfolding quiet_seams_def by (elim conjE) (erule transpE)

lemma quiet_audit: "quiet_seams rq quiet \<Longrightarrow> rq_RecordAudit rq ctx pid cap err t = Inr t' \<Longrightarrow> quiet t t'"
  unfolding quiet_seams_def by (elim conjE) simp

lemma quiet_pins: "quiet_seams rq quiet \<Longrightarrow> seam_write (rq_StorePins rq) (\<lambda>f. f ctx pid) t = Inr t' \<Longrightarrow> quiet t t'"
  by (erule seam_write_ok) (simp_all add: quiet_seams_def quiet_refl reflpD)

lemma quiet_reverse: "quiet_seams rq quiet \<Longrightarrow> seam_write (rq_StoreReverseSources rq) (\<lambda>f. f ctx w) t = Inr t' \<Longrightarrow> quiet t t'"
  by (erule seam_write_ok) (simp_all add: quiet_seams_def quiet_refl reflpD)

lemma quiet_provenance: "quiet_seams rq quiet \<Longrightarrow> seam_write (rq_StoreProvenance rq) (\<lambda>f. f ctx i r w) t = Inr t' \<Longrightarrow> quiet t t'"
  by (erule seam_write_ok) (simp_all add: quiet_seams_def quiet_refl reflpD)

lemma quiet_after: "quiet_seams rq quiet \<Longrightarrow> seam_write (rq_AfterWrite rq) (\<lambda>f. f ctx p pid op tgt status w el) t = Inr t' \<Longrightarrow> quiet t t'"
  by (erule seam_write_ok) (simp_all add: quiet_seams_def quiet_refl reflpD)

lemma quiet_observe: "quiet_seams rq quiet \<Longrightarrow> rq_ObserveFailure rq = Some f \<Longrightarrow> quiet t (f ctx pid op e el t)"
  unfolding quiet_seams_def by (elim conjE) simp

lemma quiet_save: "quiet_seams rq quiet \<Longrightarrow> rq_Ledger rq t = Inr led \<Longrightarrow> Save led i r u = Inr u' \<Longrightarrow> quiet u u'"
  unfolding quiet_seams_def by (elim conjE) metis

lemma write_body_keeps:
  assumes q: "quiet_seams rq quiet" and I: "\<And>t t'. quiet t t' \<Longrightarrow> I t \<Longrightarrow> I t'"
    and w: "\<And>ctx p t u val out status v. authorize_write ctx rq t = Inr p \<Longrightarrow> quiet t u \<Longrightarrow> I u \<Longrightarrow> rq_Write rq ctx p u = Inr (val, out, status, v) \<Longrightarrow> I v"
    and b: "write_body ctx rq hash el k s = (k', Inr s')" and s: "I s"
  shows "I s'"
proof -
  from b obtain led p s1 previous found where l: "rq_Ledger rq s = Inr led" and a: "admit ctx rq s = Inr (p, s1)"
    and f: "found \<Longrightarrow> s' = s1" and n: "\<not> found \<Longrightarrow> perform ctx rq led hash el p s1 = Inr (c_result k', s')"
    by (rule write_body_commits) blast
  have q1: "quiet s s1" by (rule quiet_audit [OF q admit_ok(3) [OF a]])
  show ?thesis
  proof (cases found)
    case True
    then show ?thesis using f I [OF q1 s] by simp
  next
    case False
    from n [OF False] obtain t1 val out status t2 t3 t4 t5 r where
      t1: "seam_write (rq_StorePins rq) (\<lambda>f. f ctx (au_ProjectID (rq_Authorization rq))) s1 = Inr t1"
      and t2: "rq_Write rq ctx p t1 = Inr (val, out, status, t2)" and t3: "seam_write (rq_StoreReverseSources rq) (\<lambda>f. f ctx val) t2 = Inr t3"
      and t4: "seam_write (rq_StoreProvenance rq) (\<lambda>f. f ctx (rq_Identity rq) r val) t3 = Inr t4"
      and t5: "seam_write (rq_AfterWrite rq) (\<lambda>f. f ctx p (au_ProjectID (rq_Authorization rq)) (id_Operation (rq_Identity rq))
                     (id_Target (rq_Identity rq)) status val el) t4 = Inr t5" and t6: "Save led (rq_Identity rq) r t5 = Inr s'"
      by (auto simp: perform_def Let_def split: if_splits prod.splits)
    have qt: "quiet s t1" by (rule quiet_trans [OF q q1 quiet_pins [OF q t1]])
    have "I t2" by (rule w [OF admit_ok(1) [OF a] qt I [OF qt s] t2])
    then show ?thesis
      by (rule I [OF quiet_save [OF q l t6] I [OF quiet_after [OF q t5] I [OF quiet_provenance [OF q t4] I [OF quiet_reverse [OF q t3]]]]])
  qed
qed

context pipeline
begin

text \<open>The whole run keeps what its steps keep, on every outcome.\<close>

lemma run_keeps:
  assumes q: "quiet_seams rq quiet" and I: "\<And>t t'. quiet t t' \<Longrightarrow> I t \<Longrightarrow> I t'" and env: "\<And>t t'. others t t' \<Longrightarrow> I t \<Longrightarrow> I t'"
    and w: "\<And>ctx p t u val out status v. authorize_write ctx rq t = Inr p \<Longrightarrow> quiet t u \<Longrightarrow> I u \<Longrightarrow> rq_Write rq ctx p u = Inr (val, out, status, v) \<Longrightarrow> I v"
    and run: "Run ctx rq el el' s = (s', out, r)" and s: "I s"
  shows "I s'"
proof (cases "gate_caller ctx rq")
  case (Inl a)
  then show ?thesis using run s by (simp add: Run_def)
next
  case g: (Inr hash)
  show ?thesis
  proof (cases "prepare_step ctx rq s")
    case (Inl a)
    then show ?thesis using run g s by (auto simp: Run_def split: prod.splits)
  next
    case p: (Inr ctx')
    obtain s1 r1 where sp: "source_phase ctx' rq hash s = (s1, r1)" by (metis surj_pair)
    have s1: "I s1" by (rule env [OF source_phase_others [OF sp] s])
    show ?thesis
    proof (cases r1)
      case (Inl a)
      then show ?thesis using run g p sp s1 by (auto simp: Run_def split: prod.splits)
    next
      case (Inr k)
      define opts where "opts = \<lparr>ReadOnly = False, RetryLocks = op_RetryLocks (id_Operation (rq_Identity rq)), RepeatableRead = False\<rparr>"
      obtain k2 s2 e where tx: "rq_Transaction rq opts (write_body ctx' rq hash el) k s1 = (k2, s2, e)" by (metis prod_cases3)
      show ?thesis
      proof (cases e)
        case None
        from tx None obtain k0 sw where o: "others s1 sw" and b: "write_body ctx' rq hash el k0 sw = (k2, Inr s2)" by (auto elim: write_phase_committed)
        have "I s2" by (rule write_body_keeps [where I = I and quiet = quiet and rq = rq]) (fact q, fact I, fact w, fact b, rule env [OF o s1])
        moreover have "s' = s2" using run g p sp Inr tx None by (auto simp: Run_def Let_def opts_def split: sum.splits)
        ultimately show ?thesis by simp
      next
        case (Some x)
        then have "I s2" using tx_rollback tx env s1 by metis
        moreover have "s' = s2 \<or> (\<exists>f. rq_ObserveFailure rq = Some f \<and> s' = f ctx' (au_ProjectID (rq_Authorization rq)) (id_Operation (rq_Identity rq)) x el' s2)"
          using run g p sp Inr tx Some by (auto simp: Run_def Let_def opts_def split: option.splits)
        ultimately show ?thesis using quiet_observe [OF q] I by metis
      qed
    qed
  qed
qed

end

end
