(* ===== verification/Membership_Service.thy ===== *)
theory Membership_Service
  imports Membership Run_Invariant
begin

text \<open>
  The handlers of the member and owner context, \<^verbatim>\<open>internal/lingdoc/membership\<close>: each checks its request, asks
  the gates that come before the operation, and hands its write to the pipeline.  The reads of the context
  (\<^verbatim>\<open>ListProjectInvitations\<close>, \<^verbatim>\<open>ListMyProjectInvitations\<close>, \<^verbatim>\<open>ListOwnerTransfers\<close>, \<^verbatim>\<open>EffectivePermission\<close>,
  \<^verbatim>\<open>OwnerAvailability\<close>) run in a read-only transaction of their own.

  The event that \<^verbatim>\<open>saveMemberPermissions\<close> and \<^verbatim>\<open>TransferOwner\<close> send to the audit sink after the commit is not
  modelled: its result is discarded.  Nor is the runtime observation that \<^verbatim>\<open>Authorize\<close> opens around a read.
  The member directory joins the platform's user table and is left out.
\<close>

section \<open>Operation names and outputs\<close>

definition operationOutputFor :: "string \<Rightarrow> string" where
  "operationOutputFor name =
     (if name = ''apiKeyProjectGrant'' then ''api_key_grant''
      else if name \<in> {''reassessChangeSet'', ''reverseChangeSet'', ''createChangeDraft'', ''assessChangeSet'', ''editChangeDraft''} then ''change_set''
      else if name = ''chapterComment'' then ''chapter_comment''
      else if name = ''chapterReview'' then ''chapter_review''
      else if name \<in> {''createDependencyEdge'', ''decideDependencyEdge''} then ''dependency_edge''
      else if name = ''acknowledgeImpactPreflight'' then ''impact_preflight''
      else if name = ''actOnImpactTask'' then ''impact_task''
      else if name \<in> {''inviteMember'', ''acceptMemberInvitation''} then ''invitation''
      else if name \<in> {''memberAssignment'', ''memberLifecycle''} then ''project''
      else if name = ''runtimeAlertRule'' then ''runtime_alert_rule''
      else if name = ''runtimeAlertRuleAction'' then ''runtime_alert_rule_action''
      else if name = ''runtimeControl'' then ''runtime_control''
      else if name = ''runtimeEvent'' then ''runtime_event''
      else if name = ''stabilizeRevision'' then ''stabilization''
      else if name = ''rejectOwnerTransfer'' then ''owner_transfer''
      else if name \<in> {''trialCreateDecision'', ''trialSignDecision''} then ''trial_decision''
      else if name \<in> {''trialRecordSample'', ''trialReviewSample''} then ''trial_sample''
      else if name \<in> {''trialCreateWindow'', ''trialWindowAction''} then ''trial_window''
      else if name = ''setReviewAnchor'' then ''working_copy''
      else if name \<in> {''createChangeSet'', ''applyChangeSet'', ''rejectChangeSet''} then ''change_set''
      else if name = ''createDraftCandidate'' then ''draft_candidate''
      else if name = ''validationIssueDisposition'' then ''issue_disposition''
      else if name \<in> {''requestOwnerTransfer'', ''acceptOwnerTransfer''} then ''owner_transfer''
      else if name = ''saveChapter'' then ''chapter''
      else if name \<in> {''saveWorkingCopy'', ''applySelectedRewrite'', ''restoreWorkingCopy''} then ''working_copy''
      else if name = ''commitWorkingCopy'' then ''committed_chapter''
      else ''project'')"

datatype mbody = BInvite invite_input | BAccept int | BLifecycle lifecycle_input | BAssignment assignment_input | BSave save_members_input
  | BTransfer transfer_input | BAcceptTransfer string | BDecision decision_input | BGrant key_grant

type_synonym ('d, 'q, 'x) member_ws = "(('d, 'q) store, 'd, mbody, 'd mvalue, 'x) ws_env"

type_synonym ('d, 'q) answer = "('d, 'q) store \<times> (goerr + string \<times> int) \<times> bool"

definition member_spec :: "string \<Rightarrow> string \<Rightarrow> string \<Rightarrow> mbody \<Rightarrow> auth_request \<Rightarrow> (('d, 'q) store, 'd, mbody) operation_spec" where
  "member_spec name target key body request =
     \<lparr>sp_Name = name, sp_Target = target, sp_Key = key, sp_Body = body, sp_Request = request, sp_Output = operationOutputFor name,
      sp_CheckProject = None, sp_SourceIDs = None\<rparr>"

definition refuse :: "goerr \<Rightarrow> ('d, 'q) store \<Rightarrow> ('d, 'q) answer" where
  "refuse e s = (s, Inl e, False)"

section \<open>Read transactions\<close>

text \<open>A read that assigns its result to a variable of the enclosing function.\<close>

definition read_tx :: "('s, 'd, 'b, 'v, 'x) ws_env \<Rightarrow> tx_options \<Rightarrow> 'r \<Rightarrow> ('s \<Rightarrow> goerr + 'r) \<Rightarrow> 's \<Rightarrow> 's \<times> (goerr + 'r)" where
  "read_tx env options zero body s =
     (case gorm_Transaction (we_ctxErr env) (we_sched env) options (\<lambda>k t. case body t of Inl e \<Rightarrow> (k, Inl e) | Inr r \<Rightarrow> (r, Inr t)) zero s of
        (k, s', Some e) \<Rightarrow> (s', Inl e)
      | (k, s', None) \<Rightarrow> (s', Inr k))"

lemma read_tx_moves:
  assumes "read_tx env options zero body s = (s', r)"
  shows "env_moves (we_sched env) s s'" "r = Inr x \<Longrightarrow> body s' = Inr x"
proof -
  let ?fn = "\<lambda>k t. case body t of Inl e \<Rightarrow> (k, Inl e) | Inr r \<Rightarrow> (r, Inr t)"
  obtain k t e where g: "gorm_Transaction (we_ctxErr env) (we_sched env) options ?fn zero s = (k, t, e)" by (rule prod_cases3)
  have t: "t = s'" using assms g by (cases e) (simp_all add: read_tx_def)
  have committed: "env_moves (we_sched env) s s' \<and> body s' = Inr k" if none: "e = None"
  proof -
    obtain k0 s0 where "env_moves (we_sched env) s s0" "?fn k0 s0 = (k, Inr t)"
      using none gorm_Transaction_commit [of "we_ctxErr env" "we_sched env" options ?fn zero s k t "\<lambda>_. True"] g by blast
    then show ?thesis using t by (auto split: sum.splits)
  qed
  show "env_moves (we_sched env) s s'"
  proof (cases e)
    case (Some x)
    from gorm_Transaction_rollback [OF g [unfolded Some]] show ?thesis using t by simp
  qed (simp add: committed)
  show "body s' = Inr x" if "r = Inr x"
    using assms g that committed by (cases e) (auto simp: read_tx_def)
qed

definition read_only :: tx_options where
  "read_only = \<lparr>ReadOnly = True, RetryLocks = False, RepeatableRead = False\<rparr>"

text \<open>\<^verbatim>\<open>readWithAudit\<close>: the decision is recorded in a transaction of its own; when that fails, the alert is published and the read stands.\<close>

record ('d, 'q) read_audit =
  ra_auditing :: bool
  ra_alert :: "actor \<Rightarrow> string \<Rightarrow> string \<Rightarrow> goerr \<Rightarrow> ('d, 'q) store \<Rightarrow> ('d, 'q) store"

definition recordReadAudit :: "('d, 'q, 'x) member_ws \<Rightarrow> ('d, 'q) read_audit \<Rightarrow> 'x gocontext \<Rightarrow> actor \<Rightarrow> string \<Rightarrow> string \<Rightarrow> goerr option \<Rightarrow> ('d, 'q) store \<Rightarrow> ('d, 'q) store \<times> goerr option" where
  "recordReadAudit env ra ctx a pid capability authErr s =
     (if \<not> ra_auditing ra then (s, None)
      else case gorm_Transaction (we_ctxErr env) (we_sched env) \<lparr>ReadOnly = False, RetryLocks = False, RepeatableRead = False\<rparr>
                  (\<lambda>k t. (k, we_audit env ctx a pid capability authErr t)) () s of (_, s', e) \<Rightarrow> (s', e))"

definition readWithAudit :: "('d, 'q, 'x) member_ws \<Rightarrow> ('d, 'q) read_audit \<Rightarrow> 'x gocontext \<Rightarrow> actor \<Rightarrow> string \<Rightarrow> string \<Rightarrow> tx_options \<Rightarrow> 'r \<Rightarrow> (('d, 'q) store \<Rightarrow> goerr + 'r) \<Rightarrow> ('d, 'q) store \<Rightarrow> ('d, 'q) store \<times> (goerr + 'r)" where
  "readWithAudit env ra ctx a pid capability options zero body s =
     (case read_tx env options zero body s of (s1, r) \<Rightarrow>
      case recordReadAudit env ra ctx a pid capability (errR r) s1 of
        (s2, None) \<Rightarrow> (s2, r)
      | (s2, Some e) \<Rightarrow> (ra_alert ra a pid capability e s2, r))"

definition Authorize :: "('d, 'q, 'x) member_ws \<Rightarrow> ('d, 'q) read_audit \<Rightarrow> 'x gocontext \<Rightarrow> actor \<Rightarrow> string \<Rightarrow> string \<Rightarrow> ('d, 'q) store \<Rightarrow> ('d, 'q) store \<times> goerr option" where
  "Authorize env ra ctx a pid capability s =
     (case authorizationRequestFromCapability a pid capability of
        Inl e \<Rightarrow> (s, Some e)
      | Inr request \<Rightarrow>
          (case readWithAudit env ra ctx a pid (request_capability request) \<lparr>ReadOnly = False, RetryLocks = False, RepeatableRead = True\<rparr> (we_zero env)
                  (\<lambda>t. authorizeProject (we_policy env) ctx (we_view env t) request) s of (s', r) \<Rightarrow> (s', errR r)))"

definition OwnerFreezeRefusal :: "('s, 'd, 'b, 'v, 'x) ws_env \<Rightarrow> actor \<Rightarrow> string \<Rightarrow> 's \<Rightarrow> 's \<times> goerr option" where
  "OwnerFreezeRefusal env a pid s =
     (case read_tx env read_only () (\<lambda>t. case ownerFreezeRefusal (we_view env t) a pid of Some e \<Rightarrow> Inl e | None \<Rightarrow> Inr ()) s of
        (s', r) \<Rightarrow> (s', errR r))"

section \<open>Handlers\<close>

definition manage_request :: "actor \<Rightarrow> string \<Rightarrow> auth_request" where
  "manage_request a pid = authorizationRequest a pid ''manage'' []"

definition tenant_read_request :: "actor \<Rightarrow> auth_request" where
  "tenant_read_request a = authorizationRequest a [] ''read'' []"

definition InviteProjectMember :: "('d, 'q, 'x) member_ws \<Rightarrow> ('d, 'q) mem_env \<Rightarrow> 'x gocontext \<Rightarrow> actor \<Rightarrow> string \<Rightarrow> string \<Rightarrow> invite_input \<Rightarrow> int \<Rightarrow> int \<Rightarrow> ('d, 'q) store \<Rightarrow> ('d, 'q) answer" where
  "InviteProjectMember env me ctx a pid key inp el el' s =
     (if ii_Expected inp < 1 \<or> trim_space (ii_InviteReason inp) = [] then refuse (Sentinel ErrInvalidRequest) s
      else runOperationCore env ctx a (member_spec ''inviteMember'' pid key (BInvite inp) (manage_request a pid)) (invite_write me a pid inp) el el' s)"

definition AcceptProjectInvitation :: "('d, 'q, 'x) member_ws \<Rightarrow> ('d, 'q) mem_env \<Rightarrow> 'x gocontext \<Rightarrow> actor \<Rightarrow> string \<Rightarrow> string \<Rightarrow> string \<Rightarrow> int \<Rightarrow> int \<Rightarrow> int \<Rightarrow> ('d, 'q) store \<Rightarrow> ('d, 'q) answer" where
  "AcceptProjectInvitation env me ctx a pid i key expected el el' s =
     (if expected < 1 then refuse (Sentinel ErrInvalidRequest) s
      else case read_tx env read_only () (\<lambda>t. bindR (authorizeTenant (we_policy env) ctx (we_view env t) (tenant_read_request a))
                  (\<lambda>_. accept_precheck me a pid i expected t)) s of
        (s1, Inl e) \<Rightarrow> refuse e s1
      | (s1, Inr _) \<Rightarrow>
          runOperationCore env ctx a (member_spec ''acceptMemberInvitation'' (pid @ ''/'' @ i) key (BAccept expected) (tenant_read_request a))
            (accept_write me a pid i expected) el el' s1)"

definition lifecycle_actions :: "string list" where
  "lifecycle_actions = [''suspend'', ''remove'', ''restore'', ''restore_tenant'']"

definition ChangeMemberState :: "('d, 'q, 'x) member_ws \<Rightarrow> ('d, 'q) mem_env \<Rightarrow> 'x gocontext \<Rightarrow> actor \<Rightarrow> string \<Rightarrow> string \<Rightarrow> string \<Rightarrow> lifecycle_input \<Rightarrow> int \<Rightarrow> int \<Rightarrow> ('d, 'q) store \<Rightarrow> ('d, 'q) answer" where
  "ChangeMemberState env me ctx a pid user key inp el el' s =
     (if li_Expected inp < 1 \<or> trim_space (li_Reason inp) = [] \<or> li_Action inp \<notin> set lifecycle_actions then refuse (Sentinel ErrInvalidRequest) s
      else runOperationCore env ctx a (member_spec ''memberLifecycle'' (pid @ ''/'' @ user) key (BLifecycle inp) (manage_request a pid))
             (state_write me a pid user inp) el el' s)"

definition SetMemberAssignment :: "('d, 'q, 'x) member_ws \<Rightarrow> ('d, 'q) mem_env \<Rightarrow> 'x gocontext \<Rightarrow> actor \<Rightarrow> string \<Rightarrow> string \<Rightarrow> string \<Rightarrow> assignment_input \<Rightarrow> int \<Rightarrow> int \<Rightarrow> ('d, 'q) store \<Rightarrow> ('d, 'q) answer" where
  "SetMemberAssignment env me ctx a pid user key inp el el' s =
     (if m_UserID (as_Assignment inp) \<noteq> user \<or> as_Expected inp < 1 \<or> trim_space (as_Reason inp) = [] then refuse (Sentinel ErrInvalidRequest) s
      else runOperationCore env ctx a (member_spec ''memberAssignment'' (pid @ ''/'' @ user) key (BAssignment inp) (manage_request a pid))
             (assignment_write me a pid user inp) el el' s)"

definition saveMemberPermissions :: "('d, 'q, 'x) member_ws \<Rightarrow> ('d, 'q) mem_env \<Rightarrow> 'x gocontext \<Rightarrow> actor \<Rightarrow> string \<Rightarrow> string \<Rightarrow> save_members_input \<Rightarrow> member list \<Rightarrow> int \<Rightarrow> int \<Rightarrow> ('d, 'q) store \<Rightarrow> ('d, 'q) answer" where
  "saveMemberPermissions env me ctx a pid key inp given el el' s =
     (if me_rollback me then refuse (Sentinel ErrInvalidState) s
      else if sm_Expected inp < 1 \<or> sm_Collaborators inp \<noteq> None \<or> length given > 20 then refuse (Sentinel ErrInvalidRequest) s
      else runOperationCore env ctx a (member_spec ''saveMembers'' pid key (BSave inp) (manage_request a pid))
             (permissions_write me a pid (sm_Expected inp) given) el el' s)"

definition SaveMembers :: "('d, 'q, 'x) member_ws \<Rightarrow> ('d, 'q) mem_env \<Rightarrow> 'x gocontext \<Rightarrow> actor \<Rightarrow> string \<Rightarrow> string \<Rightarrow> save_members_input \<Rightarrow> int \<Rightarrow> int \<Rightarrow> ('d, 'q) store \<Rightarrow> ('d, 'q) answer" where
  "SaveMembers env me ctx a pid key inp el el' s =
     (if me_activation me then refuse (Sentinel ErrProjectInvitationRequired) s
      else case sm_Members inp of
        Some given \<Rightarrow> saveMemberPermissions env me ctx a pid key inp given el el' s
      | None \<Rightarrow>
          (case sm_Collaborators inp of
             None \<Rightarrow> refuse (Sentinel ErrInvalidRequest) s
           | Some given \<Rightarrow>
               let ids = sort given in
               if sm_Expected inp < 1 \<or> length given > 20 \<or> \<not> distinct ids \<or> \<not> list_all (\<lambda>i. validMemberID i \<and> i \<noteq> UserID a) ids
                 then refuse (Sentinel ErrInvalidRequest) s
               else runOperationCore env ctx a (member_spec ''saveMembers'' pid key (BSave inp) (manage_request a pid))
                      (collaborators_write me a pid (sm_Expected inp) ids) el el' s))"

definition TransferOwner :: "('d, 'q, 'x) member_ws \<Rightarrow> ('d, 'q) mem_env \<Rightarrow> 'x gocontext \<Rightarrow> actor \<Rightarrow> string \<Rightarrow> string \<Rightarrow> transfer_input \<Rightarrow> int \<Rightarrow> int \<Rightarrow> ('d, 'q) store \<Rightarrow> ('d, 'q) answer" where
  "TransferOwner env me ctx a pid key inp el el' s =
     (if me_rollback me then refuse (Sentinel ErrInvalidState) s
      else if ti_Expected inp < 1 \<or> \<not> validMemberID (ti_User inp) \<or> ti_User inp = UserID a then refuse (Sentinel ErrInvalidRequest) s
      else case OwnerFreezeRefusal env a pid s of
        (s1, Some e) \<Rightarrow> refuse e s1
      | (s1, None) \<Rightarrow>
          runOperationCore env ctx a (member_spec ''transferOwner'' pid key (BTransfer inp) (manage_request a pid)) (transfer_write me a pid inp) el el' s1)"

definition RequestOwnerTransfer :: "('d, 'q, 'x) member_ws \<Rightarrow> ('d, 'q) mem_env \<Rightarrow> 'x gocontext \<Rightarrow> actor \<Rightarrow> string \<Rightarrow> string \<Rightarrow> transfer_input \<Rightarrow> int \<Rightarrow> int \<Rightarrow> ('d, 'q) store \<Rightarrow> ('d, 'q) answer" where
  "RequestOwnerTransfer env me ctx a pid key inp0 el el' s =
     (let inp = inp0\<lparr>ti_User := trim_space (ti_User inp0)\<rparr> in
      if ti_User inp = [] \<or> ti_User inp = UserID a \<or> ti_Expected inp < 1 then refuse (Sentinel ErrInvalidRequest) s
      else case OwnerFreezeRefusal env a pid s of
        (s1, Some e) \<Rightarrow> refuse e s1
      | (s1, None) \<Rightarrow>
          runOperationCore env ctx a (member_spec ''requestOwnerTransfer'' pid key (BTransfer inp) (tenant_read_request a)) (request_write me a pid inp) el el' s1)"

definition AcceptOwnerTransfer :: "('d, 'q, 'x) member_ws \<Rightarrow> ('d, 'q) read_audit \<Rightarrow> ('d, 'q) mem_env \<Rightarrow> 'x gocontext \<Rightarrow> actor \<Rightarrow> string \<Rightarrow> string \<Rightarrow> string \<Rightarrow> int \<Rightarrow> int \<Rightarrow> ('d, 'q) store \<Rightarrow> ('d, 'q) answer" where
  "AcceptOwnerTransfer env ra me ctx a pid i key el el' s =
     (case (if me_activation me then
              (case RequireHumanDecision ctx (Sentinel ErrHumanDecisionRequired) of
                 Some e \<Rightarrow> (s, Some e)
               | None \<Rightarrow> Authorize env ra ctx a pid ''read'' s)
            else (s, None)) of
        (s1, Some e) \<Rightarrow> refuse e s1
      | (s1, None) \<Rightarrow>
          runOperationCore env ctx a (member_spec ''acceptOwnerTransfer'' (pid @ ''/'' @ i) key (BAcceptTransfer i) (tenant_read_request a))
            (accept_transfer_write me ctx a pid i) el el' s1)"

definition RejectOwnerTransfer :: "('d, 'q, 'x) member_ws \<Rightarrow> ('d, 'q) mem_env \<Rightarrow> 'x gocontext \<Rightarrow> actor \<Rightarrow> string \<Rightarrow> string \<Rightarrow> string \<Rightarrow> decision_input \<Rightarrow> int \<Rightarrow> int \<Rightarrow> ('d, 'q) store \<Rightarrow> ('d, 'q) answer" where
  "RejectOwnerTransfer env me ctx a pid i key inp el el' s =
     (if di_Expected inp < 1 \<or> trim_space (di_Reason inp) = [] then refuse (Sentinel ErrInvalidRequest) s
      else runOperationCore env ctx a (member_spec ''rejectOwnerTransfer'' (pid @ ''/'' @ i) key (BDecision inp) (authorizationRequest a pid ''read'' []))
             (reject_transfer_write me a pid i inp) el el' s)"

definition SaveProjectAPIKeyGrant :: "('d, 'q, 'x) member_ws \<Rightarrow> ('d, 'q) mem_env \<Rightarrow> 'x gocontext \<Rightarrow> actor \<Rightarrow> string \<Rightarrow> string \<Rightarrow> key_grant \<Rightarrow> int \<Rightarrow> int \<Rightarrow> ('d, 'q) store \<Rightarrow> ('d, 'q) answer" where
  "SaveProjectAPIKeyGrant env me ctx a pid key inp el el' s =
     (if kg_KeyID inp = 0 \<or> kg_ExpectedProjectVersion inp < 1 \<or> trim_space (kg_Reason inp) = [] then refuse (Sentinel ErrInvalidRequest) s
      else if \<not> list_all (\<lambda>c. c = ''read'') (kg_Capabilities inp) then refuse (Sentinel ErrInvalidRequest) s
      else runOperationCore env ctx a (member_spec ''apiKeyProjectGrant'' pid key (BGrant inp) (manage_request a pid)) (grant_write me a pid inp) el el' s)"

section \<open>Reads\<close>

definition decode_invitation :: "record_row \<Rightarrow> goerr + invitation" where
  "decode_invitation r = (case rr_Payload r of RInvitation i \<Rightarrow> Inr i | _ \<Rightarrow> Inl (Raw ''json: cannot unmarshal''))"

definition ListProjectInvitations :: "('d, 'q, 'x) member_ws \<Rightarrow> ('d, 'q) mem_env \<Rightarrow> 'x gocontext \<Rightarrow> actor \<Rightarrow> string \<Rightarrow> ('d, 'q) store \<Rightarrow> ('d, 'q) store \<times> (goerr + invitation list)" where
  "ListProjectInvitations env me ctx a pid = read_tx env read_only [] (\<lambda>st.
     bindR (authorizeTenant (we_policy env) ctx (we_view env st) (tenant_read_request a)) (\<lambda>_.
     bindR (Project (me_store me) st (TenantID a) pid) (\<lambda>p.
       let member = (case projectMember p (UserID a) of None \<Rightarrow> False
                     | Some m \<Rightarrow> (governanceRole m = ''owner'' \<or> governanceRole m = ''admin'') \<and> (m_Status m = [] \<or> m_Status m = ''active''));
           manager = (member \<and> okR (authorizeProject (we_policy env) ctx (we_view env st) (manage_request a pid)))
       in bindR (mapR decode_invitation (ListProjectRecords st pid ''invitation'')) (\<lambda>items.
            let result = map (\<lambda>i. if iv_Status i = ''invited'' \<and> \<not> me_now me < iv_ExpiresAt i then i\<lparr>iv_Status := ''expired''\<rparr> else i)
                           (filter (\<lambda>i. manager \<or> iv_UserID i = UserID a) items)
            in if \<not> manager \<and> result = [] then Inl (Sentinel ErrNotFound) else Inr result))))"

text \<open>\<^verbatim>\<open>listTenantInvitations\<close>: the join with the projects keeps the records of the tenant's projects.\<close>

definition listTenantInvitations :: "('d, 'q) mem_env \<Rightarrow> ('d, 'q) store \<Rightarrow> nat \<Rightarrow> string \<Rightarrow> goerr + invitation list" where
  "listTenantInvitations me st tenant user =
     bindR (mapR decode_invitation (sort_key rr_ID (filter (\<lambda>r. rr_Kind r = ''invitation'' \<and>
              list_ex (\<lambda>p. pr_ID p = rr_ProjectID r \<and> pr_TenantID p = tenant) (st_projects st)) (st_records st)))) (\<lambda>items.
       Inr (filter (\<lambda>i. iv_UserID i = user \<and> iv_Status i = ''invited'' \<and> me_now me < iv_ExpiresAt i) items))"

definition ListMyProjectInvitations :: "('d, 'q, 'x) member_ws \<Rightarrow> ('d, 'q) mem_env \<Rightarrow> 'x gocontext \<Rightarrow> actor \<Rightarrow> ('d, 'q) store \<Rightarrow> ('d, 'q) store \<times> (goerr + invitation list)" where
  "ListMyProjectInvitations env me ctx a = read_tx env read_only [] (\<lambda>st.
     bindR (authorizeTenant (we_policy env) ctx (we_view env st) (tenant_read_request a)) (\<lambda>_. listTenantInvitations me st (TenantID a) (UserID a)))"

definition listOwnerTransfers :: "('d, 'q) mem_env \<Rightarrow> ('d, 'q) store \<Rightarrow> string \<Rightarrow> 'd project \<Rightarrow> string \<Rightarrow> owner_transfer list" where
  "listOwnerTransfers me st pid p user =
     map (\<lambda>t. if ot_Status t = ''pending'' \<and> me_now me - ot_CreatedAt t > transfer_window then t\<lparr>ot_Status := ''expired''\<rparr> else t)
       (filter (\<lambda>t. OwnerMayAct p (plain_actor 0 user) \<or> ot_FromUserID t = user \<or> ot_ToUserID t = user)
         (sort_key (\<lambda>t. (- ot_CreatedAt t, ot_ID t)) (filter (\<lambda>t. ot_ProjectID t = pid) (st_transfers st))))"

definition ListOwnerTransfers :: "('d, 'q, 'x) member_ws \<Rightarrow> ('d, 'q) mem_env \<Rightarrow> 'x gocontext \<Rightarrow> actor \<Rightarrow> string \<Rightarrow> ('d, 'q) store \<Rightarrow> ('d, 'q) store \<times> (goerr + owner_transfer list)" where
  "ListOwnerTransfers env me ctx a pid = read_tx env read_only [] (\<lambda>st.
     bindR (authorizeProject (we_policy env) ctx (we_view env st) (authorizationRequest a pid ''read'' []))
       (\<lambda>p. Inr (listOwnerTransfers me st pid p (UserID a))))"

record effective_permission =
  ep_Capability :: string
  ep_ProjectVersion :: int
  ep_ContextRevision :: int
  ep_Target :: string
  ep_Allowed :: bool
  ep_ReasonCode :: string

definition effective_in :: "('s, 'd, 'b, 'v, 'x) ws_env \<Rightarrow> 'x gocontext \<Rightarrow> actor \<Rightarrow> string \<Rightarrow> string \<Rightarrow> auth_request \<Rightarrow> 's \<Rightarrow> goerr + effective_permission" where
  "effective_in env ctx a pid capability request st =
     (let view = we_view env st in
      bindR (authorizeProject (we_policy env) ctx view (authorizationRequest a pid ''read'' [])) (\<lambda>p.
        let base = (case cut (CHR '':'') capability of Some (b, _) \<Rightarrow> b | None \<Rightarrow> capability);
            target = (case cut (CHR '':'') capability of Some (_, t) \<Rightarrow> t | None \<Rightarrow> []);
            authority = OwnerAuthorityOf view p (TenantID a);
            answer = (\<lambda>allowed reason. Inr \<lparr>ep_Capability = capability, ep_ProjectVersion = p_ProjectVersion p,
                        ep_ContextRevision = p_CurrentContextRevision p, ep_Target = target, ep_Allowed = allowed, ep_ReasonCode = reason\<rparr>)
        in if okR (authorizeProject (we_policy env) ctx view request) then answer True ''allowed''
           else if OwnerOnlyCapability base \<and> oa_OwnerUserID authority \<noteq> [] \<and> \<not> oa_Available authority then answer False ''owner_unavailable''
           else answer False ''capability_or_scope_denied''))"

definition EffectivePermission :: "('s, 'd, 'b, 'v, 'x) ws_env \<Rightarrow> effective_permission \<Rightarrow> 'x gocontext \<Rightarrow> actor \<Rightarrow> string \<Rightarrow> string \<Rightarrow> 's \<Rightarrow> 's \<times> (goerr + effective_permission)" where
  "EffectivePermission env zero ctx a pid capability s =
     (case authorizationRequestFromCapability a pid capability of
        Inl e \<Rightarrow> (s, Inl e)
      | Inr request \<Rightarrow> read_tx env read_only zero (effective_in env ctx a pid capability request) s)"

definition OwnerAvailability :: "('s, 'd, 'b, 'v, 'x) ws_env \<Rightarrow> owner_availability \<Rightarrow> 'x gocontext \<Rightarrow> actor \<Rightarrow> string \<Rightarrow> 's \<Rightarrow> 's \<times> (goerr + owner_availability)" where
  "OwnerAvailability env zero ctx a pid = read_tx env read_only zero (\<lambda>st.
     bindR (authorizeProject (we_policy env) ctx (we_view env st) (authorizationRequest a pid ''read'' []))
       (\<lambda>p. Inr (OwnerAvailabilityOf (we_view env st) p (TenantID a))))"

end
