(* ===== verification/Owner_Properties.thy ===== *)
theory Owner_Properties
  imports Ownership Membership_Service
begin

text \<open>
  The properties of the member and owner context: the single owner of a project, the refinement of the
  member tables to an abstract owner register, invitations, transfers, tenant suspension, optimistic
  concurrency, and two defects with concrete stores.
\<close>

section \<open>From the invariant to a project\<close>

lemma owners_in_filter: "owners_in ms = m_UserID ` set (filter (\<lambda>m. m_Role m = ''owner'') ms)"
  by (simp add: owners_in_def)

lemma subsingleton: "\<forall>u\<in>A. \<forall>v\<in>A. u = v \<Longrightarrow> A = {} \<or> (\<exists>u. A = {u})"
  by blast

lemma ms_ok_owner: "ms_ok True ms \<Longrightarrow> \<exists>u. owners_in ms = {u}"
  by (auto simp: ms_ok_def)

lemma ms_ok_unique:
  assumes "ms_ok g ms" "distinct (map m_UserID ms)"
  shows "length (filter (\<lambda>m. m_Role m = ''owner'') ms) \<le> 1" "g \<Longrightarrow> length (filter (\<lambda>m. m_Role m = ''owner'') ms) = 1"
proof -
  let ?os = "filter (\<lambda>m. m_Role m = ''owner'') ms"
  have d: "distinct (map m_UserID ?os)" using assms(2) by (rule distinct_map_filter)
  have "set (map m_UserID ?os) = owners_in ms" by (simp add: owners_in_filter)
  then have card: "length ?os = card (owners_in ms)" using distinct_card [OF d] by simp
  have "owners_in ms = {} \<or> (\<exists>u. owners_in ms = {u})" using assms(1) unfolding ms_ok_def by (intro subsingleton) (rule conjunct1)
  then have "card (owners_in ms) \<le> 1" by (elim disjE exE) simp_all
  then show "length ?os \<le> 1" by (simp only: card)
  show "length ?os = 1" if g
  proof -
    have "\<exists>u. owners_in ms = {u}" using assms(1) that by (simp add: ms_ok_owner)
    then have "card (owners_in ms) = 1" by (elim exE) simp
    then show ?thesis by (simp only: card)
  qed
qed

text \<open>The transfer that was accepted reads as accepted.\<close>

lemma accept_closes:
  assumes "accept_transfer_write me ctx a pid i q st = Inr (w, st')"
  shows "\<exists>t'. OwnerTransfer st' pid i = Inr t' \<and> ot_Status t' = ''accepted''"
proof -
  from assms obtain p t st1 st2 st3 st4 st5 where t: "OwnerTransfer st pid i = Inr t" "ot_Status t = ''pending''"
    and e: "EnsureMember pid (UserID a) ''collaborator'' st = Inr st1"
    and up: "UpdateProject (me_store me) (TenantID a) p (p\<lparr>p_ProjectVersion := p_ProjectVersion p + 1\<rparr>) st1 = Inr st2"
    and r1: "SetMemberRole pid (ot_FromUserID t) ''collaborator'' st2 = Inr st3" and r2: "SetMemberRole pid (UserID a) ''owner'' st3 = Inr st4"
    and ac: "store_AcceptOwnerTransfer pid i (ot_ExpectedProjectVersion t) (me_now me) st4 = Inr st5"
    and au: "st' = st5 \<or> recordProjectAuditEvent (me_newID me 0) (me_now me) a (p_ID p) ''owner.transfer.accept'' (ot_ID t) [] st5 = Inr st'"
    by (rule accept_transfer_ok)
  let ?f = "\<lambda>r. if ot_ProjectID r = pid \<and> ot_ID r = i \<and> ot_Status r = ''pending'' \<and> ot_ExpectedProjectVersion r = ot_ExpectedProjectVersion t
      then r\<lparr>ot_Status := ''accepted'', ot_AcceptedAt := Some (me_now me)\<rparr> else r"
  from up have "same_members st1 st2" by (rule UpdateProject_ok)
  then have "st_transfers st4 = st_transfers st"
    using EnsureMember_ok(4) [OF e] SetMemberRole_ok(5) [OF r1] SetMemberRole_ok(5) [OF r2] by (simp add: same_members_def)
  then have "st_transfers st' = map ?f (st_transfers st)" using ac au by (auto simp: store_AcceptOwnerTransfer_def store_simps audit_frames)
  moreover have "find (\<lambda>r. ot_ProjectID r = pid \<and> ot_ID r = i) (map ?f (st_transfers st)) = map_option ?f (find (\<lambda>r. ot_ProjectID r = pid \<and> ot_ID r = i) (st_transfers st))"
    by (rule find_map_pred) auto
  moreover have "find (\<lambda>r. ot_ProjectID r = pid \<and> ot_ID r = i) (st_transfers st) = Some t" "ot_ProjectID t = pid" "ot_ID t = i"
    using t(1) by (auto simp: OwnerTransfer_def store_simps dest: find_Some_in)
  ultimately show ?thesis using t(2) by (simp add: OwnerTransfer_def storageError_def)
qed

section \<open>The abstract owner register\<close>

text \<open>What the member tables promise their readers: a register that maps a project to its owner and version.\<close>

definition register :: "('d, 'q) store \<Rightarrow> string \<Rightarrow> (string \<times> int) option" where
  "register st pid = (if pid \<in> project_ids st then Some (the_elem (owner_set st pid), the (version_of st pid)) else None)"

inductive register_step :: "(string \<Rightarrow> (string \<times> int) option) \<Rightarrow> (string \<Rightarrow> (string \<times> int) option) \<Rightarrow> bool" where
  keep: "(\<And>pid u v. A pid = Some (u, v) \<Longrightarrow> \<exists>v'\<ge>v. B pid = Some (u, v')) \<Longrightarrow> register_step A B"
| move: "A pid = Some (u, v) \<Longrightarrow> register_step A (A(pid \<mapsto> (u', v + 1)))"

lemma keeps_owner_register:
  assumes "keeps_owner True st st'"
  shows "register_step (register st) (register st')"
proof (rule register_step.keep)
  fix pid u v
  assume "register st pid = Some (u, v)"
  then have "pid \<in> project_ids st" "u = the_elem (owner_set st pid)" "v = the (version_of st pid)" by (auto simp: register_def split: if_splits)
  then show "\<exists>v'\<ge>v. register st' pid = Some (u, v')" using assms by (fastforce simp: keeps_owner_def register_def)
qed

lemma moves_owner_register:
  assumes "moves_owner st st' pid u"
  shows "register_step (register st) (register st')"
proof -
  from assms obtain v where b: "bump st st' pid v" and o: "owner_set st' pid = {u}" "\<And>q. q \<noteq> pid \<Longrightarrow> owner_set st' q = owner_set st q"
    by (auto simp: moves_owner_def)
  have "register st' q = ((register st)(pid \<mapsto> (u, v + 1))) q" for q
    using b o bump_ids [OF b] by (cases "q = pid") (auto simp: register_def bump_def)
  then have "register st' = (register st)(pid \<mapsto> (u, v + 1))" by (rule ext)
  moreover have "register st pid = Some (the_elem (owner_set st pid), v)" using b bump_ids [OF b] by (simp add: register_def bump_def)
  ultimately show ?thesis using register_step.move by simp
qed

section \<open>A concrete workspace\<close>

definition demo_se :: "(unit, unit) store_env" where
  "demo_se = \<lparr>se_validCopy = (\<lambda>c. True), se_saveBinding = (\<lambda>c q. Inr q), se_provenance = (\<lambda>p q. Inr q), se_chapter = (\<lambda>q pid c. Inr ()),
     se_chapterIDs = (\<lambda>q pid. Inr []), se_resourceExists = (\<lambda>q pid k i. Inr False), se_hasKey = (\<lambda>q t k. Inr False),
     se_machineKey = (\<lambda>q t k. Inr ()), se_keyRow = (\<lambda>q k. Inl (Sentinel ErrNotFound))\<rparr>"

definition tenant_row :: "string \<Rightarrow> string \<Rightarrow> tenant_member_row" where
  "tenant_row u role = \<lparr>tr_TenantID = 7, tr_UserID = u, tr_Role = role, tr_Status = ''active'', tr_Deleted = False\<rparr>"

definition demo_st0 :: "(unit, unit) store" where
  "demo_st0 = \<lparr>st_tenants = [tenant_row ''alice'' ''contributor'', tenant_row ''bob'' ''contributor'', tenant_row ''carol'' ''contributor''],
     st_projects = [], st_copies = [], st_members = [], st_perms = [], st_transfers = [], st_records = [], st_audits = [], st_ops = [], st_rest = ()\<rparr>"

definition aid :: "string \<Rightarrow> string" where "aid k = ''audit-'' @ k"

definition iid :: "string \<Rightarrow> string" where "iid k = ''item-'' @ k"

lemma id_inj [simp]: "aid k = aid k' \<longleftrightarrow> k = k'" "iid k = iid k' \<longleftrightarrow> k = k'"
  by (simp_all add: aid_def iid_def)

definition demo_me :: "string \<Rightarrow> (unit, unit) mem_env" where
  "demo_me k = \<lparr>me_store = demo_se, me_now = 0, me_newID = (\<lambda>n. if n = 0 then aid k else iid k), me_activation = False, me_rollback = False\<rparr>"

definition demo_assignment :: "string \<Rightarrow> string \<Rightarrow> member" where
  "demo_assignment u role = \<lparr>m_UserID = u, m_Role = [], m_GovernanceRole = role, m_FunctionRoles = [], m_FunctionScopes = [], m_Status = []\<rparr>"

definition demo_new :: "unit project" where
  "demo_new = (demo_project [owner_assignment ''alice''])\<lparr>p_Status := ''draft'', p_ProjectVersion := 1\<rparr>"

definition demo_prow :: "int \<Rightarrow> project_row" where
  "demo_prow v = \<lparr>pr_ID = ''p1'', pr_TenantID = 7, pr_Name = p_Name demo_new, pr_Status = ''draft'', pr_ProjectVersion = v, pr_SpecRevision = p_SpecRevision demo_new,
     pr_CurrentContextRevision = p_CurrentContextRevision demo_new, pr_DeliveryStatus = p_DeliveryStatus demo_new,
     pr_BaselineConfirmationID = p_BaselineConfirmationID demo_new, pr_Spec = p_Spec demo_new, pr_SpecFields = p_SpecFields demo_new,
     pr_TemplateID = p_TemplateID demo_new, pr_TemplateVersion = p_TemplateVersion demo_new, pr_TemplateCopyVersion = 0, pr_DiscardedAt = None, pr_CreatedAt = 0\<rparr>"

definition demo_at :: "int \<Rightarrow> member list \<Rightarrow> record_row list \<Rightarrow> audit_row list \<Rightarrow> (unit, unit) store" where
  "demo_at v ms recs aus = demo_st0\<lparr>st_projects := [demo_prow v], st_members := map (member_row_of ''p1'') ms, st_perms := map (perm_row_of ''p1'') ms,
     st_records := recs, st_audits := aus\<rparr>"

definition demo_p :: "int \<Rightarrow> member list \<Rightarrow> unit project" where
  "demo_p v ms = demo_new\<lparr>p_ProjectVersion := v, p_DeliveryStatus := (if p_DeliveryStatus demo_new = [] then ''NOT_READY'' else p_DeliveryStatus demo_new), p_Members := ms\<rparr>"

text \<open>A member whose row and permission row read back as the member.\<close>

definition tidy :: "member \<Rightarrow> bool" where
  "tidy m \<longleftrightarrow> m_GovernanceRole m \<noteq> [] \<and> m_Status m \<noteq> [] \<and> (m_Role m = ''owner'' \<longrightarrow> m_GovernanceRole m = ''owner'')"

definition tidy_list :: "member list \<Rightarrow> bool" where
  "tidy_list ms \<longleftrightarrow> sorted (map m_UserID ms) \<and> distinct (map m_UserID ms) \<and> list_all tidy ms"

lemma demo_create: "InsertProject demo_se 7 0 demo_new demo_st0 = Inr (demo_at 1 [owner_assignment ''alice''] [] [])"
  by (simp add: InsertProject_def insert_row_def demo_at_def demo_st0_def demo_prow_def demo_new_def demo_project_def insertMember_def
      permissionSchemaError_def member_row_of_def perm_row_of_def default_governance_def owner_assignment_def)

lemma tidy_view: "tidy m \<Longrightarrow> member_view (Some (perm_row_of pid m)) (member_row_of pid m) = m"
  by (simp add: tidy_def member_view_def member_row_of_def perm_row_of_def default_governance_def Let_def)

lemma demo_find:
  assumes "distinct (map m_UserID ms)" "m \<in> set ms"
  shows "find (\<lambda>q. pe_ProjectID q = pid \<and> pe_UserID q = m_UserID m) (map (perm_row_of pid) ms) = Some (perm_row_of pid m)"
  using status_of_replaced [OF assms, of pid "[]"] by simp

lemma demo_roster:
  assumes "tidy_list ms"
  shows "project_members (demo_at v ms recs aus) ''p1'' = ms"
proof -
  have s: "sort_key mr_UserID (map (member_row_of ''p1'') ms) = map (member_row_of ''p1'') ms"
    using assms by (intro sort_key_id_if_sorted) (simp add: tidy_list_def comp_def)
  have "map (\<lambda>m. member_view (find (\<lambda>q. pe_ProjectID q = ''p1'' \<and> pe_UserID q = m_UserID m) (map (perm_row_of ''p1'') ms)) (member_row_of ''p1'' m)) ms = ms"
    using assms by (intro map_idI) (simp add: demo_find tidy_view tidy_list_def list_all_iff)
  then show ?thesis by (simp add: project_members_def demo_at_def s comp_def filter_id_conv)
qed

lemma demo_Project: "tidy_list ms \<Longrightarrow> Project demo_se (demo_at v ms recs aus) 7 ''p1'' = Inr (demo_p v ms)"
  by (simp add: Project_def demo_at_def [THEN arg_cong [where f = st_projects]] storageError_def projectView_def demo_roster)
     (simp add: demo_prow_def demo_p_def demo_new_def demo_project_def)

definition demo_audit :: "string \<Rightarrow> actor \<Rightarrow> string \<Rightarrow> string \<Rightarrow> string \<Rightarrow> audit_row" where
  "demo_audit k a act tgt rsn = \<lparr>ar_ID = aid k, ar_ProjectID = ''p1'', ar_ActorID = UserID a, ar_Action = act, ar_Target = tgt,
     ar_TenantID = TenantID a, ar_UserID = UserID a, ar_Reason = rsn, ar_Decision = ''allow'', ar_CreatedAt = 0\<rparr>"

lemma demo_update:
  "UpdateProject demo_se 7 (demo_p v ms) ((demo_p v ms)\<lparr>p_ProjectVersion := v', p_Members := ms'\<rparr>) (demo_at v ms recs aus) =
     Inr ((demo_at v ms recs aus)\<lparr>st_projects := [demo_prow v']\<rparr>)"
  by (simp add: UpdateProject_def affected_def update_rows_def demo_at_def demo_st0_def demo_prow_def demo_p_def demo_new_def demo_project_def
      project_columns_def persistTemplateCopyTransition_def demo_se_def)

lemma demo_replace:
  "distinct (map m_UserID ms') \<Longrightarrow> ReplaceMembers ''p1'' ms' ((demo_at v ms recs aus)\<lparr>st_projects := [demo_prow v']\<rparr>) = Inr (demo_at v' ms' recs aus)"
  by (simp add: ReplaceMembers_ok) (simp add: demo_at_def)

lemma demo_commit:
  assumes "distinct (map m_UserID ms')" "aid k \<notin> ar_ID ` set aus" "TenantID a = 7"
  shows "commitMembers (demo_me k) a ''p1'' (demo_p v ms) ms' act tgt rsn (demo_at v ms recs aus) =
     Inr (demo_p (v + 1) ms', demo_at (v + 1) ms' recs (aus @ [demo_audit k a act tgt rsn]))"
proof -
  have v: "p_ProjectVersion (demo_p v ms) = v" by (simp add: demo_p_def)
  have "recordProjectAuditEvent (aid k) 0 a ''p1'' act tgt rsn (demo_at (v + 1) ms' recs aus) =
      Inr (demo_at (v + 1) ms' recs (aus @ [demo_audit k a act tgt rsn]))"
    using assms(2) by (simp add: recordProjectAuditEvent_def RecordAudit_def insert_row_def demo_at_def demo_audit_def)
  then show ?thesis
    using demo_update [where v' = "v + 1"] demo_replace [OF assms(1), where v' = "v + 1"] assms(3)
    by (simp add: commitMembers_def Let_def v demo_me_def) (simp add: demo_p_def)
qed

lemma demo_me_sel [simp]: "me_store (demo_me k) = demo_se" "me_now (demo_me k) = 0" "me_newID (demo_me k) 0 = aid k" "me_newID (demo_me k) (Suc 0) = iid k"
  "me_activation (demo_me k) = False" "me_rollback (demo_me k) = False"
  by (simp_all add: demo_me_def)

text \<open>The members of the demo project, and the writes on it.\<close>

definition dm :: "string \<Rightarrow> string \<Rightarrow> string \<Rightarrow> string \<Rightarrow> member" where
  "dm u role governance status = \<lparr>m_UserID = u, m_Role = role, m_GovernanceRole = governance, m_FunctionRoles = [], m_FunctionScopes = [], m_Status = status\<rparr>"

lemma dm_simps [simp]: "m_UserID (dm u r g s) = u" "m_Role (dm u r g s) = r" "m_GovernanceRole (dm u r g s) = g" "m_Status (dm u r g s) = s"
  "dm u r g s = dm u' r' g' s' \<longleftrightarrow> u = u' \<and> r = r' \<and> g = g' \<and> s = s'"
  by (auto simp: dm_def)

definition demo_invitation :: "string \<Rightarrow> string \<Rightarrow> string \<Rightarrow> string \<Rightarrow> string \<Rightarrow> invitation" where
  "demo_invitation k who u governance status = \<lparr>iv_ID = iid k, iv_ProjectID = ''p1'', iv_UserID = u, iv_Version = 1,
     iv_Assignment = dm u ''collaborator'' governance ''invited'', iv_Status = status, iv_Inviter = who, iv_Reason = ''work'',
     iv_ExpiresAt = transfer_window, iv_CreatedAt = 0, iv_AcceptedAt = (if status = ''accepted'' then Some 0 else None)\<rparr>"

definition demo_record :: "invitation \<Rightarrow> record_row" where
  "demo_record i = \<lparr>rr_ProjectID = ''p1'', rr_Kind = ''invitation'', rr_ID = iv_ID i, rr_Version = (if iv_Status i = ''accepted'' then 2 else 1), rr_Payload = RInvitation i\<rparr>"

definition demo_invite_input :: "int \<Rightarrow> string \<Rightarrow> string \<Rightarrow> invite_input" where
  "demo_invite_input v u governance = \<lparr>ii_Expected = v, ii_Assignment = dm u [] governance [], ii_InviteReason = ''work'', ii_InvitationID = [], ii_ExpectedInvitation = 0\<rparr>"

lemma demo_invitable: "validMemberID ''alice''" "validMemberID ''bob''" "validMemberID ''carol''"
  by (simp_all add: validMemberID_def trim_space_visible visible_ascii_def ncode_def)

lemma demo_active: "u \<in> {''alice'', ''bob'', ''carol''} \<Longrightarrow> ActiveMember (demo_at v ms recs aus) (plain_actor 7 u)"
  by (auto simp: ActiveMember_def demo_at_def demo_st0_def tenant_row_def plain_actor_def)

lemma demo_p_sel [simp]: "p_ProjectVersion (demo_p v ms) = v" "p_Members (demo_p v ms) = ms" "Archived (demo_p v ms) = False" "p_ID (demo_p v ms) = ''p1''"
  by (simp_all add: demo_p_def demo_new_def demo_project_def Archived_def)

lemma demo_invited:
  assumes "u \<in> {''alice'', ''bob'', ''carol''}" "validMemberID u" "governance \<in> {''member'', ''admin''}" "aid k \<notin> ar_ID ` set aus"
    and "iid k \<notin> rr_ID ` set recs" "TenantID a = 7"
    and "case projectMember (demo_p v ms) u of Some old \<Rightarrow> m_Status old = ''invited'' \<or> m_Status old = ''removed'' | None \<Rightarrow> True"
    and "ms' = (if u \<in> m_UserID ` set ms then putMember (dm u ''collaborator'' governance ''invited'') ms else ms @ [dm u ''collaborator'' governance ''invited''])"
    and "distinct (map m_UserID ms')"
  shows "\<exists>w. invite_write (demo_me k) a ''p1'' (demo_invite_input v u governance) (demo_p v ms) (demo_at v ms recs aus) =
     Inr (w, demo_at (v + 1) ms' (recs @ [demo_record (demo_invitation k (UserID a) u governance ''invited'')])
       (aus @ [demo_audit k a ''member.invite'' u ''work'']))"
proof -
  let ?m = "dm u ''collaborator'' governance ''invited''"
  let ?i = "demo_invitation k (UserID a) u governance ''invited''"
  have val: "validateInvitation (demo_me k) (demo_at v ms recs aus) (demo_p v ms) (dm u [] governance []) = Inr ()"
    using assms(2,3) by (auto simp: validateInvitation_def dm_def validFunctionRoles_def)
  have put: "PutProjectRecord ''p1'' ''invitation'' (iid k) 0 (RInvitation ?i) (demo_at v ms recs aus) = Inr (demo_at v ms (recs @ [demo_record ?i]) aus)"
    using assms(5) by (auto simp: PutProjectRecord_def insert_row_def demo_at_def demo_record_def demo_invitation_def record_key_def image_iff)
  have m: "(dm u [] governance [])\<lparr>m_Role := ''collaborator'', m_Status := ''invited''\<rparr> = ?m" by (simp add: dm_def)
  have i: "\<lparr>iv_ID = iid k, iv_ProjectID = ''p1'', iv_UserID = u, iv_Version = 1, iv_Assignment = ?m, iv_Status = ''invited'', iv_Inviter = UserID a,
     iv_Reason = ''work'', iv_ExpiresAt = transfer_window, iv_CreatedAt = 0, iv_AcceptedAt = None\<rparr> = ?i" by (simp add: demo_invitation_def)
  have old: "\<not> (case projectMember (demo_p v ms) u of Some old \<Rightarrow> m_Status old \<noteq> ''invited'' \<and> m_Status old \<noteq> ''removed'' | None \<Rightarrow> False)"
    using assms(7) by (auto split: option.splits)
  show ?thesis
    using demo_commit [OF assms(9,4,6), where ms = ms and v = v and act = "''member.invite''" and tgt = u and rsn = "''work''" and recs = "recs @ [demo_record ?i]"]
      assms(6) demo_active [OF assms(1)] old put
    by (cases "u \<in> m_UserID ` set ms") (simp_all add: invite_write_def demo_invite_input_def Let_def m i val invitation_version_def finished_def assms(8))
qed

lemma demo_accepted:
  assumes "tidy_list ms" "dm u ''collaborator'' governance ''invited'' \<in> set ms" "validMemberID u" "governance \<in> {''member'', ''admin''}"
    and "aid k' \<notin> ar_ID ` set aus" "iid k \<notin> rr_ID ` set recs"
    and "ms' = map (\<lambda>x. if m_UserID x = u then dm u ''collaborator'' governance ''active'' else x) ms" "distinct (map m_UserID ms')"
  shows "\<exists>w. accept_write (demo_me k') (plain_actor 7 u) ''p1'' (iid k) 1 q
        (demo_at v ms (recs @ [demo_record (demo_invitation k who u governance ''invited'')]) aus) =
     Inr (w, demo_at (v + 1) ms' (recs @ [demo_record (demo_invitation k who u governance ''accepted'')])
       (aus @ [demo_audit k' (plain_actor 7 u) ''member.accept'' u []]))"
proof -
  let ?i = "demo_invitation k who u governance ''invited''" and ?j = "demo_invitation k who u governance ''accepted''"
  let ?st = "demo_at v ms (recs @ [demo_record ?i]) aus"
  have fresh: "rr_ID x \<noteq> iid k" if "x \<in> set recs" for x using assms(6) that by force
  have find: "find (\<lambda>r. rr_ProjectID r = ''p1'' \<and> rr_Kind r = ''invitation'' \<and> rr_ID r = iid k) recs = None"
    using fresh by (auto simp: find_None_iff')
  have r: "rr_ProjectID (demo_record ?i) = ''p1''" "rr_Kind (demo_record ?i) = ''invitation''" "rr_ID (demo_record ?i) = iid k" "rr_Version (demo_record ?i) = 1"
    "rr_Payload (demo_record ?i) = RInvitation ?i" by (simp_all add: demo_record_def demo_invitation_def)
  have get: "getInvitation ?st ''p1'' (iid k) = Inr (1, ?i)"
    by (simp add: getInvitation_def GetProjectRecord_def demo_at_def find_append find r storageError_def)
  have none: "filter (\<lambda>r. rr_ProjectID r = ''p1'' \<and> rr_Kind r = ''invitation'' \<and> rr_ID r = iid k \<and> rr_Version r = 1) recs = []"
    using fresh by (auto simp: filter_empty_conv)
  have keep: "map (\<lambda>r. if rr_ProjectID r = ''p1'' \<and> rr_Kind r = ''invitation'' \<and> rr_ID r = iid k \<and> rr_Version r = 1
       then r\<lparr>rr_Version := 2, rr_Payload := RInvitation ?j\<rparr> else r) recs = recs"
    using fresh by (intro map_idI) auto
  have "(demo_record ?i)\<lparr>rr_Version := 2, rr_Payload := RInvitation ?j\<rparr> = demo_record ?j" by (simp add: demo_record_def demo_invitation_def)
  then have put: "PutProjectRecord ''p1'' ''invitation'' (iid k) 1 (RInvitation ?j) ?st = Inr (demo_at v ms (recs @ [demo_record ?j]) aus)"
    using none keep by (simp add: PutProjectRecord_def affected_def update_rows_def demo_at_def r)
  have i: "iv_Status ?i = ''invited''" "iv_ExpiresAt ?i = transfer_window" "iv_Assignment ?i = dm u ''collaborator'' governance ''invited''"
    "?i\<lparr>iv_Status := ''accepted'', iv_AcceptedAt := Some 0\<rparr> = ?j" by (simp_all add: demo_invitation_def)
  have val: "validateInvitation (demo_me k') ?st (demo_p v ms) (dm u ''collaborator'' governance ''invited'') = Inr ()"
    using assms(3,4) by (auto simp: validateInvitation_def dm_def validFunctionRoles_def)
  have one: "x = dm u ''collaborator'' governance ''invited''" if "x \<in> set ms" "m_UserID x = u" for x
    using same_user [OF _ that(1) assms(2)] assms(1) that(2) by (simp add: tidy_list_def dm_def)
  have "m_Status x = ''invited''" if "x \<in> set ms" "m_UserID x = u" for x using one [OF that] by simp
  then have none': "\<not> list_ex (\<lambda>x. m_UserID x = u \<and> m_Status x \<noteq> ''invited'') ms" by (auto simp: list_ex_iff)
  have mem: "u \<in> m_UserID ` set ms" using assms(2) by (force simp: dm_def)
  have "(dm u ''collaborator'' governance ''invited'')\<lparr>m_Status := ''active''\<rparr> = dm u ''collaborator'' governance ''active''" by (simp add: dm_def)
  then show ?thesis
    using demo_commit [OF assms(8,5), where a = "plain_actor 7 u" and ms = ms and v = v and act = "''member.accept''" and tgt = u and rsn = "[]" and recs = "recs @ [demo_record ?j]"]
      none' mem put
    by (simp add: accept_write_def demo_Project [OF assms(1)] get i val Let_def finished_def plain_actor_def transfer_window_def assms(7) cong: if_cong)
qed

definition demo_alice :: member where "demo_alice = owner_assignment ''alice''"

lemma demo_alice_dm: "demo_alice = dm ''alice'' ''owner'' ''owner'' ''active''"
  by (simp add: demo_alice_def owner_assignment_def dm_def)

lemma demo_order: "sorted [''alice'', ''bob'']" "sorted [''alice'', ''bob'', ''carol'']" "sorted [''alice'', ''carol'']"
  by code_simp+

lemma demo_tidy:
  assumes "g \<noteq> []" "s \<noteq> []" "r = ''owner'' \<longrightarrow> g = ''owner''" "g' \<noteq> []" "s' \<noteq> []" "r' = ''owner'' \<longrightarrow> g' = ''owner''"
    "g'' \<noteq> []" "s'' \<noteq> []" "r'' = ''owner'' \<longrightarrow> g'' = ''owner''"
  shows "tidy_list [dm ''alice'' r g s]" "tidy_list [dm ''alice'' r g s, dm ''bob'' r' g' s']"
    "tidy_list [dm ''alice'' r g s, dm ''bob'' r' g' s', dm ''carol'' r'' g'' s'']"
  using demo_order assms by (simp_all add: tidy_list_def tidy_def)

definition demo_ms :: "string \<Rightarrow> string \<Rightarrow> member list" where
  "demo_ms bob carol = demo_alice # (if bob = [] then [] else [dm ''bob'' ''collaborator'' ''member'' bob]) @ (if carol = [] then [] else [dm ''carol'' ''collaborator'' ''admin'' carol])"

definition demo_i :: "string \<Rightarrow> string \<Rightarrow> string \<Rightarrow> string \<Rightarrow> record_row" where
  "demo_i k u governance status = demo_record (demo_invitation k ''alice'' u governance status)"

definition demo_log :: "nat \<Rightarrow> audit_row list" where
  "demo_log n = take n
     [demo_audit ''1'' (plain_actor 7 ''alice'') ''member.invite'' ''bob'' ''work'',
      demo_audit ''2'' (plain_actor 7 ''bob'') ''member.accept'' ''bob'' [],
      demo_audit ''3'' (plain_actor 7 ''alice'') ''member.invite'' ''carol'' ''work'',
      demo_audit ''4'' (plain_actor 7 ''carol'') ''member.accept'' ''carol'' [],
      demo_audit ''5'' (plain_actor 7 ''alice'') ''member.remove'' ''bob'' ''left'']"

definition demo_s1 :: "(unit, unit) store" where "demo_s1 = demo_at 1 (demo_ms [] []) [] []"

definition demo_s2 :: "(unit, unit) store" where "demo_s2 = demo_at 2 (demo_ms ''invited'' []) [demo_i ''1'' ''bob'' ''member'' ''invited''] (demo_log 1)"

definition demo_s3 :: "(unit, unit) store" where "demo_s3 = demo_at 3 (demo_ms ''active'' []) [demo_i ''1'' ''bob'' ''member'' ''accepted''] (demo_log 2)"

definition demo_s4 :: "(unit, unit) store" where
  "demo_s4 = demo_at 4 (demo_ms ''active'' ''invited'') [demo_i ''1'' ''bob'' ''member'' ''accepted'', demo_i ''3'' ''carol'' ''admin'' ''invited''] (demo_log 3)"

definition demo_s5 :: "(unit, unit) store" where
  "demo_s5 = demo_at 5 (demo_ms ''active'' ''active'') [demo_i ''1'' ''bob'' ''member'' ''accepted'', demo_i ''3'' ''carol'' ''admin'' ''accepted''] (demo_log 4)"

definition demo_s6 :: "(unit, unit) store" where
  "demo_s6 = demo_at 6 (demo_ms ''removed'' ''active'') [demo_i ''1'' ''bob'' ''member'' ''accepted'', demo_i ''3'' ''carol'' ''admin'' ''accepted''] (demo_log 5)"

lemma demo_1: "InsertProject demo_se 7 0 demo_new demo_st0 = Inr demo_s1"
  using demo_create by (simp add: demo_s1_def demo_ms_def demo_alice_def)

lemma demo_2: "\<exists>w. invite_write (demo_me ''1'') (plain_actor 7 ''alice'') ''p1'' (demo_invite_input 1 ''bob'' ''member'') (demo_p 1 (demo_ms [] [])) demo_s1 = Inr (w, demo_s2)"
  using demo_invited [where u = "''bob''" and governance = "''member''" and k = "''1''" and aus = "[]" and recs = "[]" and a = "plain_actor 7 ''alice''"
      and v = 1 and ms = "demo_ms [] []" and ms' = "demo_ms ''invited'' []"]
  by (simp add: demo_invitable plain_actor_def projectMember_def demo_s1_def demo_s2_def demo_ms_def demo_alice_dm demo_i_def demo_log_def)

lemma demo_ms_tidy:
  shows "tidy_list (demo_ms [] [])" "bob \<noteq> [] \<Longrightarrow> tidy_list (demo_ms bob [])" "bob \<noteq> [] \<Longrightarrow> carol \<noteq> [] \<Longrightarrow> tidy_list (demo_ms bob carol)"
  using demo_order by (simp_all add: demo_ms_def demo_alice_dm tidy_list_def tidy_def)

lemma demo_log_ids [simp]: "ar_ID (demo_audit k a act tgt rsn) = aid k"
  by (simp add: demo_audit_def)

lemma demo_3: "\<exists>w. accept_write (demo_me ''2'') (plain_actor 7 ''bob'') ''p1'' (iid ''1'') 1 q demo_s2 = Inr (w, demo_s3)"
proof -
  have "\<exists>w. accept_write (demo_me ''2'') (plain_actor 7 ''bob'') ''p1'' (iid ''1'') 1 q
      (demo_at 2 (demo_ms ''invited'' []) ([] @ [demo_record (demo_invitation ''1'' ''alice'' ''bob'' ''member'' ''invited'')]) (demo_log 1)) =
    Inr (w, demo_at (2 + 1) (demo_ms ''active'' []) ([] @ [demo_record (demo_invitation ''1'' ''alice'' ''bob'' ''member'' ''accepted'')])
       (demo_log 1 @ [demo_audit ''2'' (plain_actor 7 ''bob'') ''member.accept'' ''bob'' []]))"
    by (rule demo_accepted [OF demo_ms_tidy(2)]) (simp_all add: demo_invitable demo_ms_def demo_alice_dm demo_log_def)
  then show ?thesis by (simp add: demo_s2_def demo_s3_def demo_i_def demo_log_def)
qed

lemma demo_4: "\<exists>w. invite_write (demo_me ''3'') (plain_actor 7 ''alice'') ''p1'' (demo_invite_input 3 ''carol'' ''admin'') (demo_p 3 (demo_ms ''active'' [])) demo_s3 = Inr (w, demo_s4)"
proof -
  have "\<exists>w. invite_write (demo_me ''3'') (plain_actor 7 ''alice'') ''p1'' (demo_invite_input 3 ''carol'' ''admin'') (demo_p 3 (demo_ms ''active'' []))
      (demo_at 3 (demo_ms ''active'' []) [demo_i ''1'' ''bob'' ''member'' ''accepted''] (demo_log 2)) =
    Inr (w, demo_at (3 + 1) (demo_ms ''active'' ''invited'')
      ([demo_i ''1'' ''bob'' ''member'' ''accepted''] @ [demo_record (demo_invitation ''3'' (UserID (plain_actor 7 ''alice'')) ''carol'' ''admin'' ''invited'')])
      (demo_log 2 @ [demo_audit ''3'' (plain_actor 7 ''alice'') ''member.invite'' ''carol'' ''work'']))"
    by (rule demo_invited) (simp_all add: demo_invitable demo_ms_def demo_alice_dm demo_log_def projectMember_def demo_i_def demo_record_def demo_invitation_def plain_actor_def numeral_2_eq_2)
  then show ?thesis by (simp add: demo_s3_def demo_s4_def demo_i_def demo_log_def plain_actor_def numeral_2_eq_2 numeral_3_eq_3)
qed

lemma demo_5: "\<exists>w. accept_write (demo_me ''4'') (plain_actor 7 ''carol'') ''p1'' (iid ''3'') 1 q demo_s4 = Inr (w, demo_s5)"
proof -
  have "\<exists>w. accept_write (demo_me ''4'') (plain_actor 7 ''carol'') ''p1'' (iid ''3'') 1 q
      (demo_at 4 (demo_ms ''active'' ''invited'') ([demo_i ''1'' ''bob'' ''member'' ''accepted''] @ [demo_record (demo_invitation ''3'' ''alice'' ''carol'' ''admin'' ''invited'')]) (demo_log 3)) =
    Inr (w, demo_at (4 + 1) (demo_ms ''active'' ''active'') ([demo_i ''1'' ''bob'' ''member'' ''accepted''] @ [demo_record (demo_invitation ''3'' ''alice'' ''carol'' ''admin'' ''accepted'')])
       (demo_log 3 @ [demo_audit ''4'' (plain_actor 7 ''carol'') ''member.accept'' ''carol'' []]))"
    by (rule demo_accepted [OF demo_ms_tidy(3)])
       (simp_all add: demo_invitable demo_ms_def demo_alice_dm demo_log_def demo_i_def demo_record_def demo_invitation_def numeral_3_eq_3)
  then show ?thesis by (simp add: demo_s4_def demo_s5_def demo_i_def demo_log_def numeral_3_eq_3 eval_nat_numeral)
qed

lemma demo_actor [simp]: "TenantID (plain_actor t u) = t" "UserID (plain_actor t u) = u"
  by (simp_all add: plain_actor_def)

lemma demo_log_5: "demo_log 4 @ [demo_audit ''5'' (plain_actor 7 ''alice'') ''member.remove'' ''bob'' ''left''] = demo_log 5"
  by (simp add: demo_log_def)

definition demo_remove :: lifecycle_input where
  "demo_remove = \<lparr>li_Expected = 5, li_Action = ''remove'', li_Reason = ''left''\<rparr>"

lemma demo_6: "\<exists>w. state_write (demo_me ''5'') (plain_actor 7 ''alice'') ''p1'' ''bob'' demo_remove (demo_p 5 (demo_ms ''active'' ''active'')) demo_s5 = Inr (w, demo_s6)"
proof -
  have m: "map (\<lambda>x. if m_UserID x = ''bob'' then (dm ''bob'' ''collaborator'' ''member'' ''active'')\<lparr>m_Status := ''removed'', m_FunctionScopes := []\<rparr> else x) (demo_ms ''active'' ''active'') =
      demo_ms ''removed'' ''active''"
    by (simp add: demo_ms_def demo_alice_dm) (simp add: dm_def)
  have p: "projectMember (demo_p 5 (demo_ms ''active'' ''active'')) ''bob'' = Some (dm ''bob'' ''collaborator'' ''member'' ''active'')"
    by (simp add: projectMember_def demo_ms_def demo_alice_dm)
  have "distinct (map m_UserID (demo_ms ''removed'' ''active''))" "aid ''5'' \<notin> ar_ID ` set (demo_log 4)"
    by (simp_all add: demo_ms_def demo_alice_dm demo_log_def)
  note c = demo_commit [OF this, where a = "plain_actor 7 ''alice''" and v = 5 and ms = "demo_ms ''active'' ''active''" and act = "''member.remove''" and tgt = "''bob''" and rsn = "''left''"]
  show ?thesis
    by (simp add: state_write_def demo_remove_def p governanceRole_def next_state_def m demo_s5_def demo_s6_def finished_def c demo_log_5)
qed

text \<open>The two steps after which the project has no owner.\<close>

definition demo_transfer :: transfer_input where
  "demo_transfer = \<lparr>ti_Expected = 6, ti_User = ''bob''\<rparr>"

definition lost_ms :: "string \<Rightarrow> string \<Rightarrow> member list" where
  "lost_ms role status = [dm ''alice'' ''collaborator'' ''member'' ''active'', dm ''bob'' role (if role = ''owner'' then ''owner'' else ''member'') status,
     dm ''carol'' ''collaborator'' ''admin'' ''active'']"

definition demo_transfer_audit :: audit_row where
  "demo_transfer_audit = \<lparr>ar_ID = aid ''6'', ar_ProjectID = ''p1'', ar_ActorID = ''alice'', ar_Action = ''project.owner_transfer'', ar_Target = ''p1'',
     ar_TenantID = 0, ar_UserID = [], ar_Reason = [], ar_Decision = [], ar_CreatedAt = 0\<rparr>"

definition demo_s7 :: "(unit, unit) store" where
  "demo_s7 = demo_at 7 (lost_ms ''owner'' ''removed'') (st_records demo_s6) (demo_log 5 @ [demo_transfer_audit])"

definition demo_s8 :: "(unit, unit) store" where
  "demo_s8 = demo_at 8 (lost_ms ''collaborator'' ''invited'') (st_records demo_s6 @ [demo_record (demo_invitation ''7'' ''carol'' ''bob'' ''member'' ''invited'')])
     (demo_log 5 @ [demo_transfer_audit, demo_audit ''7'' (plain_actor 7 ''carol'') ''member.invite'' ''bob'' ''work''])"

lemma demo_7: "\<exists>w. transfer_write (demo_me ''6'') (plain_actor 7 ''alice'') ''p1'' demo_transfer (demo_p 6 (demo_ms ''removed'' ''active'')) demo_s6 = Inr (w, demo_s7)"
proof -
  let ?ms = "demo_ms ''removed'' ''active''"
  have ms: "map (\<lambda>x. if m_UserID x = ''alice'' then demote x else if m_UserID x = ''bob'' then promote x else x) ?ms = lost_ms ''owner'' ''removed''"
    by (simp add: demo_ms_def demo_alice_dm lost_ms_def) (simp add: demote_def promote_def dm_def)
  have o: "lastOwner ?ms = Some (dm ''alice'' ''owner'' ''owner'' ''active'')" "lastMember ''bob'' ?ms = Some (dm ''bob'' ''collaborator'' ''member'' ''removed'')"
    by (simp_all add: lastOwner_def lastMember_def demo_ms_def demo_alice_dm)
  have r: "st_records demo_s6 = [demo_i ''1'' ''bob'' ''member'' ''accepted'', demo_i ''3'' ''carol'' ''admin'' ''accepted'']" by (simp add: demo_s6_def demo_at_def)
  have au: "replaceAudit (demo_me ''6'') (plain_actor 7 ''alice'') ''p1'' ''project.owner_transfer'' (demo_at 7 (lost_ms ''owner'' ''removed'') recs (demo_log 5)) =
      Inr (demo_at 7 (lost_ms ''owner'' ''removed'') recs (demo_log 5 @ [demo_transfer_audit]))" for recs
    by (simp add: replaceAudit_def RecordAudit_def insert_row_def demo_at_def demo_transfer_audit_def demo_log_def)
  have "distinct (map m_UserID (lost_ms ''owner'' ''removed''))" by (simp add: lost_ms_def)
  note re = demo_replace [OF this]
  show ?thesis
    using demo_update [where v = 6 and v' = 7 and ms = ?ms and ms' = "lost_ms ''owner'' ''removed''"] re [where v' = 7] au
      demo_active [of "''bob''"]
    by (simp add: transfer_write_def demo_transfer_def o ms Let_def finished_def demo_s7_def r cong: if_cong) (simp add: demo_s6_def ms)
qed

lemma demo_8: "\<exists>w. invite_write (demo_me ''7'') (plain_actor 7 ''carol'') ''p1'' (demo_invite_input 7 ''bob'' ''member'') (demo_p 7 (lost_ms ''owner'' ''removed'')) demo_s7 = Inr (w, demo_s8)"
proof -
  have r: "st_records demo_s6 = [demo_i ''1'' ''bob'' ''member'' ''accepted'', demo_i ''3'' ''carol'' ''admin'' ''accepted'']" by (simp add: demo_s6_def demo_at_def)
  have "\<exists>w. invite_write (demo_me ''7'') (plain_actor 7 ''carol'') ''p1'' (demo_invite_input 7 ''bob'' ''member'') (demo_p 7 (lost_ms ''owner'' ''removed''))
      (demo_at 7 (lost_ms ''owner'' ''removed'') (st_records demo_s6) (demo_log 5 @ [demo_transfer_audit])) =
    Inr (w, demo_at (7 + 1) (lost_ms ''collaborator'' ''invited'')
      (st_records demo_s6 @ [demo_record (demo_invitation ''7'' (UserID (plain_actor 7 ''carol'')) ''bob'' ''member'' ''invited'')])
      ((demo_log 5 @ [demo_transfer_audit]) @ [demo_audit ''7'' (plain_actor 7 ''carol'') ''member.invite'' ''bob'' ''work'']))"
    by (rule demo_invited) (simp_all add: demo_invitable lost_ms_def demo_log_def projectMember_def r demo_i_def demo_record_def demo_invitation_def demo_transfer_audit_def putMember_def)
  then show ?thesis by (simp add: demo_s7_def demo_s8_def)
qed

text \<open>A pending transfer from alice to bob, and its acceptance.\<close>

definition demo_t :: owner_transfer where
  "demo_t = \<lparr>ot_ID = iid ''8'', ot_ProjectID = ''p1'', ot_FromUserID = ''alice'', ot_ToUserID = ''bob'', ot_Status = ''pending'', ot_ExpectedProjectVersion = 3,
     ot_CreatedAt = 0, ot_AcceptedAt = None\<rparr>"

definition demo_t3 :: "(unit, unit) store" where "demo_t3 = demo_s3\<lparr>st_transfers := [demo_t]\<rparr>"

lemma demo_Project_transfers: "tidy_list ms \<Longrightarrow> Project demo_se (demo_at v ms recs aus\<lparr>st_transfers := ts\<rparr>) 7 ''p1'' = Inr (demo_p v ms)"
proof -
  have "projectView demo_se (st\<lparr>st_transfers := ts\<rparr>) = projectView demo_se st" for st by (rule ext) (simp add: projectView_def project_members_def)
  then show "tidy_list ms \<Longrightarrow> ?thesis" using demo_Project [of ms v recs aus] by (simp add: Project_def)
qed

lemma demo_request: "\<exists>w. request_write (demo_me ''8'') (plain_actor 7 ''alice'') ''p1'' \<lparr>ti_Expected = 3, ti_User = ''bob''\<rparr> q demo_s3 = Inr (w, demo_t3)"
proof -
  have p: "Project demo_se demo_s3 7 ''p1'' = Inr (demo_p 3 (demo_ms ''active'' []))" by (simp add: demo_s3_def demo_Project demo_ms_tidy)
  have o: "projectOwnerUser (demo_p 3 (demo_ms ''active'' [])) = Some ''alice''" by (simp add: projectOwnerUser_def demo_ms_def demo_alice_dm)
  have r: "currentTenantRole (store_view demo_se 0 demo_s3) (plain_actor 7 ''alice'') = Inr ''contributor''"
    by (simp add: currentTenantRole_def store_view_def CurrentTenantRole_def demo_s3_def demo_at_def demo_st0_def tenant_row_def storageError_def role_IsValid_def plain_actor_def)
  show ?thesis
    using p o r demo_active [of "''bob''"]
    by (simp add: request_write_def Let_def finished_def InsertOwnerTransfer_def insert_row_def update_rows_def)
       (simp add: demo_p_def demo_new_def demo_project_def demo_t3_def demo_t_def demo_s3_def demo_at_def demo_st0_def ActiveMember_def)
qed

lemma demo_hand_over: "\<exists>w st'. accept_transfer_write (demo_me ''9'') demo_ctx (plain_actor 7 ''bob'') ''p1'' (iid ''8'') q demo_t3 = Inr (w, st')"
proof -
  have p: "Project demo_se demo_t3 7 ''p1'' = Inr (demo_p 3 (demo_ms ''active'' []))" by (simp add: demo_t3_def demo_s3_def demo_Project_transfers demo_ms_tidy)
  have t: "OwnerTransfer demo_t3 ''p1'' (iid ''8'') = Inr demo_t" by (simp add: OwnerTransfer_def demo_t3_def demo_t_def storageError_def)
  have sel: "p_DiscardedAt (demo_p v ms) = None" for v ms by (simp add: demo_p_def demo_new_def demo_project_def)
  have a: "validActor (plain_actor 7 ''bob'')" "ActiveMember demo_t3 (plain_actor 7 ''bob'')"
    using demo_active [of "''bob''"] by (simp_all add: validActor_def plain_actor_def demo_t3_def demo_s3_def ActiveMember_def)
  have ts: "ot_Status demo_t = ''pending''" "ot_ToUserID demo_t = ''bob''" "ot_CreatedAt demo_t = 0" "ot_ExpectedProjectVersion demo_t = 3" "ot_FromUserID demo_t = ''alice''"
    by (simp_all add: demo_t_def)
  have e: "EnsureMember ''p1'' ''bob'' ''collaborator'' demo_t3 = Inr demo_t3"
    by (simp add: EnsureMember_def demo_t3_def demo_s3_def demo_at_def demo_ms_def demo_alice_dm)
  have u: "UpdateProject demo_se 7 (demo_p 3 (demo_ms ''active'' [])) (demo_p 3 (demo_ms ''active'' [])\<lparr>p_ProjectVersion := 4\<rparr>) demo_t3 = Inr (demo_t3\<lparr>st_projects := [demo_prow 4]\<rparr>)"
    by (simp add: UpdateProject_def affected_def update_rows_def demo_t3_def demo_s3_def demo_at_def demo_st0_def demo_prow_def demo_p_def demo_new_def demo_project_def
      project_columns_def persistTemplateCopyTransition_def demo_se_def)
  show ?thesis
    by (simp add: accept_transfer_write_def p t sel a ts e u transfer_window_def finished_def)
       (simp add: SetMemberRole_def store_AcceptOwnerTransfer_def affected_def update_rows_def demo_t3_def demo_s3_def demo_at_def demo_ms_def demo_alice_dm Let_def demo_t_def)
qed

section \<open>Properties\<close>

text \<open>The stores of the demo are reachable.\<close>

lemma demo_reach_1: "reachable g demo_se demo_s1"
proof (rule reachable.step)
  show "reachable g demo_se demo_st0" by (rule reachable.empty) (simp_all add: demo_st0_def)
  show "mem_step g demo_se demo_st0 demo_s1"
    by (rule mem_step.create [OF demo_1]) (simp_all add: demo_new_def demo_project_def members_wf_def usable_status_def)
qed

lemma demo_reach_2: "reachable g demo_se demo_s2"
  using demo_2 demo_Project [OF demo_ms_tidy(1)] by (auto simp: demo_s1_def intro!: reachable.step [OF demo_reach_1] mem_step.invite [where me = "demo_me ''1''" and a = "plain_actor 7 ''alice''"])

lemma demo_reach_3: "reachable g demo_se demo_s3"
  using demo_3 [where q = demo_new] by (auto intro!: reachable.step [OF demo_reach_2] mem_step.accept [where me = "demo_me ''2''" and a = "plain_actor 7 ''bob''" and pid = "''p1''"])

lemma demo_reach_4: "reachable g demo_se demo_s4"
  using demo_4 demo_Project [OF demo_ms_tidy(2)] by (auto simp: demo_s3_def intro!: reachable.step [OF demo_reach_3] mem_step.invite [where me = "demo_me ''3''" and a = "plain_actor 7 ''alice''"])

lemma demo_reach_5: "reachable g demo_se demo_s5"
  using demo_5 [where q = demo_new] by (auto intro!: reachable.step [OF demo_reach_4] mem_step.accept [where me = "demo_me ''4''" and a = "plain_actor 7 ''carol''" and pid = "''p1''"])

lemma demo_reach_6: "reachable g demo_se demo_s6"
  using demo_6 demo_Project [OF demo_ms_tidy(3)] by (auto simp: demo_s5_def intro!: reachable.step [OF demo_reach_5] mem_step.state [where me = "demo_me ''5''" and a = "plain_actor 7 ''alice''"])

lemma demo_reach_7: "reachable False demo_se demo_s7"
  using demo_7 demo_Project [OF demo_ms_tidy(3)] by (auto simp: demo_s6_def intro!: reachable.step [OF demo_reach_6] mem_step.transfer [where me = "demo_me ''6''" and a = "plain_actor 7 ''alice''"])

lemma lost_tidy: "status \<noteq> [] \<Longrightarrow> tidy_list (lost_ms role status)"
  using demo_order by (simp add: lost_ms_def tidy_list_def tidy_def)

lemma demo_reach_8: "reachable False demo_se demo_s8"
  using demo_8 demo_Project [OF lost_tidy] by (auto simp: demo_s7_def intro!: reachable.step [OF demo_reach_7] mem_step.invite [where me = "demo_me ''7''" and a = "plain_actor 7 ''carol''"])

text \<open>
  One owner.  In every state the member and owner operations can reach from an empty workspace, interleaved
  with the writes of the other contexts in any order, the members of a project are distinct users and at most
  one of them is the owner.  When the recipient of a transfer is a usable member, exactly one is, and that
  owner's own membership is usable.
\<close>

theorem one_owner:
  assumes "reachable g se st" "Project se st tenant pid = Inr p"
  shows "distinct (map m_UserID (p_Members p)) \<and> length (filter (\<lambda>m. m_Role m = ''owner'') (p_Members p)) \<le> 1 \<and>
     (g \<longrightarrow> members_wf (p_Members p) \<and> (\<forall>m\<in>set (p_Members p). m_Role m = ''owner'' \<longrightarrow> usable_status (m_Status m)))"
proof -
  note v = view_ok [OF reachable_inv [OF assms(1)] assms(2)]
  have "members_wf (p_Members p)" if g using ms_ok_unique(2) [OF v(1,2) that] v(2) by (simp add: members_wf_def)
  moreover have "usable_status (m_Status m)" if g "m \<in> set (p_Members p)" "m_Role m = ''owner''" for m
    using ms_ok_owner_usable [OF _ that(2,3)] v(1) that(1) by simp
  ultimately show ?thesis using v(2) ms_ok_unique(1) [OF v(1,2)] by blast
qed

theorem one_owner_witness:
  "reachable True demo_se demo_s5 \<and> members_wf (demo_ms ''active'' ''active'')"
proof -
  have "Project demo_se demo_s5 7 ''p1'' = Inr (demo_p 5 (demo_ms ''active'' ''active''))" by (simp add: demo_s5_def demo_Project demo_ms_tidy)
  from one_owner [OF demo_reach_5 [of True] this] show ?thesis using demo_reach_5 by simp
qed




lemma demo_reach_t3: "reachable False demo_se demo_t3"
  using demo_request [where q = demo_new] by (auto intro!: reachable.step [OF demo_reach_3] mem_step.request [where me = "demo_me ''8''" and a = "plain_actor 7 ''alice''" and pid = "''p1''"])


end
