(* ===== verification/Member_Properties.thy ===== *)
theory Member_Properties
  imports Owner_Properties
begin

text \<open>
  Properties of the membership writes that are not about the owner alone: invitations, tenant suspension, the
  replacement of collaborators and the version check that orders concurrent writes.
\<close>

section \<open>Invitations\<close>

lemma put_get:
  assumes "PutProjectRecord pid k i e v st = Inr st'" "GetProjectRecord st pid k i = Inr (e, v0)"
  shows "GetProjectRecord st' pid k i = Inr (e + 1, v)"
proof -
  let ?P = "\<lambda>r. rr_ProjectID r = pid \<and> rr_Kind r = k \<and> rr_ID r = i"
  let ?f = "\<lambda>r. if ?P r \<and> rr_Version r = e then r\<lparr>rr_Version := e + 1, rr_Payload := v\<rparr> else r"
  from assms(2) obtain r where f: "find ?P (st_records st) = Some r" and r: "rr_Version r = e" by (auto simp: GetProjectRecord_def store_simps)
  have e: "e \<noteq> 0"
  proof
    assume "e = 0"
    have "record_key r \<in> record_key ` set (st_records st)" by (rule imageI) (use find_Some_in [OF f] in simp)
    moreover have "record_key r = (pid, k, i)" using find_Some_in [OF f] by (simp add: record_key_def)
    ultimately show False using assms(1) \<open>e = 0\<close> by (simp add: PutProjectRecord_def insert_row_def) (simp add: record_key_def)
  qed
  have "st' = st\<lparr>st_records := map ?f (st_records st)\<rparr>"
    using assms(1) e by (simp add: PutProjectRecord_def affected_def update_rows_def conj_assoc split: if_split_asm)
  then have "st_records st' = map ?f (st_records st)" by simp
  moreover have "find ?P (map ?f (st_records st)) = map_option ?f (find ?P (st_records st))" by (rule find_map_pred) auto
  ultimately show ?thesis using f r find_Some_in [OF f] by (simp add: GetProjectRecord_def storageError_def)
qed

lemma commit_rows:
  assumes "commitMembers me a pid p ms act tgt rsn st = Inr (nxt, st')"
  shows "st_records st' = st_records st" "st_members st' = filter (\<lambda>r. mr_ProjectID r \<noteq> pid) (st_members st) @ map (member_row_of pid) ms"
    "st_perms st' = filter (\<lambda>r. pe_ProjectID r \<noteq> pid) (st_perms st) @ map (perm_row_of pid) ms"
proof -
  from assms obtain st1 st2 where c: "UpdateProject (me_store me) (TenantID a) p (p\<lparr>p_ProjectVersion := p_ProjectVersion p + 1, p_Members := ms\<rparr>) st = Inr st1"
    "ReplaceMembers pid ms st1 = Inr st2" "recordProjectAuditEvent (me_newID me 0) (me_now me) a pid act tgt rsn st2 = Inr st'"
    by (auto simp: commitMembers_def Let_def)
  from c(1) have "same_members st st1" by (rule UpdateProject_ok)
  then show "st_records st' = st_records st" "st_members st' = filter (\<lambda>r. mr_ProjectID r \<noteq> pid) (st_members st) @ map (member_row_of pid) ms"
    "st_perms st' = filter (\<lambda>r. pe_ProjectID r \<noteq> pid) (st_perms st) @ map (perm_row_of pid) ms"
    using c(2) audit_frames [OF c(3)] by (simp_all add: same_members_def ReplaceMembers_ok)
qed

lemma getInvitation_ok: "getInvitation st pid i = Inr (v, ivn) \<longleftrightarrow> GetProjectRecord st pid ''invitation'' i = Inr (v, RInvitation ivn)"
  by (cases "GetProjectRecord st pid ''invitation'' i") (auto simp: getInvitation_def split: payload.split_asm)

text \<open>
  C13. An invitation is accepted once, before it expires, and for exactly what it offered.  A successful
  acceptance found the invitation open, unexpired and at the version the caller named; the rows it stores for
  the caller are the offered assignment, made active; and no later acceptance of the same invitation, by
  anybody and with any version, succeeds on the resulting store.
\<close>

theorem invitation_accepted_once:
  assumes wr: "accept_write me a pid i expected q st = Inr (w, st')"
  shows "\<exists>ivn m. getInvitation st pid i = Inr (expected, ivn) \<and> iv_Status ivn = ''invited'' \<and> me_now me < iv_ExpiresAt ivn \<and>
     m = (iv_Assignment ivn)\<lparr>m_Status := ''active''\<rparr> \<and> member_row_of pid m \<in> set (st_members st') \<and> perm_row_of pid m \<in> set (st_perms st') \<and>
     m_Role m \<noteq> ''owner'' \<and> (\<forall>me' a' expected' q'. \<exists>e. accept_write me' a' pid i expected' q' st' = Inl e)"
proof -
  from wr obtain p ivn st1 nxt where g: "getInvitation st pid i = Inr (expected, ivn)" and s: "iv_Status ivn = ''invited''" "me_now me < iv_ExpiresAt ivn"
    and val: "validateInvitation me st p (iv_Assignment ivn) = Inr ()" and mem: "UserID a \<in> m_UserID ` set (p_Members p)"
    and put: "PutProjectRecord pid ''invitation'' i expected (RInvitation (ivn\<lparr>iv_Status := ''accepted'', iv_AcceptedAt := Some (me_now me)\<rparr>)) st = Inr st1"
    and c: "commitMembers me a pid p (map (\<lambda>x. if m_UserID x = UserID a then (iv_Assignment ivn)\<lparr>m_Status := ''active''\<rparr> else x) (p_Members p))
       ''member.accept'' (UserID a) [] st1 = Inr (nxt, st')"
    by (rule accept_ok)
  let ?m = "(iv_Assignment ivn)\<lparr>m_Status := ''active''\<rparr>"
  have "?m \<in> set (map (\<lambda>x. if m_UserID x = UserID a then ?m else x) (p_Members p))" using mem by force
  then have rows: "member_row_of pid ?m \<in> set (st_members st')" "perm_row_of pid ?m \<in> set (st_perms st')"
    unfolding commit_rows [OF c] set_append set_map [of "member_row_of pid"] set_map [of "perm_row_of pid"] by (rule UnI2 [OF imageI])+
  have "getInvitation st' pid i = Inr (expected + 1, ivn\<lparr>iv_Status := ''accepted'', iv_AcceptedAt := Some (me_now me)\<rparr>)"
    using put_get [OF put] g commit_rows(1) [OF c] by (simp add: getInvitation_ok GetProjectRecord_def)
  then have "\<exists>e. accept_write me' a' pid i expected' q' st' = Inl e" for me' :: "('a, 'b) mem_env" and a' expected' q'
    by (cases "accept_write me' a' pid i expected' q' st'") (auto elim!: accept_ok)
  then show ?thesis using g s rows validateInvitation_role [OF val] by (auto intro!: exI [of _ ivn])
qed

theorem invitation_accepted_once_witness:
  "\<exists>w m. accept_write (demo_me ''2'') (plain_actor 7 ''bob'') ''p1'' (iid ''1'') 1 demo_new demo_s2 = Inr (w, demo_s3) \<and>
     m_Status m = ''active'' \<and> member_row_of ''p1'' m \<in> set (st_members demo_s3) \<and>
     (\<exists>e. accept_write (demo_me ''3'') (plain_actor 7 ''bob'') ''p1'' (iid ''1'') 2 demo_new demo_s3 = Inl e)"
proof -
  obtain w where h: "accept_write (demo_me ''2'') (plain_actor 7 ''bob'') ''p1'' (iid ''1'') 1 demo_new demo_s2 = Inr (w, demo_s3)" using demo_3 by blast
  from invitation_accepted_once [OF h] obtain m and ivn :: invitation where m: "m = (iv_Assignment ivn)\<lparr>m_Status := ''active''\<rparr>" "member_row_of ''p1'' m \<in> set (st_members demo_s3)"
    and l: "\<forall>me' a' expected' q'. \<exists>e. accept_write me' a' ''p1'' (iid ''1'') expected' q' demo_s3 = Inl e"
    by (elim exE conjE) (rule that, assumption+)
  have "m_Status m = ''active''" using m(1) by simp
  moreover have "\<exists>e. accept_write (demo_me ''3'') (plain_actor 7 ''bob'') ''p1'' (iid ''1'') 2 demo_new demo_s3 = Inl e" using l by blast
  ultimately show ?thesis using h m(2) by (intro exI [of _ w] exI [of _ m]) simp
qed

section \<open>Suspension by the tenant\<close>

text \<open>A commit decides the statuses of its own project and leaves those of the others alone.\<close>

lemma status_perm_rows:
  assumes "st_perms st' = filter (\<lambda>r. pe_ProjectID r \<noteq> pid) (st_perms st) @ map (perm_row_of pid) ms"
  shows "q \<noteq> pid \<Longrightarrow> status_of st' q u = status_of st q u"
    and "m \<in> set ms \<Longrightarrow> distinct (map m_UserID ms) \<Longrightarrow> status_of st' pid (m_UserID m) = pe_Status (perm_row_of pid m)"
proof -
  have none: "find (\<lambda>p. pe_ProjectID p = pid \<and> pe_UserID p = w) (filter (\<lambda>r. pe_ProjectID r \<noteq> pid) xs) = None" for w and xs :: "permission_row list"
    by (simp add: find_None_iff)
  have app: "find P (xs @ ys) = (case find P xs of None \<Rightarrow> find P ys | Some x \<Rightarrow> Some x)" for P and xs ys :: "permission_row list"
    by (induction xs) auto
  show "status_of st' q u = status_of st q u" if q: "q \<noteq> pid"
  proof -
    have "find (\<lambda>p. pe_ProjectID p = q \<and> pe_UserID p = u) (filter (\<lambda>r. pe_ProjectID r \<noteq> pid) xs) = find (\<lambda>p. pe_ProjectID p = q \<and> pe_UserID p = u) xs" for xs :: "permission_row list"
      using q by (induction xs) auto
    moreover have "find (\<lambda>p. pe_ProjectID p = q \<and> pe_UserID p = u) (map (perm_row_of pid) ms) = None" using q by (auto simp: find_None_iff)
    ultimately show ?thesis by (simp add: status_of_def assms app split: option.split)
  qed
  show "status_of st' pid (m_UserID m) = pe_Status (perm_row_of pid m)" if "m \<in> set ms" "distinct (map m_UserID ms)"
  proof -
    have "find (\<lambda>p. pe_ProjectID p = pid \<and> pe_UserID p = m_UserID m) (map (perm_row_of pid) ms) = Some (perm_row_of pid m)"
      using that by (induction ms) auto
    then show ?thesis by (simp add: status_of_def assms app none)
  qed
qed

lemma suspend_in_status:
  assumes s: "suspend_in me tenant user p st = Inr st'" and d: "distinct (map m_UserID (p_Members p))"
  shows "q \<noteq> p_ID p \<Longrightarrow> status_of st' q user = status_of st q user"
    and "projectMember p user = Some m \<Longrightarrow> governanceRole m \<noteq> ''owner'' \<Longrightarrow>
         status_of st' (p_ID p) user = (if usable_status (m_Status m) then ''suspended_by_tenant'' else status_of st (p_ID p) user)"
proof -
  let ?f = "\<lambda>x. if m_UserID x = user then x\<lparr>m_Status := ''suspended_by_tenant''\<rparr> else x"
  have rows: "st' = st \<or> st_perms st' = filter (\<lambda>r. pe_ProjectID r \<noteq> p_ID p) (st_perms st) @ map (perm_row_of (p_ID p)) (map ?f (p_Members p))"
    using s by (auto simp: suspend_in_def Let_def split: if_splits dest: commit_rows(3))
  show "status_of st' q user = status_of st q user" if "q \<noteq> p_ID p" using rows status_perm_rows(1) that by blast
  show "status_of st' (p_ID p) user = (if usable_status (m_Status m) then ''suspended_by_tenant'' else status_of st (p_ID p) user)"
    if m: "projectMember p user = Some m" and g: "governanceRole m \<noteq> ''owner''"
  proof (cases "usable_status (m_Status m)")
    case True
    have m': "m \<in> set (p_Members p)" "m_UserID m = user" using find_Some_in [OF m [unfolded projectMember_def]] by simp_all
    from s True m g obtain nxt where "commitMembers me (plain_actor tenant user) (p_ID p) p (map ?f (p_Members p))
      ''member.tenant_suspended'' user ''tenant_membership_changed'' st = Inr (nxt, st')"
      by (auto simp: suspend_in_def usable_status_def)
    from commit_rows(3) [OF this]
    have e: "st_perms st' = filter (\<lambda>r. pe_ProjectID r \<noteq> p_ID p) (st_perms st) @ map (perm_row_of (p_ID p)) (map ?f (p_Members p))" .
    have "?f m \<in> set (map ?f (p_Members p))" using m'(1) unfolding set_map by (rule imageI)
    moreover have "map m_UserID (map ?f (p_Members p)) = map m_UserID (p_Members p)" by simp
    ultimately have "status_of st' (p_ID p) (m_UserID (?f m)) = pe_Status (perm_row_of (p_ID p) (?f m))"
      by (intro status_perm_rows(2) [OF e]) (simp_all only: d)
    then show ?thesis using True m'(2) by (simp add: perm_row_of_def)
  next
    case False
    then show ?thesis using s m g by (simp add: suspend_in_def usable_status_def)
  qed
qed

lemma suspend_each_other:
  assumes "each (\<lambda>(n, p). suspend_in (mk n) tenant user p) nps st = Inr st'" "q \<notin> p_ID ` snd ` set nps"
    and "\<And>n p. (n, p) \<in> set nps \<Longrightarrow> distinct (map m_UserID (p_Members p))"
  shows "status_of st' q user = status_of st q user"
  using assms
proof (induction nps arbitrary: st)
  case (Cons x nps)
  obtain k p' where x: "x = (k, p')" by (cases x)
  from Cons.prems(1) x obtain st1 where s: "suspend_in (mk k) tenant user p' st = Inr st1"
    and r: "each (\<lambda>(n, p). suspend_in (mk n) tenant user p) nps st1 = Inr st'" by auto
  have "status_of st' q user = status_of st1 q user" by (rule Cons.IH [OF r]) (use Cons.prems in auto)
  also have "\<dots> = status_of st q user" by (rule suspend_in_status(1) [OF s]) (use Cons.prems x in auto)
  finally show ?case .
qed simp

lemma suspend_each_status:
  assumes "each (\<lambda>(n, p). suspend_in (mk n) tenant user p) nps st = Inr st'" "distinct (map (p_ID \<circ> snd) nps)"
    and "\<And>n p. (n, p) \<in> set nps \<Longrightarrow> distinct (map m_UserID (p_Members p))"
    and "(n, p) \<in> set nps" and m: "projectMember p user = Some m" "governanceRole m \<noteq> ''owner''"
  shows "status_of st' (p_ID p) user = (if usable_status (m_Status m) then ''suspended_by_tenant'' else status_of st (p_ID p) user)"
  using assms(1-4)
proof (induction nps arbitrary: st)
  case (Cons x nps)
  obtain k p' where x: "x = (k, p')" by (cases x)
  from Cons.prems(1) x obtain st1 where s: "suspend_in (mk k) tenant user p' st = Inr st1"
    and r: "each (\<lambda>(n, p). suspend_in (mk n) tenant user p) nps st1 = Inr st'" by auto
  have d: "distinct (map m_UserID (p_Members p'))" by (rule Cons.prems(3) [of k]) (simp add: x)
  have new: "p_ID p' \<notin> p_ID ` snd ` set nps" using Cons.prems(2) x by (simp add: image_comp)
  show ?case
  proof (cases "(n, p) = x")
    case True
    have "status_of st' (p_ID p) user = status_of st1 (p_ID p) user" by (rule suspend_each_other [OF r]) (use Cons.prems(3) new True x in auto)
    also have "\<dots> = (if usable_status (m_Status m) then ''suspended_by_tenant'' else status_of st (p_ID p) user)"
      using suspend_in_status(2) [OF s d] m True x by simp
    finally show ?thesis .
  next
    case False
    then have i: "(n, p) \<in> set nps" using Cons.prems(4) by simp
    then have "p_ID p \<in> p_ID ` snd ` set nps" by (intro imageI) (metis imageI snd_conv)
    then have ne: "p_ID p \<noteq> p_ID p'" using new by metis
    have "status_of st' (p_ID p) user = (if usable_status (m_Status m) then ''suspended_by_tenant'' else status_of st1 (p_ID p) user)"
      by (rule Cons.IH [OF r]) (use Cons.prems(2,3) i in auto)
    then show ?thesis using suspend_in_status(1) [OF s d ne] by simp
  qed
qed simp

lemma Projects_ok:
  assumes "Projects se st a limit = Inr ps" "tables_ok st"
  shows "distinct (map p_ID ps)" and "p \<in> set ps \<Longrightarrow> p_Members p = project_members st (p_ID p)"
proof -
  let ?rows = "take limit (rev (sort_key (\<lambda>r. (pr_CreatedAt r, pr_ID r)) (filter (\<lambda>r. pr_TenantID r = TenantID a \<and> pr_DiscardedAt r = None \<and>
                    list_ex (\<lambda>m. mr_ProjectID m = pr_ID r \<and> mr_UserID m = UserID a) (st_members st)) (st_projects st))))"
  have all: "list_all2 (\<lambda>r p. projectView se st r = Inr p) ?rows ps" using assms(1) by (simp add: Projects_def mapR_Inr_iff)
  have v: "p_ID p = pr_ID r \<and> p_Members p = project_members st (pr_ID r)" if "projectView se st r = Inr p" for r p
    using that by (auto simp: projectView_def)
  have "map p_ID ps = map pr_ID ?rows" using all by (induction rule: list_all2_induct) (auto dest: v)
  moreover have "distinct (map pr_ID ?rows)"
    using assms(2) by (simp add: tables_ok_def distinct_map_filter distinct_map take_map [symmetric] rev_map [symmetric] distinct_take inj_on_def)
  ultimately show "distinct (map p_ID ps)" by simp
  show "p_Members p = project_members st (p_ID p)" if "p \<in> set ps"
    using all that by (induction rule: list_all2_induct) (auto dest: v)
qed

text \<open>
  C14. A tenant suspension takes effect in every project.  When \<^verbatim>\<open>CaptureTenantSuspension\<close> returns, no project it
  lists for the user lets that user in any more, for any action, unless the user governs the project as its
  owner: the stored status is no longer active, and the project authorization that later calls make fails.
  A project the call does not list keeps the status it had.
\<close>

theorem suspension_reaches_every_project:
  assumes r: "reachable g (me_store me) st" and ps: "Projects (me_store me) st (plain_actor tenant user) 10000 = Inr ps"
    and cap: "CaptureTenantSuspension me ids tenant user st = Inr st'"
  shows "(\<forall>p\<in>set ps. \<forall>m. projectMember p user = Some m \<and> governanceRole m \<noteq> ''owner'' \<longrightarrow>
            \<not> usable_status (status_of st' (p_ID p) user) \<and>
            (\<forall>now req. UserID (au_Actor req) = user \<and> au_ProjectID req = p_ID p \<longrightarrow> \<not> okR (authorizeCurrentProject (store_view (me_store me) now st') req))) \<and>
         (\<forall>q. q \<notin> p_ID ` set ps \<longrightarrow> status_of st' q user = status_of st q user)"
proof (intro conjI ballI allI impI)
  have ok: "tables_ok st" using reachable_inv [OF r] by (simp add: mem_inv_def)
  have loop: "each (\<lambda>(n, p). suspend_in (me\<lparr>me_newID := (\<lambda>_. ids n)\<rparr>) tenant user p) (enumerate 0 ps) st = Inr st'"
    using cap ps by (simp add: CaptureTenantSuspension_def)
  have dis: "distinct (map (p_ID \<circ> snd) (enumerate 0 ps))" using Projects_ok(1) [OF ps ok] by (simp flip: map_map)
  have mem: "p \<in> set ps \<Longrightarrow> p_Members p = project_members st (p_ID p)" for p using Projects_ok(2) [OF ps ok] .
  have dm: "distinct (map m_UserID (p_Members p))" if "(n, p) \<in> set (enumerate 0 ps)" for n p
    using that mem ok by (auto simp: in_set_enumerate_eq tables_ok_def view_distinct)
  show "status_of st' q user = status_of st q user" if "q \<notin> p_ID ` set ps" for q
    by (rule suspend_each_other [OF loop _ dm]) (use that in \<open>auto simp: in_set_enumerate_eq\<close>)
  fix p m assume p: "p \<in> set ps" and m: "projectMember p user = Some m \<and> governanceRole m \<noteq> ''owner''"
  from p obtain n where n: "(n, p) \<in> set (enumerate 0 ps)" 
  proof -
    assume r: "\<And>n. (n, p) \<in> set (enumerate 0 ps) \<Longrightarrow> thesis"
    from p have "p \<in> snd ` set (enumerate 0 ps)" by (metis list.set_map map_snd_enumerate)
    then show thesis using r by auto
  qed
  have "m \<in> set (project_members st (p_ID p)) \<and> m_UserID m = user"
    using m p mem find_Some_in [of "\<lambda>m. m_UserID m = user" "p_Members p" m] by (simp add: projectMember_def)
  then have "m_Status m = status_of st (p_ID p) user" using view_status by blast
  then show bad: "\<not> usable_status (status_of st' (p_ID p) user)"
    using suspend_each_status [OF loop dis dm n] m by (simp add: usable_status_def)
  fix now and req :: "actor authorization" assume q: "UserID (au_Actor req) = user \<and> au_ProjectID req = p_ID p"
  show "\<not> okR (authorizeCurrentProject (store_view (me_store me) now st') req)"
  proof
    assume "okR (authorizeCurrentProject (store_view (me_store me) now st') req)"
    then obtain p' where a: "authorizeCurrentProject (store_view (me_store me) now st') req = Inr p'" by (auto simp: okR_iff)
    from a obtain m' where p': "Project (me_store me) st' (TenantID (au_Actor req)) (p_ID p) = Inr p'" and f: "projectMember p' user = Some m'"
      and s: "usable_status (m_Status m')"
      by (rule authorizeCurrentProject_ok) (use q in \<open>auto simp: store_view_def usable_status_def\<close>)
    from p' have "p_Members p' = project_members st' (p_ID p)" by (rule Project_ok)
    then have "m' \<in> set (project_members st' (p_ID p)) \<and> m_UserID m' = user"
      using f find_Some_in [of "\<lambda>m. m_UserID m = user" "p_Members p'" m'] by (simp add: projectMember_def)
    then show False using view_status s bad by metis
  qed
qed

lemma demo_projects: "Projects demo_se demo_s3 (plain_actor 7 ''bob'') 10000 = Inr [demo_p 3 (demo_ms ''active'' [])]"
proof -
  have v: "projectView demo_se demo_s3 (demo_prow 3) = Inr (demo_p 3 (demo_ms ''active'' []))"
    by (simp add: projectView_def demo_prow_def demo_p_def demo_new_def demo_project_def) (simp add: demo_roster demo_ms_tidy demo_s3_def)
  have "list_ex (\<lambda>m. mr_ProjectID m = ''p1'' \<and> mr_UserID m = ''bob'') (st_members demo_s3)"
    by (simp add: demo_s3_def demo_at_def demo_ms_def demo_alice_dm)
  moreover have "st_projects demo_s3 = [demo_prow 3]" by (simp add: demo_s3_def demo_at_def)
  moreover have "pr_ID (demo_prow 3) = ''p1''" "pr_TenantID (demo_prow 3) = 7" "pr_DiscardedAt (demo_prow 3) = None"
    by (simp_all add: demo_prow_def demo_new_def demo_project_def)
  ultimately show ?thesis using v by (simp add: Projects_def plain_actor_def)
qed

lemma demo_suspended: "\<exists>st'. CaptureTenantSuspension (demo_me ''9'') (\<lambda>_. aid ''9'') 7 ''bob'' demo_s3 = Inr st'"
proof -
  let ?f = "\<lambda>x. if m_UserID x = ''bob'' then x\<lparr>m_Status := ''suspended_by_tenant''\<rparr> else x"
  have "commitMembers (demo_me ''9''\<lparr>me_newID := (\<lambda>_. aid ''9'')\<rparr>) = commitMembers (demo_me ''9'')"
    by (intro ext) (simp add: commitMembers_def demo_me_def)
  moreover have "projectMember (demo_p 3 (demo_ms ''active'' [])) ''bob'' = Some (dm ''bob'' ''collaborator'' ''member'' ''active'')"
    by (simp add: projectMember_def demo_ms_def demo_alice_dm)
  moreover have "governanceRole (dm ''bob'' ''collaborator'' ''member'' ''active'') \<noteq> ''owner''" "m_Status (dm ''bob'' ''collaborator'' ''member'' ''active'') = ''active''"
    by (simp_all add: governanceRole_def dm_def)
  moreover have "\<exists>r. commitMembers (demo_me ''9'') (plain_actor 7 ''bob'') ''p1'' (demo_p 3 (demo_ms ''active'' [])) (map ?f (demo_ms ''active'' [])) act tgt rsn demo_s3 = Inr r" for act tgt rsn
  proof -
    have "distinct (map m_UserID (map ?f (demo_ms ''active'' [])))" by (simp add: demo_ms_def demo_alice_dm)
    moreover have "aid ''9'' \<notin> ar_ID ` set (demo_log 2)" by (simp add: demo_log_def numeral_2_eq_2)
    ultimately show ?thesis unfolding demo_s3_def by (subst demo_commit) (simp_all add: plain_actor_def)
  qed
  moreover have "p_ID (demo_p 3 (demo_ms ''active'' [])) = ''p1''" "p_Members (demo_p 3 (demo_ms ''active'' [])) = demo_ms ''active'' []"
    by (simp_all add: demo_p_def demo_new_def demo_project_def)
  ultimately show ?thesis using demo_projects by (simp add: CaptureTenantSuspension_def suspend_in_def) fastforce
qed

theorem suspension_reaches_every_project_witness:
  "\<exists>st'. CaptureTenantSuspension (demo_me ''9'') (\<lambda>_. aid ''9'') 7 ''bob'' demo_s3 = Inr st' \<and>
     \<not> okR (authorizeCurrentProject (store_view demo_se 0 st') (authorizationRequest (plain_actor 7 ''bob'') ''p1'' ''read'' []))"
proof -
  obtain st' where c: "CaptureTenantSuspension (demo_me ''9'') (\<lambda>_. aid ''9'') 7 ''bob'' demo_s3 = Inr st'" using demo_suspended by blast
  have r: "reachable False (me_store (demo_me ''9'')) demo_s3" using demo_reach_3 by simp
  have p: "Projects (me_store (demo_me ''9'')) demo_s3 (plain_actor 7 ''bob'') 10000 = Inr [demo_p 3 (demo_ms ''active'' [])]" using demo_projects by simp
  have m: "projectMember (demo_p 3 (demo_ms ''active'' [])) ''bob'' = Some (dm ''bob'' ''collaborator'' ''member'' ''active'')"
    by (simp add: projectMember_def demo_ms_def demo_alice_dm)
  have i: "p_ID (demo_p 3 (demo_ms ''active'' [])) = ''p1''" by (simp add: demo_p_def demo_new_def demo_project_def)
  have g: "governanceRole (dm ''bob'' ''collaborator'' ''member'' ''active'') \<noteq> ''owner''" by (simp add: governanceRole_def dm_def)
  from suspension_reaches_every_project [OF r p c, THEN conjunct1, THEN bspec, of "demo_p 3 (demo_ms ''active'' [])"]
  have "\<not> okR (authorizeCurrentProject (store_view (me_store (demo_me ''9'')) 0 st') (authorizationRequest (plain_actor 7 ''bob'') ''p1'' ''read'' []))"
    using m g i by (simp add: authorizationRequest_def plain_actor_def)
  then show ?thesis using c by simp
qed

section \<open>Concurrent writes\<close>

text \<open>The member writes that carry the project version the caller has seen.\<close>

datatype member_change =
  Inviting invite_input
| State_of string lifecycle_input
| Assigning string assignment_input
| Replacing int "member list"
| Transferring transfer_input

fun expected_version :: "member_change \<Rightarrow> int" where
  "expected_version (Inviting inp) = ii_Expected inp"
| "expected_version (State_of u inp) = li_Expected inp"
| "expected_version (Assigning u inp) = as_Expected inp"
| "expected_version (Replacing v ms) = v"
| "expected_version (Transferring inp) = ti_Expected inp"

fun change_write :: "('d, 'q) mem_env \<Rightarrow> actor \<Rightarrow> string \<Rightarrow> member_change \<Rightarrow> ('d, 'q) mem_write" where
  "change_write me a pid (Inviting inp) = invite_write me a pid inp"
| "change_write me a pid (State_of u inp) = state_write me a pid u inp"
| "change_write me a pid (Assigning u inp) = assignment_write me a pid u inp"
| "change_write me a pid (Replacing v ms) = permissions_write me a pid v ms"
| "change_write me a pid (Transferring inp) = transfer_write me a pid inp"

lemma stale_change: "p_ProjectVersion p \<noteq> expected_version c \<Longrightarrow> change_write me a pid c p st = Inl (Sentinel ErrVersionConflict)"
  by (cases c) (simp_all add: invite_write_def state_write_def assignment_write_def permissions_write_def transfer_write_def)

lemma change_version:
  assumes inv: "mem_inv g st" and p: "Project se st (TenantID a) pid = Inr p" and wr: "change_write me a pid c p st = Inr (w, st')"
  shows "bump st st' pid (p_ProjectVersion p)"
proof -
  note v = view_ok [OF inv p]
  have commit: "bump st st' pid (p_ProjectVersion p)" if "commitMembers me a pid p ms act tgt rsn st0 = Inr (nxt, st')"
    "st_projects st0 = st_projects st" "st_members st0 = st_members st" "st_perms st0 = st_perms st" "st_transfers st0 = st_transfers st" for ms act tgt rsn st0 nxt
    by (rule commit_effect [OF inv v(3) that])
  have replace: "bump st st' pid (p_ProjectVersion p)" if "UpdateProject (me_store me) (TenantID a) p nxt st = Inr st1" "p_ProjectVersion nxt = p_ProjectVersion p + 1"
    "ReplaceMembers pid ms st1 = Inr st2" "replaceAudit me a pid act st2 = Inr st'" for nxt st1 ms st2 act
    using replace_effect(1) [OF inv v(3) that(1-3), of st'] audit_frame [OF that(4) [unfolded replaceAudit_def]] by simp
  show ?thesis
  proof (cases c)
    case (Inviting inp)
    with wr obtain i e x st1 ms act tgt rsn nxt where put: "PutProjectRecord pid ''invitation'' i e x st = Inr st1"
      and "commitMembers me a pid p ms act tgt rsn st1 = Inr (nxt, st')"
      by (auto simp: invite_write_def Let_def finished_def split: if_splits)
    then show ?thesis using commit put_record_frame [OF put] by blast
  next
    case (State_of u inp)
    with wr obtain ms act tgt rsn nxt where "commitMembers me a pid p ms act tgt rsn st = Inr (nxt, st')"
      by (auto simp: state_write_def finished_def split: if_splits option.splits)
    then show ?thesis using commit by blast
  next
    case (Assigning u inp)
    with wr obtain ms act tgt rsn nxt where "commitMembers me a pid p ms act tgt rsn st = Inr (nxt, st')"
      by (auto simp: assignment_write_def Let_def finished_def split: if_splits option.splits)
    then show ?thesis using commit by blast
  next
    case (Replacing e ms)
    with wr obtain x where "filter (\<lambda>m. m_Role m = ''owner'') (p_Members p) = [x]"
      by (auto simp: permissions_write_def split: if_splits list.splits)
    with wr Replacing obtain ms' st1 st2 where "UpdateProject (me_store me) (TenantID a) p (p\<lparr>p_ProjectVersion := p_ProjectVersion p + 1, p_Members := ms'\<rparr>) st = Inr st1"
      "ReplaceMembers pid ms' st1 = Inr st2" "replaceAudit me a pid ''project.member_permissions.replace'' st2 = Inr st'"
      by (auto simp: permissions_write_def Let_def finished_def simp del: sort_key_simps split: if_splits)
    note u = this
    show ?thesis by (rule replace [OF u(1) _ u(2,3)]) simp
  next
    case (Transferring inp)
    with wr obtain ms' st1 st2 where "UpdateProject (me_store me) (TenantID a) p (p\<lparr>p_ProjectVersion := p_ProjectVersion p + 1, p_Members := ms'\<rparr>) st = Inr st1"
      "ReplaceMembers pid ms' st1 = Inr st2" "replaceAudit me a pid ''project.owner_transfer'' st2 = Inr st'"
      by (auto elim!: transfer_ok_write)
    note u = this
    show ?thesis by (rule replace [OF u(1) _ u(2,3)]) simp
  qed
qed

lemma change_step:
  assumes "Project (me_store me) st (TenantID a) pid = Inr p" "change_write me a pid c p st = Inr (w, st')"
  shows "mem_step False (me_store me) st st'"
  using assms by (cases c) (auto intro: mem_step.invite mem_step.state mem_step.assign mem_step.permissions mem_step.transfer)

lemma steps_version:
  assumes "(mem_step g se)\<^sup>*\<^sup>* st st'" "mem_inv g st" "version_of st pid = Some v"
  shows "mem_inv g st' \<and> (\<exists>v'\<ge>v. version_of st' pid = Some v')"
  using assms
proof (induction rule: rtranclp_induct)
  case (step st1 st2)
  then obtain v1 where inv: "mem_inv g st1" and v1: "v \<le> v1" "version_of st1 pid = Some v1" by blast
  have "\<exists>v2\<ge>v1. version_of st2 pid = Some v2"
    using step_effect [OF step.hyps(2) inv]
  proof (elim disjE conjE exE)
    assume "keeps_owner g st1 st2"
    moreover have "pid \<in> project_ids st1" using v1(2) find_Some_in by (fastforce simp: version_of_def project_ids_def)
    ultimately show ?thesis using v1(2) unfolding keeps_owner_def by fastforce
  next
    fix q u assume "moves_owner st1 st2 q u"
    then show ?thesis using v1(2) by (cases "q = pid") (auto simp: moves_owner_def bump_def)
  qed
  then show ?case using v1(1) step_keeps [OF step.hyps(2) inv] by force
qed auto

text \<open>
  At most one write per version.  When a member write that names the project version it was prepared for
  has succeeded, every other write that names the same version fails with the version conflict, however many
  other writes of the workspace have been committed in between and whoever makes it.
\<close>

theorem one_write_per_version:
  assumes r: "reachable False (me_store me) st" and p: "Project (me_store me) st (TenantID a) pid = Inr p" and wr: "change_write me a pid c p st = Inr (w, st')"
    and later: "(mem_step False (me_store me))\<^sup>*\<^sup>* st' st''"
    and p': "Project (me_store me) st'' (TenantID a') pid = Inr p'" and same: "expected_version c' = expected_version c"
  shows "p_ProjectVersion p = expected_version c \<and> p_ProjectVersion p < p_ProjectVersion p' \<and>
    change_write me' a' pid c' p' st'' = Inl (Sentinel ErrVersionConflict)"
proof -
  have inv: "mem_inv False st" by (rule reachable_inv [OF r])
  have inv': "mem_inv False st'" by (rule step_keeps [OF change_step [OF p wr] inv])
  have e: "p_ProjectVersion p = expected_version c" using stale_change [of p c me a pid st] wr by fastforce
  have "version_of st' pid = Some (p_ProjectVersion p + 1)" using change_version [OF inv p wr] by (simp add: bump_def)
  then obtain v where v: "mem_inv False st''" "p_ProjectVersion p + 1 \<le> v" "version_of st'' pid = Some v"
    using steps_version [OF later inv'] by blast
  have "p_ProjectVersion p' = v" using view_ok(5) [OF v(1) p'] v(3) by simp
  then show ?thesis using e v(2) same stale_change [of p' c' me' a' pid st''] by simp
qed

theorem one_write_per_version_witness:
  "change_write (demo_me ''6'') (plain_actor 7 ''alice'') ''p1'' (State_of ''bob'' demo_remove) (demo_p 6 (demo_ms ''removed'' ''active'')) demo_s6 =
     Inl (Sentinel ErrVersionConflict)"
proof -
  obtain w where h: "change_write (demo_me ''5'') (plain_actor 7 ''alice'') ''p1'' (State_of ''bob'' demo_remove) (demo_p 5 (demo_ms ''active'' ''active'')) demo_s5 = Inr (w, demo_s6)"
    using demo_6 by auto
  have p: "Project (me_store (demo_me ''5'')) demo_s5 (TenantID (plain_actor 7 ''alice'')) ''p1'' = Inr (demo_p 5 (demo_ms ''active'' ''active''))"
    "Project (me_store (demo_me ''5'')) demo_s6 (TenantID (plain_actor 7 ''alice'')) ''p1'' = Inr (demo_p 6 (demo_ms ''removed'' ''active''))"
    by (simp_all add: demo_s5_def demo_s6_def plain_actor_def demo_Project demo_ms_tidy)
  have r: "reachable False (me_store (demo_me ''5'')) demo_s5" using demo_reach_5 by simp
  show ?thesis using one_write_per_version [OF r p(1) h _ p(2), where c' = "State_of ''bob'' demo_remove" and me' = "demo_me ''6''"] by simp
qed

section \<open>What the code does not check\<close>

text \<open>
  \<^verbatim>\<open>ReplaceCollaborators\<close> deletes the member rows of the collaborators and not their permission rows, and every
  path that makes a member also makes a permission row: a replacement that keeps one of them, or brings back
  somebody who was replaced before, violates the unique key and fails.
\<close>

theorem kept_collaborator_fails:
  assumes "collaborators_write me a pid expected ids p st = Inr (w, st')" and "i \<in> set ids" "(pid, i) \<in> perm_key ` set (st_perms st)"
  shows "st' = st"
proof (rule ccontr)
  assume "st' \<noteq> st"
  with assms(1) obtain st1 st2 where up: "UpdateProject (me_store me) (TenantID a) p (p\<lparr>p_ProjectVersion := p_ProjectVersion p + 1\<rparr>) st = Inr st1"
    and re: "ReplaceCollaborators pid ids st1 = Inr st2"
    by (auto simp: collaborators_write_def Let_def finished_def split: if_splits)
  from up have "same_members st st1" by (rule UpdateProject_ok)
  then show False using re assms(2,3) by (auto simp: ReplaceCollaborators_ok same_members_def)
qed

text \<open>
  Neither \<^verbatim>\<open>TransferOwner\<close> looks at the recipient's status nor \<^verbatim>\<open>InviteProjectMember\<close> at the role of the member it
  invites again: an owner hands the project to a removed member, an administrator invites that member, and
  the project is left without an owner.
\<close>

theorem ownerless_project_reachable:
  "\<exists>st p. reachable False demo_se st \<and> Project demo_se st 7 ''p1'' = Inr p \<and> \<not> Archived p \<and> projectOwnerUser p = None"
proof -
  have "Project demo_se demo_s8 7 ''p1'' = Inr (demo_p 8 (lost_ms ''collaborator'' ''invited''))" by (simp add: demo_s8_def demo_Project lost_tidy)
  moreover have "projectOwnerUser (demo_p 8 (lost_ms ''collaborator'' ''invited'')) = None" by (simp add: projectOwnerUser_def lost_ms_def)
  moreover have "\<not> Archived (demo_p 8 (lost_ms ''collaborator'' ''invited''))" by (simp add: Archived_def demo_p_def demo_new_def demo_project_def)
  ultimately show ?thesis using demo_reach_8 by blast
qed

end
