(* ===== verification/Member_Calls.thy ===== *)
theory Member_Calls
  imports Owner_Properties Membership_Service
begin

text \<open>
  The member context composed with the operation pipeline.  Every call of the context, with its checks, its
  early gates, its retried transaction, its audit and its operation record, changes the members of a
  workspace by a sequence of the atomic steps of \<^verbatim>\<open>Ownership\<close>, on every outcome; so what holds in every
  reachable state of that machine holds around the handlers.
\<close>

section \<open>Calls\<close>

datatype member_call =
  Call_Invite invite_input
| Call_Accept string int
| Call_State string lifecycle_input
| Call_Assign string assignment_input
| Call_Save save_members_input
| Call_Transfer transfer_input
| Call_Request transfer_input
| Call_AcceptTransfer string
| Call_Reject string decision_input
| Call_Grant key_grant

fun serve :: "('d, 'q, 'x) member_ws \<Rightarrow> ('d, 'q) read_audit \<Rightarrow> ('d, 'q) mem_env \<Rightarrow> 'x gocontext \<Rightarrow> actor \<Rightarrow> string \<Rightarrow> string \<Rightarrow> int \<Rightarrow> int \<Rightarrow> member_call \<Rightarrow> ('d, 'q) store \<Rightarrow> ('d, 'q) answer" where
  "serve env ra me ctx a pid key el el' (Call_Invite inp) = InviteProjectMember env me ctx a pid key inp el el'"
| "serve env ra me ctx a pid key el el' (Call_Accept i v) = AcceptProjectInvitation env me ctx a pid i key v el el'"
| "serve env ra me ctx a pid key el el' (Call_State u inp) = ChangeMemberState env me ctx a pid u key inp el el'"
| "serve env ra me ctx a pid key el el' (Call_Assign u inp) = SetMemberAssignment env me ctx a pid u key inp el el'"
| "serve env ra me ctx a pid key el el' (Call_Save inp) = SaveMembers env me ctx a pid key inp el el'"
| "serve env ra me ctx a pid key el el' (Call_Transfer inp) = TransferOwner env me ctx a pid key inp el el'"
| "serve env ra me ctx a pid key el el' (Call_Request inp) = RequestOwnerTransfer env me ctx a pid key inp el el'"
| "serve env ra me ctx a pid key el el' (Call_AcceptTransfer i) = AcceptOwnerTransfer env ra me ctx a pid i key el el'"
| "serve env ra me ctx a pid key el el' (Call_Reject i inp) = RejectOwnerTransfer env me ctx a pid i key inp el el'"
| "serve env ra me ctx a pid key el el' (Call_Grant inp) = SaveProjectAPIKeyGrant env me ctx a pid key inp el el'"

section \<open>What the rest of the workspace promises\<close>

text \<open>The rows the pipeline writes beside the operation: none of them is a project, a member or a transfer.\<close>

definition same_tables :: "('d, 'q) store \<Rightarrow> ('d, 'q) store \<Rightarrow> bool" where
  "same_tables t t' \<longleftrightarrow> st_projects t' = st_projects t \<and> st_copies t' = st_copies t \<and> st_members t' = st_members t \<and> st_perms t' = st_perms t \<and>
     st_transfers t' = st_transfers t"

text \<open>
  The seams of the workspace that belong to other components (audit, source pins, provenance, runtime
  observation, operation rows) keep to their own tables; the transactions of other callers, which may run
  between any two attempts, move the members by steps of the same machine; the view the policy reads is the
  store's; and the project of a tenant-level operation is the zero value.
\<close>

definition workspace_rely :: "bool \<Rightarrow> ('d, 'q, 'x) member_ws \<Rightarrow> ('d, 'q) read_audit \<Rightarrow> ('d, 'q) mem_env \<Rightarrow> bool" where
  "workspace_rely g env ra me \<longleftrightarrow>
     (\<exists>now. we_view env = store_view (me_store me) now) \<and> p_ProjectVersion (we_zero env) = 0 \<and>
     (\<forall>ctx a pid cap err t t'. we_audit env ctx a pid cap err t = Inr t' \<longrightarrow> same_tables t t') \<and>
     (\<forall>ctx pid t t'. we_storePins env ctx pid t = Inr t' \<longrightarrow> same_tables t t') \<and>
     (\<forall>ctx v t t'. we_reverseSources env ctx v t = Inr t' \<longrightarrow> same_tables t t') \<and>
     (\<forall>i r v t t'. we_provenance env i r v t = Inr t' \<longrightarrow> same_tables t t') \<and>
     (\<forall>ctx a p pid op tgt status el t t'. we_afterWrite env ctx a p pid op tgt status el t = Inr t' \<longrightarrow> same_tables t t') \<and>
     (\<forall>ctx a pid op e el t. same_tables t (we_observe env ctx a pid op e el t)) \<and>
     (\<forall>tab t. same_tables t (we_set_ops env tab t)) \<and>
     (\<forall>a pid cap e t. same_tables t (ra_alert ra a pid cap e t)) \<and>
     (\<forall>options i t. (mem_step g (me_store me))\<^sup>*\<^sup>* t (at_before (we_sched env options i) t))"

section \<open>Steps of the parts\<close>

lemma same_tables_refl: "reflp same_tables" and same_tables_trans: "transp same_tables"
  by (auto simp: same_tables_def reflp_def transp_def)

lemma same_tables_project: "same_tables t u \<Longrightarrow> Project se u = Project se t"
proof -
  assume "same_tables t u"
  then have "projectView se u = projectView se t" "st_projects u = st_projects t"
    by (simp_all add: fun_eq_iff projectView_def project_members_def same_tables_def)
  then show ?thesis by (intro ext) (simp add: Project_def)
qed

lemma same_tables_step: "same_tables t u \<Longrightarrow> mem_step g se t u"
  by (rule mem_step.other) (simp add: outside_members_def same_tables_def list_all2_refl)

lemma rely_seams:
  assumes "workspace_rely g env ra me"
  shows "quiet_seams (workspace_request env a spec wr) same_tables"
  using assms same_tables_refl same_tables_trans
  by (auto simp: workspace_rely_def quiet_seams_def workspace_request_def operationLedger_def)

lemma rely_env:
  assumes "workspace_rely g env ra me" "env_moves (we_sched env) s t"
  shows "(mem_step g (me_store me))\<^sup>*\<^sup>* s t"
proof -
  have "(s, t) \<in> (env_step (we_sched env))\<^sup>*" using assms(2) by (simp add: env_moves_def)
  then show ?thesis
  proof (induction rule: rtrancl_induct)
    case (step u v)
    then have "(mem_step g (me_store me))\<^sup>*\<^sup>* u v" using assms(1) by (auto simp: env_step_def workspace_rely_def)
    with step.IH show ?case by (rule rtranclp_trans)
  qed simp
qed

text \<open>The context of a call matters to a transfer only through its caller.\<close>

definition caller_of :: "'x gocontext \<Rightarrow> unit gocontext" where
  "caller_of ctx = \<lparr>ctx_Principal = ctx_Principal ctx, ctx_APIKeyScope = ctx_APIKeyScope ctx, ctx_UserID = ctx_UserID ctx, ctx_Values = ()\<rparr>"

lemma accept_transfer_caller: "accept_transfer_write me ctx = accept_transfer_write me (caller_of ctx)"
proof -
  have u: "UserIDFromContext (caller_of ctx) = UserIDFromContext ctx" by (simp add: UserIDFromContext_def caller_of_def)
  have "ctx_Principal (caller_of ctx) = ctx_Principal ctx" by (simp add: caller_of_def)
  then have "PrincipalFromContext ctx = PrincipalFromContext (caller_of ctx)" by (simp only: PrincipalFromContext_def u)
  moreover have "TenantAPIKeyScopeFromContext ctx = TenantAPIKeyScopeFromContext (caller_of ctx)" by (simp add: TenantAPIKeyScopeFromContext_def caller_of_def)
  ultimately have "RequireHumanDecision ctx = RequireHumanDecision (caller_of ctx)" by (simp add: fun_eq_iff RequireHumanDecision_def)
  then have "verifyOwnerTransferOrigin me ctx = verifyOwnerTransferOrigin me (caller_of ctx)" by (simp add: fun_eq_iff verifyOwnerTransferOrigin_def)
  then show ?thesis by (intro ext) (simp only: accept_transfer_write_def)
qed

text \<open>A project that a policy grants is the stored one.\<close>

lemma authorized_project:
  assumes "authorizeProject pol ctx (store_view se now st) r = Inr p"
  shows "Project se st (TenantID (au_Actor r)) (au_ProjectID r) = Inr p"
proof (cases pol)
  case CurrentPolicy
  then have "authorizeCurrentProject (store_view se now st) r = Inr p" using assms by (auto simp: authorizeProject_def split: if_splits)
  then show ?thesis by (rule authorizeCurrentProject_ok) (simp add: store_view_def)
next
  case LegacyPolicy
  then have "legacyAuthorizeProject (store_view se now st) (au_Actor r) (au_ProjectID r) (request_capability r) = Inr p"
    using assms by (auto simp: authorizeProject_def split: if_splits)
  then show ?thesis by (auto simp: legacyAuthorizeProject_def store_view_def split: if_splits)
qed

text \<open>One operation under the pipeline, given that its write is a step.\<close>

lemma operation_steps:
  assumes rely: "workspace_rely g env ra me"
    and step: "\<And>p u w v. au_ProjectID (sp_Request spec) \<noteq> [] \<Longrightarrow> Project (me_store me) u (TenantID a) (au_ProjectID (sp_Request spec)) = Inr p \<Longrightarrow>
      wr p u = Inr (w, v) \<Longrightarrow> mem_step g (me_store me) u v"
    and tenant: "\<And>p u w v. au_ProjectID (sp_Request spec) = [] \<Longrightarrow> p_ProjectVersion p = 0 \<Longrightarrow> wr p u = Inr (w, v) \<Longrightarrow> mem_step g (me_store me) u v"
    and run: "runOperationCore env ctx a spec wr el el' s = (s', r)"
  shows "(mem_step g (me_store me))\<^sup>*\<^sup>* s s'"
proof -
  let ?rq = "workspace_request env a spec wr" and ?I = "\<lambda>t. (mem_step g (me_store me))\<^sup>*\<^sup>* s t"
  obtain out e where R: "Run ctx ?rq el el' s = (s', out, e)" using run by (auto simp: runOperationCore_def split: prod.splits option.splits)
  have quiet: "?I t'" if "same_tables t t'" "?I t" for t t'
    using that(2) same_tables_step [OF that(1)] by (rule rtranclp.rtrancl_into_rtrancl)
  have env: "?I t'" if "env_moves (we_sched env) t t'" "?I t" for t t'
    using that(2) rely_env [OF rely that(1)] by (rule rtranclp_trans)
  obtain now where view: "we_view env = store_view (me_store me) now" and zero: "p_ProjectVersion (we_zero env) = 0"
    using rely by (auto simp: workspace_rely_def)
  have wrote: "?I v" if auth: "authorize_write ctx' ?rq t = Inr p" and q: "same_tables t u" and u: "?I u" and w: "rq_Write ?rq ctx' p u = Inr (val, o', status, v)"
    for ctx' p t u val o' status v
  proof -
    obtain w' where w': "wr p u = Inr (w', v)" using w by (auto simp: workspace_request_def)
    have "mem_step g (me_store me) u v"
    proof (cases "au_ProjectID (sp_Request spec) = []")
      case True
      then have "p = we_zero env" using auth by (auto simp: authorize_write_def Let_def workspace_request_def split: option.splits sum.splits)
      then show ?thesis using tenant [OF True _ w'] zero by simp
    next
      case False
      then have "authorizeProject (we_policy env) ctx' (store_view (me_store me) now t) ((sp_Request spec)\<lparr>au_Actor := a\<rparr>) = Inr p"
        using auth ws_authorize_write [OF False] view by metis
      then have "Project (me_store me) t (TenantID a) (au_ProjectID (sp_Request spec)) = Inr p" using authorized_project by fastforce
      then show ?thesis using step [OF False _ w'] same_tables_project [OF q] by simp
    qed
    with u show ?thesis by (rule rtranclp.rtrancl_into_rtrancl)
  qed
  show ?thesis by (rule ws.run_keeps [where I = ?I, OF rely_seams [OF rely]]) (fact quiet, fact env, fact wrote, fact R, simp)
qed

lemma read_tx_steps:
  assumes rely: "workspace_rely g env ra me" and r: "read_tx env options zero body s = (s', r)"
  shows "(mem_step g (me_store me))\<^sup>*\<^sup>* s s'"
proof -
  let ?fn = "\<lambda>k t. case body t of Inl e \<Rightarrow> (k, Inl e) | Inr r \<Rightarrow> (r, Inr t)"
  obtain k t e where g: "gorm_Transaction (we_ctxErr env) (we_sched env) options ?fn zero s = (k, t, e)" by (rule prod_cases3)
  have t: "t = s'" using r g by (cases e) (simp_all add: read_tx_def)
  show ?thesis
  proof (cases e)
    case None
    then obtain k0 s0 where "env_moves (we_sched env) s s0" "?fn k0 s0 = (k, Inr t)"
      using gorm_Transaction_commit [of "we_ctxErr env" "we_sched env" options ?fn zero s k t "\<lambda>_. True"] g by blast
    then show ?thesis using rely_env [OF rely] t by (auto split: sum.splits)
  next
    case (Some x)
    from gorm_Transaction_rollback [OF g [unfolded Some]] have "env_moves (we_sched env) s t" .
    then show ?thesis using rely_env [OF rely] t by simp
  qed
qed

lemma Authorize_steps:
  assumes rely: "workspace_rely g env ra me" and r: "Authorize env ra ctx a pid cap s = (s', r)"
  shows "(mem_step g (me_store me))\<^sup>*\<^sup>* s s'"
proof -
  have audit: "(mem_step g (me_store me))\<^sup>*\<^sup>* t t'" if au: "recordReadAudit env ra ctx a pid c err t = (t', e)" for c err t t' e
  proof (cases "ra_auditing ra")
    case False
    then show ?thesis using au by (simp add: recordReadAudit_def)
  next
    case True
    let ?fn = "\<lambda>(k :: unit) t. (k, we_audit env ctx a pid c err t)"
    obtain k where g: "gorm_Transaction (we_ctxErr env) (we_sched env) \<lparr>ReadOnly = False, RetryLocks = False, RepeatableRead = False\<rparr> ?fn () t = (k, t', e)"
      using au True by (auto simp: recordReadAudit_def split: prod.splits)
    show ?thesis
    proof (cases e)
      case None
      then obtain s0 where m: "env_moves (we_sched env) t s0" and "we_audit env ctx a pid c err s0 = Inr t'"
        using gorm_Transaction_commit [of "we_ctxErr env" "we_sched env" _ ?fn "()" t k t' "\<lambda>_. True"] g by auto
      then have "same_tables s0 t'" using rely by (auto simp: workspace_rely_def)
      with rely_env [OF rely m] show ?thesis using same_tables_step by (metis rtranclp.rtrancl_into_rtrancl)
    next
      case (Some x)
      from gorm_Transaction_rollback [OF g [unfolded Some]] show ?thesis by (rule rely_env [OF rely])
    qed
  qed
  have alert: "mem_step g (me_store me) t (ra_alert ra a' pid' c e t)" for a' pid' c e t
    by (rule same_tables_step) (use rely in \<open>simp add: workspace_rely_def\<close>)
  show ?thesis
  proof (cases "authorizationRequestFromCapability a pid cap")
    case (Inl x)
    then show ?thesis using r by (simp add: Authorize_def)
  next
    case (Inr rq)
    then obtain s1 r1 s2 e where "read_tx env \<lparr>ReadOnly = False, RetryLocks = False, RepeatableRead = True\<rparr> (we_zero env)
          (\<lambda>t. authorizeProject (we_policy env) ctx (we_view env t) rq) s = (s1, r1)"
      and "recordReadAudit env ra ctx a pid (request_capability rq) (errR r1) s1 = (s2, e)"
      and s': "s' = s2 \<or> (\<exists>x. s' = ra_alert ra a pid (request_capability rq) x s2)"
      using r by (auto simp: Authorize_def readWithAudit_def split: prod.splits option.splits)
    then have "(mem_step g (me_store me))\<^sup>*\<^sup>* s s2" using read_tx_steps [OF rely] audit by (metis rtranclp_trans)
    then show ?thesis using s' alert by (metis rtranclp.rtrancl_into_rtrancl)
  qed
qed

lemma Freeze_steps:
  "workspace_rely g env ra me \<Longrightarrow> OwnerFreezeRefusal env a pid s = (s', r) \<Longrightarrow> (mem_step g (me_store me))\<^sup>*\<^sup>* s s'"
  by (auto simp: OwnerFreezeRefusal_def split: prod.splits dest: read_tx_steps)

text \<open>A write that names a version of at least one never runs on the zero project.\<close>

lemma version_writes:
  assumes "p_ProjectVersion p = 0"
  shows "1 \<le> ii_Expected ii \<Longrightarrow> invite_write me a pid ii p u = Inl (Sentinel ErrVersionConflict)"
    and "1 \<le> li_Expected li \<Longrightarrow> state_write me a pid user li p u = Inl (Sentinel ErrVersionConflict)"
    and "1 \<le> as_Expected ai \<Longrightarrow> assignment_write me a pid user ai p u = Inl (Sentinel ErrVersionConflict)"
    and "1 \<le> e \<Longrightarrow> collaborators_write me a pid e ids p u = Inl (Sentinel ErrVersionConflict)"
    and "1 \<le> e \<Longrightarrow> permissions_write me a pid e ms p u = Inl (Sentinel ErrVersionConflict)"
    and "1 \<le> ti_Expected ti \<Longrightarrow> transfer_write me a pid ti p u = Inl (Sentinel ErrVersionConflict)"
    and "1 \<le> di_Expected di \<Longrightarrow> reject_transfer_write me a pid i di p u = Inl (Sentinel ErrVersionConflict)"
    and "1 \<le> kg_ExpectedProjectVersion kg \<Longrightarrow> grant_write me a pid kg p u = Inl (Sentinel ErrVersionConflict)"
  using assms by (simp_all add: invite_write_def state_write_def assignment_write_def collaborators_write_def permissions_write_def
      transfer_write_def reject_transfer_write_def grant_write_def)

lemma usable_recipient:
  assumes "accept_transfer_write me ctx a pid i p u = Inr (w, v)" "me_activation me"
  shows "usable_status (status_of u pid (UserID a))"
proof -
  from assms obtain q where q: "Project (me_store me) u (TenantID a) pid = Inr q" and m: "usable_member q (UserID a)"
    by (auto simp: accept_transfer_write_def split: if_splits sum.splits)
  then obtain m where f: "projectMember q (UserID a) = Some m" and s: "usable_status (m_Status m)"
    by (auto simp: usable_member_def usable_status_def split: option.splits)
  from q have "p_Members q = project_members u pid" by (rule Project_ok)
  then have "m \<in> set (project_members u pid) \<and> m_UserID m = UserID a" using projectMember_Some [OF f] by simp
  then show ?thesis using view_status s by metis
qed

lemma project_operation:
  assumes rely: "workspace_rely g env ra me"
    and step: "\<And>p u w v. Project (me_store me) u (TenantID a) pid = Inr p \<Longrightarrow> wr p u = Inr (w, v) \<Longrightarrow> mem_step g (me_store me) u v"
    and zero: "\<And>p u. p_ProjectVersion p = 0 \<Longrightarrow> wr p u = Inl (Sentinel ErrVersionConflict)"
    and run: "runOperationCore env ctx a (member_spec name tgt key body (authorizationRequest a pid act [])) wr el el' s = (s', r)"
  shows "(mem_step g (me_store me))\<^sup>*\<^sup>* s s'"
  by (rule operation_steps [OF rely _ _ run]) (use step zero in \<open>auto simp: member_spec_def authorizationRequest_def\<close>)

lemma tenant_operation:
  assumes rely: "workspace_rely g env ra me" and step: "\<And>p u w v. wr p u = Inr (w, v) \<Longrightarrow> mem_step g (me_store me) u v"
    and run: "runOperationCore env ctx a spec wr el el' s = (s', r)"
  shows "(mem_step g (me_store me))\<^sup>*\<^sup>* s s'"
  by (rule operation_steps [OF rely _ _ run]) (use step in blast)+

lemma gate_then_run:
  "s' = s \<or> P \<and> (s' = s1 \<or> (\<exists>x. Q x)) \<Longrightarrow> (P \<Longrightarrow> R\<^sup>*\<^sup>* s s1) \<Longrightarrow> (\<And>x. Q x \<Longrightarrow> R\<^sup>*\<^sup>* s1 s') \<Longrightarrow> R\<^sup>*\<^sup>* s s'"
  by (auto intro: rtranclp_trans)

lemma serve_steps:
  assumes rely: "workspace_rely g env ra me" and g: "g \<Longrightarrow> me_activation me \<and> (\<forall>inp. call \<noteq> Call_Transfer inp)"
    and run: "serve env ra me ctx a pid key el el' call s = (s', r)"
  shows "(mem_step g (me_store me))\<^sup>*\<^sup>* s s'"
proof (cases call)
  case (Call_Invite inp)
  with run show ?thesis
    by (auto simp: InviteProjectMember_def refuse_def manage_request_def split: if_splits elim!: project_operation [OF rely, rotated 2]
        intro: mem_step.invite version_writes)
next
  case (Call_Accept i v)
  then obtain s1 r1 where r1: "s' = s \<or> read_tx env read_only () (\<lambda>t. bindR (authorizeTenant (we_policy env) ctx (we_view env t) (tenant_read_request a))
      (\<lambda>_. accept_precheck me a pid i v t)) s = (s1, r1) \<and> (s' = s1 \<or> (\<exists>spec. runOperationCore env ctx a spec (accept_write me a pid i v) el el' s1 = (s', r)))"
    using run by (auto simp: AcceptProjectInvitation_def refuse_def split: if_splits prod.splits sum.splits)
  have st: "(mem_step g (me_store me))\<^sup>*\<^sup>* s1 s'" if "runOperationCore env ctx a spec (accept_write me a pid i v) el el' s1 = (s', r)" for spec
    by (rule tenant_operation [OF rely _ that]) (rule mem_step.accept [OF refl])
  show ?thesis by (rule gate_then_run [OF r1]) (erule read_tx_steps [OF rely], erule st)
next
  case (Call_State u inp)
  with run show ?thesis
    by (auto simp: ChangeMemberState_def refuse_def manage_request_def split: if_splits elim!: project_operation [OF rely, rotated 2]
        intro: mem_step.state version_writes)
next
  case (Call_Assign u inp)
  with run show ?thesis
    by (auto simp: SetMemberAssignment_def refuse_def manage_request_def split: if_splits elim!: project_operation [OF rely, rotated 2]
        intro: mem_step.assign version_writes)
next
  case (Call_Save inp)
  with run show ?thesis
    by (auto simp: SaveMembers_def saveMemberPermissions_def refuse_def manage_request_def Let_def split: if_splits option.splits elim!: project_operation [OF rely, rotated 2]
        intro: mem_step.collaborators mem_step.permissions version_writes)
next
  case (Call_Transfer inp)
  then have ng: "\<not> g" using g by auto
  from Call_Transfer obtain s1 e where s1: "s' = s \<or> OwnerFreezeRefusal env a pid s = (s1, e) \<and> (s' = s1 \<or> (\<exists>tgt. 1 \<le> ti_Expected inp \<and>
      runOperationCore env ctx a (member_spec ''transferOwner'' tgt key (BTransfer inp) (authorizationRequest a pid ''manage'' [])) (transfer_write me a pid inp) el el' s1 = (s', r)))"
    using run by (auto simp: TransferOwner_def refuse_def manage_request_def split: if_splits prod.splits option.splits)
  have st: "(mem_step g (me_store me))\<^sup>*\<^sup>* s1 s'" if "1 \<le> ti_Expected inp \<and>
    runOperationCore env ctx a (member_spec ''transferOwner'' tgt key (BTransfer inp) (authorizationRequest a pid ''manage'' [])) (transfer_write me a pid inp) el el' s1 = (s', r)" for tgt
    by (rule project_operation [OF rely _ _ that [THEN conjunct2]]) (use ng that in \<open>auto intro: mem_step.transfer version_writes\<close>)
  show ?thesis by (rule gate_then_run [OF s1]) (erule Freeze_steps [OF rely], erule st)
next
  case (Call_Request inp)
  then obtain s1 e inp' where s1: "s' = s \<or> OwnerFreezeRefusal env a pid s = (s1, e) \<and> (s' = s1 \<or>
      (\<exists>spec. runOperationCore env ctx a spec (request_write me a pid inp') el el' s1 = (s', r)))"
    using run by (auto simp: RequestOwnerTransfer_def refuse_def Let_def split: if_splits prod.splits option.splits)
  have st: "(mem_step g (me_store me))\<^sup>*\<^sup>* s1 s'" if "runOperationCore env ctx a spec (request_write me a pid inp') el el' s1 = (s', r)" for spec
    by (rule tenant_operation [OF rely _ that]) (rule mem_step.request [OF refl])
  show ?thesis by (rule gate_then_run [OF s1]) (erule Freeze_steps [OF rely], erule st)
next
  case (Call_AcceptTransfer i)
  then obtain s1 e where s1: "s' = s \<or> (s1 = s \<or> Authorize env ra ctx a pid ''read'' s = (s1, e)) \<and> (s' = s1 \<or>
      (\<exists>spec. runOperationCore env ctx a spec (accept_transfer_write me ctx a pid i) el el' s1 = (s', r)))"
    using run by (auto simp: AcceptOwnerTransfer_def refuse_def split: if_splits prod.splits option.splits)
  have st: "(mem_step g (me_store me))\<^sup>*\<^sup>* s1 s'" if "runOperationCore env ctx a spec (accept_transfer_write me ctx a pid i) el el' s1 = (s', r)" for spec
  proof (rule tenant_operation [OF rely _ that])
    fix p u w v assume w: "accept_transfer_write me ctx a pid i p u = Inr (w, v)"
    show "mem_step g (me_store me) u v"
      by (rule mem_step.accept_transfer [OF refl _ w [unfolded accept_transfer_caller [of me ctx]]]) (use usable_recipient [OF w] g in blast)
  qed
  show ?thesis by (rule gate_then_run [OF s1]) (erule disjE, simp, erule Authorize_steps [OF rely], erule st)
next
  case (Call_Reject i inp)
  with run show ?thesis
    by (auto simp: RejectOwnerTransfer_def refuse_def split: if_splits elim!: project_operation [OF rely, rotated 2]
        intro: mem_step.reject version_writes)
next
  case (Call_Grant inp)
  with run show ?thesis
    by (auto simp: SaveProjectAPIKeyGrant_def refuse_def manage_request_def split: if_splits elim!: project_operation [OF rely, rotated 2]
        intro: mem_step.grant version_writes)
qed

section \<open>The composed property\<close>

text \<open>A request as it reaches the service, and the store after a list of requests, one after the other.\<close>

record ('d, 'q, 'x) member_request =
  mq_ws :: "('d, 'q, 'x) member_ws"
  mq_audit :: "('d, 'q) read_audit"
  mq_env :: "('d, 'q) mem_env"
  mq_ctx :: "'x gocontext"
  mq_actor :: actor
  mq_project :: string
  mq_key :: string
  mq_call :: member_call

definition serve_request :: "('d, 'q, 'x) member_request \<Rightarrow> ('d, 'q) store \<Rightarrow> ('d, 'q) store" where
  "serve_request q s = fst (serve (mq_ws q) (mq_audit q) (mq_env q) (mq_ctx q) (mq_actor q) (mq_project q) (mq_key q) 0 0 (mq_call q) s)"

definition admissible :: "bool \<Rightarrow> ('d, 'q) store_env \<Rightarrow> ('d, 'q, 'x) member_request \<Rightarrow> bool" where
  "admissible g se q \<longleftrightarrow> me_store (mq_env q) = se \<and> workspace_rely g (mq_ws q) (mq_audit q) (mq_env q) \<and>
     (g \<longrightarrow> me_activation (mq_env q) \<and> (\<forall>inp. mq_call q \<noteq> Call_Transfer inp))"

lemma steps_reachable: "(mem_step g se)\<^sup>*\<^sup>* s t \<Longrightarrow> reachable g se s \<Longrightarrow> reachable g se t"
  by (induction rule: rtranclp_induct) (auto intro: reachable.step)

lemma request_steps: "admissible g se q \<Longrightarrow> (mem_step g se)\<^sup>*\<^sup>* s (serve_request q s)"
  using serve_steps [of g "mq_ws q" "mq_audit q" "mq_env q" "mq_call q" "mq_ctx q" "mq_actor q" "mq_project q" "mq_key q" 0 0 s]
  unfolding admissible_def serve_request_def by (metis prod.collapse)


definition demo_ws :: "(unit, unit, unit) member_ws" where
  "demo_ws = \<lparr>
     we_view = store_view demo_se 0, we_policy = CurrentPolicy, we_ops = st_ops, we_set_ops = (\<lambda>t s. s\<lparr>st_ops := t\<rparr>),
     we_zero = (demo_project [])\<lparr>p_ProjectVersion := 0\<rparr>, we_ctxErr = None, we_sched = (\<lambda>o' i. demo_attempt),
     we_marshalBody = (\<lambda>b. Inr ''body''), we_marshalValue = (\<lambda>v. Inr ''saved''), we_audit = (\<lambda>ctx a pid cap err s. Inr s),
     we_checkSources = (\<lambda>ctx a pid ids s. None), we_prepareCached = (\<lambda>ctx r i b s. Inr (ctx, False)),
     we_prepare = (\<lambda>ctx i pid b s. Inr ctx), we_inverse = (\<lambda>b. False), we_validate = (\<lambda>ctx s a p op. None),
     we_storePins = (\<lambda>ctx pid s. Inr s), we_reverseSources = (\<lambda>ctx v s. Inr s), we_provenance = (\<lambda>i r v s. Inr s),
     we_project = (\<lambda>ctx a op pid body s. Inr body), we_runtimeGate = (\<lambda>ctx s a p op. None),
     we_afterWrite = (\<lambda>ctx a p pid op tgt st el s. Inr s), we_observe = (\<lambda>ctx a pid op e el s. s)\<rparr>"

definition demo_remove_request :: "(unit, unit, unit) member_request" where
  "demo_remove_request = \<lparr>mq_ws = demo_ws, mq_audit = \<lparr>ra_auditing = False, ra_alert = (\<lambda>a pid cap e s. s)\<rparr>, mq_env = demo_me ''5'', mq_ctx = demo_ctx,
     mq_actor = plain_actor 7 ''alice'', mq_project = ''p1'', mq_key = ''key-0001'', mq_call = Call_State ''bob'' demo_remove\<rparr>"

lemma demo_admissible: "admissible False demo_se demo_remove_request"
proof -
  have "same_tables t t" "same_tables t (t\<lparr>st_ops := x\<rparr>)" for t :: "(unit, unit) store" and x by (simp_all add: same_tables_def)
  then show ?thesis
    by (auto simp: admissible_def workspace_rely_def demo_remove_request_def demo_ws_def demo_attempt_def)
qed

lemma demo_granted:
  "authorizeProject CurrentPolicy demo_ctx (store_view demo_se 0 demo_s5) (authorizationRequest (plain_actor 7 ''alice'') ''p1'' ''manage'' []) = Inr (demo_p 5 (demo_ms ''active'' ''active''))"
proof -
  have p: "v_Project (store_view demo_se 0 demo_s5) 7 ''p1'' = Inr (demo_p 5 (demo_ms ''active'' ''active''))"
    by (simp add: store_view_def demo_s5_def demo_Project demo_ms_tidy)
  have m: "projectMember (demo_p 5 (demo_ms ''active'' ''active'')) ''alice'' = Some (dm ''alice'' ''owner'' ''owner'' ''active'')"
    by (simp add: projectMember_def demo_ms_def demo_alice_dm)
  have "currentTenantRole (store_view demo_se 0 demo_s5) (plain_actor 7 ''alice'') = Inr ''contributor''"
    by (simp add: currentTenantRole_def store_view_def CurrentTenantRole_def demo_s5_def demo_at_def demo_st0_def tenant_row_def storageError_def role_IsValid_def plain_actor_def)
  moreover have "v_ActiveMember (store_view demo_se 0 demo_s5) (plain_actor 7 ''alice'') = Inr True"
    by (simp add: store_view_def ActiveMember_def demo_s5_def demo_at_def demo_st0_def tenant_row_def plain_actor_def)
  ultimately have t: "authorizeCurrentTenant (store_view demo_se 0 demo_s5) (authorizationRequest (plain_actor 7 ''alice'') ''p1'' ''manage'' []) = Inr ()"
    by (simp add: authorizeCurrentTenant_def legacyAuthorizeTenant_def authorizationRequest_def permissionRoles_def role_HasPermission_def role_Level_def role_IsValid_def
        validActor_def)
  show ?thesis using p m t
    by (simp add: authorizeProject_def authorizeAPIKeyProject_def RequireHumanDecision_def TenantAPIKeyScopeFromContext_def
      PrincipalFromContext_def UserIDFromContext_def demo_ctx_def validAuthorizationAction_def authorizationActions_def
      authorizeCurrentProject_def authorizationRequest_def plain_actor_def governanceRole_def Let_def demo_p_def demo_new_def demo_project_def)
qed

lemma demo_served: "serve_request demo_remove_request demo_s5 = demo_s6\<lparr>st_ops := [\<lparr>or_TenantID = 7, or_UserID = ''alice'', or_Operation = ''memberLifecycle'',
    or_Target = ''p1/bob'', or_Key = ''key-0001'', or_BodyHash = sha256_hex ''body'', or_ResponseJSON = ''saved'', or_ResponseCode = 200\<rparr>]\<rparr>"
proof -
  obtain w where w: "state_write (demo_me ''5'') (plain_actor 7 ''alice'') ''p1'' ''bob'' demo_remove (demo_p 5 (demo_ms ''active'' ''active'')) demo_s5 = Inr (w, demo_s6)"
    using demo_6 by blast
  have st: "oo_Status w = OperationStatusOK" "oo_Output w = []" using w by (auto simp: state_write_def finished_def split: if_splits option.splits)
  have ops: "st_ops demo_s5 = []" "st_ops demo_s6 = []" by (simp_all add: demo_s5_def demo_s6_def demo_at_def demo_st0_def)
  have "trim_space ''left'' = ''left''" by (rule trim_space_visible) (simp add: visible_ascii_def ncode_def)
  then have valid: "\<not> li_Expected demo_remove < 1" "trim_space (li_Reason demo_remove) \<noteq> []" "li_Action demo_remove \<in> set lifecycle_actions"
    by (simp_all add: demo_remove_def lifecycle_actions_def)
  let ?a = "plain_actor 7 ''alice''"
  let ?spec = "member_spec ''memberLifecycle'' ''p1/bob'' ''key-0001'' (BLifecycle demo_remove) (manage_request ?a ''p1'')"
  let ?rq = "workspace_request demo_ws ?a ?spec (state_write (demo_me ''5'') ?a ''p1'' ''bob'' demo_remove)"
  have gate: "gate_caller demo_ctx ?rq = Inr (sha256_hex ''body'')"
    by (simp add: gate_caller_def workspace_request_def spec_identity_def member_spec_def manage_request_def demo_ws_def plain_actor_def
      validActor_def ValidKey_def MinKeyLength_def MaxKeyLength_def seam_check_def requireInverseCaller_def authorizationRequest_def
      workspaceHumanGate_def workspaceHumanDecisionOperations_def RequestHash_def digestJSON_def RequireHumanDecision_def
      TenantAPIKeyScopeFromContext_def PrincipalFromContext_def UserIDFromContext_def demo_ctx_def)
  have rq: "(sp_Request ?spec)\<lparr>au_Actor := ?a\<rparr> = authorizationRequest ?a ''p1'' ''manage'' []"
    by (simp add: member_spec_def manage_request_def authorizationRequest_def)
  have admit: "admit demo_ctx ?rq demo_s5 = Inr (demo_p 5 (demo_ms ''active'' ''active''), demo_s5)"
    using demo_granted rq by (simp add: admit_def authorize_write_def workspace_request_def demo_ws_def check_project_def seam_check_def
      member_spec_def authorizationRequest_def manage_request_def)
  have phase: "source_phase demo_ctx ?rq (sha256_hex ''body'') demo_s5 =
     (demo_s5, Inr \<lparr>c_result = zero_result, c_replayed = False, c_project = rq_zeroProject ?rq, c_sources = [], c_found = False\<rparr>)"
    by (simp add: source_phase_def workspace_request_def member_spec_def Let_def)
  have run: "\<exists>out. Run demo_ctx ?rq 0 0 demo_s5 = (demo_s6\<lparr>st_ops := [\<lparr>or_TenantID = 7, or_UserID = ''alice'', or_Operation = ''memberLifecycle'',
    or_Target = ''p1/bob'', or_Key = ''key-0001'', or_BodyHash = sha256_hex ''body'', or_ResponseJSON = ''saved'', or_ResponseCode = 200\<rparr>]\<rparr>, out, None)"
    using gate admit phase w st ops
    by (simp add: Run_def prepare_step_def write_body_def replay_lookup_def source_compare_def source_ids_def
      mark_replay_def perform_def seam_check_def seam_write_def gorm_Transaction_def tx_once_def demo_attempt_def
      workspace_request_def demo_ws_def operationLedger_def member_spec_def SaveOperation_def spec_identity_def Operation_def
      op_RetryLocks_def retryLockedOperations_def plain_actor_def zero_outcome_def manage_request_def authorizationRequest_def)
  then show ?thesis
    using valid by (auto simp: serve_request_def demo_remove_request_def ChangeMemberState_def runOperationCore_def)
qed


end
