(* ===== verification/Retry_Properties.thy ===== *)
theory Retry_Properties
  imports Tx_Retry
begin

text \<open>
  How long a transaction that meets a locked database goes on: it runs its closure a bounded number of
  times, and as long as the budget lasts a lock that is released in time costs the caller nothing.
\<close>

section \<open>Counting the executions of a closure\<close>

definition counted :: "('k, 's) tx_fun \<Rightarrow> (nat \<times> 'k, 's) tx_fun" where
  "counted fn = (\<lambda>(c, k) s. case fn k s of (k', r) \<Rightarrow> ((Suc c, k'), r))"

definition counts :: "nat \<times> 'k \<Rightarrow> nat \<Rightarrow> (nat \<times> 'k) \<times> 's \<times> goerr option \<Rightarrow> 'k \<times> 's \<times> goerr option \<Rightarrow> bool" where
  "counts ck n r r' \<longleftrightarrow> (case r of ((c, k), s, e) \<Rightarrow> c \<le> fst ck + n \<and> r' = (k, s, e))"

lemma counts_once: "counts (c, k) 1 (tx_once a (counted fn) (c, k) s) (tx_once a fn k s)"
  by (auto simp: tx_once_def counts_def counted_def Let_def split: prod.splits sum.splits option.splits)

lemma counts_loop: "counts (c, k) n (retry_loop sched (counted fn) n i (c, k) s) (retry_loop sched fn n i k s)"
proof (induction n arbitrary: i c k s)
  case (Suc n)
  obtain c1 k1 s1 e where one: "tx_once (sched i) (counted fn) (c, k) s = ((c1, k1), s1, e)" by (metis surj_pair)
  have c1: "c1 \<le> Suc c" and plain: "tx_once (sched i) fn k s = (k1, s1, e)"
    using counts_once [of c k "sched i" fn s] one by (simp_all add: counts_def)
  have "counts (c, k) (Suc n) (retry_loop sched (counted fn) n (Suc i) (c1, k1) s1) (retry_loop sched fn n (Suc i) k1 s1)"
    using Suc.IH [where c = c1 and k = k1 and s = s1 and i = "Suc i"] c1 by (auto simp: counts_def split: prod.splits)
  then show ?case using one plain c1 by (auto simp: Let_def counts_def split: option.splits)
qed (simp add: counts_def)

text \<open>
  C16. Retrying ends.  Whatever the database and the other transactions do, a transaction that retries on lock
  errors runs its closure at most 64 times, one that does not at most once; the answer is the one of the
  uncounted closure.
\<close>

theorem retries_are_bounded:
  "case gorm_Transaction ctxErr sched options (counted fn) (0, k) s of ((c, k'), s', e) \<Rightarrow>
     c \<le> (if RetryLocks options then specLockMaxAttempts else 1) \<and> gorm_Transaction ctxErr sched options fn k s = (k', s', e)"
proof -
  obtain c1 k1 s1 e1 where one: "tx_once (sched options 0) (counted fn) (0, k) s = ((c1, k1), s1, e1)" by (metis surj_pair)
  have c1: "c1 \<le> 1" and plain: "tx_once (sched options 0) fn k s = (k1, s1, e1)"
    using counts_once [of 0 k "sched options 0" fn s] one by (simp_all add: counts_def)
  have "counts (c1, k1) (specLockMaxAttempts - 1) (retry_loop (sched options) (counted fn) (specLockMaxAttempts - 1) 1 (c1, k1) s1)
      (retry_loop (sched options) fn (specLockMaxAttempts - 1) 1 k1 s1)" by (rule counts_loop)
  then show ?thesis
    using one plain c1 by (auto simp: gorm_Transaction_def retrySQLiteSpecOperation_def counts_def specLockMaxAttempts_def split: prod.splits option.splits)
qed

section \<open>A lock that is released in time\<close>

text \<open>
  \<^verbatim>\<open>run i\<close> is the captured value and the store before attempt \<^verbatim>\<open>i\<close>.  An attempt meets a lock when the driver
  fails with a lock error at its beginning, in the closure or at the commit, with time left.
\<close>

definition meets_lock :: "'s attempt \<Rightarrow> ('k, 's) tx_fun \<Rightarrow> 'k \<times> 's \<Rightarrow> 'k \<times> 's \<Rightarrow> bool" where
  "meets_lock a fn x y \<longleftrightarrow> \<not> at_expired a \<and> at_ctx a = None \<and> \<not> at_deadline a \<and>
     (\<exists>e. tx_once a fn (fst x) (snd x) = (fst y, snd y, Some e) \<and> isSQLiteLockError e)"

lemma retry_until:
  assumes "\<And>j. j < m \<Longrightarrow> meets_lock (sched (i + j)) fn (run j) (run (Suc j))" "m < n"
    and "\<not> at_expired (sched (i + m))" "tx_once (sched (i + m)) fn (fst (run m)) (snd (run m)) = (k', s', None)"
  shows "retry_loop sched fn n i (fst (run 0)) (snd (run 0)) = (k', s', None)"
  using assms
proof (induction m arbitrary: i n run)
  case 0
  then show ?case by (cases n) (auto simp: Let_def)
next
  case (Suc m)
  obtain n' where n: "n = Suc n'" using Suc.prems(2) by (cases n) auto
  have "retry_loop sched fn n' (Suc i) (fst (run 1)) (snd (run 1)) = (k', s', None)"
    using Suc.IH [of "Suc i" "\<lambda>j. run (Suc j)" n'] Suc.prems n by force
  then show ?case using Suc.prems(1) [of 0] n by (auto simp: meets_lock_def Let_def)
qed

text \<open>
  C17. A lock that is released within the budget is invisible.  When a retrying transaction meets lock errors
  and one of its first 64 attempts would succeed, the caller gets exactly that attempt's result, without an error.
\<close>

theorem released_lock_commits:
  assumes "RetryLocks options" and "n < specLockMaxAttempts"
    and locked: "\<And>i. i < n \<Longrightarrow> meets_lock (sched options i) fn (run i) (run (Suc i))" and start: "run 0 = (k, s)"
    and last: "0 < n \<longrightarrow> \<not> at_expired (sched options n)" "tx_once (sched options n) fn (fst (run n)) (snd (run n)) = (k', s', None)"
  shows "gorm_Transaction None sched options fn k s = (k', s', None)"
proof (cases n)
  case 0
  then show ?thesis using assms by (simp add: gorm_Transaction_def retrySQLiteSpecOperation_def)
next
  case (Suc m)
  have "retry_loop (sched options) fn (specLockMaxAttempts - 1) 1 (fst (run 1)) (snd (run 1)) = (k', s', None)"
    using retry_until [of m "sched options" 1 fn "\<lambda>j. run (Suc j)" "specLockMaxAttempts - 1" k' s'] locked last assms(2) Suc by simp
  then show ?thesis using locked [of 0] start Suc assms(1) by (auto simp: gorm_Transaction_def retrySQLiteSpecOperation_def meets_lock_def)
qed

definition busy_attempt :: "nat attempt" where
  "busy_attempt = \<lparr>at_before = Suc, at_begin = Some (Coded 5 ''locked''), at_commit = None, at_expired = False, at_ctx = None, at_deadline = False\<rparr>"

theorem released_lock_commits_witness:
  "gorm_Transaction None (\<lambda>options i. if i < 3 then busy_attempt else busy_attempt\<lparr>at_begin := None\<rparr>)
     \<lparr>ReadOnly = False, RetryLocks = True, RepeatableRead = False\<rparr> (\<lambda>k s. (k + 1, Inr (s * 10))) (7 :: nat) 0 = (8, 40, None)"
  by (rule released_lock_commits [where n = 3 and run = "\<lambda>i. (7, i)"])
     (simp_all add: meets_lock_def busy_attempt_def tx_once_def isSQLiteLockError_def specLockMaxAttempts_def)

end
