(* ===== verification/Source_Marker.thy ===== *)
theory Source_Marker
  imports Prelude
begin

text \<open>
  The source markers of research bodies, \<^verbatim>\<open>internal/lingdoc/sourcemarker\<close>: the literal syntax
  \<^verbatim>\<open>[[source:<id>]]\<close>, its recognition, and the check that every prefix in a body belongs to a marker.

  The regular expression of the package is written out as the scanner it denotes: the identifier is the longest
  run of identifier characters, which a closing bracket ends, so leftmost-first matching is deterministic.
  All characters of the syntax are ASCII, so bytes and code points agree on it.
\<close>

section \<open>The syntax\<close>

definition marker_prefix :: string where
  "marker_prefix = ''[[source:''"

definition id_char :: "char \<Rightarrow> bool" where
  "id_char c \<longleftrightarrow> (CHR ''A'' \<le> c \<and> c \<le> CHR ''Z'') \<or> (CHR ''a'' \<le> c \<and> c \<le> CHR ''z'') \<or> (CHR ''0'' \<le> c \<and> c \<le> CHR ''9'') \<or> c = CHR ''_'' \<or> c = CHR ''-''"

text \<open>\<^verbatim>\<open>markerPattern\<close> anchored at the start of a string: the identifier and what follows the marker.\<close>

definition markerPattern :: "string \<Rightarrow> (string \<times> string) option" where
  "markerPattern s =
     (if \<not> has_prefix s marker_prefix then None
      else let t = drop (length marker_prefix) s; i = takeWhile id_char t; r = dropWhile id_char t in
        if i \<noteq> [] \<and> has_prefix r '']]'' then Some (i, drop 2 r) else None)"

definition token :: "string \<Rightarrow> string" where
  "token i = marker_prefix @ i @ '']]''"

text \<open>A body as the pattern cuts it: the non-overlapping leftmost matches, and the bytes between them.\<close>

datatype piece = Plain char | Marker string

function pieces :: "string \<Rightarrow> piece list" where
  "pieces [] = []"
| "pieces (c # cs) = (case markerPattern (c # cs) of Some (i, rest) \<Rightarrow> Marker i # pieces rest | None \<Rightarrow> Plain c # pieces cs)"
  by pat_completeness auto

lemma markerPattern_Some: "markerPattern s = Some (i, rest) \<longleftrightarrow> s = token i @ rest \<and> i \<noteq> [] \<and> list_all id_char i"
proof
  assume m: "markerPattern s = Some (i, rest)"
  then obtain t where s: "s = marker_prefix @ t" by (auto simp: markerPattern_def has_prefix_iff split: if_splits)
  with m have i: "i = takeWhile id_char t" "i \<noteq> []" and r: "dropWhile id_char t = '']]'' @ rest"
    by (auto simp: markerPattern_def has_prefix_iff Let_def split: if_splits)
  have "t = i @ '']]'' @ rest" using takeWhile_dropWhile_id [of id_char t] i(1) r by simp
  then show "s = token i @ rest \<and> i \<noteq> [] \<and> list_all id_char i" using s i by (auto simp: token_def list_all_iff dest: set_takeWhileD)
next
  assume a: "s = token i @ rest \<and> i \<noteq> [] \<and> list_all id_char i"
  have nb: "\<not> id_char CHR '']''" by (simp add: id_char_def less_eq_char_def)
  have "takeWhile id_char (i @ '']]'' @ rest) = i" "dropWhile id_char (i @ '']]'' @ rest) = '']]'' @ rest"
    using a nb by (simp_all add: list_all_iff takeWhile_append2 dropWhile_append2)
  then show "markerPattern s = Some (i, rest)" using a by (simp add: markerPattern_def token_def)
qed

termination pieces
  by (relation "measure length") (auto simp: markerPattern_Some token_def marker_prefix_def)

section \<open>The functions of the package\<close>

fun piece_ids :: "piece list \<Rightarrow> string list" where
  "piece_ids [] = []"
| "piece_ids (Plain c # ps) = piece_ids ps"
| "piece_ids (Marker i # ps) = i # piece_ids ps"

fun rewrite :: "(string \<Rightarrow> string \<Rightarrow> string) \<Rightarrow> piece list \<Rightarrow> string" where
  "rewrite f [] = []"
| "rewrite f (Plain c # ps) = c # rewrite f ps"
| "rewrite f (Marker i # ps) = f (token i) i @ rewrite f ps"

definition IDs :: "string \<Rightarrow> string list" where
  "IDs body = piece_ids (pieces body)"

text \<open>\<^verbatim>\<open>strings.Count\<close> of the prefix: non-overlapping occurrences from the left.\<close>

function prefix_count :: "string \<Rightarrow> nat" where
  "prefix_count [] = 0"
| "prefix_count (c # cs) =
     (if has_prefix (c # cs) marker_prefix then Suc (prefix_count (drop (length marker_prefix) (c # cs))) else prefix_count cs)"
  by pat_completeness auto
termination
  by (relation "measure length") (auto simp: marker_prefix_def)

definition Validate_markers :: "string \<Rightarrow> goerr + unit" where
  "Validate_markers body = (if prefix_count body \<noteq> length (IDs body) then Inl (Raw ''sourcemarker: malformed source marker'') else Inr ())"

definition Strip :: "string \<Rightarrow> string" where
  "Strip body = rewrite (\<lambda>tok i. []) (pieces body)"

definition ReplaceAll :: "string \<Rightarrow> (string \<Rightarrow> string \<Rightarrow> string) \<Rightarrow> string" where
  "ReplaceAll body fn = rewrite fn (pieces body)"

text \<open>\<^verbatim>\<open>TokenID\<close> searches the token for a match: the first marker anywhere in it.\<close>

definition TokenID :: "string \<Rightarrow> string \<times> bool" where
  "TokenID tok = (case IDs tok of [] \<Rightarrow> ([], False) | i # _ \<Rightarrow> (i, True))"

section \<open>Lemmas\<close>

lemma pieces_token: "i \<noteq> [] \<Longrightarrow> list_all id_char i \<Longrightarrow> pieces (token i @ rest) = Marker i # pieces rest"
proof -
  assume i: "i \<noteq> []" "list_all id_char i"
  obtain c cs where c: "token i @ rest = c # cs" by (cases "token i @ rest") (auto simp: token_def marker_prefix_def)
  have "markerPattern (c # cs) = Some (i, rest)" using i by (simp add: markerPattern_Some c [symmetric])
  then show ?thesis by (simp add: c)
qed

lemma pieces_plain: "c \<noteq> CHR ''['' \<Longrightarrow> pieces (c # cs) = Plain c # pieces cs"
  by (simp add: markerPattern_def marker_prefix_def)

lemma rewrite_same: "rewrite (\<lambda>tok i. tok) (pieces body) = body"
proof (induction body rule: pieces.induct)
  case (2 c cs)
  then show ?case by (auto simp: markerPattern_Some split: option.split)
qed simp

text \<open>The prefix does not overlap itself, so occurrences can be counted byte by byte.\<close>

lemma prefix_count_step: "prefix_count (c # cs) = (if has_prefix (c # cs) marker_prefix then 1 else 0) + prefix_count cs"
  by (auto simp: has_prefix_iff marker_prefix_def)

declare prefix_count.simps(2) [simp del]

fun all_marked :: "string \<Rightarrow> bool" where
  "all_marked [] = True"
| "all_marked (c # cs) = ((has_prefix (c # cs) marker_prefix \<longrightarrow> markerPattern (c # cs) \<noteq> None) \<and> all_marked cs)"

lemma all_marked_iff: "all_marked s \<longleftrightarrow> (\<forall>a b. s = a @ marker_prefix @ b \<longrightarrow> markerPattern (marker_prefix @ b) \<noteq> None)"
proof (induction s)
  case Nil
  then show ?case by (simp add: marker_prefix_def)
next
  case (Cons c cs)
  have "(\<forall>a b. c # cs = a @ p @ b \<longrightarrow> Q b) \<longleftrightarrow> (\<forall>b. c # cs = p @ b \<longrightarrow> Q b) \<and> (\<forall>a b. cs = a @ p @ b \<longrightarrow> Q b)" for p and Q :: "string \<Rightarrow> bool"
  proof (intro iffI conjI allI impI)
    fix a b assume Q: "(\<forall>b. c # cs = p @ b \<longrightarrow> Q b) \<and> (\<forall>a b. cs = a @ p @ b \<longrightarrow> Q b)" and e: "c # cs = a @ p @ b"
    show "Q b" using Q e by (cases a) auto
  next
    fix b assume "\<forall>a b. c # cs = a @ p @ b \<longrightarrow> Q b" "c # cs = p @ b"
    then show "Q b" by (metis append_Nil)
  next
    fix a b assume "\<forall>a b. c # cs = a @ p @ b \<longrightarrow> Q b" "cs = a @ p @ b"
    then show "Q b" by (metis append_Cons)
  qed
  from this [of marker_prefix "\<lambda>b. markerPattern (marker_prefix @ b) \<noteq> None"] show ?case
    using Cons.IH by (simp add: has_prefix_iff) metis
qed

lemma skip_ids: "list_all id_char i \<Longrightarrow> all_marked (i @ s) = all_marked s \<and> prefix_count (i @ s) = prefix_count s"
proof (induction i)
  case (Cons c i)
  have "c \<noteq> CHR ''[''" using Cons.prems by (auto simp: id_char_def less_eq_char_def)
  then show ?case using Cons by (simp add: prefix_count_step marker_prefix_def)
qed simp

lemma skip_token: "i \<noteq> [] \<Longrightarrow> list_all id_char i \<Longrightarrow> all_marked (token i @ rest) = all_marked rest \<and> prefix_count (token i @ rest) = Suc (prefix_count rest)"
proof -
  assume i: "i \<noteq> []" "list_all id_char i"
  have m: "markerPattern (token i @ rest) = Some (i, rest)" using i by (simp add: markerPattern_Some)
  have "all_marked (i @ '']]'' @ rest) = all_marked rest \<and> prefix_count (i @ '']]'' @ rest) = prefix_count rest"
    using skip_ids [OF i(2), of "'']]'' @ rest"] by (simp add: prefix_count_step marker_prefix_def)
  then show ?thesis using m by (simp add: token_def marker_prefix_def prefix_count_step)
qed

lemma count_marked: "length (IDs s) \<le> prefix_count s \<and> (length (IDs s) = prefix_count s \<longleftrightarrow> all_marked s)"
proof (induction s rule: pieces.induct)
  case (2 c cs)
  show ?case
  proof (cases "markerPattern (c # cs)")
    case None
    then have "IDs (c # cs) = IDs cs" by (simp add: IDs_def)
    then show ?thesis using 2(1) [OF None] None by (auto simp: prefix_count_step)
  next
    case (Some x)
    obtain i rest where x: "x = (i, rest)" by (cases x)
    then have s: "c # cs = token i @ rest" "i \<noteq> []" "list_all id_char i" using Some by (simp_all add: markerPattern_Some)
    have "IDs (c # cs) = i # IDs rest" using Some x by (simp add: IDs_def)
    then show ?thesis using 2(2) [OF Some x [symmetric]] skip_token [OF s(2,3), of rest] by (simp add: s(1) [symmetric])
  qed
qed (simp add: IDs_def)

section \<open>Properties\<close>

text \<open>
  C18. A body passes the check exactly when every prefix in it opens a marker.  Rewriting every marker by itself
  gives the body back, so nothing of a body is lost between the pieces the scanner cuts.
\<close>

theorem validate_exact:
  "(Validate_markers body = Inr () \<longleftrightarrow>
      (\<forall>a b. body = a @ marker_prefix @ b \<longrightarrow> (\<exists>i rest. b = i @ '']]'' @ rest \<and> i \<noteq> [] \<and> list_all id_char i))) \<and>
   ReplaceAll body (\<lambda>tok i. tok) = body"
proof -
  have m: "(\<exists>i rest. b = i @ '']]'' @ rest \<and> i \<noteq> [] \<and> list_all id_char i) \<longleftrightarrow> markerPattern (marker_prefix @ b) \<noteq> None" for b
    by (auto simp: markerPattern_Some token_def)
  have "Validate_markers body = Inr () \<longleftrightarrow> all_marked body" using count_marked [of body] by (auto simp: Validate_markers_def)
  then show ?thesis unfolding m all_marked_iff ReplaceAll_def rewrite_same by simp
qed

theorem validate_exact_witness:
  "Validate_markers ''see [[source:doc-1]] and [[source:b_2]]'' = Inr () \<and> Validate_markers ''[[source:a.b]]'' \<noteq> Inr ()"
  using validate_exact [of "''[[source:a.b]]''"]
  by (simp add: Validate_markers_def IDs_def markerPattern_def marker_prefix_def id_char_def less_eq_char_def prefix_count.simps(2))

text \<open>The body an author writes: text, a citation, text, and so on.\<close>

definition cite :: "(string \<times> string) list \<Rightarrow> string \<Rightarrow> string" where
  "cite ps end_text = concat (map (\<lambda>(text, i). text @ token i) ps) @ end_text"

lemma pieces_text: "CHR ''['' \<notin> set t \<Longrightarrow> pieces (t @ s) = map Plain t @ pieces s"
  by (induction t) (auto simp: pieces_plain simp del: pieces.simps(2))

lemma piece_ids_append: "piece_ids (map Plain t @ ps) = piece_ids ps" "rewrite f (map Plain t @ ps) = t @ rewrite f ps"
  by (induction t) simp_all

lemma text_marked: "CHR ''['' \<notin> set t \<Longrightarrow> all_marked (t @ s) = all_marked s"
  by (induction t) (auto simp: marker_prefix_def)

text \<open>
  Citations round-trip.  A body put together from text without an opening bracket and markers with valid
  identifiers passes the check; reading its identifiers gives exactly the cited ones, in order and with their
  repetitions; stripping it gives the text; and a marker token by itself gives back its identifier.
\<close>

theorem citations_roundtrip:
  assumes "list_all (\<lambda>(text, i). CHR ''['' \<notin> set text \<and> i \<noteq> [] \<and> list_all id_char i) ps" "CHR ''['' \<notin> set end_text"
  shows "IDs (cite ps end_text) = map snd ps \<and> Strip (cite ps end_text) = concat (map fst ps) @ end_text \<and> Validate_markers (cite ps end_text) = Inr () \<and>
     (\<forall>(text, i) \<in> set ps. TokenID (token i) = (i, True))"
proof -
  have "pieces (end_text @ []) = map Plain end_text @ pieces []" by (rule pieces_text [OF assms(2)])
  then have t: "pieces end_text = map Plain end_text @ []" by simp
  have "IDs (cite ps end_text) = map snd ps \<and> Strip (cite ps end_text) = concat (map fst ps) @ end_text \<and> all_marked (cite ps end_text)"
    using assms(1)
  proof (induction ps)
    case Nil
    then show ?case using text_marked [OF assms(2), of "[]"] t piece_ids_append [where t = end_text and ps = "[]"]
      by (simp add: cite_def IDs_def Strip_def)
  next
    case (Cons p ps)
    obtain x i where p: "p = (x, i)" by (cases p)
    with Cons.prems have v: "CHR ''['' \<notin> set x" "i \<noteq> []" "list_all id_char i" by simp_all
    have "pieces (cite (p # ps) end_text) = map Plain x @ Marker i # pieces (cite ps end_text)"
      using pieces_text [OF v(1)] pieces_token [OF v(2,3)] by (simp add: cite_def p)
    then have "IDs (cite (p # ps) end_text) = i # IDs (cite ps end_text)" "Strip (cite (p # ps) end_text) = x @ Strip (cite ps end_text)"
      by (simp_all add: IDs_def Strip_def piece_ids_append)
    moreover have "all_marked (cite (p # ps) end_text) = all_marked (cite ps end_text)"
      using text_marked [OF v(1)] skip_token [OF v(2,3)] by (simp add: cite_def p)
    ultimately show ?case using Cons p by simp
  qed
  moreover have "TokenID (token i) = (i, True)" if "i \<noteq> []" "list_all id_char i" for i
    using pieces_token [OF that, of "[]"] by (simp add: TokenID_def IDs_def)
  ultimately show ?thesis using assms(1) count_marked [of "cite ps end_text"] by (auto simp: Validate_markers_def list_all_iff)
qed

theorem citations_roundtrip_witness:
  "IDs ''see [[source:a-1]], [[source:b]] and [[source:a-1]].'' = [''a-1'', ''b'', ''a-1'']"
  using citations_roundtrip [of "[(''see '', ''a-1''), ('', '', ''b''), ('' and '', ''a-1'')]" "''.''"]
  by (simp add: cite_def token_def marker_prefix_def id_char_def less_eq_char_def)

text \<open>The search of \<^verbatim>\<open>TokenID\<close> is not anchored: text that merely contains a marker counts as one.\<close>

theorem token_id_not_anchored: "TokenID ''not a marker: [[source:a]]!'' = (''a'', True)"
  by (simp add: TokenID_def IDs_def markerPattern_def marker_prefix_def id_char_def less_eq_char_def)

end
