(* ===== verification/Utf8.thy ===== *)
theory Utf8
  imports Prelude
begin

text \<open>
  UTF-8 as Go decodes it (\<^verbatim>\<open>utf8.DecodeRuneInString\<close>, \<^verbatim>\<open>utf8.ValidString\<close>) and the UTF-16 length of a code
  point (\<^verbatim>\<open>utf16.RuneLen\<close>): overlong forms, surrogates and code points beyond U+10FFFF are refused.
\<close>

section \<open>Encoding and decoding\<close>

definition is_rune :: "nat \<Rightarrow> bool" where
  "is_rune r \<longleftrightarrow> r < 55296 \<or> 57343 < r \<and> r < 1114112"

definition encode_rune :: "nat \<Rightarrow> string" where
  "encode_rune r =
     (if r < 128 then [byte r]
      else if r < 2048 then [byte (192 + r div 64), byte (128 + r mod 64)]
      else if r < 65536 then [byte (224 + r div 4096), byte (128 + r div 64 mod 64), byte (128 + r mod 64)]
      else [byte (240 + r div 262144), byte (128 + r div 4096 mod 64), byte (128 + r div 64 mod 64), byte (128 + r mod 64)])"

definition is_cont :: "char \<Rightarrow> bool" where
  "is_cont c \<longleftrightarrow> 128 \<le> ncode c \<and> ncode c < 192"

definition cont_bits :: "char \<Rightarrow> nat" where
  "cont_bits c = ncode c - 128"

text \<open>The first code point of a string and its number of bytes.\<close>

fun decode_rune :: "string \<Rightarrow> (nat \<times> nat) option" where
  "decode_rune [] = None"
| "decode_rune (a # s) =
     (let x = ncode a in
      if x < 128 then Some (x, 1)
      else if x < 194 then None
      else if x < 224 then
        (case s of b # _ \<Rightarrow> if is_cont b then Some ((x - 192) * 64 + cont_bits b, 2) else None | _ \<Rightarrow> None)
      else if x < 240 then
        (case s of b # c # _ \<Rightarrow>
           let r = (x - 224) * 4096 + cont_bits b * 64 + cont_bits c in
           if is_cont b \<and> is_cont c \<and> 2048 \<le> r \<and> is_rune r then Some (r, 3) else None | _ \<Rightarrow> None)
      else if x < 245 then
        (case s of b # c # d # _ \<Rightarrow>
           let r = (x - 240) * 262144 + cont_bits b * 4096 + cont_bits c * 64 + cont_bits d in
           if is_cont b \<and> is_cont c \<and> is_cont d \<and> 65536 \<le> r \<and> r < 1114112 then Some (r, 4) else None | _ \<Rightarrow> None)
      else None)"

lemma decode_width: "decode_rune s = Some (r, w) \<Longrightarrow> 0 < w \<and> w \<le> length s"
  by (cases s) (auto simp: Let_def split: if_splits list.splits)

text \<open>A valid string as its code points, each with its bytes; \<^const>\<open>None\<close> when it is not valid.\<close>

function runes :: "string \<Rightarrow> nat list option" where
  "runes s =
     (if s = [] then Some []
      else case decode_rune s of
          None \<Rightarrow> None
        | Some (r, w) \<Rightarrow> map_option (Cons r) (runes (drop w s)))"
  by pat_completeness auto
termination
  by (relation "measure length") (auto dest: decode_width)

declare runes.simps [simp del]

definition encode :: "nat list \<Rightarrow> string" where
  "encode rs = concat (map encode_rune rs)"

definition ValidString :: "string \<Rightarrow> bool" where
  "ValidString s \<longleftrightarrow> runes s \<noteq> None"

definition RuneLen16 :: "nat \<Rightarrow> nat" where
  "RuneLen16 r = (if r < 65536 then 1 else 2)"

definition units :: "nat list \<Rightarrow> nat" where
  "units rs = sum_list (map RuneLen16 rs)"

section \<open>Decoding inverts encoding\<close>

lemma ncode_of_byte: "n < 256 \<Longrightarrow> ncode (byte n) = n"
  by (simp add: ncode_byte)

lemma join64: "n div 64 * 64 + n mod 64 = (n :: nat)"
  by (rule div_mult_mod_eq)

lemma join3: "r div 4096 * 4096 + r div 64 mod 64 * 64 + r mod 64 = (r :: nat)"
proof -
  have "r div 4096 = r div 64 div 64" by (simp flip: div_mult2_eq)
  then show ?thesis using join64 [of r] join64 [of "r div 64"] by linarith
qed

lemma join4: "r div 262144 * 262144 + r div 4096 mod 64 * 4096 + r div 64 mod 64 * 64 + r mod 64 = (r :: nat)"
proof -
  have "r div 262144 = r div 4096 div 64" by (simp flip: div_mult2_eq)
  then show ?thesis using join3 [of r] join64 [of "r div 4096"] by linarith
qed

lemma digit64: "c < 64 \<Longrightarrow> (x * 64 + c) div 64 = x \<and> (x * 64 + c) mod 64 = (c :: nat)"
  by simp

lemma encode_rune_decode:
  assumes "is_rune r"
  shows "decode_rune (encode_rune r @ s) = Some (r, length (encode_rune r))"
proof -
  consider "r < 128" | "128 \<le> r" "r < 2048" | "2048 \<le> r" "r < 65536" | "65536 \<le> r" "r < 1114112" using assms by (force simp: is_rune_def)
  then show ?thesis
  proof cases
    case 1
    then show ?thesis by (simp add: encode_rune_def ncode_of_byte Let_def)
  next
    case 2
    then have "r div 64 < 32" "2 \<le> r div 64" by auto
    then show ?thesis using 2 by (simp add: encode_rune_def ncode_of_byte Let_def is_cont_def cont_bits_def)
  next
    case 3
    then have "r div 4096 < 16" by auto
    then show ?thesis using 3 assms join3 [of r] by (simp add: encode_rune_def ncode_of_byte Let_def is_cont_def cont_bits_def)
  next
    case 4
    then have "r div 262144 < 5" by auto
    then show ?thesis using 4 assms join4 [of r] by (simp add: encode_rune_def ncode_of_byte Let_def is_cont_def cont_bits_def)
  qed
qed

lemma runes_encode: "list_all is_rune rs \<Longrightarrow> runes (encode rs @ s) = map_option (append rs) (runes s)"
proof (induction rs)
  case (Cons r rs)
  have "runes (encode_rune r @ encode rs @ s) = map_option (Cons r) (runes (encode rs @ s))"
    using encode_rune_decode [of r "encode rs @ s"] Cons.prems by (subst runes.simps) (auto simp: encode_rune_def)
  then show ?case using Cons by (simp add: encode_def option.map_comp comp_def)
next
  case Nil
  have "append [] = (\<lambda>x. x)" by (rule ext) simp
  then show ?case by (simp add: encode_def option.map_ident)
qed

text \<open>The other direction: what decodes is the encoding of what it decodes to.\<close>

lemma cont_byte: "is_cont c \<Longrightarrow> byte (128 + cont_bits c) = c \<and> cont_bits c < 64"
  by (auto simp: is_cont_def cont_bits_def byte_def ncode_def)

lemma byte_ncode: "byte (ncode c) = c"
  by (simp add: byte_def ncode_def)

lemma decode_encode:
  assumes "decode_rune s = Some (r, w)"
  shows "is_rune r \<and> take w s = encode_rune r"
proof -
  obtain a t where s: "s = a # t" using assms by (cases s) auto
  consider (one) "ncode a < 128" "r = ncode a" "w = 1"
    | (two) b u where "t = b # u" "194 \<le> ncode a" "ncode a < 224" "is_cont b" "r = (ncode a - 192) * 64 + cont_bits b" "w = 2"
    | (three) b c u where "t = b # c # u" "224 \<le> ncode a" "ncode a < 240" "is_cont b" "is_cont c"
        "r = (ncode a - 224) * 4096 + cont_bits b * 64 + cont_bits c" "2048 \<le> r" "is_rune r" "w = 3"
    | (four) b c d u where "t = b # c # d # u" "240 \<le> ncode a" "ncode a < 245" "is_cont b" "is_cont c" "is_cont d"
        "r = (ncode a - 240) * 262144 + cont_bits b * 4096 + cont_bits c * 64 + cont_bits d" "65536 \<le> r" "r < 1114112" "w = 4"
    using assms s by (auto simp: Let_def split: if_splits list.splits)
  then show ?thesis
  proof cases
    case one
    then show ?thesis by (simp add: s encode_rune_def byte_ncode is_rune_def)
  next
    case two
    define x where "x = ncode a - 192"
    have x: "ncode a = 192 + x" "2 \<le> x" "x < 32" using two by (auto simp: x_def)
    note b = cont_byte [OF two(4)]
    have r: "r = x * 64 + cont_bits b" using two x by simp
    then have "r div 64 = x" "r mod 64 = cont_bits b" "128 \<le> r" "r < 2048" using b x digit64 [of "cont_bits b" x] by auto
    then show ?thesis using two b x byte_ncode [of a] by (simp add: s encode_rune_def is_rune_def)
  next
    case three
    define x where "x = ncode a - 224"
    have x: "ncode a = 224 + x" "x < 16" using three by (auto simp: x_def)
    note b = cont_byte [OF three(4)] and c = cont_byte [OF three(5)]
    have r: "r = (x * 64 + cont_bits b) * 64 + cont_bits c" using three x by simp
    then have r1: "r div 64 = x * 64 + cont_bits b" "r mod 64 = cont_bits c" using c digit64 [of "cont_bits c" "x * 64 + cont_bits b"] by (simp_all only:)
    have "r div 4096 = r div 64 div 64" by (simp flip: div_mult2_eq)
    then have "r div 4096 = x" "r div 64 mod 64 = cont_bits b" "r < 65536" using r1 b c x r digit64 [of "cont_bits b" x] by simp_all
    then show ?thesis using three b c x r1 byte_ncode [of a] by (simp add: s encode_rune_def)
  next
    case four
    define x where "x = ncode a - 240"
    have x: "ncode a = 240 + x" using four by (auto simp: x_def)
    note b = cont_byte [OF four(4)] and c = cont_byte [OF four(5)] and d = cont_byte [OF four(6)]
    have r: "r = ((x * 64 + cont_bits b) * 64 + cont_bits c) * 64 + cont_bits d" using four x by simp
    then have r1: "r div 64 = (x * 64 + cont_bits b) * 64 + cont_bits c" "r mod 64 = cont_bits d"
      using d digit64 [of "cont_bits d" "(x * 64 + cont_bits b) * 64 + cont_bits c"] by (simp_all only:)
    have "r div 4096 = r div 64 div 64" "r div 262144 = r div 64 div 64 div 64" by (simp_all flip: div_mult2_eq)
    then have "r div 262144 = x" "r div 4096 mod 64 = cont_bits b" "r div 64 mod 64 = cont_bits c"
      using r1(1) b c digit64 [of "cont_bits b" x] digit64 [of "cont_bits c" "x * 64 + cont_bits b"] by (simp_all only:)
    then show ?thesis using four b c d x r1 byte_ncode [of a] by (simp add: s encode_rune_def is_rune_def)
  qed
qed

lemma runes_Some: "runes s = Some rs \<longleftrightarrow> list_all is_rune rs \<and> s = encode rs"
proof
  show "list_all is_rune rs \<and> s = encode rs" if "runes s = Some rs"
    using that
  proof (induction s arbitrary: rs rule: runes.induct)
    case (1 s)
    show ?case
    proof (cases "s = []")
      case False
      with 1(2) obtain r w rs' where d: "decode_rune s = Some (r, w)" and rs: "runes (drop w s) = Some rs'" "rs = r # rs'"
        by (subst (asm) runes.simps) (auto split: option.splits)
      have "list_all is_rune rs' \<and> drop w s = encode rs'" by (rule 1(1) [OF False d refl rs(1)])
      moreover have "s = take w s @ drop w s" by simp
      ultimately show ?thesis using decode_encode [OF d] rs(2) by (simp add: encode_def)
    qed (use 1 in \<open>simp add: runes.simps encode_def\<close>)
  qed
next
  assume "list_all is_rune rs \<and> s = encode rs"
  then show "runes s = Some rs" using runes_encode [of rs "[]"] by (simp add: runes.simps)
qed

section \<open>UTF-8 synchronizes itself\<close>

lemma encode_append: "encode (xs @ ys) = encode xs @ encode ys" "encode [] = []" "encode (r # rs) = encode_rune r @ encode rs"
  by (simp_all add: encode_def)

lemma encode_rune_nonempty: "encode_rune r \<noteq> []"
  by (simp add: encode_rune_def)

lemma encode_rune_first: "is_rune r \<Longrightarrow> \<not> is_cont (encode_rune r ! 0)"
proof -
  assume "is_rune r"
  then consider "r < 128" | "128 \<le> r" "r < 2048" | "2048 \<le> r" "r < 65536" | "65536 \<le> r" "r < 1114112" by (force simp: is_rune_def)
  then show ?thesis
  proof cases
    case 2
    then have "r div 64 < 32" by auto
    then show ?thesis using 2 by (simp add: encode_rune_def is_cont_def ncode_of_byte)
  next
    case 3
    then have "r div 4096 < 16" by auto
    then show ?thesis using 3 by (simp add: encode_rune_def is_cont_def ncode_of_byte)
  next
    case 4
    then have "r div 262144 < 5" by auto
    then show ?thesis using 4 by (simp add: encode_rune_def is_cont_def ncode_of_byte)
  qed (simp add: encode_rune_def is_cont_def ncode_of_byte)
qed

lemma encode_rune_rest: "0 < i \<Longrightarrow> i < length (encode_rune r) \<Longrightarrow> is_cont (encode_rune r ! i)"
  by (auto simp: encode_rune_def is_cont_def ncode_of_byte less_Suc_eq nth_Cons' split: if_splits)

lemma occurrence_aligned:
  assumes "list_all is_rune rs" "list_all is_rune ys" "ys \<noteq> []" "encode rs = p @ encode ys @ q"
  shows "\<exists>xs zs. rs = xs @ ys @ zs \<and> p = encode xs \<and> q = encode zs"
  using assms(1,4)
proof (induction rs arbitrary: p)
  case Nil
  obtain y ys' where "ys = y # ys'" using assms(3) by (cases ys) auto
  then show ?case using Nil encode_rune_nonempty [of y] by (simp add: encode_append)
next
  case (Cons r rs)
  show ?case
  proof (cases "p = []")
    case True
    have "runes (encode (r # rs)) = Some (r # rs)" using Cons.prems by (simp add: runes_Some)
    then have "map_option (append ys) (runes q) = Some (r # rs)" using runes_encode [OF assms(2), of q] Cons.prems(2) True by simp
    then obtain zs where "runes q = Some zs" "r # rs = ys @ zs" by auto
    then show ?thesis using True by (intro exI [of _ "[]"] exI [of _ zs]) (simp add: runes_Some encode_append)
  next
    case p: False
    have e: "encode_rune r @ encode rs = p @ encode ys @ q" using Cons.prems(2) by (simp add: encode_append)
    show ?thesis
    proof (cases "length (encode_rune r) \<le> length p")
      case True
      then obtain p' where p': "p = encode_rune r @ p'" and rest: "encode rs = p' @ encode ys @ q"
        using e by (auto simp: append_eq_append_conv2)
      then obtain xs zs where "rs = xs @ ys @ zs" "p' = encode xs" "q = encode zs" using Cons.IH [OF _ rest] Cons.prems(1) by auto
      then show ?thesis using p' by (intro exI [of _ "r # xs"] exI [of _ zs]) (simp add: encode_append)
    next
      case False
      obtain y ys' where y: "ys = y # ys'" using assms(3) by (cases ys) auto
      have "(encode_rune r @ encode rs) ! length p = encode_rune r ! length p" using False by (simp add: nth_append)
      moreover have "(p @ encode ys @ q) ! length p = encode_rune y ! 0" using y encode_rune_nonempty [of y] by (simp add: nth_append encode_append)
      ultimately have "encode_rune r ! length p = encode_rune y ! 0" using e by simp
      moreover have "is_cont (encode_rune r ! length p)" using encode_rune_rest False p by simp
      moreover have "\<not> is_cont (encode_rune y ! 0)" using encode_rune_first assms(2) y by simp
      ultimately show ?thesis by simp
    qed
  qed
qed

end
