(* ===== verification/Review_Anchor.thy ===== *)
theory Review_Anchor
  imports Utf8
begin

text \<open>
  Review anchors, \<^verbatim>\<open>internal/lingdoc/reviewanchor\<close>: a quote of a chapter body with the range it was selected at.
  A browser counts UTF-16 units, Go counts bytes; \<^verbatim>\<open>ByteRange\<close> translates one into the other, \<^verbatim>\<open>Valid\<close> checks that
  the range still holds the quote, and \<^verbatim>\<open>Rebase\<close> carries an anchor over an edit of the body.
\<close>

section \<open>Data\<close>

record anchor =
  an_StartUTF16 :: int
  an_EndUTF16 :: int
  an_QuoteMarkdown :: string
  an_WorkingCopyRevision :: int
  an_ChapterVersionID :: "string option"
  an_Status :: string

record selection =
  sel_StartUTF16 :: int
  sel_EndUTF16 :: int
  sel_QuoteMarkdown :: string

section \<open>Ranges\<close>

text \<open>The loop of \<^verbatim>\<open>ByteRange\<close> over the code points: position, units so far, and the two offsets found.\<close>

fun range_loop :: "int \<Rightarrow> int \<Rightarrow> int \<Rightarrow> int \<Rightarrow> int \<Rightarrow> int \<Rightarrow> nat list \<Rightarrow> int \<times> int \<times> int" where
  "range_loop start stop pos n left right [] = (n, left, right)"
| "range_loop start stop pos n left right (r # rs) =
     range_loop start stop (pos + int (length (encode_rune r))) (n + int (RuneLen16 r))
       (if n = start then pos else left) (if n = stop then pos else right) rs"

definition ByteRange :: "string \<Rightarrow> int \<Rightarrow> int \<Rightarrow> int \<times> int \<times> bool" where
  "ByteRange body start stop =
     (case runes body of
        None \<Rightarrow> (0, 0, False)
      | Some rs \<Rightarrow>
          if start < 0 \<or> stop \<le> start then (0, 0, False)
          else case range_loop start stop 0 0 (- 1) (- 1) rs of (n, left, right) \<Rightarrow>
            let right = (if n = stop then int (length body) else right) in (left, right, left \<ge> 0 \<and> right > left))"

definition slice :: "string \<Rightarrow> int \<Rightarrow> int \<Rightarrow> string" where
  "slice s l r = take (nat (r - l)) (drop (nat l) s)"

definition Valid :: "string \<Rightarrow> selection \<Rightarrow> bool" where
  "Valid body sel =
     (case ByteRange body (sel_StartUTF16 sel) (sel_EndUTF16 sel) of (start, stop, ok) \<Rightarrow>
        ok \<and> trim_space (sel_QuoteMarkdown sel) \<noteq> [] \<and> slice body start stop = sel_QuoteMarkdown sel)"

definition New :: "selection \<Rightarrow> int \<Rightarrow> string option \<Rightarrow> anchor" where
  "New sel revision version = \<lparr>an_StartUTF16 = sel_StartUTF16 sel, an_EndUTF16 = sel_EndUTF16 sel, an_QuoteMarkdown = sel_QuoteMarkdown sel,
     an_WorkingCopyRevision = revision, an_ChapterVersionID = version, an_Status = ''located''\<rparr>"

section \<open>Rebasing\<close>

text \<open>\<^verbatim>\<open>strings.Index\<close>, and the number of UTF-16 units of \<^verbatim>\<open>[]rune(s)\<close>, in which a byte that starts no code point is one unit.\<close>

fun index_of :: "string \<Rightarrow> string \<Rightarrow> nat option" where
  "index_of [] q = (if q = [] then Some 0 else None)"
| "index_of (c # s) q = (if has_prefix (c # s) q then Some 0 else map_option Suc (index_of s q))"

function utf16_len :: "string \<Rightarrow> nat" where
  "utf16_len s =
     (if s = [] then 0
      else case decode_rune s of None \<Rightarrow> 1 + utf16_len (tl s) | Some (r, w) \<Rightarrow> RuneLen16 r + utf16_len (drop w s))"
  by pat_completeness auto
termination
  by (relation "measure length") (auto dest: decode_width)

declare utf16_len.simps [simp del]

definition anchor_selection :: "anchor \<Rightarrow> selection" where
  "anchor_selection a = \<lparr>sel_StartUTF16 = an_StartUTF16 a, sel_EndUTF16 = an_EndUTF16 a, sel_QuoteMarkdown = an_QuoteMarkdown a\<rparr>"

definition Rebase :: "string \<Rightarrow> string \<Rightarrow> anchor option \<Rightarrow> int \<Rightarrow> string option \<Rightarrow> anchor option" where
  "Rebase oldBody body old_ptr revision version =
     (case old_ptr of
        None \<Rightarrow> None
      | Some old \<Rightarrow>
          (let nxt = old\<lparr>an_WorkingCopyRevision := revision, an_ChapterVersionID := version\<rparr> in
           if an_Status old \<noteq> ''located'' \<or> \<not> Valid oldBody (anchor_selection old) then Some (nxt\<lparr>an_Status := ''stale''\<rparr>)
           else if body = oldBody then Some nxt
           else case index_of body (an_QuoteMarkdown old) of
               None \<Rightarrow> Some (nxt\<lparr>an_Status := ''stale''\<rparr>)
             | Some at \<Rightarrow>
                 if contains (drop (at + 1) body) (an_QuoteMarkdown old) then Some (nxt\<lparr>an_Status := ''stale''\<rparr>)
                 else let start = int (utf16_len (take at body)) in
                   Some (nxt\<lparr>an_StartUTF16 := start, an_EndUTF16 := start + int (utf16_len (an_QuoteMarkdown old))\<rparr>)))"

section \<open>Lemmas\<close>

lemma RuneLen16_pos: "0 < RuneLen16 r"
  by (simp add: RuneLen16_def)

lemma units_simps [simp]: "units [] = 0" "units (r # rs) = RuneLen16 r + units rs" "units (xs @ ys) = units xs + units ys"
  by (simp_all add: units_def)

lemma units_pos: "0 < units rs \<longleftrightarrow> rs \<noteq> []"
  using RuneLen16_pos by (cases rs) simp_all

lemma encode_pos: "0 < length (encode rs) \<longleftrightarrow> rs \<noteq> []"
  using encode_rune_nonempty by (cases rs) (simp_all add: encode_append)

text \<open>The offset of a position in UTF-16 units: at the split of the code points whose units add up to it.\<close>

fun cut_at :: "int \<Rightarrow> nat list \<Rightarrow> (nat list \<times> nat list) option" where
  "cut_at n [] = None"
| "cut_at n (r # rs) = (if n = 0 then Some ([], r # rs) else map_option (\<lambda>(xs, ys). (r # xs, ys)) (cut_at (n - int (RuneLen16 r)) rs))"

lemma cut_at_Some: "cut_at n rs = Some (xs, ys) \<longleftrightarrow> rs = xs @ ys \<and> int (units xs) = n \<and> ys \<noteq> []"
proof (induction rs arbitrary: n xs)
  case (Cons r rs)
  show ?case
  proof (cases "n = 0")
    case True
    then show ?thesis using units_pos [of xs] by auto
  next
    case False
    then show ?thesis using Cons.IH by (cases xs) (auto split: option.splits)
  qed
qed auto

lemma cut_at_neg: "n < 0 \<Longrightarrow> cut_at n rs = None"
  using cut_at_Some [of n rs] by (cases "cut_at n rs") auto

lemma range_loop_cuts:
  "range_loop start stop pos n left right rs =
     (n + int (units rs),
      (case cut_at (start - n) rs of None \<Rightarrow> left | Some (xs, _) \<Rightarrow> pos + int (length (encode xs))),
      (case cut_at (stop - n) rs of None \<Rightarrow> right | Some (xs, _) \<Rightarrow> pos + int (length (encode xs))))"
proof (induction rs arbitrary: pos n left right)
  case (Cons r rs)
  have "cut_at (- int (RuneLen16 r)) rs = None" using cut_at_neg RuneLen16_pos [of r] by simp
  then have c: "cut_at (n - (n + int (RuneLen16 r))) rs = None" for n by simp
  have d: "m - n - int (RuneLen16 r) = m - (n + int (RuneLen16 r))" for m n by simp
  show ?case using c by (auto simp: Cons.IH d encode_append split: option.splits)
qed simp

text \<open>A range is accepted exactly when it cuts the body between code points, and then the bytes are those cuts.\<close>

lemma ByteRange_iff:
  "ByteRange body start stop = (l, r, True) \<longleftrightarrow>
     (\<exists>xs ys zs. list_all is_rune (xs @ ys @ zs) \<and> body = encode (xs @ ys @ zs) \<and> ys \<noteq> [] \<and> int (units xs) = start \<and> int (units (xs @ ys)) = stop \<and>
        l = int (length (encode xs)) \<and> r = int (length (encode (xs @ ys))))" (is "_ \<longleftrightarrow> ?cut")
proof
  assume a: "ByteRange body start stop = (l, r, True)"
  then obtain rs where rs: "runes body = Some rs" and lt: "0 \<le> start" "start < stop"
    by (auto simp: ByteRange_def split: option.splits if_splits)
  obtain xs us where c: "cut_at start rs = Some (xs, us)"
    using a rs by (cases "cut_at start rs") (auto simp: ByteRange_def range_loop_cuts Let_def split: if_splits option.splits)
  then have l: "l = int (length (encode xs))" using a rs lt by (auto simp: ByteRange_def range_loop_cuts Let_def)
  have x: "rs = xs @ us" "int (units xs) = start" using c by (simp_all add: cut_at_Some)
  have body: "list_all is_rune rs" "body = encode rs" using rs by (simp_all add: runes_Some)
  show ?cut
  proof (cases "int (units rs) = stop")
    case True
    then have "r = int (length body)" using a rs lt by (simp add: ByteRange_def range_loop_cuts Let_def)
    moreover have "us \<noteq> []" using x True lt by auto
    ultimately show ?thesis using x l True body by (intro exI [of _ xs] exI [of _ us] exI [of _ "[]"]) simp
  next
    case False
    then obtain vs zs where v: "cut_at stop rs = Some (vs, zs)" and r: "r = int (length (encode vs))"
      using a rs lt c by (cases "cut_at stop rs") (auto simp: ByteRange_def range_loop_cuts Let_def split: prod.splits)
    then have vz: "rs = vs @ zs" "int (units vs) = stop" by (simp_all add: cut_at_Some)
    have "length xs < length vs"
    proof (rule ccontr)
      assume "\<not> length xs < length vs"
      then obtain ws where "xs = vs @ ws" using x(1) vz(1) by (auto simp: append_eq_append_conv2 not_less)
      then show False using x(2) vz(2) lt by simp
    qed
    then obtain ys where "vs = xs @ ys" "ys \<noteq> []" using x(1) vz(1) by (auto simp: append_eq_append_conv2)
    then show ?thesis using vz x l r body by (intro exI [of _ xs] exI [of _ ys] exI [of _ zs]) simp
  qed
next
  assume ?cut
  then obtain xs ys zs where w: "list_all is_rune (xs @ ys @ zs)" "body = encode (xs @ ys @ zs)" "ys \<noteq> []" "int (units xs) = start" "int (units (xs @ ys)) = stop"
    "l = int (length (encode xs))" "r = int (length (encode (xs @ ys)))" by blast
  have rs: "runes body = Some (xs @ ys @ zs)" using w(1,2) by (simp add: runes_Some)
  have lt: "\<not> (start < 0 \<or> stop \<le> start)" using w units_pos [of ys] by auto
  have c: "cut_at start (xs @ ys @ zs) = Some (xs, ys @ zs)" using w by (simp add: cut_at_Some)
  have "l < r" "0 \<le> l" using w encode_pos [of ys] by (auto simp: encode_append)
  moreover have "cut_at stop (xs @ ys @ zs) = Some (xs @ ys, zs)" if "zs \<noteq> []" using w that by (simp add: cut_at_Some)
  ultimately show "ByteRange body start stop = (l, r, True)"
    using rs lt c w units_pos [of zs] by (cases "zs = []") (auto simp: ByteRange_def range_loop_cuts Let_def encode_append)
qed

lemma utf16_len_encode: "list_all is_rune rs \<Longrightarrow> utf16_len (encode rs) = units rs"
proof (induction rs)
  case (Cons r rs)
  then have "decode_rune (encode_rune r @ encode rs) = Some (r, length (encode_rune r))" using encode_rune_decode by simp
  then show ?case using Cons encode_rune_nonempty [of r] by (subst utf16_len.simps) (simp add: encode_append)
qed (simp add: utf16_len.simps encode_append)

lemma index_of_Some: "index_of s q = Some n \<Longrightarrow> n \<le> length s \<and> has_prefix (drop n s) q \<and> (\<forall>m<n. \<not> has_prefix (drop m s) q)"
proof (induction s arbitrary: n)
  case (Cons c s)
  show ?case
  proof (cases "has_prefix (c # s) q")
    case True
    then show ?thesis using Cons.prems by simp
  next
    case False
    with Cons.prems obtain k where k: "index_of s q = Some k" "n = Suc k" by auto
    have "\<not> has_prefix (drop m (c # s)) q" if "m < n" for m
      using that False Cons.IH [OF k(1)] k(2) by (cases m) simp_all
    then show ?thesis using Cons.IH [OF k(1)] k(2) by simp
  qed
qed (simp split: if_splits)

lemma contains_drop: "has_prefix (drop k s) q \<Longrightarrow> contains s q"
  by (metis append_take_drop_id contains_iff has_prefix_iff)

lemma contains_dropE: "contains s q \<Longrightarrow> \<exists>k \<le> length s. has_prefix (drop k s) q"
  by (metis append_eq_conv_conj contains_iff has_prefix_iff le_add1 length_append)

lemma index_of_None: "index_of s q = None \<Longrightarrow> m \<le> length s \<Longrightarrow> \<not> has_prefix (drop m s) q"
proof (induction s arbitrary: m)
  case (Cons c s)
  then show ?case by (cases m) (auto split: if_splits)
qed (auto simp: has_prefix_iff split: if_splits)

text \<open>One occurrence and no second one after it: the test of \<^verbatim>\<open>Rebase\<close> is that the quote occurs at one place.\<close>

lemma occurs_once:
  assumes "q \<noteq> []"
  shows "(\<exists>at. index_of s q = Some at \<and> \<not> contains (drop (at + 1) s) q) \<longleftrightarrow> (\<exists>!n. n \<le> length s \<and> has_prefix (drop n s) q)"
proof
  assume "\<exists>at. index_of s q = Some at \<and> \<not> contains (drop (at + 1) s) q"
  then obtain n where n: "index_of s q = Some n" and once: "\<not> contains (drop (n + 1) s) q" by blast
  note at = index_of_Some [OF n]
  show "\<exists>!n. n \<le> length s \<and> has_prefix (drop n s) q"
  proof (rule ex1I [of _ n])
    show "n \<le> length s \<and> has_prefix (drop n s) q" using at by simp
    fix m assume m: "m \<le> length s \<and> has_prefix (drop m s) q"
    have "\<not> n < m"
    proof
      assume "n < m"
      then have "has_prefix (drop (m - (n + 1)) (drop (n + 1) s)) q" using m by simp
      then show False using once contains_drop by blast
    qed
    then show "m = n" using at m by (metis linorder_neqE_nat)
  qed
next
  assume "\<exists>!n. n \<le> length s \<and> has_prefix (drop n s) q"
  then obtain n where n: "n \<le> length s" "has_prefix (drop n s) q" and only: "\<And>m. m \<le> length s \<Longrightarrow> has_prefix (drop m s) q \<Longrightarrow> m = n" by blast
  obtain k where k: "index_of s q = Some k" using index_of_None n by (cases "index_of s q") blast+
  then have "k = n" using only index_of_Some [OF k] by blast
  moreover have "\<not> contains (drop (n + 1) s) q"
  proof
    assume "contains (drop (n + 1) s) q"
    then obtain j where j: "has_prefix (drop (n + 1 + j) s) q" using contains_dropE by (metis add.commute drop_drop)
    have "drop (n + 1 + j) s \<noteq> []" using j assms by (auto simp: has_prefix_iff)
    then have "n + 1 + j \<le> length s" by simp
    then show False using only [OF _ j] by simp
  qed
  ultimately show "\<exists>at. index_of s q = Some at \<and> \<not> contains (drop (at + 1) s) q" using k by blast
qed

text \<open>A quote that a valid selection holds is a non-empty string of code points.\<close>

lemma Valid_iff:
  "Valid body sel \<longleftrightarrow> (\<exists>xs ys zs. list_all is_rune (xs @ ys @ zs) \<and> body = encode (xs @ ys @ zs) \<and> ys \<noteq> [] \<and> int (units xs) = sel_StartUTF16 sel \<and>
      int (units (xs @ ys)) = sel_EndUTF16 sel \<and> sel_QuoteMarkdown sel = encode ys) \<and> trim_space (sel_QuoteMarkdown sel) \<noteq> []" (is "_ \<longleftrightarrow> ?cut \<and> _")
proof -
  have slice: "slice (encode (xs @ ys @ zs)) (int (length (encode xs))) (int (length (encode (xs @ ys)))) = encode ys" for xs ys zs
    by (simp add: slice_def encode_append nat_diff_distrib)
  show ?thesis
  proof (intro iffI conjI)
    assume v: "Valid body sel"
    then show "trim_space (sel_QuoteMarkdown sel) \<noteq> []" by (simp add: Valid_def split: prod.splits)
    obtain l r where b: "ByteRange body (sel_StartUTF16 sel) (sel_EndUTF16 sel) = (l, r, True)" and q: "slice body l r = sel_QuoteMarkdown sel"
      using v by (auto simp: Valid_def)
    from b [unfolded ByteRange_iff] show ?cut
    proof (elim exE conjE)
      fix xs ys zs assume w: "list_all is_rune (xs @ ys @ zs)" "body = encode (xs @ ys @ zs)" "ys \<noteq> []" "int (units xs) = sel_StartUTF16 sel"
        "int (units (xs @ ys)) = sel_EndUTF16 sel" "l = int (length (encode xs))" "r = int (length (encode (xs @ ys)))"
      then have "sel_QuoteMarkdown sel = encode ys" using q slice by simp
      then show ?cut using w by blast
    qed
  next
    assume "?cut \<and> trim_space (sel_QuoteMarkdown sel) \<noteq> []"
    then obtain xs ys zs where w: "list_all is_rune (xs @ ys @ zs)" "body = encode (xs @ ys @ zs)" "ys \<noteq> []" "int (units xs) = sel_StartUTF16 sel"
        "int (units (xs @ ys)) = sel_EndUTF16 sel" and q: "sel_QuoteMarkdown sel = encode ys" "trim_space (sel_QuoteMarkdown sel) \<noteq> []" by blast
    then have "ByteRange body (sel_StartUTF16 sel) (sel_EndUTF16 sel) = (int (length (encode xs)), int (length (encode (xs @ ys))), True)"
      unfolding ByteRange_iff by blast
    then show "Valid body sel" using q slice w(2) by (simp add: Valid_def)
  qed
qed

text \<open>The new range of a quote found in a valid body holds the quote.\<close>

lemma found_range_valid:
  assumes "ValidString body" "list_all is_rune ys" "ys \<noteq> []" "trim_space (encode ys) \<noteq> []" "index_of body (encode ys) = Some n"
  shows "Valid body \<lparr>sel_StartUTF16 = int (utf16_len (take n body)), sel_EndUTF16 = int (utf16_len (take n body)) + int (utf16_len (encode ys)), sel_QuoteMarkdown = encode ys\<rparr>"
proof -
  obtain rs where rs: "list_all is_rune rs" "body = encode rs" using assms(1) by (auto simp: ValidString_def runes_Some)
  obtain b where "drop n body = encode ys @ b" using index_of_Some [OF assms(5)] by (auto simp: has_prefix_iff)
  then have b: "body = take n body @ encode ys @ b" by (metis append_take_drop_id)
  obtain xs zs where cut: "rs = xs @ ys @ zs" "take n body = encode xs" using occurrence_aligned [OF rs(1) assms(2,3)] b rs(2) by metis
  have u: "utf16_len (take n body) = units xs" "utf16_len (encode ys) = units ys" using utf16_len_encode rs(1) cut assms(2) by simp_all
  show ?thesis unfolding Valid_iff u using cut(1) rs assms(3,4) by (intro conjI exI [of _ xs] exI [of _ ys] exI [of _ zs]) simp_all
qed

text \<open>What \<^verbatim>\<open>Rebase\<close> does to an anchor, in full.\<close>

lemma rebase_exact:
  assumes "ValidString body" and reb: "Rebase oldBody body (Some old) revision version = Some a"
  shows "an_QuoteMarkdown a = an_QuoteMarkdown old \<and> an_WorkingCopyRevision a = revision \<and> an_ChapterVersionID a = version \<and>
     (an_Status a = ''located'' \<longleftrightarrow> an_Status old = ''located'' \<and> Valid oldBody (anchor_selection old) \<and>
        (body = oldBody \<or> (\<exists>!n. n \<le> length body \<and> has_prefix (drop n body) (an_QuoteMarkdown old)))) \<and>
     (an_Status a = ''located'' \<and> Valid body (anchor_selection a) \<or> an_Status a = ''stale'')"
proof (cases "an_Status old = ''located'' \<and> Valid oldBody (anchor_selection old)")
  case no: False
  then have "a = old\<lparr>an_WorkingCopyRevision := revision, an_ChapterVersionID := version, an_Status := ''stale''\<rparr>"
    using reb by (auto simp: Rebase_def Let_def)
  then show ?thesis using no by auto
next
  case ok: True
  define q where "q = an_QuoteMarkdown old"
  from ok obtain ys where ys: "list_all is_rune ys" "ys \<noteq> []" "q = encode ys" "trim_space q \<noteq> []"
    unfolding Valid_iff by (auto simp: anchor_selection_def q_def)
  then have "q \<noteq> []" using encode_pos [of ys] by auto
  note once = occurs_once [OF this, of body]
  show ?thesis
  proof (cases "body = oldBody")
    case True
    then have "a = old\<lparr>an_WorkingCopyRevision := revision, an_ChapterVersionID := version\<rparr>" using reb ok by (simp add: Rebase_def Let_def)
    then show ?thesis using ok True by (simp add: anchor_selection_def)
  next
    case changed: False
    show ?thesis
    proof (cases "\<exists>at. index_of body q = Some at \<and> \<not> contains (drop (at + 1) body) q")
      case True
      then obtain n where n: "index_of body q = Some n" "\<not> contains (drop (n + 1) body) q" by blast
      then have "anchor_selection a = \<lparr>sel_StartUTF16 = int (utf16_len (take n body)), sel_EndUTF16 = int (utf16_len (take n body)) + int (utf16_len q), sel_QuoteMarkdown = q\<rparr>"
        and st: "an_Status a = ''located''" "an_QuoteMarkdown a = q" "an_WorkingCopyRevision a = revision" "an_ChapterVersionID a = version"
        using ok changed reb by (auto simp: Rebase_def Let_def q_def anchor_selection_def)
      then have "Valid body (anchor_selection a)" using found_range_valid [OF assms(1) ys(1,2)] ys(3,4) n(1) by simp
      then show ?thesis using st ok once True by (simp add: q_def)
    next
      case False
      then have "a = old\<lparr>an_WorkingCopyRevision := revision, an_ChapterVersionID := version, an_Status := ''stale''\<rparr>"
        using reb ok changed by (auto simp: Rebase_def Let_def q_def split: option.splits if_splits)
      then show ?thesis using once False changed by (simp add: q_def)
    qed
  qed
qed

section \<open>Properties\<close>

text \<open>
  A selected range never cuts a character.  A range in UTF-16 units is accepted exactly when the body is
  valid UTF-8 and the range starts and ends between two of its code points; the byte offsets are then the
  offsets of these two places, so the selected bytes are whole code points and count as many units as the
  selection says.
\<close>

theorem range_cuts_code_points:
  "ByteRange body start stop = (l, r, True) \<longleftrightarrow>
     (\<exists>xs ys zs. runes body = Some (xs @ ys @ zs) \<and> ys \<noteq> [] \<and> int (units xs) = start \<and> int (units (xs @ ys)) = stop \<and>
        l = int (length (encode xs)) \<and> r = l + int (length (encode ys)) \<and> slice body l r = encode ys)"
proof -
  have "slice (encode (xs @ ys @ zs)) (int (length (encode xs))) (int (length (encode xs)) + int (length (encode ys))) = encode ys" for xs ys zs
    by (simp add: slice_def encode_append)
  then show ?thesis unfolding ByteRange_iff runes_Some by (simp add: encode_append) blast
qed

text \<open>
  Rebasing never guesses.  When an anchor is carried over to a new body, its quote stays the same and it gets
  the new revision and version.  It is located exactly if it was located, its range held its quote in the old
  body and the body is unchanged or holds the quote at exactly one place; its new range then holds that very
  quote in the new body.  In every other case it is stale; in particular a stale anchor stays stale.
\<close>

theorem rebase_never_guesses:
  assumes "ValidString body" and "Rebase oldBody body (Some old) revision version = Some a"
  shows "an_QuoteMarkdown a = an_QuoteMarkdown old \<and> an_WorkingCopyRevision a = revision \<and> an_ChapterVersionID a = version \<and>
     (an_Status a = ''located'' \<longleftrightarrow> an_Status old = ''located'' \<and> Valid oldBody (anchor_selection old) \<and>
        (body = oldBody \<or> (\<exists>!n. n \<le> length body \<and> has_prefix (drop n body) (an_QuoteMarkdown old)))) \<and>
     (an_Status a = ''located'' \<and> Valid body (anchor_selection a) \<or> an_Status a = ''stale'')"
  using assms by (rule rebase_exact)

theorem rebase_never_guesses_witness:
  "Valid ''one two'' (anchor_selection (the (Rebase ''two'' ''one two'' (Some \<lparr>an_StartUTF16 = 0, an_EndUTF16 = 3, an_QuoteMarkdown = ''two'',
      an_WorkingCopyRevision = 1, an_ChapterVersionID = None, an_Status = ''located''\<rparr>) 2 None)))"
proof -
  let ?old = "\<lparr>an_StartUTF16 = 0, an_EndUTF16 = 3, an_QuoteMarkdown = ''two'', an_WorkingCopyRevision = 1, an_ChapterVersionID = None, an_Status = ''located''\<rparr>"
  let ?new = "\<lparr>an_StartUTF16 = 4, an_EndUTF16 = 7, an_QuoteMarkdown = ''two'', an_WorkingCopyRevision = 2, an_ChapterVersionID = None, an_Status = ''located''\<rparr>"
  have q: "trim_space ''two'' = ''two''" by (rule trim_space_visible) (simp add: visible_ascii_def ncode_def)
  have v: "Valid ''two'' (anchor_selection ?old)"
    using q by (simp add: Valid_def ByteRange_def anchor_selection_def runes.simps ncode_def slice_def RuneLen16_def encode_rune_def)
  have body: "ValidString ''one two''" by (simp add: ValidString_def runes.simps ncode_def)
  have r: "Rebase ''two'' ''one two'' (Some ?old) 2 None = Some ?new"
    using v by (simp add: Rebase_def utf16_len.simps ncode_def RuneLen16_def)
  have "an_Status ?new \<noteq> ''stale''" by simp
  then show ?thesis using rebase_never_guesses [OF body r] r by simp
qed

end
