(* ===== verification/Change_Status.thy ===== *)
theory Change_Status
  imports Prelude
begin

text \<open>
  The judgements the workspace keeps in one place each: the life cycle of a change set
  (\<^verbatim>\<open>workspacecore/change_set_status.go\<close>), the severity of an impact (\<^verbatim>\<open>workspacecore/impact_severity.go\<close>) and whether a
  chapter version is confirmed (\<^verbatim>\<open>workspacecore/chapter_confirmation.go\<close>).
\<close>

section \<open>The status of a change set\<close>

definition ChangeSetStatuses :: "string list" where
  "ChangeSetStatuses = [''draft'', ''assessed'', ''applied'', ''stabilized'', ''rejected'', ''stale'', ''satisfied'']"

definition ChangeSetClosedStatuses :: "string list" where
  "ChangeSetClosedStatuses = [''applied'', ''stabilized'']"

definition ChangeSetProposalStatuses :: "string list" where
  "ChangeSetProposalStatuses = [''draft'', ''assessed'']"

record status_move =
  sm_From :: "string list"
  sm_To :: string

definition ChangeSetStatusMoves :: "(string \<times> status_move) list" where
  "ChangeSetStatusMoves =
     [(''apply'', \<lparr>sm_From = [''assessed''], sm_To = ''applied''\<rparr>),
      (''reject'', \<lparr>sm_From = [''assessed''], sm_To = ''rejected''\<rparr>),
      (''markStale'', \<lparr>sm_From = [''assessed''], sm_To = ''stale''\<rparr>),
      (''assess'', \<lparr>sm_From = [''draft'', ''assessed''], sm_To = ''assessed''\<rparr>),
      (''reassess'', \<lparr>sm_From = [''stale''], sm_To = ''assessed''\<rparr>),
      (''satisfy'', \<lparr>sm_From = [''stale''], sm_To = ''satisfied''\<rparr>),
      (''stabilize'', \<lparr>sm_From = [''applied''], sm_To = ''stabilized''\<rparr>),
      (''editDraft'', \<lparr>sm_From = [''draft'', ''assessed''], sm_To = ''draft''\<rparr>)]"

definition ChangeSetApplyAnswered :: "string \<Rightarrow> bool" where
  "ChangeSetApplyAnswered status \<longleftrightarrow> status = ''applied'' \<or> status = ''stale''"

definition ChangeSetStatusCanMove :: "string \<Rightarrow> string \<Rightarrow> bool" where
  "ChangeSetStatusCanMove move status =
     (case map_of ChangeSetStatusMoves move of None \<Rightarrow> False | Some declared \<Rightarrow> list_ex (\<lambda>candidate. candidate = status) (sm_From declared))"

definition ChangeSetStatusNeeds :: "string \<Rightarrow> string \<Rightarrow> bool" where
  "ChangeSetStatusNeeds move status = (case map_of ChangeSetStatusMoves move of None \<Rightarrow> False | Some declared \<Rightarrow> status \<noteq> sm_To declared)"

definition IsChangeSetStatus :: "string \<Rightarrow> bool" where
  "IsChangeSetStatus status = list_ex (\<lambda>candidate. candidate = status) ChangeSetStatuses"

definition IsClosedChangeSetStatus :: "string \<Rightarrow> bool" where
  "IsClosedChangeSetStatus status = list_ex (\<lambda>candidate. candidate = status) ChangeSetClosedStatuses"

text \<open>One legal change of the status, and the histories it allows: the moves made, latest first.\<close>

inductive status_step :: "string \<Rightarrow> string \<Rightarrow> string \<Rightarrow> bool" where
  move: "ChangeSetStatusCanMove m s \<Longrightarrow> map_of ChangeSetStatusMoves m = Some d \<Longrightarrow> status_step m s (sm_To d)"

inductive history :: "string list \<Rightarrow> string \<Rightarrow> bool" where
  created: "s \<in> set ChangeSetProposalStatuses \<Longrightarrow> history [] s"
| moved: "history ms s \<Longrightarrow> status_step m s t \<Longrightarrow> history (m # ms) t"

code_pred (modes: i \<Rightarrow> i \<Rightarrow> i \<Rightarrow> bool, i \<Rightarrow> i \<Rightarrow> o \<Rightarrow> bool) status_step .

inductive_simps status_step_simps: "status_step m s t"
inductive_cases history_consE: "history (m # ms) t"

section \<open>The severity of an impact\<close>

definition impactSeverities :: "string list" where
  "impactSeverities = [''blocking'', ''warning'', ''info'']"

definition impactBlockingActions :: "string list" where
  "impactBlockingActions = [''BLOCK_RELEASE'', ''REVIEW_REQUIRED'', ''INVALIDATE_CONFIRMATION'']"

definition impactInfoActions :: "string list" where
  "impactInfoActions = [''RECOMPUTE'', ''NO_ACTION'']"

definition impactWarningActions :: "string list" where
  "impactWarningActions = [''REVALIDATE_EVIDENCE'', ''RETRIEVE_CANDIDATES'', ''REGENERATE'']"

definition DeriveImpactSeverity :: "string \<Rightarrow> string" where
  "DeriveImpactSeverity action =
     (if action \<in> set impactBlockingActions then ''blocking''
      else if action \<in> set impactInfoActions then ''info''
      else if action \<in> set impactWarningActions then ''warning''
      else ''blocking'')"

definition impactSeverityBlocks :: "string \<Rightarrow> bool" where
  "impactSeverityBlocks severity = (if severity \<notin> set impactSeverities then True else severity = ''blocking'')"

section \<open>Confirmations\<close>

record confirmation_fact =
  cf_ID :: string
  cf_ChapterID :: string
  cf_ChapterVersionID :: string
  cf_SpecRevision :: int
  cf_TemplateVersion :: string
  cf_ConfirmerID :: string
  cf_ConfirmedAt :: "int option"
  cf_Valid :: bool

record confirmation_basis =
  cb_ChapterID :: string
  cb_ChapterVersionID :: string
  cb_SpecRevision :: int
  cb_TemplateVersion :: string

text \<open>The loop of \<^verbatim>\<open>ChapterConfirmationOf\<close>; the zero time is \<^const>\<open>None\<close>.\<close>

fun first_confirmation :: "confirmation_basis \<Rightarrow> confirmation_fact list \<Rightarrow> confirmation_fact option" where
  "first_confirmation basis [] = None"
| "first_confirmation basis (f # facts) =
     (if \<not> cf_Valid f then first_confirmation basis facts
      else if cf_ID f = [] \<or> cf_ChapterID f = [] then first_confirmation basis facts
      else if cf_ConfirmerID f = [] \<or> cf_ConfirmedAt f = None then first_confirmation basis facts
      else if cf_ChapterID f \<noteq> cb_ChapterID basis then first_confirmation basis facts
      else if cf_ChapterVersionID f \<noteq> cb_ChapterVersionID basis then first_confirmation basis facts
      else if cf_SpecRevision f \<noteq> cb_SpecRevision basis then first_confirmation basis facts
      else if cf_TemplateVersion f \<noteq> cb_TemplateVersion basis then first_confirmation basis facts
      else Some f)"

definition ChapterConfirmationOf :: "confirmation_basis \<Rightarrow> confirmation_fact list \<Rightarrow> confirmation_fact option" where
  "ChapterConfirmationOf basis facts = (if cb_ChapterID basis = [] \<or> cb_ChapterVersionID basis = [] then None else first_confirmation basis facts)"

definition ChapterConfirmed :: "confirmation_basis \<Rightarrow> confirmation_fact list \<Rightarrow> bool" where
  "ChapterConfirmed basis facts \<longleftrightarrow> ChapterConfirmationOf basis facts \<noteq> None"

section \<open>Lemmas\<close>

lemma moves_distinct: "distinct (map fst ChangeSetStatusMoves)"
  by (simp add: ChangeSetStatusMoves_def)

lemma step_iff: "status_step m s t \<longleftrightarrow> (\<exists>p\<in>set ChangeSetStatusMoves. m = fst p \<and> s \<in> set (sm_From (snd p)) \<and> t = sm_To (snd p))"
proof
  assume "status_step m s t"
  then obtain d where "ChangeSetStatusCanMove m s" "map_of ChangeSetStatusMoves m = Some d" "t = sm_To d" unfolding status_step_simps by blast
  then have "(m, d) \<in> set ChangeSetStatusMoves" "s \<in> set (sm_From d)" by (auto simp: ChangeSetStatusCanMove_def list_ex_iff dest: map_of_SomeD)
  then show "\<exists>p\<in>set ChangeSetStatusMoves. m = fst p \<and> s \<in> set (sm_From (snd p)) \<and> t = sm_To (snd p)"
    using \<open>t = sm_To d\<close> by (intro bexI [of _ "(m, d)"]) simp_all
next
  assume "\<exists>p\<in>set ChangeSetStatusMoves. m = fst p \<and> s \<in> set (sm_From (snd p)) \<and> t = sm_To (snd p)"
  then obtain d where d: "(m, d) \<in> set ChangeSetStatusMoves" "s \<in> set (sm_From d)" "t = sm_To d" by auto
  with moves_distinct have "map_of ChangeSetStatusMoves m = Some d" by simp
  then show "status_step m s t" using d(2, 3) unfolding status_step_simps by (auto simp: ChangeSetStatusCanMove_def list_ex_iff)
qed

lemma step_table:
  "status_step m s t \<longleftrightarrow>
     m = ''apply'' \<and> s = ''assessed'' \<and> t = ''applied'' \<or> m = ''reject'' \<and> s = ''assessed'' \<and> t = ''rejected'' \<or>
     m = ''markStale'' \<and> s = ''assessed'' \<and> t = ''stale'' \<or> m = ''assess'' \<and> (s = ''draft'' \<or> s = ''assessed'') \<and> t = ''assessed'' \<or>
     m = ''reassess'' \<and> s = ''stale'' \<and> t = ''assessed'' \<or> m = ''satisfy'' \<and> s = ''stale'' \<and> t = ''satisfied'' \<or>
     m = ''stabilize'' \<and> s = ''applied'' \<and> t = ''stabilized'' \<or> m = ''editDraft'' \<and> (s = ''draft'' \<or> s = ''assessed'') \<and> t = ''draft''"
  unfolding step_iff ChangeSetStatusMoves_def list.set bex_simps(5, 7) bex_empty fst_conv snd_conv status_move.simps insert_iff empty_iff simp_thms by (rule TrueI)

lemma step_exists: "ChangeSetStatusCanMove m s \<longleftrightarrow> (\<exists>t. status_step m s t)"
  by (auto simp: status_step_simps ChangeSetStatusCanMove_def split: option.splits)

text \<open>A confirmed chapter has a record, confirmed by somebody at some time, of exactly its current state.\<close>

lemma first_confirmation_iff:
  "first_confirmation basis facts \<noteq> None \<longleftrightarrow> (\<exists>f\<in>set facts. cf_Valid f \<and> cf_ID f \<noteq> [] \<and> cf_ChapterID f \<noteq> [] \<and> cf_ConfirmerID f \<noteq> [] \<and> cf_ConfirmedAt f \<noteq> None \<and>
     cf_ChapterID f = cb_ChapterID basis \<and> cf_ChapterVersionID f = cb_ChapterVersionID basis \<and>
     cf_SpecRevision f = cb_SpecRevision basis \<and> cf_TemplateVersion f = cb_TemplateVersion basis)"
  by (induction facts) auto

lemma unconfirmed_after_move: "ChapterConfirmed basis facts \<Longrightarrow> \<forall>f\<in>set facts. cf_ChapterVersionID f = cb_ChapterVersionID basis \<Longrightarrow>
  cb_ChapterVersionID basis' \<noteq> cb_ChapterVersionID basis \<Longrightarrow> \<not> ChapterConfirmed basis' facts"
  using first_confirmation_iff [of basis' facts] by (auto simp: ChapterConfirmed_def ChapterConfirmationOf_def)

text \<open>Only an action of the known mild vocabulary can be waived.\<close>

lemma waivable_actions: "\<not> impactSeverityBlocks (DeriveImpactSeverity action) \<longleftrightarrow> action \<in> set (impactInfoActions @ impactWarningActions)"
  by (auto simp: impactSeverityBlocks_def DeriveImpactSeverity_def impactSeverities_def impactBlockingActions_def impactInfoActions_def impactWarningActions_def)

text \<open>Every status that is not an end has a move.\<close>

lemma open_moves: "ChangeSetStatusCanMove ''assess'' ''draft''" "ChangeSetStatusCanMove ''assess'' ''assessed''"
  "ChangeSetStatusCanMove ''stabilize'' ''applied''" "ChangeSetStatusCanMove ''reassess'' ''stale''"
  by (simp_all add: ChangeSetStatusCanMove_def ChangeSetStatusMoves_def)

section \<open>The life cycle\<close>

lemma history_shape:
  "history ms t \<Longrightarrow> IsChangeSetStatus t \<and> (IsClosedChangeSetStatus t \<longleftrightarrow> ''apply'' \<in> set ms) \<and>
     (t = ''stabilized'' \<longleftrightarrow> ''stabilize'' \<in> set ms) \<and> length (filter (\<lambda>m. m = ''apply'') ms) \<le> 1 \<and> (t = ''rejected'' \<longleftrightarrow> ''reject'' \<in> set ms)"
proof (induction rule: history.induct)
  case (created s)
  then show ?case by (auto simp: ChangeSetProposalStatuses_def IsChangeSetStatus_def IsClosedChangeSetStatus_def ChangeSetStatuses_def ChangeSetClosedStatuses_def)
next
  case (moved ms s m t)
  have none: "length (filter (\<lambda>m. m = ''apply'') ms) = 0" if "''apply'' \<notin> set ms" using that by (auto simp: filter_empty_conv)
  show ?case using moved(2) [unfolded step_table] moved(3) none
    by (simp add: IsChangeSetStatus_def IsClosedChangeSetStatus_def ChangeSetStatuses_def ChangeSetClosedStatuses_def) (elim disjE conjE; simp)
qed

text \<open>
  The life cycle of a change set.  Whatever moves a change set goes through from its creation as a draft or an
  assessed proposal, its status stays in the vocabulary; it counts as closed exactly when it has been applied,
  and it is applied at most once; it is stabilized only after that; and a rejected, satisfied or stabilized
  change set never moves again.
\<close>

theorem change_set_life_cycle:
  assumes "history ms t"
  shows "IsChangeSetStatus t \<and> (IsClosedChangeSetStatus t \<longleftrightarrow> ''apply'' \<in> set ms) \<and> length (filter (\<lambda>m. m = ''apply'') ms) \<le> 1 \<and>
     (t = ''stabilized'' \<longrightarrow> ''apply'' \<in> set ms) \<and>
     (t \<in> {''rejected'', ''satisfied'', ''stabilized''} \<longrightarrow> (\<forall>m. \<not> ChangeSetStatusCanMove m t)) \<and>
     (t \<notin> {''rejected'', ''satisfied'', ''stabilized''} \<longrightarrow> (\<exists>m. ChangeSetStatusCanMove m t))"
proof (intro conjI impI allI)
  note h = history_shape [OF assms]
  show "IsChangeSetStatus t" using h by (rule conjunct1)
  show "IsClosedChangeSetStatus t \<longleftrightarrow> ''apply'' \<in> set ms" using h by (elim conjE)
  show "length (filter (\<lambda>m. m = ''apply'') ms) \<le> 1" using h by (elim conjE)
  show "''apply'' \<in> set ms" if "t = ''stabilized''" using h unfolding that by (simp add: IsClosedChangeSetStatus_def ChangeSetClosedStatuses_def)
  show "\<not> ChangeSetStatusCanMove m t" if "t \<in> {''rejected'', ''satisfied'', ''stabilized''}" for m
    using that by (auto simp: step_exists step_table)
  show "\<exists>m. ChangeSetStatusCanMove m t" if "t \<notin> {''rejected'', ''satisfied'', ''stabilized''}"
  proof -
    from conjunct1 [OF h] that have "t = ''draft'' \<or> t = ''assessed'' \<or> t = ''applied'' \<or> t = ''stale''"
      by (simp add: IsChangeSetStatus_def ChangeSetStatuses_def) (elim disjE; simp)
    then show ?thesis by (elim disjE) (simp_all only:, (rule exI, rule open_moves)+)
  qed
qed

theorem change_set_life_cycle_witness:
  "history [''stabilize'', ''apply'', ''reassess'', ''markStale'', ''assess''] ''stabilized'' \<and> (\<forall>m. \<not> ChangeSetStatusCanMove m ''stabilized'')"
proof -
  have h: "history [''stabilize'', ''apply'', ''reassess'', ''markStale'', ''assess''] ''stabilized''"
    by (rule history.moved [where s = "''applied''"], rule history.moved [where s = "''assessed''"], rule history.moved [where s = "''stale''"],
      rule history.moved [where s = "''assessed''"], rule history.moved [where s = "''draft''"], rule history.created)
       (simp_all add: step_table ChangeSetProposalStatuses_def)
  then show ?thesis using change_set_life_cycle [OF h] by blast
qed

end
