(* ===== verification/Chapter_Store.thy ===== *)
theory Chapter_Store
  imports Store Review_Anchor Change_Status
begin

text \<open>
  Chapters, their versions and their working copies: the data of \<^verbatim>\<open>workspacecore/model.go\<close> and the statements of
  \<^verbatim>\<open>gormTransaction\<close> in \<^verbatim>\<open>workspacecore/service.go\<close> on them, with the confirmation rows of
  \<^verbatim>\<open>chapter_confirmation.go\<close>.

  The four tables are the part of the store that \<^verbatim>\<open>st_rest\<close> stood for; what is left of it (impact tasks, roadmap,
  provenance, keys and resources) is \<^verbatim>\<open>ct_rest\<close>.  A column that holds JSON holds the decoded value, as in \<^verbatim>\<open>Store\<close>; the
  details of a confirmation, which another package writes, may fail to decode, and are then \<^const>\<open>None\<close>.  The
  creation time of a working copy, which nothing reads, is left out.
\<close>

section \<open>Data\<close>

record review_item =
  ri_ID :: string
  ri_Statement :: string
  ri_OriginCandidateID :: string
  ri_Anchor :: "anchor option"

record citation_usage =
  cu_SourceID :: string
  cu_Purpose :: string
  cu_Limitation :: string

record citation_status =
  cs_SourceID :: string
  cs_Status :: string
  cs_Detail :: string

record chapter_data =
  ch_ID :: string
  ch_ProjectID :: string
  ch_SectionID :: string
  ch_Title :: string
  ch_CurrentVersionID :: "string option"
  ch_BodyMarkdown :: string
  ch_SourceIDs :: "string list"
  ch_CitationUsages :: "citation_usage list"
  ch_CitationStatuses :: "citation_status list"
  ch_ReviewItems :: "review_item list"
  ch_ConfirmationValid :: bool

record working_copy =
  wc_CitationUsages :: "citation_usage list"
  wc_ProjectID :: string
  wc_ChapterID :: string
  wc_BaseChapterVersionID :: "string option"
  wc_SpecRevision :: int
  wc_WorkingCopyRevision :: int
  wc_BodyMarkdown :: string
  wc_SourceIDs :: "string list"
  wc_ReviewItems :: "review_item list"
  wc_UpdatedAt :: int

record chapter_version =
  cv_CitationUsages :: "citation_usage list"
  cv_ID :: string
  cv_ProjectID :: string
  cv_ChapterID :: string
  cv_ParentVersionID :: "string option"
  cv_BodyMarkdown :: string
  cv_SourceIDs :: "string list"
  cv_ReviewItems :: "review_item list"
  cv_SpecRevision :: int
  cv_ConfirmationValid :: bool
  cv_CreatedAt :: int

section \<open>Rows\<close>

record chapter_row =
  cr_ID :: string
  cr_ProjectID :: string
  cr_SectionID :: string
  cr_Title :: string
  cr_CurrentVersionID :: "string option"

text \<open>The decisions inside a confirmation: the reader of facts ignores them, the reader of the record decodes them on its own.\<close>

record review_decision =
  rd_ReviewItemID :: string
  rd_Disposition :: string
  rd_Reason :: string

datatype decisions_json = NoDecisions | BadDecisions | Decisions "review_decision list"

record confirmation_details =
  cd_ID :: string
  cd_ChapterID :: string
  cd_ChapterVersionID :: string
  cd_SpecRevision :: int
  cd_TemplateVersion :: string
  cd_ActorUserID :: string
  cd_CreatedAt :: "int option"
  cd_Valid :: bool
  cd_Decisions :: decisions_json

record confirmation_row =
  cn_ID :: string
  cn_ChapterID :: string
  cn_ChapterVersionID :: string
  cn_Valid :: bool
  cn_Details :: "confirmation_details option"
  cn_CreatedAt :: int

record 'r chapter_tables =
  ct_chapters :: "chapter_row list"
  ct_versions :: "chapter_version list"
  ct_copies :: "working_copy list"
  ct_confirmations :: "confirmation_row list"
  ct_rest :: 'r

type_synonym ('d, 'r) chapter_store = "('d, 'r chapter_tables) store"

section \<open>Reading\<close>

text \<open>The facts the confirmation judgement gets: a record whose details name another row is dropped.\<close>

fun confirmation_facts :: "confirmation_row list \<Rightarrow> goerr + confirmation_fact list" where
  "confirmation_facts [] = Inr []"
| "confirmation_facts (row # rows) =
     (case cn_Details row of
        None \<Rightarrow> Inl (Raw ''decode chapter confirmation'')
      | Some d \<Rightarrow> bindR (confirmation_facts rows) (\<lambda>facts.
          Inr (if cd_ID d \<noteq> cn_ID row then facts
               else \<lparr>cf_ID = cn_ID row, cf_ChapterID = cd_ChapterID d, cf_ChapterVersionID = cd_ChapterVersionID d,
                     cf_SpecRevision = cd_SpecRevision d, cf_TemplateVersion = cd_TemplateVersion d, cf_ConfirmerID = cd_ActorUserID d,
                     cf_ConfirmedAt = cd_CreatedAt d, cf_Valid = cd_Valid d \<and> cn_Valid row\<rparr> # facts)))"

definition chapterConfirmationFacts :: "'r chapter_tables \<Rightarrow> string \<Rightarrow> string \<Rightarrow> goerr + confirmation_fact list" where
  "chapterConfirmationFacts q cid vid =
     confirmation_facts (rev (sort_key (\<lambda>r. (cn_CreatedAt r, cn_ID r))
       (filter (\<lambda>r. cn_ChapterID r = cid \<and> cn_ChapterVersionID r = vid \<and> cn_Valid r) (ct_confirmations q))))"

definition chapterView :: "'r chapter_tables \<Rightarrow> chapter_row \<Rightarrow> project_row \<Rightarrow> goerr + chapter_data" where
  "chapterView q row project =
     (let view = \<lparr>ch_ID = cr_ID row, ch_ProjectID = cr_ProjectID row, ch_SectionID = cr_SectionID row, ch_Title = cr_Title row,
                  ch_CurrentVersionID = cr_CurrentVersionID row, ch_BodyMarkdown = [], ch_SourceIDs = [], ch_CitationUsages = [],
                  ch_CitationStatuses = [], ch_ReviewItems = [], ch_ConfirmationValid = False\<rparr>
      in case cr_CurrentVersionID row of
        None \<Rightarrow> Inr view
      | Some vid \<Rightarrow>
          (case find (\<lambda>v. cv_ID v = vid \<and> cv_ProjectID v = cr_ProjectID row \<and> cv_ChapterID v = cr_ID row) (ct_versions q) of
             None \<Rightarrow> Inl (Raw ''record not found'')
           | Some v \<Rightarrow>
               bindR (if cv_ConfirmationValid v
                      then bindR (chapterConfirmationFacts q (cr_ID row) (cv_ID v)) (\<lambda>facts.
                        Inr (ChapterConfirmed \<lparr>cb_ChapterID = cr_ID row, cb_ChapterVersionID = cv_ID v, cb_SpecRevision = pr_SpecRevision project,
                                               cb_TemplateVersion = pr_TemplateVersion project\<rparr> facts))
                      else Inr False) (\<lambda>confirmed.
                 Inr (view\<lparr>ch_BodyMarkdown := cv_BodyMarkdown v, ch_ConfirmationValid := confirmed, ch_SourceIDs := cv_SourceIDs v,
                           ch_CitationUsages := cv_CitationUsages v, ch_ReviewItems := cv_ReviewItems v\<rparr>))))"

definition Chapter :: "('d, 'r) chapter_store \<Rightarrow> string \<Rightarrow> string \<Rightarrow> goerr + chapter_data" where
  "Chapter st pid cid =
     bindR (storageError (find (\<lambda>r. cr_ID r = cid \<and> cr_ProjectID r = pid) (ct_chapters (st_rest st)))) (\<lambda>row.
     bindR (storageError (find (\<lambda>r. pr_ID r = pid) (st_projects st))) (\<lambda>project.
       chapterView (st_rest st) row project))"

definition Chapters :: "('d, 'r) chapter_store \<Rightarrow> string \<Rightarrow> goerr + chapter_data list" where
  "Chapters st pid =
     bindR (storageError (find (\<lambda>r. pr_ID r = pid) (st_projects st))) (\<lambda>project.
       mapR (\<lambda>row. chapterView (st_rest st) row project) (sort_key cr_SectionID (filter (\<lambda>r. cr_ProjectID r = pid) (ct_chapters (st_rest st)))))"

definition ChapterVersion :: "('d, 'r) chapter_store \<Rightarrow> string \<Rightarrow> string \<Rightarrow> string \<Rightarrow> goerr + chapter_version" where
  "ChapterVersion st pid cid vid =
     storageError (find (\<lambda>v. cv_ID v = vid \<and> cv_ProjectID v = pid \<and> cv_ChapterID v = cid) (ct_versions (st_rest st)))"

definition ChapterVersions :: "('d, 'r) chapter_store \<Rightarrow> string \<Rightarrow> string \<Rightarrow> chapter_version list" where
  "ChapterVersions st pid cid =
     rev (sort_key (\<lambda>v. (cv_CreatedAt v, cv_ID v)) (filter (\<lambda>v. cv_ProjectID v = pid \<and> cv_ChapterID v = cid) (ct_versions (st_rest st))))"

definition WorkingCopy :: "('d, 'r) chapter_store \<Rightarrow> string \<Rightarrow> string \<Rightarrow> goerr + working_copy" where
  "WorkingCopy st pid cid = storageError (find (\<lambda>w. wc_ProjectID w = pid \<and> wc_ChapterID w = cid) (ct_copies (st_rest st)))"

section \<open>Writing\<close>

definition set_chapters :: "('r chapter_tables \<Rightarrow> 'r chapter_tables) \<Rightarrow> ('d, 'r) chapter_store \<Rightarrow> ('d, 'r) chapter_store" where
  "set_chapters f st = st\<lparr>st_rest := f (st_rest st)\<rparr>"

definition copy_key :: "working_copy \<Rightarrow> string \<times> string" where
  "copy_key w = (wc_ProjectID w, wc_ChapterID w)"

definition store_SaveWorkingCopy :: "working_copy \<Rightarrow> working_copy \<Rightarrow> ('d, 'r) chapter_store \<Rightarrow> goerr + ('d, 'r) chapter_store" where
  "store_SaveWorkingCopy prev nxt st =
     bindR (affected (update_rows
              (\<lambda>w. wc_ProjectID w = wc_ProjectID prev \<and> wc_ChapterID w = wc_ChapterID prev \<and> wc_SpecRevision w = wc_SpecRevision prev \<and>
                   wc_WorkingCopyRevision w = wc_WorkingCopyRevision prev \<and> wc_BaseChapterVersionID w = wc_BaseChapterVersionID prev)
              (\<lambda>w. w\<lparr>wc_BaseChapterVersionID := wc_BaseChapterVersionID nxt, wc_SpecRevision := wc_SpecRevision nxt,
                     wc_WorkingCopyRevision := wc_WorkingCopyRevision nxt, wc_BodyMarkdown := wc_BodyMarkdown nxt, wc_SourceIDs := wc_SourceIDs nxt,
                     wc_CitationUsages := wc_CitationUsages nxt, wc_ReviewItems := wc_ReviewItems nxt, wc_UpdatedAt := wc_UpdatedAt nxt\<rparr>)
              (ct_copies (st_rest st)))) (\<lambda>tab. Inr (set_chapters (ct_copies_update (\<lambda>_. tab)) st))"

definition InsertChapter :: "int \<Rightarrow> chapter_data \<Rightarrow> ('d, 'r) chapter_store \<Rightarrow> goerr + ('d, 'r) chapter_store" where
  "InsertChapter now c st =
     bindR (storageError (find (\<lambda>r. pr_ID r = ch_ProjectID c) (st_projects st))) (\<lambda>project.
     bindR (insert_row cr_ID ''lingdoc_chapters.id''
              \<lparr>cr_ID = ch_ID c, cr_ProjectID = ch_ProjectID c, cr_SectionID = ch_SectionID c, cr_Title = ch_Title c, cr_CurrentVersionID = None\<rparr>
              (ct_chapters (st_rest st))) (\<lambda>chapters.
     bindR (insert_row copy_key ''lingdoc_working_copies.project_id, lingdoc_working_copies.chapter_id''
              \<lparr>wc_CitationUsages = [], wc_ProjectID = ch_ProjectID c, wc_ChapterID = ch_ID c, wc_BaseChapterVersionID = None,
               wc_SpecRevision = pr_SpecRevision project, wc_WorkingCopyRevision = 1, wc_BodyMarkdown = ch_BodyMarkdown c,
               wc_SourceIDs = ch_SourceIDs c, wc_ReviewItems = ch_ReviewItems c, wc_UpdatedAt = now\<rparr> (ct_copies (st_rest st))) (\<lambda>copies.
       Inr (set_chapters (\<lambda>q. q\<lparr>ct_chapters := chapters, ct_copies := copies\<rparr>) st))))"

definition AppendChapter :: "int \<Rightarrow> chapter_data \<Rightarrow> chapter_data \<Rightarrow> int \<Rightarrow> ('d, 'r) chapter_store \<Rightarrow> goerr + ('d, 'r) chapter_store" where
  "AppendChapter now prev nxt specRevision st =
     (let vid = the (ch_CurrentVersionID nxt) in
      bindR (insert_row cv_ID ''lingdoc_chapter_versions.id''
               \<lparr>cv_CitationUsages = ch_CitationUsages nxt, cv_ID = vid, cv_ProjectID = ch_ProjectID nxt, cv_ChapterID = ch_ID nxt,
                cv_ParentVersionID = ch_CurrentVersionID prev, cv_BodyMarkdown = ch_BodyMarkdown nxt, cv_SourceIDs = ch_SourceIDs nxt,
                cv_ReviewItems = ch_ReviewItems nxt, cv_SpecRevision = specRevision, cv_ConfirmationValid = False, cv_CreatedAt = now\<rparr>
               (ct_versions (st_rest st))) (\<lambda>versions.
      bindR (affected (update_rows (\<lambda>r. cr_ID r = ch_ID prev \<and> cr_ProjectID r = ch_ProjectID prev \<and> cr_CurrentVersionID r = ch_CurrentVersionID prev)
               (\<lambda>r. r\<lparr>cr_CurrentVersionID := Some vid\<rparr>) (ct_chapters (st_rest st)))) (\<lambda>chapters.
        Inr (set_chapters (\<lambda>q. q\<lparr>ct_versions := versions, ct_chapters := chapters\<rparr>) st))))"

definition InvalidateChapterConfirmations :: "string \<Rightarrow> string list \<Rightarrow> ('d, 'r) chapter_store \<Rightarrow> ('d, 'r) chapter_store" where
  "InvalidateChapterConfirmations pid cids st =
     (let q = st_rest st;
          current = List.map_filter cr_CurrentVersionID (filter (\<lambda>r. cr_ProjectID r = pid \<and> cr_ID r \<in> set cids) (ct_chapters q))
      in if cids = [] \<or> current = [] then st
      else set_chapters (\<lambda>q. q\<lparr>
        ct_versions := map (\<lambda>v. if cv_ProjectID v = pid \<and> cv_ID v \<in> set current then v\<lparr>cv_ConfirmationValid := False\<rparr> else v) (ct_versions q),
        ct_confirmations := map (\<lambda>r. if cn_ChapterID r \<in> set cids \<and> cn_ChapterVersionID r \<in> set current then r\<lparr>cn_Valid := False\<rparr> else r)
                              (ct_confirmations q)\<rparr>) st)"

definition markChapterUnconfirmed :: "chapter_data \<Rightarrow> chapter_data" where
  "markChapterUnconfirmed c = c\<lparr>ch_ConfirmationValid := False\<rparr>"

end
