(* ===== verification/Working_Copy.thy ===== *)
theory Working_Copy
  imports Chapter_Store Source_Marker Membership_Service
begin

text \<open>
  Working copies and the commits they lead to: \<^verbatim>\<open>workspacecore/working_copy.go\<close>, \<^verbatim>\<open>review_anchor.go\<close>,
  \<^verbatim>\<open>condition_change.go\<close> and \<^verbatim>\<open>SaveChapter\<close> of \<^verbatim>\<open>service_facade.go\<close>.  Every handler checks its request, declares the
  sources the pipeline re-checks, and hands its write to the pipeline; reading a working copy may first carry it
  over to a new base.

  Slices that the code distinguishes from nil are options.  The re-verification of impact locations, the JSON
  decoder for stored answers and the source policy are functions of the environment.
\<close>

section \<open>Requests and answers\<close>

record save_copy_input =
  sw_CitationUsages :: "citation_usage list option"
  sw_BaseChapterVersionID :: "string option"
  sw_ExpectedSpecRevision :: int
  sw_ExpectedWorkingCopyRevision :: int
  sw_BodyMarkdown :: string
  sw_SourceIDs :: "string list option"

record dismissal =
  ds_DismissedFields :: "string list"
  ds_Reason :: string

record commit_input =
  cw_ExpectedSpecRevision :: int
  cw_ExpectedWorkingCopyRevision :: int
  cw_ExpectedChapterVersionID :: "string option"
  cw_ConditionChange :: "dismissal option"

record restore_input =
  rw_ChapterVersionID :: string
  rw_ExpectedSpecRevision :: int
  rw_ExpectedWorkingCopyRevision :: int
  rw_ExpectedChapterVersionID :: "string option"

record rewrite_input =
  ar_WorkingCopy :: save_copy_input
  ar_ReviewItems :: "review_item list"

record anchor_input =
  ai_ExpectedChapterVersionID :: "string option"
  ai_ExpectedSpecRevision :: int
  ai_ExpectedWorkingCopyRevision :: int
  ai_Anchor :: "selection option"

record save_chapter_input =
  sc_ExpectedChapterVersionID :: "string option"
  sc_ExpectedSpecRevision :: int
  sc_BodyMarkdown :: string
  sc_SourceIDs :: "string list option"
  sc_CitationUsages :: "citation_usage list option"

record committed_version =
  co_ChapterVersionID :: string
  co_ParentChapterVersionID :: "string option"
  co_CommittedWorkingCopyRevision :: int
  co_NextWorkingCopyRevision :: int
  co_SpecRevision :: int
  co_BodyMarkdown :: string
  co_SourceIDs :: "string list"
  co_ReviewItems :: "review_item list"

datatype cbody = BSaveCopy save_copy_input | BRewrite rewrite_input | BCommit commit_input | BRestore restore_input
  | BAnchor anchor_input | BSaveChapter save_chapter_input

datatype cvalue = VCopy working_copy | VCommitted committed_version | VChapter chapter_data

record ('d, 'r) chapter_env =
  ke_store :: "('d, 'r chapter_tables) store_env"
  ke_now :: int
  ke_newID :: "nat \<Rightarrow> string"
  ke_revalidate :: "string \<Rightarrow> string \<Rightarrow> string \<Rightarrow> int \<Rightarrow> 'r \<Rightarrow> goerr + 'r"
  ke_decodeCopy :: "string \<Rightarrow> goerr + working_copy"
  ke_decodeCommitted :: "string \<Rightarrow> goerr + committed_version"
  ke_decodeChapter :: "string \<Rightarrow> goerr + chapter_data"

type_synonym 'x source_policy = "('x gocontext \<Rightarrow> string \<Rightarrow> string \<Rightarrow> string list \<Rightarrow> goerr option) option"

type_synonym ('d, 'r) chapter_write = "'d project \<Rightarrow> ('d, 'r) chapter_store \<Rightarrow> goerr + (cvalue operation_outcome \<times> ('d, 'r) chapter_store)"

type_synonym ('d, 'r, 'x) chapter_ws = "(('d, 'r) chapter_store, 'd, cbody, cvalue, 'x) ws_env"

definition answered :: "cvalue \<Rightarrow> operation_status \<Rightarrow> ('d, 'r) chapter_store \<Rightarrow> goerr + (cvalue operation_outcome \<times> ('d, 'r) chapter_store)" where
  "answered v status st = Inr (\<lparr>oo_Value = v, oo_Status = status, oo_Output = []\<rparr>, st)"

section \<open>Bodies, sources and citations\<close>

definition sameVersion :: "string option \<Rightarrow> string option \<Rightarrow> bool" where
  "sameVersion a b = (case (a, b) of (None, None) \<Rightarrow> True | (Some x, Some y) \<Rightarrow> x = y | _ \<Rightarrow> False)"

definition validateWorkingCopyBody :: "string \<Rightarrow> string list option \<Rightarrow> goerr + string list" where
  "validateWorkingCopyBody body sourceIDs =
     (case sourceIDs of
        None \<Rightarrow> Inl (Sentinel ErrInvalidRequest)
      | Some ids \<Rightarrow>
          if length body > 200000 then Inl (Sentinel ErrInvalidRequest)
          else case Validate_markers body of
            Inl _ \<Rightarrow> Inl (Sentinel ErrInvalidRequest)
          | Inr _ \<Rightarrow>
              (let refs = remdups_adj (sort (IDs body)); declared = sort ids in
               if length (remdups_adj declared) \<noteq> length declared \<or> refs \<noteq> declared then Inl (Sentinel ErrInvalidRequest) else Inr declared))"

definition checkSources :: "'x source_policy \<Rightarrow> 'x gocontext \<Rightarrow> actor \<Rightarrow> string \<Rightarrow> string list \<Rightarrow> goerr option" where
  "checkSources policy ctx a pid ids =
     (if ids = [] then None
      else case policy of None \<Rightarrow> Some (Sentinel ErrSourceUnavailable) | Some validate \<Rightarrow> validate ctx pid (UserID a) (sort ids))"

definition completeCitationUsages :: "citation_usage list \<Rightarrow> string list \<Rightarrow> citation_usage list" where
  "completeCitationUsages vals ids =
     vals @ map (\<lambda>i. \<lparr>cu_SourceID = i, cu_Purpose = [], cu_Limitation = []\<rparr>) (filter (\<lambda>i. i \<notin> cu_SourceID ` set vals) ids)"

fun normalize_usages :: "string list \<Rightarrow> string list \<Rightarrow> citation_usage list \<Rightarrow> goerr + citation_usage list" where
  "normalize_usages allowed seen [] = Inr []"
| "normalize_usages allowed seen (v # vs) =
     (let u = \<lparr>cu_SourceID = trim_space (cu_SourceID v), cu_Purpose = trim_space (cu_Purpose v), cu_Limitation = trim_space (cu_Limitation v)\<rparr> in
      if cu_SourceID u = [] \<or> rune_count (cu_Purpose u) > 2000 \<or> rune_count (cu_Limitation u) > 2000 then Inl (Sentinel ErrInvalidRequest)
      else if cu_SourceID u \<notin> set allowed then Inl (Sentinel ErrInvalidRequest)
      else if cu_SourceID u \<in> set seen then Inl (Sentinel ErrInvalidRequest)
      else bindR (normalize_usages allowed (cu_SourceID u # seen) vs) (\<lambda>us. Inr (u # us)))"

definition normalizeCitationUsages :: "citation_usage list option \<Rightarrow> string list \<Rightarrow> goerr + citation_usage list" where
  "normalizeCitationUsages vals ids =
     (case vals of None \<Rightarrow> Inr []
      | Some vs \<Rightarrow> bindR (normalize_usages ids [] vs) (\<lambda>us. Inr (sort_key cu_SourceID (completeCitationUsages us ids))))"

text \<open>The usages a write stores: the given ones, or those of the previous text whose source is still cited.\<close>

definition next_usages :: "citation_usage list option \<Rightarrow> citation_usage list \<Rightarrow> citation_usage list \<Rightarrow> string list \<Rightarrow> citation_usage list" where
  "next_usages given usages previous declared =
     (case given of Some _ \<Rightarrow> usages
      | None \<Rightarrow> completeCitationUsages (filter (\<lambda>u. cu_SourceID u \<in> set declared) previous) declared)"

section \<open>Review items\<close>

definition rebaseReviewItems :: "string \<Rightarrow> string \<Rightarrow> review_item list \<Rightarrow> int \<Rightarrow> string option \<Rightarrow> review_item list" where
  "rebaseReviewItems oldBody body items revision version =
     map (\<lambda>i. i\<lparr>ri_Anchor := Rebase oldBody body (ri_Anchor i) revision version\<rparr>) items"

definition reviewItemsEqual :: "review_item \<Rightarrow> review_item \<Rightarrow> bool" where
  "reviewItemsEqual a b \<longleftrightarrow> ri_ID a = ri_ID b \<and> ri_Statement a = ri_Statement b \<and> ri_OriginCandidateID a = ri_OriginCandidateID b \<and>
     (case (ri_Anchor a, ri_Anchor b) of
        (Some l, Some r) \<Rightarrow> l\<lparr>an_WorkingCopyRevision := 0\<rparr> = r\<lparr>an_WorkingCopyRevision := 0\<rparr>
      | (l, r) \<Rightarrow> l = None \<and> r = None)"

text \<open>The items a rewrite adds: fresh identifiers, and anchors that hold in the new body.\<close>

fun rewrite_items :: "string \<Rightarrow> int \<Rightarrow> string option \<Rightarrow> string list \<Rightarrow> review_item list \<Rightarrow> goerr + review_item list" where
  "rewrite_items body revision version seen [] = Inr []"
| "rewrite_items body revision version seen (i # is) =
     (if ri_ID i \<in> set seen then Inl (Sentinel ErrInvalidRequest)
      else bindR (case ri_Anchor i of
                    None \<Rightarrow> Inr i
                  | Some an \<Rightarrow> if \<not> Valid body (anchor_selection an) then Inl (Sentinel ErrInvalidRequest)
                               else Inr (i\<lparr>ri_Anchor := Some (New (anchor_selection an) revision version)\<rparr>)) (\<lambda>j.
           bindR (rewrite_items body revision version (ri_ID i # seen) is) (\<lambda>js. Inr (j # js))))"

definition attach :: "string \<Rightarrow> selection option \<Rightarrow> int \<Rightarrow> string option \<Rightarrow> review_item list \<Rightarrow> review_item list" where
  "attach itemID sel revision version items =
     map (\<lambda>i. if ri_ID i = itemID then i\<lparr>ri_Anchor := map_option (\<lambda>s. New s revision version) sel\<rparr> else i) items"

section \<open>The wording gate\<close>

definition conditionValueMinRunes :: nat where
  "conditionValueMinRunes = 4"

record suspected_change =
  su_FieldID :: string
  su_Value :: string

definition suspectedConditionChanges :: "(string \<times> string) list \<Rightarrow> string \<Rightarrow> string \<Rightarrow> suspected_change list" where
  "suspectedConditionChanges spec oldBody newBody =
     sort_key su_FieldID (map (\<lambda>(field, raw). \<lparr>su_FieldID = field, su_Value = trim_space raw\<rparr>)
       (filter (\<lambda>(field, raw). \<not> rune_count (trim_space raw) < conditionValueMinRunes \<and> contains oldBody (trim_space raw) \<and>
                                \<not> contains newBody (trim_space raw)) spec))"

definition suspectedConditionChangeFields :: "suspected_change list \<Rightarrow> string list" where
  "suspectedConditionChangeFields suspected = map su_FieldID suspected"

definition reviewConditionChanges :: "(string \<times> string) list \<Rightarrow> string \<Rightarrow> string \<Rightarrow> dismissal option \<Rightarrow> goerr option" where
  "reviewConditionChanges spec oldBody newBody dismissal =
     (let suspected = suspectedConditionChanges spec oldBody newBody in
      if suspected = [] then None
      else case dismissal of
        None \<Rightarrow> Some (Raw ''working copy commit suspected a research-condition change'')
      | Some d \<Rightarrow>
          if trim_space (ds_Reason d) = [] \<or> length (ds_Reason d) > 2000 then Some (Sentinel ErrInvalidRequest)
          else if sort (ds_DismissedFields d) \<noteq> suspectedConditionChangeFields suspected then Some (Raw ''condition_change_dismissal_stale'')
          else None)"

definition auditConditionDismissal :: "('d, 'r) chapter_env \<Rightarrow> actor \<Rightarrow> string \<Rightarrow> string \<Rightarrow> dismissal \<Rightarrow> ('d, 'r) chapter_store \<Rightarrow> goerr + ('d, 'r) chapter_store" where
  "auditConditionDismissal ke a pid cid d =
     RecordAudit \<lparr>ar_ID = ke_newID ke 0, ar_ProjectID = pid, ar_ActorID = UserID a, ar_Action = ''chapter.commit.condition_dismissed'', ar_Target = cid,
       ar_TenantID = TenantID a, ar_UserID = [], ar_Reason = ds_Reason d, ar_Decision = [], ar_CreatedAt = ke_now ke\<rparr>"

section \<open>The writes\<close>

text \<open>The comparison every write starts with: the chapter, the draft and the specification are the ones the caller saw.\<close>

definition copy_current :: "chapter_data \<Rightarrow> working_copy \<Rightarrow> string option \<Rightarrow> int \<Rightarrow> int \<Rightarrow> bool" where
  "copy_current c w version specRevision revision \<longleftrightarrow> sameVersion (ch_CurrentVersionID c) version \<and> sameVersion (wc_BaseChapterVersionID w) version \<and>
     wc_SpecRevision w = specRevision \<and> wc_WorkingCopyRevision w = revision"

definition save_copy_write :: "('d, 'r) chapter_env \<Rightarrow> string \<Rightarrow> string \<Rightarrow> save_copy_input \<Rightarrow> string list \<Rightarrow> citation_usage list \<Rightarrow> ('d, 'r) chapter_write" where
  "save_copy_write ke pid cid inp declared usages p st =
     (if p_Status p \<noteq> ''active'' \<or> p_SpecRevision p \<noteq> sw_ExpectedSpecRevision inp then Inl (Sentinel ErrVersionConflict)
      else bindR (Chapter st pid cid) (\<lambda>c. bindR (WorkingCopy st pid cid) (\<lambda>prev.
        if \<not> copy_current c prev (sw_BaseChapterVersionID inp) (sw_ExpectedSpecRevision inp) (sw_ExpectedWorkingCopyRevision inp)
          then Inl (Sentinel ErrVersionConflict)
        else let revision = wc_WorkingCopyRevision prev + 1;
                 nxt = prev\<lparr>wc_WorkingCopyRevision := revision, wc_BodyMarkdown := sw_BodyMarkdown inp, wc_SourceIDs := declared,
                   wc_CitationUsages := next_usages (sw_CitationUsages inp) usages (wc_CitationUsages prev) declared,
                   wc_ReviewItems := rebaseReviewItems (wc_BodyMarkdown prev) (sw_BodyMarkdown inp) (wc_ReviewItems prev) revision (wc_BaseChapterVersionID prev),
                   wc_UpdatedAt := ke_now ke\<rparr>
             in bindR (store_SaveWorkingCopy prev nxt st) (\<lambda>st'. answered (VCopy nxt) OperationStatusOK st'))))"

definition rewrite_write :: "('d, 'r) chapter_env \<Rightarrow> string \<Rightarrow> string \<Rightarrow> save_copy_input \<Rightarrow> string list \<Rightarrow> citation_usage list \<Rightarrow> review_item list \<Rightarrow> ('d, 'r) chapter_write" where
  "rewrite_write ke pid cid inp declared usages items p st =
     (if p_Status p \<noteq> ''active'' \<or> p_SpecRevision p \<noteq> sw_ExpectedSpecRevision inp then Inl (Sentinel ErrVersionConflict)
      else bindR (Chapter st pid cid) (\<lambda>c. bindR (WorkingCopy st pid cid) (\<lambda>prev.
        if \<not> copy_current c prev (sw_BaseChapterVersionID inp) (sw_ExpectedSpecRevision inp) (sw_ExpectedWorkingCopyRevision inp)
          then Inl (Sentinel ErrVersionConflict)
        else let revision = wc_WorkingCopyRevision prev + 1;
                 kept = rebaseReviewItems (wc_BodyMarkdown prev) (sw_BodyMarkdown inp) (wc_ReviewItems prev) revision (wc_BaseChapterVersionID prev)
             in bindR (rewrite_items (sw_BodyMarkdown inp) revision (wc_BaseChapterVersionID prev) (map ri_ID kept) items) (\<lambda>added.
               let nxt = prev\<lparr>wc_WorkingCopyRevision := revision, wc_SpecRevision := sw_ExpectedSpecRevision inp, wc_BodyMarkdown := sw_BodyMarkdown inp,
                     wc_SourceIDs := declared, wc_CitationUsages := next_usages (sw_CitationUsages inp) usages (wc_CitationUsages prev) declared,
                     wc_ReviewItems := kept @ added, wc_UpdatedAt := ke_now ke\<rparr>
               in bindR (store_SaveWorkingCopy prev nxt st) (\<lambda>st'. answered (VCopy nxt) OperationStatusOK st')))))"

definition revalidate :: "('d, 'r) chapter_env \<Rightarrow> string \<Rightarrow> string \<Rightarrow> string \<Rightarrow> ('d, 'r) chapter_store \<Rightarrow> goerr + ('d, 'r) chapter_store" where
  "revalidate ke pid cid body st = bindR (ke_revalidate ke pid cid body (ke_now ke) (ct_rest (st_rest st))) (\<lambda>r. Inr (set_chapters (ct_rest_update (\<lambda>_. r)) st))"

definition commit_write :: "('d, 'r) chapter_env \<Rightarrow> actor \<Rightarrow> string \<Rightarrow> string \<Rightarrow> commit_input \<Rightarrow> ('d, 'r) chapter_write" where
  "commit_write ke a pid cid inp p st =
     (if p_Status p \<noteq> ''active'' \<or> p_SpecRevision p \<noteq> cw_ExpectedSpecRevision inp then Inl (Sentinel ErrVersionConflict)
      else bindR (Chapter st pid cid) (\<lambda>c. bindR (WorkingCopy st pid cid) (\<lambda>w.
        if \<not> copy_current c w (cw_ExpectedChapterVersionID inp) (cw_ExpectedSpecRevision inp) (cw_ExpectedWorkingCopyRevision inp)
          then Inl (Sentinel ErrVersionConflict)
        else case reviewConditionChanges (p_Spec p) (ch_BodyMarkdown c) (wc_BodyMarkdown w) (cw_ConditionChange inp) of
          Some e \<Rightarrow> Inl e
        | None \<Rightarrow>
            bindR (case cw_ConditionChange inp of None \<Rightarrow> Inr st | Some d \<Rightarrow> auditConditionDismissal ke a pid cid d st) (\<lambda>st0.
            let vid = ke_newID ke 1;
                nextChapter = markChapterUnconfirmed (c\<lparr>ch_CurrentVersionID := Some vid, ch_BodyMarkdown := wc_BodyMarkdown w,
                  ch_SourceIDs := wc_SourceIDs w, ch_CitationUsages := wc_CitationUsages w,
                  ch_ReviewItems := rebaseReviewItems (wc_BodyMarkdown w) (wc_BodyMarkdown w) (wc_ReviewItems w) (wc_WorkingCopyRevision w) (Some vid)\<rparr>);
                revision = wc_WorkingCopyRevision w + 1;
                nextCopy = w\<lparr>wc_BaseChapterVersionID := Some vid, wc_WorkingCopyRevision := revision, wc_SpecRevision := p_SpecRevision p,
                  wc_ReviewItems := rebaseReviewItems (wc_BodyMarkdown w) (wc_BodyMarkdown w) (wc_ReviewItems w) revision (Some vid),
                  wc_UpdatedAt := ke_now ke\<rparr>
            in bindR (UpdateProject (ke_store ke) (TenantID a) p (p\<lparr>p_ProjectVersion := p_ProjectVersion p + 1\<rparr>) st0) (\<lambda>st1.
               bindR (AppendChapter (ke_now ke) c nextChapter (p_SpecRevision p) st1) (\<lambda>st2.
               bindR (revalidate ke pid cid (wc_BodyMarkdown w) st2) (\<lambda>st3.
               bindR (store_SaveWorkingCopy w nextCopy st3) (\<lambda>st4.
                 answered (VCommitted \<lparr>co_ChapterVersionID = vid, co_ParentChapterVersionID = ch_CurrentVersionID c,
                     co_CommittedWorkingCopyRevision = wc_WorkingCopyRevision w, co_NextWorkingCopyRevision = revision, co_SpecRevision = p_SpecRevision p,
                     co_BodyMarkdown = wc_BodyMarkdown w, co_SourceIDs = wc_SourceIDs w, co_ReviewItems = wc_ReviewItems nextCopy\<rparr>)
                   OperationStatusCreated st4))))))))"

definition restore_write :: "('d, 'r) chapter_env \<Rightarrow> string \<Rightarrow> string \<Rightarrow> restore_input \<Rightarrow> ('d, 'r) chapter_write" where
  "restore_write ke pid cid inp p st =
     (if p_Status p \<noteq> ''active'' \<or> p_SpecRevision p \<noteq> rw_ExpectedSpecRevision inp then Inl (Sentinel ErrVersionConflict)
      else bindR (Chapter st pid cid) (\<lambda>c. bindR (WorkingCopy st pid cid) (\<lambda>w. bindR (ChapterVersion st pid cid (rw_ChapterVersionID inp)) (\<lambda>v.
        if \<not> copy_current c w (rw_ExpectedChapterVersionID inp) (rw_ExpectedSpecRevision inp) (rw_ExpectedWorkingCopyRevision inp)
          then Inl (Sentinel ErrVersionConflict)
        else let revision = wc_WorkingCopyRevision w + 1;
                 nxt = w\<lparr>wc_WorkingCopyRevision := revision, wc_SpecRevision := p_SpecRevision p, wc_BodyMarkdown := cv_BodyMarkdown v,
                   wc_SourceIDs := cv_SourceIDs v, wc_CitationUsages := cv_CitationUsages v,
                   wc_ReviewItems := rebaseReviewItems (cv_BodyMarkdown v) (cv_BodyMarkdown v) (cv_ReviewItems v) revision (wc_BaseChapterVersionID w),
                   wc_UpdatedAt := ke_now ke\<rparr>
             in bindR (store_SaveWorkingCopy w nxt st) (\<lambda>st'. answered (VCopy nxt) OperationStatusOK st')))))"

definition anchor_write :: "('d, 'r) chapter_env \<Rightarrow> string \<Rightarrow> string \<Rightarrow> string \<Rightarrow> anchor_input \<Rightarrow> ('d, 'r) chapter_write" where
  "anchor_write ke pid cid itemID inp p st =
     bindR (Chapter st pid cid) (\<lambda>c. bindR (WorkingCopy st pid cid) (\<lambda>prev.
       if p_Status p \<noteq> ''active'' \<or> p_SpecRevision p \<noteq> ai_ExpectedSpecRevision inp \<or>
          \<not> copy_current c prev (ai_ExpectedChapterVersionID inp) (ai_ExpectedSpecRevision inp) (ai_ExpectedWorkingCopyRevision inp)
         then Inl (Sentinel ErrVersionConflict)
       else if (case ai_Anchor inp of None \<Rightarrow> False | Some sel \<Rightarrow> \<not> Valid (wc_BodyMarkdown prev) sel) then Inl (Sentinel ErrInvalidRequest)
       else let revision = wc_WorkingCopyRevision prev + 1;
                kept = rebaseReviewItems (wc_BodyMarkdown prev) (wc_BodyMarkdown prev) (wc_ReviewItems prev) revision (wc_BaseChapterVersionID prev);
                nxt = prev\<lparr>wc_WorkingCopyRevision := revision, wc_UpdatedAt := ke_now ke,
                  wc_ReviewItems := attach itemID (ai_Anchor inp) revision (wc_BaseChapterVersionID prev) kept\<rparr>
            in if \<not> list_ex (\<lambda>i. ri_ID i = itemID) kept then Inl (Sentinel ErrNotFound)
               else bindR (store_SaveWorkingCopy prev nxt st) (\<lambda>st'. answered (VCopy nxt) OperationStatusOK st')))"

definition save_chapter_write :: "('d, 'r) chapter_env \<Rightarrow> actor \<Rightarrow> string \<Rightarrow> string \<Rightarrow> save_chapter_input \<Rightarrow> string list \<Rightarrow> citation_usage list \<Rightarrow> ('d, 'r) chapter_write" where
  "save_chapter_write ke a pid cid inp declared usages p st =
     (if p_Status p \<noteq> ''active'' then Inl (Sentinel ErrInvalidState)
      else if p_SpecRevision p \<noteq> sc_ExpectedSpecRevision inp then Inl (Sentinel ErrVersionConflict)
      else bindR (Chapter st pid cid) (\<lambda>old.
        if \<not> sameVersion (ch_CurrentVersionID old) (sc_ExpectedChapterVersionID inp) then Inl (Sentinel ErrVersionConflict)
        else let us = next_usages (sc_CitationUsages inp) usages (ch_CitationUsages old) declared in
          bindR (UpdateProject (ke_store ke) (TenantID a) p (p\<lparr>p_ProjectVersion := p_ProjectVersion p + 1\<rparr>) st) (\<lambda>st1.
          bindR (WorkingCopy st1 pid cid) (\<lambda>w.
            let vid = ke_newID ke 0; body = sc_BodyMarkdown inp; revision = wc_WorkingCopyRevision w + 1;
                items = rebaseReviewItems (ch_BodyMarkdown old) body (ch_ReviewItems old) revision (Some vid);
                nxt = (markChapterUnconfirmed (old\<lparr>ch_CurrentVersionID := Some vid, ch_BodyMarkdown := body, ch_SourceIDs := declared,
                  ch_CitationUsages := us\<rparr>))\<lparr>ch_ReviewItems := items\<rparr>;
                nextCopy = w\<lparr>wc_BaseChapterVersionID := Some vid, wc_SpecRevision := p_SpecRevision p, wc_WorkingCopyRevision := revision,
                  wc_BodyMarkdown := body, wc_SourceIDs := declared, wc_CitationUsages := us, wc_ReviewItems := items, wc_UpdatedAt := ke_now ke\<rparr>
            in bindR (AppendChapter (ke_now ke) old nxt (p_SpecRevision p) st1) (\<lambda>st2.
               bindR (revalidate ke pid cid body st2) (\<lambda>st3.
               bindR (store_SaveWorkingCopy w nextCopy st3) (\<lambda>st4. answered (VChapter nxt) OperationStatusCreated st4)))))))"

section \<open>The sources of a write\<close>

text \<open>
  The sources the pipeline checks before the write and compares in it: those of the request, of the stored answer
  when the request is a replay, or of the stored text the write is about.
\<close>

definition stored_sources :: "(string \<Rightarrow> goerr + 'v) \<Rightarrow> ('v \<Rightarrow> string list) \<Rightarrow> op_result \<Rightarrow> goerr + string list" where
  "stored_sources decode sources previous =
     (case decode (ResBody previous) of
        Inl e \<Rightarrow> (case MarkReplayPayloadDecodeError (Some e) of Some e' \<Rightarrow> Inl e' | None \<Rightarrow> Inl e)
      | Inr v \<Rightarrow> Inr (sources v))"

definition given_sources :: "string list \<Rightarrow> ('d, 'r) chapter_store \<Rightarrow> op_result \<Rightarrow> bool \<Rightarrow> goerr + string list" where
  "given_sources ids t previous found = Inr ids"

definition applyRewriteSourceIDs :: "('d, 'r) chapter_env \<Rightarrow> string list \<Rightarrow> ('d, 'r) chapter_store \<Rightarrow> op_result \<Rightarrow> bool \<Rightarrow> goerr + string list" where
  "applyRewriteSourceIDs ke ids t previous found = (if found then stored_sources (ke_decodeCopy ke) wc_SourceIDs previous else Inr ids)"

definition commitWorkingCopySourceIDs :: "('d, 'r) chapter_env \<Rightarrow> string \<Rightarrow> string \<Rightarrow> ('d, 'r) chapter_store \<Rightarrow> op_result \<Rightarrow> bool \<Rightarrow> goerr + string list" where
  "commitWorkingCopySourceIDs ke pid cid t previous found =
     (if found then stored_sources (ke_decodeCommitted ke) co_SourceIDs previous
      else bindR (WorkingCopy t pid cid) (\<lambda>w. Inr (wc_SourceIDs w)))"

definition restoreWorkingCopySourceIDs :: "('d, 'r) chapter_env \<Rightarrow> string \<Rightarrow> string \<Rightarrow> string \<Rightarrow> ('d, 'r) chapter_store \<Rightarrow> op_result \<Rightarrow> bool \<Rightarrow> goerr + string list" where
  "restoreWorkingCopySourceIDs ke pid cid vid t previous found =
     (if found then stored_sources (ke_decodeCopy ke) wc_SourceIDs previous
      else bindR (ChapterVersion t pid cid vid) (\<lambda>v. Inr (cv_SourceIDs v)))"

definition reviewAnchorSourceIDs :: "('d, 'r) chapter_env \<Rightarrow> string \<Rightarrow> string \<Rightarrow> ('d, 'r) chapter_store \<Rightarrow> op_result \<Rightarrow> bool \<Rightarrow> goerr + string list" where
  "reviewAnchorSourceIDs ke pid rest t previous found =
     (if found then stored_sources (ke_decodeCopy ke) wc_SourceIDs previous
      else bindR (WorkingCopy t pid (takeWhile (\<lambda>c. c \<noteq> CHR ''/'') rest)) (\<lambda>w. Inr (wc_SourceIDs w)))"

section \<open>Handlers\<close>

definition sourceOperationInput :: "string \<Rightarrow> string \<Rightarrow> string \<Rightarrow> cbody \<Rightarrow> auth_request \<Rightarrow> (('d, 'r) chapter_store \<Rightarrow> op_result \<Rightarrow> bool \<Rightarrow> goerr + string list) \<Rightarrow> (('d, 'r) chapter_store, 'd, cbody) operation_spec" where
  "sourceOperationInput name target key body request sourceIDs =
     \<lparr>sp_Name = name, sp_Target = target, sp_Key = key, sp_Body = body, sp_Request = request, sp_Output = operationOutputFor name,
      sp_CheckProject = None, sp_SourceIDs = Some sourceIDs\<rparr>"

definition write_request :: "actor \<Rightarrow> string \<Rightarrow> string \<Rightarrow> auth_request" where
  "write_request a pid cid = authorizationRequest a pid ''write'' cid"

definition SaveWorkingCopy :: "('d, 'r, 'x) chapter_ws \<Rightarrow> ('d, 'r) chapter_env \<Rightarrow> 'x gocontext \<Rightarrow> actor \<Rightarrow> string \<Rightarrow> string \<Rightarrow> string \<Rightarrow> save_copy_input \<Rightarrow> int \<Rightarrow> int \<Rightarrow> ('d, 'r) chapter_store \<Rightarrow> ('d, 'r chapter_tables) answer" where
  "SaveWorkingCopy env ke ctx a pid cid key inp el el' s =
     (if sw_ExpectedSpecRevision inp < 0 \<or> sw_ExpectedWorkingCopyRevision inp < 1 then refuse (Sentinel ErrInvalidRequest) s
      else case validateWorkingCopyBody (sw_BodyMarkdown inp) (sw_SourceIDs inp) of
        Inl e \<Rightarrow> refuse e s
      | Inr declared \<Rightarrow>
          (case normalizeCitationUsages (sw_CitationUsages inp) declared of
             Inl e \<Rightarrow> refuse e s
           | Inr usages \<Rightarrow>
               let inp' = inp\<lparr>sw_SourceIDs := Some declared\<rparr> in
               runOperationCore env ctx a
                 (sourceOperationInput ''saveWorkingCopy'' (pid @ ''/'' @ cid) key (BSaveCopy inp') (write_request a pid cid) (given_sources declared))
                 (save_copy_write ke pid cid inp' declared usages) el el' s))"

definition ApplyRewrite :: "('d, 'r, 'x) chapter_ws \<Rightarrow> ('d, 'r) chapter_env \<Rightarrow> 'x gocontext \<Rightarrow> actor \<Rightarrow> string \<Rightarrow> string \<Rightarrow> string \<Rightarrow> save_copy_input \<Rightarrow> review_item list \<Rightarrow> int \<Rightarrow> int \<Rightarrow> ('d, 'r) chapter_store \<Rightarrow> ('d, 'r chapter_tables) answer" where
  "ApplyRewrite env ke ctx a pid cid key inp items el el' s =
     (if sw_ExpectedSpecRevision inp < 0 \<or> sw_ExpectedWorkingCopyRevision inp < 1 then refuse (Sentinel ErrInvalidRequest) s
      else case validateWorkingCopyBody (sw_BodyMarkdown inp) (sw_SourceIDs inp) of
        Inl e \<Rightarrow> refuse e s
      | Inr declared \<Rightarrow>
          (case normalizeCitationUsages (sw_CitationUsages inp) declared of
             Inl e \<Rightarrow> refuse e s
           | Inr usages \<Rightarrow>
               let inp' = inp\<lparr>sw_SourceIDs := Some declared\<rparr> in
               if list_ex (\<lambda>i. trim_space (ri_ID i) = [] \<or> trim_space (ri_Statement i) = [] \<or> trim_space (ri_OriginCandidateID i) = []) items
                 then refuse (Sentinel ErrInvalidRequest) s
               else runOperationCore env ctx a
                 (sourceOperationInput ''applySelectedRewrite'' (pid @ ''/'' @ cid) key (BRewrite \<lparr>ar_WorkingCopy = inp', ar_ReviewItems = items\<rparr>)
                    (write_request a pid cid) (applyRewriteSourceIDs ke declared))
                 (rewrite_write ke pid cid inp' declared usages items) el el' s))"

definition CommitWorkingCopy :: "('d, 'r, 'x) chapter_ws \<Rightarrow> ('d, 'r) chapter_env \<Rightarrow> 'x gocontext \<Rightarrow> actor \<Rightarrow> string \<Rightarrow> string \<Rightarrow> string \<Rightarrow> commit_input \<Rightarrow> int \<Rightarrow> int \<Rightarrow> ('d, 'r) chapter_store \<Rightarrow> ('d, 'r chapter_tables) answer" where
  "CommitWorkingCopy env ke ctx a pid cid key inp el el' s =
     (if cw_ExpectedSpecRevision inp < 0 \<or> cw_ExpectedWorkingCopyRevision inp < 1 then refuse (Sentinel ErrInvalidRequest) s
      else runOperationCore env ctx a
        (sourceOperationInput ''commitWorkingCopy'' (pid @ ''/'' @ cid) key (BCommit inp) (write_request a pid cid) (commitWorkingCopySourceIDs ke pid cid))
        (commit_write ke a pid cid inp) el el' s)"

definition RestoreWorkingCopy :: "('d, 'r, 'x) chapter_ws \<Rightarrow> ('d, 'r) chapter_env \<Rightarrow> 'x gocontext \<Rightarrow> actor \<Rightarrow> string \<Rightarrow> string \<Rightarrow> string \<Rightarrow> restore_input \<Rightarrow> int \<Rightarrow> int \<Rightarrow> ('d, 'r) chapter_store \<Rightarrow> ('d, 'r chapter_tables) answer" where
  "RestoreWorkingCopy env ke ctx a pid cid key inp el el' s =
     (if trim_space (rw_ChapterVersionID inp) = [] \<or> rw_ExpectedSpecRevision inp < 0 \<or> rw_ExpectedWorkingCopyRevision inp < 1
        then refuse (Sentinel ErrInvalidRequest) s
      else runOperationCore env ctx a
        (sourceOperationInput ''restoreWorkingCopy'' (pid @ ''/'' @ cid) key (BRestore inp) (write_request a pid cid)
           (restoreWorkingCopySourceIDs ke pid cid (rw_ChapterVersionID inp)))
        (restore_write ke pid cid inp) el el' s)"

definition SetReviewAnchor :: "('d, 'r, 'x) chapter_ws \<Rightarrow> ('d, 'r) chapter_env \<Rightarrow> 'x gocontext \<Rightarrow> actor \<Rightarrow> string \<Rightarrow> string \<Rightarrow> string \<Rightarrow> string \<Rightarrow> anchor_input \<Rightarrow> int \<Rightarrow> int \<Rightarrow> ('d, 'r) chapter_store \<Rightarrow> ('d, 'r chapter_tables) answer" where
  "SetReviewAnchor env ke ctx a pid cid itemID key inp el el' s =
     (if itemID = [] \<or> ai_ExpectedSpecRevision inp < 0 \<or> ai_ExpectedWorkingCopyRevision inp < 1 then refuse (Sentinel ErrInvalidRequest) s
      else runOperationCore env ctx a
        (sourceOperationInput ''setReviewAnchor'' (pid @ ''/'' @ cid @ ''/'' @ itemID) key (BAnchor inp) (write_request a pid cid)
           (reviewAnchorSourceIDs ke pid (cid @ ''/'' @ itemID)))
        (anchor_write ke pid cid itemID inp) el el' s)"

definition SaveChapter :: "('d, 'r, 'x) chapter_ws \<Rightarrow> ('d, 'r) chapter_env \<Rightarrow> 'x gocontext \<Rightarrow> actor \<Rightarrow> string \<Rightarrow> string \<Rightarrow> string \<Rightarrow> save_chapter_input \<Rightarrow> int \<Rightarrow> int \<Rightarrow> ('d, 'r) chapter_store \<Rightarrow> ('d, 'r chapter_tables) answer" where
  "SaveChapter env ke ctx a pid cid key inp el el' s =
     (if sc_ExpectedSpecRevision inp < 0 then refuse (Sentinel ErrInvalidRequest) s
      else case validateWorkingCopyBody (sc_BodyMarkdown inp) (sc_SourceIDs inp) of
        Inl e \<Rightarrow> refuse e s
      | Inr declared \<Rightarrow>
          (case normalizeCitationUsages (sc_CitationUsages inp) declared of
             Inl e \<Rightarrow> refuse e s
           | Inr usages \<Rightarrow>
               runOperationCore env ctx a
                 (sourceOperationInput ''saveChapter'' (pid @ ''/'' @ cid) key (BSaveChapter inp) (write_request a pid cid)
                    (given_sources (case sc_SourceIDs inp of Some ids \<Rightarrow> ids | None \<Rightarrow> [])))
                 (save_chapter_write ke a pid cid inp declared usages) el el' s))"

definition adaptMutationResult :: "(string \<Rightarrow> goerr + 'v) \<Rightarrow> ('d, 'q) answer \<Rightarrow> ('d, 'q) store \<times> (goerr + 'v) \<times> bool" where
  "adaptMutationResult decode ans =
     (case ans of (s', Inl e, replayed) \<Rightarrow> (s', Inl e, replayed) | (s', Inr (raw, _), replayed) \<Rightarrow> (s', decode raw, replayed))"

section \<open>Reading a working copy\<close>

text \<open>
  A draft behind its project is carried over: onto a new base only when it still is the text of its old base,
  onto a new specification as it is.  \<^verbatim>\<open>Inr None\<close> is a draft that needs nothing.
\<close>

definition recovery_of :: "('d, 'r) chapter_env \<Rightarrow> string \<Rightarrow> string \<Rightarrow> 'd project \<Rightarrow> chapter_data \<Rightarrow> working_copy \<Rightarrow> ('d, 'r) chapter_store \<Rightarrow> goerr + working_copy option" where
  "recovery_of ke pid cid p c result st =
     (let baseChanged = (\<not> sameVersion (ch_CurrentVersionID c) (wc_BaseChapterVersionID result)) in
      if wc_SpecRevision result > p_SpecRevision p then Inl (Sentinel ErrVersionConflict)
      else if \<not> baseChanged \<and> wc_SpecRevision result = p_SpecRevision p then Inr None
      else bindR (if baseChanged then
                    bindR (case wc_BaseChapterVersionID result of
                             None \<Rightarrow> Inr ([], [], [], [])
                           | Some vid \<Rightarrow> bindR (ChapterVersion st pid cid vid) (\<lambda>v. Inr (cv_BodyMarkdown v, cv_SourceIDs v, cv_ReviewItems v, cv_CitationUsages v)))
                      (\<lambda>(body, sources, items, usages).
                        if wc_BodyMarkdown result \<noteq> body \<or> wc_SourceIDs result \<noteq> sources \<or>
                           \<not> list_all2 reviewItemsEqual (wc_ReviewItems result) items \<or> wc_CitationUsages result \<noteq> usages
                        then Inl (Sentinel ErrVersionConflict)
                        else Inr (result\<lparr>wc_BaseChapterVersionID := ch_CurrentVersionID c, wc_BodyMarkdown := ch_BodyMarkdown c,
                          wc_SourceIDs := ch_SourceIDs c, wc_CitationUsages := ch_CitationUsages c, wc_ReviewItems := ch_ReviewItems c\<rparr>))
                  else Inr result) (\<lambda>nxt.
           let revision = wc_WorkingCopyRevision nxt + 1 in
           Inr (Some (nxt\<lparr>wc_SpecRevision := p_SpecRevision p, wc_WorkingCopyRevision := revision,
             wc_ReviewItems := rebaseReviewItems (wc_BodyMarkdown nxt) (wc_BodyMarkdown nxt) (wc_ReviewItems nxt) revision (wc_BaseChapterVersionID nxt),
             wc_UpdatedAt := ke_now ke\<rparr>))))"

definition read_request :: "actor \<Rightarrow> string \<Rightarrow> auth_request" where
  "read_request a pid = authorizationRequest a pid ''read'' []"

definition copy_read :: "('d, 'r, 'x) chapter_ws \<Rightarrow> ('d, 'r) chapter_env \<Rightarrow> 'x gocontext \<Rightarrow> actor \<Rightarrow> string \<Rightarrow> string \<Rightarrow> ('d, 'r) chapter_store \<Rightarrow> goerr + working_copy \<times> working_copy option" where
  "copy_read env ke ctx a pid cid t =
     bindR (authorizeProject (we_policy env) ctx (we_view env t) (read_request a pid)) (\<lambda>p.
     bindR (Chapter t pid cid) (\<lambda>c. bindR (WorkingCopy t pid cid) (\<lambda>w.
     bindR (recovery_of ke pid cid p c w t) (\<lambda>r. Inr (w, r)))))"

definition copy_recover :: "('d, 'r, 'x) chapter_ws \<Rightarrow> ('d, 'r) chapter_env \<Rightarrow> 'x gocontext \<Rightarrow> actor \<Rightarrow> string \<Rightarrow> string \<Rightarrow> working_copy \<Rightarrow> working_copy \<Rightarrow> ('d, 'r) chapter_store \<Rightarrow> goerr + ('d, 'r) chapter_store" where
  "copy_recover env ke ctx a pid cid result recovery t =
     bindR (authorizeProject (we_policy env) ctx (we_view env t) (read_request a pid)) (\<lambda>p.
     bindR (Chapter t pid cid) (\<lambda>c.
       if p_SpecRevision p \<noteq> wc_SpecRevision recovery \<or> \<not> sameVersion (ch_CurrentVersionID c) (wc_BaseChapterVersionID recovery)
       then Inl (Sentinel ErrVersionConflict) else store_SaveWorkingCopy result recovery t))"

definition read_write :: tx_options where
  "read_write = \<lparr>ReadOnly = False, RetryLocks = False, RepeatableRead = False\<rparr>"

definition write_tx :: "('s, 'd, 'b, 'v, 'x) ws_env \<Rightarrow> tx_options \<Rightarrow> ('s \<Rightarrow> goerr + 's) \<Rightarrow> 's \<Rightarrow> 's \<times> goerr option" where
  "write_tx env options body s = (case gorm_Transaction (we_ctxErr env) (we_sched env) options (\<lambda>k t. (k, body t)) () s of (_, s', e) \<Rightarrow> (s', e))"

definition GetWorkingCopy :: "('d, 'r, 'x) chapter_ws \<Rightarrow> ('d, 'r) chapter_env \<Rightarrow> 'x source_policy \<Rightarrow> 'x gocontext \<Rightarrow> actor \<Rightarrow> string \<Rightarrow> string \<Rightarrow> working_copy \<Rightarrow> ('d, 'r) chapter_store \<Rightarrow> ('d, 'r) chapter_store \<times> (goerr + working_copy)" where
  "GetWorkingCopy env ke policy ctx a pid cid zero s =
     (let checked = (\<lambda>w s'. case checkSources policy ctx a pid (wc_SourceIDs w) of Some e \<Rightarrow> (s', Inl e) | None \<Rightarrow> (s', Inr w)) in
      case read_tx env read_only (zero, None) (copy_read env ke ctx a pid cid) s of
        (s1, Inl e) \<Rightarrow> (s1, Inl e)
      | (s1, Inr (result, None)) \<Rightarrow> checked result s1
      | (s1, Inr (result, Some recovery)) \<Rightarrow>
          (case checkSources policy ctx a pid (wc_SourceIDs recovery) of
             Some e \<Rightarrow> (s1, Inl e)
           | None \<Rightarrow>
               (case write_tx env read_write (copy_recover env ke ctx a pid cid result recovery) s1 of
                  (s2, Some e) \<Rightarrow> (s2, Inl e)
                | (s2, None) \<Rightarrow> checked recovery s2)))"

definition ListChapterVersions :: "('d, 'r, 'x) chapter_ws \<Rightarrow> ('d, 'r) chapter_env \<Rightarrow> 'x source_policy \<Rightarrow> 'x gocontext \<Rightarrow> actor \<Rightarrow> string \<Rightarrow> string \<Rightarrow> ('d, 'r) chapter_store \<Rightarrow> ('d, 'r) chapter_store \<times> (goerr + chapter_version list)" where
  "ListChapterVersions env ke policy ctx a pid cid s =
     (case read_tx env read_only [] (\<lambda>t. bindR (authorizeProject (we_policy env) ctx (we_view env t) (read_request a pid)) (\<lambda>_.
                  bindR (Chapter t pid cid) (\<lambda>_. Inr (ChapterVersions t pid cid)))) s of
        (s1, Inl e) \<Rightarrow> (s1, Inl e)
      | (s1, Inr vs) \<Rightarrow> (case checkSources policy ctx a pid (concat (map cv_SourceIDs vs)) of Some e \<Rightarrow> (s1, Inl e) | None \<Rightarrow> (s1, Inr vs)))"

end
