(* ===== verification/Chapter_Invariant.thy ===== *)
theory Chapter_Invariant
  imports Working_Copy
begin

text \<open>
  What the chapter tables keep: every stored text carries exactly the markers its sources declare and only anchors
  that hold in it, the versions of a chapter are one chain that ends in the current version, and every draft
  stands on a version of its chapter.
\<close>

section \<open>The invariant\<close>

definition anchor_ok :: "string \<Rightarrow> review_item \<Rightarrow> bool" where
  "anchor_ok body i = (case ri_Anchor i of None \<Rightarrow> True
     | Some an \<Rightarrow> an_Status an = ''stale'' \<or> an_Status an = ''located'' \<and> Valid body (anchor_selection an))"

definition text_ok :: "string \<Rightarrow> string list \<Rightarrow> citation_usage list \<Rightarrow> review_item list \<Rightarrow> bool" where
  "text_ok body sources usages items \<longleftrightarrow> ValidString body \<and> length body \<le> 200000 \<and> Validate_markers body = Inr () \<and>
     sources = remdups_adj (sort (IDs body)) \<and> distinct (map cu_SourceID usages) \<and> cu_SourceID ` set usages = set sources \<and>
     distinct (map ri_ID items) \<and> list_all (anchor_ok body) items"

fun linked :: "string option \<Rightarrow> chapter_version list \<Rightarrow> string option \<Rightarrow> bool" where
  "linked parent [] current \<longleftrightarrow> current = parent"
| "linked parent (v # vs) current \<longleftrightarrow> cv_ParentVersionID v = parent \<and> linked (Some (cv_ID v)) vs current"

definition versions_of :: "'r chapter_tables \<Rightarrow> string \<Rightarrow> string \<Rightarrow> chapter_version list" where
  "versions_of q pid cid = filter (\<lambda>v. cv_ProjectID v = pid \<and> cv_ChapterID v = cid) (ct_versions q)"

definition copy_ok :: "'r chapter_tables \<Rightarrow> working_copy \<Rightarrow> bool" where
  "copy_ok q w \<longleftrightarrow> text_ok (wc_BodyMarkdown w) (wc_SourceIDs w) (wc_CitationUsages w) (wc_ReviewItems w) \<and> 1 \<le> wc_WorkingCopyRevision w \<and>
     set_option (wc_BaseChapterVersionID w) \<subseteq> cv_ID ` set (versions_of q (wc_ProjectID w) (wc_ChapterID w))"

definition chapters_ok :: "'r chapter_tables \<Rightarrow> bool" where
  "chapters_ok q \<longleftrightarrow> distinct (map cr_ID (ct_chapters q)) \<and> distinct (map cv_ID (ct_versions q)) \<and> distinct (map copy_key (ct_copies q)) \<and>
     cv_ChapterID ` set (ct_versions q) \<subseteq> cr_ID ` set (ct_chapters q) \<and>
     list_all (\<lambda>v. text_ok (cv_BodyMarkdown v) (cv_SourceIDs v) (cv_CitationUsages v) (cv_ReviewItems v)) (ct_versions q) \<and>
     list_all (copy_ok q) (ct_copies q) \<and>
     list_all (\<lambda>r. linked None (versions_of q (cr_ProjectID r) (cr_ID r)) (cr_CurrentVersionID r)) (ct_chapters q)"

lemma chapters_okD:
  assumes "chapters_ok q"
  shows "distinct (map cr_ID (ct_chapters q))" "distinct (map cv_ID (ct_versions q))" "distinct (map copy_key (ct_copies q))"
    "cv_ChapterID ` set (ct_versions q) \<subseteq> cr_ID ` set (ct_chapters q)"
    "v \<in> set (ct_versions q) \<Longrightarrow> text_ok (cv_BodyMarkdown v) (cv_SourceIDs v) (cv_CitationUsages v) (cv_ReviewItems v)"
    "w \<in> set (ct_copies q) \<Longrightarrow> copy_ok q w"
    "r \<in> set (ct_chapters q) \<Longrightarrow> linked None (versions_of q (cr_ProjectID r) (cr_ID r)) (cr_CurrentVersionID r)"
  using assms by (simp_all add: chapters_ok_def list_all_iff)

section \<open>Texts\<close>

lemma text_ok_empty: "text_ok [] [] [] []"
  by (simp add: text_ok_def ValidString_def runes.simps Validate_markers_def IDs_def)

lemma Rebase_Some: "\<exists>a. Rebase oldBody body (Some old) revision version = Some a"
  by (cases "index_of body (an_QuoteMarkdown old)") (simp_all add: Rebase_def Let_def)

lemma anchor_ok_rebased:
  assumes "ValidString body"
  shows "anchor_ok body (i\<lparr>ri_Anchor := Rebase oldBody body (ri_Anchor i) revision version\<rparr>)"
proof (cases "ri_Anchor i")
  case None
  then show ?thesis by (simp add: anchor_ok_def Rebase_def)
next
  case (Some old)
  obtain a where a: "Rebase oldBody body (Some old) revision version = Some a" using Rebase_Some by blast
  then show ?thesis using rebase_exact [OF assms a] Some by (auto simp: anchor_ok_def)
qed

lemma rebased_ids [simp]: "map ri_ID (rebaseReviewItems oldBody body items revision version) = map ri_ID items"
  by (simp add: rebaseReviewItems_def comp_def)

lemma rebased_anchors: "ValidString body \<Longrightarrow> list_all (anchor_ok body) (rebaseReviewItems oldBody body items revision version)"
  by (auto simp: rebaseReviewItems_def list_all_iff anchor_ok_rebased)

lemma text_ok_rebased:
  "text_ok body sources usages items \<Longrightarrow> text_ok body sources usages (rebaseReviewItems oldBody body items revision version)"
  by (simp add: text_ok_def rebased_anchors)

lemma distinct_remdups_sorted: "sorted xs \<Longrightarrow> distinct (remdups_adj xs)"
  by (induction xs rule: remdups_adj.induct) (auto simp: less_le)

lemma validate_body_ok:
  assumes "validateWorkingCopyBody body ids = Inr declared"
  shows "length body \<le> 200000" "Validate_markers body = Inr ()" "declared = remdups_adj (sort (IDs body))" "distinct declared"
proof -
  have d: "declared = remdups_adj (sort (IDs body))" and "length body \<le> 200000" "Validate_markers body = Inr ()"
    using assms by (auto simp: validateWorkingCopyBody_def Let_def split: option.splits if_splits sum.splits)
  then show "length body \<le> 200000" "Validate_markers body = Inr ()" "declared = remdups_adj (sort (IDs body))" by simp_all
  show "distinct declared" unfolding d by (rule distinct_remdups_sorted) simp
qed

lemma complete_usages:
  assumes "distinct (map cu_SourceID us)" "cu_SourceID ` set us \<subseteq> set ids" "distinct ids"
  shows "distinct (map cu_SourceID (completeCitationUsages us ids))" "cu_SourceID ` set (completeCitationUsages us ids) = set ids"
proof -
  show "distinct (map cu_SourceID (completeCitationUsages us ids))" using assms by (auto simp: completeCitationUsages_def comp_def)
  have "cu_SourceID ` set (completeCitationUsages us ids) = cu_SourceID ` set us \<union> {i \<in> set ids. i \<notin> cu_SourceID ` set us}"
    by (simp add: completeCitationUsages_def image_Un image_image)
  then show "cu_SourceID ` set (completeCitationUsages us ids) = set ids" using assms(2) by auto
qed

lemma normalized_usages:
  "normalize_usages allowed seen vs = Inr us \<Longrightarrow> distinct (map cu_SourceID us) \<and> cu_SourceID ` set us \<subseteq> set allowed \<and> cu_SourceID ` set us \<inter> set seen = {}"
proof (induction allowed seen vs arbitrary: us rule: normalize_usages.induct)
  case (2 allowed seen v vs)
  then show ?case by (fastforce simp: Let_def split: if_splits)
qed simp

lemma next_usages_ok:
  assumes n: "normalizeCitationUsages given declared = Inr usages" and "distinct declared" "distinct (map cu_SourceID previous)"
  shows "distinct (map cu_SourceID (next_usages given usages previous declared))" "cu_SourceID ` set (next_usages given usages previous declared) = set declared"
proof -
  let ?us = "next_usages given usages previous declared"
  have "distinct (map cu_SourceID ?us) \<and> cu_SourceID ` set ?us = set declared"
  proof (cases given)
    case None
    have "distinct (map cu_SourceID (filter (\<lambda>u. cu_SourceID u \<in> set declared) previous))" using assms(3) by (rule distinct_map_filter)
    then show ?thesis using complete_usages [of "filter (\<lambda>u. cu_SourceID u \<in> set declared) previous" declared] assms(2) None by (auto simp: next_usages_def)
  next
    case (Some vs)
    then obtain us where us: "normalize_usages declared [] vs = Inr us" and u: "usages = sort_key cu_SourceID (completeCitationUsages us declared)"
      using n by (auto simp: normalizeCitationUsages_def)
    have "distinct (map cu_SourceID usages) = distinct (map cu_SourceID (completeCitationUsages us declared))" unfolding u by (rule distinct_map_perm) simp
    then show ?thesis using complete_usages [of us declared] normalized_usages [OF us] assms(2) u Some by (simp add: next_usages_def)
  qed
  then show "distinct (map cu_SourceID ?us)" "cu_SourceID ` set ?us = set declared" by simp_all
qed

lemma rewritten_items:
  assumes "rewrite_items body revision version seen items = Inr added"
  shows "map ri_ID added = map ri_ID items \<and> distinct (map ri_ID items) \<and> ri_ID ` set items \<inter> set seen = {} \<and> list_all (anchor_ok body) added"
  using assms
proof (induction body revision version seen items arbitrary: added rule: rewrite_items.induct)
  case (2 body revision version seen i "is")
  from "2.prems" have new: "ri_ID i \<notin> set seen" by (auto split: if_splits)
  with "2.prems" obtain j js where j: "(case ri_Anchor i of None \<Rightarrow> Inr i | Some an \<Rightarrow> if \<not> Valid body (anchor_selection an) then Inl (Sentinel ErrInvalidRequest)
      else Inr (i\<lparr>ri_Anchor := Some (New (anchor_selection an) revision version)\<rparr>)) = Inr j"
    and js: "rewrite_items body revision version (ri_ID i # seen) is = Inr js" and added: "added = j # js" by auto
  from j have "ri_ID j = ri_ID i" "anchor_ok body j" by (auto simp: anchor_ok_def New_def anchor_selection_def split: option.splits if_splits)
  then show ?case using "2.IH" [OF new js] new added by auto
qed simp

section \<open>Statements\<close>

lemma one_key:
  assumes "distinct (map f xs)" "length (filter P xs) = 1" "\<And>x. P x \<Longrightarrow> f x = k"
  obtains x where "x \<in> set xs" "P x" "\<And>y. y \<in> set xs \<Longrightarrow> P y \<longleftrightarrow> f y = k"
proof -
  have "filter P xs \<noteq> []" using assms(2) by auto
  then obtain x where x: "x \<in> set xs" "P x" by (auto simp: filter_empty_conv)
  have "P y \<longleftrightarrow> f y = k" if "y \<in> set xs" for y
    using assms(1,3) x that by (metis distinct_map inj_onD)
  then show thesis using x that by blast
qed

definition put_copy :: "working_copy \<Rightarrow> working_copy list \<Rightarrow> working_copy list" where
  "put_copy nxt tab = map (\<lambda>w. if copy_key w = copy_key nxt then nxt else w) tab"

lemma put_copy_keys [simp]: "map copy_key (put_copy nxt tab) = map copy_key tab"
  by (simp add: put_copy_def)

lemma SaveWorkingCopy_ok:
  assumes ok: "distinct (map copy_key (ct_copies (st_rest st)))" and key: "copy_key nxt = copy_key prev" and save: "store_SaveWorkingCopy prev nxt st = Inr st'"
  obtains w where "w \<in> set (ct_copies (st_rest st))" "copy_key w = copy_key nxt" "wc_WorkingCopyRevision w = wc_WorkingCopyRevision prev"
    "wc_BaseChapterVersionID w = wc_BaseChapterVersionID prev" "wc_SpecRevision w = wc_SpecRevision prev"
    "st' = set_chapters (ct_copies_update (put_copy nxt)) st"
proof -
  let ?sel = "\<lambda>w. wc_ProjectID w = wc_ProjectID prev \<and> wc_ChapterID w = wc_ChapterID prev \<and> wc_SpecRevision w = wc_SpecRevision prev \<and>
    wc_WorkingCopyRevision w = wc_WorkingCopyRevision prev \<and> wc_BaseChapterVersionID w = wc_BaseChapterVersionID prev"
  let ?upd = "\<lambda>w. w\<lparr>wc_BaseChapterVersionID := wc_BaseChapterVersionID nxt, wc_SpecRevision := wc_SpecRevision nxt,
    wc_WorkingCopyRevision := wc_WorkingCopyRevision nxt, wc_BodyMarkdown := wc_BodyMarkdown nxt, wc_SourceIDs := wc_SourceIDs nxt,
    wc_CitationUsages := wc_CitationUsages nxt, wc_ReviewItems := wc_ReviewItems nxt, wc_UpdatedAt := wc_UpdatedAt nxt\<rparr>"
  have one: "length (filter ?sel (ct_copies (st_rest st))) = 1"
    and st': "st' = set_chapters (ct_copies_update (\<lambda>_. map (\<lambda>w. if ?sel w then ?upd w else w) (ct_copies (st_rest st)))) st"
    using save by (auto simp: store_SaveWorkingCopy_def affected_ok)
  obtain w where w: "w \<in> set (ct_copies (st_rest st))" "?sel w" and sel: "\<And>y. y \<in> set (ct_copies (st_rest st)) \<Longrightarrow> ?sel y \<longleftrightarrow> copy_key y = copy_key prev"
    by (rule one_key [OF ok one, of "copy_key prev"]) (auto simp: copy_key_def)
  have upd: "?upd y = nxt" if "copy_key y = copy_key prev" for y
    using that key by (cases y, cases nxt) (auto simp: copy_key_def)
  have "map (\<lambda>w. if ?sel w then ?upd w else w) (ct_copies (st_rest st)) = put_copy nxt (ct_copies (st_rest st))"
    unfolding put_copy_def by (rule map_cong [OF refl]) (use sel upd key in auto)
  then have "st' = set_chapters (ct_copies_update (put_copy nxt)) st" using st' by (simp add: set_chapters_def)
  then show thesis using that w key by (auto simp: copy_key_def)
qed

lemma WorkingCopy_ok: "WorkingCopy st pid cid = Inr w \<Longrightarrow> w \<in> set (ct_copies (st_rest st)) \<and> copy_key w = (pid, cid)"
  by (auto simp: WorkingCopy_def storageError_ok copy_key_def dest: find_Some_in)

lemma WorkingCopy_iff:
  assumes "distinct (map copy_key (ct_copies (st_rest st)))"
  shows "WorkingCopy st pid cid = Inr w \<longleftrightarrow> w \<in> set (ct_copies (st_rest st)) \<and> copy_key w = (pid, cid)"
proof
  assume w: "w \<in> set (ct_copies (st_rest st)) \<and> copy_key w = (pid, cid)"
  let ?f = "find (\<lambda>w. wc_ProjectID w = pid \<and> wc_ChapterID w = cid) (ct_copies (st_rest st))"
  obtain w' where f: "?f = Some w'" using w find_None_iff' [of "\<lambda>w. wc_ProjectID w = pid \<and> wc_ChapterID w = cid" "ct_copies (st_rest st)"]
    by (cases ?f) (auto simp: copy_key_def)
  then have "w' \<in> set (ct_copies (st_rest st))" "copy_key w' = (pid, cid)" by (auto simp: copy_key_def dest: find_Some_in)
  then have "w' = w" using w assms by (metis distinct_map inj_onD)
  then show "WorkingCopy st pid cid = Inr w" using f by (simp add: WorkingCopy_def storageError_ok)
qed (rule WorkingCopy_ok)

lemma Chapter_ok:
  assumes "Chapter st pid cid = Inr c"
  obtains row where "row \<in> set (ct_chapters (st_rest st))" "cr_ID row = cid" "cr_ProjectID row = pid" "ch_ID c = cid" "ch_ProjectID c = pid"
    "ch_CurrentVersionID c = cr_CurrentVersionID row"
    "ch_CurrentVersionID c = None \<Longrightarrow> ch_BodyMarkdown c = [] \<and> ch_SourceIDs c = [] \<and> ch_CitationUsages c = [] \<and> ch_ReviewItems c = []"
    "\<And>vid. ch_CurrentVersionID c = Some vid \<Longrightarrow> \<exists>v \<in> set (versions_of (st_rest st) pid cid). cv_ID v = vid \<and> ch_BodyMarkdown c = cv_BodyMarkdown v \<and>
       ch_SourceIDs c = cv_SourceIDs v \<and> ch_CitationUsages c = cv_CitationUsages v \<and> ch_ReviewItems c = cv_ReviewItems v"
proof -
  from assms obtain row project where row: "find (\<lambda>r. cr_ID r = cid \<and> cr_ProjectID r = pid) (ct_chapters (st_rest st)) = Some row"
    and view: "chapterView (st_rest st) row project = Inr c" by (auto simp: Chapter_def storageError_ok)
  from row have r: "row \<in> set (ct_chapters (st_rest st))" "cr_ID row = cid" "cr_ProjectID row = pid" by (auto dest: find_Some_in)
  show thesis
  proof (cases "cr_CurrentVersionID row")
    case None
    then show thesis using that [OF r] view r by (auto simp: chapterView_def Let_def)
  next
    case (Some vid)
    then obtain v ok where f: "find (\<lambda>v. cv_ID v = vid \<and> cv_ProjectID v = cr_ProjectID row \<and> cv_ChapterID v = cr_ID row) (ct_versions (st_rest st)) = Some v"
      and c: "ch_ID c = cr_ID row" "ch_ProjectID c = cr_ProjectID row" "ch_CurrentVersionID c = Some vid" "ch_BodyMarkdown c = cv_BodyMarkdown v" "ch_SourceIDs c = cv_SourceIDs v"
        "ch_CitationUsages c = cv_CitationUsages v" "ch_ReviewItems c = cv_ReviewItems v"
      using view by (auto simp: chapterView_def Let_def split: option.splits)
    have "v \<in> set (versions_of (st_rest st) pid cid)" "cv_ID v = vid" using f r by (auto simp: versions_of_def dest: find_Some_in)
    then show thesis using that [OF r] c r Some by auto
  qed
qed

lemma linked_append: "linked parent (vs @ [v]) current \<longleftrightarrow> linked parent vs (cv_ParentVersionID v) \<and> current = Some (cv_ID v)"
  by (induction vs arbitrary: parent) auto

definition new_version :: "int \<Rightarrow> chapter_data \<Rightarrow> chapter_data \<Rightarrow> int \<Rightarrow> chapter_version" where
  "new_version now prev nxt specRevision =
     \<lparr>cv_CitationUsages = ch_CitationUsages nxt, cv_ID = the (ch_CurrentVersionID nxt), cv_ProjectID = ch_ProjectID nxt, cv_ChapterID = ch_ID nxt,
      cv_ParentVersionID = ch_CurrentVersionID prev, cv_BodyMarkdown = ch_BodyMarkdown nxt, cv_SourceIDs = ch_SourceIDs nxt,
      cv_ReviewItems = ch_ReviewItems nxt, cv_SpecRevision = specRevision, cv_ConfirmationValid = False, cv_CreatedAt = now\<rparr>"

definition append_tables :: "chapter_version \<Rightarrow> 'r chapter_tables \<Rightarrow> 'r chapter_tables" where
  "append_tables v q = q\<lparr>ct_versions := ct_versions q @ [v],
     ct_chapters := map (\<lambda>r. if cr_ID r = cv_ChapterID v then r\<lparr>cr_CurrentVersionID := Some (cv_ID v)\<rparr> else r) (ct_chapters q)\<rparr>"

lemma AppendChapter_ok:
  assumes ok: "distinct (map cr_ID (ct_chapters (st_rest st)))" and "AppendChapter now prev nxt specRevision st = Inr st'" "ch_ID nxt = ch_ID prev" "ch_ProjectID nxt = ch_ProjectID prev"
  obtains row where "row \<in> set (ct_chapters (st_rest st))" "cr_ID row = ch_ID prev" "cr_ProjectID row = ch_ProjectID prev" "cr_CurrentVersionID row = ch_CurrentVersionID prev"
    "the (ch_CurrentVersionID nxt) \<notin> cv_ID ` set (ct_versions (st_rest st))" "st' = set_chapters (append_tables (new_version now prev nxt specRevision)) st"
proof -
  let ?sel = "\<lambda>r. cr_ID r = ch_ID prev \<and> cr_ProjectID r = ch_ProjectID prev \<and> cr_CurrentVersionID r = ch_CurrentVersionID prev"
  let ?v = "new_version now prev nxt specRevision" and ?cs = "ct_chapters (st_rest st)"
  have one: "length (filter ?sel ?cs) = 1" and new: "the (ch_CurrentVersionID nxt) \<notin> cv_ID ` set (ct_versions (st_rest st))"
    and st': "st' = set_chapters (\<lambda>q. q\<lparr>ct_versions := ct_versions (st_rest st) @ [?v],
      ct_chapters := map (\<lambda>r. if ?sel r then r\<lparr>cr_CurrentVersionID := Some (the (ch_CurrentVersionID nxt))\<rparr> else r) ?cs\<rparr>) st"
    using assms(2) by (auto simp: AppendChapter_def Let_def affected_ok insert_row_ok new_version_def)
  obtain row where row: "row \<in> set ?cs" "?sel row" and sel: "\<And>y. y \<in> set ?cs \<Longrightarrow> ?sel y \<longleftrightarrow> cr_ID y = ch_ID prev"
    by (rule one_key [OF ok one, of "ch_ID prev"]) auto
  have "map (\<lambda>r. if ?sel r then r\<lparr>cr_CurrentVersionID := Some (the (ch_CurrentVersionID nxt))\<rparr> else r) ?cs =
      map (\<lambda>r. if cr_ID r = cv_ChapterID ?v then r\<lparr>cr_CurrentVersionID := Some (cv_ID ?v)\<rparr> else r) ?cs"
    by (rule map_cong [OF refl]) (use sel assms(3) in \<open>auto simp: new_version_def\<close>)
  then have "st' = set_chapters (append_tables ?v) st" using st' by (simp add: set_chapters_def append_tables_def)
  then show thesis using that row new by blast
qed

section \<open>Preservation\<close>

definition same_chapters :: "('d, 'r) chapter_store \<Rightarrow> ('d, 'r) chapter_store \<Rightarrow> bool" where
  "same_chapters st st' \<longleftrightarrow> ct_chapters (st_rest st') = ct_chapters (st_rest st) \<and> ct_versions (st_rest st') = ct_versions (st_rest st) \<and>
     ct_copies (st_rest st') = ct_copies (st_rest st)"

lemma same_chapters_refl [simp]: "same_chapters st st"
  by (simp add: same_chapters_def)

lemma same_chapters_ok: "same_chapters st st' \<Longrightarrow> chapters_ok (st_rest st') = chapters_ok (st_rest st)"
proof -
  assume same: "same_chapters st st'"
  then have "versions_of (st_rest st') = versions_of (st_rest st)" by (intro ext) (simp add: versions_of_def same_chapters_def)
  moreover from this have "copy_ok (st_rest st') = copy_ok (st_rest st)" by (intro ext) (simp only: copy_ok_def)
  ultimately show ?thesis using same by (simp add: chapters_ok_def same_chapters_def)
qed

lemma same_chapters_copy: "same_chapters st st' \<Longrightarrow> WorkingCopy st' = WorkingCopy st"
  by (intro ext) (simp add: WorkingCopy_def same_chapters_def)

text \<open>The provenance and template bindings of a project are not chapters.\<close>

definition keeps_chapters :: "('d, 'r chapter_tables) store_env \<Rightarrow> bool" where
  "keeps_chapters se \<longleftrightarrow> (\<forall>p q q'. se_provenance se p q = Inr q' \<longrightarrow> (\<exists>r. q' = q\<lparr>ct_rest := r\<rparr>)) \<and>
     (\<forall>c q q'. se_saveBinding se c q = Inr q' \<longrightarrow> (\<exists>r. q' = q\<lparr>ct_rest := r\<rparr>))"

lemma UpdateProject_chapters:
  fixes se :: "('d, 'r chapter_tables) store_env"
  assumes keeps: "keeps_chapters se" and up: "UpdateProject se tenant prev nxt st = Inr st'"
  shows "same_chapters st st'"
proof -
  have prov: "same_chapters t (t\<lparr>st_rest := q\<rparr>)" if "se_provenance se p (st_rest t) = Inr q" for p t q
    using keeps that by (fastforce simp: keeps_chapters_def same_chapters_def)
  have bind: "same_chapters t t'" if "insertProjectTemplateCopy se c t = Inr t'" for c t t'
  proof -
    from that obtain q tab where "se_saveBinding se c (st_rest t) = Inr q" "t' = t\<lparr>st_copies := tab, st_rest := q\<rparr>"
      by (auto simp: insertProjectTemplateCopy_def split: if_splits)
    then show ?thesis using keeps by (fastforce simp: keeps_chapters_def same_chapters_def)
  qed
  have status: "same_chapters t t'" if "setCopyStatus c pid version status t = Inr t'" for c pid version status and t t' :: "('d, 'r) chapter_store"
    using that by (auto simp: setCopyStatus_def same_chapters_def)
  have trans: "same_chapters t v" if "same_chapters t u" "same_chapters u v" for t u v :: "('d, 'r) chapter_store"
    using that by (simp add: same_chapters_def)
  have copy: "same_chapters t t'" if pt: "persistTemplateCopyTransition se prev nxt t = Inr t'" for t t'
  proof (cases "p_TemplateCopyVersion nxt = p_TemplateCopyVersion prev")
    case True
    then show ?thesis using pt status by (auto simp: persistTemplateCopyTransition_def split: option.splits if_splits)
  next
    case False
    then obtain n t1 where "insertProjectTemplateCopy se n t1 = Inr t'" and "same_chapters t t1"
      using pt status by (auto simp: persistTemplateCopyTransition_def split: option.splits if_splits)
    then show ?thesis using bind trans by blast
  qed
  from up obtain tab st1 q where "persistTemplateCopyTransition se prev nxt (st\<lparr>st_projects := tab\<rparr>) = Inr st1"
    and "se_provenance se nxt (st_rest st1) = Inr q" "st' = st1\<lparr>st_rest := q\<rparr>" by (auto simp: UpdateProject_def)
  then have "same_chapters (st\<lparr>st_projects := tab\<rparr>) st1" "same_chapters st1 st'" using copy prov by blast+
  then show ?thesis by (simp add: same_chapters_def)
qed

lemma UpdateProject_audits:
  assumes "UpdateProject se tenant prev nxt st = Inr st'"
  shows "st_audits st' = st_audits st"
proof -
  have bind: "st_audits t' = st_audits t" if "insertProjectTemplateCopy se c t = Inr t'" for c and t t'
    using that by (auto simp: insertProjectTemplateCopy_def split: if_splits)
  have status: "st_audits t' = st_audits t" if "setCopyStatus c pid version status t = Inr t'" for c pid version status and t t'
    using that by (auto simp: setCopyStatus_def)
  have "st_audits t' = st_audits t" if "persistTemplateCopyTransition se prev nxt t = Inr t'" for t t'
    using that by (auto simp: persistTemplateCopyTransition_def split: option.splits if_splits dest!: bind status)
  then show ?thesis using assms by (auto simp: UpdateProject_def)
qed

lemma put_copy_chapters:
  assumes "chapters_ok q" "copy_ok q nxt"
  shows "chapters_ok (ct_copies_update (put_copy nxt) q)"
proof -
  have v: "versions_of (ct_copies_update (put_copy nxt) q) = versions_of q" by (intro ext) (simp add: versions_of_def)
  then have "copy_ok (ct_copies_update (put_copy nxt) q) = copy_ok q" by (intro ext) (simp only: copy_ok_def)
  moreover have "list_all (copy_ok q) (put_copy nxt (ct_copies q))" using assms by (auto simp: chapters_ok_def put_copy_def list_all_iff)
  ultimately show ?thesis using assms(1) v by (simp add: chapters_ok_def)
qed

lemma append_chapters:
  assumes ok: "chapters_ok q" and row: "row \<in> set (ct_chapters q)" "cr_ID row = cv_ChapterID v" "cr_ProjectID row = cv_ProjectID v" "cr_CurrentVersionID row = cv_ParentVersionID v"
    and new: "cv_ID v \<notin> cv_ID ` set (ct_versions q)" and body: "text_ok (cv_BodyMarkdown v) (cv_SourceIDs v) (cv_CitationUsages v) (cv_ReviewItems v)"
  shows "chapters_ok (append_tables v q)"
proof -
  let ?q = "append_tables v q" and ?f = "\<lambda>r. if cr_ID r = cv_ChapterID v then r\<lparr>cr_CurrentVersionID := Some (cv_ID v)\<rparr> else r"
  note okD = chapters_okD [OF ok]
  have vs: "ct_versions ?q = ct_versions q @ [v]" "ct_chapters ?q = map ?f (ct_chapters q)" "ct_copies ?q = ct_copies q" by (simp_all add: append_tables_def)
  have vsof: "versions_of ?q pid cid = versions_of q pid cid @ (if cv_ProjectID v = pid \<and> cv_ChapterID v = cid then [v] else [])" for pid cid
    by (simp add: versions_of_def vs)
  have copy: "copy_ok ?q w" if "copy_ok q w" for w using that by (auto simp: copy_ok_def vsof)
  have link: "linked None (versions_of ?q (cr_ProjectID (?f r)) (cr_ID (?f r))) (cr_CurrentVersionID (?f r))" if r: "r \<in> set (ct_chapters q)" for r
  proof (cases "cr_ID r = cv_ChapterID v")
    case True
    then have "r = row" using row(1,2) r okD(1) by (metis distinct_map inj_onD)
    then show ?thesis using okD(7) [OF r] row True by (simp add: vsof linked_append)
  next
    case False
    then show ?thesis using okD(7) [OF r] by (simp add: vsof)
  qed
  have ids: "map cr_ID (map ?f (ct_chapters q)) = map cr_ID (ct_chapters q)" by simp
  then have "cr_ID ` set (map ?f (ct_chapters q)) = cr_ID ` set (ct_chapters q)" by (metis list.set_map)
  note ids = ids this
  have "list_all (\<lambda>r. linked None (versions_of ?q (cr_ProjectID r) (cr_ID r)) (cr_CurrentVersionID r)) (map ?f (ct_chapters q))"
    unfolding list_all_iff set_map using link by blast
  moreover have "list_all (copy_ok ?q) (ct_copies q)" using copy okD(6) by (simp add: list_all_iff)
  moreover have "cv_ChapterID v \<in> cr_ID ` set (ct_chapters q)" using row(1,2) by (metis image_eqI)
  ultimately show ?thesis unfolding chapters_ok_def vs ids using okD(1-5) new body by (simp add: list_all_iff)
qed

lemma chapter_text_ok:
  assumes "chapters_ok (st_rest st)" "Chapter st pid cid = Inr c"
  shows "text_ok (ch_BodyMarkdown c) (ch_SourceIDs c) (ch_CitationUsages c) (ch_ReviewItems c)"
proof (rule Chapter_ok [OF assms(2)])
  assume none: "ch_CurrentVersionID c = None \<Longrightarrow> ch_BodyMarkdown c = [] \<and> ch_SourceIDs c = [] \<and> ch_CitationUsages c = [] \<and> ch_ReviewItems c = []"
    and some: "\<And>vid. ch_CurrentVersionID c = Some vid \<Longrightarrow> \<exists>v \<in> set (versions_of (st_rest st) pid cid). cv_ID v = vid \<and> ch_BodyMarkdown c = cv_BodyMarkdown v \<and>
       ch_SourceIDs c = cv_SourceIDs v \<and> ch_CitationUsages c = cv_CitationUsages v \<and> ch_ReviewItems c = cv_ReviewItems v"
  show ?thesis
  proof (cases "ch_CurrentVersionID c")
    case None
    then show ?thesis using none text_ok_empty by simp
  next
    case (Some vid)
    then obtain v where "v \<in> set (ct_versions (st_rest st))" "ch_BodyMarkdown c = cv_BodyMarkdown v" "ch_SourceIDs c = cv_SourceIDs v"
      "ch_CitationUsages c = cv_CitationUsages v" "ch_ReviewItems c = cv_ReviewItems v" using some by (auto simp: versions_of_def)
    then show ?thesis using chapters_okD(5) [OF assms(1)] by simp
  qed
qed

lemma chapter_base:
  assumes "Chapter st pid cid = Inr c" "ch_CurrentVersionID c = Some vid"
  shows "vid \<in> cv_ID ` set (versions_of (st_rest st) pid cid)"
  using Chapter_ok [OF assms(1)] assms(2) by (metis image_eqI)

end
