(* ===== verification/Chapter_Steps.thy ===== *)
theory Chapter_Steps
  imports Chapter_Invariant
begin

text \<open>
  The writes of chapters and working copies as steps of one machine.  A step that changes a draft replaces it by
  its successor at the next revision; a step that publishes a text appends one version and moves the draft onto it.
  Every step keeps the invariant of \<^verbatim>\<open>Chapter_Invariant\<close>, keeps all versions, and lets no revision go back.
\<close>

section \<open>The two kinds of change\<close>

definition draft_saved :: "('d, 'r) chapter_store \<Rightarrow> string \<Rightarrow> string \<Rightarrow> working_copy \<Rightarrow> working_copy \<Rightarrow> ('d, 'r) chapter_store \<Rightarrow> bool" where
  "draft_saved st pid cid w nxt st' \<longleftrightarrow> WorkingCopy st pid cid = Inr w \<and> copy_key nxt = copy_key w \<and>
     wc_WorkingCopyRevision nxt = wc_WorkingCopyRevision w + 1 \<and> store_SaveWorkingCopy w nxt st = Inr st' \<and> copy_ok (st_rest st) nxt"

definition text_published :: "('d, 'r) chapter_store \<Rightarrow> string \<Rightarrow> string \<Rightarrow> chapter_data \<Rightarrow> chapter_version \<Rightarrow> working_copy \<Rightarrow> working_copy \<Rightarrow> ('d, 'r) chapter_store \<Rightarrow> bool" where
  "text_published st pid cid c v w nxt st' \<longleftrightarrow> Chapter st pid cid = Inr c \<and> WorkingCopy st pid cid = Inr w \<and>
     cv_ProjectID v = pid \<and> cv_ChapterID v = cid \<and> cv_ParentVersionID v = ch_CurrentVersionID c \<and> cv_ID v \<notin> cv_ID ` set (ct_versions (st_rest st)) \<and>
     text_ok (cv_BodyMarkdown v) (cv_SourceIDs v) (cv_CitationUsages v) (cv_ReviewItems v) \<and>
     copy_key nxt = copy_key w \<and> wc_WorkingCopyRevision nxt = wc_WorkingCopyRevision w + 1 \<and> wc_BaseChapterVersionID nxt = Some (cv_ID v) \<and>
     text_ok (wc_BodyMarkdown nxt) (wc_SourceIDs nxt) (wc_CitationUsages nxt) (wc_ReviewItems nxt) \<and>
     (\<exists>row. row \<in> set (ct_chapters (st_rest st)) \<and> cr_ID row = cid \<and> cr_ProjectID row = pid \<and> cr_CurrentVersionID row = ch_CurrentVersionID c) \<and>
     ct_chapters (st_rest st') = ct_chapters (append_tables v (st_rest st)) \<and> ct_versions (st_rest st') = ct_versions (st_rest st) @ [v] \<and>
     ct_copies (st_rest st') = put_copy nxt (ct_copies (st_rest st))"

lemma draft_saved_ok:
  assumes ok: "chapters_ok (st_rest st)" and d: "draft_saved st pid cid w nxt st'"
  shows "st' = set_chapters (ct_copies_update (put_copy nxt)) st" "chapters_ok (st_rest st')"
proof -
  from d have key: "copy_key nxt = copy_key w" and s: "store_SaveWorkingCopy w nxt st = Inr st'" by (simp_all add: draft_saved_def)
  show st': "st' = set_chapters (ct_copies_update (put_copy nxt)) st" by (rule SaveWorkingCopy_ok [OF chapters_okD(3) [OF ok] key s])
  show "chapters_ok (st_rest st')" unfolding st' using put_copy_chapters [OF ok] d by (simp add: set_chapters_def draft_saved_def)
qed

lemma text_published_ok:
  assumes ok: "chapters_ok (st_rest st)" and pub: "text_published st pid cid c v w nxt st'"
  shows "chapters_ok (st_rest st')"
proof -
  let ?q = "ct_copies_update (put_copy nxt) (append_tables v (st_rest st))"
  from pub obtain row where row: "row \<in> set (ct_chapters (st_rest st))" "cr_ID row = cv_ChapterID v" "cr_ProjectID row = cv_ProjectID v"
      "cr_CurrentVersionID row = cv_ParentVersionID v" by (auto simp: text_published_def)
  from pub have same: "same_chapters (st\<lparr>st_rest := ?q\<rparr>) st'" by (simp add: text_published_def same_chapters_def append_tables_def)
  from pub have new: "cv_ID v \<notin> cv_ID ` set (ct_versions (st_rest st))" and tv: "text_ok (cv_BodyMarkdown v) (cv_SourceIDs v) (cv_CitationUsages v) (cv_ReviewItems v)"
    and tw: "text_ok (wc_BodyMarkdown nxt) (wc_SourceIDs nxt) (wc_CitationUsages nxt) (wc_ReviewItems nxt)" and w: "WorkingCopy st pid cid = Inr w"
    and nxt: "copy_key nxt = copy_key w" "wc_WorkingCopyRevision nxt = wc_WorkingCopyRevision w + 1" "wc_BaseChapterVersionID nxt = Some (cv_ID v)"
    and v: "cv_ProjectID v = pid" "cv_ChapterID v = cid"
    by (simp_all add: text_published_def)
  have "chapters_ok (append_tables v (st_rest st))" by (rule append_chapters [OF ok row new tv])
  moreover have "1 \<le> wc_WorkingCopyRevision w" using chapters_okD(6) [OF ok] WorkingCopy_ok [OF w] by (simp add: copy_ok_def)
  then have "copy_ok (append_tables v (st_rest st)) nxt"
    using tw nxt WorkingCopy_ok [OF w] v by (auto simp: copy_ok_def copy_key_def versions_of_def append_tables_def)
  ultimately have "chapters_ok ?q" by (rule put_copy_chapters)
  then show ?thesis using same_chapters_ok [OF same] by simp
qed

section \<open>Drafts\<close>

lemma sameVersion_iff [simp]: "sameVersion a b \<longleftrightarrow> a = b"
  by (auto simp: sameVersion_def split: option.splits)

lemma copy_okI:
  assumes "copy_ok q w" "text_ok (wc_BodyMarkdown nxt) (wc_SourceIDs nxt) (wc_CitationUsages nxt) (wc_ReviewItems nxt)"
    "copy_key nxt = copy_key w" "wc_WorkingCopyRevision nxt = wc_WorkingCopyRevision w + 1" "wc_BaseChapterVersionID nxt = wc_BaseChapterVersionID w"
  shows "copy_ok q nxt"
  using assms by (auto simp: copy_ok_def copy_key_def)

lemma given_text_ok:
  assumes "ValidString body" "validateWorkingCopyBody body ids = Inr declared" "normalizeCitationUsages given declared = Inr usages"
    "distinct (map cu_SourceID previous)" "distinct (map ri_ID items)" "list_all (anchor_ok body) items"
  shows "text_ok body declared (next_usages given usages previous declared) items"
proof -
  note v = validate_body_ok [OF assms(2)]
  note n = next_usages_ok [OF assms(3) v(4) assms(4)]
  show ?thesis unfolding text_ok_def using assms(1,5,6) v(1,2,3) n by simp
qed

lemma save_copy_draft:
  assumes ok: "chapters_ok (st_rest st)" and utf: "ValidString (sw_BodyMarkdown inp)"
    and v: "validateWorkingCopyBody (sw_BodyMarkdown inp) ids = Inr declared" and n: "normalizeCitationUsages (sw_CitationUsages inp) declared = Inr usages"
    and wr: "save_copy_write ke pid cid inp declared usages p st = Inr (out, st')"
  obtains w nxt where "draft_saved st pid cid w nxt st'" "wc_WorkingCopyRevision w = sw_ExpectedWorkingCopyRevision inp" "oo_Value out = VCopy nxt"
    "wc_BodyMarkdown nxt = sw_BodyMarkdown inp"
proof -
  from wr obtain c w where c: "Chapter st pid cid = Inr c" and w: "WorkingCopy st pid cid = Inr w"
    and cur: "copy_current c w (sw_BaseChapterVersionID inp) (sw_ExpectedSpecRevision inp) (sw_ExpectedWorkingCopyRevision inp)"
    by (auto simp: save_copy_write_def split: if_splits)
  define nxt where "nxt = w\<lparr>wc_WorkingCopyRevision := wc_WorkingCopyRevision w + 1, wc_BodyMarkdown := sw_BodyMarkdown inp, wc_SourceIDs := declared,
      wc_CitationUsages := next_usages (sw_CitationUsages inp) usages (wc_CitationUsages w) declared,
      wc_ReviewItems := rebaseReviewItems (wc_BodyMarkdown w) (sw_BodyMarkdown inp) (wc_ReviewItems w) (wc_WorkingCopyRevision w + 1) (wc_BaseChapterVersionID w),
      wc_UpdatedAt := ke_now ke\<rparr>"
  have s: "store_SaveWorkingCopy w nxt st = Inr st'" and out: "oo_Value out = VCopy nxt"
    using wr c w cur by (auto simp: save_copy_write_def Let_def answered_def nxt_def split: if_splits)
  have wok: "copy_ok (st_rest st) w" using chapters_okD(6) [OF ok] WorkingCopy_ok [OF w] by blast
  then have "distinct (map cu_SourceID (wc_CitationUsages w))" "distinct (map ri_ID (wc_ReviewItems w))" by (simp_all add: copy_ok_def text_ok_def)
  then have "text_ok (wc_BodyMarkdown nxt) (wc_SourceIDs nxt) (wc_CitationUsages nxt) (wc_ReviewItems nxt)"
    unfolding nxt_def by (simp add: given_text_ok [OF utf v n] rebased_anchors [OF utf])
  with wok have "copy_ok (st_rest st) nxt" by (rule copy_okI) (simp_all add: nxt_def copy_key_def)
  then have "draft_saved st pid cid w nxt st'" using w s by (simp add: draft_saved_def nxt_def copy_key_def)
  then show thesis using that cur out by (simp add: copy_current_def nxt_def)
qed

lemma rewrite_draft:
  assumes ok: "chapters_ok (st_rest st)" and utf: "ValidString (sw_BodyMarkdown inp)"
    and v: "validateWorkingCopyBody (sw_BodyMarkdown inp) ids = Inr declared" and n: "normalizeCitationUsages (sw_CitationUsages inp) declared = Inr usages"
    and wr: "rewrite_write ke pid cid inp declared usages items p st = Inr (out, st')"
  obtains w nxt where "draft_saved st pid cid w nxt st'" "wc_WorkingCopyRevision w = sw_ExpectedWorkingCopyRevision inp" "oo_Value out = VCopy nxt"
proof -
  from wr obtain c w where c: "Chapter st pid cid = Inr c" and w: "WorkingCopy st pid cid = Inr w"
    and cur: "copy_current c w (sw_BaseChapterVersionID inp) (sw_ExpectedSpecRevision inp) (sw_ExpectedWorkingCopyRevision inp)"
    by (auto simp: rewrite_write_def split: if_splits)
  define kept where "kept = rebaseReviewItems (wc_BodyMarkdown w) (sw_BodyMarkdown inp) (wc_ReviewItems w) (wc_WorkingCopyRevision w + 1) (wc_BaseChapterVersionID w)"
  from wr obtain added where add: "rewrite_items (sw_BodyMarkdown inp) (wc_WorkingCopyRevision w + 1) (wc_BaseChapterVersionID w) (map ri_ID kept) items = Inr added"
    using c w cur by (auto simp: rewrite_write_def Let_def kept_def split: if_splits)
  define nxt where "nxt = w\<lparr>wc_WorkingCopyRevision := wc_WorkingCopyRevision w + 1, wc_SpecRevision := sw_ExpectedSpecRevision inp, wc_BodyMarkdown := sw_BodyMarkdown inp,
      wc_SourceIDs := declared, wc_CitationUsages := next_usages (sw_CitationUsages inp) usages (wc_CitationUsages w) declared,
      wc_ReviewItems := kept @ added, wc_UpdatedAt := ke_now ke\<rparr>"
  have s: "store_SaveWorkingCopy w nxt st = Inr st'" and out: "oo_Value out = VCopy nxt"
    using wr c w cur add by (auto simp: rewrite_write_def Let_def answered_def nxt_def kept_def split: if_splits)
  have wok: "copy_ok (st_rest st) w" using chapters_okD(6) [OF ok] WorkingCopy_ok [OF w] by blast
  then have d: "distinct (map cu_SourceID (wc_CitationUsages w))" "distinct (map ri_ID (wc_ReviewItems w))" by (simp_all add: copy_ok_def text_ok_def)
  note ri = rewritten_items [OF add]
  have ids: "map ri_ID kept = map ri_ID (wc_ReviewItems w)" by (simp add: kept_def)
  have "set (map ri_ID added) = ri_ID ` set items" using ri by (metis list.set_map)
  then have "distinct (map ri_ID (kept @ added))" using d(2) ri unfolding map_append distinct_append ids by auto
  moreover have "list_all (anchor_ok (sw_BodyMarkdown inp)) (kept @ added)" using ri rebased_anchors [OF utf] by (simp add: kept_def)
  ultimately have "text_ok (wc_BodyMarkdown nxt) (wc_SourceIDs nxt) (wc_CitationUsages nxt) (wc_ReviewItems nxt)"
    using given_text_ok [OF utf v n d(1)] by (simp add: nxt_def)
  with wok have "copy_ok (st_rest st) nxt" by (rule copy_okI) (simp_all add: nxt_def copy_key_def)
  then have "draft_saved st pid cid w nxt st'" using w s by (simp add: draft_saved_def nxt_def copy_key_def)
  then show thesis using that cur out by (simp add: copy_current_def)
qed

lemma restore_draft:
  assumes ok: "chapters_ok (st_rest st)" and wr: "restore_write ke pid cid inp p st = Inr (out, st')"
  obtains w nxt v where "draft_saved st pid cid w nxt st'" "wc_WorkingCopyRevision w = rw_ExpectedWorkingCopyRevision inp" "oo_Value out = VCopy nxt"
    "ChapterVersion st pid cid (rw_ChapterVersionID inp) = Inr v" "wc_BodyMarkdown nxt = cv_BodyMarkdown v" "wc_SourceIDs nxt = cv_SourceIDs v"
    "wc_CitationUsages nxt = cv_CitationUsages v"
    "wc_ReviewItems nxt = rebaseReviewItems (cv_BodyMarkdown v) (cv_BodyMarkdown v) (cv_ReviewItems v) (wc_WorkingCopyRevision nxt) (wc_BaseChapterVersionID nxt)"
proof -
  from wr obtain c w v where c: "Chapter st pid cid = Inr c" and w: "WorkingCopy st pid cid = Inr w" and v: "ChapterVersion st pid cid (rw_ChapterVersionID inp) = Inr v"
    and cur: "copy_current c w (rw_ExpectedChapterVersionID inp) (rw_ExpectedSpecRevision inp) (rw_ExpectedWorkingCopyRevision inp)"
    by (auto simp: restore_write_def split: if_splits)
  define nxt where "nxt = w\<lparr>wc_WorkingCopyRevision := wc_WorkingCopyRevision w + 1, wc_SpecRevision := p_SpecRevision p, wc_BodyMarkdown := cv_BodyMarkdown v,
      wc_SourceIDs := cv_SourceIDs v, wc_CitationUsages := cv_CitationUsages v,
      wc_ReviewItems := rebaseReviewItems (cv_BodyMarkdown v) (cv_BodyMarkdown v) (cv_ReviewItems v) (wc_WorkingCopyRevision w + 1) (wc_BaseChapterVersionID w),
      wc_UpdatedAt := ke_now ke\<rparr>"
  have s: "store_SaveWorkingCopy w nxt st = Inr st'" and out: "oo_Value out = VCopy nxt"
    using wr c w v cur by (auto simp: restore_write_def Let_def answered_def nxt_def split: if_splits)
  have wok: "copy_ok (st_rest st) w" using chapters_okD(6) [OF ok] WorkingCopy_ok [OF w] by blast
  have "v \<in> set (ct_versions (st_rest st))" using v by (auto simp: ChapterVersion_def storageError_ok dest: find_Some_in)
  then have "text_ok (wc_BodyMarkdown nxt) (wc_SourceIDs nxt) (wc_CitationUsages nxt) (wc_ReviewItems nxt)"
    using chapters_okD(5) [OF ok] by (simp add: nxt_def text_ok_rebased)
  with wok have "copy_ok (st_rest st) nxt" by (rule copy_okI) (simp_all add: nxt_def copy_key_def)
  then have "draft_saved st pid cid w nxt st'" using w s by (simp add: draft_saved_def nxt_def copy_key_def)
  then show thesis using that v cur out by (simp add: copy_current_def nxt_def)
qed

lemma attach_ok:
  assumes "list_all (anchor_ok body) items" "case sel of None \<Rightarrow> True | Some s \<Rightarrow> Valid body s"
  shows "list_all (anchor_ok body) (attach itemID sel revision version items)" "map ri_ID (attach itemID sel revision version items) = map ri_ID items"
proof -
  have "anchor_selection (New s revision version) = s" "an_Status (New s revision version) = ''located''" for s
    by (simp_all add: New_def anchor_selection_def)
  then show "list_all (anchor_ok body) (attach itemID sel revision version items)"
    using assms by (auto simp: attach_def list_all_iff anchor_ok_def split: option.splits)
  show "map ri_ID (attach itemID sel revision version items) = map ri_ID items" by (simp add: attach_def)
qed

lemma anchor_draft:
  assumes ok: "chapters_ok (st_rest st)" and wr: "anchor_write ke pid cid itemID inp p st = Inr (out, st')"
  obtains w nxt where "draft_saved st pid cid w nxt st'" "wc_WorkingCopyRevision w = ai_ExpectedWorkingCopyRevision inp" "oo_Value out = VCopy nxt"
proof -
  from wr obtain c w where c: "Chapter st pid cid = Inr c" and w: "WorkingCopy st pid cid = Inr w"
    and cur: "copy_current c w (ai_ExpectedChapterVersionID inp) (ai_ExpectedSpecRevision inp) (ai_ExpectedWorkingCopyRevision inp)"
    and sel: "case ai_Anchor inp of None \<Rightarrow> True | Some s \<Rightarrow> Valid (wc_BodyMarkdown w) s"
    by (auto simp: anchor_write_def split: if_splits option.splits)
  define kept where "kept = rebaseReviewItems (wc_BodyMarkdown w) (wc_BodyMarkdown w) (wc_ReviewItems w) (wc_WorkingCopyRevision w + 1) (wc_BaseChapterVersionID w)"
  define nxt where "nxt = w\<lparr>wc_WorkingCopyRevision := wc_WorkingCopyRevision w + 1, wc_UpdatedAt := ke_now ke,
      wc_ReviewItems := attach itemID (ai_Anchor inp) (wc_WorkingCopyRevision w + 1) (wc_BaseChapterVersionID w) kept\<rparr>"
  have s: "store_SaveWorkingCopy w nxt st = Inr st'" and out: "oo_Value out = VCopy nxt"
    using wr c w cur sel by (auto simp: anchor_write_def Let_def answered_def nxt_def kept_def split: if_splits option.splits)
  have wok: "copy_ok (st_rest st) w" using chapters_okD(6) [OF ok] WorkingCopy_ok [OF w] by blast
  then have t: "text_ok (wc_BodyMarkdown w) (wc_SourceIDs w) (wc_CitationUsages w) kept" by (simp add: copy_ok_def kept_def text_ok_rebased)
  then have "list_all (anchor_ok (wc_BodyMarkdown w)) kept" by (simp add: text_ok_def)
  note a = attach_ok [OF this sel]
  have "text_ok (wc_BodyMarkdown nxt) (wc_SourceIDs nxt) (wc_CitationUsages nxt) (wc_ReviewItems nxt)"
    using t a by (simp add: nxt_def text_ok_def)
  with wok have "copy_ok (st_rest st) nxt" by (rule copy_okI) (simp_all add: nxt_def copy_key_def)
  then have "draft_saved st pid cid w nxt st'" using w s by (simp add: draft_saved_def nxt_def copy_key_def)
  then show thesis using that cur out by (simp add: copy_current_def)
qed

section \<open>Published texts\<close>

text \<open>The common end of a commit and of a saved chapter: append the version, re-verify, move the draft.\<close>

lemma publish_tail:
  assumes ok: "chapters_ok (st_rest st)" and same: "same_chapters st st1"
    and c: "Chapter st pid cid = Inr c" and w: "WorkingCopy st pid cid = Inr w"
    and app: "AppendChapter now c nxtc specRevision st1 = Inr st2" and rev: "revalidate ke pid cid body st2 = Inr st3" and save: "store_SaveWorkingCopy w nxt st3 = Inr st4"
    and nc: "ch_ID nxtc = ch_ID c" "ch_ProjectID nxtc = ch_ProjectID c" "ch_CurrentVersionID nxtc = Some vid"
    and tc: "text_ok (ch_BodyMarkdown nxtc) (ch_SourceIDs nxtc) (ch_CitationUsages nxtc) (ch_ReviewItems nxtc)"
    and nw: "copy_key nxt = copy_key w" "wc_WorkingCopyRevision nxt = wc_WorkingCopyRevision w + 1" "wc_BaseChapterVersionID nxt = Some vid"
    and tw: "text_ok (wc_BodyMarkdown nxt) (wc_SourceIDs nxt) (wc_CitationUsages nxt) (wc_ReviewItems nxt)"
  shows "text_published st pid cid c (new_version now c nxtc specRevision) w nxt st4"
proof -
  let ?v = "new_version now c nxtc specRevision"
  note okD = chapters_okD [OF ok]
  from c obtain crow where cr: "crow \<in> set (ct_chapters (st_rest st))" "cr_ID crow = cid" "cr_ProjectID crow = pid" "ch_ID c = cid" "ch_ProjectID c = pid"
      "ch_CurrentVersionID c = cr_CurrentVersionID crow" by (rule Chapter_ok) blast
  have d1: "distinct (map cr_ID (ct_chapters (st_rest st1)))" and d3: "distinct (map copy_key (ct_copies (st_rest st1)))" using same okD(1,3) by (simp_all add: same_chapters_def)
  obtain new: "vid \<notin> cv_ID ` set (ct_versions (st_rest st1))" and st2: "st2 = set_chapters (append_tables ?v) st1"
    by (rule AppendChapter_ok [OF d1 app nc(1,2)]) (simp add: nc(3))
  from rev obtain r where st3: "st3 = set_chapters (ct_rest_update (\<lambda>_. r)) st2" by (auto simp: revalidate_def)
  have d4: "distinct (map copy_key (ct_copies (st_rest st3)))" using d3 by (simp add: st3 st2 set_chapters_def append_tables_def)
  have st4: "st4 = set_chapters (ct_copies_update (put_copy nxt)) st3" by (rule SaveWorkingCopy_ok [OF d4 nw(1) save])
  have v: "cv_ID ?v = vid" "cv_ProjectID ?v = pid" "cv_ChapterID ?v = cid" "cv_ParentVersionID ?v = ch_CurrentVersionID c"
    "cv_BodyMarkdown ?v = ch_BodyMarkdown nxtc" "cv_SourceIDs ?v = ch_SourceIDs nxtc" "cv_CitationUsages ?v = ch_CitationUsages nxtc" "cv_ReviewItems ?v = ch_ReviewItems nxtc"
    using nc cr by (simp_all add: new_version_def)
  have "ct_chapters (st_rest st4) = ct_chapters (append_tables ?v (st_rest st))" "ct_versions (st_rest st4) = ct_versions (st_rest st) @ [?v]"
    "ct_copies (st_rest st4) = put_copy nxt (ct_copies (st_rest st))"
    using same by (simp_all add: st4 st3 st2 set_chapters_def append_tables_def same_chapters_def)
  moreover have "vid \<notin> cv_ID ` set (ct_versions (st_rest st))" using new same by (simp add: same_chapters_def)
  ultimately show ?thesis unfolding text_published_def v using c w nw tw tc cr by auto
qed

lemma commit_published:
  assumes ok: "chapters_ok (st_rest st)" and keeps: "keeps_chapters (ke_store ke)" and wr: "commit_write ke a pid cid inp p st = Inr (out, st')"
  obtains c v w nxt where "text_published st pid cid c v w nxt st'" "wc_WorkingCopyRevision w = cw_ExpectedWorkingCopyRevision inp"
    "ch_CurrentVersionID c = cw_ExpectedChapterVersionID inp" "wc_BaseChapterVersionID w = cw_ExpectedChapterVersionID inp"
    "reviewConditionChanges (p_Spec p) (ch_BodyMarkdown c) (wc_BodyMarkdown w) (cw_ConditionChange inp) = None"
    "cv_BodyMarkdown v = wc_BodyMarkdown w" "cv_SourceIDs v = wc_SourceIDs w" "cv_CitationUsages v = wc_CitationUsages w" "\<not> cv_ConfirmationValid v"
    "cv_ReviewItems v = rebaseReviewItems (wc_BodyMarkdown w) (wc_BodyMarkdown w) (wc_ReviewItems w) (wc_WorkingCopyRevision w) (Some (cv_ID v))"
    "wc_BodyMarkdown nxt = wc_BodyMarkdown w" "wc_SourceIDs nxt = wc_SourceIDs w" "wc_CitationUsages nxt = wc_CitationUsages w"
    "wc_ReviewItems nxt = rebaseReviewItems (wc_BodyMarkdown w) (wc_BodyMarkdown w) (wc_ReviewItems w) (wc_WorkingCopyRevision w + 1) (Some (cv_ID v))"
    "cv_ID v = ke_newID ke 1" "wc_SpecRevision nxt = p_SpecRevision p" "cv_SpecRevision v = p_SpecRevision p"
    "\<And>d. cw_ConditionChange inp = Some d \<Longrightarrow> \<exists>e \<in> set (st_audits st'). ar_Action e = ''chapter.commit.condition_dismissed'' \<and> ar_Target e = cid \<and> ar_ActorID e = UserID a \<and> ar_Reason e = ds_Reason d"
proof -
  from wr obtain c w where c: "Chapter st pid cid = Inr c" and w: "WorkingCopy st pid cid = Inr w"
    and cur: "copy_current c w (cw_ExpectedChapterVersionID inp) (cw_ExpectedSpecRevision inp) (cw_ExpectedWorkingCopyRevision inp)"
    and gate: "reviewConditionChanges (p_Spec p) (ch_BodyMarkdown c) (wc_BodyMarkdown w) (cw_ConditionChange inp) = None"
    by (auto simp: commit_write_def split: if_splits option.splits)
  let ?vid = "ke_newID ke 1"
  define nxtc where "nxtc = markChapterUnconfirmed (c\<lparr>ch_CurrentVersionID := Some ?vid, ch_BodyMarkdown := wc_BodyMarkdown w,
      ch_SourceIDs := wc_SourceIDs w, ch_CitationUsages := wc_CitationUsages w,
      ch_ReviewItems := rebaseReviewItems (wc_BodyMarkdown w) (wc_BodyMarkdown w) (wc_ReviewItems w) (wc_WorkingCopyRevision w) (Some ?vid)\<rparr>)"
  define nxt where "nxt = w\<lparr>wc_BaseChapterVersionID := Some ?vid, wc_WorkingCopyRevision := wc_WorkingCopyRevision w + 1, wc_SpecRevision := p_SpecRevision p,
      wc_ReviewItems := rebaseReviewItems (wc_BodyMarkdown w) (wc_BodyMarkdown w) (wc_ReviewItems w) (wc_WorkingCopyRevision w + 1) (Some ?vid),
      wc_UpdatedAt := ke_now ke\<rparr>"
  from wr obtain st0 st1 st2 st3 where
      st0: "(case cw_ConditionChange inp of None \<Rightarrow> Inr st | Some d \<Rightarrow> auditConditionDismissal ke a pid cid d st) = Inr st0"
    and st1: "UpdateProject (ke_store ke) (TenantID a) p (p\<lparr>p_ProjectVersion := p_ProjectVersion p + 1\<rparr>) st0 = Inr st1"
    and st2: "AppendChapter (ke_now ke) c nxtc (p_SpecRevision p) st1 = Inr st2" and st3: "revalidate ke pid cid (wc_BodyMarkdown w) st2 = Inr st3"
    and st4: "store_SaveWorkingCopy w nxt st3 = Inr st'"
    using c w cur gate by (auto simp: commit_write_def Let_def nxtc_def nxt_def answered_def split: if_splits)
  have "st_rest st0 = st_rest st" using st0 by (auto simp: auditConditionDismissal_def RecordAudit_def split: option.splits)
  with UpdateProject_chapters [OF keeps st1] have same: "same_chapters st st1" by (simp add: same_chapters_def)
  have tw: "text_ok (wc_BodyMarkdown w) (wc_SourceIDs w) (wc_CitationUsages w) (wc_ReviewItems w)"
    using chapters_okD(6) [OF ok] WorkingCopy_ok [OF w] by (auto simp: copy_ok_def)
  have pub: "text_published st pid cid c (new_version (ke_now ke) c nxtc (p_SpecRevision p)) w nxt st'"
    by (rule publish_tail [OF ok same c w st2 st3 st4, of ?vid]) (simp_all add: nxtc_def nxt_def markChapterUnconfirmed_def copy_key_def text_ok_rebased [OF tw])
  have audits: "st_audits st' = st_audits st0"
  proof -
    have "st_audits st1 = st_audits st0" using st1 by (rule UpdateProject_audits)
    moreover have "st_audits st2 = st_audits st1" "st_audits st3 = st_audits st2" "st_audits st' = st_audits st3"
      using st2 st3 st4 by (auto simp: AppendChapter_def Let_def revalidate_def store_SaveWorkingCopy_def set_chapters_def)
    ultimately show ?thesis by simp
  qed
  have "\<exists>e \<in> set (st_audits st'). ar_Action e = ''chapter.commit.condition_dismissed'' \<and> ar_Target e = cid \<and> ar_ActorID e = UserID a \<and> ar_Reason e = ds_Reason d"
    if "cw_ConditionChange inp = Some d" for d
    using st0 that unfolding audits by (auto simp: auditConditionDismissal_def RecordAudit_def insert_row_ok)
  then show thesis using that [OF pub] cur gate by (simp add: copy_current_def new_version_def nxtc_def nxt_def markChapterUnconfirmed_def)
qed

lemma save_chapter_published:
  assumes ok: "chapters_ok (st_rest st)" and keeps: "keeps_chapters (ke_store ke)" and utf: "ValidString (sc_BodyMarkdown inp)"
    and v: "validateWorkingCopyBody (sc_BodyMarkdown inp) ids = Inr declared" and n: "normalizeCitationUsages (sc_CitationUsages inp) declared = Inr usages"
    and wr: "save_chapter_write ke a pid cid inp declared usages p st = Inr (out, st')"
  obtains c v w nxt where "text_published st pid cid c v w nxt st'" "cv_BodyMarkdown v = sc_BodyMarkdown inp" "wc_BodyMarkdown nxt = sc_BodyMarkdown inp"
proof -
  let ?vid = "ke_newID ke 0" and ?body = "sc_BodyMarkdown inp"
  from wr obtain c st1 w where c: "Chapter st pid cid = Inr c" and st1: "UpdateProject (ke_store ke) (TenantID a) p (p\<lparr>p_ProjectVersion := p_ProjectVersion p + 1\<rparr>) st = Inr st1"
    and w1: "WorkingCopy st1 pid cid = Inr w" by (auto simp: save_chapter_write_def Let_def split: if_splits)
  have same: "same_chapters st st1" by (rule UpdateProject_chapters [OF keeps st1])
  then have w: "WorkingCopy st pid cid = Inr w" using w1 same_chapters_copy by metis
  define us where "us = next_usages (sc_CitationUsages inp) usages (ch_CitationUsages c) declared"
  define items where "items = rebaseReviewItems (ch_BodyMarkdown c) ?body (ch_ReviewItems c) (wc_WorkingCopyRevision w + 1) (Some ?vid)"
  define nxtc where "nxtc = (markChapterUnconfirmed (c\<lparr>ch_CurrentVersionID := Some ?vid, ch_BodyMarkdown := ?body, ch_SourceIDs := declared,
      ch_CitationUsages := us\<rparr>))\<lparr>ch_ReviewItems := items\<rparr>"
  define nxt where "nxt = w\<lparr>wc_BaseChapterVersionID := Some ?vid, wc_SpecRevision := p_SpecRevision p, wc_WorkingCopyRevision := wc_WorkingCopyRevision w + 1,
      wc_BodyMarkdown := ?body, wc_SourceIDs := declared, wc_CitationUsages := us, wc_ReviewItems := items, wc_UpdatedAt := ke_now ke\<rparr>"
  from wr obtain st2 st3 where st2: "AppendChapter (ke_now ke) c nxtc (p_SpecRevision p) st1 = Inr st2" and st3: "revalidate ke pid cid ?body st2 = Inr st3"
    and st4: "store_SaveWorkingCopy w nxt st3 = Inr st'"
    using c st1 w1 by (auto simp: save_chapter_write_def Let_def nxtc_def nxt_def us_def items_def answered_def split: if_splits)
  have old: "text_ok (ch_BodyMarkdown c) (ch_SourceIDs c) (ch_CitationUsages c) (ch_ReviewItems c)" by (rule chapter_text_ok [OF ok c])
  then have "distinct (map cu_SourceID (ch_CitationUsages c))" "distinct (map ri_ID items)" by (simp_all add: text_ok_def items_def)
  then have t: "text_ok ?body declared us items" unfolding us_def by (rule given_text_ok [OF utf v n]) (simp add: items_def rebased_anchors [OF utf])
  have "text_published st pid cid c (new_version (ke_now ke) c nxtc (p_SpecRevision p)) w nxt st'"
    by (rule publish_tail [OF ok same c w st2 st3 st4, of ?vid]) (simp_all add: nxtc_def nxt_def markChapterUnconfirmed_def copy_key_def t)
  then show thesis by (rule that) (simp_all add: new_version_def nxtc_def nxt_def markChapterUnconfirmed_def)
qed

section \<open>New chapters, lost confirmations, carried drafts\<close>

lemma InsertChapter_ok:
  assumes ok: "chapters_ok (st_rest st)" and ins: "InsertChapter now c st = Inr st'" and empty: "ch_BodyMarkdown c = []" "ch_SourceIDs c = []" "ch_ReviewItems c = []"
  shows "chapters_ok (st_rest st')" "ct_versions (st_rest st') = ct_versions (st_rest st)" "\<exists>w. ct_copies (st_rest st') = ct_copies (st_rest st) @ [w]"
proof -
  define row where "row = \<lparr>cr_ID = ch_ID c, cr_ProjectID = ch_ProjectID c, cr_SectionID = ch_SectionID c, cr_Title = ch_Title c, cr_CurrentVersionID = None\<rparr>"
  from ins obtain project where pr: "storageError (find (\<lambda>r. pr_ID r = ch_ProjectID c) (st_projects st)) = Inr project" by (auto simp: InsertChapter_def)
  define w where "w = \<lparr>wc_CitationUsages = [], wc_ProjectID = ch_ProjectID c, wc_ChapterID = ch_ID c, wc_BaseChapterVersionID = None,
      wc_SpecRevision = pr_SpecRevision project, wc_WorkingCopyRevision = 1, wc_BodyMarkdown = [], wc_SourceIDs = [], wc_ReviewItems = [], wc_UpdatedAt = now\<rparr>"
  have new: "cr_ID row \<notin> cr_ID ` set (ct_chapters (st_rest st))" and key: "copy_key w \<notin> copy_key ` set (ct_copies (st_rest st))"
    and st': "st' = set_chapters (\<lambda>q. q\<lparr>ct_chapters := ct_chapters (st_rest st) @ [row], ct_copies := ct_copies (st_rest st) @ [w]\<rparr>) st"
    using ins empty pr by (auto simp: InsertChapter_def insert_row_ok row_def w_def)
  have w: "text_ok (wc_BodyMarkdown w) (wc_SourceIDs w) (wc_CitationUsages w) (wc_ReviewItems w)" "wc_WorkingCopyRevision w = 1" "wc_BaseChapterVersionID w = None"
    by (simp_all add: w_def text_ok_empty)
  have q: "ct_chapters (st_rest st') = ct_chapters (st_rest st) @ [row]" "ct_copies (st_rest st') = ct_copies (st_rest st) @ [w]" "ct_versions (st_rest st') = ct_versions (st_rest st)"
    by (simp_all add: st' set_chapters_def)
  then show "ct_versions (st_rest st') = ct_versions (st_rest st)" "\<exists>w. ct_copies (st_rest st') = ct_copies (st_rest st) @ [w]" by simp_all
  have vs: "versions_of (st_rest st') = versions_of (st_rest st)" by (intro ext) (simp add: versions_of_def q)
  then have cp: "copy_ok (st_rest st') = copy_ok (st_rest st)" by (intro ext) (simp only: copy_ok_def)
  note okD = chapters_okD [OF ok]
  have "cr_ID row \<notin> cv_ChapterID ` set (ct_versions (st_rest st))" using subsetD [OF okD(4)] new by blast
  then have "versions_of (st_rest st) (cr_ProjectID row) (cr_ID row) = []" by (force simp: versions_of_def filter_empty_conv)
  then have link: "linked None (versions_of (st_rest st) (cr_ProjectID row) (cr_ID row)) (cr_CurrentVersionID row)" by (simp add: row_def)
  have "copy_ok (st_rest st) w" using w by (simp add: copy_ok_def)
  then show "chapters_ok (st_rest st')" unfolding chapters_ok_def q vs cp using okD new key link by (auto simp: list_all_iff)
qed

definition unflagged :: "chapter_version \<Rightarrow> chapter_version" where
  "unflagged v = v\<lparr>cv_ConfirmationValid := False\<rparr>"

lemma linked_unflagged: "map unflagged vs = map unflagged vs' \<Longrightarrow> linked parent vs current = linked parent vs' current"
proof (induction vs arbitrary: parent vs')
  case (Cons v vs)
  then obtain v' vs'' where v': "vs' = v' # vs''" "unflagged v = unflagged v'" "map unflagged vs = map unflagged vs''" by auto
  then have "cv_ID v = cv_ID v'" "cv_ParentVersionID v = cv_ParentVersionID v'" by (cases v, cases v', simp add: unflagged_def)+
  then show ?case using Cons.IH v' by simp
qed simp

lemma list_all_via_map: "list_all P xs = list_all (\<lambda>b. b) (map P xs)"
  by (simp add: list_all_iff)

lemma unflagged_ok:
  assumes ok: "chapters_ok q" and q': "ct_chapters q' = ct_chapters q" "ct_copies q' = ct_copies q" "map unflagged (ct_versions q') = map unflagged (ct_versions q)"
  shows "chapters_ok q'"
proof -
  have f: "map f (ct_versions q') = map f (ct_versions q)" if "\<And>v. f (unflagged v) = f v" for f :: "chapter_version \<Rightarrow> 'x"
  proof -
    have "map f (map unflagged (ct_versions q')) = map f (map unflagged (ct_versions q))" using q'(3) by simp
    then show ?thesis using that by (simp add: comp_def)
  qed
  have of': "map unflagged (versions_of q' pid cid) = map unflagged (versions_of q pid cid)" for pid cid
  proof -
    have "map unflagged (filter P xs) = filter P (map unflagged xs)" if "\<And>v. P (unflagged v) = P v" for P and xs
      using that by (simp add: filter_map comp_def)
    then show ?thesis unfolding versions_of_def using q'(3) by (simp add: unflagged_def)
  qed
  have ids: "cv_ID ` set (versions_of q' pid cid) = cv_ID ` set (versions_of q pid cid)" for pid cid
  proof -
    have "cv_ID ` set vs = cv_ID ` set (map unflagged vs)" for vs by (simp add: image_image unflagged_def)
    then show ?thesis using of' by metis
  qed
  have copy: "copy_ok q' = copy_ok q" by (intro ext) (simp only: copy_ok_def ids)
  have link: "linked None (versions_of q' pid cid) current = linked None (versions_of q pid cid) current" for pid cid current by (rule linked_unflagged [OF of'])
  let ?t = "\<lambda>v. text_ok (cv_BodyMarkdown v) (cv_SourceIDs v) (cv_CitationUsages v) (cv_ReviewItems v)"
  have t: "list_all ?t (ct_versions q') = list_all ?t (ct_versions q)"
    using f [of ?t] list_all_via_map [of ?t "ct_versions q'"] list_all_via_map [of ?t "ct_versions q"] by (simp add: unflagged_def)
  have "map cv_ID (ct_versions q') = map cv_ID (ct_versions q)" "map cv_ChapterID (ct_versions q') = map cv_ChapterID (ct_versions q)"
    by (rule f, simp add: unflagged_def)+
  then have "cv_ChapterID ` set (ct_versions q') = cv_ChapterID ` set (ct_versions q)" by (metis list.set_map)
  then show ?thesis using ok \<open>map cv_ID (ct_versions q') = map cv_ID (ct_versions q)\<close> unfolding chapters_ok_def q' copy link t by simp
qed

lemma recovery_draft:
  assumes ok0: "chapters_ok (st_rest t0)" and ok: "chapters_ok (st_rest st)"
    and c0: "Chapter t0 pid cid = Inr c0" and w: "WorkingCopy t0 pid cid = Inr w" and r: "recovery_of ke pid cid p c0 w t0 = Inr (Some r)"
    and c: "Chapter st pid cid = Inr c" and base: "ch_CurrentVersionID c = wc_BaseChapterVersionID r" and save: "store_SaveWorkingCopy w r st = Inr st'"
  obtains w' where "draft_saved st pid cid w' r st'"
proof -
  have wt: "text_ok (wc_BodyMarkdown w) (wc_SourceIDs w) (wc_CitationUsages w) (wc_ReviewItems w)" "1 \<le> wc_WorkingCopyRevision w"
    using chapters_okD(6) [OF ok0] WorkingCopy_ok [OF w] by (auto simp: copy_ok_def)
  note ct = chapter_text_ok [OF ok0 c0]
  from r have key: "copy_key r = copy_key w" and rev: "wc_WorkingCopyRevision r = wc_WorkingCopyRevision w + 1"
    and t: "text_ok (wc_BodyMarkdown r) (wc_SourceIDs r) (wc_CitationUsages r) (wc_ReviewItems r)"
    using wt ct by (auto simp: recovery_of_def Let_def copy_key_def text_ok_rebased split: if_splits option.splits prod.splits)
  obtain w' where w': "w' \<in> set (ct_copies (st_rest st))" "copy_key w' = copy_key r" "wc_WorkingCopyRevision w' = wc_WorkingCopyRevision w"
      "wc_BaseChapterVersionID w' = wc_BaseChapterVersionID w" "wc_SpecRevision w' = wc_SpecRevision w" "st' = set_chapters (ct_copies_update (put_copy r)) st"
    by (rule SaveWorkingCopy_ok [OF chapters_okD(3) [OF ok] key save])
  have k: "copy_key r = (pid, cid)" using key WorkingCopy_ok [OF w] by simp
  have "WorkingCopy st pid cid = Inr w'" using WorkingCopy_iff [OF chapters_okD(3) [OF ok]] w' k by simp
  moreover have "copy_ok (st_rest st) r" using t wt(2) rev chapter_base [OF c] base k by (cases "wc_BaseChapterVersionID r") (auto simp: copy_ok_def copy_key_def)
  moreover have "store_SaveWorkingCopy w' r st = store_SaveWorkingCopy w r st"
    using w' key by (simp add: store_SaveWorkingCopy_def copy_key_def)
  ultimately have "draft_saved st pid cid w' r st'" using w' rev save by (simp add: draft_saved_def)
  then show thesis by (rule that)
qed

section \<open>The machine\<close>

text \<open>
  One committed transaction, as the chapters see it: a chapter created with its project, one of the six writes
  under a request that passed its checks, a draft carried over by a read that saw an earlier state, confirmations
  taken back, or anything that leaves chapters, versions and drafts alone.
\<close>

inductive chapter_step :: "('d, 'r) chapter_store \<Rightarrow> ('d, 'r) chapter_store \<Rightarrow> bool" where
  other: "same_chapters st st' \<Longrightarrow> chapter_step st st'"
| insert: "InsertChapter now c st = Inr st' \<Longrightarrow> ch_BodyMarkdown c = [] \<Longrightarrow> ch_SourceIDs c = [] \<Longrightarrow> ch_ReviewItems c = [] \<Longrightarrow> chapter_step st st'"
| save: "save_copy_write ke pid cid inp declared usages p st = Inr (out, st') \<Longrightarrow> ValidString (sw_BodyMarkdown inp) \<Longrightarrow>
    validateWorkingCopyBody (sw_BodyMarkdown inp) ids = Inr declared \<Longrightarrow> normalizeCitationUsages (sw_CitationUsages inp) declared = Inr usages \<Longrightarrow> chapter_step st st'"
| rewrite: "rewrite_write ke pid cid inp declared usages items p st = Inr (out, st') \<Longrightarrow> ValidString (sw_BodyMarkdown inp) \<Longrightarrow>
    validateWorkingCopyBody (sw_BodyMarkdown inp) ids = Inr declared \<Longrightarrow> normalizeCitationUsages (sw_CitationUsages inp) declared = Inr usages \<Longrightarrow> chapter_step st st'"
| restore: "restore_write ke pid cid rinp p st = Inr (out, st') \<Longrightarrow> chapter_step st st'"
| anchor: "anchor_write ke pid cid itemID ainp p st = Inr (out, st') \<Longrightarrow> chapter_step st st'"
| commit: "commit_write ke a pid cid cinp p st = Inr (out, st') \<Longrightarrow> keeps_chapters (ke_store ke) \<Longrightarrow> chapter_step st st'"
| save_chapter: "save_chapter_write ke a pid cid sinp declared usages p st = Inr (out, st') \<Longrightarrow> keeps_chapters (ke_store ke) \<Longrightarrow> ValidString (sc_BodyMarkdown sinp) \<Longrightarrow>
    validateWorkingCopyBody (sc_BodyMarkdown sinp) ids = Inr declared \<Longrightarrow> normalizeCitationUsages (sc_CitationUsages sinp) declared = Inr usages \<Longrightarrow> chapter_step st st'"
| recover: "chapters_ok (st_rest (t0 :: ('d, 'r) chapter_store)) \<Longrightarrow> Chapter t0 pid cid = Inr c0 \<Longrightarrow> WorkingCopy t0 pid cid = Inr w \<Longrightarrow> recovery_of ke pid cid p c0 w t0 = Inr (Some r) \<Longrightarrow>
    Chapter st pid cid = Inr c \<Longrightarrow> ch_CurrentVersionID c = wc_BaseChapterVersionID r \<Longrightarrow> store_SaveWorkingCopy w r st = Inr st' \<Longrightarrow> chapter_step st st'"
| unconfirm: "chapter_step st (InvalidateChapterConfirmations pid cids st)"

text \<open>Every step is one of four shapes.\<close>

definition step_shape :: "('d, 'r) chapter_store \<Rightarrow> ('d, 'r) chapter_store \<Rightarrow> bool" where
  "step_shape st st' \<longleftrightarrow>
     ct_chapters (st_rest st') = ct_chapters (st_rest st) \<and> ct_copies (st_rest st') = ct_copies (st_rest st) \<and> map unflagged (ct_versions (st_rest st')) = map unflagged (ct_versions (st_rest st)) \<or>
     chapters_ok (st_rest st') \<and> ct_versions (st_rest st') = ct_versions (st_rest st) \<and> (\<exists>w. ct_copies (st_rest st') = ct_copies (st_rest st) @ [w]) \<or>
     (\<exists>pid cid w nxt. draft_saved st pid cid w nxt st') \<or> (\<exists>pid cid c v w nxt. text_published st pid cid c v w nxt st')"

lemma step_shape_of:
  assumes "chapter_step st st'" "chapters_ok (st_rest st)"
  shows "step_shape st st'"
  using assms
proof (induction rule: chapter_step.induct)
  case (other st st')
  then show ?case by (simp add: step_shape_def same_chapters_def)
next
  case (insert now c st st')
  then show ?case using InsertChapter_ok [of st now c st'] by (simp add: step_shape_def)
next
  case (save ke pid cid inp declared usages p st out st' ids)
  then show ?case by (rule_tac save_copy_draft [of st inp ids declared usages ke pid cid p out st']) (auto simp: step_shape_def)
next
  case (rewrite ke pid cid inp declared usages items p st out st' ids)
  then show ?case by (rule_tac rewrite_draft [of st inp ids declared usages ke pid cid items p out st']) (auto simp: step_shape_def)
next
  case (restore ke pid cid rinp p st out st')
  then show ?case by (rule_tac restore_draft [of st ke pid cid rinp p out st']) (auto simp: step_shape_def)
next
  case (anchor ke pid cid itemID ainp p st out st')
  then show ?case by (rule_tac anchor_draft [of st ke pid cid itemID ainp p out st']) (auto simp: step_shape_def)
next
  case (commit ke a pid cid cinp p st out st')
  then show ?case by (rule_tac commit_published [of st ke a pid cid cinp p out st']) (auto simp: step_shape_def)
next
  case (save_chapter ke a pid cid sinp declared usages p st out st' ids)
  then show ?case by (rule_tac save_chapter_published [of st ke sinp ids declared usages a pid cid p out st']) (auto simp: step_shape_def)
next
  case (recover t0 pid cid c0 w ke p r st c st')
  then show ?case by (rule_tac recovery_draft [of t0 st pid cid c0 w ke p r c st']) (auto simp: step_shape_def)
next
  case (unconfirm st pid cids)
  have "unflagged (v\<lparr>cv_ConfirmationValid := False\<rparr>) = unflagged v" for v by (simp add: unflagged_def)
  then have "map unflagged (ct_versions (st_rest (InvalidateChapterConfirmations pid cids st))) = map unflagged (ct_versions (st_rest st))"
    by (simp add: InvalidateChapterConfirmations_def Let_def set_chapters_def)
  moreover have "ct_chapters (st_rest (InvalidateChapterConfirmations pid cids st)) = ct_chapters (st_rest st)"
    "ct_copies (st_rest (InvalidateChapterConfirmations pid cids st)) = ct_copies (st_rest st)"
    by (simp_all add: InvalidateChapterConfirmations_def Let_def set_chapters_def)
  ultimately show ?case unfolding step_shape_def by blast
qed

lemma shape_ok:
  assumes "step_shape st st'" "chapters_ok (st_rest st)"
  shows "chapters_ok (st_rest st')"
  using assms unfolding step_shape_def by (elim disjE) (auto intro: unflagged_ok dest: draft_saved_ok(2) text_published_ok)

theorem chapter_step_keeps: "chapter_step st st' \<Longrightarrow> chapters_ok (st_rest st) \<Longrightarrow> chapters_ok (st_rest st')"
  using step_shape_of shape_ok by blast

lemma steps_keep: "chapter_step\<^sup>*\<^sup>* st st' \<Longrightarrow> chapters_ok (st_rest st) \<Longrightarrow> chapters_ok (st_rest st')"
  by (induction rule: rtranclp_induct) (auto intro: chapter_step_keeps)

end
