(* ===== verification/Chapter_Demo.thy ===== *)
theory Chapter_Demo
  imports Chapter_Steps
begin

text \<open>
  A concrete project with one chapter, a published version and a draft in which a registered value was changed:
  the inputs at which the chapter properties are applied.
\<close>

definition demo_cprow :: project_row where
  "demo_cprow = \<lparr>pr_ID = ''p1'', pr_TenantID = 7, pr_Name = ''P'', pr_Status = ''active'', pr_ProjectVersion = 4, pr_SpecRevision = 2,
     pr_CurrentContextRevision = 1, pr_DeliveryStatus = ''NOT_READY'', pr_BaselineConfirmationID = [], pr_Spec = [(''dose'', ''10mg'')], pr_SpecFields = [],
     pr_TemplateID = ''t'', pr_TemplateVersion = ''1'', pr_TemplateCopyVersion = 0, pr_DiscardedAt = None, pr_CreatedAt = 0\<rparr>"

definition demo_cp :: "unit project" where
  "demo_cp = (demo_project [])\<lparr>p_Spec := [(''dose'', ''10mg'')]\<rparr>"

definition demo_item :: review_item where
  "demo_item = \<lparr>ri_ID = ''r1'', ri_Statement = ''check'', ri_OriginCandidateID = ''k1'',
     ri_Anchor = Some \<lparr>an_StartUTF16 = 0, an_EndUTF16 = 2, an_QuoteMarkdown = ''5m'', an_WorkingCopyRevision = 3, an_ChapterVersionID = Some ''v1'', an_Status = ''located''\<rparr>\<rparr>"

definition demo_version :: chapter_version where
  "demo_version = \<lparr>cv_CitationUsages = [], cv_ID = ''v1'', cv_ProjectID = ''p1'', cv_ChapterID = ''c1'', cv_ParentVersionID = None, cv_BodyMarkdown = ''10mg'',
     cv_SourceIDs = [], cv_ReviewItems = [], cv_SpecRevision = 2, cv_ConfirmationValid = False, cv_CreatedAt = 1\<rparr>"

definition demo_copy :: working_copy where
  "demo_copy = \<lparr>wc_CitationUsages = [], wc_ProjectID = ''p1'', wc_ChapterID = ''c1'', wc_BaseChapterVersionID = Some ''v1'', wc_SpecRevision = 2,
     wc_WorkingCopyRevision = 3, wc_BodyMarkdown = ''5mg'', wc_SourceIDs = [], wc_ReviewItems = [demo_item], wc_UpdatedAt = 2\<rparr>"

definition demo_tables :: "unit chapter_tables" where
  "demo_tables = \<lparr>ct_chapters = [\<lparr>cr_ID = ''c1'', cr_ProjectID = ''p1'', cr_SectionID = ''s1'', cr_Title = ''T'', cr_CurrentVersionID = Some ''v1''\<rparr>],
     ct_versions = [demo_version], ct_copies = [demo_copy], ct_confirmations = [], ct_rest = ()\<rparr>"

definition demo_cst :: "(unit, unit) chapter_store" where
  "demo_cst = \<lparr>st_tenants = [], st_projects = [demo_cprow], st_copies = [], st_members = [], st_perms = [], st_transfers = [], st_records = [], st_audits = [],
     st_ops = [], st_rest = demo_tables\<rparr>"

definition demo_cse :: "(unit, unit chapter_tables) store_env" where
  "demo_cse = \<lparr>se_validCopy = (\<lambda>_. True), se_saveBinding = (\<lambda>_ q. Inr q), se_provenance = (\<lambda>_ q. Inr q), se_chapter = (\<lambda>_ _ _. Inr ()),
     se_chapterIDs = (\<lambda>_ _. Inr [''c1'']), se_resourceExists = (\<lambda>_ _ _ _. Inr True), se_hasKey = (\<lambda>_ _ _. Inr False), se_machineKey = (\<lambda>_ _ _. Inr ()),
     se_keyRow = (\<lambda>_ _. Inl (Sentinel ErrNotFound))\<rparr>"

definition demo_ke :: "(unit, unit) chapter_env" where
  "demo_ke = \<lparr>ke_store = demo_cse, ke_now = 9, ke_newID = (\<lambda>i. if i = 0 then ''a1'' else ''v2''), ke_revalidate = (\<lambda>_ _ _ _ r. Inr r),
     ke_decodeCopy = (\<lambda>_. Inr demo_copy), ke_decodeCommitted = (\<lambda>_. Inl (Raw ''decode'')), ke_decodeChapter = (\<lambda>_. Inl (Raw ''decode''))\<rparr>"

definition demo_commit :: commit_input where
  "demo_commit = \<lparr>cw_ExpectedSpecRevision = 2, cw_ExpectedWorkingCopyRevision = 3, cw_ExpectedChapterVersionID = Some ''v1'',
     cw_ConditionChange = Some \<lparr>ds_DismissedFields = [''dose''], ds_Reason = ''typo''\<rparr>\<rparr>"

definition demo_chapter_ws :: "(unit, unit, unit) chapter_ws" where
  "demo_chapter_ws = \<lparr>
     we_view = (\<lambda>s. demo_view ''owner''), we_policy = CurrentPolicy, we_ops = st_ops, we_set_ops = (\<lambda>t s. s\<lparr>st_ops := t\<rparr>),
     we_zero = (demo_project [])\<lparr>p_ProjectVersion := 0\<rparr>, we_ctxErr = None, we_sched = (\<lambda>o' i. demo_attempt),
     we_marshalBody = (\<lambda>b. Inr ''body''), we_marshalValue = (\<lambda>v. Inr ''saved''), we_audit = (\<lambda>ctx a pid cap err s. Inr s),
     we_checkSources = (\<lambda>ctx a pid ids s. None), we_prepareCached = (\<lambda>ctx r i b s. Inr (ctx, False)),
     we_prepare = (\<lambda>ctx i pid b s. Inr ctx), we_inverse = (\<lambda>b. False), we_validate = (\<lambda>ctx s a p op. None),
     we_storePins = (\<lambda>ctx pid s. Inr s), we_reverseSources = (\<lambda>ctx v s. Inr s), we_provenance = (\<lambda>i r v s. Inr s),
     we_project = (\<lambda>ctx a op pid body s. Inr body), we_runtimeGate = (\<lambda>ctx s a p op. None),
     we_afterWrite = (\<lambda>ctx a p pid op tgt st el s. Inr s), we_observe = (\<lambda>ctx a pid op e el s. s)\<rparr>"

lemmas demo_chapter_defs = demo_cst_def demo_tables_def demo_version_def demo_copy_def demo_cprow_def demo_cp_def demo_project_def demo_ke_def demo_cse_def demo_commit_def

lemma demo_keeps: "keeps_chapters (ke_store demo_ke)"
proof -
  have "\<exists>r. q = q\<lparr>ct_rest := r\<rparr>" for q :: "unit chapter_tables" by (rule exI [of _ "ct_rest q"]) simp
  then show ?thesis by (simp add: keeps_chapters_def demo_ke_def demo_cse_def)
qed

lemma demo_trim: "trim_space ''10mg'' = ''10mg''" "trim_space ''5m'' = ''5m''" "trim_space ''typo'' = ''typo''"
  by (rule trim_space_visible, simp add: visible_ascii_def ncode_def)+

lemma demo_markers: "Validate_markers ''10mg'' = Inr ()" "IDs ''10mg'' = []" "Validate_markers ''5mg'' = Inr ()" "IDs ''5mg'' = []"
  by (simp_all add: Validate_markers_def IDs_def markerPattern_def marker_prefix_def prefix_count.simps(2))

lemma demo_anchor: "anchor_ok ''5mg'' demo_item"
  using demo_trim by (simp add: anchor_ok_def demo_item_def Valid_def ByteRange_def anchor_selection_def runes.simps ncode_def slice_def RuneLen16_def encode_rune_def)

lemma demo_texts: "text_ok ''10mg'' [] [] []" "text_ok ''5mg'' [] [] [demo_item]"
  using demo_anchor by (simp_all add: text_ok_def demo_markers ValidString_def runes.simps ncode_def)

lemma demo_chapters_ok: "chapters_ok (st_rest demo_cst)"
  using demo_texts by (simp add: chapters_ok_def copy_ok_def versions_of_def demo_chapter_defs)

lemma demo_read:
  "WorkingCopy demo_cst ''p1'' ''c1'' = Inr demo_copy"
  "Chapter demo_cst ''p1'' ''c1'' = Inr \<lparr>ch_ID = ''c1'', ch_ProjectID = ''p1'', ch_SectionID = ''s1'', ch_Title = ''T'', ch_CurrentVersionID = Some ''v1'',
     ch_BodyMarkdown = ''10mg'', ch_SourceIDs = [], ch_CitationUsages = [], ch_CitationStatuses = [], ch_ReviewItems = [], ch_ConfirmationValid = False\<rparr>"
  by (simp_all add: WorkingCopy_def Chapter_def chapterView_def storageError_def demo_chapter_defs)

lemma demo_wording_gate: "reviewConditionChanges [(''dose'', ''10mg'')] ''10mg'' ''5mg'' (Some \<lparr>ds_DismissedFields = [''dose''], ds_Reason = ''typo''\<rparr>) = None"
  using demo_trim by (simp add: reviewConditionChanges_def suspectedConditionChanges_def suspectedConditionChangeFields_def Let_def contains_def)

lemma demo_committed:
  obtains out st' c' w' where "commit_write demo_ke (plain_actor 7 ''bob'') ''p1'' ''c1'' demo_commit demo_cp demo_cst = Inr (out, st')"
    "Chapter st' ''p1'' ''c1'' = Inr c'" "ch_CurrentVersionID c' = Some ''v2''"
    "WorkingCopy st' ''p1'' ''c1'' = Inr w'" "wc_BaseChapterVersionID w' = Some ''v2''" "wc_SpecRevision w' = 2" "wc_WorkingCopyRevision w' = 4"
proof -
  have "\<exists>out st' c' w'. commit_write demo_ke (plain_actor 7 ''bob'') ''p1'' ''c1'' demo_commit demo_cp demo_cst = Inr (out, st') \<and>
    Chapter st' ''p1'' ''c1'' = Inr c' \<and> ch_CurrentVersionID c' = Some ''v2'' \<and>
    WorkingCopy st' ''p1'' ''c1'' = Inr w' \<and> wc_BaseChapterVersionID w' = Some ''v2'' \<and> wc_SpecRevision w' = 2 \<and> wc_WorkingCopyRevision w' = 4"
    unfolding commit_write_def demo_read
    by (simp add: copy_current_def sameVersion_def demo_wording_gate auditConditionDismissal_def RecordAudit_def insert_row_def UpdateProject_def update_rows_def affected_def
      persistTemplateCopyTransition_def project_columns_def AppendChapter_def revalidate_def store_SaveWorkingCopy_def set_chapters_def answered_def Let_def
      markChapterUnconfirmed_def plain_actor_def demo_chapter_defs Chapter_def WorkingCopy_def chapterView_def storageError_def)
  then show thesis using that by blast
qed

text \<open>
  \<^verbatim>\<open>SaveChapter\<close> names the version of the chapter only: a draft with edits that no version holds is replaced, and the
  registered value leaves the chapter without a dismissal.
\<close>

theorem save_chapter_overwrites_draft:
  "\<exists>out st' c' w'. save_chapter_write demo_ke (plain_actor 7 ''bob'') ''p1'' ''c1'' \<lparr>sc_ExpectedChapterVersionID = Some ''v1'', sc_ExpectedSpecRevision = 2,
       sc_BodyMarkdown = ''new'', sc_SourceIDs = Some [], sc_CitationUsages = None\<rparr> [] [] demo_cp demo_cst = Inr (out, st') \<and>
     Chapter st' ''p1'' ''c1'' = Inr c' \<and> ch_BodyMarkdown c' = ''new'' \<and> WorkingCopy st' ''p1'' ''c1'' = Inr w' \<and> wc_BodyMarkdown w' = ''new'' \<and>
     map cv_BodyMarkdown (ct_versions (st_rest st')) = [''10mg'', ''new''] \<and> st_audits st' = []"
  unfolding save_chapter_write_def demo_read
  by (simp add: sameVersion_def insert_row_def UpdateProject_def update_rows_def affected_def next_usages_def completeCitationUsages_def rebaseReviewItems_def
      persistTemplateCopyTransition_def project_columns_def AppendChapter_def revalidate_def store_SaveWorkingCopy_def set_chapters_def answered_def Let_def
      markChapterUnconfirmed_def plain_actor_def demo_chapter_defs Chapter_def WorkingCopy_def chapterView_def storageError_def)

end
