(* ===== verification/Chapter_Properties.thy ===== *)
theory Chapter_Properties
  imports Chapter_Demo
begin

text \<open>
  What the chapter writes promise: no draft is overwritten unseen, a commit publishes exactly the draft and forgets
  no version, a version can be restored, and no registered condition leaves a text without a decision.
\<close>

section \<open>What steps keep\<close>

lemma put_copy_read:
  assumes "distinct (map copy_key tab)" "w \<in> set tab" "copy_key w = copy_key nxt"
  shows "nxt \<in> set (put_copy nxt tab)"
  using assms by (force simp: put_copy_def)

lemma copies_after_put:
  assumes ok: "chapters_ok (st_rest st)" "chapters_ok (st_rest st')" and tab: "ct_copies (st_rest st') = put_copy nxt (ct_copies (st_rest st))"
    and w: "WorkingCopy st pid cid = Inr w" "copy_key nxt = copy_key w"
  shows "WorkingCopy st' pid cid = Inr nxt" "(pid', cid') \<noteq> (pid, cid) \<Longrightarrow> WorkingCopy st pid' cid' = Inr u \<Longrightarrow> WorkingCopy st' pid' cid' = Inr u"
proof -
  note d = chapters_okD(3) [OF ok(1)] chapters_okD(3) [OF ok(2)]
  have wi: "w \<in> set (ct_copies (st_rest st))" "copy_key w = (pid, cid)" using WorkingCopy_ok [OF w(1)] by simp_all
  show "WorkingCopy st' pid cid = Inr nxt" unfolding WorkingCopy_iff [OF d(2)] tab using put_copy_read [OF d(1) wi(1)] w(2) wi(2) by simp
  assume "(pid', cid') \<noteq> (pid, cid)" "WorkingCopy st pid' cid' = Inr u"
  then have u: "u \<in> set (ct_copies (st_rest st))" "copy_key u = (pid', cid')" "(pid', cid') \<noteq> (pid, cid)" using WorkingCopy_ok by blast+
  then have "copy_key u \<noteq> copy_key nxt" using w(2) wi(2) by simp
  note u = u(1,2) this
  then show "WorkingCopy st' pid' cid' = Inr u" unfolding WorkingCopy_iff [OF d(2)] tab using u by (force simp: put_copy_def)
qed

lemma revision_step:
  assumes step: "chapter_step st st'" and ok: "chapters_ok (st_rest st)" and w: "WorkingCopy st pid cid = Inr w"
  shows "\<exists>w'. WorkingCopy st' pid cid = Inr w' \<and> wc_WorkingCopyRevision w \<le> wc_WorkingCopyRevision w'"
proof -
  have ok': "chapters_ok (st_rest st')" by (rule chapter_step_keeps [OF step ok])
  note read = WorkingCopy_iff [OF chapters_okD(3) [OF ok']] and old = WorkingCopy_ok [OF w]
  have put: ?thesis if tab: "ct_copies (st_rest st') = put_copy nxt (ct_copies (st_rest st))" and u: "WorkingCopy st p c = Inr u" "copy_key nxt = copy_key u"
      and rev: "wc_WorkingCopyRevision nxt = wc_WorkingCopyRevision u + 1" for p c u nxt
  proof (cases "(p, c) = (pid, cid)")
    case True
    then have "u = w" using u(1) w by simp
    then show ?thesis using copies_after_put(1) [OF ok ok' tab u] True rev by simp
  next
    case False
    then show ?thesis using copies_after_put(2) [OF ok ok' tab u, of pid cid w] w by auto
  qed
  from step_shape_of [OF step ok, unfolded step_shape_def] show ?thesis
  proof (elim disjE exE conjE)
    assume "ct_copies (st_rest st') = ct_copies (st_rest st)"
    then show ?thesis using read old by auto
  next
    fix x assume "ct_copies (st_rest st') = ct_copies (st_rest st) @ [x]"
    then show ?thesis using read old by auto
  next
    fix p c u nxt assume d: "draft_saved st p c u nxt st'"
    show ?thesis by (rule put [of nxt p c u]) (use d draft_saved_ok(1) [OF ok d] in \<open>simp_all add: draft_saved_def set_chapters_def\<close>)
  next
    fix p c ch v u nxt assume "text_published st p c ch v u nxt st'"
    then show ?thesis by (intro put [of nxt p c u]) (simp_all add: text_published_def)
  qed
qed

lemma revision_steps:
  assumes "chapter_step\<^sup>*\<^sup>* st st'" and ok: "chapters_ok (st_rest st)" and w: "WorkingCopy st pid cid = Inr w"
  shows "\<exists>w'. WorkingCopy st' pid cid = Inr w' \<and> wc_WorkingCopyRevision w \<le> wc_WorkingCopyRevision w'"
  using assms(1)
proof (induction rule: rtranclp_induct)
  case base
  then show ?case using w by auto
next
  case (step t u)
  then obtain w1 where w1: "WorkingCopy t pid cid = Inr w1" "wc_WorkingCopyRevision w \<le> wc_WorkingCopyRevision w1" by blast
  obtain w2 where "WorkingCopy u pid cid = Inr w2" "wc_WorkingCopyRevision w1 \<le> wc_WorkingCopyRevision w2"
    using revision_step [OF step(2) steps_keep [OF step(1) ok] w1(1)] by blast
  then show ?case using w1(2) by fastforce
qed

lemma unflagged_texts:
  assumes "unflagged x = unflagged y"
  shows "cv_ID x = cv_ID y" "cv_ProjectID x = cv_ProjectID y" "cv_ChapterID x = cv_ChapterID y" "cv_BodyMarkdown x = cv_BodyMarkdown y"
    "cv_SourceIDs x = cv_SourceIDs y" "cv_CitationUsages x = cv_CitationUsages y" "cv_ReviewItems x = cv_ReviewItems y"
  using arg_cong [OF assms, of cv_ID] arg_cong [OF assms, of cv_ProjectID] arg_cong [OF assms, of cv_ChapterID] arg_cong [OF assms, of cv_BodyMarkdown]
    arg_cong [OF assms, of cv_SourceIDs] arg_cong [OF assms, of cv_CitationUsages] arg_cong [OF assms, of cv_ReviewItems]
  by (simp_all add: unflagged_def)

lemma versions_step:
  assumes "chapter_step st st'" "chapters_ok (st_rest st)"
  shows "\<exists>new. map unflagged (ct_versions (st_rest st')) = map unflagged (ct_versions (st_rest st)) @ new"
  using step_shape_of [OF assms] unfolding step_shape_def
  by (elim disjE exE) (auto simp: text_published_def dest!: draft_saved_ok(1) [OF assms(2)], simp add: set_chapters_def)

lemma versions_steps:
  assumes "chapter_step\<^sup>*\<^sup>* st st'" "chapters_ok (st_rest st)"
  shows "\<exists>new. map unflagged (ct_versions (st_rest st')) = map unflagged (ct_versions (st_rest st)) @ new"
  using assms(1)
proof (induction rule: rtranclp_induct)
  case (step t u)
  then show ?case using versions_step [OF step(2) steps_keep [OF step(1) assms(2)]] by (metis append.assoc)
qed simp

lemma version_survives:
  assumes "chapter_step\<^sup>*\<^sup>* st st'" "chapters_ok (st_rest st)" "v \<in> set (ct_versions (st_rest st))"
  shows "\<exists>v'. v' \<in> set (ct_versions (st_rest st')) \<and> unflagged v' = unflagged v"
proof -
  have "unflagged v \<in> set (map unflagged (ct_versions (st_rest st)))" using assms(3) by simp
  moreover obtain new where "map unflagged (ct_versions (st_rest st')) = map unflagged (ct_versions (st_rest st)) @ new"
    using versions_steps [OF assms(1,2)] by blast
  ultimately have "unflagged v \<in> set (map unflagged (ct_versions (st_rest st')))" by (metis Un_iff set_append)
  then show ?thesis by auto
qed

lemma version_found:
  assumes "chapters_ok (st_rest st)"
  shows "ChapterVersion st pid cid vid = Inr v \<longleftrightarrow> v \<in> set (ct_versions (st_rest st)) \<and> cv_ID v = vid \<and> cv_ProjectID v = pid \<and> cv_ChapterID v = cid"
proof
  assume v: "v \<in> set (ct_versions (st_rest st)) \<and> cv_ID v = vid \<and> cv_ProjectID v = pid \<and> cv_ChapterID v = cid"
  let ?P = "\<lambda>v. cv_ID v = vid \<and> cv_ProjectID v = pid \<and> cv_ChapterID v = cid"
  obtain v' where f: "find ?P (ct_versions (st_rest st)) = Some v'" using v find_None_iff' [of ?P "ct_versions (st_rest st)"] by (cases "find ?P (ct_versions (st_rest st))") auto
  then have "v' \<in> set (ct_versions (st_rest st))" "cv_ID v' = cv_ID v" using v by (auto dest: find_Some_in)
  then have "v' = v" using v chapters_okD(2) [OF assms] by (metis distinct_map inj_onD)
  then show "ChapterVersion st pid cid vid = Inr v" using f by (simp add: ChapterVersion_def storageError_ok)
qed (auto simp: ChapterVersion_def storageError_ok dest: find_Some_in)

section \<open>One write per revision\<close>

text \<open>The writes that name the revision of the draft they were prepared on.\<close>

datatype draft_call = SaveDraft save_copy_input "string list" "citation_usage list" | RewriteDraft save_copy_input "string list" "citation_usage list" "review_item list"
  | RestoreDraft restore_input | AnchorDraft string anchor_input | CommitDraft actor commit_input

fun run_draft :: "('d, 'r) chapter_env \<Rightarrow> string \<Rightarrow> string \<Rightarrow> draft_call \<Rightarrow> ('d, 'r) chapter_write" where
  "run_draft ke pid cid (SaveDraft inp declared usages) = save_copy_write ke pid cid inp declared usages"
| "run_draft ke pid cid (RewriteDraft inp declared usages items) = rewrite_write ke pid cid inp declared usages items"
| "run_draft ke pid cid (RestoreDraft inp) = restore_write ke pid cid inp"
| "run_draft ke pid cid (AnchorDraft itemID inp) = anchor_write ke pid cid itemID inp"
| "run_draft ke pid cid (CommitDraft a inp) = commit_write ke a pid cid inp"

fun draft_revision :: "draft_call \<Rightarrow> int" where
  "draft_revision (SaveDraft inp _ _) = sw_ExpectedWorkingCopyRevision inp"
| "draft_revision (RewriteDraft inp _ _ _) = sw_ExpectedWorkingCopyRevision inp"
| "draft_revision (RestoreDraft inp) = rw_ExpectedWorkingCopyRevision inp"
| "draft_revision (AnchorDraft _ inp) = ai_ExpectedWorkingCopyRevision inp"
| "draft_revision (CommitDraft _ inp) = cw_ExpectedWorkingCopyRevision inp"

text \<open>The request checks of the handlers; a body is valid UTF-8 because the JSON decoder made it.\<close>

fun draft_checked :: "draft_call \<Rightarrow> bool" where
  "draft_checked (SaveDraft inp declared usages) \<longleftrightarrow> ValidString (sw_BodyMarkdown inp) \<and>
     validateWorkingCopyBody (sw_BodyMarkdown inp) (sw_SourceIDs inp) = Inr declared \<and> normalizeCitationUsages (sw_CitationUsages inp) declared = Inr usages"
| "draft_checked (RewriteDraft inp declared usages items) \<longleftrightarrow> ValidString (sw_BodyMarkdown inp) \<and>
     validateWorkingCopyBody (sw_BodyMarkdown inp) (sw_SourceIDs inp) = Inr declared \<and> normalizeCitationUsages (sw_CitationUsages inp) declared = Inr usages"
| "draft_checked _ \<longleftrightarrow> True"

lemma draft_sees_revision:
  "run_draft ke pid cid call p st = Inr (out, st') \<Longrightarrow> \<exists>w. WorkingCopy st pid cid = Inr w \<and> wc_WorkingCopyRevision w = draft_revision call"
  by (cases call) (auto simp: save_copy_write_def rewrite_write_def restore_write_def anchor_write_def commit_write_def copy_current_def
      split: if_splits option.splits)

lemma draft_advances:
  assumes ok: "chapters_ok (st_rest st)" and keeps: "keeps_chapters (ke_store ke)" and "draft_checked call" and run: "run_draft ke pid cid call p st = Inr (out, st')"
  shows "chapter_step st st'" "\<exists>w'. WorkingCopy st' pid cid = Inr w' \<and> wc_WorkingCopyRevision w' = draft_revision call + 1"
proof -
  show step: "chapter_step st st'" using assms
    by (cases call) (auto intro: chapter_step.save chapter_step.rewrite chapter_step.restore chapter_step.anchor chapter_step.commit)
  note ok' = chapter_step_keeps [OF step ok]
  have saved: "\<exists>w'. WorkingCopy st' pid cid = Inr w' \<and> wc_WorkingCopyRevision w' = wc_WorkingCopyRevision w + 1" if d: "draft_saved st pid cid w nxt st'" for w nxt
    using d draft_saved_ok(1) [OF ok d] copies_after_put(1) [OF ok ok', of nxt pid cid w] by (simp add: draft_saved_def set_chapters_def)
  have published: "\<exists>w'. WorkingCopy st' pid cid = Inr w' \<and> wc_WorkingCopyRevision w' = wc_WorkingCopyRevision w + 1" if "text_published st pid cid c v w nxt st'" for c v w nxt
    using that copies_after_put(1) [OF ok ok', of nxt pid cid w] by (simp add: text_published_def)
  obtain w where w: "WorkingCopy st pid cid = Inr w" "wc_WorkingCopyRevision w = draft_revision call" using draft_sees_revision [OF run] by blast
  have "(\<exists>u nxt. draft_saved st pid cid u nxt st') \<or> (\<exists>c v u nxt. text_published st pid cid c v u nxt st')"
  proof (cases call)
    case (SaveDraft inp declared usages)
    show ?thesis by (rule save_copy_draft [OF ok, of inp "sw_SourceIDs inp" declared usages ke pid cid p out st']) (use assms SaveDraft in auto)
  next
    case (RewriteDraft inp declared usages items)
    show ?thesis by (rule rewrite_draft [OF ok, of inp "sw_SourceIDs inp" declared usages ke pid cid items p out st']) (use assms RewriteDraft in auto)
  next
    case (RestoreDraft inp)
    show ?thesis by (rule restore_draft [OF ok, of ke pid cid inp p out st']) (use run RestoreDraft in auto)
  next
    case (AnchorDraft itemID inp)
    show ?thesis by (rule anchor_draft [OF ok, of ke pid cid itemID inp p out st']) (use run AnchorDraft in auto)
  next
    case (CommitDraft a inp)
    show ?thesis by (rule commit_published [OF ok keeps, of a pid cid inp p out st']) (use run CommitDraft in auto)
  qed
  then have "\<exists>u. WorkingCopy st pid cid = Inr u \<and> (\<exists>w'. WorkingCopy st' pid cid = Inr w' \<and> wc_WorkingCopyRevision w' = wc_WorkingCopyRevision u + 1)"
  proof (elim disjE exE)
    fix u nxt assume "draft_saved st pid cid u nxt st'"
    from saved [OF this] this show ?thesis unfolding draft_saved_def by blast
  next
    fix c v u nxt assume "text_published st pid cid c v u nxt st'"
    from published [OF this] this show ?thesis unfolding text_published_def by blast
  qed
  then show "\<exists>w'. WorkingCopy st' pid cid = Inr w' \<and> wc_WorkingCopyRevision w' = draft_revision call + 1" using w by auto
qed

text \<open>
  C20. No draft is overwritten unseen.  Saving, rewriting, restoring, anchoring and committing all name the
  revision of the draft they were prepared on.  Once one of them has succeeded, no write prepared on the same
  or an earlier revision of that draft succeeds, whatever happened to the chapters in between.
\<close>

theorem one_write_per_revision:
  assumes "chapters_ok (st_rest st)" and "keeps_chapters (ke_store ke)" and "draft_checked first" and "run_draft ke pid cid first p st = Inr (out, st1)"
    and "chapter_step\<^sup>*\<^sup>* st1 st2" and "draft_revision second \<le> draft_revision first"
  shows "\<exists>e. run_draft ke' pid cid second p' st2 = Inl e"
proof (rule ccontr)
  assume "\<nexists>e. run_draft ke' pid cid second p' st2 = Inl e"
  then obtain out2 st3 where "run_draft ke' pid cid second p' st2 = Inr (out2, st3)" by (metis sum.exhaust surj_pair)
  then obtain w2 where w2: "WorkingCopy st2 pid cid = Inr w2" "wc_WorkingCopyRevision w2 = draft_revision second" using draft_sees_revision by blast
  obtain w1 where w1: "WorkingCopy st1 pid cid = Inr w1" "wc_WorkingCopyRevision w1 = draft_revision first + 1" using draft_advances [OF assms(1-4)] by blast
  have "chapters_ok (st_rest st1)" using chapter_step_keeps [OF draft_advances(1) [OF assms(1-4)] assms(1)] .
  from revision_steps [OF assms(5) this w1(1)] show False using w1 w2 assms(6) by auto
qed

theorem one_write_per_revision_witness:
  "\<exists>out st1 e. run_draft demo_ke ''p1'' ''c1'' (CommitDraft (plain_actor 7 ''bob'') demo_commit) demo_cp demo_cst = Inr (out, st1) \<and>
     run_draft demo_ke ''p1'' ''c1'' (RestoreDraft \<lparr>rw_ChapterVersionID = ''v1'', rw_ExpectedSpecRevision = 2, rw_ExpectedWorkingCopyRevision = 3,
       rw_ExpectedChapterVersionID = Some ''v1''\<rparr>) demo_cp st1 = Inl e"
proof (rule demo_committed)
  fix out st1
  let ?second = "RestoreDraft \<lparr>rw_ChapterVersionID = ''v1'', rw_ExpectedSpecRevision = 2, rw_ExpectedWorkingCopyRevision = 3, rw_ExpectedChapterVersionID = Some ''v1''\<rparr>"
  assume "commit_write demo_ke (plain_actor 7 ''bob'') ''p1'' ''c1'' demo_commit demo_cp demo_cst = Inr (out, st1)"
  then have run: "run_draft demo_ke ''p1'' ''c1'' (CommitDraft (plain_actor 7 ''bob'') demo_commit) demo_cp demo_cst = Inr (out, st1)" by simp
  have "\<exists>e. run_draft demo_ke ''p1'' ''c1'' ?second demo_cp st1 = Inl e"
    by (rule one_write_per_revision [OF demo_chapters_ok demo_keeps _ run rtranclp.rtrancl_refl]) (simp_all add: demo_commit_def)
  with run show ?thesis by blast
qed

section \<open>Commits\<close>

lemma commit_project_ids:
  assumes "commit_write ke a pid cid inp p st = Inr (out, st')"
  shows "map pr_ID (st_projects st') = map pr_ID (st_projects st)"
proof -
  from assms obtain st0 st1 st2 st3 c nxtc w nxt body where
      st0: "(case cw_ConditionChange inp of None \<Rightarrow> Inr st | Some d \<Rightarrow> auditConditionDismissal ke a pid cid d st) = Inr st0"
    and st1: "UpdateProject (ke_store ke) (TenantID a) p (p\<lparr>p_ProjectVersion := p_ProjectVersion p + 1\<rparr>) st0 = Inr st1"
    and st2: "AppendChapter (ke_now ke) c nxtc (p_SpecRevision p) st1 = Inr st2" and st3: "revalidate ke pid cid body st2 = Inr st3"
    and st4: "store_SaveWorkingCopy w nxt st3 = Inr st'"
    by (auto simp: commit_write_def Let_def answered_def split: if_splits option.splits)
  have "map pr_ID (st_projects st1) = map pr_ID (st_projects st0)"
    by (rule UpdateProject_ok [OF st1]) (simp add: project_columns_def comp_def)
  moreover have "st_projects st0 = st_projects st" using st0 by (auto simp: auditConditionDismissal_def RecordAudit_def split: option.splits)
  moreover have "st_projects st' = st_projects st1"
    using st2 st3 st4 by (auto simp: AppendChapter_def Let_def revalidate_def store_SaveWorkingCopy_def set_chapters_def)
  ultimately show ?thesis by simp
qed

lemma published_chapter:
  assumes ok: "chapters_ok (st_rest st)" and pub: "text_published st pid cid c v w nxt st'" and ids: "map pr_ID (st_projects st') = map pr_ID (st_projects st)"
    and flag: "\<not> cv_ConfirmationValid v"
  shows "\<exists>c'. Chapter st' pid cid = Inr c' \<and> ch_CurrentVersionID c' = Some (cv_ID v) \<and> ch_BodyMarkdown c' = cv_BodyMarkdown v \<and> ch_SourceIDs c' = cv_SourceIDs v \<and>
     ch_CitationUsages c' = cv_CitationUsages v \<and> ch_ReviewItems c' = cv_ReviewItems v \<and> \<not> ch_ConfirmationValid c'"
proof -
  have ok': "chapters_ok (st_rest st')" by (rule text_published_ok [OF ok pub])
  from pub have v: "cv_ProjectID v = pid" "cv_ChapterID v = cid" and tabs: "ct_versions (st_rest st') = ct_versions (st_rest st) @ [v]"
      "ct_chapters (st_rest st') = ct_chapters (append_tables v (st_rest st))" and c: "Chapter st pid cid = Inr c" by (simp_all add: text_published_def)
  from c obtain row project where row: "find (\<lambda>r. cr_ID r = cid \<and> cr_ProjectID r = pid) (ct_chapters (st_rest st)) = Some row"
    and pr: "find (\<lambda>r. pr_ID r = pid) (st_projects st) = Some project" by (auto simp: Chapter_def storageError_ok)
  have "pid \<in> set (map pr_ID (st_projects st'))" unfolding ids using find_Some_in [OF pr] by (metis image_eqI list.set_map)
  then obtain project' where pr': "find (\<lambda>r. pr_ID r = pid) (st_projects st') = Some project'"
    using find_None_iff' [of "\<lambda>r. pr_ID r = pid" "st_projects st'"] by (cases "find (\<lambda>r. pr_ID r = pid) (st_projects st')") auto
  have r: "row \<in> set (ct_chapters (st_rest st))" "cr_ID row = cid" "cr_ProjectID row = pid" using find_Some_in [OF row] by simp_all
  then have "row\<lparr>cr_CurrentVersionID := Some (cv_ID v)\<rparr> \<in> set (ct_chapters (st_rest st'))" using v tabs by (force simp: append_tables_def)
  moreover obtain row' where row': "find (\<lambda>r. cr_ID r = cid \<and> cr_ProjectID r = pid) (ct_chapters (st_rest st')) = Some row'"
    using calculation r find_None_iff' [of "\<lambda>r. cr_ID r = cid \<and> cr_ProjectID r = pid" "ct_chapters (st_rest st')"]
    by (cases "find (\<lambda>r. cr_ID r = cid \<and> cr_ProjectID r = pid) (ct_chapters (st_rest st'))") auto
  moreover have "row' \<in> set (ct_chapters (st_rest st'))" "cr_ID row' = cid" using find_Some_in [OF row'] by simp_all
  moreover have "inj_on cr_ID (set (ct_chapters (st_rest st')))" using chapters_okD(1) [OF ok'] by (simp add: distinct_map)
  ultimately have eq: "row' = row\<lparr>cr_CurrentVersionID := Some (cv_ID v)\<rparr>" using r(2) by (auto intro: inj_onD [of cr_ID])
  have "v \<in> set (ct_versions (st_rest st'))" using tabs by simp
  then have "ChapterVersion st' pid cid (cv_ID v) = Inr v" unfolding version_found [OF ok'] using v by simp
  then have f: "find (\<lambda>x. cv_ID x = cv_ID v \<and> cv_ProjectID x = pid \<and> cv_ChapterID x = cid) (ct_versions (st_rest st')) = Some v"
    by (simp add: ChapterVersion_def storageError_ok)
  show ?thesis using row' pr' f flag r by (simp add: Chapter_def storageError_def chapterView_def Let_def eq)
qed

text \<open>
  C21. A commit publishes the draft and nothing else.  The chapter it changes and the draft it publishes are the
  ones the caller named; afterwards the chapter reads as the draft did, at a new version that is not confirmed
  and whose parent is the version the caller saw; the draft stands on it at the next revision with its text
  unchanged; and every version that could be read before can be read unchanged.
\<close>

theorem commit_publishes_draft:
  assumes "chapters_ok (st_rest st)" and "keeps_chapters (ke_store ke)" and "commit_write ke a pid cid inp p st = Inr (out, st')"
  shows "\<exists>w c' w' v. WorkingCopy st pid cid = Inr w \<and> wc_WorkingCopyRevision w = cw_ExpectedWorkingCopyRevision inp \<and>
     Chapter st' pid cid = Inr c' \<and> ch_CurrentVersionID c' = Some (ke_newID ke 1) \<and> ch_BodyMarkdown c' = wc_BodyMarkdown w \<and> ch_SourceIDs c' = wc_SourceIDs w \<and>
     ch_CitationUsages c' = wc_CitationUsages w \<and> map ri_ID (ch_ReviewItems c') = map ri_ID (wc_ReviewItems w) \<and> \<not> ch_ConfirmationValid c' \<and>
     ChapterVersion st' pid cid (ke_newID ke 1) = Inr v \<and> cv_ParentVersionID v = cw_ExpectedChapterVersionID inp \<and>
     WorkingCopy st' pid cid = Inr w' \<and> wc_BaseChapterVersionID w' = Some (ke_newID ke 1) \<and> wc_WorkingCopyRevision w' = wc_WorkingCopyRevision w + 1 \<and>
     wc_BodyMarkdown w' = wc_BodyMarkdown w \<and>
     (\<forall>pid' cid' vid u. ChapterVersion st pid' cid' vid = Inr u \<longrightarrow> ChapterVersion st' pid' cid' vid = Inr u)"
proof (rule commit_published [OF assms])
  fix c v w nxt
  assume pub: "text_published st pid cid c v w nxt st'" and rev: "wc_WorkingCopyRevision w = cw_ExpectedWorkingCopyRevision inp"
    and cur: "ch_CurrentVersionID c = cw_ExpectedChapterVersionID inp"
    and v: "cv_BodyMarkdown v = wc_BodyMarkdown w" "cv_SourceIDs v = wc_SourceIDs w" "cv_CitationUsages v = wc_CitationUsages w" "\<not> cv_ConfirmationValid v"
      "cv_ReviewItems v = rebaseReviewItems (wc_BodyMarkdown w) (wc_BodyMarkdown w) (wc_ReviewItems w) (wc_WorkingCopyRevision w) (Some (cv_ID v))"
      "cv_ID v = ke_newID ke 1" and n: "wc_BodyMarkdown nxt = wc_BodyMarkdown w"
  note ok' = text_published_ok [OF assms(1) pub]
  from pub have p: "WorkingCopy st pid cid = Inr w" "cv_ProjectID v = pid" "cv_ChapterID v = cid" "cv_ParentVersionID v = ch_CurrentVersionID c" "copy_key nxt = copy_key w"
    "wc_WorkingCopyRevision nxt = wc_WorkingCopyRevision w + 1" "wc_BaseChapterVersionID nxt = Some (cv_ID v)"
    "ct_versions (st_rest st') = ct_versions (st_rest st) @ [v]" "ct_copies (st_rest st') = put_copy nxt (ct_copies (st_rest st))" by (simp_all add: text_published_def)
  have new: "ChapterVersion st' pid cid (ke_newID ke 1) = Inr v" unfolding version_found [OF ok'] using p v(6) by simp
  have copy: "WorkingCopy st' pid cid = Inr nxt" by (rule copies_after_put(1) [OF assms(1) ok' p(9,1,5)])
  have old: "ChapterVersion st' pid' cid' vid = Inr u" if "ChapterVersion st pid' cid' vid = Inr u" for pid' cid' vid u
    using that unfolding version_found [OF ok'] version_found [OF assms(1)] p(8) by simp
  obtain c' where c': "Chapter st' pid cid = Inr c'" "ch_CurrentVersionID c' = Some (cv_ID v)" "ch_BodyMarkdown c' = cv_BodyMarkdown v" "ch_SourceIDs c' = cv_SourceIDs v"
      "ch_CitationUsages c' = cv_CitationUsages v" "ch_ReviewItems c' = cv_ReviewItems v" "\<not> ch_ConfirmationValid c'"
    using published_chapter [OF assms(1) pub commit_project_ids [OF assms(3)] v(4)] by blast
  have items: "map ri_ID (ch_ReviewItems c') = map ri_ID (wc_ReviewItems w)" unfolding c'(6) v(5) by simp
  show ?thesis
    by (rule exI [of _ w], rule exI [of _ c'], rule exI [of _ nxt], rule exI [of _ v]) (use p rev cur v n new copy old c' items in simp)
qed

theorem commit_publishes_draft_witness:
  "\<exists>out st' c'. commit_write demo_ke (plain_actor 7 ''bob'') ''p1'' ''c1'' demo_commit demo_cp demo_cst = Inr (out, st') \<and>
     Chapter st' ''p1'' ''c1'' = Inr c' \<and> ch_CurrentVersionID c' = Some ''v2'' \<and> ch_BodyMarkdown c' = ''5mg''"
proof (rule demo_committed)
  fix out st'
  assume run: "commit_write demo_ke (plain_actor 7 ''bob'') ''p1'' ''c1'' demo_commit demo_cp demo_cst = Inr (out, st')"
  from commit_publishes_draft [OF demo_chapters_ok demo_keeps run] obtain w c' where
    "WorkingCopy demo_cst ''p1'' ''c1'' = Inr w" "Chapter st' ''p1'' ''c1'' = Inr c'" "ch_CurrentVersionID c' = Some (ke_newID demo_ke 1)" "ch_BodyMarkdown c' = wc_BodyMarkdown w"
    by blast
  moreover have "ke_newID demo_ke 1 = ''v2''" "wc_BodyMarkdown demo_copy = ''5mg''" by (simp_all add: demo_ke_def demo_copy_def)
  ultimately show ?thesis using run demo_read(1) by simp
qed

section \<open>Registered conditions\<close>

definition vanished :: "string \<Rightarrow> string \<Rightarrow> string \<Rightarrow> bool" where
  "vanished oldBody newBody raw \<longleftrightarrow> 4 \<le> rune_count (trim_space raw) \<and> contains oldBody (trim_space raw) \<and> \<not> contains newBody (trim_space raw)"

lemma suspected_fields:
  "set (suspectedConditionChangeFields (suspectedConditionChanges spec oldBody newBody)) = {field. \<exists>raw. (field, raw) \<in> set spec \<and> vanished oldBody newBody raw}"
  by (force simp: suspectedConditionChangeFields_def suspectedConditionChanges_def vanished_def conditionValueMinRunes_def)

lemma gate_passed:
  assumes "reviewConditionChanges spec oldBody newBody dismissal = None" and "(field, raw) \<in> set spec" "vanished oldBody newBody raw"
  obtains d where "dismissal = Some d" "trim_space (ds_Reason d) \<noteq> []"
    "set (ds_DismissedFields d) = {field. \<exists>raw. (field, raw) \<in> set spec \<and> vanished oldBody newBody raw}"
proof -
  let ?s = "suspectedConditionChanges spec oldBody newBody"
  have "?s \<noteq> []" using suspected_fields [of spec oldBody newBody] assms(2,3) by (auto simp: suspectedConditionChangeFields_def)
  then obtain d where d: "dismissal = Some d" "trim_space (ds_Reason d) \<noteq> []" "sort (ds_DismissedFields d) = suspectedConditionChangeFields ?s"
    using assms(1) by (auto simp: reviewConditionChanges_def Let_def split: option.splits if_splits)
  have "set (sort (ds_DismissedFields d)) = {field. \<exists>raw. (field, raw) \<in> set spec \<and> vanished oldBody newBody raw}" unfolding d(3) by (rule suspected_fields)
  then show thesis using that d(1,2) by simp
qed



section \<open>Restoring\<close>

text \<open>A review item as its reader sees it: the revision and version its anchor was last carried to are bookkeeping.\<close>

definition placed :: "review_item \<Rightarrow> review_item" where
  "placed i = i\<lparr>ri_Anchor := map_option (\<lambda>a. a\<lparr>an_WorkingCopyRevision := 0, an_ChapterVersionID := None\<rparr>) (ri_Anchor i)\<rparr>"

lemma placed_rebased:
  assumes "anchor_ok body i"
  shows "placed (i\<lparr>ri_Anchor := Rebase body body (ri_Anchor i) revision version\<rparr>) = placed i"
proof (cases "ri_Anchor i")
  case None
  then show ?thesis by (simp add: placed_def Rebase_def)
next
  case (Some a)
  then have "an_Status a = ''stale'' \<or> an_Status a = ''located'' \<and> Valid body (anchor_selection a)" using assms by (simp add: anchor_ok_def)
  then show ?thesis using Some by (cases a) (auto simp: placed_def Rebase_def Let_def)
qed

lemma placed_items: "list_all (anchor_ok body) items \<Longrightarrow> map placed (rebaseReviewItems body body items revision version) = map placed items"
  by (simp add: rebaseReviewItems_def list_all_iff placed_rebased)

lemma save_read_copy:
  assumes ok: "chapters_ok (st_rest st)" and w: "WorkingCopy st pid cid = Inr w"
  obtains st' where "store_SaveWorkingCopy w nxt st = Inr st'"
proof -
  let ?sel = "\<lambda>x. wc_ProjectID x = wc_ProjectID w \<and> wc_ChapterID x = wc_ChapterID w \<and> wc_SpecRevision x = wc_SpecRevision w \<and>
    wc_WorkingCopyRevision x = wc_WorkingCopyRevision w \<and> wc_BaseChapterVersionID x = wc_BaseChapterVersionID w"
  have d: "distinct (map copy_key (ct_copies (st_rest st)))" and i: "w \<in> set (ct_copies (st_rest st))" using chapters_okD(3) [OF ok] WorkingCopy_ok [OF w] by simp_all
  have "?sel x \<longleftrightarrow> x = w" if "x \<in> set (ct_copies (st_rest st))" for x
  proof
    assume "?sel x"
    then have "copy_key x = copy_key w" by (simp add: copy_key_def)
    then show "x = w" using d i that by (auto simp: distinct_map dest: inj_onD)
  qed simp
  then have "filter ?sel (ct_copies (st_rest st)) = filter (\<lambda>x. x = w) (ct_copies (st_rest st))" by (rule filter_cong [OF refl])
  moreover have "length (filter (\<lambda>x. x = w) xs) = 1" if "distinct xs" "w \<in> set xs" for xs using that by (induction xs) (auto simp: filter_empty_conv)
  ultimately have "length (filter ?sel (ct_copies (st_rest st))) = 1" using d i by (simp add: distinct_map)
  then show thesis using that by (simp add: store_SaveWorkingCopy_def affected_def update_rows_def)
qed

text \<open>
  C23. What was committed can be restored.  After a commit, and after anything else that has happened to the
  chapters since, restoring the committed version on the current draft succeeds, and the draft then reads as the
  committed one did: the same body, sources and citation usages, and the same review items at the same places.
\<close>

theorem committed_text_restores:
  assumes "chapters_ok (st_rest st)" and "keeps_chapters (ke_store ke)" and "commit_write ke a pid cid inp p st = Inr (out, st1)" and "WorkingCopy st pid cid = Inr w"
    and "chapter_step\<^sup>*\<^sup>* st1 st2" and "Chapter st2 pid cid = Inr c2" and "WorkingCopy st2 pid cid = Inr w2" and "wc_BaseChapterVersionID w2 = ch_CurrentVersionID c2"
    and "p_Status p2 = ''active''" and "wc_SpecRevision w2 = p_SpecRevision p2"
  shows "\<exists>out2 st3 w3. restore_write ke2 pid cid \<lparr>rw_ChapterVersionID = ke_newID ke 1, rw_ExpectedSpecRevision = p_SpecRevision p2,
       rw_ExpectedWorkingCopyRevision = wc_WorkingCopyRevision w2, rw_ExpectedChapterVersionID = ch_CurrentVersionID c2\<rparr> p2 st2 = Inr (out2, st3) \<and>
     WorkingCopy st3 pid cid = Inr w3 \<and> wc_BodyMarkdown w3 = wc_BodyMarkdown w \<and> wc_SourceIDs w3 = wc_SourceIDs w \<and> wc_CitationUsages w3 = wc_CitationUsages w \<and>
     map placed (wc_ReviewItems w3) = map placed (wc_ReviewItems w)"
proof (rule commit_published [OF assms(1-3)])
  fix c v w0 nxt
  assume pub: "text_published st pid cid c v w0 nxt st1"
    and v: "cv_BodyMarkdown v = wc_BodyMarkdown w0" "cv_SourceIDs v = wc_SourceIDs w0" "cv_CitationUsages v = wc_CitationUsages w0"
      "cv_ReviewItems v = rebaseReviewItems (wc_BodyMarkdown w0) (wc_BodyMarkdown w0) (wc_ReviewItems w0) (wc_WorkingCopyRevision w0) (Some (cv_ID v))" "cv_ID v = ke_newID ke 1"
  have ok1: "chapters_ok (st_rest st1)" by (rule text_published_ok [OF assms(1) pub])
  have ok2: "chapters_ok (st_rest st2)" by (rule steps_keep [OF assms(5) ok1])
  have w0: "w0 = w" using pub assms(4) by (simp add: text_published_def)
  have "v \<in> set (ct_versions (st_rest st1))" using pub by (simp add: text_published_def)
  then obtain v2 where v2: "v2 \<in> set (ct_versions (st_rest st2))" "unflagged v2 = unflagged v" using version_survives [OF assms(5) ok1] by blast
  then have eq: "cv_ID v2 = cv_ID v" "cv_ProjectID v2 = cv_ProjectID v" "cv_ChapterID v2 = cv_ChapterID v" "cv_BodyMarkdown v2 = cv_BodyMarkdown v"
      "cv_SourceIDs v2 = cv_SourceIDs v" "cv_CitationUsages v2 = cv_CitationUsages v" "cv_ReviewItems v2 = cv_ReviewItems v"
    using unflagged_texts [OF v2(2)] by simp_all
  have found: "ChapterVersion st2 pid cid (ke_newID ke 1) = Inr v2"
    unfolding version_found [OF ok2] using v2 eq v(5) pub by (simp add: text_published_def)
  let ?inp = "\<lparr>rw_ChapterVersionID = ke_newID ke 1, rw_ExpectedSpecRevision = p_SpecRevision p2, rw_ExpectedWorkingCopyRevision = wc_WorkingCopyRevision w2,
       rw_ExpectedChapterVersionID = ch_CurrentVersionID c2\<rparr>"
  define n where "n = w2\<lparr>wc_WorkingCopyRevision := wc_WorkingCopyRevision w2 + 1, wc_SpecRevision := p_SpecRevision p2, wc_BodyMarkdown := cv_BodyMarkdown v2,
      wc_SourceIDs := cv_SourceIDs v2, wc_CitationUsages := cv_CitationUsages v2,
      wc_ReviewItems := rebaseReviewItems (cv_BodyMarkdown v2) (cv_BodyMarkdown v2) (cv_ReviewItems v2) (wc_WorkingCopyRevision w2 + 1) (wc_BaseChapterVersionID w2),
      wc_UpdatedAt := ke_now ke2\<rparr>"
  obtain st3 where st3: "store_SaveWorkingCopy w2 n st2 = Inr st3" by (rule save_read_copy [OF ok2 assms(7)])
  then have run: "restore_write ke2 pid cid ?inp p2 st2 = answered (VCopy n) OperationStatusOK st3"
    using assms(6-10) found by (simp add: restore_write_def copy_current_def Let_def n_def)
  then have run': "restore_write ke2 pid cid ?inp p2 st2 = Inr (\<lparr>oo_Value = VCopy n, oo_Status = OperationStatusOK, oo_Output = []\<rparr>, st3)" by (simp add: answered_def)
  have "chapter_step st2 st3" by (rule chapter_step.restore [OF run'])
  then have ok3: "chapters_ok (st_rest st3)" using ok2 by (rule chapter_step_keeps)
  have key: "copy_key n = copy_key w2" by (simp add: n_def copy_key_def)
  have "st3 = set_chapters (ct_copies_update (put_copy n)) st2" by (rule SaveWorkingCopy_ok [OF chapters_okD(3) [OF ok2] key st3])
  then have read: "WorkingCopy st3 pid cid = Inr n" using copies_after_put(1) [OF ok2 ok3 _ assms(7) key] by (simp add: set_chapters_def)
  have "list_all (anchor_ok (wc_BodyMarkdown w)) (wc_ReviewItems w)"
    using chapters_okD(6) [OF assms(1)] WorkingCopy_ok [OF assms(4)] by (auto simp: copy_ok_def text_ok_def)
  moreover have "list_all (anchor_ok (cv_BodyMarkdown v2)) (cv_ReviewItems v2)" using chapters_okD(5) [OF ok2 v2(1)] by (simp add: text_ok_def)
  ultimately have "map placed (wc_ReviewItems n) = map placed (wc_ReviewItems w)" by (simp add: n_def placed_items) (simp add: eq v w0 placed_items)
  then show ?thesis using run' read eq v w0 by (auto simp: n_def)
qed

theorem committed_text_restores_witness:
  "\<exists>out st1 out2 st3 w3. commit_write demo_ke (plain_actor 7 ''bob'') ''p1'' ''c1'' demo_commit demo_cp demo_cst = Inr (out, st1) \<and>
     restore_write demo_ke ''p1'' ''c1'' \<lparr>rw_ChapterVersionID = ''v2'', rw_ExpectedSpecRevision = 2, rw_ExpectedWorkingCopyRevision = 4,
       rw_ExpectedChapterVersionID = Some ''v2''\<rparr> demo_cp st1 = Inr (out2, st3) \<and>
     WorkingCopy st3 ''p1'' ''c1'' = Inr w3 \<and> wc_BodyMarkdown w3 = ''5mg''"
proof (rule demo_committed)
  fix out st1 c' w'
  assume run: "commit_write demo_ke (plain_actor 7 ''bob'') ''p1'' ''c1'' demo_commit demo_cp demo_cst = Inr (out, st1)"
    and c: "Chapter st1 ''p1'' ''c1'' = Inr c'" "ch_CurrentVersionID c' = Some ''v2''"
    and w: "WorkingCopy st1 ''p1'' ''c1'' = Inr w'" "wc_BaseChapterVersionID w' = Some ''v2''" "wc_SpecRevision w' = 2" "wc_WorkingCopyRevision w' = 4"
  have base: "wc_BaseChapterVersionID w' = ch_CurrentVersionID c'" using c w by simp
  have p: "p_Status demo_cp = ''active''" "wc_SpecRevision w' = p_SpecRevision demo_cp" "p_SpecRevision demo_cp = 2" using w by (simp_all add: demo_cp_def demo_project_def)
  have new: "ke_newID demo_ke 1 = ''v2''" by (simp add: demo_ke_def)
  from committed_text_restores [OF demo_chapters_ok demo_keeps run demo_read(1) rtranclp.rtrancl_refl c(1) w(1) base p(1,2), of demo_ke, unfolded new p(3) w(4) c(2)]
  show ?thesis using run by (auto simp: demo_copy_def)
qed

end
