(* ===== verification/Confirmation_Read.thy ===== *)
theory Confirmation_Read
  imports Chapter_Demo
begin

text \<open>
  Reading the confirmation of a chapter: \<^verbatim>\<open>GetCurrentConfirmation\<close> and the storage read under it, from
  \<^verbatim>\<open>workspacecore/review_anchor.go\<close>.  The answer is the confirmation record or null; a record counts only when it
  decides every review item of the confirmed text.
\<close>

section \<open>The read\<close>

text \<open>A view writes absent decisions as the empty list.\<close>

definition confirmation_view :: "confirmation_details \<Rightarrow> confirmation_details" where
  "confirmation_view d = (if cd_Decisions d = NoDecisions then d\<lparr>cd_Decisions := Decisions []\<rparr> else d)"

fun current_confirmation :: "string \<Rightarrow> string \<Rightarrow> int \<Rightarrow> string \<Rightarrow> confirmation_row list \<Rightarrow> goerr + confirmation_details option" where
  "current_confirmation cid vid specRevision templateVersion [] = Inr None"
| "current_confirmation cid vid specRevision templateVersion (row # rows) =
     (case cn_Details row of
        None \<Rightarrow> Inl (Raw ''invalid character'')
      | Some d \<Rightarrow>
          if cd_Valid d \<and> cd_ID d = cn_ID row \<and> cd_ChapterID d = cid \<and> cd_ChapterVersionID d = vid \<and> cd_SpecRevision d = specRevision \<and> cd_TemplateVersion d = templateVersion
          then Inr (Some (confirmation_view d)) else current_confirmation cid vid specRevision templateVersion rows)"

definition CurrentConfirmation :: "('d, 'r) chapter_store \<Rightarrow> string \<Rightarrow> string \<Rightarrow> int \<Rightarrow> string \<Rightarrow> goerr + confirmation_details option" where
  "CurrentConfirmation st cid vid specRevision templateVersion =
     current_confirmation cid vid specRevision templateVersion (rev (sort_key (\<lambda>r. (cn_CreatedAt r, cn_ID r))
       (filter (\<lambda>r. cn_ChapterID r = cid \<and> cn_ChapterVersionID r = vid \<and> cn_Valid r) (ct_confirmations (st_rest st)))))"

text \<open>The loop over the decisions: the items still to decide, and whether every decision so far was one of them.\<close>

fun decide_items :: "string set \<Rightarrow> review_decision list \<Rightarrow> string set \<times> bool" where
  "decide_items pending [] = (pending, True)"
| "decide_items pending (d # ds) =
     (let (rest, valid) = decide_items (pending - {rd_ReviewItemID d}) ds in
      (rest, valid \<and> rd_ReviewItemID d \<in> pending \<and> (rd_Disposition d = ''resolved'' \<or> rd_Disposition d = ''retained_warning'') \<and> trim_space (rd_Reason d) \<noteq> []))"

definition decisions_complete :: "review_item list \<Rightarrow> review_decision list \<Rightarrow> bool" where
  "decisions_complete items ds =
     (let (rest, valid) = decide_items (set (map ri_ID items)) ds in length ds = length items \<and> valid \<and> rest = {})"

definition confirmation_read :: "('d, 'r, 'x) chapter_ws \<Rightarrow> 'x gocontext \<Rightarrow> actor \<Rightarrow> string \<Rightarrow> string \<Rightarrow> ('d, 'r) chapter_store \<Rightarrow> goerr + confirmation_details option \<times> string list" where
  "confirmation_read env ctx a pid cid t =
     bindR (authorizeProject (we_policy env) ctx (we_view env t) (read_request a pid)) (\<lambda>p.
     bindR (Chapter t pid cid) (\<lambda>c.
       case ch_CurrentVersionID c of
         None \<Rightarrow> Inr (None, ch_SourceIDs c)
       | Some vid \<Rightarrow>
           if \<not> ch_ConfirmationValid c then Inr (None, ch_SourceIDs c)
           else bindR (CurrentConfirmation t cid vid (p_SpecRevision p) (p_TemplateVersion p)) (\<lambda>result.
             case result of
               None \<Rightarrow> Inr (None, ch_SourceIDs c)
             | Some d \<Rightarrow>
                 (case cd_Decisions d of
                    BadDecisions \<Rightarrow> Inl (Raw ''json: cannot unmarshal'')
                  | NoDecisions \<Rightarrow> Inr (if decisions_complete (ch_ReviewItems c) [] then Some d else None, ch_SourceIDs c)
                  | Decisions ds \<Rightarrow> Inr (if decisions_complete (ch_ReviewItems c) ds then Some d else None, ch_SourceIDs c)))))"

definition GetCurrentConfirmation :: "('d, 'r, 'x) chapter_ws \<Rightarrow> 'x source_policy \<Rightarrow> 'x gocontext \<Rightarrow> actor \<Rightarrow> string \<Rightarrow> string \<Rightarrow> ('d, 'r) chapter_store \<Rightarrow> ('d, 'r) chapter_store \<times> (goerr + confirmation_details option)" where
  "GetCurrentConfirmation env policy ctx a pid cid s =
     (case read_tx env read_only (None, []) (confirmation_read env ctx a pid cid) s of
        (s1, Inl e) \<Rightarrow> (s1, Inl e)
      | (s1, Inr (result, sources)) \<Rightarrow> (case checkSources policy ctx a pid sources of Some e \<Rightarrow> (s1, Inl e) | None \<Rightarrow> (s1, Inr result)))"

section \<open>What a reported confirmation stands for\<close>

lemma decide_items_ok:
  "decide_items pending ds = (rest, True) \<Longrightarrow> distinct (map rd_ReviewItemID ds) \<and> rd_ReviewItemID ` set ds \<subseteq> pending \<and> rest = pending - rd_ReviewItemID ` set ds \<and>
     (\<forall>d \<in> set ds. rd_Disposition d \<in> {''resolved'', ''retained_warning''} \<and> trim_space (rd_Reason d) \<noteq> [])"
proof (induction pending ds arbitrary: rest rule: decide_items.induct)
  case (2 pending d ds)
  obtain r v where r: "decide_items (pending - {rd_ReviewItemID d}) ds = (r, v)" by (metis surj_pair)
  with "2.prems" have "v" "rest = r" "rd_ReviewItemID d \<in> pending" "rd_Disposition d = ''resolved'' \<or> rd_Disposition d = ''retained_warning''" "trim_space (rd_Reason d) \<noteq> []" by simp_all
  moreover from this "2.IH" [of r] r have "distinct (map rd_ReviewItemID ds)" "rd_ReviewItemID ` set ds \<subseteq> pending - {rd_ReviewItemID d}" "r = pending - {rd_ReviewItemID d} - rd_ReviewItemID ` set ds"
      "\<forall>d \<in> set ds. rd_Disposition d \<in> {''resolved'', ''retained_warning''} \<and> trim_space (rd_Reason d) \<noteq> []" by simp_all
  ultimately show ?case by auto
qed simp

lemma decisions_completeD:
  assumes "decisions_complete items ds"
  shows "distinct (map rd_ReviewItemID ds)" "mset (map rd_ReviewItemID ds) = mset (map ri_ID items)"
    "d \<in> set ds \<Longrightarrow> rd_Disposition d \<in> {''resolved'', ''retained_warning''} \<and> trim_space (rd_Reason d) \<noteq> []"
proof -
  obtain rest where "decide_items (set (map ri_ID items)) ds = (rest, True)" and len: "length ds = length items" and "rest = {}"
    using assms by (auto simp: decisions_complete_def split: prod.splits)
  from decide_items_ok [OF this(1)] this(3) have d: "distinct (map rd_ReviewItemID ds)" and eq: "set (map rd_ReviewItemID ds) = set (map ri_ID items)"
    and each: "\<forall>d \<in> set ds. rd_Disposition d \<in> {''resolved'', ''retained_warning''} \<and> trim_space (rd_Reason d) \<noteq> []" by auto
  show "distinct (map rd_ReviewItemID ds)" by (rule d)
  have "card (set (map ri_ID items)) = length (map ri_ID items)" using distinct_card [OF d] eq len by (metis length_map)
  then have "distinct (map ri_ID items)" by (rule card_distinct)
  then show "mset (map rd_ReviewItemID ds) = mset (map ri_ID items)" using d eq by (metis set_eq_iff_mset_eq_distinct)
  show "d \<in> set ds \<Longrightarrow> rd_Disposition d \<in> {''resolved'', ''retained_warning''} \<and> trim_space (rd_Reason d) \<noteq> []" using each by blast
qed

lemma current_confirmation_ok:
  "current_confirmation cid vid spec template rows = Inr (Some v) \<Longrightarrow> \<exists>row \<in> set rows. \<exists>d. cn_Details row = Some d \<and> v = confirmation_view d \<and> cd_Valid d \<and> cd_ID d = cn_ID row \<and>
     cd_ChapterID d = cid \<and> cd_ChapterVersionID d = vid \<and> cd_SpecRevision d = spec \<and> cd_TemplateVersion d = template"
  by (induction rows) (auto split: option.splits if_splits)

lemma confirmation_complete:
  assumes "confirmation_read env ctx a pid cid t = Inr (Some d, sources)"
  shows "\<exists>p c vid ds. authorizeProject (we_policy env) ctx (we_view env t) (read_request a pid) = Inr p \<and> Chapter t pid cid = Inr c \<and> ch_ConfirmationValid c \<and>
     ch_CurrentVersionID c = Some vid \<and> cd_Valid d \<and> cd_ChapterID d = cid \<and> cd_ChapterVersionID d = vid \<and> cd_SpecRevision d = p_SpecRevision p \<and> cd_TemplateVersion d = p_TemplateVersion p \<and>
     (\<exists>row \<in> set (ct_confirmations (st_rest t)). cn_Valid row \<and> cn_ID row = cd_ID d \<and> cn_ChapterID row = cid \<and> cn_ChapterVersionID row = vid) \<and>
     cd_Decisions d = Decisions ds \<and> mset (map rd_ReviewItemID ds) = mset (map ri_ID (ch_ReviewItems c)) \<and> distinct (map rd_ReviewItemID ds) \<and>
     (\<forall>x \<in> set ds. rd_Disposition x \<in> {''resolved'', ''retained_warning''} \<and> trim_space (rd_Reason x) \<noteq> [])"
proof -
  from assms obtain p c where p: "authorizeProject (we_policy env) ctx (we_view env t) (read_request a pid) = Inr p" and c: "Chapter t pid cid = Inr c"
    by (auto simp: confirmation_read_def)
  from assms p c obtain vid where v: "ch_CurrentVersionID c = Some vid" and valid: "ch_ConfirmationValid c"
    by (cases "ch_CurrentVersionID c"; cases "ch_ConfirmationValid c") (simp_all add: confirmation_read_def)
  note c = c valid v
  from assms p c obtain r where r: "CurrentConfirmation t cid vid (p_SpecRevision p) (p_TemplateVersion p) = Inr r" by (auto simp: confirmation_read_def)
  with assms p c obtain d1 where cur1: "r = Some d1" by (cases r) (simp_all add: confirmation_read_def)
  with assms p c r have "d1 = d" by (cases "cd_Decisions d1") (simp_all add: confirmation_read_def split: if_splits)
  with cur1 r have cur: "CurrentConfirmation t cid vid (p_SpecRevision p) (p_TemplateVersion p) = Inr (Some d)" by simp
  with assms p c have rest: "(case cd_Decisions d of BadDecisions \<Rightarrow> Inl (Raw ''json: cannot unmarshal'')
                  | NoDecisions \<Rightarrow> Inr (if decisions_complete (ch_ReviewItems c) [] then Some d else None, ch_SourceIDs c)
                  | Decisions ds \<Rightarrow> Inr (if decisions_complete (ch_ReviewItems c) ds then Some d else None, ch_SourceIDs c)) = Inr (Some d, sources)"
    by (simp add: confirmation_read_def)
  from cur obtain row d0 where row: "row \<in> set (ct_confirmations (st_rest t))" "cn_Valid row" "cn_ChapterID row = cid" "cn_ChapterVersionID row = vid"
    and d: "d = confirmation_view d0" "cd_Valid d0" "cd_ID d0 = cn_ID row" "cd_ChapterID d0 = cid" "cd_ChapterVersionID d0 = vid" "cd_SpecRevision d0 = p_SpecRevision p" "cd_TemplateVersion d0 = p_TemplateVersion p"
    by (auto simp: CurrentConfirmation_def dest!: current_confirmation_ok)
  then have same: "cd_Valid d" "cd_ID d = cn_ID row" "cd_ChapterID d = cid" "cd_ChapterVersionID d = vid" "cd_SpecRevision d = p_SpecRevision p" "cd_TemplateVersion d = p_TemplateVersion p"
    and "cd_Decisions d \<noteq> NoDecisions" by (simp_all add: confirmation_view_def)
  with rest obtain ds where ds: "cd_Decisions d = Decisions ds" "decisions_complete (ch_ReviewItems c) ds" by (auto split: decisions_json.splits if_splits)
  have stored: "\<exists>row \<in> set (ct_confirmations (st_rest t)). cn_Valid row \<and> cn_ID row = cd_ID d \<and> cn_ChapterID row = cid \<and> cn_ChapterVersionID row = vid" using row same(2) by auto
  have each: "\<forall>x \<in> set ds. rd_Disposition x \<in> {''resolved'', ''retained_warning''} \<and> trim_space (rd_Reason x) \<noteq> []" using decisions_completeD(3) [OF ds(2)] by blast
  show ?thesis
    by (rule exI [of _ p], rule exI [of _ c], rule exI [of _ vid], rule exI [of _ ds])
      (intro conjI p c same stored ds(1) each decisions_completeD(1,2) [OF ds(2)])
qed

text \<open>
  C24. A reported confirmation stands for the text that is published now.  When the service reports a confirmation
  of a chapter, on a store that only other
  transactions had moved the caller was allowed to read the project, the chapter is confirmed, the record is a valid row
  for its current version under the specification and the template in force, and the record decides every review
  item of the text exactly once, as resolved or kept as a warning, each time with a reason.
\<close>

theorem reported_confirmation_is_complete:
  assumes "GetCurrentConfirmation env policy ctx a pid cid s = (t, Inr (Some d))"
  shows "env_moves (we_sched env) s t \<and> (\<exists>p c vid ds. authorizeProject (we_policy env) ctx (we_view env t) (read_request a pid) = Inr p \<and> Chapter t pid cid = Inr c \<and> ch_ConfirmationValid c \<and>
     ch_CurrentVersionID c = Some vid \<and> cd_Valid d \<and> cd_ChapterID d = cid \<and> cd_ChapterVersionID d = vid \<and> cd_SpecRevision d = p_SpecRevision p \<and> cd_TemplateVersion d = p_TemplateVersion p \<and>
     (\<exists>row \<in> set (ct_confirmations (st_rest t)). cn_Valid row \<and> cn_ID row = cd_ID d \<and> cn_ChapterID row = cid \<and> cn_ChapterVersionID row = vid) \<and>
     cd_Decisions d = Decisions ds \<and> mset (map rd_ReviewItemID ds) = mset (map ri_ID (ch_ReviewItems c)) \<and> distinct (map rd_ReviewItemID ds) \<and>
     (\<forall>x \<in> set ds. rd_Disposition x \<in> {''resolved'', ''retained_warning''} \<and> trim_space (rd_Reason x) \<noteq> []))"
proof -
  obtain sources where r: "read_tx env read_only (None, []) (confirmation_read env ctx a pid cid) s = (t, Inr (Some d, sources))"
    using assms by (auto simp: GetCurrentConfirmation_def split: prod.splits sum.splits option.splits)
  have "confirmation_read env ctx a pid cid t = Inr (Some d, sources)" by (rule read_tx_moves(2) [OF r refl])
  then show ?thesis using read_tx_moves(1) [OF r] by (intro conjI confirmation_complete)
qed

definition demo_confirmed :: "(unit, unit) chapter_store" where
  "demo_confirmed = set_chapters (\<lambda>q. q\<lparr>ct_versions := [demo_version\<lparr>cv_ConfirmationValid := True\<rparr>], ct_confirmations :=
     [\<lparr>cn_ID = ''k1'', cn_ChapterID = ''c1'', cn_ChapterVersionID = ''v1'', cn_Valid = True, cn_Details = Some \<lparr>cd_ID = ''k1'', cd_ChapterID = ''c1'',
       cd_ChapterVersionID = ''v1'', cd_SpecRevision = 2, cd_TemplateVersion = ''1'', cd_ActorUserID = ''ann'', cd_CreatedAt = Some 5, cd_Valid = True,
       cd_Decisions = NoDecisions\<rparr>, cn_CreatedAt = 5\<rparr>]\<rparr>) demo_cst"

lemma demo_confirmation:
  "GetCurrentConfirmation demo_chapter_ws None demo_ctx (plain_actor 7 ''ann'') ''p1'' ''c1'' demo_confirmed = (demo_confirmed, Inr (Some \<lparr>cd_ID = ''k1'', cd_ChapterID = ''c1'',
       cd_ChapterVersionID = ''v1'', cd_SpecRevision = 2, cd_TemplateVersion = ''1'', cd_ActorUserID = ''ann'', cd_CreatedAt = Some 5, cd_Valid = True,
       cd_Decisions = Decisions []\<rparr>))"
proof -
  have auth: "authorizeProject CurrentPolicy demo_ctx (demo_view ''owner'') (read_request (plain_actor 7 ''ann'') ''p1'') = Inr (demo_project demo_members)"
    by (simp add: read_request_def authorizeProject_def authorizeAPIKeyProject_def RequireHumanDecision_def TenantAPIKeyScopeFromContext_def
      PrincipalFromContext_def UserIDFromContext_def demo_ctx_def validAuthorizationAction_def authorizationActions_def
      authorizeCurrentProject_def authorizeCurrentTenant_def legacyAuthorizeTenant_def
      currentTenantRole_def authorizationRequest_def plain_actor_def validActor_def permissionRoles_def
      role_IsValid_def role_HasPermission_def role_Level_def projectMember_def governanceRole_def
      capability_granted_def memberHasScope_def scopes_of_def Let_def demo_defs)
  have "\<exists>c. Chapter demo_confirmed ''p1'' ''c1'' = Inr c \<and> ch_CurrentVersionID c = Some ''v1'' \<and> ch_ConfirmationValid c \<and> ch_SourceIDs c = [] \<and> ch_ReviewItems c = []"
    by (simp add: Chapter_def chapterView_def storageError_def chapterConfirmationFacts_def ChapterConfirmed_def ChapterConfirmationOf_def demo_confirmed_def set_chapters_def demo_chapter_defs)
  then show ?thesis using auth
    by (auto simp: GetCurrentConfirmation_def read_tx_def gorm_Transaction_def tx_once_def demo_chapter_ws_def demo_attempt_def read_only_def confirmation_read_def CurrentConfirmation_def
      confirmation_view_def decisions_complete_def checkSources_def demo_confirmed_def set_chapters_def demo_chapter_defs)
qed

theorem reported_confirmation_is_complete_witness:
  "\<exists>c. Chapter demo_confirmed ''p1'' ''c1'' = Inr c \<and> ch_ConfirmationValid c \<and> ch_CurrentVersionID c = Some ''v1''"
  using reported_confirmation_is_complete [OF demo_confirmation] by auto

text \<open>
  The comment on \<^verbatim>\<open>chapterConfirmationFacts\<close> says that a record whose details do not parse is dropped; the code returns
  the error, and the chapter cannot be read.
\<close>

theorem undecodable_confirmation_fails:
  "Chapter (set_chapters (\<lambda>q. q\<lparr>ct_confirmations := map (\<lambda>r. r\<lparr>cn_Details := None\<rparr>) (ct_confirmations q)\<rparr>) demo_confirmed) ''p1'' ''c1''
     = Inl (Raw ''decode chapter confirmation'')"
  by (simp add: Chapter_def chapterView_def storageError_def chapterConfirmationFacts_def demo_confirmed_def set_chapters_def demo_chapter_defs)

end
