(* ===== verification/Chapter_Calls.thy ===== *)
theory Chapter_Calls
  imports Chapter_Properties Confirmation_Read Run_Invariant
begin

text \<open>
  The chapter handlers composed with the operation pipeline.  Whatever a handler answers, with its checks, its
  source comparison, its retried transaction and its operation record, it moves the chapter tables by steps of
  \<^verbatim>\<open>Chapter_Steps\<close>; so their invariant holds around the service, no version is lost and no draft goes back.
\<close>

section \<open>Calls\<close>

datatype chapter_call =
  Call_SaveCopy save_copy_input
| Call_Rewrite save_copy_input "review_item list"
| Call_Commit commit_input
| Call_Restore restore_input
| Call_Anchor string anchor_input
| Call_SaveChapter save_chapter_input
| Call_GetCopy working_copy
| Call_Versions

record ('d, 'r, 'x) chapter_request =
  cq_ws :: "('d, 'r, 'x) chapter_ws"
  cq_env :: "('d, 'r) chapter_env"
  cq_policy :: "'x source_policy"
  cq_ctx :: "'x gocontext"
  cq_actor :: actor
  cq_project :: string
  cq_chapter :: string
  cq_key :: string
  cq_call :: chapter_call

definition serve_chapter :: "('d, 'r, 'x) chapter_request \<Rightarrow> ('d, 'r) chapter_store \<Rightarrow> ('d, 'r) chapter_store" where
  "serve_chapter q s =
     (case cq_call q of
        Call_SaveCopy inp \<Rightarrow> fst (SaveWorkingCopy (cq_ws q) (cq_env q) (cq_ctx q) (cq_actor q) (cq_project q) (cq_chapter q) (cq_key q) inp 0 0 s)
      | Call_Rewrite inp items \<Rightarrow> fst (ApplyRewrite (cq_ws q) (cq_env q) (cq_ctx q) (cq_actor q) (cq_project q) (cq_chapter q) (cq_key q) inp items 0 0 s)
      | Call_Commit inp \<Rightarrow> fst (CommitWorkingCopy (cq_ws q) (cq_env q) (cq_ctx q) (cq_actor q) (cq_project q) (cq_chapter q) (cq_key q) inp 0 0 s)
      | Call_Restore inp \<Rightarrow> fst (RestoreWorkingCopy (cq_ws q) (cq_env q) (cq_ctx q) (cq_actor q) (cq_project q) (cq_chapter q) (cq_key q) inp 0 0 s)
      | Call_Anchor itemID inp \<Rightarrow> fst (SetReviewAnchor (cq_ws q) (cq_env q) (cq_ctx q) (cq_actor q) (cq_project q) (cq_chapter q) itemID (cq_key q) inp 0 0 s)
      | Call_SaveChapter inp \<Rightarrow> fst (SaveChapter (cq_ws q) (cq_env q) (cq_ctx q) (cq_actor q) (cq_project q) (cq_chapter q) (cq_key q) inp 0 0 s)
      | Call_GetCopy zero \<Rightarrow> fst (GetWorkingCopy (cq_ws q) (cq_env q) (cq_policy q) (cq_ctx q) (cq_actor q) (cq_project q) (cq_chapter q) zero s)
      | Call_Versions \<Rightarrow> fst (ListChapterVersions (cq_ws q) (cq_env q) (cq_policy q) (cq_ctx q) (cq_actor q) (cq_project q) (cq_chapter q) s))"

text \<open>The JSON decoder of the transport gives valid UTF-8.\<close>

fun encoded :: "chapter_call \<Rightarrow> bool" where
  "encoded (Call_SaveCopy inp) = ValidString (sw_BodyMarkdown inp)"
| "encoded (Call_Rewrite inp items) = ValidString (sw_BodyMarkdown inp)"
| "encoded (Call_SaveChapter inp) = ValidString (sc_BodyMarkdown inp)"
| "encoded _ = True"

text \<open>
  The seams of the workspace that belong to other components leave chapters, versions and drafts alone, and the
  transactions that run between two attempts move them by steps of the same machine.
\<close>

definition chapter_rely :: "('d, 'r, 'x) chapter_ws \<Rightarrow> ('d, 'r) chapter_env \<Rightarrow> bool" where
  "chapter_rely env ke \<longleftrightarrow> keeps_chapters (ke_store ke) \<and>
     (\<forall>ctx a pid cap err t t'. we_audit env ctx a pid cap err t = Inr t' \<longrightarrow> same_chapters t t') \<and>
     (\<forall>ctx pid t t'. we_storePins env ctx pid t = Inr t' \<longrightarrow> same_chapters t t') \<and>
     (\<forall>ctx v t t'. we_reverseSources env ctx v t = Inr t' \<longrightarrow> same_chapters t t') \<and>
     (\<forall>i r v t t'. we_provenance env i r v t = Inr t' \<longrightarrow> same_chapters t t') \<and>
     (\<forall>ctx a p pid op tgt status el t t'. we_afterWrite env ctx a p pid op tgt status el t = Inr t' \<longrightarrow> same_chapters t t') \<and>
     (\<forall>ctx a pid op e el t. same_chapters t (we_observe env ctx a pid op e el t)) \<and>
     (\<forall>tab t. same_chapters t (we_set_ops env tab t)) \<and>
     (\<forall>options i t. chapter_step\<^sup>*\<^sup>* t (at_before (we_sched env options i) t))"

definition served :: "('d, 'r, 'x) chapter_request \<Rightarrow> bool" where
  "served q \<longleftrightarrow> chapter_rely (cq_ws q) (cq_env q) \<and> encoded (cq_call q)"

section \<open>Steps of the parts\<close>

lemma chapter_seams:
  assumes "chapter_rely env ke"
  shows "quiet_seams (workspace_request env a spec wr) same_chapters"
proof -
  have "reflp same_chapters" "transp same_chapters" by (auto simp: same_chapters_def reflp_def transp_def)
  with assms show ?thesis by (auto simp: chapter_rely_def quiet_seams_def workspace_request_def operationLedger_def)
qed

lemma chapter_env_steps:
  assumes "chapter_rely env ke" "env_moves (we_sched env) s t"
  shows "chapter_step\<^sup>*\<^sup>* s t"
proof -
  have "(s, t) \<in> (env_step (we_sched env))\<^sup>*" using assms(2) by (simp add: env_moves_def)
  then show ?thesis
  proof (induction rule: rtrancl_induct)
    case (step u v)
    then have "chapter_step\<^sup>*\<^sup>* u v" using assms(1) by (auto simp: env_step_def chapter_rely_def)
    with step.IH show ?case by (rule rtranclp_trans)
  qed simp
qed

lemma chapter_operation:
  assumes rely: "chapter_rely env ke" and step: "\<And>p u w v. wr p u = Inr (w, v) \<Longrightarrow> chapter_step u v"
    and run: "runOperationCore env ctx a spec wr el el' s = (s', r)"
  shows "chapter_step\<^sup>*\<^sup>* s s'"
proof -
  let ?rq = "workspace_request env a spec wr" and ?I = "\<lambda>t. chapter_step\<^sup>*\<^sup>* s t"
  obtain out e where R: "Run ctx ?rq el el' s = (s', out, e)" using run by (auto simp: runOperationCore_def split: prod.splits option.splits)
  have quiet: "?I t'" if "same_chapters t t'" "?I t" for t t'
    using that(2) chapter_step.other [OF that(1)] by (rule rtranclp.rtrancl_into_rtrancl)
  have env: "?I t'" if "env_moves (we_sched env) t t'" "?I t" for t t'
    using that(2) chapter_env_steps [OF rely that(1)] by (rule rtranclp_trans)
  have wrote: "?I v" if u: "?I u" and w: "rq_Write ?rq ctx' p u = Inr (val, o', status, v)" for ctx' p u val o' status v
  proof -
    obtain w' where "wr p u = Inr (w', v)" using w by (auto simp: workspace_request_def)
    with u show ?thesis using step by (blast intro: rtranclp.rtrancl_into_rtrancl)
  qed
  show ?thesis by (rule ws.run_keeps [where I = ?I, OF chapter_seams [OF rely]]) (fact quiet, fact env, erule wrote, assumption, fact R, simp)
qed

lemma chapter_read:
  assumes rely: "chapter_rely env ke" and r: "read_tx env options zero body s = (s', r)"
  shows "chapter_step\<^sup>*\<^sup>* s s'" "r = Inr x \<Longrightarrow> body s' = Inr x"
  using chapter_env_steps [OF rely] read_tx_moves [OF r] by blast+

lemma chapter_write_tx:
  assumes rely: "chapter_rely env ke" and r: "write_tx env options body s = (s', e)" and step: "\<And>t t'. body t = Inr t' \<Longrightarrow> chapter_step t t'"
  shows "chapter_step\<^sup>*\<^sup>* s s'"
proof -
  let ?fn = "\<lambda>(k :: unit) t. (k, body t)"
  obtain k where g: "gorm_Transaction (we_ctxErr env) (we_sched env) options ?fn () s = (k, s', e)" using r by (auto simp: write_tx_def split: prod.splits)
  show ?thesis
  proof (cases e)
    case None
    then obtain s0 where m: "env_moves (we_sched env) s s0" and "body s0 = Inr s'"
      using gorm_Transaction_commit [of "we_ctxErr env" "we_sched env" options ?fn "()" s k s' "\<lambda>_. True"] g by auto
    then have "chapter_step s0 s'" by (simp add: step)
    with chapter_env_steps [OF rely m] show ?thesis by (rule rtranclp.rtrancl_into_rtrancl)
  next
    case (Some x)
    from gorm_Transaction_rollback [OF g [unfolded Some]] show ?thesis by (rule chapter_env_steps [OF rely])
  qed
qed

section \<open>The handlers\<close>

lemma GetWorkingCopy_steps:
  assumes rely: "chapter_rely env ke" and ok: "chapters_ok (st_rest s)" and run: "GetWorkingCopy env ke policy ctx a pid cid zero s = (s', r)"
  shows "chapter_step\<^sup>*\<^sup>* s s'"
proof -
  obtain s1 r1 where r1: "read_tx env read_only (zero, None) (copy_read env ke ctx a pid cid) s = (s1, r1)" by (metis surj_pair)
  note s1 = chapter_read [OF rely r1]
  have ok1: "chapters_ok (st_rest s1)" by (rule steps_keep [OF s1(1) ok])
  show ?thesis
  proof (cases "\<exists>w rec. r1 = Inr (w, Some rec)")
    case True
    then obtain w rec where wr: "r1 = Inr (w, Some rec)" by blast
    then have "copy_read env ke ctx a pid cid s1 = Inr (w, Some rec)" by (rule s1(2))
    then obtain p c where c: "Chapter s1 pid cid = Inr c" and w: "WorkingCopy s1 pid cid = Inr w" and rec: "recovery_of ke pid cid p c w s1 = Inr (Some rec)"
      by (auto simp: copy_read_def)
    have step: "chapter_step t t'" if "copy_recover env ke ctx a pid cid w rec t = Inr t'" for t t'
    proof -
      from that obtain c' where "Chapter t pid cid = Inr c'" "ch_CurrentVersionID c' = wc_BaseChapterVersionID rec" "store_SaveWorkingCopy w rec t = Inr t'"
        by (auto simp: copy_recover_def sameVersion_iff split: if_splits)
      then show ?thesis by (rule chapter_step.recover [OF ok1 c w rec])
    qed
    have "s' = s1 \<or> (\<exists>e. write_tx env read_write (copy_recover env ke ctx a pid cid w rec) s1 = (s', e))"
      using run r1 wr by (auto simp: GetWorkingCopy_def Let_def split: option.splits prod.splits)
    then show ?thesis using s1(1) chapter_write_tx [OF rely _ step] by (metis rtranclp_trans)
  next
    case False
    then have "s' = s1" using run r1 by (auto simp: GetWorkingCopy_def Let_def split: option.splits prod.splits sum.splits)
    then show ?thesis using s1(1) by simp
  qed
qed

lemma serve_chapter_steps:
  assumes "served q" "chapters_ok (st_rest s)"
  shows "chapter_step\<^sup>*\<^sup>* s (serve_chapter q s)"
proof -
  let ?env = "cq_ws q" and ?ke = "cq_env q" and ?a = "cq_actor q" and ?pid = "cq_project q" and ?cid = "cq_chapter q"
  have rely: "chapter_rely ?env ?ke" and enc: "encoded (cq_call q)" and keeps: "keeps_chapters (ke_store ?ke)" using assms(1) by (auto simp: served_def chapter_rely_def)
  have op: "chapter_step\<^sup>*\<^sup>* s (fst (runOperationCore ?env (cq_ctx q) ?a spec wr 0 0 s))" if "\<And>p u w v. wr p u = Inr (w, v) \<Longrightarrow> chapter_step u v" for spec wr
    by (rule chapter_operation [OF rely that]) (auto intro: prod.collapse [symmetric])
  show ?thesis
  proof (cases "cq_call q")
    case (Call_SaveCopy inp)
    then show ?thesis using enc
      by (auto simp: serve_chapter_def SaveWorkingCopy_def refuse_def Let_def split: sum.splits intro!: op chapter_step.save)
  next
    case (Call_Rewrite inp items)
    then show ?thesis using enc
      by (auto simp: serve_chapter_def ApplyRewrite_def refuse_def Let_def split: sum.splits intro!: op chapter_step.rewrite)
  next
    case (Call_Commit inp)
    then show ?thesis using keeps by (auto simp: serve_chapter_def CommitWorkingCopy_def refuse_def intro!: op intro: chapter_step.commit)
  next
    case (Call_Restore inp)
    then show ?thesis by (auto simp: serve_chapter_def RestoreWorkingCopy_def refuse_def intro!: op intro: chapter_step.restore)
  next
    case (Call_Anchor itemID inp)
    then show ?thesis by (auto simp: serve_chapter_def SetReviewAnchor_def refuse_def intro!: op intro: chapter_step.anchor)
  next
    case (Call_SaveChapter inp)
    then show ?thesis using enc keeps
      by (auto simp: serve_chapter_def SaveChapter_def refuse_def Let_def split: sum.splits intro!: op intro: chapter_step.save_chapter)
  next
    case (Call_GetCopy zero)
    then show ?thesis using GetWorkingCopy_steps [OF rely assms(2)] by (simp add: serve_chapter_def) (metis prod.collapse)
  next
    case Call_Versions
    obtain s1 r where r: "read_tx ?env read_only [] (\<lambda>t. bindR (authorizeProject (we_policy ?env) (cq_ctx q) (we_view ?env t) (read_request ?a ?pid)) (\<lambda>_.
                  bindR (Chapter t ?pid ?cid) (\<lambda>_. Inr (ChapterVersions t ?pid ?cid)))) s = (s1, r)" by (rule prod.exhaust)
    have "serve_chapter q s = s1" using r Call_Versions by (simp add: serve_chapter_def ListChapterVersions_def split: sum.splits option.splits)
    then show ?thesis using chapter_read(1) [OF rely r] by simp
  qed
qed

section \<open>The composed property\<close>

lemma requests_steps:
  assumes "list_all served qs" "chapters_ok (st_rest s)"
  shows "chapter_step\<^sup>*\<^sup>* s (fold serve_chapter qs s)"
  using assms
proof (induction qs arbitrary: s)
  case (Cons q qs)
  then have q: "chapter_step\<^sup>*\<^sup>* s (serve_chapter q s)" by (simp add: serve_chapter_steps)
  have "chapter_step\<^sup>*\<^sup>* (serve_chapter q s) (fold serve_chapter qs (serve_chapter q s))" using Cons steps_keep [OF q] by simp
  with q show ?case by simp
qed simp

text \<open>
  C19. The service keeps the chapters of a workspace consistent.  Take any list of chapter requests, reads and
  writes, by anybody with any input, each run through the operation pipeline with its retries while other
  transactions interleave: afterwards every stored text again declares exactly its markers and holds only
  anchors that are in it, the versions of each chapter are one chain ending in the current one, every draft
  stands on a version of its chapter; no version that could be read is lost or changed but for its
  confirmation; and the revision of no draft went back.
\<close>

theorem service_keeps_chapters:
  assumes "list_all served qs" and "chapters_ok (st_rest s)"
  shows "chapters_ok (st_rest (fold serve_chapter qs s)) \<and>
     (\<forall>pid cid vid v. ChapterVersion s pid cid vid = Inr v \<longrightarrow> (\<exists>v'. ChapterVersion (fold serve_chapter qs s) pid cid vid = Inr v' \<and> unflagged v' = unflagged v)) \<and>
     (\<forall>pid cid w. WorkingCopy s pid cid = Inr w \<longrightarrow>
        (\<exists>w'. WorkingCopy (fold serve_chapter qs s) pid cid = Inr w' \<and> wc_WorkingCopyRevision w \<le> wc_WorkingCopyRevision w'))"
proof (intro conjI allI impI)
  let ?s = "fold serve_chapter qs s"
  have steps: "chapter_step\<^sup>*\<^sup>* s ?s" by (rule requests_steps [OF assms])
  show ok: "chapters_ok (st_rest ?s)" by (rule steps_keep [OF steps assms(2)])
  show "\<exists>w'. WorkingCopy ?s pid cid = Inr w' \<and> wc_WorkingCopyRevision w \<le> wc_WorkingCopyRevision w'" if "WorkingCopy s pid cid = Inr w" for pid cid w
    by (rule revision_steps [OF steps assms(2) that])
  show "\<exists>v'. ChapterVersion ?s pid cid vid = Inr v' \<and> unflagged v' = unflagged v" if read: "ChapterVersion s pid cid vid = Inr v" for pid cid vid v
  proof -
    have v: "v \<in> set (ct_versions (st_rest s))" "cv_ID v = vid" "cv_ProjectID v = pid" "cv_ChapterID v = cid" using read by (simp_all add: version_found [OF assms(2)])
    obtain v' where v': "v' \<in> set (ct_versions (st_rest ?s))" "unflagged v' = unflagged v" using version_survives [OF steps assms(2) v(1)] by blast
    then have "ChapterVersion ?s pid cid vid = Inr v'" unfolding version_found [OF ok] using v unflagged_texts [OF v'(2)] by simp
    then show ?thesis using v'(2) by blast
  qed
qed

text \<open>One commit of the draft, by the author of the chapter.\<close>

definition demo_chapter_request :: "(unit, unit, unit) chapter_request" where
  "demo_chapter_request = \<lparr>cq_ws = demo_chapter_ws, cq_env = demo_ke, cq_policy = None, cq_ctx = demo_ctx, cq_actor = plain_actor 7 ''bob'', cq_project = ''p1'',
     cq_chapter = ''c1'', cq_key = ''key-0001'', cq_call = Call_Commit demo_commit\<rparr>"

lemma demo_chapter_served: "served demo_chapter_request"
proof -
  have "same_chapters t (t\<lparr>st_ops := x\<rparr>)" for t :: "(unit, unit) chapter_store" and x by (simp add: same_chapters_def)
  then show ?thesis using demo_keeps by (simp add: served_def chapter_rely_def demo_chapter_request_def demo_chapter_ws_def demo_attempt_def)
qed

lemma demo_author_commits:
  obtains w st' where "commit_write demo_ke (plain_actor 7 ''bob'') ''p1'' ''c1'' demo_commit (demo_project demo_members) demo_cst = Inr (w, st')"
    "oo_Status w = OperationStatusCreated" "oo_Output w = []" "st_ops st' = []" "map cv_ID (ct_versions (st_rest st')) = [''v1'', ''v2'']"
proof -
  have "reviewConditionChanges [] oldBody newBody d = None" for oldBody newBody d by (simp add: reviewConditionChanges_def suspectedConditionChanges_def)
  then have "\<exists>w st'. commit_write demo_ke (plain_actor 7 ''bob'') ''p1'' ''c1'' demo_commit (demo_project demo_members) demo_cst = Inr (w, st') \<and>
    oo_Status w = OperationStatusCreated \<and> oo_Output w = [] \<and> st_ops st' = [] \<and> map cv_ID (ct_versions (st_rest st')) = [''v1'', ''v2'']"
    unfolding commit_write_def demo_read
    by (simp add: copy_current_def sameVersion_def auditConditionDismissal_def RecordAudit_def insert_row_def UpdateProject_def update_rows_def affected_def
      persistTemplateCopyTransition_def project_columns_def AppendChapter_def revalidate_def store_SaveWorkingCopy_def set_chapters_def answered_def Let_def
      markChapterUnconfirmed_def plain_actor_def demo_chapter_defs)
  then show thesis by (elim exE conjE) (rule that)
qed

lemma demo_chapter_committed: "map cv_ID (ct_versions (st_rest (serve_chapter demo_chapter_request demo_cst))) = [''v1'', ''v2'']"
proof (rule demo_author_commits)
  fix w st'
  let ?a = "plain_actor 7 ''bob''"
  let ?spec = "sourceOperationInput ''commitWorkingCopy'' ''p1/c1'' ''key-0001'' (BCommit demo_commit) (write_request ?a ''p1'' ''c1'') (commitWorkingCopySourceIDs demo_ke ''p1'' ''c1'')"
  let ?rq = "workspace_request demo_chapter_ws ?a ?spec (commit_write demo_ke ?a ''p1'' ''c1'' demo_commit)"
  assume w: "commit_write demo_ke ?a ''p1'' ''c1'' demo_commit (demo_project demo_members) demo_cst = Inr (w, st')"
    and st: "oo_Status w = OperationStatusCreated" "oo_Output w = []" "st_ops st' = []" and vs: "map cv_ID (ct_versions (st_rest st')) = [''v1'', ''v2'']"
  have gate: "gate_caller demo_ctx ?rq = Inr (sha256_hex ''body'')"
    by (simp add: gate_caller_def workspace_request_def spec_identity_def sourceOperationInput_def write_request_def demo_chapter_ws_def plain_actor_def
      validActor_def ValidKey_def MinKeyLength_def MaxKeyLength_def seam_check_def requireInverseCaller_def authorizationRequest_def
      workspaceHumanGate_def workspaceHumanDecisionOperations_def RequestHash_def digestJSON_def)
  have rq: "(sp_Request ?spec)\<lparr>au_Actor := ?a\<rparr> = authorizationRequest ?a ''p1'' ''write'' ''c1''"
    by (simp add: sourceOperationInput_def write_request_def authorizationRequest_def)
  have admit: "admit demo_ctx ?rq demo_cst = Inr (demo_project demo_members, demo_cst)"
    using demo_authorized rq by (simp add: admit_def authorize_write_def workspace_request_def demo_chapter_ws_def check_project_def seam_check_def
      sourceOperationInput_def write_request_def authorizationRequest_def)
  have ops: "st_ops demo_cst = []" by (simp add: demo_cst_def)
  have src: "commitWorkingCopySourceIDs demo_ke ''p1'' ''c1'' demo_cst previous False = Inr []" for previous
    by (simp add: commitWorkingCopySourceIDs_def demo_read demo_copy_def)
  have phase: "source_phase demo_ctx ?rq (sha256_hex ''body'') demo_cst =
     (demo_cst, Inr \<lparr>c_result = zero_result, c_replayed = False, c_project = demo_project demo_members, c_sources = [], c_found = False\<rparr>)"
    using demo_authorized rq ops src by (simp add: source_phase_def source_recheck_def workspace_request_def demo_chapter_ws_def gorm_Transaction_def tx_once_def
      demo_attempt_def check_project_def seam_check_def replay_lookup_def operationLedger_def Operation_def source_ids_def
      sourceOperationInput_def write_request_def authorizationRequest_def Let_def)
  have "\<exists>out ops. Run demo_ctx ?rq 0 0 demo_cst = (st'\<lparr>st_ops := ops\<rparr>, out, None)"
    using gate admit phase w st ops src
    by (simp add: Run_def prepare_step_def write_body_def replay_lookup_def source_compare_def source_ids_def
      mark_replay_def perform_def seam_check_def seam_write_def gorm_Transaction_def tx_once_def demo_attempt_def
      workspace_request_def demo_chapter_ws_def operationLedger_def sourceOperationInput_def SaveOperation_def spec_identity_def Operation_def
      op_RetryLocks_def retryLockedOperations_def plain_actor_def zero_outcome_def write_request_def authorizationRequest_def) (rule exI, rule refl)
  then obtain out ops' where "Run demo_ctx ?rq 0 0 demo_cst = (st'\<lparr>st_ops := ops'\<rparr>, out, None)" by blast
  moreover have "serve_chapter demo_chapter_request demo_cst = fst (Run demo_ctx ?rq 0 0 demo_cst)"
    by (simp add: serve_chapter_def demo_chapter_request_def CommitWorkingCopy_def runOperationCore_def demo_commit_def split: prod.splits option.splits)
  ultimately show ?thesis using vs by simp
qed

theorem service_keeps_chapters_witness:
  "chapters_ok (st_rest (fold serve_chapter [demo_chapter_request, demo_chapter_request] demo_cst)) \<and>
   map cv_ID (ct_versions (st_rest (serve_chapter demo_chapter_request demo_cst))) = [''v1'', ''v2'']"
  using service_keeps_chapters [of "[demo_chapter_request, demo_chapter_request]" demo_cst] demo_chapter_served demo_chapters_ok demo_chapter_committed by simp

end
