(* ===== verification/Template_Copy.thy ===== *)
theory Template_Copy
  imports Chapter_Store Template_Check
begin

text \<open>
  The template copy a project owns: what \<^verbatim>\<open>workspacecore/service_facade.go\<close> checks of it, the policies of
  \<^verbatim>\<open>templategovernance/policy.go\<close> it carries, the values its fields admit, the rules a project must pass before it
  goes live (\<^verbatim>\<open>membership_grants.go\<close>), and the order of the chapters it asks for.

  The columns of a copy that the store keeps as one value (the definition and the evidence of its rule set) are
  the record \<^verbatim>\<open>copy_content\<close>; the kind of its source and the evidence of a legacy rule set, which nothing here reads,
  are left out.  Reading a decimal literal as a float64 or as an exact rational, and \<^verbatim>\<open>json.Marshal\<close> of
  the policies, are functions of the environment.
\<close>

section \<open>Binding policies\<close>

record binding_policy =
  bp_RuleID :: string
  bp_MayDisable :: bool
  bp_AllowedTargetKinds :: "string list"
  bp_AllowedTargetIDs :: "string list"
  bp_AllowedParameterKeys :: "string list"
  bp_ParameterBounds :: "(string \<times> (rat option \<times> rat option)) list"
  bp_AllowedSeverities :: "string list"

text \<open>What \<^verbatim>\<open>strconv.ParseFloat\<close> can say of a literal.\<close>

datatype parsed_float = FNaN | FInf | FFinite rat

record copy_env =
  ce_tpl :: tpl_env
  ce_marshalPolicies :: "binding_policy list \<Rightarrow> goerr + string"
  ce_ParseFloat :: "string \<Rightarrow> parsed_float option"
  ce_RatString :: "string \<Rightarrow> rat option"

definition bounds_ok :: "rat option \<times> rat option \<Rightarrow> bool" where
  "bounds_ok b = (case b of (Some lo, Some hi) \<Rightarrow> lo \<le> hi | _ \<Rightarrow> True)"

definition items_ok :: "string list \<Rightarrow> bool" where
  "items_ok items \<longleftrightarrow> [] \<notin> set items \<and> distinct items"

fun check_policies :: "string list \<Rightarrow> binding_policy list \<Rightarrow> goerr + binding_policy list" where
  "check_policies seen [] = Inr []"
| "check_policies seen (p # ps) =
     (if \<not> stableID (bp_RuleID p) \<or> bp_RuleID p \<in> set seen then Inl (Sentinel GovErrInvalidRequest)
      else if \<not> (items_ok (bp_AllowedTargetKinds p) \<and> items_ok (bp_AllowedTargetIDs p) \<and> items_ok (bp_AllowedParameterKeys p) \<and> items_ok (bp_AllowedSeverities p))
        then Inl (Sentinel GovErrInvalidRequest)
      else if \<not> list_all (\<lambda>(k, b). bounds_ok b) (bp_ParameterBounds p) then Inl (Sentinel GovErrInvalidRequest)
      else bindR (check_policies (bp_RuleID p # seen) ps) (\<lambda>qs.
        Inr (p\<lparr>bp_AllowedTargetKinds := sort (bp_AllowedTargetKinds p), bp_AllowedTargetIDs := sort (bp_AllowedTargetIDs p),
               bp_AllowedParameterKeys := sort (bp_AllowedParameterKeys p), bp_AllowedSeverities := sort (bp_AllowedSeverities p)\<rparr> # qs)))"

definition HashBindingPolicies :: "copy_env \<Rightarrow> binding_policy list \<Rightarrow> goerr + string" where
  "HashBindingPolicies ce policies =
     (case ce_marshalPolicies ce policies of
        Inl _ \<Rightarrow> Inl (Sentinel GovErrInvalidRequest)
      | Inr _ \<Rightarrow> bindR (check_policies [] policies) (\<lambda>canonical.
          bindR (ce_marshalPolicies ce (sort_key bp_RuleID canonical)) (\<lambda>raw. Inr (sha256_hex raw))))"

section \<open>The copy of a project\<close>

record copy_content =
  cc_BindingPolicies :: "binding_policy list"
  cc_SourcePolicyHash :: string
  cc_RuleSetSnapshot :: "rule_set option"
  cc_SourceRuleSetID :: string
  cc_SourceRuleSetVersion :: string
  cc_SourceRuleSetHash :: string
  cc_RuleSetRef :: "rule_set_ref option"
  cc_Definition :: template

type_synonym tcopy = "copy_content template_copy"

type_synonym tproject = "copy_content project"

definition copy_definition :: "tcopy \<Rightarrow> template" where
  "copy_definition c = cc_Definition (tc_Definition c)"

text \<open>The checks on the rule set of a copy: the hash it must carry, or a refusal.\<close>

definition same_source :: "rule_set_ref \<Rightarrow> rule_set \<Rightarrow> bool" where
  "same_source ref s \<longleftrightarrow> s_ID s = ref_ID ref \<and> s_Version s = ref_Version ref \<and> s_RulesetHash s = ref_Hash ref"

definition copy_rule_hash :: "tpl_env \<Rightarrow> copy_content \<Rightarrow> string \<Rightarrow> string option" where
  "copy_rule_hash te c compiled =
     (let d = cc_Definition c; noSource = (cc_SourceRuleSetID c = [] \<and> cc_SourceRuleSetVersion c = [] \<and> cc_SourceRuleSetHash c = []) in
      if t_RuleSetSnapshot d \<noteq> None \<or> t_RuleSetRef d \<noteq> None then
        (case (t_RuleSetSnapshot d, RuleSetReferenceFor d) of
           (Some snap, Some ref) \<Rightarrow>
             if \<not> same_source ref snap then None
             else if (case cc_RuleSetSnapshot c of None \<Rightarrow> False | Some s \<Rightarrow> ValidateRuleSet te s \<noteq> Inr () \<or> \<not> same_source ref s) then None
             else if \<not> noSource \<and> (cc_SourceRuleSetID c \<noteq> ref_ID ref \<or> cc_SourceRuleSetVersion c \<noteq> ref_Version ref \<or> cc_SourceRuleSetHash c \<noteq> ref_Hash ref) then None
             else Some compiled
         | _ \<Rightarrow> None)
      else case cc_RuleSetSnapshot c of
        Some s \<Rightarrow>
          if ValidateRuleSet te s \<noteq> Inr () then None
          else if cc_SourceRuleSetID c = [] \<or> cc_SourceRuleSetVersion c = [] \<or> cc_SourceRuleSetHash c = [] then None
          else Some (s_RulesetHash s)
      | None \<Rightarrow> if noSource then Some compiled else None)"

definition validateProjectTemplateCopy :: "copy_env \<Rightarrow> tcopy \<Rightarrow> bool" where
  "validateProjectTemplateCopy ce c =
     (let x = tc_Definition c; d = cc_Definition x; te = ce_tpl ce in
      tc_ID c \<noteq> [] \<and> tc_ProjectID c \<noteq> [] \<and> 1 \<le> tc_Version c \<and> tc_SourceTemplateID c \<noteq> [] \<and> tc_SourceTemplateVersion c \<noteq> [] \<and>
      (cc_SourcePolicyHash x = [] \<and> cc_BindingPolicies x = [] \<or> HashBindingPolicies ce (cc_BindingPolicies x) = Inr (cc_SourcePolicyHash x)) \<and>
      (case Hashes te d of
         Inl _ \<Rightarrow> False
       | Inr (contentHash, compiled) \<Rightarrow>
           (case copy_rule_hash te x compiled of
              None \<Rightarrow> False
            | Some rulesetHash \<Rightarrow>
                contentHash = tc_ContentHash c \<and> rulesetHash = tc_RulesetHash c \<and> t_ContentHash d = tc_ContentHash c \<and> t_RulesetHash d = compiled \<and>
                t_ID d = tc_SourceTemplateID c \<and> t_Version d = tc_SourceTemplateVersion c)) \<and>
      (t_RuleSetSnapshot d \<noteq> None \<or> t_RuleSetRef d \<noteq> None \<longrightarrow> okR (VerifyRuleSetBinding te d)) \<and>
      cc_RuleSetRef x = RuleSetReferenceFor d)"

definition projectTemplateCopy :: "copy_env \<Rightarrow> string \<Rightarrow> int \<Rightarrow> actor \<Rightarrow> string \<Rightarrow> int \<Rightarrow> template \<Rightarrow> string \<Rightarrow> goerr + tcopy" where
  "projectTemplateCopy ce newID now a pid version source status =
     (if (t_RuleSetSnapshot source \<noteq> None \<or> t_RuleSetRef source \<noteq> None) \<and> \<not> okR (VerifyRuleSetBinding (ce_tpl ce) source) then Inl (Sentinel ErrInvalidRequest)
      else case WithHashes (ce_tpl ce) source of
        Inl _ \<Rightarrow> Inl (Sentinel ErrInvalidRequest)
      | Inr d \<Rightarrow>
          Inr \<lparr>tc_ID = newID, tc_ProjectID = pid, tc_SourceTemplateID = t_ID source, tc_SourceTemplateVersion = t_Version source, tc_Version = version, tc_Status = status,
               tc_ContentHash = t_ContentHash d, tc_RulesetHash = t_RulesetHash d,
               tc_Definition = \<lparr>cc_BindingPolicies = [], cc_SourcePolicyHash = [], cc_RuleSetSnapshot = None,
                 cc_SourceRuleSetID = [], cc_SourceRuleSetVersion = [], cc_SourceRuleSetHash = [], cc_RuleSetRef = RuleSetReferenceFor d, cc_Definition = d\<rparr>,
               tc_CreatedBy = UserID a, tc_CreatedAt = now\<rparr>)"

section \<open>Fields\<close>

definition zero_field :: field_def where
  "zero_field = \<lparr>f_ID = [], f_Label = [], f_Description = [], f_Type = [], f_Order = 0, f_Required = False, f_Options = []\<rparr>"

definition require_field :: "(string \<rightharpoonup> field_def) \<Rightarrow> string \<Rightarrow> (string \<rightharpoonup> field_def)" where
  "require_field known i =
     (let v = (case known i of Some f \<Rightarrow> f | None \<Rightarrow> zero_field);
          v = v\<lparr>f_ID := i, f_Required := True\<rparr>
      in known(i \<mapsto> (if f_Type v = [] then v\<lparr>f_Type := ''string''\<rparr> else v)))"

definition templateFieldDefinitions :: "template \<Rightarrow> (string \<rightharpoonup> field_def)" where
  "templateFieldDefinitions t = foldl require_field (foldl (\<lambda>m f. m(f_ID f \<mapsto> f)) Map.empty (t_Fields t)) (t_RequiredFields t)"

definition template_field_ids :: "template \<Rightarrow> string list" where
  "template_field_ids t = map f_ID (t_Fields t) @ t_RequiredFields t"

definition ParseBool :: "string \<Rightarrow> bool option" where
  "ParseBool v =
     (if v \<in> {''1'', ''t'', ''T'', ''TRUE'', ''true'', ''True''} then Some True
      else if v \<in> {''0'', ''f'', ''F'', ''FALSE'', ''false'', ''False''} then Some False else None)"

definition trim_prefix :: "string \<Rightarrow> string \<Rightarrow> string" where
  "trim_prefix s p = (if has_prefix s p then drop (length p) s else s)"

text \<open>The digits of a literal that reads as zero: nothing but zeros, dots and underscores may stand before the exponent.\<close>

definition zero_mantissa :: "string \<Rightarrow> bool" where
  "zero_mantissa v =
     (let m = trim_prefix (trim_prefix v ''+'') ''-'';
          m = (if has_prefix (map lower_byte m) ''0x'' then takeWhile (\<lambda>c. c \<notin> {CHR ''p'', CHR ''P''}) (drop 2 m)
               else takeWhile (\<lambda>c. c \<notin> {CHR ''e'', CHR ''E''}) m)
      in list_all (\<lambda>c. c \<in> {CHR ''0'', CHR ''.'', CHR ''_''}) m)"

definition is_integer :: "rat \<Rightarrow> bool" where
  "is_integer x \<longleftrightarrow> rat_of_int \<lfloor>x\<rfloor> = x"

definition compatibleTemplateValue :: "copy_env \<Rightarrow> string \<Rightarrow> field_def \<Rightarrow> bool" where
  "compatibleTemplateValue ce v field =
     (if trim_space v = [] then \<not> f_Required field
      else if f_Type field \<in> {[], ''string'', ''text''} then True
      else if f_Type field \<in> {''number'', ''integer''} then
        (case ce_ParseFloat ce v of
           Some (FFinite x) \<Rightarrow>
             if f_Type field = ''number'' then True
             else if \<not> is_integer x then False
             else if x = 0 then zero_mantissa v
             else (case ce_RatString ce v of None \<Rightarrow> False | Some r \<Rightarrow> is_integer r)
         | _ \<Rightarrow> False)
      else if f_Type field = ''boolean'' then ParseBool v \<noteq> None
      else if f_Type field = ''enum'' then v \<in> set (f_Options field)
      else False)"

section \<open>The rules a project must pass\<close>

definition spec_value :: "'d project \<Rightarrow> string \<Rightarrow> string" where
  "spec_value p i = (case map_of (p_Spec p) i of Some v \<Rightarrow> v | None \<Rightarrow> [])"

definition field_rules :: "rule list \<Rightarrow> string list" where
  "field_rules rs = map r_ID (filter (\<lambda>r. r_Evaluator r = ''required_fields'' \<or> pstring (r_Parameters r) ''target_kind'' = Some ''field'') rs)"

definition field_bindings :: "rule_set \<Rightarrow> string list" where
  "field_bindings s = map b_RuleID (filter (\<lambda>b. b_TargetKind b = ''field'' \<or> b_DefinitionID b = ''computed/required_fields'') (s_Bindings s))"

definition validateInitializationRules :: "copy_env \<Rightarrow> tproject \<Rightarrow> goerr option" where
  "validateInitializationRules ce p =
     (case p_TemplateCopy p of
        None \<Rightarrow> Some (Sentinel ErrInvalidState)
      | Some c \<Rightarrow>
          (let d = copy_definition c; te = ce_tpl ce;
               inp = \<lparr>in_ProjectID = p_ID p, in_TargetVersion = show_int (p_ProjectVersion p), in_Fields = map_of (p_Spec p), in_Chapters = [], in_Sources = [], in_ReviewItems = []\<rparr>;
               (required, results) =
                 (case t_RuleSetSnapshot d of
                    Some snap \<Rightarrow> (field_rules (t_Rules d) @ field_bindings snap, Evaluate te d inp)
                  | None \<Rightarrow>
                      (case cc_RuleSetSnapshot (tc_Definition c) of
                         Some s \<Rightarrow> (field_bindings s, EvaluateRuleSet te d s ''write_check'' inp)
                       | None \<Rightarrow> (field_rules (t_Rules d), Evaluate te d inp)))
           in case results of
                Inl _ \<Rightarrow> Some (Sentinel ErrInvalidState)
              | Inr evs \<Rightarrow>
                  if list_ex (\<lambda>e. e_RuleID e \<in> set required \<and> e_Severity e = ''blocking'' \<and> e_Status e \<noteq> EvaluationPass) evs
                  then Some (Sentinel ErrInvalidState) else None))"

section \<open>The order of chapters\<close>

text \<open>
  \<^verbatim>\<open>slices.SortStableFunc\<close>: an element is put before the first one it does not compare greater than, so equal ones
  keep their order.
\<close>

fun insert_by :: "('a \<Rightarrow> 'a \<Rightarrow> int) \<Rightarrow> 'a \<Rightarrow> 'a list \<Rightarrow> 'a list" where
  "insert_by cmp x [] = [x]"
| "insert_by cmp x (y # ys) = (if cmp x y \<le> 0 then x # y # ys else y # insert_by cmp x ys)"

definition SortStableFunc :: "('a \<Rightarrow> 'a \<Rightarrow> int) \<Rightarrow> 'a list \<Rightarrow> 'a list" where
  "SortStableFunc cmp xs = foldr (insert_by cmp) xs []"

definition strings_Compare :: "string \<Rightarrow> string \<Rightarrow> int" where
  "strings_Compare a b = (if a < b then - 1 else if a = b then 0 else 1)"

definition section_ranks :: "template \<Rightarrow> (string \<rightharpoonup> nat)" where
  "section_ranks t = foldl (\<lambda>m (i, sec). m(sec_ID sec \<mapsto> i)) Map.empty (List.enumerate 0 (t_Sections t))"

definition chapter_order :: "(string \<rightharpoonup> nat) \<Rightarrow> chapter_data \<Rightarrow> chapter_data \<Rightarrow> int" where
  "chapter_order ranks l r =
     (case (ranks (ch_SectionID l), ranks (ch_SectionID r)) of
        (Some i, Some j) \<Rightarrow> if i < j then - 1 else if i > j then 1 else strings_Compare (ch_SectionID l) (ch_SectionID r)
      | (Some _, None) \<Rightarrow> - 1
      | (None, Some _) \<Rightarrow> 1
      | (None, None) \<Rightarrow> strings_Compare (ch_SectionID l) (ch_SectionID r))"

definition orderChapters :: "chapter_data list \<Rightarrow> template \<Rightarrow> chapter_data list" where
  "orderChapters chapters t = SortStableFunc (chapter_order (section_ranks t)) chapters"

section \<open>What the checks give\<close>

lemma required_field_defined:
  assumes "i \<in> set (t_RequiredFields t)"
  shows "\<exists>f. templateFieldDefinitions t i = Some f \<and> f_Required f"
proof -
  have keep: "(\<exists>f. foldl require_field m is i = Some f \<and> f_Required f)" if "\<exists>f. m i = Some f \<and> f_Required f" for m "is"
    using that by (induction "is" arbitrary: m) (auto simp: require_field_def Let_def)
  have "(\<exists>f. foldl require_field m is i = Some f \<and> f_Required f)" if "i \<in> set is" for m "is"
    using that
  proof (induction "is" arbitrary: m)
    case (Cons j js)
    show ?case
    proof (cases "i = j")
      case True
      then have "\<exists>f. require_field m j i = Some f \<and> f_Required f" by (simp add: require_field_def Let_def)
      then show ?thesis using keep by simp
    qed (use Cons in simp)
  qed simp
  then show ?thesis using assms by (simp add: templateFieldDefinitions_def)
qed

end
