(* ===== verification/Project_Life.thy ===== *)
theory Project_Life
  imports Template_Copy Chapter_Steps
begin

text \<open>
  The life of a project: discarding and restoring a draft, the reading receipt, the activation that opens its
  chapters, what changed since a version, and the list of chapters, from \<^verbatim>\<open>workspacecore/service_facade.go\<close> and
  \<^verbatim>\<open>membership_lifecycle.go\<close>.  The catalogue of templates and the clock are functions of the environment.
\<close>

section \<open>Environment, requests, answers\<close>

record 'r life_env =
  le_store :: "(copy_content, 'r chapter_tables) store_env"
  le_copy :: copy_env
  le_now :: int
  le_newID :: "nat \<Rightarrow> string"
  le_requireActivationRead :: bool
  le_templates :: "string \<Rightarrow> string \<Rightarrow> goerr + template"

record activate_input =
  av_ActivationReadID :: string
  av_ExpectedSpecRevision :: int
  av_ExpectedProjectVersion :: int
  av_ReviewedProjectVersion :: int

datatype life_body = BVersion int | BActivate activate_input

type_synonym 'r life_store = "(copy_content, 'r) chapter_store"

type_synonym 'r life_write = "tproject \<Rightarrow> 'r life_store \<Rightarrow> goerr + (tproject operation_outcome \<times> 'r life_store)"

type_synonym ('r, 'x) life_ws = "('r life_store, copy_content, life_body, tproject, 'x) ws_env"

definition with_project :: "tproject \<Rightarrow> 'r life_store \<Rightarrow> goerr + (tproject operation_outcome \<times> 'r life_store)" where
  "with_project p st = Inr (\<lparr>oo_Value = p, oo_Status = OperationStatusOK, oo_Output = []\<rparr>, st)"

definition life_audit :: "string \<Rightarrow> int \<Rightarrow> actor \<Rightarrow> string \<Rightarrow> string \<Rightarrow> 'r life_store \<Rightarrow> goerr + 'r life_store" where
  "life_audit newID now a pid action =
     RecordAudit \<lparr>ar_ID = newID, ar_ProjectID = pid, ar_ActorID = UserID a, ar_Action = action, ar_Target = pid, ar_TenantID = 0, ar_UserID = [], ar_Reason = [],
       ar_Decision = [], ar_CreatedAt = now\<rparr>"

section \<open>Discarding and restoring\<close>

definition discarded_project :: "int \<Rightarrow> tproject \<Rightarrow> tproject" where
  "discarded_project now p = p\<lparr>p_DiscardedAt := Some now, p_TemplateCopy := map_option (\<lambda>c. c\<lparr>tc_Status := ''discarded''\<rparr>) (p_TemplateCopy p),
     p_ProjectVersion := p_ProjectVersion p + 1\<rparr>"

definition discard_write :: "'r life_env \<Rightarrow> actor \<Rightarrow> string \<Rightarrow> int \<Rightarrow> 'r life_write" where
  "discard_write le a pid expected p st =
     (if p_ProjectVersion p \<noteq> expected then Inl (Sentinel ErrVersionConflict)
      else if p_DiscardedAt p \<noteq> None \<or> p_Status p \<noteq> ''draft'' then Inl (Sentinel ErrInvalidState)
      else let nxt = discarded_project (le_now le) p in
        bindR (UpdateProject (le_store le) (TenantID a) p nxt st) (\<lambda>st1.
        bindR (life_audit (le_newID le 0) (le_now le) a pid ''project.discard'' st1) (\<lambda>st2. with_project nxt st2)))"

definition restored_project :: "'r life_env \<Rightarrow> actor \<Rightarrow> tproject \<Rightarrow> tproject" where
  "restored_project le a p =
     (let nxt = p\<lparr>p_DiscardedAt := None\<rparr>;
          nxt = (case p_TemplateCopy p of
              Some c \<Rightarrow> if tc_Status c = ''discarded''
                then nxt\<lparr>p_TemplateCopy := Some (c\<lparr>tc_ID := le_newID le 1, tc_Version := p_TemplateCopyVersion p + 1, tc_Status := ''draft'', tc_CreatedBy := UserID a,
                       tc_CreatedAt := le_now le\<rparr>), p_TemplateCopyVersion := p_TemplateCopyVersion p + 1\<rparr>
                else nxt
            | None \<Rightarrow> nxt)
      in nxt\<lparr>p_ProjectVersion := p_ProjectVersion p + 1\<rparr>)"

definition restore_project_write :: "'r life_env \<Rightarrow> actor \<Rightarrow> string \<Rightarrow> int \<Rightarrow> 'r life_write" where
  "restore_project_write le a pid expected p st =
     (if \<not> projectOwner p (UserID a) then Inl (Sentinel ErrNotFound)
      else if p_DiscardedAt p = None then Inl (Sentinel ErrInvalidState)
      else if p_ProjectVersion p \<noteq> expected then Inl (Sentinel ErrVersionConflict)
      else let nxt = restored_project le a p in
        bindR (UpdateProject (le_store le) (TenantID a) p nxt st) (\<lambda>st1.
        bindR (life_audit (le_newID le 0) (le_now le) a pid ''project.restore'' st1) (\<lambda>st2. with_project nxt st2)))"

section \<open>Activation\<close>

definition validateActivationRead :: "actor \<Rightarrow> tproject \<Rightarrow> string \<Rightarrow> 'r life_store \<Rightarrow> goerr + unit" where
  "validateActivationRead a p i st =
     bindR (GetProjectRecord st (p_ID p) ''activation_read'' i) (\<lambda>(_, payload).
       case payload of
         RReceipt r \<Rightarrow> if rc_ActorID r \<noteq> UserID a \<or> rc_ProjectVersion r \<noteq> p_ProjectVersion p \<or> rc_SpecRevision r \<noteq> p_SpecRevision p
                       then Inl (Sentinel ErrVersionConflict) else Inr ()
       | _ \<Rightarrow> Inl (Raw ''json: cannot unmarshal''))"

definition activation_copy :: "'r life_env \<Rightarrow> actor \<Rightarrow> tproject \<Rightarrow> goerr + tcopy" where
  "activation_copy le a p =
     (case p_TemplateCopy p of
        None \<Rightarrow>
          (case le_templates le (p_TemplateID p) (p_TemplateVersion p) of
             Inl _ \<Rightarrow> Inl (Sentinel ErrInvalidState)
           | Inr t \<Rightarrow> if t_Version t \<noteq> p_TemplateVersion p then Inl (Sentinel ErrInvalidState)
                      else projectTemplateCopy (le_copy le) (le_newID le 0) (le_now le) a (p_ID p) (p_TemplateCopyVersion p + 1) t ''draft'')
      | Some c \<Rightarrow> if tc_Status c \<noteq> ''draft'' \<or> \<not> validateProjectTemplateCopy (le_copy le) c then Inl (Sentinel ErrInvalidState) else Inr c)"

definition fields_complete :: "copy_env \<Rightarrow> tproject \<Rightarrow> template \<Rightarrow> bool" where
  "fields_complete ce p t \<longleftrightarrow>
     list_all (\<lambda>i. trim_space (spec_value p i) \<noteq> []) (t_RequiredFields t) \<and>
     list_all (\<lambda>i. case templateFieldDefinitions t i of None \<Rightarrow> True
        | Some f \<Rightarrow> f_Required f \<longrightarrow> compatibleTemplateValue ce (spec_value p i) f) (template_field_ids t)"

definition activated_project :: "'r life_env \<Rightarrow> tproject \<Rightarrow> tcopy \<Rightarrow> tproject" where
  "activated_project le p c = p\<lparr>p_Status := ''active'', p_TemplateCopy := Some (c\<lparr>tc_Status := ''bound''\<rparr>), p_TemplateCopyVersion := tc_Version c,
     p_CurrentContextRevision := 1, p_DeliveryStatus := ''NOT_READY'', p_BaselineConfirmationID := le_newID le 1, p_ProjectVersion := p_ProjectVersion p + 1\<rparr>"

definition baselineRecord :: "int \<Rightarrow> tproject \<Rightarrow> actor \<Rightarrow> baseline_record" where
  "baselineRecord now p a = \<lparr>bl_ID = p_BaselineConfirmationID p, bl_ProjectID = p_ID p, bl_ActorID = UserID a, bl_ProjectVersion = p_ProjectVersion p,
     bl_SpecRevision = p_SpecRevision p, bl_TemplateCopyVersion = p_TemplateCopyVersion p, bl_SpecFields = p_SpecFields p, bl_Spec = p_Spec p, bl_ConfirmedAt = now\<rparr>"

definition section_chapter :: "string \<Rightarrow> string \<Rightarrow> section_def \<Rightarrow> chapter_data" where
  "section_chapter pid i sec = \<lparr>ch_ID = i, ch_ProjectID = pid, ch_SectionID = sec_ID sec, ch_Title = sec_Title sec, ch_CurrentVersionID = None, ch_BodyMarkdown = [],
     ch_SourceIDs = [], ch_CitationUsages = [], ch_CitationStatuses = [], ch_ReviewItems = [], ch_ConfirmationValid = False\<rparr>"

fun insert_sections :: "int \<Rightarrow> (nat \<Rightarrow> string) \<Rightarrow> nat \<Rightarrow> string \<Rightarrow> section_def list \<Rightarrow> 'r life_store \<Rightarrow> goerr + 'r life_store" where
  "insert_sections now ids n pid [] st = Inr st"
| "insert_sections now ids n pid (sec # secs) st =
     bindR (InsertChapter now (section_chapter pid (ids n) sec) st) (insert_sections now ids (Suc n) pid secs)"

definition given_or :: "int \<Rightarrow> int \<Rightarrow> int" where
  "given_or given current = (if given = 0 then current else given)"

definition activate_write :: "'r life_env \<Rightarrow> ('r life_store \<Rightarrow> copy_content tx_view) \<Rightarrow> actor \<Rightarrow> string \<Rightarrow> activate_input \<Rightarrow> 'r life_write" where
  "activate_write le view a pid inp p st =
     (case ownerDecisionInTransaction (view st) p a of
        Some e \<Rightarrow> Inl e
      | None \<Rightarrow>
          bindR (if \<not> le_requireActivationRead le then Inr ()
                 else if av_ActivationReadID inp = [] then Inl (Sentinel ErrInvalidRequest)
                 else validateActivationRead a p (av_ActivationReadID inp) st) (\<lambda>_.
          let expected = given_or (av_ExpectedProjectVersion inp) (p_ProjectVersion p); reviewed = given_or (av_ReviewedProjectVersion inp) (p_ProjectVersion p) in
          if expected < 1 \<or> reviewed < 1 then Inl (Sentinel ErrInvalidRequest)
          else if p_ProjectVersion p \<noteq> expected then Inl (Sentinel ErrVersionConflict)
          else if p_ProjectVersion p \<noteq> reviewed then Inl (Sentinel ErrVersionConflict)
          else if p_SpecRevision p \<noteq> av_ExpectedSpecRevision inp then Inl (Sentinel ErrVersionConflict)
          else if p_Status p \<noteq> ''draft'' then Inl (Sentinel ErrInvalidState)
          else bindR (activation_copy le a p) (\<lambda>c.
            if \<not> fields_complete (le_copy le) p (copy_definition c) then Inl (Sentinel ErrInvalidState)
            else case validateInitializationRules (le_copy le) p of
              Some e \<Rightarrow> Inl e
            | None \<Rightarrow>
                (let nxt = activated_project le p c in
                 bindR (if le_requireActivationRead le
                        then PutProjectRecord pid ''baseline_confirmation'' (p_BaselineConfirmationID nxt) 0 (RBaseline (baselineRecord (le_now le) nxt a)) st
                        else Inr st) (\<lambda>st1.
                 bindR (UpdateProject (le_store le) (TenantID a) p nxt st1) (\<lambda>st2.
                 bindR (insert_sections (le_now le) (le_newID le) 3 pid (t_Sections (copy_definition c)) st2) (\<lambda>st3.
                 bindR (life_audit (le_newID le 2) (le_now le) a pid ''project.activate'' st3) (\<lambda>st4. with_project nxt st4))))))))"

section \<open>Handlers\<close>

definition operationInput :: "string \<Rightarrow> string \<Rightarrow> string \<Rightarrow> life_body \<Rightarrow> auth_request \<Rightarrow> ('r life_store, copy_content, life_body) operation_spec" where
  "operationInput name target key body request =
     \<lparr>sp_Name = name, sp_Target = target, sp_Key = key, sp_Body = body, sp_Request = request, sp_Output = operationOutputFor name, sp_CheckProject = None, sp_SourceIDs = None\<rparr>"

definition DiscardProject :: "('r, 'x) life_ws \<Rightarrow> 'r life_env \<Rightarrow> 'x gocontext \<Rightarrow> actor \<Rightarrow> string \<Rightarrow> string \<Rightarrow> int \<Rightarrow> int \<Rightarrow> int \<Rightarrow> 'r life_store \<Rightarrow> (copy_content, 'r chapter_tables) answer" where
  "DiscardProject env le ctx a pid key expected el el' s =
     (if expected < 1 then refuse (Sentinel ErrInvalidRequest) s
      else runOperationCore env ctx a (operationInput ''discardProject'' pid key (BVersion expected) (authorizationRequest a pid ''manage'' [])) (discard_write le a pid expected) el el' s)"

definition RestoreProject :: "('r, 'x) life_ws \<Rightarrow> 'r life_env \<Rightarrow> 'x gocontext \<Rightarrow> actor \<Rightarrow> string \<Rightarrow> string \<Rightarrow> int \<Rightarrow> int \<Rightarrow> int \<Rightarrow> 'r life_store \<Rightarrow> (copy_content, 'r chapter_tables) answer" where
  "RestoreProject env le ctx a pid key expected el el' s =
     (if expected < 1 then refuse (Sentinel ErrInvalidRequest) s
      else runOperationCore env ctx a (operationInput ''restoreProject'' pid key (BVersion expected) (authorizationRequest a pid ''read'' [])) (restore_project_write le a pid expected) el el' s)"

definition ActivateProject :: "('r, 'x) life_ws \<Rightarrow> 'r life_env \<Rightarrow> 'x gocontext \<Rightarrow> actor \<Rightarrow> string \<Rightarrow> string \<Rightarrow> activate_input \<Rightarrow> int \<Rightarrow> int \<Rightarrow> 'r life_store \<Rightarrow> (copy_content, 'r chapter_tables) answer" where
  "ActivateProject env le ctx a pid key inp el el' s =
     (if av_ExpectedSpecRevision inp < 0 then refuse (Sentinel ErrInvalidRequest) s
      else case OwnerFreezeRefusal env a pid s of
        (s1, Some e) \<Rightarrow> refuse e s1
      | (s1, None) \<Rightarrow>
          runOperationCore env ctx a (operationInput ''activateProject'' pid key (BActivate inp) (authorizationRequest a pid ''write'' []))
            (activate_write le (we_view env) a pid inp) el el' s1)"

definition receipt_write :: "('r, 'x) life_ws \<Rightarrow> 'r life_env \<Rightarrow> 'x gocontext \<Rightarrow> actor \<Rightarrow> string \<Rightarrow> int \<Rightarrow> 'r life_store \<Rightarrow> goerr + read_receipt \<times> 'r life_store" where
  "receipt_write env le ctx a pid version t =
     bindR (authorizeProject (we_policy env) ctx (we_view env t) (authorizationRequest a pid ''read'' [])) (\<lambda>p.
       if \<not> projectOwner p (UserID a) \<or> p_Status p \<noteq> ''draft'' then Inl (Sentinel ErrInvalidState)
       else if p_ProjectVersion p \<noteq> version then Inl (Sentinel ErrVersionConflict)
       else let r = \<lparr>rc_ID = le_newID le 0, rc_ActorID = UserID a, rc_ProjectID = pid, rc_ProjectVersion = p_ProjectVersion p, rc_SpecRevision = p_SpecRevision p, rc_ReadAt = le_now le\<rparr> in
         bindR (PutProjectRecord pid ''activation_read'' (rc_ID r) 0 (RReceipt r) t) (\<lambda>t1.
         bindR (recordProjectAuditEvent (le_newID le 1) (le_now le) a pid ''project.activation_diff_read'' (rc_ID r) [] t1) (\<lambda>t2. Inr (r, t2))))"

definition write_tx_result :: "('s, 'd, 'b, 'v, 'x) ws_env \<Rightarrow> tx_options \<Rightarrow> 'r \<Rightarrow> ('s \<Rightarrow> goerr + 'r \<times> 's) \<Rightarrow> 's \<Rightarrow> 's \<times> (goerr + 'r)" where
  "write_tx_result env options zero body s =
     (case gorm_Transaction (we_ctxErr env) (we_sched env) options (\<lambda>k t. case body t of Inl e \<Rightarrow> (k, Inl e) | Inr (r, t') \<Rightarrow> (r, Inr t')) zero s of
        (k, s', Some e) \<Rightarrow> (s', Inl e)
      | (k, s', None) \<Rightarrow> (s', Inr k))"

definition RecordActivationRead :: "('r, 'x) life_ws \<Rightarrow> 'r life_env \<Rightarrow> 'x gocontext \<Rightarrow> actor \<Rightarrow> string \<Rightarrow> int \<Rightarrow> read_receipt \<Rightarrow> 'r life_store \<Rightarrow> 'r life_store \<times> (goerr + read_receipt)" where
  "RecordActivationRead env le ctx a pid version zero s =
     (case RequireHumanDecision ctx (Sentinel ErrHumanDecisionRequired) of
        Some e \<Rightarrow> (s, Inl e)
      | None \<Rightarrow> write_tx_result env \<lparr>ReadOnly = False, RetryLocks = False, RepeatableRead = False\<rparr> zero (receipt_write env le ctx a pid version) s)"

section \<open>Reading\<close>

record field_change =
  fc_Key :: string
  fc_Value :: string
  fc_Origin :: string
  fc_Status :: string
  fc_ModifiedBy :: string
  fc_ModifiedAt :: int
  fc_ModifiedProjectVersion :: int

record activation_diff =
  ad_ProjectID :: string
  ad_CurrentProjectVersion :: int
  ad_CurrentSpecRevision :: int
  ad_ChangedSinceVersion :: int
  ad_ChangedFields :: "field_change list"
  ad_PendingAIFields :: "field_change list"

definition field_change_of :: "string \<Rightarrow> spec_field \<Rightarrow> field_change" where
  "field_change_of k f = \<lparr>fc_Key = k, fc_Value = sf_Value f, fc_Origin = sf_Origin f, fc_Status = sf_Status f, fc_ModifiedBy = sf_ModifiedBy f, fc_ModifiedAt = sf_ModifiedAt f,
     fc_ModifiedProjectVersion = sf_ModifiedProjectVersion f\<rparr>"

definition pending_ai :: "spec_field \<Rightarrow> bool" where
  "pending_ai f \<longleftrightarrow> (sf_Origin f = ''ai_generated'' \<or> sf_Origin f = ''ai_assisted_human'') \<and> sf_Status f = ''pending_confirmation''"

definition changed_since :: "int \<Rightarrow> int \<Rightarrow> spec_field \<Rightarrow> bool" where
  "changed_since since current f \<longleftrightarrow> sf_ModifiedProjectVersion f > since \<or> (sf_ModifiedProjectVersion f = 0 \<and> since < current)"

text \<open>The project is what \<^verbatim>\<open>GetProject\<close> answered.\<close>

definition ActivationDiff :: "goerr + 'd project \<Rightarrow> string \<Rightarrow> int \<Rightarrow> goerr + activation_diff" where
  "ActivationDiff got pid since =
     bindR got (\<lambda>p.
       if since < 0 then Inl (Sentinel ErrInvalidRequest)
       else Inr \<lparr>ad_ProjectID = pid, ad_CurrentProjectVersion = p_ProjectVersion p, ad_CurrentSpecRevision = p_SpecRevision p, ad_ChangedSinceVersion = since,
         ad_ChangedFields = sort_key fc_Key (map (\<lambda>(k, f). field_change_of k f) (filter (\<lambda>(k, f). changed_since since (p_ProjectVersion p) f) (p_SpecFields p))),
         ad_PendingAIFields = sort_key fc_Key (map (\<lambda>(k, f). field_change_of k f) (filter (\<lambda>(k, f). pending_ai f) (p_SpecFields p)))\<rparr>)"

datatype 'x citation_policy = NoPolicy | StatusPolicy "'x gocontext \<Rightarrow> string \<Rightarrow> string \<Rightarrow> string list \<Rightarrow> goerr + citation_status list"
  | ValidatePolicy "'x gocontext \<Rightarrow> string \<Rightarrow> string \<Rightarrow> string list \<Rightarrow> goerr option"

text \<open>The statuses of one chapter: a missing or unavailable one refuses the whole list, any other than available hides the text.\<close>

definition with_statuses :: "citation_status list \<Rightarrow> chapter_data \<Rightarrow> goerr + chapter_data" where
  "with_statuses statuses c =
     (if ch_SourceIDs c = [] then Inr c
      else bindR (mapR (\<lambda>i. case map_of (rev (map (\<lambda>s. (cs_SourceID s, s)) statuses)) i of
                    None \<Rightarrow> Inl (Sentinel ErrSourceUnavailable)
                  | Some s \<Rightarrow> if cs_Status s = ''unavailable'' then Inl (Sentinel ErrSourceUnavailable) else Inr s) (ch_SourceIDs c)) (\<lambda>ss.
        let shown = c\<lparr>ch_CitationStatuses := ss\<rparr> in
        Inr (if list_ex (\<lambda>s. cs_Status s \<noteq> ''available'') ss
             then markChapterUnconfirmed (shown\<lparr>ch_BodyMarkdown := [], ch_CitationUsages := []\<rparr>) else shown)))"

definition show_chapters :: "'x citation_policy \<Rightarrow> 'x gocontext \<Rightarrow> actor \<Rightarrow> string \<Rightarrow> chapter_data list \<Rightarrow> goerr + chapter_data list" where
  "show_chapters policy ctx a pid cs =
     (let ids = concat (map ch_SourceIDs cs) in
      if ids = [] then Inr cs
      else case policy of
        NoPolicy \<Rightarrow> Inl (Sentinel ErrSourceUnavailable)
      | StatusPolicy f \<Rightarrow> bindR (f ctx pid (UserID a) ids) (\<lambda>statuses. mapR (with_statuses statuses) cs)
      | ValidatePolicy f \<Rightarrow> (case f ctx pid (UserID a) ids of Some e \<Rightarrow> Inl e | None \<Rightarrow> Inr cs))"

definition chapters_read :: "('r, 'x) life_ws \<Rightarrow> 'r life_env \<Rightarrow> 'x gocontext \<Rightarrow> actor \<Rightarrow> string \<Rightarrow> 'r life_store \<Rightarrow> goerr + chapter_data list" where
  "chapters_read env le ctx a pid t =
     bindR (authorizeProject (we_policy env) ctx (we_view env t) (read_request a pid)) (\<lambda>p.
     bindR (Chapters t pid) (\<lambda>cs.
     bindR (le_templates le (p_TemplateID p) (p_TemplateVersion p)) (\<lambda>tpl. Inr (orderChapters cs tpl))))"

definition ListChapters :: "('r, 'x) life_ws \<Rightarrow> 'r life_env \<Rightarrow> 'x citation_policy \<Rightarrow> 'x gocontext \<Rightarrow> actor \<Rightarrow> string \<Rightarrow> 'r life_store \<Rightarrow> 'r life_store \<times> (goerr + chapter_data list)" where
  "ListChapters env le policy ctx a pid s =
     (case read_tx env read_only [] (chapters_read env le ctx a pid) s of
        (s1, Inl e) \<Rightarrow> (s1, Inl e)
      | (s1, Inr cs) \<Rightarrow> (s1, show_chapters policy ctx a pid cs))"

end
