(* ===== verification/Life_Demo.thy ===== *)
theory Life_Demo
  imports Project_Life
begin

text \<open>
  A concrete draft project on a template with two sections and one required field, and an opened chapter that cites
  a source: the inputs at which the properties of the life cycle are applied.
\<close>

definition demo_lsection :: "string \<Rightarrow> section_def" where
  "demo_lsection i = \<lparr>sec_ID = i, sec_Title = ''T'', sec_Description = [], sec_Order = 1, sec_Required = True\<rparr>"

definition demo_ltemplate :: template where
  "demo_ltemplate = \<lparr>t_ID = ''t1'', t_Name = ''T'', t_Version = ''1'', t_IsDemo = True, t_Source = [], t_Scope = [], t_Sections = [demo_lsection ''s2'', demo_lsection ''s1''],
     t_Fields = [\<lparr>f_ID = ''name'', f_Label = ''N'', f_Description = [], f_Type = ''string'', f_Order = 1, f_Required = True, f_Options = []\<rparr>], t_Terms = [],
     t_RequiredFields = [''name''], t_RulesetHash = sha256_hex ''rules'', t_ContentHash = sha256_hex ''template'', t_Rules = [], t_RuleSetSnapshot = None, t_RuleSetRef = None,
     t_RuleBindingOverrides = []\<rparr>"

definition demo_lcopy :: tcopy where
  "demo_lcopy = \<lparr>tc_ID = ''y1'', tc_ProjectID = ''p1'', tc_SourceTemplateID = ''t1'', tc_SourceTemplateVersion = ''1'', tc_Version = 1, tc_Status = ''draft'',
     tc_ContentHash = sha256_hex ''template'', tc_RulesetHash = sha256_hex ''rules'',
     tc_Definition = \<lparr>cc_BindingPolicies = [], cc_SourcePolicyHash = [], cc_RuleSetSnapshot = None, cc_SourceRuleSetID = [], cc_SourceRuleSetVersion = [], cc_SourceRuleSetHash = [],
       cc_RuleSetRef = None, cc_Definition = demo_ltemplate\<rparr>, tc_CreatedBy = ''ann'', tc_CreatedAt = 1\<rparr>"

definition demo_lproject :: tproject where
  "demo_lproject = \<lparr>p_ID = ''p1'', p_Name = ''P'', p_Status = ''draft'', p_ProjectVersion = 4, p_SpecRevision = 2, p_CurrentContextRevision = 0, p_DeliveryStatus = [],
     p_BaselineConfirmationID = [], p_Spec = [(''name'', ''x'')], p_SpecFields = [], p_TemplateID = ''t1'', p_TemplateVersion = ''1'', p_TemplateCopyVersion = 1,
     p_TemplateCopy = Some demo_lcopy, p_DiscardedAt = None, p_Members = demo_members\<rparr>"

definition demo_lrow :: project_row where
  "demo_lrow = \<lparr>pr_ID = ''p1'', pr_TenantID = 7, pr_Name = ''P'', pr_Status = ''draft'', pr_ProjectVersion = 4, pr_SpecRevision = 2,
     pr_CurrentContextRevision = 0, pr_DeliveryStatus = [], pr_BaselineConfirmationID = [], pr_Spec = [(''name'', ''x'')], pr_SpecFields = [],
     pr_TemplateID = ''t1'', pr_TemplateVersion = ''1'', pr_TemplateCopyVersion = 1, pr_DiscardedAt = None, pr_CreatedAt = 0\<rparr>"

definition demo_lst :: "unit life_store" where
  "demo_lst = \<lparr>st_tenants = [], st_projects = [demo_lrow], st_copies = [demo_lcopy], st_members = [], st_perms = [], st_transfers = [], st_records = [], st_audits = [],
     st_ops = [], st_rest = \<lparr>ct_chapters = [], ct_versions = [], ct_copies = [], ct_confirmations = [], ct_rest = ()\<rparr>\<rparr>"

definition demo_lse :: "(copy_content, unit chapter_tables) store_env" where
  "demo_lse = \<lparr>se_validCopy = (\<lambda>_. True), se_saveBinding = (\<lambda>_ q. Inr q), se_provenance = (\<lambda>_ q. Inr q), se_chapter = (\<lambda>_ _ _. Inr ()),
     se_chapterIDs = (\<lambda>_ _. Inr []), se_resourceExists = (\<lambda>_ _ _ _. Inr True), se_hasKey = (\<lambda>_ _ _. Inr False), se_machineKey = (\<lambda>_ _ _. Inr ()),
     se_keyRow = (\<lambda>_ _. Inl (Sentinel ErrNotFound))\<rparr>"

definition demo_ce :: copy_env where
  "demo_ce = \<lparr>ce_tpl = demo_tenv, ce_marshalPolicies = (\<lambda>_. Inr ''policies''), ce_ParseFloat = (\<lambda>_. None), ce_RatString = (\<lambda>_. None)\<rparr>"

definition demo_le :: "unit life_env" where
  "demo_le = \<lparr>le_store = demo_lse, le_copy = demo_ce, le_now = 9, le_newID = (\<lambda>n. if n = 0 then ''i0'' else if n = 1 then ''i1'' else if n = 2 then ''i2'' else if n = 3 then ''i3'' else ''i4''), le_requireActivationRead = False,
     le_templates = (\<lambda>i v. Inr demo_ltemplate)\<rparr>"

definition demo_lview :: "copy_content tx_view" where
  "demo_lview = \<lparr>v_ActiveMember = (\<lambda>a. Inr (TenantID a = 7 \<and> UserID a \<in> {''ann'', ''bob'', ''eve''})),
     v_CurrentTenantRole = Some (\<lambda>a. Inr (if UserID a = ''ann'' then ''owner'' else ''contributor'')),
     v_Project = (\<lambda>t i. if t = 7 \<and> i = ''p1'' then Inr demo_lproject else Inl (Sentinel ErrNotFound)),
     v_Chapter = (\<lambda>p c. Inr ()), v_Grant = None, v_KeyRow = (\<lambda>_. Inl (Sentinel ErrNotFound)), v_ProjectTenant = (\<lambda>_. Inr 7), v_Now = 0\<rparr>"

definition demo_life_ws :: "(unit, unit) life_ws" where
  "demo_life_ws = \<lparr>
     we_view = (\<lambda>s. demo_lview), we_policy = CurrentPolicy, we_ops = st_ops, we_set_ops = (\<lambda>t s. s\<lparr>st_ops := t\<rparr>),
     we_zero = demo_lproject\<lparr>p_ProjectVersion := 0\<rparr>, we_ctxErr = None, we_sched = (\<lambda>o' i. demo_attempt),
     we_marshalBody = (\<lambda>b. Inr ''body''), we_marshalValue = (\<lambda>v. Inr ''saved''), we_audit = (\<lambda>ctx a pid cap err s. Inr s),
     we_checkSources = (\<lambda>ctx a pid ids s. None), we_prepareCached = (\<lambda>ctx r i b s. Inr (ctx, False)),
     we_prepare = (\<lambda>ctx i pid b s. Inr ctx), we_inverse = (\<lambda>b. False), we_validate = (\<lambda>ctx s a p op. None),
     we_storePins = (\<lambda>ctx pid s. Inr s), we_reverseSources = (\<lambda>ctx v s. Inr s), we_provenance = (\<lambda>i r v s. Inr s),
     we_project = (\<lambda>ctx a op pid body s. Inr body), we_runtimeGate = (\<lambda>ctx s a p op. None),
     we_afterWrite = (\<lambda>ctx a p pid op tgt st el s. Inr s), we_observe = (\<lambda>ctx a pid op e el s. s)\<rparr>"

text \<open>The project with one published chapter that cites the source \<^verbatim>\<open>d1\<close>.\<close>

definition demo_cited :: "unit life_store" where
  "demo_cited = demo_lst\<lparr>st_rest := \<lparr>ct_chapters = [\<lparr>cr_ID = ''c1'', cr_ProjectID = ''p1'', cr_SectionID = ''s1'', cr_Title = ''T'', cr_CurrentVersionID = Some ''v1''\<rparr>],
     ct_versions = [\<lparr>cv_CitationUsages = [], cv_ID = ''v1'', cv_ProjectID = ''p1'', cv_ChapterID = ''c1'', cv_ParentVersionID = None, cv_BodyMarkdown = ''A'',
       cv_SourceIDs = [''d1''], cv_ReviewItems = [], cv_SpecRevision = 2, cv_ConfirmationValid = False, cv_CreatedAt = 1\<rparr>],
     ct_copies = [], ct_confirmations = [], ct_rest = ()\<rparr>\<rparr>"

lemmas demo_life_defs = demo_lst_def demo_lrow_def demo_lproject_def demo_lcopy_def demo_le_def demo_lse_def demo_members_def demo_member_def

lemma demo_life_keeps: "keeps_chapters (le_store demo_le)"
proof -
  have "\<exists>r. q = q\<lparr>ct_rest := r\<rparr>" for q :: "unit chapter_tables" by (rule exI [of _ "ct_rest q"]) simp
  then show ?thesis by (simp add: keeps_chapters_def demo_le_def demo_lse_def)
qed

lemma demo_letters: "\<not> blank ''T''" "\<not> blank ''N''" "\<not> blank ''1''" "trim_space ''x'' = ''x''"
  by (simp_all add: blank_def trim_space_visible visible_ascii_def ncode_def)

lemma demo_ltemplate_valid: "Validate te demo_ltemplate = Inr ()"
  by (simp add: Validate_def demo_ltemplate_def demo_lsection_def demo_letters stableID_def id_head_def id_tail_def ncode_def validFieldType_def)

lemma demo_ltemplate_hashes: "Hashes demo_tenv demo_ltemplate = Inr (sha256_hex ''template'', sha256_hex ''rules'')"
  using demo_ltemplate_valid by (simp add: Hashes_def Let_def demo_tenv_def demo_ltemplate_def)

lemma demo_lcopy_valid: "validateProjectTemplateCopy demo_ce demo_lcopy"
proof -
  have "t_RuleSetSnapshot demo_ltemplate = None" "t_RuleSetRef demo_ltemplate = None" "t_ID demo_ltemplate = ''t1''" "t_Version demo_ltemplate = ''1''"
    "t_ContentHash demo_ltemplate = sha256_hex ''template''" "t_RulesetHash demo_ltemplate = sha256_hex ''rules''" by (simp_all add: demo_ltemplate_def)
  then show ?thesis using demo_ltemplate_hashes
    by (simp add: validateProjectTemplateCopy_def Let_def demo_lcopy_def demo_ce_def copy_rule_hash_def RuleSetReferenceFor_def)
qed

lemma demo_complete: "fields_complete demo_ce demo_lproject demo_ltemplate"
  using demo_letters by (simp add: fields_complete_def template_field_ids_def templateFieldDefinitions_def require_field_def Let_def spec_value_def compatibleTemplateValue_def
      demo_lproject_def demo_ltemplate_def)

lemma demo_initialized: "validateInitializationRules demo_ce demo_lproject = None"
proof -
  have "show_int 4 \<noteq> []" by (simp add: show_int_def)
  then have "Evaluate demo_tenv demo_ltemplate \<lparr>in_ProjectID = ''p1'', in_TargetVersion = show_int 4, in_Fields = m, in_Chapters = [], in_Sources = [], in_ReviewItems = []\<rparr> = Inr []" for m
    using demo_ltemplate_valid by (simp add: Evaluate_def EvaluateScene_def evaluateTemplate_def evaluation_hash_def demo_ltemplate_hashes) (simp add: demo_ltemplate_def DemoTemplateID_def)
  moreover have "t_RuleSetSnapshot demo_ltemplate = None" by (simp add: demo_ltemplate_def)
  ultimately show ?thesis by (simp add: validateInitializationRules_def copy_definition_def Let_def demo_lproject_def demo_lcopy_def demo_ce_def)
qed

lemma demo_owner: "ownerDecisionInTransaction demo_lview demo_lproject (plain_actor 7 ''ann'') = None"
  by (simp add: ownerDecisionInTransaction_def JudgeOwnerAction_def OwnerAuthorityOf_def ownerCurrentlyAvailable_def projectOwnerUser_def projectOwner_def projectMember_def Let_def
      currentTenantRole_def plain_actor_def role_HasPermission_def role_Level_def demo_lview_def demo_lproject_def demo_members_def demo_member_def)

end
