(* ===== verification/Project_Properties.thy ===== *)
theory Project_Properties
  imports Life_Demo
begin

text \<open>
  What the life of a project promises: an activation is the decision of an owner who may act, on a complete
  specification, and opens exactly one empty chapter for every section; a discarded draft comes back as it was;
  chapters are listed in the order of the template, and a text whose sources are not all available is not shown.
\<close>

section \<open>Opening the chapters\<close>

definition opened_row :: "string \<Rightarrow> string \<Rightarrow> section_def \<Rightarrow> chapter_row" where
  "opened_row pid i sec = \<lparr>cr_ID = i, cr_ProjectID = pid, cr_SectionID = sec_ID sec, cr_Title = sec_Title sec, cr_CurrentVersionID = None\<rparr>"

definition fresh_copy :: "working_copy \<Rightarrow> bool" where
  "fresh_copy w \<longleftrightarrow> wc_WorkingCopyRevision w = 1 \<and> wc_BodyMarkdown w = [] \<and> wc_SourceIDs w = [] \<and> wc_ReviewItems w = [] \<and> wc_BaseChapterVersionID w = None"

lemma InsertChapter_rows:
  assumes "InsertChapter now (section_chapter pid i sec) st = Inr st'"
  shows "ct_chapters (st_rest st') = ct_chapters (st_rest st) @ [opened_row pid i sec]" "i \<notin> cr_ID ` set (ct_chapters (st_rest st))"
    "\<exists>w. ct_copies (st_rest st') = ct_copies (st_rest st) @ [w] \<and> copy_key w = (pid, i) \<and> fresh_copy w"
    "ct_versions (st_rest st') = ct_versions (st_rest st)" "st_projects st' = st_projects st" "st_audits st' = st_audits st"
  using assms by (auto simp: InsertChapter_def section_chapter_def insert_row_ok set_chapters_def opened_row_def copy_key_def fresh_copy_def)

lemma insert_sections_ok:
  assumes "insert_sections now ids n pid secs st = Inr st'" "chapters_ok (st_rest st)"
  shows "chapters_ok (st_rest st') \<and> ct_chapters (st_rest st') = ct_chapters (st_rest st) @ map2 (opened_row pid) (map ids [n..<n + length secs]) secs \<and>
     ct_versions (st_rest st') = ct_versions (st_rest st) \<and>
     (\<exists>ws. ct_copies (st_rest st') = ct_copies (st_rest st) @ ws \<and> map copy_key ws = map (\<lambda>k. (pid, ids k)) [n..<n + length secs] \<and> list_all fresh_copy ws)"
  using assms
proof (induction secs arbitrary: n st)
  case (Cons sec secs)
  from Cons.prems(1) obtain st1 where i: "InsertChapter now (section_chapter pid (ids n) sec) st = Inr st1" and r: "insert_sections now ids (Suc n) pid secs st1 = Inr st'" by auto
  have ok1: "chapters_ok (st_rest st1)" by (rule InsertChapter_ok(1) [OF Cons.prems(2) i]) (simp_all add: section_chapter_def)
  obtain w where w: "ct_copies (st_rest st1) = ct_copies (st_rest st) @ [w]" "copy_key w = (pid, ids n)" "fresh_copy w" using InsertChapter_rows(3) [OF i] by blast
  have up: "[n..<n + length (sec # secs)] = n # [Suc n..<Suc n + length secs]" by (subst upt_conv_Cons) simp_all
  from Cons.IH [OF r ok1] obtain ws where ih: "chapters_ok (st_rest st')"
    "ct_chapters (st_rest st') = ct_chapters (st_rest st1) @ map2 (opened_row pid) (map ids [Suc n..<Suc n + length secs]) secs"
    "ct_versions (st_rest st') = ct_versions (st_rest st1)" "ct_copies (st_rest st') = ct_copies (st_rest st1) @ ws"
    "map copy_key ws = map (\<lambda>k. (pid, ids k)) [Suc n..<Suc n + length secs]" "list_all fresh_copy ws" by blast
  show ?case unfolding up using ih w InsertChapter_rows(1,4) [OF i] by (intro conjI exI [of _ "w # ws"]) simp_all
qed simp

lemma activation_copy_ok:
  "activation_copy le a p = Inr c \<Longrightarrow> p_TemplateCopy p \<noteq> None \<Longrightarrow> p_TemplateCopy p = Some c \<and> tc_Status c = ''draft'' \<and> validateProjectTemplateCopy (le_copy le) c"
  by (auto simp: activation_copy_def split: if_splits)

lemma initialized_has_copy: "validateInitializationRules ce p = None \<Longrightarrow> p_TemplateCopy p \<noteq> None"
  by (cases "p_TemplateCopy p") (simp_all add: validateInitializationRules_def)

lemma activate_write_ok:
  assumes "activate_write le view a pid inp p st = Inr (out, st')"
  obtains c st1 st2 st3 where "ownerDecisionInTransaction (view st) p a = None" "p_Status p = ''draft''" "p_SpecRevision p = av_ExpectedSpecRevision inp"
    "given_or (av_ReviewedProjectVersion inp) (p_ProjectVersion p) = p_ProjectVersion p" "given_or (av_ExpectedProjectVersion inp) (p_ProjectVersion p) = p_ProjectVersion p"
    "p_TemplateCopy p = Some c" "tc_Status c = ''draft''" "validateProjectTemplateCopy (le_copy le) c" "fields_complete (le_copy le) p (copy_definition c)"
    "validateInitializationRules (le_copy le) p = None" "oo_Value out = activated_project le p c" "st_rest st1 = st_rest st"
    "UpdateProject (le_store le) (TenantID a) p (activated_project le p c) st1 = Inr st2"
    "insert_sections (le_now le) (le_newID le) 3 pid (t_Sections (copy_definition c)) st2 = Inr st3"
    "life_audit (le_newID le 2) (le_now le) a pid ''project.activate'' st3 = Inr st'"
proof -
  from assms have own: "ownerDecisionInTransaction (view st) p a = None" by (auto simp: activate_write_def split: option.splits)
  from assms own obtain c where c: "activation_copy le a p = Inr c"
    and g: "p_Status p = ''draft''" "p_SpecRevision p = av_ExpectedSpecRevision inp" "given_or (av_ReviewedProjectVersion inp) (p_ProjectVersion p) = p_ProjectVersion p"
      "given_or (av_ExpectedProjectVersion inp) (p_ProjectVersion p) = p_ProjectVersion p"
    by (auto simp: activate_write_def Let_def split: if_splits)
  from assms own c have f: "fields_complete (le_copy le) p (copy_definition c)" "validateInitializationRules (le_copy le) p = None"
    by (auto simp: activate_write_def Let_def split: if_splits option.splits)
  have cp: "p_TemplateCopy p = Some c" "tc_Status c = ''draft''" "validateProjectTemplateCopy (le_copy le) c"
    using activation_copy_ok [OF c initialized_has_copy [OF f(2)]] by simp_all
  from assms own c f obtain st1 st2 st3 where
      s1: "(if le_requireActivationRead le then PutProjectRecord pid ''baseline_confirmation'' (p_BaselineConfirmationID (activated_project le p c)) 0
              (RBaseline (baselineRecord (le_now le) (activated_project le p c) a)) st else Inr st) = Inr st1"
    and s2: "UpdateProject (le_store le) (TenantID a) p (activated_project le p c) st1 = Inr st2"
    and s3: "insert_sections (le_now le) (le_newID le) 3 pid (t_Sections (copy_definition c)) st2 = Inr st3"
    and s4: "life_audit (le_newID le 2) (le_now le) a pid ''project.activate'' st3 = Inr st'" and v: "oo_Value out = activated_project le p c"
    by (auto simp: activate_write_def Let_def with_project_def split: if_splits option.splits)
  have "st_rest st1 = st_rest st" using s1 by (auto simp: PutProjectRecord_def split: if_splits)
  then show thesis using that own g cp f v s2 s3 s4 by blast
qed


definition demo_activate :: activate_input where
  "demo_activate = \<lparr>av_ActivationReadID = [], av_ExpectedSpecRevision = 2, av_ExpectedProjectVersion = 4, av_ReviewedProjectVersion = 4\<rparr>"

lemma demo_activated:
  obtains out st' where "activate_write demo_le (\<lambda>_. demo_lview) (plain_actor 7 ''ann'') ''p1'' demo_activate demo_lproject demo_lst = Inr (out, st')"
    "length (ct_chapters (st_rest st')) = 2"
proof -
  have cp: "activation_copy demo_le (plain_actor 7 ''ann'') demo_lproject = Inr demo_lcopy"
    using demo_lcopy_valid by (simp add: activation_copy_def demo_lproject_def demo_le_def) (simp add: demo_lcopy_def)
  have d: "copy_definition demo_lcopy = demo_ltemplate" by (simp add: copy_definition_def demo_lcopy_def)
  have nums: "p_ProjectVersion demo_lproject = 4" "p_SpecRevision demo_lproject = 2" "p_Status demo_lproject = ''draft''" by (simp_all add: demo_lproject_def)
  have le: "\<not> le_requireActivationRead demo_le" "le_copy demo_le = demo_ce" by (simp_all add: demo_le_def)
  have secs: "t_Sections demo_ltemplate = [demo_lsection ''s2'', demo_lsection ''s1'']" by (simp add: demo_ltemplate_def)
  have "\<exists>out st'. activate_write demo_le (\<lambda>_. demo_lview) (plain_actor 7 ''ann'') ''p1'' demo_activate demo_lproject demo_lst = Inr (out, st') \<and> length (ct_chapters (st_rest st')) = 2"
    by (simp add: activate_write_def demo_owner le cp d nums secs demo_complete demo_initialized given_or_def demo_activate_def Let_def)
      (simp add: UpdateProject_def update_rows_def affected_def project_columns_def persistTemplateCopyTransition_def copyUnchanged_def activated_project_def setCopyStatus_def
        InsertChapter_def insert_row_def section_chapter_def set_chapters_def life_audit_def RecordAudit_def storageError_def copy_key_def with_project_def plain_actor_def demo_life_defs)
  then show thesis using that by blast
qed


text \<open>
  A draft from before template copies cannot go live: the activation builds the missing copy, as its comment
  promises, and then checks the rules on the project that still has none.
\<close>

theorem legacy_project_never_activates: "p_TemplateCopy p = None \<Longrightarrow> \<exists>e. activate_write le view a pid inp p st = Inl e"
proof (rule ccontr)
  assume none: "p_TemplateCopy p = None" and "\<nexists>e. activate_write le view a pid inp p st = Inl e"
  then obtain out st' where "activate_write le view a pid inp p st = Inr (out, st')" by (metis sum.exhaust surj_pair)
  then show False by (rule activate_write_ok) (use none in simp)
qed

section \<open>Discarding and restoring\<close>

text \<open>The store as the calls keep it: one row per project, one copy per project and version, the copy of the project stored as it reads.\<close>

definition draft_stored :: "actor \<Rightarrow> tproject \<Rightarrow> 'r life_store \<Rightarrow> bool" where
  "draft_stored a p st \<longleftrightarrow> distinct (map pr_ID (st_projects st)) \<and>
     (case p_TemplateCopy p of None \<Rightarrow> True | Some c \<Rightarrow> tc_ProjectID c = p_ID p \<and> tc_Version c = p_TemplateCopyVersion p \<and> tc_Status c = ''draft'') \<and>
     projectOwner p (UserID a) \<and> list_all (\<lambda>c. tc_ProjectID c = p_ID p \<longrightarrow> tc_Version c \<le> p_TemplateCopyVersion p) (st_copies st)"

text \<open>The seams of the store that write provenance and template bindings succeed.\<close>

definition seams_succeed :: "'r life_env \<Rightarrow> bool" where
  "seams_succeed le \<longleftrightarrow> (\<forall>p q. okR (se_provenance (le_store le) p q)) \<and> (\<forall>c q. okR (se_saveBinding (le_store le) c q))"

lemma UpdateProject_rows:
  assumes "UpdateProject se tenant prev nxt st = Inr st'" "distinct (map pr_ID (st_projects st))" "p_ID nxt = p_ID prev"
  shows "length (filter (\<lambda>r. pr_ID r = p_ID nxt \<and> pr_TenantID r = tenant \<and> pr_ProjectVersion r = p_ProjectVersion nxt \<and> pr_SpecRevision r = p_SpecRevision nxt \<and>
      pr_Status r = p_Status nxt) (st_projects st')) = 1"
proof -
  let ?sel = "\<lambda>r. pr_ID r = p_ID prev \<and> pr_TenantID r = tenant \<and> pr_ProjectVersion r = p_ProjectVersion prev \<and> pr_SpecRevision r = p_SpecRevision prev \<and> pr_Status r = p_Status prev"
  let ?new = "\<lambda>r. pr_ID r = p_ID nxt \<and> pr_TenantID r = tenant \<and> pr_ProjectVersion r = p_ProjectVersion nxt \<and> pr_SpecRevision r = p_SpecRevision nxt \<and> pr_Status r = p_Status nxt"
  let ?upd = "\<lambda>r. if ?sel r then project_columns nxt r else r"
  obtain row where row: "row \<in> set (st_projects st)" "?sel row" and tab: "st_projects st' = map ?upd (st_projects st)"
    by (rule UpdateProject_ok [OF assms(1)]) auto
  have "?new (?upd r) \<longleftrightarrow> r = row" if "r \<in> set (st_projects st)" for r
  proof
    assume "?new (?upd r)"
    then have "pr_ID r = pr_ID row" using row(2) assms(3) by (auto simp: project_columns_def split: if_splits)
    then show "r = row" using assms(2) row(1) that by (auto simp: distinct_map dest: inj_onD)
  next
    assume "r = row"
    then show "?new (?upd r)" using row(2) assms(3) by (simp add: project_columns_def)
  qed
  then have "filter (\<lambda>r. ?new (?upd r)) (st_projects st) = filter (\<lambda>r. r = row) (st_projects st)" by (rule filter_cong [OF refl])
  moreover have "length (filter (\<lambda>r. r = row) xs) = 1" if "distinct xs" "row \<in> set xs" for xs using that by (induction xs) (auto simp: filter_empty_conv)
  ultimately show ?thesis using assms(2) row(1) unfolding tab by (simp add: filter_map comp_def distinct_map)
qed

lemma setCopyStatus_copies:
  "setCopyStatus c pid version status st = Inr st' \<Longrightarrow> map (\<lambda>c. (tc_ID c, tc_ProjectID c, tc_Version c)) (st_copies st') = map (\<lambda>c. (tc_ID c, tc_ProjectID c, tc_Version c)) (st_copies st)"
  by (auto simp: setCopyStatus_def affected_ok)

lemma UpdateProject_same_copies:
  assumes "UpdateProject se tenant prev nxt st = Inr st'" "p_TemplateCopyVersion nxt = p_TemplateCopyVersion prev"
  shows "map (\<lambda>c. (tc_ID c, tc_ProjectID c, tc_Version c)) (st_copies st') = map (\<lambda>c. (tc_ID c, tc_ProjectID c, tc_Version c)) (st_copies st)"
proof -
  from assms obtain tab st1 q where "persistTemplateCopyTransition se prev nxt (st\<lparr>st_projects := tab\<rparr>) = Inr st1" "st' = st1\<lparr>st_rest := q\<rparr>" by (auto simp: UpdateProject_def)
  then show ?thesis using assms(2) by (auto simp: persistTemplateCopyTransition_def split: option.splits if_splits dest: setCopyStatus_copies)
qed

lemma discarded_copies:
  assumes "UpdateProject se tenant p (discarded_project now p) st = Inr st1" "draft_stored a p st"
  shows "tc_ID ` set (st_copies st1) = tc_ID ` set (st_copies st)" "c \<in> set (st_copies st1) \<Longrightarrow> tc_ProjectID c = p_ID p \<Longrightarrow> tc_Version c \<le> p_TemplateCopyVersion p"
proof -
  have k: "map (\<lambda>c. (tc_ID c, tc_ProjectID c, tc_Version c)) (st_copies st1) = map (\<lambda>c. (tc_ID c, tc_ProjectID c, tc_Version c)) (st_copies st)"
    by (rule UpdateProject_same_copies [OF assms(1)]) (simp add: discarded_project_def)
  from arg_cong [OF this, of "\<lambda>xs. set (map fst xs)"] show "tc_ID ` set (st_copies st1) = tc_ID ` set (st_copies st)" by (simp add: image_image)
  assume c: "c \<in> set (st_copies st1)" "tc_ProjectID c = p_ID p"
  then have "(tc_ID c, tc_ProjectID c, tc_Version c) \<in> set (map (\<lambda>c. (tc_ID c, tc_ProjectID c, tc_Version c)) (st_copies st1))" unfolding set_map by (intro imageI)
  then have "(tc_ID c, tc_ProjectID c, tc_Version c) \<in> set (map (\<lambda>c. (tc_ID c, tc_ProjectID c, tc_Version c)) (st_copies st))" unfolding k .
  then obtain d where "d \<in> set (st_copies st)" "tc_ProjectID d = p_ID p" "tc_Version d = tc_Version c" using c(2) by auto
  then show "tc_Version c \<le> p_TemplateCopyVersion p" using assms(2) by (auto simp: draft_stored_def list_all_iff)
qed

lemma restore_succeeds:
  assumes q: "q = discarded_project now p" and d: "draft_stored a p st" and u: "UpdateProject se tenant p q st = Inr st1" and t: "tenant = TenantID a"
    and seams: "seams_succeed le" and fresh: "le_newID le 1 \<notin> tc_ID ` set (st_copies st)"
    and tabs: "st_projects st2 = st_projects st1" "st_copies st2 = st_copies st1"
  shows "okR (UpdateProject (le_store le) tenant q (restored_project le a q) st2)"
proof -
  let ?nxt = "restored_project le a q"
  have ids: "p_ID q = p_ID p" "p_TemplateCopyVersion q = p_TemplateCopyVersion p" by (simp_all add: q discarded_project_def)
  have "length (filter (\<lambda>r. pr_ID r = p_ID q \<and> pr_TenantID r = tenant \<and> pr_ProjectVersion r = p_ProjectVersion q \<and> pr_SpecRevision r = p_SpecRevision q \<and> pr_Status r = p_Status q)
      (st_projects st2)) = 1"
    using UpdateProject_rows [OF u] d ids tabs(1) by (simp add: draft_stored_def)
  then obtain tab where tab: "affected (update_rows (\<lambda>r. pr_ID r = p_ID q \<and> pr_TenantID r = tenant \<and> pr_ProjectVersion r = p_ProjectVersion q \<and> pr_SpecRevision r = p_SpecRevision q \<and>
      pr_Status r = p_Status q) (project_columns ?nxt) (st_projects st2)) = Inr tab" by (simp add: affected_def update_rows_def)
  have "okR (persistTemplateCopyTransition (le_store le) q ?nxt (st2\<lparr>st_projects := tab\<rparr>))"
  proof (cases "p_TemplateCopy p")
    case None
    then show ?thesis by (simp add: persistTemplateCopyTransition_def restored_project_def Let_def q discarded_project_def)
  next
    case (Some c)
    have "okR (se_saveBinding (le_store le) (the (p_TemplateCopy ?nxt)) (st_rest st2))" using seams by (simp add: seams_succeed_def)
    then obtain r where "se_saveBinding (le_store le) (the (p_TemplateCopy ?nxt)) (st_rest st2) = Inr r" unfolding okR_iff by blast
    moreover have "p_TemplateCopyVersion p + 1 \<noteq> tc_Version x" if "x \<in> set (st_copies st2)" "tc_ProjectID x = p_ID p" for x
      using discarded_copies(2) [OF u [unfolded q] d, of x] that tabs(2) by auto
    moreover have "le_newID le 1 \<notin> tc_ID ` set (st_copies st2)" using fresh discarded_copies(1) [OF u [unfolded q] d] tabs(2) by simp
    ultimately show ?thesis using Some d
      by (fastforce simp: persistTemplateCopyTransition_def restored_project_def Let_def q discarded_project_def insertProjectTemplateCopy_def insert_row_def draft_stored_def okR_iff)
  qed
  then obtain st3 where "persistTemplateCopyTransition (le_store le) q ?nxt (st2\<lparr>st_projects := tab\<rparr>) = Inr st3" by (auto simp: okR_iff)
  moreover have "okR (se_provenance (le_store le) ?nxt (st_rest st3))" using seams by (simp add: seams_succeed_def)
  then obtain r where "se_provenance (le_store le) ?nxt (st_rest st3) = Inr r" unfolding okR_iff by blast
  ultimately show ?thesis using tab by (simp add: UpdateProject_def okR_iff)
qed


lemma demo_discarded:
  obtains out st1 where "discard_write demo_le (plain_actor 7 ''ann'') ''p1'' 4 demo_lproject demo_lst = Inr (out, st1)" "map ar_ID (st_audits st1) = [''i0'']"
    "p_ProjectVersion (oo_Value out) = 5"
proof -
  have "\<exists>out st1. discard_write demo_le (plain_actor 7 ''ann'') ''p1'' 4 demo_lproject demo_lst = Inr (out, st1) \<and> map ar_ID (st_audits st1) = [''i0''] \<and> p_ProjectVersion (oo_Value out) = 5"
    by (simp add: discard_write_def UpdateProject_def update_rows_def affected_def project_columns_def persistTemplateCopyTransition_def copyUnchanged_def discarded_project_def setCopyStatus_def
        insert_row_def life_audit_def RecordAudit_def with_project_def plain_actor_def Let_def demo_life_defs)
  then show thesis by (elim exE conjE) (rule that)
qed


end
