(* ===== verification/Chapter_List.thy ===== *)
theory Chapter_List
  imports Life_Demo "HOL-Library.Product_Lexorder"
begin

text \<open>
  What \<^verbatim>\<open>ListChapters\<close> shows: the chapters in the order of the template, and no text whose sources are not all
  available to the reader.
\<close>

section \<open>The order\<close>

text \<open>The comparison of two chapters is the comparison of one key: known sections by rank, then the others by name.\<close>

definition order_key :: "(string \<rightharpoonup> nat) \<Rightarrow> chapter_data \<Rightarrow> nat \<times> nat \<times> string" where
  "order_key ranks c = (case ranks (ch_SectionID c) of Some i \<Rightarrow> (0, i, ch_SectionID c) | None \<Rightarrow> (1, 0, ch_SectionID c))"

lemma strings_Compare_le: "strings_Compare a b \<le> 0 \<longleftrightarrow> a \<le> b"
  by (auto simp: strings_Compare_def)

lemma chapter_order_le: "chapter_order ranks l r \<le> 0 \<longleftrightarrow> order_key ranks l \<le> order_key ranks r"
  by (auto simp: chapter_order_def order_key_def strings_Compare_le less_eq_prod_def split: option.splits)

lemma order_key_eq: "order_key ranks k = order_key ranks c \<longleftrightarrow> ch_SectionID k = ch_SectionID c"
  by (auto simp: order_key_def split: option.splits)

lemma insert_by_insort: "(\<And>y. cmp x y \<le> 0 \<longleftrightarrow> f x \<le> f y) \<Longrightarrow> insert_by cmp x ys = insort_key f x ys"
  by (induction ys) simp_all

lemma orderChapters_sort: "orderChapters cs t = sort_key (order_key (section_ranks t)) cs"
proof -
  have "insert_by (chapter_order (section_ranks t)) = insort_key (order_key (section_ranks t))"
    by (intro ext insert_by_insort chapter_order_le)
  then show ?thesis by (simp add: orderChapters_def SortStableFunc_def sort_key_def)
qed

lemma ranks_aux:
  assumes "distinct (map sec_ID secs)"
  shows "foldl (\<lambda>m (i, sec). m(sec_ID sec \<mapsto> i)) m (List.enumerate n secs) i =
    (if i \<in> sec_ID ` set secs then Some (n + length (takeWhile (\<lambda>s. sec_ID s \<noteq> i) secs)) else m i)"
  using assms by (induction secs arbitrary: m n) auto

lemma section_ranks_eq:
  assumes "distinct (map sec_ID (t_Sections t))"
  shows "section_ranks t i = (if i \<in> sec_ID ` set (t_Sections t) then Some (length (takeWhile (\<lambda>s. sec_ID s \<noteq> i) (t_Sections t))) else None)"
  using ranks_aux [OF assms, of Map.empty 0] by (simp add: section_ranks_def)

text \<open>The chapters section by section, the ones the template does not name last.\<close>

definition by_sections :: "section_def list \<Rightarrow> chapter_data list \<Rightarrow> chapter_data list" where
  "by_sections secs cs = concat (map (\<lambda>sec. filter (\<lambda>c. ch_SectionID c = sec_ID sec) cs) secs)"

definition unsectioned :: "section_def list \<Rightarrow> chapter_data list \<Rightarrow> chapter_data list" where
  "unsectioned secs cs = sort_key ch_SectionID (filter (\<lambda>c. ch_SectionID c \<notin> sec_ID ` set secs) cs)"

lemma filter_by_sections:
  assumes "distinct (map sec_ID secs)"
  shows "filter (\<lambda>c. i = ch_SectionID c) (by_sections secs cs) = (if i \<in> sec_ID ` set secs then filter (\<lambda>c. i = ch_SectionID c) cs else [])"
  using assms
proof (induction secs)
  case (Cons sec secs)
  have "filter (\<lambda>c. i = ch_SectionID c) (filter (\<lambda>c. ch_SectionID c = sec_ID sec) cs) = (if i = sec_ID sec then filter (\<lambda>c. i = ch_SectionID c) cs else [])"
    by (auto simp: filter_empty_conv intro: filter_cong)
  then show ?case using Cons by (auto simp: by_sections_def)
qed (simp add: by_sections_def)

lemma filter_unsectioned:
  "filter (\<lambda>c. i = ch_SectionID c) (unsectioned secs cs) = (if i \<in> sec_ID ` set secs then [] else filter (\<lambda>c. i = ch_SectionID c) cs)"
proof -
  have "filter (\<lambda>c. ch_SectionID c = i) (unsectioned secs cs) = filter (\<lambda>c. ch_SectionID c = i) (filter (\<lambda>c. ch_SectionID c \<notin> sec_ID ` set secs) cs)"
    unfolding unsectioned_def by (rule sort_key_stable)
  also have "\<dots> = (if i \<in> sec_ID ` set secs then [] else filter (\<lambda>c. ch_SectionID c = i) cs)" by (auto simp: filter_empty_conv intro: filter_cong)
  finally show ?thesis by (simp add: eq_commute [of i])
qed

lemma mset_of_classes:
  assumes "\<And>i. filter (\<lambda>c. i = g c) xs = filter (\<lambda>c. i = g c) ys"
  shows "mset xs = mset ys"
proof (rule multiset_eqI)
  fix x
  have *: "count (mset zs) x = count (mset (filter (\<lambda>c. g x = g c) zs)) x" for zs by (simp add: mset_filter)
  show "count (mset xs) x = count (mset ys) x" unfolding * [of xs] * [of ys] assms ..
qed

lemma sorted_by_sections:
  assumes "distinct (map sec_ID (pre @ secs))" and "\<And>i. i \<in> sec_ID ` set (pre @ secs) \<Longrightarrow> ranks i = Some (length (takeWhile (\<lambda>s. sec_ID s \<noteq> i) (pre @ secs)))"
  shows "sorted (map (order_key ranks) (by_sections secs cs)) \<and> (\<forall>c \<in> set (by_sections secs cs). order_key ranks c \<ge> (0, length pre, []))"
  using assms
proof (induction secs arbitrary: pre)
  case (Cons sec secs)
  have ih: "sorted (map (order_key ranks) (by_sections secs cs)) \<and> (\<forall>c \<in> set (by_sections secs cs). order_key ranks c \<ge> (0, length (pre @ [sec]), []))"
    by (rule Cons.IH) (use Cons.prems in auto)
  have new: "sec_ID sec \<notin> sec_ID ` set pre" using Cons.prems(1) by auto
  have "takeWhile (\<lambda>s. sec_ID s \<noteq> sec_ID sec) (pre @ sec # secs) = pre" by (subst takeWhile_append2) (use new in \<open>auto simp: image_iff\<close>)
  then have r: "ranks (sec_ID sec) = Some (length pre)" using Cons.prems(2) [of "sec_ID sec"] by simp
  let ?here = "filter (\<lambda>c. ch_SectionID c = sec_ID sec) cs"
  have k: "order_key ranks c = (0, length pre, sec_ID sec)" if "c \<in> set ?here" for c using that r by (simp add: order_key_def)
  then have "map (order_key ranks) ?here = replicate (length ?here) (0, length pre, sec_ID sec)" by (simp add: map_replicate_const [symmetric])
  then have "sorted (map (order_key ranks) ?here)" by simp
  moreover have "order_key ranks c \<le> order_key ranks d" if "c \<in> set ?here" "d \<in> set (by_sections secs cs)" for c d
  proof -
    have "(0 :: nat, length pre, sec_ID sec) \<le> (0, length (pre @ [sec]), [])" by (simp add: less_eq_prod_def)
    also have "\<dots> \<le> order_key ranks d" using ih that(2) by blast
    finally show ?thesis using k [OF that(1)] by simp
  qed
  moreover have "order_key ranks c \<ge> (0, length pre, [])" if "c \<in> set (by_sections secs cs)" for c
  proof -
    have "(0 :: nat, length pre, []) \<le> (0, length (pre @ [sec]), [] :: string)" by (simp add: less_eq_prod_def)
    also have "\<dots> \<le> order_key ranks c" using ih that by blast
    finally show ?thesis .
  qed
  moreover have "order_key ranks c \<ge> (0, length pre, [])" if "c \<in> set ?here" for c using k [OF that] by (simp add: less_eq_prod_def)
  ultimately show ?case using ih unfolding by_sections_def by (auto simp: sorted_append)
qed (simp add: by_sections_def)

text \<open>
  Chapters are listed in template order.  Ordering the chapters of a project gives them section by section as
  the template orders its sections, chapters of one section in the order they were stored; chapters of sections
  the template does not name follow, sorted by section; no chapter is lost or repeated.
\<close>

theorem chapters_in_template_order:
  assumes "distinct (map sec_ID (t_Sections t))"
  shows "orderChapters cs t =
    concat (map (\<lambda>sec. filter (\<lambda>c. ch_SectionID c = sec_ID sec) cs) (t_Sections t)) @
    sort_key ch_SectionID (filter (\<lambda>c. ch_SectionID c \<notin> sec_ID ` set (t_Sections t)) cs)"
proof -
  let ?secs = "t_Sections t"
  let ?r = "section_ranks t"
  let ?ys = "by_sections ?secs cs @ unsectioned ?secs cs"
  have cls: "filter (\<lambda>c. i = ch_SectionID c) ?ys = filter (\<lambda>c. i = ch_SectionID c) cs" for i
    by (simp add: filter_by_sections [OF assms] filter_unsectioned)
  have out: "order_key ?r c = (1, 0, ch_SectionID c)" if "c \<in> set (unsectioned ?secs cs)" for c
    using that by (auto simp: unsectioned_def order_key_def section_ranks_eq [OF assms])
  have inn: "\<exists>i. order_key ?r c = (0, i, ch_SectionID c)" if "c \<in> set (by_sections ?secs cs)" for c
    using that by (auto simp: by_sections_def order_key_def section_ranks_eq [OF assms])
  have s1: "sorted (map (order_key ?r) (by_sections ?secs cs))"
    using sorted_by_sections [of "[]" ?secs ?r cs] assms by (simp add: section_ranks_eq)
  have eq: "map (order_key ?r) (unsectioned ?secs cs) = map (\<lambda>i. (1, 0, i)) (map ch_SectionID (unsectioned ?secs cs))" using out by simp
  have "sorted (map (\<lambda>i. (1 :: nat, 0 :: nat, i)) (map ch_SectionID (unsectioned ?secs cs)))"
    by (rule sorted_map_mono) (simp_all add: unsectioned_def mono_on_def less_eq_prod_def)
  then have s2: "sorted (map (order_key ?r) (unsectioned ?secs cs))" unfolding eq .
  have "order_key ?r c \<le> order_key ?r d" if "c \<in> set (by_sections ?secs cs)" "d \<in> set (unsectioned ?secs cs)" for c d
    using inn [OF that(1)] out [OF that(2)] by (auto simp: less_eq_prod_def)
  then have "sorted (map (order_key ?r) ?ys)" using s1 s2 by (auto simp: sorted_append)
  then have "sort_key (order_key ?r) cs = ?ys"
    by (intro properties_for_sort_key mset_of_classes [where g = ch_SectionID] cls; (simp only: order_key_eq cls)?)
  then show ?thesis by (simp add: orderChapters_sort by_sections_def unsectioned_def)
qed

theorem chapters_in_template_order_witness:
  "map ch_SectionID (orderChapters (map (\<lambda>i. section_chapter ''p1'' i (demo_lsection i)) [''s1'', ''z'', ''s2'', ''a'']) demo_ltemplate) = [''s2'', ''s1'', ''a'', ''z'']"
  using chapters_in_template_order [of demo_ltemplate "map (\<lambda>i. section_chapter ''p1'' i (demo_lsection i)) [''s1'', ''z'', ''s2'', ''a'']"]
  by (simp add: demo_ltemplate_def demo_lsection_def section_chapter_def less_char_def)

section \<open>The sources\<close>

definition status_in :: "citation_status list \<Rightarrow> string \<Rightarrow> citation_status option" where
  "status_in statuses i = map_of (rev (map (\<lambda>s. (cs_SourceID s, s)) statuses)) i"

lemma with_statuses_ok:
  assumes "with_statuses statuses c = Inr d" "ch_SourceIDs c \<noteq> []"
  shows "ch_SourceIDs d = ch_SourceIDs c" "ch_ID d = ch_ID c" "map Some (ch_CitationStatuses d) = map (status_in statuses) (ch_SourceIDs c)"
    "s \<in> set (ch_CitationStatuses d) \<Longrightarrow> cs_Status s \<noteq> ''unavailable''"
    "list_all (\<lambda>s. cs_Status s = ''available'') (ch_CitationStatuses d) \<or> (ch_BodyMarkdown d = [] \<and> ch_CitationUsages d = [] \<and> \<not> ch_ConfirmationValid d)"
proof -
  let ?look = "\<lambda>i. case status_in statuses i of None \<Rightarrow> Inl (Sentinel ErrSourceUnavailable)
     | Some s \<Rightarrow> if cs_Status s = ''unavailable'' then Inl (Sentinel ErrSourceUnavailable) else Inr s"
  from assms obtain ss where look: "mapR ?look (ch_SourceIDs c) = Inr ss"
    and d: "d = (let shown = c\<lparr>ch_CitationStatuses := ss\<rparr> in if list_ex (\<lambda>s. cs_Status s \<noteq> ''available'') ss
             then markChapterUnconfirmed (shown\<lparr>ch_BodyMarkdown := [], ch_CitationUsages := []\<rparr>) else shown)"
    unfolding with_statuses_def status_in_def [symmetric] by (auto simp: Let_def)
  have ss: "list_all2 (\<lambda>i s. status_in statuses i = Some s \<and> cs_Status s \<noteq> ''unavailable'') (ch_SourceIDs c) ss"
    using look unfolding mapR_Inr_iff by (rule list_all2_mono) (auto split: option.splits if_splits)
  have cs: "ch_CitationStatuses d = ss" by (simp add: d Let_def markChapterUnconfirmed_def)
  show "ch_SourceIDs d = ch_SourceIDs c" "ch_ID d = ch_ID c" by (simp_all add: d Let_def markChapterUnconfirmed_def)
  show "map Some (ch_CitationStatuses d) = map (status_in statuses) (ch_SourceIDs c)" using ss unfolding cs by (induction rule: list_all2_induct) simp_all
  show "cs_Status s \<noteq> ''unavailable''" if "s \<in> set (ch_CitationStatuses d)" using ss that unfolding cs by (auto simp: list_all2_conv_all_nth in_set_conv_nth)
  show "list_all (\<lambda>s. cs_Status s = ''available'') (ch_CitationStatuses d) \<or> (ch_BodyMarkdown d = [] \<and> ch_CitationUsages d = [] \<and> \<not> ch_ConfirmationValid d)"
    by (auto simp: d Let_def markChapterUnconfirmed_def list_ex_iff list_all_iff)
qed

lemma with_statuses_none: "ch_SourceIDs c = [] \<Longrightarrow> with_statuses statuses c = Inr c"
  by (simp add: with_statuses_def)

text \<open>
  C27. A listed text has its sources.  When the chapters of a project are listed under a policy that answers the
  status of sources, the caller is authorized to read the project, the chapters are the stored ones in template
  order, and each cited source has, in the order cited, the status the policy answered for this reader, none of
  them unavailable; the text and the citations of a chapter are shown only when all its sources are available.
\<close>

theorem listed_texts_have_sources:
  assumes "ListChapters env le (StatusPolicy f) ctx a pid s = (s', Inr shown)" and "d \<in> set shown" and "ch_SourceIDs d \<noteq> []"
  shows "\<exists>stored p tpl statuses. authorizeProject (we_policy env) ctx (we_view env s') (read_request a pid) = Inr p \<and> Chapters s' pid = Inr stored \<and>
     le_templates le (p_TemplateID p) (p_TemplateVersion p) = Inr tpl \<and> map ch_ID shown = map ch_ID (orderChapters stored tpl) \<and>
     f ctx pid (UserID a) (concat (map ch_SourceIDs (orderChapters stored tpl))) = Inr statuses \<and>
     map Some (ch_CitationStatuses d) = map (status_in statuses) (ch_SourceIDs d) \<and>
     list_all (\<lambda>s. cs_Status s \<noteq> ''unavailable'') (ch_CitationStatuses d) \<and>
     (ch_BodyMarkdown d \<noteq> [] \<or> ch_CitationUsages d \<noteq> [] \<or> ch_ConfirmationValid d \<longrightarrow> list_all (\<lambda>s. cs_Status s = ''available'') (ch_CitationStatuses d))"
proof -
  obtain cs where tx: "read_tx env read_only [] (chapters_read env le ctx a pid) s = (s', Inr cs)" and sh: "show_chapters (StatusPolicy f) ctx a pid cs = Inr shown"
    using assms(1) unfolding ListChapters_def by (auto split: prod.splits sum.splits)
  from read_tx_moves(2) [OF tx refl] obtain p stored tpl where r: "authorizeProject (we_policy env) ctx (we_view env s') (read_request a pid) = Inr p"
      "Chapters s' pid = Inr stored" "le_templates le (p_TemplateID p) (p_TemplateVersion p) = Inr tpl" and cs: "cs = orderChapters stored tpl"
    by (auto simp: chapters_read_def)
  have ne: "concat (map ch_SourceIDs cs) \<noteq> []"
  proof
    assume "concat (map ch_SourceIDs cs) = []"
    then have "shown = cs" "\<forall>c \<in> set cs. ch_SourceIDs c = []" using sh by (auto simp: show_chapters_def)
    then show False using assms(2,3) by blast
  qed
  then obtain statuses where st: "f ctx pid (UserID a) (concat (map ch_SourceIDs cs)) = Inr statuses" and all: "list_all2 (\<lambda>c d. with_statuses statuses c = Inr d) cs shown"
    using sh unfolding show_chapters_def Let_def if_not_P [OF ne] by (auto simp: mapR_Inr_iff)
  have same: "ch_SourceIDs y = ch_SourceIDs x \<and> ch_ID y = ch_ID x" if "with_statuses statuses x = Inr y" for x y
    using that with_statuses_ok(1,2) [OF that] with_statuses_none [of x statuses] by (cases "ch_SourceIDs x = []") auto
  have ids: "map ch_ID shown = map ch_ID cs" using all same by (induction rule: list_all2_induct) auto
  obtain c where c: "with_statuses statuses c = Inr d" using all assms(2) by (auto simp: list_all2_conv_all_nth in_set_conv_nth)
  have src: "ch_SourceIDs c \<noteq> []" "ch_SourceIDs d = ch_SourceIDs c" using same [OF c] assms(3) by auto
  note ok = with_statuses_ok(3-5) [OF c src(1)]
  have "list_all (\<lambda>s. cs_Status s \<noteq> ''unavailable'') (ch_CitationStatuses d)" unfolding list_all_iff using ok(2) by blast
  then show ?thesis using r cs st ids ok(1,3) src(2) by metis
qed

definition demo_policy :: "unit citation_policy" where
  "demo_policy = StatusPolicy (\<lambda>ctx pid user ids. Inr (map (\<lambda>i. \<lparr>cs_SourceID = i, cs_Status = ''changed'', cs_Detail = []\<rparr>) ids))"

lemma demo_listed:
  "\<exists>c. ListChapters demo_life_ws demo_le demo_policy demo_ctx (plain_actor 7 ''ann'') ''p1'' demo_cited = (demo_cited, Inr [c]) \<and> ch_SourceIDs c = [''d1''] \<and> ch_BodyMarkdown c = []"
proof -
  have auth: "authorizeProject CurrentPolicy demo_ctx demo_lview (read_request (plain_actor 7 ''ann'') ''p1'') = Inr demo_lproject"
    by (simp add: read_request_def authorizeProject_def authorizeAPIKeyProject_def RequireHumanDecision_def TenantAPIKeyScopeFromContext_def
      PrincipalFromContext_def UserIDFromContext_def demo_ctx_def validAuthorizationAction_def authorizationActions_def
      authorizeCurrentProject_def authorizeCurrentTenant_def legacyAuthorizeTenant_def
      currentTenantRole_def authorizationRequest_def plain_actor_def validActor_def permissionRoles_def
      role_IsValid_def role_HasPermission_def role_Level_def projectMember_def governanceRole_def
      capability_granted_def memberHasScope_def scopes_of_def Let_def demo_lview_def demo_lproject_def demo_members_def demo_member_def)
  then have rd: "\<exists>c. chapters_read demo_life_ws demo_le demo_ctx (plain_actor 7 ''ann'') ''p1'' demo_cited = Inr [c] \<and> ch_SourceIDs c = [''d1'']"
    by (simp add: chapters_read_def demo_life_ws_def demo_le_def Chapters_def storageError_def chapterView_def demo_cited_def demo_lst_def demo_lrow_def orderChapters_def SortStableFunc_def)
  then obtain c where c: "chapters_read demo_life_ws demo_le demo_ctx (plain_actor 7 ''ann'') ''p1'' demo_cited = Inr [c]" "ch_SourceIDs c = [''d1'']" by blast
  have "read_tx demo_life_ws read_only [] (chapters_read demo_life_ws demo_le demo_ctx (plain_actor 7 ''ann'') ''p1'') demo_cited = (demo_cited, Inr [c])"
    using c by (simp add: read_tx_def gorm_Transaction_def tx_once_def demo_attempt_def read_only_def) (simp add: demo_life_ws_def demo_attempt_def)
  then show ?thesis using c(2) by (simp add: ListChapters_def show_chapters_def demo_policy_def with_statuses_def markChapterUnconfirmed_def Let_def)
qed

theorem listed_texts_have_sources_witness:
  "\<exists>c. ListChapters demo_life_ws demo_le demo_policy demo_ctx (plain_actor 7 ''ann'') ''p1'' demo_cited = (demo_cited, Inr [c]) \<and> ch_BodyMarkdown c = [] \<and>
     map cs_SourceID (ch_CitationStatuses c) = [''d1''] \<and> map cs_Status (ch_CitationStatuses c) = [''changed'']"
proof -
  obtain c where c: "ListChapters demo_life_ws demo_le demo_policy demo_ctx (plain_actor 7 ''ann'') ''p1'' demo_cited = (demo_cited, Inr [c])" "ch_SourceIDs c = [''d1'']" "ch_BodyMarkdown c = []"
    using demo_listed by blast
  have "c \<in> set [c]" "ch_SourceIDs c \<noteq> []" using c(2) by simp_all
  from listed_texts_have_sources [OF c(1) [unfolded demo_policy_def] this] obtain ids statuses where
      "Inr (map (\<lambda>i. \<lparr>cs_SourceID = i, cs_Status = ''changed'', cs_Detail = []\<rparr>) ids) = (Inr statuses :: goerr + citation_status list)"
      "map Some (ch_CitationStatuses c) = map (status_in statuses) (ch_SourceIDs c)" by blast
  then have "map Some (ch_CitationStatuses c) = map (status_in (map (\<lambda>i. \<lparr>cs_SourceID = i, cs_Status = ''changed'', cs_Detail = []\<rparr>) ids)) (ch_SourceIDs c)"
    by (simp del: map_map)
  then obtain s where s: "ch_CitationStatuses c = [s]" "status_in (map (\<lambda>i. \<lparr>cs_SourceID = i, cs_Status = ''changed'', cs_Detail = []\<rparr>) ids) ''d1'' = Some s" using c(2) by (auto simp: map_eq_Cons_conv)
  have "s \<in> set (map (\<lambda>i. \<lparr>cs_SourceID = i, cs_Status = ''changed'', cs_Detail = []\<rparr>) ids) \<and> cs_SourceID s = ''d1''"
    using s(2) map_of_SomeD [OF s(2) [unfolded status_in_def]] by auto
  then show ?thesis using c(1,3) s(1) by auto
qed

end
