(* ===== verification/Sealed_Table.thy ===== *)
theory Sealed_Table
  imports Prelude
begin

text \<open>
  The contract that the rule set store and the template catalogue share: a version is edited while it is a draft,
  goes from draft to published and from published to withdrawn or recalled, and once it has left the draft its
  content never changes.  The locale states it for any step relation and any table of the state; its lemmas lift the law
  of one step to every sequence of steps.
\<close>

definition life_moves :: "string \<Rightarrow> string \<Rightarrow> bool" where
  "life_moves s s' \<longleftrightarrow> s' = s \<or> s = ''draft'' \<and> s' \<in> {''published'', ''withdrawn'', ''recalled''} \<or> s = ''published'' \<and> s' \<in> {''withdrawn'', ''recalled''}"

lemma life_moves_refl [simp]: "life_moves s s"
  by (simp add: life_moves_def)

lemma life_moves_trans: "life_moves a b \<Longrightarrow> life_moves b c \<Longrightarrow> life_moves a c"
  by (auto simp: life_moves_def)

lemma life_moves_draft: "life_moves s s' \<Longrightarrow> s \<noteq> ''draft'' \<Longrightarrow> s' \<noteq> ''draft''"
  by (auto simp: life_moves_def)

text \<open>What may happen to one row: its key stays, its state moves forward, its content is sealed once it is no draft.\<close>

definition row_moves :: "('r \<Rightarrow> 'k) \<Rightarrow> ('r \<Rightarrow> 'c) \<Rightarrow> ('r \<Rightarrow> string) \<Rightarrow> 'r \<Rightarrow> 'r \<Rightarrow> bool" where
  "row_moves key content state r r' \<longleftrightarrow> key r' = key r \<and> life_moves (state r) (state r') \<and> (state r \<noteq> ''draft'' \<longrightarrow> content r' = content r)"

definition table_moves :: "('r \<Rightarrow> 'k) \<Rightarrow> ('r \<Rightarrow> 'c) \<Rightarrow> ('r \<Rightarrow> string) \<Rightarrow> 'r list \<Rightarrow> 'r list \<Rightarrow> bool" where
  "table_moves key content state tab tab' \<longleftrightarrow> (\<forall>r \<in> set tab. \<exists>r' \<in> set tab'. row_moves key content state r r')"

lemma row_moves_refl [simp]: "row_moves key content state r r"
  by (simp add: row_moves_def)

lemma row_moves_trans: "row_moves key content state a b \<Longrightarrow> row_moves key content state b c \<Longrightarrow> row_moves key content state a c"
  by (auto simp: row_moves_def dest: life_moves_trans life_moves_draft)

lemma table_moves_refl [simp]: "table_moves key content state tab tab"
  by (auto simp: table_moves_def intro!: bexI row_moves_refl)

lemma table_moves_trans:
  assumes "table_moves key content state a b" "table_moves key content state b c"
  shows "table_moves key content state a c"
  unfolding table_moves_def
proof
  fix r assume "r \<in> set a"
  then obtain r1 where r1: "r1 \<in> set b" "row_moves key content state r r1" using assms(1) by (auto simp: table_moves_def)
  then obtain r2 where "r2 \<in> set c" "row_moves key content state r1 r2" using assms(2) by (auto simp: table_moves_def)
  then show "\<exists>r' \<in> set c. row_moves key content state r r'" using row_moves_trans [OF r1(2)] by blast
qed

lemma table_moves_append [simp]: "table_moves key content state tab (tab @ rows)"
  by (auto simp: table_moves_def intro!: bexI row_moves_refl)

lemma table_moves_update:
  assumes "\<And>r. r \<in> set tab \<Longrightarrow> sel r \<Longrightarrow> row_moves key content state r (upd r)"
  shows "table_moves key content state tab (map (\<lambda>r. if sel r then upd r else r) tab)"
  unfolding table_moves_def
proof
  fix r assume r: "r \<in> set tab"
  let ?r = "if sel r then upd r else r"
  have "?r \<in> set (map (\<lambda>r. if sel r then upd r else r) tab)" using r by force
  moreover have "row_moves key content state r ?r" using assms [OF r] by simp
  ultimately show "\<exists>r' \<in> set (map (\<lambda>r. if sel r then upd r else r) tab). row_moves key content state r r'" by blast
qed

text \<open>
  One write to a table with unique keys: nothing, a new row under a new key, or one row replaced by its successor.
\<close>

definition table_edit :: "('r \<Rightarrow> 'k) \<Rightarrow> ('r \<Rightarrow> bool) \<Rightarrow> ('r \<Rightarrow> 'r \<Rightarrow> bool) \<Rightarrow> 'r list \<Rightarrow> 'r list \<Rightarrow> bool" where
  "table_edit key good moves tab tab' \<longleftrightarrow> tab' = tab \<or> (\<exists>n. tab' = tab @ [n] \<and> key n \<notin> key ` set tab \<and> good n) \<or>
     (\<exists>r n. r \<in> set tab \<and> tab' = map (\<lambda>x. if x = r then n else x) tab \<and> key n = key r \<and> good n \<and> moves r n)"

lemma table_edit_refl [simp]: "table_edit key good moves tab tab"
  by (simp add: table_edit_def)

lemma table_edit_append: "key n \<notin> key ` set tab \<Longrightarrow> good n \<Longrightarrow> table_edit key good moves tab (tab @ [n])"
  by (auto simp: table_edit_def)

lemma table_edit_replace:
  assumes "distinct (map key tab)" "r \<in> set tab" "\<And>x. x \<in> set tab \<Longrightarrow> sel x \<longleftrightarrow> x = r" "key (upd r) = key r" "good (upd r)" "moves r (upd r)"
  shows "table_edit key good moves tab (map (\<lambda>x. if sel x then upd x else x) tab)"
proof -
  have "map (\<lambda>x. if sel x then upd x else x) tab = map (\<lambda>x. if x = r then upd r else x) tab" using assms(3) by auto
  then show ?thesis unfolding table_edit_def using assms(2,4,5,6) by blast
qed

lemma table_edit_one:
  "r \<in> set tab \<Longrightarrow> key n = key r \<Longrightarrow> good n \<Longrightarrow> moves r n \<Longrightarrow> table_edit key good moves tab (map (\<lambda>x. if x = r then n else x) tab)"
  unfolding table_edit_def by (intro disjI2 exI [of _ r] exI [of _ n] conjI refl)

lemma table_edit_keys: "table_edit key good moves tab tab' \<Longrightarrow> distinct (map key tab) \<Longrightarrow> distinct (map key tab')"
proof -
  assume e: "table_edit key good moves tab tab'" and d: "distinct (map key tab)"
  have "map key (map (\<lambda>x. if x = r then n else x) tab) = map key tab" if "key n = key r" for r n using that by auto
  then show ?thesis using e d by (auto simp: table_edit_def simp del: map_map)
qed

lemma table_edit_good: "table_edit key good moves tab tab' \<Longrightarrow> r \<in> set tab' \<Longrightarrow> r \<in> set tab \<or> good r"
  by (auto simp: table_edit_def split: if_splits)

lemma table_edit_succ: "table_edit key good moves tab tab' \<Longrightarrow> r \<in> set tab \<Longrightarrow> \<exists>r' \<in> set tab'. r' = r \<or> key r' = key r \<and> moves r r'"
  unfolding table_edit_def by (elim disjE exE conjE) (force+)

lemma table_edit_moves:
  assumes "table_edit key good moves tab tab'" "\<And>r n. moves r n \<Longrightarrow> row_moves key content state r n"
  shows "table_moves key content state tab tab'"
  unfolding table_moves_def
proof
  fix r assume "r \<in> set tab"
  from table_edit_succ [OF assms(1) this] obtain r' where "r' \<in> set tab'" "r' = r \<or> key r' = key r \<and> moves r r'" by (elim bexE)
  moreover from this(2) have "row_moves key content state r r'" using assms(2) by auto
  ultimately show "\<exists>r' \<in> set tab'. row_moves key content state r r'" by (intro bexI [of _ r'])
qed

text \<open>
  A table that is only ever extended, and whose rows only move forward along a preorder that keeps the key: every row is
  found again later, further along.
\<close>

locale moving_table =
  fixes step :: "'s \<Rightarrow> 's \<Rightarrow> bool" and ok :: "'s \<Rightarrow> bool" and tab :: "'s \<Rightarrow> 'r list"
    and key :: "'r \<Rightarrow> 'k" and moves :: "'r \<Rightarrow> 'r \<Rightarrow> bool"
  assumes step_ok: "step s s' \<Longrightarrow> ok s \<Longrightarrow> ok s'"
    and step_succ: "step s s' \<Longrightarrow> ok s \<Longrightarrow> r \<in> set (tab s) \<Longrightarrow> \<exists>r' \<in> set (tab s'). moves r r'"
    and ok_keys: "ok s \<Longrightarrow> distinct (map key (tab s))"
    and moves_refl: "moves r r"
    and moves_trans: "moves r1 r2 \<Longrightarrow> moves r2 r3 \<Longrightarrow> moves r1 r3"
    and moves_key: "moves r1 r2 \<Longrightarrow> key r2 = key r1"
begin

lemma steps_ok: "step\<^sup>*\<^sup>* s s' \<Longrightarrow> ok s \<Longrightarrow> ok s'"
  by (induction rule: rtranclp_induct) (auto dest: step_ok)

lemma steps_succ: "step\<^sup>*\<^sup>* s s' \<Longrightarrow> ok s \<Longrightarrow> r \<in> set (tab s) \<Longrightarrow> \<exists>r' \<in> set (tab s'). moves r r'"
proof (induction rule: rtranclp_induct)
  case base
  then show ?case using moves_refl by blast
next
  case (step t u)
  then obtain r1 where r1: "r1 \<in> set (tab t)" "moves r r1" by blast
  obtain r2 where "r2 \<in> set (tab u)" "moves r1 r2" using step_succ [OF step.hyps(2) steps_ok [OF step.hyps(1) step.prems(1)] r1(1)] by blast
  then show ?case using moves_trans [OF r1(2)] by blast
qed

lemma found_again:
  assumes "step\<^sup>*\<^sup>* s s'" "ok s" "r \<in> set (tab s)"
  shows "\<exists>r'. find (\<lambda>x. key x = key r) (tab s') = Some r' \<and> moves r r'"
proof -
  obtain r' where r': "r' \<in> set (tab s')" "moves r r'" using steps_succ [OF assms] by blast
  have d: "distinct (map key (tab s'))" by (rule ok_keys [OF steps_ok [OF assms(1,2)]])
  have "find (\<lambda>x. key x = key r) (tab s') \<noteq> None" using r'(1) moves_key [OF r'(2)] by (auto simp: find_None_iff)
  then obtain x where x: "find (\<lambda>x. key x = key r) (tab s') = Some x" by blast
  then have "x \<in> set (tab s')" "key x = key r" by (auto simp: find_Some_iff)
  then have "x = r'" using d r'(1) moves_key [OF r'(2)] inj_onD [of key "set (tab s')" x r'] by (simp add: distinct_map)
  then show ?thesis using x r'(2) by blast
qed

end

locale sealed_table =
  fixes step :: "'s \<Rightarrow> 's \<Rightarrow> bool" and ok :: "'s \<Rightarrow> bool" and tab :: "'s \<Rightarrow> 'r list"
    and key :: "'r \<Rightarrow> 'k" and content :: "'r \<Rightarrow> 'c" and state :: "'r \<Rightarrow> string"
  assumes sealed_ok: "step s s' \<Longrightarrow> ok s \<Longrightarrow> ok s'"
    and step_moves: "step s s' \<Longrightarrow> ok s \<Longrightarrow> table_moves key content state (tab s) (tab s')"
    and sealed_keys: "ok s \<Longrightarrow> distinct (map key (tab s))"
begin

end

sublocale sealed_table \<subseteq> moving_table step ok tab key "row_moves key content state"
proof unfold_locales
  show "\<exists>r' \<in> set (tab s'). row_moves key content state r r'" if "step s s'" "ok s" "r \<in> set (tab s)" for s s' r
    using step_moves [OF that(1,2)] that(3) by (auto simp: table_moves_def)
  show "row_moves key content state r1 r3" if "row_moves key content state r1 r2" "row_moves key content state r2 r3" for r1 r2 r3
    using that by (rule row_moves_trans)
qed (auto simp: row_moves_def intro: sealed_ok sealed_keys)

context sealed_table
begin

text \<open>A row that is no draft is found again under its key with the same content, whatever happened in between.\<close>

lemma sealed_forever:
  assumes "step\<^sup>*\<^sup>* s s'" "ok s" "r \<in> set (tab s)" "state r \<noteq> ''draft''"
  shows "\<exists>r'. find (\<lambda>x. key x = key r) (tab s') = Some r' \<and> content r' = content r \<and> life_moves (state r) (state r')"
  using found_again [OF assms(1-3)] assms(4) by (auto simp: row_moves_def)

end

text \<open>A table whose rows also carry a revision: a row that changes gets a greater one.\<close>

locale versioned_table = sealed_table +
  fixes revision :: "'b \<Rightarrow> int"
  assumes step_revision: "step s s' \<Longrightarrow> ok s \<Longrightarrow> r \<in> set (tab s) \<Longrightarrow> \<exists>r' \<in> set (tab s'). r' = r \<or> key r' = key r \<and> revision r < revision r'"
begin

lemma steps_revision:
  assumes "step\<^sup>*\<^sup>* s s'" "ok s" "r \<in> set (tab s)"
  shows "\<exists>r' \<in> set (tab s'). r' = r \<or> key r' = key r \<and> revision r < revision r'"
  using assms
proof (induction rule: rtranclp_induct)
  case (step t u)
  then obtain r1 where r1: "r1 \<in> set (tab t)" "r1 = r \<or> key r1 = key r \<and> revision r < revision r1" by blast
  have "ok t" using steps_ok step.hyps(1) step.prems(1) by blast
  then obtain r2 where "r2 \<in> set (tab u)" "r2 = r1 \<or> key r2 = key r1 \<and> revision r1 < revision r2"
    using step_revision [OF step.hyps(2)] r1(1) by blast
  then show ?case using r1(2) by force
qed blast

text \<open>Optimistic locking is sound: who finds the revision that was read finds the row that was read.\<close>

lemma same_revision_same_row:
  assumes "step\<^sup>*\<^sup>* s s'" "ok s" "r \<in> set (tab s)" "x \<in> set (tab s')" "key x = key r" "revision x = revision r"
  shows "x = r"
proof -
  obtain r' where r': "r' \<in> set (tab s')" "r' = r \<or> key r' = key r \<and> revision r < revision r'" using steps_revision [OF assms(1-3)] by blast
  have "distinct (map key (tab s'))" using ok_keys steps_ok [OF assms(1,2)] by blast
  then have "x = r'" using assms(4,5) r' inj_onD [of key "set (tab s')" x r'] by (auto simp: distinct_map)
  then show ?thesis using r'(2) assms(6) by auto
qed

end

end
