(* ===== verification/Rule_Store.thy ===== *)
theory Rule_Store
  imports Template_Copy
begin

text \<open>
  The store of rule set versions: \<^verbatim>\<open>rulesetstore/store.go\<close> and the membership authorizer of
  \<^verbatim>\<open>rulesetstore/tenant_authorizer.go\<close>.

  The tables are the active tenant members, the rule set versions and the audit log; what else the database holds
  is the component \<^verbatim>\<open>rt_rest\<close>.  A JSON column holds the decoded value.  Of the details of an audit record the
  text-valued entries are kept; a profile, version or rule set that the code repeats there is left out.  The authorizer is an optional function of the environment, \<^verbatim>\<open>None\<close> being the
  nil interface.
\<close>

section \<open>Data\<close>

record gov_actor =
  ga_TenantID :: nat
  ga_UserID :: string
  ga_Role :: string

record rule_row =
  rr_TenantID :: nat
  rr_RuleSetID :: string
  rr_Version :: string
  rr_State :: string
  rr_RuleSetHash :: string
  rr_Bindings :: "rule_binding list"
  rr_CreatedBy :: string
  rr_CreatedAt :: int

record audit_log =
  al_TenantID :: nat
  al_ActorUserID :: string
  al_ActorRole :: string
  al_Action :: string
  al_TargetType :: string
  al_TargetID :: string
  al_Outcome :: string
  al_Details :: "(string \<times> string) list"
  al_ScopeType :: string
  al_ScopeID :: string
  al_CreatedAt :: int

record 'q gov_tables =
  rt_members :: "tenant_member_row list"
  rt_sets :: "rule_row list"
  rt_audits :: "audit_log list"
  rt_rest :: 'q

record 'q rule_env =
  re_tpl :: tpl_env
  re_now :: int
  re_marshalBindings :: "rule_binding list \<Rightarrow> goerr + string"
  re_authorizer :: "('q gov_tables \<Rightarrow> gov_actor \<Rightarrow> string \<Rightarrow> rule_set \<Rightarrow> goerr option) option"

section \<open>One transaction\<close>

text \<open>\<^verbatim>\<open>db.Transaction(fn)\<close>: the closure answers a value and the new state, or an error that rolls it back.\<close>

definition db_Transaction :: "'s attempt \<Rightarrow> ('s \<Rightarrow> goerr + 'a \<times> 's) \<Rightarrow> 's \<Rightarrow> 's \<times> (goerr + 'a)" where
  "db_Transaction a body s =
     (let s0 = at_before a s in
      case at_begin a of
        Some e \<Rightarrow> (s0, Inl e)
      | None \<Rightarrow> (case body s0 of
            Inl e \<Rightarrow> (s0, Inl e)
          | Inr (r, s1) \<Rightarrow> (case at_commit a of Some e \<Rightarrow> (s0, Inl e) | None \<Rightarrow> (s1, Inr r))))"

definition unchanged :: "('s \<Rightarrow> goerr + 'a) \<Rightarrow> 's \<Rightarrow> goerr + 'a \<times> 's" where
  "unchanged body s = bindR (body s) (\<lambda>r. Inr (r, s))"

section \<open>Actors and authorization\<close>

definition validateActor :: "'q rule_env \<Rightarrow> gov_actor \<Rightarrow> goerr + unit" where
  "validateActor env a =
     (if ga_TenantID a = 0 then Inl (Sentinel ErrRuleSetTenantRequired)
      else if blank (ga_UserID a) \<or> blank (ga_Role a) then Inl (Sentinel ErrActorRequired)
      else if \<not> role_IsValid (ga_Role a) then Inl (Sentinel ErrActorRoleInvalid)
      else if re_authorizer env = None then Inl (Sentinel ErrAuthorizerUnavailable)
      else Inr ())"

definition rs_authorize :: "'q rule_env \<Rightarrow> 'q gov_tables \<Rightarrow> gov_actor \<Rightarrow> string \<Rightarrow> rule_set \<Rightarrow> goerr + unit" where
  "rs_authorize env st a action rs =
     (case re_authorizer env of
        None \<Rightarrow> Inl (Sentinel ErrAuthorizerUnavailable)
      | Some f \<Rightarrow> (case f st a action rs of Some e \<Rightarrow> Inl e | None \<Rightarrow> Inr ()))"

definition TenantMembershipAuthorizer :: "'q gov_tables \<Rightarrow> gov_actor \<Rightarrow> string \<Rightarrow> rule_set \<Rightarrow> goerr option" where
  "TenantMembershipAuthorizer st a action rs =
     (case find (\<lambda>m. tr_TenantID m = ga_TenantID a \<and> tr_UserID m = ga_UserID a \<and> tr_Status m = ''active'' \<and> \<not> tr_Deleted m) (rt_members st) of
        None \<Rightarrow> Some (Sentinel ErrRuleSetAccessDenied)
      | Some m \<Rightarrow>
          if action = ''read'' then None
          else if \<not> role_IsValid (tr_Role m) \<or> (tr_Role m \<noteq> ''owner'' \<and> tr_Role m \<noteq> ''admin'') then Some (Sentinel ErrRuleSetAccessDenied)
          else None)"

section \<open>Rows\<close>

definition rule_key :: "rule_row \<Rightarrow> nat \<times> string \<times> string" where
  "rule_key r = (rr_TenantID r, rr_RuleSetID r, rr_Version r)"

definition rs_loadVersion :: "'q gov_tables \<Rightarrow> nat \<Rightarrow> string \<Rightarrow> string \<Rightarrow> goerr + rule_row" where
  "rs_loadVersion st tenant i version =
     (case find (\<lambda>r. rr_TenantID r = tenant \<and> rr_RuleSetID r = i \<and> rr_Version r = version) (rt_sets st) of
        None \<Rightarrow> Inl (Sentinel ErrRuleSetNotFound) | Some r \<Rightarrow> Inr r)"

definition row_set :: "rule_row \<Rightarrow> rule_set" where
  "row_set r = \<lparr>s_ID = rr_RuleSetID r, s_Version = rr_Version r, s_State = rr_State r, s_Bindings = rr_Bindings r, s_RulesetHash = rr_RuleSetHash r\<rparr>"

definition decodeRuleSet :: "tpl_env \<Rightarrow> rule_row \<Rightarrow> goerr + rule_set" where
  "decodeRuleSet te r =
     (case ValidateRuleSet te (row_set r) of
        Inl e \<Rightarrow> Inl (Wrapped (''validate stored ruleset '' @ rr_RuleSetID r @ ''/'' @ rr_Version r @ '': '' @ err_msg e) e)
      | Inr _ \<Rightarrow> Inr (row_set r))"

definition auditTargetID :: "string \<Rightarrow> string \<Rightarrow> string" where
  "auditTargetID i version = sha256_hex (i @ [byte 0] @ version)"

definition rs_recordAudit :: "'q rule_env \<Rightarrow> gov_actor \<Rightarrow> rule_set \<Rightarrow> string \<Rightarrow> string \<Rightarrow> string \<Rightarrow> 'q gov_tables \<Rightarrow> goerr + 'q gov_tables" where
  "rs_recordAudit env a rs action from to st =
     (if \<not> role_IsValid (ga_Role a) then Inl (Sentinel ErrActorRoleInvalid)
      else Inr (st\<lparr>rt_audits := rt_audits st @ [\<lparr>al_TenantID = ga_TenantID a, al_ActorUserID = ga_UserID a, al_ActorRole = ga_Role a,
        al_Action = ''lingdoc.ruleset.'' @ action, al_TargetType = ''ruleset_version'', al_TargetID = auditTargetID (s_ID rs) (s_Version rs), al_Outcome = ''success'',
        al_Details = [(''from_state'', from), (''ruleset_hash'', s_RulesetHash rs), (''ruleset_id'', s_ID rs), (''to_state'', to), (''version'', s_Version rs)],
        al_ScopeType = ''lingdoc_ruleset'', al_ScopeID = s_ID rs, al_CreatedAt = re_now env\<rparr>]\<rparr>))"

section \<open>Operations\<close>

definition create_draft_check :: "'q rule_env \<Rightarrow> gov_actor \<Rightarrow> rule_set \<Rightarrow> goerr + unit" where
  "create_draft_check env a draft =
     bindR (validateActor env a) (\<lambda>_.
       if s_State draft \<noteq> ''draft'' then Inl (Sentinel ErrRuleSetNotDraft)
       else if s_RulesetHash draft \<noteq> [] then Inl (Sentinel ErrDraftHashMustBeEmpty)
       else bindR (ValidateRuleSet (re_tpl env) draft) (\<lambda>_.
         case re_marshalBindings env (s_Bindings draft) of
           Inl e \<Rightarrow> Inl (Wrapped (''encode ruleset bindings: '' @ err_msg e) e) | Inr _ \<Rightarrow> Inr ()))"

definition create_draft_body :: "'q rule_env \<Rightarrow> gov_actor \<Rightarrow> rule_set \<Rightarrow> 'q gov_tables \<Rightarrow> goerr + 'q gov_tables" where
  "create_draft_body env a draft st =
     bindR (rs_authorize env st a ''create_draft'' draft) (\<lambda>_.
       let row = \<lparr>rr_TenantID = ga_TenantID a, rr_RuleSetID = s_ID draft, rr_Version = s_Version draft, rr_State = ''draft'', rr_RuleSetHash = [],
                  rr_Bindings = s_Bindings draft, rr_CreatedBy = ga_UserID a, rr_CreatedAt = re_now env\<rparr> in
       if rule_key row \<in> rule_key ` set (rt_sets st) then Inl (Sentinel ErrRuleSetVersionExists)
       else rs_recordAudit env a draft ''create_draft'' [] ''draft'' (st\<lparr>rt_sets := rt_sets st @ [row]\<rparr>))"

definition CreateDraft :: "'q rule_env \<Rightarrow> gov_actor \<Rightarrow> rule_set \<Rightarrow> 'q gov_tables attempt \<Rightarrow> 'q gov_tables \<Rightarrow> 'q gov_tables \<times> (goerr + unit)" where
  "CreateDraft env a draft tx st =
     (case create_draft_check env a draft of
        Inl e \<Rightarrow> (st, Inl e)
      | Inr _ \<Rightarrow> db_Transaction tx (\<lambda>t. bindR (create_draft_body env a draft t) (\<lambda>t'. Inr ((), t'))) st)"

definition get_version_body :: "'q rule_env \<Rightarrow> gov_actor \<Rightarrow> string \<Rightarrow> string \<Rightarrow> 'q gov_tables \<Rightarrow> goerr + rule_set" where
  "get_version_body env a i version st =
     bindR (rs_loadVersion st (ga_TenantID a) i version) (\<lambda>row.
     bindR (decodeRuleSet (re_tpl env) row) (\<lambda>rs.
     bindR (rs_authorize env st a ''read'' rs) (\<lambda>_. Inr rs)))"

text \<open>The call inside the transaction of a caller: the store's own transaction is a savepoint of it.\<close>

definition GetVersion_tx :: "'q rule_env \<Rightarrow> gov_actor \<Rightarrow> string \<Rightarrow> string \<Rightarrow> 'q gov_tables \<Rightarrow> goerr + rule_set" where
  "GetVersion_tx env a i version st = bindR (validateActor env a) (\<lambda>_. get_version_body env a i version st)"

definition rs_GetVersion :: "'q rule_env \<Rightarrow> gov_actor \<Rightarrow> string \<Rightarrow> string \<Rightarrow> 'q gov_tables attempt \<Rightarrow> 'q gov_tables \<Rightarrow> 'q gov_tables \<times> (goerr + rule_set)" where
  "rs_GetVersion env a i version tx st =
     (case validateActor env a of
        Inl e \<Rightarrow> (st, Inl e)
      | Inr _ \<Rightarrow> db_Transaction tx (unchanged (get_version_body env a i version)) st)"

definition GetVersionForBinding :: "'q rule_env \<Rightarrow> gov_actor \<Rightarrow> string \<Rightarrow> string \<Rightarrow> 'q gov_tables \<Rightarrow> goerr + rule_set" where
  "GetVersionForBinding env a i version st =
     bindR (validateActor env a) (\<lambda>_.
       if fst (update_rows (\<lambda>r. rr_TenantID r = ga_TenantID a \<and> rr_RuleSetID r = i \<and> rr_Version r = version) (\<lambda>r. r\<lparr>rr_State := rr_State r\<rparr>) (rt_sets st)) = 0
       then Inl (Sentinel ErrRuleSetNotFound)
       else bindR (rs_loadVersion st (ga_TenantID a) i version) (\<lambda>row.
            bindR (decodeRuleSet (re_tpl env) row) (\<lambda>rs.
            bindR (rs_authorize env st a ''read'' rs) (\<lambda>_. Inr rs))))"

definition rs_ListVersions :: "'q rule_env \<Rightarrow> gov_actor \<Rightarrow> string \<Rightarrow> 'q gov_tables attempt \<Rightarrow> 'q gov_tables \<Rightarrow> 'q gov_tables \<times> (goerr + rule_set list)" where
  "rs_ListVersions env a i tx st =
     (case validateActor env a of
        Inl e \<Rightarrow> (st, Inl e)
      | Inr _ \<Rightarrow> db_Transaction tx (unchanged (\<lambda>t.
          mapR (\<lambda>row. bindR (decodeRuleSet (re_tpl env) row) (\<lambda>rs. bindR (rs_authorize env t a ''read'' rs) (\<lambda>_. Inr rs)))
            (rev (sort_key (\<lambda>r. (rr_CreatedAt r, rr_Version r)) (filter (\<lambda>r. rr_TenantID r = ga_TenantID a \<and> rr_RuleSetID r = i) (rt_sets t)))))) st)"

definition set_columns :: "string \<Rightarrow> rule_set \<Rightarrow> rule_row \<Rightarrow> rule_row" where
  "set_columns action rs r = (if action = ''publish'' then r\<lparr>rr_State := s_State rs, rr_RuleSetHash := s_RulesetHash rs\<rparr> else r\<lparr>rr_State := s_State rs\<rparr>)"

definition rs_transition_body :: "'q rule_env \<Rightarrow> gov_actor \<Rightarrow> string \<Rightarrow> string \<Rightarrow> string \<Rightarrow> (rule_set \<Rightarrow> goerr + rule_set) \<Rightarrow> 'q gov_tables \<Rightarrow> goerr + rule_set \<times> 'q gov_tables" where
  "rs_transition_body env a i version action apply st =
     bindR (rs_loadVersion st (ga_TenantID a) i version) (\<lambda>row.
     bindR (decodeRuleSet (re_tpl env) row) (\<lambda>current.
     bindR (rs_authorize env st a action current) (\<lambda>_.
     bindR (apply current) (\<lambda>nxt.
       let result = update_rows (\<lambda>r. rr_TenantID r = ga_TenantID a \<and> rr_RuleSetID r = i \<and> rr_Version r = version \<and> rr_State r = s_State current)
                      (set_columns action nxt) (rt_sets st) in
       if fst result \<noteq> 1 then Inl (Sentinel ErrRuleSetStateConflict)
       else bindR (rs_recordAudit env a nxt action (s_State current) (s_State nxt) (st\<lparr>rt_sets := snd result\<rparr>)) (\<lambda>st'. Inr (nxt, st'))))))"

definition rs_transition :: "'q rule_env \<Rightarrow> gov_actor \<Rightarrow> string \<Rightarrow> string \<Rightarrow> string \<Rightarrow> (rule_set \<Rightarrow> goerr + rule_set) \<Rightarrow> 'q gov_tables attempt \<Rightarrow> 'q gov_tables \<Rightarrow> 'q gov_tables \<times> (goerr + rule_set)" where
  "rs_transition env a i version action apply tx st =
     (case validateActor env a of
        Inl e \<Rightarrow> (st, Inl e)
      | Inr _ \<Rightarrow> db_Transaction tx (rs_transition_body env a i version action apply) st)"

definition rs_Publish :: "'q rule_env \<Rightarrow> gov_actor \<Rightarrow> string \<Rightarrow> string \<Rightarrow> 'q gov_tables attempt \<Rightarrow> 'q gov_tables \<Rightarrow> 'q gov_tables \<times> (goerr + rule_set)" where
  "rs_Publish env a i version = rs_transition env a i version ''publish'' (PublishRuleSet (re_tpl env))"

definition rs_Withdraw :: "'q rule_env \<Rightarrow> gov_actor \<Rightarrow> string \<Rightarrow> string \<Rightarrow> 'q gov_tables attempt \<Rightarrow> 'q gov_tables \<Rightarrow> 'q gov_tables \<times> (goerr + rule_set)" where
  "rs_Withdraw env a i version = rs_transition env a i version ''withdraw'' (WithdrawRuleSet (re_tpl env))"

definition rs_Recall :: "'q rule_env \<Rightarrow> gov_actor \<Rightarrow> string \<Rightarrow> string \<Rightarrow> 'q gov_tables attempt \<Rightarrow> 'q gov_tables \<Rightarrow> 'q gov_tables \<times> (goerr + rule_set)" where
  "rs_Recall env a i version = rs_transition env a i version ''recall'' (RecallRuleSet (re_tpl env))"

end
