(* ===== verification/Binding_Policy.thy ===== *)
theory Binding_Policy
  imports Template_Copy
begin

text \<open>
  What a reviewed binding policy lets a project change: \<^verbatim>\<open>templategovernance/policy.go\<close>, \<^verbatim>\<open>bindings.go\<close> and
  \<^verbatim>\<open>binding_target_validation.go\<close>.

  The copy of the base set through JSON is the identity on decoded values.  \<^verbatim>\<open>reflect.DeepEqual\<close> is equality; an
  object inside a parameter lists its keys in one fixed order.
\<close>

section \<open>Bindings\<close>

record binding_override =
  bo_RemoveParameterKeys :: "string list"
  bo_RuleID :: string
  bo_Enabled :: "bool option"
  bo_TargetKind :: string
  bo_TargetID :: string
  bo_Parameters :: params
  bo_Severity :: string

definition mandatoryBinding :: "rule_binding \<Rightarrow> bool" where
  "mandatoryBinding b \<longleftrightarrow>
     b_Severity b = ''blocking'' \<and>
     (b_DefinitionID b \<in> {''computed/required_fields'', ''computed/nonempty_chapter'', ''computed/confirmed_chapter'', ''computed/review_items_decided'', ''computed/source_available''} \<or>
      b_Origin b = ''builtin'')"

definition severityRank :: "string \<Rightarrow> nat" where
  "severityRank s = (if s = ''blocking'' then 3 else if s = ''warning'' then 2 else if s = ''info'' then 1 else 0)"

fun parameterNumber :: "jany \<Rightarrow> rat option" where
  "parameterNumber (JFloat x) = Some x"
| "parameterNumber (JInt n) = Some (rat_of_int n)"
| "parameterNumber (JNumber s v) = v"
| "parameterNumber _ = None"

definition targetExists :: "template \<Rightarrow> string \<Rightarrow> string \<Rightarrow> bool" where
  "targetExists t kind i \<longleftrightarrow>
     kind = ''field'' \<and> (i \<in> f_ID ` set (t_Fields t) \<or> i \<in> set (t_RequiredFields t)) \<or> kind = ''chapter'' \<and> i \<in> sec_ID ` set (t_Sections t)"

section \<open>Policies of a template version\<close>

definition reservedParameters :: "string list" where
  "reservedParameters = [''target_kind'', ''target_id'', ''definition_id'', ''definition_version'', ''evaluator'', ''script'', ''expression'', ''code'', ''owner'', ''origin'']"

definition policy_fits :: "template \<Rightarrow> rule_binding \<Rightarrow> binding_policy \<Rightarrow> bool" where
  "policy_fits t b p \<longleftrightarrow>
     \<not> (mandatoryBinding b \<and> (bp_MayDisable p \<or> bp_AllowedTargetKinds p \<noteq> [] \<or> bp_AllowedTargetIDs p \<noteq> [] \<or> bp_AllowedParameterKeys p \<noteq> [] \<or>
                               bp_ParameterBounds p \<noteq> [] \<or> bp_AllowedSeverities p \<noteq> [])) \<and>
     (let kinds = (if bp_AllowedTargetKinds p = [] then [b_TargetKind b] else bp_AllowedTargetKinds p);
          allowed = (case ruleDefinition (b_DefinitionID b) of None \<Rightarrow> [] | Some d \<Rightarrow> d_AllowedTargetKinds d) in
      list_all (\<lambda>k. k \<in> set allowed) (bp_AllowedTargetKinds p) \<and>
      list_all (\<lambda>i. stableID i \<and> list_all (\<lambda>k. targetExists t k i) kinds) (bp_AllowedTargetIDs p)) \<and>
     list_all (\<lambda>s. severityRank s \<noteq> 0 \<and> severityRank s \<le> severityRank (b_Severity b)) (bp_AllowedSeverities p) \<and>
     list_all (\<lambda>k. plookup (b_Parameters b) k \<noteq> None \<and> k \<notin> set reservedParameters) (bp_AllowedParameterKeys p) \<and>
     list_all (\<lambda>(k, _). k \<in> set (bp_AllowedParameterKeys p) \<and> (case plookup (b_Parameters b) k of None \<Rightarrow> False | Some v \<Rightarrow> parameterNumber v \<noteq> None))
       (bp_ParameterBounds p)"

definition ValidateBindingPolicies :: "copy_env \<Rightarrow> template \<Rightarrow> rule_set \<Rightarrow> binding_policy list \<Rightarrow> goerr + unit" where
  "ValidateBindingPolicies ce t rs policies =
     bindR (HashBindingPolicies ce policies) (\<lambda>_.
       if list_all (\<lambda>p. case bindingOf rs (bp_RuleID p) of None \<Rightarrow> False | Some b \<Rightarrow> policy_fits t b p) policies
       then Inr () else Inl (Sentinel GovErrInvalidRequest))"

section \<open>Overrides of a project\<close>

text \<open>The steps of one override, each refused or carried into the next binding.\<close>

definition override_enabled :: "binding_policy \<Rightarrow> rule_binding \<Rightarrow> bool option \<Rightarrow> rule_binding \<Rightarrow> goerr + rule_binding" where
  "override_enabled p original e b =
     (case e of
        None \<Rightarrow> Inr b
      | Some on \<Rightarrow>
          if on = b_Enabled original then Inr b
          else if \<not> on \<and> (\<not> bp_MayDisable p \<or> mandatoryBinding original) then Inl (Sentinel GovErrInvalidRequest)
          else Inr (b\<lparr>b_Enabled := on\<rparr>))"

definition override_kind :: "binding_policy \<Rightarrow> rule_binding \<Rightarrow> string \<Rightarrow> rule_binding \<Rightarrow> goerr + rule_binding" where
  "override_kind p original k b =
     (if k = [] \<or> k = b_TargetKind original then Inr b
      else if k \<notin> set (bp_AllowedTargetKinds p) then Inl (Sentinel GovErrInvalidRequest) else Inr (b\<lparr>b_TargetKind := k\<rparr>))"

definition override_target :: "binding_policy \<Rightarrow> rule_binding \<Rightarrow> string \<Rightarrow> rule_binding \<Rightarrow> goerr + rule_binding" where
  "override_target p original i b =
     (if i = [] \<or> i = b_TargetID original then Inr b
      else if i \<notin> set (bp_AllowedTargetIDs p) then Inl (Sentinel GovErrInvalidRequest) else Inr (b\<lparr>b_TargetID := i\<rparr>))"

definition override_severity :: "binding_policy \<Rightarrow> rule_binding \<Rightarrow> string \<Rightarrow> rule_binding \<Rightarrow> goerr + rule_binding" where
  "override_severity p original s b =
     (if s = [] \<or> s = b_Severity original then Inr b
      else if mandatoryBinding original \<or> s \<notin> set (bp_AllowedSeverities p) \<or> severityRank s = 0 then Inl (Sentinel GovErrInvalidRequest)
      else Inr (b\<lparr>b_Severity := s\<rparr>))"

definition premove :: "string \<Rightarrow> params \<Rightarrow> params" where
  "premove k p = map_option (filter (\<lambda>(j, _). j \<noteq> k)) p"

fun remove_keys :: "binding_policy \<Rightarrow> rule_binding \<Rightarrow> params \<Rightarrow> string list \<Rightarrow> string list \<Rightarrow> rule_binding \<Rightarrow> goerr + rule_binding" where
  "remove_keys p original edits removed [] b = Inr b"
| "remove_keys p original edits removed (k # ks) b =
     (if k \<in> set removed \<or> k \<notin> set (bp_AllowedParameterKeys p) \<or> plookup (b_Parameters original) k = None \<or> plookup edits k \<noteq> None
      then Inl (Sentinel GovErrInvalidRequest)
      else remove_keys p original edits (k # removed) ks (b\<lparr>b_Parameters := premove k (b_Parameters b)\<rparr>))"

definition in_bounds :: "binding_policy \<Rightarrow> string \<Rightarrow> jany \<Rightarrow> bool" where
  "in_bounds p k v =
     (case map_of (bp_ParameterBounds p) k of
        None \<Rightarrow> True
      | Some (lo, hi) \<Rightarrow>
          (case parameterNumber v of
             None \<Rightarrow> False
           | Some n \<Rightarrow> (case lo of None \<Rightarrow> True | Some x \<Rightarrow> x \<le> n) \<and> (case hi of None \<Rightarrow> True | Some x \<Rightarrow> n \<le> x)))"

definition old_value :: "rule_binding \<Rightarrow> string \<Rightarrow> jany" where
  "old_value b k = (case plookup (b_Parameters b) k of None \<Rightarrow> JNull | Some v \<Rightarrow> v)"

fun edit_keys :: "binding_policy \<Rightarrow> rule_binding \<Rightarrow> (string \<times> jany) list \<Rightarrow> rule_binding \<Rightarrow> goerr + rule_binding" where
  "edit_keys p original [] b = Inr b"
| "edit_keys p original ((k, v) # edits) b =
     (if old_value original k = v then edit_keys p original edits b
      else if k \<notin> set (bp_AllowedParameterKeys p) then Inl (Sentinel GovErrInvalidRequest)
      else if \<not> in_bounds p k v then Inl (Sentinel GovErrInvalidRequest)
      else edit_keys p original edits (b\<lparr>b_Parameters := pset k v (b_Parameters b)\<rparr>))"

definition override_binding :: "binding_policy \<Rightarrow> rule_binding \<Rightarrow> binding_override \<Rightarrow> goerr + rule_binding" where
  "override_binding p original ov =
     bindR (override_enabled p original (bo_Enabled ov) original) (\<lambda>b.
     bindR (override_kind p original (bo_TargetKind ov) b) (\<lambda>b.
     bindR (override_target p original (bo_TargetID ov) b) (\<lambda>b.
     bindR (override_severity p original (bo_Severity ov) b) (\<lambda>b.
     bindR (remove_keys p original (bo_Parameters ov) [] (bo_RemoveParameterKeys ov) b) (\<lambda>b.
     bindR (edit_keys p original (pentries (bo_Parameters ov)) b) (\<lambda>b.
       if mandatoryBinding original \<and> b \<noteq> original then Inl (Sentinel GovErrInvalidRequest) else Inr b))))))"

fun apply_overrides :: "binding_policy list \<Rightarrow> string list \<Rightarrow> binding_override list \<Rightarrow> rule_set \<Rightarrow> goerr + rule_set" where
  "apply_overrides policies seen [] rs = Inr rs"
| "apply_overrides policies seen (ov # ovs) rs =
     (case (bindingOf rs (bo_RuleID ov), find (\<lambda>p. bp_RuleID p = bo_RuleID ov) policies) of
        (Some original, Some p) \<Rightarrow>
          if bo_RuleID ov \<in> set seen then Inl (Sentinel GovErrInvalidRequest)
          else bindR (override_binding p original ov) (\<lambda>b.
            apply_overrides policies (bo_RuleID ov # seen) ovs (rs\<lparr>s_Bindings := map (\<lambda>x. if b_RuleID x = bo_RuleID ov then b else x) (s_Bindings rs)\<rparr>))
      | _ \<Rightarrow> Inl (Sentinel GovErrInvalidRequest))"

definition ApplyBindingOverrides :: "tpl_env \<Rightarrow> rule_set \<Rightarrow> string \<Rightarrow> string \<Rightarrow> binding_policy list \<Rightarrow> binding_override list \<Rightarrow> goerr + rule_set" where
  "ApplyBindingOverrides te base effectiveID effectiveVersion policies overrides =
     bindR (ValidateRuleSet te base) (\<lambda>_.
       if s_State base = ''draft'' \<or> \<not> stableID effectiveID \<or> \<not> stableID effectiveVersion \<or> effectiveID = s_ID base \<and> effectiveVersion = s_Version base
       then Inl (Sentinel GovErrInvalidRequest)
       else if \<not> distinct (map bp_RuleID policies) then Inl (Sentinel GovErrInvalidRequest)
       else bindR (apply_overrides policies [] overrides base) (\<lambda>rs.
         let effective = rs\<lparr>s_ID := effectiveID, s_Version := effectiveVersion, s_State := ''draft'', s_RulesetHash := []\<rparr> in
         bindR (ValidateRuleSet te effective) (\<lambda>_.
         bindR (HashRuleSet te effective) (\<lambda>hash.
           Inr (effective\<lparr>s_State := ''published'', s_RulesetHash := hash\<rparr>)))))"

definition ValidateChangedBindingTargets :: "template \<Rightarrow> rule_set \<Rightarrow> rule_set \<Rightarrow> goerr + unit" where
  "ValidateChangedBindingTargets t previous effective =
     (if list_all (\<lambda>b. case bindingOf previous (b_RuleID b) of
            None \<Rightarrow> False
          | Some old \<Rightarrow> b_TargetKind b = b_TargetKind old \<and> b_TargetID b = b_TargetID old \<or>
                        (b_TargetKind b \<in> {''field'', ''chapter''} \<longrightarrow> targetExists t (b_TargetKind b) (b_TargetID b))) (s_Bindings effective)
      then Inr () else Inl (Sentinel GovErrInvalidRequest))"

section \<open>What a policy allows\<close>

text \<open>
  A binding within a policy: identity, definition, message, scenes, examples and owner are kept; it may be switched off, moved
  to another target, given another severity or other parameters only as the policy lists them.
\<close>

definition same_rule :: "rule_binding \<Rightarrow> rule_binding \<Rightarrow> bool" where
  "same_rule b b' \<longleftrightarrow> b_RuleID b' = b_RuleID b \<and> b_DefinitionID b' = b_DefinitionID b \<and> b_DefinitionVersion b' = b_DefinitionVersion b \<and> b_Origin b' = b_Origin b \<and>
     b_Message b' = b_Message b \<and> b_TriggerScenes b' = b_TriggerScenes b \<and> b_PositiveExampleRefs b' = b_PositiveExampleRefs b \<and>
     b_NegativeExampleRefs b' = b_NegativeExampleRefs b \<and> b_Owner b' = b_Owner b"

definition params_within :: "binding_policy \<Rightarrow> rule_binding \<Rightarrow> rule_binding \<Rightarrow> bool" where
  "params_within p b b' \<longleftrightarrow> (\<forall>k. plookup (b_Parameters b') k = plookup (b_Parameters b) k \<or>
     k \<in> set (bp_AllowedParameterKeys p) \<and> (\<forall>v. plookup (b_Parameters b') k = Some v \<longrightarrow> in_bounds p k v))"

definition binding_within :: "binding_policy \<Rightarrow> rule_binding \<Rightarrow> rule_binding \<Rightarrow> bool" where
  "binding_within p b b' \<longleftrightarrow> same_rule b b' \<and>
     (b_Enabled b \<and> \<not> b_Enabled b' \<longrightarrow> bp_MayDisable p) \<and>
     b_TargetKind b' \<in> insert (b_TargetKind b) (set (bp_AllowedTargetKinds p)) \<and>
     b_TargetID b' \<in> insert (b_TargetID b) (set (bp_AllowedTargetIDs p)) \<and>
     b_Severity b' \<in> insert (b_Severity b) (set (bp_AllowedSeverities p)) \<and> params_within p b b'"

lemma binding_within_refl [simp]: "binding_within p b b"
  by (simp add: binding_within_def same_rule_def params_within_def)

lemma plookup_premove: "plookup (premove k q) j = (if j = k then None else plookup q j)"
proof -
  have "map_of (filter (\<lambda>(j, _). j \<noteq> k) xs) j = (if j = k then None else map_of xs j)" for xs :: "(string \<times> jany) list"
    by (induction xs) auto
  then show ?thesis by (cases q) (simp_all add: premove_def plookup_def)
qed

lemma remove_keys_within:
  "remove_keys p original edits removed ks b = Inr b' \<Longrightarrow> binding_within p original b \<Longrightarrow> binding_within p original b'"
proof (induction ks arbitrary: removed b)
  case (Cons k ks)
  from Cons.prems(1) have k: "k \<in> set (bp_AllowedParameterKeys p)"
    and r: "remove_keys p original edits (k # removed) ks (b\<lparr>b_Parameters := premove k (b_Parameters b)\<rparr>) = Inr b'" by (auto split: if_splits)
  have "binding_within p original (b\<lparr>b_Parameters := premove k (b_Parameters b)\<rparr>)"
    using Cons.prems(2) k by (simp add: binding_within_def same_rule_def params_within_def plookup_premove)
  then show ?case by (rule Cons.IH [OF r])
qed simp

lemma edit_keys_within:
  "edit_keys p original edits b = Inr b' \<Longrightarrow> binding_within p original b \<Longrightarrow> binding_within p original b'"
proof (induction edits arbitrary: b)
  case (Cons e edits)
  obtain k v where e: "e = (k, v)" by (rule prod.exhaust)
  show ?case
  proof (cases "old_value original k = v")
    case True
    then show ?thesis using Cons e by simp
  next
    case False
    then have k: "k \<in> set (bp_AllowedParameterKeys p)" "in_bounds p k v" and r: "edit_keys p original edits (b\<lparr>b_Parameters := pset k v (b_Parameters b)\<rparr>) = Inr b'"
      using Cons.prems(1) e by (auto split: if_splits)
    have "binding_within p original (b\<lparr>b_Parameters := pset k v (b_Parameters b)\<rparr>)"
      using Cons.prems(2) k by (simp add: binding_within_def same_rule_def params_within_def plookup_pset)
    then show ?thesis by (rule Cons.IH [OF r])
  qed
qed simp

lemma within_update:
  assumes "binding_within p original b"
  shows "on \<or> bp_MayDisable p \<Longrightarrow> binding_within p original (b\<lparr>b_Enabled := on\<rparr>)" "k \<in> set (bp_AllowedTargetKinds p) \<Longrightarrow> binding_within p original (b\<lparr>b_TargetKind := k\<rparr>)"
    "i \<in> set (bp_AllowedTargetIDs p) \<Longrightarrow> binding_within p original (b\<lparr>b_TargetID := i\<rparr>)" "sv \<in> set (bp_AllowedSeverities p) \<Longrightarrow> binding_within p original (b\<lparr>b_Severity := sv\<rparr>)"
  using assms by (simp_all add: binding_within_def same_rule_def params_within_def) blast

lemma override_steps:
  "override_enabled p original e b = Inr b' \<Longrightarrow> b' = b \<or> (\<exists>on. b' = b\<lparr>b_Enabled := on\<rparr> \<and> (on \<or> bp_MayDisable p))"
  "override_kind p original k b = Inr b' \<Longrightarrow> b' = b \<or> b' = b\<lparr>b_TargetKind := k\<rparr> \<and> k \<in> set (bp_AllowedTargetKinds p)"
  "override_target p original i b = Inr b' \<Longrightarrow> b' = b \<or> b' = b\<lparr>b_TargetID := i\<rparr> \<and> i \<in> set (bp_AllowedTargetIDs p)"
  "override_severity p original sv b = Inr b' \<Longrightarrow> b' = b \<or> b' = b\<lparr>b_Severity := sv\<rparr> \<and> sv \<in> set (bp_AllowedSeverities p)"
  by (auto simp: override_enabled_def override_kind_def override_target_def override_severity_def split: option.splits if_splits)

lemma override_binding_within:
  assumes "override_binding p original ov = Inr b"
  shows "binding_within p original b" "mandatoryBinding original \<Longrightarrow> b = original"
proof -
  from assms obtain b1 b2 b3 b4 b5 where s: "override_enabled p original (bo_Enabled ov) original = Inr b1" "override_kind p original (bo_TargetKind ov) b1 = Inr b2"
      "override_target p original (bo_TargetID ov) b2 = Inr b3" "override_severity p original (bo_Severity ov) b3 = Inr b4"
      "remove_keys p original (bo_Parameters ov) [] (bo_RemoveParameterKeys ov) b4 = Inr b5" "edit_keys p original (pentries (bo_Parameters ov)) b5 = Inr b"
    and m: "\<not> (mandatoryBinding original \<and> b \<noteq> original)" by (auto simp: override_binding_def split: if_splits)
  have "binding_within p original b1" using override_steps(1) [OF s(1)] within_update(1) [OF binding_within_refl] by auto
  then have "binding_within p original b2" using override_steps(2) [OF s(2)] within_update(2) by auto
  then have "binding_within p original b3" using override_steps(3) [OF s(3)] within_update(3) by auto
  then have "binding_within p original b4" using override_steps(4) [OF s(4)] within_update(4) by auto
  then show "binding_within p original b" using remove_keys_within [OF s(5)] edit_keys_within [OF s(6)] by blast
  show "mandatoryBinding original \<Longrightarrow> b = original" using m by blast
qed

definition overridden :: "binding_policy list \<Rightarrow> rule_binding \<Rightarrow> rule_binding \<Rightarrow> bool" where
  "overridden policies b b' \<longleftrightarrow> b' = b \<or> \<not> mandatoryBinding b \<and> (\<exists>p \<in> set policies. bp_RuleID p = b_RuleID b \<and> binding_within p b b')"

lemma find_member: "find P xs = Some x \<Longrightarrow> x \<in> set xs \<and> P x"
  by (induction xs) (auto split: if_splits)

lemma overridden_id: "overridden policies b b' \<Longrightarrow> b_RuleID b' = b_RuleID b"
  by (auto simp: overridden_def binding_within_def same_rule_def)

lemma apply_overrides_within:
  assumes "apply_overrides policies seen ovs rs = Inr rs'" "distinct (map b_RuleID (s_Bindings rs))"
  shows "list_all2 (\<lambda>b b'. overridden policies b b' \<and> (b_RuleID b \<in> set seen \<longrightarrow> b' = b)) (s_Bindings rs) (s_Bindings rs')"
  using assms
proof (induction ovs arbitrary: seen rs)
  case Nil
  then show ?case by (simp add: list_all2_refl overridden_def)
next
  case (Cons ov ovs)
  let ?upd = "\<lambda>new x. if b_RuleID x = bo_RuleID ov then new else x"
  from Cons.prems(1) obtain original p new where o: "bindingOf rs (bo_RuleID ov) = Some original" and p: "find (\<lambda>p. bp_RuleID p = bo_RuleID ov) policies = Some p"
    and ns: "bo_RuleID ov \<notin> set seen" and new: "override_binding p original ov = Inr new"
    and r: "apply_overrides policies (bo_RuleID ov # seen) ovs (rs\<lparr>s_Bindings := map (?upd new) (s_Bindings rs)\<rparr>) = Inr rs'"
    by (auto split: option.splits if_splits)
  have orig: "original \<in> set (s_Bindings rs)" "b_RuleID original = bo_RuleID ov" using find_member [OF o [unfolded bindingOf_def]] by auto
  have pol: "p \<in> set policies" "bp_RuleID p = bo_RuleID ov" using p by (auto simp: find_Some_iff)
  have id: "b_RuleID new = bo_RuleID ov" using override_binding_within(1) [OF new] orig(2) by (simp add: binding_within_def same_rule_def)
  have "map b_RuleID (map (?upd new) (s_Bindings rs)) = map b_RuleID (s_Bindings rs)" using id by auto
  then have d: "distinct (map b_RuleID (s_Bindings (rs\<lparr>s_Bindings := map (?upd new) (s_Bindings rs)\<rparr>)))" using Cons.prems(2) by (simp del: map_map)
  note ih = Cons.IH [OF r d]
  have len: "length (s_Bindings rs') = length (s_Bindings rs)" using list_all2_lengthD [OF ih] by simp
  show ?case
  proof (rule list_all2_all_nthI)
    fix n assume n: "n < length (s_Bindings rs)"
    let ?b = "s_Bindings rs ! n" and ?c = "s_Bindings rs' ! n"
    have "overridden policies (?upd new ?b) ?c \<and> (b_RuleID (?upd new ?b) \<in> set (bo_RuleID ov # seen) \<longrightarrow> ?c = ?upd new ?b)"
      using list_all2_nthD [OF ih, of n] n by simp
    then have step: "overridden policies (?upd new ?b) ?c" "b_RuleID (?upd new ?b) \<in> set (bo_RuleID ov # seen) \<Longrightarrow> ?c = ?upd new ?b" by blast+
    show "overridden policies ?b ?c \<and> (b_RuleID ?b \<in> set seen \<longrightarrow> ?c = ?b)"
    proof (cases "b_RuleID ?b = bo_RuleID ov")
      case True
      have "?b \<in> set (s_Bindings rs)" using n by simp
      then have "?b = original" using Cons.prems(2) orig True inj_onD [of b_RuleID "set (s_Bindings rs)" ?b original] by (simp add: distinct_map)
      moreover have "?c = new" using step(2) True id by simp
      ultimately show ?thesis using override_binding_within [OF new] pol orig(2) ns by (auto simp: overridden_def)
    next
      case False
      then show ?thesis using step by auto
    qed
  qed (simp add: len)
qed

text \<open>
  C33. A project changes a rule set only within its policies.  When overrides are applied to a published rule set,
  the result is a published rule set of its own that verifies, with the same rules in the same order; every binding is
  unchanged, or it is not mandatory and a policy for it allows the change: its identity, definition, message, scenes,
  examples and owner are kept, it is switched off only if the policy says so, target and severity are kept or listed, and a
  parameter that differs is listed and within its bounds.  Under policies that were validated for the set, a severity
  is never raised.
\<close>

theorem overrides_within_policy:
  assumes "ApplyBindingOverrides te base effectiveID effectiveVersion policies overrides = Inr eff"
  shows "ValidateRuleSet te eff = Inr () \<and> s_State eff = ''published'' \<and> s_ID eff = effectiveID \<and> s_Version eff = effectiveVersion \<and>
    list_all2 (\<lambda>b b'. b_RuleID b' = b_RuleID b \<and>
      (b' = b \<or> \<not> mandatoryBinding b \<and> (\<exists>p \<in> set policies. bp_RuleID p = b_RuleID b \<and> binding_within p b b'))) (s_Bindings base) (s_Bindings eff) \<and>
    (\<forall>ce t. ValidateBindingPolicies ce t base policies = Inr () \<longrightarrow>
       list_all2 (\<lambda>b b'. severityRank (b_Severity b') \<le> severityRank (b_Severity b)) (s_Bindings base) (s_Bindings eff))"
proof -
  from assms obtain rs hash where base: "ValidateRuleSet te base = Inr ()" and ap: "apply_overrides policies [] overrides base = Inr rs"
    and hash: "HashRuleSet te (rs\<lparr>s_ID := effectiveID, s_Version := effectiveVersion, s_State := ''draft'', s_RulesetHash := []\<rparr>) = Inr hash"
    and eff: "eff = rs\<lparr>s_ID := effectiveID, s_Version := effectiveVersion, s_State := ''published'', s_RulesetHash := hash\<rparr>"
    by (auto simp: ApplyBindingOverrides_def Let_def split: if_splits)
  have d: "distinct (map b_RuleID (s_Bindings base))" using ValidateRuleSet_content [OF base] by (simp add: validateRuleSetContent_ok)
  have all: "list_all2 (overridden policies) (s_Bindings base) (s_Bindings eff)"
    using apply_overrides_within [OF ap d] by (simp add: eff list_all2_mono)
  have "ValidateRuleSet te (rs\<lparr>s_ID := effectiveID, s_Version := effectiveVersion, s_State := ''draft'', s_RulesetHash := []\<rparr>\<lparr>s_State := ''published'', s_RulesetHash := hash\<rparr>) = Inr ()"
    by (rule published_validates [OF hash]) simp
  then have v: "ValidateRuleSet te eff = Inr ()" by (simp add: eff)
  have lower: "list_all2 (\<lambda>b b'. severityRank (b_Severity b') \<le> severityRank (b_Severity b)) (s_Bindings base) (s_Bindings eff)"
    if "ValidateBindingPolicies ce t base policies = Inr ()" for ce t
  proof (rule list_all2_all_nthI)
    fix n assume n: "n < length (s_Bindings base)"
    let ?b = "s_Bindings base ! n" and ?c = "s_Bindings eff ! n"
    have o: "overridden policies ?b ?c" using list_all2_nthD [OF all n] .
    have own: "bindingOf base (b_RuleID ?b) = Some ?b" by (rule bindingOf_member [OF d]) (use n in simp)
    have "severityRank (b_Severity ?c) \<le> severityRank (b_Severity ?b)" if "p \<in> set policies" "bp_RuleID p = b_RuleID ?b" "binding_within p ?b ?c" for p
    proof -
      have "policy_fits t ?b p" using \<open>ValidateBindingPolicies ce t base policies = Inr ()\<close> that(1,2) own
        by (fastforce simp: ValidateBindingPolicies_def list_all_iff split: if_splits)
      then have "\<forall>sv \<in> set (bp_AllowedSeverities p). severityRank sv \<le> severityRank (b_Severity ?b)" by (simp add: policy_fits_def list_all_iff)
      then show ?thesis using that(3) by (auto simp: binding_within_def)
    qed
    then show "severityRank (b_Severity ?c) \<le> severityRank (b_Severity ?b)" using o by (auto simp: overridden_def)
  qed (use all in \<open>simp add: list_all2_lengthD\<close>)
  have "list_all2 (\<lambda>b b'. b_RuleID b' = b_RuleID b \<and>
      (b' = b \<or> \<not> mandatoryBinding b \<and> (\<exists>p \<in> set policies. bp_RuleID p = b_RuleID b \<and> binding_within p b b'))) (s_Bindings base) (s_Bindings eff)"
    by (rule list_all2_mono [OF all], rule conjI, erule overridden_id, unfold overridden_def, assumption)
  then show ?thesis using v lower by (simp add: eff)
qed

definition demo_policy_r1 :: binding_policy where
  "demo_policy_r1 = \<lparr>bp_RuleID = ''r1'', bp_MayDisable = False, bp_AllowedTargetKinds = [], bp_AllowedTargetIDs = [], bp_AllowedParameterKeys = [''minimum''],
     bp_ParameterBounds = [(''minimum'', (Some 1, Some 9))], bp_AllowedSeverities = []\<rparr>"

definition demo_binding_override :: binding_override where
  "demo_binding_override = \<lparr>bo_RemoveParameterKeys = [], bo_RuleID = ''r1'', bo_Enabled = None, bo_TargetKind = [], bo_TargetID = [],
     bo_Parameters = Some [(''minimum'', JInt 5)], bo_Severity = []\<rparr>"

lemma demo_overridden:
  "\<exists>eff. ApplyBindingOverrides demo_tenv demo_published ''p1'' ''1'' [demo_policy_r1] [demo_binding_override] = Inr eff \<and>
     s_Bindings eff = [demo_binding ''r2'', (demo_binding ''r1'')\<lparr>b_Parameters := Some [(''minimum'', JInt 5)]\<rparr>]"
proof -
  let ?new = "(demo_binding ''r1'')\<lparr>b_Parameters := Some [(''minimum'', JInt 5)]\<rparr>"
  let ?eff = "demo_published\<lparr>s_Bindings := [demo_binding ''r2'', ?new], s_ID := ''p1'', s_Version := ''1'', s_State := ''draft'', s_RulesetHash := []\<rparr>"
  have ap: "apply_overrides [demo_policy_r1] [] [demo_binding_override] demo_published = Inr (demo_published\<lparr>s_Bindings := [demo_binding ''r2'', ?new]\<rparr>)"
    by (simp add: demo_binding_override_def demo_policy_r1_def bindingOf_def demo_published_def demo_set_def demo_binding_def override_binding_def override_enabled_def override_kind_def
      override_target_def override_severity_def pentries_def old_value_def plookup_def in_bounds_def pset_def mandatoryBinding_def)
  have new: "okR (validateRuleBinding demo_tenv ?new)" using demo_binding_valid [of "''r1''" 5] by (simp add: demo_binding_def)
  have content: "validateRuleSetContent demo_tenv ?eff = Inr ()"
    using demo_bindings_valid(2) new by (simp add: validateRuleSetContent_ok stableID_def id_head_def id_tail_def ncode_def demo_binding_def)
  have v: "ValidateRuleSet demo_tenv ?eff = Inr ()" using content by (simp add: ValidateRuleSet_draft)
  have ids: "stableID ''p1''" "stableID ''1''" "s_State demo_published = ''published''" "s_ID demo_published = ''rs1''"
    by (simp_all add: stableID_def id_head_def id_tail_def ncode_def demo_published_def demo_set_def)
  have "\<exists>h. HashRuleSet demo_tenv ?eff = Inr h" using content by (simp add: HashRuleSet_def demo_tenv_def)
  then obtain h where "HashRuleSet demo_tenv ?eff = Inr h" by blast
  then show ?thesis using v by (simp del: apply_overrides.simps add: ApplyBindingOverrides_def demo_published_valid ids ap Let_def)
qed

theorem overrides_within_policy_witness:
  "\<exists>eff. ApplyBindingOverrides demo_tenv demo_published ''p1'' ''1'' [demo_policy_r1] [demo_binding_override] = Inr eff \<and>
     ValidateRuleSet demo_tenv eff = Inr () \<and> s_ID eff = ''p1'' \<and> plookup (b_Parameters (s_Bindings eff ! 1)) ''minimum'' = Some (JInt 5)"
proof -
  obtain eff where e: "ApplyBindingOverrides demo_tenv demo_published ''p1'' ''1'' [demo_policy_r1] [demo_binding_override] = Inr eff"
    "s_Bindings eff = [demo_binding ''r2'', (demo_binding ''r1'')\<lparr>b_Parameters := Some [(''minimum'', JInt 5)]\<rparr>]" using demo_overridden by (elim exE conjE)
  from overrides_within_policy [OF e(1)] e show ?thesis by (intro exI [of _ eff]) (simp add: plookup_def)
qed

end
