(* ===== verification/Governance_Model.thy ===== *)
theory Governance_Model
  imports Rule_Store Binding_Policy
begin

text \<open>
  The data of \<^verbatim>\<open>templategovernance\<close>: \<^verbatim>\<open>model.go\<close>, the inputs of \<^verbatim>\<open>rule_catalog.go\<close>, and the types of \<^verbatim>\<open>replay.go\<close> and
  \<^verbatim>\<open>fixtures.go\<close>.  A field that holds JSON of a known type holds the decoded value.
\<close>

section \<open>Profiles, versions and requests\<close>

record profile =
  pf_TenantID :: nat
  pf_ID :: string
  pf_Name :: string
  pf_Revision :: int
  pf_CreatedBy :: string
  pf_CreatedAt :: int

record source_ref =
  so_ID :: string
  so_Version :: string
  so_Locator :: string

record recall_record =
  rl_Reason :: string
  rl_MigrationAdvice :: string
  rl_AffectedProjectIDs :: "string list"
  rl_ActorID :: string
  rl_RecordedAt :: int

record template_version =
  tv_BindingPolicies :: "binding_policy list"
  tv_PolicyHash :: string
  tv_TemplateID :: string
  tv_Version :: string
  tv_Revision :: int
  tv_State :: string
  tv_Definition :: template
  tv_RuleSet :: rule_set_ref
  tv_RuleSetSnapshot :: rule_set
  tv_SourceType :: string
  tv_Scope :: string
  tv_Sources :: "source_ref list"
  tv_Curator :: string
  tv_ContentHash :: string
  tv_RulesetHash :: string
  tv_PublishedAt :: "int option"
  tv_Recall :: "recall_record option"
  tv_CreatedBy :: string
  tv_CreatedAt :: int
  tv_UpdatedAt :: int

record profile_input =
  pi_ID :: string
  pi_Name :: string
  pi_Reason :: string

record draft_input =
  di_BindingPolicies :: "binding_policy list"
  di_TemplateID :: string
  di_Version :: string
  di_ExpectedRevision :: int
  di_Definition :: template
  di_RuleSet :: rule_set_ref
  di_SourceType :: string
  di_Scope :: string
  di_Sources :: "source_ref list"
  di_Curator :: string
  di_Reason :: string

record publish_input =
  pu_TemplateID :: string
  pu_Version :: string
  pu_ExpectedRevision :: int
  pu_ReplayFixtureIDs :: "string list"
  pu_Reason :: string

record governance_input =
  gi_TemplateID :: string
  gi_Version :: string
  gi_ExpectedRevision :: int
  gi_Reason :: string

record rule_draft_input =
  rd_Draft :: rule_set
  rd_Reason :: string

record rule_governance_input =
  rg_ExpectedState :: string
  rg_ExpectedRuleSetHash :: string
  rg_Reason :: string
  rg_ReplayFixtureIDs :: "string list"
  rg_TemplateID :: string
  rg_TemplateVersion :: string

section \<open>Fixtures and coverage\<close>

record replay_fixture =
  fx_ID :: string
  fx_RuleSet :: rule_set_ref
  fx_RuleID :: string
  fx_Scene :: string
  fx_Polarity :: string
  fx_TargetRef :: string
  fx_Input :: eval_input
  fx_ExpectedStatus :: eval_status

record coverage_entry =
  ce_RuleID :: string
  ce_Scene :: string
  ce_PositiveCovered :: bool
  ce_NegativeCovered :: bool
  ce_DeclaredPositive :: "string list"
  ce_DeclaredNegative :: "string list"
  ce_UnsatisfiedDeclared :: "string list"

record coverage_report =
  cr_Complete :: bool
  cr_Entries :: "coverage_entry list"
  cr_Unsatisfied :: "string list"

record fixture_input =
  fi_FixtureID :: string
  fi_RuleID :: string
  fi_Scene :: string
  fi_Polarity :: string
  fi_TargetRef :: string
  fi_Input :: eval_input
  fi_ExpectedStatus :: eval_status
  fi_ReviewReference :: string

record register_input =
  ri_TemplateID :: string
  ri_Version :: string
  ri_Fixtures :: "fixture_input list"
  ri_Reason :: string

record register_set_input =
  rx_RuleSetID :: string
  rx_RuleSetVersion :: string
  rx_TemplateID :: string
  rx_TemplateVersion :: string
  rx_Fixtures :: "fixture_input list"
  rx_Reason :: string

record replay_base_ref =
  pb_TemplateID :: string
  pb_Version :: string

record ruleset_projection =
  pj_RuleSet :: rule_set_ref
  pj_ReplayBase :: replay_base_ref

record fixture_summary =
  fs_FixtureID :: string
  fs_RuleID :: string
  fs_Scene :: string
  fs_Polarity :: string
  fs_TargetRef :: string
  fs_RuleSet :: rule_set_ref

record fixtures_receipt =
  fr_TemplateID :: string
  fr_Version :: string
  fr_ContentHash :: string
  fr_PolicyHash :: string
  fr_Projection :: "ruleset_projection option"
  fr_Registered :: "fixture_summary list"
  fr_Coverage :: coverage_report

section \<open>Suggestions of rules\<close>

record version_basis =
  vb_ProjectVersion :: int
  vb_SpecRevision :: int
  vb_ContextRevision :: int
  vb_TemplateCopyVersion :: int
  vb_TemplateID :: string
  vb_TemplateVersion :: string
  vb_RuleSet :: rule_set_ref
  vb_CurrentSnapshotID :: string

record suggestion_scope =
  sp_ProjectID :: string
  sp_Basis :: version_basis
  sp_TemplateID :: string
  sp_TemplateVersion :: string
  sp_CatalogRevision :: int
  sp_RuleSet :: rule_set_ref
  sp_TargetKind :: string
  sp_TargetID :: string
  sp_Sources :: "source_ref list"

record authorized_source =
  as_Ref :: source_ref
  as_AssetID :: string
  as_QuotedTextHash :: string
  as_QuotedText :: string
  as_ModelUseAllowed :: bool

record authorized_context =
  ac_ProjectID :: string
  ac_Basis :: version_basis
  ac_Sources :: "authorized_source list"
  ac_AuthorizationState :: string

record proposed_rule =
  pr_RuleID :: string
  pr_DefinitionID :: string
  pr_DefinitionVersion :: string
  pr_TargetKind :: string
  pr_TargetID :: string
  pr_Parameters :: params
  pr_Message :: string
  pr_Rationale :: string
  pr_EvidenceSourceIDs :: "string list"

record suggestion_payload =
  sl_Proposals :: "proposed_rule list"
  sl_Explanation :: string

record suggestion_request =
  sq_Scope :: suggestion_scope
  sq_Template :: template
  sq_RuleSet :: rule_set
  sq_Context :: authorized_context
  sq_PromptVersion :: string
  sq_CorrelationID :: string

record suggestion_output =
  mo_StructuredOutput :: string
  mo_ModelID :: string
  mo_RunMode :: string
  mo_InputTokens :: int
  mo_OutputTokens :: int
  mo_ToolNames :: "string list"

record suggestion_run =
  sr_ID :: string
  sr_ProjectID :: string
  sr_ActorID :: string
  sr_Revision :: int
  sr_Status :: string
  sr_Scope :: suggestion_scope
  sr_Output :: "suggestion_payload option"
  sr_ModelID :: string
  sr_RunMode :: string
  sr_PromptVersion :: string
  sr_ToolNames :: "string list"
  sr_InputTokens :: int
  sr_OutputTokens :: int
  sr_DurationMS :: int
  sr_ErrorCode :: string
  sr_ErrorMessage :: string
  sr_DecisionReason :: string
  sr_DraftRuleSet :: "rule_set_ref option"
  sr_CreatedAt :: int
  sr_UpdatedAt :: int

record accept_input =
  ai_ExpectedRevision :: int
  ai_RuleSetID :: string
  ai_Version :: string
  ai_Bindings :: "rule_binding list"
  ai_Reason :: string

record reject_input =
  ji_ExpectedRevision :: int
  ji_Reason :: string

section \<open>What an operation record remembers\<close>

datatype gov_request = QProfile profile_input | QDraft draft_input | QPublish publish_input | QGovernance governance_input string
  | QRuleDraft rule_draft_input | QRuleGovernance rule_governance_input | QRegister register_input | QRegisterSet register_set_input
  | QSuggest suggestion_scope | QAccept accept_input | QReject reject_input

datatype gov_result = RProfile profile | RVersion template_version | RRuleSet rule_set | RReceipt fixtures_receipt | RRun suggestion_run

end
