(* ===== verification/Catalog.thy ===== *)
theory Catalog
  imports Governance_Model
begin

text \<open>
  The catalogue of templates: \<^verbatim>\<open>templategovernance/catalog.go\<close>, \<^verbatim>\<open>storage.go\<close> and the rows of \<^verbatim>\<open>schema.go\<close>.

  The tables of the catalogue extend those of the rule set store, whose operations the catalogue calls inside its own
  transactions.  The ports (authorizer, source verifier, replay, usage reader) are optional functions of the
  environment, \<^verbatim>\<open>None\<close> being the nil interface; so are \<^verbatim>\<open>json.Marshal\<close> of a request and of the columns of a version.
  \<^verbatim>\<open>template.Clone\<close> is the identity on values.  A handler that opens several transactions gets one attempt for each.
\<close>

section \<open>Tables\<close>

record version_row =
  vr_TenantID :: nat
  vr_TemplateID :: string
  vr_Version :: string
  vr_BindingPolicies :: "binding_policy list"
  vr_PolicyHash :: string
  vr_Revision :: int
  vr_State :: string
  vr_Definition :: template
  vr_Ruleset :: rule_set
  vr_SourceType :: string
  vr_Scope :: string
  vr_SourceRefs :: "source_ref list"
  vr_Curator :: string
  vr_ContentHash :: string
  vr_RulesetHash :: string
  vr_PublishedAt :: "int option"
  vr_Recall :: "recall_record option"
  vr_CreatedBy :: string
  vr_CreatedAt :: int
  vr_UpdatedAt :: int

record gov_op_row =
  go_TenantID :: nat
  go_ActorID :: string
  go_Operation :: string
  go_Target :: string
  go_Key :: string
  go_RequestHash :: string
  go_Result :: gov_result
  go_Basis :: string
  go_CreatedAt :: int

record 'q catalog =
  cg_profiles :: "profile list"
  cg_versions :: "version_row list"
  cg_ops :: "gov_op_row list"
  cg_rest :: 'q

type_synonym 'q gov_store = "'q catalog gov_tables"

record 'q gov_env =
  ge_rule :: "'q catalog rule_env"
  ge_copy :: copy_env
  ge_AuthorizeTemplate :: "('q gov_store \<Rightarrow> gov_actor \<Rightarrow> string \<Rightarrow> string \<Rightarrow> goerr option) option"
  ge_CanManage :: "'q gov_store \<Rightarrow> gov_actor \<Rightarrow> goerr + bool"
  ge_VerifySources :: "(gov_actor \<Rightarrow> source_ref list \<Rightarrow> goerr option) option"
  ge_VerifySourcesTx :: "('q gov_store \<Rightarrow> gov_actor \<Rightarrow> source_ref list \<Rightarrow> goerr option) option"
  ge_Replay :: "(gov_actor \<Rightarrow> template_version \<Rightarrow> string list \<Rightarrow> goerr + unit) option"
  ge_AffectedProjects :: "('q gov_store \<Rightarrow> gov_actor \<Rightarrow> string \<Rightarrow> string \<Rightarrow> goerr + string list) option"
  ge_marshalRequest :: "gov_request \<Rightarrow> goerr + string"
  ge_encodeVersion :: "template_version \<Rightarrow> goerr + string"
  ge_marshalSet :: "rule_set \<Rightarrow> goerr + string"
  ge_marshalReceipt :: "fixtures_receipt \<Rightarrow> goerr + string"
  ge_marshalRun :: "suggestion_run \<Rightarrow> goerr + string"

abbreviation ge_now :: "'q gov_env \<Rightarrow> int" where
  "ge_now env \<equiv> re_now (ge_rule env)"

abbreviation ge_tpl :: "'q gov_env \<Rightarrow> tpl_env" where
  "ge_tpl env \<equiv> re_tpl (ge_rule env)"

definition on_catalog :: "('q catalog \<Rightarrow> 'q catalog) \<Rightarrow> 'q gov_store \<Rightarrow> 'q gov_store" where
  "on_catalog f st = st\<lparr>rt_rest := f (rt_rest st)\<rparr>"

section \<open>Checks\<close>

definition ready :: "'q gov_env \<Rightarrow> gov_actor \<Rightarrow> goerr + unit" where
  "ready env a =
     (if ga_TenantID a = 0 \<or> blank (ga_UserID a) \<or> blank (ga_Role a) \<or> ge_AuthorizeTemplate env = None then Inl (Sentinel GovErrUnauthorized) else Inr ())"

definition validKey :: "string \<Rightarrow> bool" where
  "validKey key \<longleftrightarrow> 8 \<le> length key \<and> length key \<le> 128 \<and> trim_space key = key"

definition validReason :: "string \<Rightarrow> bool" where
  "validReason reason \<longleftrightarrow> \<not> blank reason \<and> length reason \<le> 4000"

definition authorizeTemplate :: "'q gov_env \<Rightarrow> 'q gov_store \<Rightarrow> gov_actor \<Rightarrow> string \<Rightarrow> string \<Rightarrow> goerr + unit" where
  "authorizeTemplate env st a action i =
     (case ge_AuthorizeTemplate env of
        None \<Rightarrow> Inl (Sentinel GovErrUnauthorized)
      | Some f \<Rightarrow> (case f st a action i of Some e \<Rightarrow> Inl e | None \<Rightarrow> Inr ()))"

definition hash_rules :: "tpl_env \<Rightarrow> rule list \<Rightarrow> string" where
  "hash_rules te rules = (case te_marshalRules te rules of Inl _ \<Rightarrow> [] | Inr raw \<Rightarrow> sha256_hex raw)"

definition hash_json :: "('v \<Rightarrow> goerr + string) \<Rightarrow> 'v \<Rightarrow> string" where
  "hash_json marshal x = (case marshal x of Inl _ \<Rightarrow> [] | Inr raw \<Rightarrow> sha256_hex raw)"

definition ValidateVersion :: "'q gov_env \<Rightarrow> template_version \<Rightarrow> goerr + unit" where
  "ValidateVersion env v =
     (let te = ge_tpl env; snap = tv_RuleSetSnapshot v; d = tv_Definition v; invalid = Sentinel GovErrInvalidState in
      bindR (ValidateBindingPolicies (ge_copy env) d snap (tv_BindingPolicies v)) (\<lambda>_.
      if HashBindingPolicies (ge_copy env) (tv_BindingPolicies v) \<noteq> Inr (tv_PolicyHash v) then Inl invalid
      else bindR (ValidateRuleSet te snap) (\<lambda>_.
      if s_State snap = ''draft'' then Inl invalid
      else if tv_RuleSet v \<noteq> \<lparr>ref_ID = s_ID snap, ref_Version = s_Version snap, ref_Hash = s_RulesetHash snap\<rparr> \<or> tv_RulesetHash v \<noteq> s_RulesetHash snap then Inl invalid
      else bindR (CompileRuleSet te snap) (\<lambda>compiled.
      if hash_rules te compiled \<noteq> hash_rules te (t_Rules d) then Inl invalid
      else bindR (Hashes te d) (\<lambda>(content, rules).
      if content \<noteq> tv_ContentHash v \<or> content \<noteq> t_ContentHash d \<or> rules \<noteq> t_RulesetHash d \<or> t_ID d \<noteq> tv_TemplateID v \<or> t_Version d \<noteq> tv_Version v then Inl invalid
      else if tv_State v \<notin> {''draft'', ''published'', ''withdrawn'', ''recalled''} then Inl invalid
      else Inr ())))))"

section \<open>Rows\<close>

definition version_key :: "version_row \<Rightarrow> nat \<times> string \<times> string" where
  "version_key r = (vr_TenantID r, vr_TemplateID r, vr_Version r)"

definition profile_key :: "profile \<Rightarrow> nat \<times> string" where
  "profile_key p = (pf_TenantID p, pf_ID p)"

definition op_key :: "gov_op_row \<Rightarrow> nat \<times> string \<times> string \<times> string \<times> string" where
  "op_key r = (go_TenantID r, go_ActorID r, go_Operation r, go_Target r, go_Key r)"

definition row_version :: "version_row \<Rightarrow> template_version" where
  "row_version r = \<lparr>tv_BindingPolicies = vr_BindingPolicies r, tv_PolicyHash = vr_PolicyHash r, tv_TemplateID = vr_TemplateID r, tv_Version = vr_Version r,
     tv_Revision = vr_Revision r, tv_State = vr_State r, tv_Definition = vr_Definition r,
     tv_RuleSet = \<lparr>ref_ID = s_ID (vr_Ruleset r), ref_Version = s_Version (vr_Ruleset r), ref_Hash = s_RulesetHash (vr_Ruleset r)\<rparr>,
     tv_RuleSetSnapshot = vr_Ruleset r, tv_SourceType = vr_SourceType r, tv_Scope = vr_Scope r, tv_Sources = vr_SourceRefs r, tv_Curator = vr_Curator r,
     tv_ContentHash = vr_ContentHash r, tv_RulesetHash = vr_RulesetHash r, tv_PublishedAt = vr_PublishedAt r, tv_Recall = vr_Recall r,
     tv_CreatedBy = vr_CreatedBy r, tv_CreatedAt = vr_CreatedAt r, tv_UpdatedAt = vr_UpdatedAt r\<rparr>"

definition decodeVersion :: "'q gov_env \<Rightarrow> version_row \<Rightarrow> goerr + template_version" where
  "decodeVersion env r = bindR (ValidateVersion env (row_version r)) (\<lambda>_. Inr (row_version r))"

definition encodeVersion :: "'q gov_env \<Rightarrow> gov_actor \<Rightarrow> template_version \<Rightarrow> goerr + version_row" where
  "encodeVersion env a v =
     bindR (ge_encodeVersion env v) (\<lambda>_.
       Inr \<lparr>vr_TenantID = ga_TenantID a, vr_TemplateID = tv_TemplateID v, vr_Version = tv_Version v, vr_BindingPolicies = tv_BindingPolicies v,
         vr_PolicyHash = tv_PolicyHash v, vr_Revision = tv_Revision v, vr_State = tv_State v, vr_Definition = tv_Definition v, vr_Ruleset = tv_RuleSetSnapshot v,
         vr_SourceType = tv_SourceType v, vr_Scope = tv_Scope v, vr_SourceRefs = tv_Sources v, vr_Curator = tv_Curator v, vr_ContentHash = tv_ContentHash v,
         vr_RulesetHash = tv_RulesetHash v, vr_PublishedAt = tv_PublishedAt v, vr_Recall = tv_Recall v, vr_CreatedBy = tv_CreatedBy v, vr_CreatedAt = tv_CreatedAt v,
         vr_UpdatedAt = tv_UpdatedAt v\<rparr>)"

definition loadProfile :: "'q gov_store \<Rightarrow> gov_actor \<Rightarrow> string \<Rightarrow> goerr + profile" where
  "loadProfile st a i =
     (case find (\<lambda>p. pf_TenantID p = ga_TenantID a \<and> pf_ID p = i) (cg_profiles (rt_rest st)) of None \<Rightarrow> Inl (Sentinel GovErrNotFound) | Some p \<Rightarrow> Inr p)"

definition loadVersion :: "'q gov_env \<Rightarrow> 'q gov_store \<Rightarrow> gov_actor \<Rightarrow> string \<Rightarrow> string \<Rightarrow> goerr + template_version" where
  "loadVersion env st a i version =
     (case find (\<lambda>r. vr_TenantID r = ga_TenantID a \<and> vr_TemplateID r = i \<and> vr_Version r = version) (cg_versions (rt_rest st)) of
        None \<Rightarrow> Inl (Sentinel GovErrNotFound) | Some r \<Rightarrow> decodeVersion env r)"

text \<open>The no-op update reserves the writer on SQLite; the row it reports is the row that is read.\<close>

definition loadVersionForMutation :: "'q gov_env \<Rightarrow> 'q gov_store \<Rightarrow> gov_actor \<Rightarrow> string \<Rightarrow> string \<Rightarrow> goerr + template_version" where
  "loadVersionForMutation env st a i version =
     (if fst (update_rows (\<lambda>r. vr_TenantID r = ga_TenantID a \<and> vr_TemplateID r = i \<and> vr_Version r = version) (\<lambda>r. r\<lparr>vr_State := vr_State r\<rparr>) (cg_versions (rt_rest st))) = 0
      then Inl (Sentinel GovErrNotFound)
      else loadVersion env st a i version)"

definition all_columns :: "version_row \<Rightarrow> version_row \<Rightarrow> version_row" where
  "all_columns n r = n\<lparr>vr_TenantID := vr_TenantID r, vr_TemplateID := vr_TemplateID r, vr_Version := vr_Version r, vr_CreatedBy := vr_CreatedBy r, vr_CreatedAt := vr_CreatedAt r\<rparr>"

definition state_columns :: "version_row \<Rightarrow> version_row \<Rightarrow> version_row" where
  "state_columns n r = r\<lparr>vr_Revision := vr_Revision n, vr_State := vr_State n, vr_Recall := vr_Recall n, vr_UpdatedAt := vr_UpdatedAt n\<rparr>"

definition same_content :: "template_version \<Rightarrow> template_version \<Rightarrow> bool" where
  "same_content v w \<longleftrightarrow> tv_PolicyHash v = tv_PolicyHash w \<and> tv_BindingPolicies v = tv_BindingPolicies w \<and> tv_Definition v = tv_Definition w \<and>
     tv_RuleSetSnapshot v = tv_RuleSetSnapshot w \<and> tv_ContentHash v = tv_ContentHash w \<and> tv_RulesetHash v = tv_RulesetHash w \<and> tv_SourceType v = tv_SourceType w \<and>
     tv_Scope v = tv_Scope w \<and> tv_Curator v = tv_Curator w \<and> tv_Sources v = tv_Sources w"

definition saveVersion :: "'q gov_env \<Rightarrow> gov_actor \<Rightarrow> template_version \<Rightarrow> template_version \<Rightarrow> 'q gov_store \<Rightarrow> goerr + 'q gov_store" where
  "saveVersion env a previous nxt st =
     bindR (encodeVersion env a nxt) (\<lambda>row.
       if tv_Revision previous = 0 then
         (if version_key row \<in> version_key ` set (cg_versions (rt_rest st)) then Inl (Sentinel GovErrVersionConflict)
          else Inr (on_catalog (\<lambda>c. c\<lparr>cg_versions := cg_versions c @ [row]\<rparr>) st))
       else if tv_State previous \<noteq> ''draft'' \<and> \<not> same_content previous nxt then Inl (Sentinel GovErrInvalidState)
       else let outcome = update_rows (\<lambda>r. vr_TenantID r = ga_TenantID a \<and> vr_TemplateID r = tv_TemplateID previous \<and> vr_Version r = tv_Version previous \<and>
                                          vr_Revision r = tv_Revision previous \<and> vr_State r = tv_State previous)
                           (if tv_State previous \<noteq> ''draft'' then state_columns row else all_columns row) (cg_versions (rt_rest st)) in
         if fst outcome \<noteq> 1 then Inl (Sentinel GovErrVersionConflict)
         else Inr (on_catalog (\<lambda>c. c\<lparr>cg_versions := snd outcome\<rparr>) st))"

section \<open>Operations and receipts\<close>

definition find_op :: "gov_actor \<Rightarrow> string \<Rightarrow> string \<Rightarrow> string \<Rightarrow> 'q gov_store \<Rightarrow> gov_op_row option" where
  "find_op a operation target key st =
     find (\<lambda>r. op_key r = (ga_TenantID a, ga_UserID a, operation, target, key)) (cg_ops (rt_rest st))"

definition operationGet :: "'q gov_env \<Rightarrow> gov_actor \<Rightarrow> string \<Rightarrow> string \<Rightarrow> string \<Rightarrow> gov_request \<Rightarrow> 'q gov_store \<Rightarrow> goerr + gov_result option" where
  "operationGet env a operation target key request st =
     (case find_op a operation target key st of
        None \<Rightarrow> Inr None
      | Some row \<Rightarrow>
          (case ge_marshalRequest env request of
             Inl _ \<Rightarrow> Inl (Sentinel GovErrInvalidRequest)
           | Inr raw \<Rightarrow> if sha256_hex raw \<noteq> go_RequestHash row then Inl (Sentinel GovErrIdempotencyConflict) else Inr (Some (go_Result row))))"

text \<open>A profile is stored without its tenant (\<^verbatim>\<open>json:"-"\<close>), so a replayed one has tenant 0.\<close>

definition stored_result :: "gov_result \<Rightarrow> gov_result" where
  "stored_result r = (case r of RProfile p \<Rightarrow> RProfile (p\<lparr>pf_TenantID := 0\<rparr>) | _ \<Rightarrow> r)"

definition encodable :: "'q gov_env \<Rightarrow> gov_result \<Rightarrow> goerr + unit" where
  "encodable env r = (case r of RProfile p \<Rightarrow> Inr () | RVersion v \<Rightarrow> bindR (ge_encodeVersion env v) (\<lambda>_. Inr ())
     | RRuleSet rs \<Rightarrow> bindR (ge_marshalSet env rs) (\<lambda>_. Inr ()) | RReceipt r \<Rightarrow> bindR (ge_marshalReceipt env r) (\<lambda>_. Inr ())
     | RRun r \<Rightarrow> bindR (ge_marshalRun env r) (\<lambda>_. Inr ()))"

definition operationSave :: "'q gov_env \<Rightarrow> gov_actor \<Rightarrow> string \<Rightarrow> string \<Rightarrow> string \<Rightarrow> gov_request \<Rightarrow> gov_result \<Rightarrow> string \<Rightarrow> 'q gov_store \<Rightarrow> goerr + 'q gov_store" where
  "operationSave env a operation target key request res basis st =
     bindR (ge_marshalRequest env request) (\<lambda>raw.
     bindR (encodable env res) (\<lambda>_.
       let row = \<lparr>go_TenantID = ga_TenantID a, go_ActorID = ga_UserID a, go_Operation = operation, go_Target = target, go_Key = key, go_RequestHash = sha256_hex raw,
                  go_Result = stored_result res, go_Basis = basis, go_CreatedAt = ge_now env\<rparr> in
       if op_key row \<in> op_key ` set (cg_ops (rt_rest st)) then Inl (Sentinel GovErrIdempotencyConflict)
       else Inr (on_catalog (\<lambda>c. c\<lparr>cg_ops := cg_ops c @ [row]\<rparr>) st)))"

definition recordAuditOutcome :: "'q gov_env \<Rightarrow> gov_actor \<Rightarrow> string \<Rightarrow> string \<Rightarrow> string \<Rightarrow> string \<Rightarrow> (string \<times> string) list \<Rightarrow> 'q gov_store \<Rightarrow> goerr + 'q gov_store" where
  "recordAuditOutcome env a action target reason outcome details st =
     (if \<not> role_IsValid (ga_Role a) then Inl (Sentinel GovErrUnauthorized)
      else Inr (st\<lparr>rt_audits := rt_audits st @ [\<lparr>al_TenantID = ga_TenantID a, al_ActorUserID = ga_UserID a, al_ActorRole = ga_Role a,
        al_Action = ''lingdoc.template.'' @ action, al_TargetType = ''template_governance'', al_TargetID = (if length target > 64 then sha256_hex target else target),
        al_Outcome = outcome, al_Details = [(''reason'', reason), (''target_ref'', target)] @ details, al_ScopeType = ''lingdoc_template'',
        al_ScopeID = (if length target > 64 then sha256_hex target else target), al_CreatedAt = ge_now env\<rparr>]\<rparr>))"

definition gov_recordAudit :: "'q gov_env \<Rightarrow> gov_actor \<Rightarrow> string \<Rightarrow> string \<Rightarrow> string \<Rightarrow> (string \<times> string) list \<Rightarrow> 'q gov_store \<Rightarrow> goerr + 'q gov_store" where
  "gov_recordAudit env a action target reason details st = recordAuditOutcome env a action target reason ''success'' details st"

text \<open>What a successful call records: the JSON text of its result, for a publication with the fixtures it was replayed on.\<close>

definition version_text :: "'q gov_env \<Rightarrow> template_version \<Rightarrow> string" where
  "version_text env v = (case ge_encodeVersion env v of Inr raw \<Rightarrow> raw | Inl _ \<Rightarrow> [])"

definition set_text :: "'q gov_env \<Rightarrow> rule_set \<Rightarrow> string" where
  "set_text env rs = (case ge_marshalSet env rs of Inr raw \<Rightarrow> raw | Inl _ \<Rightarrow> [])"

definition profile_details :: "profile \<Rightarrow> (string \<times> string) list" where
  "profile_details p = [(''template_id'', pf_ID p), (''name'', pf_Name p), (''revision'', show_int (pf_Revision p)), (''created_by'', pf_CreatedBy p), (''created_at'', show_int (pf_CreatedAt p))]"

definition version_details :: "'q gov_env \<Rightarrow> template_version \<Rightarrow> (string \<times> string) list" where
  "version_details env v = [(''details'', version_text env v)]"

definition publish_details :: "'q gov_env \<Rightarrow> string list \<Rightarrow> template_version \<Rightarrow> (string \<times> string) list" where
  "publish_details env ids v = (''version'', version_text env v) # List.map (Pair ''replay_fixture_ids'') ids"

definition catalogFailureCode :: "goerr \<Rightarrow> string" where
  "catalogFailureCode e =
     (if err_is e GovErrPermissionDenied then ''permission_denied''
      else if err_is e GovErrInvalidRequest then ''invalid_request''
      else if err_is e GovErrVersionConflict then ''version_conflict''
      else if err_is e GovErrIdempotencyConflict then ''idempotency_conflict''
      else if err_is e GovErrInvalidState then ''invalid_state''
      else if err_is e GovErrReplayRequired then ''replay_required''
      else if err_is e GovErrSourceUnavailable then ''source_unavailable''
      else if err_is e GovErrNotFound then ''not_found''
      else if err_is e GovErrUnauthorized then ''unauthorized''
      else ''operation_failed'')"

text \<open>What a failure receipt says of the version: nothing of a draft to an actor who does not manage the catalogue.\<close>

definition receipt_metadata :: "'q gov_env \<Rightarrow> gov_actor \<Rightarrow> string \<Rightarrow> string \<Rightarrow> 'q gov_store \<Rightarrow> goerr + (string \<times> string) list" where
  "receipt_metadata env a i version st =
     bindR (authorizeTemplate env st a ''read'' i) (\<lambda>_.
     bindR (ge_CanManage env st a) (\<lambda>manages.
       case loadVersion env st a i version of
         Inl e \<Rightarrow> if err_is e GovErrNotFound then Inr [] else Inl e
       | Inr v \<Rightarrow> Inr (if manages \<or> tv_State v \<noteq> ''draft''
                      then [(''current_revision'', show_int (tv_Revision v)), (''content_hash'', tv_ContentHash v), (''ruleset_hash'', tv_RulesetHash v)] else [])))"

text \<open>The entries stay when the reading transaction fails only at its commit.\<close>

definition receipt_found :: "'q gov_env \<Rightarrow> 'q gov_store attempt \<Rightarrow> gov_actor \<Rightarrow> string \<Rightarrow> string \<Rightarrow> 'q gov_store \<Rightarrow> (string \<times> string) list" where
  "receipt_found env tx a i version st =
     (if at_begin tx \<noteq> None then [] else case receipt_metadata env a i version (at_before tx st) of Inl _ \<Rightarrow> [] | Inr m \<Rightarrow> m)"

definition auditCatalogFailureWithDetails :: "'q gov_env \<Rightarrow> (nat \<Rightarrow> 'q gov_store attempt) \<Rightarrow> gov_actor \<Rightarrow> string \<Rightarrow> string \<Rightarrow> string \<Rightarrow> string \<Rightarrow> goerr \<Rightarrow> (string \<times> string) list \<Rightarrow> 'q gov_store \<Rightarrow> 'q gov_store \<times> goerr option" where
  "auditCatalogFailureWithDetails env sched a action i version reason cause extra st =
     (if err_is cause GovErrUnverifiedActor then (st, None)
      else case ready env a of
        Inl e \<Rightarrow> (st, Some (Wrapped (''catalog failure receipt unavailable: '' @ err_msg e) e))
      | Inr _ \<Rightarrow>
          if \<not> stableID i \<or> version \<noteq> [] \<and> \<not> stableID version then (st, None)
          else
            (let (st1, metadata) = (if version = [] then (st, Inr []) else db_Transaction (sched 2) (unchanged (receipt_metadata env a i version)) st);
                 found = (if version = [] then [] else receipt_found env (sched 2) a i version st) @
                         (case metadata of Inr m \<Rightarrow> [] | Inl _ \<Rightarrow> [(''current_version_metadata_unavailable'', ''true'')]);
                 base = [(''error_code'', catalogFailureCode cause), (''template_id'', i), (''version'', version)];
                 details = filter (\<lambda>(k, _). k \<notin> fst ` set extra) base @ extra @ found;
                 said = (if validReason reason then reason else ''rejected request without valid governance reason'');
                 target = (if version = [] then i else i @ ''/'' @ version)
             in case db_Transaction (sched 3) (\<lambda>t. bindR (recordAuditOutcome env a action target said ''failure'' details t) (\<lambda>t'. Inr ((), t'))) st1 of
                  (st2, Inl e) \<Rightarrow> (st2, Some (Wrapped (''persist catalog failure receipt: '' @ err_msg e) e))
                | (st2, Inr _) \<Rightarrow> (st2, None)))"

text \<open>The deferred receipt of a mutating handler.\<close>

definition with_receipt :: "'q gov_env \<Rightarrow> (nat \<Rightarrow> 'q gov_store attempt) \<Rightarrow> gov_actor \<Rightarrow> string \<Rightarrow> string \<Rightarrow> string \<Rightarrow> string \<Rightarrow> 'q gov_store \<times> (goerr + 'v) \<Rightarrow> 'q gov_store \<times> (goerr + 'v)" where
  "with_receipt env sched a action i version reason answer =
     (case answer of
        (st, Inr v) \<Rightarrow> (st, Inr v)
      | (st, Inl e) \<Rightarrow>
          (case auditCatalogFailureWithDetails env sched a action i version reason e [] st of
             (st', None) \<Rightarrow> (st', Inl e)
           | (st', Some f) \<Rightarrow> (st', Inl (Joined (err_msg e @ [byte 10] @ ''record catalog failure receipt: '' @ err_msg f) e
                                              (Wrapped (''record catalog failure receipt: '' @ err_msg f) f)))))"

end
