(* ===== verification/Catalog_Service.thy ===== *)
theory Catalog_Service
  imports Catalog
begin

text \<open>
  The calls of the catalogue (\<^verbatim>\<open>templategovernance/catalog.go\<close>): profiles, drafts, publication, withdrawal and recall, the
  reads, and the resolution of a version for a project.  The body of each transaction is a function of the tables; the
  handler runs it in the attempt it is given and writes the failure receipt when it is refused.
\<close>

definition undecodable :: goerr where
  "undecodable = Raw ''decode governance operation''"

section \<open>Profiles\<close>

definition create_profile_body :: "'q gov_env \<Rightarrow> gov_actor \<Rightarrow> string \<Rightarrow> profile_input \<Rightarrow> 'q gov_store \<Rightarrow> goerr + profile \<times> 'q gov_store" where
  "create_profile_body env a key inp st =
     bindR (authorizeTemplate env st a ''create_profile'' (pi_ID inp)) (\<lambda>_.
     bindR (operationGet env a ''create_profile'' (pi_ID inp) key (QProfile inp) st) (\<lambda>previous.
       case previous of
         Some (RProfile p) \<Rightarrow>
           bindR (loadProfile st a (pi_ID inp)) (\<lambda>current.
             if pf_Revision current \<noteq> pf_Revision p then Inl (Sentinel GovErrVersionConflict) else Inr (p, st))
       | Some _ \<Rightarrow> Inl undecodable
       | None \<Rightarrow>
           (let p = \<lparr>pf_TenantID = ga_TenantID a, pf_ID = pi_ID inp, pf_Name = trim_space (pi_Name inp), pf_Revision = 1, pf_CreatedBy = ga_UserID a, pf_CreatedAt = ge_now env\<rparr> in
            if profile_key p \<in> profile_key ` set (cg_profiles (rt_rest st)) then Inl (Sentinel GovErrVersionConflict)
            else bindR (gov_recordAudit env a ''create_profile'' (pi_ID inp) (pi_Reason inp) (profile_details p) (on_catalog (\<lambda>c. c\<lparr>cg_profiles := cg_profiles c @ [p]\<rparr>) st)) (\<lambda>st1.
                 bindR (operationSave env a ''create_profile'' (pi_ID inp) key (QProfile inp) (RProfile p) (show_int (pf_Revision p)) st1) (\<lambda>st2. Inr (p, st2))))))"

definition CreateProfile :: "'q gov_env \<Rightarrow> (nat \<Rightarrow> 'q gov_store attempt) \<Rightarrow> gov_actor \<Rightarrow> string \<Rightarrow> profile_input \<Rightarrow> 'q gov_store \<Rightarrow> 'q gov_store \<times> (goerr + profile)" where
  "CreateProfile env sched a key inp st =
     with_receipt env sched a ''create_profile'' (pi_ID inp) [] (pi_Reason inp)
       (case ready env a of
          Inl e \<Rightarrow> (st, Inl e)
        | Inr _ \<Rightarrow>
            if \<not> validKey key \<or> \<not> stableID (pi_ID inp) \<or> blank (pi_Name inp) \<or> length (pi_Name inp) > 240 \<or> \<not> validReason (pi_Reason inp)
            then (st, Inl (Sentinel GovErrInvalidRequest))
            else db_Transaction (sched 0) (create_profile_body env a key inp) st)"

definition catalogStates :: "string list" where
  "catalogStates = [''draft'', ''published'', ''withdrawn'', ''recalled'']"

definition list_profiles_body :: "'q gov_env \<Rightarrow> gov_actor \<Rightarrow> string \<Rightarrow> string \<Rightarrow> 'q gov_store \<Rightarrow> goerr + profile list" where
  "list_profiles_body env a scope state st =
     bindR (authorizeTemplate env st a ''read'' []) (\<lambda>_.
     bindR (ge_CanManage env st a) (\<lambda>manages.
       let joined = (scope \<noteq> [] \<or> state \<noteq> [] \<or> \<not> manages);
           matches = (\<lambda>p v. vr_TenantID v = pf_TenantID p \<and> vr_TemplateID v = pf_ID p \<and> (manages \<or> vr_State v \<noteq> ''draft'') \<and>
                            (scope = [] \<or> vr_Scope v = scope) \<and> (state = [] \<or> vr_State v = state));
           rows = sort_key pf_ID (filter (\<lambda>p. pf_TenantID p = ga_TenantID a \<and> (joined \<longrightarrow> list_ex (matches p) (cg_versions (rt_rest st)))) (cg_profiles (rt_rest st)))
       in mapR (\<lambda>p. bindR (authorizeTemplate env st a ''read'' (pf_ID p)) (\<lambda>_. Inr p)) rows))"

definition ListProfiles :: "'q gov_env \<Rightarrow> (nat \<Rightarrow> 'q gov_store attempt) \<Rightarrow> gov_actor \<Rightarrow> string \<Rightarrow> string \<Rightarrow> 'q gov_store \<Rightarrow> 'q gov_store \<times> (goerr + profile list)" where
  "ListProfiles env sched a scope state st =
     (case ready env a of
        Inl e \<Rightarrow> (st, Inl e)
      | Inr _ \<Rightarrow>
          if state \<noteq> [] \<and> state \<notin> set catalogStates then (st, Inl (Sentinel GovErrInvalidRequest))
          else db_Transaction (sched 0) (unchanged (list_profiles_body env a scope state)) st)"

section \<open>Reading versions\<close>

definition publicVersion :: "template_version \<Rightarrow> template_version" where
  "publicVersion v = v\<lparr>tv_Sources := [], tv_Recall := map_option (\<lambda>r. r\<lparr>rl_AffectedProjectIDs := []\<rparr>) (tv_Recall v)\<rparr>"

definition get_catalog_version :: "'q gov_env \<Rightarrow> gov_actor \<Rightarrow> string \<Rightarrow> string \<Rightarrow> 'q gov_store \<Rightarrow> goerr + template_version" where
  "get_catalog_version env a i version st =
     bindR (authorizeTemplate env st a ''read'' i) (\<lambda>_.
     bindR (ge_CanManage env st a) (\<lambda>manages.
     bindR (loadVersion env st a i version) (\<lambda>v.
       if manages then Inr v
       else if tv_State v = ''draft'' then Inl (Sentinel GovErrNotFound)
       else Inr (publicVersion v))))"

definition GetVersion :: "'q gov_env \<Rightarrow> (nat \<Rightarrow> 'q gov_store attempt) \<Rightarrow> gov_actor \<Rightarrow> string \<Rightarrow> string \<Rightarrow> 'q gov_store \<Rightarrow> 'q gov_store \<times> (goerr + template_version)" where
  "GetVersion env sched a i version st =
     (case ready env a of
        Inl e \<Rightarrow> (st, Inl e)
      | Inr _ \<Rightarrow>
          if \<not> stableID i \<or> \<not> stableID version then (st, Inl (Sentinel GovErrInvalidRequest))
          else db_Transaction (sched 0) (unchanged (get_catalog_version env a i version)) st)"

definition list_versions_body :: "'q gov_env \<Rightarrow> gov_actor \<Rightarrow> string \<Rightarrow> 'q gov_store \<Rightarrow> goerr + template_version list" where
  "list_versions_body env a i st =
     bindR (authorizeTemplate env st a ''read'' i) (\<lambda>_.
     bindR (ge_CanManage env st a) (\<lambda>manages.
     bindR (loadProfile st a i) (\<lambda>_.
       let rows = rev (sort_key (\<lambda>r. (vr_CreatedAt r, vr_Version r))
             (filter (\<lambda>r. vr_TenantID r = ga_TenantID a \<and> vr_TemplateID r = i \<and> (manages \<or> vr_State r \<noteq> ''draft'')) (cg_versions (rt_rest st)))) in
       if \<not> manages \<and> rows = [] then Inl (Sentinel GovErrNotFound)
       else mapR (\<lambda>r. bindR (decodeVersion env r) (\<lambda>v. Inr (if manages then v else publicVersion v))) rows)))"

definition ListVersions :: "'q gov_env \<Rightarrow> (nat \<Rightarrow> 'q gov_store attempt) \<Rightarrow> gov_actor \<Rightarrow> string \<Rightarrow> 'q gov_store \<Rightarrow> 'q gov_store \<times> (goerr + template_version list)" where
  "ListVersions env sched a i st =
     (case ready env a of
        Inl e \<Rightarrow> (st, Inl e)
      | Inr _ \<Rightarrow>
          if \<not> stableID i then (st, Inl (Sentinel GovErrInvalidRequest))
          else db_Transaction (sched 0) (unchanged (list_versions_body env a i)) st)"

section \<open>Resolving a version for a project\<close>

definition bindable_set :: "'q gov_env \<Rightarrow> string \<Rightarrow> goerr + rule_set \<Rightarrow> goerr + rule_set" where
  "bindable_set env hash got =
     bindR got (\<lambda>rs. bindR (CanBindRuleSet (ge_tpl env) rs) (\<lambda>_.
       if hash \<noteq> [] \<and> hash \<noteq> s_RulesetHash rs then Inl (Sentinel GovErrVersionConflict) else Inr rs))"

definition bindableRuleSet :: "'q gov_env \<Rightarrow> gov_actor \<Rightarrow> rule_set_ref \<Rightarrow> 'q gov_store \<Rightarrow> goerr + rule_set" where
  "bindableRuleSet env a ref st =
     (if re_authorizer (ge_rule env) = None then Inl (Sentinel GovErrUnauthorized)
      else bindable_set env (ref_Hash ref) (GetVersion_tx (ge_rule env) a (ref_ID ref) (ref_Version ref) st))"

definition ResolveForCopy :: "'q gov_env \<Rightarrow> gov_actor \<Rightarrow> string \<Rightarrow> string \<Rightarrow> 'q gov_store \<Rightarrow> goerr + template_version" where
  "ResolveForCopy env a i version st =
     bindR (ready env a) (\<lambda>_.
     bindR (authorizeTemplate env st a ''read'' i) (\<lambda>_.
     bindR (loadVersion env st a i version) (\<lambda>v.
       if tv_State v \<noteq> ''published'' then Inl (Sentinel GovErrInvalidState)
       else bindR (bindableRuleSet env a (tv_RuleSet v) st) (\<lambda>_. Inr v))))"

definition BindingPoliciesForCopy :: "'q gov_env \<Rightarrow> gov_actor \<Rightarrow> string \<Rightarrow> string \<Rightarrow> 'q gov_store \<Rightarrow> goerr + binding_policy list \<times> string" where
  "BindingPoliciesForCopy env a i version st = bindR (ResolveForCopy env a i version st) (\<lambda>v. Inr (tv_BindingPolicies v, tv_PolicyHash v))"

definition ResolveForSwitch :: "'q gov_env \<Rightarrow> gov_actor \<Rightarrow> string \<Rightarrow> string \<Rightarrow> bool \<Rightarrow> 'q gov_store \<Rightarrow> goerr + template_version" where
  "ResolveForSwitch env a i version forUpdate st =
     bindR (ready env a) (\<lambda>_.
     bindR (authorizeTemplate env st a ''read'' i) (\<lambda>_.
       case (if forUpdate then loadVersionForMutation env st a i version else loadVersion env st a i version) of
         Inl e \<Rightarrow> if err_is e GovErrNotFound then Inl (Joined ''template_governance_not_found'' (Sentinel GovErrNotFound) (Sentinel GovErrCatalogVersionAbsent)) else Inl e
       | Inr v \<Rightarrow>
           if tv_State v \<noteq> ''published'' then Inl (Sentinel GovErrInvalidState)
           else bindR (if \<not> forUpdate then bindableRuleSet env a (tv_RuleSet v) st
                       else if re_authorizer (ge_rule env) = None then Inl (Sentinel GovErrUnauthorized)
                       else bindable_set env (ref_Hash (tv_RuleSet v)) (GetVersionForBinding (ge_rule env) a (ref_ID (tv_RuleSet v)) (ref_Version (tv_RuleSet v)) st))
                  (\<lambda>_. Inr v)))"

text \<open>\<^verbatim>\<open>RecordCopySuccess\<close> and \<^verbatim>\<open>RecordSwitchSuccess\<close>: the receipt written in the project's transaction.\<close>

definition record_success :: "string \<Rightarrow> string \<Rightarrow> 'q gov_env \<Rightarrow> gov_actor \<Rightarrow> string \<Rightarrow> string \<Rightarrow> int \<Rightarrow> string \<Rightarrow> string \<Rightarrow> string \<Rightarrow> (string \<times> string) list \<Rightarrow> 'q gov_store \<Rightarrow> goerr + 'q gov_store" where
  "record_success action reason env a pid copyID copyVersion i version contentHash hashes st =
     bindR (ready env a) (\<lambda>_.
       if blank pid \<or> blank copyID \<or> copyVersion < 1 \<or> \<not> stableID i \<or> \<not> stableID version \<or> contentHash = [] then Inl (Sentinel GovErrInvalidRequest)
       else gov_recordAudit env a action (i @ ''/'' @ version) reason
              ([(''project_id'', pid), (''project_template_copy_id'', copyID), (''copy_version'', show_int copyVersion), (''content_hash'', contentHash)] @ hashes) st)"

definition RecordCopySuccess :: "'q gov_env \<Rightarrow> gov_actor \<Rightarrow> string \<Rightarrow> string \<Rightarrow> int \<Rightarrow> string \<Rightarrow> string \<Rightarrow> string \<Rightarrow> (string \<times> string) list \<Rightarrow> 'q gov_store \<Rightarrow> goerr + 'q gov_store" where
  "RecordCopySuccess = record_success ''copy'' ''new project copied this exact published template version''"

definition RecordSwitchSuccess :: "'q gov_env \<Rightarrow> gov_actor \<Rightarrow> string \<Rightarrow> string \<Rightarrow> int \<Rightarrow> string \<Rightarrow> string \<Rightarrow> string \<Rightarrow> (string \<times> string) list \<Rightarrow> 'q gov_store \<Rightarrow> goerr + 'q gov_store" where
  "RecordSwitchSuccess = record_success ''switch'' ''existing project switched to this exact published template version''"

text \<open>The receipts of a project's refused copy or switch, written after its transaction was rolled back.\<close>

record copy_failure =
  cf_TemplateID :: string
  cf_TemplateVersion :: string
  cf_ProjectID :: string
  cf_Cause :: "goerr option"
  cf_AuditPersistenceFailure :: bool

definition record_failure :: "string \<Rightarrow> string \<Rightarrow> string \<Rightarrow> (string \<times> string) list \<Rightarrow> 'q gov_env \<Rightarrow> (nat \<Rightarrow> 'q gov_store attempt) \<Rightarrow> gov_actor \<Rightarrow> copy_failure \<Rightarrow> 'q gov_store \<Rightarrow> 'q gov_store \<times> goerr option" where
  "record_failure action rejected unaudited named env sched a f st =
     (case cf_Cause f of
        None \<Rightarrow> (st, None)
      | Some cause \<Rightarrow>
          auditCatalogFailureWithDetails env sched a action (cf_TemplateID f) (cf_TemplateVersion f)
            (if cf_AuditPersistenceFailure f then unaudited else rejected) cause
            (named @ (if cf_AuditPersistenceFailure f then [(''error_code'', ''audit_persistence_failed'')] else [])) st)"

definition RecordCopyFailure :: "'q gov_env \<Rightarrow> (nat \<Rightarrow> 'q gov_store attempt) \<Rightarrow> gov_actor \<Rightarrow> copy_failure \<Rightarrow> 'q gov_store \<Rightarrow> 'q gov_store \<times> goerr option" where
  "RecordCopyFailure env sched a f st =
     record_failure ''copy'' ''new project template copy rejected'' ''project creation rolled back because successful template-copy audit persistence failed''
       (if cf_ProjectID f \<noteq> [] then [(''project_id'', cf_ProjectID f)] else []) env sched a f st"

definition RecordSwitchFailure :: "'q gov_env \<Rightarrow> (nat \<Rightarrow> 'q gov_store attempt) \<Rightarrow> gov_actor \<Rightarrow> copy_failure \<Rightarrow> 'q gov_store \<Rightarrow> 'q gov_store \<times> goerr option" where
  "RecordSwitchFailure env sched a f st =
     record_failure ''switch'' ''project template switch rejected'' ''project template switch rolled back because successful switch audit persistence failed''
       [(''project_id'', cf_ProjectID f)] env sched a f st"

section \<open>Saving a draft\<close>

definition validSourceRefs :: "source_ref list \<Rightarrow> bool" where
  "validSourceRefs refs \<longleftrightarrow> list_all (\<lambda>r. \<not> blank (so_ID r) \<and> \<not> blank (so_Version r)) refs \<and> distinct (map so_ID refs)"

definition validateDraftInput :: "draft_input \<Rightarrow> goerr + unit" where
  "validateDraftInput inp =
     (let d = di_Definition inp in
      if \<not> stableID (di_TemplateID inp) \<or> \<not> stableID (di_Version inp) \<or> length (di_Version inp) > 64 \<or> di_ExpectedRevision inp < 0 \<or> \<not> validReason (di_Reason inp) \<or>
         blank (di_Scope inp) \<or> blank (di_Curator inp) \<or> \<not> validSourceRefs (di_Sources inp) then Inl (Sentinel GovErrInvalidRequest)
      else if di_SourceType inp \<notin> {''lingdoc_builtin'', ''organization_input'', ''external_reference'', ''project_copy''} then Inl (Sentinel GovErrInvalidRequest)
      else if di_SourceType inp \<noteq> ''lingdoc_builtin'' \<and> di_Sources inp = [] then Inl (Sentinel GovErrSourceUnavailable)
      else if t_ContentHash d \<noteq> [] \<or> t_RulesetHash d \<noteq> [] \<or> t_Rules d \<noteq> [] then Inl (Sentinel GovErrInvalidRequest)
      else if t_ID d \<noteq> [] \<and> t_ID d \<noteq> di_TemplateID inp then Inl (Sentinel GovErrInvalidRequest)
      else if t_Version d \<noteq> [] \<and> t_Version d \<noteq> di_Version inp then Inl (Sentinel GovErrInvalidRequest)
      else Inr ())"

definition checkTemplateSources :: "'q gov_env \<Rightarrow> gov_actor \<Rightarrow> source_ref list \<Rightarrow> goerr + unit" where
  "checkTemplateSources env a refs =
     (if refs = [] then Inr ()
      else case ge_VerifySources env of
        None \<Rightarrow> Inl (Sentinel GovErrSourceUnavailable)
      | Some f \<Rightarrow> (case f a refs of Some e \<Rightarrow> Inl e | None \<Rightarrow> Inr ()))"

definition checkSourcesInTransaction :: "'q gov_env \<Rightarrow> gov_actor \<Rightarrow> source_ref list \<Rightarrow> 'q gov_store \<Rightarrow> goerr + unit" where
  "checkSourcesInTransaction env a refs st =
     (if refs = [] then Inr ()
      else if ge_VerifySources env = None then Inl (Sentinel GovErrSourceUnavailable)
      else case ge_VerifySourcesTx env of
        None \<Rightarrow> Inl (Sentinel GovErrSourceUnavailable)
      | Some f \<Rightarrow> (case f st a refs of Some e \<Rightarrow> Inl e | None \<Rightarrow> Inr ()))"

definition draft_definition :: "tpl_env \<Rightarrow> profile \<Rightarrow> draft_input \<Rightarrow> rule_set \<Rightarrow> goerr + template" where
  "draft_definition te p inp rs =
     bindR (CompileRuleSet te rs) (\<lambda>rules.
       let d = di_Definition inp in
       WithHashes te (d\<lparr>t_ID := di_TemplateID inp, t_Version := di_Version inp, t_Name := (if blank (t_Name d) then pf_Name p else t_Name d), t_Source := di_SourceType inp,
         t_Scope := di_Scope inp, t_IsDemo := (di_SourceType inp = ''lingdoc_builtin'' \<and> di_Scope inp = ''internal-demo''), t_Rules := rules\<rparr>))"

definition draft_version :: "'q gov_env \<Rightarrow> gov_actor \<Rightarrow> draft_input \<Rightarrow> template_version option \<Rightarrow> template \<Rightarrow> rule_set \<Rightarrow> string \<Rightarrow> template_version" where
  "draft_version env a inp previous d rs policyHash =
     \<lparr>tv_BindingPolicies = di_BindingPolicies inp, tv_PolicyHash = policyHash, tv_TemplateID = di_TemplateID inp, tv_Version = di_Version inp,
      tv_Revision = (case previous of None \<Rightarrow> 1 | Some v \<Rightarrow> tv_Revision v + 1), tv_State = ''draft'', tv_Definition = d,
      tv_RuleSet = \<lparr>ref_ID = s_ID rs, ref_Version = s_Version rs, ref_Hash = s_RulesetHash rs\<rparr>, tv_RuleSetSnapshot = rs, tv_SourceType = di_SourceType inp,
      tv_Scope = di_Scope inp, tv_Sources = di_Sources inp, tv_Curator = di_Curator inp, tv_ContentHash = t_ContentHash d, tv_RulesetHash = s_RulesetHash rs,
      tv_PublishedAt = None, tv_Recall = None,
      tv_CreatedBy = (case previous of Some v \<Rightarrow> if tv_Revision v > 0 then tv_CreatedBy v else ga_UserID a | None \<Rightarrow> ga_UserID a),
      tv_CreatedAt = (case previous of Some v \<Rightarrow> if tv_Revision v > 0 then tv_CreatedAt v else ge_now env | None \<Rightarrow> ge_now env), tv_UpdatedAt = ge_now env\<rparr>"

text \<open>A version that is not stored is the zero value, of which only the revision and the state are read.\<close>

definition revision_of :: "template_version option \<Rightarrow> int" where
  "revision_of previous = (case previous of None \<Rightarrow> 0 | Some v \<Rightarrow> tv_Revision v)"

definition create_or_save :: "'q gov_env \<Rightarrow> gov_actor \<Rightarrow> template_version option \<Rightarrow> template_version \<Rightarrow> 'q gov_store \<Rightarrow> goerr + 'q gov_store" where
  "create_or_save env a previous nxt st = saveVersion env a (case previous of None \<Rightarrow> nxt\<lparr>tv_Revision := 0\<rparr> | Some v \<Rightarrow> v) nxt st"

definition save_draft_body :: "'q gov_env \<Rightarrow> gov_actor \<Rightarrow> string \<Rightarrow> draft_input \<Rightarrow> 'q gov_store \<Rightarrow> goerr + template_version \<times> 'q gov_store" where
  "save_draft_body env a key inp st =
     (let i = di_TemplateID inp; version = di_Version inp; target = i @ ''/'' @ version in
      bindR (authorizeTemplate env st a ''save_draft'' i) (\<lambda>_.
      bindR (checkSourcesInTransaction env a (di_Sources inp) st) (\<lambda>_.
      bindR (loadProfile st a i) (\<lambda>p.
      bindR (operationGet env a ''save_draft'' target key (QDraft inp) st) (\<lambda>previous.
        case previous of
          Some (RVersion v) \<Rightarrow>
            bindR (loadVersion env st a i version) (\<lambda>current.
              if tv_Revision current \<noteq> tv_Revision v \<or> tv_State current \<noteq> tv_State v then Inl (Sentinel GovErrVersionConflict)
              else bindR (bindableRuleSet env a (tv_RuleSet current) st) (\<lambda>_. Inr (v, st)))
        | Some _ \<Rightarrow> Inl undecodable
        | None \<Rightarrow>
            bindR (case loadVersion env st a i version of Inl e \<Rightarrow> if err_is e GovErrNotFound then Inr None else Inl e | Inr v \<Rightarrow> Inr (Some v)) (\<lambda>previous.
              if revision_of previous \<noteq> di_ExpectedRevision inp then Inl (Sentinel GovErrVersionConflict)
              else if (case previous of None \<Rightarrow> False | Some v \<Rightarrow> tv_Revision v > 0 \<and> tv_State v \<noteq> ''draft'') then Inl (Sentinel GovErrInvalidState)
              else bindR (bindableRuleSet env a (di_RuleSet inp) st) (\<lambda>rs.
                   bindR (draft_definition (ge_tpl env) p inp rs) (\<lambda>d.
                   bindR (ValidateBindingPolicies (ge_copy env) d rs (di_BindingPolicies inp)) (\<lambda>_.
                   bindR (HashBindingPolicies (ge_copy env) (di_BindingPolicies inp)) (\<lambda>policyHash.
                     let v = draft_version env a inp previous d rs policyHash in
                     bindR (create_or_save env a previous v st) (\<lambda>st1.
                     bindR (gov_recordAudit env a ''save_draft'' target (di_Reason inp) (version_details env v) st1) (\<lambda>st2.
                     bindR (operationSave env a ''save_draft'' target key (QDraft inp) (RVersion v) (show_int (tv_Revision v)) st2) (\<lambda>st3. Inr (v, st3))))))))))))))"

definition SaveDraft :: "'q gov_env \<Rightarrow> (nat \<Rightarrow> 'q gov_store attempt) \<Rightarrow> gov_actor \<Rightarrow> string \<Rightarrow> draft_input \<Rightarrow> 'q gov_store \<Rightarrow> 'q gov_store \<times> (goerr + template_version)" where
  "SaveDraft env sched a key inp st =
     with_receipt env sched a ''save_draft'' (di_TemplateID inp) (di_Version inp) (di_Reason inp)
       (case bindR (ready env a) (\<lambda>_. if \<not> validKey key then Inl (Sentinel GovErrInvalidRequest) else validateDraftInput inp) of
          Inl e \<Rightarrow> (st, Inl e)
        | Inr _ \<Rightarrow>
            (case db_Transaction (sched 0) (unchanged (\<lambda>t. authorizeTemplate env t a ''save_draft'' (di_TemplateID inp))) st of
               (st1, Inl e) \<Rightarrow> (st1, Inl e)
             | (st1, Inr _) \<Rightarrow>
                 (case checkTemplateSources env a (di_Sources inp) of
                    Inl e \<Rightarrow> (st1, Inl e)
                  | Inr _ \<Rightarrow> db_Transaction (sched 1) (save_draft_body env a key inp) st1)))"

section \<open>Publishing\<close>

definition publish_read :: "'q gov_env \<Rightarrow> gov_actor \<Rightarrow> publish_input \<Rightarrow> 'q gov_store \<Rightarrow> goerr + template_version" where
  "publish_read env a inp st =
     bindR (authorizeTemplate env st a ''publish'' (pu_TemplateID inp)) (\<lambda>_. loadVersion env st a (pu_TemplateID inp) (pu_Version inp))"

definition published_version :: "int \<Rightarrow> template_version \<Rightarrow> template_version" where
  "published_version now v = v\<lparr>tv_Revision := tv_Revision v + 1, tv_State := ''published'', tv_PublishedAt := Some now, tv_UpdatedAt := now\<rparr>"

definition publish_body :: "'q gov_env \<Rightarrow> gov_actor \<Rightarrow> string \<Rightarrow> publish_input \<Rightarrow> template_version \<Rightarrow> 'q gov_store \<Rightarrow> goerr + template_version \<times> 'q gov_store" where
  "publish_body env a key inp current st =
     (let i = pu_TemplateID inp; target = i @ ''/'' @ pu_Version inp in
      bindR (authorizeTemplate env st a ''publish'' i) (\<lambda>_.
      bindR (loadVersion env st a i (pu_Version inp)) (\<lambda>v.
      bindR (checkSourcesInTransaction env a (tv_Sources v) st) (\<lambda>_.
      bindR (bindableRuleSet env a (tv_RuleSet v) st) (\<lambda>_.
      bindR (operationGet env a ''publish'' target key (QPublish inp) st) (\<lambda>previous.
        case previous of
          Some (RVersion w) \<Rightarrow>
            if tv_Revision v \<noteq> tv_Revision w \<or> tv_State v \<noteq> ''published'' then Inl (Sentinel GovErrVersionConflict) else Inr (w, st)
        | Some _ \<Rightarrow> Inl undecodable
        | None \<Rightarrow>
            if tv_Revision v \<noteq> pu_ExpectedRevision inp \<or> tv_Revision v \<noteq> tv_Revision current \<or> tv_ContentHash v \<noteq> tv_ContentHash current \<or>
               tv_RulesetHash v \<noteq> tv_RulesetHash current \<or> tv_PolicyHash v \<noteq> tv_PolicyHash current then Inl (Sentinel GovErrVersionConflict)
            else if tv_State v \<noteq> ''draft'' then Inl (Sentinel GovErrInvalidState)
            else (let w = published_version (ge_now env) v in
              bindR (ValidateVersion env w) (\<lambda>_.
              bindR (saveVersion env a v w st) (\<lambda>st1.
              bindR (gov_recordAudit env a ''publish'' target (pu_Reason inp) (publish_details env (pu_ReplayFixtureIDs inp) w) st1) (\<lambda>st2.
              bindR (operationSave env a ''publish'' target key (QPublish inp) (RVersion w) (show_int (tv_Revision w)) st2) (\<lambda>st3. Inr (w, st3))))))))))))"

definition Publish :: "'q gov_env \<Rightarrow> (nat \<Rightarrow> 'q gov_store attempt) \<Rightarrow> gov_actor \<Rightarrow> string \<Rightarrow> publish_input \<Rightarrow> 'q gov_store \<Rightarrow> 'q gov_store \<times> (goerr + template_version)" where
  "Publish env sched a key inp st =
     with_receipt env sched a ''publish'' (pu_TemplateID inp) (pu_Version inp) (pu_Reason inp)
       (case ready env a of
          Inl e \<Rightarrow> (st, Inl e)
        | Inr _ \<Rightarrow>
            if \<not> validKey key \<or> pu_ExpectedRevision inp < 1 \<or> \<not> validReason (pu_Reason inp) \<or> pu_ReplayFixtureIDs inp = [] then (st, Inl (Sentinel GovErrInvalidRequest))
            else (case ge_Replay env of
                None \<Rightarrow> (st, Inl (Sentinel GovErrReplayRequired))
              | Some verify \<Rightarrow>
                  (case db_Transaction (sched 0) (unchanged (publish_read env a inp)) st of
                     (st1, Inl e) \<Rightarrow> (st1, Inl e)
                   | (st1, Inr current) \<Rightarrow>
                       (case bindR (checkTemplateSources env a (tv_Sources current)) (\<lambda>_. verify a current (pu_ReplayFixtureIDs inp)) of
                          Inl e \<Rightarrow> (st1, Inl e)
                        | Inr _ \<Rightarrow> db_Transaction (sched 1) (publish_body env a key inp current) st1))))"

section \<open>Withdrawal and recall\<close>

definition transition_result :: "'q gov_env \<Rightarrow> gov_actor \<Rightarrow> governance_input \<Rightarrow> string \<Rightarrow> string \<Rightarrow> template_version \<Rightarrow> 'q gov_store \<Rightarrow> goerr + template_version" where
  "transition_result env a inp action advice current st =
     (let w = current\<lparr>tv_Revision := tv_Revision current + 1, tv_UpdatedAt := ge_now env\<rparr> in
      if action = ''withdraw'' then Inr (w\<lparr>tv_State := ''withdrawn''\<rparr>)
      else bindR (case ge_AffectedProjects env of None \<Rightarrow> Inl (Sentinel GovErrInvalidRequest) | Some f \<Rightarrow> f st a (gi_TemplateID inp) (gi_Version inp)) (\<lambda>projects.
        Inr (w\<lparr>tv_State := ''recalled'', tv_Recall := Some \<lparr>rl_Reason = gi_Reason inp, rl_MigrationAdvice = advice, rl_AffectedProjectIDs = projects,
          rl_ActorID = ga_UserID a, rl_RecordedAt = ge_now env\<rparr>\<rparr>)))"

definition catalog_transition_body :: "'q gov_env \<Rightarrow> gov_actor \<Rightarrow> string \<Rightarrow> governance_input \<Rightarrow> string \<Rightarrow> string \<Rightarrow> 'q gov_store \<Rightarrow> goerr + template_version \<times> 'q gov_store" where
  "catalog_transition_body env a key inp action advice st =
     (let i = gi_TemplateID inp; target = i @ ''/'' @ gi_Version inp in
      bindR (authorizeTemplate env st a action i) (\<lambda>_.
      bindR (loadVersionForMutation env st a i (gi_Version inp)) (\<lambda>current.
      bindR (operationGet env a action target key (QGovernance inp advice) st) (\<lambda>previous.
        case previous of
          Some (RVersion w) \<Rightarrow>
            if tv_Revision current \<noteq> tv_Revision w \<or> tv_State current \<noteq> tv_State w then Inl (Sentinel GovErrVersionConflict) else Inr (w, st)
        | Some _ \<Rightarrow> Inl undecodable
        | None \<Rightarrow>
            if tv_Revision current \<noteq> gi_ExpectedRevision inp then Inl (Sentinel GovErrVersionConflict)
            else if tv_State current \<noteq> ''published'' then Inl (Sentinel GovErrInvalidState)
            else bindR (transition_result env a inp action advice current st) (\<lambda>w.
              bindR (saveVersion env a current w st) (\<lambda>st1.
              bindR (gov_recordAudit env a action target (gi_Reason inp) (version_details env w) st1) (\<lambda>st2.
              bindR (operationSave env a action target key (QGovernance inp advice) (RVersion w) (show_int (tv_Revision w)) st2) (\<lambda>st3. Inr (w, st3)))))))))"

definition catalog_transition :: "'q gov_env \<Rightarrow> (nat \<Rightarrow> 'q gov_store attempt) \<Rightarrow> gov_actor \<Rightarrow> string \<Rightarrow> governance_input \<Rightarrow> string \<Rightarrow> string \<Rightarrow> 'q gov_store \<Rightarrow> 'q gov_store \<times> (goerr + template_version)" where
  "catalog_transition env sched a key inp action advice st =
     with_receipt env sched a action (gi_TemplateID inp) (gi_Version inp) (gi_Reason inp)
       (case ready env a of
          Inl e \<Rightarrow> (st, Inl e)
        | Inr _ \<Rightarrow>
            if \<not> validKey key \<or> gi_ExpectedRevision inp < 1 \<or> \<not> validReason (gi_Reason inp) then (st, Inl (Sentinel GovErrInvalidRequest))
            else db_Transaction (sched 0) (catalog_transition_body env a key inp action advice) st)"

definition Withdraw :: "'q gov_env \<Rightarrow> (nat \<Rightarrow> 'q gov_store attempt) \<Rightarrow> gov_actor \<Rightarrow> string \<Rightarrow> governance_input \<Rightarrow> 'q gov_store \<Rightarrow> 'q gov_store \<times> (goerr + template_version)" where
  "Withdraw env sched a key inp st = catalog_transition env sched a key inp ''withdraw'' [] st"

definition Recall :: "'q gov_env \<Rightarrow> (nat \<Rightarrow> 'q gov_store attempt) \<Rightarrow> gov_actor \<Rightarrow> string \<Rightarrow> governance_input \<Rightarrow> string \<Rightarrow> 'q gov_store \<Rightarrow> 'q gov_store \<times> (goerr + template_version)" where
  "Recall env sched a key inp advice st =
     (if blank advice \<or> ge_AffectedProjects env = None
      then with_receipt env sched a ''recall'' (gi_TemplateID inp) (gi_Version inp) (gi_Reason inp) (st, Inl (Sentinel GovErrInvalidRequest))
      else catalog_transition env sched a key inp ''recall'' advice st)"

end
