(* ===== verification/Rule_Catalog.thy ===== *)
theory Rule_Catalog
  imports Catalog_Service
begin

text \<open>
  The governed calls on rule sets: \<^verbatim>\<open>templategovernance/rule_catalog.go\<close>.

  They run the operations of the rule set store inside their own transaction and add the idempotency record, the
  governance audit record and, for a publication, the replay on a template version that carries the published set.  Two
  decoded values are compared by the digest of their JSON text, as in the code.
\<close>

section \<open>Reads and drafts\<close>

definition set_hash :: "'q gov_env \<Rightarrow> rule_set \<Rightarrow> string" where
  "set_hash env rs = hash_json (ge_marshalSet env) rs"

definition version_hash :: "'q gov_env \<Rightarrow> template_version \<Rightarrow> string" where
  "version_hash env v = hash_json (ge_encodeVersion env) v"

definition GetRuleSetVersion :: "'q gov_env \<Rightarrow> 'q gov_store attempt \<Rightarrow> gov_actor \<Rightarrow> string \<Rightarrow> string \<Rightarrow> 'q gov_store \<Rightarrow> 'q gov_store \<times> (goerr + rule_set)" where
  "GetRuleSetVersion env tx a i version st =
     (case ready env a of
        Inl e \<Rightarrow> (st, Inl e)
      | Inr _ \<Rightarrow> if re_authorizer (ge_rule env) = None then (st, Inl (Sentinel GovErrUnauthorized)) else rs_GetVersion (ge_rule env) a i version tx st)"

text \<open>The set that is asked about does not exist yet: the authorizer is called with nil, here the zero value.\<close>

definition no_set :: rule_set where
  "no_set = \<lparr>s_ID = [], s_Version = [], s_State = [], s_Bindings = [], s_RulesetHash = []\<rparr>"

definition list_rule_sets_body :: "'q gov_env \<Rightarrow> gov_actor \<Rightarrow> string \<Rightarrow> 'q gov_store \<Rightarrow> goerr + rule_set list" where
  "list_rule_sets_body env a i st =
     bindR (rs_authorize (ge_rule env) st a ''read'' no_set) (\<lambda>_.
     bindR (validateActor (ge_rule env) a) (\<lambda>_.
       mapR (\<lambda>row. bindR (decodeRuleSet (ge_tpl env) row) (\<lambda>rs. bindR (rs_authorize (ge_rule env) st a ''read'' rs) (\<lambda>_. Inr rs)))
         (rev (sort_key (\<lambda>r. (rr_CreatedAt r, rr_Version r)) (filter (\<lambda>r. rr_TenantID r = ga_TenantID a \<and> rr_RuleSetID r = i) (rt_sets st))))))"

definition ListRuleSetVersions :: "'q gov_env \<Rightarrow> 'q gov_store attempt \<Rightarrow> gov_actor \<Rightarrow> string \<Rightarrow> 'q gov_store \<Rightarrow> 'q gov_store \<times> (goerr + rule_set list)" where
  "ListRuleSetVersions env tx a i st =
     (case ready env a of
        Inl e \<Rightarrow> (st, Inl e)
      | Inr _ \<Rightarrow>
          if \<not> stableID i \<or> re_authorizer (ge_rule env) = None then (st, Inl (Sentinel GovErrInvalidRequest))
          else db_Transaction tx (unchanged (list_rule_sets_body env a i)) st)"

definition rule_draft_body :: "'q gov_env \<Rightarrow> gov_actor \<Rightarrow> string \<Rightarrow> rule_draft_input \<Rightarrow> 'q gov_store \<Rightarrow> goerr + rule_set \<times> 'q gov_store" where
  "rule_draft_body env a key inp st =
     (let draft = rd_Draft inp; target = s_ID draft @ ''/'' @ s_Version draft; renv = ge_rule env in
      bindR (rs_authorize renv st a ''create_draft'' draft) (\<lambda>_.
      bindR (operationGet env a ''ruleset_create_draft'' target key (QRuleDraft inp) st) (\<lambda>previous.
        case previous of
          Some (RRuleSet rs) \<Rightarrow>
            bindR (GetVersion_tx renv a (s_ID rs) (s_Version rs) st) (\<lambda>current.
            bindR (ge_marshalSet env current) (\<lambda>_.
              if set_hash env current \<noteq> set_hash env rs then Inl (Sentinel GovErrVersionConflict) else Inr (rs, st)))
        | Some _ \<Rightarrow> Inl undecodable
        | None \<Rightarrow>
            bindR (create_draft_check renv a draft) (\<lambda>_.
            bindR (create_draft_body renv a draft st) (\<lambda>st1.
            bindR (gov_recordAudit env a ''ruleset_create_draft'' (sha256_hex target) (rd_Reason inp) [(''ruleset'', set_text env draft)] st1) (\<lambda>st2.
            bindR (HashRuleSet (ge_tpl env) draft) (\<lambda>basis.
            bindR (operationSave env a ''ruleset_create_draft'' target key (QRuleDraft inp) (RRuleSet draft) ([CHR 0x22] @ basis @ [CHR 0x22]) st2) (\<lambda>st3.
              Inr (draft, st3)))))))))"

definition CreateRuleSetDraft :: "'q gov_env \<Rightarrow> 'q gov_store attempt \<Rightarrow> gov_actor \<Rightarrow> string \<Rightarrow> rule_draft_input \<Rightarrow> 'q gov_store \<Rightarrow> 'q gov_store \<times> (goerr + rule_set)" where
  "CreateRuleSetDraft env tx a key inp st =
     (case bindR (ready env a) (\<lambda>_.
             if \<not> validKey key \<or> \<not> validReason (rd_Reason inp) \<or> s_State (rd_Draft inp) \<noteq> ''draft'' \<or> s_RulesetHash (rd_Draft inp) \<noteq> [] \<or>
                re_authorizer (ge_rule env) = None then Inl (Sentinel GovErrInvalidRequest)
             else ValidateRuleSet (ge_tpl env) (rd_Draft inp)) of
        Inl e \<Rightarrow> (st, Inl e)
      | Inr _ \<Rightarrow> db_Transaction tx (rule_draft_body env a key inp) st)"

section \<open>The version a rule set is replayed on\<close>

definition zero_version :: template_version where
  "zero_version = \<lparr>tv_BindingPolicies = [], tv_PolicyHash = [], tv_TemplateID = [], tv_Version = [], tv_Revision = 0, tv_State = [], tv_Definition = DemoTemplate,
     tv_RuleSet = \<lparr>ref_ID = [], ref_Version = [], ref_Hash = []\<rparr>, tv_RuleSetSnapshot = no_set, tv_SourceType = [], tv_Scope = [], tv_Sources = [], tv_Curator = [],
     tv_ContentHash = [], tv_RulesetHash = [], tv_PublishedAt = None, tv_Recall = None, tv_CreatedBy = [], tv_CreatedAt = 0, tv_UpdatedAt = 0\<rparr>"

definition replay_base :: "'q gov_env \<Rightarrow> gov_actor \<Rightarrow> rule_governance_input \<Rightarrow> 'q gov_store \<Rightarrow> goerr + template_version" where
  "replay_base env a inp st =
     (if rg_TemplateID inp = DemoTemplateID \<and> rg_TemplateVersion inp = DemoTemplateVersion
      then Inr (zero_version\<lparr>tv_TemplateID := t_ID DemoTemplate, tv_Version := t_Version DemoTemplate, tv_Revision := 1, tv_State := ''draft'', tv_Definition := DemoTemplate\<rparr>)
      else bindR (authorizeTemplate env st a ''read'' (rg_TemplateID inp)) (\<lambda>_.
           bindR (loadVersion env st a (rg_TemplateID inp) (rg_TemplateVersion inp)) (\<lambda>v.
             if tv_State v \<noteq> ''draft'' \<and> tv_State v \<noteq> ''published'' then Inl (Sentinel GovErrInvalidState) else Inr v)))"

definition ruleReplayVersion :: "'q gov_env \<Rightarrow> gov_actor \<Rightarrow> rule_governance_input \<Rightarrow> rule_set \<Rightarrow> 'q gov_store \<Rightarrow> goerr + template_version" where
  "ruleReplayVersion env a inp rs st =
     (let te = ge_tpl env in
      bindR (replay_base env a inp st) (\<lambda>v.
      bindR (CompileRuleSet te rs) (\<lambda>rules.
      bindR (WithHashes te ((tv_Definition v)\<lparr>t_Rules := rules\<rparr>)) (\<lambda>d.
      bindR (HashBindingPolicies (ge_copy env) (tv_BindingPolicies v)) (\<lambda>policyHash.
        let w = v\<lparr>tv_RuleSetSnapshot := rs, tv_RuleSet := \<lparr>ref_ID = s_ID rs, ref_Version = s_Version rs, ref_Hash = s_RulesetHash rs\<rparr>,
                  tv_RulesetHash := s_RulesetHash rs, tv_Definition := d, tv_ContentHash := t_ContentHash d, tv_PolicyHash := policyHash\<rparr> in
        bindR (ValidateVersion env w) (\<lambda>_. Inr w))))))"

section \<open>Publishing, withdrawing and recalling a rule set\<close>

definition rule_action :: "tpl_env \<Rightarrow> string \<Rightarrow> rule_set \<Rightarrow> goerr + rule_set" where
  "rule_action te action = (if action = ''publish'' then PublishRuleSet te else if action = ''withdraw'' then WithdrawRuleSet te else RecallRuleSet te)"

definition govern_input_ok :: "'q gov_env \<Rightarrow> gov_actor \<Rightarrow> string \<Rightarrow> string \<Rightarrow> string \<Rightarrow> rule_governance_input \<Rightarrow> goerr + unit" where
  "govern_input_ok env a i version key inp =
     bindR (ready env a) (\<lambda>_.
       if \<not> stableID i \<or> \<not> stableID version \<or> \<not> validKey key \<or> \<not> validReason (rg_Reason inp) \<or> re_authorizer (ge_rule env) = None
       then Inl (Sentinel GovErrInvalidRequest) else Inr ())"

text \<open>The first transaction answers the stored result of this request, or the current set and, to publish, the version to replay on.\<close>

datatype govern_state = Replayed rule_set | Current rule_set "template_version option"

definition govern_read :: "'q gov_env \<Rightarrow> gov_actor \<Rightarrow> string \<Rightarrow> string \<Rightarrow> string \<Rightarrow> rule_governance_input \<Rightarrow> string \<Rightarrow> 'q gov_store \<Rightarrow> goerr + govern_state" where
  "govern_read env a i version key inp action st =
     (let renv = ge_rule env; target = i @ ''/'' @ version in
      bindR (GetVersion_tx renv a i version st) (\<lambda>current.
      bindR (rs_authorize renv st a action current) (\<lambda>_.
      bindR (operationGet env a (''ruleset_'' @ action) target key (QRuleGovernance inp) st) (\<lambda>previous.
        case previous of
          Some (RRuleSet rs) \<Rightarrow> if set_hash env current \<noteq> set_hash env rs then Inl (Sentinel GovErrVersionConflict) else Inr (Replayed rs)
        | Some _ \<Rightarrow> Inl undecodable
        | None \<Rightarrow>
            if s_State current \<noteq> rg_ExpectedState inp \<or> s_RulesetHash current \<noteq> rg_ExpectedRuleSetHash inp then Inl (Sentinel GovErrVersionConflict)
            else if action = ''publish'' then
              (if ge_Replay env = None \<or> rg_ReplayFixtureIDs inp = [] \<or> blank (rg_TemplateID inp) \<or> blank (rg_TemplateVersion inp) then Inl (Sentinel GovErrReplayRequired)
               else bindR (PublishRuleSet (ge_tpl env) current) (\<lambda>published.
                    bindR (ruleReplayVersion env a inp published st) (\<lambda>v. Inr (Current current (Some v)))))
            else Inr (Current current None)))))"

definition govern_verify :: "'q gov_env \<Rightarrow> gov_actor \<Rightarrow> rule_governance_input \<Rightarrow> template_version option \<Rightarrow> goerr + unit" where
  "govern_verify env a inp replay =
     (case (replay, ge_Replay env) of
        (Some v, Some verify) \<Rightarrow> bindR (checkTemplateSources env a (tv_Sources v)) (\<lambda>_. verify a v (rg_ReplayFixtureIDs inp))
      | (Some v, None) \<Rightarrow> Inl (Sentinel GovErrReplayRequired)
      | (None, _) \<Rightarrow> Inr ())"

definition govern_basis :: "rule_set \<Rightarrow> string" where
  "govern_basis rs = ''{'' @ [CHR 0x22] @ ''hash'' @ [CHR 0x22] @ '':'' @ [CHR 0x22] @ s_RulesetHash rs @ [CHR 0x22] @ '','' @
     [CHR 0x22] @ ''state'' @ [CHR 0x22] @ '':'' @ [CHR 0x22] @ s_State rs @ [CHR 0x22] @ ''}''"

definition govern_write :: "'q gov_env \<Rightarrow> gov_actor \<Rightarrow> string \<Rightarrow> string \<Rightarrow> string \<Rightarrow> rule_governance_input \<Rightarrow> string \<Rightarrow> rule_set \<Rightarrow> template_version option \<Rightarrow> 'q gov_store \<Rightarrow> goerr + rule_set \<times> 'q gov_store" where
  "govern_write env a i version key inp action current replay st =
     (let renv = ge_rule env; te = ge_tpl env; target = i @ ''/'' @ version in
      bindR (GetVersion_tx renv a i version st) (\<lambda>latest.
      bindR (rs_authorize renv st a action latest) (\<lambda>_.
      bindR (operationGet env a (''ruleset_'' @ action) target key (QRuleGovernance inp) st) (\<lambda>previous.
        case previous of
          Some (RRuleSet rs) \<Rightarrow> if set_hash env latest \<noteq> set_hash env rs then Inl (Sentinel GovErrVersionConflict) else Inr (rs, st)
        | Some _ \<Rightarrow> Inl undecodable
        | None \<Rightarrow>
            if set_hash env latest \<noteq> set_hash env current \<or> s_State latest \<noteq> rg_ExpectedState inp \<or> s_RulesetHash latest \<noteq> rg_ExpectedRuleSetHash inp
            then Inl (Sentinel GovErrVersionConflict)
            else bindR (case replay of
                          None \<Rightarrow> Inr ()
                        | Some v \<Rightarrow> bindR (PublishRuleSet te latest) (\<lambda>published. bindR (ruleReplayVersion env a inp published st) (\<lambda>now.
                            if version_hash env now \<noteq> version_hash env v then Inl (Sentinel GovErrVersionConflict)
                            else checkSourcesInTransaction env a (tv_Sources now) st))) (\<lambda>_.
                 bindR (validateActor renv a) (\<lambda>_.
                 bindR (rs_transition_body renv a i version action (rule_action te action) st) (\<lambda>(rs, st1).
                 bindR (gov_recordAudit env a (''ruleset_'' @ action) (sha256_hex target) (rg_Reason inp)
                          ((''ruleset'', set_text env rs) # (''policy_hash'', case replay of None \<Rightarrow> [] | Some v \<Rightarrow> tv_PolicyHash v) #
                            List.map (Pair ''replay_fixture_ids'') (rg_ReplayFixtureIDs inp)) st1) (\<lambda>st2.
                 bindR (operationSave env a (''ruleset_'' @ action) target key (QRuleGovernance inp) (RRuleSet rs) (govern_basis rs) st2) (\<lambda>st3.
                   Inr (rs, st3))))))))))"

definition governRuleSet :: "'q gov_env \<Rightarrow> (nat \<Rightarrow> 'q gov_store attempt) \<Rightarrow> gov_actor \<Rightarrow> string \<Rightarrow> string \<Rightarrow> string \<Rightarrow> rule_governance_input \<Rightarrow> string \<Rightarrow> 'q gov_store \<Rightarrow> 'q gov_store \<times> (goerr + rule_set)" where
  "governRuleSet env sched a i version key inp action st =
     (case govern_input_ok env a i version key inp of
        Inl e \<Rightarrow> (st, Inl e)
      | Inr _ \<Rightarrow>
          (case db_Transaction (sched 0) (unchanged (govern_read env a i version key inp action)) st of
             (st1, Inl e) \<Rightarrow> (st1, Inl e)
           | (st1, Inr (Replayed rs)) \<Rightarrow> (st1, Inr rs)
           | (st1, Inr (Current current replay)) \<Rightarrow>
               (case govern_verify env a inp replay of
                  Inl e \<Rightarrow> (st1, Inl e)
                | Inr _ \<Rightarrow> db_Transaction (sched 1) (govern_write env a i version key inp action current replay) st1)))"

text \<open>\<^verbatim>\<open>PublishRuleSet\<close>, \<^verbatim>\<open>WithdrawRuleSet\<close> and \<^verbatim>\<open>RecallRuleSet\<close> of the service.\<close>

definition svc_PublishRuleSet :: "'q gov_env \<Rightarrow> (nat \<Rightarrow> 'q gov_store attempt) \<Rightarrow> gov_actor \<Rightarrow> string \<Rightarrow> string \<Rightarrow> string \<Rightarrow> rule_governance_input \<Rightarrow> 'q gov_store \<Rightarrow> 'q gov_store \<times> (goerr + rule_set)" where
  "svc_PublishRuleSet env sched a i version key inp = governRuleSet env sched a i version key inp ''publish''"

definition svc_WithdrawRuleSet :: "'q gov_env \<Rightarrow> (nat \<Rightarrow> 'q gov_store attempt) \<Rightarrow> gov_actor \<Rightarrow> string \<Rightarrow> string \<Rightarrow> string \<Rightarrow> rule_governance_input \<Rightarrow> 'q gov_store \<Rightarrow> 'q gov_store \<times> (goerr + rule_set)" where
  "svc_WithdrawRuleSet env sched a i version key inp = governRuleSet env sched a i version key inp ''withdraw''"

definition svc_RecallRuleSet :: "'q gov_env \<Rightarrow> (nat \<Rightarrow> 'q gov_store attempt) \<Rightarrow> gov_actor \<Rightarrow> string \<Rightarrow> string \<Rightarrow> string \<Rightarrow> rule_governance_input \<Rightarrow> 'q gov_store \<Rightarrow> 'q gov_store \<times> (goerr + rule_set)" where
  "svc_RecallRuleSet env sched a i version key inp = governRuleSet env sched a i version key inp ''recall''"

end
