(* ===== verification/Catalog_Invariant.thy ===== *)
theory Catalog_Invariant
  imports Sealed_Table Rule_Catalog
begin

text \<open>
  The steps of the rule set store and the catalogue as one relation on their tables, and what every step keeps: keys are
  unique, every stored rule set and every stored version passes the code's own validation, a version has its profile,
  and the rule set snapshot of a version is the content of the stored rule set.  The steps of one history share the
  encoders (\<^verbatim>\<open>same_codec\<close>); clock, ports and actors differ from step to step.
\<close>

section \<open>What is kept\<close>

definition same_codec :: "'q gov_env \<Rightarrow> 'q gov_env \<Rightarrow> bool" where
  "same_codec base env \<longleftrightarrow> ge_tpl env = ge_tpl base \<and> ge_copy env = ge_copy base"

abbreviation versions :: "'q gov_store \<Rightarrow> version_row list" where
  "versions st \<equiv> cg_versions (rt_rest st)"

abbreviation profiles :: "'q gov_store \<Rightarrow> profile list" where
  "profiles st \<equiv> cg_profiles (rt_rest st)"

definition rule_content :: "rule_row \<Rightarrow> rule_binding list \<times> string \<times> string \<times> int" where
  "rule_content r = (rr_Bindings r, rr_RuleSetHash r, rr_CreatedBy r, rr_CreatedAt r)"

definition version_content where
  "version_content r = ((vr_BindingPolicies r, vr_PolicyHash r, vr_Definition r, vr_Ruleset r, vr_ContentHash r, vr_RulesetHash r),
     (vr_SourceType r, vr_Scope r, vr_SourceRefs r, vr_Curator r), (vr_PublishedAt r, vr_CreatedBy r, vr_CreatedAt r))"

abbreviation rule_moves :: "rule_row \<Rightarrow> rule_row \<Rightarrow> bool" where
  "rule_moves \<equiv> row_moves rule_key rule_content rr_State"

definition version_moves :: "version_row \<Rightarrow> version_row \<Rightarrow> bool" where
  "version_moves r n \<longleftrightarrow> row_moves version_key version_content vr_State r n \<and> vr_Revision r < vr_Revision n"

definition good_rule :: "tpl_env \<Rightarrow> rule_row \<Rightarrow> bool" where
  "good_rule te r \<longleftrightarrow> ValidateRuleSet te (row_set r) = Inr ()"

definition good_version :: "'q gov_env \<Rightarrow> version_row \<Rightarrow> bool" where
  "good_version base r \<longleftrightarrow> 1 \<le> vr_Revision r \<and> ValidateVersion base (row_version r) = Inr () \<and>
     (vr_PublishedAt r = None \<longleftrightarrow> vr_State r = ''draft'') \<and> (vr_Recall r = None \<longleftrightarrow> vr_State r \<noteq> ''recalled'')"

text \<open>What a version points to: its profile, and the stored rule set whose content its snapshot is.\<close>

definition snapshot_of :: "rule_row \<Rightarrow> version_row \<Rightarrow> bool" where
  "snapshot_of x r \<longleftrightarrow> rule_key x = (vr_TenantID r, s_ID (vr_Ruleset r), s_Version (vr_Ruleset r)) \<and> rr_State x \<noteq> ''draft'' \<and>
     rr_Bindings x = s_Bindings (vr_Ruleset r) \<and> rr_RuleSetHash x = s_RulesetHash (vr_Ruleset r)"

definition pinned :: "'q gov_store \<Rightarrow> version_row \<Rightarrow> bool" where
  "pinned st r \<longleftrightarrow> (vr_TenantID r, vr_TemplateID r) \<in> profile_key ` set (profiles st) \<and> (\<exists>x \<in> set (rt_sets st). snapshot_of x r)"

definition gov_ok :: "'q gov_env \<Rightarrow> 'q gov_store \<Rightarrow> bool" where
  "gov_ok base st \<longleftrightarrow> distinct (map rule_key (rt_sets st)) \<and> distinct (map version_key (versions st)) \<and> distinct (map profile_key (profiles st)) \<and>
     (\<forall>r \<in> set (rt_sets st). good_rule (ge_tpl base) r) \<and> (\<forall>r \<in> set (versions st). good_version base r \<and> pinned st r)"

section \<open>The effect of one step\<close>

definition gov_effect :: "'q gov_env \<Rightarrow> 'q gov_store \<Rightarrow> 'q gov_store \<Rightarrow> bool" where
  "gov_effect base st st' \<longleftrightarrow> table_edit rule_key (good_rule (ge_tpl base)) rule_moves (rt_sets st) (rt_sets st') \<and>
     table_edit version_key (\<lambda>r. good_version base r \<and> pinned st r) version_moves (versions st) (versions st') \<and>
     (profiles st' = profiles st \<or> (\<exists>p. profiles st' = profiles st @ [p] \<and> profile_key p \<notin> profile_key ` set (profiles st)))"

lemma gov_effect_frame [intro]:
  "rt_sets st' = rt_sets st \<Longrightarrow> versions st' = versions st \<Longrightarrow> profiles st' = profiles st \<Longrightarrow> gov_effect base st st'"
  by (simp add: gov_effect_def)

lemma snapshot_moves: "snapshot_of x r \<Longrightarrow> rule_moves x y \<Longrightarrow> snapshot_of y r"
  by (auto simp: snapshot_of_def row_moves_def rule_content_def dest: life_moves_draft)

lemma gov_effect_pinned:
  assumes "gov_effect base st st'" "pinned st r"
  shows "pinned st' r"
proof -
  obtain x where x: "x \<in> set (rt_sets st)" "snapshot_of x r" using assms(2) by (auto simp: pinned_def)
  obtain y where "y \<in> set (rt_sets st')" "y = x \<or> rule_key y = rule_key x \<and> rule_moves x y"
    using table_edit_succ [of _ _ _ "rt_sets st" "rt_sets st'" x] assms(1) x(1) unfolding gov_effect_def by blast
  then have "\<exists>y \<in> set (rt_sets st'). snapshot_of y r" using x(2) snapshot_moves by blast
  moreover have "set (profiles st) \<subseteq> set (profiles st')" using assms(1) by (auto simp: gov_effect_def)
  ultimately show ?thesis using assms(2) by (auto simp: pinned_def)
qed

lemma gov_effect_ok:
  assumes "gov_effect base st st'" "gov_ok base st"
  shows "gov_ok base st'"
proof -
  have e: "table_edit rule_key (good_rule (ge_tpl base)) rule_moves (rt_sets st) (rt_sets st')"
    "table_edit version_key (\<lambda>r. good_version base r \<and> pinned st r) version_moves (versions st) (versions st')" using assms(1) by (auto simp: gov_effect_def)
  have "distinct (map profile_key (profiles st'))" using assms by (auto simp: gov_effect_def gov_ok_def)
  moreover have "good_rule (ge_tpl base) r" if "r \<in> set (rt_sets st')" for r using table_edit_good [OF e(1) that] assms(2) by (auto simp: gov_ok_def)
  moreover have "good_version base r \<and> pinned st' r" if "r \<in> set (versions st')" for r
    using table_edit_good [OF e(2) that] assms(2) gov_effect_pinned [OF assms(1)] by (auto simp: gov_ok_def)
  ultimately show ?thesis using table_edit_keys [OF e(1)] table_edit_keys [OF e(2)] assms(2) by (simp add: gov_ok_def)
qed

lemma gov_effect_rules:
  assumes "gov_effect base st st'"
  shows "table_moves rule_key rule_content rr_State (rt_sets st) (rt_sets st')"
proof (rule table_edit_moves)
  show "table_edit rule_key (good_rule (ge_tpl base)) rule_moves (rt_sets st) (rt_sets st')" using assms by (simp add: gov_effect_def)
qed

lemma gov_effect_versions:
  assumes "gov_effect base st st'"
  shows "table_moves version_key version_content vr_State (versions st) (versions st')"
proof (rule table_edit_moves)
  show "table_edit version_key (\<lambda>r. good_version base r \<and> pinned st r) version_moves (versions st) (versions st')" using assms by (simp add: gov_effect_def)
qed (simp add: version_moves_def)

lemma gov_effect_revision:
  assumes "gov_effect base st st'" "r \<in> set (versions st)"
  shows "\<exists>r' \<in> set (versions st'). r' = r \<or> version_key r' = version_key r \<and> vr_Revision r < vr_Revision r'"
proof -
  have "table_edit version_key (\<lambda>r. good_version base r \<and> pinned st r) version_moves (versions st) (versions st')" using assms(1) by (simp add: gov_effect_def)
  from table_edit_succ [OF this assms(2)] obtain r' where "r' \<in> set (versions st')" "r' = r \<or> version_key r' = version_key r \<and> version_moves r r'" by (elim bexE)
  then show ?thesis by (intro bexI [of _ r']) (auto simp: version_moves_def)
qed

section \<open>Rule sets\<close>

lemma rs_recordAudit_frame:
  "rs_recordAudit env a rs action from to st = Inr st' \<Longrightarrow> rt_sets st' = rt_sets st \<and> rt_rest st' = rt_rest st"
  by (auto simp: rs_recordAudit_def split: if_splits)

lemma create_draft_effect:
  assumes "re_tpl env = ge_tpl base" "create_draft_check env a draft = Inr ()" "create_draft_body env a draft st = Inr st'"
  shows "gov_effect base st st'"
proof -
  define row where "row = \<lparr>rr_TenantID = ga_TenantID a, rr_RuleSetID = s_ID draft, rr_Version = s_Version draft, rr_State = ''draft'', rr_RuleSetHash = [],
    rr_Bindings = s_Bindings draft, rr_CreatedBy = ga_UserID a, rr_CreatedAt = re_now env\<rparr>"
  have d: "s_State draft = ''draft''" "s_RulesetHash draft = []" "ValidateRuleSet (ge_tpl base) draft = Inr ()"
    using assms(1,2) by (auto simp: create_draft_check_def split: if_splits)
  have k: "rule_key row \<notin> rule_key ` set (rt_sets st)" and a: "rs_recordAudit env a draft ''create_draft'' [] ''draft'' (st\<lparr>rt_sets := rt_sets st @ [row]\<rparr>) = Inr st'"
    using assms(3) by (auto simp: create_draft_body_def row_def Let_def split: if_splits)
  have "row_set row = draft" using d by (simp add: row_set_def row_def)
  then have "good_rule (ge_tpl base) row" using d(3) by (simp add: good_rule_def)
  then show ?thesis using table_edit_append [of rule_key row] k rs_recordAudit_frame [OF a] by (simp add: gov_effect_def)
qed

lemma rs_loadVersion_ok:
  assumes "rs_loadVersion st tenant i version = Inr r"
  shows "r \<in> set (rt_sets st)" "rule_key r = (tenant, i, version)"
  using assms find_member [of _ "rt_sets st" r] by (auto simp: rs_loadVersion_def rule_key_def split: option.splits)

lemma decodeRuleSet_ok: "decodeRuleSet te r = Inr rs \<longleftrightarrow> rs = row_set r \<and> ValidateRuleSet te (row_set r) = Inr ()"
  by (auto simp: decodeRuleSet_def split: sum.splits)

definition rule_actions :: "tpl_env \<Rightarrow> (string \<times> (rule_set \<Rightarrow> goerr + rule_set)) set" where
  "rule_actions te = {(''publish'', PublishRuleSet te), (''withdraw'', WithdrawRuleSet te), (''recall'', RecallRuleSet te)}"

text \<open>What one action does to a stored rule set: the columns it writes are the set it answered, which validates.\<close>

lemma rule_action_row:
  assumes "(action, apply) \<in> rule_actions te" "ValidateRuleSet te (row_set r) = Inr ()" "apply (row_set r) = Inr nxt"
  shows "row_set (set_columns action nxt r) = nxt" "ValidateRuleSet te nxt = Inr ()" "rule_moves r (set_columns action nxt r)"
proof -
  consider h where "action = ''publish''" "rr_State r = ''draft''" "HashRuleSet te (row_set r) = Inr h" "nxt = (row_set r)\<lparr>s_State := ''published'', s_RulesetHash := h\<rparr>"
    | sv where "action \<noteq> ''publish''" "rr_State r = ''published''" "sv \<in> {''withdrawn'', ''recalled''}" "nxt = (row_set r)\<lparr>s_State := sv\<rparr>"
    using assms by (auto simp: rule_actions_def WithdrawRuleSet_def RecallRuleSet_def transitionRuleSet_def row_set_def split: if_splits elim!: PublishRuleSet_ok)
  note c = this
  have h: "HashRuleSet te (row_set r) = Inr (rr_RuleSetHash r)" if "rr_State r = ''published''"
    using ValidateRuleSet_hash [OF assms(2)] that by (simp add: row_set_def)
  show "ValidateRuleSet te nxt = Inr ()"
  proof (cases rule: c)
    case (1 h)
    then show ?thesis using published_validates [of te "row_set r" h "''published''"] by simp
  next
    case (2 sv)
    then have "ValidateRuleSet te ((row_set r)\<lparr>s_State := sv, s_RulesetHash := rr_RuleSetHash r\<rparr>) = Inr ()" by (intro published_validates h) auto
    then show ?thesis using 2(4) by (simp add: row_set_def)
  qed
  show "row_set (set_columns action nxt r) = nxt" by (cases rule: c) (simp_all add: set_columns_def row_set_def)
  show "rule_moves r (set_columns action nxt r)"
    by (cases rule: c) (auto simp: set_columns_def row_moves_def rule_key_def rule_content_def life_moves_def)
qed

lemma key_member:
  assumes "distinct (map f xs)" "x \<in> set xs" "y \<in> set xs" "f x = f y"
  shows "x = y"
  using assms inj_onD [of f "set xs" x y] by (simp add: distinct_map)

lemma rs_transition_effect:
  assumes "re_tpl env = ge_tpl base" "(action, apply) \<in> rule_actions (ge_tpl base)" "gov_ok base st"
    and "rs_transition_body env a i version action apply st = Inr (rs, st')"
  shows "gov_effect base st st'"
proof -
  obtain row where row: "rs_loadVersion st (ga_TenantID a) i version = Inr row" using assms(4) by (auto simp: rs_transition_body_def)
  define sel :: "rule_row \<Rightarrow> bool" where
    "sel r \<longleftrightarrow> rr_TenantID r = ga_TenantID a \<and> rr_RuleSetID r = i \<and> rr_Version r = version \<and> rr_State r = s_State (row_set row)" for r
  from assms(4) obtain st1 where v: "ValidateRuleSet (ge_tpl base) (row_set row) = Inr ()"
    and n: "apply (row_set row) = Inr rs" and st1: "st1 = st\<lparr>rt_sets := map (\<lambda>r. if sel r then set_columns action rs r else r) (rt_sets st)\<rparr>"
    and a: "rs_recordAudit env a rs action (s_State (row_set row)) (s_State rs) st1 = Inr st'"
    by (auto simp: rs_transition_body_def row Let_def decodeRuleSet_ok update_rows_def sel_def assms(1) split: if_splits)
  note r = rs_loadVersion_ok [OF row] and act = rule_action_row [OF assms(2) v n]
  have d: "distinct (map rule_key (rt_sets st))" using assms(3) by (simp add: gov_ok_def)
  have "sel x \<longleftrightarrow> x = row" if "x \<in> set (rt_sets st)" for x
    using key_member [OF d that r(1)] r(2) by (auto simp: sel_def rule_key_def row_set_def)
  then have "table_edit rule_key (good_rule (ge_tpl base)) rule_moves (rt_sets st) (rt_sets st1)"
    unfolding st1 using act r(1) by (simp add: good_rule_def row_moves_def table_edit_replace [OF d r(1)])
  then show ?thesis using rs_recordAudit_frame [OF a] by (simp add: gov_effect_def st1)
qed

section \<open>Reading and writing versions\<close>

lemma same_codec_ValidateVersion: "same_codec base env \<Longrightarrow> ValidateVersion env v = ValidateVersion base v"
  by (simp add: same_codec_def ValidateVersion_def)

lemma ValidateVersion_later:
  assumes "ValidateVersion env v = Inr ()" "tv_State w \<in> {''draft'', ''published'', ''withdrawn'', ''recalled''}"
    and "tv_BindingPolicies w = tv_BindingPolicies v" "tv_PolicyHash w = tv_PolicyHash v" "tv_TemplateID w = tv_TemplateID v" "tv_Version w = tv_Version v"
    and "tv_Definition w = tv_Definition v" "tv_RuleSet w = tv_RuleSet v" "tv_RuleSetSnapshot w = tv_RuleSetSnapshot v"
    and "tv_ContentHash w = tv_ContentHash v" "tv_RulesetHash w = tv_RulesetHash v"
  shows "ValidateVersion env w = Inr ()"
  using assms(1,2) by (auto simp: ValidateVersion_def Let_def assms(3-) split: if_splits)

lemma ValidateVersion_state: "ValidateVersion env v = Inr () \<Longrightarrow> tv_State v \<in> {''draft'', ''published'', ''withdrawn'', ''recalled''}"
  by (auto simp: ValidateVersion_def Let_def split: if_splits)

lemma loadVersion_ok:
  assumes "loadVersion env st a i version = Inr v"
  obtains r where "r \<in> set (versions st)" "version_key r = (ga_TenantID a, i, version)" "v = row_version r" "ValidateVersion env v = Inr ()"
proof -
  from assms obtain r where f: "find (\<lambda>r. vr_TenantID r = ga_TenantID a \<and> vr_TemplateID r = i \<and> vr_Version r = version) (versions st) = Some r"
    and d: "decodeVersion env r = Inr v" by (auto simp: loadVersion_def split: option.splits)
  show thesis by (rule that [of r]) (use find_member [OF f] d in \<open>auto simp: version_key_def decodeVersion_def\<close>)
qed

lemma loadVersionForMutation_ok: "loadVersionForMutation env st a i version = Inr v \<Longrightarrow> loadVersion env st a i version = Inr v"
  by (simp add: loadVersionForMutation_def split: if_splits)

lemma encodeVersion_ok:
  assumes "encodeVersion env a v = Inr row"
  shows "version_key row = (ga_TenantID a, tv_TemplateID v, tv_Version v)" "tv_RuleSet v = \<lparr>ref_ID = s_ID (tv_RuleSetSnapshot v), ref_Version = s_Version (tv_RuleSetSnapshot v), ref_Hash = s_RulesetHash (tv_RuleSetSnapshot v)\<rparr> \<Longrightarrow> row_version row = v"
  using assms by (auto simp: encodeVersion_def version_key_def row_version_def)

lemma ValidateVersion_ref:
  "ValidateVersion env v = Inr () \<Longrightarrow> tv_RuleSet v = \<lparr>ref_ID = s_ID (tv_RuleSetSnapshot v), ref_Version = s_Version (tv_RuleSetSnapshot v), ref_Hash = s_RulesetHash (tv_RuleSetSnapshot v)\<rparr>"
  by (auto simp: ValidateVersion_def Let_def split: if_splits)

lemma saveVersion_new:
  assumes "saveVersion env a previous nxt st = Inr st'" "tv_Revision previous = 0"
  obtains row where "encodeVersion env a nxt = Inr row" "version_key row \<notin> version_key ` set (versions st)"
    "rt_sets st' = rt_sets st" "profiles st' = profiles st" "versions st' = versions st @ [row]"
  using assms by (auto simp: saveVersion_def on_catalog_def split: if_splits)

lemma saveVersion_edit:
  assumes "saveVersion env a (row_version r) nxt st = Inr st'" "gov_ok base st" "r \<in> set (versions st)" "vr_TenantID r = ga_TenantID a"
  obtains row n where "encodeVersion env a nxt = Inr row" "n = (if vr_State r \<noteq> ''draft'' then state_columns row r else all_columns row r)"
    "vr_State r \<noteq> ''draft'' \<Longrightarrow> same_content (row_version r) nxt" "rt_sets st' = rt_sets st" "profiles st' = profiles st"
    "versions st' = map (\<lambda>x. if x = r then n else x) (versions st)"
proof -
  have d: "distinct (map version_key (versions st))" and rev: "vr_Revision r \<noteq> 0" using assms(2,3) by (auto simp: gov_ok_def good_version_def)
  define sel where "sel x \<longleftrightarrow> vr_TenantID x = ga_TenantID a \<and> vr_TemplateID x = tv_TemplateID (row_version r) \<and> vr_Version x = tv_Version (row_version r) \<and>
    vr_Revision x = tv_Revision (row_version r) \<and> vr_State x = tv_State (row_version r)" for x :: version_row
  have [simp]: "tv_Revision (row_version r) = vr_Revision r" "tv_State (row_version r) = vr_State r" by (simp_all add: row_version_def)
  have sel: "sel x \<longleftrightarrow> x = r" if "x \<in> set (versions st)" for x
    using key_member [OF d that assms(3)] assms(4) by (auto simp: sel_def version_key_def row_version_def)
  from assms(1) obtain row where e: "encodeVersion env a nxt = Inr row" "vr_State r \<noteq> ''draft'' \<Longrightarrow> same_content (row_version r) nxt"
    and st': "st' = on_catalog (\<lambda>c. c\<lparr>cg_versions := map (\<lambda>x. if sel x then (if vr_State r \<noteq> ''draft'' then state_columns row else all_columns row) x else x) (versions st)\<rparr>) st"
    by (auto simp: saveVersion_def rev Let_def update_rows_def sel_def [abs_def] split: if_splits)
  show thesis
  proof (rule that [OF e(1) refl])
    show "versions st' = map (\<lambda>x. if x = r then (if vr_State r \<noteq> ''draft'' then state_columns row r else all_columns row r) else x) (versions st)"
      using sel by (simp add: st' on_catalog_def)
  qed (use e(2) in \<open>simp_all add: st' on_catalog_def\<close>)
qed

lemma gov_audit_frame:
  "gov_recordAudit env a action target reason details st = Inr st' \<Longrightarrow> rt_sets st' = rt_sets st \<and> rt_rest st' = rt_rest st"
  by (auto simp: gov_recordAudit_def recordAuditOutcome_def split: if_splits)

lemma operationSave_frame:
  "operationSave env a operation target key request res basis st = Inr st' \<Longrightarrow> rt_sets st' = rt_sets st \<and> profiles st' = profiles st \<and> versions st' = versions st"
  by (auto simp: operationSave_def on_catalog_def Let_def split: if_splits)

lemma bindableRuleSet_ok:
  assumes "bindableRuleSet env a ref st = Inr rs"
  obtains x where "x \<in> set (rt_sets st)" "rule_key x = (ga_TenantID a, ref_ID ref, ref_Version ref)" "rs = row_set x" "CanBindRuleSet (ge_tpl env) rs = Inr ()"
    "rr_State x = ''published''" "ref_Hash ref = [] \<or> ref_Hash ref = rr_RuleSetHash x"
proof -
  from assms obtain x where x: "rs_loadVersion st (ga_TenantID a) (ref_ID ref) (ref_Version ref) = Inr x" "rs = row_set x" "CanBindRuleSet (ge_tpl env) rs = Inr ()"
    "ref_Hash ref = [] \<or> ref_Hash ref = s_RulesetHash rs"
    by (auto simp: bindableRuleSet_def bindable_set_def GetVersion_tx_def get_version_body_def decodeRuleSet_ok split: if_splits)
  show thesis by (rule that [of x]) (use rs_loadVersion_ok [OF x(1)] x in \<open>auto simp: CanBindRuleSet_def row_set_def split: if_splits\<close>)
qed

end
