(* ===== verification/Catalog_Steps.thy ===== *)
theory Catalog_Steps
  imports Catalog_Invariant
begin

text \<open>
  Every transaction of the catalogue is one step with the effect of \<^verbatim>\<open>Catalog_Invariant\<close>; the relation of all steps, and
  the two tables as instances of the sealed table.
\<close>

section \<open>Profiles and drafts\<close>

lemma loadProfile_ok:
  assumes "loadProfile st a i = Inr p"
  shows "(ga_TenantID a, i) \<in> profile_key ` set (profiles st)"
proof -
  have "find (\<lambda>p. pf_TenantID p = ga_TenantID a \<and> pf_ID p = i) (profiles st) = Some p" using assms by (auto simp: loadProfile_def split: option.splits)
  from find_member [OF this] show ?thesis by (auto simp: profile_key_def intro!: image_eqI [of _ _ p])
qed

lemma create_profile_effect:
  assumes "create_profile_body env a key inp st = Inr (p, st')"
  shows "gov_effect base st st'"
proof -
  from assms obtain old where g: "operationGet env a ''create_profile'' (pi_ID inp) key (QProfile inp) st = Inr old" by (auto simp: create_profile_body_def)
  show ?thesis
  proof (cases old)
    case None
    define q where "q = \<lparr>pf_TenantID = ga_TenantID a, pf_ID = pi_ID inp, pf_Name = trim_space (pi_Name inp), pf_Revision = 1, pf_CreatedBy = ga_UserID a, pf_CreatedAt = ge_now env\<rparr>"
    from assms g None obtain st1 where "profile_key q \<notin> profile_key ` set (profiles st)"
      and "gov_recordAudit env a ''create_profile'' (pi_ID inp) (pi_Reason inp) (profile_details q) (on_catalog (\<lambda>c. c\<lparr>cg_profiles := cg_profiles c @ [q]\<rparr>) st) = Inr st1"
      and "operationSave env a ''create_profile'' (pi_ID inp) key (QProfile inp) (RProfile q) (show_int (pf_Revision q)) st1 = Inr st'"
      by (auto simp: create_profile_body_def Let_def q_def [symmetric] simp del: image_iff split: if_split_asm)
    then show ?thesis by (auto simp: gov_effect_def on_catalog_def dest!: gov_audit_frame operationSave_frame)
  next
    case (Some w)
    then have "st' = st" using assms g by (cases w) (auto simp: create_profile_body_def undecodable_def split: if_split_asm)
    then show ?thesis by auto
  qed
qed

lemma draft_definition_ok:
  assumes "draft_definition te p inp rs = Inr d"
  obtains rules where "CompileRuleSet te rs = Inr rules" "t_Rules d = rules" "t_ID d = di_TemplateID inp" "t_Version d = di_Version inp"
    "Hashes te d = Inr (t_ContentHash d, t_RulesetHash d)"
proof -
  from assms obtain rules where r: "CompileRuleSet te rs = Inr rules" by (auto simp: draft_definition_def)
  define d0 where "d0 = (di_Definition inp)\<lparr>t_ID := di_TemplateID inp, t_Version := di_Version inp, t_Name := (if blank (t_Name (di_Definition inp)) then pf_Name p else t_Name (di_Definition inp)),
    t_Source := di_SourceType inp, t_Scope := di_Scope inp, t_IsDemo := (di_SourceType inp = ''lingdoc_builtin'' \<and> di_Scope inp = ''internal-demo''), t_Rules := rules\<rparr>"
  have "WithHashes te d0 = Inr d" using assms by (simp add: draft_definition_def r d0_def Let_def)
  then obtain c h where h: "Hashes te d0 = Inr (c, h)" "d = d0\<lparr>t_ContentHash := c, t_RulesetHash := h\<rparr>" by (auto simp: WithHashes_def)
  have "Hashes te d = Inr (t_ContentHash d, t_RulesetHash d)" using Hashes_stamped [OF h(1), where a = h and b = c] by (cases d0) (simp add: h(2))
  then show thesis by (intro that [OF r]) (simp_all add: h(2) d0_def)
qed

lemma draft_version_valid:
  assumes "CanBindRuleSet (ge_tpl env) rs = Inr ()" "draft_definition (ge_tpl env) p inp rs = Inr d"
    and "ValidateBindingPolicies (ge_copy env) d rs (di_BindingPolicies inp) = Inr ()" "HashBindingPolicies (ge_copy env) (di_BindingPolicies inp) = Inr h"
  shows "ValidateVersion env (draft_version env a inp previous d rs h) = Inr ()"
proof -
  have rs: "ValidateRuleSet (ge_tpl env) rs = Inr ()" "s_State rs \<noteq> ''draft''" using assms(1) by (auto simp: CanBindRuleSet_def split: if_splits)
  obtain rules where "CompileRuleSet (ge_tpl env) rs = Inr rules" "t_Rules d = rules" "t_ID d = di_TemplateID inp" "t_Version d = di_Version inp"
    "Hashes (ge_tpl env) d = Inr (t_ContentHash d, t_RulesetHash d)" by (rule draft_definition_ok [OF assms(2)])
  then show ?thesis using rs assms(3,4) by (simp add: ValidateVersion_def draft_version_def Let_def)
qed

text \<open>A draft that is saved is new, or replaces a draft; either way it is a good version pinned to what it was made from.\<close>

lemma save_draft_cases:
  assumes "save_draft_body env a key inp st = Inr (v, st')" "st' \<noteq> st"
  obtains previous p rs d h st1 st2 details where "loadProfile st a (di_TemplateID inp) = Inr p"
    "case previous of None \<Rightarrow> True | Some w \<Rightarrow> loadVersion env st a (di_TemplateID inp) (di_Version inp) = Inr w \<and> (tv_Revision w > 0 \<longrightarrow> tv_State w = ''draft'')"
    "bindableRuleSet env a (di_RuleSet inp) st = Inr rs" "draft_definition (ge_tpl env) p inp rs = Inr d"
    "ValidateBindingPolicies (ge_copy env) d rs (di_BindingPolicies inp) = Inr ()" "HashBindingPolicies (ge_copy env) (di_BindingPolicies inp) = Inr h"
    "v = draft_version env a inp previous d rs h" "create_or_save env a previous v st = Inr st1"
    "gov_recordAudit env a ''save_draft'' (di_TemplateID inp @ ''/'' @ di_Version inp) (di_Reason inp) details st1 = Inr st2"
    "operationSave env a ''save_draft'' (di_TemplateID inp @ ''/'' @ di_Version inp) key (QDraft inp) (RVersion v) (show_int (tv_Revision v)) st2 = Inr st'"
proof -
  let ?target = "di_TemplateID inp @ ''/'' @ di_Version inp"
  from assms(1) obtain p old where p: "loadProfile st a (di_TemplateID inp) = Inr p" and g: "operationGet env a ''save_draft'' ?target key (QDraft inp) st = Inr old"
    by (auto simp: save_draft_body_def Let_def)
  show thesis
  proof (cases old)
    case (Some w)
    then have "st' = st" using assms(1) p g by (cases w) (auto simp: save_draft_body_def Let_def undecodable_def split: if_split_asm)
    then show ?thesis using assms(2) by simp
  next
    case None
    from assms(1) p g None obtain previous where l: "(case loadVersion env st a (di_TemplateID inp) (di_Version inp) of Inl e \<Rightarrow> if err_is e GovErrNotFound then Inr None else Inl e | Inr v \<Rightarrow> Inr (Some v)) = Inr previous"
      by (auto simp: save_draft_body_def Let_def)
    from assms(1) p g None l obtain rs d h st1 st2 details where r: "\<not> (case previous of None \<Rightarrow> False | Some w \<Rightarrow> tv_Revision w > 0 \<and> tv_State w \<noteq> ''draft'')"
      "bindableRuleSet env a (di_RuleSet inp) st = Inr rs" "draft_definition (ge_tpl env) p inp rs = Inr d"
      "ValidateBindingPolicies (ge_copy env) d rs (di_BindingPolicies inp) = Inr ()" "HashBindingPolicies (ge_copy env) (di_BindingPolicies inp) = Inr h"
      "v = draft_version env a inp previous d rs h" "create_or_save env a previous v st = Inr st1"
      "gov_recordAudit env a ''save_draft'' ?target (di_Reason inp) details st1 = Inr st2"
      "operationSave env a ''save_draft'' ?target key (QDraft inp) (RVersion v) (show_int (tv_Revision v)) st2 = Inr st'"
      by (auto simp: save_draft_body_def Let_def split: if_split_asm)
    show ?thesis by (rule that [OF p _ r(2-9)]) (use l r(1) in \<open>auto split: sum.splits if_split_asm option.splits\<close>)
  qed
qed

text \<open>A save over the row that was loaded replaces exactly that row.\<close>

abbreviation version_edit :: "'q gov_env \<Rightarrow> 'q gov_store \<Rightarrow> 'q gov_store \<Rightarrow> bool" where
  "version_edit base st st' \<equiv> table_edit version_key (\<lambda>r. good_version base r \<and> pinned st r) version_moves (versions st) (versions st') \<and>
     rt_sets st' = rt_sets st \<and> profiles st' = profiles st"

lemma saveVersion_effect:
  assumes sv: "saveVersion env a (row_version r) w st = Inr st'" and ok: "gov_ok base st" and r: "r \<in> set (versions st)" "vr_TenantID r = ga_TenantID a"
    and w: "ValidateVersion base w = Inr ()" "tv_TemplateID w = vr_TemplateID r" "tv_Version w = vr_Version r" "tv_Revision w = vr_Revision r + 1"
    and life: "life_moves (vr_State r) (tv_State w)" "tv_PublishedAt w = None \<longleftrightarrow> tv_State w = ''draft''" "tv_Recall w = None \<longleftrightarrow> tv_State w \<noteq> ''recalled''"
      "vr_State r \<noteq> ''draft'' \<Longrightarrow> tv_PublishedAt w = vr_PublishedAt r"
    and lk: "\<And>n. vr_TenantID n = vr_TenantID r \<Longrightarrow> vr_TemplateID n = vr_TemplateID r \<Longrightarrow> vr_Ruleset n = tv_RuleSetSnapshot w \<Longrightarrow> pinned st n"
  shows "version_edit base st st'"
proof -
  obtain row n where n: "encodeVersion env a w = Inr row" "n = (if vr_State r \<noteq> ''draft'' then state_columns row r else all_columns row r)"
    and sc: "vr_State r \<noteq> ''draft'' \<Longrightarrow> same_content (row_version r) w" and st': "rt_sets st' = rt_sets st" "profiles st' = profiles st"
      "versions st' = map (\<lambda>x. if x = r then n else x) (versions st)" by (rule saveVersion_edit [OF sv ok r]) blast
  have e: "w = row_version row" using encodeVersion_ok(2) [OF n(1) ValidateVersion_ref [OF w(1)]] by simp
  have gr: "good_version base r" using ok r(1) by (simp add: gov_ok_def)
  have key: "version_key n = version_key r" by (simp add: n(2) all_columns_def state_columns_def version_key_def)
  have cols: "vr_Revision n = vr_Revision r + 1" "vr_State n = tv_State w" "vr_Recall n = tv_Recall w" "vr_PublishedAt n = tv_PublishedAt w" "vr_Ruleset n = tv_RuleSetSnapshot w"
    using w(4) life(4) sc by (auto simp: n(2) e all_columns_def state_columns_def row_version_def same_content_def)
  have "ValidateVersion base (row_version n) = Inr ()"
  proof (cases "vr_State r = ''draft''")
    case True
    show ?thesis
      by (rule ValidateVersion_later [OF w(1)]) (use True w(2,3) ValidateVersion_state [OF w(1)] in \<open>simp_all add: n(2) e all_columns_def row_version_def\<close>)
  next
    case False
    have "ValidateVersion base (row_version r) = Inr ()" using gr by (simp add: good_version_def)
    then show ?thesis
      by (rule ValidateVersion_later) (use False ValidateVersion_state [OF w(1)] in \<open>simp_all add: n(2) e state_columns_def row_version_def\<close>)
  qed
  then have "good_version base n" using cols life(2,3) gr by (simp add: good_version_def)
  moreover have "pinned st n" using key cols(5) by (intro lk) (simp_all add: version_key_def)
  moreover have "vr_State r \<noteq> ''draft'' \<Longrightarrow> version_content n = version_content r" by (simp add: n(2) state_columns_def version_content_def)
  then have "version_moves r n" using key life(1) cols by (simp add: version_moves_def row_moves_def)
  ultimately show ?thesis using st' table_edit_one [OF r(1) key] by simp
qed

lemma save_draft_effect:
  assumes "same_codec base env" "gov_ok base st" "save_draft_body env a key inp st = Inr (v, st')"
  shows "gov_effect base st st'"
proof (cases "st' = st")
  case False
  obtain previous p rs d h st1 st2 details where g: "loadProfile st a (di_TemplateID inp) = Inr p"
    and prev: "case previous of None \<Rightarrow> True | Some w \<Rightarrow> loadVersion env st a (di_TemplateID inp) (di_Version inp) = Inr w \<and> (tv_Revision w > 0 \<longrightarrow> tv_State w = ''draft'')"
    and b: "bindableRuleSet env a (di_RuleSet inp) st = Inr rs" "draft_definition (ge_tpl env) p inp rs = Inr d"
      "ValidateBindingPolicies (ge_copy env) d rs (di_BindingPolicies inp) = Inr ()" "HashBindingPolicies (ge_copy env) (di_BindingPolicies inp) = Inr h"
    and v: "v = draft_version env a inp previous d rs h" and sv: "create_or_save env a previous v st = Inr st1"
    and fr: "gov_recordAudit env a ''save_draft'' (di_TemplateID inp @ ''/'' @ di_Version inp) (di_Reason inp) details st1 = Inr st2"
      "operationSave env a ''save_draft'' (di_TemplateID inp @ ''/'' @ di_Version inp) key (QDraft inp) (RVersion v) (show_int (tv_Revision v)) st2 = Inr st'"
    by (rule save_draft_cases [OF assms(3) False]) blast
  obtain x where x: "x \<in> set (rt_sets st)" "rule_key x = (ga_TenantID a, ref_ID (di_RuleSet inp), ref_Version (di_RuleSet inp))" "rs = row_set x" "CanBindRuleSet (ge_tpl env) rs = Inr ()"
    "rr_State x = ''published''" by (rule bindableRuleSet_ok [OF b(1)])
  have valid: "ValidateVersion base v = Inr ()" using draft_version_valid [OF x(4) b(2-4)] same_codec_ValidateVersion [OF assms(1)] by (simp add: v)
  have sel: "tv_TemplateID v = di_TemplateID inp" "tv_Version v = di_Version inp" "tv_RuleSetSnapshot v = rs" "tv_State v = ''draft''" "tv_PublishedAt v = None" "tv_Recall v = None"
    by (simp_all add: v draft_version_def)
  have lk: "pinned st r" if "vr_TenantID r = ga_TenantID a" "vr_TemplateID r = di_TemplateID inp" "vr_Ruleset r = rs" for r
    using x loadProfile_ok [OF g] that by (auto simp: pinned_def snapshot_of_def row_set_def rule_key_def intro!: bexI [of _ x])
  have "version_edit base st st1"
  proof (cases previous)
    case None
    obtain row where row: "encodeVersion env a v = Inr row" "version_key row \<notin> version_key ` set (versions st)" "rt_sets st1 = rt_sets st" "profiles st1 = profiles st"
      "versions st1 = versions st @ [row]" by (rule saveVersion_new [of env a "v\<lparr>tv_Revision := 0\<rparr>" v st st1]) (use sv None in \<open>simp_all add: create_or_save_def\<close>)
    have e: "row_version row = v" using encodeVersion_ok(2) [OF row(1) ValidateVersion_ref [OF valid]] .
    have "good_version base row" using valid sel e arg_cong [OF e, of tv_Revision] arg_cong [OF e, of tv_State] arg_cong [OF e, of tv_PublishedAt] arg_cong [OF e, of tv_Recall] None
      by (simp add: good_version_def row_version_def v draft_version_def)
    moreover have "pinned st row" using encodeVersion_ok(1) [OF row(1)] arg_cong [OF e, of tv_RuleSetSnapshot] sel by (intro lk) (simp_all add: version_key_def row_version_def)
    ultimately show "version_edit base st st1" using row table_edit_append [of version_key row] by simp
  next
    case (Some w)
    then have w: "loadVersion env st a (di_TemplateID inp) (di_Version inp) = Inr w" "tv_Revision w > 0 \<longrightarrow> tv_State w = ''draft''" using prev by simp_all
    obtain r where r: "r \<in> set (versions st)" "version_key r = (ga_TenantID a, di_TemplateID inp, di_Version inp)" "w = row_version r" by (rule loadVersion_ok [OF w(1)])
    then have "good_version base r" using assms(2) by (simp add: gov_ok_def)
    then have dr: "vr_State r = ''draft''" "tv_Revision v = vr_Revision r + 1" using w(2) Some by (simp_all add: r(3) row_version_def good_version_def v draft_version_def)
    show "version_edit base st st1"
      by (rule saveVersion_effect [of env a r v, OF _ assms(2) r(1) _ valid]) (use sv Some r dr sel lk in \<open>simp_all add: create_or_save_def version_key_def\<close>)
  qed
  then show ?thesis using gov_audit_frame [OF fr(1)] operationSave_frame [OF fr(2)] by (simp add: gov_effect_def)
qed auto

section \<open>Publication, withdrawal and recall\<close>

lemma publish_cases:
  assumes "publish_body env a key inp current st = Inr (w, st')" "st' \<noteq> st"
  obtains r st1 st2 details where "r \<in> set (versions st)" "version_key r = (ga_TenantID a, pu_TemplateID inp, pu_Version inp)" "vr_State r = ''draft''"
    "vr_Revision r = tv_Revision current" "w = published_version (ge_now env) (row_version r)" "ValidateVersion env w = Inr ()"
    "okR (bindableRuleSet env a (tv_RuleSet (row_version r)) st)" "saveVersion env a (row_version r) w st = Inr st1"
    "gov_recordAudit env a ''publish'' (pu_TemplateID inp @ ''/'' @ pu_Version inp) (pu_Reason inp) details st1 = Inr st2"
    "operationSave env a ''publish'' (pu_TemplateID inp @ ''/'' @ pu_Version inp) key (QPublish inp) (RVersion w) (show_int (tv_Revision w)) st2 = Inr st'"
proof -
  let ?target = "pu_TemplateID inp @ ''/'' @ pu_Version inp"
  from assms(1) obtain v old where l: "loadVersion env st a (pu_TemplateID inp) (pu_Version inp) = Inr v" and b: "okR (bindableRuleSet env a (tv_RuleSet v) st)"
    and g: "operationGet env a ''publish'' ?target key (QPublish inp) st = Inr old" by (auto simp: publish_body_def Let_def)
  obtain r where r: "r \<in> set (versions st)" "version_key r = (ga_TenantID a, pu_TemplateID inp, pu_Version inp)" "v = row_version r" by (rule loadVersion_ok [OF l])
  show thesis
  proof (cases old)
    case (Some x)
    then have "st' = st" using assms(1) l g by (cases x) (auto simp: publish_body_def Let_def undecodable_def split: if_split_asm)
    then show ?thesis using assms(2) by simp
  next
    case None
    from assms(1) l g None obtain st1 st2 details where s: "tv_State v = ''draft''" "tv_Revision v = tv_Revision current" "w = published_version (ge_now env) v" "ValidateVersion env w = Inr ()"
      "saveVersion env a v w st = Inr st1" "gov_recordAudit env a ''publish'' ?target (pu_Reason inp) details st1 = Inr st2"
      "operationSave env a ''publish'' ?target key (QPublish inp) (RVersion w) (show_int (tv_Revision w)) st2 = Inr st'"
      by (auto simp: publish_body_def Let_def split: if_split_asm)
    show ?thesis by (rule that [OF r(1,2) _ _ _ s(4) _ _ s(6,7)]) (use r(3) s b in \<open>simp_all add: row_version_def\<close>)
  qed
qed

lemma pinned_like: "gov_ok base st \<Longrightarrow> r \<in> set (versions st) \<Longrightarrow> vr_TenantID n = vr_TenantID r \<Longrightarrow> vr_TemplateID n = vr_TemplateID r \<Longrightarrow>
    vr_Ruleset n = vr_Ruleset r \<Longrightarrow> pinned st n"
  by (simp add: gov_ok_def pinned_def snapshot_of_def)

lemma publish_effect:
  assumes "same_codec base env" "gov_ok base st" "publish_body env a key inp current st = Inr (w, st')"
  shows "gov_effect base st st'"
proof (cases "st' = st")
  case False
  obtain r st1 st2 details where r: "r \<in> set (versions st)" "version_key r = (ga_TenantID a, pu_TemplateID inp, pu_Version inp)" "vr_State r = ''draft''"
    and w: "w = published_version (ge_now env) (row_version r)" "ValidateVersion env w = Inr ()" and sv: "saveVersion env a (row_version r) w st = Inr st1"
    and fr: "gov_recordAudit env a ''publish'' (pu_TemplateID inp @ ''/'' @ pu_Version inp) (pu_Reason inp) details st1 = Inr st2"
      "operationSave env a ''publish'' (pu_TemplateID inp @ ''/'' @ pu_Version inp) key (QPublish inp) (RVersion w) (show_int (tv_Revision w)) st2 = Inr st'"
    by (rule publish_cases [OF assms(3) False]) blast
  have gr: "good_version base r" using assms(2) r(1) by (simp add: gov_ok_def)
  have "version_edit base st st1"
    by (rule saveVersion_effect [OF sv assms(2) r(1)])
      (use gr r w same_codec_ValidateVersion [OF assms(1)] pinned_like [OF assms(2) r(1)] in \<open>simp_all add: version_key_def published_version_def row_version_def life_moves_def good_version_def\<close>)
  then show ?thesis using gov_audit_frame [OF fr(1)] operationSave_frame [OF fr(2)] by (simp add: gov_effect_def)
qed auto

lemma transition_cases:
  assumes "catalog_transition_body env a key inp action advice st = Inr (w, st')" "st' \<noteq> st"
  obtains r st1 st2 details where "r \<in> set (versions st)" "version_key r = (ga_TenantID a, gi_TemplateID inp, gi_Version inp)" "vr_State r = ''published''"
    "ValidateVersion env (row_version r) = Inr ()" "transition_result env a inp action advice (row_version r) st = Inr w" "saveVersion env a (row_version r) w st = Inr st1"
    "gov_recordAudit env a action (gi_TemplateID inp @ ''/'' @ gi_Version inp) (gi_Reason inp) details st1 = Inr st2"
    "operationSave env a action (gi_TemplateID inp @ ''/'' @ gi_Version inp) key (QGovernance inp advice) (RVersion w) (show_int (tv_Revision w)) st2 = Inr st'"
proof -
  let ?target = "gi_TemplateID inp @ ''/'' @ gi_Version inp"
  from assms(1) obtain v old where l: "loadVersionForMutation env st a (gi_TemplateID inp) (gi_Version inp) = Inr v"
    and g: "operationGet env a action ?target key (QGovernance inp advice) st = Inr old" by (auto simp: catalog_transition_body_def Let_def)
  obtain r where r: "r \<in> set (versions st)" "version_key r = (ga_TenantID a, gi_TemplateID inp, gi_Version inp)" "v = row_version r" "ValidateVersion env v = Inr ()"
    by (rule loadVersion_ok [OF loadVersionForMutation_ok [OF l]])
  show thesis
  proof (cases old)
    case (Some x)
    then have "st' = st" using assms(1) l g by (cases x) (auto simp: catalog_transition_body_def Let_def undecodable_def split: if_split_asm)
    then show ?thesis using assms(2) by simp
  next
    case None
    from assms(1) l g None obtain st1 st2 details where s: "tv_State v = ''published''" "transition_result env a inp action advice v st = Inr w"
      "saveVersion env a v w st = Inr st1" "gov_recordAudit env a action ?target (gi_Reason inp) details st1 = Inr st2"
      "operationSave env a action ?target key (QGovernance inp advice) (RVersion w) (show_int (tv_Revision w)) st2 = Inr st'"
      by (auto simp: catalog_transition_body_def Let_def split: if_split_asm)
    show ?thesis by (rule that [OF r(1,2) _ _ _ _ s(4,5)]) (use r(3,4) s in \<open>simp_all add: row_version_def\<close>)
  qed
qed

lemma transition_effect:
  assumes "same_codec base env" "gov_ok base st" "catalog_transition_body env a key inp action advice st = Inr (w, st')"
  shows "gov_effect base st st'"
proof (cases "st' = st")
  case False
  obtain r st1 st2 details where r: "r \<in> set (versions st)" "version_key r = (ga_TenantID a, gi_TemplateID inp, gi_Version inp)" "vr_State r = ''published''"
    and v: "ValidateVersion env (row_version r) = Inr ()" and w: "transition_result env a inp action advice (row_version r) st = Inr w"
    and sv: "saveVersion env a (row_version r) w st = Inr st1"
    and fr: "gov_recordAudit env a action (gi_TemplateID inp @ ''/'' @ gi_Version inp) (gi_Reason inp) details st1 = Inr st2"
      "operationSave env a action (gi_TemplateID inp @ ''/'' @ gi_Version inp) key (QGovernance inp advice) (RVersion w) (show_int (tv_Revision w)) st2 = Inr st'"
    by (rule transition_cases [OF assms(3) False]) blast
  have gr: "vr_PublishedAt r \<noteq> None" "vr_Recall r = None" using assms(2) r(1,3) by (simp_all add: gov_ok_def good_version_def)
  obtain sv' rc where u: "w = (row_version r)\<lparr>tv_Revision := vr_Revision r + 1, tv_UpdatedAt := ge_now env, tv_State := sv', tv_Recall := rc\<rparr>"
    "sv' = ''withdrawn'' \<and> rc = None \<or> sv' = ''recalled'' \<and> rc \<noteq> None"
  proof (cases "action = ''withdraw''")
    case True
    then have "w = (row_version r)\<lparr>tv_Revision := vr_Revision r + 1, tv_UpdatedAt := ge_now env, tv_State := ''withdrawn'', tv_Recall := None\<rparr>"
      using w gr(2) by (auto simp: transition_result_def row_version_def Let_def)
    then show thesis by (rule that) simp
  next
    case False
    then obtain projects where "w = (row_version r)\<lparr>tv_Revision := vr_Revision r + 1, tv_UpdatedAt := ge_now env, tv_State := ''recalled'',
        tv_Recall := Some \<lparr>rl_Reason = gi_Reason inp, rl_MigrationAdvice = advice, rl_AffectedProjectIDs = projects, rl_ActorID = ga_UserID a, rl_RecordedAt = ge_now env\<rparr>\<rparr>"
      using w by (auto simp: transition_result_def row_version_def Let_def)
    then show thesis by (rule that) simp
  qed
  have vw: "ValidateVersion base w = Inr ()" unfolding same_codec_ValidateVersion [OF assms(1), symmetric] by (rule ValidateVersion_later [OF v]) (use u in auto)
  have "version_edit base st st1"
    by (rule saveVersion_effect [OF sv assms(2) r(1) _ vw])
      (use gr r u pinned_like [OF assms(2) r(1)] in \<open>auto simp: version_key_def row_version_def life_moves_def\<close>)
  then show ?thesis using gov_audit_frame [OF fr(1)] operationSave_frame [OF fr(2)] by (simp add: gov_effect_def)
qed auto

section \<open>Governed rule sets\<close>

lemma gov_effect_same:
  "gov_effect base st st1 \<Longrightarrow> rt_sets st' = rt_sets st1 \<Longrightarrow> versions st' = versions st1 \<Longrightarrow> profiles st' = profiles st1 \<Longrightarrow> gov_effect base st st'"
  by (simp add: gov_effect_def)

lemma rule_draft_effect:
  assumes "same_codec base env" "rule_draft_body env a key inp st = Inr (rs, st')"
  shows "gov_effect base st st'"
proof -
  let ?target = "s_ID (rd_Draft inp) @ ''/'' @ s_Version (rd_Draft inp)"
  from assms(2) obtain old where g: "operationGet env a ''ruleset_create_draft'' ?target key (QRuleDraft inp) st = Inr old" by (auto simp: rule_draft_body_def Let_def)
  show ?thesis
  proof (cases old)
    case None
    from assms(2) g None obtain st1 st2 basis details where s: "create_draft_check (ge_rule env) a (rd_Draft inp) = Inr ()" "create_draft_body (ge_rule env) a (rd_Draft inp) st = Inr st1"
      "gov_recordAudit env a ''ruleset_create_draft'' (sha256_hex ?target) (rd_Reason inp) details st1 = Inr st2"
      "operationSave env a ''ruleset_create_draft'' ?target key (QRuleDraft inp) (RRuleSet (rd_Draft inp)) basis st2 = Inr st'"
      by (auto simp: rule_draft_body_def Let_def simp del: append.simps)
    have "re_tpl (ge_rule env) = ge_tpl base" using assms(1) by (simp add: same_codec_def)
    from gov_effect_same [OF create_draft_effect [OF this s(1,2)]] show ?thesis using gov_audit_frame [OF s(3)] operationSave_frame [OF s(4)] by simp
  next
    case (Some w)
    then have "st' = st" using assms(2) g by (cases w) (auto simp: rule_draft_body_def Let_def undecodable_def split: if_split_asm)
    then show ?thesis by auto
  qed
qed

lemma rule_action_listed: "action \<in> {''publish'', ''withdraw'', ''recall''} \<Longrightarrow> (action, rule_action te action) \<in> rule_actions te"
  by (auto simp: rule_action_def rule_actions_def)

lemma govern_write_effect:
  assumes "same_codec base env" "gov_ok base st" "action \<in> {''publish'', ''withdraw'', ''recall''}" "govern_write env a i version key inp action current replay st = Inr (rs, st')"
  shows "gov_effect base st st'"
proof -
  let ?target = "i @ ''/'' @ version"
  from assms(4) obtain old where g: "operationGet env a (''ruleset_'' @ action) ?target key (QRuleGovernance inp) st = Inr old" by (auto simp: govern_write_def Let_def)
  show ?thesis
  proof (cases old)
    case None
    from assms(4) g None obtain st1 st2 details where s: "rs_transition_body (ge_rule env) a i version action (rule_action (ge_tpl env) action) st = Inr (rs, st1)"
      "gov_recordAudit env a (''ruleset_'' @ action) (sha256_hex ?target) (rg_Reason inp) details st1 = Inr st2"
      "operationSave env a (''ruleset_'' @ action) ?target key (QRuleGovernance inp) (RRuleSet rs) (govern_basis rs) st2 = Inr st'"
      by (auto simp: govern_write_def Let_def simp del: append.simps split: if_split_asm)
    have te: "re_tpl (ge_rule env) = ge_tpl base" using assms(1) by (simp add: same_codec_def)
    have "gov_effect base st st1" by (rule rs_transition_effect [OF te _ assms(2) s(1)]) (use rule_action_listed [OF assms(3)] te in simp)
    from gov_effect_same [OF this] show ?thesis using gov_audit_frame [OF s(2)] operationSave_frame [OF s(3)] by simp
  next
    case (Some w)
    then have "st' = st" using assms(4) g by (cases w) (auto simp: govern_write_def Let_def undecodable_def split: if_split_asm)
    then show ?thesis by auto
  qed
qed

section \<open>All steps\<close>

text \<open>
  One step: the transaction body of a call that changes the tables, the receipt of a refused call, or a change to what the
  catalogue does not write (the tenant members, and what \<^verbatim>\<open>cg_rest\<close> stands for).
\<close>

inductive gov_step :: "'q gov_env \<Rightarrow> 'q gov_store \<Rightarrow> 'q gov_store \<Rightarrow> bool" for base where
  create_draft: "re_tpl env = ge_tpl base \<Longrightarrow> create_draft_check env a draft = Inr () \<Longrightarrow> create_draft_body env a draft st = Inr st' \<Longrightarrow> gov_step base st st'"
| rule_transition: "re_tpl env = ge_tpl base \<Longrightarrow> (action, apply) \<in> rule_actions (ge_tpl base) \<Longrightarrow>
    rs_transition_body env a i version action apply st = Inr (rs, st') \<Longrightarrow> gov_step base st st'"
| rule_draft: "same_codec base env \<Longrightarrow> rule_draft_body env a key rinp st = Inr (rs, st') \<Longrightarrow> gov_step base st st'"
| govern: "same_codec base env \<Longrightarrow> action \<in> {''publish'', ''withdraw'', ''recall''} \<Longrightarrow>
    govern_write env a i version key gvinp action current replay st = Inr (rs, st') \<Longrightarrow> gov_step base st st'"
| create_profile: "same_codec base env \<Longrightarrow> create_profile_body env a key pinp st = Inr (p, st') \<Longrightarrow> gov_step base st st'"
| save_draft: "same_codec base env \<Longrightarrow> save_draft_body env a key dinp st = Inr (v, st') \<Longrightarrow> gov_step base st st'"
| publish: "same_codec base env \<Longrightarrow> publish_body env a key uinp current st = Inr (v, st') \<Longrightarrow> gov_step base st st'"
| transition: "same_codec base env \<Longrightarrow> catalog_transition_body env a key ginp action advice st = Inr (v, st') \<Longrightarrow> gov_step base st st'"
| receipt: "same_codec base env \<Longrightarrow> recordAuditOutcome env a action target reason outcome details st = Inr st' \<Longrightarrow> gov_step base st st'"
| outside: "gov_step base st (st\<lparr>rt_members := ms, rt_rest := (rt_rest st)\<lparr>cg_rest := q\<rparr>\<rparr>)"

lemma gov_step_effect: "gov_step base st st' \<Longrightarrow> gov_ok base st \<Longrightarrow> gov_effect base st st'"
proof (induction rule: gov_step.induct)
  case (receipt env a action target reason outcome details st st')
  then have "rt_sets st' = rt_sets st \<and> rt_rest st' = rt_rest st" by (auto simp: recordAuditOutcome_def split: if_splits)
  then show ?case by (intro gov_effect_frame) simp_all
next
  case (outside st ms q)
  then show ?case by (intro gov_effect_frame) simp_all
qed (auto intro: create_draft_effect rs_transition_effect create_profile_effect save_draft_effect publish_effect transition_effect
    rule_draft_effect govern_write_effect)

lemma gov_step_ok: "gov_step base st st' \<Longrightarrow> gov_ok base st \<Longrightarrow> gov_ok base st'"
  by (rule gov_effect_ok [OF gov_step_effect])

lemma gov_ok_keys: "gov_ok base st \<Longrightarrow> distinct (map rule_key (rt_sets st))" "gov_ok base st \<Longrightarrow> distinct (map version_key (versions st))"
  by (simp_all add: gov_ok_def)

interpretation rule_sets: sealed_table "gov_step base" "gov_ok base" rt_sets rule_key rule_content rr_State for base :: "'q gov_env"
  by unfold_locales (assumption | rule gov_step_ok gov_ok_keys gov_effect_rules gov_step_effect)+

interpretation template_versions: versioned_table "gov_step base" "gov_ok base" "\<lambda>st. cg_versions (rt_rest st)" version_key version_content vr_State vr_Revision
  for base :: "'q gov_env"
  by unfold_locales (assumption | rule gov_step_ok gov_ok_keys gov_effect_versions gov_effect_revision gov_step_effect)+

end
