(* ===== verification/Catalog_Calls.thy ===== *)
theory Catalog_Calls
  imports Catalog_Steps
begin

text \<open>
  The calls of the rule set store and the catalogue as they are made: each opens its transactions in the attempts it is
  given, between which other calls may have changed the tables, and every one of them is a sequence of steps.
\<close>

definition quiet :: "'q gov_env \<Rightarrow> 'q gov_store attempt \<Rightarrow> bool" where
  "quiet base tx \<longleftrightarrow> (\<forall>st. (gov_step base)\<^sup>*\<^sup>* st (at_before tx st))"

lemma quiet_before: "quiet base tx \<Longrightarrow> (gov_step base)\<^sup>*\<^sup>* st (at_before tx st)"
  by (simp add: quiet_def)

lemma db_Transaction_ok:
  "db_Transaction tx body st = (st', Inr v) \<Longrightarrow> body (at_before tx st) = Inr (v, st')"
  by (auto simp: db_Transaction_def Let_def split: option.splits sum.splits prod.splits)

lemma db_Transaction_steps:
  assumes "quiet base tx" "\<And>s r s'. body s = Inr (r, s') \<Longrightarrow> (gov_step base)\<^sup>*\<^sup>* s s'"
  shows "(gov_step base)\<^sup>*\<^sup>* st (fst (db_Transaction tx body st))"
  using quiet_before [OF assms(1), of st] assms(2) [of "at_before tx st"]
  by (auto simp: db_Transaction_def Let_def split: option.splits sum.splits intro: rtranclp_trans)

lemma read_steps:
  assumes "quiet base tx"
  shows "(gov_step base)\<^sup>*\<^sup>* st (fst (db_Transaction tx (unchanged f) st))"
  by (rule db_Transaction_steps [OF assms]) (auto simp: unchanged_def)

text \<open>The failure receipt is a step of any relation whose transactions are: one that reads, one that appends a record.\<close>

lemma receipt_star:
  assumes "\<And>s. R\<^sup>*\<^sup>* s (fst (db_Transaction (sched 2) (unchanged (receipt_metadata env a i version)) s))"
    and "\<And>s target said outcome details. R\<^sup>*\<^sup>* s (fst (db_Transaction (sched 3) (\<lambda>t. bindR (recordAuditOutcome env a action target said outcome details t) (\<lambda>t'. Inr ((), t'))) s))"
  shows "R\<^sup>*\<^sup>* st (fst (auditCatalogFailureWithDetails env sched a action i version reason cause extra st))"
proof -
  have m: "R\<^sup>*\<^sup>* st (fst (if version = [] then (st, Inr []) else db_Transaction (sched 2) (unchanged (receipt_metadata env a i version)) st))"
    by (simp add: assms(1))
  obtain st1 md where md: "(if version = [] then (st, Inr []) else db_Transaction (sched 2) (unchanged (receipt_metadata env a i version)) st) = (st1, md)" by (rule prod.exhaust)
  let ?target = "if version = [] then i else i @ ''/'' @ version" and ?said = "if validReason reason then reason else ''rejected request without valid governance reason''"
    and ?details = "filter (\<lambda>(k, _). k \<notin> fst ` set extra) [(''error_code'', catalogFailureCode cause), (''template_id'', i), (''version'', version)] @ extra @
      (if version = [] then [] else receipt_found env (sched 2) a i version st) @ (case md of Inr m \<Rightarrow> [] | Inl _ \<Rightarrow> [(''current_version_metadata_unavailable'', ''true'')])"
  obtain st2 f where tx: "db_Transaction (sched 3) (\<lambda>t. bindR (recordAuditOutcome env a action ?target ?said ''failure'' ?details t) (\<lambda>t'. Inr ((), t'))) st1 = (st2, f)"
    by (rule prod.exhaust)
  have "R\<^sup>*\<^sup>* st st2" using rtranclp_trans [OF m [unfolded md fst_conv] assms(2) [of st1 ?target ?said "''failure''" ?details, unfolded tx fst_conv]] .
  moreover have "fst (auditCatalogFailureWithDetails env sched a action i version reason cause extra st) \<in> {st, st2}"
    unfolding auditCatalogFailureWithDetails_def Let_def md case_prod_conv tx by (simp split: sum.split)
  ultimately show ?thesis by auto
qed

lemma with_receipt_star:
  assumes "\<And>s. R\<^sup>*\<^sup>* s (fst (db_Transaction (sched 2) (unchanged (receipt_metadata env a i version)) s))"
    and "\<And>s target said outcome details. R\<^sup>*\<^sup>* s (fst (db_Transaction (sched 3) (\<lambda>t. bindR (recordAuditOutcome env a action target said outcome details t) (\<lambda>t'. Inr ((), t'))) s))"
    and "R\<^sup>*\<^sup>* st (fst answer)"
  shows "R\<^sup>*\<^sup>* st (fst (with_receipt env sched a action i version reason answer))"
proof -
  obtain st1 r where ans: "answer = (st1, r)" by (rule prod.exhaust)
  have "R\<^sup>*\<^sup>* st1 (fst (with_receipt env sched a action i version reason answer))"
  proof (cases r)
    case (Inl e)
    obtain st2 f where "auditCatalogFailureWithDetails env sched a action i version reason e [] st1 = (st2, f)" by (rule prod.exhaust)
    then show ?thesis using Inl receipt_star [of R sched env a i version action st1 reason e "[]", OF assms(1,2)]
      by (simp add: with_receipt_def ans split: option.split)
  qed (simp add: with_receipt_def ans)
  then show ?thesis using assms(3) rtranclp_trans by (simp add: ans)
qed

lemma receipt_steps:
  assumes "same_codec base env" "quiet base (sched 2)" "quiet base (sched 3)"
  shows "(gov_step base)\<^sup>*\<^sup>* st (fst (auditCatalogFailureWithDetails env sched a action i version reason cause extra st))"
  by (rule receipt_star [OF read_steps [OF assms(2)] db_Transaction_steps [OF assms(3)]]) (auto intro: gov_step.receipt [OF assms(1)])

lemma with_receipt_steps:
  assumes "same_codec base env" "quiet base (sched 2)" "quiet base (sched 3)" "(gov_step base)\<^sup>*\<^sup>* st (fst answer)"
  shows "(gov_step base)\<^sup>*\<^sup>* st (fst (with_receipt env sched a action i version reason answer))"
  by (rule with_receipt_star [OF read_steps [OF assms(2)] db_Transaction_steps [OF assms(3)] assms(4)]) (auto intro: gov_step.receipt [OF assms(1)])

section \<open>The calls\<close>

inductive gov_call :: "'q gov_env \<Rightarrow> 'q gov_store \<Rightarrow> 'q gov_store \<Rightarrow> bool" for base where
  call_CreateDraft: "re_tpl renv = ge_tpl base \<Longrightarrow> quiet base tx \<Longrightarrow> gov_call base st (fst (CreateDraft renv a draft tx st))"
| call_rs_Publish: "re_tpl renv = ge_tpl base \<Longrightarrow> quiet base tx \<Longrightarrow> gov_call base st (fst (rs_Publish renv a i version tx st))"
| call_rs_Withdraw: "re_tpl renv = ge_tpl base \<Longrightarrow> quiet base tx \<Longrightarrow> gov_call base st (fst (rs_Withdraw renv a i version tx st))"
| call_rs_Recall: "re_tpl renv = ge_tpl base \<Longrightarrow> quiet base tx \<Longrightarrow> gov_call base st (fst (rs_Recall renv a i version tx st))"
| call_rs_GetVersion: "re_tpl renv = ge_tpl base \<Longrightarrow> quiet base tx \<Longrightarrow> gov_call base st (fst (rs_GetVersion renv a i version tx st))"
| call_rs_ListVersions: "re_tpl renv = ge_tpl base \<Longrightarrow> quiet base tx \<Longrightarrow> gov_call base st (fst (rs_ListVersions renv a i tx st))"
| call_GetRuleSetVersion: "same_codec base env \<Longrightarrow> quiet base tx \<Longrightarrow> gov_call base st (fst (GetRuleSetVersion env tx a i version st))"
| call_ListRuleSetVersions: "same_codec base env \<Longrightarrow> quiet base tx \<Longrightarrow> gov_call base st (fst (ListRuleSetVersions env tx a i st))"
| call_CreateRuleSetDraft: "same_codec base env \<Longrightarrow> quiet base tx \<Longrightarrow> gov_call base st (fst (CreateRuleSetDraft env tx a key rinp st))"
| call_PublishRuleSet: "same_codec base env \<Longrightarrow> (\<And>n. quiet base (sched n)) \<Longrightarrow> gov_call base st (fst (svc_PublishRuleSet env sched a i version key gvinp st))"
| call_WithdrawRuleSet: "same_codec base env \<Longrightarrow> (\<And>n. quiet base (sched n)) \<Longrightarrow> gov_call base st (fst (svc_WithdrawRuleSet env sched a i version key gvinp st))"
| call_RecallRuleSet: "same_codec base env \<Longrightarrow> (\<And>n. quiet base (sched n)) \<Longrightarrow> gov_call base st (fst (svc_RecallRuleSet env sched a i version key gvinp st))"
| call_CreateProfile: "same_codec base env \<Longrightarrow> (\<And>n. quiet base (sched n)) \<Longrightarrow> gov_call base st (fst (CreateProfile env sched a key pinp st))"
| call_SaveDraft: "same_codec base env \<Longrightarrow> (\<And>n. quiet base (sched n)) \<Longrightarrow> gov_call base st (fst (SaveDraft env sched a key dinp st))"
| call_Publish: "same_codec base env \<Longrightarrow> (\<And>n. quiet base (sched n)) \<Longrightarrow> gov_call base st (fst (Publish env sched a key uinp st))"
| call_Withdraw: "same_codec base env \<Longrightarrow> (\<And>n. quiet base (sched n)) \<Longrightarrow> gov_call base st (fst (Withdraw env sched a key ginp st))"
| call_Recall: "same_codec base env \<Longrightarrow> (\<And>n. quiet base (sched n)) \<Longrightarrow> gov_call base st (fst (Recall env sched a key ginp advice st))"
| call_GetVersion: "(\<And>n. quiet base (sched n)) \<Longrightarrow> gov_call base st (fst (GetVersion env sched a i version st))"
| call_ListVersions: "(\<And>n. quiet base (sched n)) \<Longrightarrow> gov_call base st (fst (ListVersions env sched a i st))"
| call_ListProfiles: "(\<And>n. quiet base (sched n)) \<Longrightarrow> gov_call base st (fst (ListProfiles env sched a scope state st))"
| call_Record: "same_codec base env \<Longrightarrow> RecordCopySuccess env a pid copyID n i version content hashes st = Inr st' \<Longrightarrow> gov_call base st st'"
| call_RecordSwitch: "same_codec base env \<Longrightarrow> RecordSwitchSuccess env a pid copyID n i version content hashes st = Inr st' \<Longrightarrow> gov_call base st st'"
| call_RecordCopyFailure: "same_codec base env \<Longrightarrow> (\<And>n. quiet base (sched n)) \<Longrightarrow> gov_call base st (fst (RecordCopyFailure env sched a failure st))"
| call_RecordSwitchFailure: "same_codec base env \<Longrightarrow> (\<And>n. quiet base (sched n)) \<Longrightarrow> gov_call base st (fst (RecordSwitchFailure env sched a failure st))"
| call_outside: "gov_call base st (st\<lparr>rt_members := ms, rt_rest := (rt_rest st)\<lparr>cg_rest := q\<rparr>\<rparr>)"

lemma rs_transition_steps:
  assumes "re_tpl env = ge_tpl base" "quiet base tx" "(action, apply) \<in> rule_actions (ge_tpl base)"
  shows "(gov_step base)\<^sup>*\<^sup>* st (fst (rs_transition env a i version action apply tx st))"
proof -
  have "(gov_step base)\<^sup>*\<^sup>* st (fst (db_Transaction tx (rs_transition_body env a i version action apply) st))"
    by (rule db_Transaction_steps [OF assms(2)]) (auto intro: gov_step.rule_transition [OF assms(1,3)])
  then show ?thesis by (simp add: rs_transition_def split: sum.split)
qed

lemma CreateDraft_steps:
  assumes "re_tpl env = ge_tpl base" "quiet base tx"
  shows "(gov_step base)\<^sup>*\<^sup>* st (fst (CreateDraft env a draft tx st))"
proof (cases "create_draft_check env a draft")
  case (Inr u)
  then have c: "create_draft_check env a draft = Inr ()" by simp
  have "(gov_step base)\<^sup>*\<^sup>* st (fst (db_Transaction tx (\<lambda>t. bindR (create_draft_body env a draft t) (\<lambda>t'. Inr ((), t'))) st))"
    by (rule db_Transaction_steps [OF assms(2)]) (auto intro: gov_step.create_draft [OF assms(1) c])
  then show ?thesis by (simp add: CreateDraft_def c)
qed (simp add: CreateDraft_def)

lemma Publish_steps:
  assumes "same_codec base env" "\<And>n. quiet base (sched n)"
  shows "(gov_step base)\<^sup>*\<^sup>* st (fst (Publish env sched a key inp st))"
  unfolding Publish_def
proof (rule with_receipt_steps [OF assms(1,2,2)])
  have w: "(gov_step base)\<^sup>*\<^sup>* st1 (fst (db_Transaction (sched 1) (publish_body env a key inp current) st1))" for st1 current
    by (rule db_Transaction_steps [OF assms(2)]) (auto intro: gov_step.publish [OF assms(1)])
  obtain st1 r where rd: "db_Transaction (sched 0) (unchanged (publish_read env a inp)) st = (st1, r)" by (rule prod.exhaust)
  have "(gov_step base)\<^sup>*\<^sup>* st st1" using read_steps [OF assms(2) [of 0], where st = st and f = "publish_read env a inp"] by (simp add: rd)
  then show "(gov_step base)\<^sup>*\<^sup>* st (fst (case ready env a of Inl e \<Rightarrow> (st, Inl e)
     | Inr _ \<Rightarrow>
         if \<not> validKey key \<or> pu_ExpectedRevision inp < 1 \<or> \<not> validReason (pu_Reason inp) \<or> pu_ReplayFixtureIDs inp = [] then (st, Inl (Sentinel GovErrInvalidRequest))
         else (case ge_Replay env of
             None \<Rightarrow> (st, Inl (Sentinel GovErrReplayRequired))
           | Some verify \<Rightarrow>
               (case db_Transaction (sched 0) (unchanged (publish_read env a inp)) st of
                  (st1, Inl e) \<Rightarrow> (st1, Inl e)
                | (st1, Inr current) \<Rightarrow>
                    (case bindR (checkTemplateSources env a (tv_Sources current)) (\<lambda>_. verify a current (pu_ReplayFixtureIDs inp)) of
                       Inl e \<Rightarrow> (st1, Inl e)
                     | Inr _ \<Rightarrow> db_Transaction (sched 1) (publish_body env a key inp current) st1)))))"
    using rtranclp_trans [OF _ w] by (auto simp: rd split: sum.split option.split)
qed

lemma CreateProfile_steps:
  assumes "same_codec base env" "\<And>n. quiet base (sched n)"
  shows "(gov_step base)\<^sup>*\<^sup>* st (fst (CreateProfile env sched a key inp st))"
  unfolding CreateProfile_def
proof (rule with_receipt_steps [OF assms(1,2,2)])
  have "(gov_step base)\<^sup>*\<^sup>* st (fst (db_Transaction (sched 0) (create_profile_body env a key inp) st))"
    by (rule db_Transaction_steps [OF assms(2)]) (auto intro: gov_step.create_profile [OF assms(1)])
  then show "(gov_step base)\<^sup>*\<^sup>* st (fst (case ready env a of Inl e \<Rightarrow> (st, Inl e)
      | Inr _ \<Rightarrow> if \<not> validKey key \<or> \<not> stableID (pi_ID inp) \<or> blank (pi_Name inp) \<or> length (pi_Name inp) > 240 \<or> \<not> validReason (pi_Reason inp)
          then (st, Inl (Sentinel GovErrInvalidRequest)) else db_Transaction (sched 0) (create_profile_body env a key inp) st))"
    by (simp split: sum.split)
qed

lemma SaveDraft_steps:
  assumes "same_codec base env" "\<And>n. quiet base (sched n)"
  shows "(gov_step base)\<^sup>*\<^sup>* st (fst (SaveDraft env sched a key inp st))"
  unfolding SaveDraft_def
proof (rule with_receipt_steps [OF assms(1,2,2)])
  have w: "(gov_step base)\<^sup>*\<^sup>* st1 (fst (db_Transaction (sched 1) (save_draft_body env a key inp) st1))" for st1
    by (rule db_Transaction_steps [OF assms(2)]) (auto intro: gov_step.save_draft [OF assms(1)])
  obtain st1 r where rd: "db_Transaction (sched 0) (unchanged (\<lambda>t. authorizeTemplate env t a ''save_draft'' (di_TemplateID inp))) st = (st1, r)" by (rule prod.exhaust)
  have "(gov_step base)\<^sup>*\<^sup>* st st1"
    using read_steps [OF assms(2) [of 0], where st = st and f = "\<lambda>t. authorizeTemplate env t a ''save_draft'' (di_TemplateID inp)"] by (simp add: rd)
  then show "(gov_step base)\<^sup>*\<^sup>* st (fst (case bindR (ready env a) (\<lambda>_. if \<not> validKey key then Inl (Sentinel GovErrInvalidRequest) else validateDraftInput inp) of
          Inl e \<Rightarrow> (st, Inl e)
        | Inr _ \<Rightarrow>
            (case db_Transaction (sched 0) (unchanged (\<lambda>t. authorizeTemplate env t a ''save_draft'' (di_TemplateID inp))) st of
               (st1, Inl e) \<Rightarrow> (st1, Inl e)
             | (st1, Inr _) \<Rightarrow>
                 (case checkTemplateSources env a (di_Sources inp) of
                    Inl e \<Rightarrow> (st1, Inl e)
                  | Inr _ \<Rightarrow> db_Transaction (sched 1) (save_draft_body env a key inp) st1))))"
    using rtranclp_trans [OF _ w] by (auto simp: rd split: sum.split)
qed

lemma catalog_transition_steps:
  assumes "same_codec base env" "\<And>n. quiet base (sched n)"
  shows "(gov_step base)\<^sup>*\<^sup>* st (fst (catalog_transition env sched a key inp action advice st))"
  unfolding catalog_transition_def
proof (rule with_receipt_steps [OF assms(1,2,2)])
  have "(gov_step base)\<^sup>*\<^sup>* st (fst (db_Transaction (sched 0) (catalog_transition_body env a key inp action advice) st))"
    by (rule db_Transaction_steps [OF assms(2)]) (auto intro: gov_step.transition [OF assms(1)])
  then show "(gov_step base)\<^sup>*\<^sup>* st (fst (case ready env a of Inl e \<Rightarrow> (st, Inl e)
      | Inr _ \<Rightarrow> if \<not> validKey key \<or> gi_ExpectedRevision inp < 1 \<or> \<not> validReason (gi_Reason inp) then (st, Inl (Sentinel GovErrInvalidRequest))
          else db_Transaction (sched 0) (catalog_transition_body env a key inp action advice) st))"
    by (simp split: sum.split)
qed

lemma Recall_steps:
  assumes "same_codec base env" "\<And>n. quiet base (sched n)"
  shows "(gov_step base)\<^sup>*\<^sup>* st (fst (Recall env sched a key inp advice st))"
proof (cases "blank advice \<or> ge_AffectedProjects env = None")
  case True
  then show ?thesis using with_receipt_steps [OF assms(1,2,2), where st = st and answer = "(st, Inl (Sentinel GovErrInvalidRequest)) :: 'a gov_store \<times> (goerr + template_version)"]
    by (simp add: Recall_def)
next
  case False
  then show ?thesis using catalog_transition_steps [OF assms, where action = "''recall''"] by (auto simp: Recall_def)
qed

lemma record_success_steps:
  assumes "same_codec base env" "record_success action reason env a pid copyID n i version content hashes st = Inr st'"
  shows "(gov_step base)\<^sup>*\<^sup>* st st'"
  using assms(2) by (auto simp: record_success_def gov_recordAudit_def split: if_splits intro!: r_into_rtranclp intro: gov_step.receipt [OF assms(1)])

lemma CreateRuleSetDraft_steps:
  assumes "same_codec base env" "quiet base tx"
  shows "(gov_step base)\<^sup>*\<^sup>* st (fst (CreateRuleSetDraft env tx a key inp st))"
proof -
  have "(gov_step base)\<^sup>*\<^sup>* st (fst (db_Transaction tx (rule_draft_body env a key inp) st))"
    by (rule db_Transaction_steps [OF assms(2)]) (auto intro: gov_step.rule_draft [OF assms(1)])
  then show ?thesis by (simp add: CreateRuleSetDraft_def split: sum.split)
qed

lemma governRuleSet_steps:
  assumes "same_codec base env" "\<And>n. quiet base (sched n)" "action \<in> {''publish'', ''withdraw'', ''recall''}"
  shows "(gov_step base)\<^sup>*\<^sup>* st (fst (governRuleSet env sched a i version key inp action st))"
proof -
  have w: "(gov_step base)\<^sup>*\<^sup>* st1 (fst (db_Transaction (sched 1) (govern_write env a i version key inp action current replay) st1))" for st1 current replay
    by (rule db_Transaction_steps [OF assms(2)]) (auto intro: gov_step.govern [OF assms(1,3)])
  obtain st1 r where rd: "db_Transaction (sched 0) (unchanged (govern_read env a i version key inp action)) st = (st1, r)" by (rule prod.exhaust)
  have "(gov_step base)\<^sup>*\<^sup>* st st1" using read_steps [OF assms(2) [of 0], where st = st and f = "govern_read env a i version key inp action"] by (simp add: rd)
  then show ?thesis using rtranclp_trans [OF _ w] by (auto simp: governRuleSet_def rd split: sum.split govern_state.split)
qed

lemma record_failure_steps:
  assumes "same_codec base env" "\<And>n. quiet base (sched n)"
  shows "(gov_step base)\<^sup>*\<^sup>* st (fst (record_failure action rejected unaudited named env sched a f st))"
  by (cases "cf_Cause f") (simp_all add: record_failure_def receipt_steps assms)

lemma gov_call_steps: "gov_call base st st' \<Longrightarrow> (gov_step base)\<^sup>*\<^sup>* st st'"
proof (induction rule: gov_call.induct)
  case (call_rs_Publish renv tx st a i version)
  then show ?case unfolding rs_Publish_def by (intro rs_transition_steps) (simp_all add: rule_actions_def)
next
  case (call_rs_Withdraw renv tx st a i version)
  then show ?case unfolding rs_Withdraw_def by (intro rs_transition_steps) (simp_all add: rule_actions_def)
next
  case (call_rs_Recall renv tx st a i version)
  then show ?case unfolding rs_Recall_def by (intro rs_transition_steps) (simp_all add: rule_actions_def)
next
  case (call_rs_GetVersion renv tx st a i version)
  then show ?case by (simp add: rs_GetVersion_def read_steps split: sum.split)
next
  case (call_rs_ListVersions renv tx st a i)
  then show ?case by (simp add: rs_ListVersions_def read_steps split: sum.split)
next
  case (call_GetVersion sched env a i version st)
  then show ?case by (simp add: GetVersion_def read_steps split: sum.split)
next
  case (call_ListVersions sched env a i st)
  then show ?case by (simp add: ListVersions_def read_steps split: sum.split)
next
  case (call_ListProfiles sched env a scope state st)
  then show ?case by (simp add: ListProfiles_def read_steps split: sum.split)
next
  case (call_Withdraw env sched a key ginp st)
  then show ?case by (simp add: Withdraw_def catalog_transition_steps)
next
  case (call_GetRuleSetVersion env tx st a i version)
  then show ?case by (simp add: GetRuleSetVersion_def rs_GetVersion_def read_steps split: sum.split)
next
  case (call_ListRuleSetVersions env tx st a i)
  then show ?case by (simp add: ListRuleSetVersions_def read_steps split: sum.split)
next
  case (call_outside st ms q)
  show ?case by (rule r_into_rtranclp, rule gov_step.outside)
qed (auto simp: RecordCopySuccess_def RecordSwitchSuccess_def svc_PublishRuleSet_def svc_WithdrawRuleSet_def svc_RecallRuleSet_def RecordCopyFailure_def RecordSwitchFailure_def
      intro: record_failure_steps CreateRuleSetDraft_steps governRuleSet_steps CreateDraft_steps CreateProfile_steps SaveDraft_steps Publish_steps Recall_steps record_success_steps)

lemma gov_calls_steps: "(gov_call base)\<^sup>*\<^sup>* st st' \<Longrightarrow> (gov_step base)\<^sup>*\<^sup>* st st'"
  by (induction rule: rtranclp_induct) (auto dest: gov_call_steps intro: rtranclp_trans)

end
