(* ===== verification/Replay.thy ===== *)
theory Replay
  imports Catalog
begin

text \<open>
  The replay of examples that a publication needs: \<^verbatim>\<open>templategovernance/replay.go\<close>.

  A fixture names a rule, a scene and a polarity, and holds a real input with the status the rule must answer.  The
  fixture reader is an optional function, \<^verbatim>\<open>None\<close> being the nil interface; the evaluator is the one of \<^verbatim>\<open>Template_Check\<close>.
\<close>

definition bindingsByID :: "template_version \<Rightarrow> string \<Rightarrow> rule_binding option" where
  "bindingsByID v i = bindingOf (tv_RuleSetSnapshot v) i"

definition show_status :: "eval_status \<Rightarrow> string" where
  "show_status s = (case s of EvaluationPass \<Rightarrow> ''PASS'' | EvaluationIssue \<Rightarrow> ''ISSUE'' | EvaluationUnknown \<Rightarrow> ''UNKNOWN'' | EvaluationNotApplicable \<Rightarrow> ''NOT_APPLICABLE'' | EvaluationZero \<Rightarrow> [])"

definition replayRequired :: "string \<Rightarrow> goerr" where
  "replayRequired msg = Wrapped (sentinel_msg GovErrReplayRequired @ '': '' @ msg) (Sentinel GovErrReplayRequired)"

text \<open>The loop over the evaluations: the first one of the rule and target that differs is the error.\<close>

fun match_evaluations :: "template_version \<Rightarrow> replay_fixture \<Rightarrow> bool \<Rightarrow> evaluation list \<Rightarrow> goerr + bool" where
  "match_evaluations v f matched [] = Inr matched"
| "match_evaluations v f matched (e # es) =
     (if e_RuleID e = fx_RuleID f \<and> e_TargetRef e = fx_TargetRef f then
        (if e_Status e \<noteq> fx_ExpectedStatus f \<or> e_RulesetHash e \<noteq> tv_RulesetHash v
         then Inl (replayRequired (''fixture '' @ fx_ID f @ '' got '' @ show_status (e_Status e)))
         else match_evaluations v f True es)
      else match_evaluations v f matched es)"

definition expected_fits :: "rule_binding \<Rightarrow> replay_fixture \<Rightarrow> bool" where
  "expected_fits b f \<longleftrightarrow>
     (if b_DefinitionID b \<noteq> ''model_assisted''
      then (fx_Polarity f = ''positive'' \<longrightarrow> fx_ExpectedStatus f = EvaluationPass) \<and> (fx_Polarity f = ''negative'' \<longrightarrow> fx_ExpectedStatus f = EvaluationIssue)
      else fx_ExpectedStatus f = EvaluationUnknown)"

definition JudgeReplayFixture :: "tpl_env \<Rightarrow> template_version \<Rightarrow> replay_fixture \<Rightarrow> goerr + unit" where
  "JudgeReplayFixture te v f =
     (case bindingsByID v (fx_RuleID f) of
        None \<Rightarrow> Inl (Sentinel GovErrReplayRequired)
      | Some b \<Rightarrow>
          if \<not> b_Enabled b \<or> fx_RuleSet f \<noteq> tv_RuleSet v then Inl (Sentinel GovErrReplayRequired)
          else if fx_Polarity f \<noteq> ''positive'' \<and> fx_Polarity f \<noteq> ''negative'' then Inl (Sentinel GovErrReplayRequired)
          else if fx_Scene f \<notin> set (b_TriggerScenes b) then Inl (Sentinel GovErrReplayRequired)
          else if \<not> expected_fits b f then Inl (Sentinel GovErrReplayRequired)
          else bindR (EvaluateRuleSet te (tv_Definition v) (tv_RuleSetSnapshot v) (fx_Scene f) (fx_Input f)) (\<lambda>evs.
               bindR (match_evaluations v f False evs) (\<lambda>matched.
                 if \<not> matched then Inl (replayRequired (''fixture '' @ fx_ID f @ '' did not exercise its declared target'')) else Inr ())))"

text \<open>The key of a cell is a string, as in the code.\<close>

definition cell_key :: "string \<Rightarrow> string \<Rightarrow> string \<Rightarrow> string" where
  "cell_key rule scene polarity = rule @ ''/'' @ scene @ ''/'' @ polarity"

definition covered_keys :: "tpl_env \<Rightarrow> template_version \<Rightarrow> replay_fixture list \<Rightarrow> string list" where
  "covered_keys te v fs = map (\<lambda>f. cell_key (fx_RuleID f) (fx_Scene f) (fx_Polarity f)) (filter (\<lambda>f. okR (JudgeReplayFixture te v f)) fs)"

definition coverage_entries :: "string list \<Rightarrow> rule_binding \<Rightarrow> coverage_entry list" where
  "coverage_entries covered b =
     map (\<lambda>scene. \<lparr>ce_RuleID = b_RuleID b, ce_Scene = scene, ce_PositiveCovered = (cell_key (b_RuleID b) scene ''positive'' \<in> set covered),
       ce_NegativeCovered = (cell_key (b_RuleID b) scene ''negative'' \<in> set covered), ce_DeclaredPositive = b_PositiveExampleRefs b,
       ce_DeclaredNegative = b_NegativeExampleRefs b, ce_UnsatisfiedDeclared = []\<rparr>) (b_TriggerScenes b)"

definition JudgeReplayCoverage :: "tpl_env \<Rightarrow> template_version \<Rightarrow> replay_fixture list \<Rightarrow> coverage_report" where
  "JudgeReplayCoverage te v fs =
     (let covered = covered_keys te v fs; enabled = filter b_Enabled (s_Bindings (tv_RuleSetSnapshot v));
          entries = concat (map (coverage_entries covered) enabled);
          missing = concat (map (\<lambda>b. filter (\<lambda>i. i \<notin> fx_ID ` set fs) (b_PositiveExampleRefs b @ b_NegativeExampleRefs b)) enabled) in
      \<lparr>cr_Complete = (list_all (\<lambda>e. ce_PositiveCovered e \<and> ce_NegativeCovered e) entries \<and> missing = []), cr_Entries = entries, cr_Unsatisfied = missing\<rparr>)"

text \<open>\<^verbatim>\<open>ExampleReplayVerifier.Verify\<close>.\<close>

fun judge_fixtures :: "tpl_env \<Rightarrow> template_version \<Rightarrow> (string \<Rightarrow> goerr + replay_fixture) \<Rightarrow> string list \<Rightarrow> string list \<Rightarrow> goerr + replay_fixture list" where
  "judge_fixtures te v reader seen [] = Inr []"
| "judge_fixtures te v reader seen (i # is) =
     (if blank i \<or> i \<in> set seen then Inl (Sentinel GovErrInvalidRequest)
      else bindR (reader i) (\<lambda>f.
        if fx_ID f \<noteq> i then Inl (Sentinel GovErrReplayRequired)
        else bindR (JudgeReplayFixture te v f) (\<lambda>_. bindR (judge_fixtures te v reader (i # seen) is) (\<lambda>fs. Inr (f # fs)))))"

definition Verify :: "'q gov_env \<Rightarrow> (gov_actor \<Rightarrow> string \<Rightarrow> goerr + replay_fixture) option \<Rightarrow> gov_actor \<Rightarrow> template_version \<Rightarrow> string list \<Rightarrow> goerr + unit" where
  "Verify env reader a v ids =
     (case reader of
        None \<Rightarrow> Inl (Sentinel GovErrReplayRequired)
      | Some read \<Rightarrow>
          if ids = [] then Inl (Sentinel GovErrReplayRequired)
          else bindR (ValidateVersion env v) (\<lambda>_.
               bindR (judge_fixtures (ge_tpl env) v (read a) [] ids) (\<lambda>judged.
                 let report = JudgeReplayCoverage (ge_tpl env) v judged in
                 case find (\<lambda>e. \<not> ce_PositiveCovered e \<or> \<not> ce_NegativeCovered e) (cr_Entries report) of
                   Some e \<Rightarrow> Inl (replayRequired (''missing positive/negative example for '' @ ce_RuleID e @ ''/'' @ ce_Scene e))
                 | None \<Rightarrow> (case cr_Unsatisfied report of
                       i # _ \<Rightarrow> Inl (replayRequired (''required binding example '' @ i @ '' missing''))
                     | [] \<Rightarrow> Inr ()))))"

section \<open>What a successful verification shows\<close>

text \<open>A fixture that was judged good: the rule was really evaluated on its input and answered the expected status.\<close>

definition exercised :: "tpl_env \<Rightarrow> template_version \<Rightarrow> rule_binding \<Rightarrow> string \<Rightarrow> string \<Rightarrow> replay_fixture \<Rightarrow> bool" where
  "exercised te v b scene polarity f \<longleftrightarrow>
     fx_RuleSet f = tv_RuleSet v \<and> fx_RuleID f = b_RuleID b \<and> fx_Scene f = scene \<and> fx_Polarity f = polarity \<and>
     (\<exists>evs. EvaluateRuleSet te (tv_Definition v) (tv_RuleSetSnapshot v) scene (fx_Input f) = Inr evs \<and>
        (\<exists>e \<in> set evs. e_RuleID e = b_RuleID b \<and> e_TargetRef e = fx_TargetRef f \<and> e_RulesetHash e = tv_RulesetHash v \<and>
           e_Status e = (if b_DefinitionID b = ''model_assisted'' then EvaluationUnknown else if polarity = ''positive'' then EvaluationPass else EvaluationIssue)))"

lemma match_evaluations_ok:
  "match_evaluations v f matched evs = Inr True \<Longrightarrow> \<not> matched \<Longrightarrow>
   \<exists>e \<in> set evs. e_RuleID e = fx_RuleID f \<and> e_TargetRef e = fx_TargetRef f \<and> e_RulesetHash e = tv_RulesetHash v \<and> e_Status e = fx_ExpectedStatus f"
  by (induction evs arbitrary: matched) (auto split: if_splits)

lemma JudgeReplayFixture_ok:
  assumes "JudgeReplayFixture te v f = Inr ()"
  obtains b where "bindingOf (tv_RuleSetSnapshot v) (fx_RuleID f) = Some b" "b_RuleID b = fx_RuleID f" "fx_Scene f \<in> set (b_TriggerScenes b)" "fx_Polarity f \<in> {''positive'', ''negative''}"
    "exercised te v b (fx_Scene f) (fx_Polarity f) f"
proof -
  from assms obtain b where b: "bindingOf (tv_RuleSetSnapshot v) (fx_RuleID f) = Some b" by (auto simp: JudgeReplayFixture_def bindingsByID_def split: option.splits)
  then have i: "b_RuleID b = fx_RuleID f" by (auto simp: bindingOf_def find_Some_iff)
  from assms b obtain evs where e: "EvaluateRuleSet te (tv_Definition v) (tv_RuleSetSnapshot v) (fx_Scene f) (fx_Input f) = Inr evs" "match_evaluations v f False evs = Inr True"
    and c: "fx_RuleSet f = tv_RuleSet v" "fx_Polarity f \<in> {''positive'', ''negative''}" "fx_Scene f \<in> set (b_TriggerScenes b)" "expected_fits b f"
    by (auto simp: JudgeReplayFixture_def bindingsByID_def split: if_splits)
  have "fx_ExpectedStatus f = (if b_DefinitionID b = ''model_assisted'' then EvaluationUnknown else if fx_Polarity f = ''positive'' then EvaluationPass else EvaluationIssue)"
    using c(2,4) by (auto simp: expected_fits_def split: if_splits)
  then have "exercised te v b (fx_Scene f) (fx_Polarity f) f" using match_evaluations_ok [OF e(2)] e(1) c(1) i by (auto simp: exercised_def)
  then show thesis using that b i c by blast
qed

lemma judge_fixtures_ok:
  "judge_fixtures te v reader seen is = Inr fs \<Longrightarrow> list_all2 (\<lambda>i f. reader i = Inr f \<and> fx_ID f = i \<and> JudgeReplayFixture te v f = Inr ()) is fs"
  by (induction "is" arbitrary: seen fs) (auto split: if_splits)

text \<open>The string keys do not confuse two cells: a scene and a polarity hold no slash.\<close>

lemma slash_split: "x @ ''/'' @ y = x' @ ''/'' @ y' \<Longrightarrow> CHR ''/'' \<notin> set y \<Longrightarrow> CHR ''/'' \<notin> set y' \<Longrightarrow> x = x' \<and> y = y'"
proof -
  assume e: "x @ ''/'' @ y = x' @ ''/'' @ y'" and n: "CHR ''/'' \<notin> set y" "CHR ''/'' \<notin> set y'"
  have "takeWhile (\<lambda>c. c \<noteq> CHR ''/'') (rev y @ [CHR ''/''] @ rev x) = takeWhile (\<lambda>c. c \<noteq> CHR ''/'') (rev y' @ [CHR ''/''] @ rev x')"
    using arg_cong [OF e, of rev] by simp
  then have "rev y = rev y'" using n by (subst (asm) (1 2) takeWhile_append2) auto
  then show ?thesis using e by simp
qed

lemma cell_key_inj:
  assumes "cell_key r s p = cell_key r' s' p'" "CHR ''/'' \<notin> set s" "CHR ''/'' \<notin> set s'" "CHR ''/'' \<notin> set p" "CHR ''/'' \<notin> set p'"
  shows "r = r' \<and> s = s' \<and> p = p'"
proof -
  have "(r @ ''/'' @ s) @ ''/'' @ p = (r' @ ''/'' @ s') @ ''/'' @ p'" using assms(1) by (simp add: cell_key_def)
  then have "r @ ''/'' @ s = r' @ ''/'' @ s'" "p = p'" using slash_split [OF _ assms(4,5)] by blast+
  then show ?thesis using slash_split [OF _ assms(2,3)] by blast
qed

lemma list_all2_right: "list_all2 P xs ys \<Longrightarrow> y \<in> set ys \<Longrightarrow> \<exists>x \<in> set xs. P x y"
  by (induction rule: list_all2_induct) auto

lemma scene_no_slash:
  assumes "ValidateRuleSet te rs = Inr ()" "b \<in> set (s_Bindings rs)" "scene \<in> set (b_TriggerScenes b)"
  shows "CHR ''/'' \<notin> set scene"
proof -
  have "okR (validateRuleBinding te b)" using ValidateRuleSet_content [OF assms(1)] assms(2) by (simp add: validateRuleSetContent_ok)
  then have "list_all (\<lambda>v. v \<in> set allowedRuleScenes) (b_TriggerScenes b)" by (auto simp: validateRuleBinding_ok validUniqueValues_def validUniqueFrom_iff)
  then have "scene \<in> set allowedRuleScenes" using assms(3) by (auto simp: list_all_iff)
  then show ?thesis by (auto simp: allowedRuleScenes_def)
qed

text \<open>Every cell of the coverage matrix was exercised by a fixture that the caller named.\<close>

definition fully_exercised :: "tpl_env \<Rightarrow> (string \<Rightarrow> goerr + replay_fixture) \<Rightarrow> template_version \<Rightarrow> string list \<Rightarrow> bool" where
  "fully_exercised te read v ids \<longleftrightarrow>
     (\<forall>b \<in> set (s_Bindings (tv_RuleSetSnapshot v)). b_Enabled b \<longrightarrow>
        (\<forall>scene \<in> set (b_TriggerScenes b). \<forall>polarity \<in> {''positive'', ''negative''}.
           \<exists>i \<in> set ids. \<exists>f. read i = Inr f \<and> fx_ID f = i \<and> exercised te v b scene polarity f) \<and>
        set (b_PositiveExampleRefs b) \<union> set (b_NegativeExampleRefs b) \<subseteq> set ids)"

lemma covered_cell:
  assumes "list_all2 (\<lambda>i f. read i = Inr f \<and> fx_ID f = i \<and> JudgeReplayFixture te v f = Inr ()) ids fs" "ValidateRuleSet te (tv_RuleSetSnapshot v) = Inr ()"
    and "b \<in> set (s_Bindings (tv_RuleSetSnapshot v))" "scene \<in> set (b_TriggerScenes b)" "polarity \<in> {''positive'', ''negative''}"
    and "cell_key (b_RuleID b) scene polarity \<in> set (covered_keys te v fs)"
  shows "\<exists>i \<in> set ids. \<exists>f. read i = Inr f \<and> fx_ID f = i \<and> exercised te v b scene polarity f"
proof -
  obtain f where f: "f \<in> set fs" "JudgeReplayFixture te v f = Inr ()" "cell_key (b_RuleID b) scene polarity = cell_key (fx_RuleID f) (fx_Scene f) (fx_Polarity f)"
    using assms(6) by (auto simp: covered_keys_def okR_iff)
  obtain c where c: "bindingOf (tv_RuleSetSnapshot v) (fx_RuleID f) = Some c" "b_RuleID c = fx_RuleID f" "fx_Scene f \<in> set (b_TriggerScenes c)" "fx_Polarity f \<in> {''positive'', ''negative''}"
    "exercised te v c (fx_Scene f) (fx_Polarity f) f" by (rule JudgeReplayFixture_ok [OF f(2)])
  have cs: "c \<in> set (s_Bindings (tv_RuleSetSnapshot v))" using find_member [OF c(1) [unfolded bindingOf_def]] by simp
  have "CHR ''/'' \<notin> set polarity" "CHR ''/'' \<notin> set (fx_Polarity f)" using assms(5) c(4) by auto
  then have e: "b_RuleID b = fx_RuleID f" "scene = fx_Scene f" "polarity = fx_Polarity f"
    using cell_key_inj [OF f(3) scene_no_slash [OF assms(2-4)] scene_no_slash [OF assms(2) cs c(3)]] by blast+
  have d: "distinct (map b_RuleID (s_Bindings (tv_RuleSetSnapshot v)))" using ValidateRuleSet_content [OF assms(2)] by (simp add: validateRuleSetContent_ok)
  have "c = b" using bindingOf_member [OF d assms(3)] c(1) e(1) by simp
  obtain i where "i \<in> set ids" "read i = Inr f" "fx_ID f = i" using list_all2_right [OF assms(1) f(1)] by blast
  then show ?thesis using c(5) e \<open>c = b\<close> by blast
qed

lemma Verify_ok:
  assumes "Verify env reader a v ids = Inr ()"
  shows "\<exists>read. reader = Some read \<and> fully_exercised (ge_tpl env) (read a) v ids"
proof -
  from assms obtain read fs where r: "reader = Some read" and val: "ValidateVersion env v = Inr ()" and j: "judge_fixtures (ge_tpl env) v (read a) [] ids = Inr fs"
    and full: "find (\<lambda>e. \<not> ce_PositiveCovered e \<or> \<not> ce_NegativeCovered e) (cr_Entries (JudgeReplayCoverage (ge_tpl env) v fs)) = None" "cr_Unsatisfied (JudgeReplayCoverage (ge_tpl env) v fs) = []"
    by (auto simp: Verify_def Let_def split: option.splits if_splits list.splits)
  note all = judge_fixtures_ok [OF j]
  have rs: "ValidateRuleSet (ge_tpl env) (tv_RuleSetSnapshot v) = Inr ()" using val by (auto simp: ValidateVersion_def Let_def split: if_splits)
  let ?covered = "covered_keys (ge_tpl env) v fs"
  have ids: "fx_ID ` set fs = set ids" using all by (induction rule: list_all2_induct) auto
  have "fully_exercised (ge_tpl env) (read a) v ids"
    unfolding fully_exercised_def
  proof (intro ballI impI conjI)
    fix b scene polarity assume b: "b \<in> set (s_Bindings (tv_RuleSetSnapshot v))" "b_Enabled b" and s: "scene \<in> set (b_TriggerScenes b)" "polarity \<in> {''positive'', ''negative''}"
    let ?e = "\<lparr>ce_RuleID = b_RuleID b, ce_Scene = scene, ce_PositiveCovered = (cell_key (b_RuleID b) scene ''positive'' \<in> set ?covered),
       ce_NegativeCovered = (cell_key (b_RuleID b) scene ''negative'' \<in> set ?covered), ce_DeclaredPositive = b_PositiveExampleRefs b,
       ce_DeclaredNegative = b_NegativeExampleRefs b, ce_UnsatisfiedDeclared = []\<rparr>"
    have "?e \<in> set (cr_Entries (JudgeReplayCoverage (ge_tpl env) v fs))" using b s(1) by (auto simp: JudgeReplayCoverage_def Let_def coverage_entries_def intro!: bexI [of _ b])
    then have "ce_PositiveCovered ?e \<and> ce_NegativeCovered ?e" using full(1) unfolding find_None_iff by blast
    then have "cell_key (b_RuleID b) scene polarity \<in> set ?covered" using s(2) by auto
    then show "\<exists>i \<in> set ids. \<exists>f. read a i = Inr f \<and> fx_ID f = i \<and> exercised (ge_tpl env) v b scene polarity f" by (rule covered_cell [OF all rs b(1) s])
  next
    fix b assume "b \<in> set (s_Bindings (tv_RuleSetSnapshot v))" "b_Enabled b"
    then show "set (b_PositiveExampleRefs b) \<union> set (b_NegativeExampleRefs b) \<subseteq> set ids" using full(2) by (auto simp: JudgeReplayCoverage_def Let_def ids filter_empty_conv)
  qed
  then show ?thesis using r by blast
qed

end
