(* ===== verification/Catalog_Demo.thy ===== *)
theory Catalog_Demo
  imports Catalog_Calls Replay Life_Demo
begin

text \<open>
  A concrete catalogue for the witnesses: one published rule set with one rule, a template that carries it as a draft, two
  examples that exercise the rule, an administrator and a member.
\<close>

definition gov_set :: rule_set where
  "gov_set = demo_set\<lparr>s_Bindings := [demo_binding ''r1''], s_State := ''published'', s_RulesetHash := sha256_hex ''rs11''\<rparr>"

lemma gov_set_valid: "ValidateRuleSet demo_tenv gov_set = Inr ()"
proof -
  let ?d = "demo_set\<lparr>s_Bindings := [demo_binding ''r1'']\<rparr>"
  have "validateRuleSetContent demo_tenv ?d = Inr ()"
    using demo_bindings_valid by (simp add: validateRuleSetContent_ok demo_set_def stableID_def id_head_def id_tail_def ncode_def demo_binding_def)
  then have "HashRuleSet demo_tenv ?d = Inr (sha256_hex ''rs11'')" by (simp add: HashRuleSet_def demo_tenv_def demo_set_def)
  from published_validates [OF this, of "''published''"] show ?thesis by (simp add: gov_set_def)
qed

definition gov_rule :: rule where
  "gov_rule = \<lparr>r_ID = ''r1'', r_Kind = ''computed'', r_Severity = ''blocking'', r_Evaluator = ''word_count'', r_Message = [],
     r_Parameters = Some [(''minimum'', JInt 3), (''target_kind'', JStr ''field''), (''target_id'', JStr ''goal'')]\<rparr>"

lemma gov_rule_valid: "validateRule te gov_rule = Inr ()"
  by (simp add: gov_rule_def validateRule_def rule_kind_check_def validSeverity_def plainEvaluators_def validTextTarget_def validTarget_def pstring_def validCountBounds_def
      numeric_def pkeys_def plookup_def stableID_def id_head_def id_tail_def ncode_def)

lemma gov_rules: "CompileRuleSet demo_tenv gov_set = Inr [gov_rule]"
proof -
  have "binding_rule (mk_def ''computed/word_count'' ''computed'' ''word_count'' [''field'', ''chapter'']) (demo_binding ''r1'') (b_Parameters (demo_binding ''r1'')) = gov_rule"
    by (simp add: binding_rule_def mk_def_def demo_binding_def binding_params_def pset_def gov_rule_def Let_def)
  then have "compileBindings demo_tenv [demo_binding ''r1''] = Inr [gov_rule]"
    using gov_rule_valid demo_definition by (simp add: demo_binding_def Let_def)
  then show ?thesis using gov_set_valid by (simp add: CompileRuleSet_def gov_set_def)
qed

definition gov_template :: template where
  "gov_template = DemoTemplate\<lparr>t_ID := ''t1'', t_Version := ''v1'', t_Rules := [gov_rule], t_ContentHash := sha256_hex ''template'', t_RulesetHash := sha256_hex ''rules''\<rparr>"

lemma gov_template_sel: "t_ID gov_template = ''t1''" "t_Version gov_template = ''v1''" "t_Rules gov_template = [gov_rule]" "t_RuleSetSnapshot gov_template = None"
  "t_RuleSetRef gov_template = None" "t_RuleBindingOverrides gov_template = []" "t_ContentHash gov_template = sha256_hex ''template''" "t_RulesetHash gov_template = sha256_hex ''rules''"
  by (simp_all add: gov_template_def DemoTemplate_def)

lemma gov_template_valid: "Validate demo_tenv gov_template = Inr ()"
proof -
  have "validateRules demo_tenv [] [gov_rule] = Inr ()"
    using gov_rule_valid by (simp add: gov_rule_def stableID_def id_head_def id_tail_def ncode_def validSeverity_def)
  moreover have "t_Name gov_template = t_Name DemoTemplate" "t_Sections gov_template = t_Sections DemoTemplate" "t_Fields gov_template = t_Fields DemoTemplate"
    "t_RequiredFields gov_template = t_RequiredFields DemoTemplate" "t_Terms gov_template = t_Terms DemoTemplate" by (simp_all add: gov_template_def)
  moreover have "stableID ''t1''" "\<not> blank ''v1''" by (simp_all add: stableID_def id_head_def id_tail_def ncode_def blank_def trim_space_visible visible_ascii_def)
  ultimately show ?thesis using demo_valid(2) [of demo_tenv] unfolding Validate_def gov_template_sel by (auto split: if_splits)
qed

lemma gov_template_hashes: "Hashes demo_tenv gov_template = Inr (sha256_hex ''template'', sha256_hex ''rules'')"
  using gov_template_valid by (simp add: Hashes_def gov_template_sel demo_tenv_def Let_def)

section \<open>The examples\<close>

definition gov_input :: "string \<Rightarrow> eval_input" where
  "gov_input goal = \<lparr>in_ProjectID = ''p1'', in_TargetVersion = ''7'', in_Fields = map_of [(''goal'', goal)], in_Chapters = [], in_Sources = [], in_ReviewItems = []\<rparr>"

definition gov_ref :: rule_set_ref where
  "gov_ref = \<lparr>ref_ID = ''rs1'', ref_Version = ''1'', ref_Hash = sha256_hex ''rs11''\<rparr>"

definition gov_fixture :: "string \<Rightarrow> string \<Rightarrow> string \<Rightarrow> eval_status \<Rightarrow> replay_fixture" where
  "gov_fixture i polarity goal expected = \<lparr>fx_ID = i, fx_RuleSet = gov_ref, fx_RuleID = ''r1'', fx_Scene = ''write_check'', fx_Polarity = polarity, fx_TargetRef = ''field/goal'',
     fx_Input = gov_input goal, fx_ExpectedStatus = expected\<rparr>"

definition gov_good :: replay_fixture where
  "gov_good = gov_fixture ''good'' ''positive'' ''a b c'' EvaluationPass"

definition gov_bad :: replay_fixture where
  "gov_bad = gov_fixture ''bad'' ''negative'' ''a'' EvaluationIssue"

definition gov_reader :: "gov_actor \<Rightarrow> string \<Rightarrow> goerr + replay_fixture" where
  "gov_reader a i = (if i = ''good'' then Inr gov_good else if i = ''bad'' then Inr gov_bad else Inl (Sentinel GovErrNotFound))"

lemma space_len_visible: "visible_ascii c \<Longrightarrow> space_len space_seqs (c # s) = 0"
proof -
  assume c: "visible_ascii c"
  have "\<not> has_prefix (c # s) p" if "p \<in> set space_seqs" for p using space_seqs_invisible [OF that] c by (cases p) auto
  then have "find (\<lambda>p. has_prefix (c # s) p) space_seqs = None" by (simp add: find_None_iff)
  then show ?thesis by (simp add: space_len_def)
qed

lemma space_len_blank: "space_len space_seqs (CHR '' '' # s) = 1"
proof -
  have "byte 9 \<noteq> CHR '' ''" "byte 10 \<noteq> CHR '' ''" "byte 11 \<noteq> CHR '' ''" "byte 12 \<noteq> CHR '' ''" "byte 13 \<noteq> CHR '' ''" "byte 32 = CHR '' ''"
    by code_simp+
  then show ?thesis by (simp add: space_len_def space_seqs_def bytes_def)
qed

lemma gov_words: "count_fields False ''a b c'' = 3" "count_fields False ''a'' = 1"
  by (simp_all add: space_len_visible space_len_blank visible_ascii_def ncode_def Let_def)

lemma gov_evaluates:
  assumes "count_fields False goal = n"
  shows "EvaluateRuleSet demo_tenv gov_template gov_set ''write_check'' (gov_input goal) =
    Inr [result demo_tenv gov_rule ''field/goal'' ''7'' (sha256_hex ''rs11'') (if n < 3 then EvaluationIssue else EvaluationPass)
           (if n < 3 then ''target is below the minimum count'' else ''target count is within the declared range'') [''count='' @ show_int (int n)]]"
proof -
  have active: "active_rules gov_set ''write_check'' [gov_rule] = [gov_rule]" by (simp add: active_rules_def gov_set_def demo_binding_def gov_rule_def)
  have same: "gov_template\<lparr>t_Rules := [gov_rule]\<rparr> = gov_template" by (simp add: gov_template_def)
  have st: "countStatus (rat_of_nat n) (r_Parameters gov_rule) = (if n < 3 then (EvaluationIssue, ''target is below the minimum count'') else (EvaluationPass, ''target count is within the declared range''))"
    by (auto simp: countStatus_def gov_rule_def plookup_def numeric_def)
  have rule: "evaluateRule demo_tenv gov_template gov_rule (gov_input goal) (sha256_hex ''rs11'') =
      Inr [result demo_tenv gov_rule ''field/goal'' ''7'' (sha256_hex ''rs11'') (if n < 3 then EvaluationIssue else EvaluationPass)
             (if n < 3 then ''target is below the minimum count'' else ''target count is within the declared range'') [''count='' @ show_int (int n)]]"
  proof -
    have "r_Kind gov_rule = ''computed''" "r_Evaluator gov_rule = ''word_count''" "assertString (r_Parameters gov_rule) ''target_kind'' = Inr ''field''"
      "assertString (r_Parameters gov_rule) ''target_id'' = Inr ''goal''" "targetText (gov_input goal) ''field'' ''goal'' = (goal, ''7'', True)"
      by (simp_all add: gov_rule_def assertString_def pstring_def plookup_def targetText_def gov_input_def)
    then show ?thesis using assms st by (simp add: evaluateRule_def eval_count_def Let_def)
  qed
  have "s_RulesetHash gov_set = sha256_hex ''rs11''" "sha256_hex ''rs11'' \<noteq> []" using HashRuleSet_length [OF demo_set_hash] by (simp_all add: gov_set_def)
  moreover have "in_ProjectID (gov_input goal) = ''p1''" "in_TargetVersion (gov_input goal) = ''7''" by (simp_all add: gov_input_def)
  ultimately show ?thesis using gov_set_valid gov_rules gov_template_valid rule
    by (simp add: EvaluateRuleSet_def allowedRuleScenes_def active same evaluateTemplate_def evaluation_hash_def gov_template_sel)
qed

section \<open>The environment and the tables\<close>

definition gov_actor :: gov_actor where
  "gov_actor = \<lparr>ga_TenantID = 1, ga_UserID = ''u1'', ga_Role = ''admin''\<rparr>"

definition gov_reader_env :: "'q gov_env" where
  "gov_reader_env = \<lparr>ge_rule = \<lparr>re_tpl = demo_tenv, re_now = 5, re_marshalBindings = (\<lambda>_. Inr ''bindings''), re_authorizer = Some TenantMembershipAuthorizer\<rparr>,
     ge_copy = demo_ce, ge_AuthorizeTemplate = Some (\<lambda>st a action i. if action = ''read'' \<or> ga_Role a = ''admin'' then None else Some (Sentinel GovErrPermissionDenied)),
     ge_CanManage = (\<lambda>st a. Inr (ga_Role a = ''admin'')), ge_VerifySources = None, ge_VerifySourcesTx = None, ge_Replay = None,
     ge_AffectedProjects = Some (\<lambda>st a i version. Inr [''p1'']), ge_marshalRequest = (\<lambda>_. Inr ''request''), ge_encodeVersion = (\<lambda>_. Inr ''version''),
     ge_marshalSet = (\<lambda>_. Inr ''set''), ge_marshalReceipt = (\<lambda>_. Inr ''receipt''), ge_marshalRun = (\<lambda>_. Inr ''run'')\<rparr>"

abbreviation gov_verifier :: "gov_actor \<Rightarrow> template_version \<Rightarrow> string list \<Rightarrow> goerr + unit" where
  "gov_verifier \<equiv> Verify (gov_reader_env :: unit gov_env) (Some gov_reader)"

definition gov_env0 :: "'q gov_env" where
  "gov_env0 = gov_reader_env\<lparr>ge_Replay := Some gov_verifier\<rparr>"

abbreviation gov_env_with :: "(gov_actor \<Rightarrow> template_version \<Rightarrow> string list \<Rightarrow> goerr + unit) option \<Rightarrow> 'q gov_env" where
  "gov_env_with r \<equiv> gov_reader_env\<lparr>ge_Replay := r\<rparr>"

lemma gov_with_sel: "ge_tpl gov_reader_env = demo_tenv" "ge_copy gov_reader_env = demo_ce" "re_authorizer (ge_rule gov_reader_env) = Some TenantMembershipAuthorizer" "ge_now gov_reader_env = 5"
  by (simp_all add: gov_reader_env_def)

lemma gov_env0_sel: "ge_tpl gov_env0 = demo_tenv" "ge_copy gov_env0 = demo_ce" "re_authorizer (ge_rule gov_env0) = Some TenantMembershipAuthorizer" "ge_now gov_env0 = 5"
  "re_tpl (ge_rule gov_env0) = demo_tenv"
  by (simp_all add: gov_env0_def gov_reader_env_def)

definition gov_draft :: version_row where
  "gov_draft = \<lparr>vr_TenantID = 1, vr_TemplateID = ''t1'', vr_Version = ''v1'', vr_BindingPolicies = [], vr_PolicyHash = sha256_hex ''policies'', vr_Revision = 1, vr_State = ''draft'',
     vr_Definition = gov_template, vr_Ruleset = gov_set, vr_SourceType = ''lingdoc_builtin'', vr_Scope = ''team'', vr_SourceRefs = [], vr_Curator = ''u1'',
     vr_ContentHash = sha256_hex ''template'', vr_RulesetHash = sha256_hex ''rs11'', vr_PublishedAt = None, vr_Recall = None, vr_CreatedBy = ''u1'', vr_CreatedAt = 1, vr_UpdatedAt = 1\<rparr>"

definition gov_published :: version_row where
  "gov_published = gov_draft\<lparr>vr_Revision := 2, vr_State := ''published'', vr_PublishedAt := Some 5, vr_UpdatedAt := 5\<rparr>"

definition gov_rule_row :: rule_row where
  "gov_rule_row = \<lparr>rr_TenantID = 1, rr_RuleSetID = ''rs1'', rr_Version = ''1'', rr_State = ''published'', rr_RuleSetHash = sha256_hex ''rs11'', rr_Bindings = [demo_binding ''r1''],
     rr_CreatedBy = ''u1'', rr_CreatedAt = 0\<rparr>"

definition gov_state_in :: "'q \<Rightarrow> version_row \<Rightarrow> 'q gov_store" where
  "gov_state_in q r = \<lparr>rt_members = [\<lparr>tr_TenantID = 1, tr_UserID = ''u1'', tr_Role = ''admin'', tr_Status = ''active'', tr_Deleted = False\<rparr>], rt_sets = [gov_rule_row], rt_audits = [],
     rt_rest = \<lparr>cg_profiles = [\<lparr>pf_TenantID = 1, pf_ID = ''t1'', pf_Name = ''Demo'', pf_Revision = 1, pf_CreatedBy = ''u1'', pf_CreatedAt = 0\<rparr>], cg_versions = [r], cg_ops = [], cg_rest = q\<rparr>\<rparr>"

abbreviation gov_state :: "version_row \<Rightarrow> unit gov_store" where
  "gov_state \<equiv> gov_state_in ()"

lemma gov_set_row: "row_set gov_rule_row = gov_set"
  by (simp add: row_set_def gov_rule_row_def gov_set_def demo_set_def)

lemma gov_version_valid_with: "ValidateVersion (gov_env_with v) (row_version gov_draft) = Inr ()" "ValidateVersion (gov_env_with v) (row_version gov_published) = Inr ()"
proof -
  have "HashBindingPolicies demo_ce [] = Inr (sha256_hex ''policies'')" by (simp add: HashBindingPolicies_def demo_ce_def)
  moreover have "s_State gov_set = ''published''" "s_ID gov_set = ''rs1''" "s_Version gov_set = ''1''" "s_RulesetHash gov_set = sha256_hex ''rs11''" by (simp_all add: gov_set_def demo_set_def)
  ultimately show v: "ValidateVersion (gov_env_with v) (row_version gov_draft) = Inr ()"
    using gov_set_valid gov_rules gov_template_hashes
    by (simp add: ValidateVersion_def gov_with_sel row_version_def gov_draft_def ValidateBindingPolicies_def gov_template_sel Let_def)
  show "ValidateVersion (gov_env_with v) (row_version gov_published) = Inr ()" by (rule ValidateVersion_later [OF v]) (simp_all add: row_version_def gov_published_def gov_draft_def)
qed

lemma gov_version_valid: "ValidateVersion gov_env0 (row_version gov_draft) = Inr ()" "ValidateVersion gov_env0 (row_version gov_published) = Inr ()"
  unfolding gov_env0_def by (rule gov_version_valid_with)+

lemma gov_state_ok_with: "r \<in> {gov_draft, gov_published} \<Longrightarrow> gov_ok (gov_env_with v) (gov_state r)"
proof -
  assume r: "r \<in> {gov_draft, gov_published}"
  have "good_rule demo_tenv gov_rule_row" using gov_set_valid by (simp add: good_rule_def gov_set_row)
  moreover have "snapshot_of gov_rule_row r" using r by (auto simp: snapshot_of_def rule_key_def gov_rule_row_def gov_draft_def gov_published_def gov_set_def demo_set_def)
  moreover have "good_version (gov_env_with v) r" using r gov_version_valid_with by (auto simp: good_version_def gov_draft_def gov_published_def)
  moreover have "vr_TenantID r = 1" "vr_TemplateID r = ''t1''" using r by (auto simp: gov_draft_def gov_published_def)
  ultimately show ?thesis by (simp add: gov_ok_def gov_state_in_def gov_with_sel pinned_def profile_key_def)
qed

lemma gov_state_ok: "r \<in> {gov_draft, gov_published} \<Longrightarrow> gov_ok gov_env0 (gov_state r)"
  unfolding gov_env0_def by (rule gov_state_ok_with)

section \<open>The examples verify\<close>

abbreviation gov_v :: template_version where
  "gov_v \<equiv> row_version gov_draft"

lemma gov_v_sel: "tv_Definition gov_v = gov_template" "tv_RuleSetSnapshot gov_v = gov_set" "tv_RuleSet gov_v = gov_ref" "tv_RulesetHash gov_v = sha256_hex ''rs11''" "tv_Sources gov_v = []"
  "tv_Revision gov_v = 1" "tv_State gov_v = ''draft''" "tv_TemplateID gov_v = ''t1''" "tv_Version gov_v = ''v1''"
  by (simp_all add: row_version_def gov_draft_def gov_ref_def gov_set_def demo_set_def)

lemma gov_judged: "JudgeReplayFixture demo_tenv gov_v gov_good = Inr ()" "JudgeReplayFixture demo_tenv gov_v gov_bad = Inr ()"
proof -
  have b: "bindingsByID gov_v ''r1'' = Some (demo_binding ''r1'')" by (simp add: bindingsByID_def gov_v_sel bindingOf_def gov_set_def demo_binding_def)
  have d: "b_Enabled (demo_binding ''r1'')" "b_TriggerScenes (demo_binding ''r1'') = [''write_check'']" "b_DefinitionID (demo_binding ''r1'') \<noteq> ''model_assisted''" by (simp_all add: demo_binding_def)
  have r: "r_ID gov_rule = ''r1''" "e_RulesetHash (result te gov_rule target version h status msg ev) = h" for te target version h status msg ev
    by (simp_all add: gov_rule_def result_def)
  show "JudgeReplayFixture demo_tenv gov_v gov_good = Inr ()"
    by (simp add: JudgeReplayFixture_def gov_good_def gov_fixture_def b d gov_v_sel expected_fits_def gov_evaluates [OF gov_words(1)] r)
  show "JudgeReplayFixture demo_tenv gov_v gov_bad = Inr ()"
    by (simp add: JudgeReplayFixture_def gov_bad_def gov_fixture_def b d gov_v_sel expected_fits_def gov_evaluates [OF gov_words(2)] r)
qed

lemma gov_verifies_with:
  assumes "read gov_actor ''good'' = Inr gov_good" "read gov_actor ''bad'' = Inr gov_bad"
  shows "Verify (gov_reader_env :: unit gov_env) (Some read) gov_actor gov_v [''good'', ''bad''] = Inr ()"
proof -
  have blank: "\<not> blank ''good''" "\<not> blank ''bad''" by (simp_all add: blank_def trim_space_visible visible_ascii_def ncode_def)
  have te: "ge_tpl (gov_reader_env :: unit gov_env) = demo_tenv" by (simp add: gov_reader_env_def)
  have v: "ValidateVersion (gov_reader_env :: unit gov_env) gov_v = Inr ()"
    using gov_version_valid(1) same_codec_ValidateVersion [of "gov_env0 :: unit gov_env" "gov_reader_env :: unit gov_env"] by (simp add: same_codec_def gov_env0_def)
  have j: "judge_fixtures demo_tenv gov_v (read gov_actor) [] [''good'', ''bad''] = Inr [gov_good, gov_bad]"
    using gov_judged blank assms by simp (simp add: gov_good_def gov_bad_def gov_fixture_def)
  have "covered_keys demo_tenv gov_v [gov_good, gov_bad] = [cell_key ''r1'' ''write_check'' ''positive'', cell_key ''r1'' ''write_check'' ''negative'']"
    using gov_judged by (simp add: covered_keys_def) (simp add: gov_good_def gov_bad_def gov_fixture_def)
  then have "JudgeReplayCoverage demo_tenv gov_v [gov_good, gov_bad] = \<lparr>cr_Complete = True, cr_Entries =
      [\<lparr>ce_RuleID = ''r1'', ce_Scene = ''write_check'', ce_PositiveCovered = True, ce_NegativeCovered = True, ce_DeclaredPositive = [], ce_DeclaredNegative = [], ce_UnsatisfiedDeclared = []\<rparr>],
      cr_Unsatisfied = []\<rparr>"
    by (simp add: JudgeReplayCoverage_def Let_def gov_v_sel gov_set_def demo_binding_def coverage_entries_def)
  then show ?thesis by (simp add: Verify_def te v j Let_def del: judge_fixtures.simps)
qed

lemma gov_verifies: "gov_verifier gov_actor gov_v [''good'', ''bad''] = Inr ()"
  by (rule gov_verifies_with) (simp_all add: gov_reader_def)

section \<open>One publication\<close>

definition calm :: "'s attempt" where
  "calm = \<lparr>at_before = id, at_begin = None, at_commit = None, at_expired = False, at_ctx = None, at_deadline = False\<rparr>"

lemma calm_quiet: "quiet base calm"
  by (simp add: quiet_def calm_def)

lemma calm_Transaction: "db_Transaction calm body st = (case body st of Inl e \<Rightarrow> (st, Inl e) | Inr (r, st') \<Rightarrow> (st', Inr r))"
  by (auto simp: db_Transaction_def calm_def split: sum.split)

definition gov_publish :: publish_input where
  "gov_publish = \<lparr>pu_TemplateID = ''t1'', pu_Version = ''v1'', pu_ExpectedRevision = 1, pu_ReplayFixtureIDs = [''good'', ''bad''], pu_Reason = ''ready''\<rparr>"

lemma gov_load_with: "loadVersion (gov_env_with v) (gov_state_in q gov_draft) gov_actor ''t1'' ''v1'' = Inr gov_v"
  using gov_version_valid_with(1) by (simp add: loadVersion_def gov_state_in_def gov_actor_def decodeVersion_def gov_draft_def)

lemma gov_load: "loadVersion gov_env0 (gov_state_in q gov_draft) gov_actor ''t1'' ''v1'' = Inr gov_v"
  unfolding gov_env0_def by (rule gov_load_with)

lemma gov_bindable_with: "bindableRuleSet (gov_env_with v) gov_actor gov_ref (gov_state_in q r) = Inr gov_set"
proof -
  have "validateActor (ge_rule (gov_env_with v)) gov_actor = Inr ()"
    by (simp add: validateActor_def gov_actor_def gov_reader_env_def role_IsValid_def blank_def trim_space_visible visible_ascii_def ncode_def)
  moreover have "rs_loadVersion (gov_state_in q r) 1 ''rs1'' ''1'' = Inr gov_rule_row" by (simp add: rs_loadVersion_def gov_state_in_def gov_rule_row_def)
  moreover have "rs_authorize (ge_rule (gov_env_with v)) (gov_state_in q r) gov_actor ''read'' gov_set = Inr ()"
    by (simp add: rs_authorize_def gov_with_sel TenantMembershipAuthorizer_def gov_state_in_def gov_actor_def)
  moreover have "CanBindRuleSet demo_tenv gov_set = Inr ()" using gov_set_valid by (simp add: CanBindRuleSet_def gov_set_def)
  moreover have "s_RulesetHash gov_set = sha256_hex ''rs11''" by (simp add: gov_set_def)
  ultimately show ?thesis using gov_set_valid
    by (simp add: bindableRuleSet_def bindable_set_def GetVersion_tx_def get_version_body_def gov_with_sel gov_ref_def gov_actor_def decodeRuleSet_ok gov_set_row)
qed

lemma gov_bindable: "bindableRuleSet gov_env0 gov_actor gov_ref (gov_state_in q r) = Inr gov_set"
  unfolding gov_env0_def by (rule gov_bindable_with)

lemma gov_publishes_with:
  assumes "verify gov_actor gov_v [''good'', ''bad''] = Inr ()"
  shows "\<exists>st. Publish (gov_env_with (Some verify)) (\<lambda>n. calm) gov_actor ''key-0001'' gov_publish (gov_state gov_draft) = (st, Inr (row_version gov_published)) \<and> cg_versions (rt_rest st) = [gov_published]"
proof -
  let ?env = "gov_env_with (Some verify) :: unit gov_env"
  have ok: "ready ?env gov_actor = Inr ()" "validKey ''key-0001''" "validReason ''ready''"
    by (simp_all add: ready_def gov_actor_def gov_reader_env_def validKey_def validReason_def blank_def trim_space_visible visible_ascii_def ncode_def)
  have auth: "authorizeTemplate ?env st gov_actor action i = Inr ()" for st action i by (simp add: authorizeTemplate_def gov_reader_env_def gov_actor_def)
  have replay: "ge_Replay ?env = Some verify" by simp
  have w: "published_version 5 gov_v = row_version gov_published" by (simp add: published_version_def row_version_def gov_published_def gov_draft_def)
  have none: "operationGet ?env gov_actor ''publish'' ''t1/v1'' ''key-0001'' (QPublish gov_publish) (gov_state gov_draft) = Inr None" by (simp add: operationGet_def find_op_def gov_state_in_def)
  obtain st1 where save: "saveVersion ?env gov_actor gov_v (row_version gov_published) (gov_state gov_draft) = Inr st1" "cg_versions (rt_rest st1) = [gov_published]" "cg_ops (rt_rest st1) = []"
  proof -
    have enc: "encodeVersion ?env gov_actor (row_version gov_published) = Inr gov_published"
      by (simp add: encodeVersion_def gov_reader_env_def gov_actor_def row_version_def gov_published_def gov_draft_def)
    have "all_columns gov_published gov_draft = gov_published" by (simp add: all_columns_def gov_published_def gov_draft_def)
    moreover have "vr_TenantID gov_draft = ga_TenantID gov_actor" "vr_TemplateID gov_draft = ''t1''" "vr_Version gov_draft = ''v1''" "vr_Revision gov_draft = 1" "vr_State gov_draft = ''draft''"
      by (simp_all add: gov_draft_def gov_actor_def)
    ultimately have "saveVersion ?env gov_actor gov_v (row_version gov_published) (gov_state gov_draft) = Inr (on_catalog (\<lambda>c. c\<lparr>cg_versions := [gov_published]\<rparr>) (gov_state gov_draft))"
      using enc by (simp add: saveVersion_def gov_v_sel update_rows_def gov_state_in_def)
    then show thesis by (rule that) (simp_all add: on_catalog_def gov_state_in_def)
  qed
  obtain st2 where audit: "gov_recordAudit ?env gov_actor ''publish'' ''t1/v1'' ''ready'' (publish_details ?env [''good'', ''bad''] (row_version gov_published)) st1 = Inr st2" "rt_rest st2 = rt_rest st1"
    by (simp add: gov_recordAudit_def recordAuditOutcome_def gov_actor_def role_IsValid_def)
  obtain st where op: "operationSave ?env gov_actor ''publish'' ''t1/v1'' ''key-0001'' (QPublish gov_publish) (RVersion (row_version gov_published)) (show_int 2) st2 = Inr st" "cg_versions (rt_rest st) = [gov_published]"
    using save(2,3) audit(2) by (simp add: operationSave_def encodable_def gov_reader_env_def Let_def on_catalog_def)
  have sel: "pu_TemplateID gov_publish = ''t1''" "pu_Version gov_publish = ''v1''" "pu_ExpectedRevision gov_publish = 1" "pu_Reason gov_publish = ''ready''" "pu_ReplayFixtureIDs gov_publish = [''good'', ''bad'']"
    by (simp_all add: gov_publish_def)
  have rev: "tv_Revision (row_version gov_published) = 2" by (simp add: row_version_def gov_published_def)
  have body: "publish_body ?env gov_actor ''key-0001'' gov_publish gov_v (gov_state gov_draft) = Inr (row_version gov_published, st)"
    using auth none save(1) audit(1) op(1)
    by (simp add: gov_load_with gov_bindable_with gov_version_valid_with(2) publish_body_def Let_def sel gov_v_sel checkSourcesInTransaction_def gov_with_sel w rev)
  have "publish_read ?env gov_actor gov_publish (gov_state gov_draft) = Inr gov_v" using auth by (simp add: gov_load_with publish_read_def gov_publish_def)
  then have "Publish ?env (\<lambda>n. calm) gov_actor ''key-0001'' gov_publish (gov_state gov_draft) = (st, Inr (row_version gov_published))"
    using ok replay assms body
    by (simp add: Publish_def calm_Transaction unchanged_def checkTemplateSources_def gov_v_sel with_receipt_def sel)
  then show ?thesis using op(2) by blast
qed

lemma gov_publishes: "\<exists>st. Publish gov_env0 (\<lambda>n. calm) gov_actor ''key-0001'' gov_publish (gov_state gov_draft) = (st, Inr (row_version gov_published)) \<and> cg_versions (rt_rest st) = [gov_published]"
  unfolding gov_env0_def by (rule gov_publishes_with [where verify = gov_verifier, OF gov_verifies])

end
