(* ===== verification/Catalog_Properties.thy ===== *)
theory Catalog_Properties
  imports Catalog_Demo
begin

text \<open>
  The properties of the rule set store and the catalogue, over any sequence of calls, with a concrete run for the witnesses.
\<close>

section \<open>Lemmas\<close>

lemma snapshot_unique:
  assumes "gov_ok base st" "r \<in> set (versions st)" "x \<in> set (rt_sets st)" "rule_key x = (vr_TenantID r, s_ID (vr_Ruleset r), s_Version (vr_Ruleset r))"
  shows "snapshot_of x r"
proof -
  obtain y where y: "y \<in> set (rt_sets st)" "snapshot_of y r" using assms(1,2) by (auto simp: gov_ok_def pinned_def)
  then have "x = y" using key_member [OF gov_ok_keys(1) [OF assms(1)] assms(3) y(1)] assms(4) by (simp add: snapshot_of_def)
  then show ?thesis using y(2) by simp
qed

lemma bindable_snapshot:
  assumes "gov_ok base st" "r \<in> set (versions st)" "vr_TenantID r = ga_TenantID a" "bindableRuleSet env a (tv_RuleSet (row_version r)) st = Inr rs"
  shows "\<exists>x \<in> set (rt_sets st). snapshot_of x r \<and> rr_State x = ''published'' \<and> rs = row_set x"
proof -
  obtain x where x: "x \<in> set (rt_sets st)" "rule_key x = (ga_TenantID a, ref_ID (tv_RuleSet (row_version r)), ref_Version (tv_RuleSet (row_version r)))" "rs = row_set x" "rr_State x = ''published''"
    by (rule bindableRuleSet_ok [OF assms(4)])
  then have "snapshot_of x r" using snapshot_unique [OF assms(1,2)] assms(3) by (simp add: row_version_def)
  then show ?thesis using x by blast
qed

section \<open>Published content\<close>

text \<open>
  C28. What has left the draft never changes.  Over every sequence of calls to the rule set store and the catalogue, with
  other calls between the transactions of each, a template version that is no draft is still stored under its key with
  the same definition, policies, rule set snapshot, hashes, sources and publication time; its state only moves from
  published to withdrawn or recalled; it still passes the code's own validation; and the rule set it was made from is still
  stored with exactly the bindings and the hash of its snapshot.  A rule set that is no draft is kept in the same way.
\<close>

theorem published_content_is_sealed:
  assumes "(gov_call env)\<^sup>*\<^sup>* st st'" "gov_ok env st"
  shows "(\<forall>r \<in> set (cg_versions (rt_rest st)). vr_State r \<noteq> ''draft'' \<longrightarrow>
      (\<exists>r'. find (\<lambda>y. version_key y = version_key r) (cg_versions (rt_rest st')) = Some r' \<and> version_content r' = version_content r \<and>
         life_moves (vr_State r) (vr_State r') \<and> ValidateVersion env (row_version r') = Inr () \<and> (\<exists>x \<in> set (rt_sets st'). snapshot_of x r'))) \<and>
    (\<forall>x \<in> set (rt_sets st). rr_State x \<noteq> ''draft'' \<longrightarrow>
      (\<exists>x'. find (\<lambda>y. rule_key y = rule_key x) (rt_sets st') = Some x' \<and> rule_content x' = rule_content x \<and> life_moves (rr_State x) (rr_State x') \<and>
         ValidateRuleSet (ge_tpl env) (row_set x') = Inr ()))"
proof -
  note steps = gov_calls_steps [OF assms(1)]
  have ok: "gov_ok env st'" by (rule template_versions.steps_ok [OF steps assms(2)])
  show ?thesis
  proof (intro conjI ballI impI)
    fix r assume r: "r \<in> set (cg_versions (rt_rest st))" "vr_State r \<noteq> ''draft''"
    obtain r' where r': "find (\<lambda>y. version_key y = version_key r) (cg_versions (rt_rest st')) = Some r'" "version_content r' = version_content r" "life_moves (vr_State r) (vr_State r')"
      using template_versions.sealed_forever [OF steps assms(2) r] by (elim exE conjE)
    have "r' \<in> set (cg_versions (rt_rest st'))" using find_member [OF r'(1)] by blast
    then have "good_version env r'" "pinned st' r'" using ok by (simp_all add: gov_ok_def)
    then show "\<exists>r'. find (\<lambda>y. version_key y = version_key r) (cg_versions (rt_rest st')) = Some r' \<and> version_content r' = version_content r \<and>
         life_moves (vr_State r) (vr_State r') \<and> ValidateVersion env (row_version r') = Inr () \<and> (\<exists>x \<in> set (rt_sets st'). snapshot_of x r')"
      using r' by (intro exI [of _ r']) (simp add: good_version_def pinned_def)
  next
    fix x assume x: "x \<in> set (rt_sets st)" "rr_State x \<noteq> ''draft''"
    obtain x' where x': "find (\<lambda>y. rule_key y = rule_key x) (rt_sets st') = Some x'" "rule_content x' = rule_content x" "life_moves (rr_State x) (rr_State x')"
      using rule_sets.sealed_forever [OF steps assms(2) x] by (elim exE conjE)
    have "good_rule (ge_tpl env) x'" using ok find_member [OF x'(1)] by (simp add: gov_ok_def)
    then show "\<exists>x'. find (\<lambda>y. rule_key y = rule_key x) (rt_sets st') = Some x' \<and> rule_content x' = rule_content x \<and> life_moves (rr_State x) (rr_State x') \<and>
         ValidateRuleSet (ge_tpl env) (row_set x') = Inr ()" using x' by (intro exI [of _ x']) (simp add: good_rule_def)
  qed
qed

definition gov_withdraw :: governance_input where
  "gov_withdraw = \<lparr>gi_TemplateID = ''t1'', gi_Version = ''v1'', gi_ExpectedRevision = 2, gi_Reason = ''outdated''\<rparr>"

theorem published_content_is_sealed_witness:
  "\<exists>r. find (\<lambda>y. version_key y = (1, ''t1'', ''v1'')) (cg_versions (rt_rest (fst (Withdraw gov_env0 (\<lambda>n. calm) gov_actor ''key-0002'' gov_withdraw (gov_state gov_published))))) = Some r \<and>
     version_content r = version_content gov_published \<and> life_moves ''published'' (vr_State r)"
proof -
  let ?st = "fst (Withdraw gov_env0 (\<lambda>n. calm) gov_actor ''key-0002'' gov_withdraw (gov_state gov_published))"
  have "gov_call gov_env0 (gov_state gov_published) ?st" by (rule gov_call.call_Withdraw) (simp_all add: same_codec_def calm_quiet)
  then have c: "(gov_call gov_env0)\<^sup>*\<^sup>* (gov_state gov_published) ?st" by (rule r_into_rtranclp)
  have m: "gov_published \<in> set (cg_versions (rt_rest (gov_state gov_published)))" "vr_State gov_published = ''published''" "version_key gov_published = (1, ''t1'', ''v1'')"
    by (simp_all add: gov_state_in_def gov_published_def gov_draft_def version_key_def)
  have "vr_State gov_published \<noteq> ''draft'' \<longrightarrow> (\<exists>r'. find (\<lambda>y. version_key y = version_key gov_published) (cg_versions (rt_rest ?st)) = Some r' \<and>
      version_content r' = version_content gov_published \<and> life_moves (vr_State gov_published) (vr_State r') \<and> ValidateVersion (gov_env0 :: unit gov_env) (row_version r') = Inr () \<and>
      (\<exists>x \<in> set (rt_sets ?st). snapshot_of x r'))"
    by (rule bspec [OF conjunct1 [OF published_content_is_sealed [OF c gov_state_ok]] m(1)]) simp
  then show ?thesis unfolding m(2,3) by auto
qed

section \<open>Resolving a version for a project\<close>

lemma reserved_none: "fst (update_rows P f xs) = 0 \<longleftrightarrow> find P xs = None"
  by (induction xs) (auto simp: update_rows_def)

lemma loadVersionForMutation_eq: "loadVersionForMutation env st a i version = loadVersion env st a i version"
  by (simp add: loadVersionForMutation_def reserved_none loadVersion_def)

lemma GetVersionForBinding_eq: "GetVersionForBinding env a i version st = GetVersion_tx env a i version st"
  by (cases "validateActor env a") (simp_all add: GetVersionForBinding_def GetVersion_tx_def get_version_body_def reserved_none rs_loadVersion_def)

text \<open>
  C30. A project is given published versions only.  The resolution for a new project and the one for switching a project,
  with or without locking, answer the same version; and a version they answer is the actor's tenant's stored version of that
  identifier, it is published, it validates, and the rule set of its snapshot is stored as published with the same
  bindings and hash; the binding policies handed to the copy are those of this version.
\<close>

theorem resolved_versions_are_published:
  assumes "gov_ok env st"
  shows "(ResolveForSwitch env a i version forUpdate st = Inr v \<longleftrightarrow> ResolveForCopy env a i version st = Inr v) \<and>
    (ResolveForCopy env a i version st = Inr v \<longrightarrow>
      (\<exists>r \<in> set (cg_versions (rt_rest st)). version_key r = (ga_TenantID a, i, version) \<and> v = row_version r \<and> tv_State v = ''published'' \<and> ValidateVersion env v = Inr () \<and>
        (\<exists>x \<in> set (rt_sets st). snapshot_of x r \<and> rr_State x = ''published'')) \<and>
      BindingPoliciesForCopy env a i version st = Inr (tv_BindingPolicies v, tv_PolicyHash v))"
proof (intro conjI impI)
  show "ResolveForSwitch env a i version forUpdate st = Inr v \<longleftrightarrow> ResolveForCopy env a i version st = Inr v"
    by (auto simp: ResolveForSwitch_def ResolveForCopy_def loadVersionForMutation_eq GetVersionForBinding_eq bindableRuleSet_def split: sum.splits if_splits)
next
  assume c: "ResolveForCopy env a i version st = Inr v"
  then obtain rs where l: "loadVersion env st a i version = Inr v" and p: "tv_State v = ''published''" and b: "bindableRuleSet env a (tv_RuleSet v) st = Inr rs"
    by (auto simp: ResolveForCopy_def split: if_splits)
  obtain r where r: "r \<in> set (versions st)" "version_key r = (ga_TenantID a, i, version)" "v = row_version r" "ValidateVersion env v = Inr ()" by (rule loadVersion_ok [OF l])
  have "vr_TenantID r = ga_TenantID a" using r(2) by (simp add: version_key_def)
  then obtain x where "x \<in> set (rt_sets st)" "snapshot_of x r" "rr_State x = ''published''" using bindable_snapshot [OF assms r(1)] b r(3) by blast
  then show "\<exists>r \<in> set (cg_versions (rt_rest st)). version_key r = (ga_TenantID a, i, version) \<and> v = row_version r \<and> tv_State v = ''published'' \<and> ValidateVersion env v = Inr () \<and>
        (\<exists>x \<in> set (rt_sets st). snapshot_of x r \<and> rr_State x = ''published'')" using r p by (intro bexI [of _ r]) blast+
  show "BindingPoliciesForCopy env a i version st = Inr (tv_BindingPolicies v, tv_PolicyHash v)" using c by (simp add: BindingPoliciesForCopy_def)
qed

theorem resolved_versions_are_published_witness:
  "ResolveForCopy gov_env0 gov_actor ''t1'' ''v1'' (gov_state gov_published) = Inr (row_version gov_published) \<and>
   ResolveForSwitch gov_env0 gov_actor ''t1'' ''v1'' True (gov_state gov_published) = Inr (row_version gov_published) \<and> tv_State (row_version gov_published) = ''published''"
proof -
  have l: "loadVersion gov_env0 (gov_state gov_published) gov_actor ''t1'' ''v1'' = Inr (row_version gov_published)"
    using gov_version_valid(2) by (simp add: loadVersion_def gov_state_in_def gov_actor_def decodeVersion_def gov_draft_def gov_published_def)
  have ok: "ready (gov_env0 :: unit gov_env) gov_actor = Inr ()" "authorizeTemplate gov_env0 (gov_state gov_published) gov_actor ''read'' ''t1'' = Inr ()"
    by (simp_all add: ready_def authorizeTemplate_def gov_actor_def gov_env0_def gov_reader_env_def blank_def trim_space_visible visible_ascii_def ncode_def)
  have ref: "tv_RuleSet (row_version gov_published) = gov_ref" "tv_State (row_version gov_published) = ''published''"
    by (simp_all add: row_version_def gov_published_def gov_draft_def gov_ref_def gov_set_def demo_set_def)
  have c: "ResolveForCopy gov_env0 gov_actor ''t1'' ''v1'' (gov_state gov_published) = Inr (row_version gov_published)"
    using ok l by (simp add: ResolveForCopy_def ref gov_bindable)
  then show ?thesis
    using resolved_versions_are_published [OF gov_state_ok, of gov_published gov_actor "''t1''" "''v1''" True "row_version gov_published"] ref(2) by simp
qed

section \<open>Publication\<close>

lemma with_receipt_ok: "with_receipt env sched a action i version reason answer = (st', Inr v) \<Longrightarrow> answer = (st', Inr v)"
  by (auto simp: with_receipt_def split: prod.splits sum.splits option.splits)

lemma Publish_ok:
  assumes "Publish env sched a key inp st = (st', Inr v)"
  obtains verify current where "ge_Replay env = Some verify" "pu_ReplayFixtureIDs inp \<noteq> []" "checkTemplateSources env a (tv_Sources current) = Inr ()"
    "verify a current (pu_ReplayFixtureIDs inp) = Inr ()" "loadVersion env (at_before (sched 0) st) a (pu_TemplateID inp) (pu_Version inp) = Inr current"
    "publish_body env a key inp current (at_before (sched 1) (at_before (sched 0) st)) = Inr (v, st')"
proof -
  obtain s0 r where rd: "db_Transaction (sched 0) (unchanged (publish_read env a inp)) st = (s0, r)" by (rule prod.exhaust)
  from with_receipt_ok [OF assms [unfolded Publish_def]] rd obtain verify current where
    v: "ge_Replay env = Some verify" "pu_ReplayFixtureIDs inp \<noteq> []" "r = Inr current"
      "checkTemplateSources env a (tv_Sources current) = Inr ()" "verify a current (pu_ReplayFixtureIDs inp) = Inr ()"
    and w: "db_Transaction (sched 1) (publish_body env a key inp current) s0 = (st', Inr v)"
    by (auto split: sum.splits option.splits if_splits)
  have "unchanged (publish_read env a inp) (at_before (sched 0) st) = Inr (current, s0)" using rd v(3) by (intro db_Transaction_ok) simp
  then have s0: "s0 = at_before (sched 0) st" "publish_read env a inp s0 = Inr current" by (auto simp: unchanged_def)
  show thesis by (rule that [OF v(1,2,4,5) _ db_Transaction_ok [OF w, unfolded s0(1)]]) (use s0 in \<open>auto simp: publish_read_def\<close>)
qed

lemma saveVersion_rules: "saveVersion env a previous nxt st = Inr st' \<Longrightarrow> rt_sets st' = rt_sets st"
  by (auto simp: saveVersion_def on_catalog_def Let_def split: if_splits)

text \<open>A publication that is not a replay adds an audit record, so it changes the tables.\<close>

lemma publish_writes:
  assumes "publish_body env a key inp current st = Inr (w, st')" "find_op a ''publish'' (pu_TemplateID inp @ ''/'' @ pu_Version inp) key st = None"
  shows "st' \<noteq> st"
proof -
  have g: "operationGet env a ''publish'' (pu_TemplateID inp @ ''/'' @ pu_Version inp) key (QPublish inp) st = Inr None" unfolding operationGet_def assms(2) by simp
  from assms(1) g obtain v st1 st2 details where "saveVersion env a v w st = Inr st1" "gov_recordAudit env a ''publish'' (pu_TemplateID inp @ ''/'' @ pu_Version inp) (pu_Reason inp) details st1 = Inr st2"
      "operationSave env a ''publish'' (pu_TemplateID inp @ ''/'' @ pu_Version inp) key (QPublish inp) (RVersion w) (show_int (tv_Revision w)) st2 = Inr st'"
    by (auto simp: publish_body_def Let_def split: if_split_asm)
  then have "length (rt_audits st') = Suc (length (rt_audits st))"
    by (auto simp: saveVersion_def gov_recordAudit_def recordAuditOutcome_def operationSave_def on_catalog_def Let_def split: if_splits)
  then show ?thesis by auto
qed

lemma saved_row:
  assumes "saveVersion env a (row_version r) w st = Inr st'" "gov_ok base st" "r \<in> set (versions st)" "vr_TenantID r = ga_TenantID a" "ValidateVersion env w = Inr ()"
    and "vr_State r = ''draft''" "tv_TemplateID w = vr_TemplateID r" "tv_Version w = vr_Version r" "tv_CreatedBy w = vr_CreatedBy r" "tv_CreatedAt w = vr_CreatedAt r"
  shows "\<exists>n \<in> set (versions st'). row_version n = w \<and> vr_TenantID n = ga_TenantID a"
proof -
  obtain row n where n: "encodeVersion env a w = Inr row" "n = (if vr_State r \<noteq> ''draft'' then state_columns row r else all_columns row r)"
    "versions st' = map (\<lambda>x. if x = r then n else x) (versions st)" by (rule saveVersion_edit [OF assms(1-4)]) blast
  have e: "row_version row = w" using encodeVersion_ok(2) [OF n(1) ValidateVersion_ref [OF assms(5)]] .
  have "row_version n = (row_version row)\<lparr>tv_TemplateID := vr_TemplateID r, tv_Version := vr_Version r, tv_CreatedBy := vr_CreatedBy r, tv_CreatedAt := vr_CreatedAt r\<rparr>"
    using assms(6) by (simp add: n(2) all_columns_def row_version_def)
  then have "row_version n = w" using assms(7-10) by (simp add: e)
  moreover have "vr_TenantID n = ga_TenantID a" using assms(4,6) by (simp add: n(2) all_columns_def)
  ultimately show ?thesis using n(3) assms(3) by force
qed

lemma publish_core:
  assumes "gov_ok env st" "\<And>n. quiet env (sched n)" "Publish env sched a key inp st = (st', Inr v)"
  shows "find_op a ''publish'' (pu_TemplateID inp @ ''/'' @ pu_Version inp) key (at_before (sched 1) (at_before (sched 0) st)) \<noteq> None \<or>
    (\<exists>verify current. ge_Replay env = Some verify \<and> verify a current (pu_ReplayFixtureIDs inp) = Inr () \<and> pu_ReplayFixtureIDs inp \<noteq> [] \<and>
       checkTemplateSources env a (tv_Sources current) = Inr () \<and> tv_State current = ''draft'' \<and> ValidateVersion env current = Inr () \<and>
       v = published_version (ge_now env) current \<and> ValidateVersion env v = Inr () \<and>
       (\<exists>n \<in> set (cg_versions (rt_rest st')). row_version n = v \<and> vr_TenantID n = ga_TenantID a \<and> (\<exists>x \<in> set (rt_sets st'). snapshot_of x n \<and> rr_State x = ''published'')))"
proof -
  let ?s0 = "at_before (sched 0) st" and ?s1 = "at_before (sched 1) (at_before (sched 0) st)"
  obtain verify current where v: "ge_Replay env = Some verify" "pu_ReplayFixtureIDs inp \<noteq> []" "checkTemplateSources env a (tv_Sources current) = Inr ()"
    "verify a current (pu_ReplayFixtureIDs inp) = Inr ()" and l: "loadVersion env ?s0 a (pu_TemplateID inp) (pu_Version inp) = Inr current"
    and b: "publish_body env a key inp current ?s1 = Inr (v, st')" by (rule Publish_ok [OF assms(3)])
  have s: "(gov_step env)\<^sup>*\<^sup>* st ?s0" "(gov_step env)\<^sup>*\<^sup>* ?s0 ?s1" using quiet_before [OF assms(2)] by blast+
  then have s1: "(gov_step env)\<^sup>*\<^sup>* st ?s1" and ok0: "gov_ok env ?s0" and ok1: "gov_ok env ?s1"
    using template_versions.steps_ok [OF _ assms(1)] by (auto intro: rtranclp_trans)
  show ?thesis
  proof (cases "find_op a ''publish'' (pu_TemplateID inp @ ''/'' @ pu_Version inp) key ?s1 = None")
    case False
    then show ?thesis by blast
  next
    case True
    obtain r0 where r0: "r0 \<in> set (versions ?s0)" "version_key r0 = (ga_TenantID a, pu_TemplateID inp, pu_Version inp)" "current = row_version r0" "ValidateVersion env current = Inr ()"
      by (rule loadVersion_ok [OF l])
    obtain r t1 t2 details where r: "r \<in> set (versions ?s1)" "version_key r = (ga_TenantID a, pu_TemplateID inp, pu_Version inp)" "vr_State r = ''draft''" "vr_Revision r = tv_Revision current"
      and w: "v = published_version (ge_now env) (row_version r)" "ValidateVersion env v = Inr ()" and bind: "okR (bindableRuleSet env a (tv_RuleSet (row_version r)) ?s1)"
      and sv: "saveVersion env a (row_version r) v ?s1 = Inr t1" and fr: "gov_recordAudit env a ''publish'' (pu_TemplateID inp @ ''/'' @ pu_Version inp) (pu_Reason inp) details t1 = Inr t2"
        "operationSave env a ''publish'' (pu_TemplateID inp @ ''/'' @ pu_Version inp) key (QPublish inp) (RVersion v) (show_int (tv_Revision v)) t2 = Inr st'"
      by (rule publish_cases [OF b publish_writes [OF b True]]) blast
    have "r = r0" using template_versions.same_revision_same_row [OF s(2) ok0 r0(1) r(1)] r r0 by (simp add: row_version_def)
    have ten: "vr_TenantID r = ga_TenantID a" using r(2) by (simp add: version_key_def)
    obtain n where n: "n \<in> set (versions t1)" "row_version n = v" "vr_TenantID n = ga_TenantID a"
      using saved_row [OF sv ok1 r(1) ten w(2) r(3)] by (auto simp: w(1) published_version_def row_version_def)
    obtain x where x: "x \<in> set (rt_sets ?s1)" "snapshot_of x r" "rr_State x = ''published''" using bindable_snapshot [OF ok1 r(1) ten] bind by (auto simp: okR_iff)
    have "vr_Ruleset n = vr_Ruleset r" using arg_cong [OF n(2), of tv_RuleSetSnapshot] by (simp add: w(1) published_version_def row_version_def)
    then have "snapshot_of x n" using x(2) n(3) ten by (simp add: snapshot_of_def)
    moreover have "rt_sets st' = rt_sets ?s1" "versions st' = versions t1"
      using gov_audit_frame [OF fr(1)] operationSave_frame [OF fr(2)] saveVersion_rules [OF sv] by simp_all
    ultimately have "\<exists>n \<in> set (cg_versions (rt_rest st')). row_version n = v \<and> vr_TenantID n = ga_TenantID a \<and> (\<exists>x \<in> set (rt_sets st'). snapshot_of x n \<and> rr_State x = ''published'')"
      using n x by auto
    moreover have "tv_State current = ''draft''" "v = published_version (ge_now env) current" using r(3) w(1) r0(3) \<open>r = r0\<close> by (simp_all add: row_version_def)
    ultimately show ?thesis using v r0(4) w(2) by blast
  qed
qed



text \<open>
  Nothing is published unexercised.  With the code's own replay verifier, if \<^verbatim>\<open>Publish\<close> answers a version and its
  write did not find this very request carried out before, then for every enabled rule of the version's snapshot, every
  scene it is triggered in and both polarities, a submitted fixture of that rule set version was really evaluated on the very
  definition that is published, and the rule answered pass for the positive and issue for the negative example
  (unknown for a model assisted rule); and every example a binding declares was submitted.
\<close>

theorem published_rules_were_exercised:
  assumes "gov_ok env st" "\<And>n. quiet env (sched n)" "ge_Replay env = Some (Verify venv reader)" "ge_tpl venv = ge_tpl env"
    and "Publish env sched a key inp st = (st', Inr v)"
    and "find_op a ''publish'' (pu_TemplateID inp @ ''/'' @ pu_Version inp) key (at_before (sched 1) (at_before (sched 0) st)) = None"
  shows "\<exists>read. reader = Some read \<and> tv_State v = ''published'' \<and>
    (\<forall>b \<in> set (s_Bindings (tv_RuleSetSnapshot v)). b_Enabled b \<longrightarrow>
       (\<forall>scene \<in> set (b_TriggerScenes b). \<forall>polarity \<in> {''positive'', ''negative''}.
          \<exists>i \<in> set (pu_ReplayFixtureIDs inp). \<exists>f. read a i = Inr f \<and> fx_ID f = i \<and> exercised (ge_tpl env) v b scene polarity f) \<and>
       set (b_PositiveExampleRefs b) \<union> set (b_NegativeExampleRefs b) \<subseteq> set (pu_ReplayFixtureIDs inp))"
proof -
  obtain current where c: "Verify venv reader a current (pu_ReplayFixtureIDs inp) = Inr ()" "v = published_version (ge_now env) current"
    using publish_core [OF assms(1,2,5)] assms(3,6) by auto
  obtain read where r: "reader = Some read" "fully_exercised (ge_tpl env) (read a) current (pu_ReplayFixtureIDs inp)" using Verify_ok [OF c(1)] assms(4) by auto
  have "fully_exercised (ge_tpl env) (read a) v (pu_ReplayFixtureIDs inp)" using r(2) by (simp add: c(2) fully_exercised_def exercised_def published_version_def)
  moreover have "tv_State v = ''published''" by (simp add: c(2) published_version_def)
  ultimately show ?thesis using r(1) by (intro exI [of _ read]) (simp add: fully_exercised_def)
qed

theorem published_rules_were_exercised_witness:
  "\<exists>f. gov_reader gov_actor (fx_ID f) = Inr f \<and> fx_ID f \<in> {''good'', ''bad''} \<and> exercised demo_tenv (row_version gov_published) (demo_binding ''r1'') ''write_check'' ''negative'' f"
proof -
  obtain st' where p: "Publish gov_env0 (\<lambda>n. calm) gov_actor ''key-0001'' gov_publish (gov_state gov_draft) = (st', Inr (row_version gov_published))"
    using gov_publishes by (elim exE conjE)
  have none: "find_op gov_actor ''publish'' target ''key-0001'' (at_before calm (at_before calm (gov_state gov_draft))) = None" for target
    by (simp add: calm_def find_op_def gov_state_in_def)
  have env: "ge_Replay (gov_env0 :: unit gov_env) = Some gov_verifier" "ge_tpl (gov_reader_env :: unit gov_env) = ge_tpl (gov_env0 :: unit gov_env)" by (simp_all add: gov_env0_def)
  have b: "demo_binding ''r1'' \<in> set (s_Bindings (tv_RuleSetSnapshot (row_version gov_published)))" "b_Enabled (demo_binding ''r1'')" "''write_check'' \<in> set (b_TriggerScenes (demo_binding ''r1''))"
    by (simp_all add: row_version_def gov_published_def gov_draft_def gov_set_def demo_binding_def)
  have "\<exists>i \<in> set (pu_ReplayFixtureIDs gov_publish). \<exists>f. gov_reader gov_actor i = Inr f \<and> fx_ID f = i \<and>
      exercised (ge_tpl (gov_env0 :: unit gov_env)) (row_version gov_published) (demo_binding ''r1'') ''write_check'' ''negative'' f"
    using published_rules_were_exercised [OF gov_state_ok calm_quiet env p none] b by fastforce
  then obtain i f where "i \<in> {''good'', ''bad''}" "gov_reader gov_actor i = Inr f" "fx_ID f = i"
    "exercised demo_tenv (row_version gov_published) (demo_binding ''r1'') ''write_check'' ''negative'' f" by (auto simp: gov_publish_def gov_env0_sel)
  then show ?thesis by (intro exI [of _ f]) simp
qed

section \<open>Reading\<close>

definition public :: "template_version \<Rightarrow> bool" where
  "public v \<longleftrightarrow> tv_State v \<noteq> ''draft'' \<and> tv_Sources v = [] \<and> (\<forall>r. tv_Recall v = Some r \<longrightarrow> rl_AffectedProjectIDs r = [])"

lemma publicVersion_public: "tv_State v \<noteq> ''draft'' \<Longrightarrow> public (publicVersion v)"
  by (auto simp: public_def publicVersion_def)

lemma get_catalog_version_public:
  "ge_CanManage env st a = Inr False \<Longrightarrow> get_catalog_version env a i version st = Inr v \<Longrightarrow> public v"
  by (auto simp: get_catalog_version_def publicVersion_public split: if_splits)

lemma mapR_mem: "mapR f xs = Inr ys \<Longrightarrow> y \<in> set ys \<Longrightarrow> \<exists>x \<in> set xs. f x = Inr y"
  by (induction xs arbitrary: ys) auto

lemma list_versions_public:
  assumes "ge_CanManage env st a = Inr False" "list_versions_body env a i st = Inr vs" "v \<in> set vs"
  shows "public v"
proof -
  let ?rows = "rev (sort_key (\<lambda>r. (vr_CreatedAt r, vr_Version r)) (filter (\<lambda>r. vr_TenantID r = ga_TenantID a \<and> vr_TemplateID r = i \<and> vr_State r \<noteq> ''draft'') (versions st)))"
  have m: "mapR (\<lambda>r. bindR (decodeVersion env r) (\<lambda>v. Inr (publicVersion v))) ?rows = Inr vs"
    using assms(1,2) by (auto simp: list_versions_body_def Let_def split: if_splits)
  obtain r where "r \<in> set ?rows" "bindR (decodeVersion env r) (\<lambda>v. Inr (publicVersion v)) = Inr v" using mapR_mem [OF m assms(3)] by blast
  then show ?thesis by (auto simp: decodeVersion_def row_version_def intro!: publicVersion_public)
qed

lemma list_profiles_public:
  assumes "ge_CanManage env st a = Inr False" "list_profiles_body env a scope state st = Inr ps" "p \<in> set ps"
  shows "\<exists>r \<in> set (versions st). vr_TenantID r = ga_TenantID a \<and> vr_TemplateID r = pf_ID p \<and> vr_State r \<noteq> ''draft''"
proof -
  let ?matches = "\<lambda>p v. vr_TenantID v = pf_TenantID p \<and> vr_TemplateID v = pf_ID p \<and> vr_State v \<noteq> ''draft'' \<and> (scope = [] \<or> vr_Scope v = scope) \<and> (state = [] \<or> vr_State v = state)"
  have m: "mapR (\<lambda>p. bindR (authorizeTemplate env st a ''read'' (pf_ID p)) (\<lambda>_. Inr p))
      (sort_key pf_ID (filter (\<lambda>p. pf_TenantID p = ga_TenantID a \<and> list_ex (?matches p) (versions st)) (profiles st))) = Inr ps"
    using assms(1,2) by (auto simp: list_profiles_body_def Let_def)
  obtain q where "q \<in> set (sort_key pf_ID (filter (\<lambda>p. pf_TenantID p = ga_TenantID a \<and> list_ex (?matches p) (versions st)) (profiles st)))"
    "bindR (authorizeTemplate env st a ''read'' (pf_ID q)) (\<lambda>_. Inr q) = Inr p" using mapR_mem [OF m assms(3)] by blast
  then show ?thesis by (auto simp: list_ex_iff)
qed

text \<open>
  C31. Drafts and their sources stay with the managers of the catalogue.  To an actor whom the authorizer does not let manage
  it, no read answers a draft: a version that is fetched or listed has left the draft, shows none of its sources and none of
  the projects a recall affected, and a profile is listed only if it has a version that is no draft.
\<close>

theorem drafts_stay_private:
  assumes "\<And>s. ge_CanManage env s a = Inr False"
  shows "(GetVersion env sched a i version st = (st1, Inr v) \<longrightarrow> public v) \<and>
    (ListVersions env sched a i st = (st2, Inr vs) \<longrightarrow> (\<forall>v \<in> set vs. public v)) \<and>
    (ListProfiles env sched a scope state st = (st3, Inr ps) \<longrightarrow>
      (\<forall>p \<in> set ps. \<exists>r \<in> set (cg_versions (rt_rest st3)). vr_TenantID r = ga_TenantID a \<and> vr_TemplateID r = pf_ID p \<and> vr_State r \<noteq> ''draft''))"
proof (intro conjI impI ballI)
  assume "GetVersion env sched a i version st = (st1, Inr v)"
  then have "db_Transaction (sched 0) (unchanged (get_catalog_version env a i version)) st = (st1, Inr v)" by (auto simp: GetVersion_def split: sum.splits if_splits)
  from db_Transaction_ok [OF this] show "public v" by (auto simp: unchanged_def intro: get_catalog_version_public [OF assms])
next
  fix w assume "ListVersions env sched a i st = (st2, Inr vs)" and w: "w \<in> set vs"
  then have "db_Transaction (sched 0) (unchanged (list_versions_body env a i)) st = (st2, Inr vs)" by (auto simp: ListVersions_def split: sum.splits if_splits)
  from db_Transaction_ok [OF this] show "public w" by (auto simp: unchanged_def intro: list_versions_public [OF assms _ w])
next
  fix p assume "ListProfiles env sched a scope state st = (st3, Inr ps)" and p: "p \<in> set ps"
  then have "db_Transaction (sched 0) (unchanged (list_profiles_body env a scope state)) st = (st3, Inr ps)" by (auto simp: ListProfiles_def split: sum.splits if_splits)
  from db_Transaction_ok [OF this] have b: "at_before (sched 0) st = st3" "list_profiles_body env a scope state st3 = Inr ps" by (auto simp: unchanged_def)
  show "\<exists>r \<in> set (cg_versions (rt_rest st3)). vr_TenantID r = ga_TenantID a \<and> vr_TemplateID r = pf_ID p \<and> vr_State r \<noteq> ''draft''"
    by (rule list_profiles_public [OF assms b(2) p])
qed

definition gov_member :: gov_actor where
  "gov_member = gov_actor\<lparr>ga_Role := ''viewer''\<rparr>"

definition gov_member_env :: "unit gov_env" where
  "gov_member_env = gov_env0\<lparr>ge_CanManage := (\<lambda>_ _. Inr False)\<rparr>"

theorem drafts_stay_private_witness:
  "\<exists>v. GetVersion gov_member_env (\<lambda>n. calm) gov_member ''t1'' ''v1'' (gov_state gov_published) = (gov_state gov_published, Inr v) \<and> public v"
proof -
  have l: "loadVersion gov_member_env (gov_state gov_published) gov_member ''t1'' ''v1'' = Inr (row_version gov_published)"
    using gov_version_valid(2) same_codec_ValidateVersion [of gov_env0 gov_member_env]
    by (simp add: same_codec_def loadVersion_def gov_state_in_def gov_member_def gov_member_env_def gov_actor_def decodeVersion_def gov_draft_def gov_published_def)
  have ok: "ready gov_member_env gov_member = Inr ()" "authorizeTemplate gov_member_env (gov_state gov_published) gov_member ''read'' ''t1'' = Inr ()" "stableID ''t1''" "stableID ''v1''"
    by (simp_all add: ready_def authorizeTemplate_def gov_member_def gov_member_env_def gov_actor_def gov_env0_def gov_reader_env_def blank_def trim_space_visible visible_ascii_def ncode_def
        stableID_def id_head_def id_tail_def)
  have m: "ge_CanManage gov_member_env s gov_member = Inr False" for s by (simp add: gov_member_env_def)
  have "tv_State (row_version gov_published) = ''published''" by (simp add: row_version_def gov_published_def)
  then have g: "GetVersion gov_member_env (\<lambda>n. calm) gov_member ''t1'' ''v1'' (gov_state gov_published) = (gov_state gov_published, Inr (publicVersion (row_version gov_published)))"
    using ok l by (simp add: GetVersion_def calm_Transaction unchanged_def get_catalog_version_def m)
  from drafts_stay_private [OF m, THEN conjunct1, THEN mp, OF g] show ?thesis using g by blast
qed

end
