(* ===== verification/Catalog_Receipts.thy ===== *)
theory Catalog_Receipts
  imports Catalog_Properties
begin

text \<open>
  What a refused call of the catalogue leaves behind: the tables as they were, and one failure record.
\<close>

definition undisturbed :: "'s attempt \<Rightarrow> bool" where
  "undisturbed tx \<longleftrightarrow> (\<forall>s. at_before tx s = s) \<and> at_begin tx = None \<and> at_commit tx = None"

lemma undisturbed_Transaction:
  "undisturbed tx \<Longrightarrow> db_Transaction tx body st = (case body st of Inl e \<Rightarrow> (st, Inl e) | Inr (r, st') \<Rightarrow> (st', Inr r))"
  by (auto simp: undisturbed_def db_Transaction_def split: sum.split)

lemma undisturbed_read:
  "undisturbed tx \<Longrightarrow> db_Transaction tx (unchanged f) st = (st, f st)"
  by (cases "f st") (simp_all add: undisturbed_Transaction unchanged_def)

definition failure_receipt :: "gov_actor \<Rightarrow> string \<Rightarrow> string \<Rightarrow> string \<Rightarrow> goerr \<Rightarrow> audit_log \<Rightarrow> bool" where
  "failure_receipt a action i version e entry \<longleftrightarrow> al_TenantID entry = ga_TenantID a \<and> al_ActorUserID entry = ga_UserID a \<and> al_ActorRole entry = ga_Role a \<and>
     al_Action entry = ''lingdoc.template.'' @ action \<and> al_Outcome entry = ''failure'' \<and>
     {(''error_code'', catalogFailureCode e), (''template_id'', i), (''version'', version)} \<subseteq> set (al_Details entry)"

lemma with_receipt_refused:
  assumes "\<And>n. undisturbed (sched n)" "ready env a = Inr ()" "role_IsValid (ga_Role a)" "stableID i" "version = [] \<or> stableID version" "\<not> err_is e GovErrUnverifiedActor"
  shows "\<exists>entry. with_receipt env sched a action i version reason (st, Inl e) = (st\<lparr>rt_audits := rt_audits st @ [entry]\<rparr>, Inl e) \<and> failure_receipt a action i version e entry"
proof -
  define md where "md = (if version = [] then Inr [] else receipt_metadata env a i version st)"
  have m: "(if version = [] then (st, Inr []) else db_Transaction (sched 2) (unchanged (receipt_metadata env a i version)) st) = (st, md)"
    by (simp add: md_def undisturbed_read assms(1))
  let ?target = "if version = [] then i else i @ ''/'' @ version" and ?said = "if validReason reason then reason else ''rejected request without valid governance reason''"
  define details where "details = filter (\<lambda>(k, _). k \<notin> fst ` set []) [(''error_code'', catalogFailureCode e), (''template_id'', i), (''version'', version)] @ [] @
      (if version = [] then [] else receipt_found env (sched 2) a i version st) @ (case md of Inr m \<Rightarrow> [] | Inl _ \<Rightarrow> [(''current_version_metadata_unavailable'', ''true'')])"
  obtain entry where entry: "recordAuditOutcome env a action ?target ?said ''failure'' details st = Inr (st\<lparr>rt_audits := rt_audits st @ [entry]\<rparr>)" "failure_receipt a action i version e entry"
    using assms(3) by (auto simp: recordAuditOutcome_def failure_receipt_def details_def)
  have "db_Transaction (sched 3) (\<lambda>t. bindR (recordAuditOutcome env a action ?target ?said ''failure'' details t) (\<lambda>t'. Inr ((), t'))) st = (st\<lparr>rt_audits := rt_audits st @ [entry]\<rparr>, Inr ())"
    by (simp only: undisturbed_Transaction [OF assms(1)] entry(1) bindR_simps sum.case prod.case)
  moreover have "(\<not> stableID i \<or> version \<noteq> [] \<and> \<not> stableID version) = False" using assms(4,5) by auto
  ultimately have "auditCatalogFailureWithDetails env sched a action i version reason e [] st = (st\<lparr>rt_audits := rt_audits st @ [entry]\<rparr>, None)"
    unfolding auditCatalogFailureWithDetails_def Let_def m case_prod_conv using assms(2,6) by (simp add: details_def) blast
  then show ?thesis using entry(2) by (intro exI [of _ entry]) (simp add: with_receipt_def)
qed

lemma refused_answer:
  assumes "\<And>n. undisturbed (sched n)" "ready env a = Inr ()" "role_IsValid (ga_Role a)" "stableID i" "version = [] \<or> stableID version"
    and "with_receipt env sched a action i version reason answer = (st', Inl e)" "\<And>c. snd answer = Inl c \<Longrightarrow> fst answer = st" "\<not> err_is e GovErrUnverifiedActor"
  shows "\<exists>entry. st' = st\<lparr>rt_audits := rt_audits st @ [entry]\<rparr> \<and> failure_receipt a action i version e entry"
proof -
  obtain st0 r where ans: "answer = (st0, r)" by (rule prod.exhaust)
  obtain c where c: "r = Inl c" using assms(6) by (cases r) (auto simp: with_receipt_def ans)
  then have "answer = (st, Inl c)" using assms(7) by (simp add: ans)
  show ?thesis
  proof (cases "err_is c GovErrUnverifiedActor")
    case True
    then have "e = c" using assms(6) \<open>answer = (st, Inl c)\<close> by (simp add: with_receipt_def auditCatalogFailureWithDetails_def)
    then show ?thesis using True assms(8) by simp
  next
    case False
    have "\<exists>entry. with_receipt env sched a action i version reason answer = (st\<lparr>rt_audits := rt_audits st @ [entry]\<rparr>, Inl c) \<and> failure_receipt a action i version c entry"
      unfolding \<open>answer = (st, Inl c)\<close> by (rule with_receipt_refused [OF assms(1-5) False])
    then show ?thesis using assms(6) by auto
  qed
qed

lemma undisturbed_refusal: "undisturbed tx \<Longrightarrow> snd (db_Transaction tx body st) = Inl c \<Longrightarrow> fst (db_Transaction tx body st) = st"
  by (auto simp: undisturbed_Transaction split: sum.splits prod.splits)

lemma refused_CreateProfile:
  assumes "\<And>n. undisturbed (sched n)" "ready env a = Inr ()" "role_IsValid (ga_Role a)" "stableID (pi_ID inp)" "CreateProfile env sched a key inp st = (st', Inl e)" "\<not> err_is e GovErrUnverifiedActor"
  shows "\<exists>entry. st' = st\<lparr>rt_audits := rt_audits st @ [entry]\<rparr> \<and> failure_receipt a ''create_profile'' (pi_ID inp) [] e entry"
  by (rule refused_answer [OF assms(1-4) disjI1 [OF refl] assms(5) [unfolded CreateProfile_def] _ assms(6)])
    (auto simp: assms(2) split: if_splits dest: undisturbed_refusal [OF assms(1)])

lemma refused_transition:
  assumes "\<And>n. undisturbed (sched n)" "ready env a = Inr ()" "role_IsValid (ga_Role a)" "stableID (gi_TemplateID inp)" "stableID (gi_Version inp)"
    and "catalog_transition env sched a key inp action advice st = (st', Inl e)" "\<not> err_is e GovErrUnverifiedActor"
  shows "\<exists>entry. st' = st\<lparr>rt_audits := rt_audits st @ [entry]\<rparr> \<and> failure_receipt a action (gi_TemplateID inp) (gi_Version inp) e entry"
  by (rule refused_answer [OF assms(1-4) disjI2 [OF assms(5)] assms(6) [unfolded catalog_transition_def] _ assms(7)])
    (auto simp: assms(2) split: if_splits dest: undisturbed_refusal [OF assms(1)])

lemma refused_Recall:
  assumes "\<And>n. undisturbed (sched n)" "ready env a = Inr ()" "role_IsValid (ga_Role a)" "stableID (gi_TemplateID inp)" "stableID (gi_Version inp)"
    and "Recall env sched a key inp advice st = (st', Inl e)" "\<not> err_is e GovErrUnverifiedActor"
  shows "\<exists>entry. st' = st\<lparr>rt_audits := rt_audits st @ [entry]\<rparr> \<and> failure_receipt a ''recall'' (gi_TemplateID inp) (gi_Version inp) e entry"
proof (cases "blank advice \<or> ge_AffectedProjects env = None")
  case True
  with assms(6) have "with_receipt env sched a ''recall'' (gi_TemplateID inp) (gi_Version inp) (gi_Reason inp) (st, Inl (Sentinel GovErrInvalidRequest) :: goerr + template_version) = (st', Inl e)"
    by (simp add: Recall_def)
  then show ?thesis by (rule refused_answer [OF assms(1-4) disjI2 [OF assms(5)] _ _ assms(7)]) simp
next
  case False
  then show ?thesis using assms(6) by (intro refused_transition [OF assms(1-5) _ assms(7)]) (simp add: Recall_def split: if_splits)
qed

lemma refused_SaveDraft:
  assumes "\<And>n. undisturbed (sched n)" "ready env a = Inr ()" "role_IsValid (ga_Role a)" "stableID (di_TemplateID inp)" "stableID (di_Version inp)"
    and "SaveDraft env sched a key inp st = (st', Inl e)" "\<not> err_is e GovErrUnverifiedActor"
  shows "\<exists>entry. st' = st\<lparr>rt_audits := rt_audits st @ [entry]\<rparr> \<and> failure_receipt a ''save_draft'' (di_TemplateID inp) (di_Version inp) e entry"
  by (rule refused_answer [OF assms(1-4) disjI2 [OF assms(5)] assms(6) [unfolded SaveDraft_def undisturbed_read [OF assms(1)]] _ assms(7)])
    (auto split: if_splits sum.splits dest: undisturbed_refusal [OF assms(1)])

lemma refused_Publish:
  assumes "\<And>n. undisturbed (sched n)" "ready env a = Inr ()" "role_IsValid (ga_Role a)" "stableID (pu_TemplateID inp)" "stableID (pu_Version inp)"
    and "Publish env sched a key inp st = (st', Inl e)" "\<not> err_is e GovErrUnverifiedActor"
  shows "\<exists>entry. st' = st\<lparr>rt_audits := rt_audits st @ [entry]\<rparr> \<and> failure_receipt a ''publish'' (pu_TemplateID inp) (pu_Version inp) e entry"
  by (rule refused_answer [OF assms(1-4) disjI2 [OF assms(5)] assms(6) [unfolded Publish_def undisturbed_read [OF assms(1)]] _ assms(7)])
    (auto split: if_splits sum.splits option.splits dest: undisturbed_refusal [OF assms(1)])



end
