(* ===== verification/Rule_Suggestion.thy ===== *)
theory Rule_Suggestion
  imports Rule_Catalog
begin

text \<open>
  Suggestions of rules by a model: \<^verbatim>\<open>templategovernance/suggestion.go\<close>.

  The table of runs is part of the catalogue's store.  The authorizer of suggestions, the reader of a project's basis, the
  builder of the authorized context, the model and the strict JSON decoder of its answer are functions of the environment,
  \<^verbatim>\<open>None\<close> being the nil interface.  The decoder answers the first value of the text and whether the text ends there.
  The model answers an output together with an error, as a Go call does.  A run identifier is a UUID.
\<close>

section \<open>Store and environment\<close>

record suggestion_row =
  sw_TenantID :: nat
  sw_Run :: suggestion_run

record 'r sug_tables =
  sg_runs :: "suggestion_row list"
  sg_rest :: 'r

type_synonym 'r sug_store = "'r sug_tables gov_store"

record 'r sug_env =
  su_gov :: "'r sug_tables gov_env"
  su_AuthorizeSuggestion :: "'r sug_store \<Rightarrow> gov_actor \<Rightarrow> string \<Rightarrow> suggestion_scope \<Rightarrow> goerr option"
  su_CurrentProjectBasis :: "'r sug_store \<Rightarrow> gov_actor \<Rightarrow> string \<Rightarrow> goerr + version_basis"
  su_Build :: "(gov_actor \<Rightarrow> suggestion_scope \<Rightarrow> goerr + authorized_context) option"
  su_Suggest :: "(gov_actor \<Rightarrow> suggestion_request \<Rightarrow> suggestion_output \<times> goerr option) option"
  su_decode :: "string \<Rightarrow> goerr + suggestion_payload \<times> bool"
  su_basisText :: "version_basis \<Rightarrow> string"
  su_newID :: string
  su_elapsed :: int

abbreviation runs :: "'r sug_store \<Rightarrow> suggestion_row list" where
  "runs st \<equiv> sg_runs (cg_rest (rt_rest st))"

definition on_runs :: "(suggestion_row list \<Rightarrow> suggestion_row list) \<Rightarrow> 'r sug_store \<Rightarrow> 'r sug_store" where
  "on_runs f = on_catalog (\<lambda>c. c\<lparr>cg_rest := (cg_rest c)\<lparr>sg_runs := f (sg_runs (cg_rest c))\<rparr>\<rparr>)"

definition run_key :: "suggestion_row \<Rightarrow> nat \<times> string" where
  "run_key r = (sw_TenantID r, sr_ID (sw_Run r))"

definition authorizeSuggestion :: "'r sug_env \<Rightarrow> 'r sug_store \<Rightarrow> gov_actor \<Rightarrow> string \<Rightarrow> suggestion_scope \<Rightarrow> goerr + unit" where
  "authorizeSuggestion env st a action scope = (case su_AuthorizeSuggestion env st a action scope of Some e \<Rightarrow> Inl e | None \<Rightarrow> Inr ())"

section \<open>Rows\<close>

definition loadSuggestion :: "'r sug_store \<Rightarrow> gov_actor \<Rightarrow> string \<Rightarrow> goerr + suggestion_run" where
  "loadSuggestion st a i =
     (case find (\<lambda>r. sw_TenantID r = ga_TenantID a \<and> sr_ID (sw_Run r) = i) (runs st) of
        None \<Rightarrow> Inl (Sentinel GovErrNotFound) | Some r \<Rightarrow> Inr (sw_Run r))"

text \<open>The columns of an update: the identifier, project, actor, scope, prompt and creation time of a run are never written again.\<close>

definition run_columns :: "suggestion_run \<Rightarrow> suggestion_run \<Rightarrow> suggestion_run" where
  "run_columns n r = r\<lparr>sr_Revision := sr_Revision n, sr_Status := sr_Status n, sr_Output := sr_Output n, sr_ModelID := sr_ModelID n, sr_RunMode := sr_RunMode n,
     sr_ToolNames := sr_ToolNames n, sr_InputTokens := sr_InputTokens n, sr_OutputTokens := sr_OutputTokens n, sr_DurationMS := sr_DurationMS n,
     sr_ErrorCode := sr_ErrorCode n, sr_ErrorMessage := sr_ErrorMessage n, sr_DecisionReason := sr_DecisionReason n, sr_DraftRuleSet := sr_DraftRuleSet n,
     sr_UpdatedAt := sr_UpdatedAt n\<rparr>"

definition saveSuggestion :: "'r sug_env \<Rightarrow> gov_actor \<Rightarrow> suggestion_run option \<Rightarrow> suggestion_run \<Rightarrow> 'r sug_store \<Rightarrow> goerr + 'r sug_store" where
  "saveSuggestion env a previous nxt st =
     bindR (ge_marshalRun (su_gov env) nxt) (\<lambda>_.
       case previous of
         None \<Rightarrow>
           (let row = \<lparr>sw_TenantID = ga_TenantID a, sw_Run = nxt\<rparr> in
            if run_key row \<in> run_key ` set (runs st) then Inl (Raw ''unique constraint'') else Inr (on_runs (\<lambda>rs. rs @ [row]) st))
       | Some p \<Rightarrow>
           (let outcome = update_rows (\<lambda>r. sw_TenantID r = ga_TenantID a \<and> sr_ID (sw_Run r) = sr_ID p \<and> sr_Revision (sw_Run r) = sr_Revision p \<and> sr_Status (sw_Run r) = sr_Status p)
                            (\<lambda>r. r\<lparr>sw_Run := run_columns nxt (sw_Run r)\<rparr>) (runs st) in
            if fst outcome \<noteq> 1 then Inl (Sentinel GovErrVersionConflict) else Inr (on_runs (\<lambda>_. snd outcome) st)))"

section \<open>The basis of a suggestion\<close>

definition checkSuggestionBasis :: "'r sug_env \<Rightarrow> gov_actor \<Rightarrow> suggestion_scope \<Rightarrow> 'r sug_store \<Rightarrow> goerr + template_version" where
  "checkSuggestionBasis env a scope st =
     (let gov = su_gov env in
      bindR (checkSourcesInTransaction gov a (sp_Sources scope) st) (\<lambda>_.
      bindR (su_CurrentProjectBasis env st a (sp_ProjectID scope)) (\<lambda>actual.
        if actual \<noteq> sp_Basis scope \<or> vb_TemplateID actual \<noteq> sp_TemplateID scope \<or> vb_TemplateVersion actual \<noteq> sp_TemplateVersion scope then Inl (Sentinel GovErrStale)
        else bindR (loadVersion gov st a (sp_TemplateID scope) (sp_TemplateVersion scope)) (\<lambda>v.
          if tv_Revision v \<noteq> sp_CatalogRevision scope \<or> tv_RuleSet v \<noteq> sp_RuleSet scope \<or> tv_State v \<noteq> ''published'' then Inl (Sentinel GovErrStale)
          else (case bindableRuleSet gov a (sp_RuleSet scope) st of Inl _ \<Rightarrow> Inl (Sentinel GovErrStale) | Inr _ \<Rightarrow> Inr v)))))"

definition validSuggestionScope :: "suggestion_scope \<Rightarrow> bool" where
  "validSuggestionScope scope \<longleftrightarrow>
     \<not> blank (sp_ProjectID scope) \<and> 1 \<le> vb_ProjectVersion (sp_Basis scope) \<and> 1 \<le> sp_CatalogRevision scope \<and> stableID (sp_TemplateID scope) \<and>
     stableID (sp_TemplateVersion scope) \<and> validSourceRefs (sp_Sources scope) \<and> sp_TargetKind scope \<in> {''field'', ''chapter''} \<and> stableID (sp_TargetID scope)"

text \<open>
  The context handed to the model holds exactly the sources of the scope, each once, at the named version, allowed for
  model use, with a text whose digest is the recorded one.
\<close>

fun valid_sources :: "source_ref list \<Rightarrow> string list \<Rightarrow> authorized_source list \<Rightarrow> bool" where
  "valid_sources refs seen [] = True"
| "valid_sources refs seen (s # ss) =
     (case find (\<lambda>r. so_ID r = so_ID (as_Ref s)) (rev refs) of
        None \<Rightarrow> False
      | Some r \<Rightarrow> so_ID (as_Ref s) \<notin> set seen \<and> so_Version (as_Ref s) = so_Version r \<and> as_ModelUseAllowed s \<and> as_QuotedTextHash s \<noteq> [] \<and>
                  as_QuotedTextHash s = sha256_hex (as_QuotedText s) \<and> valid_sources refs (so_ID (as_Ref s) # seen) ss)"

definition validateAuthorizedContext :: "suggestion_scope \<Rightarrow> authorized_context \<Rightarrow> goerr + unit" where
  "validateAuthorizedContext scope c =
     (if ac_ProjectID c \<noteq> sp_ProjectID scope \<or> ac_Basis c \<noteq> sp_Basis scope \<or> ac_AuthorizationState c \<noteq> ''allowed'' then Inl (Sentinel GovErrSourceUnavailable)
      else if length (ac_Sources c) \<noteq> length (remdups (List.map so_ID (sp_Sources scope))) then Inl (Sentinel GovErrSourceUnavailable)
      else if \<not> valid_sources (sp_Sources scope) [] (ac_Sources c) then Inl (Sentinel GovErrSourceUnavailable)
      else Inr ())"

section \<open>What the model answered\<close>

definition InvalidOutput :: "goerr \<Rightarrow> goerr" where
  "InvalidOutput e = Wrapped (sentinel_msg GovErrInvalidOutput @ '': '' @ err_msg e) (Sentinel GovErrInvalidOutput)"

definition proposal_ok :: "template_version \<Rightarrow> suggestion_scope \<Rightarrow> proposed_rule \<Rightarrow> bool" where
  "proposal_ok v scope p \<longleftrightarrow>
     pr_RuleID p = [] \<and> pr_TargetKind p = sp_TargetKind scope \<and> pr_TargetID p = sp_TargetID scope \<and> \<not> blank (pr_Rationale p) \<and>
     targetExists (tv_Definition v) (pr_TargetKind p) (pr_TargetID p) \<and> list_all (\<lambda>i. i \<in> so_ID ` set (sp_Sources scope)) (pr_EvidenceSourceIDs p)"

definition suggested_id :: "string \<Rightarrow> nat \<Rightarrow> string" where
  "suggested_id runID n = ''suggest-'' @ take 20 (filter (\<lambda>c. c \<noteq> CHR ''-'') runID) @ ''-'' @ show_nat n"

fun name_proposals :: "string \<Rightarrow> nat \<Rightarrow> proposed_rule list \<Rightarrow> proposed_rule list" where
  "name_proposals runID n [] = []"
| "name_proposals runID n (p # ps) = p\<lparr>pr_RuleID := suggested_id runID n\<rparr> # name_proposals runID (Suc n) ps"

definition phantom_binding :: "gov_actor \<Rightarrow> proposed_rule \<Rightarrow> rule_binding" where
  "phantom_binding a p = \<lparr>b_RuleID = pr_RuleID p, b_DefinitionID = pr_DefinitionID p, b_DefinitionVersion = pr_DefinitionVersion p, b_Origin = ''project'',
     b_TargetKind = pr_TargetKind p, b_TargetID = pr_TargetID p, b_Parameters = pr_Parameters p, b_Severity = ''info'', b_Message = pr_Message p,
     b_TriggerScenes = [''write_check'', ''preflight''], b_PositiveExampleRefs = [], b_NegativeExampleRefs = [], b_Enabled = True, b_Owner = ga_UserID a\<rparr>"

definition parseSuggestion :: "'r sug_env \<Rightarrow> string \<Rightarrow> string \<Rightarrow> gov_actor \<Rightarrow> template_version \<Rightarrow> suggestion_scope \<Rightarrow> goerr + suggestion_payload" where
  "parseSuggestion env raw runID a v scope =
     (if raw = [] \<or> length raw > 256 * 1024 then Inl (Sentinel GovErrInvalidOutput)
      else case su_decode env raw of
        Inl e \<Rightarrow> Inl (InvalidOutput e)
      | Inr (payload, ends) \<Rightarrow>
          if \<not> ends then Inl (Sentinel GovErrInvalidOutput)
          else if sl_Proposals payload = [] \<or> length (sl_Proposals payload) > 20 \<or> blank (sl_Explanation payload) then Inl (Sentinel GovErrInvalidOutput)
          else if \<not> list_all (proposal_ok v scope) (sl_Proposals payload) then Inl (Sentinel GovErrInvalidOutput)
          else (let proposals = name_proposals runID 1 (sl_Proposals payload); snap = tv_RuleSetSnapshot v in
            case ValidateRuleSet (ge_tpl (su_gov env)) (snap\<lparr>s_State := ''draft'', s_RulesetHash := [], s_Bindings := s_Bindings snap @ List.map (phantom_binding a) proposals\<rparr>) of
              Inl e \<Rightarrow> Inl (InvalidOutput e)
            | Inr _ \<Rightarrow> Inr (payload\<lparr>sl_Proposals := proposals\<rparr>)))"

definition suggestionErrorCode :: "goerr \<Rightarrow> string" where
  "suggestionErrorCode e =
     (if err_is e GovErrModelUnavailable then ''model_unavailable''
      else if err_is e GovErrInvalidOutput then ''invalid_model_output''
      else if err_is e GovErrSourceUnavailable then ''source_access_denied''
      else if err_is e GovErrStale then ''basis_changed''
      else if err_is e ContextDeadlineExceeded then ''model_timeout''
      else if err_is e ContextCanceled then ''model_cancelled''
      else ''model_failed'')"

section \<open>Asking the model\<close>

definition RuleSuggestionPromptVersion :: string where
  "RuleSuggestionPromptVersion = ''lingdoc-rule-suggestion/2''"

definition scope_text :: "'r sug_env \<Rightarrow> suggestion_scope \<Rightarrow> string" where
  "scope_text env scope = (case ge_marshalRequest (su_gov env) (QSuggest scope) of Inr raw \<Rightarrow> raw | Inl _ \<Rightarrow> [])"

definition new_run :: "'r sug_env \<Rightarrow> gov_actor \<Rightarrow> suggestion_scope \<Rightarrow> suggestion_run" where
  "new_run env a scope =
     \<lparr>sr_ID = su_newID env, sr_ProjectID = sp_ProjectID scope, sr_ActorID = ga_UserID a, sr_Revision = 1, sr_Status = ''running'', sr_Scope = scope,
      sr_Output = None, sr_ModelID = [], sr_RunMode = [], sr_PromptVersion = RuleSuggestionPromptVersion, sr_ToolNames = [], sr_InputTokens = 0, sr_OutputTokens = 0,
      sr_DurationMS = 0, sr_ErrorCode = [], sr_ErrorMessage = [], sr_DecisionReason = [], sr_DraftRuleSet = None,
      sr_CreatedAt = ge_now (su_gov env), sr_UpdatedAt = ge_now (su_gov env)\<rparr>"

text \<open>The first transaction answers the run of an earlier attempt, or records a new one and answers the version it is about.\<close>

definition request_body :: "'r sug_env \<Rightarrow> gov_actor \<Rightarrow> string \<Rightarrow> suggestion_scope \<Rightarrow> 'r sug_store \<Rightarrow> goerr + (suggestion_run \<times> template_version option) \<times> 'r sug_store" where
  "request_body env a key scope st =
     (let gov = su_gov env in
      bindR (authorizeSuggestion env st a ''suggest'' scope) (\<lambda>_.
      bindR (checkSuggestionBasis env a scope st) (\<lambda>v.
      bindR (operationGet gov a ''request_suggestion'' (sp_ProjectID scope) key (QSuggest scope) st) (\<lambda>previous.
        case previous of
          Some (RRun r) \<Rightarrow>
            bindR (loadSuggestion st a (sr_ID r)) (\<lambda>current.
              if sp_ProjectID (sr_Scope current) \<noteq> sp_ProjectID scope then Inl (Sentinel GovErrInvalidState) else Inr ((current, None), st))
        | Some _ \<Rightarrow> Inl undecodable
        | None \<Rightarrow>
            if \<not> targetExists (tv_Definition v) (sp_TargetKind scope) (sp_TargetID scope) then Inl (Sentinel GovErrInvalidRequest)
            else (let run = new_run env a scope in
              bindR (saveSuggestion env a None run st) (\<lambda>st1.
              bindR (gov_recordAudit gov a ''suggest'' (sr_ID run) ''explicit rule suggestion request''
                       [(''scope'', scope_text env scope), (''status'', sr_Status run), (''prompt_version'', sr_PromptVersion run)] st1) (\<lambda>st2.
              bindR (operationSave gov a ''request_suggestion'' (sp_ProjectID scope) key (QSuggest scope) (RRun run) (su_basisText env (sp_Basis scope)) st2) (\<lambda>st3.
                Inr ((run, Some v), st3)))))))))"

definition build_context :: "'r sug_env \<Rightarrow> gov_actor \<Rightarrow> suggestion_scope \<Rightarrow> goerr + authorized_context" where
  "build_context env a scope =
     (case su_Build env of
        None \<Rightarrow> Inl (Sentinel GovErrSourceUnavailable)
      | Some f \<Rightarrow> bindR (f a scope) (\<lambda>c. bindR (validateAuthorizedContext scope c) (\<lambda>_. Inr c)))"

definition recheck_suggestion :: "'r sug_env \<Rightarrow> gov_actor \<Rightarrow> suggestion_scope \<Rightarrow> 'r sug_store \<Rightarrow> goerr + unit" where
  "recheck_suggestion env a scope st = bindR (authorizeSuggestion env st a ''suggest'' scope) (\<lambda>_. bindR (checkSuggestionBasis env a scope st) (\<lambda>_. Inr ()))"

definition zero_output :: suggestion_output where
  "zero_output = \<lparr>mo_StructuredOutput = [], mo_ModelID = [], mo_RunMode = [], mo_InputTokens = 0, mo_OutputTokens = 0, mo_ToolNames = []\<rparr>"

definition judge_output :: "'r sug_env \<Rightarrow> gov_actor \<Rightarrow> string \<Rightarrow> template_version \<Rightarrow> suggestion_scope \<Rightarrow> suggestion_output \<Rightarrow> goerr + suggestion_payload" where
  "judge_output env a runID v scope out =
     (if mo_ModelID out = [] \<or> mo_RunMode out \<notin> {''real'', ''mock'', ''real_api_fake_model''} \<or> mo_InputTokens out < 0 \<or> mo_OutputTokens out < 0
      then Inl (Sentinel GovErrInvalidOutput)
      else parseSuggestion env (mo_StructuredOutput out) runID a v scope)"

definition ask_model :: "'r sug_env \<Rightarrow> gov_actor \<Rightarrow> suggestion_run \<Rightarrow> template_version \<Rightarrow> suggestion_scope \<Rightarrow> goerr + authorized_context \<Rightarrow> suggestion_output \<times> (goerr + suggestion_payload)" where
  "ask_model env a run v scope ctx =
     (case ctx of
        Inl e \<Rightarrow> (zero_output, Inl e)
      | Inr c \<Rightarrow>
          (case su_Suggest env of
             None \<Rightarrow> (zero_output, Inl (Sentinel GovErrModelUnavailable))
           | Some f \<Rightarrow>
               (case f a \<lparr>sq_Scope = scope, sq_Template = tv_Definition v, sq_RuleSet = tv_RuleSetSnapshot v, sq_Context = c,
                          sq_PromptVersion = RuleSuggestionPromptVersion, sq_CorrelationID = sr_ID run\<rparr> of
                  (out, Some e) \<Rightarrow> (out, Inl e)
                | (out, None) \<Rightarrow> (out, judge_output env a (sr_ID run) v scope out))))"

text \<open>The last transaction: the answer counts only if the caller is still authorized and the basis is still the one of the scope.\<close>

definition finished_run :: "'r sug_env \<Rightarrow> suggestion_output \<Rightarrow> suggestion_run \<Rightarrow> suggestion_run" where
  "finished_run env out r =
     r\<lparr>sr_Revision := sr_Revision r + 1, sr_UpdatedAt := ge_now (su_gov env), sr_DurationMS := su_elapsed env, sr_ModelID := mo_ModelID out, sr_RunMode := mo_RunMode out,
       sr_ToolNames := mo_ToolNames out, sr_InputTokens := mo_InputTokens out, sr_OutputTokens := mo_OutputTokens out\<rparr>"

definition failed_run :: "string \<Rightarrow> string \<Rightarrow> string \<Rightarrow> suggestion_run \<Rightarrow> suggestion_run" where
  "failed_run status code message r = r\<lparr>sr_Status := status, sr_ErrorCode := code, sr_ErrorMessage := message\<rparr>"

definition finish_outcome :: "'r sug_env \<Rightarrow> gov_actor \<Rightarrow> suggestion_scope \<Rightarrow> suggestion_output \<Rightarrow> goerr + suggestion_payload \<Rightarrow> suggestion_run \<Rightarrow> 'r sug_store \<Rightarrow> suggestion_run \<times> goerr option" where
  "finish_outcome env a scope out answer current st =
     (let nxt = finished_run env out current in
      case authorizeSuggestion env st a ''suggest'' scope of
        Inl e \<Rightarrow> (failed_run ''failed'' ''authorization_changed'' ''authorization changed while model work was running'' nxt, Some e)
      | Inr _ \<Rightarrow>
          (case checkSuggestionBasis env a scope st of
             Inl _ \<Rightarrow> (failed_run ''stale'' ''basis_changed'' ''the pinned project, template or ruleset changed'' nxt, None)
           | Inr _ \<Rightarrow>
               (case answer of
                  Inl e \<Rightarrow> (failed_run ''failed'' (suggestionErrorCode e) (suggestionErrorCode e) nxt, None)
                | Inr payload \<Rightarrow> (nxt\<lparr>sr_Status := ''suggestion'', sr_Output := Some payload\<rparr>, None))))"

definition finish_details :: "'r sug_env \<Rightarrow> suggestion_scope \<Rightarrow> suggestion_run \<Rightarrow> (string \<times> string) list" where
  "finish_details env scope r =
     [(''status'', sr_Status r), (''scope'', scope_text env scope), (''model_id'', sr_ModelID r), (''run_mode'', sr_RunMode r), (''prompt_version'', sr_PromptVersion r),
      (''input_tokens'', show_int (sr_InputTokens r)), (''output_tokens'', show_int (sr_OutputTokens r)), (''duration_ms'', show_int (sr_DurationMS r)),
      (''error_code'', sr_ErrorCode r)] @ List.map (Pair ''tool_names'') (sr_ToolNames r)"

definition finish_body :: "'r sug_env \<Rightarrow> gov_actor \<Rightarrow> suggestion_scope \<Rightarrow> string \<Rightarrow> suggestion_output \<Rightarrow> goerr + suggestion_payload \<Rightarrow> 'r sug_store \<Rightarrow> goerr + (suggestion_run \<times> goerr option) \<times> 'r sug_store" where
  "finish_body env a scope i out answer st =
     bindR (loadSuggestion st a i) (\<lambda>current.
       if sr_Status current \<noteq> ''running'' then Inr ((current, None), st)
       else (let (nxt, denial) = finish_outcome env a scope out answer current st in
         bindR (saveSuggestion env a (Some current) nxt st) (\<lambda>st1.
         bindR (gov_recordAudit (su_gov env) a ''suggest'' (sr_ID nxt) ''rule suggestion completed'' (finish_details env scope nxt) st1) (\<lambda>st2.
           Inr ((nxt, denial), st2)))))"

definition RequestRuleSuggestion :: "'r sug_env \<Rightarrow> (nat \<Rightarrow> 'r sug_store attempt) \<Rightarrow> gov_actor \<Rightarrow> string \<Rightarrow> suggestion_scope \<Rightarrow> 'r sug_store \<Rightarrow> 'r sug_store \<times> (goerr + suggestion_run)" where
  "RequestRuleSuggestion env sched a key scope st =
     (case bindR (ready (su_gov env) a) (\<lambda>_. if \<not> validKey key \<or> \<not> validSuggestionScope scope then Inl (Sentinel GovErrInvalidRequest) else Inr ()) of
        Inl e \<Rightarrow> (st, Inl e)
      | Inr _ \<Rightarrow>
          (case db_Transaction (sched 0) (request_body env a key scope) st of
             (st1, Inl e) \<Rightarrow> (st1, Inl e)
           | (st1, Inr (run, None)) \<Rightarrow> (st1, Inr run)
           | (st1, Inr (run, Some v)) \<Rightarrow>
               (let (st2, ctx) = (case build_context env a scope of
                      Inl e \<Rightarrow> (st1, Inl e)
                    | Inr c \<Rightarrow> (case db_Transaction (sched 1) (unchanged (recheck_suggestion env a scope)) st1 of
                          (st2, Inl e) \<Rightarrow> (st2, Inl e) | (st2, Inr _) \<Rightarrow> (st2, Inr c)));
                    (out, answer) = ask_model env a run v scope ctx
                in case db_Transaction (sched 2) (finish_body env a scope (sr_ID run) out answer) st2 of
                     (st3, Inl e) \<Rightarrow> (st3, Inl e)
                   | (st3, Inr (_, Some denial)) \<Rightarrow> (st3, Inl denial)
                   | (st3, Inr (r, None)) \<Rightarrow> (st3, Inr r))))"

section \<open>Reading suggestions\<close>

definition get_suggestion_body :: "'r sug_env \<Rightarrow> gov_actor \<Rightarrow> string \<Rightarrow> string \<Rightarrow> 'r sug_store \<Rightarrow> goerr + suggestion_run \<times> 'r sug_store" where
  "get_suggestion_body env a projectID runID st =
     bindR (loadSuggestion st a runID) (\<lambda>current.
       if sr_ProjectID current \<noteq> projectID then Inl (Sentinel GovErrNotFound)
       else bindR (authorizeSuggestion env st a ''read'' (sr_Scope current)) (\<lambda>_.
         if sr_Status current \<in> {''running'', ''suggestion''} then
           (case checkSuggestionBasis env a (sr_Scope current) st of
              Inr _ \<Rightarrow> Inr (current, st)
            | Inl e \<Rightarrow>
                if \<not> err_is e GovErrStale then Inl e
                else (let nxt = failed_run ''stale'' ''basis_changed'' ''the pinned project, template or ruleset changed''
                                  (current\<lparr>sr_Revision := sr_Revision current + 1, sr_UpdatedAt := ge_now (su_gov env)\<rparr>) in
                  bindR (saveSuggestion env a (Some current) nxt st) (\<lambda>st1.
                  bindR (gov_recordAudit (su_gov env) a ''suggest'' runID ''pinned context changed'' [(''status'', ''stale''), (''scope'', scope_text env (sr_Scope current))] st1) (\<lambda>st2.
                    Inr (nxt, st2)))))
         else Inr (current, st)))"

definition GetRuleSuggestion :: "'r sug_env \<Rightarrow> 'r sug_store attempt \<Rightarrow> gov_actor \<Rightarrow> string \<Rightarrow> string \<Rightarrow> 'r sug_store \<Rightarrow> 'r sug_store \<times> (goerr + suggestion_run)" where
  "GetRuleSuggestion env tx a projectID runID st =
     (case ready (su_gov env) a of Inl e \<Rightarrow> (st, Inl e) | Inr _ \<Rightarrow> db_Transaction tx (get_suggestion_body env a projectID runID) st)"

text \<open>The zero scope of the code names the project only.\<close>

definition zero_scope :: "string \<Rightarrow> suggestion_scope" where
  "zero_scope projectID =
     \<lparr>sp_ProjectID = projectID,
      sp_Basis = \<lparr>vb_ProjectVersion = 0, vb_SpecRevision = 0, vb_ContextRevision = 0, vb_TemplateCopyVersion = 0, vb_TemplateID = [], vb_TemplateVersion = [],
        vb_RuleSet = \<lparr>ref_ID = [], ref_Version = [], ref_Hash = []\<rparr>, vb_CurrentSnapshotID = []\<rparr>,
      sp_TemplateID = [], sp_TemplateVersion = [], sp_CatalogRevision = 0, sp_RuleSet = \<lparr>ref_ID = [], ref_Version = [], ref_Hash = []\<rparr>,
      sp_TargetKind = [], sp_TargetID = [], sp_Sources = []\<rparr>"

definition suggestion_ids :: "'r sug_env \<Rightarrow> gov_actor \<Rightarrow> string \<Rightarrow> 'r sug_store \<Rightarrow> goerr + string list" where
  "suggestion_ids env a projectID st =
     bindR (authorizeSuggestion env st a ''read'' (zero_scope projectID)) (\<lambda>_.
       Inr (List.map (\<lambda>r. sr_ID (sw_Run r))
         (sort_key (\<lambda>r. (- sr_CreatedAt (sw_Run r), sr_ID (sw_Run r)))
           (filter (\<lambda>r. sw_TenantID r = ga_TenantID a \<and> sr_ProjectID (sw_Run r) = projectID) (runs st)))))"

fun get_each :: "'r sug_env \<Rightarrow> (nat \<Rightarrow> 'r sug_store attempt) \<Rightarrow> nat \<Rightarrow> gov_actor \<Rightarrow> string \<Rightarrow> string list \<Rightarrow> 'r sug_store \<Rightarrow> 'r sug_store \<times> (goerr + suggestion_run list)" where
  "get_each env sched n a projectID [] st = (st, Inr [])"
| "get_each env sched n a projectID (i # is) st =
     (case GetRuleSuggestion env (sched n) a projectID i st of
        (st1, Inl e) \<Rightarrow> (st1, Inl e)
      | (st1, Inr r) \<Rightarrow> (case get_each env sched (Suc n) a projectID is st1 of (st2, rest) \<Rightarrow> (st2, bindR rest (\<lambda>rs. Inr (r # rs)))))"

definition ListRuleSuggestions :: "'r sug_env \<Rightarrow> (nat \<Rightarrow> 'r sug_store attempt) \<Rightarrow> gov_actor \<Rightarrow> string \<Rightarrow> 'r sug_store \<Rightarrow> 'r sug_store \<times> (goerr + suggestion_run list)" where
  "ListRuleSuggestions env sched a projectID st =
     (case ready (su_gov env) a of
        Inl e \<Rightarrow> (st, Inl e)
      | Inr _ \<Rightarrow>
          (case db_Transaction (sched 0) (unchanged (suggestion_ids env a projectID)) st of
             (st1, Inl e) \<Rightarrow> (st1, Inl e)
           | (st1, Inr ids) \<Rightarrow> get_each env sched 1 a projectID ids st1))"

section \<open>Accepting and rejecting\<close>

text \<open>The bindings the human submits: each takes up one proposal, at its target, never blocking, and belongs to the human.\<close>

fun human_bindings :: "gov_actor \<Rightarrow> proposed_rule list \<Rightarrow> string list \<Rightarrow> rule_binding list \<Rightarrow> goerr + rule_binding list" where
  "human_bindings a proposals seen [] = Inr []"
| "human_bindings a proposals seen (b # bs) =
     (case find (\<lambda>p. pr_RuleID p = b_RuleID b) (rev proposals) of
        None \<Rightarrow> Inl (Sentinel GovErrInvalidRequest)
      | Some p \<Rightarrow>
          if b_RuleID b \<in> set seen \<or> b_TargetKind b \<noteq> pr_TargetKind p \<or> b_TargetID b \<noteq> pr_TargetID p \<or> b_Severity b \<noteq> ''info'' \<and> b_Severity b \<noteq> ''warning''
          then Inl (Sentinel GovErrInvalidRequest)
          else bindR (human_bindings a proposals (b_RuleID b # seen) bs) (\<lambda>rest. Inr (b\<lparr>b_Origin := ''project'', b_Owner := ga_UserID a\<rparr> # rest)))"

definition accepted_draft :: "gov_actor \<Rightarrow> accept_input \<Rightarrow> rule_set \<Rightarrow> rule_binding list \<Rightarrow> rule_set" where
  "accepted_draft a inp snap added =
     snap\<lparr>s_ID := ai_RuleSetID inp, s_Version := ai_Version inp, s_State := ''draft'', s_RulesetHash := [], s_Bindings := s_Bindings snap @ added\<rparr>"

definition accepted_run :: "'r sug_env \<Rightarrow> accept_input \<Rightarrow> suggestion_run \<Rightarrow> suggestion_run" where
  "accepted_run env inp current =
     current\<lparr>sr_Revision := sr_Revision current + 1, sr_Status := ''accepted'', sr_DecisionReason := ai_Reason inp,
       sr_DraftRuleSet := Some \<lparr>ref_ID = ai_RuleSetID inp, ref_Version = ai_Version inp, ref_Hash = []\<rparr>, sr_UpdatedAt := ge_now (su_gov env)\<rparr>"

definition bindings_text :: "'r sug_env \<Rightarrow> rule_binding list \<Rightarrow> string" where
  "bindings_text env bs = (case re_marshalBindings (ge_rule (su_gov env)) bs of Inr raw \<Rightarrow> raw | Inl _ \<Rightarrow> [])"

definition accept_body :: "'r sug_env \<Rightarrow> gov_actor \<Rightarrow> string \<Rightarrow> string \<Rightarrow> string \<Rightarrow> accept_input \<Rightarrow> 'r sug_store \<Rightarrow> goerr + suggestion_run \<times> 'r sug_store" where
  "accept_body env a projectID runID key inp st =
     (let gov = su_gov env; renv = ge_rule gov in
      bindR (loadSuggestion st a runID) (\<lambda>current.
        if sr_ProjectID current \<noteq> projectID then Inl (Sentinel GovErrNotFound)
        else bindR (authorizeSuggestion env st a ''accept_suggestion'' (sr_Scope current)) (\<lambda>_.
        bindR (checkSuggestionBasis env a (sr_Scope current) st) (\<lambda>v.
        bindR (operationGet gov a ''accept_suggestion'' runID key (QAccept inp) st) (\<lambda>previous.
          case previous of
            Some (RRun r) \<Rightarrow> if sr_Revision current \<noteq> sr_Revision r \<or> sr_Status current \<noteq> ''accepted'' then Inl (Sentinel GovErrVersionConflict) else Inr (r, st)
          | Some _ \<Rightarrow> Inl undecodable
          | None \<Rightarrow>
              (case sr_Output current of
                 None \<Rightarrow> Inl (Sentinel GovErrInvalidState)
               | Some payload \<Rightarrow>
                   if sr_Status current \<noteq> ''suggestion'' then Inl (Sentinel GovErrInvalidState)
                   else if sr_Revision current \<noteq> ai_ExpectedRevision inp then Inl (Sentinel GovErrVersionConflict)
                   else if ai_RuleSetID inp \<noteq> ref_ID (sp_RuleSet (sr_Scope current)) \<or> ai_Version inp = ref_Version (sp_RuleSet (sr_Scope current))
                   then Inl (Sentinel GovErrInvalidRequest)
                   else bindR (human_bindings a (sl_Proposals payload) [] (ai_Bindings inp)) (\<lambda>added.
                     let draft = accepted_draft a inp (tv_RuleSetSnapshot v) added; nxt = accepted_run env inp current in
                     bindR (ValidateRuleSet (ge_tpl gov) draft) (\<lambda>_.
                     bindR (create_draft_check renv a draft) (\<lambda>_.
                     bindR (create_draft_body renv a draft st) (\<lambda>st1.
                     bindR (saveSuggestion env a (Some current) nxt st1) (\<lambda>st2.
                     bindR (gov_recordAudit gov a ''accept_suggestion'' runID (ai_Reason inp)
                              [(''scope'', scope_text env (sr_Scope current)), (''draft_ruleset_id'', s_ID draft), (''draft_ruleset_version'', s_Version draft),
                               (''human_bindings'', bindings_text env (ai_Bindings inp))] st2) (\<lambda>st3.
                     bindR (operationSave gov a ''accept_suggestion'' runID key (QAccept inp) (RRun nxt) (su_basisText env (sp_Basis (sr_Scope current))) st3) (\<lambda>st4.
                       Inr (nxt, st4))))))))))))))"

definition AcceptRuleSuggestion :: "'r sug_env \<Rightarrow> 'r sug_store attempt \<Rightarrow> gov_actor \<Rightarrow> string \<Rightarrow> string \<Rightarrow> string \<Rightarrow> accept_input \<Rightarrow> 'r sug_store \<Rightarrow> 'r sug_store \<times> (goerr + suggestion_run)" where
  "AcceptRuleSuggestion env tx a projectID runID key inp st =
     (case bindR (ready (su_gov env) a) (\<lambda>_.
             if \<not> validKey key \<or> ai_ExpectedRevision inp < 1 \<or> \<not> validReason (ai_Reason inp) \<or> \<not> stableID (ai_RuleSetID inp) \<or> \<not> stableID (ai_Version inp) \<or>
                ai_Bindings inp = [] \<or> re_authorizer (ge_rule (su_gov env)) = None then Inl (Sentinel GovErrInvalidRequest) else Inr ()) of
        Inl e \<Rightarrow> (st, Inl e)
      | Inr _ \<Rightarrow> db_Transaction tx (accept_body env a projectID runID key inp) st)"

definition reject_body :: "'r sug_env \<Rightarrow> gov_actor \<Rightarrow> string \<Rightarrow> string \<Rightarrow> string \<Rightarrow> reject_input \<Rightarrow> 'r sug_store \<Rightarrow> goerr + suggestion_run \<times> 'r sug_store" where
  "reject_body env a projectID runID key inp st =
     (let gov = su_gov env in
      bindR (loadSuggestion st a runID) (\<lambda>current.
        if sr_ProjectID current \<noteq> projectID then Inl (Sentinel GovErrNotFound)
        else bindR (authorizeSuggestion env st a ''reject_suggestion'' (sr_Scope current)) (\<lambda>_.
        bindR (operationGet gov a ''reject_suggestion'' runID key (QReject inp) st) (\<lambda>previous.
          case previous of
            Some (RRun r) \<Rightarrow> if sr_Revision current \<noteq> sr_Revision r \<or> sr_Status current \<noteq> ''rejected'' then Inl (Sentinel GovErrVersionConflict) else Inr (r, st)
          | Some _ \<Rightarrow> Inl undecodable
          | None \<Rightarrow>
              if sr_Status current \<notin> {''suggestion'', ''stale'', ''failed''} then Inl (Sentinel GovErrInvalidState)
              else if sr_Revision current \<noteq> ji_ExpectedRevision inp then Inl (Sentinel GovErrVersionConflict)
              else (let nxt = current\<lparr>sr_Revision := sr_Revision current + 1, sr_Status := ''rejected'', sr_DecisionReason := ji_Reason inp, sr_UpdatedAt := ge_now gov\<rparr> in
                bindR (saveSuggestion env a (Some current) nxt st) (\<lambda>st1.
                bindR (gov_recordAudit gov a ''reject_suggestion'' runID (ji_Reason inp)
                         [(''scope'', scope_text env (sr_Scope current)), (''prior_status'', sr_Status current)] st1) (\<lambda>st2.
                bindR (operationSave gov a ''reject_suggestion'' runID key (QReject inp) (RRun nxt) (su_basisText env (sp_Basis (sr_Scope current))) st2) (\<lambda>st3.
                  Inr (nxt, st3)))))))))"

definition RejectRuleSuggestion :: "'r sug_env \<Rightarrow> 'r sug_store attempt \<Rightarrow> gov_actor \<Rightarrow> string \<Rightarrow> string \<Rightarrow> string \<Rightarrow> reject_input \<Rightarrow> 'r sug_store \<Rightarrow> 'r sug_store \<times> (goerr + suggestion_run)" where
  "RejectRuleSuggestion env tx a projectID runID key inp st =
     (case bindR (ready (su_gov env) a) (\<lambda>_.
             if \<not> validKey key \<or> ji_ExpectedRevision inp < 1 \<or> \<not> validReason (ji_Reason inp) then Inl (Sentinel GovErrInvalidRequest) else Inr ()) of
        Inl e \<Rightarrow> (st, Inl e)
      | Inr _ \<Rightarrow> db_Transaction tx (reject_body env a projectID runID key inp) st)"

end
