(* ===== verification/Suggestion_Steps.thy ===== *)
theory Suggestion_Steps
  imports Rule_Suggestion Catalog_Steps
begin

text \<open>
  The life of a suggestion: what one transaction may do to the table of runs, as an instance of the moving table, and each
  call with other transactions between its own as a sequence of steps.
\<close>

section \<open>How a run moves\<close>

definition suggestion_moves :: "string \<Rightarrow> string set" where
  "suggestion_moves s =
     (if s = ''running'' then {''running'', ''suggestion'', ''failed'', ''stale'', ''accepted'', ''rejected''}
      else if s = ''suggestion'' then {''suggestion'', ''stale'', ''accepted'', ''rejected''}
      else if s = ''stale'' \<or> s = ''failed'' then {s, ''rejected''} else {s})"

lemma suggestion_moves_refl [simp]: "s \<in> suggestion_moves s"
  by (simp add: suggestion_moves_def)

lemma suggestion_moves_trans: "t \<in> suggestion_moves s \<Longrightarrow> u \<in> suggestion_moves t \<Longrightarrow> u \<in> suggestion_moves s"
  by (auto simp: suggestion_moves_def split: if_splits)

text \<open>What was asked, by whom and about what never changes; what the model answered is written once.\<close>

definition asked :: "suggestion_run \<Rightarrow> (string \<times> string \<times> string) \<times> suggestion_scope \<times> string \<times> int" where
  "asked r = ((sr_ID r, sr_ProjectID r, sr_ActorID r), sr_Scope r, sr_PromptVersion r, sr_CreatedAt r)"

definition model_said :: "suggestion_run \<Rightarrow> (suggestion_payload option \<times> string \<times> string) \<times> string list \<times> int \<times> int \<times> int" where
  "model_said r = ((sr_Output r, sr_ModelID r, sr_RunMode r), sr_ToolNames r, sr_InputTokens r, sr_OutputTokens r, sr_DurationMS r)"

definition run_succ :: "suggestion_run \<Rightarrow> suggestion_run \<Rightarrow> bool" where
  "run_succ r n \<longleftrightarrow> asked n = asked r \<and> sr_Status n \<in> suggestion_moves (sr_Status r) \<and> (sr_Status r \<noteq> ''running'' \<longrightarrow> model_said n = model_said r) \<and>
     sr_Revision r < sr_Revision n \<and> sr_Status n \<noteq> ''running''"

definition run_moves :: "suggestion_row \<Rightarrow> suggestion_row \<Rightarrow> bool" where
  "run_moves r n \<longleftrightarrow> n = r \<or> sw_TenantID n = sw_TenantID r \<and> run_succ (sw_Run r) (sw_Run n)"

lemma run_succ_trans: "run_succ a b \<Longrightarrow> run_succ b c \<Longrightarrow> run_succ a c"
  by (auto simp: run_succ_def dest: suggestion_moves_trans)

lemma run_moves_refl: "run_moves r r"
  by (simp add: run_moves_def)

lemma run_moves_trans: "run_moves a b \<Longrightarrow> run_moves b c \<Longrightarrow> run_moves a c"
  by (auto simp: run_moves_def dest: run_succ_trans)

lemma run_moves_key: "run_moves r n \<Longrightarrow> run_key n = run_key r"
  by (auto simp: run_moves_def run_succ_def asked_def run_key_def)

text \<open>A stored run: an output exactly where the model was heard, a draft exactly where a human accepted.\<close>

definition good_run :: "suggestion_run \<Rightarrow> bool" where
  "good_run r \<longleftrightarrow> sr_Status r \<in> {''running'', ''suggestion'', ''failed'', ''stale'', ''accepted'', ''rejected''} \<and> 1 \<le> sr_Revision r \<and>
     (sr_Status r \<in> {''suggestion'', ''accepted''} \<longrightarrow> sr_Output r \<noteq> None) \<and> (sr_Status r \<in> {''running'', ''failed''} \<longrightarrow> sr_Output r = None) \<and>
     (sr_DraftRuleSet r \<noteq> None \<longleftrightarrow> sr_Status r = ''accepted'')"

definition runs_ok :: "'r sug_store \<Rightarrow> bool" where
  "runs_ok st \<longleftrightarrow> distinct (map run_key (runs st)) \<and> (\<forall>r \<in> set (runs st). good_run (sw_Run r))"

definition runs_effect :: "'r sug_store \<Rightarrow> 'r sug_store \<Rightarrow> bool" where
  "runs_effect st st' \<longleftrightarrow> table_edit run_key (\<lambda>r. good_run (sw_Run r)) run_moves (runs st) (runs st')"

lemma runs_effect_frame: "runs st' = runs st \<Longrightarrow> runs_effect st st'"
  by (simp add: runs_effect_def)

lemma runs_effect_ok: "runs_effect st st' \<Longrightarrow> runs_ok st \<Longrightarrow> runs_ok st'"
  unfolding runs_effect_def runs_ok_def using table_edit_keys [of run_key "\<lambda>r. good_run (sw_Run r)" run_moves "runs st" "runs st'"]
    table_edit_good [of run_key "\<lambda>r. good_run (sw_Run r)" run_moves "runs st" "runs st'"] by auto

lemma runs_effect_succ: "runs_effect st st' \<Longrightarrow> r \<in> set (runs st) \<Longrightarrow> \<exists>r' \<in> set (runs st'). run_moves r r'"
  unfolding runs_effect_def using table_edit_succ [of run_key "\<lambda>r. good_run (sw_Run r)" run_moves "runs st" "runs st'" r] run_moves_refl [of r] by auto

section \<open>What the writes do\<close>

lemma on_runs_frame: "runs (on_runs f st) = f (runs st)" "rt_sets (on_runs f st) = rt_sets st" "versions (on_runs f st) = versions st" "profiles (on_runs f st) = profiles st"
  by (simp_all add: on_runs_def on_catalog_def)

lemma operationSave_rest: "operationSave env a operation target key request res basis st = Inr st' \<Longrightarrow> cg_rest (rt_rest st') = cg_rest (rt_rest st)"
  by (auto simp: operationSave_def on_catalog_def Let_def split: if_splits)

lemma create_draft_rest: "create_draft_body env a draft st = Inr st' \<Longrightarrow> rt_rest st' = rt_rest st"
  by (auto simp: create_draft_body_def Let_def dest: rs_recordAudit_frame split: if_splits)

lemma loadSuggestion_ok:
  assumes "loadSuggestion st a i = Inr cur"
  obtains r where "r \<in> set (runs st)" "run_key r = (ga_TenantID a, i)" "cur = sw_Run r"
proof -
  from assms obtain r where "find (\<lambda>r. sw_TenantID r = ga_TenantID a \<and> sr_ID (sw_Run r) = i) (runs st) = Some r" "cur = sw_Run r"
    by (auto simp: loadSuggestion_def split: option.splits)
  then show thesis using find_member [of _ "runs st" r] by (intro that [of r]) (auto simp: run_key_def)
qed

lemma find_run:
  assumes "distinct (map run_key rs)" "n \<in> set rs" "run_key n = (tenant, i)"
  shows "find (\<lambda>x. sw_TenantID x = tenant \<and> sr_ID (sw_Run x) = i) rs = Some n"
proof (cases "find (\<lambda>x. sw_TenantID x = tenant \<and> sr_ID (sw_Run x) = i) rs")
  case None
  then show ?thesis using assms(2,3) by (auto simp: find_None_iff run_key_def)
next
  case (Some m)
  from find_member [OF this] have "m \<in> set rs" "run_key m = (tenant, i)" by (simp_all add: run_key_def)
  then show ?thesis using Some key_member [OF assms(1) _ assms(2)] assms(3) by simp
qed

lemma save_new_run:
  assumes "saveSuggestion env a None nxt st = Inr st'" "good_run nxt"
  shows "runs_effect st st'"
proof -
  have "run_key \<lparr>sw_TenantID = ga_TenantID a, sw_Run = nxt\<rparr> \<notin> run_key ` set (runs st)" "st' = on_runs (\<lambda>rs. rs @ [\<lparr>sw_TenantID = ga_TenantID a, sw_Run = nxt\<rparr>]) st"
    using assms(1) by (auto simp: saveSuggestion_def Let_def split: if_splits)
  then show ?thesis using table_edit_append [of run_key "\<lparr>sw_TenantID = ga_TenantID a, sw_Run = nxt\<rparr>"] assms(2) by (simp add: runs_effect_def on_runs_frame)
qed

lemma save_next_run:
  assumes "saveSuggestion env a (Some cur) nxt st = Inr st'" "runs_ok st" "loadSuggestion st a i = Inr cur" "run_columns nxt cur = nxt" "run_succ cur nxt" "good_run nxt"
  shows "runs_effect st st'" "loadSuggestion st' a i = Inr nxt" "rt_sets st' = rt_sets st" "versions st' = versions st" "profiles st' = profiles st"
proof -
  obtain r where r: "r \<in> set (runs st)" "run_key r = (ga_TenantID a, i)" "cur = sw_Run r" by (rule loadSuggestion_ok [OF assms(3)])
  define sel where "sel = (\<lambda>x :: suggestion_row. sw_TenantID x = ga_TenantID a \<and> sr_ID (sw_Run x) = sr_ID cur \<and> sr_Revision (sw_Run x) = sr_Revision cur \<and> sr_Status (sw_Run x) = sr_Status cur)"
  define n where "n = r\<lparr>sw_Run := nxt\<rparr>"
  have d: "distinct (map run_key (runs st))" using assms(2) by (simp add: runs_ok_def)
  have sel: "sel x \<longleftrightarrow> x = r" if "x \<in> set (runs st)" for x using key_member [OF d that r(1)] r(2,3) by (auto simp: sel_def run_key_def)
  have st': "st' = on_runs (\<lambda>_. map (\<lambda>x. if sel x then x\<lparr>sw_Run := run_columns nxt (sw_Run x)\<rparr> else x) (runs st)) st"
    using assms(1) by (auto simp: saveSuggestion_def Let_def update_rows_def sel_def [abs_def] split: if_splits)
  have m: "map (\<lambda>x. if sel x then x\<lparr>sw_Run := run_columns nxt (sw_Run x)\<rparr> else x) (runs st) = map (\<lambda>x. if x = r then n else x) (runs st)"
    using sel assms(4) r(3) by (auto simp: n_def)
  have k: "run_key n = run_key r" using assms(5) r(3) by (simp add: n_def run_key_def run_succ_def asked_def)
  have mv: "run_moves r n" using assms(5) r(3) by (simp add: run_moves_def n_def)
  show e: "runs_effect st st'" unfolding runs_effect_def st' m on_runs_frame
    by (rule table_edit_one [where key = run_key and moves = run_moves, OF r(1) k _ mv]) (use assms(6) in \<open>simp add: n_def\<close>)
  have "distinct (map run_key (runs st'))" using runs_effect_ok [OF e assms(2)] by (simp add: runs_ok_def)
  moreover have mem: "n \<in> set (runs st')" using r(1) by (auto simp: st' m on_runs_frame)
  ultimately have "find (\<lambda>x. sw_TenantID x = ga_TenantID a \<and> sr_ID (sw_Run x) = i) (runs st') = Some n" using k r(2) by (intro find_run) simp_all
  then show "loadSuggestion st' a i = Inr nxt" by (simp add: loadSuggestion_def n_def)
  show "rt_sets st' = rt_sets st" "versions st' = versions st" "profiles st' = profiles st" by (simp_all add: st' on_runs_frame)
qed

section \<open>The transactions\<close>

lemma request_effect:
  assumes "request_body env a key scope st = Inr (x, st')"
  shows "runs_effect st st'"
proof -
  from assms obtain v old where v: "checkSuggestionBasis env a scope st = Inr v"
    and g: "operationGet (su_gov env) a ''request_suggestion'' (sp_ProjectID scope) key (QSuggest scope) st = Inr old" by (auto simp: request_body_def Let_def)
  show ?thesis
  proof (cases old)
    case None
    from assms v g None obtain st1 st2 details basis where s: "saveSuggestion env a None (new_run env a scope) st = Inr st1"
      "gov_recordAudit (su_gov env) a ''suggest'' (sr_ID (new_run env a scope)) ''explicit rule suggestion request'' details st1 = Inr st2"
      "operationSave (su_gov env) a ''request_suggestion'' (sp_ProjectID scope) key (QSuggest scope) (RRun (new_run env a scope)) basis st2 = Inr st'"
      by (auto simp: request_body_def Let_def split: if_split_asm)
    have "good_run (new_run env a scope)" by (simp add: good_run_def new_run_def)
    from save_new_run [OF s(1) this] show ?thesis using gov_audit_frame [OF s(2)] operationSave_rest [OF s(3)] by (simp add: runs_effect_def)
  next
    case (Some w)
    then have "st' = st" using assms v g by (cases w) (auto simp: request_body_def Let_def undecodable_def split: if_split_asm)
    then show ?thesis by (simp add: runs_effect_frame)
  qed
qed

lemma finish_effect:
  assumes "finish_body env a scope i out answer st = Inr (x, st')" "runs_ok st"
  shows "runs_effect st st'"
proof -
  from assms(1) obtain cur where l: "loadSuggestion st a i = Inr cur" by (auto simp: finish_body_def)
  obtain r where r: "r \<in> set (runs st)" "cur = sw_Run r" by (rule loadSuggestion_ok [OF l])
  have g: "good_run cur" using assms(2) r by (simp add: runs_ok_def)
  show ?thesis
  proof (cases "sr_Status cur = ''running''")
    case True
    obtain nxt denial where o: "finish_outcome env a scope out answer cur st = (nxt, denial)" by (rule prod.exhaust)
    from assms(1) l True o obtain st1 details where s: "saveSuggestion env a (Some cur) nxt st = Inr st1"
      "gov_recordAudit (su_gov env) a ''suggest'' (sr_ID nxt) ''rule suggestion completed'' details st1 = Inr st'"
      by (auto simp: finish_body_def Let_def)
    have "run_columns nxt cur = nxt \<and> run_succ cur nxt \<and> good_run nxt" using o True g
      by (auto simp: finish_outcome_def finished_run_def failed_run_def run_columns_def run_succ_def asked_def suggestion_moves_def good_run_def Let_def split: sum.splits)
    then have "runs_effect st st1" using save_next_run(1) [OF s(1) assms(2) l] by blast
    then show ?thesis using gov_audit_frame [OF s(2)] by (simp add: runs_effect_def)
  next
    case False
    then have "st' = st" using assms(1) l by (simp add: finish_body_def)
    then show ?thesis by (simp add: runs_effect_frame)
  qed
qed

lemma get_suggestion_cases:
  assumes "get_suggestion_body env a projectID i st = Inr (v, st')" "runs_ok st"
  shows "runs_effect st st'" "sr_ProjectID v = projectID" "okR (authorizeSuggestion env st a ''read'' (sr_Scope v))"
    "sr_Status v \<in> {''running'', ''suggestion''} \<Longrightarrow> okR (checkSuggestionBasis env a (sr_Scope v) st)"
proof -
  from assms(1) obtain cur where l: "loadSuggestion st a i = Inr cur" by (auto simp: get_suggestion_body_def)
  obtain r where r: "r \<in> set (runs st)" "cur = sw_Run r" by (rule loadSuggestion_ok [OF l])
  have g: "good_run cur" using assms(2) r by (simp add: runs_ok_def)
  have c: "sr_ProjectID cur = projectID" "okR (authorizeSuggestion env st a ''read'' (sr_Scope cur))" using assms(1) l by (auto simp: get_suggestion_body_def split: if_splits)
  let ?nxt = "failed_run ''stale'' ''basis_changed'' ''the pinned project, template or ruleset changed''
                (cur\<lparr>sr_Revision := sr_Revision cur + 1, sr_UpdatedAt := ge_now (su_gov env)\<rparr>)"
  have "v = cur \<and> st' = st \<and> (sr_Status cur \<in> {''running'', ''suggestion''} \<longrightarrow> okR (checkSuggestionBasis env a (sr_Scope cur) st)) \<or>
      sr_Status cur \<in> {''running'', ''suggestion''} \<and> v = ?nxt \<and> runs_effect st st'"
  proof (cases "sr_Status cur \<in> {''running'', ''suggestion''} \<and> \<not> okR (checkSuggestionBasis env a (sr_Scope cur) st)")
    case True
    then obtain e where e: "checkSuggestionBasis env a (sr_Scope cur) st = Inl e" by (cases "checkSuggestionBasis env a (sr_Scope cur) st") auto
    from assms(1) l c True e obtain st1 details where s: "saveSuggestion env a (Some cur) ?nxt st = Inr st1"
      "gov_recordAudit (su_gov env) a ''suggest'' i ''pinned context changed'' details st1 = Inr st'" "v = ?nxt"
      by (auto simp: get_suggestion_body_def Let_def split: if_split_asm)
    have "run_columns ?nxt cur = ?nxt" "run_succ cur ?nxt" "good_run ?nxt" using True g
      by (auto simp: failed_run_def run_columns_def run_succ_def asked_def model_said_def suggestion_moves_def good_run_def)
    then have "runs_effect st st1" by (rule save_next_run(1) [OF s(1) assms(2) l])
    then show ?thesis using gov_audit_frame [OF s(2)] s(3) True by (simp add: runs_effect_def)
  next
    case False
    then show ?thesis using assms(1) l c
      by (cases "checkSuggestionBasis env a (sr_Scope cur) st") (auto simp: get_suggestion_body_def Let_def split: if_split_asm)
  qed
  then show "runs_effect st st'" "sr_ProjectID v = projectID" "okR (authorizeSuggestion env st a ''read'' (sr_Scope v))"
    "sr_Status v \<in> {''running'', ''suggestion''} \<Longrightarrow> okR (checkSuggestionBasis env a (sr_Scope v) st)"
    using c by (auto simp: runs_effect_frame failed_run_def)
qed

lemma accept_cases:
  assumes "accept_body env a projectID runID key inp st = Inr (v, st')" "runs_ok st"
  shows "(\<exists>old. operationGet (su_gov env) a ''accept_suggestion'' runID key (QAccept inp) st = Inr (Some old)) \<and> st' = st \<or>
    (\<exists>current ver payload added st1 st2 st3 details basis. loadSuggestion st a runID = Inr current \<and> sr_ProjectID current = projectID \<and>
       authorizeSuggestion env st a ''accept_suggestion'' (sr_Scope current) = Inr () \<and> checkSuggestionBasis env a (sr_Scope current) st = Inr ver \<and>
       sr_Output current = Some payload \<and> sr_Status current = ''suggestion'' \<and> sr_Revision current = ai_ExpectedRevision inp \<and>
       ai_RuleSetID inp = ref_ID (sp_RuleSet (sr_Scope current)) \<and> human_bindings a (sl_Proposals payload) [] (ai_Bindings inp) = Inr added \<and>
       v = accepted_run env inp current \<and>
       create_draft_body (ge_rule (su_gov env)) a (accepted_draft a inp (tv_RuleSetSnapshot ver) added) st = Inr st1 \<and>
       saveSuggestion env a (Some current) v st1 = Inr st2 \<and> gov_recordAudit (su_gov env) a ''accept_suggestion'' runID (ai_Reason inp) details st2 = Inr st3 \<and>
       operationSave (su_gov env) a ''accept_suggestion'' runID key (QAccept inp) (RRun v) basis st3 = Inr st')"
proof -
  from assms(1) obtain current ver old where l: "loadSuggestion st a runID = Inr current" "sr_ProjectID current = projectID"
      "authorizeSuggestion env st a ''accept_suggestion'' (sr_Scope current) = Inr ()" "checkSuggestionBasis env a (sr_Scope current) st = Inr ver"
    and g: "operationGet (su_gov env) a ''accept_suggestion'' runID key (QAccept inp) st = Inr old"
    by (auto simp: accept_body_def Let_def split: if_split_asm)
  show ?thesis
  proof (cases old)
    case None
    from assms(1) l g None obtain payload where o: "sr_Output current = Some payload" "sr_Status current = ''suggestion''" "sr_Revision current = ai_ExpectedRevision inp"
      "ai_RuleSetID inp = ref_ID (sp_RuleSet (sr_Scope current))"
      by (cases "sr_Output current") (auto simp: accept_body_def Let_def split: if_split_asm)
    from assms(1) l g None o obtain added st1 st2 st3 details basis where "human_bindings a (sl_Proposals payload) [] (ai_Bindings inp) = Inr added"
      "v = accepted_run env inp current" "create_draft_body (ge_rule (su_gov env)) a (accepted_draft a inp (tv_RuleSetSnapshot ver) added) st = Inr st1"
      "saveSuggestion env a (Some current) v st1 = Inr st2" "gov_recordAudit (su_gov env) a ''accept_suggestion'' runID (ai_Reason inp) details st2 = Inr st3"
      "operationSave (su_gov env) a ''accept_suggestion'' runID key (QAccept inp) (RRun v) basis st3 = Inr st'"
      by (auto simp: accept_body_def Let_def split: if_split_asm)
    then show ?thesis using l o by blast
  next
    case (Some w)
    then have "st' = st" using assms(1) l g by (cases w) (auto simp: accept_body_def Let_def undecodable_def split: if_split_asm)
    then show ?thesis using g Some by simp
  qed
qed

lemma accepted_run_succ: "sr_Status r = ''suggestion'' \<Longrightarrow> good_run r \<Longrightarrow> run_columns (accepted_run env inp r) r = accepted_run env inp r \<and> run_succ r (accepted_run env inp r) \<and> good_run (accepted_run env inp r)"
  by (auto simp: accepted_run_def run_columns_def run_succ_def asked_def model_said_def suggestion_moves_def good_run_def)

lemma loaded_run_good: "runs_ok st \<Longrightarrow> loadSuggestion st a i = Inr cur \<Longrightarrow> good_run cur"
  by (erule loadSuggestion_ok) (auto simp: runs_ok_def)

lemma same_runs: "runs st1 = runs st \<Longrightarrow> runs_ok st1 = runs_ok st" "runs st1 = runs st \<Longrightarrow> loadSuggestion st1 a i = loadSuggestion st a i"
  by (simp_all add: runs_ok_def loadSuggestion_def)

lemma accept_effect:
  assumes "accept_body env a projectID runID key inp st = Inr (v, st')" "runs_ok st"
  shows "runs_effect st st'"
  using accept_cases [OF assms]
proof (elim disjE exE conjE)
  fix current ver payload added st1 st2 st3 details basis
  assume a: "loadSuggestion st a runID = Inr current" "sr_Status current = ''suggestion''" "v = accepted_run env inp current"
    "create_draft_body (ge_rule (su_gov env)) a (accepted_draft a inp (tv_RuleSetSnapshot ver) added) st = Inr st1" "saveSuggestion env a (Some current) v st1 = Inr st2"
    "gov_recordAudit (su_gov env) a ''accept_suggestion'' runID (ai_Reason inp) details st2 = Inr st3"
    "operationSave (su_gov env) a ''accept_suggestion'' runID key (QAccept inp) (RRun v) basis st3 = Inr st'"
  have r: "runs st1 = runs st" using create_draft_rest [OF a(4)] by simp
  have "run_columns v current = v \<and> run_succ current v \<and> good_run v" unfolding a(3) by (rule accepted_run_succ [OF a(2) loaded_run_good [OF assms(2) a(1)]])
  then have "runs_effect st1 st2" using save_next_run(1) [OF a(5)] assms(2) a(1) same_runs [OF r] by simp
  then show "runs_effect st st'" using r gov_audit_frame [OF a(6)] operationSave_rest [OF a(7)] by (simp add: runs_effect_def)
qed (simp add: runs_effect_frame)

lemma reject_effect:
  assumes "reject_body env a projectID runID key inp st = Inr (v, st')" "runs_ok st"
  shows "runs_effect st st'"
proof -
  from assms(1) obtain current old where l: "loadSuggestion st a runID = Inr current" "sr_ProjectID current = projectID"
      "authorizeSuggestion env st a ''reject_suggestion'' (sr_Scope current) = Inr ()"
    and g: "operationGet (su_gov env) a ''reject_suggestion'' runID key (QReject inp) st = Inr old"
    by (auto simp: reject_body_def Let_def split: if_split_asm)
  show ?thesis
  proof (cases old)
    case None
    let ?nxt = "current\<lparr>sr_Revision := sr_Revision current + 1, sr_Status := ''rejected'', sr_DecisionReason := ji_Reason inp, sr_UpdatedAt := ge_now (su_gov env)\<rparr>"
    from assms(1) l g None obtain st1 st2 details basis where s: "sr_Status current \<in> {''suggestion'', ''stale'', ''failed''}" "saveSuggestion env a (Some current) ?nxt st = Inr st1"
      "gov_recordAudit (su_gov env) a ''reject_suggestion'' runID (ji_Reason inp) details st1 = Inr st2"
      "operationSave (su_gov env) a ''reject_suggestion'' runID key (QReject inp) (RRun ?nxt) basis st2 = Inr st'"
      by (auto simp: reject_body_def Let_def split: if_split_asm)
    have "run_columns ?nxt current = ?nxt \<and> run_succ current ?nxt \<and> good_run ?nxt" using s(1) loaded_run_good [OF assms(2) l(1)]
      by (auto simp: run_columns_def run_succ_def asked_def model_said_def suggestion_moves_def good_run_def)
    then have "runs_effect st st1" using save_next_run(1) [OF s(2) assms(2) l(1)] by blast
    then show ?thesis using gov_audit_frame [OF s(3)] operationSave_rest [OF s(4)] by (simp add: runs_effect_def)
  next
    case (Some w)
    then have "st' = st" using assms(1) l g by (cases w) (auto simp: reject_body_def Let_def undecodable_def split: if_split_asm)
    then show ?thesis by (simp add: runs_effect_frame)
  qed
qed

section \<open>Steps\<close>

text \<open>A step is one committing transaction of a suggestion call, or any other that leaves the runs alone, as those of the catalogue do.\<close>

inductive sug_step :: "'r sug_store \<Rightarrow> 'r sug_store \<Rightarrow> bool" where
  request: "request_body env a key scope st = Inr (x, st') \<Longrightarrow> sug_step st st'"
| finish: "finish_body env a scope i out answer st = Inr (x, st') \<Longrightarrow> sug_step st st'"
| get_run: "get_suggestion_body env a projectID i st = Inr (v, st') \<Longrightarrow> sug_step st st'"
| accept: "accept_body env a projectID i key ainp st = Inr (v, st') \<Longrightarrow> sug_step st st'"
| reject: "reject_body env a projectID i key jinp st = Inr (v, st') \<Longrightarrow> sug_step st st'"
| elsewhere: "runs st' = runs st \<Longrightarrow> sug_step st st'"

lemma sug_step_effect: "sug_step st st' \<Longrightarrow> runs_ok st \<Longrightarrow> runs_effect st st'"
  by (induction rule: sug_step.induct) (auto intro: request_effect finish_effect get_suggestion_cases(1) accept_effect reject_effect runs_effect_frame)

interpretation suggestion_runs: moving_table sug_step runs_ok "\<lambda>st. sg_runs (cg_rest (rt_rest st))" run_key run_moves
proof unfold_locales
  show "runs_ok st'" if "sug_step st st'" "runs_ok st" for st st' :: "'r sug_store" using runs_effect_ok [OF sug_step_effect [OF that] that(2)] .
  show "\<exists>r' \<in> set (runs st'). run_moves r r'" if "sug_step st st'" "runs_ok st" "r \<in> set (runs st)" for st st' :: "'r sug_store" and r
    using runs_effect_succ [OF sug_step_effect [OF that(1,2)] that(3)] .
qed (auto simp: runs_ok_def intro: run_moves_refl run_moves_trans run_moves_key)

section \<open>Calls\<close>

definition sug_quiet :: "'r sug_store attempt \<Rightarrow> bool" where
  "sug_quiet tx \<longleftrightarrow> (\<forall>st. sug_step\<^sup>*\<^sup>* st (at_before tx st))"

lemma sug_Transaction_steps:
  assumes "sug_quiet tx" "\<And>s r s'. body s = Inr (r, s') \<Longrightarrow> sug_step s s'"
  shows "sug_step\<^sup>*\<^sup>* st (fst (db_Transaction tx body st))"
proof -
  have "sug_step\<^sup>*\<^sup>* st (at_before tx st)" using assms(1) by (simp add: sug_quiet_def)
  then show ?thesis using assms(2) [of "at_before tx st"]
    by (auto simp: db_Transaction_def Let_def split: option.splits sum.splits intro: rtranclp.rtrancl_into_rtrancl)
qed

lemma sug_read_steps: "sug_quiet tx \<Longrightarrow> sug_step\<^sup>*\<^sup>* st (fst (db_Transaction tx (unchanged f) st))"
  by (rule sug_Transaction_steps) (auto simp: unchanged_def intro: sug_step.elsewhere)

inductive sug_call :: "'r sug_store \<Rightarrow> 'r sug_store \<Rightarrow> bool" where
  call_Request: "(\<And>n. sug_quiet (sched n)) \<Longrightarrow> sug_call st (fst (RequestRuleSuggestion env sched a key scope st))"
| call_Get: "sug_quiet tx \<Longrightarrow> sug_call st (fst (GetRuleSuggestion env tx a projectID i st))"
| call_List: "(\<And>n. sug_quiet (sched n)) \<Longrightarrow> sug_call st (fst (ListRuleSuggestions env sched a projectID st))"
| call_Accept: "sug_quiet tx \<Longrightarrow> sug_call st (fst (AcceptRuleSuggestion env tx a projectID i key ainp st))"
| call_Reject: "sug_quiet tx \<Longrightarrow> sug_call st (fst (RejectRuleSuggestion env tx a projectID i key jinp st))"
| call_elsewhere: "runs st' = runs st \<Longrightarrow> sug_call st st'"

lemma Get_steps: "sug_quiet tx \<Longrightarrow> sug_step\<^sup>*\<^sup>* st (fst (GetRuleSuggestion env tx a projectID i st))"
proof -
  assume "sug_quiet tx"
  from sug_Transaction_steps [OF this, of "get_suggestion_body env a projectID i" st] show ?thesis
    by (auto simp: GetRuleSuggestion_def intro: sug_step.get_run split: sum.split)
qed

lemma get_each_steps: "(\<And>n. sug_quiet (sched n)) \<Longrightarrow> sug_step\<^sup>*\<^sup>* st (fst (get_each env sched n a projectID ids st))"
proof (induction ids arbitrary: st n)
  case (Cons i ids)
  obtain st1 r where g: "GetRuleSuggestion env (sched n) a projectID i st = (st1, r)" by (rule prod.exhaust)
  have 1: "sug_step\<^sup>*\<^sup>* st st1" using Get_steps [OF Cons.prems [of n], of st env a projectID i] g by simp
  obtain st2 rest where e: "get_each env sched (Suc n) a projectID ids st1 = (st2, rest)" by (rule prod.exhaust)
  have "sug_step\<^sup>*\<^sup>* st1 st2" using Cons.IH [OF Cons.prems, of st1 "Suc n"] e by simp
  then show ?case using 1 by (cases r) (auto simp: g e intro: rtranclp_trans)
qed simp

lemma Request_steps:
  assumes "\<And>n. sug_quiet (sched n)"
  shows "sug_step\<^sup>*\<^sup>* st (fst (RequestRuleSuggestion env sched a key scope st))"
proof -
  have w: "sug_step\<^sup>*\<^sup>* s (fst (db_Transaction (sched 2) (finish_body env a scope i out answer) s))" for s i out answer
    by (rule sug_Transaction_steps [OF assms]) (auto intro: sug_step.finish)
  obtain st1 r where t: "db_Transaction (sched 0) (request_body env a key scope) st = (st1, r)" by (rule prod.exhaust)
  have 1: "sug_step\<^sup>*\<^sup>* st st1" using sug_Transaction_steps [OF assms [of 0], of "request_body env a key scope" st] t by (auto intro: sug_step.request)
  obtain st2 ctx where c: "(case build_context env a scope of Inl e \<Rightarrow> (st1, Inl e)
      | Inr c \<Rightarrow> (case db_Transaction (sched 1) (unchanged (recheck_suggestion env a scope)) st1 of (st2, Inl e) \<Rightarrow> (st2, Inl e) | (st2, Inr _) \<Rightarrow> (st2, Inr c))) = (st2, ctx)"
    by (rule prod.exhaust)
  obtain st2' q where rc: "db_Transaction (sched 1) (unchanged (recheck_suggestion env a scope)) st1 = (st2', q)" by (rule prod.exhaust)
  have "sug_step\<^sup>*\<^sup>* st1 st2'" using sug_read_steps [OF assms [of 1], of st1 "recheck_suggestion env a scope"] rc by simp
  then have 2: "sug_step\<^sup>*\<^sup>* st1 st2" using c unfolding rc by (auto split: sum.splits)
  have 3: "sug_step\<^sup>*\<^sup>* st s" if "db_Transaction (sched 2) (finish_body env a scope i out answer) st2 = (s, x)" for i out answer s x
    using rtranclp_trans [OF rtranclp_trans [OF 1 2] w [of st2 i out answer]] by (simp add: that)
  show ?thesis using 1 unfolding RequestRuleSuggestion_def t c Let_def
    by (auto simp: c split: sum.split option.split prod.split dest: 3)
qed

lemma sug_call_steps: "sug_call st st' \<Longrightarrow> sug_step\<^sup>*\<^sup>* st st'"
proof (induction rule: sug_call.induct)
  case (call_List sched st env a projectID)
  obtain st1 r where t: "db_Transaction (sched 0) (unchanged (suggestion_ids env a projectID)) st = (st1, r)" by (rule prod.exhaust)
  have "sug_step\<^sup>*\<^sup>* st st1" using sug_read_steps [OF call_List [of 0], of st "suggestion_ids env a projectID"] t by simp
  then show ?case using get_each_steps [of sched st1 env 1 a projectID] call_List rtranclp_trans [of sug_step st st1]
    by (auto simp: ListRuleSuggestions_def t split: sum.split)
next
  case (call_Accept tx st env a projectID i key ainp)
  then show ?case using sug_Transaction_steps [of tx "accept_body env a projectID i key ainp" st]
    by (auto simp: AcceptRuleSuggestion_def intro: sug_step.accept split: sum.split)
next
  case (call_Reject tx st env a projectID i key jinp)
  then show ?case using sug_Transaction_steps [of tx "reject_body env a projectID i key jinp" st]
    by (auto simp: RejectRuleSuggestion_def intro: sug_step.reject split: sum.split)
next
  case (call_elsewhere st' st)
  then show ?case by (intro r_into_rtranclp sug_step.elsewhere)
qed (auto intro: Request_steps Get_steps)

lemma sug_calls_steps: "sug_call\<^sup>*\<^sup>* st st' \<Longrightarrow> sug_step\<^sup>*\<^sup>* st st'"
  by (induction rule: rtranclp_induct) (auto dest: sug_call_steps intro: rtranclp_trans)

end
