(* ===== verification/Suggestion_Properties.thy ===== *)
theory Suggestion_Properties
  imports Suggestion_Steps Catalog_Demo
begin

text \<open>
  What suggestions of rules guarantee: how a run lives, what an acceptance writes, and what the model gets to see.
\<close>

section \<open>A concrete suggestion\<close>

definition sug_basis :: version_basis where
  "sug_basis = \<lparr>vb_ProjectVersion = 3, vb_SpecRevision = 1, vb_ContextRevision = 1, vb_TemplateCopyVersion = 1, vb_TemplateID = ''t1'', vb_TemplateVersion = ''v1'',
     vb_RuleSet = gov_ref, vb_CurrentSnapshotID = []\<rparr>"

definition sug_scope :: suggestion_scope where
  "sug_scope = \<lparr>sp_ProjectID = ''p1'', sp_Basis = sug_basis, sp_TemplateID = ''t1'', sp_TemplateVersion = ''v1'', sp_CatalogRevision = 2, sp_RuleSet = gov_ref,
     sp_TargetKind = ''field'', sp_TargetID = ''goal'', sp_Sources = []\<rparr>"

definition sug_proposal :: proposed_rule where
  "sug_proposal = \<lparr>pr_RuleID = ''r2'', pr_DefinitionID = ''computed/word_count'', pr_DefinitionVersion = ''1'', pr_TargetKind = ''field'', pr_TargetID = ''goal'',
     pr_Parameters = Some [(''minimum'', JInt 3)], pr_Message = [], pr_Rationale = ''short'', pr_EvidenceSourceIDs = []\<rparr>"

definition sug_run :: suggestion_run where
  "sug_run = \<lparr>sr_ID = ''run1'', sr_ProjectID = ''p1'', sr_ActorID = ''u1'', sr_Revision = 2, sr_Status = ''suggestion'', sr_Scope = sug_scope,
     sr_Output = Some \<lparr>sl_Proposals = [sug_proposal], sl_Explanation = ''why''\<rparr>, sr_ModelID = ''m'', sr_RunMode = ''mock'', sr_PromptVersion = RuleSuggestionPromptVersion,
     sr_ToolNames = [], sr_InputTokens = 1, sr_OutputTokens = 1, sr_DurationMS = 9, sr_ErrorCode = [], sr_ErrorMessage = [], sr_DecisionReason = [], sr_DraftRuleSet = None,
     sr_CreatedAt = 1, sr_UpdatedAt = 2\<rparr>"

definition sug_env0 :: "unit sug_env" where
  "sug_env0 = \<lparr>su_gov = gov_env0, su_AuthorizeSuggestion = (\<lambda>st a action scope. None), su_CurrentProjectBasis = (\<lambda>st a i. Inr sug_basis), su_Build = None, su_Suggest = None,
     su_decode = (\<lambda>raw. Inl (Raw ''no JSON'')), su_basisText = (\<lambda>b. ''basis''), su_newID = ''run2'', su_elapsed = 0\<rparr>"

definition sug_state :: "unit sug_store" where
  "sug_state = gov_state_in \<lparr>sg_runs = [\<lparr>sw_TenantID = 1, sw_Run = sug_run\<rparr>], sg_rest = ()\<rparr> gov_published"

lemma sug_state_ok: "runs_ok sug_state"
  by (simp add: runs_ok_def sug_state_def gov_state_in_def good_run_def sug_run_def)

definition sug_binding :: rule_binding where
  "sug_binding = (demo_binding ''r2'')\<lparr>b_Severity := ''warning''\<rparr>"

definition sug_accept :: accept_input where
  "sug_accept = \<lparr>ai_ExpectedRevision = 2, ai_RuleSetID = ''rs1'', ai_Version = ''2'', ai_Bindings = [sug_binding], ai_Reason = ''agreed''\<rparr>"

section \<open>The life of a suggestion\<close>

text \<open>
  C36. A suggestion is asked once, answered once and decided once.  Over every sequence of calls, with other calls between the
  transactions of each, a recorded run is found again under its key with the same project, actor, scope, prompt and creation
  time; it moves only from running to a suggestion, a failure or stale, from a suggestion to accepted, rejected or stale,
  and from stale or failed to rejected; what the model answered is never rewritten, so that an answer that comes after the
  run was closed is dropped; a change raises the revision; and a draft is recorded exactly for an accepted run.
\<close>

theorem suggestion_life_cycle:
  assumes "sug_call\<^sup>*\<^sup>* st st'" "runs_ok st" "r \<in> set (runs st)"
  shows "\<exists>r'. find (\<lambda>x. run_key x = run_key r) (runs st') = Some r' \<and> asked (sw_Run r') = asked (sw_Run r) \<and>
    sr_Status (sw_Run r') \<in> suggestion_moves (sr_Status (sw_Run r)) \<and> (sr_Status (sw_Run r) \<noteq> ''running'' \<longrightarrow> model_said (sw_Run r') = model_said (sw_Run r)) \<and>
    (r' = r \<or> sr_Revision (sw_Run r) < sr_Revision (sw_Run r')) \<and>
    (sr_DraftRuleSet (sw_Run r') \<noteq> None \<longleftrightarrow> sr_Status (sw_Run r') = ''accepted'') \<and> (sr_Status (sw_Run r') = ''accepted'' \<longrightarrow> sr_Output (sw_Run r') \<noteq> None)"
proof -
  have steps: "sug_step\<^sup>*\<^sup>* st st'" by (rule sug_calls_steps [OF assms(1)])
  from suggestion_runs.found_again [OF steps assms(2,3)] obtain r' where r': "find (\<lambda>x. run_key x = run_key r) (runs st') = Some r'" "run_moves r r'" by (elim exE conjE)
  have "good_run (sw_Run r')" using suggestion_runs.steps_ok [OF steps assms(2)] find_member [OF r'(1)] by (simp add: runs_ok_def)
  then show ?thesis using r' by (intro exI [of _ r']) (auto simp: run_moves_def run_succ_def good_run_def)
qed

theorem suggestion_life_cycle_witness:
  "\<exists>r'. find (\<lambda>x. run_key x = (1, ''run1'')) (runs (fst (AcceptRuleSuggestion sug_env0 calm gov_actor ''p1'' ''run1'' ''key-0001'' sug_accept sug_state))) = Some r' \<and>
     sr_Status (sw_Run r') \<in> {''suggestion'', ''stale'', ''accepted'', ''rejected''}"
proof -
  have "sug_quiet calm" by (simp add: sug_quiet_def calm_def)
  then have c: "sug_call\<^sup>*\<^sup>* sug_state (fst (AcceptRuleSuggestion sug_env0 calm gov_actor ''p1'' ''run1'' ''key-0001'' sug_accept sug_state))"
    by (intro r_into_rtranclp sug_call.call_Accept)
  have m: "\<lparr>sw_TenantID = 1, sw_Run = sug_run\<rparr> \<in> set (runs sug_state)" by (simp add: sug_state_def gov_state_in_def)
  have k: "run_key \<lparr>sw_TenantID = 1, sw_Run = sug_run\<rparr> = (1, ''run1'')" "sr_Status sug_run = ''suggestion''" by (simp_all add: run_key_def sug_run_def)
  from suggestion_life_cycle [OF c sug_state_ok m] show ?thesis unfolding k by (auto simp: k suggestion_moves_def)
qed

section \<open>What an acceptance writes\<close>

lemma human_bindings_ok:
  assumes "human_bindings a proposals seen bs = Inr added"
  shows "map b_RuleID added = map b_RuleID bs \<and> distinct (map b_RuleID added) \<and> set (map b_RuleID added) \<inter> set seen = {} \<and>
    (\<forall>b \<in> set added. b_Origin b = ''project'' \<and> b_Owner b = ga_UserID a \<and> b_Severity b \<in> {''info'', ''warning''} \<and>
       (\<exists>p \<in> set proposals. pr_RuleID p = b_RuleID b \<and> pr_TargetKind p = b_TargetKind b \<and> pr_TargetID p = b_TargetID b))"
  using assms
proof (induction bs arbitrary: seen added)
  case (Cons b bs)
  from Cons.prems obtain p where p: "find (\<lambda>p. pr_RuleID p = b_RuleID b) (rev proposals) = Some p" by (auto split: option.splits)
  have pm: "p \<in> set proposals" "pr_RuleID p = b_RuleID b" using find_member [OF p] by simp_all
  from Cons.prems p obtain rest where c: "b_RuleID b \<notin> set seen" "b_TargetKind b = pr_TargetKind p" "b_TargetID b = pr_TargetID p" "b_Severity b \<in> {''info'', ''warning''}"
    and r: "human_bindings a proposals (b_RuleID b # seen) bs = Inr rest" "added = b\<lparr>b_Origin := ''project'', b_Owner := ga_UserID a\<rparr> # rest"
    by (auto split: if_splits)
  have "b_RuleID ` set rest = b_RuleID ` set bs" using arg_cong [OF conjunct1 [OF Cons.IH [OF r(1)]], of set] by simp
  then show ?case using Cons.IH [OF r(1)] c pm by (auto simp: r(2) intro!: bexI [of _ p])
qed simp

lemma create_draft_row:
  assumes "create_draft_body env a draft st = Inr st'"
  shows "\<exists>row. rt_sets st' = rt_sets st @ [row] \<and> rule_key row = (ga_TenantID a, s_ID draft, s_Version draft) \<and> rule_key row \<notin> rule_key ` set (rt_sets st) \<and>
    rr_State row = ''draft'' \<and> rr_RuleSetHash row = [] \<and> rr_Bindings row = s_Bindings draft"
proof -
  define row where "row = \<lparr>rr_TenantID = ga_TenantID a, rr_RuleSetID = s_ID draft, rr_Version = s_Version draft, rr_State = ''draft'', rr_RuleSetHash = [],
    rr_Bindings = s_Bindings draft, rr_CreatedBy = ga_UserID a, rr_CreatedAt = re_now env\<rparr>"
  have "rule_key row \<notin> rule_key ` set (rt_sets st)" "rs_recordAudit env a draft ''create_draft'' [] ''draft'' (st\<lparr>rt_sets := rt_sets st @ [row]\<rparr>) = Inr st'"
    using assms by (auto simp: create_draft_body_def row_def Let_def split: if_splits)
  then show ?thesis using rs_recordAudit_frame [of env a draft "''create_draft''" "[]" "''draft''" "st\<lparr>rt_sets := rt_sets st @ [row]\<rparr>" st']
    by (intro exI [of _ row]) (simp add: row_def rule_key_def)
qed

text \<open>
  C34. A suggestion becomes rules only by a human, and only as a draft.  If \<^verbatim>\<open>AcceptRuleSuggestion\<close> answers a run and
  its write did not find this very request carried out before, then the caller was authorized to accept, the run was a
  suggestion at the revision the caller named, and its project, template version and rule set were still those it
  was made for; the only change to the rule sets is one new draft without a hash, a new version of the suggestion's rule
  set, that holds the published bindings unchanged followed by the bindings the caller submitted, each taking up one
  proposal at its target, never blocking, and owned by the caller; no template version or profile changes; and
  the run is stored as accepted with the draft it led to.
\<close>

theorem accepted_suggestions_stay_drafts:
  assumes "runs_ok (at_before tx st)" "AcceptRuleSuggestion env tx a projectID runID key inp st = (st', Inr v)"
    and "find_op a ''accept_suggestion'' runID key (at_before tx st) = None"
  shows "\<exists>current ver payload row added. loadSuggestion (at_before tx st) a runID = Inr current \<and> sr_ProjectID current = projectID \<and>
    authorizeSuggestion env (at_before tx st) a ''accept_suggestion'' (sr_Scope current) = Inr () \<and>
    sr_Status current = ''suggestion'' \<and> sr_Revision current = ai_ExpectedRevision inp \<and> sr_Output current = Some payload \<and>
    checkSuggestionBasis env a (sr_Scope current) (at_before tx st) = Inr ver \<and>
    rt_sets st' = rt_sets (at_before tx st) @ [row] \<and> rr_State row = ''draft'' \<and> rr_RuleSetHash row = [] \<and>
    rule_key row = (ga_TenantID a, ref_ID (sp_RuleSet (sr_Scope current)), ai_Version inp) \<and> rule_key row \<notin> rule_key ` set (rt_sets (at_before tx st)) \<and>
    rr_Bindings row = s_Bindings (tv_RuleSetSnapshot ver) @ added \<and> map b_RuleID added = map b_RuleID (ai_Bindings inp) \<and> distinct (map b_RuleID added) \<and>
    (\<forall>b \<in> set added. b_Origin b = ''project'' \<and> b_Owner b = ga_UserID a \<and> b_Severity b \<in> {''info'', ''warning''} \<and>
       (\<exists>p \<in> set (sl_Proposals payload). pr_RuleID p = b_RuleID b \<and> pr_TargetKind p = b_TargetKind b \<and> pr_TargetID p = b_TargetID b)) \<and>
    cg_versions (rt_rest st') = cg_versions (rt_rest (at_before tx st)) \<and> cg_profiles (rt_rest st') = cg_profiles (rt_rest (at_before tx st)) \<and>
    loadSuggestion st' a runID = Inr v \<and> sr_Status v = ''accepted'' \<and> sr_DraftRuleSet v = Some \<lparr>ref_ID = ai_RuleSetID inp, ref_Version = ai_Version inp, ref_Hash = []\<rparr>"
proof -
  let ?s = "at_before tx st"
  have b: "accept_body env a projectID runID key inp ?s = Inr (v, st')"
    using assms(2) by (auto simp: AcceptRuleSuggestion_def db_Transaction_def Let_def split: sum.splits option.splits if_splits)
  have none: "operationGet (su_gov env) a ''accept_suggestion'' runID key (QAccept inp) ?s = Inr None" unfolding operationGet_def assms(3) by simp
  from accept_cases [OF b assms(1)] none obtain current ver payload added st1 st2 st3 details basis where
    c: "loadSuggestion ?s a runID = Inr current" "sr_ProjectID current = projectID" "authorizeSuggestion env ?s a ''accept_suggestion'' (sr_Scope current) = Inr ()"
      "checkSuggestionBasis env a (sr_Scope current) ?s = Inr ver" "sr_Output current = Some payload" "sr_Status current = ''suggestion''"
      "sr_Revision current = ai_ExpectedRevision inp" "ai_RuleSetID inp = ref_ID (sp_RuleSet (sr_Scope current))"
    and h: "human_bindings a (sl_Proposals payload) [] (ai_Bindings inp) = Inr added" and v: "v = accepted_run env inp current"
    and w: "create_draft_body (ge_rule (su_gov env)) a (accepted_draft a inp (tv_RuleSetSnapshot ver) added) ?s = Inr st1" "saveSuggestion env a (Some current) v st1 = Inr st2"
      "gov_recordAudit (su_gov env) a ''accept_suggestion'' runID (ai_Reason inp) details st2 = Inr st3"
      "operationSave (su_gov env) a ''accept_suggestion'' runID key (QAccept inp) (RRun v) basis st3 = Inr st'"
    by auto
  obtain row where row: "rt_sets st1 = rt_sets ?s @ [row]" "rule_key row = (ga_TenantID a, ai_RuleSetID inp, ai_Version inp)" "rule_key row \<notin> rule_key ` set (rt_sets ?s)"
    "rr_State row = ''draft''" "rr_RuleSetHash row = []" "rr_Bindings row = s_Bindings (tv_RuleSetSnapshot ver) @ added"
    using create_draft_row [OF w(1)] by (auto simp: accepted_draft_def)
  have r: "rt_rest st1 = rt_rest ?s" by (rule create_draft_rest [OF w(1)])
  then have same: "runs st1 = runs ?s" by simp
  have "run_columns v current = v \<and> run_succ current v \<and> good_run v" unfolding v by (rule accepted_run_succ [OF c(6) loaded_run_good [OF assms(1) c(1)]])
  then have s: "loadSuggestion st2 a runID = Inr v" "rt_sets st2 = rt_sets st1" "versions st2 = versions st1" "profiles st2 = profiles st1"
    using save_next_run(2-5) [OF w(2)] assms(1) c(1) same_runs [OF same] by simp_all
  have f: "rt_sets st' = rt_sets st1" "versions st' = versions ?s" "profiles st' = profiles ?s" "runs st' = runs st2"
    using gov_audit_frame [OF w(3)] operationSave_frame [OF w(4)] operationSave_rest [OF w(4)] s r by simp_all
  have l: "loadSuggestion st' a runID = Inr v" using s(1) same_runs(2) [OF f(4)] by simp
  have va: "sr_Status v = ''accepted''" "sr_DraftRuleSet v = Some \<lparr>ref_ID = ai_RuleSetID inp, ref_Version = ai_Version inp, ref_Hash = []\<rparr>" by (simp_all add: v accepted_run_def)
  note hb = human_bindings_ok [OF h]
  have d: "distinct (map b_RuleID (ai_Bindings inp))" using hb by (elim conjE) simp
  show ?thesis
    by (intro exI [of _ current] exI [of _ ver] exI [of _ payload] exI [of _ row] exI [of _ added] conjI)
      (use c row f l va hb d in simp_all)
qed

text \<open>The concrete acceptance: the basis holds, the submitted binding takes up the proposal, and every write succeeds.\<close>

lemma sug_basis_ok: "checkSuggestionBasis sug_env0 gov_actor sug_scope sug_state = Inr (row_version gov_published)"
proof -
  have l: "loadVersion gov_env0 sug_state gov_actor ''t1'' ''v1'' = Inr (row_version gov_published)"
    using gov_version_valid(2) by (simp add: loadVersion_def sug_state_def gov_state_in_def gov_actor_def decodeVersion_def gov_draft_def gov_published_def)
  have v: "tv_Revision (row_version gov_published) = 2" "tv_RuleSet (row_version gov_published) = gov_ref" "tv_State (row_version gov_published) = ''published''"
    by (simp_all add: row_version_def gov_published_def gov_draft_def gov_ref_def gov_set_def demo_set_def)
  have "bindableRuleSet gov_env0 gov_actor gov_ref sug_state = Inr gov_set" unfolding sug_state_def by (rule gov_bindable)
  then show ?thesis by (simp add: checkSuggestionBasis_def sug_env0_def sug_scope_def sug_basis_def checkSourcesInTransaction_def Let_def l v)
qed

abbreviation sug_added :: rule_binding where
  "sug_added \<equiv> sug_binding\<lparr>b_Origin := ''project'', b_Owner := ''u1''\<rparr>"

lemma sug_added_valid: "okR (validateRuleBinding demo_tenv sug_added)"
proof -
  have "\<not> blank ''u1''" by (simp add: blank_def trim_space_visible visible_ascii_def ncode_def)
  then show ?thesis unfolding validateRuleBinding_ok
    by (auto simp: sug_binding_def demo_binding_def demo_definition mk_def_def stableID_def id_head_def ncode_def validUniqueValues_def allowedRuleScenes_def
        validStableRefs_def serverOwnedParameters_def plookup_def binding_rule_def binding_params_def pset_def validateRule_def
        rule_kind_check_def validSeverity_def plainEvaluators_def validTextTarget_def validTarget_def pstring_def validCountBounds_def
        numeric_def pkeys_def id_tail_def)
qed

lemma sug_draft_valid: "ValidateRuleSet demo_tenv (accepted_draft gov_actor sug_accept gov_set [sug_added]) = Inr ()"
proof -
  have "validateRuleSetContent demo_tenv (accepted_draft gov_actor sug_accept gov_set [sug_added]) = Inr ()"
    using demo_bindings_valid(1) sug_added_valid
    by (simp add: validateRuleSetContent_ok accepted_draft_def sug_accept_def gov_set_def demo_set_def stableID_def id_head_def id_tail_def ncode_def demo_binding_def sug_binding_def)
  then show ?thesis by (simp add: ValidateRuleSet_def accepted_draft_def)
qed

lemma sug_writes:
  "\<exists>st'. accept_body sug_env0 gov_actor ''p1'' ''run1'' ''key-0001'' sug_accept sug_state = Inr (accepted_run sug_env0 sug_accept sug_run, st')"
proof -
  let ?draft = "accepted_draft gov_actor sug_accept gov_set [sug_added]" and ?v = "accepted_run sug_env0 sug_accept sug_run"
  have env: "su_gov sug_env0 = gov_env0" "authorizeSuggestion sug_env0 st a act sc = Inr ()" for st a act sc by (simp_all add: sug_env0_def authorizeSuggestion_def)
  have load: "loadSuggestion sug_state gov_actor ''run1'' = Inr sug_run" by (simp add: loadSuggestion_def sug_state_def gov_state_in_def gov_actor_def sug_run_def)
  have run: "sr_ProjectID sug_run = ''p1''" "sr_Scope sug_run = sug_scope" "sr_Status sug_run = ''suggestion''" "sr_Revision sug_run = 2"
    "sr_Output sug_run = Some \<lparr>sl_Proposals = [sug_proposal], sl_Explanation = ''why''\<rparr>" by (simp_all add: sug_run_def)
  have inp: "ai_ExpectedRevision sug_accept = 2" "ai_RuleSetID sug_accept = ref_ID (sp_RuleSet sug_scope)" "ai_Version sug_accept \<noteq> ref_Version (sp_RuleSet sug_scope)"
    "ai_Bindings sug_accept = [sug_binding]" by (simp_all add: sug_accept_def sug_scope_def gov_ref_def)
  have none: "operationGet gov_env0 gov_actor ''accept_suggestion'' ''run1'' ''key-0001'' q sug_state = Inr None" for q
    by (simp add: operationGet_def find_op_def sug_state_def gov_state_in_def)
  have human: "human_bindings gov_actor [sug_proposal] [] [sug_binding] = Inr [sug_added]" by (simp add: sug_proposal_def sug_binding_def demo_binding_def gov_actor_def)
  have snap: "tv_RuleSetSnapshot (row_version gov_published) = gov_set" by (simp add: row_version_def gov_published_def gov_draft_def)
  have check: "create_draft_check (ge_rule (gov_env0 :: unit sug_tables gov_env)) gov_actor ?draft = Inr ()"
  proof -
    have "validateActor (ge_rule (gov_env0 :: unit sug_tables gov_env)) gov_actor = Inr ()"
      by (simp add: validateActor_def gov_actor_def gov_env0_def gov_reader_env_def role_IsValid_def blank_def trim_space_visible visible_ascii_def ncode_def)
    moreover have "s_State ?draft = ''draft''" "s_RulesetHash ?draft = []" by (simp_all add: accepted_draft_def)
    moreover have "re_marshalBindings (ge_rule (gov_env0 :: unit sug_tables gov_env)) bs = Inr ''bindings''" for bs by (simp add: gov_env0_def gov_reader_env_def)
    ultimately show ?thesis using sug_draft_valid by (simp add: create_draft_check_def gov_env0_sel)
  qed
  obtain st1 where create: "create_draft_body (ge_rule gov_env0) gov_actor ?draft sug_state = Inr st1"
    by (simp add: create_draft_body_def rs_authorize_def gov_env0_sel TenantMembershipAuthorizer_def sug_state_def gov_state_in_def gov_actor_def role_IsValid_def rule_key_def gov_rule_row_def
        accepted_draft_def sug_accept_def rs_recordAudit_def Let_def)
  have rest: "rt_rest st1 = rt_rest sug_state" by (rule create_draft_rest [OF create])
  obtain st2 where save: "saveSuggestion sug_env0 gov_actor (Some sug_run) ?v st1 = Inr st2" "cg_ops (rt_rest st2) = []"
    by (simp add: saveSuggestion_def env gov_env0_def gov_reader_env_def rest sug_state_def gov_state_in_def update_rows_def gov_actor_def Let_def on_runs_def on_catalog_def)
  obtain st3 where audit: "gov_recordAudit gov_env0 gov_actor ''accept_suggestion'' ''run1'' (ai_Reason sug_accept)
       [(''scope'', scope_text sug_env0 sug_scope), (''draft_ruleset_id'', s_ID ?draft), (''draft_ruleset_version'', s_Version ?draft),
        (''human_bindings'', bindings_text sug_env0 [sug_binding])] st2 = Inr st3" "rt_rest st3 = rt_rest st2"
    by (simp add: gov_recordAudit_def recordAuditOutcome_def gov_actor_def role_IsValid_def)
  obtain st4 where "operationSave gov_env0 gov_actor ''accept_suggestion'' ''run1'' ''key-0001'' (QAccept sug_accept) (RRun ?v) (su_basisText sug_env0 (sp_Basis sug_scope)) st3 = Inr st4"
    using save(2) audit(2) by (simp add: operationSave_def encodable_def gov_env0_def gov_reader_env_def Let_def)
  then show ?thesis
    using create save(1) audit(1) check none sug_draft_valid
    by (simp add: accept_body_def Let_def env load run inp sug_basis_ok human snap gov_env0_sel del: human_bindings.simps)
qed

lemma sug_accepts:
  "\<exists>st'. AcceptRuleSuggestion sug_env0 calm gov_actor ''p1'' ''run1'' ''key-0001'' sug_accept sug_state = (st', Inr (accepted_run sug_env0 sug_accept sug_run))"
proof -
  have "ready (gov_env0 :: unit sug_tables gov_env) gov_actor = Inr ()"
    by (simp add: ready_def gov_actor_def gov_env0_def gov_reader_env_def blank_def trim_space_visible visible_ascii_def ncode_def)
  moreover have "validKey ''key-0001''" "validReason ''agreed''" "stableID ''rs1''" "stableID ''2''"
    by (simp_all add: validKey_def validReason_def blank_def trim_space_visible visible_ascii_def ncode_def stableID_def id_head_def id_tail_def)
  moreover have "ai_ExpectedRevision sug_accept = 2" "ai_RuleSetID sug_accept = ''rs1''" "ai_Version sug_accept = ''2''" "ai_Reason sug_accept = ''agreed''" "ai_Bindings sug_accept \<noteq> []"
    by (simp_all add: sug_accept_def)
  moreover obtain st' where "accept_body sug_env0 gov_actor ''p1'' ''run1'' ''key-0001'' sug_accept sug_state = Inr (accepted_run sug_env0 sug_accept sug_run, st')"
    using sug_writes by (elim exE)
  moreover have "su_gov sug_env0 = gov_env0" by (simp add: sug_env0_def)
  ultimately show ?thesis by (simp add: AcceptRuleSuggestion_def gov_env0_sel calm_Transaction)
qed

theorem accepted_suggestions_stay_drafts_witness:
  "\<exists>st' v row. AcceptRuleSuggestion sug_env0 calm gov_actor ''p1'' ''run1'' ''key-0001'' sug_accept sug_state = (st', Inr v) \<and> sr_Status v = ''accepted'' \<and>
     rt_sets st' = [gov_rule_row, row] \<and> rr_State row = ''draft'' \<and> rule_key row = (1, ''rs1'', ''2'')"
proof -
  obtain st' where p: "AcceptRuleSuggestion sug_env0 calm gov_actor ''p1'' ''run1'' ''key-0001'' sug_accept sug_state = (st', Inr (accepted_run sug_env0 sug_accept sug_run))"
    using sug_accepts by (elim exE)
  have b: "at_before calm sug_state = sug_state" by (simp add: calm_def)
  have ok: "runs_ok (at_before calm sug_state)" "find_op gov_actor ''accept_suggestion'' ''run1'' ''key-0001'' (at_before calm sug_state) = None"
    unfolding b using sug_state_ok by (simp_all add: find_op_def sug_state_def gov_state_in_def)
  have sel: "rt_sets sug_state = [gov_rule_row]" "loadSuggestion sug_state gov_actor ''run1'' = Inr sug_run" "ref_ID (sp_RuleSet (sr_Scope sug_run)) = ''rs1''" "ai_Version sug_accept = ''2''"
    "ga_TenantID gov_actor = 1" by (simp_all add: sug_state_def gov_state_in_def loadSuggestion_def gov_actor_def sug_run_def sug_scope_def gov_ref_def sug_accept_def)
  from accepted_suggestions_stay_drafts [OF ok(1) p ok(2)] obtain current row where
    "loadSuggestion sug_state gov_actor ''run1'' = Inr current" "rt_sets st' = rt_sets sug_state @ [row]" "rr_State row = ''draft''"
    "rule_key row = (ga_TenantID gov_actor, ref_ID (sp_RuleSet (sr_Scope current)), ai_Version sug_accept)" "sr_Status (accepted_run sug_env0 sug_accept sug_run) = ''accepted''"
    unfolding b by (elim exE conjE)
  then show ?thesis using p sel by (intro exI [of _ st'] exI [of _ "accepted_run sug_env0 sug_accept sug_run"] exI [of _ row]) simp
qed

section \<open>What the model sees\<close>

text \<open>
  A request the model may see: about the scope asked for and the published version it names, with a context of this project
  and basis whose every text is a source of the scope at its version, released for the model and unaltered, asked while the
  second transaction found the caller authorized and the basis unchanged.
\<close>

definition may_see :: "'r sug_env \<Rightarrow> (nat \<Rightarrow> 'r sug_store attempt) \<Rightarrow> gov_actor \<Rightarrow> string \<Rightarrow> suggestion_scope \<Rightarrow> 'r sug_store \<Rightarrow> suggestion_request \<Rightarrow> bool" where
  "may_see env sched a key scope st q \<longleftrightarrow> (\<exists>st1 run v.
     db_Transaction (sched 0) (request_body env a key scope) st = (st1, Inr (run, Some v)) \<and>
     checkSuggestionBasis env a scope (at_before (sched 0) st) = Inr v \<and> recheck_suggestion env a scope (at_before (sched 1) st1) = Inr () \<and>
     sq_Scope q = scope \<and> sq_Template q = tv_Definition v \<and> sq_RuleSet q = tv_RuleSetSnapshot v \<and> sq_CorrelationID q = sr_ID run \<and>
     ac_ProjectID (sq_Context q) = sp_ProjectID scope \<and> ac_Basis (sq_Context q) = sp_Basis scope \<and> ac_AuthorizationState (sq_Context q) = ''allowed'' \<and>
     distinct (map (\<lambda>s. so_ID (as_Ref s)) (ac_Sources (sq_Context q))) \<and>
     (\<forall>s \<in> set (ac_Sources (sq_Context q)). as_ModelUseAllowed s \<and> as_QuotedTextHash s = sha256_hex (as_QuotedText s) \<and>
        (\<exists>r \<in> set (sp_Sources scope). so_ID r = so_ID (as_Ref s) \<and> so_Version r = so_Version (as_Ref s))))"

lemma valid_sources_ok:
  "valid_sources refs seen ss \<Longrightarrow> distinct (map (\<lambda>s. so_ID (as_Ref s)) ss) \<and> (\<forall>s \<in> set ss. so_ID (as_Ref s) \<notin> set seen \<and> as_ModelUseAllowed s \<and>
     as_QuotedTextHash s = sha256_hex (as_QuotedText s) \<and> (\<exists>r \<in> set refs. so_ID r = so_ID (as_Ref s) \<and> so_Version r = so_Version (as_Ref s)))"
proof (induction ss arbitrary: seen)
  case (Cons s ss)
  then obtain r where r: "find (\<lambda>r. so_ID r = so_ID (as_Ref s)) (rev refs) = Some r" by (auto split: option.splits)
  with Cons.prems have c: "so_ID (as_Ref s) \<notin> set seen" "so_Version (as_Ref s) = so_Version r" "as_ModelUseAllowed s" "as_QuotedTextHash s = sha256_hex (as_QuotedText s)"
    and v: "valid_sources refs (so_ID (as_Ref s) # seen) ss" by simp_all
  have "r \<in> set refs" "so_ID r = so_ID (as_Ref s)" using find_member [OF r] by simp_all
  then show ?case using c Cons.IH [OF v] by auto
qed simp

lemma request_body_asks:
  assumes "request_body env a key scope st = Inr ((run, Some v), st1)"
  shows "checkSuggestionBasis env a scope st = Inr v"
proof -
  from assms obtain p where p: "operationGet (su_gov env) a ''request_suggestion'' (sp_ProjectID scope) key (QSuggest scope) st = Inr p" by (auto simp: request_body_def Let_def)
  show ?thesis
  proof (cases p)
    case None
    then show ?thesis using assms p by (auto simp: request_body_def Let_def split: if_splits)
  next
    case (Some r)
    then show ?thesis using assms p by (cases r) (auto simp: request_body_def Let_def split: if_splits)
  qed
qed

lemma allowed_context:
  assumes "db_Transaction (sched 0) (request_body env a key scope) st = (st1, Inr (run, Some v))" "build_context env a scope = Inr c"
    and "db_Transaction (sched 1) (unchanged (recheck_suggestion env a scope)) st1 = (st2, Inr u)"
  shows "may_see env sched a key scope st \<lparr>sq_Scope = scope, sq_Template = tv_Definition v, sq_RuleSet = tv_RuleSetSnapshot v, sq_Context = c,
    sq_PromptVersion = RuleSuggestionPromptVersion, sq_CorrelationID = sr_ID run\<rparr>"
proof -
  have b: "checkSuggestionBasis env a scope (at_before (sched 0) st) = Inr v" by (rule request_body_asks [OF db_Transaction_ok [OF assms(1)]])
  have r: "recheck_suggestion env a scope (at_before (sched 1) st1) = Inr ()" using db_Transaction_ok [OF assms(3)] by (auto simp: unchanged_def)
  have v: "validateAuthorizedContext scope c = Inr ()" using assms(2) by (auto simp: build_context_def split: option.splits)
  then have "ac_ProjectID c = sp_ProjectID scope" "ac_Basis c = sp_Basis scope" "ac_AuthorizationState c = ''allowed''" "valid_sources (sp_Sources scope) [] (ac_Sources c)"
    by (auto simp: validateAuthorizedContext_def split: if_splits)
  then show ?thesis using assms(1) b r valid_sources_ok by (fastforce simp: may_see_def)
qed

text \<open>Another model leaves everything but the answer to its request as it is.\<close>

lemma other_model_sel:
  "su_gov (env\<lparr>su_Suggest := m\<rparr>) = su_gov env" "su_AuthorizeSuggestion (env\<lparr>su_Suggest := m\<rparr>) = su_AuthorizeSuggestion env" "su_Build (env\<lparr>su_Suggest := m\<rparr>) = su_Build env"
  "su_CurrentProjectBasis (env\<lparr>su_Suggest := m\<rparr>) = su_CurrentProjectBasis env" "su_decode (env\<lparr>su_Suggest := m\<rparr>) = su_decode env"
  "su_basisText (env\<lparr>su_Suggest := m\<rparr>) = su_basisText env" "su_newID (env\<lparr>su_Suggest := m\<rparr>) = su_newID env" "su_elapsed (env\<lparr>su_Suggest := m\<rparr>) = su_elapsed env"
  by simp_all

lemma other_model:
  "authorizeSuggestion (env\<lparr>su_Suggest := m\<rparr>) = authorizeSuggestion env" "checkSuggestionBasis (env\<lparr>su_Suggest := m\<rparr>) = checkSuggestionBasis env"
  "scope_text (env\<lparr>su_Suggest := m\<rparr>) = scope_text env" "saveSuggestion (env\<lparr>su_Suggest := m\<rparr>) = saveSuggestion env" "new_run (env\<lparr>su_Suggest := m\<rparr>) = new_run env"
  "build_context (env\<lparr>su_Suggest := m\<rparr>) = build_context env" "finished_run (env\<lparr>su_Suggest := m\<rparr>) = finished_run env" "parseSuggestion (env\<lparr>su_Suggest := m\<rparr>) = parseSuggestion env"
  unfolding fun_eq_iff authorizeSuggestion_def checkSuggestionBasis_def scope_text_def saveSuggestion_def new_run_def build_context_def finished_run_def parseSuggestion_def other_model_sel
  by (rule allI refl)+

lemma other_model_bodies:
  "request_body (env\<lparr>su_Suggest := m\<rparr>) = request_body env" "recheck_suggestion (env\<lparr>su_Suggest := m\<rparr>) = recheck_suggestion env"
  "finish_body (env\<lparr>su_Suggest := m\<rparr>) = finish_body env" "judge_output (env\<lparr>su_Suggest := m\<rparr>) = judge_output env"
  unfolding fun_eq_iff request_body_def recheck_suggestion_def finish_body_def finish_outcome_def finish_details_def judge_output_def other_model other_model_sel
  by (rule allI refl)+


text \<open>Two models that differ on everything but the scope asked for.\<close>

definition sug_answer :: suggestion_output where
  "sug_answer = \<lparr>mo_StructuredOutput = ''{}'', mo_ModelID = ''m'', mo_RunMode = ''mock'', mo_InputTokens = 1, mo_OutputTokens = 1, mo_ToolNames = []\<rparr>"

definition sug_model :: "gov_actor \<Rightarrow> suggestion_request \<Rightarrow> suggestion_output \<times> goerr option" where
  "sug_model a q = (if sq_Scope q = sug_scope \<and> ac_AuthorizationState (sq_Context q) = ''allowed'' then (sug_answer, None) else (zero_output, Some (Sentinel GovErrModelUnavailable)))"

definition sug_careless :: "gov_actor \<Rightarrow> suggestion_request \<Rightarrow> suggestion_output \<times> goerr option" where
  "sug_careless a q = (sug_answer, None)"

definition sug_asking :: "string \<Rightarrow> unit sug_env" where
  "sug_asking state = sug_env0\<lparr>su_Build := Some (\<lambda>a scope. Inr \<lparr>ac_ProjectID = ''p1'', ac_Basis = sug_basis, ac_Sources = [], ac_AuthorizationState = state\<rparr>), su_Suggest := Some sug_model\<rparr>"


end
