(* ===== verification/Fixture_Store.thy ===== *)
theory Fixture_Store
  imports Rule_Catalog Replay "HOL-Library.AList"
begin

text \<open>
  The registration of replay examples: \<^verbatim>\<open>templategovernance/fixtures.go\<close>, and the verifier of publications of
  \<^verbatim>\<open>workspace/template_governance_runtime.go\<close>.

  The table of registered examples is part of the catalogue's store.  The merged store holds the built in examples in memory
  and reads the rows of the database; a read outside a transaction takes the outcome of its query, rows or an error.  The
  JSON text of an input is a column; its encoder and decoder are functions.  A query for one row without an order answers
  some row that matches: which one is a function of the environment.  The text of an error keeps its ASCII part.
\<close>

section \<open>Rows and records\<close>

record fixture_row =
  fw_TenantID :: nat
  fw_TemplateID :: string
  fw_Version :: string
  fw_ContentHash :: string
  fw_FixtureID :: string
  fw_RulesetID :: string
  fw_RulesetVersion :: string
  fw_RulesetHash :: string
  fw_PolicyHash :: string
  fw_RuleID :: string
  fw_Scene :: string
  fw_Polarity :: string
  fw_TargetRef :: string
  fw_InputJSON :: string
  fw_ExpectedStatus :: eval_status
  fw_ReviewedBy :: string
  fw_ReviewReference :: string
  fw_ReviewedAt :: int
  fw_CreatedBy :: string
  fw_CreatedAt :: int

record fixture_record =
  fd_Fixture :: replay_fixture
  fd_TemplateID :: string
  fd_TemplateVersion :: string
  fd_ContentHash :: string
  fd_PolicyHash :: string
  fd_ReviewedBy :: string
  fd_ReviewReference :: string
  fd_ReviewedAt :: int

record fixture_pin =
  fp_TemplateID :: string
  fp_TemplateVersion :: string
  fp_ContentHash :: string
  fp_PolicyHash :: string

record fixture_backend =
  fb_builtin :: "(string \<times> fixture_record) list"
  fb_decode :: "string \<Rightarrow> goerr + eval_input"
  fb_take :: "fixture_row list \<Rightarrow> fixture_row"

record 'r fixture_tables =
  ft_rows :: "fixture_row list"
  ft_rest :: 'r

type_synonym 'r fix_store = "'r fixture_tables gov_store"

record 'r fix_env =
  fe_gov :: "'r fixture_tables gov_env"
  fe_Fixtures :: "fixture_backend option"
  fe_inputText :: "eval_input \<Rightarrow> goerr + string"

abbreviation fixtures :: "'r fix_store \<Rightarrow> fixture_row list" where
  "fixtures st \<equiv> ft_rows (cg_rest (rt_rest st))"

definition on_fixtures :: "(fixture_row list \<Rightarrow> fixture_row list) \<Rightarrow> 'r fix_store \<Rightarrow> 'r fix_store" where
  "on_fixtures f = on_catalog (\<lambda>c. c\<lparr>cg_rest := (cg_rest c)\<lparr>ft_rows := f (ft_rows (cg_rest c))\<rparr>\<rparr>)"

definition fixture_key :: "fixture_row \<Rightarrow> nat \<times> string \<times> string \<times> string \<times> string" where
  "fixture_key r = (fw_TenantID r, fw_TemplateID r, fw_Version r, fw_ContentHash r, fw_FixtureID r)"

section \<open>The merged store\<close>

definition NewReplayFixtureStore :: "fixture_record list \<Rightarrow> (string \<times> fixture_record) list" where
  "NewReplayFixtureStore records = foldl (\<lambda>m r. if fx_ID (fd_Fixture r) = [] then m else AList.update (fx_ID (fd_Fixture r)) r m) [] records"

definition row_fixture :: "fixture_row \<Rightarrow> eval_input \<Rightarrow> replay_fixture" where
  "row_fixture r input = \<lparr>fx_ID = fw_FixtureID r, fx_RuleSet = \<lparr>ref_ID = fw_RulesetID r, ref_Version = fw_RulesetVersion r, ref_Hash = fw_RulesetHash r\<rparr>,
     fx_RuleID = fw_RuleID r, fx_Scene = fw_Scene r, fx_Polarity = fw_Polarity r, fx_TargetRef = fw_TargetRef r, fx_Input = input, fx_ExpectedStatus = fw_ExpectedStatus r\<rparr>"

definition fixtureRecordFromRow :: "fixture_backend \<Rightarrow> fixture_row \<Rightarrow> goerr + fixture_record" where
  "fixtureRecordFromRow b r =
     (case fb_decode b (fw_InputJSON r) of
        Inl e \<Rightarrow> Inl (Wrapped (''decode replay fixture input: '' @ err_msg e) e)
      | Inr input \<Rightarrow> Inr \<lparr>fd_Fixture = row_fixture r input,
          fd_TemplateID = fw_TemplateID r, fd_TemplateVersion = fw_Version r, fd_ContentHash = fw_ContentHash r, fd_PolicyHash = fw_PolicyHash r,
          fd_ReviewedBy = fw_ReviewedBy r, fd_ReviewReference = fw_ReviewReference r, fd_ReviewedAt = fw_ReviewedAt r\<rparr>)"

definition storage_error :: "goerr \<Rightarrow> goerr" where
  "storage_error e = Joined (sentinel_msg GovErrUnavailable @ [byte 10] @ err_msg e) (Sentinel GovErrUnavailable) e"

definition GetFixture :: "fixture_backend \<Rightarrow> goerr + fixture_row list \<Rightarrow> nat \<Rightarrow> string \<Rightarrow> goerr + fixture_record" where
  "GetFixture b db tenant i =
     (case map_of (fb_builtin b) i of
        Some r \<Rightarrow> Inr r
      | None \<Rightarrow>
          (case db of
             Inl e \<Rightarrow> Inl (storage_error e)
           | Inr rows \<Rightarrow>
               (case filter (\<lambda>r. fw_TenantID r = tenant \<and> fw_FixtureID r = i) rows of
                  [] \<Rightarrow> Inl (Sentinel GovErrFixtureNotStored)
                | ms \<Rightarrow> fixtureRecordFromRow b (fb_take b ms))))"

definition sortReplayFixtureRecords :: "fixture_record list \<Rightarrow> fixture_record list" where
  "sortReplayFixtureRecords = sort_key (\<lambda>r. fx_ID (fd_Fixture r))"

definition ListFixtures :: "fixture_backend \<Rightarrow> goerr + fixture_row list \<Rightarrow> nat \<Rightarrow> goerr + fixture_record list" where
  "ListFixtures b db tenant =
     (case db of
        Inl e \<Rightarrow> Inl (storage_error e)
      | Inr rows \<Rightarrow>
          bindR (mapR (fixtureRecordFromRow b) (filter (\<lambda>r. fw_TenantID r = tenant) rows)) (\<lambda>records.
            Inr (sortReplayFixtureRecords (records @ map snd (fb_builtin b)))))"

definition row_pin :: "fixture_row \<Rightarrow> fixture_pin" where
  "row_pin r = \<lparr>fp_TemplateID = fw_TemplateID r, fp_TemplateVersion = fw_Version r, fp_ContentHash = fw_ContentHash r, fp_PolicyHash = fw_PolicyHash r\<rparr>"

definition record_pin :: "fixture_record \<Rightarrow> fixture_pin" where
  "record_pin r = \<lparr>fp_TemplateID = fd_TemplateID r, fp_TemplateVersion = fd_TemplateVersion r, fp_ContentHash = fd_ContentHash r, fp_PolicyHash = fd_PolicyHash r\<rparr>"

definition fixturesForPin :: "fixture_backend \<Rightarrow> goerr + fixture_row list \<Rightarrow> nat \<Rightarrow> fixture_pin \<Rightarrow> goerr + fixture_record list" where
  "fixturesForPin b db tenant pin =
     (case db of
        Inl e \<Rightarrow> Inl (storage_error e)
      | Inr rows \<Rightarrow>
          bindR (mapR (fixtureRecordFromRow b) (filter (\<lambda>r. fw_TenantID r = tenant \<and> row_pin r = pin) rows)) (\<lambda>records.
            Inr (sortReplayFixtureRecords (records @ filter (\<lambda>r. record_pin r = pin) (map snd (fb_builtin b))))))"

definition ConflictsBuiltin :: "fixture_backend \<Rightarrow> string \<Rightarrow> bool" where
  "ConflictsBuiltin b i \<longleftrightarrow> map_of (fb_builtin b) i \<noteq> None"

definition GetReplayFixture :: "fixture_backend \<Rightarrow> goerr + fixture_row list \<Rightarrow> gov_actor \<Rightarrow> string \<Rightarrow> goerr + replay_fixture" where
  "GetReplayFixture b db a i =
     (case GetFixture b db (ga_TenantID a) i of
        Inl e \<Rightarrow> if err_is e GovErrFixtureNotStored then Inl (Sentinel GovErrReplayRequired) else Inl e
      | Inr r \<Rightarrow> Inr (fd_Fixture r))"

section \<open>What a batch must look like\<close>

definition MaxReplayFixturesPerBatch :: nat where
  "MaxReplayFixturesPerBatch = 200"

definition maxReplayTargetRefLength :: nat where
  "maxReplayTargetRefLength = 180"

definition maxReplayReviewReferenceLength :: nat where
  "maxReplayReviewReferenceLength = 255"

definition fixture_shape :: "fixture_input \<Rightarrow> bool" where
  "fixture_shape f \<longleftrightarrow> stableID (fi_FixtureID f) \<and> stableID (fi_RuleID f) \<and> 0 < length (fi_TargetRef f) \<and> length (fi_TargetRef f) \<le> maxReplayTargetRefLength \<and>
     \<not> blank (fi_ReviewReference f) \<and> length (fi_ReviewReference f) \<le> maxReplayReviewReferenceLength"

definition validateRegistrationBatch :: "fixture_input list \<Rightarrow> goerr + unit" where
  "validateRegistrationBatch fs =
     (if fs = [] \<or> length fs > MaxReplayFixturesPerBatch then Inl (Sentinel GovErrInvalidRequest)
      else if \<not> list_all fixture_shape fs then Inl (Sentinel GovErrInvalidRequest) else Inr ())"

definition validateFixtureSemantics :: "template_version \<Rightarrow> fixture_input \<Rightarrow> goerr + unit" where
  "validateFixtureSemantics v f =
     (case bindingsByID v (fi_RuleID f) of
        None \<Rightarrow> Inl (Sentinel GovErrInvalidRequest)
      | Some b \<Rightarrow>
          if \<not> b_Enabled b then Inl (Sentinel GovErrInvalidRequest)
          else if fi_Polarity f \<noteq> ''positive'' \<and> fi_Polarity f \<noteq> ''negative'' then Inl (Sentinel GovErrInvalidRequest)
          else if fi_Scene f \<notin> set (b_TriggerScenes b) then Inl (Sentinel GovErrInvalidRequest)
          else if fi_ExpectedStatus f \<notin> {EvaluationPass, EvaluationIssue, EvaluationUnknown} then Inl (Sentinel GovErrInvalidRequest)
          else if b_DefinitionID b \<noteq> ''model_assisted'' then
            (if fi_Polarity f = ''positive'' \<and> fi_ExpectedStatus f \<noteq> EvaluationPass \<or> fi_Polarity f = ''negative'' \<and> fi_ExpectedStatus f \<noteq> EvaluationIssue
             then Inl (Sentinel GovErrInvalidRequest) else Inr ())
          else if fi_ExpectedStatus f \<noteq> EvaluationUnknown then Inl (Sentinel GovErrInvalidRequest)
          else Inr ())"

section \<open>Trial and insertion\<close>

definition trial_fixture :: "template_version \<Rightarrow> fixture_input \<Rightarrow> replay_fixture" where
  "trial_fixture v f = \<lparr>fx_ID = fi_FixtureID f, fx_RuleSet = tv_RuleSet v, fx_RuleID = fi_RuleID f, fx_Scene = fi_Scene f, fx_Polarity = fi_Polarity f,
     fx_TargetRef = fi_TargetRef f, fx_Input = fi_Input f, fx_ExpectedStatus = fi_ExpectedStatus f\<rparr>"

definition new_fixture_row :: "int \<Rightarrow> gov_actor \<Rightarrow> template_version \<Rightarrow> fixture_input \<Rightarrow> string \<Rightarrow> fixture_row" where
  "new_fixture_row now a v f text = \<lparr>fw_TenantID = ga_TenantID a, fw_TemplateID = tv_TemplateID v, fw_Version = tv_Version v, fw_ContentHash = tv_ContentHash v,
     fw_FixtureID = fi_FixtureID f, fw_RulesetID = ref_ID (tv_RuleSet v), fw_RulesetVersion = ref_Version (tv_RuleSet v), fw_RulesetHash = ref_Hash (tv_RuleSet v),
     fw_PolicyHash = tv_PolicyHash v, fw_RuleID = fi_RuleID f, fw_Scene = fi_Scene f, fw_Polarity = fi_Polarity f, fw_TargetRef = fi_TargetRef f, fw_InputJSON = text,
     fw_ExpectedStatus = fi_ExpectedStatus f, fw_ReviewedBy = ga_UserID a, fw_ReviewReference = fi_ReviewReference f, fw_ReviewedAt = now, fw_CreatedBy = ga_UserID a,
     fw_CreatedAt = now\<rparr>"

definition fixture_summary_of :: "template_version \<Rightarrow> fixture_input \<Rightarrow> fixture_summary" where
  "fixture_summary_of v f = \<lparr>fs_FixtureID = fi_FixtureID f, fs_RuleID = fi_RuleID f, fs_Scene = fi_Scene f, fs_Polarity = fi_Polarity f, fs_TargetRef = fi_TargetRef f,
     fs_RuleSet = tv_RuleSet v\<rparr>"

fun trial_rows :: "'r fix_env \<Rightarrow> gov_actor \<Rightarrow> template_version \<Rightarrow> string list \<Rightarrow> fixture_input list \<Rightarrow> goerr + fixture_row list" where
  "trial_rows env a v seen [] = Inr []"
| "trial_rows env a v seen (f # fs) =
     (if fi_FixtureID f \<in> set seen then Inl (Sentinel GovErrInvalidRequest)
      else bindR (validateFixtureSemantics v f) (\<lambda>_.
           bindR (JudgeReplayFixture (ge_tpl (fe_gov env)) v (trial_fixture v f)) (\<lambda>_.
           bindR (fe_inputText env (fi_Input f)) (\<lambda>text.
           bindR (trial_rows env a v (fi_FixtureID f # seen) fs) (\<lambda>rows.
             Inr (new_fixture_row (ge_now (fe_gov env)) a v f text # rows))))))"

definition sameFixtureContent :: "fixture_row \<Rightarrow> fixture_row \<Rightarrow> bool" where
  "sameFixtureContent x n \<longleftrightarrow> fw_RulesetID x = fw_RulesetID n \<and> fw_RulesetVersion x = fw_RulesetVersion n \<and> fw_RulesetHash x = fw_RulesetHash n \<and>
     fw_PolicyHash x = fw_PolicyHash n \<and> fw_RuleID x = fw_RuleID n \<and> fw_Scene x = fw_Scene n \<and> fw_Polarity x = fw_Polarity n \<and> fw_TargetRef x = fw_TargetRef n \<and>
     fw_InputJSON x = fw_InputJSON n \<and> fw_ExpectedStatus x = fw_ExpectedStatus n \<and> fw_ReviewReference x = fw_ReviewReference n"

definition insertFixtureRow :: "fixture_row \<Rightarrow> 'r fix_store \<Rightarrow> goerr + 'r fix_store" where
  "insertFixtureRow row st =
     (case find (\<lambda>x. fixture_key x = fixture_key row) (fixtures st) of
        None \<Rightarrow> Inr (on_fixtures (\<lambda>rows. rows @ [row]) st)
      | Some existing \<Rightarrow> if sameFixtureContent existing row then Inr st else Inl (Sentinel GovErrVersionConflict))"

fun insert_rows :: "fixture_row list \<Rightarrow> 'r fix_store \<Rightarrow> goerr + 'r fix_store" where
  "insert_rows [] st = Inr st"
| "insert_rows (r # rs) st = bindR (insertFixtureRow r st) (insert_rows rs)"

definition version_pin :: "template_version \<Rightarrow> fixture_pin" where
  "version_pin v = \<lparr>fp_TemplateID = tv_TemplateID v, fp_TemplateVersion = tv_Version v, fp_ContentHash = tv_ContentHash v, fp_PolicyHash = tv_PolicyHash v\<rparr>"

definition projection_of :: "template_version \<Rightarrow> ruleset_projection" where
  "projection_of v = \<lparr>pj_RuleSet = tv_RuleSet v, pj_ReplayBase = \<lparr>pb_TemplateID = tv_TemplateID v, pb_Version = tv_Version v\<rparr>\<rparr>"

record 'r registration =
  rn_Request :: gov_request
  rn_Target :: string
  rn_Fixtures :: "fixture_input list"
  rn_Reason :: string
  rn_AuditID :: string
  rn_AuditVersion :: string
  rn_Targets :: "string list"
  rn_RulesetPath :: bool
  rn_Resolve :: "'r fix_store \<Rightarrow> goerr + template_version"

definition registration_receipt :: "template_version \<Rightarrow> bool \<Rightarrow> fixture_input list \<Rightarrow> coverage_report \<Rightarrow> fixtures_receipt" where
  "registration_receipt v projected fs coverage = \<lparr>fr_TemplateID = tv_TemplateID v, fr_Version = tv_Version v, fr_ContentHash = tv_ContentHash v, fr_PolicyHash = tv_PolicyHash v,
     fr_Projection = (if projected then Some (projection_of v) else None), fr_Registered = map (fixture_summary_of v) fs, fr_Coverage = coverage\<rparr>"

definition registration_details :: "template_version \<Rightarrow> bool \<Rightarrow> fixture_input list \<Rightarrow> (string \<times> string) list" where
  "registration_details v projected fs =
     map (\<lambda>f. (''fixture_ids'', fi_FixtureID f)) fs @
     [(''content_hash'', tv_ContentHash v), (''policy_hash'', tv_PolicyHash v),
      (''ruleset.id'', ref_ID (tv_RuleSet v)), (''ruleset.version'', ref_Version (tv_RuleSet v)), (''ruleset.hash'', ref_Hash (tv_RuleSet v))] @
     (if projected then [(''replay_base.template_id'', tv_TemplateID v), (''replay_base.version'', tv_Version v)] else [])"

definition registration_basis :: "template_version \<Rightarrow> nat \<Rightarrow> string" where
  "registration_basis v n =
     (let q = [CHR 0x22] in ''{'' @ q @ ''content_hash'' @ q @ '':'' @ q @ tv_ContentHash v @ q @ '','' @ q @ ''count'' @ q @ '':'' @ show_nat n @ '','' @
        q @ ''policy_hash'' @ q @ '':'' @ q @ tv_PolicyHash v @ q @ ''}'')"

definition trialAndInsert :: "'r fix_env \<Rightarrow> fixture_backend \<Rightarrow> gov_actor \<Rightarrow> string \<Rightarrow> template_version \<Rightarrow> 'r registration \<Rightarrow> 'r fix_store \<Rightarrow> goerr + fixtures_receipt \<times> 'r fix_store" where
  "trialAndInsert env b a key v req st =
     (let gov = fe_gov env; fs = rn_Fixtures req in
      bindR (trial_rows env a v [] fs) (\<lambda>rows.
      bindR (insert_rows rows st) (\<lambda>st1.
      bindR (fixturesForPin b (Inr (fixtures st1)) (ga_TenantID a) (version_pin v)) (\<lambda>records.
        let receipt = registration_receipt v (rn_RulesetPath req) fs (JudgeReplayCoverage (ge_tpl gov) v (map fd_Fixture records)) in
        bindR (gov_recordAudit gov a ''register_fixture'' (rn_Target req) (rn_Reason req) (registration_details v (rn_RulesetPath req) fs) st1) (\<lambda>st2.
        bindR (operationSave gov a ''register_fixture'' (rn_Target req) key (rn_Request req) (RReceipt receipt) (registration_basis v (length rows)) st2) (\<lambda>st3.
          Inr (receipt, st3)))))))"

definition register_body :: "'r fix_env \<Rightarrow> fixture_backend \<Rightarrow> gov_actor \<Rightarrow> string \<Rightarrow> 'r registration \<Rightarrow> 'r fix_store \<Rightarrow> goerr + fixtures_receipt \<times> 'r fix_store" where
  "register_body env b a key req st =
     bindR (rn_Resolve req st) (\<lambda>current.
     bindR (operationGet (fe_gov env) a ''register_fixture'' (rn_Target req) key (rn_Request req) st) (\<lambda>previous.
       case previous of
         Some (RReceipt r) \<Rightarrow> if tv_ContentHash current \<noteq> fr_ContentHash r \<or> tv_PolicyHash current \<noteq> fr_PolicyHash r then Inl (Sentinel GovErrVersionConflict) else Inr (r, st)
       | Some _ \<Rightarrow> Inl undecodable
       | None \<Rightarrow> trialAndInsert env b a key current req st))"

definition registration_checks :: "'r fix_env \<Rightarrow> gov_actor \<Rightarrow> string \<Rightarrow> 'r registration \<Rightarrow> goerr + fixture_backend" where
  "registration_checks env a key req =
     bindR (ready (fe_gov env) a) (\<lambda>_.
       if \<not> validKey key then Inl (Sentinel GovErrInvalidRequest)
       else (case fe_Fixtures env of
          None \<Rightarrow> Inl (Sentinel GovErrUnavailable)
        | Some b \<Rightarrow>
            if \<not> validReason (rn_Reason req) \<or> \<not> list_all stableID (rn_Targets req) then Inl (Sentinel GovErrInvalidRequest)
            else bindR (validateRegistrationBatch (rn_Fixtures req)) (\<lambda>_.
              if list_ex (\<lambda>f. ConflictsBuiltin b (fi_FixtureID f)) (rn_Fixtures req) then Inl (Sentinel GovErrInvalidRequest) else Inr b)))"

definition registerFixtures :: "'r fix_env \<Rightarrow> (nat \<Rightarrow> 'r fix_store attempt) \<Rightarrow> gov_actor \<Rightarrow> string \<Rightarrow> 'r registration \<Rightarrow> 'r fix_store \<Rightarrow> 'r fix_store \<times> (goerr + fixtures_receipt)" where
  "registerFixtures env sched a key req st =
     with_receipt (fe_gov env) sched a ''register_fixture'' (rn_AuditID req) (rn_AuditVersion req) (rn_Reason req)
       (case registration_checks env a key req of
          Inl e \<Rightarrow> (st, Inl e)
        | Inr b \<Rightarrow> db_Transaction (sched 0) (register_body env b a key req) st)"

section \<open>The two ways to register\<close>

definition template_target :: "'r fix_env \<Rightarrow> gov_actor \<Rightarrow> register_input \<Rightarrow> 'r fix_store \<Rightarrow> goerr + template_version" where
  "template_target env a inp st =
     bindR (authorizeTemplate (fe_gov env) st a ''register_fixture'' (ri_TemplateID inp)) (\<lambda>_.
     bindR (loadVersion (fe_gov env) st a (ri_TemplateID inp) (ri_Version inp)) (\<lambda>current.
       if tv_State current \<noteq> ''draft'' then Inl (Sentinel GovErrInvalidState) else Inr current))"

definition template_registration :: "'r fix_env \<Rightarrow> gov_actor \<Rightarrow> register_input \<Rightarrow> 'r registration" where
  "template_registration env a inp =
     \<lparr>rn_Request = QRegister inp, rn_Target = ri_TemplateID inp @ ''/'' @ ri_Version inp, rn_Fixtures = ri_Fixtures inp, rn_Reason = ri_Reason inp,
      rn_AuditID = ri_TemplateID inp, rn_AuditVersion = ri_Version inp, rn_Targets = [ri_TemplateID inp, ri_Version inp], rn_RulesetPath = False,
      rn_Resolve = template_target env a inp\<rparr>"

definition RegisterFixtures :: "'r fix_env \<Rightarrow> (nat \<Rightarrow> 'r fix_store attempt) \<Rightarrow> gov_actor \<Rightarrow> string \<Rightarrow> register_input \<Rightarrow> 'r fix_store \<Rightarrow> 'r fix_store \<times> (goerr + fixtures_receipt)" where
  "RegisterFixtures env sched a key inp st = registerFixtures env sched a key (template_registration env a inp) st"

definition projection_input :: "string \<Rightarrow> string \<Rightarrow> rule_governance_input" where
  "projection_input i version = \<lparr>rg_ExpectedState = [], rg_ExpectedRuleSetHash = [], rg_Reason = [], rg_ReplayFixtureIDs = [], rg_TemplateID = i, rg_TemplateVersion = version\<rparr>"

definition ruleset_target :: "'r fix_env \<Rightarrow> gov_actor \<Rightarrow> register_set_input \<Rightarrow> 'r fix_store \<Rightarrow> goerr + template_version" where
  "ruleset_target env a inp st =
     (let gov = fe_gov env; renv = ge_rule gov in
      bindR (GetVersion_tx renv a (rx_RuleSetID inp) (rx_RuleSetVersion inp) st) (\<lambda>draft.
        if s_State draft \<noteq> ''draft'' then Inl (Sentinel GovErrInvalidState)
        else bindR (rs_authorize renv st a ''publish'' draft) (\<lambda>_.
             bindR (PublishRuleSet (ge_tpl gov) draft) (\<lambda>published.
               ruleReplayVersion gov a (projection_input (rx_TemplateID inp) (rx_TemplateVersion inp)) published st))))"

definition ruleset_registration :: "'r fix_env \<Rightarrow> gov_actor \<Rightarrow> register_set_input \<Rightarrow> 'r registration" where
  "ruleset_registration env a inp =
     \<lparr>rn_Request = QRegisterSet inp, rn_Target = rx_RuleSetID inp @ ''/'' @ rx_RuleSetVersion inp, rn_Fixtures = rx_Fixtures inp, rn_Reason = rx_Reason inp,
      rn_AuditID = rx_RuleSetID inp, rn_AuditVersion = rx_RuleSetVersion inp,
      rn_Targets = [rx_RuleSetID inp, rx_RuleSetVersion inp, rx_TemplateID inp, rx_TemplateVersion inp], rn_RulesetPath = True,
      rn_Resolve = ruleset_target env a inp\<rparr>"

definition RegisterRuleSetFixtures :: "'r fix_env \<Rightarrow> (nat \<Rightarrow> 'r fix_store attempt) \<Rightarrow> gov_actor \<Rightarrow> string \<Rightarrow> register_set_input \<Rightarrow> 'r fix_store \<Rightarrow> 'r fix_store \<times> (goerr + fixtures_receipt)" where
  "RegisterRuleSetFixtures env sched a key inp st =
     (if re_authorizer (ge_rule (fe_gov env)) = None then (st, Inl (Sentinel GovErrUnavailable))
      else registerFixtures env sched a key (ruleset_registration env a inp) st)"

section \<open>Reading the coverage\<close>

record coverage_view =
  cv_View_TemplateID :: string
  cv_View_Version :: string
  cv_View_ContentHash :: string
  cv_View_PolicyHash :: string
  cv_View_Projection :: "ruleset_projection option"
  cv_View_Report :: coverage_report

definition coverage_body :: "'r fix_env \<Rightarrow> gov_actor \<Rightarrow> string \<Rightarrow> string \<Rightarrow> (string \<times> string) option \<Rightarrow> 'r fix_store \<Rightarrow> goerr + template_version \<times> ruleset_projection option" where
  "coverage_body env a i version projection st =
     (let gov = fe_gov env in
      bindR (authorizeTemplate gov st a ''read'' i) (\<lambda>_.
      bindR (ge_CanManage gov st a) (\<lambda>manages.
        if \<not> manages then Inl (Sentinel GovErrNotFound)
        else bindR (loadVersion gov st a i version) (\<lambda>current.
          case projection of
            None \<Rightarrow> Inr (current, None)
          | Some (setID, setVersion) \<Rightarrow>
              if re_authorizer (ge_rule gov) = None then Inl (Sentinel GovErrUnavailable)
              else bindR (GetVersion_tx (ge_rule gov) a setID setVersion st) (\<lambda>draft.
                if s_State draft \<noteq> ''draft'' then Inl (Sentinel GovErrInvalidState)
                else bindR (PublishRuleSet (ge_tpl gov) draft) (\<lambda>published.
                     bindR (ruleReplayVersion gov a (projection_input i version) published st) (\<lambda>v. Inr (v, Some (projection_of v)))))))))"

definition ReplayCoverage :: "'r fix_env \<Rightarrow> 'r fix_store attempt \<Rightarrow> goerr + fixture_row list \<Rightarrow> gov_actor \<Rightarrow> string \<Rightarrow> string \<Rightarrow> (string \<times> string) option \<Rightarrow> 'r fix_store \<Rightarrow> 'r fix_store \<times> (goerr + coverage_view)" where
  "ReplayCoverage env tx db a i version projection st =
     (case bindR (ready (fe_gov env) a) (\<lambda>_.
             if \<not> stableID i \<or> \<not> stableID version then Inl (Sentinel GovErrInvalidRequest)
             else if (case projection of None \<Rightarrow> False | Some (setID, setVersion) \<Rightarrow> \<not> stableID setID \<or> \<not> stableID setVersion) then Inl (Sentinel GovErrInvalidRequest)
             else (case fe_Fixtures env of None \<Rightarrow> Inl (Sentinel GovErrUnavailable) | Some b \<Rightarrow> Inr b)) of
        Inl e \<Rightarrow> (st, Inl e)
      | Inr b \<Rightarrow>
          (case db_Transaction tx (unchanged (coverage_body env a i version projection)) st of
             (st1, Inl e) \<Rightarrow> (st1, Inl e)
           | (st1, Inr (current, pj)) \<Rightarrow>
               (st1, bindR (fixturesForPin b db (ga_TenantID a) (version_pin current)) (\<lambda>records.
                  Inr \<lparr>cv_View_TemplateID = i, cv_View_Version = version, cv_View_ContentHash = tv_ContentHash current, cv_View_PolicyHash = tv_PolicyHash current,
                       cv_View_Projection = pj, cv_View_Report = JudgeReplayCoverage (ge_tpl (fe_gov env)) current (map fd_Fixture records)\<rparr>))))"

section \<open>The verifier of publications\<close>

text \<open>
  The verifier looks the examples of the version's exact pin up, classifies the submitted identifiers that are not among
  them, and hands the rest to the shared verifier with a reader of those examples only.
\<close>

definition ErrStaleReplayPin :: goerr where
  "ErrStaleReplayPin = Wrapped ''template_governance_stale_replay_pin'' (Sentinel GovErrReplayRequired)"

fun pin_precheck :: "fixture_backend \<Rightarrow> goerr + fixture_row list \<Rightarrow> nat \<Rightarrow> (string \<times> replay_fixture) list \<Rightarrow> string list \<Rightarrow> string list \<Rightarrow> goerr + unit" where
  "pin_precheck b db tenant byID seen [] = Inr ()"
| "pin_precheck b db tenant byID seen (i # is) =
     (if blank i \<or> i \<in> set seen then pin_precheck b db tenant byID seen is
      else if map_of byID i \<noteq> None then pin_precheck b db tenant byID (i # seen) is
      else (case GetFixture b db tenant i of
         Inr _ \<Rightarrow> Inl (Wrapped (err_msg ErrStaleReplayPin @ '': fixture '' @ i) ErrStaleReplayPin)
       | Inl e \<Rightarrow> if err_is e GovErrFixtureNotStored then Inl (Wrapped (sentinel_msg GovErrReplayRequired @ '': fixture '' @ i) (Sentinel GovErrReplayRequired)) else Inl e))"

definition pinScopedReader :: "(string \<times> replay_fixture) list \<Rightarrow> gov_actor \<Rightarrow> string \<Rightarrow> goerr + replay_fixture" where
  "pinScopedReader byID a i = (case map_of byID i of Some f \<Rightarrow> Inr f | None \<Rightarrow> Inl (Sentinel GovErrReplayRequired))"

definition RuntimeVerify :: "'q gov_env \<Rightarrow> fixture_backend \<Rightarrow> (nat \<Rightarrow> goerr + fixture_row list) \<Rightarrow> gov_actor \<Rightarrow> template_version \<Rightarrow> string list \<Rightarrow> goerr + unit" where
  "RuntimeVerify env b reads a v ids =
     bindR (fixturesForPin b (reads 0) (ga_TenantID a) (version_pin v)) (\<lambda>records.
       let byID = rev (map (\<lambda>r. (fx_ID (fd_Fixture r), fd_Fixture r)) records) in
       bindR (pin_precheck b (reads 1) (ga_TenantID a) byID [] ids) (\<lambda>_.
         Verify env (Some (pinScopedReader byID)) a v ids))"

end
