(* ===== verification/Fixture_Steps.thy ===== *)
theory Fixture_Steps
  imports Fixture_Store Catalog_Calls
begin

text \<open>
  The table of registered examples: what a registration may do to it, as an instance of the moving table whose rows never
  move, and each call as a sequence of steps.
\<close>

section \<open>What a stored example is\<close>

text \<open>
  Each stored row was tried: on some version of exactly its pin, the judge of publications accepted its fixture with the
  input whose text the row holds; its identifier is none of the built in ones.
\<close>

definition tried :: "'r fix_env \<Rightarrow> fixture_backend \<Rightarrow> fixture_row \<Rightarrow> bool" where
  "tried env b r \<longleftrightarrow> stableID (fw_FixtureID r) \<and> \<not> ConflictsBuiltin b (fw_FixtureID r) \<and>
     (\<exists>v input. version_pin v = row_pin r \<and> fe_inputText env input = Inr (fw_InputJSON r) \<and> JudgeReplayFixture (ge_tpl (fe_gov env)) v (row_fixture r input) = Inr ())"

definition fixtures_ok :: "'r fix_env \<Rightarrow> fixture_backend \<Rightarrow> 'r fix_store \<Rightarrow> bool" where
  "fixtures_ok env b st \<longleftrightarrow> distinct (map fixture_key (fixtures st)) \<and> (\<forall>r \<in> set (fixtures st). tried env b r)"

text \<open>Two environments with the same judge, the same texts and the same built in examples.\<close>

definition same_examples :: "'r fix_env \<Rightarrow> fixture_backend \<Rightarrow> 'r fix_env \<Rightarrow> fixture_backend \<Rightarrow> bool" where
  "same_examples base bb env b \<longleftrightarrow> ge_tpl (fe_gov env) = ge_tpl (fe_gov base) \<and> fe_inputText env = fe_inputText base \<and> fb_builtin b = fb_builtin bb"

lemma same_examples_tried: "same_examples base bb env b \<Longrightarrow> tried env b = tried base bb"
  by (auto simp: same_examples_def tried_def ConflictsBuiltin_def fun_eq_iff)

lemma same_examples_refl [simp]: "same_examples env b env b"
  by (simp add: same_examples_def)

section \<open>The batch\<close>

lemma on_fixtures_frame:
  "fixtures (on_fixtures f st) = f (fixtures st)" "rt_sets (on_fixtures f st) = rt_sets st" "versions (on_fixtures f st) = versions st" "profiles (on_fixtures f st) = profiles st"
  "cg_ops (rt_rest (on_fixtures f st)) = cg_ops (rt_rest st)" "rt_members (on_fixtures f st) = rt_members st"
  by (simp_all add: on_fixtures_def on_catalog_def)

text \<open>One example of the batch: the row that was built from it, and what was checked before.\<close>

definition trial_of :: "'r fix_env \<Rightarrow> gov_actor \<Rightarrow> template_version \<Rightarrow> fixture_input \<Rightarrow> fixture_row \<Rightarrow> bool" where
  "trial_of env a v f r \<longleftrightarrow> (\<exists>text. fe_inputText env (fi_Input f) = Inr text \<and> r = new_fixture_row (ge_now (fe_gov env)) a v f text) \<and>
     validateFixtureSemantics v f = Inr () \<and> JudgeReplayFixture (ge_tpl (fe_gov env)) v (trial_fixture v f) = Inr ()"

lemma trial_rows_ok:
  "trial_rows env a v seen fs = Inr rows \<Longrightarrow> list_all2 (trial_of env a v) fs rows \<and> distinct (map fi_FixtureID fs) \<and> set (map fi_FixtureID fs) \<inter> set seen = {}"
proof (induction fs arbitrary: seen rows)
  case (Cons f fs)
  from Cons.prems obtain raw rest where c: "fi_FixtureID f \<notin> set seen" "validateFixtureSemantics v f = Inr ()" "JudgeReplayFixture (ge_tpl (fe_gov env)) v (trial_fixture v f) = Inr ()"
    "fe_inputText env (fi_Input f) = Inr raw" "trial_rows env a v (fi_FixtureID f # seen) fs = Inr rest" "rows = new_fixture_row (ge_now (fe_gov env)) a v f raw # rest"
    by (auto split: if_splits)
  from Cons.IH [OF c(5)] show ?case using c by (auto simp: trial_of_def)
qed simp

lemma trial_row:
  assumes "trial_of env a v f r"
  shows "row_pin r = version_pin v" "fw_TenantID r = ga_TenantID a" "fw_FixtureID r = fi_FixtureID f" "row_fixture r (fi_Input f) = trial_fixture v f"
    "fe_inputText env (fi_Input f) = Inr (fw_InputJSON r)" "fixture_key r = (ga_TenantID a, tv_TemplateID v, tv_Version v, tv_ContentHash v, fi_FixtureID f)"
  using assms by (auto simp: trial_of_def new_fixture_row_def row_pin_def version_pin_def row_fixture_def trial_fixture_def fixture_key_def)

lemma trial_tried:
  assumes "trial_of env a v f r" "stableID (fi_FixtureID f)" "\<not> ConflictsBuiltin b (fi_FixtureID f)"
  shows "tried env b r"
proof -
  have "JudgeReplayFixture (ge_tpl (fe_gov env)) v (row_fixture r (fi_Input f)) = Inr ()" using assms(1) by (simp add: trial_row(4) [OF assms(1)] trial_of_def)
  then show ?thesis using assms(2,3) trial_row [OF assms(1)] unfolding tried_def by (intro conjI exI [of _ v] exI [of _ "fi_Input f"]) simp_all
qed

lemma insertFixtureRow_ok:
  assumes "insertFixtureRow r st = Inr st'"
  shows "\<exists>new. st' = on_fixtures (\<lambda>rows. rows @ new) st \<and> set new \<subseteq> {r} \<and> (distinct (map fixture_key (fixtures st)) \<longrightarrow> distinct (map fixture_key (fixtures st'))) \<and>
    (\<exists>x \<in> set (fixtures st'). fixture_key x = fixture_key r \<and> sameFixtureContent x r)"
proof (cases "find (\<lambda>x. fixture_key x = fixture_key r) (fixtures st)")
  case None
  then have st': "st' = on_fixtures (\<lambda>rows. rows @ [r]) st" using assms by (simp add: insertFixtureRow_def)
  have "fixture_key r \<notin> fixture_key ` set (fixtures st)" using None by (fastforce simp: find_None_iff)
  then show ?thesis by (intro exI [of _ "[r]"]) (auto simp: st' on_fixtures_frame sameFixtureContent_def)
next
  case (Some x)
  then have "st' = st" "sameFixtureContent x r" using assms by (auto simp: insertFixtureRow_def split: if_splits)
  then show ?thesis using find_member [OF Some] by (intro exI [of _ "[]"]) (auto simp: on_fixtures_def on_catalog_def)
qed

lemma insert_rows_ok:
  "insert_rows rows st = Inr st' \<Longrightarrow> \<exists>new. st' = on_fixtures (\<lambda>xs. xs @ new) st \<and> set new \<subseteq> set rows \<and>
     (distinct (map fixture_key (fixtures st)) \<longrightarrow> distinct (map fixture_key (fixtures st'))) \<and>
     (\<forall>r \<in> set rows. \<exists>x \<in> set (fixtures st'). fixture_key x = fixture_key r \<and> sameFixtureContent x r)"
proof (induction rows arbitrary: st)
  case Nil
  then show ?case by (intro exI [of _ "[]"]) (simp add: on_fixtures_def on_catalog_def)
next
  case (Cons r rows)
  from Cons.prems obtain st1 where s: "insertFixtureRow r st = Inr st1" "insert_rows rows st1 = Inr st'" by auto
  obtain n1 where n1: "st1 = on_fixtures (\<lambda>xs. xs @ n1) st" "set n1 \<subseteq> {r}" "distinct (map fixture_key (fixtures st)) \<longrightarrow> distinct (map fixture_key (fixtures st1))"
    "\<exists>x \<in> set (fixtures st1). fixture_key x = fixture_key r \<and> sameFixtureContent x r" using insertFixtureRow_ok [OF s(1)] by blast
  obtain n2 where n2: "st' = on_fixtures (\<lambda>xs. xs @ n2) st1" "set n2 \<subseteq> set rows" "distinct (map fixture_key (fixtures st1)) \<longrightarrow> distinct (map fixture_key (fixtures st'))"
    "\<forall>q \<in> set rows. \<exists>x \<in> set (fixtures st'). fixture_key x = fixture_key q \<and> sameFixtureContent x q" using Cons.IH [OF s(2)] by blast
  have "st' = on_fixtures (\<lambda>xs. xs @ (n1 @ n2)) st" by (simp add: n1(1) n2(1) on_fixtures_def on_catalog_def)
  moreover have "set (fixtures st1) \<subseteq> set (fixtures st')" by (simp add: n2(1) on_fixtures_frame)
  ultimately show ?case using n1 n2 by (intro exI [of _ "n1 @ n2"]) auto
qed

section \<open>The transaction\<close>

text \<open>A registration answers an earlier receipt and changes nothing, or tries and stores its batch.\<close>

lemma register_cases:
  assumes "register_body env b a key req st = Inr (receipt, st')"
  obtains (replayed) old where "operationGet (fe_gov env) a ''register_fixture'' (rn_Target req) key (rn_Request req) st = Inr (Some old)" "st' = st"
  | (fresh) v rows st1 st2 records where "rn_Resolve req st = Inr v" "operationGet (fe_gov env) a ''register_fixture'' (rn_Target req) key (rn_Request req) st = Inr None"
    "trial_rows env a v [] (rn_Fixtures req) = Inr rows" "insert_rows rows st = Inr st1" "fixturesForPin b (Inr (fixtures st1)) (ga_TenantID a) (version_pin v) = Inr records"
    "receipt = registration_receipt v (rn_RulesetPath req) (rn_Fixtures req) (JudgeReplayCoverage (ge_tpl (fe_gov env)) v (map fd_Fixture records))"
    "gov_recordAudit (fe_gov env) a ''register_fixture'' (rn_Target req) (rn_Reason req) (registration_details v (rn_RulesetPath req) (rn_Fixtures req)) st1 = Inr st2"
    "operationSave (fe_gov env) a ''register_fixture'' (rn_Target req) key (rn_Request req) (RReceipt receipt) (registration_basis v (length rows)) st2 = Inr st'"
proof -
  from assms obtain v old where v: "rn_Resolve req st = Inr v" and g: "operationGet (fe_gov env) a ''register_fixture'' (rn_Target req) key (rn_Request req) st = Inr old"
    by (auto simp: register_body_def)
  show thesis
  proof (cases old)
    case None
    then show thesis using assms v g by (auto simp: register_body_def trialAndInsert_def Let_def intro: fresh)
  next
    case (Some w)
    then have "st' = st" using assms v g by (cases w) (auto simp: register_body_def undecodable_def split: if_splits)
    then show thesis using g Some by (intro replayed) simp_all
  qed
qed

lemma fresh_frame:
  assumes "insert_rows rows st = Inr st1" "gov_recordAudit env a action target reason details st1 = Inr st2" "operationSave env a operation target' key request res basis st2 = Inr st'"
  shows "fixtures st' = fixtures st1" "rt_sets st' = rt_sets st" "versions st' = versions st" "profiles st' = profiles st"
proof -
  obtain new where "st1 = on_fixtures (\<lambda>xs. xs @ new) st" using insert_rows_ok [OF assms(1)] by blast
  moreover have "cg_rest (rt_rest st') = cg_rest (rt_rest st2)" using assms(3) by (auto simp: operationSave_def on_catalog_def Let_def split: if_splits)
  ultimately show "fixtures st' = fixtures st1" "rt_sets st' = rt_sets st" "versions st' = versions st" "profiles st' = profiles st"
    using gov_audit_frame [OF assms(2)] operationSave_frame [OF assms(3)] by (simp_all add: on_fixtures_frame)
qed

lemma register_effect:
  assumes "register_body env b a key req st = Inr (receipt, st')" "list_all (\<lambda>f. stableID (fi_FixtureID f) \<and> \<not> ConflictsBuiltin b (fi_FixtureID f)) (rn_Fixtures req)" "fixtures_ok env b st"
  shows "fixtures_ok env b st' \<and> set (fixtures st) \<subseteq> set (fixtures st')"
  using assms(1)
proof (cases rule: register_cases)
  case (fresh v rows st1 st2 records)
  obtain new where n: "st1 = on_fixtures (\<lambda>xs. xs @ new) st" "set new \<subseteq> set rows" "distinct (map fixture_key (fixtures st1))"
    using insert_rows_ok [OF fresh(4)] assms(3) by (auto simp: fixtures_ok_def)
  have t: "list_all2 (trial_of env a v) (rn_Fixtures req) rows" using trial_rows_ok [OF fresh(3)] by simp
  have "tried env b r" if "r \<in> set new" for r
  proof -
    have "r \<in> set rows" using n(2) that by blast
    from list_all2_right [OF t this] obtain f where f: "f \<in> set (rn_Fixtures req)" "trial_of env a v f r" by (elim bexE)
    then show ?thesis using assms(2) by (intro trial_tried [OF f(2)]) (auto simp: list_all_iff)
  qed
  then show ?thesis using n assms(3) fresh_frame(1) [OF fresh(4,7,8)] by (auto simp: fixtures_ok_def on_fixtures_frame)
qed (use assms(3) in simp)

lemma registration_checks_ok:
  assumes "registration_checks env a key req = Inr b"
  shows "fe_Fixtures env = Some b" "list_all (\<lambda>f. stableID (fi_FixtureID f) \<and> \<not> ConflictsBuiltin b (fi_FixtureID f)) (rn_Fixtures req)" "list_all fixture_shape (rn_Fixtures req)"
    "rn_Fixtures req \<noteq> []" "length (rn_Fixtures req) \<le> MaxReplayFixturesPerBatch" "validReason (rn_Reason req)"
  using assms by (auto simp: registration_checks_def validateRegistrationBatch_def list_all_iff list_ex_iff fixture_shape_def split: if_splits option.splits)

section \<open>Steps\<close>

inductive fix_step :: "'r fix_env \<Rightarrow> fixture_backend \<Rightarrow> 'r fix_store \<Rightarrow> 'r fix_store \<Rightarrow> bool" for base bb where
  register: "same_examples base bb env b \<Longrightarrow> registration_checks env a key req = Inr b \<Longrightarrow> register_body env b a key req st = Inr (x, st') \<Longrightarrow> fix_step base bb st st'"
| elsewhere: "fixtures st' = fixtures st \<Longrightarrow> fix_step base bb st st'"

lemma fix_step_effect: "fix_step base bb st st' \<Longrightarrow> fixtures_ok base bb st \<Longrightarrow> fixtures_ok base bb st' \<and> set (fixtures st) \<subseteq> set (fixtures st')"
proof (induction rule: fix_step.induct)
  case (register env b a key req st x st')
  have "fixtures_ok env b = fixtures_ok base bb" using same_examples_tried [OF register(1)] by (simp add: fun_eq_iff fixtures_ok_def)
  then show ?case using register_effect [OF register(3) registration_checks_ok(2) [OF register(2)]] register(4) by simp
qed (simp add: fixtures_ok_def)

interpretation replay_fixtures: moving_table "fix_step base bb" "fixtures_ok base bb" "\<lambda>st. ft_rows (cg_rest (rt_rest st))" fixture_key "(=)"
  for base :: "'r fix_env" and bb
proof unfold_locales
  show "\<exists>r' \<in> set (fixtures st'). r = r'" if "fix_step base bb st st'" "fixtures_ok base bb st" "r \<in> set (fixtures st)" for st st' :: "'r fix_store" and r
    using fix_step_effect [OF that(1,2)] that(3) by auto
qed (auto simp: fixtures_ok_def dest: fix_step_effect [unfolded fixtures_ok_def])

section \<open>Calls\<close>

definition fix_quiet :: "'r fix_env \<Rightarrow> fixture_backend \<Rightarrow> 'r fix_store attempt \<Rightarrow> bool" where
  "fix_quiet base bb tx \<longleftrightarrow> (\<forall>st. (fix_step base bb)\<^sup>*\<^sup>* st (at_before tx st))"

lemma fix_Transaction_steps:
  assumes "fix_quiet base bb tx" "\<And>s r s'. body s = Inr (r, s') \<Longrightarrow> fix_step base bb s s'"
  shows "(fix_step base bb)\<^sup>*\<^sup>* st (fst (db_Transaction tx body st))"
proof -
  have "(fix_step base bb)\<^sup>*\<^sup>* st (at_before tx st)" using assms(1) by (simp add: fix_quiet_def)
  then show ?thesis using assms(2) [of "at_before tx st"]
    by (auto simp: db_Transaction_def Let_def split: option.splits sum.splits intro: rtranclp.rtrancl_into_rtrancl)
qed

inductive fix_call :: "'r fix_env \<Rightarrow> fixture_backend \<Rightarrow> 'r fix_store \<Rightarrow> 'r fix_store \<Rightarrow> bool" for base bb where
  call_Register: "(\<And>n. fix_quiet base bb (sched n)) \<Longrightarrow> (\<And>b. fe_Fixtures env = Some b \<Longrightarrow> same_examples base bb env b) \<Longrightarrow>
     fix_call base bb st (fst (RegisterFixtures env sched a key inp st))"
| call_RegisterSet: "(\<And>n. fix_quiet base bb (sched n)) \<Longrightarrow> (\<And>b. fe_Fixtures env = Some b \<Longrightarrow> same_examples base bb env b) \<Longrightarrow>
     fix_call base bb st (fst (RegisterRuleSetFixtures env sched a key xinp st))"
| call_Coverage: "fix_quiet base bb tx \<Longrightarrow> fix_call base bb st (fst (ReplayCoverage env tx db a i version projection st))"
| call_elsewhere: "fixtures st' = fixtures st \<Longrightarrow> fix_call base bb st st'"

lemma fix_read_steps: "fix_quiet base bb tx \<Longrightarrow> (fix_step base bb)\<^sup>*\<^sup>* st (fst (db_Transaction tx (unchanged f) st))"
  by (rule fix_Transaction_steps) (auto simp: unchanged_def intro: fix_step.elsewhere)

lemma receipt_fix_steps:
  assumes "\<And>n. fix_quiet base bb (sched n)" "(fix_step base bb)\<^sup>*\<^sup>* st (fst answer)"
  shows "(fix_step base bb)\<^sup>*\<^sup>* st (fst (with_receipt env sched a action i version reason answer))"
  by (rule with_receipt_star [OF fix_read_steps [OF assms(1)] fix_Transaction_steps [OF assms(1)] assms(2)])
    (auto intro!: fix_step.elsewhere simp: recordAuditOutcome_def split: if_splits)

lemma registerFixtures_steps:
  assumes "\<And>n. fix_quiet base bb (sched n)" "\<And>b. fe_Fixtures env = Some b \<Longrightarrow> same_examples base bb env b"
  shows "(fix_step base bb)\<^sup>*\<^sup>* st (fst (registerFixtures env sched a key req st))"
  unfolding registerFixtures_def
proof (rule receipt_fix_steps [OF assms(1)])
  show "(fix_step base bb)\<^sup>*\<^sup>* st (fst (case registration_checks env a key req of Inl e \<Rightarrow> (st, Inl e) | Inr b \<Rightarrow> db_Transaction (sched 0) (register_body env b a key req) st))"
  proof (cases "registration_checks env a key req")
    case (Inr b)
    have "same_examples base bb env b" using assms(2) registration_checks_ok(1) [OF Inr] by simp
    then show ?thesis using Inr fix_Transaction_steps [OF assms(1) [of 0]] by (auto intro: fix_step.register)
  qed simp
qed

lemma fix_call_steps: "fix_call base bb st st' \<Longrightarrow> (fix_step base bb)\<^sup>*\<^sup>* st st'"
proof (induction rule: fix_call.induct)
  case (call_Coverage tx st env db a i version projection)
  obtain st1 r where t: "db_Transaction tx (unchanged (coverage_body env a i version projection)) st = (st1, r)" by (rule prod.exhaust)
  have "(fix_step base bb)\<^sup>*\<^sup>* st st1" using fix_read_steps [OF call_Coverage, of st "coverage_body env a i version projection"] by (simp add: t)
  then show ?case unfolding ReplayCoverage_def t by (auto split: sum.split)
next
  case (call_elsewhere st' st)
  then show ?case by (intro r_into_rtranclp fix_step.elsewhere)
qed (auto simp: RegisterFixtures_def RegisterRuleSetFixtures_def intro: registerFixtures_steps)

lemma fix_calls_steps: "(fix_call base bb)\<^sup>*\<^sup>* st st' \<Longrightarrow> (fix_step base bb)\<^sup>*\<^sup>* st st'"
  by (induction rule: rtranclp_induct) (auto dest: fix_call_steps intro: rtranclp_trans)

end
