(* ===== verification/Fixture_Demo.thy ===== *)
theory Fixture_Demo
  imports Fixture_Steps Catalog_Demo
begin

text \<open>
  A concrete registration for the witnesses: the two examples of the concrete catalogue, submitted for its draft.
\<close>

definition fix_good :: fixture_input where
  "fix_good = \<lparr>fi_FixtureID = ''good'', fi_RuleID = ''r1'', fi_Scene = ''write_check'', fi_Polarity = ''positive'', fi_TargetRef = ''field/goal'', fi_Input = gov_input ''a b c'',
     fi_ExpectedStatus = EvaluationPass, fi_ReviewReference = ''seen''\<rparr>"

definition fix_bad :: fixture_input where
  "fix_bad = \<lparr>fi_FixtureID = ''bad'', fi_RuleID = ''r1'', fi_Scene = ''write_check'', fi_Polarity = ''negative'', fi_TargetRef = ''field/goal'', fi_Input = gov_input ''a'',
     fi_ExpectedStatus = EvaluationIssue, fi_ReviewReference = ''seen''\<rparr>"

definition fix_register :: register_input where
  "fix_register = \<lparr>ri_TemplateID = ''t1'', ri_Version = ''v1'', ri_Fixtures = [fix_good, fix_bad], ri_Reason = ''reviewed''\<rparr>"

definition fix_text :: "eval_input \<Rightarrow> goerr + string" where
  "fix_text input = Inr (if input = gov_input ''a b c'' then ''1'' else ''2'')"

definition fix_backend :: fixture_backend where
  "fix_backend = \<lparr>fb_builtin = NewReplayFixtureStore [], fb_decode = (\<lambda>raw. Inr (if raw = ''1'' then gov_input ''a b c'' else gov_input ''a'')), fb_take = hd\<rparr>"

definition fix_env0 :: "unit fix_env" where
  "fix_env0 = \<lparr>fe_gov = gov_env0, fe_Fixtures = Some fix_backend, fe_inputText = fix_text\<rparr>"

definition fix_state :: "fixture_row list \<Rightarrow> unit fix_store" where
  "fix_state rows = gov_state_in \<lparr>ft_rows = rows, ft_rest = ()\<rparr> gov_draft"

definition fix_rows :: "fixture_row list" where
  "fix_rows = [new_fixture_row 5 gov_actor gov_v fix_good ''1'', new_fixture_row 5 gov_actor gov_v fix_bad ''2'']"

lemma fix_trials: "trial_fixture gov_v fix_good = gov_good" "trial_fixture gov_v fix_bad = gov_bad"
  by (simp_all add: trial_fixture_def fix_good_def fix_bad_def gov_good_def gov_bad_def gov_fixture_def gov_v_sel)

lemma fix_inputs: "gov_input ''a'' \<noteq> gov_input ''a b c''"
proof -
  have "goal = goal'" if "gov_input goal = gov_input goal'" for goal goal' using that by (auto simp: gov_input_def dest: fun_cong [of _ _ "''goal''"])
  then show ?thesis by blast
qed

lemma fix_texts: "fix_text (fi_Input fix_good) = Inr ''1''" "fix_text (fi_Input fix_bad) = Inr ''2''"
  by (simp_all add: fix_text_def fix_good_def fix_bad_def fix_inputs)

lemma fix_env0_sel: "fe_gov fix_env0 = gov_env0" "fe_Fixtures fix_env0 = Some fix_backend" "fe_inputText fix_env0 = fix_text" "fb_builtin fix_backend = []"
  by (simp_all add: fix_env0_def fix_backend_def NewReplayFixtureStore_def)

lemma fix_semantics: "validateFixtureSemantics gov_v fix_good = Inr ()" "validateFixtureSemantics gov_v fix_bad = Inr ()"
proof -
  have "bindingsByID gov_v ''r1'' = Some (demo_binding ''r1'')" by (simp add: bindingsByID_def gov_v_sel bindingOf_def gov_set_def demo_binding_def)
  moreover have "b_Enabled (demo_binding ''r1'')" "b_TriggerScenes (demo_binding ''r1'') = [''write_check'']" "b_DefinitionID (demo_binding ''r1'') \<noteq> ''model_assisted''" by (simp_all add: demo_binding_def)
  ultimately show "validateFixtureSemantics gov_v fix_good = Inr ()" "validateFixtureSemantics gov_v fix_bad = Inr ()"
    by (simp_all add: validateFixtureSemantics_def fix_good_def fix_bad_def)
qed

lemma fix_ids: "fi_FixtureID fix_good = ''good''" "fi_FixtureID fix_bad = ''bad''" "stableID ''good''" "stableID ''bad''" "stableID ''t1''" "stableID ''v1''"
  by (simp_all add: fix_good_def fix_bad_def stableID_def id_head_def id_tail_def ncode_def)

lemma fix_trial_rows: "trial_rows fix_env0 gov_actor gov_v [] [fix_good, fix_bad] = Inr fix_rows"
  using gov_judged by (simp add: fix_semantics fix_trials fix_texts fix_env0_sel gov_env0_sel fix_ids fix_rows_def)

lemma fix_rows_ok: "fixtures_ok fix_env0 fix_backend (fix_state fix_rows)" "fixtures_ok fix_env0 fix_backend (fix_state [])"
proof -
  have n: "\<not> ConflictsBuiltin fix_backend i" for i by (simp add: ConflictsBuiltin_def fix_env0_sel)
  have "list_all2 (trial_of fix_env0 gov_actor gov_v) [fix_good, fix_bad] fix_rows" using trial_rows_ok [OF fix_trial_rows] by simp
  then have t: "trial_of fix_env0 gov_actor gov_v fix_good (new_fixture_row 5 gov_actor gov_v fix_good ''1'')" "trial_of fix_env0 gov_actor gov_v fix_bad (new_fixture_row 5 gov_actor gov_v fix_bad ''2'')"
    by (simp_all add: fix_rows_def)
  have "tried fix_env0 fix_backend (new_fixture_row 5 gov_actor gov_v fix_good ''1'')" by (rule trial_tried [OF t(1) _ n]) (simp add: fix_ids)
  moreover have "tried fix_env0 fix_backend (new_fixture_row 5 gov_actor gov_v fix_bad ''2'')" by (rule trial_tried [OF t(2) _ n]) (simp add: fix_ids)
  ultimately have "tried fix_env0 fix_backend r" if "r \<in> set fix_rows" for r using that by (auto simp: fix_rows_def)
  then show "fixtures_ok fix_env0 fix_backend (fix_state fix_rows)" "fixtures_ok fix_env0 fix_backend (fix_state [])"
    by (simp_all add: fixtures_ok_def fix_state_def gov_state_in_def) (simp add: fix_rows_def fixture_key_def new_fixture_row_def fix_ids)
qed

lemma fix_checks: "registration_checks fix_env0 gov_actor ''key-0004'' (template_registration fix_env0 gov_actor fix_register) = Inr fix_backend"
proof -
  have "ready (gov_env0 :: unit fixture_tables gov_env) gov_actor = Inr ()" "validKey ''key-0004''" "validReason ''reviewed''" "\<not> blank ''seen''"
    by (simp_all add: ready_def gov_actor_def gov_env0_def gov_reader_env_def validKey_def validReason_def blank_def trim_space_visible visible_ascii_def ncode_def)
  moreover have "stableID ''r1''" by (simp add: stableID_def id_head_def id_tail_def ncode_def)
  ultimately have "ready (gov_env0 :: unit fixture_tables gov_env) gov_actor = Inr ()" "validKey ''key-0004''" "validReason ''reviewed''" "fixture_shape fix_good" "fixture_shape fix_bad"
    using fix_ids by (simp_all add: fixture_shape_def maxReplayTargetRefLength_def maxReplayReviewReferenceLength_def) (simp_all add: fix_good_def fix_bad_def)
  then show ?thesis using fix_ids
    by (simp add: registration_checks_def template_registration_def fix_env0_sel fix_register_def validateRegistrationBatch_def MaxReplayFixturesPerBatch_def ConflictsBuiltin_def)
qed

lemma fix_order: "\<not> ''good'' \<le> ''bad''" "''bad'' \<le> ''good''"
  by code_simp+

definition fix_record :: "fixture_input \<Rightarrow> replay_fixture \<Rightarrow> fixture_record" where
  "fix_record f fixture = \<lparr>fd_Fixture = fixture, fd_TemplateID = tv_TemplateID gov_v, fd_TemplateVersion = tv_Version gov_v, fd_ContentHash = tv_ContentHash gov_v,
     fd_PolicyHash = tv_PolicyHash gov_v, fd_ReviewedBy = ''u1'', fd_ReviewReference = fi_ReviewReference f, fd_ReviewedAt = 5\<rparr>"

lemma fix_records: "fixturesForPin fix_backend (Inr fix_rows) 1 (version_pin gov_v) = Inr [fix_record fix_bad gov_bad, fix_record fix_good gov_good]"
proof -
  let ?good = "new_fixture_row 5 gov_actor gov_v fix_good ''1''" and ?bad = "new_fixture_row 5 gov_actor gov_v fix_bad ''2''"
  have pin: "row_pin ?good = version_pin gov_v" "row_pin ?bad = version_pin gov_v" "fw_TenantID ?good = 1" "fw_TenantID ?bad = 1"
    by (simp_all add: row_pin_def new_fixture_row_def version_pin_def gov_actor_def)
  have same: "row_fixture ?good (gov_input ''a b c'') = gov_good" "row_fixture ?bad (gov_input ''a'') = gov_bad"
    by (simp_all add: row_fixture_def new_fixture_row_def fix_good_def fix_bad_def gov_good_def gov_bad_def gov_fixture_def gov_v_sel)
  have "fixtureRecordFromRow fix_backend ?good = Inr (fix_record fix_good gov_good)" "fixtureRecordFromRow fix_backend ?bad = Inr (fix_record fix_bad gov_bad)"
    using same by (simp_all add: fixtureRecordFromRow_def fix_backend_def fix_record_def) (simp_all add: new_fixture_row_def gov_actor_def)
  moreover have "fx_ID (fd_Fixture (fix_record f gov_good)) = ''good''" "fx_ID (fd_Fixture (fix_record f gov_bad)) = ''bad''" for f
    by (simp_all add: fix_record_def gov_good_def gov_bad_def gov_fixture_def)
  ultimately show ?thesis by (simp add: fixturesForPin_def fix_rows_def pin fix_env0_sel sortReplayFixtureRecords_def fix_order)
qed

text \<open>The verifier of the running service accepts the two examples.\<close>

lemma fix_verifies: "RuntimeVerify (gov_reader_env :: unit gov_env) fix_backend (\<lambda>n. Inr fix_rows) gov_actor gov_v [''good'', ''bad''] = Inr ()"
proof -
  define byID where "byID = rev (map (\<lambda>r. (fx_ID (fd_Fixture r), fd_Fixture r)) [fix_record fix_bad gov_bad, fix_record fix_good gov_good])"
  have look: "map_of byID ''good'' = Some gov_good" "map_of byID ''bad'' = Some gov_bad" by (simp_all add: byID_def fix_record_def gov_good_def gov_bad_def gov_fixture_def)
  have pre: "pin_precheck fix_backend (Inr fix_rows) 1 byID [] [''good'', ''bad''] = Inr ()" by (simp add: look)
  have "Verify (gov_reader_env :: unit gov_env) (Some (pinScopedReader byID)) gov_actor gov_v [''good'', ''bad''] = Inr ()"
    by (rule gov_verifies_with) (simp_all add: pinScopedReader_def look)
  moreover have "ga_TenantID gov_actor = 1" by (simp add: gov_actor_def)
  ultimately show ?thesis using pre by (simp only: RuntimeVerify_def Let_def fix_records bindR_def sum.case byID_def [symmetric])
qed

lemma fix_registers:
  "\<exists>st' receipt. RegisterFixtures fix_env0 (\<lambda>n. calm) gov_actor ''key-0004'' fix_register (fix_state []) = (st', Inr receipt) \<and> ft_rows (cg_rest (rt_rest st')) = fix_rows"
proof -
  let ?req = "template_registration fix_env0 gov_actor fix_register"
  have auth: "authorizeTemplate gov_env0 (fix_state []) gov_actor ''register_fixture'' ''t1'' = Inr ()" by (simp add: authorizeTemplate_def gov_env0_def gov_reader_env_def gov_actor_def)
  have load: "loadVersion gov_env0 (fix_state []) gov_actor ''t1'' ''v1'' = Inr gov_v" unfolding fix_state_def by (rule gov_load)
  have req: "rn_Resolve ?req (fix_state []) = Inr gov_v" "rn_Fixtures ?req = [fix_good, fix_bad]" "rn_Target ?req = ''t1/v1''"
    using auth load by (simp_all add: template_registration_def template_target_def fix_env0_sel fix_register_def gov_v_sel)
  have none: "operationGet gov_env0 gov_actor ''register_fixture'' ''t1/v1'' ''key-0004'' q (fix_state []) = Inr None" for q
    by (simp add: operationGet_def find_op_def fix_state_def gov_state_in_def)
  have ins: "insert_rows fix_rows (fix_state []) = Inr (fix_state fix_rows)"
    by (simp add: fix_rows_def insertFixtureRow_def fix_state_def gov_state_in_def on_fixtures_def on_catalog_def fixture_key_def new_fixture_row_def fix_ids)
  obtain records where rec: "fixturesForPin fix_backend (Inr fix_rows) 1 (version_pin gov_v) = Inr records" using fix_records by blast
  define receipt where "receipt = registration_receipt gov_v (rn_RulesetPath ?req) [fix_good, fix_bad] (JudgeReplayCoverage demo_tenv gov_v (map fd_Fixture records))"
  have rows: "fixtures (fix_state fix_rows) = fix_rows" "ga_TenantID gov_actor = 1" by (simp_all add: fix_state_def gov_state_in_def gov_actor_def)
  obtain st2 where audit: "gov_recordAudit gov_env0 gov_actor ''register_fixture'' ''t1/v1'' (rn_Reason ?req) (registration_details gov_v (rn_RulesetPath ?req) [fix_good, fix_bad]) (fix_state fix_rows) = Inr st2"
    "rt_rest st2 = rt_rest (fix_state fix_rows)" by (simp add: gov_recordAudit_def recordAuditOutcome_def gov_actor_def role_IsValid_def)
  obtain st3 where op: "operationSave gov_env0 gov_actor ''register_fixture'' ''t1/v1'' ''key-0004'' (rn_Request ?req) (RReceipt receipt) (registration_basis gov_v (length fix_rows)) st2 = Inr st3"
    "fixtures st3 = fix_rows"
    using audit(2) by (simp add: operationSave_def encodable_def gov_env0_def gov_reader_env_def Let_def on_catalog_def fix_state_def gov_state_in_def)
  have "register_body fix_env0 fix_backend gov_actor ''key-0004'' ?req (fix_state []) = Inr (receipt, st3)"
    using none [of "rn_Request ?req"] audit(1) op(1) rec
    by (simp add: register_body_def trialAndInsert_def Let_def req fix_env0_sel fix_trial_rows ins rows gov_env0_sel receipt_def del: trial_rows.simps)
  then show ?thesis using op(2) by (simp add: RegisterFixtures_def registerFixtures_def fix_checks calm_Transaction with_receipt_def)
qed

end
