(* ===== verification/Fixture_Properties.thy ===== *)
theory Fixture_Properties
  imports Fixture_Demo Catalog_Properties
begin

text \<open>
  What registered examples guarantee: each was tried on the version it is stored for, none is ever changed, a publication
  rests on examples of the exact version, and the coverage report says whether it can succeed.
\<close>

section \<open>Registration\<close>

lemma same_content_fixture:
  assumes "fixture_key x = fixture_key r" "sameFixtureContent x r"
  shows "row_pin x = row_pin r" "fw_TenantID x = fw_TenantID r" "row_fixture x input = row_fixture r input" "fw_InputJSON x = fw_InputJSON r"
  using assms by (auto simp: fixture_key_def sameFixtureContent_def row_pin_def row_fixture_def)

text \<open>The example is stored: a row of the caller's tenant with the pin of the version, whose fixture with this input is the one that was tried.\<close>

definition stored_example :: "'r fix_env \<Rightarrow> gov_actor \<Rightarrow> template_version \<Rightarrow> fixture_row list \<Rightarrow> fixture_input \<Rightarrow> bool" where
  "stored_example env a v rows f \<longleftrightarrow> (\<exists>x \<in> set rows. fw_TenantID x = ga_TenantID a \<and> row_pin x = version_pin v \<and> row_fixture x (fi_Input f) = trial_fixture v f \<and>
     fe_inputText env (fi_Input f) = Inr (fw_InputJSON x))"

lemma batch_stored:
  assumes "trial_rows env a v [] fs = Inr rows" "insert_rows rows st = Inr st1" "f \<in> set fs"
  shows "validateFixtureSemantics v f = Inr () \<and> JudgeReplayFixture (ge_tpl (fe_gov env)) v (trial_fixture v f) = Inr () \<and> stored_example env a v (fixtures st1) f"
proof -
  have "list_all2 (trial_of env a v) fs rows" using trial_rows_ok [OF assms(1)] by simp
  then obtain r where r: "r \<in> set rows" "trial_of env a v f r" using assms(3) by (induction rule: list_all2_induct) auto
  from insert_rows_ok [OF assms(2)] r(1) obtain x where x: "x \<in> set (fixtures st1)" "fixture_key x = fixture_key r" "sameFixtureContent x r" by blast
  note same = same_content_fixture [OF x(2,3)] and row = trial_row [OF r(2)]
  have "stored_example env a v (fixtures st1) f" unfolding stored_example_def by (rule bexI [OF _ x(1)]) (simp add: same row)
  then show ?thesis using r(2) by (simp add: trial_of_def)
qed

lemma batch_new_rows:
  assumes "trial_rows env a v [] fs = Inr rows" "r \<in> set rows"
  shows "row_pin r = version_pin v \<and> fw_TenantID r = ga_TenantID a \<and> fw_ReviewedBy r = ga_UserID a"
proof -
  have "list_all2 (trial_of env a v) fs rows" using trial_rows_ok [OF assms(1)] by simp
  from list_all2_right [OF this assms(2)] obtain f where f: "trial_of env a v f r" by (elim bexE)
  then show ?thesis using trial_row(1,2) [OF f] by (auto simp: trial_of_def new_fixture_row_def)
qed

text \<open>
  C38. Examples are tried before they are stored.  If \<^verbatim>\<open>RegisterFixtures\<close> answers a receipt and its transaction did not
  find this very request carried out before, then the caller was authorized on a stored draft; every submitted example was
  accepted on that very draft by the judge that publications use, takes up no built in identifier, and is now stored for the
  draft's exact content and policies; rows are only added, by this reviewer and for this draft; rule sets, versions and
  profiles stay; and the receipt reports the draft's hashes and the coverage by all examples now stored for them.
\<close>

theorem registered_examples_were_tried:
  assumes "RegisterFixtures env sched a key inp st = (st', Inr receipt)"
    and "find_op a ''register_fixture'' (ri_TemplateID inp @ ''/'' @ ri_Version inp) key (at_before (sched 0) st) = None"
  shows "\<exists>b v new records. fe_Fixtures env = Some b \<and> authorizeTemplate (fe_gov env) (at_before (sched 0) st) a ''register_fixture'' (ri_TemplateID inp) = Inr () \<and>
    loadVersion (fe_gov env) (at_before (sched 0) st) a (ri_TemplateID inp) (ri_Version inp) = Inr v \<and> tv_State v = ''draft'' \<and>
    (\<forall>f \<in> set (ri_Fixtures inp). validateFixtureSemantics v f = Inr () \<and> JudgeReplayFixture (ge_tpl (fe_gov env)) v (trial_fixture v f) = Inr () \<and>
       \<not> ConflictsBuiltin b (fi_FixtureID f) \<and> stored_example env a v (ft_rows (cg_rest (rt_rest st'))) f) \<and>
    ft_rows (cg_rest (rt_rest st')) = ft_rows (cg_rest (rt_rest (at_before (sched 0) st))) @ new \<and>
    (\<forall>r \<in> set new. row_pin r = version_pin v \<and> fw_TenantID r = ga_TenantID a \<and> fw_ReviewedBy r = ga_UserID a) \<and>
    rt_sets st' = rt_sets (at_before (sched 0) st) \<and> cg_versions (rt_rest st') = cg_versions (rt_rest (at_before (sched 0) st)) \<and>
    cg_profiles (rt_rest st') = cg_profiles (rt_rest (at_before (sched 0) st)) \<and>
    fr_ContentHash receipt = tv_ContentHash v \<and> fr_PolicyHash receipt = tv_PolicyHash v \<and>
    fixturesForPin b (Inr (ft_rows (cg_rest (rt_rest st')))) (ga_TenantID a) (version_pin v) = Inr records \<and>
    fr_Coverage receipt = JudgeReplayCoverage (ge_tpl (fe_gov env)) v (map fd_Fixture records)"
proof -
  let ?req = "template_registration env a inp" and ?s = "at_before (sched 0) st"
  from with_receipt_ok [OF assms(1) [unfolded RegisterFixtures_def registerFixtures_def]] obtain b where c: "registration_checks env a key ?req = Inr b"
    and t: "db_Transaction (sched 0) (register_body env b a key ?req) st = (st', Inr receipt)" by (auto split: sum.splits)
  have none: "operationGet (fe_gov env) a ''register_fixture'' (rn_Target ?req) key (rn_Request ?req) ?s = Inr None"
    unfolding operationGet_def using assms(2) by (simp add: template_registration_def)
  from db_Transaction_ok [OF t] show ?thesis
  proof (cases rule: register_cases)
    case (fresh v rows st1 st2 records)
    have v: "authorizeTemplate (fe_gov env) ?s a ''register_fixture'' (ri_TemplateID inp) = Inr ()" "loadVersion (fe_gov env) ?s a (ri_TemplateID inp) (ri_Version inp) = Inr v" "tv_State v = ''draft''"
      using fresh(1) by (auto simp: template_registration_def template_target_def split: if_splits)
    have fs: "rn_Fixtures ?req = ri_Fixtures inp" by (simp add: template_registration_def)
    obtain new where n: "st1 = on_fixtures (\<lambda>xs. xs @ new) ?s" "set new \<subseteq> set rows" using insert_rows_ok [OF fresh(4)] by blast
    note fr = fresh_frame [OF fresh(4,7,8)]
    have all: "\<forall>f \<in> set (ri_Fixtures inp). validateFixtureSemantics v f = Inr () \<and> JudgeReplayFixture (ge_tpl (fe_gov env)) v (trial_fixture v f) = Inr () \<and>
        \<not> ConflictsBuiltin b (fi_FixtureID f) \<and> stored_example env a v (fixtures st') f"
      using batch_stored [OF fresh(3,4)] registration_checks_ok(2) [OF c] unfolding fs fr by (simp add: list_all_iff)
    have new: "\<forall>r \<in> set new. row_pin r = version_pin v \<and> fw_TenantID r = ga_TenantID a \<and> fw_ReviewedBy r = ga_UserID a"
      using batch_new_rows [OF fresh(3)] n(2) by blast
    have "fixtures st' = fixtures ?s @ new" by (simp add: fr n(1) on_fixtures_frame)
    then show ?thesis using registration_checks_ok(1) [OF c] v all new fr fresh(5,6)
      by (intro exI [of _ b] exI [of _ v] exI [of _ new] exI [of _ records]) (simp add: registration_receipt_def)
  qed (use none in simp)
qed

theorem registered_examples_were_tried_witness:
  "\<exists>st' receipt. RegisterFixtures fix_env0 (\<lambda>n. calm) gov_actor ''key-0004'' fix_register (fix_state []) = (st', Inr receipt) \<and>
     fr_ContentHash receipt = sha256_hex ''template'' \<and> stored_example fix_env0 gov_actor gov_v (ft_rows (cg_rest (rt_rest st'))) fix_bad \<and>
     JudgeReplayFixture demo_tenv gov_v (trial_fixture gov_v fix_bad) = Inr ()"
proof -
  obtain st' receipt where p: "RegisterFixtures fix_env0 (\<lambda>n. calm) gov_actor ''key-0004'' fix_register (fix_state []) = (st', Inr receipt)" using fix_registers by (elim exE conjE)
  have none: "find_op gov_actor ''register_fixture'' target ''key-0004'' (at_before calm (fix_state [])) = None" for target by (simp add: calm_def find_op_def fix_state_def gov_state_in_def)
  have b: "at_before calm (fix_state []) = fix_state []" by (simp add: calm_def)
  have load: "loadVersion (fe_gov fix_env0) (fix_state []) gov_actor (ri_TemplateID fix_register) (ri_Version fix_register) = Inr gov_v"
    unfolding fix_state_def fix_env0_sel by (simp add: fix_register_def gov_load)
  have sel: "fix_bad \<in> set (ri_Fixtures fix_register)" "ge_tpl (fe_gov fix_env0) = demo_tenv" "tv_ContentHash gov_v = sha256_hex ''template''"
    by (simp_all add: fix_register_def fix_env0_sel gov_env0_sel) (simp add: row_version_def gov_draft_def)
  from registered_examples_were_tried [OF p none] show ?thesis using p unfolding b load by (auto simp: sel)
qed

section \<open>The table of examples\<close>

text \<open>
  C40. An example is never rewritten.  Over every sequence of calls to both ways of registration, the coverage readback and any
  other calls that leave the examples alone, with other transactions in between, every stored row is found again
  under its key exactly as it was, and every row there ever is was tried on a version of exactly its pin with the input it
  holds, under an identifier that is not built in.
\<close>

theorem examples_are_append_only:
  assumes "(fix_call base bb)\<^sup>*\<^sup>* st st'" "fixtures_ok base bb st"
  shows "(\<forall>r \<in> set (ft_rows (cg_rest (rt_rest st))). find (\<lambda>x. fixture_key x = fixture_key r) (ft_rows (cg_rest (rt_rest st'))) = Some r) \<and>
    (\<forall>r \<in> set (ft_rows (cg_rest (rt_rest st'))). tried base bb r)"
proof -
  have s: "(fix_step base bb)\<^sup>*\<^sup>* st st'" by (rule fix_calls_steps [OF assms(1)])
  have "find (\<lambda>x. fixture_key x = fixture_key r) (fixtures st') = Some r" if "r \<in> set (fixtures st)" for r
    using replay_fixtures.found_again [OF s assms(2) that] by simp
  moreover have "fixtures_ok base bb st'" by (rule replay_fixtures.steps_ok [OF s assms(2)])
  ultimately show ?thesis by (simp add: fixtures_ok_def)
qed

theorem examples_are_append_only_witness:
  "find (\<lambda>x. fixture_key x = (1, ''t1'', ''v1'', sha256_hex ''template'', ''bad''))
     (ft_rows (cg_rest (rt_rest (fst (RegisterFixtures fix_env0 (\<lambda>n. calm) gov_actor ''key-0005'' fix_register (fix_state fix_rows)))))) =
   Some (new_fixture_row 5 gov_actor gov_v fix_bad ''2'')"
proof -
  let ?st = "fst (RegisterFixtures fix_env0 (\<lambda>n. calm) gov_actor ''key-0005'' fix_register (fix_state fix_rows))" and ?bad = "new_fixture_row 5 gov_actor gov_v fix_bad ''2''"
  have q: "fix_quiet fix_env0 fix_backend calm" by (simp add: fix_quiet_def calm_def)
  have "fix_call fix_env0 fix_backend (fix_state fix_rows) ?st" by (rule fix_call.call_Register [OF q]) (simp add: fix_env0_sel)
  then have c: "(fix_call fix_env0 fix_backend)\<^sup>*\<^sup>* (fix_state fix_rows) ?st" by (rule r_into_rtranclp)
  have m: "?bad \<in> set (ft_rows (cg_rest (rt_rest (fix_state fix_rows))))" by (simp add: fix_state_def gov_state_in_def fix_rows_def)
  have k: "fixture_key ?bad = (1, ''t1'', ''v1'', sha256_hex ''template'', ''bad'')"
    by (simp add: fixture_key_def new_fixture_row_def gov_actor_def fix_ids gov_v_sel) (simp add: row_version_def gov_draft_def)
  show ?thesis using bspec [OF conjunct1 [OF examples_are_append_only [OF c fix_rows_ok(1)]] m] unfolding k .
qed

section \<open>The verifier of publications\<close>

text \<open>An example registered, or built in, for exactly this pin.\<close>

definition registered :: "fixture_backend \<Rightarrow> fixture_row list \<Rightarrow> nat \<Rightarrow> fixture_pin \<Rightarrow> replay_fixture \<Rightarrow> bool" where
  "registered b rows tenant pin f \<longleftrightarrow>
     (\<exists>r \<in> set rows. fw_TenantID r = tenant \<and> row_pin r = pin \<and> (\<exists>input. fb_decode b (fw_InputJSON r) = Inr input \<and> f = row_fixture r input)) \<or>
     (\<exists>d \<in> snd ` set (fb_builtin b). record_pin d = pin \<and> f = fd_Fixture d)"

lemma pinned_records:
  assumes "fixturesForPin b db tenant pin = Inr records"
  obtains rows own where "db = Inr rows" "list_all2 (\<lambda>r d. fixtureRecordFromRow b r = Inr d) (filter (\<lambda>r. fw_TenantID r = tenant \<and> row_pin r = pin) rows) own"
    "records = sortReplayFixtureRecords (own @ filter (\<lambda>r. record_pin r = pin) (map snd (fb_builtin b)))"
  using assms by (auto simp: fixturesForPin_def mapR_Inr_iff split: sum.splits)

lemma record_of_row: "fixtureRecordFromRow b r = Inr d \<Longrightarrow> \<exists>input. fb_decode b (fw_InputJSON r) = Inr input \<and> fd_Fixture d = row_fixture r input"
  by (auto simp: fixtureRecordFromRow_def split: sum.splits)

lemma pinned_registered:
  assumes "fixturesForPin b (Inr rows) tenant pin = Inr records" "d \<in> set records"
  shows "registered b rows tenant pin (fd_Fixture d)"
proof -
  obtain own where own: "list_all2 (\<lambda>r d. fixtureRecordFromRow b r = Inr d) (filter (\<lambda>r. fw_TenantID r = tenant \<and> row_pin r = pin) rows) own"
    "records = sortReplayFixtureRecords (own @ filter (\<lambda>r. record_pin r = pin) (map snd (fb_builtin b)))" by (rule pinned_records [OF assms(1)]) auto
  show ?thesis
  proof (cases "d \<in> set own")
    case True
    from list_all2_right [OF own(1) True] obtain r where "r \<in> set rows" "fw_TenantID r = tenant" "row_pin r = pin" "fixtureRecordFromRow b r = Inr d" by auto
    then show ?thesis using record_of_row [of b r d] by (auto simp: registered_def)
  next
    case False
    then show ?thesis using assms(2) own(2) by (force simp: registered_def sortReplayFixtureRecords_def)
  qed
qed

abbreviation by_id :: "fixture_record list \<Rightarrow> (string \<times> replay_fixture) list" where
  "by_id records \<equiv> rev (map (\<lambda>r. (fx_ID (fd_Fixture r), fd_Fixture r)) records)"

lemma RuntimeVerify_ok:
  assumes "RuntimeVerify env b reads a v ids = Inr ()"
  obtains rows records where "reads 0 = Inr rows" "fixturesForPin b (Inr rows) (ga_TenantID a) (version_pin v) = Inr records"
    "fully_exercised (ge_tpl env) (pinScopedReader (by_id records) a) v ids"
proof -
  from assms obtain records where r: "fixturesForPin b (reads 0) (ga_TenantID a) (version_pin v) = Inr records" "Verify env (Some (pinScopedReader (by_id records))) a v ids = Inr ()"
    by (auto simp: RuntimeVerify_def Let_def)
  obtain rows where rows: "reads 0 = Inr rows" by (rule pinned_records [OF r(1)])
  have "fully_exercised (ge_tpl env) (pinScopedReader (by_id records) a) v ids" using Verify_ok [OF r(2)] by auto
  then show thesis using that r(1) rows by simp
qed

lemma scoped_read:
  assumes "pinScopedReader (by_id records) a i = Inr f"
  shows "\<exists>d \<in> set records. f = fd_Fixture d \<and> fx_ID f = i"
proof -
  have "map_of (by_id records) i = Some f" using assms by (auto simp: pinScopedReader_def split: option.splits)
  from map_of_SomeD [OF this] show ?thesis by auto
qed

text \<open>
  C37. Nothing is published without registered evidence.  With the verifier of the running service, if \<^verbatim>\<open>Publish\<close> answers a
  version and its write did not find this very request carried out before, then for every enabled rule of the version's
  snapshot, every scene it is triggered in and both polarities, one of the submitted examples is stored for exactly the
  content and policies that are published (a row of the publisher's tenant, or built in), and the rule was really evaluated on it on the
  very definition that is published, and answered pass for the positive and issue for the negative example (unknown for
  a model assisted rule); and every example a binding declares was submitted.
\<close>

theorem published_evidence_is_registered:
  assumes "gov_ok env st" "\<And>n. quiet env (sched n)" "ge_Replay env = Some (RuntimeVerify venv b reads)" "ge_tpl venv = ge_tpl env"
    and "Publish env sched a key inp st = (st', Inr v)"
    and "find_op a ''publish'' (pu_TemplateID inp @ ''/'' @ pu_Version inp) key (at_before (sched 1) (at_before (sched 0) st)) = None"
  shows "\<exists>rows. reads 0 = Inr rows \<and> tv_State v = ''published'' \<and>
    (\<forall>r \<in> set (s_Bindings (tv_RuleSetSnapshot v)). b_Enabled r \<longrightarrow>
       (\<forall>scene \<in> set (b_TriggerScenes r). \<forall>polarity \<in> {''positive'', ''negative''}.
          \<exists>f. fx_ID f \<in> set (pu_ReplayFixtureIDs inp) \<and> registered b rows (ga_TenantID a) (version_pin v) f \<and> exercised (ge_tpl env) v r scene polarity f) \<and>
       set (b_PositiveExampleRefs r) \<union> set (b_NegativeExampleRefs r) \<subseteq> set (pu_ReplayFixtureIDs inp))"
proof -
  obtain current where c: "RuntimeVerify venv b reads a current (pu_ReplayFixtureIDs inp) = Inr ()" "v = published_version (ge_now env) current"
    using publish_core [OF assms(1,2,5)] assms(3,6) by auto
  obtain rows records where r: "reads 0 = Inr rows" "fixturesForPin b (Inr rows) (ga_TenantID a) (version_pin current) = Inr records"
    "fully_exercised (ge_tpl venv) (pinScopedReader (by_id records) a) current (pu_ReplayFixtureIDs inp)" by (rule RuntimeVerify_ok [OF c(1)])
  have p: "version_pin current = version_pin v" by (simp add: c(2) version_pin_def published_version_def)
  have full: "fully_exercised (ge_tpl env) (pinScopedReader (by_id records) a) v (pu_ReplayFixtureIDs inp)"
    using r(3) assms(4) by (simp add: c(2) fully_exercised_def exercised_def published_version_def)
  have read: "registered b rows (ga_TenantID a) (version_pin v) f" if "pinScopedReader (by_id records) a i = Inr f" for i f
    using scoped_read [OF that] pinned_registered [OF r(2)] p by auto
  have "tv_State v = ''published''" by (simp add: c(2) published_version_def)
  then show ?thesis using r(1) full read unfolding fully_exercised_def by (intro exI [of _ rows]) (auto, blast+)
qed

theorem published_evidence_is_registered_witness:
  "\<exists>st'. Publish (gov_env_with (Some (RuntimeVerify (gov_reader_env :: unit gov_env) fix_backend (\<lambda>n. Inr fix_rows)))) (\<lambda>n. calm) gov_actor ''key-0001'' gov_publish (gov_state gov_draft) =
     (st', Inr (row_version gov_published)) \<and>
   (\<exists>f. registered fix_backend fix_rows 1 (version_pin (row_version gov_published)) f \<and> exercised demo_tenv (row_version gov_published) (demo_binding ''r1'') ''write_check'' ''negative'' f)"
proof -
  let ?verify = "RuntimeVerify (gov_reader_env :: unit gov_env) fix_backend (\<lambda>n. Inr fix_rows)"
  let ?env = "gov_env_with (Some ?verify) :: unit gov_env"
  obtain st' where p: "Publish ?env (\<lambda>n. calm) gov_actor ''key-0001'' gov_publish (gov_state gov_draft) = (st', Inr (row_version gov_published))"
    using gov_publishes_with [where verify = ?verify, OF fix_verifies] by (elim exE conjE)
  have none: "find_op gov_actor ''publish'' target ''key-0001'' (at_before calm (at_before calm (gov_state gov_draft))) = None" for target
    by (simp add: calm_def find_op_def gov_state_in_def)
  have env: "ge_Replay ?env = Some ?verify" "ge_tpl (gov_reader_env :: unit gov_env) = ge_tpl ?env" by simp_all
  have b: "demo_binding ''r1'' \<in> set (s_Bindings (tv_RuleSetSnapshot (row_version gov_published)))" "b_Enabled (demo_binding ''r1'')" "''write_check'' \<in> set (b_TriggerScenes (demo_binding ''r1''))"
    by (simp_all add: row_version_def gov_published_def gov_draft_def gov_set_def demo_binding_def)
  have ok: "gov_ok ?env (gov_state gov_draft)" by (rule gov_state_ok_with) simp
  have sel: "ge_tpl ?env = demo_tenv" "ga_TenantID gov_actor = 1" by (simp_all add: gov_with_sel gov_actor_def)
  from published_evidence_is_registered [OF ok calm_quiet env p none] b have
    "\<exists>f. registered fix_backend fix_rows 1 (version_pin (row_version gov_published)) f \<and> exercised demo_tenv (row_version gov_published) (demo_binding ''r1'') ''write_check'' ''negative'' f"
    unfolding sel by fastforce
  then show ?thesis using p by blast
qed

section \<open>The coverage report decides\<close>

lemma stableID_visible:
  assumes "stableID s"
  shows "\<not> blank s"
proof -
  have "\<forall>c \<in> set s. id_tail c" "s \<noteq> []" using assms by (auto simp: stableID_def id_tail_def list_all_iff split: list.splits)
  moreover have "visible_ascii c" if "id_tail c" for c using that by (auto simp: id_tail_def id_head_def visible_ascii_def ncode_def)
  ultimately have "visible_ascii (hd s) \<and> visible_ascii (last s)" by simp
  then show ?thesis using trim_space_visible [of s] \<open>s \<noteq> []\<close> by (simp add: blank_def)
qed

definition seeded :: "(string \<times> fixture_record) list \<Rightarrow> bool" where
  "seeded m \<longleftrightarrow> distinct (map fst m) \<and> (\<forall>(i, d) \<in> set m. fx_ID (fd_Fixture d) = i)"

lemma seeded_update: "seeded m \<Longrightarrow> seeded (AList.update (fx_ID (fd_Fixture d)) d m)"
proof -
  assume m: "seeded m"
  then have d: "distinct (map fst (AList.update (fx_ID (fd_Fixture d)) d m))" by (simp add: seeded_def distinct_update)
  have "fx_ID (fd_Fixture e) = i" if "(i, e) \<in> set (AList.update (fx_ID (fd_Fixture d)) d m)" for i e
  proof -
    have "map_of (AList.update (fx_ID (fd_Fixture d)) d m) i = Some e" using d that by (simp add: map_of_is_SomeI)
    then show ?thesis using m by (auto simp: update_conv' seeded_def dest!: map_of_SomeD split: if_splits)
  qed
  then show ?thesis using d by (auto simp: seeded_def)
qed

lemma NewReplayFixtureStore_seeded: "seeded (NewReplayFixtureStore ds)"
proof -
  have "seeded m \<Longrightarrow> seeded (foldl (\<lambda>m r. if fx_ID (fd_Fixture r) = [] then m else AList.update (fx_ID (fd_Fixture r)) r m) m ds)" for m
    by (induction ds arbitrary: m) (auto intro: seeded_update)
  moreover have "seeded []" by (simp add: seeded_def)
  ultimately show ?thesis unfolding NewReplayFixtureStore_def by blast
qed

text \<open>Among the examples of a pin no two have the same identifier.\<close>

lemma pinned_distinct:
  assumes "fixtures_ok env b st" "seeded (fb_builtin b)" "fixturesForPin b (Inr (fixtures st)) tenant pin = Inr records"
  shows "distinct (map (\<lambda>d. fx_ID (fd_Fixture d)) records)"
proof -
  obtain own where own: "list_all2 (\<lambda>r d. fixtureRecordFromRow b r = Inr d) (filter (\<lambda>r. fw_TenantID r = tenant \<and> row_pin r = pin) (fixtures st)) own"
    "records = sortReplayFixtureRecords (own @ filter (\<lambda>r. record_pin r = pin) (map snd (fb_builtin b)))" by (rule pinned_records [OF assms(3)]) auto
  let ?mine = "filter (\<lambda>r. fw_TenantID r = tenant \<and> row_pin r = pin) (fixtures st)" and ?built = "filter (\<lambda>r. record_pin r = pin) (map snd (fb_builtin b))"
  have ids: "map (\<lambda>d. fx_ID (fd_Fixture d)) own = map fw_FixtureID ?mine"
    using own(1) by (induction rule: list_all2_induct) (auto dest!: record_of_row simp: row_fixture_def)
  have "inj_on fw_FixtureID (set ?mine)"
  proof (rule inj_onI)
    fix x y assume x: "x \<in> set ?mine" "y \<in> set ?mine" "fw_FixtureID x = fw_FixtureID y"
    then have "fixture_key x = fixture_key y" by (auto simp: fixture_key_def row_pin_def)
    then show "x = y" using assms(1) x by (intro key_member [of fixture_key "fixtures st"]) (auto simp: fixtures_ok_def)
  qed
  moreover have "distinct ?mine" using assms(1) by (auto simp: fixtures_ok_def distinct_map)
  ultimately have d1: "distinct (map (\<lambda>d. fx_ID (fd_Fixture d)) own)" by (simp add: ids distinct_map)
  have fst: "map (\<lambda>d. fx_ID (fd_Fixture d)) (map snd (fb_builtin b)) = map fst (fb_builtin b)" using assms(2) by (auto simp: seeded_def)
  have "distinct (map (\<lambda>d. fx_ID (fd_Fixture d)) (map snd (fb_builtin b)))" unfolding fst using assms(2) by (simp add: seeded_def)
  then have d2: "distinct (map (\<lambda>d. fx_ID (fd_Fixture d)) ?built)" by (rule distinct_map_filter)
  have "\<not> ConflictsBuiltin b i" if "i \<in> set (map fw_FixtureID ?mine)" for i using that assms(1) by (auto simp: fixtures_ok_def tried_def)
  moreover have "ConflictsBuiltin b i" if "i \<in> set (map (\<lambda>d. fx_ID (fd_Fixture d)) ?built)" for i
  proof -
    have "i \<in> set (map fst (fb_builtin b))" using that unfolding fst [symmetric] by auto
    then show ?thesis by (auto simp: ConflictsBuiltin_def map_of_eq_None_iff)
  qed
  ultimately have "set (map (\<lambda>d. fx_ID (fd_Fixture d)) own) \<inter> set (map (\<lambda>d. fx_ID (fd_Fixture d)) ?built) = {}" unfolding ids by blast
  then have "distinct (map (\<lambda>d. fx_ID (fd_Fixture d)) (own @ ?built))" using d1 d2 unfolding map_append distinct_append by blast
  then show ?thesis unfolding own(2) sortReplayFixtureRecords_def by (simp only: distinct_map distinct_sort set_sort)
qed

lemma pinned_visible:
  assumes "fixtures_ok env b st" "\<forall>d \<in> snd ` set (fb_builtin b). \<not> blank (fx_ID (fd_Fixture d))" "fixturesForPin b (Inr (fixtures st)) tenant pin = Inr records" "d \<in> set records"
  shows "\<not> blank (fx_ID (fd_Fixture d))"
  using pinned_registered [OF assms(3,4)] assms(1,2) stableID_visible by (auto simp: registered_def fixtures_ok_def tried_def row_fixture_def)

lemma by_id_lookup: "distinct (map (\<lambda>d. fx_ID (fd_Fixture d)) records) \<Longrightarrow> d \<in> set records \<Longrightarrow> map_of (by_id records) (fx_ID (fd_Fixture d)) = Some (fd_Fixture d)"
  by (intro map_of_is_SomeI) (auto simp: comp_def rev_map [symmetric])

lemma precheck_known:
  "list_all (\<lambda>i. map_of byID i \<noteq> None) ids \<Longrightarrow> pin_precheck b db tenant byID seen ids = Inr ()"
  by (induction ids arbitrary: seen) auto

lemma judge_all:
  assumes "list_all (\<lambda>f. \<not> blank (fx_ID f) \<and> reader (fx_ID f) = Inr f) fs" "distinct (map fx_ID fs)" "set (map fx_ID fs) \<inter> set seen = {}"
  shows "okR (judge_fixtures te v reader seen (map fx_ID fs)) \<longleftrightarrow> (\<forall>f \<in> set fs. JudgeReplayFixture te v f = Inr ())"
    and "judge_fixtures te v reader seen (map fx_ID fs) = Inr gs \<Longrightarrow> gs = fs"
  using assms
proof (induction fs arbitrary: seen gs)
  case (Cons f fs)
  {
    case 1
    then show ?case using Cons.IH(1) [of "fx_ID f # seen"] by (cases "JudgeReplayFixture te v f"; cases "judge_fixtures te v reader (fx_ID f # seen) (map fx_ID fs)") auto
  next
    case 2
    then show ?case using Cons.IH(2) [of "fx_ID f # seen"] by auto
  }
qed simp_all

text \<open>
  C39. The coverage report decides.  For a table reached from the registrations and a built in set as the service assembles it, the
  verifier of publications accepts a version with all examples of its pin exactly if there are any, the version validates, every
  one of them is still judged good on it, and the coverage report over them, which the receipt of a registration and the
  readback show, is complete.
\<close>

theorem coverage_decides_publication:
  assumes "fixtures_ok env b st" "fb_builtin b = NewReplayFixtureStore seeds" "\<forall>d \<in> snd ` set (fb_builtin b). \<not> blank (fx_ID (fd_Fixture d))"
    and "reads 0 = Inr (ft_rows (cg_rest (rt_rest st)))" "fixturesForPin b (reads 0) (ga_TenantID a) (version_pin v) = Inr records"
  shows "RuntimeVerify genv b reads a v (map (\<lambda>d. fx_ID (fd_Fixture d)) records) = Inr () \<longleftrightarrow>
    records \<noteq> [] \<and> ValidateVersion genv v = Inr () \<and> (\<forall>d \<in> set records. JudgeReplayFixture (ge_tpl genv) v (fd_Fixture d) = Inr ()) \<and>
    cr_Complete (JudgeReplayCoverage (ge_tpl genv) v (map fd_Fixture records))"
proof -
  let ?fs = "map fd_Fixture records" and ?te = "ge_tpl genv"
  let ?ids = "map fx_ID ?fs" and ?read = "pinScopedReader (by_id records) a"
  have ids: "map (\<lambda>d. fx_ID (fd_Fixture d)) records = ?ids" by simp
  have b: "seeded (fb_builtin b)" unfolding assms(2) by (rule NewReplayFixtureStore_seeded)
  have dist: "distinct ?ids" using pinned_distinct [OF assms(1) b assms(5) [unfolded assms(4)]] by (simp add: comp_def)
  have look: "map_of (by_id records) (fx_ID (fd_Fixture d)) = Some (fd_Fixture d)" if "d \<in> set records" for d
    using by_id_lookup [OF _ that] dist by (simp add: comp_def)
  have pre: "pin_precheck b (reads 1) (ga_TenantID a) (by_id records) [] ?ids = Inr ()" by (rule precheck_known) (use look in \<open>auto simp: list_all_iff\<close>)
  have rd: "list_all (\<lambda>f. \<not> blank (fx_ID f) \<and> ?read (fx_ID f) = Inr f) ?fs"
    using look pinned_visible [OF assms(1,3) assms(5) [unfolded assms(4)]] by (auto simp: list_all_iff pinScopedReader_def)
  have run: "RuntimeVerify genv b reads a v ?ids = Verify genv (Some (pinScopedReader (by_id records))) a v ?ids"
    using assms(5) pre by (simp add: RuntimeVerify_def Let_def)
  have ok: "okR (judge_fixtures ?te v ?read [] ?ids) \<longleftrightarrow> (\<forall>d \<in> set records. JudgeReplayFixture ?te v (fd_Fixture d) = Inr ())"
    using judge_all(1) [OF rd dist, of "[]"] by simp
  let ?rep = "JudgeReplayCoverage ?te v ?fs"
  have comp: "cr_Complete ?rep \<longleftrightarrow> find (\<lambda>e. \<not> ce_PositiveCovered e \<or> \<not> ce_NegativeCovered e) (cr_Entries ?rep) = None \<and> cr_Unsatisfied ?rep = []"
    by (auto simp: JudgeReplayCoverage_def Let_def list_all_iff find_None_iff)
  show ?thesis
  proof (cases "judge_fixtures ?te v ?read [] ?ids")
    case (Inl e)
    then show ?thesis using ok unfolding ids run by (auto simp: Verify_def)
  next
    case (Inr gs)
    have "gs = ?fs" by (rule judge_all(2) [OF rd dist _ Inr]) simp
    then show ?thesis using ok Inr comp unfolding ids run
      by (cases "ValidateVersion genv v") (auto simp: Verify_def Let_def split: option.splits list.splits)
  qed
qed

theorem coverage_decides_publication_witness:
  "RuntimeVerify (gov_reader_env :: unit gov_env) fix_backend (\<lambda>n. Inr fix_rows) gov_actor gov_v [''bad'', ''good''] = Inr () \<longleftrightarrow>
     cr_Complete (JudgeReplayCoverage demo_tenv gov_v [gov_bad, gov_good])"
proof -
  have rows: "Inr fix_rows = Inr (ft_rows (cg_rest (rt_rest (fix_state fix_rows))))" by (simp add: fix_state_def gov_state_in_def)
  have seeds: "fb_builtin fix_backend = NewReplayFixtureStore []" "\<forall>d \<in> snd ` set (fb_builtin fix_backend). \<not> blank (fx_ID (fd_Fixture d))" by (simp_all add: fix_backend_def NewReplayFixtureStore_def)
  have rec: "fixturesForPin fix_backend (Inr fix_rows) (ga_TenantID gov_actor) (version_pin gov_v) = Inr [fix_record fix_bad gov_bad, fix_record fix_good gov_good]"
    using fix_records by (simp add: gov_actor_def)
  have v: "ValidateVersion (gov_reader_env :: unit gov_env) gov_v = Inr ()"
    using gov_version_valid(1) same_codec_ValidateVersion [of "gov_env0 :: unit gov_env" "gov_reader_env :: unit gov_env"] by (simp add: same_codec_def gov_env0_def)
  have sel: "fd_Fixture (fix_record f x) = x" "fx_ID gov_bad = ''bad''" "fx_ID gov_good = ''good''" for f x by (simp_all add: fix_record_def gov_good_def gov_bad_def gov_fixture_def)
  show ?thesis
    using coverage_decides_publication [where reads = "\<lambda>n. Inr fix_rows" and genv = "gov_reader_env :: unit gov_env", OF fix_rows_ok(1) seeds rows rec] v gov_judged
    by (simp add: sel gov_with_sel)
qed

end
