(* ===== verification/Spec2Isabelle.thy ===== *)
theory Spec2Isabelle
  imports Template_Check Member_Properties Member_Calls Retry_Properties Source_Marker Review_Anchor Change_Status Chapter_Calls Project_Properties Chapter_List Catalog_Receipts Suggestion_Properties Fixture_Properties
begin

text \<open>
  LingDoc: a collaborative workspace in which projects with chapters, sources and rules are written, reviewed and
  delivered (\<^verbatim>\<open>src/internal/lingdoc/\<close>, on top of the WeKnora platform of \<^verbatim>\<open>src/internal/\<close>).  This development models the part
  that decides who may write what, how a write is carried out exactly once, and what the stored project looks like
  afterwards.

  THE PROGRAM AND ITS MODEL.

  A request reaches a handler of \<^verbatim>\<open>workspacecore\<close> or \<^verbatim>\<open>membership\<close>.  The handler checks its arguments and hands a
  closure to the operation pipeline; the pipeline authorizes the caller in a transaction, looks the idempotency key up, checks
  the sources, opens the write transaction, authorizes again, runs the closure on the stored project and saves the answer.

  \<^verbatim>\<open>Prelude\<close>, \<^verbatim>\<open>Go_Digest\<close>, \<^verbatim>\<open>Utf8\<close>: errors as values of a sum type (every error value of the sources is a constructor, so that
  \<^verbatim>\<open>errors.Is\<close> and \<^verbatim>\<open>errors.As\<close> compute), byte strings, trimming, SHA-256, UTF-8 and UTF-16 lengths.

  \<^verbatim>\<open>Tx_Retry\<close>, \<^verbatim>\<open>Retry_Properties\<close>: \<^verbatim>\<open>GORMRepository.Transaction\<close> (\<^verbatim>\<open>workspacecore/service.go\<close>) and the retry on SQLite locks
  (\<^verbatim>\<open>spec_retry.go\<close>).  A transaction runs a closure on a snapshot and commits or rolls back; what other
  transactions did in between, and whether the driver could begin and commit, come from a schedule, so that the
  theorems quantify over every interleaving of serializable transactions.  The retry makes at most 64 attempts,
  the constant of the source; the loop is a recursion on the attempts left, and the theorems show that it never makes more
  and that a lock released within the budget lets the write commit.

  \<^verbatim>\<open>Caller\<close>, \<^verbatim>\<open>Workspace_Model\<close>, \<^verbatim>\<open>Authorization\<close>: \<^verbatim>\<open>types/\<close> (caller, principal, tenant roles), the data of
  \<^verbatim>\<open>workspacecore/model.go\<close>, and \<^verbatim>\<open>permission_policy.go\<close>, \<^verbatim>\<open>typed_contracts.go\<close>, \<^verbatim>\<open>owner_unavailable.go\<close>: who may do what, the
  separation of duties, the owner's judgement.

  \<^verbatim>\<open>Operation_Core\<close>, \<^verbatim>\<open>Pipeline\<close>: \<^verbatim>\<open>operationcore/operationcore.go\<close> (the pipeline itself, over the locale interfaces of a
  ledger and a transaction port) and its wiring in \<^verbatim>\<open>workspacecore/operation_pipeline.go\<close>.  The theorems: a write that took effect
  was authorized in the transaction of the write; one key runs once and answers the same; a key with another body is
  refused; a failed operation leaves the store as it was; a revoked caller gets no replay; the sources that were checked are
  the sources that are used.

  \<^verbatim>\<open>Template_Model\<close>, \<^verbatim>\<open>Rule_Set\<close>, \<^verbatim>\<open>Template_Check\<close>: \<^verbatim>\<open>template/\<close> (templates, rule definitions, rule sets with their life cycle and
  hash, project overrides, validation, evaluation of rules, verified bindings).

  \<^verbatim>\<open>Store\<close>, \<^verbatim>\<open>Membership\<close>, \<^verbatim>\<open>Membership_Service\<close>, \<^verbatim>\<open>Ownership\<close>, \<^verbatim>\<open>Run_Invariant\<close>, \<^verbatim>\<open>Owner_Properties\<close>, \<^verbatim>\<open>Member_Properties\<close>,
  \<^verbatim>\<open>Member_Calls\<close>: the tables of projects, members, permissions, transfers and records (\<^verbatim>\<open>workspacecore/service.go\<close>,
  \<^verbatim>\<open>member_records.go\<close>), the operations of \<^verbatim>\<open>membership/\<close> and \<^verbatim>\<open>workspacecore/membership_*.go\<close>, the invariant that a project
  has exactly one owner for every sequence of calls, and the refinement of ownership to a one-value register.

  \<^verbatim>\<open>Source_Marker\<close>, \<^verbatim>\<open>Review_Anchor\<close>, \<^verbatim>\<open>Change_Status\<close>: the marker grammar of \<^verbatim>\<open>sourcemarker/\<close>, the anchors of \<^verbatim>\<open>reviewanchor/\<close>,
  the tables of \<^verbatim>\<open>change_set_status.go\<close>, \<^verbatim>\<open>impact_severity.go\<close> and \<^verbatim>\<open>chapter_confirmation.go\<close>.

  \<^verbatim>\<open>Chapter_Store\<close>, \<^verbatim>\<open>Working_Copy\<close>, \<^verbatim>\<open>Chapter_Invariant\<close>, \<^verbatim>\<open>Chapter_Steps\<close>, \<^verbatim>\<open>Chapter_Demo\<close>, \<^verbatim>\<open>Chapter_Properties\<close>, \<^verbatim>\<open>Confirmation_Read\<close>,
  \<^verbatim>\<open>Chapter_Calls\<close>: chapters, versions, working copies and confirmations (\<^verbatim>\<open>service.go\<close>, \<^verbatim>\<open>working_copy.go\<close>, \<^verbatim>\<open>review_anchor.go\<close>,
  \<^verbatim>\<open>condition_change.go\<close>, \<^verbatim>\<open>chapter_confirmation.go\<close>, \<^verbatim>\<open>SaveChapter\<close>), with the invariant of their tables over every
  sequence of calls.

  \<^verbatim>\<open>Template_Copy\<close>, \<^verbatim>\<open>Project_Life\<close>, \<^verbatim>\<open>Life_Demo\<close>, \<^verbatim>\<open>Project_Properties\<close>, \<^verbatim>\<open>Chapter_List\<close>: the template copy of a project and its
  checks, discarding, restoring and activating a project, the list of chapters (\<^verbatim>\<open>service_facade.go\<close>,
  \<^verbatim>\<open>membership_lifecycle.go\<close>, \<^verbatim>\<open>membership_grants.go\<close>).

  \<^verbatim>\<open>Sealed_Table\<close>: what it means for the rows of a table to move only along their life cycle, and to be sealed once they
  leave the draft state, as locales over a step relation (a sealed table is a moving one), with the theorems that follow for
  every sequence of steps.  \<^verbatim>\<open>Rule_Store\<close>: the rule set store
  (\<^verbatim>\<open>rulesetstore/store.go\<close>, \<^verbatim>\<open>tenant_authorizer.go\<close>).  \<^verbatim>\<open>Governance_Model\<close>, \<^verbatim>\<open>Catalog\<close>, \<^verbatim>\<open>Catalog_Service\<close>, \<^verbatim>\<open>Rule_Catalog\<close>: the data, storage and
  calls of the template catalogue (\<^verbatim>\<open>templategovernance/model.go\<close>, \<^verbatim>\<open>schema.go\<close>, \<^verbatim>\<open>storage.go\<close>, \<^verbatim>\<open>catalog.go\<close>, \<^verbatim>\<open>rule_catalog.go\<close>).
  \<^verbatim>\<open>Replay\<close>: the judgement of examples and their coverage before a publication (\<^verbatim>\<open>replay.go\<close>).  \<^verbatim>\<open>Binding_Policy\<close>: what a
  project may override (\<^verbatim>\<open>policy.go\<close>, \<^verbatim>\<open>bindings.go\<close>, \<^verbatim>\<open>binding_target_validation.go\<close>).  \<^verbatim>\<open>Catalog_Invariant\<close>, \<^verbatim>\<open>Catalog_Steps\<close>,
  \<^verbatim>\<open>Catalog_Calls\<close>: the invariant of the governance tables, each committing transaction as a step that keeps it, and each
  call, with other calls between its transactions, as a sequence of steps; both tables are interpretations of the locales.
  \<^verbatim>\<open>Catalog_Demo\<close>, \<^verbatim>\<open>Catalog_Properties\<close>, \<^verbatim>\<open>Catalog_Receipts\<close>: a concrete catalogue, and the theorems: what left the draft
  never changes, a publication is exactly the version that was replayed, every enabled rule was exercised, projects copy
  published versions only, drafts stay with the managers, and a refused call leaves one failure record and nothing else.

  \<^verbatim>\<open>Rule_Suggestion\<close>, \<^verbatim>\<open>Suggestion_Steps\<close>, \<^verbatim>\<open>Suggestion_Properties\<close>: suggestions of rules by a model
  (\<^verbatim>\<open>templategovernance/suggestion.go\<close>): a call records a run, builds the context, asks the model outside any transaction
  and closes the run in another; a human accepts or rejects.  The table of runs is an interpretation of the moving table
  over all calls with other commits between their transactions.  The theorems: a run is asked, answered and decided once, an
  acceptance writes one draft and never a blocking or published rule, and the model gets to see the allowed request only.

  \<^verbatim>\<open>Fixture_Store\<close>, \<^verbatim>\<open>Fixture_Steps\<close>, \<^verbatim>\<open>Fixture_Demo\<close>, \<^verbatim>\<open>Fixture_Properties\<close>: the registration of replay examples for a draft or for
  the projection of a rule set, the coverage readback (\<^verbatim>\<open>templategovernance/fixtures.go\<close>), and the verifier of publications of
  the running service (\<^verbatim>\<open>workspace/template_governance_runtime.go\<close>).  The table of examples is an interpretation of the moving
  table whose rows never move.  The theorems: an example is tried on the very draft it is stored for, none is ever
  rewritten, a publication rests on examples of exactly the published content, and the coverage report decides whether it can succeed.

  MODELLING CHOICES.

  \<^verbatim>\<open>int64\<close> and \<^verbatim>\<open>uint64\<close> counters are \<^verbatim>\<open>int\<close> and \<^verbatim>\<open>nat\<close>: versions and revisions grow by one per write.  Floats are exact
  rationals.  A transaction sees one snapshot (serializable isolation); nested transactions are savepoints of it.
  A column that holds JSON holds the decoded value.  The text of an error keeps its constant part.  \<^verbatim>\<open>strings.ToLower\<close> is
  modelled on ASCII letters.  \<^verbatim>\<open>sort.Slice\<close> on distinct keys is the stable sort.  Of an audit record of a
  project the details other than the reason are left out; those of the governance calls are kept, a JSON object as the
  list of its entries.  Clock readings and fresh identifiers are arguments; where a theorem needs an identifier to be new it
  says so.

  PARAMETERS.  \<^verbatim>\<open>json.Marshal\<close> and the decoders, \<^verbatim>\<open>regexp.Compile\<close> for patterns written by authors, \<^verbatim>\<open>strconv.ParseFloat\<close> and
  \<^verbatim>\<open>big.Rat\<close> are fields of an environment, as are the seams of the program to parts that are not modelled: provenance
  (\<^verbatim>\<open>se_provenance\<close>, \<^verbatim>\<open>we_provenance\<close>), saved template bindings, the source policy, the
  re-verification of impact locations, runtime gates and metrics (\<^verbatim>\<open>we_afterWrite\<close>, \<^verbatim>\<open>we_observe\<close>), and the catalogue of templates of a
  deployment (\<^verbatim>\<open>le_templates\<close>), and the ports of the catalogue: its authorizer, the source verifier, the replay verifier (for
  which \<^verbatim>\<open>Replay\<close> gives the code's own) and the reader of affected projects, and the ports of suggestions: their authorizer, the
  reader of a project's basis, the context builder, the model and the strict decoder of its answer.  The theorems hold for every value of them; where one needs something of a seam (that it
  succeeds, or that it does not touch the chapter tables) it is a named hypothesis with a witness.

  NOT MODELLED.  The audit history and upgrade plans of
  \<^verbatim>\<open>templategovernance\<close>; the HTTP surface, metrics and use audit of \<^verbatim>\<open>rulesetstore\<close>; \<^verbatim>\<open>CreateProject\<close> and \<^verbatim>\<open>SaveSpec\<close> with their provenance, template migration and editing of the copy; change
  sets and their application, candidates, semantic deltas, impact tasks; provenance; the source policy; delivery, DOCX and preflight;
  generation and writing actions; the HTTP transport; and the WeKnora platform (agents, retrieval, document
  readers, handlers), the command line, the clients and the front end, which LingDoc only calls or which call it.  The next
  parts in order are change sets and their application, provenance, and delivery.
\<close>

end
